(* ===== verification/Prelude.thy ===== *)
theory Prelude
  imports Main "HOL-Library.Char_ord" "HOL-Library.List_Lexorder"
begin

text \<open>
  Shared vocabulary of the development: Python strings, dictionaries and results.

  A Python \<open>str\<close> is a HOL \<open>string\<close>. Each \<open>char\<close> stands for one code point below 256, so the
  models cover the Latin-1 fragment of Unicode; \<open>py_isspace\<close> and \<open>py_lower_char\<close> are \<open>str.isspace\<close>
  and \<open>str.lower\<close> on that fragment. A \<open>dict\<close> is an association list in insertion order with the
  operations \<open>dict_get\<close> and \<open>dict_set\<close>. A raised exception is the \<open>Inl\<close> of a sum.
\<close>

named_theorems py_simps \<open>evaluation rules of the Python string and dictionary helpers\<close>

section \<open>Strings\<close>

type_synonym str = string

abbreviation code_of :: "char \<Rightarrow> nat" where
  "code_of c \<equiv> of_char c"

definition py_isspace :: "char \<Rightarrow> bool" where
  "py_isspace c =
     (let n = (of_char c :: nat)
      in (9 \<le> n \<and> n \<le> 13) \<or> (28 \<le> n \<and> n \<le> 32) \<or> n = 133 \<or> n = 160)"

definition py_lstrip :: "str \<Rightarrow> str" where
  "py_lstrip s = dropWhile py_isspace s"

definition py_rstrip :: "str \<Rightarrow> str" where
  "py_rstrip s = rev (dropWhile py_isspace (rev s))"

definition py_strip :: "str \<Rightarrow> str" where
  "py_strip s = py_rstrip (py_lstrip s)"

definition py_lower_char :: "char \<Rightarrow> char" where
  "py_lower_char c =
     (let n = (of_char c :: nat)
      in if (65 \<le> n \<and> n \<le> 90) \<or> (192 \<le> n \<and> n \<le> 222 \<and> n \<noteq> 215)
         then char_of (n + 32) else c)"

definition py_lower :: "str \<Rightarrow> str" where
  "py_lower s = map py_lower_char s"

definition startswith :: "str \<Rightarrow> str \<Rightarrow> bool" where
  "startswith s p = (take (length p) s = p)"

fun contains_str :: "str \<Rightarrow> str \<Rightarrow> bool" where
  "contains_str [] p = (p = [])"
| "contains_str (c # s) p = (startswith (c # s) p \<or> contains_str s p)"

text \<open>\<open>s.split(c)\<close> for a one-character separator: always at least one part.\<close>

fun py_split :: "char \<Rightarrow> str \<Rightarrow> str list" where
  "py_split c [] = [[]]"
| "py_split c (x # xs) =
     (if x = c then [] # py_split c xs
      else case py_split c xs of [] \<Rightarrow> [[x]] | p # ps \<Rightarrow> (x # p) # ps)"

fun py_join :: "str \<Rightarrow> str list \<Rightarrow> str" where
  "py_join sep [] = []"
| "py_join sep [x] = x"
| "py_join sep (x # y # ys) = x @ sep @ py_join sep (y # ys)"

definition blank :: "str \<Rightarrow> bool" where
  "blank s = (py_strip s = [])"

lemma blank_Nil [simp]: "blank []"
  by (simp add: blank_def py_strip_def py_lstrip_def py_rstrip_def)

lemma py_split_nonempty [simp]: "py_split c s \<noteq> []"
  by (induction c s rule: py_split.induct) (auto split: list.splits)

lemma py_split_no_sep: "c \<notin> set s \<Longrightarrow> py_split c s = [s]"
  by (induction s) auto

lemma py_split_append: "py_split c (a @ c # b) = py_split c a @ py_split c b"
  by (induction a) (auto split: list.splits)

lemma py_split_append_sep:
  "c \<notin> set s \<Longrightarrow> py_split c (s @ c # t) = s # py_split c t"
  by (induction s) (auto split: list.splits)

lemma join_split: "py_join [c] (py_split c s) = s"
proof (induction c s rule: py_split.induct)
  case (1 c)
  show ?case by simp
next
  case (2 c x xs)
  have ne: "py_split c xs \<noteq> []" by simp
  show ?case
  proof (cases "py_split c xs")
    case Nil
    with ne show ?thesis by simp
  next
    case (Cons p ps)
    show ?thesis
    proof (cases "x = c")
      case True
      with 2 Cons show ?thesis by (cases ps) auto
    next
      case False
      with 2 Cons show ?thesis by (cases ps) auto
    qed
  qed
qed

lemma startswith_append [simp]: "startswith (p @ s) p"
  by (simp add: startswith_def)

lemma startswith_iff: "startswith s p \<longleftrightarrow> (\<exists>r. s = p @ r)"
  by (metis append_take_drop_id append_eq_conv_conj startswith_def)

lemma dropWhile_all_sat: "dropWhile P xs = [] \<longleftrightarrow> (\<forall>x\<in>set xs. P x)"
  by (rule dropWhile_eq_Nil_conv)

lemma rstrip_Nil_iff: "py_rstrip s = [] \<longleftrightarrow> (\<forall>x\<in>set s. py_isspace x)"
  by (simp add: py_rstrip_def)

lemma blank_iff: "blank s \<longleftrightarrow> (\<forall>c\<in>set s. py_isspace c)"
proof -
  have "blank s \<longleftrightarrow> (\<forall>c\<in>set (dropWhile py_isspace s). py_isspace c)"
    by (simp add: blank_def py_strip_def py_lstrip_def rstrip_Nil_iff)
  also have "\<dots> \<longleftrightarrow> (\<forall>c\<in>set s. py_isspace c)"
    by (metis dropWhile_eq_Nil_conv hd_dropWhile hd_in_set set_dropWhileD)
  finally show ?thesis .
qed

lemma set_strip: "set (py_strip s) \<subseteq> set s"
  by (auto simp: py_strip_def py_lstrip_def py_rstrip_def dest!: set_dropWhileD)

lemma strip_no_space: "\<forall>c\<in>set s. \<not> py_isspace c \<Longrightarrow> py_strip s = s"
proof -
  assume a: "\<forall>c\<in>set s. \<not> py_isspace c"
  have *: "dropWhile py_isspace xs = xs" if "\<forall>c\<in>set xs. \<not> py_isspace c" for xs
    using that by (cases xs) auto
  show ?thesis
    using a by (simp add: py_strip_def py_lstrip_def py_rstrip_def *)
qed

section \<open>Dictionaries in insertion order\<close>

type_synonym ('k, 'v) dict = "('k \<times> 'v) list"

definition dict_get :: "('k, 'v) dict \<Rightarrow> 'k \<Rightarrow> 'v option" where
  "dict_get d k = map_of d k"

fun dict_set :: "('k, 'v) dict \<Rightarrow> 'k \<Rightarrow> 'v \<Rightarrow> ('k, 'v) dict" where
  "dict_set [] k v = [(k, v)]"
| "dict_set ((k', v') # d) k v = (if k' = k then (k, v) # d else (k', v') # dict_set d k v)"

fun dict_del :: "('k, 'v) dict \<Rightarrow> 'k \<Rightarrow> ('k, 'v) dict" where
  "dict_del [] k = []"
| "dict_del ((k', v') # d) k = (if k' = k then d else (k', v') # dict_del d k)"

definition dict_wf :: "('k, 'v) dict \<Rightarrow> bool" where
  "dict_wf d = distinct (map fst d)"

lemma dict_get_set [simp]: "dict_get (dict_set d k v) k' = (if k' = k then Some v else dict_get d k')"
  by (induction d k v rule: dict_set.induct) (auto simp: dict_get_def)

lemma dict_get_Nil [simp]: "dict_get [] k = None"
  by (simp add: dict_get_def)

lemma dict_get_Cons [simp]:
  "dict_get ((k', v) # d) k = (if k = k' then Some v else dict_get d k)"
  by (simp add: dict_get_def)

lemma set_fst_dict_set: "fst ` set (dict_set d k v) = insert k (fst ` set d)"
  by (induction d k v rule: dict_set.induct) auto

lemma dict_wf_Nil [simp]: "dict_wf []"
  by (simp add: dict_wf_def)

lemma dict_wf_set [simp]: "dict_wf d \<Longrightarrow> dict_wf (dict_set d k v)"
proof (induction d k v rule: dict_set.induct)
  case (1 k v)
  then show ?case by (simp add: dict_wf_def)
next
  case (2 k' v' d k v)
  then show ?case
    using set_fst_dict_set[of d k v] by (auto simp: dict_wf_def image_iff)
qed

lemma dict_del_subset: "set (dict_del d k) \<subseteq> set d"
  by (induction d k rule: dict_del.induct) auto

lemma dict_wf_del [simp]: "dict_wf d \<Longrightarrow> dict_wf (dict_del d k)"
proof (induction d k rule: dict_del.induct)
  case (1 k)
  then show ?case by simp
next
  case (2 k' v' d k)
  then show ?case
    using dict_del_subset[of d k] by (auto simp: dict_wf_def image_iff)
qed

lemma dict_get_del [simp]:
  "dict_wf d \<Longrightarrow> dict_get (dict_del d k) k' = (if k' = k then None else dict_get d k')"
proof (induction d k rule: dict_del.induct)
  case (1 k)
  then show ?case by simp
next
  case (2 k1 v1 d k)
  have "dict_get d k1 = None" if "k1 \<notin> fst ` set d"
    using that by (simp add: dict_get_def map_of_eq_None_iff)
  with 2 show ?case by (auto simp: dict_wf_def)
qed

lemma dict_set_same: "dict_get d k = Some v \<Longrightarrow> dict_set d k v = d"
  by (induction d) (auto split: if_splits)

lemma dict_get_in: "dict_get d k = Some v \<Longrightarrow> (k, v) \<in> set d"
  by (simp add: dict_get_def map_of_SomeD)

lemma dict_get_None: "dict_get d k = None \<longleftrightarrow> k \<notin> fst ` set d"
  by (simp add: dict_get_def map_of_eq_None_iff)

section \<open>Results\<close>

text \<open>Sequencing of computations that may raise.\<close>

fun bindE :: "'e + 'a \<Rightarrow> ('a \<Rightarrow> 'e + 'b) \<Rightarrow> 'e + 'b" where
  "bindE (Inl e) f = Inl e"
| "bindE (Inr x) f = f x"

lemma bindE_Inr_iff: "bindE m f = Inr y \<longleftrightarrow> (\<exists>x. m = Inr x \<and> f x = Inr y)"
  by (cases m) auto

lemma bindE_Inl_iff: "bindE m f = Inl e \<longleftrightarrow> m = Inl e \<or> (\<exists>x. m = Inr x \<and> f x = Inl e)"
  by (cases m) auto

definition guardE :: "bool \<Rightarrow> 'e \<Rightarrow> 'e + unit" where
  "guardE b e = (if b then Inr () else Inl e)"

lemma guardE_simps [simp]: "guardE True e = Inr ()" "guardE False e = Inl e"
  by (simp_all add: guardE_def)

lemma guardE_Inr [simp]: "guardE b e = Inr u \<longleftrightarrow> b"
  by (simp add: guardE_def)

text \<open>A \<open>for\<close> loop whose body may raise, threading an accumulator.\<close>

fun foldE :: "('s \<Rightarrow> 'a \<Rightarrow> 'e + 's) \<Rightarrow> 's \<Rightarrow> 'a list \<Rightarrow> 'e + 's" where
  "foldE f s [] = Inr s"
| "foldE f s (x # xs) = bindE (f s x) (\<lambda>s'. foldE f s' xs)"

lemma foldE_invariant:
  assumes "foldE f s xs = Inr s'" and "P s"
    and "\<And>s x s'. x \<in> set xs \<Longrightarrow> P s \<Longrightarrow> f s x = Inr s' \<Longrightarrow> P s'"
  shows "P s'"
  using assms
proof (induction xs arbitrary: s)
  case Nil
  then show ?case by simp
next
  case (Cons x xs)
  then obtain t where t: "f s x = Inr t" and rest: "foldE f t xs = Inr s'"
    by (auto simp: bindE_Inr_iff)
  have "P t" using Cons.prems(2) Cons.prems(3)[of x s t] t by simp
  with Cons.IH[OF rest] Cons.prems(3) show ?case by (meson list.set_intros(2))
qed

lemma foldE_append: "foldE f s (xs @ ys) = bindE (foldE f s xs) (\<lambda>t. foldE f t ys)"
proof (induction xs arbitrary: s)
  case Nil
  then show ?case by simp
next
  case (Cons x xs)
  then show ?case by (cases "f s x") auto
qed

section \<open>Stripped texts\<close>

lemma lstrip_fixed: "s = [] \<or> \<not> py_isspace (hd s) \<Longrightarrow> py_lstrip s = s"
  by (cases s) (auto simp: py_lstrip_def)

lemma rstrip_prefix: "\<exists>t. s = py_rstrip s @ t"
proof -
  have "rev s = takeWhile py_isspace (rev s) @ dropWhile py_isspace (rev s)" by simp
  then have "s = rev (dropWhile py_isspace (rev s)) @ rev (takeWhile py_isspace (rev s))"
    by (metis rev_append rev_rev_ident)
  then show ?thesis by (auto simp: py_rstrip_def)
qed

lemma strip_idem: "py_strip (py_strip s) = py_strip s"
proof -
  let ?l = "py_lstrip s"
  have "py_rstrip ?l = [] \<or> \<not> py_isspace (hd (py_rstrip ?l))"
  proof (cases "py_rstrip ?l = []")
    case False
    obtain t where t: "?l = py_rstrip ?l @ t" using rstrip_prefix by blast
    then have "hd ?l = hd (py_rstrip ?l)" "?l \<noteq> []" using False by (metis hd_append2, auto)
    then show ?thesis using hd_dropWhile[of py_isspace s] by (simp add: py_lstrip_def)
  qed simp
  then have "py_lstrip (py_rstrip ?l) = py_rstrip ?l" by (rule lstrip_fixed)
  then show ?thesis by (simp add: py_strip_def py_rstrip_def)
qed

lemma blank_strip: "blank (py_strip s) = blank s"
  by (simp add: blank_def strip_idem)

end
