(* ===== verification/PyJson.thy ===== *)
theory PyJson
  imports Prelude Complex_Main
begin

text \<open>
  JSON values as Python's \<open>json.loads\<close> builds them.

  \<open>json\<close> is \<open>JsonValue\<close> of utils/json_types.py with Python's number tower: \<open>bool\<close> is a subclass of
  \<open>int\<close> (so \<open>isinstance(True, int)\<close> holds and \<open>True == 1\<close>), floats are exact rationals or one of the
  three special values.
\<close>

datatype pyfloat = Finite rat | PosInf | NegInf | Nan

datatype json =
    JNull
  | JBool bool
  | JInt int
  | JFloat pyfloat
  | JStr str
  | JList "json list"
  | JObj "(str \<times> json) list"

type_synonym jobj = "(str \<times> json) list"

section \<open>Type tests\<close>

fun is_str :: "json \<Rightarrow> bool" where
  "is_str (JStr _) = True" | "is_str _ = False"

fun is_list :: "json \<Rightarrow> bool" where
  "is_list (JList _) = True" | "is_list _ = False"

fun is_obj :: "json \<Rightarrow> bool" where
  "is_obj (JObj _) = True" | "is_obj _ = False"

text \<open>\<open>isinstance(v, int)\<close> and the integer it denotes; \<open>bool\<close> counts.\<close>

fun as_int :: "json \<Rightarrow> int option" where
  "as_int (JInt i) = Some i"
| "as_int (JBool b) = Some (if b then 1 else 0)"
| "as_int _ = None"

fun as_str :: "json \<Rightarrow> str option" where
  "as_str (JStr s) = Some s"
| "as_str _ = None"

fun as_list :: "json \<Rightarrow> json list option" where
  "as_list (JList xs) = Some xs"
| "as_list _ = None"

fun as_obj :: "json \<Rightarrow> jobj option" where
  "as_obj (JObj d) = Some d"
| "as_obj _ = None"

text \<open>\<open>v == n\<close> for an integer literal \<open>n\<close>: numbers of every type compare by value.\<close>

fun eq_int :: "json \<Rightarrow> int \<Rightarrow> bool" where
  "eq_int (JInt i) n = (i = n)"
| "eq_int (JBool b) n = ((if b then 1 else 0) = n)"
| "eq_int (JFloat (Finite r)) n = (r = of_int n)"
| "eq_int _ n = False"

text \<open>A present, non-blank string: \<open>isinstance(v, str) and v.strip() != ""\<close>.\<close>

definition nonblank_str :: "json option \<Rightarrow> str option" where
  "nonblank_str v =
     (case v of Some (JStr s) \<Rightarrow> (if blank s then None else Some s) | _ \<Rightarrow> None)"

lemma nonblank_str_Some: "nonblank_str v = Some s \<longleftrightarrow> v = Some (JStr s) \<and> \<not> blank s"
  by (auto simp: nonblank_str_def split: option.splits json.splits)

section \<open>Integers out of values: \<open>int(raw)\<close>\<close>

datatype int_error = ValueErr | TypeErr | OverflowErr

text \<open>
  \<open>int(s)\<close> for a string: optional blanks, an optional sign, decimal digits with single underscores
  between them.
\<close>

definition is_digit :: "char \<Rightarrow> bool" where
  "is_digit c = (48 \<le> (of_char c :: nat) \<and> (of_char c :: nat) \<le> 57)"

fun digits_val :: "nat \<Rightarrow> bool \<Rightarrow> str \<Rightarrow> nat option" where
  "digits_val acc prev [] = (if prev then Some acc else None)"
| "digits_val acc prev (c # cs) =
     (if is_digit c then digits_val (10 * acc + (of_char c - 48)) True cs
      else if c = CHR ''_'' \<and> prev \<and> cs \<noteq> [] then digits_val acc False cs
      else None)"

definition int_of_str :: "str \<Rightarrow> int option" where
  "int_of_str s =
     (case py_strip s of
        [] \<Rightarrow> None
      | c # cs \<Rightarrow>
          if c = CHR ''-'' then map_option (\<lambda>n. - int n) (digits_val 0 False cs)
          else if c = CHR ''+'' then map_option int (digits_val 0 False cs)
          else map_option int (digits_val 0 False (c # cs)))"

definition trunc_rat :: "rat \<Rightarrow> int" where
  "trunc_rat r = (if 0 \<le> r then \<lfloor>r\<rfloor> else \<lceil>r\<rceil>)"

fun py_int :: "json \<Rightarrow> int_error + int" where
  "py_int (JInt i) = Inr i"
| "py_int (JBool b) = Inr (if b then 1 else 0)"
| "py_int (JFloat (Finite r)) = Inr (trunc_rat r)"
| "py_int (JFloat PosInf) = Inl OverflowErr"
| "py_int (JFloat NegInf) = Inl OverflowErr"
| "py_int (JFloat Nan) = Inl ValueErr"
| "py_int (JStr s) = (case int_of_str s of Some i \<Rightarrow> Inr i | None \<Rightarrow> Inl ValueErr)"
| "py_int JNull = Inl TypeErr"
| "py_int (JList _) = Inl TypeErr"
| "py_int (JObj _) = Inl TypeErr"

end
