(* ===== verification/Errors.thy ===== *)
theory Errors
  imports Prelude
begin

text \<open>
  The exceptions of the service (infra/exceptions.py and its siblings).

  Every class derives from \<open>SSError\<close> and fixes an \<open>error_code\<close> and an HTTP \<open>status_code\<close>. The classes
  the modelled code raises or catches are grouped by the file that declares them; each group is a
  datatype with the constructor arguments the code reads or a caller can tell apart (free text of
  messages is left out), and a function \<open><group>_info\<close> giving code and status. \<open>py_error\<close> holds
  Python's own exceptions, which carry no code; \<open>exn\<close> is the union.
\<close>

section \<open>infra/exceptions.py, job store and artifacts\<close>

datatype store_error =
    JobNotFound
  | JobIdUnsafe
  | TenantIdUnsafe
  | JobAlreadyExists
  | JobVersionConflict int int
  | JobDataCorrupted
  | JobStoreIO str

fun store_error_info :: "store_error \<Rightarrow> str \<times> nat" where
  "store_error_info JobNotFound = (''JOB_NOT_FOUND'', 404)"
| "store_error_info JobIdUnsafe = (''JOB_ID_UNSAFE'', 400)"
| "store_error_info TenantIdUnsafe = (''TENANT_ID_UNSAFE'', 400)"
| "store_error_info JobAlreadyExists = (''JOB_ALREADY_EXISTS'', 409)"
| "store_error_info (JobVersionConflict _ _) = (''JOB_VERSION_CONFLICT'', 409)"
| "store_error_info JobDataCorrupted = (''JOB_DATA_CORRUPTED'', 500)"
| "store_error_info (JobStoreIO _) = (''JOB_STORE_IO_ERROR'', 500)"

section \<open>infra/exceptions.py, artifacts, queue and output formats\<close>

datatype artifact_error =
    ArtifactNotFound
  | ArtifactPathUnsafe
  | QueueIO str
  | QueueDataCorrupted
  | OutputFormatsInvalid str

fun artifact_error_info :: "artifact_error \<Rightarrow> str \<times> nat" where
  "artifact_error_info ArtifactNotFound = (''ARTIFACT_NOT_FOUND'', 404)"
| "artifact_error_info ArtifactPathUnsafe = (''ARTIFACT_PATH_UNSAFE'', 400)"
| "artifact_error_info (QueueIO _) = (''QUEUE_IO_ERROR'', 500)"
| "artifact_error_info QueueDataCorrupted = (''QUEUE_DATA_CORRUPTED'', 500)"
| "artifact_error_info (OutputFormatsInvalid _) = (''OUTPUT_FORMATS_INVALID'', 400)"

section \<open>infra/exceptions.py, do-templates and do-files\<close>

datatype template_error =
    DoTemplateIndexNotFound
  | DoTemplateIndexCorrupted str
  | DoTemplateNotFound
  | DoTemplateSourceNotFound
  | DoTemplateMetaNotFound
  | DoTemplateContractInvalid str
  | DoTemplateParameterMissing str
  | DoTemplateParameterInvalid str
  | DoTemplateArtifactsWrite
  | DoFilePlanInvalid str
  | DoFileTemplateUnsupported
  | DoFileInputsManifestInvalid str

fun template_error_info :: "template_error \<Rightarrow> str \<times> nat" where
  "template_error_info DoTemplateIndexNotFound = (''DO_TEMPLATE_INDEX_NOT_FOUND'', 500)"
| "template_error_info (DoTemplateIndexCorrupted _) = (''DO_TEMPLATE_INDEX_CORRUPTED'', 500)"
| "template_error_info DoTemplateNotFound = (''DO_TEMPLATE_NOT_FOUND'', 404)"
| "template_error_info DoTemplateSourceNotFound = (''DO_TEMPLATE_SOURCE_NOT_FOUND'', 404)"
| "template_error_info DoTemplateMetaNotFound = (''DO_TEMPLATE_META_NOT_FOUND'', 404)"
| "template_error_info (DoTemplateContractInvalid _) = (''DO_TEMPLATE_CONTRACT_INVALID'', 500)"
| "template_error_info (DoTemplateParameterMissing _) = (''DO_TEMPLATE_PARAM_MISSING'', 400)"
| "template_error_info (DoTemplateParameterInvalid _) = (''DO_TEMPLATE_PARAM_INVALID'', 400)"
| "template_error_info DoTemplateArtifactsWrite = (''DO_TEMPLATE_ARTIFACTS_WRITE_FAILED'', 500)"
| "template_error_info (DoFilePlanInvalid _) = (''DOFILE_PLAN_INVALID'', 400)"
| "template_error_info DoFileTemplateUnsupported = (''DOFILE_TEMPLATE_UNSUPPORTED'', 400)"
| "template_error_info (DoFileInputsManifestInvalid _) = (''DOFILE_INPUTS_MANIFEST_INVALID'', 400)"

section \<open>infra/plan_exceptions.py, infra/draft_exceptions.py and domain/state_machine.py\<close>

datatype plan_error =
    JobIllegalTransition
  | PlanMissing
  | PlanFreezeNotAllowed
  | PlanAlreadyFrozen
  | PlanArtifactsWrite
  | PlanTemplateMetaNotFound
  | PlanTemplateMetaInvalid str
  | PlanCompositionInvalid str
  | ContractColumnNotFound "str list"
  | PlanFreezeMissingRequired "str list" "str list"
  | DraftConfirmBlocked "str list" "str list"

fun plan_error_info :: "plan_error \<Rightarrow> str \<times> nat" where
  "plan_error_info JobIllegalTransition = (''JOB_ILLEGAL_TRANSITION'', 409)"
| "plan_error_info PlanMissing = (''PLAN_MISSING'', 409)"
| "plan_error_info PlanFreezeNotAllowed = (''PLAN_FREEZE_NOT_ALLOWED'', 409)"
| "plan_error_info PlanAlreadyFrozen = (''PLAN_ALREADY_FROZEN_CONFLICT'', 409)"
| "plan_error_info PlanArtifactsWrite = (''PLAN_ARTIFACTS_WRITE_FAILED'', 500)"
| "plan_error_info PlanTemplateMetaNotFound = (''PLAN_TEMPLATE_META_NOT_FOUND'', 500)"
| "plan_error_info (PlanTemplateMetaInvalid _) = (''PLAN_TEMPLATE_META_INVALID'', 500)"
| "plan_error_info (PlanCompositionInvalid _) = (''PLAN_COMPOSITION_INVALID'', 400)"
| "plan_error_info (ContractColumnNotFound _) = (''CONTRACT_COLUMN_NOT_FOUND'', 400)"
| "plan_error_info (PlanFreezeMissingRequired _ _) = (''PLAN_FREEZE_MISSING_REQUIRED'', 400)"
| "plan_error_info (DraftConfirmBlocked _ _) = (''DRAFT_CONFIRM_BLOCKED'', 400)"

section \<open>infra/upload_session_exceptions.py, infra/upload_bundle_exceptions.py, infra/object_store_exceptions.py\<close>

datatype upload_error =
    UploadSessionNotFound
  | UploadSessionExpired
  | UploadSessionCorrupted
  | UploadFileSizeLimitExceeded int int
  | UploadSessionsLimitExceeded int int
  | UploadMultipartLimitExceeded str
  | UploadPartsInvalid str
  | UploadBundleFileNotFound
  | BundleNotFound
  | BundleFilesLimitExceeded int int
  | BundleCorrupted
  | ObjectStoreConfiguration
  | ObjectStoreOperationFailed

fun upload_error_info :: "upload_error \<Rightarrow> str \<times> nat" where
  "upload_error_info UploadSessionNotFound = (''UPLOAD_SESSION_NOT_FOUND'', 404)"
| "upload_error_info UploadSessionExpired = (''UPLOAD_SESSION_EXPIRED'', 400)"
| "upload_error_info UploadSessionCorrupted = (''UPLOAD_SESSION_CORRUPTED'', 500)"
| "upload_error_info (UploadFileSizeLimitExceeded _ _) = (''UPLOAD_FILE_SIZE_LIMIT_EXCEEDED'', 400)"
| "upload_error_info (UploadSessionsLimitExceeded _ _) = (''UPLOAD_SESSIONS_LIMIT_EXCEEDED'', 400)"
| "upload_error_info (UploadMultipartLimitExceeded _) = (''UPLOAD_MULTIPART_LIMIT_EXCEEDED'', 400)"
| "upload_error_info (UploadPartsInvalid _) = (''UPLOAD_PARTS_INVALID'', 400)"
| "upload_error_info UploadBundleFileNotFound = (''FILE_NOT_FOUND'', 404)"
| "upload_error_info BundleNotFound = (''BUNDLE_NOT_FOUND'', 404)"
| "upload_error_info (BundleFilesLimitExceeded _ _) = (''BUNDLE_FILES_LIMIT_EXCEEDED'', 400)"
| "upload_error_info BundleCorrupted = (''BUNDLE_CORRUPTED'', 500)"
| "upload_error_info ObjectStoreConfiguration = (''OBJECT_STORE_CONFIG_INVALID'', 500)"
| "upload_error_info ObjectStoreOperationFailed = (''OBJECT_STORE_OPERATION_FAILED'', 502)"

section \<open>infra/input_exceptions.py\<close>

datatype input_error =
    InputEmptyFile
  | InputUnsupportedFormat
  | InputFilenameUnsafe
  | InputRoleInvalid
  | InputRoleCountMismatch
  | InputFilenameCountMismatch
  | InputDatasetKeyConflict
  | InputDatasetNotFound
  | InputPrimaryDatasetMissing
  | InputPrimaryDatasetMultiple nat
  | InputPathUnsafe
  | InputParseFailed
  | InputStorageFailed
  | InputMainDataSourceNotFound
  | InputExcelSheetSelectionUnsupported
  | InputExcelSheetNotFound
  | InputValidationFailed

fun input_error_info :: "input_error \<Rightarrow> str \<times> nat" where
  "input_error_info InputEmptyFile = (''INPUT_EMPTY_FILE'', 400)"
| "input_error_info InputUnsupportedFormat = (''INPUT_UNSUPPORTED_FORMAT'', 400)"
| "input_error_info InputFilenameUnsafe = (''INPUT_FILENAME_UNSAFE'', 400)"
| "input_error_info InputRoleInvalid = (''INPUT_ROLE_INVALID'', 400)"
| "input_error_info InputRoleCountMismatch = (''INPUT_ROLE_COUNT_MISMATCH'', 400)"
| "input_error_info InputFilenameCountMismatch = (''INPUT_FILENAME_COUNT_MISMATCH'', 400)"
| "input_error_info InputDatasetKeyConflict = (''INPUT_DATASET_KEY_CONFLICT'', 400)"
| "input_error_info InputDatasetNotFound = (''INPUT_DATASET_NOT_FOUND'', 400)"
| "input_error_info InputPrimaryDatasetMissing = (''INPUT_PRIMARY_DATASET_MISSING'', 400)"
| "input_error_info (InputPrimaryDatasetMultiple _) = (''INPUT_PRIMARY_DATASET_MULTIPLE'', 400)"
| "input_error_info InputPathUnsafe = (''INPUT_PATH_UNSAFE'', 400)"
| "input_error_info InputParseFailed = (''INPUT_PARSE_FAILED'', 400)"
| "input_error_info InputStorageFailed = (''INPUT_STORAGE_FAILED'', 500)"
| "input_error_info InputMainDataSourceNotFound = (''INPUT_MAIN_DATA_SOURCE_NOT_FOUND'', 400)"
| "input_error_info InputExcelSheetSelectionUnsupported = (''INPUT_EXCEL_SHEET_SELECTION_UNSUPPORTED'', 400)"
| "input_error_info InputExcelSheetNotFound = (''INPUT_EXCEL_SHEET_NOT_FOUND'', 400)"
| "input_error_info InputValidationFailed = (''INPUT_VALIDATION_FAILED'', 400)"

section \<open>infra/auth_exceptions.py\<close>

datatype auth_error =
    AuthBearerTokenMissing
  | AuthBearerTokenInvalid str
  | AuthTokenInvalid
  | AuthTokenForbidden
  | TaskCodeInvalid
  | TaskCodeRedeemConflict
  | TaskCodeExpired
  | TaskCodeRevoked

fun auth_error_info :: "auth_error \<Rightarrow> str \<times> nat" where
  "auth_error_info AuthBearerTokenMissing = (''AUTH_BEARER_TOKEN_MISSING'', 401)"
| "auth_error_info (AuthBearerTokenInvalid _) = (''AUTH_BEARER_TOKEN_INVALID'', 401)"
| "auth_error_info AuthTokenInvalid = (''AUTH_TOKEN_INVALID'', 403)"
| "auth_error_info AuthTokenForbidden = (''AUTH_TOKEN_FORBIDDEN'', 403)"
| "auth_error_info TaskCodeInvalid = (''TASK_CODE_INVALID'', 400)"
| "auth_error_info TaskCodeRedeemConflict = (''TASK_CODE_REDEEM_CONFLICT'', 409)"
| "auth_error_info TaskCodeExpired = (''TASK_CODE_EXPIRED'', 400)"
| "auth_error_info TaskCodeRevoked = (''TASK_CODE_REVOKED'', 400)"

section \<open>infra/task_code_store_exceptions.py\<close>

datatype task_code_error =
    TaskCodeNotFound
  | TaskCodeStoreIO str
  | TaskCodeDataCorrupted

fun task_code_error_info :: "task_code_error \<Rightarrow> str \<times> nat" where
  "task_code_error_info TaskCodeNotFound = (''TASK_CODE_NOT_FOUND'', 404)"
| "task_code_error_info (TaskCodeStoreIO _) = (''TASK_CODE_STORE_IO_ERROR'', 500)"
| "task_code_error_info TaskCodeDataCorrupted = (''TASK_CODE_DATA_CORRUPTED'', 500)"

section \<open>infra/admin_exceptions.py\<close>

datatype admin_error =
    AdminNotConfigured
  | AdminCredentialsInvalid
  | AdminBearerTokenMissing
  | AdminBearerTokenInvalid str
  | AdminTokenInvalid
  | AdminTokenNotFound
  | AdminStoreIO str

fun admin_error_info :: "admin_error \<Rightarrow> str \<times> nat" where
  "admin_error_info AdminNotConfigured = (''ADMIN_NOT_CONFIGURED'', 500)"
| "admin_error_info AdminCredentialsInvalid = (''ADMIN_CREDENTIALS_INVALID'', 401)"
| "admin_error_info AdminBearerTokenMissing = (''ADMIN_BEARER_TOKEN_MISSING'', 401)"
| "admin_error_info (AdminBearerTokenInvalid _) = (''ADMIN_BEARER_TOKEN_INVALID'', 401)"
| "admin_error_info AdminTokenInvalid = (''ADMIN_TOKEN_INVALID'', 403)"
| "admin_error_info AdminTokenNotFound = (''ADMIN_TOKEN_NOT_FOUND'', 404)"
| "admin_error_info (AdminStoreIO _) = (''ADMIN_STORE_IO_ERROR'', 500)"

section \<open>infra/job_lock_exceptions.py, infra/llm_output_exceptions.py, infra/do_template_selection_exceptions.py\<close>

datatype draft_error =
    JobLocked
  | LLMResponseInvalid
  | LLMCallFailed
  | LLMConfiguration
  | SelectionParse str str
  | SelectionNoCandidates str
  | SelectionInvalidFamily str
  | SelectionInvalidTemplate str
  | LLMArtifactsWrite
  | DoTemplateSelectionNotWired

fun draft_error_info :: "draft_error \<Rightarrow> str \<times> nat" where
  "draft_error_info JobLocked = (''JOB_LOCKED'', 409)"
| "draft_error_info LLMResponseInvalid = (''LLM_RESPONSE_INVALID'', 502)"
| "draft_error_info LLMCallFailed = (''LLM_CALL_FAILED'', 502)"
| "draft_error_info LLMConfiguration = (''LLM_CONFIG_INVALID'', 500)"
| "draft_error_info (SelectionParse _ _) = (''DO_TEMPLATE_SELECTION_PARSE_FAILED'', 502)"
| "draft_error_info (SelectionNoCandidates _) = (''DO_TEMPLATE_SELECTION_NO_CANDIDATES'', 500)"
| "draft_error_info (SelectionInvalidFamily _) = (''DO_TEMPLATE_SELECTION_INVALID_FAMILY_ID'', 502)"
| "draft_error_info (SelectionInvalidTemplate _) = (''DO_TEMPLATE_SELECTION_INVALID_TEMPLATE_ID'', 502)"
| "draft_error_info LLMArtifactsWrite = (''LLM_ARTIFACTS_WRITE_FAILED'', 500)"
| "draft_error_info DoTemplateSelectionNotWired = (''DO_TEMPLATE_SELECTION_NOT_WIRED'', 500)"

section \<open>The union\<close>

datatype py_error =
    PyValueError | PyAssertionError | PyOverflowError | PyRuntimeError | PyFileNotFound | PyOSError | PyKeyError
  | PyAttributeError | PyTypeError | PyImportError | PyBadZipFile | PyTimeoutError | PyLibraryError

datatype exn =
    StoreErr store_error
  | ArtErr artifact_error
  | TplErr template_error
  | PlanErr plan_error
  | UpErr upload_error
  | InErr input_error
  | AuthErr auth_error
  | TcErr task_code_error
  | AdmErr admin_error
  | DraftErr draft_error
  | PyErr py_error

fun exn_info :: "exn \<Rightarrow> (str \<times> nat) option" where
  "exn_info (StoreErr e) = Some (store_error_info e)"
| "exn_info (ArtErr e) = Some (artifact_error_info e)"
| "exn_info (TplErr e) = Some (template_error_info e)"
| "exn_info (PlanErr e) = Some (plan_error_info e)"
| "exn_info (UpErr e) = Some (upload_error_info e)"
| "exn_info (InErr e) = Some (input_error_info e)"
| "exn_info (AuthErr e) = Some (auth_error_info e)"
| "exn_info (TcErr e) = Some (task_code_error_info e)"
| "exn_info (AdmErr e) = Some (admin_error_info e)"
| "exn_info (DraftErr e) = Some (draft_error_info e)"
| "exn_info (PyErr _) = None"

text \<open>\<open>except SSError\<close>: everything but Python's own exceptions.\<close>

definition is_ss_error :: "exn \<Rightarrow> bool" where
  "is_ss_error e = (exn_info e \<noteq> None)"

definition error_code :: "exn \<Rightarrow> str" where
  "error_code e = (case exn_info e of Some (c, _) \<Rightarrow> c | None \<Rightarrow> [])"

end
