(* ===== verification/JobModel.thy ===== *)
theory JobModel
  imports PyJson Errors
begin

text \<open>
  The job aggregate: the data classes of domain/models.py, the status machine of
  domain/state_machine.py, the path-segment and relative-path guards of utils/job_workspace.py,
  utils/tenancy.py and domain/models.py, and the output-format list of domain/output_formats.py.

  Fields carry a prefix (\<open>j_\<close> for \<open>Job\<close>, \<open>d_\<close> for \<open>Draft\<close>, \<open>ps_\<close> for \<open>PlanStep\<close>, \<dots>) because HOL record
  fields are global. A textual timestamp is a \<open>stamp\<close>: the instant it denotes, or a text that
  \<open>datetime.fromisoformat\<close> rejects.
\<close>

section \<open>Data classes\<close>

datatype stamp = IsoTime int | BadTime str

datatype job_status = CREATED | DRAFT_READY | CONFIRMED | QUEUED | RUNNING | SUCCEEDED | FAILED

datatype artifact_kind =
    INPUTS_MANIFEST | INPUTS_DATASET | LLM_PROMPT | LLM_RESPONSE | LLM_META | PLAN_JSON
  | COMPOSITION_SUMMARY_JSON | COMPOSITION_PRODUCT_DATASET | COMPOSITION_PRODUCT_TABLE
  | DO_TEMPLATE_SOURCE | DO_TEMPLATE_META | DO_TEMPLATE_PARAMS | DO_TEMPLATE_RUN_META_JSON
  | DO_TEMPLATE_SELECTION_STAGE1 | DO_TEMPLATE_SELECTION_CANDIDATES
  | DO_TEMPLATE_SELECTION_STAGE2 | STATA_DO | STATA_LOG | STATA_RESULT_LOG
  | RUN_STDOUT | RUN_STDERR | RUN_META_JSON | RUN_ERROR_JSON
  | STATA_EXPORT_TABLE | STATA_EXPORT_FIGURE | STATA_EXPORT_DATASET | STATA_EXPORT_REPORT
  | STATA_EXPORT_MANIFEST | STATA_EXPORT_OTHER | STATA_REPORT_INTERPRETATION

record artifact_ref =
  ar_kind :: artifact_kind
  ar_rel_path :: str

record job_inputs =
  ji_manifest_rel_path :: "str option"
  ji_fingerprint :: "str option"

record stage1_option =
  so_option_id :: str
  so_label :: str
  so_value :: json

record stage1_question =
  sq_question_id :: str
  sq_question_text :: str
  sq_question_type :: str
  sq_options :: "stage1_option list"
  sq_priority :: int

record open_unknown =
  ou_field :: str
  ou_description :: str
  ou_impact :: str
  ou_blocking :: "bool option"
  ou_candidates :: "str list"

record column_candidate =
  cc_dataset_key :: str
  cc_role :: str
  cc_name :: str

record column_name_normalization =
  cn_dataset_key :: str
  cn_role :: str
  cn_original_name :: str
  cn_normalized_name :: str

record draft_variable_type =
  vt_name :: str
  vt_inferred_type :: str

record draft_data_source =
  ds_dataset_key :: str
  ds_role :: str
  ds_original_name :: str
  ds_format :: str

text \<open>\<open>Draft\<close> allows extra fields; they are kept in \<open>d_extra\<close>.\<close>

record draft =
  d_text :: str
  d_created_at :: str
  d_outcome_var :: "str option"
  d_treatment_var :: "str option"
  d_controls :: "str list"
  d_column_candidates :: "str list"
  d_column_candidates_v2 :: "column_candidate list"
  d_column_name_normalizations :: "column_name_normalization list"
  d_stage1_questions :: "stage1_question list"
  d_open_unknowns :: "open_unknown list"
  d_variable_types :: "draft_variable_type list"
  d_data_sources :: "draft_data_source list"
  d_default_overrides :: jobj
  d_extra :: jobj

record job_confirmation =
  jc_requirement :: "str option"
  jc_notes :: "str option"
  jc_variable_corrections :: "(str, str) dict"
  jc_answers :: jobj
  jc_default_overrides :: jobj
  jc_expert_suggestions_feedback :: jobj

datatype plan_step_type =
    GENERATE_STATA_DO | RUN_STATA | DESCRIPTIVE_STATS | ROBUSTNESS_CHECK
  | HETEROGENEITY_ANALYSIS | DATA_VALIDATION

definition is_do_generation_step_type :: "plan_step_type \<Rightarrow> bool" where
  "is_do_generation_step_type t =
     (t \<in> {GENERATE_STATA_DO, DESCRIPTIVE_STATS, ROBUSTNESS_CHECK, HETEROGENEITY_ANALYSIS,
           DATA_VALIDATION})"

record plan_step =
  ps_step_id :: str
  ps_type :: plan_step_type
  ps_purpose :: str
  ps_fallback_step_id :: "str option"
  ps_params :: jobj
  ps_depends_on :: "str list"
  ps_produces :: "artifact_kind list"

datatype plan_source = SourceLLM | SourceRule | SourceRuleFallback

record llm_plan =
  lp_plan_version :: int
  lp_plan_id :: str
  lp_rel_path :: str
  lp_plan_source :: plan_source
  lp_fallback_reason :: "str option"
  lp_steps :: "plan_step list"

record run_attempt =
  ra_run_id :: str
  ra_attempt :: int
  ra_status :: str
  ra_started_at :: "int option"
  ra_ended_at :: "int option"
  ra_artifacts :: "artifact_ref list"

record job =
  j_schema_version :: int
  j_version :: int
  j_tenant_id :: str
  j_job_id :: str
  j_trace_id :: "str option"
  j_status :: job_status
  j_requirement :: "str option"
  j_confirmation :: "job_confirmation option"
  j_created_at :: int
  j_scheduled_at :: "int option"
  j_inputs :: "job_inputs option"
  j_draft :: "draft option"
  j_llm_plan :: "llm_plan option"
  j_selected_template_id :: "str option"
  j_output_formats :: "str list option"
  j_runs :: "run_attempt list"
  j_artifacts_index :: "artifact_ref list"
  j_redeem_task_code :: "str option"
  j_auth_token :: "str option"
  j_auth_expires_at :: "stamp option"

text \<open>The fields a constructor call \<open>Job(job_id=\<dots>, created_at=\<dots>)\<close> leaves at their defaults.\<close>

definition JOB_SCHEMA_VERSION_CURRENT :: int where
  "JOB_SCHEMA_VERSION_CURRENT = 3"

definition SUPPORTED_JOB_SCHEMA_VERSIONS :: "int list" where
  "SUPPORTED_JOB_SCHEMA_VERSIONS = [1, 2, 3]"

definition new_job :: "str \<Rightarrow> str \<Rightarrow> int \<Rightarrow> job" where
  "new_job tenant_id job_id created_at =
     \<lparr>j_schema_version = JOB_SCHEMA_VERSION_CURRENT, j_version = 1, j_tenant_id = tenant_id,
      j_job_id = job_id, j_trace_id = None, j_status = CREATED, j_requirement = None,
      j_confirmation = None, j_created_at = created_at, j_scheduled_at = None, j_inputs = None,
      j_draft = None, j_llm_plan = None, j_selected_template_id = None, j_output_formats = None,
      j_runs = [], j_artifacts_index = [], j_redeem_task_code = None, j_auth_token = None,
      j_auth_expires_at = None\<rparr>"

section \<open>Path guards\<close>

definition DEFAULT_TENANT_ID :: str where
  "DEFAULT_TENANT_ID = ''default''"

definition is_safe_path_segment :: "str \<Rightarrow> bool" where
  "is_safe_path_segment value =
     (value \<noteq> [] \<and> \<not> startswith value ''~'' \<and>
      CHR ''/'' \<notin> set value \<and> CHR 0x5C \<notin> set value \<and>
      value \<noteq> ''.'' \<and> value \<noteq> ''..'')"

definition is_safe_tenant_id :: "str \<Rightarrow> bool" where
  "is_safe_tenant_id tenant_id =
     (tenant_id \<noteq> [] \<and> \<not> startswith tenant_id ''~'' \<and>
      CHR ''/'' \<notin> set tenant_id \<and> CHR 0x5C \<notin> set tenant_id \<and>
      tenant_id \<noteq> ''.'' \<and> tenant_id \<noteq> ''..'')"

text \<open>\<open>PurePosixPath(value).parts\<close> of a relative path: empty and \<open>.\<close> components disappear.\<close>

definition posix_parts :: "str \<Rightarrow> str list" where
  "posix_parts value = filter (\<lambda>p. p \<noteq> [] \<and> p \<noteq> ''.'') (py_split (CHR ''/'') value)"

definition is_safe_job_rel_path :: "str \<Rightarrow> bool" where
  "is_safe_job_rel_path value =
     (value \<noteq> [] \<and> \<not> startswith value ''~'' \<and> CHR 0x5C \<notin> set value \<and>
      \<not> startswith value ''/'' \<and> ''..'' \<notin> set (posix_parts value))"

text \<open>\<open>LLMPlan.steps_must_have_unique_ids_and_valid_deps\<close>, as the validator raises or accepts.\<close>

definition steps_valid :: "plan_step list \<Rightarrow> bool" where
  "steps_valid steps =
     (let ids = map ps_step_id steps
      in distinct ids \<and>
         (\<forall>s\<in>set steps. set (ps_depends_on s) \<subseteq> set ids \<and>
            (case ps_fallback_step_id s of None \<Rightarrow> True | Some f \<Rightarrow> f \<in> set ids)))"

definition llm_plan_valid :: "llm_plan \<Rightarrow> bool" where
  "llm_plan_valid p =
     (lp_plan_version p = 1 \<and> is_safe_job_rel_path (lp_rel_path p) \<and> steps_valid (lp_steps p) \<and>
      (\<forall>s\<in>set (lp_steps p). \<not> blank (ps_step_id s)))"

text \<open>What the field validators of \<open>ArtifactRef\<close>, \<open>JobInputs\<close>, \<open>RunAttempt\<close> and \<open>Job\<close> accept.\<close>

definition artifact_ref_valid :: "artifact_ref \<Rightarrow> bool" where
  "artifact_ref_valid a = is_safe_job_rel_path (ar_rel_path a)"

definition job_inputs_valid :: "job_inputs \<Rightarrow> bool" where
  "job_inputs_valid i =
     (case ji_manifest_rel_path i of None \<Rightarrow> True | Some p \<Rightarrow> is_safe_job_rel_path p)"

definition run_attempt_valid :: "run_attempt \<Rightarrow> bool" where
  "run_attempt_valid r = list_all artifact_ref_valid (ra_artifacts r)"

definition job_valid :: "job \<Rightarrow> bool" where
  "job_valid j =
     (j_schema_version j = JOB_SCHEMA_VERSION_CURRENT \<and> 1 \<le> j_version j \<and>
      is_safe_path_segment (j_tenant_id j) \<and>
      (case j_inputs j of None \<Rightarrow> True | Some i \<Rightarrow> job_inputs_valid i) \<and>
      (case j_llm_plan j of None \<Rightarrow> True | Some p \<Rightarrow> llm_plan_valid p) \<and>
      list_all run_attempt_valid (j_runs j) \<and> list_all artifact_ref_valid (j_artifacts_index j))"

lemma posix_parts_append: "posix_parts (a @ CHR ''/'' # b) = posix_parts a @ posix_parts b"
  by (simp add: posix_parts_def py_split_append)

lemma safe_segment_tenant_id: "is_safe_tenant_id v = is_safe_path_segment v"
  by (simp add: is_safe_tenant_id_def is_safe_path_segment_def)

lemma safe_segment_nonempty: "is_safe_path_segment v \<Longrightarrow> v \<noteq> []"
  by (simp add: is_safe_path_segment_def)

text \<open>A safe relative path stays below its base: no component climbs, none is absolute.\<close>

lemma safe_rel_path_parts:
  "is_safe_job_rel_path v \<Longrightarrow> p \<in> set (posix_parts v) \<Longrightarrow> p \<noteq> ''..'' \<and> p \<noteq> ''.'' \<and> p \<noteq> []"
  by (auto simp: is_safe_job_rel_path_def posix_parts_def)

lemma split_no_sep_in_parts: "p \<in> set (py_split c s) \<Longrightarrow> c \<notin> set p"
  by (induction c s arbitrary: p rule: py_split.induct)
     (fastforce split: if_splits list.splits)+

section \<open>The status machine\<close>

fun allowed_transitions :: "job_status \<Rightarrow> job_status set" where
  "allowed_transitions CREATED = {DRAFT_READY}"
| "allowed_transitions DRAFT_READY = {CONFIRMED}"
| "allowed_transitions CONFIRMED = {QUEUED}"
| "allowed_transitions QUEUED = {RUNNING}"
| "allowed_transitions RUNNING = {SUCCEEDED, FAILED}"
| "allowed_transitions SUCCEEDED = {}"
| "allowed_transitions FAILED = {QUEUED}"

definition can_transition :: "job_status \<Rightarrow> job_status \<Rightarrow> bool" where
  "can_transition from_status to_status =
     (if from_status = to_status then True else to_status \<in> allowed_transitions from_status)"

definition ensure_transition :: "job_status \<Rightarrow> job_status \<Rightarrow> plan_error + bool" where
  "ensure_transition from_status to_status =
     (if from_status = to_status then Inr False
      else if can_transition from_status to_status then Inr True
      else Inl JobIllegalTransition)"

inductive status_step :: "job_status \<Rightarrow> job_status \<Rightarrow> bool" where
  status_step: "t \<in> allowed_transitions s \<Longrightarrow> status_step s t"

inductive_simps status_step_simps: "status_step s t"

text \<open>The state machine decides exactly the transition relation: it answers
  \<open>False\<close> for no change, \<open>True\<close> for an allowed step, and raises the illegal-transition error otherwise.\<close>

theorem ensure_transition_decides:
  "ensure_transition s t =
     (if s = t then Inr False else if status_step s t then Inr True else Inl JobIllegalTransition)"
  by (auto simp: ensure_transition_def can_transition_def status_step_simps)

lemma ensure_transition_step:
  "ensure_transition s t = Inr b \<Longrightarrow> (b \<longleftrightarrow> s \<noteq> t) \<and> (b \<longrightarrow> status_step s t)"
  by (auto simp: ensure_transition_def can_transition_def status_step_simps split: if_splits)

lemma ensure_transition_refuses:
  "ensure_transition s t = Inl e \<longleftrightarrow> e = JobIllegalTransition \<and> s \<noteq> t \<and> \<not> status_step s t"
  by (auto simp: ensure_transition_def can_transition_def status_step_simps)

text \<open>Which statuses a job can still reach; SUCCEEDED is final, nothing returns to the drafting phase.\<close>

definition status_rank :: "job_status \<Rightarrow> nat" where
  "status_rank s = (case s of CREATED \<Rightarrow> 0 | DRAFT_READY \<Rightarrow> 1 | CONFIRMED \<Rightarrow> 2 | _ \<Rightarrow> 3)"

lemma status_step_rank: "status_step s t \<Longrightarrow> status_rank s \<le> status_rank t"
  by (cases s) (auto simp: status_step_simps status_rank_def)

lemma status_reach_rank: "status_step\<^sup>*\<^sup>* s t \<Longrightarrow> status_rank s \<le> status_rank t"
proof (induction rule: rtranclp_induct)
  case base
  show ?case by simp
next
  case (step t u)
  then show ?case using status_step_rank[of t u] by simp
qed

lemma succeeded_final: "status_step\<^sup>*\<^sup>* SUCCEEDED t \<Longrightarrow> t = SUCCEEDED"
  by (induction rule: rtranclp_induct) (auto simp: status_step_simps)

text \<open>Along any run of the status machine a job never falls back to an earlier phase
  (created, drafted, confirmed, in execution), and a succeeded job keeps its status.\<close>

theorem status_phases_monotone:
  assumes "status_step\<^sup>*\<^sup>* s t"
  shows "status_rank s \<le> status_rank t \<and> (s = SUCCEEDED \<longrightarrow> t = SUCCEEDED)"
  using status_reach_rank[OF assms] succeeded_final assms by blast

section \<open>Output formats\<close>

definition SUPPORTED_OUTPUT_FORMATS :: "str list" where
  "SUPPORTED_OUTPUT_FORMATS = [''csv'', ''xlsx'', ''dta'', ''docx'', ''pdf'', ''log'', ''do'']"

definition DEFAULT_OUTPUT_FORMATS :: "str list" where
  "DEFAULT_OUTPUT_FORMATS = [''csv'', ''log'', ''do'']"

fun normalize_formats_loop :: "str list \<Rightarrow> json list \<Rightarrow> artifact_error + str list" where
  "normalize_formats_loop normalized [] = Inr normalized"
| "normalize_formats_loop normalized (raw # rest) =
     (case raw of
        JStr s \<Rightarrow>
          (let fmt = py_lower (py_strip s)
           in if fmt = [] then Inl (OutputFormatsInvalid ''output_formats_contains_empty_string'')
              else if fmt \<notin> set SUPPORTED_OUTPUT_FORMATS
                then Inl (OutputFormatsInvalid (''unsupported_output_format:'' @ fmt))
              else if fmt \<in> set normalized then normalize_formats_loop normalized rest
              else normalize_formats_loop (normalized @ [fmt]) rest)
      | _ \<Rightarrow> Inl (OutputFormatsInvalid ''output_formats_contains_non_string''))"

definition normalize_output_formats :: "json list option \<Rightarrow> artifact_error + str list" where
  "normalize_output_formats value =
     (case value of
        None \<Rightarrow> Inr DEFAULT_OUTPUT_FORMATS
      | Some raw \<Rightarrow>
          (case normalize_formats_loop [] raw of
             Inl e \<Rightarrow> Inl e
           | Inr [] \<Rightarrow> Inl (OutputFormatsInvalid ''output_formats_empty'')
           | Inr fs \<Rightarrow> Inr fs))"

definition formats_ok :: "str list \<Rightarrow> bool" where
  "formats_ok fs = (fs \<noteq> [] \<and> distinct fs \<and> set fs \<subseteq> set SUPPORTED_OUTPUT_FORMATS)"

lemma normalize_formats_loop_ok:
  "normalize_formats_loop acc raw = Inr fs \<Longrightarrow>
   distinct acc \<Longrightarrow> set acc \<subseteq> set SUPPORTED_OUTPUT_FORMATS \<Longrightarrow>
   distinct fs \<and> set fs \<subseteq> set SUPPORTED_OUTPUT_FORMATS \<and> set acc \<subseteq> set fs"
proof (induction acc raw rule: normalize_formats_loop.induct)
  case (1 acc)
  then show ?case by simp
next
  case (2 acc raw rest)
  then obtain s where raw: "raw = JStr s"
    by (cases raw) auto
  let ?fmt = "py_lower (py_strip s)"
  from 2(3) raw have ok: "?fmt \<noteq> []" "?fmt \<in> set SUPPORTED_OUTPUT_FORMATS"
    by (auto simp: Let_def split: if_splits)
  show ?case
  proof (cases "?fmt \<in> set acc")
    case True
    with 2 raw ok show ?thesis by (simp add: Let_def)
  next
    case False
    with 2 raw ok show ?thesis by (auto simp: Let_def)
  qed
qed

lemma normalize_output_formats_ok:
  assumes "normalize_output_formats v = Inr fs"
  shows "formats_ok fs"
proof (cases v)
  case None
  with assms show ?thesis
    by (auto simp: normalize_output_formats_def formats_ok_def DEFAULT_OUTPUT_FORMATS_def
        SUPPORTED_OUTPUT_FORMATS_def)
next
  case (Some raw)
  with assms have l: "normalize_formats_loop [] raw = Inr fs" and "fs \<noteq> []"
    by (auto simp: normalize_output_formats_def split: sum.splits list.splits)
  with normalize_formats_loop_ok[OF l] show ?thesis by (simp add: formats_ok_def)
qed

lemma normalize_formats_loop_fixed:
  "distinct (acc @ fs) \<Longrightarrow> set fs \<subseteq> set SUPPORTED_OUTPUT_FORMATS \<Longrightarrow>
   normalize_formats_loop acc (map JStr fs) = Inr (acc @ fs)"
proof (induction fs arbitrary: acc)
  case Nil
  then show ?case by simp
next
  case (Cons f fs)
  have "py_lower (py_strip f) = f" "f \<noteq> []"
    using Cons.prems(2)
    by (auto simp: SUPPORTED_OUTPUT_FORMATS_def py_lower_def py_strip_def py_lstrip_def
        py_rstrip_def py_isspace_def py_lower_char_def)
  with Cons show ?case by (simp add: Let_def)
qed

text \<open>Normalised lists are fixed points: stored formats survive another normalisation.\<close>

text \<open>An accepted output-format list is a non-empty, duplicate-free list of supported
  formats, and normalising it again (a stored list read back) returns it unchanged.\<close>

theorem normalize_output_formats_stable:
  assumes "normalize_output_formats v = Inr fs"
  shows "formats_ok fs \<and> normalize_output_formats (Some (map JStr fs)) = Inr fs"
proof -
  from normalize_output_formats_ok[OF assms] have ok: "formats_ok fs" .
  then have "normalize_formats_loop [] (map JStr fs) = Inr fs"
    using normalize_formats_loop_fixed[of "[]" fs] by (simp add: formats_ok_def)
  with ok show ?thesis
    by (cases fs) (auto simp: normalize_output_formats_def formats_ok_def)
qed

end
