(* ===== verification/WorkQueue.thy ===== *)
theory WorkQueue
  imports JobModel
begin

text \<open>
  The file-backed worker queue: infra/file_worker_queue.py, infra/file_queue_records.py and the
  claim type of domain/worker_queue.py.

  A directory (\<open>queued\<close>, \<open>claimed\<close>) is a dictionary from (tenant sub-directory, file stem) to the
  contents of the \<open>.json\<close> file of that stem; the root directory (\<open>None\<close>) belongs to the default
  tenant. \<open>claim_tmp\<close> holds the \<open>.tmp\<close> files a claim works on. An operating-system fault is an
  argument of the operation (\<open>qio\<close>, \<open>enqueue_fault\<close>); a directory listing is an argument of the
  claim loop, so a listing that another worker has made stale is a case of the model.
\<close>

section \<open>State\<close>

record queue_claim =
  qc_job_id :: str
  qc_claim_id :: str
  qc_worker_id :: str
  qc_claimed_at :: int
  qc_lease_expires_at :: int
  qc_tenant_id :: str
  qc_traceparent :: "str option"

record qrecord =
  q_tenant_id :: "str option"
  q_job_id :: "str option"
  q_enqueued_at :: "stamp option"
  q_traceparent :: "str option"
  q_claim_id :: "str option"
  q_worker_id :: "str option"
  q_claimed_at :: "stamp option"
  q_lease_expires_at :: "stamp option"

datatype qfile = QRec qrecord | QNotObject | QUnreadable

type_synonym qkey = "str option \<times> str"
type_synonym qdir = "(qkey, qfile) dict"

record fqueue =
  queued :: qdir
  claimed :: qdir
  claim_tmp :: qdir

definition empty_queue :: fqueue where
  "empty_queue = \<lparr>queued = [], claimed = [], claim_tmp = []\<rparr>"

record qio =
  io_claim_rename :: bool
  io_claim_write :: bool
  io_claim_finalize :: bool
  io_requeue :: bool
  io_unlink :: bool
  io_release :: bool

definition no_faults :: qio where
  "no_faults = \<lparr>io_claim_rename = False, io_claim_write = False, io_claim_finalize = False,
                io_requeue = False, io_unlink = False, io_release = False\<rparr>"

datatype enqueue_fault = EnqueueOk | EnqueueOpenFails | EnqueueWriteFails

section \<open>Paths\<close>

definition assert_safe_segment :: "str \<Rightarrow> exn + unit" where
  "assert_safe_segment value =
     guardE (value \<noteq> [] \<and> CHR ''/'' \<notin> set value \<and> CHR 0x5C \<notin> set value \<and>
             value \<noteq> ''.'' \<and> value \<noteq> ''..'') (PyErr PyValueError)"

definition tenant_dir :: "str \<Rightarrow> exn + str option" where
  "tenant_dir tenant_id =
     (if tenant_id = DEFAULT_TENANT_ID then Inr None
      else if \<not> is_safe_tenant_id tenant_id then Inl (PyErr PyValueError)
      else Inr (Some tenant_id))"

definition queued_path :: "str \<Rightarrow> str \<Rightarrow> exn + qkey" where
  "queued_path tenant_id job_id =
     bindE (assert_safe_segment job_id) (\<lambda>_.
     bindE (tenant_dir tenant_id) (\<lambda>d. Inr (d, job_id)))"

definition claimed_path :: "str \<Rightarrow> str \<Rightarrow> str \<Rightarrow> exn + qkey" where
  "claimed_path tenant_id job_id claim_id =
     bindE (assert_safe_segment job_id) (\<lambda>_.
     bindE (assert_safe_segment claim_id) (\<lambda>_.
     bindE (tenant_dir tenant_id) (\<lambda>d. Inr (d, job_id @ ''__'' @ claim_id))))"

text \<open>\<open>_iter_queued_records\<close> and \<open>_iter_claimed_records\<close>: the root directory first, then every
  tenant directory with a safe name, each sorted by file name.\<close>

definition sorted_stems :: "qdir \<Rightarrow> str option \<Rightarrow> str list" where
  "sorted_stems dir d = sort_key (\<lambda>stem. stem @ ''.json'') (map snd (filter (\<lambda>k. fst k = d) (map fst dir)))"

definition tenant_dirs :: "qdir \<Rightarrow> str list" where
  "tenant_dirs dir =
     sort (remdups (concat (map (\<lambda>k. case fst k of None \<Rightarrow> [] | Some t \<Rightarrow> [t]) (map fst dir))))"

definition iter_records :: "qdir \<Rightarrow> (str \<times> qkey) list" where
  "iter_records dir =
     map (\<lambda>stem. (DEFAULT_TENANT_ID, (None, stem))) (sorted_stems dir None) @
     concat (map (\<lambda>t. map (\<lambda>stem. (t, (Some t, stem))) (sorted_stems dir (Some t)))
                 (filter is_safe_tenant_id (tenant_dirs dir)))"

section \<open>Records\<close>

fun read_queue_record :: "qfile \<Rightarrow> exn + qrecord" where
  "read_queue_record (QRec r) = Inr r"
| "read_queue_record QNotObject = Inl (ArtErr QueueDataCorrupted)"
| "read_queue_record QUnreadable = Inl (ArtErr (QueueIO ''read''))"

definition build_claim_fields :: "str \<Rightarrow> str \<Rightarrow> int \<Rightarrow> int \<Rightarrow> qrecord \<Rightarrow> qrecord" where
  "build_claim_fields worker_id claim_id now ttl r =
     r\<lparr>q_claim_id := Some claim_id, q_worker_id := Some worker_id,
       q_claimed_at := Some (IsoTime now), q_lease_expires_at := Some (IsoTime (now + ttl))\<rparr>"

definition str_field :: "str option \<Rightarrow> str" where
  "str_field v = (case v of None \<Rightarrow> [] | Some s \<Rightarrow> s)"

definition load_claim :: "qrecord \<Rightarrow> exn + queue_claim" where
  "load_claim r =
     (let tenant_id = (case q_tenant_id r of None \<Rightarrow> DEFAULT_TENANT_ID | Some t \<Rightarrow> t);
          traceparent = (case q_traceparent r of
                           None \<Rightarrow> None | Some t \<Rightarrow> (if blank t then None else Some t))
      in if tenant_id = [] \<or> \<not> is_safe_tenant_id tenant_id then Inl (ArtErr QueueDataCorrupted)
         else if str_field (q_job_id r) = [] \<or> str_field (q_claim_id r) = []
              \<or> str_field (q_worker_id r) = [] then Inl (ArtErr QueueDataCorrupted)
         else case (q_claimed_at r, q_lease_expires_at r) of
                (Some (IsoTime c), Some (IsoTime l)) \<Rightarrow>
                  Inr \<lparr>qc_job_id = str_field (q_job_id r), qc_claim_id = str_field (q_claim_id r),
                       qc_worker_id = str_field (q_worker_id r), qc_claimed_at = c,
                       qc_lease_expires_at = l, qc_tenant_id = tenant_id,
                       qc_traceparent = traceparent\<rparr>
              | _ \<Rightarrow> Inl (ArtErr QueueDataCorrupted))"

text \<open>\<open>FileWorkerQueue._ttl\<close>: a lease is never empty.\<close>

definition lease_ttl :: "int \<Rightarrow> int" where
  "lease_ttl seconds = (if seconds \<le> 0 then 60 else seconds)"

section \<open>Operations\<close>

definition enqueue ::
  "enqueue_fault \<Rightarrow> int \<Rightarrow> str \<Rightarrow> str \<Rightarrow> str option \<Rightarrow> fqueue \<Rightarrow> fqueue \<times> (exn + unit)" where
  "enqueue fault now tenant_id job_id traceparent q =
     (case queued_path tenant_id job_id of
        Inl e \<Rightarrow> (q, Inl e)
      | Inr path \<Rightarrow>
          (if dict_get (queued q) path \<noteq> None then (q, Inr ())
           else case fault of
             EnqueueOpenFails \<Rightarrow> (q, Inl (ArtErr (QueueIO ''enqueue'')))
           | EnqueueWriteFails \<Rightarrow>
               (q\<lparr>queued := dict_set (queued q) path QNotObject\<rparr>, Inl (ArtErr (QueueIO ''enqueue'')))
           | EnqueueOk \<Rightarrow>
               (q\<lparr>queued := dict_set (queued q) path
                   (QRec \<lparr>q_tenant_id = Some tenant_id, q_job_id = Some job_id,
                          q_enqueued_at = Some (IsoTime now), q_traceparent = traceparent,
                          q_claim_id = None, q_worker_id = None, q_claimed_at = None,
                          q_lease_expires_at = None\<rparr>)\<rparr>, Inr ())))"

definition try_requeue :: "qio \<Rightarrow> str \<Rightarrow> str \<Rightarrow> qkey \<Rightarrow> fqueue \<Rightarrow> fqueue" where
  "try_requeue io tenant_id job_id tmp q =
     (case queued_path tenant_id job_id of
        Inl e \<Rightarrow> q
      | Inr target \<Rightarrow>
          (if dict_get (queued q) target \<noteq> None \<or> io_requeue io then q
           else case dict_get (claim_tmp q) tmp of
             None \<Rightarrow> q
           | Some f \<Rightarrow> q\<lparr>queued := dict_set (queued q) target f,
                         claim_tmp := dict_del (claim_tmp q) tmp\<rparr>))"

text \<open>
  \<open>_claim_file\<close> after the source was renamed to the temporary file \<open>tmp\<close>: read it, add the lease,
  write it back, move it into \<open>claimed\<close>.
\<close>

definition claim_tmp_file ::
  "qio \<Rightarrow> int \<Rightarrow> int \<Rightarrow> str \<Rightarrow> str \<Rightarrow> str \<Rightarrow> str \<Rightarrow> qkey \<Rightarrow> qfile \<Rightarrow> fqueue
   \<Rightarrow> fqueue \<times> (exn + queue_claim)" where
  "claim_tmp_file io now ttl worker_id claim_id tenant_id job_id tmp f q =
     (case read_queue_record f of
        Inl e \<Rightarrow> (q, Inl e)
      | Inr r0 \<Rightarrow>
          (let r = build_claim_fields worker_id claim_id now (lease_ttl ttl)
                     (r0\<lparr>q_tenant_id := Some tenant_id, q_job_id := Some job_id\<rparr>)
           in if io_claim_write io
              then (try_requeue io tenant_id job_id tmp q, Inl (ArtErr (QueueIO ''claim_write'')))
              else let q1 = q\<lparr>claim_tmp := dict_set (claim_tmp q) tmp (QRec r)\<rparr>
                   in if io_claim_finalize io
                      then (try_requeue io tenant_id job_id tmp q1,
                            Inl (ArtErr (QueueIO ''claim_finalize'')))
                      else (q1\<lparr>claim_tmp := dict_del (claim_tmp q1) tmp,
                                claimed := dict_set (claimed q1) tmp (QRec r)\<rparr>,
                            load_claim r)))"

text \<open>
  \<open>_claim_file\<close>: \<open>None\<close> is the \<open>FileNotFoundError\<close> of the first rename, which the loops skip.
  \<open>from_claimed\<close> tells which directory the source is in.
\<close>

definition claim_file ::
  "qio \<Rightarrow> int \<Rightarrow> int \<Rightarrow> str \<Rightarrow> str \<Rightarrow> bool \<Rightarrow> qkey \<Rightarrow> str \<Rightarrow> str \<Rightarrow> fqueue
   \<Rightarrow> (fqueue \<times> (exn + queue_claim)) option" where
  "claim_file io now ttl worker_id claim_id from_claimed source tenant_id job_id q =
     (case claimed_path tenant_id job_id claim_id of
        Inl e \<Rightarrow> Some (q, Inl e)
      | Inr tmp \<Rightarrow>
          (case dict_get (if from_claimed then claimed q else queued q) source of
             None \<Rightarrow> None
           | Some f \<Rightarrow>
               (if io_claim_rename io then Some (q, Inl (ArtErr (QueueIO ''claim_rename'')))
                else let q1 = (if from_claimed then q\<lparr>claimed := dict_del (claimed q) source\<rparr>
                               else q\<lparr>queued := dict_del (queued q) source\<rparr>)
                     in Some (claim_tmp_file io now ttl worker_id claim_id tenant_id job_id tmp f
                                (q1\<lparr>claim_tmp := dict_set (claim_tmp q1) tmp f\<rparr>)))))"

fun claim_from_queued ::
  "qio \<Rightarrow> int \<Rightarrow> int \<Rightarrow> str \<Rightarrow> str \<Rightarrow> (str \<times> qkey) list \<Rightarrow> fqueue
   \<Rightarrow> (fqueue \<times> (exn + queue_claim)) option" where
  "claim_from_queued io now ttl worker_id claim_id [] q = None"
| "claim_from_queued io now ttl worker_id claim_id ((tenant_id, path) # rest) q =
     (case claim_file io now ttl worker_id claim_id False path tenant_id (snd path) q of
        None \<Rightarrow> claim_from_queued io now ttl worker_id claim_id rest q
      | Some res \<Rightarrow> Some res)"

definition lease_expiry :: "qrecord \<Rightarrow> exn + int" where
  "lease_expiry r =
     (case q_lease_expires_at r of
        Some (IsoTime t) \<Rightarrow> Inr t
      | _ \<Rightarrow> Inl (ArtErr QueueDataCorrupted))"

fun claim_from_expired ::
  "qio \<Rightarrow> int \<Rightarrow> int \<Rightarrow> str \<Rightarrow> str \<Rightarrow> (str \<times> qkey) list \<Rightarrow> fqueue
   \<Rightarrow> (fqueue \<times> (exn + queue_claim)) option" where
  "claim_from_expired io now ttl worker_id claim_id [] q = None"
| "claim_from_expired io now ttl worker_id claim_id ((tenant_id, path) # rest) q =
     (case dict_get (claimed q) path of
        None \<Rightarrow> claim_from_expired io now ttl worker_id claim_id rest q
      | Some f \<Rightarrow>
          (case read_queue_record f of
             Inl e \<Rightarrow> Some (q, Inl e)
           | Inr r \<Rightarrow>
               (case lease_expiry r of
                  Inl e \<Rightarrow> Some (q, Inl e)
                | Inr expires \<Rightarrow>
                    (if now < expires then claim_from_expired io now ttl worker_id claim_id rest q
                     else if str_field (q_job_id r) = [] then Some (q, Inl (ArtErr QueueDataCorrupted))
                     else case claim_file io now ttl worker_id claim_id True path tenant_id
                                 (str_field (q_job_id r)) q of
                            None \<Rightarrow> claim_from_expired io now ttl worker_id claim_id rest q
                          | Some res \<Rightarrow> Some res))))"

definition claim ::
  "qio \<Rightarrow> int \<Rightarrow> int \<Rightarrow> str \<Rightarrow> str \<Rightarrow> fqueue \<Rightarrow> fqueue \<times> (exn + queue_claim option)" where
  "claim io now ttl worker_id claim_id q =
     (case claim_from_queued io now ttl worker_id claim_id (iter_records (queued q)) q of
        Some (q', Inr c) \<Rightarrow> (q', Inr (Some c))
      | Some (q', Inl e) \<Rightarrow> (q', Inl e)
      | None \<Rightarrow>
          (case claim_from_expired io now ttl worker_id claim_id (iter_records (claimed q)) q of
             Some (q', Inr c) \<Rightarrow> (q', Inr (Some c))
           | Some (q', Inl e) \<Rightarrow> (q', Inl e)
           | None \<Rightarrow> (q, Inr None)))"

definition ack :: "qio \<Rightarrow> queue_claim \<Rightarrow> fqueue \<Rightarrow> fqueue \<times> (exn + unit)" where
  "ack io c q =
     (case claimed_path (qc_tenant_id c) (qc_job_id c) (qc_claim_id c) of
        Inl e \<Rightarrow> (q, Inl e)
      | Inr path \<Rightarrow>
          (if io_unlink io then (q, Inl (ArtErr (QueueIO ''ack'')))
           else (q\<lparr>claimed := dict_del (claimed q) path\<rparr>, Inr ())))"

definition release :: "qio \<Rightarrow> queue_claim \<Rightarrow> fqueue \<Rightarrow> fqueue \<times> (exn + unit)" where
  "release io c q =
     (case bindE (claimed_path (qc_tenant_id c) (qc_job_id c) (qc_claim_id c)) (\<lambda>source.
           bindE (queued_path (qc_tenant_id c) (qc_job_id c)) (\<lambda>target. Inr (source, target))) of
        Inl e \<Rightarrow> (q, Inl e)
      | Inr (source, target) \<Rightarrow>
          (case dict_get (claimed q) source of
             None \<Rightarrow> (q, Inr ())
           | Some f \<Rightarrow>
               (if dict_get (queued q) target \<noteq> None
                then (if io_unlink io then (q, Inl (ArtErr (QueueIO ''release_cleanup'')))
                      else (q\<lparr>claimed := dict_del (claimed q) source\<rparr>, Inr ()))
                else if io_release io then (q, Inl (ArtErr (QueueIO ''release'')))
                else (q\<lparr>queued := dict_set (queued q) target f,
                         claimed := dict_del (claimed q) source\<rparr>, Inr ()))))"

end
