(* ===== verification/QueueLaws.thy ===== *)
theory QueueLaws
  imports WorkQueue
begin

text \<open>
  What the file queue promises: the invariant \<open>queue_wf\<close> that every fault-free operation keeps, the
  set of jobs the queue still tracks, and the interface \<open>job_queue\<close> a worker relies on, interpreted
  on the operations of WorkQueue.
\<close>

section \<open>Well-formed queue directories\<close>

definition key_ok :: "qkey \<Rightarrow> bool" where
  "key_ok k =
     (assert_safe_segment (snd k) = Inr () \<and>
      (case fst k of None \<Rightarrow> True | Some t \<Rightarrow> t \<noteq> DEFAULT_TENANT_ID \<and> is_safe_tenant_id t))"

text \<open>A claim id is a \<open>uuid4().hex\<close>: not empty, no separator, no underscore.\<close>

definition claim_id_ok :: "str \<Rightarrow> bool" where
  "claim_id_ok c = (assert_safe_segment c = Inr () \<and> CHR ''_'' \<notin> set c)"

fun queued_entry_ok :: "qkey \<times> qfile \<Rightarrow> bool" where
  "queued_entry_ok (k, QRec r) = key_ok k"
| "queued_entry_ok (k, _) = False"

fun claimed_entry_ok :: "qkey \<times> qfile \<Rightarrow> bool" where
  "claimed_entry_ok (k, QRec r) =
     (case (q_tenant_id r, q_job_id r, q_claim_id r, q_lease_expires_at r) of
        (Some t, Some j, Some c, Some (IsoTime l)) \<Rightarrow>
          claim_id_ok c \<and> claimed_path t j c = Inr k
      | _ \<Rightarrow> False)"
| "claimed_entry_ok (k, _) = False"

definition queue_wf :: "fqueue \<Rightarrow> bool" where
  "queue_wf q =
     (dict_wf (queued q) \<and> dict_wf (claimed q) \<and> claim_tmp q = [] \<and>
      list_all queued_entry_ok (queued q) \<and> list_all claimed_entry_ok (claimed q))"

text \<open>The jobs (directory and job id) that a queued or a claimed file stands for.\<close>

fun claimed_job :: "qkey \<times> qfile \<Rightarrow> (str option \<times> str) list" where
  "claimed_job (k, QRec r) = (case q_job_id r of Some j \<Rightarrow> [(fst k, j)] | None \<Rightarrow> [])"
| "claimed_job (k, _) = []"

definition tracked_jobs :: "fqueue \<Rightarrow> (str option \<times> str) set" where
  "tracked_jobs q = set (map fst (queued q)) \<union> set (concat (map claimed_job (claimed q)))"

lemma queue_wf_empty: "queue_wf empty_queue"
  by (simp add: queue_wf_def empty_queue_def)

lemma queue_wfD:
  assumes "queue_wf q"
  shows "dict_wf (queued q)" "dict_wf (claimed q)" "claim_tmp q = []"
    "\<And>e. e \<in> set (queued q) \<Longrightarrow> queued_entry_ok e"
    "\<And>e. e \<in> set (claimed q) \<Longrightarrow> claimed_entry_ok e"
  using assms by (auto simp: queue_wf_def list_all_iff)

lemma queued_entry_okD: "queued_entry_ok (k, f) \<Longrightarrow> key_ok k \<and> (\<exists>r. f = QRec r)"
  by (cases f) auto

lemma claimed_entry_okD:
  assumes "claimed_entry_ok (k, f)"
  obtains r t j c l where "f = QRec r" "q_tenant_id r = Some t" "q_job_id r = Some j"
    "q_claim_id r = Some c" "q_lease_expires_at r = Some (IsoTime l)" "claim_id_ok c"
    "claimed_path t j c = Inr k"
  using assms by (cases f) (auto split: option.splits stamp.splits)

text \<open>Dictionary facts lifted to entry predicates.\<close>

lemma set_dict_set: "set (dict_set d k v) \<subseteq> insert (k, v) (set d)"
  by (induction d k v rule: dict_set.induct) auto

lemma list_all_dict_set: "list_all P d \<Longrightarrow> P (k, v) \<Longrightarrow> list_all P (dict_set d k v)"
  using set_dict_set[of d k v] by (auto simp: list_all_iff)

lemma list_all_dict_del: "list_all P d \<Longrightarrow> list_all P (dict_del d k)"
  using dict_del_subset[of d k] by (auto simp: list_all_iff)

lemma fst_dict_del: "dict_wf d \<Longrightarrow> fst ` set (dict_del d k) = fst ` set d - {k}"
proof -
  assume wf: "dict_wf d"
  have "k' \<in> fst ` set (dict_del d k) \<longleftrightarrow> k' \<in> fst ` set d - {k}" for k'
    using dict_get_None[of "dict_del d k" k'] dict_get_None[of d k'] dict_get_del[OF wf, of k k']
    by (auto split: if_splits)
  then show ?thesis by blast
qed

lemma set_dict_del: "dict_wf d \<Longrightarrow> set (dict_del d k) = {e \<in> set d. fst e \<noteq> k}"
proof (induction d k rule: dict_del.induct)
  case (1 k)
  then show ?case by simp
next
  case (2 k' v' d k)
  then show ?case by (force simp: dict_wf_def)
qed

lemma set_dict_set_wf:
  "dict_wf d \<Longrightarrow> set (dict_set d k v) = insert (k, v) {e \<in> set d. fst e \<noteq> k}"
proof (induction d k v rule: dict_set.induct)
  case (1 k v)
  then show ?case by simp
next
  case (2 k' v' d k v)
  then show ?case by (force simp: dict_wf_def)
qed

lemma fst_dict_set: "fst ` set (dict_set d k v) = insert k (fst ` set d)"
  by (induction d k v rule: dict_set.induct) auto

text \<open>File names of claims are unambiguous, because a claim id has no underscore.\<close>

lemma claim_name_inj:
  assumes "j @ ''__'' @ c = j' @ ''__'' @ c'" "CHR ''_'' \<notin> set c" "CHR ''_'' \<notin> set c'"
  shows "j = j' \<and> c = c'"
proof -
  have tw: "takeWhile (\<lambda>x. x \<noteq> CHR ''_'') (rev (i @ ''__'' @ d)) = rev d"
    if "CHR ''_'' \<notin> set d" for i d :: str
  proof -
    have "takeWhile (\<lambda>x. x \<noteq> CHR ''_'') (rev d @ CHR ''_'' # CHR ''_'' # rev i) = rev d"
      using that by (subst takeWhile_append2) auto
    then show ?thesis by simp
  qed
  have "rev c = rev c'"
    using tw[OF assms(2), of j] tw[OF assms(3), of j'] by (simp only: assms(1))
  then have "c = c'" by simp
  with assms(1) show ?thesis by simp
qed

lemma tenant_dir_Inr:
  "tenant_dir t = Inr d \<longleftrightarrow> (t = DEFAULT_TENANT_ID \<and> d = None) \<or>
     (t \<noteq> DEFAULT_TENANT_ID \<and> is_safe_tenant_id t \<and> d = Some t)"
  by (auto simp: tenant_dir_def)

lemma claimed_path_Inr:
  "claimed_path t j c = Inr k \<longleftrightarrow>
     assert_safe_segment j = Inr () \<and> assert_safe_segment c = Inr () \<and>
     (\<exists>d. tenant_dir t = Inr d \<and> k = (d, j @ ''__'' @ c))"
  by (auto simp: claimed_path_def bindE_Inr_iff)

lemma queued_path_Inr:
  "queued_path t j = Inr k \<longleftrightarrow>
     assert_safe_segment j = Inr () \<and> (\<exists>d. tenant_dir t = Inr d \<and> k = (d, j))"
  by (auto simp: queued_path_def bindE_Inr_iff)

lemma queued_path_key_ok: "queued_path t j = Inr k \<Longrightarrow> key_ok k"
  by (auto simp: queued_path_Inr key_ok_def tenant_dir_Inr)

lemma key_ok_tenant: "key_ok k \<Longrightarrow> \<exists>t. queued_path t (snd k) = Inr k"
  by (cases k; cases "fst k") (auto simp: key_ok_def queued_path_Inr tenant_dir_Inr)

lemma tenant_dir_safe: "tenant_dir t = Inr d \<Longrightarrow> is_safe_tenant_id t"
  by (auto simp: tenant_dir_Inr is_safe_tenant_id_def DEFAULT_TENANT_ID_def startswith_def)

section \<open>The listing of a directory\<close>

lemma set_sorted_stems: "set (sorted_stems dir d) = {stem. (d, stem) \<in> fst ` set dir}"
  by (force simp: sorted_stems_def)

lemma set_tenant_dirs: "set (tenant_dirs dir) = {t. \<exists>stem. (Some t, stem) \<in> fst ` set dir}"
  by (force simp: tenant_dirs_def split: option.splits)

lemma iter_records_sound:
  assumes "(t, k) \<in> set (iter_records dir)"
  shows "k \<in> fst ` set dir \<and> (fst k = None \<longrightarrow> t = DEFAULT_TENANT_ID) \<and>
         (\<forall>u. fst k = Some u \<longrightarrow> t = u \<and> is_safe_tenant_id u)"
  using assms by (auto simp: iter_records_def set_sorted_stems)

lemma iter_records_complete:
  assumes "k \<in> fst ` set dir" "key_ok k"
  shows "\<exists>t. (t, k) \<in> set (iter_records dir) \<and> tenant_dir t = Inr (fst k)"
proof (cases k)
  case (Pair d stem)
  show ?thesis
  proof (cases d)
    case None
    with assms Pair show ?thesis
      by (auto simp: iter_records_def set_sorted_stems tenant_dir_Inr)
  next
    case (Some u)
    with assms Pair have u: "is_safe_tenant_id u" "u \<noteq> DEFAULT_TENANT_ID"
      by (auto simp: key_ok_def)
    have "u \<in> set (tenant_dirs dir)"
      using assms(1) Pair Some by (auto simp: set_tenant_dirs)
    moreover have "stem \<in> set (sorted_stems dir (Some u))"
      using assms(1) Pair Some unfolding set_sorted_stems by simp
    ultimately have "(u, k) \<in> set (iter_records dir)"
      using u Pair Some by (auto simp: iter_records_def)
    with u Pair Some show ?thesis by (auto simp: tenant_dir_Inr)
  qed
qed

lemma iter_records_tenant:
  assumes "(t, k) \<in> set (iter_records dir)" "key_ok k"
  shows "tenant_dir t = Inr (fst k)"
  using iter_records_sound[OF assms(1)] assms(2)
  by (cases "fst k") (auto simp: tenant_dir_Inr key_ok_def)

section \<open>A claim moves one record under a lease\<close>

definition leased :: "int \<Rightarrow> int \<Rightarrow> str \<Rightarrow> str \<Rightarrow> str \<Rightarrow> str \<Rightarrow> qrecord \<Rightarrow> qrecord" where
  "leased now ttl w c t j r =
     build_claim_fields w c now (lease_ttl ttl) (r\<lparr>q_tenant_id := Some t, q_job_id := Some j\<rparr>)"

definition claim_of :: "int \<Rightarrow> int \<Rightarrow> str \<Rightarrow> str \<Rightarrow> str \<Rightarrow> str \<Rightarrow> qrecord \<Rightarrow> queue_claim" where
  "claim_of now ttl w c t j r =
     \<lparr>qc_job_id = j, qc_claim_id = c, qc_worker_id = w, qc_claimed_at = now,
      qc_lease_expires_at = now + lease_ttl ttl, qc_tenant_id = t,
      qc_traceparent = (case q_traceparent r of
                          None \<Rightarrow> None | Some tp \<Rightarrow> (if blank tp then None else Some tp))\<rparr>"

definition moved ::
  "bool \<Rightarrow> qkey \<Rightarrow> qkey \<Rightarrow> qrecord \<Rightarrow> fqueue \<Rightarrow> fqueue" where
  "moved from_claimed source target r q =
     (let q1 = (if from_claimed then q\<lparr>claimed := dict_del (claimed q) source\<rparr>
                else q\<lparr>queued := dict_del (queued q) source\<rparr>)
      in q1\<lparr>claimed := dict_set (claimed q1) target (QRec r)\<rparr>)"

lemma leased_fields [simp]:
  "q_tenant_id (leased now ttl w c t j r) = Some t"
  "q_job_id (leased now ttl w c t j r) = Some j"
  "q_claim_id (leased now ttl w c t j r) = Some c"
  "q_worker_id (leased now ttl w c t j r) = Some w"
  "q_claimed_at (leased now ttl w c t j r) = Some (IsoTime now)"
  "q_lease_expires_at (leased now ttl w c t j r) = Some (IsoTime (now + lease_ttl ttl))"
  "q_traceparent (leased now ttl w c t j r) = q_traceparent r"
  by (simp_all add: leased_def build_claim_fields_def)

lemma assert_safe_nonempty: "assert_safe_segment j = Inr u \<Longrightarrow> j \<noteq> []"
  by (auto simp: assert_safe_segment_def)

lemma load_claim_leased:
  assumes "w \<noteq> []" "claimed_path t j c = Inr k"
  shows "load_claim (leased now ttl w c t j r) = Inr (claim_of now ttl w c t j r)"
proof -
  from assms(2) have "j \<noteq> []" "c \<noteq> []" "is_safe_tenant_id t"
    by (auto simp: claimed_path_Inr dest: assert_safe_nonempty tenant_dir_safe)
  then have "t \<noteq> []" by (auto simp: is_safe_tenant_id_def)
  with assms(1) \<open>j \<noteq> []\<close> \<open>c \<noteq> []\<close> \<open>is_safe_tenant_id t\<close> show ?thesis
    by (simp add: load_claim_def str_field_def claim_of_def)
qed

lemma claim_file_moves:
  assumes "claim_tmp q = []" "w \<noteq> []" "claimed_path t j c = Inr target"
    and "dict_get (if b then claimed q else queued q) source = Some (QRec r)"
  shows "claim_file no_faults now ttl w c b source t j q =
           Some (moved b source target (leased now ttl w c t j r) q,
                 Inr (claim_of now ttl w c t j r))"
proof -
  have l: "load_claim (build_claim_fields w c now (lease_ttl ttl)
             (r\<lparr>q_tenant_id := Some t, q_job_id := Some j\<rparr>)) = Inr (claim_of now ttl w c t j r)"
    using load_claim_leased[OF assms(2,3), of now ttl r] by (simp add: leased_def)
  show ?thesis
    using assms l
    by (cases b) (simp_all add: claim_file_def claim_tmp_file_def no_faults_def moved_def Let_def
        leased_def)
qed

lemma claim_file_missing:
  "claimed_path t j c = Inr target \<Longrightarrow>
   dict_get (if b then claimed q else queued q) source = None \<Longrightarrow>
   claim_file io now ttl w c b source t j q = None"
  by (cases b) (simp_all add: claim_file_def)

text \<open>The jobs of a directory, and how they change under one insertion or deletion.\<close>

definition jobs_in :: "qdir \<Rightarrow> (str option \<times> str) set" where
  "jobs_in d = (\<Union>e\<in>set d. set (claimed_job e))"

lemma tracked_jobs_alt: "tracked_jobs q = fst ` set (queued q) \<union> jobs_in (claimed q)"
  by (simp add: tracked_jobs_def jobs_in_def)

lemma jobs_in_memI: "(k, QRec r) \<in> set d \<Longrightarrow> q_job_id r = Some j \<Longrightarrow> (fst k, j) \<in> jobs_in d"
  unfolding jobs_in_def by (rule UN_I) auto

lemma jobs_in_set:
  assumes wf: "dict_wf d" and old: "\<And>f. (k, f) \<in> set d \<Longrightarrow> set (claimed_job (k, f)) \<subseteq> {(fst k, j)}"
    and r: "q_job_id r = Some j"
  shows "jobs_in (dict_set d k (QRec r)) = insert (fst k, j) (jobs_in d)"
proof -
  have "jobs_in (dict_set d k (QRec r)) =
        insert (fst k, j) (\<Union>e\<in>{e \<in> set d. fst e \<noteq> k}. set (claimed_job e))"
    by (simp add: jobs_in_def set_dict_set_wf[OF wf] r)
  also have "\<dots> = insert (fst k, j) (jobs_in d)"
  proof -
    have "set (claimed_job e) \<subseteq> {(fst k, j)}" if "e \<in> set d" "fst e = k" for e
      using that old[of "snd e"] by (metis prod.collapse)
    then show ?thesis unfolding jobs_in_def by blast
  qed
  finally show ?thesis .
qed

lemma jobs_in_del:
  assumes wf: "dict_wf d" and mem: "(k, QRec r) \<in> set d" and r: "q_job_id r = Some j"
  shows "insert (fst k, j) (jobs_in (dict_del d k)) = jobs_in d"
proof -
  have uniq: "e = (k, QRec r)" if "e \<in> set d" "fst e = k" for e
    using that mem wf by (metis prod.collapse eq_key_imp_eq_value dict_wf_def)
  have "set (claimed_job (k, QRec r)) = {(fst k, j)}" by (simp add: r)
  then show ?thesis
    unfolding jobs_in_def set_dict_del[OF wf] using uniq mem by blast
qed

lemma jobs_in_del_subset: "jobs_in (dict_del d k) \<subseteq> jobs_in d"
  unfolding jobs_in_def using dict_del_subset[of d k] by blast

lemma claimed_entry_job:
  assumes "claimed_entry_ok (k, QRec r)" "claimed_path t j c = Inr k" "CHR ''_'' \<notin> set c"
  shows "q_job_id r = Some j"
proof -
  from assms(1) obtain t' j' c' where e: "q_job_id r = Some j'" "claim_id_ok c'"
      "claimed_path t' j' c' = Inr k"
    by (rule claimed_entry_okD) auto
  from e(3) assms(2) have "j' @ ''__'' @ c' = j @ ''__'' @ c"
    by (auto simp: claimed_path_Inr)
  with claim_name_inj[OF this] e assms(3) show ?thesis by (auto simp: claim_id_ok_def)
qed

lemma moved_wf:
  assumes "queue_wf q" "claim_id_ok c" "claimed_path t j c = Inr target"
  shows "queue_wf (moved b source target (leased now ttl w c t j r) q)"
  using assms
  by (cases b) (simp_all add: queue_wf_def moved_def Let_def list_all_dict_set list_all_dict_del)

lemma claimed_entry_jobs:
  assumes "claimed_entry_ok (k, f)" "claimed_path t j c = Inr k" "CHR ''_'' \<notin> set c"
  shows "set (claimed_job (k, f)) = {(fst k, j)}"
proof -
  from assms(1) obtain r where f: "f = QRec r" by (rule claimed_entry_okD)
  with assms claimed_entry_job have "q_job_id r = Some j" by blast
  with f show ?thesis by simp
qed

lemma moved_tracked:
  assumes wf: "queue_wf q" and c: "claim_id_ok c" and tgt: "claimed_path t j c = Inr target"
    and src: "dict_get (if b then claimed q else queued q) source = Some (QRec r0)"
    and dir: "fst source = fst target"
    and job: "if b then q_job_id r0 = Some j else snd source = j"
    and rj: "q_job_id r = Some j"
  shows "tracked_jobs (moved b source target r q) = tracked_jobs q"
proof -
  note W = queue_wfD[OF wf]
  have old: "set (claimed_job (target, f)) \<subseteq> {(fst target, j)}"
    if "(target, f) \<in> set (claimed q)" for f
    using claimed_entry_jobs[OF W(5)[OF that] tgt] c by (simp add: claim_id_ok_def)
  show ?thesis
  proof (cases b)
    case True
    let ?d = "dict_del (claimed q) source"
    have "set (claimed_job (target, f)) \<subseteq> {(fst target, j)}" if "(target, f) \<in> set ?d" for f
      using that dict_del_subset[of "claimed q" source] old by blast
    then have "jobs_in (dict_set ?d target (QRec r)) = insert (fst target, j) (jobs_in ?d)"
      using jobs_in_set[of ?d target j r] W(2) rj by simp
    also have "\<dots> = jobs_in (claimed q)"
      using jobs_in_del[OF W(2), of source r0 j] src job dir True by (simp add: dict_get_in)
    finally show ?thesis using True by (simp add: moved_def tracked_jobs_alt Let_def)
  next
    case False
    with job dir have s: "source = (fst target, j)" by (cases source) auto
    have "fst ` set (dict_del (queued q) source) = fst ` set (queued q) - {source}"
      by (rule fst_dict_del[OF W(1)])
    moreover have "source \<in> fst ` set (queued q)"
      using src False dict_get_None[of "queued q" source] by auto
    moreover have "jobs_in (dict_set (claimed q) target (QRec r)) =
                   insert source (jobs_in (claimed q))"
      using jobs_in_set[OF W(2) old rj] s by simp
    ultimately show ?thesis
      using False by (auto simp: moved_def tracked_jobs_alt Let_def)
  qed
qed

section \<open>What the claim loops take\<close>

text \<open>
  Under the invariant the two loops of \<open>claim\<close> are searches: the first one takes the first queued
  file of its listing that is still there, the second one the first claimed file whose lease has
  run out. The listing is an argument, so it may be stale.
\<close>

definition rec_of :: "qfile \<Rightarrow> qrecord" where
  "rec_of f = (case f of QRec r \<Rightarrow> r | _ \<Rightarrow> undefined)"

definition job_of :: "qrecord \<Rightarrow> str" where
  "job_of r = str_field (q_job_id r)"

definition is_queued :: "fqueue \<Rightarrow> str \<times> qkey \<Rightarrow> bool" where
  "is_queued q e = (dict_get (queued q) (snd e) \<noteq> None)"

definition is_expired :: "int \<Rightarrow> fqueue \<Rightarrow> str \<times> qkey \<Rightarrow> bool" where
  "is_expired now q e =
     (case dict_get (claimed q) (snd e) of
        None \<Rightarrow> False
      | Some f \<Rightarrow> (case q_lease_expires_at (rec_of f) of Some (IsoTime l) \<Rightarrow> l \<le> now | _ \<Rightarrow> False))"

definition take_record ::
  "bool \<Rightarrow> int \<Rightarrow> int \<Rightarrow> str \<Rightarrow> str \<Rightarrow> fqueue \<Rightarrow> str \<times> qkey \<Rightarrow> fqueue \<times> (exn + queue_claim)" where
  "take_record b now ttl w c q e =
     (let k = snd e; r = rec_of (the (dict_get (if b then claimed q else queued q) k));
          j = (if b then job_of r else snd k)
      in (moved b k (fst k, j @ ''__'' @ c) (leased now ttl w c (fst e) j r) q,
          Inr (claim_of now ttl w c (fst e) j r)))"

definition listing_ok :: "(str \<times> qkey) list \<Rightarrow> bool" where
  "listing_ok l = list_all (\<lambda>(t, k). tenant_dir t = Inr (fst k)) l"

lemma listing_ok_Cons [simp]:
  "listing_ok ((t, k) # l) \<longleftrightarrow> tenant_dir t = Inr (fst k) \<and> listing_ok l"
  by (simp add: listing_ok_def)

lemma queued_file:
  assumes "queue_wf q" "dict_get (queued q) k = Some f"
  shows "key_ok k \<and> (\<exists>r. f = QRec r)"
  using queue_wfD(4)[OF assms(1)] dict_get_in[OF assms(2)] queued_entry_okD by blast

lemma claimed_file:
  assumes "queue_wf q" "dict_get (claimed q) k = Some f"
  obtains r t j c l where "f = QRec r" "q_tenant_id r = Some t" "q_job_id r = Some j"
    "q_claim_id r = Some c" "q_lease_expires_at r = Some (IsoTime l)" "claim_id_ok c"
    "claimed_path t j c = Inr k"
  using queue_wfD(5)[OF assms(1) dict_get_in[OF assms(2)]] by (rule claimed_entry_okD)

lemma claim_from_queued_find:
  assumes wf: "queue_wf q" and c: "claim_id_ok c" and w: "w \<noteq> []" and l: "listing_ok listing"
    and keys: "list_all (\<lambda>e. key_ok (snd e)) listing"
  shows "claim_from_queued no_faults now ttl w c listing q =
           map_option (take_record False now ttl w c q) (find (is_queued q) listing)"
  using l keys
proof (induction listing)
  case Nil
  then show ?case by simp
next
  case (Cons e rest)
  obtain t k where e: "e = (t, k)" by (cases e)
  from Cons.prems e have k: "key_ok k" "tenant_dir t = Inr (fst k)"
    and r: "listing_ok rest" "list_all (\<lambda>e. key_ok (snd e)) rest" by auto
  then have cp: "claimed_path t (snd k) c = Inr (fst k, snd k @ ''__'' @ c)"
    using c by (auto simp: claimed_path_Inr key_ok_def claim_id_ok_def)
  show ?case
  proof (cases "dict_get (queued q) k")
    case None
    then have "claim_file no_faults now ttl w c False k t (snd k) q = None"
      using claim_file_missing[OF cp, of False] by simp
    with Cons.IH[OF r] None e show ?thesis by (simp add: is_queued_def)
  next
    case (Some f)
    then obtain r where f: "f = QRec r" using queued_file[OF wf] by blast
    show ?thesis
      using claim_file_moves[OF queue_wfD(3)[OF wf] w cp, of False k r] Some f e
      by (simp add: is_queued_def take_record_def rec_of_def Let_def)
  qed
qed

lemma claim_from_expired_find:
  assumes wf: "queue_wf q" and c: "claim_id_ok c" and w: "w \<noteq> []" and l: "listing_ok listing"
  shows "claim_from_expired no_faults now ttl w c listing q =
           map_option (take_record True now ttl w c q) (find (is_expired now q) listing)"
  using l
proof (induction listing)
  case Nil
  then show ?case by simp
next
  case (Cons e rest)
  obtain t k where e: "e = (t, k)" by (cases e)
  from Cons.prems e have k: "tenant_dir t = Inr (fst k)" and r: "listing_ok rest" by auto
  show ?case
  proof (cases "dict_get (claimed q) k")
    case None
    with Cons.IH[OF r] e show ?thesis by (simp add: is_expired_def)
  next
    case (Some f)
    obtain rr tt j cc l where f: "f = QRec rr" "q_job_id rr = Some j"
        "q_lease_expires_at rr = Some (IsoTime l)" "claimed_path tt j cc = Inr k"
      by (rule claimed_file[OF wf Some])
    from f(4) have j: "assert_safe_segment j = Inr ()" by (auto simp: claimed_path_Inr)
    with k c have cp: "claimed_path t j c = Inr (fst k, j @ ''__'' @ c)"
      by (auto simp: claimed_path_Inr claim_id_ok_def)
    have le: "lease_expiry rr = Inr l" using f by (simp add: lease_expiry_def)
    have ex: "is_expired now q e \<longleftrightarrow> \<not> now < l" using Some f e by (auto simp: is_expired_def rec_of_def)
    show ?thesis
    proof (cases "now < l")
      case True
      with Cons.IH[OF r] Some f(1) le ex e show ?thesis by simp
    next
      case False
      have "claim_file no_faults now ttl w c True k t j q =
            Some (moved True k (fst k, j @ ''__'' @ c) (leased now ttl w c t j rr) q,
                  Inr (claim_of now ttl w c t j rr))"
        using claim_file_moves[OF queue_wfD(3)[OF wf] w cp, of True k rr] Some f by simp
      with False Some f(1,2) le ex e assert_safe_nonempty[OF j] show ?thesis
        by (simp add: str_field_def take_record_def rec_of_def job_of_def Let_def)
    qed
  qed
qed

lemma queued_listing_ok:
  assumes "queue_wf q"
  shows "listing_ok (iter_records (queued q))"
    "list_all (\<lambda>e. key_ok (snd e)) (iter_records (queued q))"
proof -
  have k: "key_ok k" if "(t, k) \<in> set (iter_records (queued q))" for t k
  proof -
    from iter_records_sound[OF that] obtain f where "(k, f) \<in> set (queued q)" by auto
    from queue_wfD(4)[OF assms this] show ?thesis using queued_entry_okD by blast
  qed
  then show "list_all (\<lambda>e. key_ok (snd e)) (iter_records (queued q))"
    by (auto simp: list_all_iff)
  show "listing_ok (iter_records (queued q))"
    using iter_records_tenant k by (auto simp: list_all_iff listing_ok_def)
qed

lemma claimed_key_dir:
  assumes "queue_wf q" "(t, k) \<in> set (iter_records (claimed q))"
  shows "tenant_dir t = Inr (fst k)"
proof -
  from iter_records_sound[OF assms(2)] obtain f where "(k, f) \<in> set (claimed q)" by auto
  from queue_wfD(5)[OF assms(1) this] obtain t' j' c' where "claimed_path t' j' c' = Inr k"
    by (rule claimed_entry_okD)
  with iter_records_sound[OF assms(2)] show ?thesis
    by (cases "fst k") (auto simp: claimed_path_Inr tenant_dir_Inr)
qed

lemma claimed_listing_ok: "queue_wf q \<Longrightarrow> listing_ok (iter_records (claimed q))"
  using claimed_key_dir by (auto simp: listing_ok_def list_all_iff)

lemma claim_eq:
  assumes "queue_wf q" "claim_id_ok c" "w \<noteq> []"
  shows "claim no_faults now ttl w c q =
    (case find (is_queued q) (iter_records (queued q)) of
       Some e \<Rightarrow> map_prod id (map_sum id Some) (take_record False now ttl w c q e)
     | None \<Rightarrow> (case find (is_expired now q) (iter_records (claimed q)) of
                  Some e \<Rightarrow> map_prod id (map_sum id Some) (take_record True now ttl w c q e)
                | None \<Rightarrow> (q, Inr None)))"
  unfolding claim_def
    claim_from_queued_find[OF assms queued_listing_ok[OF assms(1)]]
    claim_from_expired_find[OF assms claimed_listing_ok[OF assms(1)]]
  by (simp add: take_record_def Let_def split: option.splits)

section \<open>The laws of the operations\<close>

lemma find_SomeD: "find P xs = Some x \<Longrightarrow> x \<in> set xs \<and> P x"
  by (induction xs) (auto split: if_splits)

text \<open>What a successful take is, from either directory.\<close>

definition takes ::
  "bool \<Rightarrow> int \<Rightarrow> int \<Rightarrow> str \<Rightarrow> str \<Rightarrow> fqueue \<Rightarrow> fqueue \<Rightarrow> queue_claim \<Rightarrow> qkey \<Rightarrow> bool" where
  "takes b now ttl w c q q' cl k =
     (\<exists>t j r. tenant_dir t = Inr (fst k) \<and> claimed_path t j c = Inr (fst k, j @ ''__'' @ c) \<and>
        dict_get (if b then claimed q else queued q) k = Some (QRec r) \<and>
        (if b then q_job_id r = Some j \<and>
                   (\<exists>l. q_lease_expires_at r = Some (IsoTime l) \<and> l \<le> now) else snd k = j) \<and>
        q' = moved b k (fst k, j @ ''__'' @ c) (leased now ttl w c t j r) q \<and>
        cl = claim_of now ttl w c t j r)"

lemma take_record_takes:
  assumes wf: "queue_wf q" and c: "claim_id_ok c"
    and e: "e \<in> set (iter_records (if b then claimed q else queued q))"
      "if b then is_expired now q e else is_queued q e"
    and res: "take_record b now ttl w c q e = (q', Inr cl)"
  shows "takes b now ttl w c q q' cl (snd e)"
proof (cases b)
  case True
  obtain t k where tk: "e = (t, k)" by (cases e)
  from e(2) True tk obtain f where f: "dict_get (claimed q) k = Some f"
    by (auto simp: is_expired_def split: option.splits)
  obtain r t' j c' l where r: "f = QRec r" "q_job_id r = Some j"
      "q_lease_expires_at r = Some (IsoTime l)" "claimed_path t' j c' = Inr k"
    by (rule claimed_file[OF wf f])
  have dir: "tenant_dir t = Inr (fst k)"
    using claimed_key_dir[OF wf] e(1) tk True by simp
  from r(4) have j: "assert_safe_segment j = Inr ()" by (auto simp: claimed_path_Inr)
  have "claimed_path t j c = Inr (fst k, j @ ''__'' @ c)"
    using j dir c by (auto simp: claimed_path_Inr claim_id_ok_def)
  moreover have "l \<le> now" using e(2) True tk f r by (simp add: is_expired_def rec_of_def)
  ultimately show ?thesis
    unfolding takes_def using res True tk f r dir
    by (intro exI[of _ t] exI[of _ j] exI[of _ r])
       (simp add: take_record_def Let_def rec_of_def job_of_def str_field_def)
next
  case False
  obtain t k where tk: "e = (t, k)" by (cases e)
  from e(2) False tk obtain f where f: "dict_get (queued q) k = Some f"
    by (auto simp: is_queued_def)
  from queued_file[OF wf f] obtain r where r: "f = QRec r" and k: "key_ok k" by blast
  have dir: "tenant_dir t = Inr (fst k)"
    using queued_listing_ok(1)[OF wf] e(1) tk False
    by (fastforce simp: listing_ok_def list_all_iff)
  have "claimed_path t (snd k) c = Inr (fst k, snd k @ ''__'' @ c)"
    using k dir c by (auto simp: claimed_path_Inr claim_id_ok_def key_ok_def)
  then show ?thesis
    unfolding takes_def using res False tk f r dir
    by (intro exI[of _ t] exI[of _ "snd k"] exI[of _ r])
       (simp add: take_record_def Let_def rec_of_def)
qed

lemma claim_cases:
  assumes wf: "queue_wf q" and c: "claim_id_ok c" and w: "w \<noteq> []"
    and res: "claim no_faults now ttl w c q = (q', out)"
  obtains (idle) "q' = q" "out = Inr None" "find (is_queued q) (iter_records (queued q)) = None"
      "find (is_expired now q) (iter_records (claimed q)) = None"
  | (queued) cl k where "out = Inr (Some cl)" "takes False now ttl w c q q' cl k"
  | (expired) cl k where "out = Inr (Some cl)" "takes True now ttl w c q q' cl k"
      "find (is_queued q) (iter_records (queued q)) = None"
proof (cases "find (is_queued q) (iter_records (queued q))")
  case (Some e)
  obtain cl where t: "take_record False now ttl w c q e = (q', Inr cl)" "out = Inr (Some cl)"
    using res unfolding claim_eq[OF wf c w] Some by (auto simp: take_record_def Let_def)
  from take_record_takes[OF wf c _ _ t(1)] find_SomeD[OF Some] t(2) queued show thesis by simp
next
  case None
  show thesis
  proof (cases "find (is_expired now q) (iter_records (claimed q))")
    case (Some e)
    obtain cl where t: "take_record True now ttl w c q e = (q', Inr cl)" "out = Inr (Some cl)"
      using res None unfolding claim_eq[OF wf c w] Some by (auto simp: take_record_def Let_def)
    from take_record_takes[OF wf c _ _ t(1)] find_SomeD[OF Some] t(2) expired None
    show thesis by simp
  next
    case None2: None
    with res None show thesis unfolding claim_eq[OF wf c w] using idle by simp
  qed
qed

lemma takes_wf: "queue_wf q \<Longrightarrow> claim_id_ok c \<Longrightarrow> takes b now ttl w c q q' cl k \<Longrightarrow> queue_wf q'"
  unfolding takes_def using moved_wf by blast

lemma takes_tracked:
  assumes "queue_wf q" "claim_id_ok c" "takes b now ttl w c q q' cl k"
  shows "tracked_jobs q' = tracked_jobs q"
proof -
  from assms(3) obtain t j r where *: "claimed_path t j c = Inr (fst k, j @ ''__'' @ c)"
      "dict_get (if b then claimed q else queued q) k = Some (QRec r)"
      "if b then q_job_id r = Some j else snd k = j"
      "q' = moved b k (fst k, j @ ''__'' @ c) (leased now ttl w c t j r) q"
    unfolding takes_def by (auto split: if_splits)
  show ?thesis
    unfolding *(4) by (rule moved_tracked[OF assms(1,2) *(1,2)]) (use *(3) in auto)
qed

definition claim_key :: "queue_claim \<Rightarrow> str option \<times> str" where
  "claim_key cl = ((if qc_tenant_id cl = DEFAULT_TENANT_ID then None else Some (qc_tenant_id cl)),
                   qc_job_id cl)"

lemma claim_key_dir: "tenant_dir (qc_tenant_id cl) = Inr d \<Longrightarrow> claim_key cl = (d, qc_job_id cl)"
  by (auto simp: claim_key_def tenant_dir_Inr)

lemma takes_job:
  assumes "queue_wf q" "takes b now ttl w c q q' cl k"
  shows "claim_key cl \<in> tracked_jobs q \<and> qc_claim_id cl = c"
proof -
  from assms(2) obtain t j r where *: "tenant_dir t = Inr (fst k)"
      "dict_get (if b then claimed q else queued q) k = Some (QRec r)"
      "if b then q_job_id r = Some j else snd k = j" "cl = claim_of now ttl w c t j r"
    unfolding takes_def by (auto split: if_splits)
  have ck: "claim_key cl = (fst k, j)"
    using claim_key_dir[of cl "fst k"] *(1,4) by (simp add: claim_of_def)
  have "(fst k, j) \<in> tracked_jobs q"
  proof (cases b)
    case True
    then show ?thesis
      using jobs_in_memI[OF dict_get_in, of "claimed q" k r j] *(2,3) by (simp add: tracked_jobs_alt)
  next
    case False
    then show ?thesis
      using dict_get_in[of "queued q" k "QRec r"] *(2,3)
      by (cases k) (auto simp: tracked_jobs_alt intro: image_eqI[rotated])
  qed
  with ck *(4) show ?thesis by (simp add: claim_of_def)
qed

lemma claim_keeps:
  assumes "queue_wf q" "claim_id_ok c" "w \<noteq> []"
  shows "queue_wf (fst (claim no_faults now ttl w c q)) \<and>
         tracked_jobs (fst (claim no_faults now ttl w c q)) = tracked_jobs q"
proof (cases "claim no_faults now ttl w c q")
  case (Pair q' out)
  show ?thesis
    by (rule claim_cases[OF assms Pair])
       (use Pair takes_wf[OF assms(1,2)] takes_tracked[OF assms(1,2)] assms(1) in auto)
qed

lemma claim_gives_tracked:
  assumes "queue_wf q" "claim_id_ok c" "w \<noteq> []"
    and "claim no_faults now ttl w c q = (q', Inr (Some cl))"
  shows "claim_key cl \<in> tracked_jobs q \<and> qc_claim_id cl = c"
  by (rule claim_cases[OF assms]) (use takes_job[OF assms(1)] in auto)

lemma enqueue_keeps:
  assumes wf: "queue_wf q" and p: "queued_path t j = Inr k"
  shows "queue_wf (fst (enqueue EnqueueOk now t j tp q)) \<and>
         tracked_jobs (fst (enqueue EnqueueOk now t j tp q)) = insert k (tracked_jobs q)"
proof (cases "dict_get (queued q) k")
  case None
  from None wf p show ?thesis
    by (auto simp: enqueue_def queue_wf_def list_all_dict_set queued_path_key_ok tracked_jobs_alt
        fst_dict_set)
next
  case (Some f)
  then have "k \<in> fst ` set (queued q)" using dict_get_in[OF Some] by force
  with Some p wf show ?thesis by (auto simp: enqueue_def tracked_jobs_alt)
qed

lemma ack_keeps:
  assumes wf: "queue_wf q" and c: "claim_id_ok (qc_claim_id cl)"
  shows "queue_wf (fst (ack no_faults cl q)) \<and>
         tracked_jobs q - {claim_key cl} \<subseteq> tracked_jobs (fst (ack no_faults cl q)) \<and>
         tracked_jobs (fst (ack no_faults cl q)) \<subseteq> tracked_jobs q"
proof (cases "claimed_path (qc_tenant_id cl) (qc_job_id cl) (qc_claim_id cl)")
  case (Inl e)
  with wf show ?thesis by (auto simp: ack_def)
next
  case (Inr k)
  note W = queue_wfD[OF wf]
  have dir: "tenant_dir (qc_tenant_id cl) = Inr (fst k)" using Inr by (auto simp: claimed_path_Inr)
  have job: "set (claimed_job e) = {claim_key cl}" if "e \<in> set (claimed q)" "fst e = k" for e
    using claimed_entry_jobs[of k "snd e", OF _ Inr] W(5)[OF that(1)] that(2) c
      claim_key_dir[OF dir] by (metis prod.collapse claim_id_ok_def)
  have "jobs_in (claimed q) \<subseteq> insert (claim_key cl) (jobs_in (dict_del (claimed q) k))"
    unfolding jobs_in_def set_dict_del[OF W(2)] using job by blast
  then show ?thesis
    using wf Inr jobs_in_del_subset[of "claimed q" k]
    by (auto simp: ack_def no_faults_def tracked_jobs_alt queue_wf_def list_all_dict_del)
qed

lemma release_keeps:
  assumes wf: "queue_wf q" and c: "claim_id_ok (qc_claim_id cl)"
  shows "queue_wf (fst (release no_faults cl q)) \<and>
         tracked_jobs (fst (release no_faults cl q)) = tracked_jobs q"
proof (cases "claimed_path (qc_tenant_id cl) (qc_job_id cl) (qc_claim_id cl)")
  case (Inl e)
  with wf show ?thesis by (simp add: release_def)
next
  case (Inr k)
  note W = queue_wfD[OF wf]
  have dir: "tenant_dir (qc_tenant_id cl) = Inr (fst k)" using Inr by (auto simp: claimed_path_Inr)
  define tgt where "tgt = (fst k, qc_job_id cl)"
  have qp: "queued_path (qc_tenant_id cl) (qc_job_id cl) = Inr tgt"
    using Inr by (auto simp: claimed_path_Inr queued_path_Inr tgt_def)
  show ?thesis
  proof (cases "dict_get (claimed q) k")
    case None
    with Inr qp wf show ?thesis by (simp add: release_def)
  next
    case (Some f)
    obtain r where r: "f = QRec r" by (rule claimed_file[OF wf Some])
    have j: "q_job_id r = Some (qc_job_id cl)"
      using claimed_entry_job[OF _ Inr] W(5)[OF dict_get_in[OF Some]] r c
      by (simp add: claim_id_ok_def)
    have del: "insert tgt (jobs_in (dict_del (claimed q) k)) = jobs_in (claimed q)"
      unfolding tgt_def using jobs_in_del[OF W(2) _ j] dict_get_in[OF Some] r by simp
    show ?thesis
    proof (cases "dict_get (queued q) tgt")
      case (Some g)
      then have "tgt \<in> fst ` set (queued q)" using dict_get_in[OF Some] by force
      then show ?thesis
        using Inr qp \<open>dict_get (claimed q) k = Some f\<close> Some wf del
        by (auto simp: release_def no_faults_def queue_wf_def list_all_dict_del tracked_jobs_alt)
    next
      case None
      have "fst ` set (dict_set (queued q) tgt f) = insert tgt (fst ` set (queued q))"
        by (rule fst_dict_set)
      then show ?thesis
        using Inr qp Some None wf del queued_path_key_ok[OF qp] r
        by (auto simp: release_def no_faults_def queue_wf_def list_all_dict_del list_all_dict_set
            tracked_jobs_alt)
    qed
  qed
qed

end
