(* ===== verification/QueueContract.thy ===== *)
theory QueueContract
  imports QueueLaws
begin

text \<open>
  The contract of the worker queue (the protocol \<open>WorkerQueue\<close> of domain/worker_queue.py): a job that
  entered the queue stays tracked until it is acknowledged, and while a lease runs no other worker
  is given its job. Both are stated as locales over the four operations, proved once for any
  sequence of operations, and interpreted on the file queue.
\<close>

section \<open>Sequences of queue operations\<close>

datatype ('e, 'p, 'c) queue_op = Enq 'e | Clm 'p | Ack 'c | Rel 'c

fun exec_op ::
  "('e \<Rightarrow> 'q \<Rightarrow> 'q) \<Rightarrow> ('p \<Rightarrow> 'q \<Rightarrow> 'q \<times> 'c option) \<Rightarrow> ('c \<Rightarrow> 'q \<Rightarrow> 'q) \<Rightarrow> ('c \<Rightarrow> 'q \<Rightarrow> 'q)
   \<Rightarrow> ('e, 'p, 'c) queue_op \<Rightarrow> 'q \<Rightarrow> 'q" where
  "exec_op enq clm ackn rel (Enq e) q = enq e q"
| "exec_op enq clm ackn rel (Clm p) q = fst (clm p q)"
| "exec_op enq clm ackn rel (Ack c) q = ackn c q"
| "exec_op enq clm ackn rel (Rel c) q = rel c q"

text \<open>The side conditions on one operation: its arguments are legal, it does not acknowledge the job
  \<open>k\<close>, it enqueues the job \<open>k\<close>, it leaves alone a job \<open>k\<close> whose lease ends at \<open>l\<close>.\<close>

fun legal_op ::
  "('e \<Rightarrow> bool) \<Rightarrow> ('p \<Rightarrow> bool) \<Rightarrow> ('c \<Rightarrow> bool) \<Rightarrow> ('e, 'p, 'c) queue_op \<Rightarrow> bool" where
  "legal_op eo po co (Enq e) = eo e"
| "legal_op eo po co (Clm p) = po p"
| "legal_op eo po co (Ack c) = co c"
| "legal_op eo po co (Rel c) = co c"

fun spares_op :: "('c \<Rightarrow> 'k) \<Rightarrow> 'k \<Rightarrow> ('e, 'p, 'c) queue_op \<Rightarrow> bool" where
  "spares_op kc k (Ack c) = (kc c \<noteq> k)"
| "spares_op kc k _ = True"

fun adds_op :: "('e \<Rightarrow> 'k) \<Rightarrow> 'k \<Rightarrow> ('e, 'p, 'c) queue_op \<Rightarrow> bool" where
  "adds_op ke k (Enq e) = (ke e = k)"
| "adds_op ke k _ = False"

fun foreign_op ::
  "('e \<Rightarrow> 'k) \<Rightarrow> ('p \<Rightarrow> int) \<Rightarrow> ('c \<Rightarrow> 'k) \<Rightarrow> 'k \<Rightarrow> int \<Rightarrow> ('e, 'p, 'c) queue_op \<Rightarrow> bool" where
  "foreign_op ke time kc k l (Enq e) = (ke e \<noteq> k)"
| "foreign_op ke time kc k l (Clm p) = (time p < l)"
| "foreign_op ke time kc k l (Ack c) = (kc c \<noteq> k)"
| "foreign_op ke time kc k l (Rel c) = (kc c \<noteq> k)"

section \<open>The interface: nothing is lost\<close>

locale job_queue =
  fixes inv :: "'q \<Rightarrow> bool" and tracked :: "'q \<Rightarrow> 'k set"
    and enq :: "'e \<Rightarrow> 'q \<Rightarrow> 'q" and clm :: "'p \<Rightarrow> 'q \<Rightarrow> 'q \<times> 'c option"
    and ackn :: "'c \<Rightarrow> 'q \<Rightarrow> 'q" and rel :: "'c \<Rightarrow> 'q \<Rightarrow> 'q"
    and key_of :: "'e \<Rightarrow> 'k" and key_of_claim :: "'c \<Rightarrow> 'k"
    and enq_ok :: "'e \<Rightarrow> bool" and clm_ok :: "'p \<Rightarrow> bool" and claim_ok :: "'c \<Rightarrow> bool"
  assumes inv_enq: "inv q \<Longrightarrow> enq_ok e \<Longrightarrow> inv (enq e q)"
    and inv_clm: "inv q \<Longrightarrow> clm_ok p \<Longrightarrow> inv (fst (clm p q))"
    and inv_ack: "inv q \<Longrightarrow> claim_ok c \<Longrightarrow> inv (ackn c q)"
    and inv_rel: "inv q \<Longrightarrow> claim_ok c \<Longrightarrow> inv (rel c q)"
    and tracked_enq: "inv q \<Longrightarrow> enq_ok e \<Longrightarrow> tracked (enq e q) = insert (key_of e) (tracked q)"
    and tracked_clm: "inv q \<Longrightarrow> clm_ok p \<Longrightarrow> tracked (fst (clm p q)) = tracked q"
    and tracked_ack: "inv q \<Longrightarrow> claim_ok c \<Longrightarrow> tracked q - {key_of_claim c} \<subseteq> tracked (ackn c q)"
    and tracked_ack_le: "inv q \<Longrightarrow> claim_ok c \<Longrightarrow> tracked (ackn c q) \<subseteq> tracked q"
    and tracked_rel: "inv q \<Longrightarrow> claim_ok c \<Longrightarrow> tracked (rel c q) = tracked q"
    and clm_tracked: "inv q \<Longrightarrow> clm_ok p \<Longrightarrow> clm p q = (q', Some c) \<Longrightarrow>
                      key_of_claim c \<in> tracked q \<and> claim_ok c"
begin

abbreviation op_ok :: "('e, 'p, 'c) queue_op \<Rightarrow> bool" where
  "op_ok \<equiv> legal_op enq_ok clm_ok claim_ok"

abbreviation keeps :: "'k \<Rightarrow> ('e, 'p, 'c) queue_op \<Rightarrow> bool" where
  "keeps \<equiv> spares_op key_of_claim"

abbreviation adds :: "'k \<Rightarrow> ('e, 'p, 'c) queue_op \<Rightarrow> bool" where
  "adds \<equiv> adds_op key_of"

abbreviation run :: "('e, 'p, 'c) queue_op list \<Rightarrow> 'q \<Rightarrow> 'q" where
  "run ops \<equiv> fold (exec_op enq clm ackn rel) ops"

lemma op_inv: "inv q \<Longrightarrow> op_ok x \<Longrightarrow> inv (exec_op enq clm ackn rel x q)"
  by (cases x) (simp_all add: inv_enq inv_clm inv_ack inv_rel)

lemma op_keeps:
  "inv q \<Longrightarrow> op_ok x \<Longrightarrow> keeps k x \<Longrightarrow> k \<in> tracked q \<Longrightarrow> k \<in> tracked (exec_op enq clm ackn rel x q)"
  using tracked_ack[of q] by (cases x) (auto simp: tracked_enq tracked_clm tracked_rel)

lemma op_only_enq_adds:
  "inv q \<Longrightarrow> op_ok x \<Longrightarrow> \<not> adds k x \<Longrightarrow> k \<in> tracked (exec_op enq clm ackn rel x q) \<Longrightarrow> k \<in> tracked q"
  using tracked_ack_le[of q]
  by (cases x) (auto simp: tracked_enq tracked_clm tracked_rel)

lemma run_inv: "inv q \<Longrightarrow> list_all op_ok ops \<Longrightarrow> inv (run ops q)"
  by (induction ops arbitrary: q) (simp_all add: op_inv)

theorem run_keeps:
  "inv q \<Longrightarrow> list_all op_ok ops \<Longrightarrow> list_all (keeps k) ops \<Longrightarrow> k \<in> tracked q \<Longrightarrow> k \<in> tracked (run ops q)"
  by (induction ops arbitrary: q) (simp_all add: op_inv op_keeps)

theorem run_no_invention:
  "inv q \<Longrightarrow> list_all op_ok ops \<Longrightarrow> \<not> list_ex (adds k) ops \<Longrightarrow> k \<in> tracked (run ops q) \<Longrightarrow> k \<in> tracked q"
proof (induction ops arbitrary: q)
  case Nil
  then show ?case by simp
next
  case (Cons x ops)
  then have "k \<in> tracked (exec_op enq clm ackn rel x q)"
    using Cons.IH[of "exec_op enq clm ackn rel x q"] by (simp add: op_inv)
  with Cons.prems show ?case by (intro op_only_enq_adds[of q x k]) simp_all
qed

end

section \<open>The interface: a running lease is exclusive\<close>

locale leased_queue = job_queue inv tracked enq clm ackn rel key_of key_of_claim enq_ok clm_ok claim_ok
  for inv :: "'q \<Rightarrow> bool" and tracked :: "'q \<Rightarrow> 'k set"
    and enq :: "'e \<Rightarrow> 'q \<Rightarrow> 'q" and clm :: "'p \<Rightarrow> 'q \<Rightarrow> 'q \<times> 'c option"
    and ackn :: "'c \<Rightarrow> 'q \<Rightarrow> 'q" and rel :: "'c \<Rightarrow> 'q \<Rightarrow> 'q"
    and key_of :: "'e \<Rightarrow> 'k" and key_of_claim :: "'c \<Rightarrow> 'k"
    and enq_ok :: "'e \<Rightarrow> bool" and clm_ok :: "'p \<Rightarrow> bool" and claim_ok :: "'c \<Rightarrow> bool" +
  fixes held :: "'c \<Rightarrow> 'q \<Rightarrow> bool" and expiry :: "'c \<Rightarrow> int" and time_of :: "'p \<Rightarrow> int"
    and single :: "'q \<Rightarrow> bool"
  assumes held_clm: "inv q \<Longrightarrow> clm_ok p \<Longrightarrow> held c q \<Longrightarrow> time_of p < expiry c \<Longrightarrow> held c (fst (clm p q))"
    and held_excl: "inv q \<Longrightarrow> clm_ok p \<Longrightarrow> held c q \<Longrightarrow> time_of p < expiry c \<Longrightarrow>
                    clm p q = (q', Some c') \<Longrightarrow> key_of_claim c' \<noteq> key_of_claim c"
    and held_enq: "inv q \<Longrightarrow> enq_ok e \<Longrightarrow> held c q \<Longrightarrow> key_of e \<noteq> key_of_claim c \<Longrightarrow> held c (enq e q)"
    and held_ack: "inv q \<Longrightarrow> claim_ok c' \<Longrightarrow> held c q \<Longrightarrow> key_of_claim c' \<noteq> key_of_claim c \<Longrightarrow> held c (ackn c' q)"
    and held_rel: "inv q \<Longrightarrow> claim_ok c' \<Longrightarrow> held c q \<Longrightarrow> key_of_claim c' \<noteq> key_of_claim c \<Longrightarrow> held c (rel c' q)"
    and clm_held: "inv q \<Longrightarrow> single q \<Longrightarrow> clm_ok p \<Longrightarrow> clm p q = (q', Some c) \<Longrightarrow> held c q'"
begin

text \<open>Operations that do not touch the job of \<open>c\<close>, all before the lease of \<open>c\<close> runs out.\<close>

abbreviation foreign :: "'c \<Rightarrow> ('e, 'p, 'c) queue_op \<Rightarrow> bool" where
  "foreign c \<equiv> foreign_op key_of time_of key_of_claim (key_of_claim c) (expiry c)"

lemma op_held: "inv q \<Longrightarrow> op_ok x \<Longrightarrow> foreign c x \<Longrightarrow> held c q \<Longrightarrow> held c (exec_op enq clm ackn rel x q)"
  by (cases x) (auto simp: held_clm held_enq held_ack held_rel)

lemma run_held:
  "inv q \<Longrightarrow> list_all op_ok ops \<Longrightarrow> list_all (foreign c) ops \<Longrightarrow> held c q \<Longrightarrow> held c (run ops q)"
  by (induction ops arbitrary: q) (simp_all add: op_inv op_held)

theorem lease_exclusive:
  assumes "inv q" "single q" "clm_ok p" "clm p q = (q', Some c)"
    and "list_all op_ok ops" "list_all (foreign c) ops"
    and "clm_ok p'" "time_of p' < expiry c" "clm p' (run ops q') = (q'', Some c')"
  shows "key_of_claim c' \<noteq> key_of_claim c"
proof -
  have i: "inv q'" using inv_clm[OF assms(1,3)] assms(4) by simp
  then have "held c (run ops q')" by (intro run_held assms clm_held[OF assms(1-4)])
  with run_inv[OF i assms(5)] assms(7-9) show ?thesis using held_excl by blast
qed

end

section \<open>The file queue implements both interfaces\<close>

text \<open>The arguments of the operations: (now, tenant, job, traceparent) of an enqueue and
  (now, ttl, worker, claim id) of a claim.\<close>

type_synonym enq_args = "int \<times> str \<times> str \<times> str option"
type_synonym clm_args = "int \<times> int \<times> str \<times> str"
type_synonym fq_op = "(enq_args, clm_args, queue_claim) queue_op"

fun fq_enq :: "enq_args \<Rightarrow> fqueue \<Rightarrow> fqueue" where
  "fq_enq (now, t, j, tp) q = fst (enqueue EnqueueOk now t j tp q)"

fun fq_clm :: "clm_args \<Rightarrow> fqueue \<Rightarrow> fqueue \<times> queue_claim option" where
  "fq_clm (now, ttl, w, c) q =
     (case claim no_faults now ttl w c q of
        (q', Inr (Some cl)) \<Rightarrow> (q', Some cl)
      | (q', _) \<Rightarrow> (q', None))"

definition fq_ack :: "queue_claim \<Rightarrow> fqueue \<Rightarrow> fqueue" where
  "fq_ack cl q = fst (ack no_faults cl q)"

definition fq_rel :: "queue_claim \<Rightarrow> fqueue \<Rightarrow> fqueue" where
  "fq_rel cl q = fst (release no_faults cl q)"

fun enq_key :: "enq_args \<Rightarrow> qkey" where
  "enq_key (now, t, j, tp) = (case queued_path t j of Inr k \<Rightarrow> k | Inl _ \<Rightarrow> (None, []))"

fun enq_args_ok :: "enq_args \<Rightarrow> bool" where
  "enq_args_ok (now, t, j, tp) = (case queued_path t j of Inr _ \<Rightarrow> True | Inl _ \<Rightarrow> False)"

fun clm_args_ok :: "clm_args \<Rightarrow> bool" where
  "clm_args_ok (now, ttl, w, c) = (claim_id_ok c \<and> w \<noteq> [])"

definition ack_ok :: "queue_claim \<Rightarrow> bool" where
  "ack_ok cl = claim_id_ok (qc_claim_id cl)"

fun clm_time :: "clm_args \<Rightarrow> int" where
  "clm_time (now, ttl, w, c) = now"

lemma fst_fq_clm: "fst (fq_clm (now, ttl, w, c) q) = fst (claim no_faults now ttl w c q)"
  by (auto split: prod.splits sum.splits option.splits)

lemma fq_clm_Some:
  "fq_clm (now, ttl, w, c) q = (q', Some cl) \<longleftrightarrow> claim no_faults now ttl w c q = (q', Inr (Some cl))"
  by (auto split: prod.splits sum.splits option.splits)

interpretation fq: job_queue queue_wf tracked_jobs fq_enq fq_clm fq_ack fq_rel enq_key claim_key
  enq_args_ok clm_args_ok ack_ok
proof (unfold_locales, goal_cases)
  case (1 q e)
  then show ?case using enqueue_keeps by (cases e) (auto split: sum.splits)
next
  case (2 q p)
  then show ?case using claim_keeps by (cases p) (simp add: fst_fq_clm del: fq_clm.simps)
next
  case (3 q c)
  then show ?case using ack_keeps by (simp add: fq_ack_def ack_ok_def)
next
  case (4 q c)
  then show ?case using release_keeps by (simp add: fq_rel_def ack_ok_def)
next
  case (5 q e)
  then show ?case using enqueue_keeps by (cases e) (auto split: sum.splits)
next
  case (6 q p)
  then show ?case using claim_keeps by (cases p) (simp add: fst_fq_clm del: fq_clm.simps)
next
  case (7 q c)
  then show ?case using ack_keeps by (simp add: fq_ack_def ack_ok_def)
next
  case (8 q c)
  then show ?case using ack_keeps by (simp add: fq_ack_def ack_ok_def)
next
  case (9 q c)
  then show ?case using release_keeps by (simp add: fq_rel_def ack_ok_def)
next
  case (10 q p q' c)
  then show ?case
    using claim_gives_tracked by (cases p) (auto simp: fq_clm_Some ack_ok_def simp del: fq_clm.simps)
qed

text \<open>A claim is held: its file is in place with its lease, and nothing else stands for its job.\<close>

definition held_claim :: "queue_claim \<Rightarrow> fqueue \<Rightarrow> bool" where
  "held_claim cl q =
     (claim_id_ok (qc_claim_id cl) \<and>
      (\<exists>k r. claimed_path (qc_tenant_id cl) (qc_job_id cl) (qc_claim_id cl) = Inr k \<and>
         dict_get (claimed q) k = Some (QRec r) \<and>
         q_lease_expires_at r = Some (IsoTime (qc_lease_expires_at cl)) \<and>
         claim_key cl \<notin> fst ` set (queued q) \<and>
         (\<forall>e\<in>set (claimed q). claim_key cl \<in> set (claimed_job e) \<longrightarrow> fst e = k)))"

text \<open>Every job stands in the queue once.\<close>

definition single_jobs :: "fqueue \<Rightarrow> bool" where
  "single_jobs q =
     (\<forall>e\<in>set (claimed q). \<forall>x\<in>set (claimed_job e). x \<notin> fst ` set (queued q) \<and>
        (\<forall>e'\<in>set (claimed q). x \<in> set (claimed_job e') \<longrightarrow> e' = e))"

lemma single_jobsD:
  assumes "single_jobs q" "e \<in> set (claimed q)" "x \<in> set (claimed_job e)"
  shows "x \<notin> fst ` set (queued q)"
    "\<And>e'. e' \<in> set (claimed q) \<Longrightarrow> x \<in> set (claimed_job e') \<Longrightarrow> e' = e"
  using assms unfolding single_jobs_def by blast+

lemma takes_key:
  assumes "takes b now ttl w c q q' cl k"
  obtains t j r where "claim_key cl = (fst k, j)" "claimed_path t j c = Inr (fst k, j @ ''__'' @ c)"
    "dict_get (if b then claimed q else queued q) k = Some (QRec r)"
    "if b then q_job_id r = Some j \<and> (\<exists>l. q_lease_expires_at r = Some (IsoTime l) \<and> l \<le> now)
     else snd k = j"
    "q' = moved b k (fst k, j @ ''__'' @ c) (leased now ttl w c t j r) q"
    "cl = claim_of now ttl w c t j r"
proof -
  from assms obtain t j r where *: "tenant_dir t = Inr (fst k)"
      "claimed_path t j c = Inr (fst k, j @ ''__'' @ c)"
      "dict_get (if b then claimed q else queued q) k = Some (QRec r)"
      "if b then q_job_id r = Some j \<and> (\<exists>l. q_lease_expires_at r = Some (IsoTime l) \<and> l \<le> now)
       else snd k = j"
      "q' = moved b k (fst k, j @ ''__'' @ c) (leased now ttl w c t j r) q"
      "cl = claim_of now ttl w c t j r"
    unfolding takes_def by blast
  have "claim_key cl = (fst k, j)"
    using claim_key_dir[of cl "fst k"] *(1,6) by (simp add: claim_of_def)
  with * that show thesis by blast
qed

lemma moved_claimed_mem:
  assumes "e \<in> set (claimed (moved b k target r q))" "queue_wf q"
  shows "e = (target, QRec r) \<or> (e \<in> set (claimed q) \<and> (b \<longrightarrow> fst e \<noteq> k))"
  using assms set_dict_set[of "dict_del (claimed q) k" target "QRec r"]
    set_dict_set[of "claimed q" target "QRec r"] queue_wfD(2)[OF assms(2)]
  by (cases b) (auto simp: moved_def Let_def set_dict_del)

lemma moved_queued_mem:
  assumes "x \<in> fst ` set (queued (moved b k target r q))" "queue_wf q"
  shows "x \<in> fst ` set (queued q) \<and> (b \<or> x \<noteq> k)"
  using assms fst_dict_del[OF queue_wfD(1)[OF assms(2)], of k]
  by (cases b) (auto simp: moved_def Let_def)

lemma taken_job:
  assumes "dict_get (if b then claimed q else queued q) k = Some (QRec r)"
    and "if b then q_job_id r = Some j \<and> (\<exists>l. q_lease_expires_at r = Some (IsoTime l) \<and> l \<le> now)
         else snd k = j"
  shows "if b then (k, QRec r) \<in> set (claimed q) \<and> (fst k, j) \<in> set (claimed_job (k, QRec r))
         else (fst k, j) \<in> fst ` set (queued q)"
  using assms dict_get_in[of "claimed q" k] dict_get_in[of "queued q" k]
  by (cases b) (force simp: image_iff)+

lemma moved_held:
  assumes wf: "queue_wf q" and c: "claim_id_ok c" and h: "held_claim cl q"
    and live: "now < qc_lease_expires_at cl" and t: "takes b now ttl w c q q' cl' k'"
  shows "claim_key cl' \<noteq> claim_key cl \<and> held_claim cl q'"
proof -
  from h obtain k r where H: "claim_id_ok (qc_claim_id cl)"
      "claimed_path (qc_tenant_id cl) (qc_job_id cl) (qc_claim_id cl) = Inr k"
      "dict_get (claimed q) k = Some (QRec r)"
      "q_lease_expires_at r = Some (IsoTime (qc_lease_expires_at cl))"
      "claim_key cl \<notin> fst ` set (queued q)"
      "\<forall>e\<in>set (claimed q). claim_key cl \<in> set (claimed_job e) \<longrightarrow> fst e = k"
    unfolding held_claim_def by blast
  from t obtain t' j' r' where T: "claim_key cl' = (fst k', j')"
      "claimed_path t' j' c = Inr (fst k', j' @ ''__'' @ c)"
      "dict_get (if b then claimed q else queued q) k' = Some (QRec r')"
      "if b then q_job_id r' = Some j' \<and> (\<exists>l. q_lease_expires_at r' = Some (IsoTime l) \<and> l \<le> now)
       else snd k' = j'"
      "q' = moved b k' (fst k', j' @ ''__'' @ c) (leased now ttl w c t' j' r') q"
    by (rule takes_key)
  have src: "b \<Longrightarrow> k' \<noteq> k" using T(3,4) H(3,4) live by auto
  have other: "claim_key cl' \<noteq> claim_key cl"
  proof (cases b)
    case True
    then have "(k', QRec r') \<in> set (claimed q)" "claim_key cl' \<in> set (claimed_job (k', QRec r'))"
      using taken_job[OF T(3,4)] T(1) by simp_all
    with H(6) src[OF True] show ?thesis by fastforce
  next
    case False
    then have "claim_key cl' \<in> fst ` set (queued q)" using taken_job[OF T(3,4)] T(1) by simp
    with H(5) show ?thesis by metis
  qed
  have key: "claim_key cl = (fst k, qc_job_id cl)" "snd k = qc_job_id cl @ ''__'' @ qc_claim_id cl"
    using H(2) claim_key_dir[of cl] by (auto simp: claimed_path_Inr)
  have tgt: "(fst k', j' @ ''__'' @ c) \<noteq> k"
  proof
    assume eq: "(fst k', j' @ ''__'' @ c) = k"
    have f: "fst k' = fst k" using arg_cong[OF eq, of fst] by (simp only: fst_conv)
    have "j' @ ''__'' @ c = qc_job_id cl @ ''__'' @ qc_claim_id cl"
      using arg_cong[OF eq, of snd] key(2) by (simp only: snd_conv)
    from claim_name_inj[OF this] c H(1) have "j' = qc_job_id cl" by (simp add: claim_id_ok_def)
    with f other T(1) key(1) show False by simp
  qed
  have get: "dict_get (claimed q') k = Some (QRec r)"
    using H(3) tgt src queue_wfD(2)[OF wf] unfolding T(5) by (cases b) (auto simp: moved_def Let_def)
  have job: "claimed_job ((fst k', j' @ ''__'' @ c), QRec (leased now ttl w c t' j' r')) = [claim_key cl']"
    by (simp add: T(1))
  have "claim_key cl \<notin> fst ` set (queued q')"
    using moved_queued_mem[OF _ wf] H(5) unfolding T(5) by blast
  moreover have "fst e = k" if "e \<in> set (claimed q')" "claim_key cl \<in> set (claimed_job e)" for e
    using moved_claimed_mem[OF that(1)[unfolded T(5)] wf] that(2) job other H(6) by auto
  ultimately show ?thesis using other H(1,2,4) get unfolding held_claim_def by blast
qed

lemma fresh_held:
  assumes wf: "queue_wf q" and c: "claim_id_ok c" and s: "single_jobs q"
    and t: "takes b now ttl w c q q' cl k"
  shows "held_claim cl q'"
proof -
  from t obtain t' j r where T: "claim_key cl = (fst k, j)"
      "claimed_path t' j c = Inr (fst k, j @ ''__'' @ c)"
      "dict_get (if b then claimed q else queued q) k = Some (QRec r)"
      "if b then q_job_id r = Some j \<and> (\<exists>l. q_lease_expires_at r = Some (IsoTime l) \<and> l \<le> now)
       else snd k = j"
      "q' = moved b k (fst k, j @ ''__'' @ c) (leased now ttl w c t' j r) q"
      "cl = claim_of now ttl w c t' j r"
    by (rule takes_key)
  note src = taken_job[OF T(3,4)]
  have noq: "claim_key cl \<notin> fst ` set (queued q')"
  proof
    assume "claim_key cl \<in> fst ` set (queued q')"
    then have "(fst k, j) \<in> fst ` set (queued q) \<and> (b \<or> (fst k, j) \<noteq> k)"
      using moved_queued_mem[OF _ wf] unfolding T(1,5) by blast
    note x = this
    show False
    proof (cases b)
      case True
      with src single_jobsD(1)[OF s, of "(k, QRec r)" "(fst k, j)"] x show False by simp
    next
      case False
      with T(4) x show False by (cases k) simp
    qed
  qed
  have uniq: "fst e = (fst k, j @ ''__'' @ c)"
    if e: "e \<in> set (claimed q')" "claim_key cl \<in> set (claimed_job e)" for e
  proof (rule ccontr)
    assume ne: "fst e \<noteq> (fst k, j @ ''__'' @ c)"
    then have "e \<noteq> ((fst k, j @ ''__'' @ c), QRec (leased now ttl w c t' j r))" by (metis fst_conv)
    with moved_claimed_mem[OF e(1)[unfolded T(5)] wf] have o: "e \<in> set (claimed q)" "b \<longrightarrow> fst e \<noteq> k"
      by blast+
    show False
    proof (cases b)
      case True
      with src have "(k, QRec r) \<in> set (claimed q)" "claim_key cl \<in> set (claimed_job (k, QRec r))"
        by (simp_all add: T(1))
      from single_jobsD(2)[OF s this o(1) e(2)] have "e = (k, QRec r)" .
      with o(2) True show False by simp
    next
      case False
      with src have "claim_key cl \<in> fst ` set (queued q)" by (simp add: T(1))
      with single_jobsD(1)[OF s o(1) e(2)] show False by blast
    qed
  qed
  have "dict_get (claimed q') (fst k, j @ ''__'' @ c) = Some (QRec (leased now ttl w c t' j r))"
    using queue_wfD(2)[OF wf] unfolding T(5) by (cases b) (auto simp: moved_def Let_def)
  then show ?thesis
    using noq uniq c T(2) unfolding held_claim_def by (simp add: T(6) claim_of_def)
qed

lemma held_enqueue:
  assumes "held_claim cl q" "queued_path t j = Inr k" "k \<noteq> claim_key cl"
  shows "held_claim cl (fst (enqueue EnqueueOk now t j tp q))"
  using assms by (auto simp: held_claim_def enqueue_def fst_dict_set split: option.splits)

lemma held_del:
  assumes h: "held_claim cl q" and wf: "queue_wf q"
    and k: "claimed_path (qc_tenant_id cl') (qc_job_id cl') (qc_claim_id cl') = Inr k'"
    and ok: "claim_id_ok (qc_claim_id cl')" and ne: "claim_key cl' \<noteq> claim_key cl"
    and qs: "claim_key cl \<notin> fst ` set qs"
  shows "held_claim cl (q\<lparr>queued := qs, claimed := dict_del (claimed q) k'\<rparr>)"
proof -
  from h obtain k r where H: "claim_id_ok (qc_claim_id cl)"
      "claimed_path (qc_tenant_id cl) (qc_job_id cl) (qc_claim_id cl) = Inr k"
      "dict_get (claimed q) k = Some (QRec r)"
    unfolding held_claim_def by blast
  have kk: "claim_key c = (fst x, qc_job_id c)" "snd x = qc_job_id c @ ''__'' @ qc_claim_id c"
    if "claimed_path (qc_tenant_id c) (qc_job_id c) (qc_claim_id c) = Inr x" for c x
    using that claim_key_dir[of c] by (auto simp: claimed_path_Inr)
  have "k \<noteq> k'"
  proof
    assume "k = k'"
    then have "qc_job_id cl @ ''__'' @ qc_claim_id cl = qc_job_id cl' @ ''__'' @ qc_claim_id cl'"
      using kk(2)[OF H(2)] kk(2)[OF k] by (simp only: \<open>k = k'\<close>)
    from claim_name_inj[OF this] H(1) ok have "qc_job_id cl = qc_job_id cl'"
      by (simp add: claim_id_ok_def)
    with ne kk(1)[OF H(2)] kk(1)[OF k] \<open>k = k'\<close> show False by simp
  qed
  then show ?thesis
    using h H qs queue_wfD(2)[OF wf] by (auto simp: held_claim_def set_dict_del)
qed

lemma held_ack:
  assumes h: "held_claim cl q" and wf: "queue_wf q" and ok: "claim_id_ok (qc_claim_id cl')"
    and ne: "claim_key cl' \<noteq> claim_key cl"
  shows "held_claim cl (fst (ack no_faults cl' q))"
proof (cases "claimed_path (qc_tenant_id cl') (qc_job_id cl') (qc_claim_id cl')")
  case (Inl e)
  with h show ?thesis by (simp add: ack_def)
next
  case (Inr k)
  have "claim_key cl \<notin> fst ` set (queued q)" using h by (auto simp: held_claim_def)
  from held_del[OF h wf Inr ok ne this] Inr show ?thesis by (simp add: ack_def no_faults_def)
qed

lemma held_release:
  assumes h: "held_claim cl q" and wf: "queue_wf q" and ok: "claim_id_ok (qc_claim_id cl')"
    and ne: "claim_key cl' \<noteq> claim_key cl"
  shows "held_claim cl (fst (release no_faults cl' q))"
proof (cases "claimed_path (qc_tenant_id cl') (qc_job_id cl') (qc_claim_id cl')")
  case (Inl e)
  with h show ?thesis by (simp add: release_def)
next
  case (Inr k)
  have nq: "claim_key cl \<notin> fst ` set (queued q)" using h by (auto simp: held_claim_def)
  have dir: "tenant_dir (qc_tenant_id cl') = Inr (fst k)" using Inr by (auto simp: claimed_path_Inr)
  have qp: "queued_path (qc_tenant_id cl') (qc_job_id cl') = Inr (claim_key cl')"
    using Inr claim_key_dir[OF dir] by (auto simp: claimed_path_Inr queued_path_Inr)
  have nq': "claim_key cl \<notin> fst ` set (dict_set (queued q) (claim_key cl') f)" for f
    using nq not_sym[OF ne] by (simp add: fst_dict_set)
  show ?thesis
    using Inr qp h held_del[OF h wf Inr ok ne nq] held_del[OF h wf Inr ok ne nq']
    by (auto simp: release_def no_faults_def split: option.splits)
qed

lemma claim_takes:
  assumes "queue_wf q" "claim_id_ok c" "w \<noteq> []"
    and "claim no_faults now ttl w c q = (q', Inr (Some cl))"
  shows "\<exists>b k. takes b now ttl w c q q' cl k"
  by (rule claim_cases[OF assms]) auto

interpretation fq: leased_queue queue_wf tracked_jobs fq_enq fq_clm fq_ack fq_rel enq_key claim_key
  enq_args_ok clm_args_ok ack_ok held_claim qc_lease_expires_at clm_time single_jobs
proof (unfold_locales, goal_cases)
  case (1 q p cl)
  obtain now ttl w c where p: "p = (now, ttl, w, c)" by (cases p)
  obtain q' out where res: "claim no_faults now ttl w c q = (q', out)" by (cases "claim no_faults now ttl w c q")
  from 1 p have ok: "claim_id_ok c" "w \<noteq> []" "now < qc_lease_expires_at cl" by simp_all
  show ?case
    by (rule claim_cases[OF 1(1) ok(1,2) res])
       (use moved_held[OF 1(1) ok(1) 1(3) ok(3)] 1(3) p res in
         \<open>auto simp: fst_fq_clm simp del: fq_clm.simps\<close>)
next
  case (2 q p cl q' cl')
  obtain now ttl w c where p: "p = (now, ttl, w, c)" by (cases p)
  from 2 p have ok: "claim_id_ok c" "w \<noteq> []" "now < qc_lease_expires_at cl" by simp_all
  from 2(5) p have "claim no_faults now ttl w c q = (q', Inr (Some cl'))" by (simp only: fq_clm_Some)
  from claim_takes[OF 2(1) ok(1,2) this] moved_held[OF 2(1) ok(1) 2(3) ok(3)] show ?case by blast
next
  case (3 q e cl)
  then show ?case using held_enqueue by (cases e) (auto split: sum.splits)
next
  case (4 q cl' cl)
  then show ?case using held_ack by (simp add: fq_ack_def ack_ok_def)
next
  case (5 q cl' cl)
  then show ?case using held_release by (simp add: fq_rel_def ack_ok_def)
next
  case (6 q p q' cl)
  obtain now ttl w c where p: "p = (now, ttl, w, c)" by (cases p)
  from 6 p have ok: "claim_id_ok c" "w \<noteq> []" by simp_all
  from 6(4) p have "claim no_faults now ttl w c q = (q', Inr (Some cl))" by (simp only: fq_clm_Some)
  from claim_takes[OF 6(1) ok this] fresh_held[OF 6(1) ok(1) 6(2)] show ?case by blast
qed

section \<open>Properties of the file queue\<close>

definition fq_run :: "fq_op list \<Rightarrow> fqueue \<Rightarrow> fqueue" where
  "fq_run ops q = fold (exec_op fq_enq fq_clm fq_ack fq_rel) ops q"

definition fq_legal :: "fq_op \<Rightarrow> bool" where
  "fq_legal = legal_op enq_args_ok clm_args_ok ack_ok"



text \<open>The queue invents nothing: a job that is tracked after a sequence of operations was
  tracked before or was enqueued by one of them.\<close>

theorem queue_invents_no_job:
  assumes "queue_wf q" "list_all fq_legal ops" "k \<in> tracked_jobs (fq_run ops q)"
  shows "k \<in> tracked_jobs q \<or> list_ex (adds_op enq_key k) ops"
  using fq.run_no_invention[of q ops k] assms by (auto simp: fq_run_def fq_legal_def)


definition two_jobs :: fqueue where
  "two_jobs = fst (enqueue EnqueueOk 0 ''t1'' ''b'' None (fst (enqueue EnqueueOk 0 ''default'' ''a'' None empty_queue)))"


text \<open>A claim takes the first queued record in listing order (the default tenant's
  directory first, then the tenants in order); only when nothing is queued does it take the first
  claimed record whose lease has run out; it answers None, changing nothing, when neither exists.\<close>

definition claim_choice :: "int \<Rightarrow> fqueue \<Rightarrow> (bool \<times> str \<times> qkey) option" where
  "claim_choice now q =
     (case find (is_queued q) (iter_records (queued q)) of
        Some e \<Rightarrow> Some (False, e)
      | None \<Rightarrow> map_option (Pair True) (find (is_expired now q) (iter_records (claimed q))))"

theorem claim_order:
  assumes "queue_wf q" "claim_id_ok c" "w \<noteq> []"
  shows "claim no_faults now ttl w c q =
    (case claim_choice now q of
       None \<Rightarrow> (q, Inr None)
     | Some (from_claimed, e) \<Rightarrow> map_prod id (map_sum id Some) (take_record from_claimed now ttl w c q e))"
  unfolding claim_eq[OF assms] by (simp add: claim_choice_def split: option.splits)

text \<open>A job that waits can be had: it is queued, or its lease has run out.\<close>

definition available :: "int \<Rightarrow> fqueue \<Rightarrow> bool" where
  "available now q =
     (queued q \<noteq> [] \<or>
      list_ex (\<lambda>(k, f). case q_lease_expires_at (rec_of f) of Some (IsoTime l) \<Rightarrow> l \<le> now | _ \<Rightarrow> False)
        (claimed q))"

lemma lease_over_iff:
  "(case x of Some (IsoTime l) \<Rightarrow> l \<le> now | _ \<Rightarrow> False) \<longleftrightarrow> (\<exists>l. x = Some (IsoTime l) \<and> l \<le> now)"
  by (cases x; cases "the x") auto

lemma claimed_key_ok: "claimed_entry_ok (k, f) \<Longrightarrow> key_ok k"
proof -
  assume "claimed_entry_ok (k, f)"
  then obtain t j c where p: "claimed_path t j c = Inr k" by (rule claimed_entry_okD)
  then have "assert_safe_segment (snd k) = Inr ()"
    by (auto simp: claimed_path_Inr assert_safe_segment_def dest!: arg_cong[of _ _ length])
  with p show "key_ok k" by (auto simp: claimed_path_Inr key_ok_def tenant_dir_Inr)
qed

lemma find_None_not_in: "find P xs = None \<Longrightarrow> x \<in> set xs \<Longrightarrow> \<not> P x"
  by (induction xs) (auto split: if_splits)

text \<open>A claim on a well-formed queue never raises, and it returns a claim exactly when a
  record is queued or some lease has run out: no job waits behind an idle worker.\<close>

theorem claim_finds_available:
  assumes wf: "queue_wf q" and c: "claim_id_ok c" and w: "w \<noteq> []"
  shows "\<exists>q' out. claim no_faults now ttl w c q = (q', Inr out) \<and> (out \<noteq> None \<longleftrightarrow> available now q)"
proof -
  obtain q' out where res: "claim no_faults now ttl w c q = (q', out)"
    by (cases "claim no_faults now ttl w c q")
  show ?thesis
  proof (rule claim_cases[OF wf c w res])
    fix cl k
    assume "out = Inr (Some cl)" "takes False now ttl w c q q' cl k"
    then show ?thesis using res by (auto simp: takes_def available_def)
  next
    fix cl k
    assume o: "out = Inr (Some cl)" and t: "takes True now ttl w c q q' cl k"
    from t obtain r l where "dict_get (claimed q) k = Some (QRec r)"
        "q_lease_expires_at r = Some (IsoTime l)" "l \<le> now"
      unfolding takes_def by auto
    then have "available now q"
      unfolding available_def list_ex_iff
      by (intro disjI2 bexI[of _ "(k, QRec r)"]) (simp_all add: rec_of_def dict_get_in)
    with o res show ?thesis by simp
  next
    assume none: "q' = q" "out = Inr None" "find (is_queued q) (iter_records (queued q)) = None"
      "find (is_expired now q) (iter_records (claimed q)) = None"
    have "queued q = []"
    proof (rule ccontr)
      assume "queued q \<noteq> []"
      then obtain k f where m: "(k, f) \<in> set (queued q)" by (cases "queued q") force+
      then have "k \<in> fst ` set (queued q)" by force
      moreover have "key_ok k" using queue_wfD(4)[OF wf m] queued_entry_okD by blast
      ultimately obtain t where "(t, k) \<in> set (iter_records (queued q))"
        using iter_records_complete by blast
      from find_None_not_in[OF none(3) this] m show False
        by (auto simp: is_queued_def dict_get_None image_iff)
    qed
    moreover have "\<not> l \<le> now"
      if m: "(k, f) \<in> set (claimed q)" and l: "q_lease_expires_at (rec_of f) = Some (IsoTime l)" for k f l
    proof -
      have "k \<in> fst ` set (claimed q)" using m by force
      moreover have "key_ok k" by (rule claimed_key_ok[OF queue_wfD(5)[OF wf m]])
      ultimately obtain t where "(t, k) \<in> set (iter_records (claimed q))"
        using iter_records_complete by blast
      from find_None_not_in[OF none(4) this] show ?thesis
        using m l queue_wfD(2)[OF wf] by (simp add: is_expired_def dict_get_def dict_wf_def)
    qed
    ultimately have "\<not> available now q"
      unfolding available_def list_ex_iff lease_over_iff by fastforce
    with none res show ?thesis by simp
  qed
qed

section \<open>Faults of the file system\<close>

text \<open>A claim that fails after its rename puts the record back: whichever step fails, as
  long as the re-queue rename itself works no job leaves the queue.\<close>

theorem failed_claim_requeues:
  assumes wf: "queue_wf q" and c: "claim_id_ok c" and io: "\<not> io_requeue io"
    and k: "dict_get (queued q) k = Some f" and t: "tenant_dir t = Inr (fst k)"
    and fault: "io_claim_rename io \<or> io_claim_write io \<or> io_claim_finalize io"
  shows "\<exists>q' e. claim_file io now ttl w c False k t (snd k) q = Some (q', Inl e) \<and>
           tracked_jobs q' = tracked_jobs q \<and> claim_tmp q' = [] \<and> k \<in> fst ` set (queued q')"
proof -
  note W = queue_wfD[OF wf]
  from queued_file[OF wf k] obtain r where f: "f = QRec r" and ko: "key_ok k" by blast
  have cp: "claimed_path t (snd k) c = Inr (fst k, snd k @ ''__'' @ c)"
    using t c ko by (auto simp: claimed_path_Inr claim_id_ok_def key_ok_def)
  have qp: "queued_path t (snd k) = Inr k"
    using t ko by (auto simp: queued_path_Inr key_ok_def)
  have km: "k \<in> fst ` set (queued q)" using dict_get_in[OF k] by force
  consider (renamed) "io_claim_rename io" | (written) "\<not> io_claim_rename io" "io_claim_write io"
    | (finalized) "\<not> io_claim_rename io" "\<not> io_claim_write io" "io_claim_finalize io"
    using fault by blast
  then show ?thesis
  proof cases
    case renamed
    with cp k km W(3) show ?thesis by (simp add: claim_file_def)
  qed (use cp k f qp W(1,3) io km in
      \<open>auto simp: claim_file_def claim_tmp_file_def try_requeue_def Let_def tracked_jobs_alt
        fst_dict_set fst_dict_del\<close>)
qed

text \<open>The window the re-queue does not cover: a record that cannot be read, or a re-queue
  that fails too, stays in a \<open>.tmp\<close> file that no listing shows; the job is no longer tracked and no
  later claim, at any time, finds it.\<close>

theorem tmp_file_loses_job:
  shows "let q = fst (enqueue EnqueueOk 0 ''default'' ''a'' None empty_queue);
             q' = fst (claim (no_faults\<lparr>io_claim_finalize := True, io_requeue := True\<rparr>) 1 60 ''w'' ''c'' q)
         in (None, ''a'') \<in> tracked_jobs q \<and> tracked_jobs q' = {} \<and> claim_tmp q' \<noteq> [] \<and>
            claim no_faults now 60 ''w2'' ''c2'' q' = (q', Inr None)"
proof -
  define q where "q = fst (enqueue EnqueueOk 0 ''default'' ''a'' None empty_queue)"
  define q' where "q' = fst (claim (no_faults\<lparr>io_claim_finalize := True, io_requeue := True\<rparr>) 1 60 ''w'' ''c'' q)"
  have 1: "(None, ''a'') \<in> tracked_jobs q" unfolding q_def by code_simp
  have 2: "queued q' = [] \<and> claimed q' = [] \<and> claim_tmp q' \<noteq> []" unfolding q'_def q_def by code_simp
  then have 3: "claim no_faults now 60 ''w2'' ''c2'' q' = (q', Inr None)"
    by (simp add: claim_def iter_records_def sorted_stems_def tenant_dirs_def)
  from 1 2 3 show ?thesis unfolding q_def[symmetric] q'_def[symmetric] Let_def
    by (simp add: tracked_jobs_def)
qed

text \<open>A failed write of an enqueue is not cleaned up: the partial file makes every later
  enqueue of the job a silent success, and the next claim raises QueueDataCorrupted and moves it out of
  the queue.\<close>

theorem partial_enqueue_poisons_job:
  assumes k: "queued_path t j = Inr k" and q: "dict_get (queued q) k = None" "dict_wf (queued q)"
    and c: "claim_id_ok c"
  shows "let q1 = fst (enqueue EnqueueWriteFails now t j tp q)
         in enqueue fault now' t j tp' q1 = (q1, Inr ()) \<and> dict_get (queued q1) k = Some QNotObject \<and>
            (\<exists>q2. claim_file no_faults now' ttl w c False k t j q1 = Some (q2, Inl (ArtErr QueueDataCorrupted)) \<and>
                  dict_get (queued q2) k = None)"
proof -
  have cp: "\<exists>tgt. claimed_path t j c = Inr tgt"
    using k c by (auto simp: claimed_path_Inr queued_path_Inr claim_id_ok_def)
  show ?thesis
    using k q cp by (auto simp: enqueue_def Let_def claim_file_def claim_tmp_file_def no_faults_def)
qed

end
