(* ===== verification/JobFiles.thy ===== *)
theory JobFiles
  imports JobModel
begin

text \<open>
  The file-backed job store: infra/job_store.py, infra/job_store_migrations.py and the directory layout
  of utils/job_workspace.py and utils/tenancy.py.

  A path is the list of its components below the jobs directory; the file system is a map from paths
  to the content of the JSON file there. Resolving a path is the identity unless the environment says
  that the path leaves its base directory (a symbolic link). Reading and writing may fail
  (\<open>store_env\<close>). Parsing a payload into a \<open>Job\<close> and dumping a \<open>Job\<close> are pydantic's
  (\<open>model_validate\<close>, \<open>model_dump\<close>): the parameters \<open>validate\<close> and \<open>dump\<close>. The random trace id is
  the argument \<open>fresh\<close>. The advisory lock makes a save one step.
\<close>

section \<open>Directories\<close>

type_synonym path = "str list"

datatype jfile = JsonFile json | TextFile

type_synonym jobfs = "path \<rightharpoonup> jfile"

record store_env =
  se_escapes :: "path \<Rightarrow> bool"
  se_read_fault :: bool
  se_write_fault :: bool

definition calm :: store_env where
  "calm = \<lparr>se_escapes = (\<lambda>_. False), se_read_fault = False, se_write_fault = False\<rparr>"

definition tenant_jobs_dir :: "str \<Rightarrow> path option" where
  "tenant_jobs_dir tenant_id =
     (if tenant_id = DEFAULT_TENANT_ID then Some []
      else if \<not> is_safe_tenant_id tenant_id then None
      else Some [''tenants'', tenant_id])"

definition shard_for_job_id :: "str \<Rightarrow> str" where
  "shard_for_job_id job_id =
     (let core0 = (if startswith job_id ''job_'' \<and> 4 < length job_id then drop 4 job_id else job_id);
          core = (if core0 = [] then job_id else core0)
      in if 2 \<le> length core then take 2 core else take 2 (core @ ''00''))"

definition tenant_root_dir :: "str \<Rightarrow> exn + path" where
  "tenant_root_dir tenant_id =
     (case tenant_jobs_dir tenant_id of
        None \<Rightarrow> Inl (StoreErr TenantIdUnsafe)
      | Some base \<Rightarrow> Inr base)"

definition resolve_sharded_job_dir :: "store_env \<Rightarrow> str \<Rightarrow> str \<Rightarrow> exn + path" where
  "resolve_sharded_job_dir env tenant_id job_id =
     (if \<not> is_safe_path_segment job_id then Inl (StoreErr JobIdUnsafe)
      else let shard = shard_for_job_id job_id
           in if \<not> is_safe_path_segment shard then Inl (StoreErr JobIdUnsafe)
              else bindE (tenant_root_dir tenant_id) (\<lambda>base.
                let job_dir = base @ [shard, job_id]
                in if se_escapes env job_dir then Inl (StoreErr JobIdUnsafe) else Inr job_dir))"

definition resolve_legacy_job_dir :: "store_env \<Rightarrow> str \<Rightarrow> str \<Rightarrow> exn + path" where
  "resolve_legacy_job_dir env tenant_id job_id =
     (if \<not> is_safe_path_segment job_id then Inl (StoreErr JobIdUnsafe)
      else bindE (tenant_root_dir tenant_id) (\<lambda>base.
        let job_dir = base @ [job_id]
        in if se_escapes env job_dir then Inl (StoreErr JobIdUnsafe) else Inr job_dir))"

definition job_json :: "path \<Rightarrow> path" where
  "job_json dir = dir @ [''job.json'']"

definition resolve_existing_job_dir :: "store_env \<Rightarrow> jobfs \<Rightarrow> str \<Rightarrow> str \<Rightarrow> exn + path option" where
  "resolve_existing_job_dir env fs tenant_id job_id =
     bindE (resolve_sharded_job_dir env tenant_id job_id) (\<lambda>sharded.
       if fs (job_json sharded) \<noteq> None then Inr (Some sharded)
       else bindE (resolve_legacy_job_dir env tenant_id job_id) (\<lambda>legacy.
         if fs (job_json legacy) \<noteq> None then Inr (Some legacy) else Inr None))"

section \<open>Payloads and their migrations\<close>

definition corrupted :: "exn + 'a" where
  "corrupted = Inl (StoreErr JobDataCorrupted)"

definition schema_is :: "int \<Rightarrow> jobj \<Rightarrow> bool" where
  "schema_is v payload = (case dict_get payload ''schema_version'' of None \<Rightarrow> False | Some x \<Rightarrow> eq_int x v)"

definition assert_supported_schema_version :: "jobj \<Rightarrow> exn + unit" where
  "assert_supported_schema_version payload =
     (if list_ex (\<lambda>v. schema_is v payload) SUPPORTED_JOB_SCHEMA_VERSIONS then Inr () else corrupted)"

definition default_list_key :: "str \<Rightarrow> jobj \<Rightarrow> exn + jobj" where
  "default_list_key key payload =
     (case dict_get payload key of
        None \<Rightarrow> Inr (dict_set payload key (JList []))
      | Some v \<Rightarrow> (if is_list v then Inr payload else corrupted))"

definition migrate_v1_to_v2 :: "jobj \<Rightarrow> exn + jobj" where
  "migrate_v1_to_v2 payload =
     bindE (default_list_key ''runs'' payload) (\<lambda>p1.
     bindE (default_list_key ''artifacts_index'' p1) (\<lambda>p2.
       Inr (dict_set p2 ''schema_version'' (JInt 2))))"

definition migrate_v2_to_v3 :: "jobj \<Rightarrow> exn + jobj" where
  "migrate_v2_to_v3 payload =
     (let done = (\<lambda>p. Inr (dict_set p ''schema_version'' (JInt 3)))
      in case dict_get payload ''version'' of
           None \<Rightarrow> done (dict_set payload ''version'' (JInt 1))
         | Some JNull \<Rightarrow> done (dict_set payload ''version'' (JInt 1))
         | Some v \<Rightarrow>
             (case as_int v of
                None \<Rightarrow> corrupted
              | Some n \<Rightarrow> (if n < 1 then corrupted else done payload)))"

definition ensure_trace_id :: "str \<Rightarrow> jobj \<Rightarrow> jobj \<times> bool" where
  "ensure_trace_id fresh payload =
     (case nonblank_str (dict_get payload ''trace_id'') of
        Some _ \<Rightarrow> (payload, False)
      | None \<Rightarrow> (dict_set payload ''trace_id'' (JStr fresh), True))"

text \<open>The flag of the result says that a new object was built (\<open>migrated is not payload\<close>).\<close>

definition migrate_payload_to_current :: "str \<Rightarrow> jobj \<Rightarrow> exn + jobj \<times> bool" where
  "migrate_payload_to_current fresh payload =
     bindE (if schema_is 1 payload
            then bindE (migrate_v1_to_v2 payload) (\<lambda>p. Inr (p, True)) else Inr (payload, False)) (\<lambda>(p1, c1).
     bindE (if schema_is 2 p1
            then bindE (migrate_v2_to_v3 p1) (\<lambda>p. Inr (p, True)) else Inr (p1, c1)) (\<lambda>(p2, c2).
       if schema_is JOB_SCHEMA_VERSION_CURRENT p2
       then (let (p3, c3) = ensure_trace_id fresh p2 in Inr (p3, c2 \<or> c3))
       else corrupted))"

definition disk_version :: "jobj \<Rightarrow> int option" where
  "disk_version payload =
     (case dict_get payload ''version'' of
        None \<Rightarrow> Some 1
      | Some v \<Rightarrow> (case as_int v of None \<Rightarrow> None | Some n \<Rightarrow> if n < 1 then None else Some n))"

section \<open>Operations\<close>

definition read_job_payload :: "store_env \<Rightarrow> path \<Rightarrow> jobfs \<Rightarrow> exn + jobj" where
  "read_job_payload env p fs =
     (if se_read_fault env then Inl (StoreErr (JobStoreIO ''read''))
      else case fs p of
             Some (JsonFile (JObj payload)) \<Rightarrow> Inr payload
           | Some _ \<Rightarrow> corrupted
           | None \<Rightarrow> Inl (StoreErr (JobStoreIO ''read'')))"

definition file_create ::
  "store_env \<Rightarrow> (job \<Rightarrow> jobj) \<Rightarrow> str \<Rightarrow> job \<Rightarrow> jobfs \<Rightarrow> jobfs \<times> (exn + unit)" where
  "file_create env dump tenant_id job fs =
     (case bindE (resolve_sharded_job_dir env tenant_id (j_job_id job)) (\<lambda>sharded.
           bindE (resolve_legacy_job_dir env tenant_id (j_job_id job)) (\<lambda>legacy.
             if fs (job_json sharded) \<noteq> None \<or> fs (job_json legacy) \<noteq> None
             then Inl (StoreErr JobAlreadyExists)
             else if j_schema_version job \<noteq> JOB_SCHEMA_VERSION_CURRENT then corrupted
             else if se_write_fault env then Inl (StoreErr (JobStoreIO ''create''))
             else Inr sharded)) of
        Inl e \<Rightarrow> (fs, Inl e)
      | Inr sharded \<Rightarrow> (fs(job_json sharded \<mapsto> JsonFile (JObj (dump job))), Inr ()))"

text \<open>\<open>load\<close> once the file is found: the payload to keep, whether it is to be written, the job.\<close>

definition load_from ::
  "store_env \<Rightarrow> (jobj \<Rightarrow> job option) \<Rightarrow> str \<Rightarrow> path \<Rightarrow> jobfs \<Rightarrow> exn + jobj \<times> bool \<times> job" where
  "load_from env validate fresh p fs =
     bindE (read_job_payload env p fs) (\<lambda>payload.
     bindE (assert_supported_schema_version payload) (\<lambda>_.
     bindE (migrate_payload_to_current fresh payload) (\<lambda>mc.
       case validate (fst mc) of
         None \<Rightarrow> corrupted
       | Some job \<Rightarrow>
           (if snd mc \<and> se_write_fault env then Inl (StoreErr (JobStoreIO ''migrate_write''))
            else Inr (fst mc, snd mc, job)))))"

definition file_load ::
  "store_env \<Rightarrow> (jobj \<Rightarrow> job option) \<Rightarrow> str \<Rightarrow> str \<Rightarrow> str \<Rightarrow> jobfs \<Rightarrow> jobfs \<times> (exn + job)" where
  "file_load env validate fresh tenant_id job_id fs =
     (case resolve_existing_job_dir env fs tenant_id job_id of
        Inl e \<Rightarrow> (fs, Inl e)
      | Inr None \<Rightarrow> (fs, Inl (StoreErr JobNotFound))
      | Inr (Some d) \<Rightarrow>
          (case load_from env validate fresh (job_json d) fs of
             Inl e \<Rightarrow> (fs, Inl e)
           | Inr (migrated, changed, job) \<Rightarrow>
               ((if changed then fs(job_json d \<mapsto> JsonFile (JObj migrated)) else fs), Inr job)))"

text \<open>\<open>save\<close> under the lock: the job to write. On success the caller's job carries the new version
  (\<open>job.version = new_version\<close>).\<close>

definition save_to :: "store_env \<Rightarrow> str \<Rightarrow> job \<Rightarrow> path \<Rightarrow> jobfs \<Rightarrow> exn + job" where
  "save_to env fresh job p fs =
     (if j_schema_version job \<noteq> JOB_SCHEMA_VERSION_CURRENT then corrupted
      else bindE (read_job_payload env p fs) (\<lambda>payload.
           bindE (assert_supported_schema_version payload) (\<lambda>_.
           bindE (migrate_payload_to_current fresh payload) (\<lambda>mc.
             case disk_version (fst mc) of
               None \<Rightarrow> corrupted
             | Some v \<Rightarrow>
                 (if j_version job \<noteq> v then Inl (StoreErr (JobVersionConflict (j_version job) v))
                  else if se_write_fault env then Inl (StoreErr (JobStoreIO ''write''))
                  else Inr (job\<lparr>j_version := v + 1\<rparr>))))))"

definition file_save ::
  "store_env \<Rightarrow> (job \<Rightarrow> jobj) \<Rightarrow> str \<Rightarrow> str \<Rightarrow> job \<Rightarrow> jobfs \<Rightarrow> jobfs \<times> (exn + job)" where
  "file_save env dump fresh tenant_id job fs =
     (case resolve_existing_job_dir env fs tenant_id (j_job_id job) of
        Inl e \<Rightarrow> (fs, Inl e)
      | Inr None \<Rightarrow> (fs, Inl (StoreErr JobNotFound))
      | Inr (Some d) \<Rightarrow>
          (case save_to env fresh job (job_json d) fs of
             Inl e \<Rightarrow> (fs, Inl e)
           | Inr job' \<Rightarrow> (fs(job_json d \<mapsto> JsonFile (JObj (dump job'))), Inr job')))"

definition file_write_draft ::
  "store_env \<Rightarrow> (jobj \<Rightarrow> job option) \<Rightarrow> (job \<Rightarrow> jobj) \<Rightarrow> str \<Rightarrow> str \<Rightarrow> str \<Rightarrow> draft \<Rightarrow> jobfs
   \<Rightarrow> jobfs \<times> (exn + job)" where
  "file_write_draft env validate dump fresh tenant_id job_id d fs =
     (case file_load env validate fresh tenant_id job_id fs of
        (fs1, Inl e) \<Rightarrow> (fs1, Inl e)
      | (fs1, Inr job) \<Rightarrow> file_save env dump fresh tenant_id (job\<lparr>j_draft := Some d\<rparr>) fs1)"

definition write_artifact_json ::
  "store_env \<Rightarrow> str \<Rightarrow> str \<Rightarrow> str \<Rightarrow> jobj \<Rightarrow> jobfs \<Rightarrow> jobfs \<times> (exn + unit)" where
  "write_artifact_json env tenant_id job_id rel_path payload fs =
     (case (if \<not> is_safe_job_rel_path rel_path then Inl (ArtErr ArtifactPathUnsafe)
            else bindE (resolve_existing_job_dir env fs tenant_id job_id) (\<lambda>dir.
              case dir of
                None \<Rightarrow> Inl (StoreErr JobNotFound)
              | Some d \<Rightarrow>
                  (if se_escapes env (d @ posix_parts rel_path) then Inl (ArtErr ArtifactPathUnsafe)
                   else if se_write_fault env \<or> posix_parts rel_path = []
                     then Inl (StoreErr (JobStoreIO ''artifact_write''))
                   else Inr (d @ posix_parts rel_path)))) of
        Inl e \<Rightarrow> (fs, Inl e)
      | Inr p \<Rightarrow> (fs(p \<mapsto> JsonFile (JObj payload)), Inr ()))"

end
