(* ===== verification/JobFilesLaws.thy ===== *)
theory JobFilesLaws
  imports JobFiles
begin

text \<open>
  What the file-backed job store guarantees: every job has files of its own, migrations reach the
  current schema once and for all, and a save is atomic and refuses a stale job.
\<close>

section \<open>Paths\<close>

lemma length_shard: "j \<noteq> [] \<Longrightarrow> length (shard_for_job_id j) = 2"
proof -
  assume j: "j \<noteq> []"
  have "2 \<le> length (c @ ''00'')" for c :: str by simp
  moreover have "(if startswith j ''job_'' \<and> 4 < length j then drop 4 j else j) \<noteq> []" using j by auto
  ultimately show ?thesis by (simp add: shard_for_job_id_def Let_def)
qed

lemma tenant_root_Inr:
  "tenant_root_dir t = Inr b \<longleftrightarrow>
     (t = DEFAULT_TENANT_ID \<and> b = []) \<or>
     (t \<noteq> DEFAULT_TENANT_ID \<and> is_safe_tenant_id t \<and> b = [''tenants'', t])"
  by (auto simp: tenant_root_dir_def tenant_jobs_dir_def)

lemma sharded_Inr:
  assumes "resolve_sharded_job_dir env t j = Inr d"
  shows "\<exists>b. tenant_root_dir t = Inr b \<and> d = b @ [shard_for_job_id j, j] \<and> is_safe_path_segment j"
  using assms by (auto simp: resolve_sharded_job_dir_def Let_def bindE_Inr_iff split: if_splits)

lemma legacy_Inr:
  assumes "resolve_legacy_job_dir env t j = Inr d"
  shows "\<exists>b. tenant_root_dir t = Inr b \<and> d = b @ [j] \<and> is_safe_path_segment j"
  using assms by (auto simp: resolve_legacy_job_dir_def Let_def bindE_Inr_iff split: if_splits)

text \<open>The files a job may be stored in, in the sharded and in the legacy layout.\<close>

definition job_files :: "store_env \<Rightarrow> str \<Rightarrow> str \<Rightarrow> path set" where
  "job_files env t j =
     {job_json d | d. resolve_sharded_job_dir env t j = Inr d \<or> resolve_legacy_job_dir env t j = Inr d}"

lemma job_files_shape:
  assumes "p \<in> job_files env t j"
  obtains b m where "tenant_root_dir t = Inr b" "p = b @ m @ [''job.json'']"
    "m = [shard_for_job_id j, j] \<or> m = [j]" "is_safe_path_segment j"
proof -
  from assms obtain d where d: "p = job_json d"
      "resolve_sharded_job_dir env t j = Inr d \<or> resolve_legacy_job_dir env t j = Inr d"
    by (auto simp: job_files_def)
  from d(2) have "\<exists>b m. tenant_root_dir t = Inr b \<and> d = b @ m \<and>
      (m = [shard_for_job_id j, j] \<or> m = [j]) \<and> is_safe_path_segment j"
    by (elim disjE) (use sharded_Inr legacy_Inr in blast)+
  with d(1) that show thesis by (auto simp: job_json_def)
qed

lemma job_files_unique:
  assumes "p \<in> job_files env t j" "p \<in> job_files env t' j'"
  shows "t = t' \<and> j = j'"
proof -
  obtain b m where A: "tenant_root_dir t = Inr b" "p = b @ m @ [''job.json'']"
      "m = [shard_for_job_id j, j] \<or> m = [j]" "is_safe_path_segment j"
    by (rule job_files_shape[OF assms(1)])
  obtain b' m' where B: "tenant_root_dir t' = Inr b'" "p = b' @ m' @ [''job.json'']"
      "m' = [shard_for_job_id j', j'] \<or> m' = [j']" "is_safe_path_segment j'"
    by (rule job_files_shape[OF assms(2)])
  have e: "b @ m = b' @ m'" using A(2) B(2) by simp
  have len: "length b = length b' \<and> length m = length m'"
    using arg_cong[OF e, of length] A(1,3) B(1,3) by (auto simp: tenant_root_Inr)
  with e have "b = b'" "m = m'" by auto
  with A B show ?thesis by (auto simp: tenant_root_Inr)
qed

text \<open>No two jobs share a file: in whichever layout each of them is stored, a job file
  determines its tenant and its job id.\<close>

theorem job_files_disjoint:
  assumes "p \<in> job_files env t j" "p \<in> job_files env t' j'"
  shows "t = t' \<and> j = j'"
  by (rule job_files_unique[OF assms])

lemma existing_job_file:
  assumes "resolve_existing_job_dir env fs t j = Inr (Some d)"
  shows "job_json d \<in> job_files env t j \<and> fs (job_json d) \<noteq> None"
  using assms
  by (auto simp: resolve_existing_job_dir_def bindE_Inr_iff job_files_def split: if_splits)

text \<open>Whether a job exists, and where, depends only on which of its files exist.\<close>

lemma resolve_existing_cong:
  assumes "\<And>p. p \<in> job_files env t j \<Longrightarrow> (fs p = None) = (fs' p = None)"
  shows "resolve_existing_job_dir env fs t j = resolve_existing_job_dir env fs' t j"
proof (cases "resolve_sharded_job_dir env t j")
  case (Inl e)
  then show ?thesis by (simp add: resolve_existing_job_dir_def)
next
  case (Inr d)
  then have "job_json d \<in> job_files env t j" by (auto simp: job_files_def)
  from assms[OF this] have s: "(fs (job_json d) = None) = (fs' (job_json d) = None)" .
  show ?thesis
  proof (cases "resolve_legacy_job_dir env t j")
    case (Inl e)
    with s \<open>resolve_sharded_job_dir env t j = Inr d\<close> show ?thesis
      by (auto simp: resolve_existing_job_dir_def)
  next
    case (Inr l)
    then have "job_json l \<in> job_files env t j" by (auto simp: job_files_def)
    from assms[OF this] s Inr \<open>resolve_sharded_job_dir env t j = Inr d\<close> show ?thesis
      by (auto simp: resolve_existing_job_dir_def)
  qed
qed

section \<open>Migrations\<close>

lemma schema_is_set [simp]: "schema_is v (dict_set p ''schema_version'' (JInt n)) \<longleftrightarrow> n = v"
  by (simp add: schema_is_def)

lemma schema_is_other [simp]: "k \<noteq> ''schema_version'' \<Longrightarrow> schema_is v (dict_set p k x) = schema_is v p"
  by (simp add: schema_is_def)

lemma schema_is_unique: "schema_is v p \<Longrightarrow> schema_is w p \<Longrightarrow> v = w"
proof -
  have "eq_int x v \<Longrightarrow> eq_int x w \<Longrightarrow> v = w" for x
    by (induction x v rule: eq_int.induct) auto
  then show "schema_is v p \<Longrightarrow> schema_is w p \<Longrightarrow> v = w"
    by (auto simp: schema_is_def split: option.splits)
qed

definition list_key_ok :: "str \<Rightarrow> jobj \<Rightarrow> bool" where
  "list_key_ok k p = (case dict_get p k of Some v \<Rightarrow> is_list v | None \<Rightarrow> False)"

lemma default_list_key_Inr:
  assumes "default_list_key k p = Inr q"
  shows "list_key_ok k q \<and> (\<forall>k'. k' \<noteq> k \<longrightarrow> dict_get q k' = dict_get p k')"
  using assms by (auto simp: default_list_key_def list_key_ok_def corrupted_def split: option.splits if_splits)

lemma migrate_v1_Inr:
  assumes "migrate_v1_to_v2 p = Inr q"
  shows "schema_is 2 q \<and> list_key_ok ''runs'' q \<and> list_key_ok ''artifacts_index'' q \<and>
         (\<forall>k. k \<notin> {''runs'', ''artifacts_index'', ''schema_version''} \<longrightarrow> dict_get q k = dict_get p k)"
proof -
  from assms obtain p1 p2 where *: "default_list_key ''runs'' p = Inr p1"
      "default_list_key ''artifacts_index'' p1 = Inr p2" "q = dict_set p2 ''schema_version'' (JInt 2)"
    by (auto simp: migrate_v1_to_v2_def bindE_Inr_iff)
  from default_list_key_Inr[OF *(1)] default_list_key_Inr[OF *(2)] *(3) show ?thesis
    by (auto simp: list_key_ok_def)
qed

lemma migrate_v2_Inr:
  assumes "migrate_v2_to_v3 p = Inr q"
  shows "schema_is 3 q \<and> disk_version q \<noteq> None \<and>
         (\<forall>k. k \<notin> {''version'', ''schema_version''} \<longrightarrow> dict_get q k = dict_get p k)"
  using assms
  by (auto simp: migrate_v2_to_v3_def disk_version_def corrupted_def Let_def
      split: option.splits json.splits if_splits)

lemma ensure_trace_id_simps:
  "schema_is v (fst (ensure_trace_id fresh p)) = schema_is v p"
  "k \<noteq> ''trace_id'' \<Longrightarrow> dict_get (fst (ensure_trace_id fresh p)) k = dict_get p k"
  "\<not> snd (ensure_trace_id fresh p) \<Longrightarrow> fst (ensure_trace_id fresh p) = p"
  by (auto simp: ensure_trace_id_def split: option.splits)

lemma ensure_trace_id_nonblank:
  "\<not> blank fresh \<Longrightarrow> nonblank_str (dict_get (fst (ensure_trace_id fresh p)) ''trace_id'') \<noteq> None"
  by (auto simp: ensure_trace_id_def nonblank_str_def split: option.splits)

text \<open>A payload no migration touches.\<close>

definition current_payload :: "jobj \<Rightarrow> bool" where
  "current_payload p = (schema_is JOB_SCHEMA_VERSION_CURRENT p \<and> nonblank_str (dict_get p ''trace_id'') \<noteq> None)"

lemma migrate_current: "current_payload p \<Longrightarrow> migrate_payload_to_current fresh p = Inr (p, False)"
  using schema_is_unique[of 3 p 1] schema_is_unique[of 3 p 2]
  by (auto simp: current_payload_def migrate_payload_to_current_def JOB_SCHEMA_VERSION_CURRENT_def
      ensure_trace_id_def split: option.splits)

lemma supported_current: "current_payload p \<Longrightarrow> assert_supported_schema_version p = Inr ()"
  by (simp add: current_payload_def assert_supported_schema_version_def
      SUPPORTED_JOB_SCHEMA_VERSIONS_def JOB_SCHEMA_VERSION_CURRENT_def)

definition migration_steps :: "str \<Rightarrow> jobj \<Rightarrow> jobj \<Rightarrow> bool \<Rightarrow> jobj \<Rightarrow> bool" where
  "migration_steps fresh p q c p2 =
     (schema_is 3 p2 \<and> q = fst (ensure_trace_id fresh p2) \<and>
      (\<forall>k. k \<notin> {''runs'', ''artifacts_index'', ''version'', ''schema_version''} \<longrightarrow> dict_get p2 k = dict_get p k) \<and>
      (schema_is 1 p \<or> schema_is 2 p \<longrightarrow> disk_version p2 \<noteq> None) \<and>
      (schema_is 1 p \<longrightarrow> list_key_ok ''runs'' p2 \<and> list_key_ok ''artifacts_index'' p2) \<and>
      (schema_is 3 p \<longrightarrow> p2 = p) \<and> c = (\<not> schema_is 3 p \<or> snd (ensure_trace_id fresh p2)))"

lemma migrate_cases:
  assumes "migrate_payload_to_current fresh p = Inr (q, c)"
  shows "\<exists>p2. migration_steps fresh p q c p2"
proof -
  let ?one = "if schema_is 1 p then bindE (migrate_v1_to_v2 p) (\<lambda>p. Inr (p, True)) else Inr (p, False)"
  let ?two = "\<lambda>(p1, c1). if schema_is 2 p1 then bindE (migrate_v2_to_v3 p1) (\<lambda>p. Inr (p, True)) else Inr (p1, c1)"
  let ?three = "\<lambda>(p2, c2). if schema_is JOB_SCHEMA_VERSION_CURRENT p2
      then (let (p3, c3) = ensure_trace_id fresh p2 in Inr (p3, c2 \<or> c3)) else corrupted"
  have m: "bindE ?one (\<lambda>x. bindE (?two x) ?three) = Inr (q, c)"
    using assms unfolding migrate_payload_to_current_def by (simp add: case_prod_unfold)
  from m obtain x where "?one = Inr x" and "bindE (?two x) ?three = Inr (q, c)"
    unfolding bindE_Inr_iff[of ?one] by blast
  moreover obtain p1 c1 where x: "x = (p1, c1)" by (cases x)
  ultimately have 1: "?one = Inr (p1, c1)" and m2: "bindE (?two (p1, c1)) ?three = Inr (q, c)" by blast+
  from m2 obtain y where "?two (p1, c1) = Inr y" and "?three y = Inr (q, c)"
    unfolding bindE_Inr_iff[of "?two (p1, c1)"] by blast
  moreover obtain p2 c2 where y: "y = (p2, c2)" by (cases y)
  ultimately have 2: "?two (p1, c1) = Inr (p2, c2)" and "?three (p2, c2) = Inr (q, c)" by blast+
  then have 3: "schema_is 3 p2" "q = fst (ensure_trace_id fresh p2)" "c = (c2 \<or> snd (ensure_trace_id fresh p2))"
    by (auto simp: corrupted_def JOB_SCHEMA_VERSION_CURRENT_def split: if_splits prod.splits)
  note u = schema_is_unique
  consider (one) "schema_is 1 p" | (two) "schema_is 2 p" | (three) "\<not> schema_is 1 p" "\<not> schema_is 2 p" by blast
  then show ?thesis
  proof cases
    case one
    then have m1: "migrate_v1_to_v2 p = Inr p1" using 1 by (auto simp: bindE_Inr_iff)
    note M1 = migrate_v1_Inr[OF m1]
    then have m2: "migrate_v2_to_v3 p1 = Inr p2" and c2: c2 using 2 by (auto simp: bindE_Inr_iff)
    note M2 = migrate_v2_Inr[OF m2]
    have get: "dict_get p2 k = dict_get p1 k" if "k \<notin> {''version'', ''schema_version''}" for k
      using M2 that by blast
    have "list_key_ok ''runs'' p2" "list_key_ok ''artifacts_index'' p2"
      using M1 get[of "''runs''"] get[of "''artifacts_index''"] by (simp_all add: list_key_ok_def)
    moreover have "dict_get p1 k = dict_get p k"
      if "k \<notin> {''runs'', ''artifacts_index'', ''schema_version''}" for k
      using M1 that by blast
    then have "dict_get p2 k = dict_get p k"
      if "k \<notin> {''runs'', ''artifacts_index'', ''version'', ''schema_version''}" for k
      using get[of k] that by simp
    moreover have "\<not> schema_is 3 p" using one u[of 1 p 3] by auto
    moreover have "disk_version p2 \<noteq> None" using M2 by blast
    ultimately show ?thesis using 3 c2 by (intro exI[of _ p2]) (simp add: migration_steps_def)
  next
    case two
    then have "\<not> schema_is 1 p" using u[of 2 p 1] by auto
    then have "p1 = p" using 1 by simp
    with two have m2: "migrate_v2_to_v3 p = Inr p2" and c2: c2 using 2 by (auto simp: bindE_Inr_iff)
    note M2 = migrate_v2_Inr[OF m2]
    have "\<not> schema_is 3 p" using two u[of 2 p 3] by auto
    moreover have "disk_version p2 \<noteq> None" using M2 by blast
    moreover have "dict_get p2 k = dict_get p k"
      if "k \<notin> {''runs'', ''artifacts_index'', ''version'', ''schema_version''}" for k
      using M2 that by blast
    ultimately show ?thesis using 3 c2 \<open>\<not> schema_is 1 p\<close> by (intro exI[of _ p2]) (simp add: migration_steps_def)
  next
    case three
    then have "p1 = p" "p2 = p" "\<not> c2" using 1 2 by auto
    with 3 three show ?thesis by (intro exI[of _ p2]) (auto simp: migration_steps_def)
  qed
qed

lemma migration_payload_current:
  assumes "migrate_payload_to_current fresh p = Inr (q, c)" "\<not> blank fresh"
  shows "current_payload q"
proof -
  obtain p2 where "schema_is 3 p2" "q = fst (ensure_trace_id fresh p2)"
    using migrate_cases[OF assms(1)] unfolding migration_steps_def by blast
  with assms(2) show ?thesis
    by (simp add: current_payload_def ensure_trace_id_simps ensure_trace_id_nonblank
        JOB_SCHEMA_VERSION_CURRENT_def)
qed



section \<open>Loading and saving\<close>

lemma read_job_payload_Inr:
  "read_job_payload env p fs = Inr payload \<longleftrightarrow>
     \<not> se_read_fault env \<and> fs p = Some (JsonFile (JObj payload))"
  by (auto simp: read_job_payload_def corrupted_def split: option.splits jfile.splits json.splits)

lemma load_from_Inr:
  "load_from env validate fresh p fs = Inr (q, c, job) \<Longrightarrow>
     (\<exists>payload. read_job_payload env p fs = Inr payload \<and>
        assert_supported_schema_version payload = Inr () \<and>
        migrate_payload_to_current fresh payload = Inr (q, c) \<and> validate q = Some job \<and>
        \<not> (c \<and> se_write_fault env))"
  by (auto simp: load_from_def bindE_Inr_iff corrupted_def split: option.split_asm if_split_asm)

lemma save_to_Inr:
  "save_to env fresh job p fs = Inr job' \<Longrightarrow>
     j_schema_version job = JOB_SCHEMA_VERSION_CURRENT \<and> \<not> se_write_fault env \<and>
     job' = job\<lparr>j_version := j_version job + 1\<rparr> \<and>
     (\<exists>payload q c. read_job_payload env p fs = Inr payload \<and>
        assert_supported_schema_version payload = Inr () \<and>
        migrate_payload_to_current fresh payload = Inr (q, c) \<and> disk_version q = Some (j_version job))"
  by (auto simp: save_to_def bindE_Inr_iff corrupted_def split: option.split_asm if_split_asm)

lemma file_load_Inr:
  assumes "file_load env validate fresh t j fs = (fs', Inr job)"
  obtains d payload q c where "resolve_existing_job_dir env fs t j = Inr (Some d)"
    "read_job_payload env (job_json d) fs = Inr payload"
    "assert_supported_schema_version payload = Inr ()"
    "migrate_payload_to_current fresh payload = Inr (q, c)" "validate q = Some job"
    "fs' = (if c then fs(job_json d \<mapsto> JsonFile (JObj q)) else fs)" "\<not> (c \<and> se_write_fault env)"
proof -
  from assms obtain d q c where "resolve_existing_job_dir env fs t j = Inr (Some d)"
      "load_from env validate fresh (job_json d) fs = Inr (q, c, job)"
      "fs' = (if c then fs(job_json d \<mapsto> JsonFile (JObj q)) else fs)"
    by (auto simp: file_load_def split: sum.split_asm option.split_asm)
  then show thesis using load_from_Inr that by blast
qed

lemma file_load_Inl:
  "file_load env validate fresh t j fs = (fs', Inl e) \<Longrightarrow> fs' = fs"
  by (auto simp: file_load_def split: sum.splits option.splits)

lemma file_save_Inl:
  "file_save env dump fresh t job fs = (fs', Inl e) \<Longrightarrow> fs' = fs"
  by (auto simp: file_save_def split: sum.splits option.splits)

lemma file_save_Inr:
  assumes "file_save env dump fresh t job fs = (fs', Inr job')"
  obtains d payload q c where "resolve_existing_job_dir env fs t (j_job_id job) = Inr (Some d)"
    "read_job_payload env (job_json d) fs = Inr payload"
    "assert_supported_schema_version payload = Inr ()"
    "migrate_payload_to_current fresh payload = Inr (q, c)" "disk_version q = Some (j_version job)"
    "j_schema_version job = JOB_SCHEMA_VERSION_CURRENT" "\<not> se_write_fault env"
    "job' = job\<lparr>j_version := j_version job + 1\<rparr>"
    "fs' = fs(job_json d \<mapsto> JsonFile (JObj (dump job')))"
proof -
  from assms obtain d where "resolve_existing_job_dir env fs t (j_job_id job) = Inr (Some d)"
      "save_to env fresh job (job_json d) fs = Inr job'"
      "fs' = fs(job_json d \<mapsto> JsonFile (JObj (dump job')))"
    by (auto simp: file_save_def split: sum.split_asm option.split_asm)
  then show thesis using save_to_Inr that by blast
qed

text \<open>Creating, loading and saving a job never touch a file of another job, whatever
  faults occur.\<close>

theorem job_ops_local:
  assumes "p \<notin> job_files env t (j_job_id job)"
  shows "fst (file_create env dump t job fs) p = fs p \<and>
         fst (file_load env validate fresh t (j_job_id job) fs) p = fs p \<and>
         fst (file_save env dump fresh t job fs) p = fs p"
proof (intro conjI)
  show "fst (file_create env dump t job fs) p = fs p"
    using assms by (auto simp: file_create_def bindE_Inr_iff job_files_def corrupted_def
        split: sum.split if_split_asm)
  show "fst (file_load env validate fresh t (j_job_id job) fs) p = fs p"
  proof (cases "file_load env validate fresh t (j_job_id job) fs")
    case (Pair fs' r)
    show ?thesis
    proof (cases r)
      case (Inl e)
      with Pair file_load_Inl show ?thesis by fastforce
    next
      case (Inr j)
      with Pair have "file_load env validate fresh t (j_job_id job) fs = (fs', Inr j)" by simp
      then show ?thesis
        by (rule file_load_Inr) (use assms existing_job_file Pair in auto)
    qed
  qed
  show "fst (file_save env dump fresh t job fs) p = fs p"
  proof (cases "file_save env dump fresh t job fs")
    case (Pair fs' r)
    show ?thesis
    proof (cases r)
      case (Inl e)
      with Pair file_save_Inl show ?thesis by fastforce
    next
      case (Inr j)
      with Pair have "file_save env dump fresh t job fs = (fs', Inr j)" by simp
      then show ?thesis
        by (rule file_save_Inr) (use assms existing_job_file Pair in auto)
    qed
  qed
qed

text \<open>An artifact of a job in the sharded layout lands in that job's directory: it cannot overwrite
  another job, and its own job only under the relative path of the job file itself.\<close>

lemma posix_parts_no_dots:
  "is_safe_job_rel_path r \<Longrightarrow> x \<in> set (posix_parts r) \<Longrightarrow> x \<noteq> ''..''"
  using safe_rel_path_parts by blast

text \<open>An artifact write for a job stored in the sharded layout never touches the file of
  any other job, in any layout, and touches its own job file only when the relative path is exactly
  \<open>job.json\<close>.\<close>

theorem artifact_write_contained:
  assumes d: "resolve_sharded_job_dir env t j = Inr d"
    and e: "resolve_existing_job_dir env fs t j = Inr (Some d)"
    and p: "p \<in> job_files env t' j'"
    and changed: "fst (write_artifact_json env t j rel payload fs) p \<noteq> fs p"
  shows "t' = t \<and> j' = j \<and> p = job_json d \<and> posix_parts rel = [''job.json'']"
proof -
  from changed e have pd: "p = d @ posix_parts rel" and ne: "posix_parts rel \<noteq> []"
    by (auto simp: write_artifact_json_def split: if_split_asm)
  obtain b where B: "tenant_root_dir t = Inr b" "d = b @ [shard_for_job_id j, j]" "is_safe_path_segment j"
    using sharded_Inr[OF d] by blast
  obtain b' m where B': "tenant_root_dir t' = Inr b'" "p = b' @ m @ [''job.json'']"
      "m = [shard_for_job_id j', j'] \<or> m = [j']" "is_safe_path_segment j'"
    by (rule job_files_shape[OF p])
  have len: "length (shard_for_job_id j) = 2" "length (shard_for_job_id j') = 2"
    using B(3) B'(4) length_shard safe_segment_nonempty by blast+
  then have ns: "shard_for_job_id j \<noteq> ''tenants''" "shard_for_job_id j' \<noteq> ''tenants''" by auto
  have e: "b' @ m @ [''job.json''] = b @ [shard_for_job_id j, j] @ posix_parts rel"
    using pd B(2) B'(2) by simp
  have "t' = t \<and> j' = j \<and> posix_parts rel = [''job.json'']"
    using e B(1) B'(1,3) ns len ne by (auto simp: tenant_root_Inr append_eq_Cons_conv Cons_eq_append_conv)
  with pd show ?thesis by (simp add: job_json_def)
qed

end
