(* ===== verification/TextOps.thy ===== *)
theory TextOps
  imports JobModel
begin

text \<open>
  Text-level services of the drafting phase: variable corrections
  (domain/variable_corrections.py), the confirmation gate (domain/draft_confirm_blocking.py and the
  field part of domain/plan_freeze_gate.py), the merge of confirmations
  (domain/plan_service_confirmation.py), their effects (domain/plan_contract.py), whitespace
  normalisation (domain/plan_id_support.py), and Stata column names (domain/column_normalizer.py).
\<close>

section \<open>Cleaning variable corrections\<close>

definition add_correction :: "(str, str) dict \<Rightarrow> str \<times> str \<Rightarrow> (str, str) dict" where
  "add_correction cleaned entry =
     (let old_norm = py_strip (fst entry); new_norm = py_strip (snd entry)
      in if old_norm = [] \<or> new_norm = [] then cleaned
         else if old_norm = new_norm then cleaned
         else dict_set cleaned old_norm new_norm)"

definition clean_variable_corrections :: "(str, str) dict \<Rightarrow> (str, str) dict" where
  "clean_variable_corrections raw = foldl add_correction [] raw"

section \<open>Applying variable corrections\<close>

text \<open>\<open>[A-Za-z0-9_]\<close>\<close>

definition is_token_char :: "char \<Rightarrow> bool" where
  "is_token_char c =
     ((65 \<le> code_of c \<and> code_of c \<le> 90) \<or> (97 \<le> code_of c \<and> code_of c \<le> 122) \<or>
      (48 \<le> code_of c \<and> code_of c \<le> 57) \<or> c = CHR ''_'')"

text \<open>
  \<open>pattern.sub(new, value)\<close> for the pattern \<open>(?<![A-Za-z0-9_])old(?![A-Za-z0-9_])\<close>: from left to right,
  without overlaps. \<open>prev\<close> is the character before the position (of the original text). A non-empty
  \<open>old\<close> is consumed whole, so the rest of the text shrinks.
\<close>

definition boundary_before :: "char option \<Rightarrow> bool" where
  "boundary_before prev = (case prev of None \<Rightarrow> True | Some c \<Rightarrow> \<not> is_token_char c)"

definition boundary_after :: "str \<Rightarrow> bool" where
  "boundary_after rest = (case rest of [] \<Rightarrow> True | c # _ \<Rightarrow> \<not> is_token_char c)"

definition token_here :: "str \<Rightarrow> char option \<Rightarrow> str \<Rightarrow> bool" where
  "token_here old prev s =
     (boundary_before prev \<and> startswith s old \<and> boundary_after (drop (length old) s))"

function sub_token :: "str \<Rightarrow> str \<Rightarrow> char option \<Rightarrow> str \<Rightarrow> str" where
  "sub_token old new prev s =
     (if old = [] then s
      else case s of
        [] \<Rightarrow> []
      | c # cs \<Rightarrow>
          (if token_here old prev s
           then new @ sub_token old new (Some (last old)) (drop (length old) s)
           else c # sub_token old new (Some c) cs))"
  by pat_completeness auto
termination
  by (relation "measure (\<lambda>(old, new, prev, s). length s)") (auto simp: token_here_def)

declare sub_token.simps [simp del]

text \<open>
  The replacement of \<open>re.sub\<close> is a template: a backslash in it is an escape. \<open>literal_template\<close> says
  that \<open>new\<close> has none; otherwise \<open>expand\<close>, the template parser of the \<open>re\<close> module, gives the text that
  is inserted or raises.
\<close>

definition literal_template :: "str \<Rightarrow> bool" where
  "literal_template new = (CHR 0x5C \<notin> set new)"

definition replace_token_boundary :: "(str \<Rightarrow> exn + str) \<Rightarrow> str \<Rightarrow> str \<Rightarrow> str \<Rightarrow> exn + str" where
  "replace_token_boundary expand old new value =
     bindE (if literal_template new then Inr new else expand new) (\<lambda>text.
       Inr (sub_token old text None value))"

definition apply_corrections_text :: "(str \<Rightarrow> exn + str) \<Rightarrow> (str, str) dict \<Rightarrow> str \<Rightarrow> exn + str" where
  "apply_corrections_text expand corrections value =
     foldE (\<lambda>out old. replace_token_boundary expand old (the (dict_get corrections old)) out) value
       (sort (map fst corrections))"

fun apply_corrections_json :: "(str \<Rightarrow> exn + str) \<Rightarrow> (str, str) dict \<Rightarrow> json \<Rightarrow> exn + json"
  and apply_corrections_list :: "(str \<Rightarrow> exn + str) \<Rightarrow> (str, str) dict \<Rightarrow> json list \<Rightarrow> exn + json list"
  and apply_corrections_items :: "(str \<Rightarrow> exn + str) \<Rightarrow> (str, str) dict \<Rightarrow> jobj \<Rightarrow> exn + jobj" where
  "apply_corrections_json e cs (JStr s) = bindE (apply_corrections_text e cs s) (\<lambda>t. Inr (JStr t))"
| "apply_corrections_json e cs (JList xs) = bindE (apply_corrections_list e cs xs) (\<lambda>ys. Inr (JList ys))"
| "apply_corrections_json e cs (JObj d) = bindE (apply_corrections_items e cs d) (\<lambda>d'. Inr (JObj d'))"
| "apply_corrections_json e cs JNull = Inr JNull"
| "apply_corrections_json e cs (JBool b) = Inr (JBool b)"
| "apply_corrections_json e cs (JInt i) = Inr (JInt i)"
| "apply_corrections_json e cs (JFloat f) = Inr (JFloat f)"
| "apply_corrections_list e cs [] = Inr []"
| "apply_corrections_list e cs (x # xs) =
     bindE (apply_corrections_json e cs x) (\<lambda>y. bindE (apply_corrections_list e cs xs) (\<lambda>ys. Inr (y # ys)))"
| "apply_corrections_items e cs [] = Inr []"
| "apply_corrections_items e cs ((k, x) # d) =
     bindE (apply_corrections_json e cs x) (\<lambda>y. bindE (apply_corrections_items e cs d) (\<lambda>d'. Inr ((k, y) # d')))"

fun mapE :: "('a \<Rightarrow> 'e + 'b) \<Rightarrow> 'a list \<Rightarrow> 'e + 'b list" where
  "mapE f [] = Inr []"
| "mapE f (x # xs) = bindE (f x) (\<lambda>y. bindE (mapE f xs) (\<lambda>ys. Inr (y # ys)))"

fun optE :: "('a \<Rightarrow> 'e + 'b) \<Rightarrow> 'a option \<Rightarrow> 'e + 'b option" where
  "optE f None = Inr None"
| "optE f (Some x) = bindE (f x) (\<lambda>y. Inr (Some y))"

definition apply_corrections_to_draft ::
  "(str \<Rightarrow> exn + str) \<Rightarrow> (str, str) dict \<Rightarrow> draft \<Rightarrow> exn + draft" where
  "apply_corrections_to_draft expand corrections d =
     (if corrections = [] then Inr d
      else let f = apply_corrections_text expand corrections in
        bindE (optE f (d_outcome_var d)) (\<lambda>ov.
        bindE (optE f (d_treatment_var d)) (\<lambda>tv.
        bindE (mapE f (d_controls d)) (\<lambda>cs.
        bindE (apply_corrections_items expand corrections (d_default_overrides d)) (\<lambda>ovr.
        bindE (f (d_text d)) (\<lambda>txt.
          Inr (d\<lparr>d_text := txt, d_outcome_var := ov, d_treatment_var := tv, d_controls := cs,
                 d_default_overrides := ovr\<rparr>)))))))"

section \<open>Confirmations\<close>

definition effective_confirmation :: "job \<Rightarrow> job_confirmation \<Rightarrow> job_confirmation" where
  "effective_confirmation job c =
     (let c1 = (if jc_requirement c = None then c\<lparr>jc_requirement := j_requirement job\<rparr> else c)
      in case j_confirmation job of
           None \<Rightarrow> c1
         | Some ex \<Rightarrow>
             c1\<lparr>jc_notes := (if jc_notes c = None then jc_notes ex else jc_notes c),
                jc_answers := (if jc_answers c = [] then jc_answers ex else jc_answers c),
                jc_variable_corrections :=
                  (if jc_variable_corrections c = [] then jc_variable_corrections ex
                   else jc_variable_corrections c),
                jc_default_overrides :=
                  (if jc_default_overrides c = [] then jc_default_overrides ex else jc_default_overrides c),
                jc_expert_suggestions_feedback :=
                  (if jc_expert_suggestions_feedback c = [] then jc_expert_suggestions_feedback ex
                   else jc_expert_suggestions_feedback c)\<rparr>)"

definition apply_confirmation_effects ::
  "(str \<Rightarrow> exn + str) \<Rightarrow> job \<Rightarrow> job_confirmation \<Rightarrow> exn + job \<times> job_confirmation" where
  "apply_confirmation_effects expand job c =
     (let cs = jc_variable_corrections c; f = apply_corrections_text expand cs
      in if cs = [] then Inr (job, c)
         else
           bindE (optE f (j_requirement job)) (\<lambda>req.
           bindE (optE f (jc_requirement c)) (\<lambda>creq.
           bindE (optE (apply_corrections_to_draft expand cs) (j_draft job)) (\<lambda>d.
           bindE (apply_corrections_items expand cs (jc_default_overrides c)) (\<lambda>ovr.
             Inr (job\<lparr>j_requirement := req, j_draft := d\<rparr>,
                  c\<lparr>jc_requirement := creq, jc_default_overrides := ovr\<rparr>))))))"

section \<open>The confirmation gate\<close>

function has_selected_answer :: "json option \<Rightarrow> bool" where
  "has_selected_answer None = False"
| "has_selected_answer (Some JNull) = False"
| "has_selected_answer (Some (JStr s)) = (\<not> blank s)"
| "has_selected_answer (Some (JList xs)) = list_ex (\<lambda>x. has_selected_answer (Some x)) xs"
| "has_selected_answer (Some (JBool b)) = True"
| "has_selected_answer (Some (JInt i)) = True"
| "has_selected_answer (Some (JFloat f)) = True"
| "has_selected_answer (Some (JObj d)) = True"
  by pat_completeness auto
termination
  by (relation "measure (\<lambda>v. case v of None \<Rightarrow> 0 | Some j \<Rightarrow> Suc (size j))")
     (auto simp: less_Suc_eq_le size_list_estimation')

definition missing_stage1_answers :: "draft option \<Rightarrow> jobj \<Rightarrow> str list" where
  "missing_stage1_answers d answers =
     (case d of
        None \<Rightarrow> []
      | Some dr \<Rightarrow>
          map sq_question_id
            (filter (\<lambda>q. \<not> blank (sq_question_id q) \<and>
                         \<not> has_selected_answer (dict_get answers (sq_question_id q)))
               (d_stage1_questions dr)))"

definition is_blocking_unknown :: "open_unknown \<Rightarrow> bool" where
  "is_blocking_unknown u =
     (\<not> blank (ou_field u) \<and> (ou_blocking u = Some True \<or> ou_impact u \<in> {''high'', ''critical''}))"

definition blocking_unknown_fields :: "draft option \<Rightarrow> str list" where
  "blocking_unknown_fields d =
     (case d of None \<Rightarrow> [] | Some dr \<Rightarrow> map ou_field (filter is_blocking_unknown (d_open_unknowns dr)))"

definition confirm_blockers :: "draft option \<Rightarrow> jobj \<Rightarrow> str list \<times> str list" where
  "confirm_blockers d answers = (missing_stage1_answers d answers, blocking_unknown_fields d)"

definition missing_draft_fields_for_plan_freeze :: "draft option \<Rightarrow> jobj \<Rightarrow> str list" where
  "missing_draft_fields_for_plan_freeze d answers =
     (let (qs, us) = confirm_blockers d answers
      in sort (remdups
           (map (\<lambda>q. ''stage1_questions.'' @ q) (filter (\<lambda>q. \<not> blank q) qs) @
            map (\<lambda>f. ''open_unknowns.'' @ f) (filter (\<lambda>f. \<not> blank f) us))))"

section \<open>Whitespace normalisation\<close>

text \<open>\<open>re.sub(r"\s+", " ", value.strip())\<close>: every maximal run of white space becomes one blank.\<close>

fun collapse_ws :: "bool \<Rightarrow> str \<Rightarrow> str" where
  "collapse_ws prev [] = []"
| "collapse_ws prev (c # cs) =
     (if py_isspace c then (if prev then collapse_ws True cs else CHR '' '' # collapse_ws True cs)
      else c # collapse_ws False cs)"

definition normalize_whitespace :: "str \<Rightarrow> str" where
  "normalize_whitespace value = collapse_ws False (py_strip value)"

section \<open>Stata column names\<close>

definition STATA_NAME_MAX_LEN :: nat where
  "STATA_NAME_MAX_LEN = 32"

definition hex_digit :: "nat \<Rightarrow> char" where
  "hex_digit n = (if n < 10 then char_of (48 + n) else char_of (87 + n))"

text \<open>\<open>f"_u{code:04x}"\<close> for a code below 256.\<close>

definition unicode_token :: "nat \<Rightarrow> str" where
  "unicode_token n = ''_u00'' @ [hex_digit (n div 16), hex_digit (n mod 16)]"

definition is_lower_az :: "char \<Rightarrow> bool" where
  "is_lower_az c = (97 \<le> code_of c \<and> code_of c \<le> 122)"

definition is_stata_char :: "char \<Rightarrow> bool" where
  "is_stata_char c = (is_lower_az c \<or> (48 \<le> code_of c \<and> code_of c \<le> 57) \<or> c = CHR ''_'')"

definition char_token :: "char \<Rightarrow> str" where
  "char_token ch =
     (let lower = py_lower_char ch
      in if is_stata_char lower then [lower]
         else if py_isspace ch then ''_''
         else unicode_token (code_of ch))"

fun collapse_underscores :: "bool \<Rightarrow> str \<Rightarrow> str" where
  "collapse_underscores prev [] = []"
| "collapse_underscores prev (c # cs) =
     (if c = CHR ''_'' then (if prev then collapse_underscores True cs else c # collapse_underscores True cs)
      else c # collapse_underscores False cs)"

definition strip_underscores :: "str \<Rightarrow> str" where
  "strip_underscores s =
     rev (dropWhile (\<lambda>c. c = CHR ''_'') (rev (dropWhile (\<lambda>c. c = CHR ''_'') s)))"

definition normalize_base :: "str \<Rightarrow> str" where
  "normalize_base name =
     (let raw = py_strip name
      in if raw = [] then ''v''
         else let c0 = strip_underscores (collapse_underscores False (concat (map char_token raw)));
                  c1 = (if c0 = [] then ''v'' else c0);
                  c2 = (if \<not> is_lower_az (hd c1) then ''v_'' @ c1 else c1)
              in take STATA_NAME_MAX_LEN c2)"

text \<open>\<open>^[a-z][a-z0-9_]*$\<close>; the names it is applied to contain no newline.\<close>

definition valid_stata_name :: "str \<Rightarrow> bool" where
  "valid_stata_name s = (s \<noteq> [] \<and> is_lower_az (hd s) \<and> list_all is_stata_char s)"

fun nat_digits :: "nat \<Rightarrow> str" where
  "nat_digits n = (if n < 10 then [char_of (48 + n)] else nat_digits (n div 10) @ [char_of (48 + n mod 10)])"

definition count_suffix :: "nat \<Rightarrow> str" where
  "count_suffix n = CHR ''_'' # nat_digits n"

definition apply_suffix :: "str \<Rightarrow> str \<Rightarrow> str" where
  "apply_suffix base suffix =
     (if length base + length suffix \<le> STATA_NAME_MAX_LEN then base @ suffix
      else take (STATA_NAME_MAX_LEN - length suffix) base @ suffix)"

text \<open>The suffix of a count determines the count, whatever it is appended to.\<close>

declare nat_digits.simps [simp del]

lemma code_digit: "m < 10 \<Longrightarrow> code_of (char_of (48 + m)) = 48 + m"
  by simp

lemma nat_digits_chars: "list_all (\<lambda>c. 48 \<le> code_of c \<and> code_of c \<le> 57) (nat_digits n)"
proof (induction n rule: nat_digits.induct)
  case (1 n)
  have d: "n mod 10 < 10" by simp
  show ?case
    using 1 code_digit[of n] code_digit[OF d]
    by (subst nat_digits.simps) (use d in \<open>auto simp del: of_char_of\<close>)
qed

lemma nat_digits_value: "foldl (\<lambda>a c. 10 * a + (code_of c - 48)) 0 (nat_digits n) = n"
proof (induction n rule: nat_digits.induct)
  case (1 n)
  have d: "n mod 10 < 10" by simp
  show ?case
    using 1 code_digit[of n] code_digit[OF d]
    by (subst nat_digits.simps) (simp del: of_char_of)
qed

lemma nat_digits_inj: "nat_digits m = nat_digits n \<longleftrightarrow> m = n"
  using nat_digits_value[of m] nat_digits_value[of n] by metis

lemma nat_digits_no_underscore: "CHR ''_'' \<notin> set (nat_digits n)"
  using nat_digits_chars[of n] by (auto simp: list_all_iff)

lemma suffix_inj:
  assumes "b @ count_suffix m = b' @ count_suffix n"
  shows "m = n"
proof -
  have tw: "takeWhile (\<lambda>x. x \<noteq> CHR ''_'') (rev (i @ count_suffix k)) = rev (nat_digits k)" for i k
  proof -
    have "takeWhile (\<lambda>x. x \<noteq> CHR ''_'') (rev (nat_digits k) @ CHR ''_'' # rev i) = rev (nat_digits k)"
      using nat_digits_no_underscore[of k] by (subst takeWhile_append2) auto
    then show ?thesis by (simp add: count_suffix_def)
  qed
  have "rev (nat_digits m) = rev (nat_digits n)" using tw[of b m] tw[of b' n] assms by simp
  then show ?thesis by (simp add: nat_digits_inj)
qed

lemma apply_suffix_inj: "apply_suffix b (count_suffix m) = apply_suffix b (count_suffix n) \<Longrightarrow> m = n"
  using suffix_inj[of "if length b + length (count_suffix m) \<le> STATA_NAME_MAX_LEN then b
      else take (STATA_NAME_MAX_LEN - length (count_suffix m)) b" m
      "if length b + length (count_suffix n) \<le> STATA_NAME_MAX_LEN then b
      else take (STATA_NAME_MAX_LEN - length (count_suffix n)) b" n]
  by (simp add: apply_suffix_def split: if_splits)

lemma finite_taken: "finite {c. k \<le> c \<and> apply_suffix b (count_suffix c) \<in> set used}"
proof (rule finite_subset)
  show "{c. k \<le> c \<and> apply_suffix b (count_suffix c) \<in> set used} \<subseteq>
        {c. apply_suffix b (count_suffix c) \<in> set used}" by blast
  have "inj (\<lambda>c. apply_suffix b (count_suffix c))" by (rule injI) (rule apply_suffix_inj)
  then show "finite {c. apply_suffix b (count_suffix c) \<in> set used}"
    using finite_vimageI[of "set used" "\<lambda>c. apply_suffix b (count_suffix c)"] by (simp add: vimage_def)
qed

text \<open>The \<open>while candidate in used\<close> loop: it ends because the candidates are all different.\<close>

function next_free :: "str list \<Rightarrow> str \<Rightarrow> nat \<Rightarrow> nat" where
  "next_free used base count =
     (if apply_suffix base (count_suffix count) \<in> set used then next_free used base (Suc count) else count)"
  by pat_completeness auto
termination
proof (relation "measure (\<lambda>(used, base, count).
    card {c. count \<le> c \<and> apply_suffix base (count_suffix c) \<in> set used})", goal_cases)
  case 1
  then show ?case by simp
next
  case (2 used base count)
  then have "{c. Suc count \<le> c \<and> apply_suffix base (count_suffix c) \<in> set used} \<subset>
             {c. count \<le> c \<and> apply_suffix base (count_suffix c) \<in> set used}"
    by (auto simp: psubset_eq Suc_le_eq)
  then show ?case by (simp add: psubset_card_mono finite_taken)
qed

declare next_free.simps [simp del]

definition pick_name :: "str list \<Rightarrow> (str, nat) dict \<Rightarrow> str \<Rightarrow> str \<times> nat" where
  "pick_name used counts base =
     (let count = (case dict_get counts base of None \<Rightarrow> 1 | Some n \<Rightarrow> n + 1);
          candidate = (if count = 1 then base else apply_suffix base (count_suffix count))
      in if candidate \<notin> set used then (candidate, count)
         else let n = next_free used base (count + 1) in (apply_suffix base (count_suffix n), n))"

fun unique_names_loop :: "nat \<Rightarrow> str list \<Rightarrow> (str, nat) dict \<Rightarrow> str list \<Rightarrow> str list" where
  "unique_names_loop idx out counts [] = out"
| "unique_names_loop idx out counts (original # rest) =
     (let b = normalize_base original;
          base = (if valid_stata_name b then b else ''v_'' @ nat_digits idx);
          (candidate, count) = pick_name out counts base
      in unique_names_loop (Suc idx) (out @ [candidate]) (dict_set counts base count) rest)"

definition stata_safe_unique_names :: "str list \<Rightarrow> str list" where
  "stata_safe_unique_names originals = unique_names_loop 1 [] [] originals"

definition group_candidates :: "column_candidate list \<Rightarrow> (str, column_candidate list) dict" where
  "group_candidates items =
     foldl (\<lambda>d c. dict_set d (cc_dataset_key c)
              ((case dict_get d (cc_dataset_key c) of None \<Rightarrow> [] | Some xs \<Rightarrow> xs) @ [c])) [] items"

definition build_column_name_normalizations :: "column_candidate list \<Rightarrow> column_name_normalization list" where
  "build_column_name_normalizations items =
     concat (map (\<lambda>(key, cs).
        map2 (\<lambda>c n. \<lparr>cn_dataset_key = key, cn_role = cc_role c, cn_original_name = cc_name c,
                     cn_normalized_name = n\<rparr>) cs (stata_safe_unique_names (map cc_name cs)))
       (group_candidates items))"

end
