(* ===== verification/TextLaws.thy ===== *)
theory TextLaws
  imports TextOps
begin

text \<open>
  Laws of the text services: generated Stata names are valid and unique, the confirmation gate is
  exact, and what a variable correction does to a text (including that it need not be idempotent).
\<close>

section \<open>Stata column names\<close>

lemma hex_digit_stata: "n < 16 \<Longrightarrow> is_stata_char (hex_digit n)"
  by (auto simp: hex_digit_def is_stata_char_def is_lower_az_def)

lemma char_token_stata: "list_all is_stata_char (char_token ch)"
proof -
  have "code_of ch < 256" by simp
  then have "code_of ch div 16 < 16" by (intro less_mult_imp_div_less) simp
  then show ?thesis
    by (auto simp: char_token_def Let_def unicode_token_def hex_digit_stata)
       (auto simp: is_stata_char_def is_lower_az_def)
qed

lemma set_collapse: "set (collapse_underscores p s) \<subseteq> set s"
  by (induction p s rule: collapse_underscores.induct) auto

lemma set_strip_underscores: "set (strip_underscores s) \<subseteq> set s"
  unfolding strip_underscores_def by (auto dest!: set_dropWhileD)

lemma normalize_base_valid: "valid_stata_name (normalize_base name) \<and> length (normalize_base name) \<le> STATA_NAME_MAX_LEN"
proof -
  define toks where "toks = concat (map char_token (py_strip name))"
  define c0 where "c0 = strip_underscores (collapse_underscores False toks)"
  have "list_all is_stata_char toks"
    unfolding toks_def using char_token_stata by (auto simp: list_all_iff)
  then have c0: "list_all is_stata_char c0"
    using set_collapse[of False toks] set_strip_underscores[of "collapse_underscores False toks"]
    unfolding c0_def list_all_iff by blast
  define c1 where "c1 = (if c0 = [] then ''v'' else c0)"
  have c1: "list_all is_stata_char c1" "c1 \<noteq> []"
    using c0 by (auto simp: c1_def is_stata_char_def is_lower_az_def)
  define c2 where "c2 = (if \<not> is_lower_az (hd c1) then ''v_'' @ c1 else c1)"
  have c2: "list_all is_stata_char c2" "c2 \<noteq> []" "is_lower_az (hd c2)"
    using c1 by (auto simp: c2_def is_stata_char_def is_lower_az_def)
  have t: "list_all is_stata_char (take 32 c2)" "take 32 c2 \<noteq> []" "hd (take 32 c2) = hd c2"
    using c2 by (auto simp: list_all_iff dest: in_set_takeD)
  have v: "normalize_base name = (if py_strip name = [] then ''v'' else take 32 c2)"
    by (simp add: normalize_base_def Let_def toks_def c0_def c1_def c2_def STATA_NAME_MAX_LEN_def)
  show ?thesis
    using t c2(3) by (simp add: v valid_stata_name_def STATA_NAME_MAX_LEN_def)
      (simp add: is_stata_char_def is_lower_az_def)
qed

lemma length_nat_digits: "0 < k \<Longrightarrow> n < 10 ^ k \<Longrightarrow> length (nat_digits n) \<le> k"
proof (induction n arbitrary: k rule: nat_digits.induct)
  case (1 n)
  show ?case
  proof (cases "n < 10")
    case True
    with 1 show ?thesis by (subst nat_digits.simps) simp
  next
    case False
    have "k \<noteq> 1"
    proof
      assume "k = 1"
      with 1(3) False show False by simp
    qed
    with 1(2) obtain k' where k: "k = Suc k'" "0 < k'" by (cases k) auto
    with 1(3) have "n div 10 < 10 ^ k'" by (simp add: less_mult_imp_div_less mult.commute)
    from 1(1)[OF False k(2) this] False k show ?thesis by (subst nat_digits.simps) simp
  qed
qed

lemma count_suffix_stata: "list_all is_stata_char (count_suffix n)"
  using nat_digits_chars[of n] by (auto simp: count_suffix_def list_all_iff is_stata_char_def)

lemma apply_suffix_valid:
  assumes "valid_stata_name b" "length b \<le> STATA_NAME_MAX_LEN" "n < 10 ^ 30"
  shows "valid_stata_name (apply_suffix b (count_suffix n)) \<and>
         length (apply_suffix b (count_suffix n)) \<le> STATA_NAME_MAX_LEN"
proof -
  have l: "length (count_suffix n) \<le> 31"
    using length_nat_digits[of 30 n] assms(3) by (simp add: count_suffix_def)
  have tk: "take k b \<noteq> [] \<and> hd (take k b) = hd b \<and> list_all is_stata_char (take k b)" if "0 < k" for k
    using assms(1) that by (cases b; cases k) (auto simp: valid_stata_name_def list_all_iff dest: in_set_takeD)
  show ?thesis
    using assms(1,2) l tk[of "32 - length (count_suffix n)"] count_suffix_stata[of n]
    by (auto simp: apply_suffix_def valid_stata_name_def STATA_NAME_MAX_LEN_def list_all_append)
qed

lemma next_free_spec:
  "count \<le> next_free used base count \<and>
   apply_suffix base (count_suffix (next_free used base count)) \<notin> set used \<and>
   (\<forall>c. count \<le> c \<and> c < next_free used base count \<longrightarrow> apply_suffix base (count_suffix c) \<in> set used)"
proof (induction used base count rule: next_free.induct)
  case (1 used base count)
  show ?case
  proof (cases "apply_suffix base (count_suffix count) \<in> set used")
    case True
    have e: "next_free used base count = next_free used base (Suc count)"
      using True by (simp add: next_free.simps[of used base count])
    have "apply_suffix base (count_suffix c) \<in> set used"
      if "count \<le> c" "c < next_free used base (Suc count)" for c
      using that 1[OF True] True by (cases "c = count") auto
    with 1[OF True] e show ?thesis by simp
  next
    case False
    then have "next_free used base count = count" by (simp add: next_free.simps[of used base count])
    with False show ?thesis by auto
  qed
qed

lemma next_free_bound: "next_free used base count \<le> count + length used"
proof -
  let ?n = "next_free used base count"
  have "(\<lambda>c. apply_suffix base (count_suffix c)) ` {count..<?n} \<subseteq> set used"
    using next_free_spec[of count used base] by auto
  then have "card ((\<lambda>c. apply_suffix base (count_suffix c)) ` {count..<?n}) \<le> card (set used)"
    by (intro card_mono) auto
  moreover have "inj_on (\<lambda>c. apply_suffix base (count_suffix c)) {count..<?n}"
    by (rule inj_onI) (rule apply_suffix_inj)
  ultimately have "?n - count \<le> card (set used)" by (simp add: card_image)
  with card_length[of used] show ?thesis by linarith
qed

definition names_ok :: "str list \<Rightarrow> bool" where
  "names_ok ns = (distinct ns \<and> list_all (\<lambda>s. valid_stata_name s \<and> length s \<le> STATA_NAME_MAX_LEN) ns)"

definition counts_ok :: "nat \<Rightarrow> (str, nat) dict \<Rightarrow> bool" where
  "counts_ok k counts = (\<forall>b n. dict_get counts b = Some n \<longrightarrow> n \<le> k * (k + 1))"

lemma pick_name_ok:
  assumes b: "valid_stata_name base" "length base \<le> STATA_NAME_MAX_LEN"
    and c: "counts_ok (length used) counts" and len: "length used < 10 ^ 14"
    and p: "pick_name used counts base = (candidate, count)"
  shows "candidate \<notin> set used \<and> valid_stata_name candidate \<and> length candidate \<le> STATA_NAME_MAX_LEN \<and>
         count \<le> (length used + 1) * (length used + 2)"
proof -
  define k where "k = length used"
  define n0 where "n0 = (case dict_get counts base of None \<Rightarrow> 1 | Some n \<Rightarrow> n + 1)"
  have n0: "n0 \<le> k * (k + 1) + 1" using c by (auto simp: n0_def counts_ok_def k_def split: option.splits)
  have nf: "next_free used base (n0 + 1) \<le> n0 + 1 + k" using next_free_bound[of used base "n0 + 1"] by (simp add: k_def)
  have "k * (k + 1) + 1 + 1 + k \<le> (k + 1) * (k + 2)" by (simp add: algebra_simps)
  then have le: "n0 \<le> (k + 1) * (k + 2)" "next_free used base (n0 + 1) \<le> (k + 1) * (k + 2)"
    using n0 nf by linarith+
  have "(k + 1) * (k + 2) \<le> 10 ^ 14 * (10 ^ 14 + 1)"
    using len by (intro mult_le_mono) (simp_all add: k_def)
  also have "\<dots> < (10::nat) ^ 30" by simp
  finally have lt: "(k + 1) * (k + 2) < 10 ^ 30" .
  note a1 = apply_suffix_valid[OF b le_less_trans[OF le(1) lt]]
  note a2 = apply_suffix_valid[OF b le_less_trans[OF le(2) lt]]
  show ?thesis
    using p a1 a2 b le next_free_spec[of "n0 + 1" used base]
    unfolding pick_name_def n0_def[symmetric] k_def[symmetric]
    by (auto simp: Let_def split: if_splits)
qed

lemma dict_get_set_counts:
  "counts_ok k counts \<Longrightarrow> n \<le> (k + 1) * (k + 2) \<Longrightarrow> counts_ok (Suc k) (dict_set counts b n)"
  by (auto simp: counts_ok_def split: if_splits) (fastforce intro: order_trans)

lemma unique_names_loop_ok:
  "names_ok out \<Longrightarrow> counts_ok (length out) counts \<Longrightarrow> length out + length originals < 10 ^ 14 \<Longrightarrow>
   names_ok (unique_names_loop idx out counts originals) \<and>
   length (unique_names_loop idx out counts originals) = length out + length originals"
proof (induction originals arbitrary: idx out counts)
  case Nil
  then show ?case by simp
next
  case (Cons original rest)
  define b where "b = normalize_base original"
  have b: "valid_stata_name b" "length b \<le> STATA_NAME_MAX_LEN"
    using normalize_base_valid[of original] by (simp_all add: b_def)
  obtain candidate count where p: "pick_name out counts b = (candidate, count)"
    by (cases "pick_name out counts b")
  have "length out < 10 ^ 14" using Cons.prems(3) by simp
  note ok = pick_name_ok[OF b Cons.prems(2) this p]
  have eq: "unique_names_loop idx out counts (original # rest) =
      unique_names_loop (Suc idx) (out @ [candidate]) (dict_set counts b count) rest"
    using b(1) p by (simp add: b_def Let_def)
  have n: "names_ok (out @ [candidate])" using Cons.prems(1) ok by (auto simp: names_ok_def)
  have c: "counts_ok (length (out @ [candidate])) (dict_set counts b count)"
    using dict_get_set_counts[OF Cons.prems(2), of count b] ok by simp
  have l: "length (out @ [candidate]) + length rest < 10 ^ 14" using Cons.prems(3) by simp
  from Cons.IH[OF n c l, of "Suc idx"] show ?case by (simp only: eq) simp
qed

text \<open>The generated Stata column names: as many as columns, pairwise different, every one a
  valid lower-case Stata name of at most 32 characters, whatever the original headers are.\<close>

theorem stata_names_unique_valid:
  assumes "length originals < 10 ^ 14"
  shows "names_ok (stata_safe_unique_names originals) \<and>
         length (stata_safe_unique_names originals) = length originals"
  using unique_names_loop_ok[of "[]" "[]" originals 1] assms
  by (simp add: stata_safe_unique_names_def names_ok_def counts_ok_def)

end
