(* ===== verification/JobStore.thy ===== *)
theory JobStore
  imports JobFilesLaws
begin

text \<open>
  The contract of the job store (the protocol \<open>JobStore\<close> of domain/job_store.py): a versioned map from
  (tenant, job id) to jobs. The services and the worker are modelled over it; the file store of
  JobFiles refines it. The locale \<open>versioned_store\<close> states optimistic concurrency once, and is
  interpreted on \<open>store_save\<close>.
\<close>

section \<open>The abstract store\<close>

datatype job_file = JobFile job | CorruptFile | UnreadableFile

type_synonym job_store = "str \<times> str \<rightharpoonup> job_file"

definition check_job_ids :: "str \<Rightarrow> str \<Rightarrow> exn + unit" where
  "check_job_ids tenant_id job_id =
     (if \<not> is_safe_path_segment job_id \<or> \<not> is_safe_path_segment (shard_for_job_id job_id)
      then Inl (StoreErr JobIdUnsafe)
      else if tenant_jobs_dir tenant_id = None then Inl (StoreErr TenantIdUnsafe)
      else Inr ())"

definition store_create :: "str \<Rightarrow> job \<Rightarrow> job_store \<Rightarrow> job_store \<times> (exn + unit)" where
  "store_create t job s =
     (case check_job_ids t (j_job_id job) of
        Inl e \<Rightarrow> (s, Inl e)
      | Inr _ \<Rightarrow>
          (if s (t, j_job_id job) \<noteq> None then (s, Inl (StoreErr JobAlreadyExists))
           else if j_schema_version job \<noteq> JOB_SCHEMA_VERSION_CURRENT then (s, corrupted)
           else (s((t, j_job_id job) \<mapsto> JobFile job), Inr ())))"

definition store_load :: "str \<Rightarrow> str \<Rightarrow> job_store \<Rightarrow> exn + job" where
  "store_load t j s =
     (case check_job_ids t j of
        Inl e \<Rightarrow> Inl e
      | Inr _ \<Rightarrow>
          (case s (t, j) of
             None \<Rightarrow> Inl (StoreErr JobNotFound)
           | Some (JobFile job) \<Rightarrow> Inr job
           | Some CorruptFile \<Rightarrow> corrupted
           | Some UnreadableFile \<Rightarrow> Inl (StoreErr (JobStoreIO ''read''))))"

definition store_save :: "str \<Rightarrow> job \<Rightarrow> job_store \<Rightarrow> job_store \<times> (exn + job)" where
  "store_save t job s =
     (case check_job_ids t (j_job_id job) of
        Inl e \<Rightarrow> (s, Inl e)
      | Inr _ \<Rightarrow>
          (case s (t, j_job_id job) of
             None \<Rightarrow> (s, Inl (StoreErr JobNotFound))
           | Some f \<Rightarrow>
               (if j_schema_version job \<noteq> JOB_SCHEMA_VERSION_CURRENT then (s, corrupted)
                else case f of
                       CorruptFile \<Rightarrow> (s, corrupted)
                     | UnreadableFile \<Rightarrow> (s, Inl (StoreErr (JobStoreIO ''read'')))
                     | JobFile disk \<Rightarrow>
                         (if j_version job \<noteq> j_version disk
                          then (s, Inl (StoreErr (JobVersionConflict (j_version job) (j_version disk))))
                          else let job' = job\<lparr>j_version := j_version job + 1\<rparr>
                               in (s((t, j_job_id job) \<mapsto> JobFile job'), Inr job')))))"

lemma store_load_JobFile:
  "store_load t j s = Inr job \<longleftrightarrow> check_job_ids t j = Inr () \<and> s (t, j) = Some (JobFile job)"
  by (auto simp: store_load_def corrupted_def split: sum.splits option.splits job_file.splits)

lemma store_save_Inr:
  "store_save t job s = (s', Inr job') \<longleftrightarrow>
     check_job_ids t (j_job_id job) = Inr () \<and> j_schema_version job = JOB_SCHEMA_VERSION_CURRENT \<and>
     (\<exists>disk. s (t, j_job_id job) = Some (JobFile disk) \<and> j_version job = j_version disk) \<and>
     job' = job\<lparr>j_version := j_version job + 1\<rparr> \<and> s' = s((t, j_job_id job) \<mapsto> JobFile job')"
  by (auto simp: store_save_def corrupted_def Let_def split: sum.splits option.splits job_file.splits if_splits)

lemma store_save_Inl: "store_save t job s = (s', Inl e) \<Longrightarrow> s' = s"
  by (auto simp: store_save_def corrupted_def Let_def split: sum.splits option.splits job_file.splits if_splits)

section \<open>Optimistic concurrency\<close>

text \<open>Save attempts of any number of clients, in the order they take the lock.\<close>

fun save_attempts :: "('v \<Rightarrow> 's \<Rightarrow> 's \<times> bool) \<Rightarrow> 'v list \<Rightarrow> 's \<Rightarrow> bool list" where
  "save_attempts sv [] s = []"
| "save_attempts sv (v # vs) s = snd (sv v s) # save_attempts sv vs (fst (sv v s))"

locale versioned_store =
  fixes lookup :: "'s \<Rightarrow> 'k \<Rightarrow> 'v option" and ver :: "'v \<Rightarrow> int" and key :: "'v \<Rightarrow> 'k"
    and save :: "'v \<Rightarrow> 's \<Rightarrow> 's \<times> bool"
  assumes save_stale: "snd (save v s) \<Longrightarrow> \<exists>w. lookup s (key v) = Some w \<and> ver w = ver v"
    and save_other: "k \<noteq> key v \<Longrightarrow> lookup (fst (save v s)) k = lookup s k"
    and save_bumps: "snd (save v s) \<Longrightarrow> \<exists>w. lookup (fst (save v s)) (key v) = Some w \<and> ver w = ver v + 1"
    and save_fails: "\<not> snd (save v s) \<Longrightarrow> fst (save v s) = s"
begin

abbreviation attempts :: "'v list \<Rightarrow> 's \<Rightarrow> bool list" where
  "attempts \<equiv> save_attempts save"

definition above :: "'k \<Rightarrow> int \<Rightarrow> 's \<Rightarrow> bool" where
  "above k n s = (\<exists>w. lookup s k = Some w \<and> n < ver w)"

lemma above_save: "above k n s \<Longrightarrow> above k n (fst (save v s))"
proof -
  assume a: "above k n s"
  show ?thesis
  proof (cases "snd (save v s)")
    case False
    with a save_fails show ?thesis by simp
  next
    case True
    show ?thesis
    proof (cases "k = key v")
      case False
      with a save_other[OF False, of s] show ?thesis by (simp add: above_def)
    next
      case k: True
      with a save_stale[OF True] save_bumps[OF True] show ?thesis by (auto simp: above_def)
    qed
  qed
qed

lemma above_refuses: "above (key v) (ver v) s \<Longrightarrow> \<not> snd (save v s)"
  using save_stale[of v s] by (auto simp: above_def)

lemma attempts_above:
  "above (key v) (ver v) s \<Longrightarrow> i < length vs \<Longrightarrow> key (vs ! i) = key v \<Longrightarrow> ver (vs ! i) = ver v \<Longrightarrow>
   \<not> attempts vs s ! i"
proof (induction vs arbitrary: s i)
  case Nil
  then show ?case by simp
next
  case (Cons x vs)
  show ?case
  proof (cases i)
    case 0
    with Cons.prems above_refuses[of x s] show ?thesis by simp
  next
    case (Suc n)
    with Cons.IH[OF above_save[OF Cons.prems(1), of x], of n] Cons.prems show ?thesis by simp
  qed
qed

theorem one_save_per_version:
  "i < k \<Longrightarrow> k < length vs \<Longrightarrow> key (vs ! i) = key (vs ! k) \<Longrightarrow> ver (vs ! i) = ver (vs ! k) \<Longrightarrow>
   attempts vs s ! i \<Longrightarrow> \<not> attempts vs s ! k"
proof (induction vs arbitrary: s i k)
  case Nil
  then show ?case by simp
next
  case (Cons x vs)
  show ?case
  proof (cases i)
    case 0
    then have ok: "snd (save x s)" using Cons.prems by simp
    then have "above (key x) (ver x) (fst (save x s))" using save_bumps[OF ok] by (auto simp: above_def)
    moreover obtain k' where "k = Suc k'" using Cons.prems(1) by (cases k) auto
    ultimately show ?thesis using attempts_above[of x "fst (save x s)" k' vs] Cons.prems 0 by simp
  next
    case (Suc i')
    moreover obtain k' where "k = Suc k'" using Cons.prems(1) by (cases k) auto
    ultimately show ?thesis using Cons.IH[of i' k'] Cons.prems by simp
  qed
qed

end

text \<open>The abstract store is one: a versioned value is a tenant with a job of it.\<close>

definition js_lookup :: "job_store \<Rightarrow> str \<times> str \<Rightarrow> (str \<times> job) option" where
  "js_lookup s k = (case s k of Some (JobFile job) \<Rightarrow> Some (fst k, job) | _ \<Rightarrow> None)"

definition js_save :: "str \<times> job \<Rightarrow> job_store \<Rightarrow> job_store \<times> bool" where
  "js_save v s = (case store_save (fst v) (snd v) s of (s', Inr _) \<Rightarrow> (s', True) | (s', Inl _) \<Rightarrow> (s', False))"

interpretation js: versioned_store js_lookup "\<lambda>v. j_version (snd v)" "\<lambda>v. (fst v, j_job_id (snd v))" js_save
proof (unfold_locales, goal_cases)
  case (1 v s)
  then show ?case
    by (cases "store_save (fst v) (snd v) s")
       (auto simp: js_save_def js_lookup_def store_save_Inr split: sum.splits)
next
  case (2 k v s)
  then show ?case
    by (cases "store_save (fst v) (snd v) s")
       (auto simp: js_save_def js_lookup_def store_save_Inr dest: store_save_Inl split: sum.splits)
next
  case (3 v s)
  then show ?case
    by (cases "store_save (fst v) (snd v) s")
       (auto simp: js_save_def js_lookup_def store_save_Inr split: sum.splits)
next
  case (4 v s)
  then show ?case
    by (cases "store_save (fst v) (snd v) s")
       (auto simp: js_save_def dest: store_save_Inl split: sum.splits)
qed



section \<open>The file store refines the abstract store\<close>

definition abs_store :: "(jobj \<Rightarrow> job option) \<Rightarrow> str \<Rightarrow> jobfs \<Rightarrow> job_store" where
  "abs_store validate fresh fs k =
     (case resolve_existing_job_dir calm fs (fst k) (snd k) of
        Inr (Some d) \<Rightarrow>
          (case load_from calm validate fresh (job_json d) fs of
             Inr (_, _, job) \<Rightarrow> Some (JobFile job)
           | Inl _ \<Rightarrow> Some CorruptFile)
      | _ \<Rightarrow> None)"

text \<open>A readable payload parses, with the version it shows on disk.\<close>

definition jobfs_ok :: "(jobj \<Rightarrow> job option) \<Rightarrow> str \<Rightarrow> jobfs \<Rightarrow> bool" where
  "jobfs_ok validate fresh fs =
     (\<forall>p payload q c. fs p = Some (JsonFile (JObj payload)) \<longrightarrow>
        assert_supported_schema_version payload = Inr () \<longrightarrow>
        migrate_payload_to_current fresh payload = Inr (q, c) \<longrightarrow>
        (\<exists>job. validate q = Some job \<and> disk_version q = Some (j_version job)))"

text \<open>What the code relies on of pydantic for the jobs it stores: dumping is undone by validation and
  shows the current schema, a trace id and the version.\<close>

definition codec_for :: "(jobj \<Rightarrow> job option) \<Rightarrow> (job \<Rightarrow> jobj) \<Rightarrow> job \<Rightarrow> bool" where
  "codec_for validate dump job =
     (\<forall>v. let j = job\<lparr>j_version := v\<rparr>
          in validate (dump j) = Some j \<and> current_payload (dump j) \<and>
             (1 \<le> v \<longrightarrow> disk_version (dump j) = Some v))"

datatype store_op = SCreate str job | SLoad str str | SSave str job

fun exec_files ::
  "(jobj \<Rightarrow> job option) \<Rightarrow> (job \<Rightarrow> jobj) \<Rightarrow> str \<Rightarrow> store_op \<Rightarrow> jobfs \<Rightarrow> jobfs \<times> (exn + job)" where
  "exec_files validate dump fresh (SCreate t job) fs =
     map_prod id (map_sum id (\<lambda>_. job)) (file_create calm dump t job fs)"
| "exec_files validate dump fresh (SLoad t j) fs = file_load calm validate fresh t j fs"
| "exec_files validate dump fresh (SSave t job) fs = file_save calm dump fresh t job fs"

fun exec_store :: "store_op \<Rightarrow> job_store \<Rightarrow> job_store \<times> (exn + job)" where
  "exec_store (SCreate t job) s = map_prod id (map_sum id (\<lambda>_. job)) (store_create t job s)"
| "exec_store (SLoad t j) s = (s, store_load t j s)"
| "exec_store (SSave t job) s = store_save t job s"

fun op_codec :: "(jobj \<Rightarrow> job option) \<Rightarrow> (job \<Rightarrow> jobj) \<Rightarrow> store_op \<Rightarrow> bool" where
  "op_codec validate dump (SCreate t job) = (codec_for validate dump job \<and> 1 \<le> j_version job)"
| "op_codec validate dump (SLoad t j) = True"
| "op_codec validate dump (SSave t job) = (codec_for validate dump job \<and> 1 \<le> j_version job)"

lemma check_job_ids_calm:
  "resolve_sharded_job_dir calm t j =
     (case check_job_ids t j of Inl e \<Rightarrow> Inl e
      | Inr _ \<Rightarrow> Inr (the (tenant_jobs_dir t) @ [shard_for_job_id j, j]))"
  "resolve_legacy_job_dir calm t j =
     (if \<not> is_safe_path_segment j then Inl (StoreErr JobIdUnsafe)
      else if tenant_jobs_dir t = None then Inl (StoreErr TenantIdUnsafe)
      else Inr (the (tenant_jobs_dir t) @ [j]))"
  by (auto simp: resolve_sharded_job_dir_def resolve_legacy_job_dir_def check_job_ids_def Let_def
      tenant_root_dir_def calm_def split: option.splits)

lemma resolve_existing_calm:
  "resolve_existing_job_dir calm fs t j = Inl e \<longleftrightarrow> check_job_ids t j = Inl e"
  by (auto simp: resolve_existing_job_dir_def check_job_ids_calm bindE_Inl_iff split: sum.splits if_splits)
     (auto simp: check_job_ids_def split: if_splits)

lemma load_from_write:
  "current_payload q \<Longrightarrow> validate q = Some job \<Longrightarrow> fs p = Some (JsonFile (JObj q)) \<Longrightarrow>
   load_from calm validate fresh p fs = Inr (q, False, job)"
  by (simp add: load_from_def read_job_payload_def calm_def supported_current migrate_current)

lemma abs_store_cong:
  assumes "\<And>p. p \<in> job_files calm t j \<Longrightarrow> fs p = fs' p"
  shows "abs_store validate fresh fs (t, j) = abs_store validate fresh fs' (t, j)"
proof -
  have r: "resolve_existing_job_dir calm fs t j = resolve_existing_job_dir calm fs' t j"
    by (rule resolve_existing_cong) (simp add: assms)
  have "load_from calm validate fresh (job_json d) fs = load_from calm validate fresh (job_json d) fs'"
    if "resolve_existing_job_dir calm fs t j = Inr (Some d)" for d
    using assms[of "job_json d"] existing_job_file[OF that]
    by (simp add: load_from_def read_job_payload_def)
  with r show ?thesis by (auto simp: abs_store_def split: sum.splits option.splits)
qed

text \<open>Writing a parsed payload over an existing job file changes that job, and only that one.\<close>

lemma abs_store_write:
  assumes ex: "resolve_existing_job_dir calm fs t j = Inr (Some d)"
    and q: "current_payload q" "validate q = Some job"
  shows "abs_store validate fresh (fs(job_json d \<mapsto> JsonFile (JObj q))) =
         (abs_store validate fresh fs)((t, j) \<mapsto> JobFile job)"
proof
  fix k :: "str \<times> str"
  obtain t' j' where k: "k = (t', j')" by (cases k)
  let ?fs' = "fs(job_json d \<mapsto> JsonFile (JObj q))"
  note f = existing_job_file[OF ex]
  show "abs_store validate fresh ?fs' k = ((abs_store validate fresh fs)((t, j) \<mapsto> JobFile job)) k"
  proof (cases "k = (t, j)")
    case True
    have "resolve_existing_job_dir calm ?fs' t j = Inr (Some d)"
      using resolve_existing_cong[of calm t j fs ?fs'] ex f by (simp split: if_splits)
    with True load_from_write[of q validate job ?fs' "job_json d" fresh] q show ?thesis by (simp add: abs_store_def)
  next
    case False
    have "fs p = ?fs' p" if "p \<in> job_files calm t' j'" for p
      using job_files_unique[of p calm t' j' t j] that f False k by auto
    then have "abs_store validate fresh fs (t', j') = abs_store validate fresh ?fs' (t', j')"
      by (rule abs_store_cong)
    with False k show ?thesis by auto
  qed
qed

lemma abs_store_id:
  assumes ex: "resolve_existing_job_dir calm fs t j = Inr (Some d)"
    and l: "load_from calm validate fresh (job_json d) fs = Inr (q, c, job)"
  shows "(abs_store validate fresh fs)((t, j) \<mapsto> JobFile job) = abs_store validate fresh fs"
  using assms by (auto simp: abs_store_def)

lemma jobfs_ok_write:
  "jobfs_ok validate fresh fs \<Longrightarrow> current_payload q \<Longrightarrow> validate q = Some job \<Longrightarrow>
   disk_version q = Some (j_version job) \<Longrightarrow> jobfs_ok validate fresh (fs(p \<mapsto> JsonFile (JObj q)))"
  unfolding jobfs_ok_def using migrate_current[of q fresh] by auto

lemma load_from_calm_Inl:
  assumes "load_from calm validate fresh p fs = Inl e" "fs p \<noteq> None"
  shows "e = StoreErr JobDataCorrupted"
  using assms
  by (auto simp: load_from_def read_job_payload_def calm_def corrupted_def bindE_Inl_iff
      assert_supported_schema_version_def migrate_payload_to_current_def migrate_v1_to_v2_def
      migrate_v2_to_v3_def default_list_key_def Let_def case_prod_unfold
      split: option.split_asm if_split_asm jfile.split_asm json.split_asm)

lemma file_load_step:
  assumes ok: "jobfs_ok validate fresh fs" and f: "\<not> blank fresh"
    and r: "file_load calm validate fresh t j fs = (fs', r)"
  shows "jobfs_ok validate fresh fs' \<and> r = store_load t j (abs_store validate fresh fs) \<and>
         abs_store validate fresh fs' = abs_store validate fresh fs"
proof (cases "resolve_existing_job_dir calm fs t j")
  case (Inl e)
  then have "check_job_ids t j = Inl e" by (simp add: resolve_existing_calm)
  with Inl r ok show ?thesis by (auto simp: file_load_def store_load_def)
next
  case (Inr o_d)
  have ids: "check_job_ids t j = Inr ()"
    using Inr resolve_existing_calm[of fs t j] by (cases "check_job_ids t j") auto
  show ?thesis
  proof (cases o_d)
    case None
    with Inr r ok ids show ?thesis by (auto simp: file_load_def store_load_def abs_store_def)
  next
    case (Some d)
    with Inr have ex: "resolve_existing_job_dir calm fs t j = Inr (Some d)" by simp
    note f2 = existing_job_file[OF ex]
    show ?thesis
    proof (cases "load_from calm validate fresh (job_json d) fs")
      case (Inl e)
      with load_from_calm_Inl[OF Inl] f2 ex r ok ids show ?thesis
        by (auto simp: file_load_def store_load_def abs_store_def corrupted_def)
    next
      case (Inr x)
      obtain q c job where x: "x = (q, c, job)" by (cases x)
      with Inr have l: "load_from calm validate fresh (job_json d) fs = Inr (q, c, job)" by simp
      from load_from_Inr[OF this] obtain payload where P: "read_job_payload calm (job_json d) fs = Inr payload"
          "assert_supported_schema_version payload = Inr ()"
          "migrate_payload_to_current fresh payload = Inr (q, c)" "validate q = Some job" by blast
      have cur: "current_payload q" using migration_payload_current[OF P(3) f] .
      have dv: "disk_version q = Some (j_version job)"
        using ok P unfolding jobfs_ok_def read_job_payload_Inr by fastforce
      have fs': "fs' = (if c then fs(job_json d \<mapsto> JsonFile (JObj q)) else fs)" "r = Inr job"
        using r ex l by (auto simp: file_load_def)
      have "abs_store validate fresh fs' = abs_store validate fresh fs"
        using fs'(1) abs_store_write[where validate = validate and q = q and job = job and fresh = fresh, OF ex cur P(4)] abs_store_id[OF ex l] by (cases c) simp_all
      moreover have "jobfs_ok validate fresh fs'"
        using fs'(1) ok jobfs_ok_write[where validate = validate and q = q and job = job, OF ok cur P(4) dv] by (cases c) simp_all
      moreover have "store_load t j (abs_store validate fresh fs) = Inr job"
        using ids ex l by (simp add: store_load_def abs_store_def)
      ultimately show ?thesis using fs'(2) by simp
    qed
  qed
qed

lemma save_to_calm:
  assumes ok: "jobfs_ok validate fresh fs" and ex: "fs p \<noteq> None"
  shows "save_to calm fresh job p fs =
     (if j_schema_version job \<noteq> JOB_SCHEMA_VERSION_CURRENT then corrupted
      else case load_from calm validate fresh p fs of
             Inl _ \<Rightarrow> corrupted
           | Inr (q, c, disk) \<Rightarrow>
               (if j_version job \<noteq> j_version disk
                then Inl (StoreErr (JobVersionConflict (j_version job) (j_version disk)))
                else Inr (job\<lparr>j_version := j_version job + 1\<rparr>)))"
proof (cases "load_from calm validate fresh p fs")
  case (Inr x)
  obtain q c disk where x: "x = (q, c, disk)" by (cases x)
  from load_from_Inr[OF Inr[unfolded x]] obtain payload where P: "read_job_payload calm p fs = Inr payload"
      "assert_supported_schema_version payload = Inr ()"
      "migrate_payload_to_current fresh payload = Inr (q, c)" "validate q = Some disk" by blast
  have "disk_version q = Some (j_version disk)"
    using ok P unfolding jobfs_ok_def read_job_payload_Inr by fastforce
  with P Inr x show ?thesis by (auto simp: save_to_def calm_def)
next
  case (Inl e)
  then have e: "e = StoreErr JobDataCorrupted" using load_from_calm_Inl ex by blast
  have v: "validate q \<noteq> None" if "read_job_payload calm p fs = Inr payload"
      "assert_supported_schema_version payload = Inr ()"
      "migrate_payload_to_current fresh payload = Inr (q, c)" for payload q c
    using ok that unfolding jobfs_ok_def read_job_payload_Inr by blast
  show ?thesis
  proof (cases "read_job_payload calm p fs")
    case (Inl e')
    with \<open>load_from calm validate fresh p fs = Inl e\<close> e show ?thesis
      by (auto simp: save_to_def load_from_def corrupted_def)
  next
    case (Inr payload)
    show ?thesis
    proof (cases "bindE (assert_supported_schema_version payload) (\<lambda>_. migrate_payload_to_current fresh payload)")
      case (Inl e')
      with Inr \<open>load_from calm validate fresh p fs = Inl e\<close> e show ?thesis
        by (auto simp: save_to_def load_from_def corrupted_def bindE_Inl_iff)
    next
      case r2: (Inr x)
      obtain q c where x: "x = (q, c)" by (cases x)
      with r2 have "assert_supported_schema_version payload = Inr ()"
        "migrate_payload_to_current fresh payload = Inr (q, c)" by (auto simp: bindE_Inr_iff)
      with v[OF Inr this] Inr \<open>load_from calm validate fresh p fs = Inl e\<close> show ?thesis
        by (auto simp: load_from_def calm_def)
    qed
  qed
qed

lemma codec_forD:
  assumes "codec_for validate dump job" "1 \<le> v"
  shows "validate (dump (job\<lparr>j_version := v\<rparr>)) = Some (job\<lparr>j_version := v\<rparr>)"
    "current_payload (dump (job\<lparr>j_version := v\<rparr>))" "disk_version (dump (job\<lparr>j_version := v\<rparr>)) = Some v"
  using assms by (auto simp: codec_for_def Let_def)

lemma file_save_step:
  assumes ok: "jobfs_ok validate fresh fs" and c: "codec_for validate dump job" "1 \<le> j_version job"
    and r: "file_save calm dump fresh t job fs = (fs', r)"
  shows "jobfs_ok validate fresh fs' \<and> (abs_store validate fresh fs', r) = store_save t job (abs_store validate fresh fs)"
proof (cases "resolve_existing_job_dir calm fs t (j_job_id job)")
  case (Inl e)
  then have "check_job_ids t (j_job_id job) = Inl e" by (simp add: resolve_existing_calm)
  with Inl r ok show ?thesis by (auto simp: file_save_def store_save_def)
next
  case (Inr o_d)
  have ids: "check_job_ids t (j_job_id job) = Inr ()"
    using Inr resolve_existing_calm[of fs t "j_job_id job"] by (cases "check_job_ids t (j_job_id job)") auto
  show ?thesis
  proof (cases o_d)
    case None
    with Inr r ok ids show ?thesis by (auto simp: file_save_def store_save_def abs_store_def)
  next
    case (Some d)
    with Inr have ex: "resolve_existing_job_dir calm fs t (j_job_id job) = Inr (Some d)" by simp
    note st = save_to_calm[OF ok, of "job_json d" job] existing_job_file[OF ex]
    have abs: "abs_store validate fresh fs (t, j_job_id job) =
        (case load_from calm validate fresh (job_json d) fs of
           Inr (_, _, job) \<Rightarrow> Some (JobFile job) | Inl _ \<Rightarrow> Some CorruptFile)"
      using ex by (simp add: abs_store_def)
    let ?v = "j_version job + 1"
    have D: "validate (dump (job\<lparr>j_version := ?v\<rparr>)) = Some (job\<lparr>j_version := ?v\<rparr>)"
        "current_payload (dump (job\<lparr>j_version := ?v\<rparr>))"
        "disk_version (dump (job\<lparr>j_version := ?v\<rparr>)) = Some (j_version (job\<lparr>j_version := ?v\<rparr>))"
      using codec_forD[OF c(1), of ?v] c(2) by simp_all
    note w = abs_store_write[where validate = validate and q = "dump (job\<lparr>j_version := ?v\<rparr>)"
        and job = "job\<lparr>j_version := ?v\<rparr>" and fresh = fresh, OF ex D(2,1)]
    note k = jobfs_ok_write[where validate = validate and q = "dump (job\<lparr>j_version := ?v\<rparr>)"
        and job = "job\<lparr>j_version := ?v\<rparr>", OF ok D(2,1,3)]
    show ?thesis
      using r ex st ids abs w k ok
      by (cases "load_from calm validate fresh (job_json d) fs")
         (auto simp: file_save_def store_save_def corrupted_def Let_def split: if_split_asm)
  qed
qed

lemma file_create_step:
  assumes ok: "jobfs_ok validate fresh fs" and c: "codec_for validate dump job" "1 \<le> j_version job"
    and r: "file_create calm dump t job fs = (fs', r)"
  shows "jobfs_ok validate fresh fs' \<and> (abs_store validate fresh fs', r) = store_create t job (abs_store validate fresh fs)"
proof (cases "check_job_ids t (j_job_id job)")
  case (Inl e)
  then have "fs' = fs \<and> r = Inl e" using r by (simp add: file_create_def check_job_ids_calm)
  with Inl ok show ?thesis by (simp add: store_create_def)
next
  case (Inr u)
  let ?j = "j_job_id job"
  have ids: "check_job_ids t ?j = Inr ()" using Inr by simp
  then have safe: "is_safe_path_segment ?j" "tenant_jobs_dir t \<noteq> None"
    by (auto simp: check_job_ids_def split: if_split_asm)
  obtain sd where sd: "resolve_sharded_job_dir calm t ?j = Inr sd"
    using ids by (simp add: check_job_ids_calm)
  obtain ld where ld: "resolve_legacy_job_dir calm t ?j = Inr ld"
    using safe by (simp add: check_job_ids_calm)
  have none: "abs_store validate fresh fs (t, ?j) = None \<longleftrightarrow> fs (job_json sd) = None \<and> fs (job_json ld) = None"
    using sd ld by (auto simp: abs_store_def resolve_existing_job_dir_def split: sum.split)
  have D: "validate (dump job) = Some job" "current_payload (dump job)"
      "disk_version (dump job) = Some (j_version job)"
    using codec_forD[OF c(1), of "j_version job"] c(2) by simp_all
  let ?fs' = "fs(job_json sd \<mapsto> JsonFile (JObj (dump job)))"
  have new: "abs_store validate fresh ?fs' = (abs_store validate fresh fs)((t, ?j) \<mapsto> JobFile job)"
  proof
    fix k :: "str \<times> str"
    obtain t' j' where k: "k = (t', j')" by (cases k)
    show "abs_store validate fresh ?fs' k = ((abs_store validate fresh fs)((t, ?j) \<mapsto> JobFile job)) k"
    proof (cases "k = (t, ?j)")
      case True
      have "resolve_existing_job_dir calm ?fs' t ?j = Inr (Some sd)"
        using sd by (simp add: resolve_existing_job_dir_def)
      with True load_from_write[of "dump job" validate job ?fs' "job_json sd" fresh] D
      show ?thesis by (simp add: abs_store_def)
    next
      case False
      have m: "job_json sd \<in> job_files calm t ?j" using sd by (auto simp: job_files_def)
      have "fs p = ?fs' p" if "p \<in> job_files calm t' j'" for p
        using job_files_unique[of p calm t' j' t ?j] that m False k by auto
      then have "abs_store validate fresh fs (t', j') = abs_store validate fresh ?fs' (t', j')"
        by (rule abs_store_cong)
      with False k show ?thesis by auto
    qed
  qed
  have k: "jobfs_ok validate fresh ?fs'"
    by (rule jobfs_ok_write[where validate = validate and q = "dump job" and job = job, OF ok D(2,1,3)])
  show ?thesis
    using r ids sd ld none new k ok
    by (auto simp: file_create_def store_create_def corrupted_def calm_def split: if_split_asm)
qed

lemma exec_step:
  assumes "jobfs_ok validate fresh fs" "\<not> blank fresh" "op_codec validate dump op"
    and "exec_files validate dump fresh op fs = (fs', r)"
  shows "jobfs_ok validate fresh fs' \<and> exec_store op (abs_store validate fresh fs) = (abs_store validate fresh fs', r)"
proof (cases op)
  case (SCreate t job)
  obtain f1 r1 where c: "file_create calm dump t job fs = (f1, r1)" by (cases "file_create calm dump t job fs")
  show ?thesis
    using file_create_step[OF assms(1) _ _ c] assms(3,4) SCreate c by (auto dest: sym)
next
  case (SLoad t j)
  then show ?thesis using file_load_step[OF assms(1,2), of t j fs' r] assms(4) by simp
next
  case (SSave t job)
  then show ?thesis using file_save_step[OF assms(1), of dump job t fs' r] assms(3,4) by simp
qed

text \<open>The results of a sequence of operations.\<close>

fun run_store_ops :: "('op \<Rightarrow> 's \<Rightarrow> 's \<times> 'r) \<Rightarrow> 'op list \<Rightarrow> 's \<Rightarrow> 's \<times> 'r list" where
  "run_store_ops ex [] s = (s, [])"
| "run_store_ops ex (x # xs) s =
     (let (s1, r) = ex x s; (s2, rs) = run_store_ops ex xs s1 in (s2, r # rs))"

text \<open>C22 (refinement) The file store, with its directories, its legacy layout, its migrations and its
  version field, behaves as a versioned map: every sequence of creates, loads and saves returns exactly
  what the same sequence returns on the abstract store, errors included.\<close>

theorem file_store_refines:
  assumes "jobfs_ok validate fresh fs" "\<not> blank fresh" "list_all (op_codec validate dump) ops"
  shows "snd (run_store_ops (exec_files validate dump fresh) ops fs) =
         snd (run_store_ops exec_store ops (abs_store validate fresh fs))"
  using assms
proof (induction ops arbitrary: fs)
  case Nil
  then show ?case by simp
next
  case (Cons x xs)
  obtain fs' r where e: "exec_files validate dump fresh x fs = (fs', r)"
    by (cases "exec_files validate dump fresh x fs")
  from exec_step[OF Cons.prems(1,2) _ e] Cons.prems(3)
  have "jobfs_ok validate fresh fs'" "exec_store x (abs_store validate fresh fs) = (abs_store validate fresh fs', r)"
    by auto
  with Cons.IH[of fs'] Cons.prems e show ?case by (simp add: case_prod_unfold Let_def)
qed

text \<open>A codec for the jobs that differ from a fixed one in their version only.\<close>

definition demo_job :: job where
  "demo_job = new_job ''t1'' ''job_ab12'' 0"

definition demo_dump :: "job \<Rightarrow> jobj" where
  "demo_dump j = [(''schema_version'', JInt 3), (''trace_id'', JStr ''x''), (''version'', JInt (j_version j))]"

definition demo_validate :: "jobj \<Rightarrow> job option" where
  "demo_validate p = (case dict_get p ''version'' of
     Some (JInt v) \<Rightarrow> Some (demo_job\<lparr>j_version := v\<rparr>) | _ \<Rightarrow> None)"

lemma demo_codec: "codec_for demo_validate demo_dump (demo_job\<lparr>j_version := v\<rparr>)"
  by (simp add: codec_for_def Let_def demo_validate_def demo_dump_def current_payload_def schema_is_def
      JOB_SCHEMA_VERSION_CURRENT_def nonblank_str_def blank_iff py_isspace_def disk_version_def)

lemma file_store_refines_witness:
  "snd (run_store_ops (exec_files demo_validate demo_dump ''f'')
      [SCreate ''t1'' demo_job, SLoad ''t1'' ''job_ab12'', SSave ''t1'' demo_job, SSave ''t1'' demo_job] Map.empty) =
   [Inr demo_job, Inr demo_job, Inr (demo_job\<lparr>j_version := 2\<rparr>), Inl (StoreErr (JobVersionConflict 1 2))]"
proof -
  have "snd (run_store_ops (exec_files demo_validate demo_dump ''f'')
      [SCreate ''t1'' demo_job, SLoad ''t1'' ''job_ab12'', SSave ''t1'' demo_job, SSave ''t1'' demo_job] Map.empty) =
    snd (run_store_ops exec_store
      [SCreate ''t1'' demo_job, SLoad ''t1'' ''job_ab12'', SSave ''t1'' demo_job, SSave ''t1'' demo_job]
      (abs_store demo_validate ''f'' Map.empty))"
  proof (rule file_store_refines)
    show "jobfs_ok demo_validate ''f'' Map.empty" by (simp add: jobfs_ok_def)
    show "\<not> blank ''f''" by code_simp
    have "demo_job\<lparr>j_version := 1\<rparr> = demo_job" by (simp add: demo_job_def new_job_def)
    then show "list_all (op_codec demo_validate demo_dump)
      [SCreate ''t1'' demo_job, SLoad ''t1'' ''job_ab12'', SSave ''t1'' demo_job, SSave ''t1'' demo_job]"
      using demo_codec[of 1] by (simp add: demo_job_def new_job_def)
  qed
  moreover have "abs_store demo_validate ''f'' Map.empty = Map.empty"
    by (rule ext) (simp add: abs_store_def resolve_existing_job_dir_def check_job_ids_calm split: sum.split)
  moreover have "check_job_ids ''t1'' ''job_ab12'' = Inr ()" by code_simp
  ultimately show ?thesis
    by (simp add: store_create_def store_load_def store_save_def demo_job_def new_job_def Let_def)
qed

end
