(* ===== verification/PlanFreeze.thy ===== *)
theory PlanFreeze
  imports TextLaws JobStore QueueContract
begin

text \<open>
  Freezing a plan: \<open>PlanService.freeze_plan\<close> (domain/plan_service.py) with its gates
  (domain/plan_contract.py, domain/plan_freeze_required_inputs.py, domain/plan_freeze_gate.py), the
  template parameters (domain/do_template_plan_support.py) and domain/job_plan_freeze.py, over the
  state of the service: job store, worker queue, plan artifacts and audit log.

  What the code gets from elsewhere is a field of \<open>plan_env\<close>: the SHA-256 plan id, the template
  parser of \<open>re.sub\<close>, the template catalogue and contracts, the preview of the primary data set, and
  the builders of the plan (rule based, or from a language model).
\<close>

section \<open>The state of the service\<close>

record audit_event =
  ae_action :: str
  ae_tenant :: str
  ae_job :: str
  ae_result :: str
  ae_status :: job_status

record world =
  w_store :: job_store
  w_queue :: fqueue
  w_plans :: "str \<times> str \<times> str \<rightharpoonup> llm_plan"
  w_audit :: "audit_event list"

datatype llm_outcome = LlmPlan llm_plan | LlmCaught str | LlmRaises exn

record plan_env =
  pe_expand :: "str \<Rightarrow> exn + str"
  pe_plan_id :: "str \<Rightarrow> str \<Rightarrow> str \<Rightarrow> job_confirmation \<Rightarrow> str"
  pe_select_template :: "str list \<Rightarrow> exn + str"
  pe_missing_params :: "str \<Rightarrow> jobj \<Rightarrow> exn + str list"
  pe_preview_columns :: "str \<Rightarrow> job \<Rightarrow> str list option"
  pe_rule_plan :: "job \<Rightarrow> job_confirmation \<Rightarrow> str \<Rightarrow> str \<Rightarrow> exn + llm_plan"
  pe_llm_plan :: "(job \<Rightarrow> job_confirmation \<Rightarrow> str \<Rightarrow> artifact_ref list \<times> llm_outcome) option"
  pe_artifact_fault :: "exn option"

section \<open>Analysis variables and template parameters\<close>

definition opt_json :: "str option \<Rightarrow> json" where
  "opt_json v = (case v of None \<Rightarrow> JNull | Some s \<Rightarrow> JStr s)"

definition analysis_spec_from_draft :: "job \<Rightarrow> jobj" where
  "analysis_spec_from_draft job =
     (case j_draft job of
        None \<Rightarrow> []
      | Some d \<Rightarrow> [(''outcome_var'', opt_json (d_outcome_var d)),
                   (''treatment_var'', opt_json (d_treatment_var d)),
                   (''controls'', JList (map JStr (d_controls d))),
                   (''default_overrides'', JObj (d_default_overrides d))])"

definition stripped_vars :: "json list \<Rightarrow> str list" where
  "stripped_vars xs = concat (map (\<lambda>v. case nonblank_str (Some v) of None \<Rightarrow> [] | Some s \<Rightarrow> [py_strip s]) xs)"

definition spec_list :: "jobj \<Rightarrow> str \<Rightarrow> json list" where
  "spec_list spec key = (case dict_get spec key of Some (JList xs) \<Rightarrow> xs | _ \<Rightarrow> [])"

definition spec_item :: "jobj \<Rightarrow> str \<Rightarrow> json list" where
  "spec_item spec key = (case dict_get spec key of Some v \<Rightarrow> [v] | None \<Rightarrow> [])"

definition analysis_vars_from_analysis_spec :: "jobj \<Rightarrow> str list" where
  "analysis_vars_from_analysis_spec spec =
     stripped_vars (spec_item spec ''outcome_var'' @ spec_item spec ''treatment_var'' @
                    spec_list spec ''controls'')"

definition selected_var :: "(str, str) dict \<Rightarrow> str \<Rightarrow> str" where
  "selected_var corrections key =
     (case dict_get corrections key of None \<Rightarrow> [] | Some v \<Rightarrow> py_strip v)"

definition analysis_dep_and_indep :: "jobj \<Rightarrow> str \<times> str" where
  "analysis_dep_and_indep spec =
     ((case dict_get spec ''outcome_var'' of Some (JStr s) \<Rightarrow> py_strip s | _ \<Rightarrow> []),
      py_join '' '' (stripped_vars (spec_item spec ''treatment_var'' @ spec_list spec ''controls'')))"

definition selected_panel_vars :: "(str, str) dict \<Rightarrow> str \<times> str \<times> str" where
  "selected_panel_vars cs =
     (let id0 = selected_var cs ''__ID_VAR__'';
          id_var = (if id0 = [] then selected_var cs ''__PANELVAR__'' else id0)
      in (id_var, selected_var cs ''__TIME_VAR__'', selected_var cs ''__CLUSTER_VAR__''))"

definition template_params_for :: "str \<Rightarrow> jobj \<Rightarrow> (str, str) dict \<Rightarrow> jobj" where
  "template_params_for template_id spec corrections =
     (let joined = JStr (py_join '' '' (analysis_vars_from_analysis_spec spec));
          (dep, indep) = analysis_dep_and_indep spec;
          (id_var, time_var, cluster_var) = selected_panel_vars corrections;
          full = (\<lambda>cluster. [(''__DEPVAR__'', JStr dep), (''__INDEPVARS__'', JStr indep),
                    (''__ID_VAR__'', JStr id_var), (''__PANELVAR__'', JStr id_var),
                    (''__TIME_VAR__'', JStr time_var), (''__CLUSTER_VAR__'', JStr cluster)])
      in if template_id = ''T01''
           then [(''__NUMERIC_VARS__'', joined), (''__ID_VAR__'', JStr id_var), (''__TIME_VAR__'', JStr time_var)]
         else if template_id = ''T07'' then [(''__NUMERIC_VARS__'', joined)]
         else if template_id = ''TA14''
           then [(''__CHECK_VARS__'', joined), (''__ID_VAR__'', JStr id_var),
                 (''__QUALITY_THRESHOLD__'', JStr ''0.8'')]
         else if template_id = ''T30''
           then [(''__ID_VAR__'', JStr id_var), (''__TIME_VAR__'', JStr time_var)]
         else if template_id = ''T31''
           then full (if cluster_var \<noteq> [] then cluster_var else if id_var \<noteq> [] then id_var else ''__ID_VAR__'')
         else full cluster_var)"

section \<open>The gates\<close>

definition missing_contract_vars :: "draft \<Rightarrow> str list \<Rightarrow> str list" where
  "missing_contract_vars d columns =
     (let opt = (\<lambda>v. case v of None \<Rightarrow> [] | Some s \<Rightarrow> if \<not> blank s \<and> s \<notin> set columns then [s] else [])
      in sort (remdups (opt (d_outcome_var d) @ opt (d_treatment_var d) @
                        filter (\<lambda>s. \<not> blank s \<and> s \<notin> set columns) (d_controls d))))"

definition validate_contract_columns :: "plan_env \<Rightarrow> str \<Rightarrow> job \<Rightarrow> exn + unit" where
  "validate_contract_columns env tenant_id job =
     (case (j_draft job, j_inputs job) of
        (Some d, Some i) \<Rightarrow>
          (case ji_manifest_rel_path i of
             None \<Rightarrow> Inr ()
           | Some p \<Rightarrow>
               (if blank p then Inr ()
                else case pe_preview_columns env tenant_id job of
                       None \<Rightarrow> Inr ()
                     | Some names \<Rightarrow>
                         (let missing = missing_contract_vars d names
                          in if missing = [] then Inr () else Inl (PlanErr (ContractColumnNotFound missing)))))
      | _ \<Rightarrow> Inr ())"

definition ensure_required_inputs ::
  "plan_env \<Rightarrow> job \<Rightarrow> job_confirmation \<Rightarrow> str \<Rightarrow> jobj \<Rightarrow> exn + unit" where
  "ensure_required_inputs env job c template_id spec =
     (let missing_fields = missing_draft_fields_for_plan_freeze (j_draft job) (jc_answers c)
      in bindE (pe_missing_params env template_id
                  (template_params_for template_id spec (jc_variable_corrections c))) (\<lambda>missing_params.
           if missing_fields = [] \<and> missing_params = [] then Inr ()
           else Inl (PlanErr (PlanFreezeMissingRequired missing_fields missing_params))))"

section \<open>Freezing\<close>

definition return_existing_plan :: "job \<Rightarrow> str \<Rightarrow> exn + llm_plan option" where
  "return_existing_plan job expected_plan_id =
     (case j_llm_plan job of
        None \<Rightarrow> Inr None
      | Some p \<Rightarrow> (if lp_plan_id p \<noteq> expected_plan_id then Inl (PlanErr PlanAlreadyFrozen) else Inr (Some p)))"

definition ensure_freeze_allowed :: "job \<Rightarrow> exn + unit" where
  "ensure_freeze_allowed job = guardE (j_status job \<in> {DRAFT_READY, CONFIRMED}) (PlanErr PlanFreezeNotAllowed)"

definition expected_plan_id :: "plan_env \<Rightarrow> job \<Rightarrow> job_confirmation \<Rightarrow> str" where
  "expected_plan_id env job c =
     pe_plan_id env (j_job_id job)
       (case j_inputs job of None \<Rightarrow> [] | Some i \<Rightarrow> (case ji_fingerprint i of None \<Rightarrow> [] | Some f \<Rightarrow> f))
       (normalize_whitespace (case j_requirement job of None \<Rightarrow> [] | Some r \<Rightarrow> r)) c"

definition resolve_template_id :: "plan_env \<Rightarrow> job \<Rightarrow> str list \<Rightarrow> exn + str \<times> job" where
  "resolve_template_id env job vars =
     (case j_selected_template_id job of
        Some t \<Rightarrow> (if blank t
                    then bindE (pe_select_template env vars) (\<lambda>s. Inr (s, job\<lparr>j_selected_template_id := Some s\<rparr>))
                    else Inr (t, job))
      | None \<Rightarrow> bindE (pe_select_template env vars) (\<lambda>s. Inr (s, job\<lparr>j_selected_template_id := Some s\<rparr>)))"

definition build_plan_with_fallback ::
  "plan_env \<Rightarrow> job \<Rightarrow> job_confirmation \<Rightarrow> str \<Rightarrow> str \<Rightarrow> exn + llm_plan \<times> job" where
  "build_plan_with_fallback env job c plan_id template_id =
     (case pe_llm_plan env of
        None \<Rightarrow> bindE (pe_rule_plan env job c plan_id template_id) (\<lambda>p. Inr (p, job))
      | Some llm \<Rightarrow>
          (let (refs, outcome) = llm job c plan_id;
               job' = job\<lparr>j_artifacts_index := j_artifacts_index job @ refs\<rparr>
           in case outcome of
                LlmPlan p \<Rightarrow> Inr (p, job')
              | LlmCaught reason \<Rightarrow>
                  bindE (pe_rule_plan env job' c plan_id template_id) (\<lambda>p.
                    Inr (p\<lparr>lp_plan_source := SourceRuleFallback, lp_fallback_reason := Some reason\<rparr>, job'))
              | LlmRaises e \<Rightarrow> Inl e))"

definition ensure_plan_artifact_index :: "str \<Rightarrow> job \<Rightarrow> job" where
  "ensure_plan_artifact_index rel_path job =
     (if list_ex (\<lambda>r. ar_kind r = PLAN_JSON \<and> ar_rel_path r = rel_path) (j_artifacts_index job) then job
      else job\<lparr>j_artifacts_index := j_artifacts_index job @ [\<lparr>ar_kind = PLAN_JSON, ar_rel_path = rel_path\<rparr>]\<rparr>)"

text \<open>The part of \<open>freeze_plan\<close> before anything is written: an existing plan, or the plan and job to write.\<close>

definition build_frozen_job ::
  "plan_env \<Rightarrow> str \<Rightarrow> job \<Rightarrow> job_confirmation \<Rightarrow> str \<Rightarrow> exn + llm_plan \<times> job" where
  "build_frozen_job env tenant_id job c plan_id =
     (let spec = analysis_spec_from_draft job in
      bindE (ensure_freeze_allowed job) (\<lambda>_.
      bindE (resolve_template_id env job (analysis_vars_from_analysis_spec spec)) (\<lambda>(template_id, job1).
      bindE (ensure_required_inputs env job1 c template_id spec) (\<lambda>_.
      bindE (validate_contract_columns env tenant_id job1) (\<lambda>_.
      bindE (build_plan_with_fallback env job1 c plan_id template_id) (\<lambda>(plan, job2).
        Inr (plan, ensure_plan_artifact_index (lp_rel_path plan)
               (job2\<lparr>j_confirmation := Some c, j_llm_plan := Some plan\<rparr>))))))))"

definition prepare_freeze ::
  "plan_env \<Rightarrow> str \<Rightarrow> job \<Rightarrow> job_confirmation \<Rightarrow> exn + (llm_plan + llm_plan \<times> job)" where
  "prepare_freeze env tenant_id job0 c0 =
     (case apply_confirmation_effects (pe_expand env) job0 (effective_confirmation job0 c0) of
        Inl e \<Rightarrow> Inl e
      | Inr (job, c) \<Rightarrow>
          (case return_existing_plan job (expected_plan_id env job c) of
             Inl e \<Rightarrow> Inl e
           | Inr (Some p) \<Rightarrow> Inr (Inl p)
           | Inr None \<Rightarrow>
               (case build_frozen_job env tenant_id job c (expected_plan_id env job c) of
                  Inl e \<Rightarrow> Inl e
                | Inr r \<Rightarrow> Inr (Inr r))))"

definition write_plan_artifact ::
  "plan_env \<Rightarrow> str \<Rightarrow> str \<Rightarrow> llm_plan \<Rightarrow> world \<Rightarrow> world \<times> (exn + unit)" where
  "write_plan_artifact env tenant_id job_id plan w =
     (case pe_artifact_fault env of
        Some (StoreErr (JobStoreIO s)) \<Rightarrow> (w, Inl (PlanErr PlanArtifactsWrite))
      | Some e \<Rightarrow> (w, Inl e)
      | None \<Rightarrow> (w\<lparr>w_plans := (w_plans w)((tenant_id, job_id, lp_rel_path plan) \<mapsto> plan)\<rparr>, Inr ()))"

definition freeze_plan ::
  "plan_env \<Rightarrow> str \<Rightarrow> str \<Rightarrow> job_confirmation \<Rightarrow> world \<Rightarrow> world \<times> (exn + llm_plan)" where
  "freeze_plan env tenant_id job_id confirmation w =
     (case bindE (store_load tenant_id job_id (w_store w)) (\<lambda>job.
             prepare_freeze env tenant_id job confirmation) of
        Inl e \<Rightarrow> (w, Inl e)
      | Inr (Inl existing) \<Rightarrow> (w, Inr existing)
      | Inr (Inr (plan, job)) \<Rightarrow>
          (case write_plan_artifact env tenant_id job_id plan w of
             (w1, Inl e) \<Rightarrow> (w1, Inl e)
           | (w1, Inr _) \<Rightarrow>
               (case store_save tenant_id job (w_store w1) of
                  (s, Inl e) \<Rightarrow> (w1\<lparr>w_store := s\<rparr>, Inl e)
                | (s, Inr _) \<Rightarrow> (w1\<lparr>w_store := s\<rparr>, Inr plan))))"

definition get_frozen_plan :: "str \<Rightarrow> str \<Rightarrow> world \<Rightarrow> exn + llm_plan" where
  "get_frozen_plan tenant_id job_id w =
     bindE (store_load tenant_id job_id (w_store w)) (\<lambda>job.
       case j_llm_plan job of None \<Rightarrow> Inl (PlanErr PlanMissing) | Some p \<Rightarrow> Inr p)"

section \<open>The confirmation of a run\<close>

record run_request =
  rr_notes :: "str option"
  rr_output_formats :: "json list option"
  rr_variable_corrections :: "(str, str) dict option"
  rr_answers :: "jobj option"
  rr_default_overrides :: "jobj option"
  rr_feedback :: "jobj option"

definition opt_list :: "'a list option \<Rightarrow> 'a list" where
  "opt_list v = (case v of None \<Rightarrow> [] | Some xs \<Rightarrow> xs)"

definition run_confirmation :: "plan_env \<Rightarrow> run_request \<Rightarrow> exn + job_confirmation" where
  "run_confirmation env rr =
     (let cleaned = (case rr_variable_corrections rr of None \<Rightarrow> [] | Some cs \<Rightarrow> clean_variable_corrections cs);
          overrides = opt_list (rr_default_overrides rr)
      in bindE (if cleaned \<noteq> [] \<and> overrides \<noteq> []
                then apply_corrections_items (pe_expand env) cleaned overrides else Inr overrides) (\<lambda>ovr.
           Inr \<lparr>jc_requirement = None, jc_notes = rr_notes rr, jc_variable_corrections = cleaned,
                jc_answers = opt_list (rr_answers rr), jc_default_overrides = ovr,
                jc_expert_suggestions_feedback = opt_list (rr_feedback rr)\<rparr>))"

definition freeze_plan_for_run ::
  "plan_env \<Rightarrow> str \<Rightarrow> str \<Rightarrow> run_request \<Rightarrow> world \<Rightarrow> world \<times> (exn + unit)" where
  "freeze_plan_for_run env tenant_id job_id rr w =
     (case run_confirmation env rr of
        Inl e \<Rightarrow> (w, Inl e)
      | Inr c \<Rightarrow>
          (case freeze_plan env tenant_id job_id c w of
             (w1, Inl e) \<Rightarrow> (w1, Inl e)
           | (w1, Inr _) \<Rightarrow> (w1, Inr ())))"

end
