(* ===== verification/JobService.thy ===== *)
theory JobService
  imports PlanFreeze
begin

text \<open>
  The job service (domain/job_service.py, domain/job_retry.py, domain/job_support.py,
  domain/job_confirm_validation.py, domain/idempotency.py) and the queue scheduler
  (infra/queue_job_scheduler.py), over the state of PlanFreeze. An operation returns the new state and
  either the exception it raises or its result; a state change made before an exception stays.
\<close>

record svc_env =
  sv_plan :: plan_env
  sv_now :: int
  sv_fault :: enqueue_fault
  sv_traceparent :: "str \<Rightarrow> str"
  sv_sha256 :: "str \<Rightarrow> str"
  sv_trace_id :: str

section \<open>Idempotent job ids\<close>

definition compute_key :: "svc_env \<Rightarrow> str option \<Rightarrow> str option \<Rightarrow> str option \<Rightarrow> str" where
  "compute_key env inputs_fingerprint requirement plan_revision =
     sv_sha256 env
       (''v1|fingerprint='' @ opt_list inputs_fingerprint @ ''|requirement='' @
        normalize_whitespace (opt_list requirement) @ ''|plan_revision='' @ opt_list plan_revision)"

definition derive_job_id :: "str \<Rightarrow> str" where
  "derive_job_id idempotency_key = ''job_'' @ take 16 idempotency_key"

section \<open>Audit and scheduling\<close>

definition emit_job_audit :: "str \<Rightarrow> str \<Rightarrow> str \<Rightarrow> str \<Rightarrow> job_status \<Rightarrow> world \<Rightarrow> world" where
  "emit_job_audit action tenant_id job_id result status w =
     w\<lparr>w_audit := w_audit w @ [\<lparr>ae_action = action, ae_tenant = tenant_id, ae_job = job_id,
                                ae_result = result, ae_status = status\<rparr>]\<rparr>"

definition schedule :: "svc_env \<Rightarrow> job \<Rightarrow> world \<Rightarrow> world \<times> (exn + unit)" where
  "schedule env job w =
     (let traceparent = map_option (sv_traceparent env) (j_trace_id job);
          (q, r) = enqueue (sv_fault env) (sv_now env) (j_tenant_id job) (j_job_id job) traceparent (w_queue w)
      in (w\<lparr>w_queue := q\<rparr>, r))"

section \<open>Creating a job\<close>

definition build_job :: "svc_env \<Rightarrow> str \<Rightarrow> str \<Rightarrow> str option \<Rightarrow> str option \<Rightarrow> job" where
  "build_job env tenant_id job_id requirement inputs_fingerprint =
     (new_job tenant_id job_id (sv_now env))
       \<lparr>j_trace_id := Some (sv_trace_id env), j_requirement := requirement,
        j_inputs := (case inputs_fingerprint of
                       None \<Rightarrow> None
                     | Some f \<Rightarrow> Some \<lparr>ji_manifest_rel_path = None, ji_fingerprint = Some f\<rparr>)\<rparr>"

definition create_job ::
  "svc_env \<Rightarrow> str \<Rightarrow> str option \<Rightarrow> str option \<Rightarrow> str option \<Rightarrow> world \<Rightarrow> world \<times> (exn + job)" where
  "create_job env tenant_id requirement inputs_fingerprint plan_revision w =
     (let job_id = derive_job_id (compute_key env inputs_fingerprint requirement plan_revision);
          job = build_job env tenant_id job_id requirement inputs_fingerprint
      in case store_create tenant_id job (w_store w) of
           (s, Inr _) \<Rightarrow>
             (emit_job_audit ''job.create'' tenant_id job_id ''success'' (j_status job) (w\<lparr>w_store := s\<rparr>), Inr job)
         | (s, Inl e) \<Rightarrow>
             (if e = StoreErr JobAlreadyExists
              then (case store_load tenant_id job_id (w_store w) of
                      Inl e' \<Rightarrow> (w, Inl e')
                    | Inr existing \<Rightarrow>
                        (emit_job_audit ''job.create'' tenant_id job_id ''noop'' (j_status existing) w,
                         Inr existing))
              else (w, Inl e)))"

section \<open>Queueing a run\<close>

definition queue_run :: "svc_env \<Rightarrow> str \<Rightarrow> job \<Rightarrow> world \<Rightarrow> world \<times> (exn + job)" where
  "queue_run env tenant_id job w =
     (case ensure_transition (j_status job) CONFIRMED of
        Inl e \<Rightarrow> (w, Inl (PlanErr e))
      | Inr confirm \<Rightarrow>
          (let job1 = (if confirm then job\<lparr>j_status := CONFIRMED\<rparr> else job)
           in case ensure_transition (j_status job1) QUEUED of
                Inl e \<Rightarrow> (w, Inl (PlanErr e))
              | Inr queue \<Rightarrow>
                  (let job2 = (if queue
                               then job1\<lparr>j_status := QUEUED,
                                         j_scheduled_at := (if j_scheduled_at job1 = None then Some (sv_now env)
                                                            else j_scheduled_at job1)\<rparr>
                               else job1)
                   in case (if queue then schedule env job2 w else (w, Inr ())) of
                        (w1, Inl e) \<Rightarrow> (w1, Inl e)
                      | (w1, Inr _) \<Rightarrow>
                          (case store_save tenant_id job2 (w_store w1) of
                             (s, Inl e) \<Rightarrow> (w1\<lparr>w_store := s\<rparr>, Inl e)
                           | (s, Inr job3) \<Rightarrow>
                               (emit_job_audit ''job.run.trigger'' tenant_id (j_job_id job3) ''success''
                                  (j_status job3) (w1\<lparr>w_store := s\<rparr>), Inr job3)))))"

definition retry_formats :: "json list option \<Rightarrow> job \<Rightarrow> exn + job" where
  "retry_formats output_formats job =
     (if output_formats \<noteq> None \<or> j_output_formats job = None
      then (case normalize_output_formats output_formats of
              Inl e \<Rightarrow> Inl (ArtErr e)
            | Inr fs \<Rightarrow> Inr (job\<lparr>j_output_formats := Some fs\<rparr>))
      else Inr job)"

definition retry_failed_job ::
  "svc_env \<Rightarrow> str \<Rightarrow> job \<Rightarrow> json list option \<Rightarrow> world \<Rightarrow> world \<times> (exn + job)" where
  "retry_failed_job env tenant_id job output_formats w =
     (case retry_formats output_formats job of
        Inl e \<Rightarrow> (w, Inl e)
      | Inr job1 \<Rightarrow>
          (case ensure_transition (j_status job1) QUEUED of
             Inl e \<Rightarrow> (w, Inl (PlanErr e))
           | Inr _ \<Rightarrow>
               (let job2 = job1\<lparr>j_status := QUEUED, j_scheduled_at := Some (sv_now env)\<rparr>
                in case schedule env job2 w of
                     (w1, Inl e) \<Rightarrow> (w1, Inl e)
                   | (w1, Inr _) \<Rightarrow>
                       (case store_save tenant_id job2 (w_store w1) of
                          (s, Inl e) \<Rightarrow> (w1\<lparr>w_store := s\<rparr>, Inl e)
                        | (s, Inr job3) \<Rightarrow>
                            (emit_job_audit ''job.run.trigger'' tenant_id (j_job_id job3) ''success''
                               (j_status job3) (w1\<lparr>w_store := s\<rparr>), Inr job3)))))"

definition run_idempotent_noop :: "str \<Rightarrow> job \<Rightarrow> world \<Rightarrow> world \<times> (exn + job)" where
  "run_idempotent_noop tenant_id job w =
     (emit_job_audit ''job.run.trigger'' tenant_id (j_job_id job) ''noop'' (j_status job) w, Inr job)"

definition is_version_conflict :: "exn \<Rightarrow> bool" where
  "is_version_conflict e = (case e of StoreErr (JobVersionConflict _ _) \<Rightarrow> True | _ \<Rightarrow> False)"

text \<open>The \<open>try\<close> block of one attempt of \<open>trigger_run\<close>.\<close>

definition confirm_and_queue ::
  "svc_env \<Rightarrow> str \<Rightarrow> str \<Rightarrow> run_request \<Rightarrow> job \<Rightarrow> world \<Rightarrow> world \<times> (exn + job)" where
  "confirm_and_queue env tenant_id job_id rr job w =
     (case normalize_output_formats (rr_output_formats rr) of
        Inl e \<Rightarrow> (w, Inl (ArtErr e))
      | Inr fs \<Rightarrow>
          (let job1 = job\<lparr>j_output_formats := Some fs\<rparr>
           in case ensure_transition (j_status job1) CONFIRMED of
                Inl e \<Rightarrow> (w, Inl (PlanErr e))
              | Inr _ \<Rightarrow>
                  (case freeze_plan_for_run (sv_plan env) tenant_id job_id rr w of
                     (w1, Inl e) \<Rightarrow> (w1, Inl e)
                   | (w1, Inr _) \<Rightarrow> queue_run env tenant_id job1 w1)))"

definition past_queueing :: "job_status \<Rightarrow> bool" where
  "past_queueing s = (s \<in> {QUEUED, RUNNING, SUCCEEDED})"

text \<open>The loop of \<open>trigger_run\<close>; the first argument is the number of attempts left.\<close>

fun trigger_run_loop ::
  "nat \<Rightarrow> svc_env \<Rightarrow> str \<Rightarrow> str \<Rightarrow> run_request \<Rightarrow> world \<Rightarrow> world \<times> (exn + job)" where
  "trigger_run_loop 0 env tenant_id job_id rr w = (w, Inl (PyErr PyRuntimeError))"
| "trigger_run_loop (Suc n) env tenant_id job_id rr w =
     (case store_load tenant_id job_id (w_store w) of
        Inl e \<Rightarrow> (w, Inl e)
      | Inr job \<Rightarrow>
          (if past_queueing (j_status job) then run_idempotent_noop tenant_id job w
           else if j_status job = FAILED then retry_failed_job env tenant_id job (rr_output_formats rr) w
           else case confirm_and_queue env tenant_id job_id rr job w of
                  (w1, Inr job') \<Rightarrow> (w1, Inr job')
                | (w1, Inl e) \<Rightarrow>
                    (if \<not> is_version_conflict e then (w1, Inl e)
                     else case store_load tenant_id job_id (w_store w1) of
                            Inl e' \<Rightarrow> (w1, Inl e')
                          | Inr latest \<Rightarrow>
                              (if past_queueing (j_status latest) then (w1, Inr latest)
                               else if n = 0 then (w1, Inl e)
                               else trigger_run_loop n env tenant_id job_id rr w1))))"

definition trigger_run :: "svc_env \<Rightarrow> str \<Rightarrow> str \<Rightarrow> run_request \<Rightarrow> world \<Rightarrow> world \<times> (exn + job)" where
  "trigger_run env tenant_id job_id rr w = trigger_run_loop 3 env tenant_id job_id rr w"

section \<open>Confirming a job\<close>

definition validate_confirm_not_blocked :: "str \<Rightarrow> str \<Rightarrow> jobj option \<Rightarrow> world \<Rightarrow> exn + unit" where
  "validate_confirm_not_blocked tenant_id job_id answers w =
     bindE (store_load tenant_id job_id (w_store w)) (\<lambda>job.
       let (missing, blocking) = confirm_blockers (j_draft job) (opt_list answers)
       in if missing = [] \<and> blocking = [] then Inr ()
          else Inl (PlanErr (DraftConfirmBlocked missing blocking)))"

definition confirm_job ::
  "svc_env \<Rightarrow> str \<Rightarrow> str \<Rightarrow> bool \<Rightarrow> run_request \<Rightarrow> world \<Rightarrow> world \<times> (exn + job)" where
  "confirm_job env tenant_id job_id confirmed rr w =
     (if \<not> confirmed
      then (case store_load tenant_id job_id (w_store w) of
              Inl e \<Rightarrow> (w, Inl e)
            | Inr job \<Rightarrow> (emit_job_audit ''job.confirm'' tenant_id job_id ''noop'' (j_status job) w, Inr job))
      else case validate_confirm_not_blocked tenant_id job_id (rr_answers rr) w of
             Inl e \<Rightarrow> (w, Inl e)
           | Inr _ \<Rightarrow>
               (case trigger_run env tenant_id job_id rr w of
                  (w1, Inl e) \<Rightarrow> (w1, Inl e)
                | (w1, Inr updated) \<Rightarrow>
                    (emit_job_audit ''job.confirm'' tenant_id job_id ''success'' (j_status updated) w1,
                     Inr updated)))"

end
