(* ===== verification/JobServiceLaws.thy ===== *)
theory JobServiceLaws
  imports JobService
begin

text \<open>
  What the job service guarantees: every operation keeps the state well formed, and a job that is
  QUEUED or RUNNING in the store is tracked by the queue.
\<close>

section \<open>Well-formed states\<close>

definition world_wf :: "world \<Rightarrow> bool" where
  "world_wf w =
     (queue_wf (w_queue w) \<and>
      (\<forall>t j job. w_store w (t, j) = Some (JobFile job) \<longrightarrow>
         j_tenant_id job = t \<and> j_job_id job = j \<and> j_schema_version job = JOB_SCHEMA_VERSION_CURRENT \<and>
         check_job_ids t j = Inr ()))"

definition in_flight :: "job_status \<Rightarrow> bool" where
  "in_flight s = (s \<in> {QUEUED, RUNNING})"

definition tracked_job :: "str \<Rightarrow> str \<Rightarrow> fqueue \<Rightarrow> bool" where
  "tracked_job t j q = (case queued_path t j of Inr k \<Rightarrow> k \<in> tracked_jobs q | Inl _ \<Rightarrow> False)"

definition live_tracked :: "world \<Rightarrow> bool" where
  "live_tracked w =
     (\<forall>t j job. w_store w (t, j) = Some (JobFile job) \<longrightarrow> in_flight (j_status job) \<longrightarrow>
        tracked_job t j (w_queue w))"

definition world_ok :: "world \<Rightarrow> bool" where
  "world_ok w = (world_wf w \<and> live_tracked w)"

lemma world_wfD:
  assumes "world_wf w" "w_store w (t, j) = Some (JobFile job)"
  shows "j_tenant_id job = t" "j_job_id job = j" "j_schema_version job = JOB_SCHEMA_VERSION_CURRENT"
    "check_job_ids t j = Inr ()"
  using assms by (auto simp: world_wf_def)

text \<open>Two ways a state may change and stay well formed: the queue tracks more, one job is written.\<close>

lemma tracked_job_mono: "tracked_jobs q \<subseteq> tracked_jobs q' \<Longrightarrow> tracked_job t j q \<Longrightarrow> tracked_job t j q'"
  by (auto simp: tracked_job_def split: sum.splits)

lemma world_ok_queue:
  assumes "world_ok w" "queue_wf q" "tracked_jobs (w_queue w) \<subseteq> tracked_jobs q"
  shows "world_ok (w\<lparr>w_queue := q\<rparr>)"
  using assms tracked_job_mono[OF assms(3)] by (auto simp: world_ok_def world_wf_def live_tracked_def)

lemma world_ok_write:
  assumes "world_ok w" "j_tenant_id job = t" "j_job_id job = j"
    "j_schema_version job = JOB_SCHEMA_VERSION_CURRENT" "check_job_ids t j = Inr ()"
    and "in_flight (j_status job) \<Longrightarrow> tracked_job t j (w_queue w)"
  shows "world_ok (w\<lparr>w_store := (w_store w)((t, j) \<mapsto> JobFile job)\<rparr>)"
  using assms by (auto simp: world_ok_def world_wf_def live_tracked_def)

lemma world_ok_other [simp]:
  "world_ok (w\<lparr>w_audit := a\<rparr>) = world_ok w" "world_ok (w\<lparr>w_plans := p\<rparr>) = world_ok w"
  by (simp_all add: world_ok_def world_wf_def live_tracked_def)

lemma emit_job_audit_simps [simp]:
  "world_ok (emit_job_audit a t j r s w) = world_ok w"
  "w_store (emit_job_audit a t j r s w) = w_store w" "w_queue (emit_job_audit a t j r s w) = w_queue w"
  "w_plans (emit_job_audit a t j r s w) = w_plans w"
  by (simp_all add: emit_job_audit_def)

lemma world_ok_save:
  assumes ok: "world_ok w" and s: "store_save t job (w_store w) = (s, r)" and t: "j_tenant_id job = t"
    and fl: "in_flight (j_status job) \<Longrightarrow> tracked_job t (j_job_id job) (w_queue w)"
  shows "world_ok (w\<lparr>w_store := s\<rparr>)"
proof (cases r)
  case (Inl e)
  with s store_save_Inl have "s = w_store w" by blast
  with ok show ?thesis by simp
next
  case (Inr job')
  with s have "store_save t job (w_store w) = (s, Inr job')" by simp
  then have j: "check_job_ids t (j_job_id job) = Inr ()" "j_schema_version job = JOB_SCHEMA_VERSION_CURRENT"
      "job' = job\<lparr>j_version := j_version job + 1\<rparr>" "s = (w_store w)((t, j_job_id job) \<mapsto> JobFile job')"
    by (auto simp: store_save_Inr)
  show ?thesis unfolding j(4) by (rule world_ok_write[OF ok]) (use j t fl in auto)
qed

section \<open>Scheduling\<close>

lemma schedule_ok:
  assumes ok: "world_ok w" and f: "sv_fault env = EnqueueOk" and s: "schedule env job w = (w1, r)"
  shows "world_ok w1 \<and> w_store w1 = w_store w \<and> w_plans w1 = w_plans w \<and> w_audit w1 = w_audit w \<and>
         (r = Inr () \<longrightarrow> tracked_job (j_tenant_id job) (j_job_id job) (w_queue w1))"
proof (cases "queued_path (j_tenant_id job) (j_job_id job)")
  case (Inl e)
  with s f ok show ?thesis by (auto simp: schedule_def enqueue_def Let_def)
next
  case (Inr k)
  have wf: "queue_wf (w_queue w)" using ok by (simp add: world_ok_def world_wf_def)
  obtain q r' where e: "enqueue EnqueueOk (sv_now env) (j_tenant_id job) (j_job_id job)
      (map_option (sv_traceparent env) (j_trace_id job)) (w_queue w) = (q, r')"
    by (cases "enqueue EnqueueOk (sv_now env) (j_tenant_id job) (j_job_id job)
      (map_option (sv_traceparent env) (j_trace_id job)) (w_queue w)")
  then have w1: "w1 = w\<lparr>w_queue := q\<rparr>" using s f by (simp add: schedule_def Let_def)
  have q: "queue_wf q" "tracked_jobs q = insert k (tracked_jobs (w_queue w))"
    using enqueue_keeps[OF wf Inr, of "sv_now env" "map_option (sv_traceparent env) (j_trace_id job)"] e
    by auto
  have "world_ok (w\<lparr>w_queue := q\<rparr>)" using q by (intro world_ok_queue[OF ok]) auto
  with w1 q Inr show ?thesis by (simp add: tracked_job_def)
qed

section \<open>Every operation of the service keeps the state well formed\<close>

lemma create_job_ok:
  assumes ok: "world_ok w" and r: "create_job env t req fp rv w = (w', r)"
  shows "world_ok w'"
proof -
  define jid where "jid = derive_job_id (compute_key env fp req rv)"
  define job where "job = build_job env t jid req fp"
  have j: "j_tenant_id job = t" "j_job_id job = jid" "j_schema_version job = JOB_SCHEMA_VERSION_CURRENT"
      "j_status job = CREATED"
    by (simp_all add: job_def build_job_def new_job_def)
  obtain s c where sc: "store_create t job (w_store w) = (s, c)" by (cases "store_create t job (w_store w)")
  show ?thesis
  proof (cases c)
    case (Inr u)
    with sc have "check_job_ids t jid = Inr ()" "s = (w_store w)((t, jid) \<mapsto> JobFile job)"
      by (auto simp: store_create_def corrupted_def j split: sum.splits if_splits)
    then have "world_ok (w\<lparr>w_store := s\<rparr>)"
      using world_ok_write[OF ok j(1,2,3)] j(4) by (simp add: in_flight_def)
    moreover have "w' = emit_job_audit ''job.create'' t jid ''success'' (j_status job) (w\<lparr>w_store := s\<rparr>)"
      using r sc Inr by (simp add: create_job_def Let_def jid_def[symmetric] job_def[symmetric])
    ultimately show ?thesis by simp
  next
    case (Inl e)
    then show ?thesis
      using r sc ok
      by (auto simp: create_job_def Let_def jid_def[symmetric] job_def[symmetric] split: if_splits sum.splits)
  qed
qed

lemma ensure_transition_Inr:
  "ensure_transition s t = Inr b \<Longrightarrow> b = (s \<noteq> t) \<and> (s = t \<or> t \<in> allowed_transitions s)"
  by (auto simp: ensure_transition_def can_transition_def split: if_splits)

lemma queue_run_ok:
  assumes ok: "world_ok w" and f: "sv_fault env = EnqueueOk" and t: "j_tenant_id job = t"
    and r: "queue_run env t job w = (w', r)"
  shows "world_ok w' \<and> (\<forall>job'. r = Inr job' \<longrightarrow> j_status job' = QUEUED \<and>
           w_store w' (t, j_job_id job) = Some (JobFile job') \<and> tracked_job t (j_job_id job) (w_queue w'))"
proof (cases "ensure_transition (j_status job) CONFIRMED")
  case (Inl e)
  with r ok show ?thesis by (auto simp: queue_run_def)
next
  case (Inr b)
  then have b: "b = (j_status job \<noteq> CONFIRMED)" using ensure_transition_Inr by blast
  define job1 where "job1 = (if b then job\<lparr>j_status := CONFIRMED\<rparr> else job)"
  have j1: "j_status job1 = CONFIRMED" "j_tenant_id job1 = t" "j_job_id job1 = j_job_id job"
    using b t by (auto simp: job1_def)
  have tr: "ensure_transition CONFIRMED QUEUED = Inr True"
    by (simp add: ensure_transition_def can_transition_def)
  define job2 where "job2 = job1\<lparr>j_status := QUEUED,
     j_scheduled_at := (if j_scheduled_at job1 = None then Some (sv_now env) else j_scheduled_at job1)\<rparr>"
  have j2: "j_status job2 = QUEUED" "j_tenant_id job2 = t" "j_job_id job2 = j_job_id job"
    using j1 by (simp_all add: job2_def)
  obtain w1 r1 where sc: "schedule env job2 w = (w1, r1)" by (cases "schedule env job2 w")
  note S = schedule_ok[OF ok f sc]
  obtain s sr where sv: "store_save t job2 (w_store w1) = (s, sr)" by (cases "store_save t job2 (w_store w1)")
  have eq: "queue_run env t job w =
      (case r1 of Inl e \<Rightarrow> (w1, Inl e)
       | Inr _ \<Rightarrow> (case sr of Inl e \<Rightarrow> (w1\<lparr>w_store := s\<rparr>, Inl e)
                   | Inr job3 \<Rightarrow> (emit_job_audit ''job.run.trigger'' t (j_job_id job3) ''success'' (j_status job3)
                                    (w1\<lparr>w_store := s\<rparr>), Inr job3)))"
    unfolding queue_run_def Inr using sc sv j1 tr
    by (simp add: Let_def job1_def[symmetric] job2_def[symmetric] split: sum.split)
  show ?thesis
  proof (cases r1)
    case (Inl e)
    with r eq S show ?thesis by auto
  next
    case (Inr u)
    then have tk: "tracked_job t (j_job_id job) (w_queue w1)" using S j2 by simp
    have "world_ok (w1\<lparr>w_store := s\<rparr>)"
      by (rule world_ok_save[OF _ sv]) (use S j2 tk in auto)
    with r eq Inr tk sv j2 show ?thesis by (auto simp: store_save_Inr split: sum.splits)
  qed
qed

lemma retry_failed_job_ok:
  assumes ok: "world_ok w" and f: "sv_fault env = EnqueueOk" and t: "j_tenant_id job = t"
    and r: "retry_failed_job env t job fmts w = (w', r)"
  shows "world_ok w' \<and> (\<forall>job'. r = Inr job' \<longrightarrow> j_status job' = QUEUED \<and>
           w_store w' (t, j_job_id job) = Some (JobFile job') \<and> tracked_job t (j_job_id job) (w_queue w'))"
proof -
  show ?thesis
  proof (cases "retry_formats fmts job")
    case (Inl e)
    with r ok show ?thesis by (auto simp: retry_failed_job_def)
  next
    case (Inr job1)
    then have j1: "j_tenant_id job1 = t" "j_job_id job1 = j_job_id job"
      using t by (auto simp: retry_formats_def split: if_splits sum.splits)
    define job2 where "job2 = job1\<lparr>j_status := QUEUED, j_scheduled_at := Some (sv_now env)\<rparr>"
    have j2: "j_status job2 = QUEUED" "j_tenant_id job2 = t" "j_job_id job2 = j_job_id job"
      using j1 by (simp_all add: job2_def)
    obtain w1 r1 where sc: "schedule env job2 w = (w1, r1)" by (cases "schedule env job2 w")
    note S = schedule_ok[OF ok f sc]
    obtain s sr where sv: "store_save t job2 (w_store w1) = (s, sr)" by (cases "store_save t job2 (w_store w1)")
    have eq: "retry_failed_job env t job fmts w =
      (case ensure_transition (j_status job1) QUEUED of Inl e \<Rightarrow> (w, Inl (PlanErr e)) | Inr _ \<Rightarrow>
       (case r1 of Inl e \<Rightarrow> (w1, Inl e)
       | Inr _ \<Rightarrow> (case sr of Inl e \<Rightarrow> (w1\<lparr>w_store := s\<rparr>, Inl e)
                   | Inr job3 \<Rightarrow> (emit_job_audit ''job.run.trigger'' t (j_job_id job3) ''success'' (j_status job3)
                                    (w1\<lparr>w_store := s\<rparr>), Inr job3))))"
      unfolding retry_failed_job_def Inr using sc sv
      by (simp add: Let_def job2_def[symmetric] split: sum.split)
    show ?thesis
    proof (cases r1)
      case (Inl e)
      with r eq S ok show ?thesis by (auto split: sum.splits)
    next
      case (Inr u)
      then have tk: "tracked_job t (j_job_id job) (w_queue w1)" using S j2 by simp
      have "world_ok (w1\<lparr>w_store := s\<rparr>)"
        by (rule world_ok_save[OF _ sv]) (use S j2 tk in auto)
      with r eq Inr tk sv j2 ok show ?thesis by (auto simp: store_save_Inr split: sum.splits)
    qed
  qed
qed

section \<open>Freezing a plan\<close>

text \<open>What freezing leaves alone: identity, schema, status, version.\<close>

definition job_core :: "job \<Rightarrow> str \<times> str \<times> int \<times> job_status \<times> int" where
  "job_core job = (j_tenant_id job, j_job_id job, j_schema_version job, j_status job, j_version job)"

lemma job_coreD:
  assumes "job_core job = job_core job'"
  shows "j_tenant_id job = j_tenant_id job'" "j_job_id job = j_job_id job'"
    "j_schema_version job = j_schema_version job'" "j_status job = j_status job'"
    "j_version job = j_version job'"
  using assms by (simp_all add: job_core_def)

lemma effects_core:
  assumes "apply_confirmation_effects expand job c = Inr (job', c')"
  shows "job_core job' = job_core job"
  using assms by (auto simp: apply_confirmation_effects_def Let_def bindE_Inr_iff job_core_def split: if_splits)

lemma resolve_template_core:
  "resolve_template_id env job vars = Inr (t, job') \<Longrightarrow> job_core job' = job_core job"
  by (auto simp: resolve_template_id_def bindE_Inr_iff job_core_def split: option.splits if_splits)

lemma build_plan_core:
  "build_plan_with_fallback env job c i t = Inr (p, job') \<Longrightarrow> job_core job' = job_core job"
  by (auto simp: build_plan_with_fallback_def bindE_Inr_iff job_core_def Let_def
      split: option.splits prod.splits llm_outcome.splits)

lemma artifact_index_core: "job_core (ensure_plan_artifact_index r job) = job_core job"
  by (simp add: ensure_plan_artifact_index_def job_core_def)

lemma build_frozen_job_core:
  assumes "build_frozen_job env t job1 c i = Inr (plan, job)"
  shows "job_core job = job_core job1 \<and> j_status job1 \<in> {DRAFT_READY, CONFIRMED} \<and>
         j_llm_plan job = Some plan \<and> j_confirmation job = Some c"
proof -
  from assms obtain tid job1' job2 where 4: "ensure_freeze_allowed job1 = Inr ()"
      "resolve_template_id env job1 (analysis_vars_from_analysis_spec (analysis_spec_from_draft job1)) = Inr (tid, job1')"
      "build_plan_with_fallback env job1' c i tid = Inr (plan, job2)"
      "job = ensure_plan_artifact_index (lp_rel_path plan) (job2\<lparr>j_confirmation := Some c, j_llm_plan := Some plan\<rparr>)"
    by (auto simp: build_frozen_job_def Let_def bindE_Inr_iff)
  have "job_core job = job_core job2" unfolding 4(4) artifact_index_core by (simp add: job_core_def)
  also have "\<dots> = job_core job1'" by (rule build_plan_core[OF 4(3)])
  also have "\<dots> = job_core job1" by (rule resolve_template_core[OF 4(2)])
  finally show ?thesis
    using 4(1) by (simp add: 4(4) ensure_freeze_allowed_def ensure_plan_artifact_index_def)
qed

lemma prepare_freeze_new:
  assumes "prepare_freeze env t job0 c0 = Inr (Inr (plan, job))"
  shows "job_core job = job_core job0 \<and> j_status job0 \<in> {DRAFT_READY, CONFIRMED}"
proof -
  from assms obtain job1 c where 1: "apply_confirmation_effects (pe_expand env) job0 (effective_confirmation job0 c0) = Inr (job1, c)"
    and 2: "build_frozen_job env t job1 c (expected_plan_id env job1 c) = Inr (plan, job)"
    by (auto simp: prepare_freeze_def split: sum.split_asm prod.split_asm option.split_asm)
  from build_frozen_job_core[OF 2] effects_core[OF 1] show ?thesis by (simp add: job_core_def)
qed

lemma freeze_plan_ok:
  assumes ok: "world_ok w" and r: "freeze_plan env t j c w = (w', r)"
  shows "world_ok w' \<and> w_queue w' = w_queue w \<and> w_audit w' = w_audit w"
proof (cases "bindE (store_load t j (w_store w)) (\<lambda>job. prepare_freeze env t job c)")
  case (Inl e)
  with r ok show ?thesis by (auto simp: freeze_plan_def)
next
  case (Inr x)
  show ?thesis
  proof (cases x)
    case existing: (Inl p)
    with Inr r ok show ?thesis by (auto simp: freeze_plan_def)
  next
    case new: (Inr pj)
    obtain plan job where pj: "pj = (plan, job)" by (cases pj)
    with Inr new obtain job0 where l: "store_load t j (w_store w) = Inr job0"
        "prepare_freeze env t job0 c = Inr (Inr (plan, job))"
      by (auto simp: bindE_Inr_iff)
    have s0: "w_store w (t, j) = Some (JobFile job0)" using l(1) by (simp add: store_load_JobFile)
    have wf: "world_wf w" using ok by (simp add: world_ok_def)
    note id0 = world_wfD[OF wf s0]
    note core = prepare_freeze_new[OF l(2)]
    obtain w1 a where wa: "write_plan_artifact env t j plan w = (w1, a)" by (cases "write_plan_artifact env t j plan w")
    have w1: "world_ok w1" "w_queue w1 = w_queue w" "w_audit w1 = w_audit w"
      using wa ok by (auto simp: write_plan_artifact_def split: option.splits exn.splits store_error.splits)
    obtain s sr where sv: "store_save t job (w_store w1) = (s, sr)" by (cases "store_save t job (w_store w1)")
    have "world_ok (w1\<lparr>w_store := s\<rparr>)"
    proof (rule world_ok_save[OF w1(1) sv])
      show "j_tenant_id job = t" using core id0(1) job_coreD(1)[of job job0] by simp
      have "\<not> in_flight (j_status job)" using core job_coreD(4)[of job job0] by (auto simp: in_flight_def)
      then show "in_flight (j_status job) \<Longrightarrow> tracked_job t (j_job_id job) (w_queue w1)" by simp
    qed
    then show ?thesis
      using r Inr new pj wa w1 sv by (auto simp: freeze_plan_def split: sum.splits)
  qed
qed

lemma freeze_plan_for_run_ok:
  assumes ok: "world_ok w" and r: "freeze_plan_for_run env t j rr w = (w', r)"
  shows "world_ok w' \<and> w_queue w' = w_queue w \<and> w_audit w' = w_audit w"
proof (cases "run_confirmation env rr")
  case (Inl e)
  with r ok show ?thesis by (auto simp: freeze_plan_for_run_def)
next
  case (Inr c)
  obtain w1 x where "freeze_plan env t j c w = (w1, x)" by (cases "freeze_plan env t j c w")
  with freeze_plan_ok[OF ok this] r Inr show ?thesis
    by (auto simp: freeze_plan_for_run_def split: sum.splits)
qed

section \<open>Triggering and confirming\<close>

lemma confirm_and_queue_ok:
  assumes ok: "world_ok w" and f: "sv_fault env = EnqueueOk"
    and l: "w_store w (t, j) = Some (JobFile job)"
    and r: "confirm_and_queue env t j rr job w = (w', r)"
  shows "world_ok w' \<and> (\<forall>job'. r = Inr job' \<longrightarrow> j_status job' = QUEUED \<and>
           w_store w' (t, j) = Some (JobFile job') \<and> tracked_job t j (w_queue w'))"
proof (cases "normalize_output_formats (rr_output_formats rr)")
  case (Inl e)
  with r ok show ?thesis by (auto simp: confirm_and_queue_def)
next
  case (Inr fs)
  have wf: "world_wf w" using ok by (simp add: world_ok_def)
  note id = world_wfD[OF wf l]
  let ?job = "job\<lparr>j_output_formats := Some fs\<rparr>"
  obtain w1 x where fr: "freeze_plan_for_run (sv_plan env) t j rr w = (w1, x)"
    by (cases "freeze_plan_for_run (sv_plan env) t j rr w")
  note F = freeze_plan_for_run_ok[OF ok fr]
  obtain w2 y where q: "queue_run env t ?job w1 = (w2, y)" by (cases "queue_run env t ?job w1")
  have Q: "world_ok w2 \<and> (\<forall>job'. y = Inr job' \<longrightarrow> j_status job' = QUEUED \<and>
           w_store w2 (t, j) = Some (JobFile job') \<and> tracked_job t j (w_queue w2))"
    using queue_run_ok[OF _ f _ q] F id by simp
  show ?thesis using r Inr fr q F Q ok by (auto simp: confirm_and_queue_def Let_def split: sum.splits)
qed

text \<open>The outcome of a triggered run: the job is past queueing in the store.\<close>

lemma trigger_run_loop_ok:
  assumes "world_ok w" and f: "sv_fault env = EnqueueOk"
    and "trigger_run_loop n env t j rr w = (w', r)"
  shows "world_ok w' \<and> (\<forall>job'. r = Inr job' \<longrightarrow> past_queueing (j_status job') \<and>
           w_store w' (t, j) = Some (JobFile job') \<and> (in_flight (j_status job') \<longrightarrow> tracked_job t j (w_queue w')))"
  using assms(1,3)
proof (induction n arbitrary: w)
  case 0
  then show ?case by auto
next
  case (Suc n)
  note ok = Suc.prems(1)
  have live: "w_store x (t, j) = Some (JobFile job) \<Longrightarrow> world_ok x \<Longrightarrow> in_flight (j_status job) \<Longrightarrow>
      tracked_job t j (w_queue x)" for x job
    by (auto simp: world_ok_def live_tracked_def)
  show ?case
  proof (cases "store_load t j (w_store w)")
    case (Inl e)
    with Suc.prems show ?thesis by auto
  next
    case (Inr job)
    then have l: "w_store w (t, j) = Some (JobFile job)" by (simp add: store_load_JobFile)
    have wf: "world_wf w" using ok by (simp add: world_ok_def)
    note id = world_wfD[OF wf l]
    show ?thesis
    proof (cases "past_queueing (j_status job)")
      case True
      with Inr Suc.prems l live[OF l ok] show ?thesis by (auto simp: run_idempotent_noop_def)
    next
      case notpast: False
      show ?thesis
      proof (cases "j_status job = FAILED")
        case True
        obtain w1 x where rt: "retry_failed_job env t job (rr_output_formats rr) w = (w1, x)"
          by (cases "retry_failed_job env t job (rr_output_formats rr) w")
        with True notpast Inr Suc.prems retry_failed_job_ok[OF ok f id(1) rt] id(2)
        show ?thesis by (auto simp: past_queueing_def)
      next
        case False
        obtain w1 x where cq: "confirm_and_queue env t j rr job w = (w1, x)"
          by (cases "confirm_and_queue env t j rr job w")
        note C = confirm_and_queue_ok[OF ok f l cq]
        show ?thesis
        proof (cases x)
          case (Inr job')
          with False notpast \<open>store_load t j (w_store w) = Inr job\<close> Suc.prems cq C show ?thesis
            by (auto simp: past_queueing_def)
        next
          case (Inl e)
          show ?thesis
          proof (cases "is_version_conflict e")
            case False
            with Inl \<open>j_status job \<noteq> FAILED\<close> notpast Inr Suc.prems cq C show ?thesis by auto
          next
            case conf: True
            show ?thesis
            proof (cases "store_load t j (w_store w1)")
              case (Inl e')
              with conf \<open>x = Inl e\<close> \<open>j_status job \<noteq> FAILED\<close> notpast Inr Suc.prems cq C show ?thesis by auto
            next
              case (Inr latest)
              then have l2: "w_store w1 (t, j) = Some (JobFile latest)" by (simp add: store_load_JobFile)
              note step = conf \<open>x = Inl e\<close> \<open>j_status job \<noteq> FAILED\<close> notpast
                \<open>store_load t j (w_store w) = Inr job\<close> Inr cq
              show ?thesis
              proof (cases "past_queueing (j_status latest)")
                case True
                with step Suc.prems C l2 live[OF l2] show ?thesis by auto
              next
                case notp: False
                show ?thesis
                proof (cases "n = 0")
                  case True
                  with notp step Suc.prems C show ?thesis by auto
                next
                  case False
                  with notp step Suc.prems(2) have "trigger_run_loop n env t j rr w1 = (w', r)" by simp
                  with Suc.IH C show ?thesis by blast
                qed
              qed
            qed
          qed
        qed
      qed
    qed
  qed
qed

lemma trigger_run_ok:
  assumes "world_ok w" "sv_fault env = EnqueueOk" "trigger_run env t j rr w = (w', r)"
  shows "world_ok w' \<and> (\<forall>job'. r = Inr job' \<longrightarrow> past_queueing (j_status job') \<and>
           w_store w' (t, j) = Some (JobFile job') \<and> (in_flight (j_status job') \<longrightarrow> tracked_job t j (w_queue w')))"
  using trigger_run_loop_ok[OF assms(1,2)] assms(3) by (simp add: trigger_run_def)

lemma confirm_job_ok:
  assumes "world_ok w" "sv_fault env = EnqueueOk" "confirm_job env t j confirmed rr w = (w', r)"
  shows "world_ok w'"
proof -
  obtain w1 x where tr: "trigger_run env t j rr w = (w1, x)" by (cases "trigger_run env t j rr w")
  from trigger_run_ok[OF assms(1,2) tr] assms tr show ?thesis
    by (auto simp: confirm_job_def split: if_splits sum.splits)
qed

end
