(* ===== verification/RunTrigger.thy ===== *)
theory RunTrigger
  imports JobServiceLaws
begin

text \<open>
  What \<open>trigger_run\<close> does with a drafted job: the first attempt always loses its save against the one of
  \<open>freeze_plan\<close>, the second one succeeds because freezing is idempotent, unless the variable corrections
  of the request are not.
\<close>

section \<open>Freezing twice\<close>

text \<open>The plan builders put the id they are given into the plan.\<close>

definition builders_ok :: "plan_env \<Rightarrow> bool" where
  "builders_ok env =
     ((\<forall>job c i t p. pe_rule_plan env job c i t = Inr p \<longrightarrow> lp_plan_id p = i) \<and>
      (\<forall>f job c i refs p. pe_llm_plan env = Some f \<longrightarrow> f job c i = (refs, LlmPlan p) \<longrightarrow> lp_plan_id p = i))"

lemma build_plan_id:
  assumes "builders_ok env" "build_plan_with_fallback env job c i t = Inr (p, job')"
  shows "lp_plan_id p = i"
  using assms
  by (auto simp: builders_ok_def build_plan_with_fallback_def bindE_Inr_iff Let_def
      split: option.splits prod.splits llm_outcome.splits)

lemma effects_no_corrections:
  "jc_variable_corrections c = [] \<Longrightarrow> apply_confirmation_effects expand job c = Inr (job, c)"
  by (simp add: apply_confirmation_effects_def)

lemma effective_confirmation_twice:
  assumes "j_confirmation job' = Some (effective_confirmation job c)" "j_requirement job' = j_requirement job"
  shows "effective_confirmation job' c = effective_confirmation job c"
  using assms by (cases "j_confirmation job") (simp_all add: effective_confirmation_def Let_def)

text \<open>Fields that neither template selection nor the builders change.\<close>

definition job_texts :: "job \<Rightarrow> str option \<times> job_inputs option" where
  "job_texts job = (j_requirement job, j_inputs job)"

lemma resolve_template_texts:
  "resolve_template_id env job vars = Inr (t, job') \<Longrightarrow> job_texts job' = job_texts job"
  by (auto simp: resolve_template_id_def bindE_Inr_iff job_texts_def split: option.splits if_splits)

lemma build_plan_texts:
  "build_plan_with_fallback env job c i t = Inr (p, job') \<Longrightarrow> job_texts job' = job_texts job"
  by (auto simp: build_plan_with_fallback_def bindE_Inr_iff job_texts_def Let_def
      split: option.splits prod.splits llm_outcome.splits)

lemma artifact_index_keeps:
  "job_texts (ensure_plan_artifact_index r job) = job_texts job"
  "j_output_formats (ensure_plan_artifact_index r job) = j_output_formats job"
  by (simp_all add: ensure_plan_artifact_index_def job_texts_def)

lemma build_frozen_job_texts:
  assumes b: "builders_ok env" and f: "build_frozen_job env t job1 c i = Inr (plan, job)"
  shows "job_texts job = job_texts job1 \<and> lp_plan_id plan = i"
proof -
  from f obtain tid job1' job2 where 3:
      "resolve_template_id env job1 (analysis_vars_from_analysis_spec (analysis_spec_from_draft job1)) = Inr (tid, job1')"
      "build_plan_with_fallback env job1' c i tid = Inr (plan, job2)"
      "job = ensure_plan_artifact_index (lp_rel_path plan) (job2\<lparr>j_confirmation := Some c, j_llm_plan := Some plan\<rparr>)"
    by (auto simp: build_frozen_job_def Let_def bindE_Inr_iff)
  have "job_texts job = job_texts job2" unfolding 3(3) artifact_index_keeps by (simp add: job_texts_def)
  then show ?thesis
    using build_plan_texts[OF 3(2)] resolve_template_texts[OF 3(1)] build_plan_id[OF b 3(2)] by simp
qed

lemma freeze_idempotent:
  assumes b: "builders_ok env" and p: "prepare_freeze env t job c = Inr (Inr (plan, fj))"
    and nc: "jc_variable_corrections (effective_confirmation job c) = []"
  shows "prepare_freeze env t (fj\<lparr>j_version := v\<rparr>) c = Inr (Inl plan)"
proof -
  let ?c = "effective_confirmation job c"
  from p nc have f: "build_frozen_job env t job ?c (expected_plan_id env job ?c) = Inr (plan, fj)"
    by (auto simp: prepare_freeze_def effects_no_corrections split: sum.split_asm option.split_asm)
  note core = build_frozen_job_core[OF f] build_frozen_job_texts[OF b f]
  have id: "lp_plan_id plan = expected_plan_id env job ?c" using core by simp
  let ?fj = "fj\<lparr>j_version := v\<rparr>"
  have e: "effective_confirmation ?fj c = ?c"
    using core by (intro effective_confirmation_twice) (simp_all add: job_texts_def)
  have "expected_plan_id env ?fj ?c = expected_plan_id env job ?c"
    using core by (simp add: expected_plan_id_def job_core_def job_texts_def)
  then show ?thesis
    using core id nc by (simp add: prepare_freeze_def e effects_no_corrections return_existing_plan_def)
qed

lemma prepare_freeze_plan:
  assumes "prepare_freeze env t job0 c0 = Inr (Inr (plan, job))"
  shows "j_llm_plan job = Some plan"
proof -
  from assms obtain job1 c where "build_frozen_job env t job1 c (expected_plan_id env job1 c) = Inr (plan, job)"
    by (auto simp: prepare_freeze_def split: sum.split_asm prod.split_asm option.split_asm)
  from build_frozen_job_core[OF this] show ?thesis by simp
qed

section \<open>The two attempts\<close>

lemma check_ids_queued_path:
  assumes "check_job_ids t j = Inr ()"
  shows "\<exists>k. queued_path t j = Inr k"
proof -
  from assms have j: "is_safe_path_segment j" and t: "tenant_jobs_dir t \<noteq> None"
    by (auto simp: check_job_ids_def split: if_split_asm)
  have "assert_safe_segment j = Inr ()"
    using j by (simp add: assert_safe_segment_def is_safe_path_segment_def)
  moreover have "\<exists>d. tenant_dir t = Inr d"
    using t by (auto simp: tenant_jobs_dir_def tenant_dir_def split: if_split_asm)
  ultimately show ?thesis by (auto simp: queued_path_Inr)
qed

lemma schedule_succeeds:
  assumes "sv_fault env = EnqueueOk" "queued_path (j_tenant_id job) (j_job_id job) = Inr k"
  shows "snd (schedule env job w) = Inr ()"
  using assms by (auto simp: schedule_def enqueue_def Let_def split: option.split prod.split)

lemma queue_run_unfold:
  assumes f: "sv_fault env = EnqueueOk" and p: "queued_path t (j_job_id job) = Inr k"
    and t: "j_tenant_id job = t" and s: "j_status job \<in> {DRAFT_READY, CONFIRMED}"
  obtains w1 job2 where "schedule env job2 w = (w1, Inr ())" "job_core job2 = job_core (job\<lparr>j_status := QUEUED\<rparr>)"
    "j_llm_plan job2 = j_llm_plan job" "j_output_formats job2 = j_output_formats job"
    "queue_run env t job w =
      (case store_save t job2 (w_store w1) of
         (s, Inl e) \<Rightarrow> (w1\<lparr>w_store := s\<rparr>, Inl e)
       | (s, Inr job3) \<Rightarrow> (emit_job_audit ''job.run.trigger'' t (j_job_id job3) ''success'' (j_status job3)
                            (w1\<lparr>w_store := s\<rparr>), Inr job3))"
proof -
  define job1 where "job1 = (if j_status job \<noteq> CONFIRMED then job\<lparr>j_status := CONFIRMED\<rparr> else job)"
  define job2 where "job2 = job1\<lparr>j_status := QUEUED,
     j_scheduled_at := (if j_scheduled_at job1 = None then Some (sv_now env) else j_scheduled_at job1)\<rparr>"
  have tr: "ensure_transition (j_status job) CONFIRMED = Inr (j_status job \<noteq> CONFIRMED)"
    "ensure_transition CONFIRMED QUEUED = Inr True" "j_status job1 = CONFIRMED"
    using s by (auto simp: ensure_transition_def can_transition_def job1_def)
  have core: "job_core job2 = job_core (job\<lparr>j_status := QUEUED\<rparr>)" "j_llm_plan job2 = j_llm_plan job"
    "j_output_formats job2 = j_output_formats job"
    by (simp_all add: job2_def job1_def job_core_def)
  obtain w1 r where sc: "schedule env job2 w = (w1, r)" by (cases "schedule env job2 w")
  have "r = Inr ()"
    using schedule_succeeds[OF f, of job2 k w] p t core(1) sc by (simp add: job_core_def)
  with sc have sc: "schedule env job2 w = (w1, Inr ())" by simp
  show thesis
    by (rule that[OF sc core])
       (use tr sc in \<open>simp add: queue_run_def Let_def job1_def[symmetric] job2_def[symmetric]\<close>)
qed

lemma freeze_new:
  assumes c: "run_confirmation env rr = Inr c" and l: "store_load t j (w_store w) = Inr job"
    and p: "prepare_freeze env t job c = Inr (Inr (plan, fj))" and a: "pe_artifact_fault env = None"
    and ok: "world_ok w"
  shows "freeze_plan_for_run env t j rr w =
     (w\<lparr>w_plans := (w_plans w)((t, j, lp_rel_path plan) \<mapsto> plan),
        w_store := (w_store w)((t, j) \<mapsto> JobFile (fj\<lparr>j_version := j_version job + 1\<rparr>))\<rparr>, Inr ())"
proof -
  have s: "w_store w (t, j) = Some (JobFile job)" "check_job_ids t j = Inr ()"
    using l by (simp_all add: store_load_JobFile)
  have wf: "world_wf w" using ok by (simp add: world_ok_def)
  note id = world_wfD[OF wf s(1)]
  have core: "job_core fj = job_core job" using prepare_freeze_new[OF p] by simp
  have "store_save t fj (w_store w) =
      ((w_store w)((t, j) \<mapsto> JobFile (fj\<lparr>j_version := j_version job + 1\<rparr>)), Inr (fj\<lparr>j_version := j_version job + 1\<rparr>))"
    unfolding store_save_Inr using s id core by (auto simp: job_core_def)
  then show ?thesis
    using c l p a by (simp add: freeze_plan_for_run_def freeze_plan_def write_plan_artifact_def)
qed

lemma first_attempt:
  assumes ok: "world_ok w" and f: "sv_fault env = EnqueueOk" and a: "pe_artifact_fault (sv_plan env) = None"
    and l: "store_load t j (w_store w) = Inr job" and st: "j_status job = DRAFT_READY"
    and fs: "normalize_output_formats (rr_output_formats rr) = Inr fs"
    and c: "run_confirmation (sv_plan env) rr = Inr c"
    and p: "prepare_freeze (sv_plan env) t job c = Inr (Inr (plan, fj))"
  shows "\<exists>w1. confirm_and_queue env t j rr job w =
             (w1, Inl (StoreErr (JobVersionConflict (j_version job) (j_version job + 1)))) \<and>
           w_store w1 (t, j) = Some (JobFile (fj\<lparr>j_version := j_version job + 1\<rparr>)) \<and>
           j_status fj = DRAFT_READY \<and> tracked_job t j (w_queue w1)"
proof -
  have s: "w_store w (t, j) = Some (JobFile job)" "check_job_ids t j = Inr ()"
    using l by (simp_all add: store_load_JobFile)
  have wf: "world_wf w" using ok by (simp add: world_ok_def)
  note id = world_wfD[OF wf s(1)]
  obtain k where k: "queued_path t j = Inr k" using check_ids_queued_path[OF s(2)] by blast
  have core: "job_core fj = job_core job" using prepare_freeze_new[OF p] by simp
  define w0 where "w0 = w\<lparr>w_plans := (w_plans w)((t, j, lp_rel_path plan) \<mapsto> plan),
        w_store := (w_store w)((t, j) \<mapsto> JobFile (fj\<lparr>j_version := j_version job + 1\<rparr>))\<rparr>"
  have fr: "freeze_plan_for_run (sv_plan env) t j rr w = (w0, Inr ())"
    unfolding w0_def by (rule freeze_new[OF c l p a ok])
  have ok0: "world_ok w0" using freeze_plan_for_run_ok[OF ok fr] by simp
  let ?job = "job\<lparr>j_output_formats := Some fs\<rparr>"
  obtain w1 job2 where Q: "schedule env job2 w0 = (w1, Inr ())"
      "job_core job2 = job_core (?job\<lparr>j_status := QUEUED\<rparr>)"
      "queue_run env t ?job w0 =
        (case store_save t job2 (w_store w1) of
           (s, Inl e) \<Rightarrow> (w1\<lparr>w_store := s\<rparr>, Inl e)
         | (s, Inr job3) \<Rightarrow> (emit_job_audit ''job.run.trigger'' t (j_job_id job3) ''success'' (j_status job3)
                              (w1\<lparr>w_store := s\<rparr>), Inr job3))"
    by (rule queue_run_unfold[OF f, of t ?job k w0]) (use k id st in auto)
  note S = schedule_ok[OF ok0 f Q(1)]
  have "store_save t job2 (w_store w1) =
      (w_store w1, Inl (StoreErr (JobVersionConflict (j_version job) (j_version job + 1))))"
    using S Q(2) id s(2) by (simp add: store_save_def w0_def job_core_def)
  moreover have "tracked_job t j (w_queue w1)" using S Q(2) id by (simp add: job_core_def)
  moreover have "w_store w1 (t, j) = Some (JobFile (fj\<lparr>j_version := j_version job + 1\<rparr>))"
    using S by (simp add: w0_def)
  moreover have "ensure_transition (j_status ?job) CONFIRMED = Inr True"
    using st by (simp add: ensure_transition_def can_transition_def)
  moreover have "w1\<lparr>w_store := w_store w1\<rparr> = w1" by simp
  ultimately show ?thesis
    using fs fr Q(3) core st by (simp add: confirm_and_queue_def Let_def job_core_def)
qed

lemma second_attempt:
  assumes ok: "world_ok w" and f: "sv_fault env = EnqueueOk"
    and l: "store_load t j (w_store w) = Inr job" and st: "j_status job = DRAFT_READY"
    and fs: "normalize_output_formats (rr_output_formats rr) = Inr fs"
    and c: "run_confirmation (sv_plan env) rr = Inr c"
    and p: "prepare_freeze (sv_plan env) t job c = Inr (Inl plan)" and pl: "j_llm_plan job = Some plan"
  shows "\<exists>w2 job3. confirm_and_queue env t j rr job w = (w2, Inr job3) \<and> j_status job3 = QUEUED \<and>
           j_version job3 = j_version job + 1 \<and> j_llm_plan job3 = Some plan \<and> j_output_formats job3 = Some fs \<and>
           w_store w2 (t, j) = Some (JobFile job3) \<and> tracked_job t j (w_queue w2)"
proof -
  have s: "w_store w (t, j) = Some (JobFile job)" "check_job_ids t j = Inr ()"
    using l by (simp_all add: store_load_JobFile)
  have wf: "world_wf w" using ok by (simp add: world_ok_def)
  note id = world_wfD[OF wf s(1)]
  obtain k where k: "queued_path t j = Inr k" using check_ids_queued_path[OF s(2)] by blast
  have fr: "freeze_plan_for_run (sv_plan env) t j rr w = (w, Inr ())"
    using c l p by (simp add: freeze_plan_for_run_def freeze_plan_def)
  let ?job = "job\<lparr>j_output_formats := Some fs\<rparr>"
  obtain w1 job2 where Q: "schedule env job2 w = (w1, Inr ())"
      "job_core job2 = job_core (?job\<lparr>j_status := QUEUED\<rparr>)" "j_llm_plan job2 = j_llm_plan ?job"
      "j_output_formats job2 = j_output_formats ?job"
      "queue_run env t ?job w =
        (case store_save t job2 (w_store w1) of
           (s, Inl e) \<Rightarrow> (w1\<lparr>w_store := s\<rparr>, Inl e)
         | (s, Inr job3) \<Rightarrow> (emit_job_audit ''job.run.trigger'' t (j_job_id job3) ''success'' (j_status job3)
                              (w1\<lparr>w_store := s\<rparr>), Inr job3))"
    by (rule queue_run_unfold[OF f, of t ?job k w]) (use k id st in auto)
  note S = schedule_ok[OF ok f Q(1)]
  let ?job3 = "job2\<lparr>j_version := j_version job + 1\<rparr>"
  have "store_save t job2 (w_store w1) = ((w_store w1)((t, j) \<mapsto> JobFile ?job3), Inr ?job3)"
    unfolding store_save_Inr using S Q(2) id s by (auto simp: job_core_def)
  moreover have "tracked_job t j (w_queue w1)" using S Q(2) id by (simp add: job_core_def)
  moreover have "ensure_transition (j_status ?job) CONFIRMED = Inr True"
    using st by (simp add: ensure_transition_def can_transition_def)
  ultimately show ?thesis
    using fs fr Q(2-5) pl by (simp add: confirm_and_queue_def Let_def job_core_def)
qed

lemma loop_conflict:
  assumes "store_load t j (w_store w) = Inr job" "j_status job = DRAFT_READY"
    "confirm_and_queue env t j rr job w = (w1, Inl (StoreErr (JobVersionConflict a b)))"
    "store_load t j (w_store w1) = Inr latest" "j_status latest = DRAFT_READY"
  shows "trigger_run_loop (Suc (Suc n)) env t j rr w = trigger_run_loop (Suc n) env t j rr w1"
  using assms by (simp add: past_queueing_def is_version_conflict_def)

section \<open>A drafted job\<close>

definition plan_with_id :: "str \<Rightarrow> llm_plan" where
  "plan_with_id i = \<lparr>lp_plan_version = 1, lp_plan_id = i, lp_rel_path = ''artifacts/plan.json'',
     lp_plan_source = SourceRule, lp_fallback_reason = None, lp_steps = []\<rparr>"

text \<open>An environment whose plan id shows the requirement it was computed from.\<close>

definition sample_env :: svc_env where
  "sample_env =
     \<lparr>sv_plan = \<lparr>pe_expand = Inr, pe_plan_id = (\<lambda>j f r c. ''plan:'' @ r), pe_select_template = (\<lambda>_. Inr ''T07''),
                pe_missing_params = (\<lambda>_ _. Inr []), pe_preview_columns = (\<lambda>_ _. None),
                pe_rule_plan = (\<lambda>_ _ i _. Inr (plan_with_id i)), pe_llm_plan = None, pe_artifact_fault = None\<rparr>,
      sv_now = 5, sv_fault = EnqueueOk, sv_traceparent = id, sv_sha256 = id, sv_trace_id = ''trace''\<rparr>"

definition drafted_job :: job where
  "drafted_job = (new_job ''acme'' ''job_1'' 1)\<lparr>j_status := DRAFT_READY, j_requirement := Some ''mean of income''\<rparr>"

definition drafted_world :: world where
  "drafted_world = \<lparr>w_store = [(''acme'', ''job_1'') \<mapsto> JobFile drafted_job], w_queue = empty_queue,
                    w_plans = Map.empty, w_audit = []\<rparr>"

definition plain_run :: run_request where
  "plain_run = \<lparr>rr_notes = None, rr_output_formats = None, rr_variable_corrections = None, rr_answers = None,
                rr_default_overrides = None, rr_feedback = None\<rparr>"

lemma drafted_world_ok: "world_ok drafted_world"
proof -
  have "queue_wf (w_queue drafted_world)" "j_tenant_id drafted_job = ''acme''" "j_job_id drafted_job = ''job_1''"
    "j_schema_version drafted_job = JOB_SCHEMA_VERSION_CURRENT" "check_job_ids ''acme'' ''job_1'' = Inr ()"
    "\<not> in_flight (j_status drafted_job)"
    by code_simp+
  then show ?thesis
    by (auto simp: world_ok_def world_wf_def live_tracked_def drafted_world_def split: if_splits)
qed

lemma drafted_load: "store_load ''acme'' ''job_1'' (w_store drafted_world) = Inr drafted_job"
  by code_simp

lemma sample_builders_ok: "builders_ok (sv_plan sample_env)"
  by (simp add: builders_ok_def sample_env_def plan_with_id_def)

definition plain_confirmation :: job_confirmation where
  "plain_confirmation = \<lparr>jc_requirement = None, jc_notes = None, jc_variable_corrections = [], jc_answers = [],
     jc_default_overrides = [], jc_expert_suggestions_feedback = []\<rparr>"

definition draft_plan :: llm_plan where
  "draft_plan = plan_with_id ''plan:mean of income''"

definition frozen_draft :: job where
  "frozen_draft = drafted_job\<lparr>
     j_confirmation := Some (plain_confirmation\<lparr>jc_requirement := Some ''mean of income''\<rparr>),
     j_llm_plan := Some draft_plan, j_selected_template_id := Some ''T07'',
     j_artifacts_index := [\<lparr>ar_kind = PLAN_JSON, ar_rel_path = ''artifacts/plan.json''\<rparr>]\<rparr>"

text \<open>The first attempt on a drafted job never succeeds: the job was read before the plan
  is frozen, freezing bumps its version, so the save of the stale copy conflicts, after the job has
  already been put into the queue while the store still says DRAFT_READY.\<close>

theorem first_attempt_conflicts:
  assumes ok: "world_ok w" and f: "sv_fault env = EnqueueOk" and a: "pe_artifact_fault (sv_plan env) = None"
    and l: "store_load t j (w_store w) = Inr job" and st: "j_status job = DRAFT_READY"
    and fs: "normalize_output_formats (rr_output_formats rr) = Inr fs"
    and c: "run_confirmation (sv_plan env) rr = Inr c"
    and p: "prepare_freeze (sv_plan env) t job c = Inr (Inr (plan, fj))"
  shows "\<exists>w1. confirm_and_queue env t j rr job w =
             (w1, Inl (StoreErr (JobVersionConflict (j_version job) (j_version job + 1)))) \<and>
           w_store w1 (t, j) = Some (JobFile (fj\<lparr>j_version := j_version job + 1\<rparr>)) \<and>
           j_status fj = DRAFT_READY \<and> tracked_job t j (w_queue w1)"
  by (rule first_attempt[OF assms])



text \<open>With a variable correction whose new name contains the old one as a word
  (income becomes log income), every run of the request corrects the requirement once more: the second
  freeze computes another plan id, the run ends with PlanAlreadyFrozen, and the job stays DRAFT_READY
  in the store although the queue already holds it.\<close>

theorem nonidempotent_correction_blocks_run:
  shows "let rr = plain_run\<lparr>rr_variable_corrections := Some [(''income'', ''log income'')]\<rparr>;
             (w, r) = trigger_run sample_env ''acme'' ''job_1'' rr drafted_world
         in r = Inl (PlanErr PlanAlreadyFrozen) \<and>
            map_option (\<lambda>f. case f of JobFile job \<Rightarrow> (j_status job, j_requirement job) | _ \<Rightarrow> (FAILED, None))
                (w_store w (''acme'', ''job_1'')) = Some (DRAFT_READY, Some ''mean of log income'') \<and>
            tracked_job ''acme'' ''job_1'' (w_queue w)"
  by code_simp

end
