(* ===== verification/Worker.thy ===== *)
theory Worker
  imports RunTrigger
begin

text \<open>
  The worker: domain/worker_service.py, domain/worker_claim_handling.py, domain/worker_run_attempts.py
  and domain/worker_retry.py, over the state of the service (JobService).

  What an attempt does outside the job aggregate is a parameter: \<open>wk_execute\<close> is \<open>execute_plan\<close>,
  \<open>wk_format\<close> the output formatter, \<open>wk_run_id\<close> the random run id and \<open>wk_started\<close>, \<open>wk_ended\<close> the clock,
  each for the attempt of that number; \<open>wk_stop\<close> answers the n-th call of \<open>stop_requested\<close>. Other
  processes share the store and the queue: \<open>wk_during_run\<close> and \<open>wk_during_sleep\<close> say what they do
  while an attempt runs and while the worker sleeps.
\<close>

section \<open>Run results and policy\<close>

record run_error =
  re_error_code :: str
  re_message :: str
  re_details :: "jobj option"

record run_result =
  rs_ok :: bool
  rs_exit_code :: "int option"
  rs_timed_out :: bool
  rs_artifacts :: "artifact_ref list"
  rs_error :: "run_error option"

record format_result =
  fr_artifacts :: "artifact_ref list"
  fr_error :: "run_error option"

record worker_env =
  wk_max_attempts :: int
  wk_queue_io :: qio
  wk_stop :: "nat \<Rightarrow> bool"
  wk_run_id :: "int \<Rightarrow> str"
  wk_started :: "int \<Rightarrow> int"
  wk_ended :: "int \<Rightarrow> int"
  wk_execute :: "int \<Rightarrow> job \<Rightarrow> str \<Rightarrow> exn + run_result"
  wk_format :: "job \<Rightarrow> str \<Rightarrow> artifact_ref list \<Rightarrow> exn + format_result"
  wk_during_run :: "int \<Rightarrow> world \<Rightarrow> world"
  wk_during_sleep :: "int \<Rightarrow> world \<Rightarrow> world"

definition NON_RETRIABLE_ERROR_CODES :: "str list" where
  "NON_RETRIABLE_ERROR_CODES =
     [''PLAN_MISSING'', ''PLAN_INVALID'', ''INPUTS_MANIFEST_MISSING'', ''INPUTS_MANIFEST_UNSAFE'',
      ''INPUTS_MANIFEST_INVALID'', ''INPUTS_MANIFEST_READ_FAILED'', ''DOFILE_PLAN_INVALID'',
      ''DOFILE_TEMPLATE_UNSUPPORTED'', ''DOFILE_INPUTS_MANIFEST_INVALID'', ''DO_TEMPLATE_PARAM_MISSING'',
      ''DO_TEMPLATE_PARAM_INVALID'', ''DO_TEMPLATE_CONTRACT_INVALID'', ''DO_TEMPLATE_META_INVALID'',
      ''DO_TEMPLATE_ARTIFACTS_WRITE_FAILED'', ''DO_TEMPLATE_OUTPUT_ARCHIVE_FAILED'',
      ''STATA_WORKSPACE_INVALID'', ''PLAN_COMPOSITION_INVALID'', ''STATA_INPUTS_UNSAFE'',
      ''STATA_DEPENDENCY_MISSING'', ''OUTPUT_FORMATS_INVALID'', ''OUTPUT_FORMATTER_FAILED'']"

definition should_retry :: "run_result \<Rightarrow> bool" where
  "should_retry result =
     (case rs_error result of
        None \<Rightarrow> True
      | Some e \<Rightarrow> re_error_code e \<notin> set NON_RETRIABLE_ERROR_CODES)"

definition normalized_max_attempts :: "int \<Rightarrow> int" where
  "normalized_max_attempts value = (if value \<le> 0 then 1 else value)"

text \<open>\<open>backoff_seconds\<close> over exact numbers, on arguments that are numbers.\<close>

definition backoff_seconds :: "int \<Rightarrow> rat \<Rightarrow> rat \<Rightarrow> rat" where
  "backoff_seconds attempt base_seconds max_seconds =
     (let base = base_seconds; cap = max_seconds
      in if base \<le> 0 then 0
         else let cap = (if cap \<le> 0 then base else cap);
                  seconds = base * 2 ^ nat (max (attempt - 1) 0)
              in min seconds cap)"

section \<open>Run attempts\<close>

definition record_attempt_started ::
  "worker_env \<Rightarrow> int \<Rightarrow> job \<Rightarrow> world \<Rightarrow> world \<times> (exn + job)" where
  "record_attempt_started env attempt job w =
     (let job' = job\<lparr>j_runs := j_runs job @
            [\<lparr>ra_run_id = wk_run_id env attempt, ra_attempt = attempt, ra_status = ''running'',
              ra_started_at = Some (wk_started env attempt), ra_ended_at = None, ra_artifacts = []\<rparr>]\<rparr>
      in case store_save (j_tenant_id job') job' (w_store w) of
           (s, Inl e) \<Rightarrow> (w\<lparr>w_store := s\<rparr>, Inl e)
         | (s, Inr job'') \<Rightarrow> (w\<lparr>w_store := s\<rparr>, Inr job''))"

text \<open>\<open>find_attempt\<close>: the index of the last attempt with this run id.\<close>

fun find_attempt_rev :: "str \<Rightarrow> run_attempt list \<Rightarrow> nat option" where
  "find_attempt_rev run_id [] = None"
| "find_attempt_rev run_id (a # older) =
     (if ra_run_id a = run_id then Some (length older) else find_attempt_rev run_id older)"

definition find_attempt :: "str \<Rightarrow> run_attempt list \<Rightarrow> exn + nat" where
  "find_attempt run_id runs =
     (case find_attempt_rev run_id (rev runs) of
        None \<Rightarrow> Inl (PyErr PyValueError)
      | Some i \<Rightarrow> Inr i)"

fun index_refs :: "artifact_ref list \<Rightarrow> artifact_ref list \<Rightarrow> artifact_ref list" where
  "index_refs index [] = index"
| "index_refs index (r # rs) = (if r \<in> set index then index_refs index rs else index_refs (index @ [r]) rs)"

definition index_artifacts :: "run_result \<Rightarrow> job \<Rightarrow> job" where
  "index_artifacts result job =
     job\<lparr>j_artifacts_index := index_refs (j_artifacts_index job) (rs_artifacts result)\<rparr>"

definition record_attempt_finished :: "worker_env \<Rightarrow> int \<Rightarrow> run_result \<Rightarrow> job \<Rightarrow> exn + job" where
  "record_attempt_finished env attempt result job =
     bindE (find_attempt (wk_run_id env attempt) (j_runs job)) (\<lambda>i.
       let a = (j_runs job ! i)\<lparr>ra_ended_at := Some (wk_ended env attempt),
                 ra_status := (if rs_ok result then ''succeeded'' else ''failed''),
                 ra_artifacts := rs_artifacts result\<rparr>
       in Inr (index_artifacts result (job\<lparr>j_runs := (j_runs job)[i := a]\<rparr>)))"

section \<open>Claims\<close>

definition worker_ack :: "worker_env \<Rightarrow> queue_claim \<Rightarrow> world \<Rightarrow> world \<times> (exn + unit)" where
  "worker_ack env c w = (case ack (wk_queue_io env) c (w_queue w) of (q, r) \<Rightarrow> (w\<lparr>w_queue := q\<rparr>, r))"

definition worker_release :: "worker_env \<Rightarrow> queue_claim \<Rightarrow> world \<Rightarrow> world \<times> (exn + unit)" where
  "worker_release env c w = (case release (wk_queue_io env) c (w_queue w) of (q, r) \<Rightarrow> (w\<lparr>w_queue := q\<rparr>, r))"

text \<open>A call whose result is replaced by \<open>v\<close>.\<close>

definition then_return :: "'w \<times> ('e + unit) \<Rightarrow> 'a \<Rightarrow> 'w \<times> ('e + 'a)" where
  "then_return m v = (case m of (w, Inl e) \<Rightarrow> (w, Inl e) | (w, Inr _) \<Rightarrow> (w, Inr v))"

definition load_job_or_handle ::
  "worker_env \<Rightarrow> queue_claim \<Rightarrow> world \<Rightarrow> world \<times> (exn + job option)" where
  "load_job_or_handle env c w =
     (case store_load (qc_tenant_id c) (qc_job_id c) (w_store w) of
        Inr job \<Rightarrow> (w, Inr (Some job))
      | Inl (StoreErr JobNotFound) \<Rightarrow> then_return (worker_ack env c w) None
      | Inl (StoreErr JobDataCorrupted) \<Rightarrow> then_return (worker_ack env c w) None
      | Inl (StoreErr (JobStoreIO op)) \<Rightarrow> then_return (worker_release env c w) None
      | Inl e \<Rightarrow> (w, Inl e))"

definition emit_worker_audit :: "queue_claim \<Rightarrow> job_status \<Rightarrow> world \<Rightarrow> world" where
  "emit_worker_audit c to_status w =
     emit_job_audit ''job.status.transition'' (qc_tenant_id c) (qc_job_id c) ''success'' to_status w"

text \<open>\<open>ensure_job_claimable\<close>: the job to run, or \<open>None\<close> for the answer False.\<close>

definition ensure_job_claimable ::
  "worker_env \<Rightarrow> queue_claim \<Rightarrow> job \<Rightarrow> world \<Rightarrow> world \<times> (exn + job option)" where
  "ensure_job_claimable env c job w =
     (if j_status job = QUEUED
      then (case ensure_transition (j_status job) RUNNING of
              Inl e \<Rightarrow> (w, Inl (PlanErr e))
            | Inr False \<Rightarrow> (w, Inr (Some job))
            | Inr True \<Rightarrow>
                (case store_save (qc_tenant_id c) (job\<lparr>j_status := RUNNING\<rparr>) (w_store w) of
                   (s, Inl e) \<Rightarrow> (w\<lparr>w_store := s\<rparr>, Inl e)
                 | (s, Inr job') \<Rightarrow>
                     (emit_worker_audit c RUNNING (w\<lparr>w_store := s\<rparr>), Inr (Some job'))))
      else if j_status job = RUNNING then (w, Inr (Some job))
      else if j_status job \<in> {SUCCEEDED, FAILED} then then_return (worker_ack env c w) None
      else then_return (worker_release env c w) None)"

section \<open>One attempt\<close>

definition run_and_format :: "worker_env \<Rightarrow> int \<Rightarrow> job \<Rightarrow> exn + run_result" where
  "run_and_format env attempt job =
     bindE (wk_execute env attempt job (wk_run_id env attempt)) (\<lambda>result.
       if rs_ok result
       then bindE (wk_format env job (wk_run_id env attempt) (rs_artifacts result)) (\<lambda>formatted.
              if fr_error formatted \<noteq> None \<or> fr_artifacts formatted \<noteq> []
              then Inr (result\<lparr>rs_ok := (if fr_error formatted = None then rs_ok result else False),
                             rs_artifacts := rs_artifacts result @ fr_artifacts formatted,
                             rs_error := (if fr_error formatted \<noteq> None then fr_error formatted
                                          else rs_error result)\<rparr>)
              else Inr result)
       else Inr result)"

definition finish_job :: "queue_claim \<Rightarrow> job_status \<Rightarrow> job \<Rightarrow> world \<Rightarrow> world \<times> (exn + unit)" where
  "finish_job c status job w =
     (case ensure_transition (j_status job) status of
        Inl e \<Rightarrow> (w, Inl (PlanErr e))
      | Inr change \<Rightarrow>
          (let job' = (if change then job\<lparr>j_status := status\<rparr> else job)
           in case store_save (qc_tenant_id c) job' (w_store w) of
                (s, Inl e) \<Rightarrow> (w\<lparr>w_store := s\<rparr>, Inl e)
              | (s, Inr job'') \<Rightarrow>
                  (let w' = w\<lparr>w_store := s\<rparr>
                   in (if j_status job \<noteq> j_status job'' then emit_worker_audit c (j_status job'') w' else w',
                       Inr ()))))"

definition finish_and_ack ::
  "worker_env \<Rightarrow> queue_claim \<Rightarrow> job_status \<Rightarrow> job \<Rightarrow> world \<Rightarrow> world \<times> (exn + job option)" where
  "finish_and_ack env c status job w =
     (case finish_job c status job w of
        (w1, Inl e) \<Rightarrow> (w1, Inl e)
      | (w1, Inr _) \<Rightarrow> then_return (worker_ack env c w1) None)"

text \<open>The attempt up to the save of its result: the job as saved, and the result.\<close>

definition perform_attempt ::
  "worker_env \<Rightarrow> queue_claim \<Rightarrow> int \<Rightarrow> job \<Rightarrow> world \<Rightarrow> world \<times> (exn + job \<times> run_result)" where
  "perform_attempt env c attempt job w =
     (case record_attempt_started env attempt job w of
        (w1, Inl e) \<Rightarrow> (w1, Inl e)
      | (w1, Inr job1) \<Rightarrow>
          (let w2 = wk_during_run env attempt w1
           in case run_and_format env attempt job1 of
                Inl e \<Rightarrow> (w2, Inl e)
              | Inr result \<Rightarrow>
                  (case record_attempt_finished env attempt result job1 of
                     Inl e \<Rightarrow> (w2, Inl e)
                   | Inr job2 \<Rightarrow>
                       (case store_save (qc_tenant_id c) job2 (w_store w2) of
                          (s, Inl e) \<Rightarrow> (w2\<lparr>w_store := s\<rparr>, Inl e)
                        | (s, Inr job3) \<Rightarrow> (w2\<lparr>w_store := s\<rparr>, Inr (job3, result))))))"

text \<open>What follows an attempt: \<open>None\<close> for return, the job for the next attempt; \<open>n\<close> counts the calls
  of \<open>stop_requested\<close>.\<close>

definition conclude_attempt ::
  "worker_env \<Rightarrow> nat \<Rightarrow> queue_claim \<Rightarrow> int \<Rightarrow> job \<Rightarrow> run_result \<Rightarrow> world \<Rightarrow> world \<times> (exn + job option)" where
  "conclude_attempt env n c attempt job result w =
     (if rs_ok result then finish_and_ack env c SUCCEEDED job w
      else if \<not> should_retry result then finish_and_ack env c FAILED job w
      else if attempt \<ge> normalized_max_attempts (wk_max_attempts env) then finish_and_ack env c FAILED job w
      else if wk_stop env n then then_return (worker_release env c w) None
      else (wk_during_sleep env attempt w, Inr (Some job)))"

definition attempt_step ::
  "worker_env \<Rightarrow> nat \<Rightarrow> queue_claim \<Rightarrow> int \<Rightarrow> job \<Rightarrow> world \<Rightarrow> world \<times> (exn + job option)" where
  "attempt_step env n c attempt job w =
     (if wk_stop env n then then_return (worker_release env c w) None
      else case perform_attempt env c attempt job w of
             (w1, Inl e) \<Rightarrow> (w1, Inl e)
           | (w1, Inr (job1, result)) \<Rightarrow> conclude_attempt env (Suc n) c attempt job1 result w1)"

section \<open>The worker\<close>

function attempt_loop ::
  "worker_env \<Rightarrow> nat \<Rightarrow> queue_claim \<Rightarrow> int \<Rightarrow> job \<Rightarrow> world \<Rightarrow> world \<times> (exn + unit)" where
  "attempt_loop env n c attempt job w =
     (if attempt > normalized_max_attempts (wk_max_attempts env) then (w, Inr ())
      else case attempt_step env n c attempt job w of
             (w1, Inl e) \<Rightarrow> (w1, Inl e)
           | (w1, Inr None) \<Rightarrow> (w1, Inr ())
           | (w1, Inr (Some job1)) \<Rightarrow> attempt_loop env (Suc (Suc n)) c (attempt + 1) job1 w1)"
  by pat_completeness auto
termination
  by (relation "measure (\<lambda>(env, n, c, attempt, job, w).
        nat (normalized_max_attempts (wk_max_attempts env) + 1 - attempt))") auto

declare attempt_loop.simps [simp del]

definition run_job_with_retries ::
  "worker_env \<Rightarrow> nat \<Rightarrow> queue_claim \<Rightarrow> job \<Rightarrow> world \<Rightarrow> world \<times> (exn + unit)" where
  "run_job_with_retries env n c job w = attempt_loop env n c (int (length (j_runs job)) + 1) job w"

definition process_claim :: "worker_env \<Rightarrow> nat \<Rightarrow> queue_claim \<Rightarrow> world \<Rightarrow> world \<times> (exn + unit)" where
  "process_claim env n c w =
     (if wk_stop env n then worker_release env c w
      else case load_job_or_handle env c w of
             (w1, Inl e) \<Rightarrow> (w1, Inl e)
           | (w1, Inr None) \<Rightarrow> (w1, Inr ())
           | (w1, Inr (Some job)) \<Rightarrow>
               (if wk_stop env (Suc n) then worker_release env c w1
                else case ensure_job_claimable env c job w1 of
                       (w2, Inl e) \<Rightarrow> (w2, Inl e)
                     | (w2, Inr None) \<Rightarrow> (w2, Inr ())
                     | (w2, Inr (Some job1)) \<Rightarrow> run_job_with_retries env (Suc (Suc n)) c job1 w2))"

definition process_next ::
  "worker_env \<Rightarrow> int \<Rightarrow> int \<Rightarrow> str \<Rightarrow> str \<Rightarrow> world \<Rightarrow> world \<times> (exn + bool)" where
  "process_next env now ttl worker_id claim_id w =
     (if wk_stop env 0 then (w, Inr False)
      else case claim (wk_queue_io env) now ttl worker_id claim_id (w_queue w) of
             (q, Inl e) \<Rightarrow> (w\<lparr>w_queue := q\<rparr>, Inl e)
           | (q, Inr None) \<Rightarrow> (w\<lparr>w_queue := q\<rparr>, Inr False)
           | (q, Inr (Some c)) \<Rightarrow>
               (if wk_stop env 1 then then_return (worker_release env c (w\<lparr>w_queue := q\<rparr>)) False
                else then_return (process_claim env 2 c (w\<lparr>w_queue := q\<rparr>)) True))"

end
