(* ===== verification/Evolution.thy ===== *)
theory Evolution
  imports JobServiceLaws
begin

text \<open>
  What processes may rely on while others work on the same job store: a job file never disappears, and
  every change of it raises its version. Every operation of the job service keeps this, so a save that
  passes the version check overwrites exactly what was loaded.
\<close>

section \<open>How a store may change\<close>

definition store_evolves :: "job_store \<Rightarrow> job_store \<Rightarrow> bool" where
  "store_evolves s s' =
     (\<forall>t j job. s (t, j) = Some (JobFile job) \<longrightarrow>
        (\<exists>job'. s' (t, j) = Some (JobFile job') \<and> (job' = job \<or> j_version job < j_version job')))"

lemma store_evolvesD:
  assumes "store_evolves s s'" "s (t, j) = Some (JobFile job)"
  shows "\<exists>job'. s' (t, j) = Some (JobFile job') \<and> (job' = job \<or> j_version job < j_version job')"
  using assms by (simp add: store_evolves_def)

lemma store_evolves_refl [simp, intro]: "store_evolves s s"
  by (simp add: store_evolves_def)

lemma store_evolves_trans:
  assumes "store_evolves s1 s2" "store_evolves s2 s3"
  shows "store_evolves s1 s3"
  unfolding store_evolves_def
proof (intro allI impI)
  fix t j job
  assume "s1 (t, j) = Some (JobFile job)"
  from store_evolvesD[OF assms(1) this] obtain job2
    where 2: "s2 (t, j) = Some (JobFile job2)" "job2 = job \<or> j_version job < j_version job2" by blast
  from store_evolvesD[OF assms(2) 2(1)] 2(2)
  show "\<exists>job'. s3 (t, j) = Some (JobFile job') \<and> (job' = job \<or> j_version job < j_version job')"
    by force
qed

lemma create_evolves: "store_create t job s = (s', r) \<Longrightarrow> store_evolves s s'"
  by (auto simp: store_create_def store_evolves_def split: sum.split_asm if_split_asm)

lemma save_evolves:
  assumes "store_save t job s = (s', r)"
  shows "store_evolves s s'"
proof (cases r)
  case (Inl e)
  with assms store_save_Inl show ?thesis by blast
next
  case (Inr job')
  with assms have "store_save t job s = (s', Inr job')" by simp
  then show ?thesis by (auto simp: store_save_Inr store_evolves_def)
qed

text \<open>The version check: a save after any evolution succeeds only over the file that was read.\<close>

lemma save_over_same:
  assumes "store_evolves s s'" "s (t, j_job_id job) = Some (JobFile disk)" "j_version job = j_version disk"
    and "store_save t job s' = (s'', Inr job')"
  shows "s' (t, j_job_id job) = Some (JobFile disk)"
  using store_evolvesD[OF assms(1,2)] assms(3,4) by (auto simp: store_save_Inr)

section \<open>The service only evolves the store\<close>

lemma schedule_store: "schedule env job w = (w1, r) \<Longrightarrow> w_store w1 = w_store w"
  by (auto simp: schedule_def Let_def split: prod.split_asm)

lemma create_job_evolves:
  "create_job env t req fp rv w = (w', r) \<Longrightarrow> store_evolves (w_store w) (w_store w')"
  by (auto simp: create_job_def Let_def dest: create_evolves
      split: prod.split_asm sum.split_asm if_split_asm)

lemma queue_run_evolves:
  "queue_run env t job w = (w', r) \<Longrightarrow> store_evolves (w_store w) (w_store w')"
  by (auto simp: queue_run_def Let_def dest!: schedule_store save_evolves
      split: prod.split_asm sum.split_asm if_split_asm)

lemma retry_failed_job_evolves:
  "retry_failed_job env t job fmts w = (w', r) \<Longrightarrow> store_evolves (w_store w) (w_store w')"
  by (auto simp: retry_failed_job_def Let_def dest!: schedule_store save_evolves
      split: prod.split_asm sum.split_asm)

lemma artifact_store: "write_plan_artifact env t j plan w = (w1, r) \<Longrightarrow> w_store w1 = w_store w"
  by (auto simp: write_plan_artifact_def split: option.split_asm exn.split_asm store_error.split_asm)

lemma freeze_plan_evolves:
  "freeze_plan env t j c w = (w', r) \<Longrightarrow> store_evolves (w_store w) (w_store w')"
  by (auto simp: freeze_plan_def dest!: artifact_store save_evolves
      split: prod.split_asm sum.split_asm)

lemma freeze_plan_for_run_evolves:
  "freeze_plan_for_run env t j rr w = (w', r) \<Longrightarrow> store_evolves (w_store w) (w_store w')"
  by (auto simp: freeze_plan_for_run_def dest!: freeze_plan_evolves split: prod.split_asm sum.split_asm)

lemma confirm_and_queue_evolves:
  "confirm_and_queue env t j rr job w = (w', r) \<Longrightarrow> store_evolves (w_store w) (w_store w')"
  by (auto simp: confirm_and_queue_def Let_def dest!: freeze_plan_for_run_evolves queue_run_evolves
      intro: store_evolves_trans split: prod.split_asm sum.split_asm)

lemma trigger_run_loop_evolves:
  "trigger_run_loop n env t j rr w = (w', r) \<Longrightarrow> store_evolves (w_store w) (w_store w')"
proof (induction n arbitrary: w)
  case (Suc n)
  show ?case
  proof (cases "store_load t j (w_store w)")
    case (Inr job)
    obtain w1 x where cq: "confirm_and_queue env t j rr job w = (w1, x)"
      by (cases "confirm_and_queue env t j rr job w")
    note C = confirm_and_queue_evolves[OF cq]
    have "w' = w1 \<or> trigger_run_loop n env t j rr w1 = (w', r)"
      if "\<not> past_queueing (j_status job)" "j_status job \<noteq> FAILED"
      using Suc.prems Inr cq that by (auto split: sum.split_asm if_split_asm)
    with Suc.IH C Suc.prems Inr show ?thesis
      by (cases "past_queueing (j_status job)"; cases "j_status job = FAILED")
         (auto simp: run_idempotent_noop_def dest: retry_failed_job_evolves intro: store_evolves_trans)
  qed (use Suc.prems in auto)
qed simp

lemma trigger_run_evolves:
  "trigger_run env t j rr w = (w', r) \<Longrightarrow> store_evolves (w_store w) (w_store w')"
  by (simp add: trigger_run_def trigger_run_loop_evolves)

lemma confirm_job_evolves:
  "confirm_job env t j confirmed rr w = (w', r) \<Longrightarrow> store_evolves (w_store w) (w_store w')"
  by (auto simp: confirm_job_def dest!: trigger_run_evolves split: prod.split_asm sum.split_asm if_split_asm)

section \<open>Safe steps\<close>

text \<open>A step that keeps the state well formed and every job in flight tracked, and only evolves the store.\<close>

definition safe_step :: "world \<Rightarrow> world \<Rightarrow> bool" where
  "safe_step w w' = (world_ok w' \<and> store_evolves (w_store w) (w_store w'))"

lemma safe_step_trans: "safe_step w1 w2 \<Longrightarrow> safe_step w2 w3 \<Longrightarrow> safe_step w1 w3"
  by (auto simp: safe_step_def intro: store_evolves_trans)

lemma safe_step_refl: "world_ok w \<Longrightarrow> safe_step w w"
  by (simp add: safe_step_def)

lemma service_steps:
  assumes ok: "world_ok w" and f: "sv_fault env = EnqueueOk"
  shows "safe_step w (fst (create_job env t req fp rv w))"
    and "safe_step w (fst (trigger_run env t j rr w))"
    and "safe_step w (fst (confirm_job env t j confirmed rr w))"
  using create_job_ok[OF ok] create_job_evolves trigger_run_ok[OF ok f] trigger_run_evolves
    confirm_job_ok[OF ok f] confirm_job_evolves
  by (metis safe_step_def surjective_pairing)+

lemma freeze_plan_step: "world_ok w \<Longrightarrow> safe_step w (fst (freeze_plan penv t j c w))"
  using freeze_plan_ok freeze_plan_evolves by (metis safe_step_def surjective_pairing)

text \<open>A client that loads a job and saves it back, without moving it to QUEUED or RUNNING.\<close>

lemma resave_step:
  assumes ok: "world_ok w" and l: "store_load t j (w_store w) = Inr job"
    and id: "j_tenant_id job' = j_tenant_id job" "j_job_id job' = j_job_id job"
    and st: "j_status job' = j_status job \<or> \<not> in_flight (j_status job')"
    and s: "store_save t job' (w_store w) = (s, r)"
  shows "safe_step w (w\<lparr>w_store := s\<rparr>)"
proof -
  have f: "w_store w (t, j) = Some (JobFile job)" using l by (simp add: store_load_JobFile)
  have wf: "world_wf w" using ok by (simp add: world_ok_def)
  note W = world_wfD[OF wf f]
  have "tracked_job t j (w_queue w)" if "in_flight (j_status job')"
    using st that f ok by (auto simp: world_ok_def live_tracked_def)
  then have "world_ok (w\<lparr>w_store := s\<rparr>)" using W id by (intro world_ok_save[OF ok s]) auto
  then show ?thesis using save_evolves[OF s] by (simp add: safe_step_def)
qed

end
