(* ===== verification/WorkerLaws.thy ===== *)
theory WorkerLaws
  imports Worker Evolution
begin

text \<open>
  What the worker guarantees, whatever the other processes do while it runs: the state stays well
  formed, every job that is QUEUED or RUNNING stays tracked by the queue, the store only evolves.
\<close>

section \<open>What the worker relies on\<close>

text \<open>The other processes make safe steps only.\<close>

definition rely_ok :: "worker_env \<Rightarrow> bool" where
  "rely_ok env = (\<forall>a w. world_ok w \<longrightarrow> safe_step w (wk_during_run env a w) \<and> safe_step w (wk_during_sleep env a w))"

lemma rely_okD:
  "rely_ok env \<Longrightarrow> world_ok w \<Longrightarrow> safe_step w (wk_during_run env a w)"
  "rely_ok env \<Longrightarrow> world_ok w \<Longrightarrow> safe_step w (wk_during_sleep env a w)"
  by (simp_all add: rely_ok_def)

section \<open>Queue operations of the worker\<close>

lemma ack_any: "fst (ack io c q) = q \<or> fst (ack io c q) = fst (ack no_faults c q)"
  by (auto simp: ack_def no_faults_def split: sum.splits)

lemma release_any: "fst (release io c q) = q \<or> fst (release io c q) = fst (release no_faults c q)"
  by (auto simp: release_def no_faults_def split: sum.splits option.splits prod.splits)

lemma worker_release_ok:
  assumes ok: "world_ok w" and c: "claim_id_ok (qc_claim_id c)" and r: "worker_release env c w = (w', r)"
  shows "world_ok w' \<and> w_store w' = w_store w"
proof -
  have wf: "queue_wf (w_queue w)" using ok by (simp add: world_ok_def world_wf_def)
  define q where "q = fst (release (wk_queue_io env) c (w_queue w))"
  have "queue_wf q \<and> tracked_jobs q = tracked_jobs (w_queue w)"
    unfolding q_def using release_any[of "wk_queue_io env" c "w_queue w"]
    by (elim disjE) (use release_keeps[OF wf c] wf in simp_all)
  moreover have "w' = w\<lparr>w_queue := q\<rparr>" using r by (auto simp: worker_release_def q_def split: prod.split_asm)
  ultimately show ?thesis using world_ok_queue[OF ok] by simp
qed

text \<open>Nothing in flight under the job a claim is for: then the claim may be acknowledged.\<close>

definition settled :: "queue_claim \<Rightarrow> world \<Rightarrow> bool" where
  "settled c w =
     (\<forall>job. w_store w (qc_tenant_id c, qc_job_id c) = Some (JobFile job) \<longrightarrow> \<not> in_flight (j_status job))"

lemma queued_path_claim_key:
  "queued_path t j = Inr (claim_key c) \<Longrightarrow> t = qc_tenant_id c \<and> j = qc_job_id c"
  by (auto simp: queued_path_Inr tenant_dir_Inr claim_key_def split: if_splits)

lemma worker_ack_ok:
  assumes ok: "world_ok w" and c: "claim_id_ok (qc_claim_id c)" and s: "settled c w"
    and r: "worker_ack env c w = (w', r)"
  shows "world_ok w' \<and> w_store w' = w_store w"
proof -
  have wf: "queue_wf (w_queue w)" using ok by (simp add: world_ok_def world_wf_def)
  define q where "q = fst (ack (wk_queue_io env) c (w_queue w))"
  have q: "queue_wf q" "tracked_jobs (w_queue w) - {claim_key c} \<subseteq> tracked_jobs q"
    using ack_any[of "wk_queue_io env" c "w_queue w"] ack_keeps[OF wf c] wf by (auto simp: q_def)
  have w': "w' = w\<lparr>w_queue := q\<rparr>" using r by (auto simp: worker_ack_def q_def split: prod.split_asm)
  have "tracked_job t j q"
    if "w_store w (t, j) = Some (JobFile job)" "in_flight (j_status job)" for t j job
  proof -
    have "tracked_job t j (w_queue w)" using ok that by (auto simp: world_ok_def live_tracked_def)
    then obtain k where k: "queued_path t j = Inr k" "k \<in> tracked_jobs (w_queue w)"
      by (auto simp: tracked_job_def split: sum.splits)
    have "k \<noteq> claim_key c" using queued_path_claim_key[of t j c] k(1) s that by (auto simp: settled_def)
    with q k show ?thesis by (auto simp: tracked_job_def)
  qed
  then have "world_ok w'" using ok q(1) by (auto simp: w' world_ok_def world_wf_def live_tracked_def)
  then show ?thesis by (simp add: w')
qed

lemma then_return_fst [simp]: "fst (then_return m v) = fst m"
  by (auto simp: then_return_def split: prod.splits sum.splits)

lemma worker_release_step:
  "world_ok w \<Longrightarrow> claim_id_ok (qc_claim_id c) \<Longrightarrow> safe_step w (fst (worker_release env c w))"
  using worker_release_ok[of w c env] by (cases "worker_release env c w") (auto simp: safe_step_def)

lemma worker_ack_step:
  "world_ok w \<Longrightarrow> claim_id_ok (qc_claim_id c) \<Longrightarrow> settled c w \<Longrightarrow> safe_step w (fst (worker_ack env c w))"
  using worker_ack_ok[of w c env] by (cases "worker_ack env c w") (auto simp: safe_step_def)

section \<open>The running job\<close>

text \<open>The worker's copy of the job is the one on disk, RUNNING and under the claim's names.\<close>

definition holds_job :: "queue_claim \<Rightarrow> job \<Rightarrow> world \<Rightarrow> bool" where
  "holds_job c job w =
     (world_ok w \<and> w_store w (qc_tenant_id c, qc_job_id c) = Some (JobFile job) \<and> j_status job = RUNNING)"

text \<open>The worker's own save, after the others have worked since the state it read.\<close>

lemma worker_save:
  assumes h: "holds_job c job w0" and step: "safe_step w0 w"
    and core: "j_tenant_id job' = j_tenant_id job" "j_job_id job' = j_job_id job" "j_version job' = j_version job"
    and st: "j_status job' = RUNNING \<or> \<not> in_flight (j_status job')"
    and s: "store_save (qc_tenant_id c) job' (w_store w) = (s, r)"
  shows "safe_step w (w\<lparr>w_store := s\<rparr>) \<and>
         (\<forall>job''. r = Inr job'' \<longrightarrow> j_status job'' = j_status job' \<and>
            s (qc_tenant_id c, qc_job_id c) = Some (JobFile job''))"
proof -
  have ok0: "world_ok w0" and f0: "w_store w0 (qc_tenant_id c, qc_job_id c) = Some (JobFile job)"
    and run: "j_status job = RUNNING" using h by (auto simp: holds_job_def)
  have ok: "world_ok w" and ev: "store_evolves (w_store w0) (w_store w)" using step by (auto simp: safe_step_def)
  have wf0: "world_wf w0" using ok0 by (simp add: world_ok_def)
  note id = world_wfD[OF wf0 f0]
  show ?thesis
  proof (cases r)
    case (Inl e)
    with s store_save_Inl have "s = w_store w" by blast
    with Inl ok show ?thesis by (simp add: safe_step_def)
  next
    case (Inr job'')
    with s have sv: "store_save (qc_tenant_id c) job' (w_store w) = (s, Inr job'')" by simp
    have "w_store w (qc_tenant_id c, qc_job_id c) = Some (JobFile job)"
      using save_over_same[OF ev _ core(3), of "qc_tenant_id c"] f0 id core sv by auto
    with ok run have "tracked_job (qc_tenant_id c) (qc_job_id c) (w_queue w)"
      by (auto simp: world_ok_def live_tracked_def in_flight_def)
    with id core have "world_ok (w\<lparr>w_store := s\<rparr>)" by (intro world_ok_save[OF ok s]) auto
    then show ?thesis
      using sv save_evolves[OF s] Inr id core by (auto simp: safe_step_def store_save_Inr)
  qed
qed

lemma record_attempt_started_step:
  assumes h: "holds_job c job w0" and s0: "safe_step w0 w"
    and r: "record_attempt_started env a job w = (w', r)"
  shows "safe_step w w' \<and> (\<forall>job'. r = Inr job' \<longrightarrow> holds_job c job' w')"
proof -
  have f: "w_store w0 (qc_tenant_id c, qc_job_id c) = Some (JobFile job)"
    and run: "j_status job = RUNNING" and wf: "world_wf w0" using h by (auto simp: holds_job_def world_ok_def)
  note id = world_wfD[OF wf f]
  define job1 where "job1 = job\<lparr>j_runs := j_runs job @
      [\<lparr>ra_run_id = wk_run_id env a, ra_attempt = a, ra_status = ''running'',
        ra_started_at = Some (wk_started env a), ra_ended_at = None, ra_artifacts = []\<rparr>]\<rparr>"
  obtain s x where sv: "store_save (qc_tenant_id c) job1 (w_store w) = (s, x)"
    by (cases "store_save (qc_tenant_id c) job1 (w_store w)")
  have "safe_step w (w\<lparr>w_store := s\<rparr>) \<and> (\<forall>job''. x = Inr job'' \<longrightarrow> j_status job'' = j_status job1 \<and>
            s (qc_tenant_id c, qc_job_id c) = Some (JobFile job''))"
    by (rule worker_save[OF h s0 _ _ _ _ sv]) (simp_all add: job1_def run)
  moreover have "w' = w\<lparr>w_store := s\<rparr> \<and> r = x"
  proof -
    have "j_tenant_id job1 = qc_tenant_id c" using id by (simp add: job1_def)
    then show ?thesis
      using r sv by (auto simp: record_attempt_started_def Let_def job1_def[symmetric] split: sum.split_asm)
  qed
  ultimately show ?thesis using run by (auto simp: holds_job_def safe_step_def job1_def)
qed

lemma record_attempt_finished_core:
  "record_attempt_finished env a result job = Inr job' \<Longrightarrow>
     j_tenant_id job' = j_tenant_id job \<and> j_job_id job' = j_job_id job \<and> j_version job' = j_version job \<and>
     j_status job' = j_status job"
  by (auto simp: record_attempt_finished_def bindE_Inr_iff Let_def index_artifacts_def)

lemma perform_attempt_step:
  assumes rely: "rely_ok env" and h: "holds_job c job w0" and s0: "safe_step w0 w"
    and r: "perform_attempt env c a job w = (w', r)"
  shows "safe_step w w' \<and> (\<forall>job' res. r = Inr (job', res) \<longrightarrow> holds_job c job' w')"
proof -
  obtain w1 x where st: "record_attempt_started env a job w = (w1, x)"
    by (cases "record_attempt_started env a job w")
  note S = record_attempt_started_step[OF h s0 st]
  show ?thesis
  proof (cases x)
    case (Inl e)
    with r st S show ?thesis by (auto simp: perform_attempt_def)
  next
    case (Inr job1)
    with S have h1: "holds_job c job1 w1" by simp
    define w2 where "w2 = wk_during_run env a w1"
    have s2: "safe_step w1 w2"
      using rely_okD(1)[OF rely, of w1 a] h1 by (simp add: w2_def holds_job_def)
    have s02: "safe_step w w2" using S s2 safe_step_trans by blast
    show ?thesis
    proof (cases "bindE (run_and_format env a job1) (\<lambda>result.
        bindE (record_attempt_finished env a result job1) (\<lambda>job2. Inr (job2, result)))")
      case (Inl e)
      with r st Inr s02 show ?thesis
        by (auto simp: perform_attempt_def w2_def[symmetric] bindE_Inl_iff split: sum.split_asm)
    next
      case (Inr y)
      then obtain job2 result where y: "run_and_format env a job1 = Inr result"
          "record_attempt_finished env a result job1 = Inr job2" by (auto simp: bindE_Inr_iff)
      note core = record_attempt_finished_core[OF y(2)]
      obtain s z where sv: "store_save (qc_tenant_id c) job2 (w_store w2) = (s, z)"
        by (cases "store_save (qc_tenant_id c) job2 (w_store w2)")
      have run: "j_status job1 = RUNNING" using h1 by (simp add: holds_job_def)
      have W: "safe_step w2 (w2\<lparr>w_store := s\<rparr>) \<and> (\<forall>job''. z = Inr job'' \<longrightarrow> j_status job'' = j_status job2 \<and>
            s (qc_tenant_id c, qc_job_id c) = Some (JobFile job''))"
        by (rule worker_save[OF h1 s2 _ _ _ _ sv]) (use core run in auto)
      have "w' = w2\<lparr>w_store := s\<rparr>" "\<forall>job' res. r = Inr (job', res) \<longrightarrow> z = Inr job'"
        using r unfolding perform_attempt_def st \<open>x = Inr job1\<close>
        by (auto simp: w2_def[symmetric] y sv split: sum.split_asm)
      moreover have "safe_step w (w2\<lparr>w_store := s\<rparr>)" using W s02 safe_step_trans by blast
      ultimately have "safe_step w w'" "world_ok w'" by (simp_all add: safe_step_def)
      moreover have "holds_job c job' w'" if "r = Inr (job', res)" for job' res
      proof -
        have "z = Inr job'" using that \<open>\<forall>job' res. r = Inr (job', res) \<longrightarrow> z = Inr job'\<close> by blast
        with W core run \<open>w' = w2\<lparr>w_store := s\<rparr>\<close> \<open>world_ok w'\<close> show ?thesis by (simp add: holds_job_def)
      qed
      ultimately show ?thesis by blast
    qed
  qed
qed

lemma finish_job_step:
  assumes h: "holds_job c job w" and st: "status \<in> {SUCCEEDED, FAILED}"
    and r: "finish_job c status job w = (w', r)"
  shows "safe_step w w' \<and> (r = Inr () \<longrightarrow> settled c w' \<and>
           (\<exists>job'. w_store w' (qc_tenant_id c, qc_job_id c) = Some (JobFile job') \<and> j_status job' = status \<and>
                   j_runs job' = j_runs job))"
proof -
  have ok: "world_ok w" and run: "j_status job = RUNNING" using h by (auto simp: holds_job_def)
  have tr: "ensure_transition RUNNING status = Inr True"
    using st by (auto simp: ensure_transition_def can_transition_def)
  define job1 where "job1 = job\<lparr>j_status := status\<rparr>"
  obtain s x where sv: "store_save (qc_tenant_id c) job1 (w_store w) = (s, x)"
    by (cases "store_save (qc_tenant_id c) job1 (w_store w)")
  have W: "safe_step w (w\<lparr>w_store := s\<rparr>) \<and> (\<forall>job''. x = Inr job'' \<longrightarrow> j_status job'' = j_status job1 \<and>
            s (qc_tenant_id c, qc_job_id c) = Some (JobFile job''))"
    by (rule worker_save[OF h safe_step_refl[OF ok] _ _ _ _ sv])
       (use st in \<open>auto simp: job1_def in_flight_def\<close>)
  have ns: "\<not> in_flight status" using st by (auto simp: in_flight_def)
  show ?thesis
  proof (cases x)
    case (Inl e)
    with r sv W tr run show ?thesis by (auto simp: finish_job_def job1_def[symmetric])
  next
    case (Inr job2)
    then have runs: "j_runs job2 = j_runs job" using sv by (auto simp: store_save_Inr job1_def)
    have "w_store w' = s \<and> world_ok w' = world_ok (w\<lparr>w_store := s\<rparr>) \<and> r = Inr ()"
      using r sv Inr tr run
      by (auto simp: finish_job_def job1_def[symmetric] Let_def emit_worker_audit_def split: if_split_asm)
    with W Inr ns runs show ?thesis by (auto simp: safe_step_def settled_def job1_def)
  qed
qed

lemma finish_and_ack_step:
  assumes h: "holds_job c job w" and st: "status \<in> {SUCCEEDED, FAILED}" and ci: "claim_id_ok (qc_claim_id c)"
    and r: "finish_and_ack env c status job w = (w', r)"
  shows "safe_step w w' \<and> (\<forall>job'. r \<noteq> Inr (Some job'))"
proof -
  obtain w1 x where f: "finish_job c status job w = (w1, x)" by (cases "finish_job c status job w")
  note F = finish_job_step[OF h st f]
  show ?thesis
  proof (cases x)
    case (Inl e)
    with r f F show ?thesis by (auto simp: finish_and_ack_def)
  next
    case (Inr u)
    then have "world_ok w1" "settled c w1" using F by (auto simp: safe_step_def)
    then have "safe_step w1 (fst (worker_ack env c w1))" using ci by (intro worker_ack_step)
    with F have "safe_step w (fst (worker_ack env c w1))" using safe_step_trans by blast
    with r f Inr show ?thesis
      by (auto simp: finish_and_ack_def then_return_def split: prod.split_asm sum.split_asm)
  qed
qed

lemma attempt_step_step:
  assumes rely: "rely_ok env" and h: "holds_job c job w0" and s0: "safe_step w0 w"
    and ci: "claim_id_ok (qc_claim_id c)" and r: "attempt_step env n c a job w = (w', r)"
  shows "safe_step w w' \<and> (\<forall>job'. r = Inr (Some job') \<longrightarrow>
           (\<exists>w1. holds_job c job' w1 \<and> safe_step w1 w'))"
proof (cases "wk_stop env n")
  case True
  have "world_ok w" using s0 by (simp add: safe_step_def)
  then have "safe_step w (fst (worker_release env c w))" using ci by (rule worker_release_step)
  with r True show ?thesis
    by (auto simp: attempt_step_def then_return_def split: prod.split_asm sum.split_asm)
next
  case False
  obtain w1 x where p: "perform_attempt env c a job w = (w1, x)" by (cases "perform_attempt env c a job w")
  note P = perform_attempt_step[OF rely h s0 p]
  show ?thesis
  proof (cases x)
    case (Inl e)
    with r p P False show ?thesis by (auto simp: attempt_step_def)
  next
    case (Inr y)
    obtain job1 res where y: "y = (job1, res)" by (cases y)
    with P Inr have h1: "holds_job c job1 w1" and s1: "safe_step w w1" by auto
    have ok1: "world_ok w1" using h1 by (simp add: holds_job_def)
    have r': "conclude_attempt env (Suc n) c a job1 res w1 = (w', r)"
      using r p Inr y False by (simp add: attempt_step_def)
    have fin: "safe_step w1 w' \<and> (\<forall>job'. r \<noteq> Inr (Some job'))"
      if "finish_and_ack env c st job1 w1 = (w', r)" "st \<in> {SUCCEEDED, FAILED}" for st
      by (rule finish_and_ack_step[OF h1 that(2) ci that(1)])
    have rel: "safe_step w1 w' \<and> (\<forall>job'. r \<noteq> Inr (Some job'))"
      if "then_return (worker_release env c w1) None = (w', r)"
      using worker_release_step[OF ok1 ci, of env] that
      by (auto simp: then_return_def split: prod.split_asm sum.split_asm)
    have "(safe_step w1 w' \<and> (\<forall>job'. r \<noteq> Inr (Some job'))) \<or> (w' = wk_during_sleep env a w1 \<and> r = Inr (Some job1))"
      using r' fin rel by (auto simp: conclude_attempt_def split: if_split_asm)
    with rely_okD(2)[OF rely ok1, of a] s1 h1 show ?thesis by (auto intro: safe_step_trans)
  qed
qed

section \<open>The whole worker\<close>

lemma ensure_job_claimable_step:
  assumes ok: "world_ok w" and ci: "claim_id_ok (qc_claim_id c)"
    and f: "w_store w (qc_tenant_id c, qc_job_id c) = Some (JobFile job)"
    and r: "ensure_job_claimable env c job w = (w', r)"
  shows "safe_step w w' \<and> (\<forall>job'. r = Inr (Some job') \<longrightarrow> holds_job c job' w' \<and> j_runs job' = j_runs job)"
proof -
  have wf: "world_wf w" using ok by (simp add: world_ok_def)
  note id = world_wfD[OF wf f]
  have rel: "safe_step w (fst (worker_release env c w))" using ok ci by (rule worker_release_step)
  consider (q) "j_status job = QUEUED" | (run) "j_status job = RUNNING"
    | (fin) "j_status job \<in> {SUCCEEDED, FAILED}" | (early) "j_status job \<in> {CREATED, DRAFT_READY, CONFIRMED}"
    by (cases "j_status job") auto
  then show ?thesis
  proof cases
    case q
    define job1 where "job1 = job\<lparr>j_status := RUNNING\<rparr>"
    have tr: "ensure_transition QUEUED RUNNING = Inr True" by (simp add: ensure_transition_def can_transition_def)
    obtain s x where sv: "store_save (qc_tenant_id c) job1 (w_store w) = (s, x)"
      by (cases "store_save (qc_tenant_id c) job1 (w_store w)")
    have "tracked_job (qc_tenant_id c) (qc_job_id c) (w_queue w)"
      using ok f q by (auto simp: world_ok_def live_tracked_def in_flight_def)
    then have ok': "world_ok (w\<lparr>w_store := s\<rparr>)" using id by (intro world_ok_save[OF ok sv]) (simp_all add: job1_def)
    show ?thesis
    proof (cases x)
      case (Inl e)
      have "w' = w\<lparr>w_store := s\<rparr> \<and> r = Inl e"
        using r unfolding ensure_job_claimable_def q by (simp add: tr job1_def[symmetric] sv Inl)
      with ok' save_evolves[OF sv] show ?thesis by (simp add: safe_step_def)
    next
      case (Inr job2)
      have "w' = emit_worker_audit c RUNNING (w\<lparr>w_store := s\<rparr>) \<and> r = Inr (Some job2)"
        using r unfolding ensure_job_claimable_def q by (simp add: tr job1_def[symmetric] sv Inr)
      moreover have "s (qc_tenant_id c, qc_job_id c) = Some (JobFile job2)" "j_status job2 = RUNNING"
          "j_runs job2 = j_runs job"
        using sv Inr id by (auto simp: store_save_Inr job1_def)
      ultimately show ?thesis
        using ok' save_evolves[OF sv] by (simp add: safe_step_def holds_job_def emit_worker_audit_def)
    qed
  next
    case run
    with r ok f show ?thesis by (auto simp: ensure_job_claimable_def safe_step_def holds_job_def)
  next
    case fin
    then have "settled c w" using f by (auto simp: settled_def in_flight_def)
    then have "safe_step w (fst (worker_ack env c w))" using ok ci by (intro worker_ack_step)
    with r fin show ?thesis
      by (auto simp: ensure_job_claimable_def then_return_def split: prod.split_asm sum.split_asm)
  next
    case early
    with r rel show ?thesis
      by (auto simp: ensure_job_claimable_def then_return_def split: prod.split_asm sum.split_asm)
  qed
qed

lemma load_job_or_handle_step:
  assumes ok: "world_ok w" and ci: "claim_id_ok (qc_claim_id c)"
    and r: "load_job_or_handle env c w = (w', r)"
  shows "safe_step w w' \<and> (\<forall>job. r = Inr (Some job) \<longrightarrow> w' = w \<and>
           w_store w (qc_tenant_id c, qc_job_id c) = Some (JobFile job))"
proof (cases "store_load (qc_tenant_id c) (qc_job_id c) (w_store w)")
  case (Inr job)
  with r ok show ?thesis by (auto simp: load_job_or_handle_def safe_step_def store_load_JobFile)
next
  case (Inl e)
  have rel: "safe_step w (fst (worker_release env c w))" using ok ci by (rule worker_release_step)
  have "settled c w" if "e = StoreErr JobNotFound \<or> e = StoreErr JobDataCorrupted"
    using Inl that
    by (auto simp: store_load_def settled_def check_job_ids_def split: if_split_asm option.split_asm job_file.split_asm)
  then have ack: "e = StoreErr JobNotFound \<or> e = StoreErr JobDataCorrupted \<Longrightarrow> safe_step w (fst (worker_ack env c w))"
    using ok ci by (intro worker_ack_step)
  have "(w' = fst (worker_ack env c w) \<and> (e = StoreErr JobNotFound \<or> e = StoreErr JobDataCorrupted)) \<or>
        w' = fst (worker_release env c w) \<or> w' = w"
    "\<forall>job. r \<noteq> Inr (Some job)"
    using r unfolding load_job_or_handle_def Inl
    by (auto simp: then_return_def split: exn.split_asm store_error.split_asm prod.split_asm sum.split_asm)
  with rel ack ok show ?thesis by (auto simp: safe_step_refl)
qed

lemma attempt_loop_step:
  "rely_ok env \<Longrightarrow> claim_id_ok (qc_claim_id c) \<Longrightarrow> holds_job c job w0 \<Longrightarrow> safe_step w0 w \<Longrightarrow>
     safe_step w (fst (attempt_loop env n c a job w))"
proof (induction env n c a job w arbitrary: w0 rule: attempt_loop.induct)
  case (1 env n c a job w)
  have ok: "world_ok w" using 1(5) by (simp add: safe_step_def)
  show ?case
  proof (cases "a > normalized_max_attempts (wk_max_attempts env)")
    case True
    then show ?thesis by (simp add: attempt_loop.simps safe_step_refl[OF ok])
  next
    case False
    obtain w1 x where st: "attempt_step env n c a job w = (w1, x)" by (cases "attempt_step env n c a job w")
    note S = attempt_step_step[OF 1(2) 1(4) 1(5) 1(3) st]
    show ?thesis
    proof (cases x)
      case (Inl e)
      with S st False show ?thesis by (simp add: attempt_loop.simps)
    next
      case (Inr y)
      show ?thesis
      proof (cases y)
        case None
        with S st False Inr show ?thesis by (simp add: attempt_loop.simps)
      next
        case (Some job1)
        with S Inr obtain w2 where "holds_job c job1 w2" "safe_step w2 w1" by blast
        then have "safe_step w1 (fst (attempt_loop env (Suc (Suc n)) c (a + 1) job1 w1))"
          using 1(1)[OF False st[symmetric] Inr Some 1(2) 1(3)] by blast
        moreover have "fst (attempt_loop env n c a job w) = fst (attempt_loop env (Suc (Suc n)) c (a + 1) job1 w1)"
          using st False Inr Some by (subst attempt_loop.simps) simp
        ultimately show ?thesis using S safe_step_trans by metis
      qed
    qed
  qed
qed

lemma process_claim_step:
  assumes rely: "rely_ok env" and ok: "world_ok w" and ci: "claim_id_ok (qc_claim_id c)"
  shows "safe_step w (fst (process_claim env n c w))"
proof -
  have rel: "safe_step w (fst (worker_release env c w))" using ok ci by (rule worker_release_step)
  obtain w1 x where l: "load_job_or_handle env c w = (w1, x)" by (cases "load_job_or_handle env c w")
  note L = load_job_or_handle_step[OF ok ci l]
  show ?thesis
  proof (cases "\<exists>job. x = Inr (Some job) \<and> \<not> wk_stop env n \<and> \<not> wk_stop env (Suc n)")
    case False
    with rel L l show ?thesis
      by (auto simp: process_claim_def split: sum.splits option.splits)
  next
    case True
    then obtain job where x: "x = Inr (Some job)" and ns: "\<not> wk_stop env n" "\<not> wk_stop env (Suc n)" by blast
    with L have w1: "w1 = w" and f: "w_store w (qc_tenant_id c, qc_job_id c) = Some (JobFile job)" by auto
    obtain w2 y where e: "ensure_job_claimable env c job w = (w2, y)" by (cases "ensure_job_claimable env c job w")
    note E = ensure_job_claimable_step[OF ok ci f e]
    show ?thesis
    proof (cases "\<exists>job1. y = Inr (Some job1)")
      case False
      with E l e x w1 ns show ?thesis by (auto simp: process_claim_def split: sum.splits option.splits)
    next
      case True
      then obtain job1 where y: "y = Inr (Some job1)" by blast
      with E have h: "holds_job c job1 w2" by simp
      then have "safe_step w2 (fst (run_job_with_retries env (Suc (Suc n)) c job1 w2))"
        unfolding run_job_with_retries_def
        by (intro attempt_loop_step[OF rely ci h safe_step_refl]) (simp add: holds_job_def)
      with E have "safe_step w (fst (run_job_with_retries env (Suc (Suc n)) c job1 w2))"
        using safe_step_trans by blast
      then show ?thesis using l e x w1 ns y by (simp add: process_claim_def)
    qed
  qed
qed

lemma process_next_step:
  assumes rely: "rely_ok env" and ok: "world_ok w" and io: "wk_queue_io env = no_faults"
    and ci: "claim_id_ok claim_id" and wk: "worker_id \<noteq> []"
  shows "safe_step w (fst (process_next env now ttl worker_id claim_id w))"
proof -
  have wf: "queue_wf (w_queue w)" using ok by (simp add: world_ok_def world_wf_def)
  obtain q x where c: "claim no_faults now ttl worker_id claim_id (w_queue w) = (q, x)"
    by (cases "claim no_faults now ttl worker_id claim_id (w_queue w)")
  let ?w1 = "w\<lparr>w_queue := q\<rparr>"
  have "queue_wf q" "tracked_jobs q = tracked_jobs (w_queue w)"
    using claim_keeps[OF wf ci wk, of now ttl] c by simp_all
  then have ok1: "world_ok ?w1" by (intro world_ok_queue[OF ok]) auto
  then have s1: "safe_step w ?w1" by (simp add: safe_step_def)
  show ?thesis
  proof (cases "\<exists>cl. x = Inr (Some cl) \<and> \<not> wk_stop env 0")
    case False
    with s1 c io safe_step_refl[OF ok] show ?thesis
      by (auto simp: process_next_def split: sum.splits option.splits)
  next
    case True
    then obtain cl where x: "x = Inr (Some cl)" "\<not> wk_stop env 0" by blast
    have "qc_claim_id cl = claim_id" using claim_gives_tracked[OF wf ci wk] c x by auto
    then have cc: "claim_id_ok (qc_claim_id cl)" using ci by simp
    have "safe_step w (fst (worker_release env cl ?w1))" "safe_step w (fst (process_claim env 2 cl ?w1))"
      using s1 worker_release_step[OF ok1 cc, of env] process_claim_step[OF rely ok1 cc, of 2] safe_step_trans
      by blast+
    with c x io show ?thesis by (simp add: process_next_def)
  qed
qed

end
