(* ===== verification/WorkerRuns.thy ===== *)
theory WorkerRuns
  imports WorkerLaws
begin

text \<open>
  How a claimed job ends: every run returns, the number of attempts is bounded, the final status is the
  one of the last attempt; and the one case in which the worker neither finishes nor gives back a job.
\<close>

section \<open>Back-off\<close>

lemma backoff_alt:
  "backoff_seconds a base cap =
     (if base \<le> 0 then 0 else min (base * 2 ^ nat (max (a - 1) 0)) (if cap \<le> 0 then base else cap))"
  by (simp add: backoff_seconds_def Let_def)

text \<open>Back-off times are never negative, never above the cap (or the base, without a cap),
  start at the base and never shrink from one attempt to the next.\<close>

theorem backoff_bounded_monotone:
  "0 \<le> backoff_seconds a base cap \<and>
   backoff_seconds a base cap \<le> max 0 (if cap \<le> 0 then base else cap) \<and>
   backoff_seconds 1 base cap = max 0 (if cap \<le> 0 then base else min base cap) \<and>
   backoff_seconds a base cap \<le> backoff_seconds (a + 1) base cap"
proof -
  have "base * 2 ^ nat (max (a - 1) 0) \<le> base * 2 ^ nat (max a 0)" if "0 < base"
    using that by (intro mult_left_mono power_increasing) auto
  then have "min (base * 2 ^ nat (max (a - 1) 0)) x \<le> min (base * 2 ^ nat (max a 0)) x" if "0 < base" for x
    using that by (intro min.mono) auto
  then show ?thesis by (auto simp: backoff_alt max_def)
qed

section \<open>The artifact index\<close>

lemma index_refs_props:
  "set (index_refs xs rs) = set xs \<union> set rs \<and> (\<exists>ys. index_refs xs rs = xs @ ys \<and> set ys \<subseteq> set rs - set xs) \<and>
   (distinct xs \<longrightarrow> distinct (index_refs xs rs))"
proof (induction rs arbitrary: xs)
  case Nil
  then show ?case by simp
next
  case (Cons r rs)
  show ?case
  proof (cases "r \<in> set xs")
    case True
    with Cons.IH[of xs] show ?thesis by auto
  next
    case False
    with Cons.IH[of "xs @ [r]"] show ?thesis by auto
  qed
qed

text \<open>Indexing the artifacts of a run keeps the index as a prefix, adds each new
  artifact once and leaves an index without duplicates free of them.\<close>

theorem index_artifacts_adds_once:
  "\<exists>new. j_artifacts_index (index_artifacts res job) = j_artifacts_index job @ new \<and>
     set new = set (rs_artifacts res) - set (j_artifacts_index job) \<and>
     distinct (j_artifacts_index job) = distinct (j_artifacts_index (index_artifacts res job)) \<and>
     index_artifacts res (index_artifacts res job) = index_artifacts res job"
proof -
  have same: "index_refs xs rs = xs" if "set rs \<subseteq> set xs" for xs rs :: "artifact_ref list"
    using that by (induction rs) auto
  obtain new where n: "index_refs (j_artifacts_index job) (rs_artifacts res) = j_artifacts_index job @ new"
      "set new \<subseteq> set (rs_artifacts res) - set (j_artifacts_index job)"
    using index_refs_props[of "j_artifacts_index job" "rs_artifacts res"] by blast
  have s: "set (j_artifacts_index job @ new) = set (j_artifacts_index job) \<union> set (rs_artifacts res)"
    using index_refs_props[of "j_artifacts_index job" "rs_artifacts res"] n(1) by auto
  have d: "distinct (j_artifacts_index job) \<longrightarrow> distinct (j_artifacts_index job @ new)"
    using index_refs_props[of "j_artifacts_index job" "rs_artifacts res"] n(1) by auto
  have "index_refs (j_artifacts_index job @ new) (rs_artifacts res) = j_artifacts_index job @ new"
    by (rule same) (use s in blast)
  then show ?thesis using n s d by (intro exI[of _ new]) (auto simp: index_artifacts_def)
qed

section \<open>Runs without interference\<close>

text \<open>Nobody else works on the state, no shutdown is requested, no queue fault happens, and the
  execution and the formatter always report a result.\<close>

definition undisturbed :: "worker_env \<Rightarrow> bool" where
  "undisturbed env =
     (wk_stop env = (\<lambda>_. False) \<and> wk_queue_io env = no_faults \<and>
      wk_during_run env = (\<lambda>_ w. w) \<and> wk_during_sleep env = (\<lambda>_ w. w) \<and>
      (\<forall>a job i. \<exists>res. wk_execute env a job i = Inr res) \<and>
      (\<forall>job i refs. \<exists>res. wk_format env job i refs = Inr res))"

lemma undisturbed_rely: "undisturbed env \<Longrightarrow> rely_ok env"
  by (simp add: undisturbed_def rely_ok_def safe_step_refl)

lemma run_and_format_total:
  assumes "undisturbed env"
  shows "\<exists>res. run_and_format env a job = Inr res"
proof -
  obtain res where r: "wk_execute env a job (wk_run_id env a) = Inr res"
    using assms unfolding undisturbed_def by blast
  obtain f where "wk_format env job (wk_run_id env a) (rs_artifacts res) = Inr f"
    using assms unfolding undisturbed_def by blast
  with r show ?thesis by (simp add: run_and_format_def)
qed

lemma holds_job_ids:
  assumes "holds_job c job w"
  shows "j_tenant_id job = qc_tenant_id c" "j_job_id job = qc_job_id c"
    "j_schema_version job = JOB_SCHEMA_VERSION_CURRENT" "check_job_ids (qc_tenant_id c) (qc_job_id c) = Inr ()"
  using assms world_wfD[of w "qc_tenant_id c" "qc_job_id c" job] by (auto simp: holds_job_def world_ok_def)

lemma save_succeeds:
  assumes h: "holds_job c job w"
    and core: "j_tenant_id job' = j_tenant_id job" "j_job_id job' = j_job_id job" "j_version job' = j_version job"
      "j_schema_version job' = j_schema_version job"
  shows "store_save (qc_tenant_id c) job' (w_store w) =
     ((w_store w)((qc_tenant_id c, qc_job_id c) \<mapsto> JobFile (job'\<lparr>j_version := j_version job + 1\<rparr>)),
      Inr (job'\<lparr>j_version := j_version job + 1\<rparr>))"
  unfolding store_save_Inr using holds_job_ids[OF h] h core by (auto simp: holds_job_def)

text \<open>An attempt of an undisturbed worker appends one finished run.\<close>

lemma perform_attempt_total:
  assumes u: "undisturbed env" and h: "holds_job c job w"
  shows "\<exists>w' job' res run. perform_attempt env c a job w = (w', Inr (job', res)) \<and> holds_job c job' w' \<and>
     j_runs job' = j_runs job @ [run] \<and> ra_attempt run = a \<and>
     ra_status run = (if rs_ok res then ''succeeded'' else ''failed'') \<and> w_queue w' = w_queue w"
proof -
  define run0 where "run0 = \<lparr>ra_run_id = wk_run_id env a, ra_attempt = a, ra_status = ''running'',
        ra_started_at = Some (wk_started env a), ra_ended_at = None, ra_artifacts = []\<rparr>"
  define job1 where "job1 = job\<lparr>j_runs := j_runs job @ [run0]\<rparr>"
  let ?j1 = "job1\<lparr>j_version := j_version job + 1\<rparr>"
  let ?k = "(qc_tenant_id c, qc_job_id c)"
  define w1 where "w1 = w\<lparr>w_store := (w_store w)(?k \<mapsto> JobFile ?j1)\<rparr>"
  have st: "record_attempt_started env a job w = (w1, Inr ?j1)"
    using save_succeeds[OF h, of job1] holds_job_ids[OF h]
    by (simp add: record_attempt_started_def Let_def job1_def run0_def w1_def)
  have ok: "world_ok w" using h by (simp add: holds_job_def)
  have h1: "holds_job c ?j1 w1" using record_attempt_started_step[OF h safe_step_refl[OF ok] st] by simp
  obtain res where res: "run_and_format env a ?j1 = Inr res" using run_and_format_total[OF u] by blast
  define run where "run = run0\<lparr>ra_ended_at := Some (wk_ended env a),
      ra_status := (if rs_ok res then ''succeeded'' else ''failed''), ra_artifacts := rs_artifacts res\<rparr>"
  define job2 where "job2 = index_artifacts res (?j1\<lparr>j_runs := j_runs job @ [run]\<rparr>)"
  have fin: "record_attempt_finished env a res ?j1 = Inr job2"
    by (simp add: record_attempt_finished_def find_attempt_def job1_def run0_def run_def job2_def Let_def)
  have "store_save (qc_tenant_id c) job2 (w_store w1) =
      ((w_store w1)(?k \<mapsto> JobFile (job2\<lparr>j_version := j_version ?j1 + 1\<rparr>)),
       Inr (job2\<lparr>j_version := j_version ?j1 + 1\<rparr>))"
    by (rule save_succeeds[OF h1]) (simp_all add: job2_def index_artifacts_def)
  then have p: "perform_attempt env c a job w =
      (w1\<lparr>w_store := (w_store w1)(?k \<mapsto> JobFile (job2\<lparr>j_version := j_version ?j1 + 1\<rparr>))\<rparr>,
       Inr (job2\<lparr>j_version := j_version ?j1 + 1\<rparr>, res))"
    using u by (simp add: perform_attempt_def st res fin undisturbed_def)
  have "holds_job c (job2\<lparr>j_version := j_version ?j1 + 1\<rparr>)
      (w1\<lparr>w_store := (w_store w1)(?k \<mapsto> JobFile (job2\<lparr>j_version := j_version ?j1 + 1\<rparr>))\<rparr>)"
    using perform_attempt_step[OF undisturbed_rely[OF u] h safe_step_refl[OF ok] p] by simp
  with p show ?thesis by (simp add: job2_def index_artifacts_def run_def run0_def w1_def)
qed

text \<open>Finishing: the status is written and the claim is gone.\<close>

definition claim_gone :: "queue_claim \<Rightarrow> world \<Rightarrow> bool" where
  "claim_gone c w =
     (case claimed_path (qc_tenant_id c) (qc_job_id c) (qc_claim_id c) of
        Inl _ \<Rightarrow> False | Inr k \<Rightarrow> dict_get (claimed (w_queue w)) k = None)"

lemma holds_job_path:
  assumes "holds_job c job w" "claim_id_ok (qc_claim_id c)"
  shows "\<exists>k. claimed_path (qc_tenant_id c) (qc_job_id c) (qc_claim_id c) = Inr k"
proof -
  have "tracked_job (qc_tenant_id c) (qc_job_id c) (w_queue w)"
    using assms(1) by (auto simp: holds_job_def world_ok_def live_tracked_def in_flight_def)
  then have "\<exists>k. queued_path (qc_tenant_id c) (qc_job_id c) = Inr k"
    by (auto simp: tracked_job_def split: sum.splits)
  with assms(2) show ?thesis by (auto simp: queued_path_Inr claimed_path_def claim_id_ok_def)
qed

lemma worker_ack_total:
  assumes u: "undisturbed env" and ok: "world_ok w"
    and p: "claimed_path (qc_tenant_id c) (qc_job_id c) (qc_claim_id c) = Inr k"
  shows "\<exists>w'. worker_ack env c w = (w', Inr ()) \<and> claim_gone c w' \<and> w_store w' = w_store w"
proof -
  have "dict_wf (claimed (w_queue w))" using ok by (simp add: world_ok_def world_wf_def queue_wf_def)
  with u p show ?thesis by (simp add: worker_ack_def ack_def undisturbed_def no_faults_def claim_gone_def)
qed

lemma finish_and_ack_total:
  assumes u: "undisturbed env" and h: "holds_job c job w" and ci: "claim_id_ok (qc_claim_id c)"
    and st: "status \<in> {SUCCEEDED, FAILED}"
  shows "\<exists>w' job'. finish_and_ack env c status job w = (w', Inr None) \<and> claim_gone c w' \<and>
     w_store w' (qc_tenant_id c, qc_job_id c) = Some (JobFile job') \<and> j_status job' = status \<and>
     j_runs job' = j_runs job"
proof -
  have tr: "ensure_transition (j_status job) status = Inr True"
    using st h by (auto simp: ensure_transition_def can_transition_def holds_job_def)
  have sv: "store_save (qc_tenant_id c) (job\<lparr>j_status := status\<rparr>) (w_store w) =
     ((w_store w)((qc_tenant_id c, qc_job_id c) \<mapsto> JobFile (job\<lparr>j_status := status, j_version := j_version job + 1\<rparr>)),
      Inr (job\<lparr>j_status := status, j_version := j_version job + 1\<rparr>))"
    using save_succeeds[OF h, of "job\<lparr>j_status := status\<rparr>"] by simp
  obtain w1 where f: "finish_job c status job w = (w1, Inr ())"
    by (simp add: finish_job_def tr sv Let_def)
  note F = finish_job_step[OF h st f]
  then obtain job' where j: "w_store w1 (qc_tenant_id c, qc_job_id c) = Some (JobFile job')"
      "j_status job' = status" "j_runs job' = j_runs job" by blast
  obtain k where k: "claimed_path (qc_tenant_id c) (qc_job_id c) (qc_claim_id c) = Inr k"
    using holds_job_path[OF h ci] by blast
  have "world_ok w1" using F by (simp add: safe_step_def)
  then obtain w' where "worker_ack env c w1 = (w', Inr ())" "claim_gone c w'" "w_store w' = w_store w1"
    using worker_ack_total[OF u _ k] by blast
  with f j show ?thesis by (auto simp: finish_and_ack_def then_return_def)
qed

section \<open>Every run returns\<close>

text \<open>The runs a worker adds: numbered from \<open>a\<close>, all but the last failed, the last one decides.\<close>

definition finished_with :: "int \<Rightarrow> run_attempt list \<Rightarrow> job_status \<Rightarrow> bool" where
  "finished_with a new status =
     (new \<noteq> [] \<and> map ra_attempt new = [a..a + int (length new) - 1] \<and>
      list_all (\<lambda>r. ra_status r = ''failed'') (butlast new) \<and>
      ((status = SUCCEEDED \<and> ra_status (last new) = ''succeeded'') \<or>
       (status = FAILED \<and> ra_status (last new) = ''failed'')))"

lemma finished_with_one:
  "ra_attempt r = a \<Longrightarrow> ra_status r = (if ok then ''succeeded'' else ''failed'') \<Longrightarrow>
     finished_with a [r] (if ok then SUCCEEDED else FAILED)"
  by (simp add: finished_with_def)

lemma finished_with_Cons:
  assumes "ra_attempt r = a" "ra_status r = ''failed''" "finished_with (a + 1) new status"
  shows "finished_with a (r # new) status"
proof -
  have "[a..a + int (length new)] = a # [a + 1..a + int (length new)]" by (rule upto_rec1) simp
  with assms show ?thesis by (auto simp: finished_with_def algebra_simps)
qed

lemma attempt_loop_finishes:
  assumes u: "undisturbed env" and ci: "claim_id_ok (qc_claim_id c)"
  shows "holds_job c job w \<Longrightarrow> a \<le> normalized_max_attempts (wk_max_attempts env) \<Longrightarrow>
    k = nat (normalized_max_attempts (wk_max_attempts env) - a) \<Longrightarrow>
    \<exists>w' job' new. attempt_loop env n c a job w = (w', Inr ()) \<and> claim_gone c w' \<and>
      w_store w' (qc_tenant_id c, qc_job_id c) = Some (JobFile job') \<and> j_runs job' = j_runs job @ new \<and>
      finished_with a new (j_status job') \<and>
      a + int (length new) - 1 \<le> normalized_max_attempts (wk_max_attempts env)"
proof (induction k arbitrary: a n job w rule: less_induct)
  case (less k)
  let ?max = "normalized_max_attempts (wk_max_attempts env)"
  have stop: "\<not> wk_stop env m" for m using u by (simp add: undisturbed_def)
  obtain w1 job1 res run where p: "perform_attempt env c a job w = (w1, Inr (job1, res))"
      and h1: "holds_job c job1 w1" and r: "j_runs job1 = j_runs job @ [run]" "ra_attempt run = a"
        "ra_status run = (if rs_ok res then ''succeeded'' else ''failed'')"
    using perform_attempt_total[OF u less.prems(1)] by blast
  have loop: "attempt_loop env n c a job w =
     (case conclude_attempt env (Suc n) c a job1 res w1 of
        (w1, Inl e) \<Rightarrow> (w1, Inl e)
      | (w1, Inr None) \<Rightarrow> (w1, Inr ())
      | (w1, Inr (Some job1)) \<Rightarrow> attempt_loop env (Suc (Suc n)) c (a + 1) job1 w1)"
    using less.prems(2) stop p by (subst attempt_loop.simps) (simp add: attempt_step_def)
  show ?case
  proof (cases "rs_ok res \<or> \<not> should_retry res \<or> a \<ge> ?max")
    case True
    define st where "st = (if rs_ok res then SUCCEEDED else FAILED)"
    have st2: "st \<in> {SUCCEEDED, FAILED}" by (simp add: st_def)
    have c1: "conclude_attempt env (Suc n) c a job1 res w1 = finish_and_ack env c st job1 w1"
      using True by (auto simp: conclude_attempt_def st_def)
    obtain w2 job2 where f: "finish_and_ack env c st job1 w1 = (w2, Inr None)" "claim_gone c w2"
        "w_store w2 (qc_tenant_id c, qc_job_id c) = Some (JobFile job2)" "j_status job2 = st"
        "j_runs job2 = j_runs job1"
      using finish_and_ack_total[OF u h1 ci st2] by blast
    have "finished_with a [run] (j_status job2)"
      using r finished_with_one[of run a "rs_ok res"] f(4) by (simp add: st_def)
    then show ?thesis
      using loop c1 f r less.prems(2) by (intro exI[of _ w2] exI[of _ job2] exI[of _ "[run]"]) simp
  next
    case False
    then have c1: "conclude_attempt env (Suc n) c a job1 res w1 = (w1, Inr (Some job1))"
      using stop u by (simp add: conclude_attempt_def undisturbed_def)
    obtain w2 job2 new where I: "attempt_loop env (Suc (Suc n)) c (a + 1) job1 w1 = (w2, Inr ())" "claim_gone c w2"
        "w_store w2 (qc_tenant_id c, qc_job_id c) = Some (JobFile job2)" "j_runs job2 = j_runs job1 @ new"
        "finished_with (a + 1) new (j_status job2)" "a + 1 + int (length new) - 1 \<le> ?max"
      using less.IH[of "nat (?max - (a + 1))" job1 w1 "a + 1" "Suc (Suc n)"] h1 False less.prems by auto
    have "finished_with a (run # new) (j_status job2)"
      using r False I(5) by (intro finished_with_Cons) simp_all
    then show ?thesis
      using loop c1 I r by (intro exI[of _ w2] exI[of _ job2] exI[of _ "run # new"]) simp
  qed
qed

lemma ensure_job_claimable_total:
  assumes ok: "world_ok w" and ci: "claim_id_ok (qc_claim_id c)"
    and f: "w_store w (qc_tenant_id c, qc_job_id c) = Some (JobFile job)" and st: "in_flight (j_status job)"
  shows "\<exists>w' job'. ensure_job_claimable env c job w = (w', Inr (Some job')) \<and> holds_job c job' w' \<and>
           j_runs job' = j_runs job \<and> w_queue w' = w_queue w"
proof -
  have wf: "world_wf w" using ok by (simp add: world_ok_def)
  note id = world_wfD[OF wf f]
  have tr: "ensure_transition QUEUED RUNNING = Inr True" by (simp add: ensure_transition_def can_transition_def)
  let ?s = "(w_store w)((qc_tenant_id c, qc_job_id c) \<mapsto>
      JobFile (job\<lparr>j_status := RUNNING, j_version := j_version job + 1\<rparr>))"
  have "store_save (qc_tenant_id c) (job\<lparr>j_status := RUNNING\<rparr>) (w_store w) =
      (?s, Inr (job\<lparr>j_status := RUNNING, j_version := j_version job + 1\<rparr>))"
    unfolding store_save_Inr using id f by auto
  then have "\<exists>w' job'. ensure_job_claimable env c job w = (w', Inr (Some job')) \<and> w_queue w' = w_queue w"
    using st by (cases "j_status job = QUEUED")
      (auto simp: ensure_job_claimable_def tr in_flight_def emit_worker_audit_def)
  then obtain w' job' where e: "ensure_job_claimable env c job w = (w', Inr (Some job'))" "w_queue w' = w_queue w"
    by blast
  with ensure_job_claimable_step[OF ok ci f e(1)] show ?thesis by blast
qed

lemma process_claim_loop:
  assumes ok: "world_ok w" and ci: "claim_id_ok (qc_claim_id c)" and ns: "\<not> wk_stop env n" "\<not> wk_stop env (Suc n)"
    and f: "w_store w (qc_tenant_id c, qc_job_id c) = Some (JobFile job)" and st: "in_flight (j_status job)"
  obtains w1 job1 where "process_claim env n c w = run_job_with_retries env (Suc (Suc n)) c job1 w1"
    "holds_job c job1 w1" "j_runs job1 = j_runs job" "w_queue w1 = w_queue w"
proof -
  have wf: "world_wf w" using ok by (simp add: world_ok_def)
  note id = world_wfD[OF wf f]
  obtain w1 job1 where e: "ensure_job_claimable env c job w = (w1, Inr (Some job1))" "holds_job c job1 w1"
      "j_runs job1 = j_runs job" "w_queue w1 = w_queue w"
    using ensure_job_claimable_total[OF ok ci f st] by blast
  have "load_job_or_handle env c w = (w, Inr (Some job))"
    using id(4) f by (simp add: load_job_or_handle_def store_load_def)
  with ns e have "process_claim env n c w = run_job_with_retries env (Suc (Suc n)) c job1 w1"
    by (simp add: process_claim_def)
  with e show thesis by (intro that)
qed

section \<open>A claimed job\<close>

definition sample_claim :: queue_claim where
  "sample_claim = \<lparr>qc_job_id = ''job_1'', qc_claim_id = ''c1'', qc_worker_id = ''w1'', qc_claimed_at = 6,
     qc_lease_expires_at = 66, qc_tenant_id = ''acme'', qc_traceparent = None\<rparr>"

definition queued_job :: "run_attempt list \<Rightarrow> job" where
  "queued_job runs = drafted_job\<lparr>j_status := QUEUED, j_runs := runs\<rparr>"

definition claimed_world :: "run_attempt list \<Rightarrow> world" where
  "claimed_world runs =
     \<lparr>w_store = [(''acme'', ''job_1'') \<mapsto> JobFile (queued_job runs)],
      w_queue = fst (claim no_faults 6 60 ''w1'' ''c1'' (fst (enqueue EnqueueOk 5 ''acme'' ''job_1'' None empty_queue))),
      w_plans = Map.empty, w_audit = []\<rparr>"

text \<open>A worker whose first two attempts fail and whose third succeeds.\<close>

definition sample_worker :: worker_env where
  "sample_worker =
     \<lparr>wk_max_attempts = 3, wk_queue_io = no_faults, wk_stop = (\<lambda>_. False), wk_run_id = (\<lambda>a. ''run''),
      wk_started = (\<lambda>a. 10 * a), wk_ended = (\<lambda>a. 10 * a + 5),
      wk_execute = (\<lambda>a _ _. Inr \<lparr>rs_ok = 3 \<le> a, rs_exit_code = None, rs_timed_out = False, rs_artifacts = [],
                                 rs_error = None\<rparr>),
      wk_format = (\<lambda>_ _ _. Inr \<lparr>fr_artifacts = [], fr_error = None\<rparr>),
      wk_during_run = (\<lambda>_ w. w), wk_during_sleep = (\<lambda>_ w. w)\<rparr>"

definition failed_runs :: "run_attempt list" where
  "failed_runs = map (\<lambda>a. \<lparr>ra_run_id = ''old'', ra_attempt = a, ra_status = ''failed'', ra_started_at = None,
                           ra_ended_at = None, ra_artifacts = []\<rparr>) [1, 2, 3]"

lemma sample_worker_undisturbed: "undisturbed sample_worker"
  by (simp add: undisturbed_def sample_worker_def)

lemma claimed_world_ok: "world_ok (claimed_world runs)"
proof -
  have "queue_wf (w_queue (claimed_world [])) \<and> tracked_job ''acme'' ''job_1'' (w_queue (claimed_world [])) \<and>
      check_job_ids ''acme'' ''job_1'' = Inr ()" by code_simp
  moreover have "w_queue (claimed_world runs) = w_queue (claimed_world [])" by (simp add: claimed_world_def)
  moreover have "j_tenant_id (queued_job runs) = ''acme''" "j_job_id (queued_job runs) = ''job_1''"
    "j_schema_version (queued_job runs) = JOB_SCHEMA_VERSION_CURRENT"
    by (simp_all add: queued_job_def drafted_job_def new_job_def)
  moreover have "w_store (claimed_world runs) = [(''acme'', ''job_1'') \<mapsto> JobFile (queued_job runs)]"
    by (simp add: claimed_world_def)
  ultimately show ?thesis
    unfolding world_ok_def world_wf_def live_tracked_def by (simp split: if_split_asm)
qed

lemma claimed_world_job:
  "w_store (claimed_world runs) (qc_tenant_id sample_claim, qc_job_id sample_claim) = Some (JobFile (queued_job runs))"
  by (simp add: claimed_world_def sample_claim_def)

section \<open>The outcome of a claim\<close>

text \<open>C3 (termination) An undisturbed worker that claims a job with attempts left always returns: the
  job is then SUCCEEDED or FAILED in the store and the claim is acknowledged; the runs it added are
  numbered on from the earlier ones, at most \<open>max_attempts\<close> in all, all but the last failed, and the
  status is that of the last.\<close>

theorem claimed_job_finishes:
  assumes u: "undisturbed env" and ok: "world_ok w" and ci: "claim_id_ok (qc_claim_id c)"
    and f: "w_store w (qc_tenant_id c, qc_job_id c) = Some (JobFile job)" and st: "in_flight (j_status job)"
    and left: "int (length (j_runs job)) < normalized_max_attempts (wk_max_attempts env)"
  shows "\<exists>w' job' new. process_claim env n c w = (w', Inr ()) \<and> claim_gone c w' \<and>
      w_store w' (qc_tenant_id c, qc_job_id c) = Some (JobFile job') \<and> j_runs job' = j_runs job @ new \<and>
      finished_with (int (length (j_runs job)) + 1) new (j_status job') \<and>
      int (length (j_runs job')) \<le> normalized_max_attempts (wk_max_attempts env)"
proof -
  have ns: "\<not> wk_stop env n" "\<not> wk_stop env (Suc n)" using u by (simp_all add: undisturbed_def)
  obtain w1 job1 where P: "process_claim env n c w = run_job_with_retries env (Suc (Suc n)) c job1 w1"
    "holds_job c job1 w1" "j_runs job1 = j_runs job" "w_queue w1 = w_queue w"
    by (rule process_claim_loop[OF ok ci ns f st])
  from attempt_loop_finishes[OF u ci P(2) _ refl, of "int (length (j_runs job)) + 1" "Suc (Suc n)"] left
  show ?thesis using P by (fastforce simp: run_job_with_retries_def)
qed

lemma claimed_job_finishes_witness:
  "\<exists>w' job' new. process_claim sample_worker 0 sample_claim (claimed_world []) = (w', Inr ()) \<and>
      claim_gone sample_claim w' \<and>
      w_store w' (qc_tenant_id sample_claim, qc_job_id sample_claim) = Some (JobFile job') \<and>
      j_runs job' = j_runs (queued_job []) @ new \<and>
      finished_with (int (length (j_runs (queued_job []))) + 1) new (j_status job') \<and>
      int (length (j_runs job')) \<le> normalized_max_attempts (wk_max_attempts sample_worker)"
  by (rule claimed_job_finishes[OF sample_worker_undisturbed claimed_world_ok _ claimed_world_job]) code_simp+

text \<open>C8 (liveness) A job that already has \<open>max_attempts\<close> runs, a failed job a user runs again, is
  never finished: processing its claim only marks it RUNNING and returns, with the claim neither
  acknowledged nor released, and this repeats whenever the lease has run out.\<close>

theorem exhausted_job_never_finishes:
  assumes ok: "world_ok w" and ci: "claim_id_ok (qc_claim_id c)" and ns: "\<not> wk_stop env n" "\<not> wk_stop env (Suc n)"
    and f: "w_store w (qc_tenant_id c, qc_job_id c) = Some (JobFile job)" and st: "in_flight (j_status job)"
    and used: "normalized_max_attempts (wk_max_attempts env) \<le> int (length (j_runs job))"
  shows "\<exists>w' job'. process_claim env n c w = (w', Inr ()) \<and> w_queue w' = w_queue w \<and>
      w_store w' (qc_tenant_id c, qc_job_id c) = Some (JobFile job') \<and> j_status job' = RUNNING \<and>
      j_runs job' = j_runs job \<and> world_ok w'"
proof -
  obtain w1 job1 where P: "process_claim env n c w = run_job_with_retries env (Suc (Suc n)) c job1 w1"
    "holds_job c job1 w1" "j_runs job1 = j_runs job" "w_queue w1 = w_queue w"
    by (rule process_claim_loop[OF ok ci ns f st])
  have "run_job_with_retries env (Suc (Suc n)) c job1 w1 = (w1, Inr ())"
    using P(3) used by (simp add: run_job_with_retries_def attempt_loop.simps)
  with P show ?thesis by (auto simp: holds_job_def)
qed

lemma exhausted_job_never_finishes_witness:
  "\<exists>w' job'. process_claim sample_worker 0 sample_claim (claimed_world failed_runs) = (w', Inr ()) \<and>
      w_queue w' = w_queue (claimed_world failed_runs) \<and>
      w_store w' (qc_tenant_id sample_claim, qc_job_id sample_claim) = Some (JobFile job') \<and>
      j_status job' = RUNNING \<and> j_runs job' = j_runs (queued_job failed_runs) \<and> world_ok w'"
  by (rule exhausted_job_never_finishes[OF claimed_world_ok _ _ _ claimed_world_job]) code_simp+

end
