(* ===== verification/DraftService.thy ===== *)
theory DraftService
  imports Evolution
begin

text \<open>
  Drafts: domain/draft_service.py with the contract fields of domain/draft_v1_contract.py and the job
  inputs written by domain/upload_sessions_manifest.py, over the state of the service.

  \<open>draft_env\<close> holds what comes from elsewhere: SHA-256, the data sets of a job as the introspection of the
  uploaded files reports them (\<open>dr_sources\<close>, \<open>dr_primary\<close>, \<open>dr_candidates_v2\<close>), the language model (the
  artifacts its traced client adds to the job, and its draft or exception), the structured fields found
  in its answer (\<open>None\<close> for \<open>DraftPreviewParseError\<close>) and the template selection.
\<close>

record draft_env =
  dr_now :: str
  dr_sha256 :: "str \<Rightarrow> str"
  dr_sources :: "str \<Rightarrow> str \<Rightarrow> draft_data_source list"
  dr_primary :: "str \<Rightarrow> str \<Rightarrow> str list \<times> draft_variable_type list"
  dr_candidates_v2 :: "str \<Rightarrow> str \<Rightarrow> str list \<Rightarrow> column_candidate list"
  dr_llm :: "job \<Rightarrow> str list \<Rightarrow> artifact_ref list \<times> (exn + draft)"
  dr_structured :: "draft \<Rightarrow> draft option"
  dr_select_template :: "(str \<Rightarrow> str \<Rightarrow> world \<Rightarrow> world \<times> (exn + unit)) option"

section \<open>Column candidates\<close>

fun merge_candidates_loop :: "str list \<Rightarrow> str list \<Rightarrow> column_candidate list \<Rightarrow> str list" where
  "merge_candidates_loop out seen [] = out"
| "merge_candidates_loop out seen (item # rest) =
     (if blank (cc_name item) \<or> cc_name item \<in> set seen then merge_candidates_loop out seen rest
      else let out' = out @ [cc_name item]
           in if length out' \<ge> 300 then out' else merge_candidates_loop out' (cc_name item # seen) rest)"

definition merge_column_candidates :: "str list \<Rightarrow> column_candidate list \<Rightarrow> str list" where
  "merge_column_candidates primary v2 =
     take 300 (merge_candidates_loop primary (filter (\<lambda>n. \<not> blank n) primary) v2)"

section \<open>The contract of redeemed jobs\<close>

definition is_v1_redeem_job :: "str \<Rightarrow> bool" where
  "is_v1_redeem_job job_id = startswith job_id ''job_tc_''"

definition has_inputs :: "job \<Rightarrow> bool" where
  "has_inputs job =
     (case j_inputs job of
        None \<Rightarrow> False
      | Some i \<Rightarrow> (case ji_manifest_rel_path i of None \<Rightarrow> False | Some p \<Rightarrow> \<not> blank p))"

definition unset_var :: "str option \<Rightarrow> bool" where
  "unset_var v = (case v of None \<Rightarrow> True | Some s \<Rightarrow> s = [])"

definition variable_unknown :: "str \<Rightarrow> str \<Rightarrow> str list \<Rightarrow> open_unknown" where
  "variable_unknown field description candidates =
     \<lparr>ou_field = field, ou_description = description, ou_impact = ''high'', ou_blocking = Some True,
      ou_candidates = candidates\<rparr>"

definition v1_open_unknowns :: "draft \<Rightarrow> str list \<Rightarrow> open_unknown list" where
  "v1_open_unknowns d candidates =
     (if unset_var (d_outcome_var d)
      then [variable_unknown ''outcome_var'' ''Select outcome variable'' (take 20 candidates)] else []) @
     (if unset_var (d_treatment_var d)
      then [variable_unknown ''treatment_var'' ''Select treatment variable'' (take 20 candidates)] else [])"

definition analysis_goal_question :: stage1_question where
  "analysis_goal_question =
     \<lparr>sq_question_id = ''analysis_goal'', sq_question_text = ''What is your analysis goal?'',
      sq_question_type = ''single_choice'',
      sq_options = [\<lparr>so_option_id = ''descriptive'', so_label = ''Descriptive'', so_value = JStr ''descriptive''\<rparr>,
                    \<lparr>so_option_id = ''causal'', so_label = ''Causal'', so_value = JStr ''causal''\<rparr>],
      sq_priority = 1\<rparr>"

definition draft_id :: "draft_env \<Rightarrow> draft \<Rightarrow> str" where
  "draft_id env d = ''draft_'' @ take 16 (dr_sha256 env (d_created_at d @ '':'' @ d_text d))"

text \<open>The entries of \<open>v1_contract_fields\<close> for fields the class does not declare; \<open>model_copy\<close> keeps them as extra
  fields.\<close>

definition v1_extra_fields :: "draft_env \<Rightarrow> draft \<Rightarrow> jobj" where
  "v1_extra_fields env d =
     [(''draft_id'', JStr (draft_id env d)), (''decision'', JStr ''require_confirm''), (''risk_score'', JFloat (Finite 0)),
      (''status'', JStr ''ready''), (''data_quality_warnings'', JList [])]"

definition set_fields :: "jobj \<Rightarrow> jobj \<Rightarrow> jobj" where
  "set_fields updates d = fold (\<lambda>(k, v) d'. dict_set d' k v) updates d"

definition v1_contract_fields :: "job \<Rightarrow> draft \<Rightarrow> str list \<Rightarrow> stage1_question list \<times> open_unknown list" where
  "v1_contract_fields job d candidates =
     (if is_v1_redeem_job (j_job_id job) then ([analysis_goal_question], v1_open_unknowns d candidates)
      else ([], []))"

section \<open>The draft service\<close>

definition enrich_draft :: "draft_env \<Rightarrow> str \<Rightarrow> job \<Rightarrow> draft \<Rightarrow> draft" where
  "enrich_draft env tenant_id job d =
     (let sources = dr_sources env tenant_id (j_job_id job);
          (primary, types) = dr_primary env tenant_id (j_job_id job);
          v2 = dr_candidates_v2 env tenant_id (j_job_id job) primary;
          merged = merge_column_candidates primary v2;
          (questions, unknowns) = v1_contract_fields job d merged
      in d\<lparr>d_data_sources := sources, d_column_candidates := merged, d_column_candidates_v2 := v2,
           d_column_name_normalizations := build_column_name_normalizations v2, d_variable_types := types,
           d_stage1_questions := questions, d_open_unknowns := unknowns,
           d_extra := set_fields (v1_extra_fields env d) (d_extra d)\<rparr>)"

definition draft_preview_columns :: "draft_env \<Rightarrow> str \<Rightarrow> job \<Rightarrow> str list" where
  "draft_preview_columns env tenant_id job =
     (let primary = fst (dr_primary env tenant_id (j_job_id job))
      in merge_column_candidates primary (dr_candidates_v2 env tenant_id (j_job_id job) primary))"

text \<open>The \<open>field_updates\<close> a patch takes over, applied to a draft.\<close>

definition blank_to_none :: "str \<Rightarrow> str option" where
  "blank_to_none s = (if blank s then None else Some s)"

definition all_strings :: "json list \<Rightarrow> str list option" where
  "all_strings xs = (if list_all is_str xs then Some (map (\<lambda>x. case x of JStr s \<Rightarrow> s | _ \<Rightarrow> []) xs) else None)"

definition patch_draft :: "jobj \<Rightarrow> draft \<Rightarrow> draft \<times> str list" where
  "patch_draft updates d =
     (let (d1, p1) = (case dict_get updates ''outcome_var'' of
             Some (JStr s) \<Rightarrow> (d\<lparr>d_outcome_var := blank_to_none s\<rparr>, [''outcome_var'']) | _ \<Rightarrow> (d, []));
          (d2, p2) = (case dict_get updates ''treatment_var'' of
             Some (JStr s) \<Rightarrow> (d1\<lparr>d_treatment_var := blank_to_none s\<rparr>, [''treatment_var'']) | _ \<Rightarrow> (d1, []));
          (d3, p3) = (case dict_get updates ''controls'' of
             Some (JList xs) \<Rightarrow>
               (case all_strings xs of
                  Some ss \<Rightarrow> (d2\<lparr>d_controls := filter (\<lambda>s. \<not> blank s) ss\<rparr>, [''controls''])
                | None \<Rightarrow> (d2, []))
           | _ \<Rightarrow> (d2, []));
          (d4, p4) = (case dict_get updates ''default_overrides'' of
             Some (JObj ovr) \<Rightarrow> (d3\<lparr>d_default_overrides := ovr\<rparr>, [''default_overrides'']) | _ \<Rightarrow> (d3, []))
      in (d4, p1 @ p2 @ p3 @ p4))"

definition empty_draft :: "str \<Rightarrow> draft" where
  "empty_draft now =
     \<lparr>d_text = [], d_created_at = now, d_outcome_var = None, d_treatment_var = None, d_controls = [],
      d_column_candidates = [], d_column_candidates_v2 = [], d_column_name_normalizations = [],
      d_stage1_questions = [], d_open_unknowns = [], d_variable_types = [], d_data_sources = [],
      d_default_overrides = [], d_extra = []\<rparr>"

record draft_patch_result =
  dp_draft :: draft
  dp_patched_fields :: "str list"
  dp_remaining_unknowns :: nat

definition patch_v1 ::
  "draft_env \<Rightarrow> str \<Rightarrow> str \<Rightarrow> jobj \<Rightarrow> world \<Rightarrow> world \<times> (exn + draft_patch_result)" where
  "patch_v1 env tenant_id job_id field_updates w =
     (case store_load tenant_id job_id (w_store w) of
        Inl e \<Rightarrow> (w, Inl e)
      | Inr job \<Rightarrow>
          (if j_status job \<in> {CONFIRMED, QUEUED, RUNNING, SUCCEEDED, FAILED} then (w, Inl (DraftErr JobLocked))
           else let d0 = (case j_draft job of None \<Rightarrow> empty_draft (dr_now env) | Some d \<Rightarrow> d);
                    (d1, patched) = patch_draft field_updates d0;
                    d2 = enrich_draft env tenant_id job d1
                in case store_save tenant_id (job\<lparr>j_draft := Some d2\<rparr>) (w_store w) of
                     (s, Inl e) \<Rightarrow> (w\<lparr>w_store := s\<rparr>, Inl e)
                   | (s, Inr _) \<Rightarrow>
                       (w\<lparr>w_store := s\<rparr>,
                        Inr \<lparr>dp_draft = d2, dp_patched_fields = patched,
                             dp_remaining_unknowns = length (d_open_unknowns d2)\<rparr>)))"

text \<open>Saving the job after a failed model call: an I/O error of the store is only logged, the exception
  of the call is raised again.\<close>

definition persist_then_raise :: "str \<Rightarrow> job \<Rightarrow> exn \<Rightarrow> world \<Rightarrow> world \<times> (exn + draft)" where
  "persist_then_raise tenant_id job e w =
     (case store_save tenant_id job (w_store w) of
        (s, Inl (StoreErr (JobStoreIO op))) \<Rightarrow> (w\<lparr>w_store := s\<rparr>, Inl e)
      | (s, Inl e') \<Rightarrow> (w\<lparr>w_store := s\<rparr>, Inl e')
      | (s, Inr _) \<Rightarrow> (w\<lparr>w_store := s\<rparr>, Inl e))"

definition store_draft :: "str \<Rightarrow> job \<Rightarrow> draft \<Rightarrow> world \<Rightarrow> world \<times> (exn + draft)" where
  "store_draft tenant_id job d w =
     (let job' = (if j_status job = CREATED \<and> ensure_transition (j_status job) DRAFT_READY = Inr True
                  then job\<lparr>j_draft := Some d, j_status := DRAFT_READY\<rparr> else job\<lparr>j_draft := Some d\<rparr>)
      in case store_save tenant_id job' (w_store w) of
           (s, Inl e) \<Rightarrow> (w\<lparr>w_store := s\<rparr>, Inl e)
         | (s, Inr _) \<Rightarrow> (w\<lparr>w_store := s\<rparr>, Inr d))"

definition preview_for_loaded_job ::
  "draft_env \<Rightarrow> str \<Rightarrow> job \<Rightarrow> world \<Rightarrow> world \<times> (exn + draft)" where
  "preview_for_loaded_job env tenant_id job0 w =
     (let (refs, answer) = dr_llm env job0 (draft_preview_columns env tenant_id job0);
          job = job0\<lparr>j_artifacts_index := j_artifacts_index job0 @ refs\<rparr>
      in case answer of
           Inl e \<Rightarrow>
             (if e \<in> {DraftErr LLMCallFailed, DraftErr LLMArtifactsWrite}
              then persist_then_raise tenant_id job e w else (w, Inl e))
         | Inr d0 \<Rightarrow>
             (case dr_structured env d0 of
                None \<Rightarrow> persist_then_raise tenant_id job (DraftErr LLMResponseInvalid) w
              | Some d \<Rightarrow> store_draft tenant_id job (enrich_draft env tenant_id job d) w))"

definition preview :: "draft_env \<Rightarrow> str \<Rightarrow> str \<Rightarrow> world \<Rightarrow> world \<times> (exn + draft)" where
  "preview env tenant_id job_id w =
     (case store_load tenant_id job_id (w_store w) of
        Inl e \<Rightarrow> (w, Inl e)
      | Inr job \<Rightarrow> preview_for_loaded_job env tenant_id job w)"

text \<open>\<open>preview_v1\<close>: \<open>None\<close> is the pending result of a redeemed job without inputs.\<close>

definition preview_v1 :: "draft_env \<Rightarrow> str \<Rightarrow> str \<Rightarrow> world \<Rightarrow> world \<times> (exn + draft option)" where
  "preview_v1 env tenant_id job_id w =
     (case store_load tenant_id job_id (w_store w) of
        Inl e \<Rightarrow> (w, Inl e)
      | Inr job \<Rightarrow>
          (if is_v1_redeem_job job_id \<and> \<not> has_inputs job then (w, Inr None)
           else case preview_for_loaded_job env tenant_id job w of
                  (w1, Inl e) \<Rightarrow> (w1, Inl e)
                | (w1, Inr d) \<Rightarrow>
                    (if \<not> is_v1_redeem_job job_id then (w1, Inr (Some d))
                     else case dr_select_template env of
                            None \<Rightarrow> (w1, Inl (DraftErr DoTemplateSelectionNotWired))
                          | Some select \<Rightarrow>
                              (case select tenant_id job_id w1 of
                                 (w2, Inl e) \<Rightarrow> (w2, Inl e)
                               | (w2, Inr _) \<Rightarrow> (w2, Inr (Some d))))))"

section \<open>The inputs of a job\<close>

definition MANIFEST_REL_PATH :: str where
  "MANIFEST_REL_PATH = ''inputs/manifest.json''"

definition add_ref :: "artifact_ref \<Rightarrow> artifact_ref list \<Rightarrow> artifact_ref list" where
  "add_ref r index = (if r \<in> set index then index else index @ [r])"

definition index_inputs_artifacts :: "str \<Rightarrow> artifact_ref list \<Rightarrow> artifact_ref list" where
  "index_inputs_artifacts dataset_rel_path index =
     add_ref \<lparr>ar_kind = INPUTS_DATASET, ar_rel_path = dataset_rel_path\<rparr>
       (add_ref \<lparr>ar_kind = INPUTS_MANIFEST, ar_rel_path = MANIFEST_REL_PATH\<rparr> index)"

definition update_job_inputs :: "str \<Rightarrow> str \<Rightarrow> str \<Rightarrow> str \<Rightarrow> world \<Rightarrow> world \<times> (exn + unit)" where
  "update_job_inputs tenant_id job_id dataset_rel_path fingerprint w =
     (case store_load tenant_id job_id (w_store w) of
        Inl e \<Rightarrow> (w, Inl e)
      | Inr job \<Rightarrow>
          (case store_save tenant_id
                  (job\<lparr>j_inputs := Some \<lparr>ji_manifest_rel_path = Some MANIFEST_REL_PATH,
                                         ji_fingerprint = Some fingerprint\<rparr>,
                       j_artifacts_index := index_inputs_artifacts dataset_rel_path (j_artifacts_index job)\<rparr>)
                  (w_store w) of
             (s, Inl e) \<Rightarrow> (w\<lparr>w_store := s\<rparr>, Inl e)
           | (s, Inr _) \<Rightarrow> (w\<lparr>w_store := s\<rparr>, Inr ())))"

end
