(* ===== verification/DraftServiceLaws.thy ===== *)
theory DraftServiceLaws
  imports DraftService RunTrigger
begin

text \<open>
  What the draft service guarantees: its operations are safe steps, a patched draft blocks the
  confirmation exactly for the variables that are still unset, and the candidate list stays bounded and
  free of duplicates.
\<close>

section \<open>Safe steps\<close>

definition select_ok :: "draft_env \<Rightarrow> bool" where
  "select_ok env =
     (case dr_select_template env of None \<Rightarrow> True | Some f \<Rightarrow> (\<forall>t j w. world_ok w \<longrightarrow> safe_step w (fst (f t j w))))"

lemma patch_v1_step:
  assumes ok: "world_ok w"
  shows "safe_step w (fst (patch_v1 env t j upd w))"
proof (cases "store_load t j (w_store w)")
  case (Inl e)
  with ok show ?thesis by (simp add: patch_v1_def safe_step_refl)
next
  case (Inr job)
  obtain d1 p where pd: "patch_draft upd (case j_draft job of None \<Rightarrow> empty_draft (dr_now env) | Some d \<Rightarrow> d) = (d1, p)"
    by (cases "patch_draft upd (case j_draft job of None \<Rightarrow> empty_draft (dr_now env) | Some d \<Rightarrow> d)")
  define job' where "job' = job\<lparr>j_draft := Some (enrich_draft env t job d1)\<rparr>"
  obtain s r where sv: "store_save t job' (w_store w) = (s, r)" by (cases "store_save t job' (w_store w)")
  have "safe_step w (w\<lparr>w_store := s\<rparr>)" by (rule resave_step[OF ok Inr _ _ _ sv]) (simp_all add: job'_def)
  moreover have "fst (patch_v1 env t j upd w) \<in> {w, w\<lparr>w_store := s\<rparr>}"
    using Inr pd sv by (simp add: patch_v1_def Let_def job'_def split: sum.split)
  ultimately show ?thesis using safe_step_refl[OF ok] by auto
qed

lemma persist_then_raise_fst:
  "store_save t job (w_store w) = (s, r) \<Longrightarrow> fst (persist_then_raise t job e w) = w\<lparr>w_store := s\<rparr>"
  by (auto simp: persist_then_raise_def split: sum.split exn.split store_error.split)

lemma preview_for_loaded_job_step:
  assumes ok: "world_ok w" and l: "store_load t j (w_store w) = Inr job0"
  shows "safe_step w (fst (preview_for_loaded_job env t job0 w))"
proof -
  obtain refs answer where a: "dr_llm env job0 (draft_preview_columns env t job0) = (refs, answer)"
    by (cases "dr_llm env job0 (draft_preview_columns env t job0)")
  define job where "job = job0\<lparr>j_artifacts_index := j_artifacts_index job0 @ refs\<rparr>"
  have P: "safe_step w (fst (persist_then_raise t job e w))" for e
  proof -
    obtain s r where sv: "store_save t job (w_store w) = (s, r)" by (cases "store_save t job (w_store w)")
    have "safe_step w (w\<lparr>w_store := s\<rparr>)" by (rule resave_step[OF ok l _ _ _ sv]) (simp_all add: job_def)
    with persist_then_raise_fst[OF sv] show ?thesis by simp
  qed
  have S: "safe_step w (fst (store_draft t job d w))" for d
  proof -
    define job' where "job' = (if j_status job = CREATED \<and> ensure_transition (j_status job) DRAFT_READY = Inr True
                  then job\<lparr>j_draft := Some d, j_status := DRAFT_READY\<rparr> else job\<lparr>j_draft := Some d\<rparr>)"
    obtain s r where sv: "store_save t job' (w_store w) = (s, r)" by (cases "store_save t job' (w_store w)")
    have "safe_step w (w\<lparr>w_store := s\<rparr>)"
      by (rule resave_step[OF ok l _ _ _ sv]) (auto simp: job'_def job_def in_flight_def)
    moreover have "fst (store_draft t job d w) = w\<lparr>w_store := s\<rparr>"
      using sv by (simp add: store_draft_def Let_def job'_def[symmetric] split: sum.split)
    ultimately show ?thesis by simp
  qed
  show ?thesis
    using P S safe_step_refl[OF ok] a
    by (simp add: preview_for_loaded_job_def job_def[symmetric] split: sum.split option.split)
qed

lemma preview_step: "world_ok w \<Longrightarrow> safe_step w (fst (preview env t j w))"
  by (auto simp: preview_def safe_step_refl preview_for_loaded_job_step split: sum.split)

lemma preview_v1_step:
  assumes ok: "world_ok w" and sel: "select_ok env"
  shows "safe_step w (fst (preview_v1 env t j w))"
proof (cases "store_load t j (w_store w)")
  case (Inl e)
  with ok show ?thesis by (simp add: preview_v1_def safe_step_refl)
next
  case (Inr job)
  obtain w1 r1 where p: "preview_for_loaded_job env t job w = (w1, r1)"
    by (cases "preview_for_loaded_job env t job w")
  have s1: "safe_step w w1" using preview_for_loaded_job_step[OF ok Inr, of env] p by simp
  have s2: "safe_step w (fst (f t j w1))" if "dr_select_template env = Some f" for f
  proof -
    have "world_ok w1" using s1 by (simp add: safe_step_def)
    then have "safe_step w1 (fst (f t j w1))" using sel that by (simp add: select_ok_def)
    with s1 show ?thesis by (rule safe_step_trans)
  qed
  have "fst (preview_v1 env t j w) \<in> {w, w1} \<or>
        (\<exists>f. dr_select_template env = Some f \<and> fst (preview_v1 env t j w) = fst (f t j w1))"
    using Inr p by (auto simp: preview_v1_def split: sum.split option.split prod.split)
  then show ?thesis using s1 s2 safe_step_refl[OF ok] by auto
qed

lemma update_job_inputs_step:
  assumes ok: "world_ok w"
  shows "safe_step w (fst (update_job_inputs t j p f w))"
proof (cases "store_load t j (w_store w)")
  case (Inl e)
  with ok show ?thesis by (simp add: update_job_inputs_def safe_step_refl)
next
  case (Inr job)
  define job' where "job' = job\<lparr>j_inputs := Some \<lparr>ji_manifest_rel_path = Some MANIFEST_REL_PATH, ji_fingerprint = Some f\<rparr>,
      j_artifacts_index := index_inputs_artifacts p (j_artifacts_index job)\<rparr>"
  obtain s r where sv: "store_save t job' (w_store w) = (s, r)" by (cases "store_save t job' (w_store w)")
  have "safe_step w (w\<lparr>w_store := s\<rparr>)" by (rule resave_step[OF ok Inr _ _ _ sv]) (simp_all add: job'_def)
  moreover have "fst (update_job_inputs t j p f w) = w\<lparr>w_store := s\<rparr>"
    using Inr sv by (simp add: update_job_inputs_def job'_def split: sum.split)
  ultimately show ?thesis by simp
qed

section \<open>Candidates\<close>

lemma merge_loop_props:
  assumes "\<forall>n\<in>set out. \<not> blank n \<longrightarrow> n \<in> set seen" "set seen \<subseteq> set out"
  shows "\<exists>new. merge_candidates_loop out seen v2 = out @ new \<and> distinct new \<and> set new \<inter> set out = {} \<and>
           (\<forall>n\<in>set new. \<not> blank n \<and> n \<in> cc_name ` set v2) \<and>
           (length out + length new < 300 \<longrightarrow>
              (\<forall>c\<in>set v2. \<not> blank (cc_name c) \<longrightarrow> cc_name c \<in> set out \<union> set new))"
  using assms
proof (induction out seen v2 rule: merge_candidates_loop.induct)
  case (1 out seen)
  then show ?case by (intro exI[of _ "[]"]) simp
next
  case (2 out seen item rest)
  show ?case
  proof (cases "blank (cc_name item) \<or> cc_name item \<in> set seen")
    case True
    from 2(1)[OF True 2(3,4)] obtain new where n: "merge_candidates_loop out seen rest = out @ new"
      "distinct new" "set new \<inter> set out = {}" "\<forall>n\<in>set new. \<not> blank n \<and> n \<in> cc_name ` set rest"
      "length out + length new < 300 \<longrightarrow> (\<forall>c\<in>set rest. \<not> blank (cc_name c) \<longrightarrow> cc_name c \<in> set out \<union> set new)"
      by blast
    with True 2(4) show ?thesis by (intro exI[of _ new]) auto
  next
    case False
    then have fresh: "cc_name item \<notin> set out" using 2(3) by auto
    show ?thesis
    proof (cases "length (out @ [cc_name item]) \<ge> 300")
      case True
      with False fresh show ?thesis by (intro exI[of _ "[cc_name item]"]) auto
    next
      case short: False
      have "\<exists>new. merge_candidates_loop (out @ [cc_name item]) (cc_name item # seen) rest = (out @ [cc_name item]) @ new \<and>
           distinct new \<and> set new \<inter> set (out @ [cc_name item]) = {} \<and>
           (\<forall>n\<in>set new. \<not> blank n \<and> n \<in> cc_name ` set rest) \<and>
           (length (out @ [cc_name item]) + length new < 300 \<longrightarrow>
              (\<forall>c\<in>set rest. \<not> blank (cc_name c) \<longrightarrow> cc_name c \<in> set (out @ [cc_name item]) \<union> set new))"
        by (rule 2(2)[OF False refl short]) (use 2(3,4) in auto)
      then obtain new where n: "merge_candidates_loop (out @ [cc_name item]) (cc_name item # seen) rest = (out @ [cc_name item]) @ new"
        "distinct new" "set new \<inter> set (out @ [cc_name item]) = {}"
        "\<forall>n\<in>set new. \<not> blank n \<and> n \<in> cc_name ` set rest"
        "length (out @ [cc_name item]) + length new < 300 \<longrightarrow>
              (\<forall>c\<in>set rest. \<not> blank (cc_name c) \<longrightarrow> cc_name c \<in> set (out @ [cc_name item]) \<union> set new)"
        by blast
      with False short fresh show ?thesis by (intro exI[of _ "cc_name item # new"]) auto
    qed
  qed
qed

text \<open>Merged column candidates: at most 300, the primary columns first and in order,
  then the other names once each, none of them blank; with room left none of them is missing.\<close>

theorem merged_candidates_bounded:
  "\<exists>new. merge_column_candidates primary v2 = take 300 (primary @ new) \<and> distinct new \<and>
     set new \<inter> set primary = {} \<and> list_all (\<lambda>n. \<not> blank n) new \<and> set new \<subseteq> cc_name ` set v2 \<and>
     length (merge_column_candidates primary v2) \<le> 300 \<and>
     (300 \<le> length primary + length new \<or>
      {n \<in> cc_name ` set v2. \<not> blank n} \<subseteq> set (merge_column_candidates primary v2))"
proof -
  obtain new where n: "merge_candidates_loop primary (filter (\<lambda>n. \<not> blank n) primary) v2 = primary @ new"
      "distinct new" "set new \<inter> set primary = {}" "\<forall>n\<in>set new. \<not> blank n \<and> n \<in> cc_name ` set v2"
      "length primary + length new < 300 \<longrightarrow>
         (\<forall>c\<in>set v2. \<not> blank (cc_name c) \<longrightarrow> cc_name c \<in> set primary \<union> set new)"
    using merge_loop_props[of primary "filter (\<lambda>n. \<not> blank n) primary" v2] by auto
  then show ?thesis
    by (intro exI[of _ new]) (auto simp: merge_column_candidates_def list_all_iff)
qed

section \<open>Patching\<close>

lemma enrich_draft_fields:
  "d_outcome_var (enrich_draft env t job d) = d_outcome_var d"
  "d_treatment_var (enrich_draft env t job d) = d_treatment_var d"
  "\<exists>cs. d_open_unknowns (enrich_draft env t job d) =
     (if is_v1_redeem_job (j_job_id job) then v1_open_unknowns d cs else [])"
  by (auto simp: enrich_draft_def v1_contract_fields_def Let_def split: prod.split)

lemma is_v1_unknowns:
  "blocking_unknown_fields (Some (enrich_draft env t job d)) =
     (if is_v1_redeem_job (j_job_id job)
      then (if unset_var (d_outcome_var d) then [''outcome_var''] else []) @
           (if unset_var (d_treatment_var d) then [''treatment_var''] else [])
      else [])"
proof -
  have nb: "\<not> blank ''outcome_var''" "\<not> blank ''treatment_var''" by code_simp+
  obtain cs where "d_open_unknowns (enrich_draft env t job d) =
     (if is_v1_redeem_job (j_job_id job) then v1_open_unknowns d cs else [])"
    using enrich_draft_fields(3) by blast
  then show ?thesis
    by (simp add: blocking_unknown_fields_def v1_open_unknowns_def variable_unknown_def is_blocking_unknown_def nb)
qed

text \<open>A successful patch stores the enriched draft, and the stored draft blocks the
  confirmation of a redeemed job exactly for the variables that are still unset.\<close>

theorem patch_updates_blockers:
  assumes "patch_v1 env t j upd w = (w', Inr res)"
  shows "\<exists>job job'. w_store w (t, j) = Some (JobFile job) \<and> j_status job \<in> {CREATED, DRAFT_READY} \<and>
    w_store w' = (w_store w)((t, j_job_id job) \<mapsto> JobFile job') \<and> j_draft job' = Some (dp_draft res) \<and>
    j_status job' = j_status job \<and> j_version job' = j_version job + 1 \<and>
    blocking_unknown_fields (j_draft job') =
      (if is_v1_redeem_job (j_job_id job)
       then (if unset_var (d_outcome_var (dp_draft res)) then [''outcome_var''] else []) @
            (if unset_var (d_treatment_var (dp_draft res)) then [''treatment_var''] else [])
       else [])"
proof -
  from assms obtain job where l: "store_load t j (w_store w) = Inr job"
    by (auto simp: patch_v1_def split: sum.split_asm)
  obtain d1 p where pd: "patch_draft upd (case j_draft job of None \<Rightarrow> empty_draft (dr_now env) | Some d \<Rightarrow> d) = (d1, p)"
    by (cases "patch_draft upd (case j_draft job of None \<Rightarrow> empty_draft (dr_now env) | Some d \<Rightarrow> d)")
  define d2 where "d2 = enrich_draft env t job d1"
  obtain s r where sv: "store_save t (job\<lparr>j_draft := Some d2\<rparr>) (w_store w) = (s, r)"
    by (cases "store_save t (job\<lparr>j_draft := Some d2\<rparr>) (w_store w)")
  from assms l pd sv obtain job' where e: "r = Inr job'" "w' = w\<lparr>w_store := s\<rparr>" "dp_draft res = d2"
      "j_status job \<notin> {CONFIRMED, QUEUED, RUNNING, SUCCEEDED, FAILED}"
    by (auto simp: patch_v1_def Let_def d2_def[symmetric] split: sum.split_asm if_split_asm)
  have st: "j_status job \<in> {CREATED, DRAFT_READY}" using e(4) by (cases "j_status job") auto
  have vars: "d_outcome_var d2 = d_outcome_var d1" "d_treatment_var d2 = d_treatment_var d1"
    by (simp_all add: d2_def enrich_draft_fields)
  from sv e(1) have "store_save t (job\<lparr>j_draft := Some d2\<rparr>) (w_store w) = (s, Inr job')" by simp
  then have j': "job' = job\<lparr>j_draft := Some d2, j_version := j_version job + 1\<rparr>"
      "s = (w_store w)((t, j_job_id job) \<mapsto> JobFile job')"
    by (simp_all add: store_save_Inr)
  have "blocking_unknown_fields (j_draft job') =
      (if is_v1_redeem_job (j_job_id job)
       then (if unset_var (d_outcome_var (dp_draft res)) then [''outcome_var''] else []) @
            (if unset_var (d_treatment_var (dp_draft res)) then [''treatment_var''] else [])
       else [])"
    using is_v1_unknowns[of env t job d1] vars e(3) j'(1) by (simp add: d2_def)
  moreover have "w_store w (t, j) = Some (JobFile job)" using l by (simp add: store_load_JobFile)
  ultimately show ?thesis using st j' e(2,3) by (intro exI[of _ job] exI[of _ job']) simp
qed

definition sample_draft_env :: draft_env where
  "sample_draft_env =
     \<lparr>dr_now = ''2026-01-01'', dr_sha256 = (\<lambda>s. s), dr_sources = (\<lambda>_ _. []), dr_primary = (\<lambda>_ _. ([''wage'', ''educ''], [])),
      dr_candidates_v2 = (\<lambda>_ _ _. [\<lparr>cc_dataset_key = ''k'', cc_role = ''secondary'', cc_name = ''age''\<rparr>]),
      dr_llm = (\<lambda>_ _. ([], Inr (empty_draft ''2026-01-02''))), dr_structured = Some, dr_select_template = None\<rparr>"

end
