(* ===== verification/TaskCodes.thy ===== *)
theory TaskCodes
  imports Evolution
begin

text \<open>
  Task codes: the file store (infra/file_task_code_store.py), the status of a record
  (domain/task_code_store.py) and the redemption of a code for a job and its token
  (domain/task_code_redeem_service.py).

  A record file is its parsed JSON object (a text field that is missing or no text is \<open>None\<close>), a JSON
  value that is no object, or unreadable. SHA-256 and the random parts of ids are parameters. Times are
  in seconds.
\<close>

section \<open>Records\<close>

record task_code_record =
  tr_code_id :: str
  tr_task_code :: str
  tr_tenant_id :: str
  tr_created_at :: stamp
  tr_expires_at :: stamp
  tr_used_at :: "stamp option"
  tr_job_id :: "str option"
  tr_revoked_at :: "stamp option"

datatype task_code_status = CodeUnused | CodeUsed | CodeExpired | CodeRevoked

fun stamp_blank :: "stamp \<Rightarrow> bool" where
  "stamp_blank (IsoTime t) = False"
| "stamp_blank (BadTime s) = blank s"

definition stamp_set :: "stamp option \<Rightarrow> bool" where
  "stamp_set v = (case v of None \<Rightarrow> False | Some s \<Rightarrow> \<not> stamp_blank s)"

definition record_status :: "int \<Rightarrow> task_code_record \<Rightarrow> task_code_status" where
  "record_status now r =
     (if stamp_set (tr_revoked_at r) then CodeRevoked
      else if stamp_set (tr_used_at r) then CodeUsed
      else case tr_expires_at r of
             BadTime _ \<Rightarrow> CodeExpired
           | IsoTime expires \<Rightarrow> (if expires \<le> now then CodeExpired else CodeUnused))"

record tc_payload =
  tp_code_id :: "str option"
  tp_task_code :: "str option"
  tp_tenant_id :: "str option"
  tp_created_at :: "stamp option"
  tp_expires_at :: "stamp option"
  tp_used_at :: "stamp option"
  tp_job_id :: "str option"
  tp_revoked_at :: "stamp option"

datatype tc_file = TcPayload tc_payload | TcNotObject | TcUnreadable

datatype tc_index = TcIndex str | TcIndexNotObject | TcIndexUnreadable

record tc_store =
  tc_records :: "(str, tc_file) dict"
  tc_by_hash :: "(str, tc_index) dict"

definition empty_tc_store :: tc_store where
  "empty_tc_store = \<lparr>tc_records = [], tc_by_hash = []\<rparr>"

definition text_set :: "str option \<Rightarrow> bool" where
  "text_set v = (case v of None \<Rightarrow> False | Some s \<Rightarrow> \<not> blank s)"

definition record_from_payload :: "tc_payload \<Rightarrow> exn + task_code_record" where
  "record_from_payload p =
     (if text_set (tp_code_id p) \<and> text_set (tp_task_code p) \<and> text_set (tp_tenant_id p) \<and>
         stamp_set (tp_created_at p) \<and> stamp_set (tp_expires_at p)
      then Inr \<lparr>tr_code_id = the (tp_code_id p), tr_task_code = the (tp_task_code p),
                tr_tenant_id = the (tp_tenant_id p), tr_created_at = the (tp_created_at p),
                tr_expires_at = the (tp_expires_at p), tr_used_at = tp_used_at p,
                tr_job_id = tp_job_id p, tr_revoked_at = tp_revoked_at p\<rparr>
      else Inl (TcErr TaskCodeDataCorrupted))"

section \<open>The file store\<close>

definition load_record_payload :: "str \<Rightarrow> tc_store \<Rightarrow> exn + tc_payload" where
  "load_record_payload code_id st =
     (case dict_get (tc_records st) code_id of
        None \<Rightarrow> Inl (TcErr TaskCodeNotFound)
      | Some TcUnreadable \<Rightarrow> Inl (TcErr (TaskCodeStoreIO ''read_record''))
      | Some TcNotObject \<Rightarrow> Inl (TcErr TaskCodeDataCorrupted)
      | Some (TcPayload p) \<Rightarrow> Inr p)"

definition tc_get :: "str \<Rightarrow> tc_store \<Rightarrow> exn + task_code_record option" where
  "tc_get code_id st =
     (if dict_get (tc_records st) code_id = None then Inr None
      else bindE (load_record_payload code_id st) (\<lambda>p.
           bindE (record_from_payload p) (\<lambda>r. Inr (Some r))))"

definition resolve_tenant :: "str \<Rightarrow> str" where
  "resolve_tenant tenant_id = (if blank tenant_id then DEFAULT_TENANT_ID else tenant_id)"

definition code_hash :: "(str \<Rightarrow> str) \<Rightarrow> str \<Rightarrow> str \<Rightarrow> str" where
  "code_hash sha256 tenant_id task_code = sha256 (tenant_id @ '':'' @ task_code)"

definition find_by_code ::
  "(str \<Rightarrow> str) \<Rightarrow> str \<Rightarrow> str \<Rightarrow> tc_store \<Rightarrow> exn + task_code_record option" where
  "find_by_code sha256 tenant_id task_code st =
     (let tenant = resolve_tenant tenant_id
      in case dict_get (tc_by_hash st) (code_hash sha256 tenant task_code) of
           None \<Rightarrow> Inr None
         | Some TcIndexUnreadable \<Rightarrow> Inl (TcErr (TaskCodeStoreIO ''read_index''))
         | Some TcIndexNotObject \<Rightarrow> Inl (TcErr TaskCodeDataCorrupted)
         | Some (TcIndex value) \<Rightarrow>
             (if py_strip value = [] then Inl (TcErr TaskCodeDataCorrupted)
              else bindE (tc_get (py_strip value) st) (\<lambda>found.
                case found of
                  None \<Rightarrow> Inr None
                | Some r \<Rightarrow> (if tr_tenant_id r \<noteq> tenant then Inr None else Inr (Some r)))))"

text \<open>Updating a record file; \<open>io\<close> is an \<open>OSError\<close> of the write.\<close>

definition write_record :: "bool \<Rightarrow> str \<Rightarrow> str \<Rightarrow> tc_payload \<Rightarrow> tc_store \<Rightarrow> tc_store \<times> (exn + task_code_record)" where
  "write_record io operation code_id p st =
     (if io then (st, Inl (TcErr (TaskCodeStoreIO operation)))
      else (st\<lparr>tc_records := dict_set (tc_records st) code_id (TcPayload p)\<rparr>, record_from_payload p))"

definition mark_used ::
  "bool \<Rightarrow> str \<Rightarrow> str \<Rightarrow> int \<Rightarrow> tc_store \<Rightarrow> tc_store \<times> (exn + task_code_record)" where
  "mark_used io code_id job_id used_at st =
     (case bindE (load_record_payload code_id st) (\<lambda>p. bindE (record_from_payload p) (\<lambda>r. Inr (p, r))) of
        Inl e \<Rightarrow> (st, Inl e)
      | Inr (p, r) \<Rightarrow>
          (if stamp_set (tr_used_at r)
           then (if tr_job_id r = Some job_id then (st, Inr r) else (st, Inl (AuthErr TaskCodeRedeemConflict)))
           else write_record io ''mark_used'' code_id
                  (p\<lparr>tp_used_at := Some (IsoTime used_at), tp_job_id := Some job_id\<rparr>) st))"

definition revoke :: "bool \<Rightarrow> str \<Rightarrow> int \<Rightarrow> tc_store \<Rightarrow> tc_store \<times> (exn + task_code_record)" where
  "revoke io code_id revoked_at st =
     (case load_record_payload code_id st of
        Inl e \<Rightarrow> (st, Inl e)
      | Inr p \<Rightarrow> write_record io ''revoke'' code_id (p\<lparr>tp_revoked_at := Some (IsoTime revoked_at)\<rparr>) st)"

datatype tc_fault = TcFine | TcFirstFails | TcSecondFails

definition delete_code :: "tc_fault \<Rightarrow> (str \<Rightarrow> str) \<Rightarrow> str \<Rightarrow> tc_store \<Rightarrow> tc_store \<times> (exn + unit)" where
  "delete_code fault sha256 code_id st =
     (case tc_get code_id st of
        Inl e \<Rightarrow> (st, Inl e)
      | Inr None \<Rightarrow> (st, Inl (TcErr TaskCodeNotFound))
      | Inr (Some r) \<Rightarrow>
          (let st1 = st\<lparr>tc_records := dict_del (tc_records st) code_id\<rparr>;
               st2 = st1\<lparr>tc_by_hash := dict_del (tc_by_hash st1)
                                         (code_hash sha256 (tr_tenant_id r) (tr_task_code r))\<rparr>
           in case fault of
                TcFirstFails \<Rightarrow> (st, Inl (TcErr (TaskCodeStoreIO ''delete'')))
              | TcSecondFails \<Rightarrow> (st1, Inl (TcErr (TaskCodeStoreIO ''delete'')))
              | TcFine \<Rightarrow> (st2, Inr ())))"

definition new_task_code :: "str \<Rightarrow> str" where
  "new_task_code token = ''tc_'' @ token"

definition issue_one ::
  "tc_fault \<Rightarrow> (str \<Rightarrow> str) \<Rightarrow> str \<Rightarrow> str \<Rightarrow> str \<Rightarrow> int \<Rightarrow> int \<Rightarrow> tc_store
   \<Rightarrow> tc_store \<times> (exn + task_code_record)" where
  "issue_one fault sha256 code_id token tenant_id expires_at now st =
     (let task_code = new_task_code token;
          p = \<lparr>tp_code_id = Some code_id, tp_task_code = Some task_code, tp_tenant_id = Some tenant_id,
               tp_created_at = Some (IsoTime now), tp_expires_at = Some (IsoTime expires_at),
               tp_used_at = None, tp_job_id = None, tp_revoked_at = None\<rparr>;
          st1 = st\<lparr>tc_records := dict_set (tc_records st) code_id (TcPayload p)\<rparr>;
          st2 = st1\<lparr>tc_by_hash := dict_set (tc_by_hash st1) (code_hash sha256 tenant_id task_code) (TcIndex code_id)\<rparr>
      in case fault of
           TcFirstFails \<Rightarrow> (st, Inl (TcErr (TaskCodeStoreIO ''issue'')))
         | TcSecondFails \<Rightarrow> (st1, Inl (TcErr (TaskCodeStoreIO ''issue'')))
         | TcFine \<Rightarrow> (st2, record_from_payload p))"

text \<open>\<open>issue_codes\<close>; the list holds the random ids, one pair for each code to issue.\<close>

fun issue_loop ::
  "(str \<Rightarrow> str) \<Rightarrow> (str \<times> str) list \<Rightarrow> str \<Rightarrow> int \<Rightarrow> int \<Rightarrow> tc_store
   \<Rightarrow> tc_store \<times> (exn + task_code_record list)" where
  "issue_loop sha256 [] tenant_id expires_at now st = (st, Inr [])"
| "issue_loop sha256 ((code_id, token) # rest) tenant_id expires_at now st =
     (case issue_one TcFine sha256 code_id token tenant_id expires_at now st of
        (st1, Inl e) \<Rightarrow> (st1, Inl e)
      | (st1, Inr r) \<Rightarrow>
          (case issue_loop sha256 rest tenant_id expires_at now st1 of
             (st2, Inl e) \<Rightarrow> (st2, Inl e)
           | (st2, Inr rs) \<Rightarrow> (st2, Inr (r # rs))))"

definition issue_codes ::
  "(str \<Rightarrow> str) \<Rightarrow> (str \<times> str) list \<Rightarrow> str \<Rightarrow> int \<Rightarrow> int \<Rightarrow> tc_store
   \<Rightarrow> tc_store \<times> (exn + task_code_record list)" where
  "issue_codes sha256 ids tenant_id expires_at now st =
     issue_loop sha256 ids (resolve_tenant tenant_id) expires_at now st"

text \<open>\<open>list_codes\<close> before the final sort: unreadable records are skipped.\<close>

definition readable_records :: "tc_store \<Rightarrow> task_code_record list" where
  "readable_records st =
     concat (map (\<lambda>(code_id, f). case tc_get code_id st of Inr (Some r) \<Rightarrow> [r] | _ \<Rightarrow> []) (tc_records st))"

text \<open>The sort is by the text of \<open>created_at\<close>, newest first, and keeps the order of equal texts.\<close>

definition list_codes :: "(stamp \<Rightarrow> str) \<Rightarrow> str option \<Rightarrow> tc_store \<Rightarrow> task_code_record list" where
  "list_codes text_of tenant_id st =
     rev (sort_key (\<lambda>r. text_of (tr_created_at r))
       (rev (filter (\<lambda>r. case tenant_id of None \<Rightarrow> True | Some t \<Rightarrow> tr_tenant_id r = t) (readable_records st))))"

section \<open>Redemption\<close>

definition TOKEN_TTL_DAYS :: int where
  "TOKEN_TTL_DAYS = 7"

definition TOKEN_PREFIX :: str where
  "TOKEN_PREFIX = ''ssv1''"

record redeem_env =
  rd_now :: int
  rd_sha256 :: "str \<Rightarrow> str"
  rd_secret :: str
  rd_trace_id :: str
  rd_write_fault :: bool

record redeem_result =
  rd_job_id :: str
  rd_token :: str
  rd_expires_at :: int
  rd_is_idempotent :: bool

definition redeem_job_id :: "(str \<Rightarrow> str) \<Rightarrow> str \<Rightarrow> str" where
  "redeem_job_id sha256 task_code = ''job_tc_'' @ take 16 (sha256 task_code)"

definition new_token :: "str \<Rightarrow> str \<Rightarrow> str" where
  "new_token secret job_id = TOKEN_PREFIX @ ''.'' @ job_id @ ''.'' @ secret"

definition token_expires_at :: "int \<Rightarrow> int" where
  "token_expires_at now = now + TOKEN_TTL_DAYS * 86400"

definition new_redeem_job :: "redeem_env \<Rightarrow> str \<Rightarrow> str \<Rightarrow> str \<Rightarrow> str \<Rightarrow> job" where
  "new_redeem_job env tenant_id job_id task_code requirement =
     (new_job tenant_id job_id (rd_now env))
       \<lparr>j_trace_id := Some (rd_trace_id env),
        j_requirement := (if blank requirement then None else Some requirement),
        j_redeem_task_code := Some task_code, j_auth_token := Some (new_token (rd_secret env) job_id),
        j_auth_expires_at := Some (IsoTime (token_expires_at (rd_now env)))\<rparr>"

definition assert_redeemable :: "str \<Rightarrow> job \<Rightarrow> exn + unit" where
  "assert_redeemable task_code job =
     bindE (guardE (j_redeem_task_code job = Some task_code) (AuthErr TaskCodeRedeemConflict)) (\<lambda>_.
       guardE (text_set (j_auth_token job)) (AuthErr TaskCodeRedeemConflict))"

definition load_or_create_job ::
  "redeem_env \<Rightarrow> str \<Rightarrow> str \<Rightarrow> str \<Rightarrow> job_store \<Rightarrow> job_store \<times> (exn + job \<times> bool)" where
  "load_or_create_job env tenant_id task_code requirement s =
     (let job_id = redeem_job_id (rd_sha256 env) task_code
      in case store_load tenant_id job_id s of
           Inr job \<Rightarrow>
             (case assert_redeemable task_code job of Inl e \<Rightarrow> (s, Inl e) | Inr _ \<Rightarrow> (s, Inr (job, True)))
         | Inl e0 \<Rightarrow>
             (if e0 \<noteq> StoreErr JobNotFound then (s, Inl e0)
              else let job = new_redeem_job env tenant_id job_id task_code requirement
                   in case store_create tenant_id job s of
                        (s1, Inr _) \<Rightarrow> (s1, Inr (job, False))
                      | (s1, Inl e) \<Rightarrow>
                          (if e \<noteq> StoreErr JobAlreadyExists then (s1, Inl e)
                           else case store_load tenant_id job_id s1 of
                                  Inl e1 \<Rightarrow> (s1, Inl e1)
                                | Inr existing \<Rightarrow>
                                    (case assert_redeemable task_code existing of
                                       Inl e1 \<Rightarrow> (s1, Inl e1)
                                     | Inr _ \<Rightarrow> (s1, Inr (existing, True))))))"

definition validate_task_code_record :: "int \<Rightarrow> task_code_record option \<Rightarrow> exn + unit" where
  "validate_task_code_record now r =
     (case r of
        None \<Rightarrow> Inr ()
      | Some record \<Rightarrow>
          (case record_status now record of
             CodeRevoked \<Rightarrow> Inl (AuthErr TaskCodeRevoked)
           | CodeExpired \<Rightarrow> Inl (AuthErr TaskCodeExpired)
           | _ \<Rightarrow> Inr ()))"

text \<open>The state of a redemption: the job store and the task codes, \<open>None\<close> where the service has no
  task-code store.\<close>

type_synonym redeem_state = "job_store \<times> tc_store option"

definition load_task_code_record :: "redeem_env \<Rightarrow> str \<Rightarrow> str \<Rightarrow> redeem_state \<Rightarrow> exn + task_code_record option" where
  "load_task_code_record env tenant_id task_code st =
     (case snd st of None \<Rightarrow> Inr None | Some codes \<Rightarrow> find_by_code (rd_sha256 env) tenant_id task_code codes)"

definition note_used ::
  "redeem_env \<Rightarrow> task_code_record option \<Rightarrow> str \<Rightarrow> tc_store option \<Rightarrow> tc_store option \<times> (exn + unit)" where
  "note_used env issued job_id codes =
     (case (issued, codes) of
        (Some r, Some cs) \<Rightarrow>
          (case mark_used (rd_write_fault env) (tr_code_id r) job_id (rd_now env) cs of
             (cs1, Inl e) \<Rightarrow> (Some cs1, Inl e)
           | (cs1, Inr _) \<Rightarrow> (Some cs1, Inr ()))
      | _ \<Rightarrow> (codes, Inr ()))"

definition redeem ::
  "redeem_env \<Rightarrow> str \<Rightarrow> str \<Rightarrow> str \<Rightarrow> redeem_state \<Rightarrow> redeem_state \<times> (exn + redeem_result)" where
  "redeem env tenant_id task_code requirement st =
     (let code = py_strip task_code
      in if code = [] then (st, Inl (AuthErr TaskCodeInvalid))
         else case bindE (load_task_code_record env tenant_id code st) (\<lambda>issued.
                     bindE (validate_task_code_record (rd_now env) issued) (\<lambda>_. Inr issued)) of
                Inl e \<Rightarrow> (st, Inl e)
              | Inr issued \<Rightarrow>
                  (let job_id = redeem_job_id (rd_sha256 env) code;
                       expires_at = token_expires_at (rd_now env)
                   in case load_or_create_job env tenant_id code requirement (fst st) of
                        (s1, Inl e) \<Rightarrow> ((s1, snd st), Inl e)
                      | (s1, Inr (job, idempotent)) \<Rightarrow>
                          (case note_used env issued job_id (snd st) of
                             (cs, Inl e) \<Rightarrow> ((s1, cs), Inl e)
                           | (cs, Inr _) \<Rightarrow>
                               (let res = \<lparr>rd_job_id = job_id,
                                           rd_token = (case j_auth_token job of None \<Rightarrow> ''None'' | Some t \<Rightarrow> t),
                                           rd_expires_at = expires_at, rd_is_idempotent = idempotent\<rparr>
                                in if idempotent
                                   then case store_save tenant_id (job\<lparr>j_auth_expires_at := Some (IsoTime expires_at)\<rparr>) s1 of
                                          (s2, Inl e) \<Rightarrow> ((s2, cs), Inl e)
                                        | (s2, Inr _) \<Rightarrow> ((s2, cs), Inr res)
                                   else ((s1, cs), Inr res)))))"

end
