(* ===== verification/TaskCodeLaws.thy ===== *)
theory TaskCodeLaws
  imports TaskCodes
begin

text \<open>
  What task codes guarantee: an issued code is found, a revoked or expired one is refused without a
  trace, redeeming twice gives the same job and token, and redemption is a safe step of the job store.
\<close>

section \<open>The store keeps every record under its own id\<close>

definition tc_wf :: "tc_store \<Rightarrow> bool" where
  "tc_wf st = (\<forall>k p. dict_get (tc_records st) k = Some (TcPayload p) \<longrightarrow> tp_code_id p = Some k)"

lemma tc_wfD: "tc_wf st \<Longrightarrow> dict_get (tc_records st) k = Some (TcPayload p) \<Longrightarrow> tp_code_id p = Some k"
  by (simp add: tc_wf_def)

lemma load_payload_iff:
  "load_record_payload k st = Inr p \<longleftrightarrow> dict_get (tc_records st) k = Some (TcPayload p)"
  by (auto simp: load_record_payload_def split: option.split tc_file.split)

lemma tc_get_iff:
  "tc_get k st = Inr (Some r) \<longleftrightarrow>
     (\<exists>p. dict_get (tc_records st) k = Some (TcPayload p) \<and> record_from_payload p = Inr r)"
  by (auto simp: tc_get_def bindE_Inr_iff load_payload_iff)

lemma from_payload_fields:
  assumes "record_from_payload p = Inr r"
  shows "tp_code_id p = Some (tr_code_id r)" "tp_tenant_id p = Some (tr_tenant_id r)"
    "tp_task_code p = Some (tr_task_code r)" "tr_used_at r = tp_used_at p" "tr_revoked_at r = tp_revoked_at p"
    "tr_job_id r = tp_job_id p" "tp_expires_at p = Some (tr_expires_at r)" "tp_created_at p = Some (tr_created_at r)"
  using assms by (auto simp: record_from_payload_def text_set_def stamp_set_def split: if_splits option.splits)

lemma tc_wf_set: "tc_wf st \<Longrightarrow> tp_code_id p = Some k \<Longrightarrow> tc_wf (st\<lparr>tc_records := dict_set (tc_records st) k (TcPayload p)\<rparr>)"
  by (auto simp: tc_wf_def)

lemma mark_used_wf:
  assumes wf: "tc_wf st" and r: "mark_used io k j u st = (st', r)"
  shows "tc_wf st'"
  using assms tc_wf_set[OF wf, of _ k] tc_wfD[OF wf, of k]
  by (auto simp: mark_used_def write_record_def bindE_Inr_iff load_payload_iff
      split: sum.split_asm prod.split_asm if_split_asm)

lemma revoke_wf:
  assumes wf: "tc_wf st" and r: "revoke io k u st = (st', r)"
  shows "tc_wf st'"
  using assms tc_wf_set[OF wf, of _ k] tc_wfD[OF wf, of k]
  by (auto simp: revoke_def write_record_def load_payload_iff split: sum.split_asm if_split_asm)

lemma issue_one_wf:
  assumes "tc_wf st" "issue_one fault sha k tok t e n st = (st', r)"
  shows "tc_wf st'"
  using assms by (auto simp: issue_one_def Let_def tc_wf_def split: tc_fault.split_asm if_split_asm)

section \<open>Issuing and finding\<close>

lemma issue_one_fine:
  assumes "\<not> blank k" "\<not> blank t"
  shows "\<exists>r. snd (issue_one TcFine sha k tok t e n st) = Inr r \<and> tr_code_id r = k \<and>
           tr_task_code r = new_task_code tok \<and> tr_tenant_id r = t \<and> tr_expires_at r = IsoTime e \<and>
           tr_used_at r = None \<and> tr_revoked_at r = None"
proof -
  have "\<not> blank (new_task_code tok)" by (simp add: new_task_code_def blank_iff py_isspace_def)
  with assms show ?thesis
    by (simp add: issue_one_def Let_def record_from_payload_def text_set_def stamp_set_def)
qed

text \<open>A code just issued is found by its text, as the record that was returned, and is
  unused until it expires, and expired from then on.\<close>

theorem issued_code_is_found:
  assumes k: "\<not> blank k" "py_strip k = k" and t: "\<not> blank t"
    and i: "issue_one TcFine sha k tok t e n st = (st', Inr r)"
  shows "find_by_code sha t (tr_task_code r) st' = Inr (Some r) \<and>
         record_status now r = (if now < e then CodeUnused else CodeExpired)"
proof -
  obtain r' where r': "snd (issue_one TcFine sha k tok t e n st) = Inr r'" "tr_code_id r' = k"
      "tr_task_code r' = new_task_code tok" "tr_tenant_id r' = t" "tr_expires_at r' = IsoTime e"
      "tr_used_at r' = None" "tr_revoked_at r' = None"
    using issue_one_fine[OF k(1) t] by blast
  with i have rr: "r' = r" by simp
  have "k \<noteq> []" using k(1) by auto
  have res: "resolve_tenant t = t" using t by (simp add: resolve_tenant_def)
  from i have st': "dict_get (tc_by_hash st') (code_hash sha t (new_task_code tok)) = Some (TcIndex k)"
    by (auto simp: issue_one_def Let_def)
  from i obtain p where p: "dict_get (tc_records st') k = Some (TcPayload p)" "record_from_payload p = Inr r"
    by (auto simp: issue_one_def Let_def)
  have "tc_get k st' = Inr (Some r)" using p by (auto simp: tc_get_iff)
  with st' res k \<open>k \<noteq> []\<close> r' rr show ?thesis
    by (simp add: find_by_code_def record_status_def stamp_set_def)
qed

section \<open>Refusal\<close>

text \<open>A revoked or expired code is refused: no job is created, no token renewed, nothing
  written.\<close>

theorem refused_code_changes_nothing:
  assumes "py_strip code \<noteq> []" "find_by_code (rd_sha256 env) t (py_strip code) codes = Inr (Some r)"
    and "record_status (rd_now env) r \<in> {CodeRevoked, CodeExpired}"
  shows "redeem env t code req (s, Some codes) =
     ((s, Some codes), Inl (AuthErr (if record_status (rd_now env) r = CodeRevoked then TaskCodeRevoked else TaskCodeExpired)))"
  using assms by (auto simp: redeem_def load_task_code_record_def validate_task_code_record_def)

section \<open>Redeeming\<close>

definition store_ids_ok :: "job_store \<Rightarrow> bool" where
  "store_ids_ok s =
     (\<forall>t j job. s (t, j) = Some (JobFile job) \<longrightarrow> j_tenant_id job = t \<and> j_job_id job = j \<and>
        j_schema_version job = JOB_SCHEMA_VERSION_CURRENT \<and> check_job_ids t j = Inr ())"

lemma new_token_set: "text_set (Some (new_token secret j))"
  by (simp add: text_set_def new_token_def TOKEN_PREFIX_def blank_iff py_isspace_def)

lemma load_or_create_new:
  assumes "load_or_create_job env t code req s = (s', Inr (job, False))"
  shows "\<exists>j. j = redeem_job_id (rd_sha256 env) code \<and> job = new_redeem_job env t j code req \<and>
           s (t, j) = None \<and> check_job_ids t j = Inr () \<and> s' = s((t, j) \<mapsto> JobFile job)"
proof -
  let ?j = "redeem_job_id (rd_sha256 env) code"
  let ?job = "new_redeem_job env t ?j code req"
  have id: "j_job_id ?job = ?j" by (simp add: new_redeem_job_def new_job_def)
  from assms have l: "store_load t ?j s = Inl (StoreErr JobNotFound)"
    by (auto simp: load_or_create_job_def Let_def split: sum.split_asm if_split_asm)
  from assms l have c: "store_create t ?job s = (s', Inr ())" "job = ?job"
    by (auto simp: load_or_create_job_def Let_def split: sum.split_asm if_split_asm prod.split_asm)
  with id show ?thesis
    by (auto simp: store_create_def corrupted_def split: sum.split_asm if_split_asm)
qed

lemma load_or_create_existing:
  assumes "load_or_create_job env t code req s = (s', Inr (job, True))"
  shows "s' = s \<and> store_load t (redeem_job_id (rd_sha256 env) code) s = Inr job \<and> assert_redeemable code job = Inr ()"
proof -
  let ?j = "redeem_job_id (rd_sha256 env) code"
  let ?job = "new_redeem_job env t ?j code req"
  show ?thesis
  proof (cases "store_load t ?j s")
    case (Inr job')
    with assms show ?thesis by (auto simp: load_or_create_job_def Let_def split: sum.split_asm)
  next
    case (Inl e)
    have id: "j_job_id ?job = ?j" by (simp add: new_redeem_job_def new_job_def)
    from assms Inl have nf: "store_load t ?j s = Inl (StoreErr JobNotFound)"
      by (auto simp: load_or_create_job_def Let_def split: if_split_asm)
    then have "s (t, ?j) = None"
      by (auto simp: store_load_def check_job_ids_def corrupted_def split: if_split_asm option.split_asm job_file.split_asm)
    then have "\<exists>x. store_create t ?job s = x \<and> (snd x = Inl (StoreErr JobAlreadyExists) \<longrightarrow> False)"
      by (auto simp: store_create_def id check_job_ids_def corrupted_def split: sum.split)
    with assms nf show ?thesis
      by (auto simp: load_or_create_job_def Let_def split: sum.split_asm if_split_asm prod.split_asm)
  qed
qed

lemma load_or_create_cases:
  assumes "load_or_create_job env t code req s = (s', r)"
  shows "s' = s \<or> (\<exists>job. r = Inr (job, False))"
proof -
  let ?j = "redeem_job_id (rd_sha256 env) code"
  let ?job = "new_redeem_job env t ?j code req"
  obtain s1 x where c: "store_create t ?job s = (s1, x)" by (cases "store_create t ?job s")
  have "s1 = s" if "x = Inl e" for e
    using c that by (auto simp: store_create_def split: sum.split_asm if_split_asm)
  with assms c show ?thesis
    by (auto simp: load_or_create_job_def Let_def split: sum.split_asm if_split_asm)
qed

text \<open>The steps of a successful redemption.\<close>

lemma redeem_success:
  assumes "redeem env t code req (s, codes) = ((s', codes'), Inr res)"
  obtains issued s1 job idem where
    "py_strip code \<noteq> []" "load_task_code_record env t (py_strip code) (s, codes) = Inr issued"
    "validate_task_code_record (rd_now env) issued = Inr ()"
    "load_or_create_job env t (py_strip code) req s = (s1, Inr (job, idem))"
    "note_used env issued (redeem_job_id (rd_sha256 env) (py_strip code)) codes = (codes', Inr ())"
    "res = \<lparr>rd_job_id = redeem_job_id (rd_sha256 env) (py_strip code),
            rd_token = (case j_auth_token job of None \<Rightarrow> ''None'' | Some t \<Rightarrow> t),
            rd_expires_at = token_expires_at (rd_now env), rd_is_idempotent = idem\<rparr>"
    "if idem then \<exists>job'. store_save t (job\<lparr>j_auth_expires_at := Some (IsoTime (token_expires_at (rd_now env)))\<rparr>) s1
                     = (s', Inr job') else s' = s1"
proof -
  have "py_strip code \<noteq> []" using assms by (auto simp: redeem_def)
  obtain issued where i: "load_task_code_record env t (py_strip code) (s, codes) = Inr issued"
      "validate_task_code_record (rd_now env) issued = Inr ()"
    using assms by (auto simp: redeem_def bindE_Inr_iff Let_def split: if_split_asm sum.split_asm)
  obtain s1 job idem where l: "load_or_create_job env t (py_strip code) req s = (s1, Inr (job, idem))"
    using assms i by (auto simp: redeem_def Let_def split: if_split_asm sum.split_asm prod.split_asm)
  obtain cs u where n: "note_used env issued (redeem_job_id (rd_sha256 env) (py_strip code)) codes = (cs, Inr u)"
    using assms i l by (auto simp: redeem_def Let_def split: if_split_asm sum.split_asm prod.split_asm)
  show thesis
    by (rule that[of issued s1 job idem])
       (use assms i l n \<open>py_strip code \<noteq> []\<close> in
        \<open>auto simp: redeem_def Let_def split: if_split_asm sum.split_asm prod.split_asm\<close>)
qed

lemma redeemI:
  assumes "py_strip code \<noteq> []" "load_task_code_record env t (py_strip code) (s, codes) = Inr issued"
    "validate_task_code_record (rd_now env) issued = Inr ()"
    "load_or_create_job env t (py_strip code) req s = (s, Inr (job, True))"
    "note_used env issued (redeem_job_id (rd_sha256 env) (py_strip code)) codes = (codes, Inr ())"
    "store_save t (job\<lparr>j_auth_expires_at := Some (IsoTime (token_expires_at (rd_now env)))\<rparr>) s = (s2, Inr job2)"
  shows "redeem env t code req (s, codes) =
     ((s2, codes), Inr \<lparr>rd_job_id = redeem_job_id (rd_sha256 env) (py_strip code),
            rd_token = (case j_auth_token job of None \<Rightarrow> ''None'' | Some t \<Rightarrow> t),
            rd_expires_at = token_expires_at (rd_now env), rd_is_idempotent = True\<rparr>)"
  using assms by (simp add: redeem_def Let_def)

text \<open>After a redemption the record of the code says USED for this job.\<close>

definition used_by :: "str \<Rightarrow> task_code_record \<Rightarrow> bool" where
  "used_by job_id r = (stamp_set (tr_used_at r) \<and> \<not> stamp_set (tr_revoked_at r) \<and> tr_job_id r = Some job_id)"

lemma note_used_marks:
  assumes wf: "tc_wf cs" and f: "find_by_code sha t code cs = Inr (Some r)"
    and v: "\<not> stamp_set (tr_revoked_at r)"
    and n: "note_used env (Some r) j (Some cs) = (codes', Inr ())"
  shows "\<exists>cs' r'. codes' = Some cs' \<and> find_by_code sha t code cs' = Inr (Some r') \<and> used_by j r' \<and>
           mark_used io (tr_code_id r') j u cs' = (cs', Inr r')"
proof -
  from f obtain val where ix: "dict_get (tc_by_hash cs) (code_hash sha (resolve_tenant t) code) = Some (TcIndex val)"
      "py_strip val \<noteq> []" "tc_get (py_strip val) cs = Inr (Some r)" "tr_tenant_id r = resolve_tenant t"
    by (auto simp: find_by_code_def Let_def bindE_Inr_iff split: option.split_asm tc_index.split_asm if_split_asm)
  then obtain p where p: "dict_get (tc_records cs) (py_strip val) = Some (TcPayload p)" "record_from_payload p = Inr r"
    by (auto simp: tc_get_iff)
  have k: "tr_code_id r = py_strip val" using tc_wfD[OF wf p(1)] from_payload_fields(1)[OF p(2)] by simp
  have load: "load_record_payload (tr_code_id r) cs = Inr p" using p(1) k by (simp add: load_payload_iff)
  show ?thesis
  proof (cases "stamp_set (tr_used_at r)")
    case True
    with n load p(2) have j: "tr_job_id r = Some j" "codes' = Some cs"
      by (auto simp: note_used_def mark_used_def split: if_split_asm)
    with True load p(2) have "mark_used io (tr_code_id r) j u cs = (cs, Inr r)" by (simp add: mark_used_def)
    with True j v f show ?thesis by (auto simp: used_by_def)
  next
    case False
    define p' where "p' = p\<lparr>tp_used_at := Some (IsoTime (rd_now env)), tp_job_id := Some j\<rparr>"
    define cs' where "cs' = cs\<lparr>tc_records := dict_set (tc_records cs) (tr_code_id r) (TcPayload p')\<rparr>"
    from n False load p(2) have c': "codes' = Some cs'"
      by (auto simp: note_used_def mark_used_def write_record_def p'_def cs'_def split: if_split_asm sum.split_asm)
    obtain r' where r': "record_from_payload p' = Inr r'"
      using p(2) by (auto simp: record_from_payload_def p'_def split: if_split_asm)
    note F = from_payload_fields[OF r'] from_payload_fields[OF p(2)]
    have u': "used_by j r'" using F v by (simp add: used_by_def p'_def stamp_set_def)
    have k': "tr_code_id r' = tr_code_id r" using F by (simp add: p'_def)
    have "tc_get (py_strip val) cs' = Inr (Some r')" using r' k by (simp add: tc_get_iff cs'_def)
    moreover have "tr_tenant_id r' = resolve_tenant t" using F ix(4) by (simp add: p'_def)
    ultimately have "find_by_code sha t code cs' = Inr (Some r')"
      using ix(1,2) by (simp add: find_by_code_def cs'_def)
    moreover have "mark_used io (tr_code_id r') j u cs' = (cs', Inr r')"
      using u' r' k' by (simp add: mark_used_def load_record_payload_def cs'_def used_by_def)
    ultimately show ?thesis using c' u' by blast
  qed
qed

lemma issued_again:
  assumes wf: "pred_option tc_wf codes" and same: "rd_sha256 env2 = rd_sha256 env1"
    and i: "load_task_code_record env1 t code (s, codes) = Inr issued"
    and v: "validate_task_code_record (rd_now env1) issued = Inr ()"
    and n: "note_used env1 issued j codes = (codes', Inr ())"
  shows "\<exists>issued'. load_task_code_record env2 t code (s', codes') = Inr issued' \<and>
           validate_task_code_record (rd_now env2) issued' = Inr () \<and> note_used env2 issued' j codes' = (codes', Inr ())"
proof (cases issued)
  case None
  with n have "codes' = codes" by (auto simp: note_used_def split: option.split_asm)
  with i None same show ?thesis
    by (intro exI[of _ None])
       (auto simp: load_task_code_record_def validate_task_code_record_def note_used_def split: option.splits)
next
  case (Some r)
  with i obtain cs where cs: "codes = Some cs" "find_by_code (rd_sha256 env1) t code cs = Inr (Some r)"
    by (auto simp: load_task_code_record_def split: option.split_asm)
  have nr: "\<not> stamp_set (tr_revoked_at r)"
    using v Some by (auto simp: validate_task_code_record_def record_status_def)
  have "tc_wf cs" using wf cs(1) by simp
  from note_used_marks[OF this cs(2) nr, of env1 j codes' "rd_write_fault env2" "rd_now env2"] n Some cs(1)
  obtain cs' r' where R: "codes' = Some cs'" "find_by_code (rd_sha256 env1) t code cs' = Inr (Some r')"
      "used_by j r'" "mark_used (rd_write_fault env2) (tr_code_id r') j (rd_now env2) cs' = (cs', Inr r')"
    by auto
  then show ?thesis
    using same by (intro exI[of _ "Some r'"])
      (auto simp: load_task_code_record_def validate_task_code_record_def note_used_def record_status_def used_by_def)
qed

text \<open>After a redemption the job of the code is stored with the token and the expiry of the answer.\<close>

lemma redeemed_job_stored:
  assumes ids: "store_ids_ok s" and r: "redeem env t code req (s, codes) = ((s1, codes1), Inr res)"
  shows "\<exists>job. store_load t (rd_job_id res) s1 = Inr job \<and> assert_redeemable (py_strip code) job = Inr () \<and>
     j_auth_token job = Some (rd_token res) \<and> j_auth_expires_at job = Some (IsoTime (rd_expires_at res)) \<and>
     j_job_id job = rd_job_id res \<and> j_schema_version job = JOB_SCHEMA_VERSION_CURRENT"
proof -
  let ?c = "py_strip code"
  let ?j = "redeem_job_id (rd_sha256 env) ?c"
  obtain issued s0 job idem where R: "load_or_create_job env t ?c req s = (s0, Inr (job, idem))"
    "res = \<lparr>rd_job_id = ?j, rd_token = (case j_auth_token job of None \<Rightarrow> ''None'' | Some t \<Rightarrow> t),
            rd_expires_at = token_expires_at (rd_now env), rd_is_idempotent = idem\<rparr>"
    "if idem then \<exists>job'. store_save t (job\<lparr>j_auth_expires_at := Some (IsoTime (token_expires_at (rd_now env)))\<rparr>) s0
                     = (s1, Inr job') else s1 = s0"
    by (rule redeem_success[OF r]) blast
  show ?thesis
  proof (cases idem)
    case True
    have E: "s0 = s" "store_load t ?j s = Inr job" "assert_redeemable ?c job = Inr ()"
      using load_or_create_existing[of env t ?c req s s0 job] R(1) True by simp_all
    then have f: "s (t, ?j) = Some (JobFile job)" "check_job_ids t ?j = Inr ()" by (simp_all add: store_load_JobFile)
    with ids have id: "j_job_id job = ?j" "j_schema_version job = JOB_SCHEMA_VERSION_CURRENT"
      by (auto simp: store_ids_ok_def)
    obtain job' where "store_save t (job\<lparr>j_auth_expires_at := Some (IsoTime (token_expires_at (rd_now env)))\<rparr>) s
        = (s1, Inr job')" using R(3) True E(1) by auto
    then have "s1 (t, ?j) = Some (JobFile (job\<lparr>j_auth_expires_at := Some (IsoTime (token_expires_at (rd_now env))),
        j_version := j_version job + 1\<rparr>))"
      by (auto simp: store_save_Inr id)
    with f id E(3) R(2) show ?thesis
      by (auto simp: store_load_JobFile assert_redeemable_def text_set_def bindE_Inr_iff split: option.splits)
  next
    case False
    have "job = new_redeem_job env t ?j ?c req" "check_job_ids t ?j = Inr ()" "s1 (t, ?j) = Some (JobFile job)"
      using load_or_create_new[of env t ?c req s s0 job] R(1,3) False by auto
    then show ?thesis
      using new_token_set R(2) by (simp add: store_load_JobFile assert_redeemable_def new_redeem_job_def new_job_def)
  qed
qed

text \<open>C11 (functional) Redeeming is idempotent: a second redemption of the same code, at any later time
  and with any requirement, even after the code has expired, succeeds and returns the same job and token,
  flagged as idempotent, with the expiry counted from the second call; the task-code store is unchanged.\<close>

theorem redeem_is_idempotent:
  assumes wf: "pred_option tc_wf codes" and ids: "store_ids_ok s" and same: "rd_sha256 env2 = rd_sha256 env1"
    and r: "redeem env1 t code req1 (s, codes) = ((s1, codes1), Inr res)"
  shows "\<exists>s2. redeem env2 t code req2 (s1, codes1) =
     ((s2, codes1), Inr (res\<lparr>rd_expires_at := token_expires_at (rd_now env2), rd_is_idempotent := True\<rparr>))"
proof -
  let ?c = "py_strip code"
  let ?j = "redeem_job_id (rd_sha256 env1) ?c"
  obtain issued s0 job idem where R: "?c \<noteq> []" "load_task_code_record env1 t ?c (s, codes) = Inr issued"
    "validate_task_code_record (rd_now env1) issued = Inr ()"
    "load_or_create_job env1 t ?c req1 s = (s0, Inr (job, idem))"
    "note_used env1 issued ?j codes = (codes1, Inr ())"
    "res = \<lparr>rd_job_id = ?j, rd_token = (case j_auth_token job of None \<Rightarrow> ''None'' | Some t \<Rightarrow> t),
            rd_expires_at = token_expires_at (rd_now env1), rd_is_idempotent = idem\<rparr>"
    "if idem then \<exists>job'. store_save t (job\<lparr>j_auth_expires_at := Some (IsoTime (token_expires_at (rd_now env1)))\<rparr>) s0
                     = (s1, Inr job') else s1 = s0"
    by (rule redeem_success[OF r])
  obtain issued' where I: "load_task_code_record env2 t ?c (s1, codes1) = Inr issued'"
      "validate_task_code_record (rd_now env2) issued' = Inr ()" "note_used env2 issued' ?j codes1 = (codes1, Inr ())"
    using issued_again[OF wf same R(2,3,5)] by blast
  obtain job1 where J: "store_load t ?j s1 = Inr job1" "assert_redeemable ?c job1 = Inr ()"
      "j_auth_token job1 = Some (rd_token res)" "j_job_id job1 = ?j" "j_schema_version job1 = JOB_SCHEMA_VERSION_CURRENT"
    using redeemed_job_stored[OF ids r] R(6) by auto
  have L: "load_or_create_job env2 t ?c req2 s1 = (s1, Inr (job1, True))"
    using J same by (simp add: load_or_create_job_def)
  have "\<exists>s2 job2. store_save t (job1\<lparr>j_auth_expires_at := Some (IsoTime (token_expires_at (rd_now env2)))\<rparr>) s1 = (s2, Inr job2)"
    using J by (auto simp: store_save_Inr store_load_JobFile)
  then obtain s2 job2 where S: "store_save t (job1\<lparr>j_auth_expires_at := Some (IsoTime (token_expires_at (rd_now env2)))\<rparr>) s1 = (s2, Inr job2)"
    by blast
  show ?thesis
    using redeemI[OF R(1) I(1,2) L _ S] I(3) J(3) R(6) same by simp
qed

section \<open>Redemption as a step of the job store\<close>

lemma redeem_step:
  assumes ok: "world_ok w" and r: "redeem env t code req (w_store w, codes) = ((s, codes'), res)"
  shows "safe_step w (w\<lparr>w_store := s\<rparr>)"
proof -
  let ?c = "py_strip code"
  let ?j = "redeem_job_id (rd_sha256 env) ?c"
  obtain s1 x where l: "load_or_create_job env t ?c req (w_store w) = (s1, x)"
    by (cases "load_or_create_job env t ?c req (w_store w)")
  have S1: "safe_step w (w\<lparr>w_store := s1\<rparr>)"
  proof (cases "\<exists>job. x = Inr (job, False)")
    case True
    then obtain job where "x = Inr (job, False)" by blast
    with load_or_create_new l have N: "job = new_redeem_job env t ?j ?c req" "check_job_ids t ?j = Inr ()"
        "w_store w (t, ?j) = None" "s1 = (w_store w)((t, ?j) \<mapsto> JobFile job)" by auto
    have id: "j_tenant_id job = t" "j_job_id job = ?j" "j_schema_version job = JOB_SCHEMA_VERSION_CURRENT"
        "\<not> in_flight (j_status job)"
      by (simp_all add: N(1) new_redeem_job_def new_job_def in_flight_def)
    have "world_ok (w\<lparr>w_store := s1\<rparr>)" unfolding N(4) by (rule world_ok_write[OF ok id(1-3) N(2)]) (use id in simp)
    then show ?thesis using N(3,4) by (auto simp: safe_step_def store_evolves_def)
  next
    case False
    then have "s1 = w_store w" using load_or_create_cases[OF l] by blast
    with ok show ?thesis by (simp add: safe_step_refl)
  qed
  have S2: "safe_step w (w\<lparr>w_store := s2\<rparr>)"
    if x: "x = Inr (job, True)" and sv: "store_save t (job\<lparr>j_auth_expires_at := e\<rparr>) s1 = (s2, y)" for job e s2 y
  proof -
    have E: "s1 = w_store w" "store_load t ?j (w_store w) = Inr job"
      using load_or_create_existing[of env t ?c req "w_store w" s1 job] l x by auto
    show ?thesis by (rule resave_step[OF ok E(2), of "job\<lparr>j_auth_expires_at := e\<rparr>"]) (use sv E in auto)
  qed
  have "s = w_store w \<or> s = s1 \<or>
      (\<exists>job e s2 y. x = Inr (job, True) \<and> store_save t (job\<lparr>j_auth_expires_at := e\<rparr>) s1 = (s2, y) \<and> s = s2)"
    using r l unfolding redeem_def Let_def
    by (auto split: if_split_asm sum.split_asm prod.split_asm)
  with S1 S2 safe_step_refl[OF ok] show ?thesis by auto
qed

section \<open>Deleted codes\<close>

definition sample_redeem :: "int \<Rightarrow> redeem_env" where
  "sample_redeem now = \<lparr>rd_now = now, rd_sha256 = (\<lambda>s. s @ ''0123456789abcdef''), rd_secret = ''s'',
     rd_trace_id = ''trace'', rd_write_fault = False\<rparr>"

definition issued_store :: tc_store where
  "issued_store = fst (issue_codes (rd_sha256 (sample_redeem 0)) [(''id1'', ''aa'')] ''acme'' 100 0 empty_tc_store)"

text \<open>A revoked code is refused, but once its record is deleted it is accepted again: the
  service takes a code it does not know as valid and creates a job and a token for it.\<close>

theorem deleted_code_redeems:
  shows "let sha = rd_sha256 (sample_redeem 0);
             revoked = fst (revoke False ''id1'' 5 issued_store);
             deleted = fst (delete_code TcFine sha ''id1'' revoked);
             refused = redeem (sample_redeem 6) ''acme'' ''tc_aa'' [] (Map.empty, Some revoked);
             accepted = redeem (sample_redeem 7) ''acme'' ''tc_aa'' [] (Map.empty, Some deleted)
         in snd refused = Inl (AuthErr TaskCodeRevoked) \<and>
            snd accepted = Inr \<lparr>rd_job_id = ''job_tc_tc_aa0123456789a'',
                                rd_token = ''ssv1.job_tc_tc_aa0123456789a.s'', rd_expires_at = 604807,
                                rd_is_idempotent = False\<rparr> \<and>
            fst (fst accepted) (''acme'', ''job_tc_tc_aa0123456789a'') \<noteq> None"
  by code_simp

section \<open>Concrete runs\<close>

lemma redeem_is_idempotent_witness:
  "\<exists>s2. redeem (sample_redeem 900) ''acme'' ''tc_aa'' ''other''
        (fst (redeem (sample_redeem 6) ''acme'' ''tc_aa'' ''r'' (Map.empty, Some issued_store))) =
     ((s2, snd (fst (redeem (sample_redeem 6) ''acme'' ''tc_aa'' ''r'' (Map.empty, Some issued_store)))),
      Inr (projr (snd (redeem (sample_redeem 6) ''acme'' ''tc_aa'' ''r'' (Map.empty, Some issued_store)))
             \<lparr>rd_expires_at := token_expires_at (rd_now (sample_redeem 900)), rd_is_idempotent := True\<rparr>))"
proof -
  let ?x = "redeem (sample_redeem 6) ''acme'' ''tc_aa'' ''r'' (Map.empty, Some issued_store)"
  have "snd ?x = Inr (projr (snd ?x))" by code_simp
  then have x: "?x = ((fst (fst ?x), snd (fst ?x)), Inr (projr (snd ?x)))" by (simp add: prod_eq_iff)
  have st: "issued_store = empty_tc_store
      \<lparr>tc_records := [(''id1'', TcPayload \<lparr>tp_code_id = Some ''id1'', tp_task_code = Some ''tc_aa'',
          tp_tenant_id = Some ''acme'', tp_created_at = Some (IsoTime 0), tp_expires_at = Some (IsoTime 100),
          tp_used_at = None, tp_job_id = None, tp_revoked_at = None\<rparr>)],
       tc_by_hash := [(''acme:tc_aa0123456789abcdef'', TcIndex ''id1'')]\<rparr>" by code_simp
  have wf: "pred_option tc_wf (Some issued_store)" by (simp add: st tc_wf_def)
  have ids: "store_ids_ok Map.empty" by (simp add: store_ids_ok_def)
  have same: "rd_sha256 (sample_redeem 900) = rd_sha256 (sample_redeem 6)" by (simp add: sample_redeem_def)
  from redeem_is_idempotent[OF wf ids same x] show ?thesis by simp
qed

end
