(* ===== verification/WorkerSystem.thy ===== *)
theory WorkerSystem
  imports WorkerRuns DraftServiceLaws TaskCodeLaws
begin

text \<open>
  The whole system: any number of API processes and workers over one job store and one queue. A step is
  one operation of a service, one save of a job whose identity and status are as it was loaded (uploads,
  template selection), or one \<open>process_next\<close> of a worker, during which others may take any number of steps.
\<close>

section \<open>Systems whose steps are safe\<close>

locale safe_system =
  fixes inv :: "'s \<Rightarrow> bool" and safe :: "'s \<Rightarrow> 's \<Rightarrow> bool" and step :: "'s \<Rightarrow> 's \<Rightarrow> bool"
  assumes safe_refl: "inv s \<Longrightarrow> safe s s"
    and safe_trans: "safe s1 s2 \<Longrightarrow> safe s2 s3 \<Longrightarrow> safe s1 s3"
    and safe_inv: "safe s s' \<Longrightarrow> inv s'"
    and step_safe: "step s s' \<Longrightarrow> inv s \<Longrightarrow> safe s s'"
begin

lemma runs_safe: "step\<^sup>*\<^sup>* s s' \<Longrightarrow> inv s \<Longrightarrow> safe s s'"
  by (induction rule: rtranclp_induct) (auto intro: safe_refl safe_trans dest: safe_inv step_safe)

lemma reachable_inv: "step\<^sup>*\<^sup>* s s' \<Longrightarrow> inv s \<Longrightarrow> inv s'"
  using runs_safe safe_inv by blast

end

section \<open>The steps\<close>

definition empty_world :: world where
  "empty_world = \<lparr>w_store = Map.empty, w_queue = empty_queue, w_plans = Map.empty, w_audit = []\<rparr>"

inductive system_step :: "world \<Rightarrow> world \<Rightarrow> bool" where
  create: "system_step w (fst (create_job env t req fp rv w))"
| run: "sv_fault env = EnqueueOk \<Longrightarrow> system_step w (fst (trigger_run env t j rr w))"
| confirm: "sv_fault env = EnqueueOk \<Longrightarrow> system_step w (fst (confirm_job env t j confirmed rr w))"
| freeze: "system_step w (fst (freeze_plan penv t j c w))"
| patch: "system_step w (fst (patch_v1 denv t j upd w))"
| preview: "system_step w (fst (preview denv t j w))"
| preview_v1: "(\<And>f t j v. dr_select_template denv = Some f \<Longrightarrow> system_step\<^sup>*\<^sup>* v (fst (f t j v))) \<Longrightarrow>
    system_step w (fst (preview_v1 denv t j w))"
| inputs: "system_step w (fst (update_job_inputs t j p fp w))"
| redeem: "redeem renv t code req (w_store w, codes) = ((s, codes'), r) \<Longrightarrow> system_step w (w\<lparr>w_store := s\<rparr>)"
| resave: "store_load t j (w_store w) = Inr job \<Longrightarrow> j_tenant_id job' = j_tenant_id job \<Longrightarrow> j_job_id job' = j_job_id job \<Longrightarrow>
    j_status job' = j_status job \<Longrightarrow> store_save t job' (w_store w) = (s, r) \<Longrightarrow> system_step w (w\<lparr>w_store := s\<rparr>)"
| work: "(\<And>a v. system_step\<^sup>*\<^sup>* v (wk_during_run wenv a v)) \<Longrightarrow>
    (\<And>a v. system_step\<^sup>*\<^sup>* v (wk_during_sleep wenv a v)) \<Longrightarrow>
    wk_queue_io wenv = no_faults \<Longrightarrow> claim_id_ok claim_id \<Longrightarrow> worker_id \<noteq> [] \<Longrightarrow>
    system_step w (fst (process_next wenv now ttl worker_id claim_id w))"

lemma runs_of_safe_steps:
  "(\<lambda>x y. system_step x y \<and> (world_ok x \<longrightarrow> safe_step x y))\<^sup>*\<^sup>* v v' \<Longrightarrow> world_ok v \<Longrightarrow> safe_step v v'"
proof (induction rule: rtranclp_induct)
  case base
  then show ?case by (rule safe_step_refl)
next
  case (step y z)
  then have "safe_step v y" by blast
  moreover have "safe_step y z" using step calculation by (auto simp: safe_step_def)
  ultimately show ?case by (rule safe_step_trans)
qed

lemma system_step_safe: "system_step w w' \<Longrightarrow> world_ok w \<Longrightarrow> safe_step w w'"
proof (induction rule: system_step.induct)
  case (create w env t req fp rv)
  show ?case
    using create_job_ok[OF create] create_job_evolves by (metis safe_step_def surjective_pairing)
next
  case (preview_v1 denv w t j)
  have "select_ok denv"
    unfolding select_ok_def using preview_v1(1) runs_of_safe_steps by (auto split: option.split)
  with preview_v1(2) show ?case by (intro preview_v1_step)
next
  case (work wenv claim_id worker_id w now ttl)
  have "rely_ok wenv" unfolding rely_ok_def using work(1,2) runs_of_safe_steps by blast
  with work show ?case by (intro process_next_step)
next
  case (redeem renv t code req w codes s codes' r)
  then show ?case by (intro redeem_step)
next
  case (resave t j w job job' s r)
  then show ?case by (intro resave_step) auto
qed (simp_all add: service_steps freeze_plan_step patch_v1_step preview_step update_job_inputs_step)

interpretation sys: safe_system world_ok safe_step system_step
  by unfold_locales (auto simp: safe_step_refl system_step_safe intro: safe_step_trans, simp add: safe_step_def)

lemma empty_world_ok: "world_ok empty_world"
  by (simp add: world_ok_def world_wf_def live_tracked_def empty_world_def queue_wf_def empty_queue_def)

section \<open>No accepted job is lost\<close>


text \<open>C6 (invariant) From any reachable state on, a job file never disappears and its version never
  falls; as long as the version is the same, so is the content.\<close>

theorem job_files_only_evolve:
  assumes "system_step\<^sup>*\<^sup>* empty_world w" "system_step\<^sup>*\<^sup>* w w'" and "w_store w (t, j) = Some (JobFile job)"
  shows "\<exists>job'. w_store w' (t, j) = Some (JobFile job') \<and> j_version job \<le> j_version job' \<and>
           (j_version job' = j_version job \<longleftrightarrow> job' = job)"
proof -
  have "world_ok w" by (rule sys.reachable_inv[OF assms(1) empty_world_ok])
  then have "safe_step w w'" by (rule sys.runs_safe[OF assms(2)])
  then have ev: "store_evolves (w_store w) (w_store w')" by (simp add: safe_step_def)
  show ?thesis using store_evolvesD[OF ev, OF assms(3)] by fastforce
qed

section \<open>A concrete run\<close>

definition demo_env :: svc_env where
  "demo_env = sample_env\<lparr>sv_sha256 := (\<lambda>_. ''0123456789abcdef'')\<rparr>"

abbreviation demo_job_id :: str where
  "demo_job_id \<equiv> ''job_0123456789abcdef''"

definition drafted_state :: world where
  "drafted_state = fst (preview sample_draft_env ''acme'' demo_job_id
     (fst (create_job demo_env ''acme'' (Some ''mean of income'') None None empty_world)))"

definition queued_state :: world where
  "queued_state = fst (trigger_run demo_env ''acme'' demo_job_id plain_run drafted_state)"

definition stored_job :: "world \<Rightarrow> job" where
  "stored_job w = (case w_store w (''acme'', demo_job_id) of Some (JobFile job) \<Rightarrow> job | _ \<Rightarrow> drafted_job)"

lemma drafted_state_reachable: "system_step\<^sup>*\<^sup>* empty_world drafted_state"
  unfolding drafted_state_def
  by (rule rtranclp.rtrancl_into_rtrancl, rule r_into_rtranclp, rule system_step.create, rule system_step.preview)

lemma queued_state_reachable: "system_step\<^sup>*\<^sup>* drafted_state queued_state"
  unfolding queued_state_def
  by (rule r_into_rtranclp, rule system_step.run) (simp add: demo_env_def sample_env_def)

lemma stored_in_store:
  "w_store drafted_state (''acme'', demo_job_id) = Some (JobFile (stored_job drafted_state))"
  "w_store queued_state (''acme'', demo_job_id) = Some (JobFile (stored_job queued_state))"
  by code_simp+


lemma job_files_only_evolve_witness:
  "\<exists>job'. w_store queued_state (''acme'', demo_job_id) = Some (JobFile job') \<and>
     j_version (stored_job drafted_state) \<le> j_version job' \<and>
     (j_version job' = j_version (stored_job drafted_state)) = (job' = stored_job drafted_state)"
  by (rule job_files_only_evolve[OF drafted_state_reachable queued_state_reachable stored_in_store(1)])

section \<open>A draft preview stops a run\<close>

text \<open>The worker of WorkerRuns while somebody previews the draft of the running job.\<close>

definition previewed_worker :: worker_env where
  "previewed_worker = sample_worker\<lparr>wk_during_run := (\<lambda>_ w. fst (preview sample_draft_env ''acme'' ''job_1'' w))\<rparr>"

definition job_view :: "world \<Rightarrow> (job_status \<times> int \<times> nat) option" where
  "job_view w = (case w_store w (''acme'', ''job_1'') of
     Some (JobFile job) \<Rightarrow> Some (j_status job, j_version job, length (j_runs job)) | _ \<Rightarrow> None)"

text \<open>A draft preview is allowed for a job in any state and saves the job: if it happens while
  a worker runs the job, the result of the run is lost in a version conflict that nobody handles, and
  the job stays RUNNING with its claim held until the lease ends.\<close>

theorem preview_discards_running_attempt:
  shows "let (w, r) = process_claim previewed_worker 0 sample_claim (claimed_world [])
         in r = Inl (StoreErr (JobVersionConflict 3 4)) \<and> job_view w = Some (RUNNING, 4, 1) \<and>
            w_queue w = w_queue (claimed_world [])"
  by code_simp

end
