(* ===== verification/CompositionPlan.thy ===== *)
theory CompositionPlan
  imports JobModel
begin

text \<open>
  Composition plans: domain/composition_plan.py (the parameters of a step, data-set references, the
  validation of a plan), domain/plan_routing.py (input keys, choice of the mode) and the step order of
  domain/composition_exec/ordering.py.
\<close>

section \<open>Parameters of a step\<close>

datatype composition_mode = Sequential | MergeThenSequential | ParallelThenAggregate | Conditional

fun composition_mode_value :: "composition_mode \<Rightarrow> str" where
  "composition_mode_value Sequential = ''sequential''"
| "composition_mode_value MergeThenSequential = ''merge_then_sequential''"
| "composition_mode_value ParallelThenAggregate = ''parallel_then_aggregate''"
| "composition_mode_value Conditional = ''conditional''"

datatype product_kind = DatasetProduct | TableProduct | FigureProduct | ReportProduct

fun product_kind_value :: "product_kind \<Rightarrow> str" where
  "product_kind_value DatasetProduct = ''dataset''"
| "product_kind_value TableProduct = ''table''"
| "product_kind_value FigureProduct = ''figure''"
| "product_kind_value ReportProduct = ''report''"

record plan_product =
  pp_product_id :: str
  pp_kind :: product_kind
  pp_role :: "str option"

record composition_params =
  cp_composition_mode :: composition_mode
  cp_template_id :: "str option"
  cp_input_bindings :: "(str, str) dict option"
  cp_products :: "plan_product list option"

text \<open>Validation of the JSON parameters; \<open>None\<close> is a \<open>ValidationError\<close>.\<close>

definition enum_of :: "('a \<Rightarrow> str) \<Rightarrow> 'a list \<Rightarrow> json option \<Rightarrow> 'a option" where
  "enum_of value_of members v =
     (case v of Some (JStr s) \<Rightarrow> find (\<lambda>m. value_of m = s) members | _ \<Rightarrow> None)"

text \<open>An optional text field: absent and null are \<open>None\<close>.\<close>

definition opt_text :: "json option \<Rightarrow> str option option" where
  "opt_text v =
     (case v of None \<Rightarrow> Some None | Some JNull \<Rightarrow> Some None | Some (JStr s) \<Rightarrow> Some (Some s) | _ \<Rightarrow> None)"

definition parse_mode :: "json option \<Rightarrow> composition_mode option" where
  "parse_mode = enum_of composition_mode_value [Sequential, MergeThenSequential, ParallelThenAggregate, Conditional]"

definition parse_product :: "json \<Rightarrow> plan_product option" where
  "parse_product v =
     (case v of
        JObj flds \<Rightarrow>
          (case (dict_get flds ''product_id'',
                 enum_of product_kind_value [DatasetProduct, TableProduct, FigureProduct, ReportProduct]
                   (dict_get flds ''kind''),
                 opt_text (dict_get flds ''role'')) of
             (Some (JStr pid), Some kind, Some role) \<Rightarrow>
               (if blank pid then None else Some \<lparr>pp_product_id = pid, pp_kind = kind, pp_role = role\<rparr>)
           | _ \<Rightarrow> None)
      | _ \<Rightarrow> None)"

fun all_some :: "'a option list \<Rightarrow> 'a list option" where
  "all_some [] = Some []"
| "all_some (x # xs) = (case x of None \<Rightarrow> None | Some y \<Rightarrow> map_option ((#) y) (all_some xs))"

definition parse_bindings :: "json option \<Rightarrow> (str, str) dict option option" where
  "parse_bindings v =
     (case v of
        None \<Rightarrow> Some None
      | Some JNull \<Rightarrow> Some None
      | Some (JObj flds) \<Rightarrow>
          map_option Some (all_some (map (\<lambda>(k, x). map_option (Pair k) (as_str x)) flds))
      | _ \<Rightarrow> None)"

definition parse_products :: "json option \<Rightarrow> plan_product list option option" where
  "parse_products v =
     (case v of
        None \<Rightarrow> Some None
      | Some JNull \<Rightarrow> Some None
      | Some (JList items) \<Rightarrow> map_option Some (all_some (map parse_product items))
      | _ \<Rightarrow> None)"

definition validate_params :: "jobj \<Rightarrow> composition_params option" where
  "validate_params params =
     (case (parse_mode (dict_get params ''composition_mode''), opt_text (dict_get params ''template_id''),
            parse_bindings (dict_get params ''input_bindings''), parse_products (dict_get params ''products'')) of
        (Some mode, Some template_id, Some bindings, Some products) \<Rightarrow>
          Some \<lparr>cp_composition_mode = mode, cp_template_id = template_id, cp_input_bindings = bindings,
                cp_products = products\<rparr>
      | _ \<Rightarrow> None)"

section \<open>References\<close>

datatype dataset_ref = InputRef str | ProdRef str str

text \<open>\<open>_parse_dataset_ref\<close>; \<open>None\<close> is its \<open>ValueError\<close>.\<close>

definition parse_ref :: "str \<Rightarrow> dataset_ref option" where
  "parse_ref v =
     (case py_split (CHR '':'') v of
        [a, b] \<Rightarrow> (if a = ''input'' \<and> py_strip b \<noteq> [] then Some (InputRef (py_strip b)) else None)
      | [a, b, c] \<Rightarrow>
          (if a = ''prod'' \<and> py_strip b \<noteq> [] \<and> py_strip c \<noteq> [] then Some (ProdRef (py_strip b) (py_strip c)) else None)
      | _ \<Rightarrow> None)"

section \<open>Dependencies\<close>

type_synonym dep_map = "(str, str list) dict"

definition deps_of :: "dep_map \<Rightarrow> str \<Rightarrow> str list" where
  "deps_of deps sid = (case dict_get deps sid of None \<Rightarrow> [] | Some ds \<Rightarrow> ds)"

definition dict_of :: "('k \<times> 'v) list \<Rightarrow> ('k, 'v) dict" where
  "dict_of kvs = fold (\<lambda>(k, v) d. dict_set d k v) kvs []"

definition deps_by_step_id :: "plan_step list \<Rightarrow> dep_map" where
  "deps_by_step_id steps = dict_of (map (\<lambda>s. (ps_step_id s, ps_depends_on s)) steps)"

text \<open>The loop of \<open>_depends_transitively\<close>; the stack is popped at its end.\<close>

function dep_search :: "dep_map \<Rightarrow> str \<Rightarrow> str list \<Rightarrow> str list \<Rightarrow> bool" where
  "dep_search deps producer seen stack =
     (if stack = [] then False
      else let dep = last stack; rest = butlast stack
           in if dep = producer then True
              else if dep \<in> set seen then dep_search deps producer seen rest
              else dep_search deps producer (dep # seen) (rest @ deps_of deps dep))"
  by pat_completeness auto
termination
proof (relation "measures [\<lambda>(deps, p, seen, stack). card (set (map fst deps) - set seen),
                           \<lambda>(deps, p, seen, stack). length stack]", goal_cases)
  case 1
  then show ?case by simp
next
  case (2 deps producer seen stack dep rest)
  then show ?case by simp
next
  case (3 deps producer seen stack dep rest)
  show ?case
  proof (cases "dep \<in> set (map fst deps)")
    case True
    with 3 have "set (map fst deps) - insert dep (set seen) \<subset> set (map fst deps) - set seen" by auto
    then have "card (set (map fst deps) - insert dep (set seen)) < card (set (map fst deps) - set seen)"
      by (rule psubset_card_mono[rotated]) simp
    then show ?thesis by simp
  next
    case False
    then have "dict_get deps dep = None" by (simp add: dict_get_None)
    moreover have "set (map fst deps) - insert dep (set seen) = set (map fst deps) - set seen" using False by auto
    ultimately show ?thesis using 3 by (simp add: deps_of_def)
  qed
qed

declare dep_search.simps [simp del]

definition depends_transitively :: "dep_map \<Rightarrow> str \<Rightarrow> str \<Rightarrow> bool" where
  "depends_transitively deps consumer producer =
     (if consumer = producer then True else dep_search deps producer [] (deps_of deps consumer))"

section \<open>Validation\<close>

definition invalid :: "str \<Rightarrow> exn" where
  "invalid reason = PlanErr (PlanCompositionInvalid reason)"

fun product_ids :: "str list \<Rightarrow> plan_product list \<Rightarrow> exn + str list" where
  "product_ids seen [] = Inr seen"
| "product_ids seen (p # ps) =
     (if pp_product_id p \<in> set seen then Inl (invalid ''duplicate_product_id'')
      else product_ids (pp_product_id p # seen) ps)"

definition params_products :: "composition_params \<Rightarrow> plan_product list" where
  "params_products params = (case cp_products params of None \<Rightarrow> [] | Some ps \<Rightarrow> ps)"

definition params_bindings :: "composition_params \<Rightarrow> (str, str) dict" where
  "params_bindings params = (case cp_input_bindings params of None \<Rightarrow> [] | Some b \<Rightarrow> b)"

fun collect_step_params ::
  "composition_mode option \<Rightarrow> (str, composition_params) dict \<Rightarrow> (str, str list) dict \<Rightarrow> plan_step list
   \<Rightarrow> exn + composition_mode \<times> (str, composition_params) dict \<times> (str, str list) dict" where
  "collect_step_params mode ps prods [] =
     (case mode of None \<Rightarrow> Inl (invalid ''missing_steps'') | Some m \<Rightarrow> Inr (m, ps, prods))"
| "collect_step_params mode ps prods (s # steps) =
     (case validate_params (ps_params s) of
        None \<Rightarrow> Inl (invalid ''composition_params_schema_invalid'')
      | Some p \<Rightarrow>
          (if mode \<noteq> None \<and> mode \<noteq> Some (cp_composition_mode p) then Inl (invalid ''composition_mode_mismatch'')
           else case product_ids [] (params_products p) of
                  Inl e \<Rightarrow> Inl e
                | Inr ids \<Rightarrow>
                    collect_step_params (Some (cp_composition_mode p)) (dict_set ps (ps_step_id s) p)
                      (dict_set prods (ps_step_id s) ids) steps))"

definition validate_step_requirements :: "plan_step \<Rightarrow> composition_params \<Rightarrow> exn + unit" where
  "validate_step_requirements s p =
     (if \<not> is_do_generation_step_type (ps_type s) then Inr ()
      else if (case cp_template_id p of None \<Rightarrow> True | Some t \<Rightarrow> blank t) then Inl (invalid ''missing_template_id'')
      else if params_bindings p = [] then Inl (invalid ''missing_input_bindings'')
      else if cp_products p = None then Inl (invalid ''missing_products'')
      else Inr ())"

definition validate_input_binding ::
  "str list \<Rightarrow> (str, str list) dict \<Rightarrow> dep_map \<Rightarrow> str \<Rightarrow> str \<times> str \<Rightarrow> exn + unit" where
  "validate_input_binding known prods deps sid binding =
     (let (role, ref) = binding
      in if blank role then Inl (invalid ''input_binding_role_empty'')
         else if blank ref then Inl (invalid ''dataset_ref_empty'')
         else case parse_ref ref of
                None \<Rightarrow> Inl (invalid ''dataset_ref_invalid'')
              | Some (InputRef key) \<Rightarrow> guardE (key \<in> set known) (invalid ''unknown_input_dataset'')
              | Some (ProdRef producer pid) \<Rightarrow>
                  (case dict_get prods producer of
                     None \<Rightarrow> Inl (invalid ''unknown_product_step'')
                   | Some ids \<Rightarrow>
                       (if pid \<notin> set ids then Inl (invalid ''unknown_product_id'')
                        else guardE (depends_transitively deps sid producer) (invalid ''missing_dependency_for_product''))))"

text \<open>The first error in the order of a list, as a \<open>for\<close> loop over checks.\<close>

fun check_all :: "('a \<Rightarrow> exn + unit) \<Rightarrow> 'a list \<Rightarrow> exn + unit" where
  "check_all f [] = Inr ()"
| "check_all f (x # xs) = bindE (f x) (\<lambda>_. check_all f xs)"

definition validate_step ::
  "str list \<Rightarrow> (str, composition_params) dict \<Rightarrow> (str, str list) dict \<Rightarrow> dep_map \<Rightarrow> plan_step \<Rightarrow> exn + unit" where
  "validate_step known params_by_id prods deps s =
     (case dict_get params_by_id (ps_step_id s) of
        None \<Rightarrow> Inl (PyErr PyKeyError)
      | Some p \<Rightarrow>
          bindE (validate_step_requirements s p) (\<lambda>_.
            check_all (validate_input_binding known prods deps (ps_step_id s)) (params_bindings p)))"

definition validate_composition_plan :: "plan_step list \<Rightarrow> str list \<Rightarrow> exn + composition_mode" where
  "validate_composition_plan steps known =
     bindE (collect_step_params None [] [] steps) (\<lambda>(mode, params_by_id, prods).
       bindE (check_all (validate_step known params_by_id prods (deps_by_step_id steps)) steps) (\<lambda>_. Inr mode))"

section \<open>Routing\<close>

definition obj_text :: "jobj \<Rightarrow> str \<Rightarrow> str list" where
  "obj_text flds key =
     (case dict_get flds key of Some (JStr s) \<Rightarrow> (if blank s then [] else [py_strip s]) | _ \<Rightarrow> [])"

definition manifest_datasets :: "jobj \<Rightarrow> jobj list" where
  "manifest_datasets manifest =
     (case dict_get manifest ''datasets'' of
        Some (JList items) \<Rightarrow> concat (map (\<lambda>i. case i of JObj o1 \<Rightarrow> [o1] | _ \<Rightarrow> []) items)
      | _ \<Rightarrow> [])"

definition extract_input_dataset_keys :: "jobj \<Rightarrow> str list" where
  "extract_input_dataset_keys manifest =
     (let keys = concat (map (\<lambda>d. obj_text d ''dataset_key'') (manifest_datasets manifest)) @
                 (case dict_get manifest ''primary_dataset'' of
                    Some (JObj p) \<Rightarrow> obj_text p ''dataset_key'' | _ \<Rightarrow> [])
      in if keys = [] then [''primary''] else remdups keys)"

definition looks_conditional :: "str \<Rightarrow> bool" where
  "looks_conditional lowered = list_ex (contains_str lowered) ['' if '', '' else '', '' otherwise '']"

definition looks_parallel :: "str \<Rightarrow> bool" where
  "looks_parallel lowered =
     list_ex (contains_str lowered)
       ['' separately'', '' each dataset'', '' per dataset'', '' compare across'', '' by dataset'']"

definition choose_composition_mode :: "str \<Rightarrow> str list \<Rightarrow> composition_mode" where
  "choose_composition_mode requirement input_keys =
     (if card (set input_keys) \<le> 1 then Sequential
      else if looks_conditional (py_lower requirement) then Conditional
      else if looks_parallel (py_lower requirement) then ParallelThenAggregate
      else MergeThenSequential)"

section \<open>The order of the steps\<close>

definition validate_step_ids :: "plan_step list \<Rightarrow> exn + unit" where
  "validate_step_ids steps =
     check_all (\<lambda>s. guardE (is_safe_path_segment (ps_step_id s)) (invalid ''unsafe_step_id'')) steps"

text \<open>The body of the loop: \<open>current\<close> leaves the pending sets, steps without pending ones become ready.\<close>

fun release_deps ::
  "str \<Rightarrow> str list \<Rightarrow> (str \<times> str list) list \<Rightarrow> str list \<Rightarrow> (str \<times> str list) list \<times> str list" where
  "release_deps current order [] ready = ([], ready)"
| "release_deps current order ((sid, ds) # rest) ready =
     (if current \<notin> set ds
      then let (p, r) = release_deps current order rest ready in ((sid, ds) # p, r)
      else let ds' = filter (\<lambda>d. d \<noteq> current) ds;
               ready' = (if ds' = [] \<and> sid \<notin> set order \<and> sid \<notin> set ready then ready @ [sid] else ready);
               (p, r) = release_deps current order rest ready'
           in ((sid, ds') # p, r))"

definition open_deps :: "(str \<times> str list) list \<Rightarrow> nat" where
  "open_deps pending = length (filter (\<lambda>(sid, ds). ds \<noteq> []) pending)"

lemma release_deps_measure:
  "release_deps current order pending ready = (p, r) \<Longrightarrow>
     length r + open_deps p \<le> length ready + open_deps pending"
proof (induction current order pending ready arbitrary: p r rule: release_deps.induct)
  case (1 current order ready)
  then show ?case by simp
next
  case (2 current order sid ds rest ready)
  show ?case
  proof (cases "current \<notin> set ds")
    case True
    obtain p1 r1 where "release_deps current order rest ready = (p1, r1)" by (cases "release_deps current order rest ready")
    with 2(1)[OF True this] 2(3) True show ?thesis by (auto simp: open_deps_def)
  next
    case False
    define ds' where "ds' = filter (\<lambda>d. d \<noteq> current) ds"
    define ready' where "ready' = (if ds' = [] \<and> sid \<notin> set order \<and> sid \<notin> set ready then ready @ [sid] else ready)"
    obtain p1 r1 where e: "release_deps current order rest ready' = (p1, r1)"
      by (cases "release_deps current order rest ready'")
    have ne: "ds \<noteq> []" using False by auto
    have le: "length r1 + open_deps p1 \<le> length ready' + open_deps rest"
      using 2(2)[OF False ds'_def ready'_def e] .
    have "p = (sid, ds') # p1 \<and> r = r1"
      using 2(3) False e by (simp add: Let_def ds'_def ready'_def)
    moreover have "length ready' \<le> (if ds' = [] then Suc (length ready) else length ready)"
      by (simp add: ready'_def)
    ultimately show ?thesis using ne le by (cases "ds' = []") (simp_all add: open_deps_def)
  qed
qed

function toposort_loop :: "str list \<Rightarrow> str list \<Rightarrow> (str \<times> str list) list \<Rightarrow> str list" where
  "toposort_loop order ready pending =
     (if ready = [] then order
      else let current = last ready; order' = order @ [current];
               res = release_deps current order' pending (butlast ready)
           in toposort_loop order' (snd res) (fst res))"
  by pat_completeness auto
termination
proof (relation "measure (\<lambda>(order, ready, pending). length ready + open_deps pending)", goal_cases)
  case 1
  then show ?case by simp
next
  case (2 order ready pending current order' res)
  have "release_deps current order' pending (butlast ready) = (fst res, snd res)" using 2 by simp
  from release_deps_measure[OF this] 2(1) show ?case by (simp add: length_butlast) (cases ready; simp)
qed

declare toposort_loop.simps [simp del]

definition toposort_ids :: "str list \<Rightarrow> dep_map \<Rightarrow> exn + str list" where
  "toposort_ids step_ids deps =
     (let pending = map (\<lambda>sid. (sid, remdups (deps_of deps sid))) (rev (remdups (rev step_ids)));
          ready = filter (\<lambda>sid. deps_of deps sid = []) step_ids;
          order = toposort_loop [] ready pending
      in if length order \<noteq> length step_ids then Inl (invalid ''dependency_cycle'') else Inr order)"

definition toposort :: "plan_step list \<Rightarrow> exn + str list" where
  "toposort steps = toposort_ids (map ps_step_id steps) (deps_by_step_id steps)"

end
