(* ===== verification/CsvText.thy ===== *)
theory CsvText
  imports Prelude
begin

text \<open>
  The part of Python's \<open>csv\<close> module that domain/csv_merge.py uses, with the default dialect: the reader's
  automaton over the whole text (comma, double quote, doubled quotes, a record ends at LF, CR or CR LF
  outside quotes), the writer (minimal quoting, CR LF), and \<open>DictReader\<close>/\<open>DictWriter\<close> on top of them.
  Fields stay below the module's size limit, so the reader does not raise.
\<close>

section \<open>Reader\<close>

abbreviation "COMMA \<equiv> CHR '',''"
abbreviation "QUOTE \<equiv> CHR 0x22"
abbreviation "LF \<equiv> CHR 0x0A"
abbreviation "CR \<equiv> CHR 0x0D"

datatype csv_state = StartRecord | AfterCR | StartField | InField | InQuoted | QuoteInQuoted

fun csv_scan :: "csv_state \<Rightarrow> str \<Rightarrow> str list \<Rightarrow> str \<Rightarrow> str list list" where
  "csv_scan st fld row [] = (if st = StartRecord \<or> st = AfterCR then [] else [row @ [fld]])"
| "csv_scan st fld row (c # cs) =
     (if st = AfterCR \<and> c = LF then csv_scan StartRecord [] [] cs
      else if st = InQuoted
        then (if c = QUOTE then csv_scan QuoteInQuoted fld row cs else csv_scan InQuoted (fld @ [c]) row cs)
      else if c = LF \<or> c = CR
        then (if st = StartRecord \<or> st = AfterCR then [] else row @ [fld]) #
             csv_scan (if c = CR then AfterCR else StartRecord) [] [] cs
      else if c = QUOTE \<and> st = QuoteInQuoted then csv_scan InQuoted (fld @ [c]) row cs
      else if c = QUOTE \<and> st \<noteq> InField then csv_scan InQuoted fld row cs
      else if c = COMMA then csv_scan StartField [] (row @ [fld]) cs
      else csv_scan InField (fld @ [c]) row cs)"

definition csv_reader :: "str \<Rightarrow> str list list" where
  "csv_reader text = csv_scan StartRecord [] [] text"

section \<open>Writer\<close>

definition needs_quotes :: "str \<Rightarrow> bool" where
  "needs_quotes f = list_ex (\<lambda>c. c \<in> {COMMA, QUOTE, CR, LF}) f"

definition csv_field :: "str \<Rightarrow> str" where
  "csv_field f =
     (if needs_quotes f then QUOTE # concat (map (\<lambda>c. if c = QUOTE then [QUOTE, QUOTE] else [c]) f) @ [QUOTE]
      else f)"

definition csv_line :: "str list \<Rightarrow> str" where
  "csv_line row = (if row = [[]] then [QUOTE, QUOTE] else py_join [COMMA] (map csv_field row)) @ [CR, LF]"

definition csv_writer :: "str list list \<Rightarrow> str" where
  "csv_writer rows = concat (map csv_line rows)"

section \<open>Dictionary rows\<close>

text \<open>A row of \<open>DictReader\<close>: a missing cell is \<open>None\<close>. Surplus cells sit under the key \<open>None\<close> there and
  are ignored by the writer; they are left out.\<close>

type_synonym csv_row = "(str, str option) dict"

definition dict_row :: "str list \<Rightarrow> str list \<Rightarrow> csv_row" where
  "dict_row fieldnames row =
     fold (\<lambda>(k, v) d. dict_set d k v)
       (zip fieldnames (map Some row @ replicate (length fieldnames - length row) None)) []"

text \<open>\<open>DictWriter\<close> with \<open>extrasaction="ignore"\<close>: an absent key and \<open>None\<close> are written as the empty text.\<close>

definition cell :: "csv_row \<Rightarrow> str \<Rightarrow> str" where
  "cell r k = (case dict_get r k of Some (Some v) \<Rightarrow> v | _ \<Rightarrow> [])"

section \<open>Reading back what was written\<close>

lemma scan_plain:
  "st \<noteq> InQuoted \<Longrightarrow> st \<noteq> QuoteInQuoted \<Longrightarrow> \<not> needs_quotes (c # f) \<Longrightarrow>
     csv_scan st fld row ((c # f) @ cs) = csv_scan InField (fld @ c # f) row cs"
proof (induction f arbitrary: st fld c)
  case Nil
  then show ?case by (auto simp: needs_quotes_def)
next
  case (Cons d f)
  have "csv_scan st fld row ((c # d # f) @ cs) = csv_scan InField (fld @ [c]) row ((d # f) @ cs)"
    using Cons.prems by (auto simp: needs_quotes_def)
  also have "\<dots> = csv_scan InField ((fld @ [c]) @ d # f) row cs"
    by (rule Cons.IH) (use Cons.prems in \<open>auto simp: needs_quotes_def\<close>)
  finally show ?case by simp
qed

lemma scan_quoted:
  "csv_scan InQuoted fld row (concat (map (\<lambda>c. if c = QUOTE then [QUOTE, QUOTE] else [c]) f) @ QUOTE # cs) =
     csv_scan QuoteInQuoted (fld @ f) row cs"
  by (induction f arbitrary: fld) auto

text \<open>The state in which a written field leaves the automaton.\<close>

definition field_state :: "csv_state \<Rightarrow> str \<Rightarrow> csv_state" where
  "field_state st f = (if needs_quotes f then QuoteInQuoted else if f = [] then st else InField)"

lemma scan_field:
  assumes "st = StartRecord \<or> st = StartField"
  shows "csv_scan st [] row (csv_field f @ cs) = csv_scan (field_state st f) f row cs"
proof (cases "needs_quotes f")
  case True
  have "csv_scan st [] row (csv_field f @ cs) =
      csv_scan InQuoted [] row (concat (map (\<lambda>c. if c = QUOTE then [QUOTE, QUOTE] else [c]) f) @ QUOTE # cs)"
    using assms True by (auto simp: csv_field_def)
  with True show ?thesis by (simp only: scan_quoted field_state_def) simp
next
  case False
  show ?thesis
  proof (cases f)
    case Nil
    with False show ?thesis by (simp add: csv_field_def field_state_def)
  next
    case (Cons c g)
    have "csv_scan st [] row ((c # g) @ cs) = csv_scan InField ([] @ c # g) row cs"
      by (rule scan_plain) (use assms False Cons in auto)
    with False Cons show ?thesis by (simp add: csv_field_def field_state_def)
  qed
qed

lemma scan_after_field:
  assumes "st = StartRecord \<or> st = StartField"
  shows "csv_scan (field_state st f) f row (COMMA # cs) = csv_scan StartField [] (row @ [f]) cs"
    and "field_state st f \<noteq> StartRecord \<Longrightarrow>
      csv_scan (field_state st f) f row (CR # LF # cs) = (row @ [f]) # csv_scan StartRecord [] [] cs"
  using assms by (auto simp: field_state_def)

lemma scan_fields:
  "st = StartRecord \<or> st = StartField \<Longrightarrow> fs \<noteq> [] \<Longrightarrow> st = StartField \<or> fs \<noteq> [[]] \<Longrightarrow>
     csv_scan st [] row (py_join [COMMA] (map csv_field fs) @ CR # LF # cs) =
       (row @ fs) # csv_scan StartRecord [] [] cs"
proof (induction fs arbitrary: st row)
  case Nil
  then show ?case by simp
next
  case (Cons f fs)
  show ?case
  proof (cases fs)
    case Nil
    have "field_state st f \<noteq> StartRecord" using Cons.prems Nil by (auto simp: field_state_def)
    from scan_after_field(2)[OF Cons.prems(1) this] scan_field[OF Cons.prems(1)] Nil
    show ?thesis by (simp del: csv_scan.simps)
  next
    case (Cons g gs)
    have "csv_scan st [] row (py_join [COMMA] (map csv_field (f # fs)) @ CR # LF # cs) =
        csv_scan StartField [] (row @ [f]) (py_join [COMMA] (map csv_field fs) @ CR # LF # cs)"
      using Cons.prems(1) Cons scan_field[OF Cons.prems(1)] scan_after_field(1)[OF Cons.prems(1)]
      by (simp del: csv_scan.simps)
    also have "\<dots> = ((row @ [f]) @ fs) # csv_scan StartRecord [] [] cs"
      by (rule Cons.IH) (simp_all add: Cons)
    finally show ?thesis by simp
  qed
qed

lemma scan_line:
  assumes "row \<noteq> []"
  shows "csv_scan StartRecord [] [] (csv_line row @ cs) = row # csv_scan StartRecord [] [] cs"
proof (cases "row = [[]]")
  case True
  then show ?thesis by (simp add: csv_line_def)
next
  case False
  then show ?thesis using scan_fields[of StartRecord row "[]"] assms by (simp add: csv_line_def)
qed

lemma read_written: "[] \<notin> set rows \<Longrightarrow> csv_reader (csv_writer rows) = rows"
  unfolding csv_reader_def csv_writer_def by (induction rows) (auto simp: scan_line)

lemma dict_row_fold:
  "fst ` set (fold (\<lambda>(k, v) d. dict_set d k v) kvs d) = fst ` set kvs \<union> fst ` set d"
  by (induction kvs arbitrary: d) (simp_all add: set_fst_dict_set case_prod_beta)

lemma keys_dict_row: "fst ` set (dict_row fieldnames row) = set fieldnames"
proof -
  have "map fst (zip fieldnames (map Some row @ replicate (length fieldnames - length row) None)) = fieldnames"
    by (rule map_fst_zip_take[THEN trans]) simp
  then show ?thesis unfolding dict_row_def dict_row_fold by (metis Un_empty_right image_empty list.set(1) list.set_map)
qed

lemma dict_wf_fold: "dict_wf d \<Longrightarrow> dict_wf (fold (\<lambda>(k, v) d. dict_set d k v) kvs d)"
  by (induction kvs arbitrary: d) auto

lemma dict_wf_row: "dict_wf (dict_row fieldnames row)"
  unfolding dict_row_def by (rule dict_wf_fold) simp

end
