(* ===== verification/CsvMerge.thy ===== *)
theory CsvMerge
  imports CsvText PyJson
begin

text \<open>
  domain/csv_merge.py: \<open>append_csv\<close> and \<open>merge_csv\<close> on the texts of the two files, and their laws: the
  output read back is the concatenation, respectively the left join, of the inputs.
\<close>

section \<open>Reading and writing\<close>

datatype csv_join_error = CsvMissingHeader | AppendHeaderMismatch | MergeKeyMissing | MergeKeyDuplicate

fun csv_join_reason :: "csv_join_error \<Rightarrow> str" where
  "csv_join_reason CsvMissingHeader = ''csv_missing_header''"
| "csv_join_reason AppendHeaderMismatch = ''append_header_mismatch''"
| "csv_join_reason MergeKeyMissing = ''merge_key_missing''"
| "csv_join_reason MergeKeyDuplicate = ''merge_key_duplicate''"

text \<open>\<open>DictReader\<close> takes the first record as header and skips empty records after it.\<close>

definition read_csv :: "str \<Rightarrow> csv_join_error + str list \<times> csv_row list" where
  "read_csv text =
     (case csv_reader text of
        [] \<Rightarrow> Inl CsvMissingHeader
      | fs # rows \<Rightarrow>
          (if fs = [] then Inl CsvMissingHeader
           else Inr (fs, map (dict_row fs) (filter (\<lambda>r. r \<noteq> []) rows))))"

definition write_csv_rows :: "str list \<Rightarrow> csv_row list \<Rightarrow> str" where
  "write_csv_rows fieldnames rows = csv_writer (fieldnames # map (\<lambda>r. map (cell r) fieldnames) rows)"

section \<open>Append\<close>

definition append_csv :: "str \<Rightarrow> str \<Rightarrow> csv_join_error + str \<times> jobj" where
  "append_csv primary secondary =
     bindE (read_csv primary) (\<lambda>(primary_fields, primary_rows).
       bindE (read_csv secondary) (\<lambda>(secondary_fields, secondary_rows).
         if primary_fields \<noteq> secondary_fields then Inl AppendHeaderMismatch
         else Inr (write_csv_rows primary_fields (primary_rows @ secondary_rows),
                   [(''operation'', JStr ''append''),
                    (''primary_rows'', JInt (int (length primary_rows))),
                    (''secondary_rows'', JInt (int (length secondary_rows)))])))"

section \<open>Merge\<close>

definition join_key :: "str list \<Rightarrow> csv_row \<Rightarrow> str option list" where
  "join_key keys row = map (\<lambda>k. case dict_get row k of None \<Rightarrow> Some [] | Some v \<Rightarrow> v) keys"

type_synonym join_index = "(str option list, csv_row) dict"

fun build_index :: "str list \<Rightarrow> join_index \<Rightarrow> csv_row list \<Rightarrow> csv_join_error + join_index" where
  "build_index keys index [] = Inr index"
| "build_index keys index (row # rows) =
     (if dict_get index (join_key keys row) \<noteq> None then Inl MergeKeyDuplicate
      else build_index keys (dict_set index (join_key keys row) row) rows)"

definition rhs_column :: "str \<Rightarrow> str" where
  "rhs_column col = col @ ''_rhs''"

fun merge_cells :: "str list \<Rightarrow> csv_row \<Rightarrow> (str \<times> str option) list \<Rightarrow> csv_row" where
  "merge_cells keys out [] = out"
| "merge_cells keys out ((col, value) # rhs) =
     (if col \<in> set keys then merge_cells keys out rhs
      else if dict_get out col \<noteq> None then merge_cells keys (dict_set out (rhs_column col) value) rhs
      else merge_cells keys (dict_set out col value) rhs)"

definition merge_row :: "str list \<Rightarrow> join_index \<Rightarrow> csv_row \<Rightarrow> csv_row" where
  "merge_row keys index row =
     (case dict_get index (join_key keys row) of None \<Rightarrow> row | Some rhs \<Rightarrow> merge_cells keys row rhs)"

fun merged_fieldnames :: "str list \<Rightarrow> str list \<Rightarrow> str list \<Rightarrow> str list" where
  "merged_fieldnames fieldnames [] keys = fieldnames"
| "merged_fieldnames fieldnames (col # cols) keys =
     (if col \<in> set keys then merged_fieldnames fieldnames cols keys
      else if col \<in> set fieldnames then merged_fieldnames (fieldnames @ [rhs_column col]) cols keys
      else merged_fieldnames (fieldnames @ [col]) cols keys)"

definition merge_csv :: "str \<Rightarrow> str \<Rightarrow> str list \<Rightarrow> csv_join_error + str \<times> jobj" where
  "merge_csv primary secondary keys =
     bindE (read_csv primary) (\<lambda>(primary_fields, primary_rows).
       bindE (read_csv secondary) (\<lambda>(secondary_fields, secondary_rows).
         if \<exists>k\<in>set keys. k \<notin> set primary_fields \<or> k \<notin> set secondary_fields then Inl MergeKeyMissing
         else bindE (build_index keys [] secondary_rows) (\<lambda>index.
           let merged_rows = map (merge_row keys index) primary_rows;
               matches = length (filter (\<lambda>r. dict_get index (join_key keys r) \<noteq> None) primary_rows)
           in Inr (write_csv_rows (merged_fieldnames primary_fields secondary_fields keys) merged_rows,
                   [(''operation'', JStr ''merge''), (''keys'', JList (map JStr keys)),
                    (''primary_rows'', JInt (int (length primary_rows))),
                    (''secondary_rows'', JInt (int (length secondary_rows))),
                    (''matched_rows'', JInt (int matches)),
                    (''unmatched_rows'', JInt (int (length primary_rows) - int matches))]))))"

section \<open>The left join\<close>

lemma written_rows: "fields \<noteq> [] \<Longrightarrow> csv_reader (write_csv_rows fields rows) = fields # map (\<lambda>r. map (cell r) fields) rows"
  unfolding write_csv_rows_def by (rule read_written) auto

text \<open>The columns of the join: those of the primary table, then those of the secondary one that are not
  keys, under a new name when the primary table has the name.\<close>

definition joined_name :: "str list \<Rightarrow> str \<Rightarrow> str" where
  "joined_name primary_fields col = (if col \<in> set primary_fields then rhs_column col else col)"

definition extra_columns :: "str list \<Rightarrow> str list \<Rightarrow> str list" where
  "extra_columns keys secondary_fields = filter (\<lambda>c. c \<notin> set keys) secondary_fields"

definition joined_columns :: "str list \<Rightarrow> str list \<Rightarrow> str list \<Rightarrow> str list" where
  "joined_columns primary_fields secondary_fields keys =
     primary_fields @ map (joined_name primary_fields) (extra_columns keys secondary_fields)"

definition joined_row :: "str list \<Rightarrow> str list \<Rightarrow> str list \<Rightarrow> csv_row list \<Rightarrow> csv_row \<Rightarrow> str list" where
  "joined_row primary_fields secondary_fields keys secondary_rows row =
     map (cell row) primary_fields @
     (case find (\<lambda>r. join_key keys r = join_key keys row) secondary_rows of
        None \<Rightarrow> map (\<lambda>c. []) (extra_columns keys secondary_fields)
      | Some r \<Rightarrow> map (cell r) (extra_columns keys secondary_fields))"

lemma merged_fieldnames_joined:
  assumes "distinct (fs @ map (joined_name pf) (extra_columns keys cols))" "set pf \<subseteq> set fs"
    and "\<And>c. c \<in> set (extra_columns keys cols) \<Longrightarrow> c \<in> set fs \<Longrightarrow> c \<in> set pf"
  shows "merged_fieldnames fs cols keys = fs @ map (joined_name pf) (extra_columns keys cols)"
  using assms
proof (induction fs cols keys rule: merged_fieldnames.induct)
  case (1 fs keys)
  then show ?case by (simp add: extra_columns_def)
next
  case (2 fs col cols keys)
  show ?case
  proof (cases "col \<in> set keys")
    case True
    with 2 show ?thesis by (simp add: extra_columns_def)
  next
    case False
    let ?n = "joined_name pf col"
    have ex: "extra_columns keys (col # cols) = col # extra_columns keys cols"
      using False by (simp add: extra_columns_def)
    have new: "c \<in> set pf" if "c \<in> set (extra_columns keys cols)" "c \<in> set (fs @ [?n])" for c
    proof (rule ccontr)
      assume n: "c \<notin> set pf"
      then have "joined_name pf c = c" by (simp add: joined_name_def)
      with that(1) have "c \<in> set (map (joined_name pf) (extra_columns keys cols))" by force
      moreover have "c = ?n" using that 2(6)[of c] n ex by auto
      ultimately show False using 2(4) ex by simp
    qed
    have IH: "merged_fieldnames (fs @ [?n]) cols keys = (fs @ [?n]) @ map (joined_name pf) (extra_columns keys cols)"
    proof (cases "col \<in> set fs")
      case True
      then have "?n = rhs_column col" using 2(6)[of col] ex by (simp add: joined_name_def)
      with 2(2)[OF False True] 2(4,5) new ex show ?thesis by auto
    next
      case c: False
      then have "?n = col" using 2(5) by (auto simp: joined_name_def)
      with 2(3)[OF False c] 2(4,5) new ex show ?thesis by auto
    qed
    have "merged_fieldnames fs (col # cols) keys = merged_fieldnames (fs @ [?n]) cols keys"
      using False 2(5) 2(6)[of col] ex by (auto simp: joined_name_def)
    with IH ex show ?thesis by simp
  qed
qed

lemma build_index_find:
  assumes "build_index keys index rows = Inr index'"
  shows "(dict_get index k \<noteq> None \<longrightarrow> find (\<lambda>r. join_key keys r = k) rows = None) \<and>
         dict_get index' k =
           (case find (\<lambda>r. join_key keys r = k) rows of None \<Rightarrow> dict_get index k | Some r \<Rightarrow> Some r)"
  using assms
proof (induction keys index rows rule: build_index.induct)
  case (1 keys index)
  then show ?case by simp
next
  case (2 keys index row rows)
  then have n: "dict_get index (join_key keys row) = None"
    and b: "build_index keys (dict_set index (join_key keys row) row) rows = Inr index'"
    by (simp_all split: if_split_asm)
  from 2(1)[OF _ b] n show ?case by (auto split: option.splits)
qed

lemma merge_cells_spec:
  assumes "inj_on (joined_name pf) E" "joined_name pf ` E \<inter> set pf = {}"
    and "distinct (map fst rhs)" "fst ` set rhs - set keys \<subseteq> E" "P \<subseteq> E" "P \<inter> fst ` set rhs = {}"
    and "\<And>c. dict_get out c \<noteq> None \<longleftrightarrow> c \<in> set pf \<union> joined_name pf ` P"
  shows "(\<forall>(c, v)\<in>set rhs. c \<notin> set keys \<longrightarrow> dict_get (merge_cells keys out rhs) (joined_name pf c) = Some v) \<and>
         (\<forall>k. k \<notin> joined_name pf ` (fst ` set rhs - set keys) \<longrightarrow>
            dict_get (merge_cells keys out rhs) k = dict_get out k)"
  using assms(3-)
proof (induction keys out rhs arbitrary: P rule: merge_cells.induct)
  case (1 keys out)
  then show ?case by simp
next
  case (2 keys out col v rhs)
  show ?case
  proof (cases "col \<in> set keys")
    case True
    with 2(1)[OF True, of P] 2(4-) show ?thesis by (auto simp: insert_Diff_if)
  next
    case False
    let ?n = "joined_name pf col"
    have E: "col \<in> E" using 2(5) False by auto
    have old: "?n \<notin> joined_name pf ` P"
      using 2(6,7) E assms(1) by (auto simp: inj_on_def)
    have "dict_get out col \<noteq> None \<longleftrightarrow> col \<in> set pf"
      using 2(8)[of col] old by (auto simp: joined_name_def)
    then have step: "merge_cells keys out ((col, v) # rhs) = merge_cells keys (dict_set out ?n v) rhs"
      using False by (simp add: joined_name_def)
    have dom: "dict_get (dict_set out ?n v) c \<noteq> None \<longleftrightarrow> c \<in> set pf \<union> joined_name pf ` insert col P" for c
      using 2(8)[of c] by auto
    have rest: "distinct (map fst rhs)" "fst ` set rhs - set keys \<subseteq> E" "insert col P \<subseteq> E"
        "insert col P \<inter> fst ` set rhs = {}"
      using 2(4-7) E by auto
    have IH: "(\<forall>(c, w)\<in>set rhs. c \<notin> set keys \<longrightarrow>
          dict_get (merge_cells keys (dict_set out ?n v) rhs) (joined_name pf c) = Some w) \<and>
        (\<forall>k. k \<notin> joined_name pf ` (fst ` set rhs - set keys) \<longrightarrow>
          dict_get (merge_cells keys (dict_set out ?n v) rhs) k = dict_get (dict_set out ?n v) k)"
    proof (cases "dict_get out col \<noteq> None")
      case True
      then have n: "?n = rhs_column col" using \<open>(dict_get out col \<noteq> None) = (col \<in> set pf)\<close> by (simp add: joined_name_def)
      show ?thesis unfolding n by (rule 2(2)[OF False True rest]) (rule dom[unfolded n])
    next
      case c: False
      then have n: "?n = col" using \<open>(dict_get out col \<noteq> None) = (col \<in> set pf)\<close> by (simp add: joined_name_def)
      show ?thesis unfolding n by (rule 2(3)[OF False c rest]) (rule dom[unfolded n])
    qed
    have "?n \<notin> joined_name pf ` (fst ` set rhs - set keys)"
      using rest(2,4) E assms(1) by (auto simp: inj_on_def)
    with IH False show ?thesis unfolding step by (auto simp: insert_Diff_if)
  qed
qed

lemma joined_names_new:
  assumes "distinct (joined_columns pf sf keys)"
  shows "inj_on (joined_name pf) (set (extra_columns keys sf))"
    and "joined_name pf ` set (extra_columns keys sf) \<inter> set pf = {}"
  using assms by (auto simp: joined_columns_def distinct_map)

lemma join_row:
  assumes d: "distinct (joined_columns pf sf keys)"
    and row: "fst ` set row = set pf"
    and rows: "\<And>r. r \<in> set srows \<Longrightarrow> dict_wf r \<and> fst ` set r = set sf"
    and index: "build_index keys [] srows = Inr index"
  shows "map (cell (merge_row keys index row)) (joined_columns pf sf keys) = joined_row pf sf keys srows row"
proof -
  note new = joined_names_new[OF d]
  let ?E = "set (extra_columns keys sf)"
  have look: "dict_get index (join_key keys row) = find (\<lambda>r. join_key keys r = join_key keys row) srows"
    using build_index_find[OF index, of "join_key keys row"] by (simp split: option.splits)
  have dom: "dict_get row c \<noteq> None \<longleftrightarrow> c \<in> set pf" for c using row by (simp add: dict_get_None)
  show ?thesis
  proof (cases "find (\<lambda>r. join_key keys r = join_key keys row) srows")
    case None
    have "cell row (joined_name pf c) = []" if "c \<in> ?E" for c
    proof -
      have "joined_name pf c \<notin> set pf" using new(2) that by blast
      then have "dict_get row (joined_name pf c) = None" using dom by blast
      then show ?thesis by (simp add: cell_def)
    qed
    with None look show ?thesis by (simp add: joined_columns_def joined_row_def merge_row_def)
  next
    case (Some r)
    then have r: "dict_wf r" "fst ` set r = set sf" using rows find_Some_iff[of _ srows r] by (auto simp: in_set_conv_nth)
    have E: "fst ` set r - set keys = ?E" using r(2) by (auto simp: extra_columns_def)
    have m: "(\<forall>(c, v)\<in>set r. c \<notin> set keys \<longrightarrow> dict_get (merge_cells keys row r) (joined_name pf c) = Some v) \<and>
        (\<forall>k. k \<notin> joined_name pf ` (fst ` set r - set keys) \<longrightarrow> dict_get (merge_cells keys row r) k = dict_get row k)"
      by (rule merge_cells_spec[OF new, where P = "{}"]) (use r(1) E dom in \<open>auto simp: dict_wf_def\<close>)
    have "cell (merge_cells keys row r) c = cell row c" if "c \<in> set pf" for c
    proof -
      have "c \<notin> joined_name pf ` (fst ` set r - set keys)" using that new(2) unfolding E by blast
      with m show ?thesis by (simp add: cell_def)
    qed
    moreover have "cell (merge_cells keys row r) (joined_name pf c) = cell r c" if c: "c \<in> ?E" for c
    proof -
      obtain v where v: "(c, v) \<in> set r" "c \<notin> set keys" using c unfolding E[symmetric] by force
      then have "dict_get r c = Some v" using r(1) by (simp add: dict_get_def dict_wf_def)
      with m v show ?thesis by (fastforce simp: cell_def)
    qed
    ultimately show ?thesis using Some look by (simp add: joined_columns_def joined_row_def merge_row_def)
  qed
qed

lemma read_csv_rows:
  "read_csv text = Inr (fs, rows) \<Longrightarrow> fs \<noteq> [] \<and> (\<forall>r\<in>set rows. dict_wf r \<and> fst ` set r = set fs)"
  unfolding read_csv_def by (simp split: list.split_asm if_split_asm) (metis (no_types, lifting) dict_wf_row ex_map_conv keys_dict_row)

text \<open>C36 (equivalence) When the columns of the join have distinct names, the file \<open>merge_csv\<close> writes,
  read back, is the left join of the two tables on the keys: every primary row once and in order, its
  cells unchanged, followed by the cells of the secondary row with the same key, empty without one.\<close>

theorem merge_csv_is_left_join:
  assumes "merge_csv primary secondary keys = Inr (out, stats)"
    and "read_csv primary = Inr (pf, prows)" "read_csv secondary = Inr (sf, srows)"
    and "distinct (joined_columns pf sf keys)"
  shows "csv_reader out = joined_columns pf sf keys # map (joined_row pf sf keys srows) prows"
proof -
  obtain index where index: "build_index keys [] srows = Inr index"
    and out: "out = write_csv_rows (merged_fieldnames pf sf keys) (map (merge_row keys index) prows)"
    using assms(1-3) by (auto simp: merge_csv_def bindE_Inr_iff Let_def split: if_split_asm)
  note P = read_csv_rows[OF assms(2)] and S = read_csv_rows[OF assms(3)]
  have names: "merged_fieldnames pf sf keys = joined_columns pf sf keys"
    unfolding joined_columns_def
    by (rule merged_fieldnames_joined) (use assms(4) in \<open>auto simp: joined_columns_def\<close>)
  have "joined_columns pf sf keys \<noteq> []" using P by (simp add: joined_columns_def)
  then have "csv_reader out = joined_columns pf sf keys #
      map (\<lambda>r. map (cell r) (joined_columns pf sf keys)) (map (merge_row keys index) prows)"
    unfolding out names by (rule written_rows)
  also have "map (\<lambda>r. map (cell r) (joined_columns pf sf keys)) (map (merge_row keys index) prows) =
      map (joined_row pf sf keys srows) prows"
    using join_row[OF assms(4) _ _ index] P S by simp
  finally show ?thesis .
qed

definition sample_primary :: str where
  "sample_primary = csv_writer [[''id'', ''x''], [''1'', ''a,b''], [''2'', ''c'']]"

definition sample_secondary :: str where
  "sample_secondary = csv_writer [[''id'', ''x'', ''y''], [''2'', ''d'', ''e'']]"

theorem merge_csv_is_left_join_witness:
  "case merge_csv sample_primary sample_secondary [''id''] of
     Inl e \<Rightarrow> False
   | Inr (out, stats) \<Rightarrow>
       csv_reader out = [[''id'', ''x'', ''x_rhs'', ''y''], [''1'', ''a,b'', [], []], [''2'', ''c'', ''d'', ''e'']]"
proof -
  have "\<not> isl (merge_csv sample_primary sample_secondary [''id''])" by code_simp
  then obtain out stats where m: "merge_csv sample_primary sample_secondary [''id''] = Inr (out, stats)"
    by (cases "merge_csv sample_primary sample_secondary [''id'']") auto
  have r: "read_csv sample_primary = Inr ([''id'', ''x''],
        [[(''id'', Some ''1''), (''x'', Some ''a,b'')], [(''id'', Some ''2''), (''x'', Some ''c'')]])"
      "read_csv sample_secondary = Inr ([''id'', ''x'', ''y''],
        [[(''id'', Some ''2''), (''x'', Some ''d''), (''y'', Some ''e'')]])"
    and d: "distinct (joined_columns [''id'', ''x''] [''id'', ''x'', ''y''] [''id''])"
    by code_simp+
  have j: "joined_columns [''id'', ''x''] [''id'', ''x'', ''y''] [''id''] # map (joined_row [''id'', ''x''] [''id'', ''x'', ''y''] [''id'']
      [[(''id'', Some ''2''), (''x'', Some ''d''), (''y'', Some ''e'')]])
      [[(''id'', Some ''1''), (''x'', Some ''a,b'')], [(''id'', Some ''2''), (''x'', Some ''c'')]] =
      [[''id'', ''x'', ''x_rhs'', ''y''], [''1'', ''a,b'', [], []], [''2'', ''c'', ''d'', ''e'']]"
    by code_simp
  show ?thesis using merge_csv_is_left_join[OF m r d] unfolding m j by simp
qed

text \<open>A primary table that already has the column \<open>x_rhs\<close> loses its value when \<open>x\<close> is in both
  tables: the merge is accepted, the header names the column twice and the primary cell is replaced by
  the secondary one.\<close>

lemma merge_overwrites_rhs_column:
  "case merge_csv (csv_writer [[''id'', ''x'', ''x_rhs''], [''1'', ''p'', ''kept'']])
          (csv_writer [[''id'', ''x''], [''1'', ''q'']]) [''id''] of
     Inl e \<Rightarrow> False
   | Inr (out, stats) \<Rightarrow> csv_reader out = [[''id'', ''x'', ''x_rhs'', ''x_rhs''], [''1'', ''p'', ''q'', ''q'']]"
  by code_simp

section \<open>Append\<close>

lemma append_csv_rows:
  assumes "append_csv primary secondary = Inr (out, stats)"
  shows "\<exists>fs prows srows. read_csv primary = Inr (fs, prows) \<and> read_csv secondary = Inr (fs, srows) \<and>
           csv_reader out = fs # map (\<lambda>r. map (cell r) fs) (prows @ srows)"
proof -
  obtain fs prows srows where r: "read_csv primary = Inr (fs, prows)" "read_csv secondary = Inr (fs, srows)"
      "out = write_csv_rows fs (prows @ srows)"
    using assms by (auto simp: append_csv_def bindE_Inr_iff split: if_split_asm)
  with read_csv_rows[OF r(1)] show ?thesis by (simp add: written_rows)
qed

end
