(* ===== verification/Effects.thy ===== *)
theory Effects
  imports Errors
begin

text \<open>
  Computations that change a state and may raise: what has been done before the exception stays done.
\<close>

type_synonym ('s, 'a) act = "'s \<Rightarrow> 's \<times> (exn + 'a)"

definition ret :: "'a \<Rightarrow> ('s, 'a) act" where
  "ret x = (\<lambda>s. (s, Inr x))"

definition raise_exn :: "exn \<Rightarrow> ('s, 'a) act" where
  "raise_exn e = (\<lambda>s. (s, Inl e))"

definition bindA :: "('s, 'a) act \<Rightarrow> ('a \<Rightarrow> ('s, 'b) act) \<Rightarrow> ('s, 'b) act" where
  "bindA m f = (\<lambda>s. case m s of (s', Inl e) \<Rightarrow> (s', Inl e) | (s', Inr x) \<Rightarrow> f x s')"

definition liftE :: "exn + 'a \<Rightarrow> ('s, 'a) act" where
  "liftE r = (\<lambda>s. (s, r))"

text \<open>A \<open>for\<close> loop with an accumulator.\<close>

fun foldA :: "('b \<Rightarrow> 'a \<Rightarrow> ('s, 'b) act) \<Rightarrow> 'b \<Rightarrow> 'a list \<Rightarrow> ('s, 'b) act" where
  "foldA f b [] = ret b"
| "foldA f b (x # xs) = bindA (f b x) (\<lambda>b'. foldA f b' xs)"

lemma ret_iff [simp]: "ret x s = (s', r) \<longleftrightarrow> s' = s \<and> r = Inr x"
  by (auto simp: ret_def)

lemma raise_iff [simp]: "raise_exn e s = (s', r) \<longleftrightarrow> s' = s \<and> r = Inl e"
  by (auto simp: raise_exn_def)

lemma liftE_iff [simp]: "liftE m s = (s', r) \<longleftrightarrow> s' = s \<and> m = r"
  by (auto simp: liftE_def)

lemma bindA_Inr: "bindA m f s = (s', Inr y) \<longleftrightarrow> (\<exists>t x. m s = (t, Inr x) \<and> f x t = (s', Inr y))"
  by (auto simp: bindA_def split: prod.splits sum.splits)

lemma bindA_Inl:
  "bindA m f s = (s', Inl e) \<longleftrightarrow>
     m s = (s', Inl e) \<or> (\<exists>t x. m s = (t, Inr x) \<and> f x t = (s', Inl e))"
  by (auto simp: bindA_def split: prod.splits sum.splits)

lemmas bindA_iffs = bindA_Inr bindA_Inl

lemma foldA_invariant:
  assumes "foldA f b xs s = (s', Inr b')" "P b"
    and "\<And>b x t t' b'. x \<in> set xs \<Longrightarrow> P b \<Longrightarrow> f b x t = (t', Inr b') \<Longrightarrow> P b'"
  shows "P b'"
  using assms
proof (induction xs arbitrary: b s)
  case Nil
  then show ?case by simp
next
  case (Cons x xs)
  then obtain t c where c: "f b x s = (t, Inr c)" "foldA f c xs t = (s', Inr b')" by (auto simp: bindA_Inr)
  have "P c" using Cons.prems(2) Cons.prems(3)[of x b] c(1) by simp
  with Cons.IH[OF c(2)] Cons.prems(3) show ?case by (meson list.set_intros(2))
qed

section \<open>Exceptions a computation never raises\<close>

definition never :: "exn \<Rightarrow> ('s, 'a) act \<Rightarrow> bool" where
  "never e m = (\<forall>s s'. m s \<noteq> (s', Inl e))"

definition neverE :: "exn \<Rightarrow> exn + 'a \<Rightarrow> bool" where
  "neverE e r = (r \<noteq> Inl e)"

named_theorems never_intros \<open>rules for never and neverE\<close>

lemma never_ret [never_intros]: "never e (ret x)"
  by (simp add: never_def)

lemma never_raise [never_intros]: "e' \<noteq> e \<Longrightarrow> never e (raise_exn e')"
  by (simp add: never_def)

lemma never_lift [never_intros]: "neverE e r \<Longrightarrow> never e (liftE r)"
  by (auto simp: never_def neverE_def)

lemma never_bind [never_intros]: "never e m \<Longrightarrow> (\<And>x. never e (f x)) \<Longrightarrow> never e (bindA m f)"
  by (fastforce simp: never_def bindA_Inl)

lemma never_bind_val:
  "never e m \<Longrightarrow> (\<And>s s' x. m s = (s', Inr x) \<Longrightarrow> never e (f x)) \<Longrightarrow> never e (bindA m f)"
  by (fastforce simp: never_def bindA_Inl)

lemma never_fold: "(\<And>b x. x \<in> set xs \<Longrightarrow> never e (f b x)) \<Longrightarrow> never e (foldA f b xs)"
proof (induction xs arbitrary: b)
  case Nil
  then show ?case by (simp add: never_ret)
next
  case (Cons x xs)
  then show ?case by (auto intro!: never_bind)
qed

lemma neverE_Inr [never_intros]: "neverE e (Inr x)"
  by (simp add: neverE_def)

lemma neverE_Inl [never_intros]: "e' \<noteq> e \<Longrightarrow> neverE e (Inl e')"
  by (simp add: neverE_def)

lemma neverE_guard [never_intros]: "e' \<noteq> e \<Longrightarrow> neverE e (guardE b e')"
  by (simp add: neverE_def guardE_def)

lemma neverE_bind [never_intros]: "neverE e r \<Longrightarrow> (\<And>x. neverE e (f x)) \<Longrightarrow> neverE e (bindE r f)"
  by (cases r) (auto simp: neverE_def)

lemma never_if [never_intros]: "(b \<Longrightarrow> never e m) \<Longrightarrow> (\<not> b \<Longrightarrow> never e n) \<Longrightarrow> never e (if b then m else n)"
  by simp

lemma neverE_if [never_intros]: "(b \<Longrightarrow> neverE e m) \<Longrightarrow> (\<not> b \<Longrightarrow> neverE e n) \<Longrightarrow> neverE e (if b then m else n)"
  by simp

lemma never_option [never_intros]:
  "never e m \<Longrightarrow> (\<And>y. never e (f y)) \<Longrightarrow> never e (case x of None \<Rightarrow> m | Some y \<Rightarrow> f y)"
  by (cases x) simp_all

lemma neverE_option [never_intros]:
  "neverE e m \<Longrightarrow> (\<And>y. neverE e (f y)) \<Longrightarrow> neverE e (case x of None \<Rightarrow> m | Some y \<Rightarrow> f y)"
  by (cases x) simp_all

lemma never_prod [never_intros]: "(\<And>a b. never e (f a b)) \<Longrightarrow> never e (case p of (a, b) \<Rightarrow> f a b)"
  by (cases p) simp

lemma neverE_prod [never_intros]: "(\<And>a b. neverE e (f a b)) \<Longrightarrow> neverE e (case p of (a, b) \<Rightarrow> f a b)"
  by (cases p) simp

lemma never_sum [never_intros]:
  "(\<And>a. never e (f a)) \<Longrightarrow> (\<And>b. never e (g b)) \<Longrightarrow> never e (case x of Inl a \<Rightarrow> f a | Inr b \<Rightarrow> g b)"
  by (cases x) simp_all

lemma never_total [never_intros]: "never e (\<lambda>s. case g s of (s', r) \<Rightarrow> (s', Inr r))"
  by (simp add: never_def split: prod.split)

end
