(* ===== verification/InputsManifest.thy ===== *)
theory InputsManifest
  imports JobModel
begin

text \<open>
  The manifest of a job's input data sets: domain/inputs_manifest.py. SHA-256 in hexadecimal is the
  parameter \<open>sha256\<close>; the digest of a compact JSON text with sorted keys is \<open>digest\<close>.
\<close>

section \<open>File names\<close>

text \<open>\<open>Path(p).name\<close> and \<open>Path(p).suffix\<close>.\<close>

definition path_name :: "str \<Rightarrow> str" where
  "path_name p = (case posix_parts p of [] \<Rightarrow> [] | parts \<Rightarrow> last parts)"

definition path_suffix :: "str \<Rightarrow> str" where
  "path_suffix p =
     (let name = path_name p; tail = rev (takeWhile (\<lambda>c. c \<noteq> CHR ''.'') (rev name))
      in if CHR ''.'' \<notin> set name \<or> tail = [] \<or> length name = Suc (length tail) then [] else CHR ''.'' # tail)"

section \<open>Data sets\<close>

definition ALLOWED_DATASET_ROLES :: "str list" where
  "ALLOWED_DATASET_ROLES = [''primary_dataset'', ''secondary_dataset'', ''auxiliary_data'', ''other'']"

record prepared_dataset =
  pd_dataset_key :: str
  pd_role :: str
  pd_rel_path :: str
  pd_sha256 :: str
  pd_fingerprint :: str
  pd_format :: str
  pd_original_name :: str
  pd_size_bytes :: int
  pd_uploaded_at :: str
  pd_content_type :: "str option"
  pd_data :: str

definition safe_filename :: "str option \<Rightarrow> str option \<Rightarrow> exn + str" where
  "safe_filename original_name override_name =
     (case (if override_name \<noteq> None then override_name else original_name) of
        None \<Rightarrow> Inl (InErr InputFilenameUnsafe)
      | Some candidate \<Rightarrow>
          (let name = py_strip candidate
           in if name = [] \<or> \<not> is_safe_path_segment name then Inl (InErr InputFilenameUnsafe) else Inr name))"

definition validate_dataset_role :: "str \<Rightarrow> exn + str" where
  "validate_dataset_role role =
     (if py_strip role \<in> set ALLOWED_DATASET_ROLES then Inr (py_strip role) else Inl (InErr InputRoleInvalid))"

definition format_from_filename :: "str \<Rightarrow> exn + str \<times> str" where
  "format_from_filename filename =
     (let ext = py_lower (path_suffix filename)
      in if ext = ''.csv'' then Inr (''csv'', ext)
         else if ext = ''.xls'' \<or> ext = ''.xlsx'' then Inr (''excel'', ext)
         else if ext = ''.dta'' then Inr (''dta'', ext)
         else Inl (InErr InputUnsupportedFormat))"

definition dataset_key_from_sha256 :: "str \<Rightarrow> str" where
  "dataset_key_from_sha256 sha = ''ds_'' @ take 16 sha"

definition dataset_rel_path :: "str \<Rightarrow> str \<Rightarrow> str" where
  "dataset_rel_path dataset_key ext = ''inputs/'' @ dataset_key @ ext"

definition prepare_dataset ::
  "(str \<Rightarrow> str) \<Rightarrow> str \<Rightarrow> str option \<Rightarrow> str option \<Rightarrow> str \<Rightarrow> str option \<Rightarrow> str \<Rightarrow> exn + prepared_dataset" where
  "prepare_dataset sha256 data original_name override role content_type uploaded_at =
     bindE (safe_filename original_name override) (\<lambda>name.
     bindE (format_from_filename name) (\<lambda>(fmt, ext).
     bindE (validate_dataset_role role) (\<lambda>role'.
       let sha = sha256 data; key = dataset_key_from_sha256 sha
       in Inr \<lparr>pd_dataset_key = key, pd_role = role', pd_rel_path = dataset_rel_path key ext, pd_sha256 = sha,
               pd_fingerprint = ''sha256:'' @ sha, pd_format = fmt, pd_original_name = name,
               pd_size_bytes = int (length data), pd_uploaded_at = uploaded_at,
               pd_content_type = content_type, pd_data = data\<rparr>)))"

section \<open>The manifest\<close>

definition opt_json :: "str option \<Rightarrow> json" where
  "opt_json v = (case v of None \<Rightarrow> JNull | Some s \<Rightarrow> JStr s)"

definition dataset_item :: "prepared_dataset \<Rightarrow> jobj" where
  "dataset_item d =
     [(''dataset_key'', JStr (pd_dataset_key d)), (''role'', JStr (pd_role d)), (''rel_path'', JStr (pd_rel_path d)),
      (''original_name'', JStr (pd_original_name d)), (''size_bytes'', JInt (pd_size_bytes d)),
      (''sha256'', JStr (pd_sha256 d)), (''fingerprint'', JStr (pd_fingerprint d)), (''format'', JStr (pd_format d)),
      (''uploaded_at'', JStr (pd_uploaded_at d)), (''content_type'', opt_json (pd_content_type d))]"

definition role_sort_order :: "str \<Rightarrow> nat" where
  "role_sort_order role =
     (if role = ''primary_dataset'' then 0 else if role = ''secondary_dataset'' then 1
      else if role = ''auxiliary_data'' then 2 else if role = ''other'' then 3 else 99)"

text \<open>A stable sort by a pair is a sort by the second key followed by a stable sort by the first.\<close>

definition manifest_payload :: "prepared_dataset list \<Rightarrow> jobj" where
  "manifest_payload datasets =
     [(''schema_version'', JInt 2),
      (''datasets'', JList (map (JObj \<circ> dataset_item)
         (sort_key (role_sort_order \<circ> pd_role) (sort_key pd_dataset_key datasets))))]"

definition fingerprint_items :: "prepared_dataset list \<Rightarrow> json" where
  "fingerprint_items datasets =
     JList (map (\<lambda>d. JObj [(''role'', JStr (pd_role d)), (''sha256'', JStr (pd_sha256 d)),
         (''size_bytes'', JInt (pd_size_bytes d))]) (sort_key pd_role (sort_key pd_sha256 datasets)))"

definition inputs_fingerprint :: "(json \<Rightarrow> str) \<Rightarrow> prepared_dataset list \<Rightarrow> str" where
  "inputs_fingerprint digest datasets = ''sha256:'' @ digest (fingerprint_items datasets)"

text \<open>\<open>primary_dataset_details\<close>; \<open>None\<close> is its \<open>ValueError\<close>.\<close>

definition present_text :: "jobj \<Rightarrow> str \<Rightarrow> str option" where
  "present_text flds key = nonblank_str (dict_get flds key)"

definition details_of :: "jobj \<Rightarrow> (str \<times> str \<times> str) option" where
  "details_of item =
     (case (present_text item ''rel_path'', present_text item ''format'') of
        (Some rel_path, Some fmt) \<Rightarrow>
          Some (rel_path, fmt, case present_text item ''original_name'' of None \<Rightarrow> rel_path | Some n \<Rightarrow> n)
      | _ \<Rightarrow> None)"

fun primary_item :: "json list \<Rightarrow> jobj option" where
  "primary_item [] = None"
| "primary_item (JObj item # items) =
     (if dict_get item ''role'' = Some (JStr ''primary_dataset'') then Some item else primary_item items)"
| "primary_item (_ # items) = primary_item items"

definition primary_dataset_details :: "jobj \<Rightarrow> (str \<times> str \<times> str) option" where
  "primary_dataset_details manifest =
     (case dict_get manifest ''datasets'' of
        Some (JList items) \<Rightarrow> (case primary_item items of None \<Rightarrow> None | Some item \<Rightarrow> details_of item)
      | _ \<Rightarrow>
          (case dict_get manifest ''primary_dataset'' of
             Some (JObj primary) \<Rightarrow> details_of primary
           | _ \<Rightarrow> None))"

section \<open>Laws\<close>

lemma prepare_dataset_fields:
  "prepare_dataset sha256 data name ov role ct ts = Inr d \<Longrightarrow>
     pd_sha256 d = sha256 data \<and> pd_dataset_key d = dataset_key_from_sha256 (sha256 data) \<and>
     pd_size_bytes d = int (length data) \<and> pd_role d \<in> set ALLOWED_DATASET_ROLES \<and> pd_data d = data \<and>
     validate_dataset_role role = Inr (pd_role d)"
  by (auto simp: prepare_dataset_def Let_def bindE_Inr_iff validate_dataset_role_def split: if_split_asm prod.split_asm)

end
