(* ===== verification/DoFile.thy ===== *)
theory DoFile
  imports Worker InputsManifest
begin

text \<open>
  Do-files: the template repository (infra/fs_do_template_repository.py), the rendering of templates
  (domain/do_template_rendering.py), the outputs a template declares (domain/do_template_run_support.py)
  and the generator (domain/do_file_generator.py).

  A template's file and meta document come from the library directory, which is the argument \<open>lib\<close>.
  Errors keep their reason; the text of a message is left out.
\<close>

section \<open>Python helpers\<close>

text \<open>\<open>bool(v)\<close>, and \<open>s.replace(old, new)\<close> for a non-empty \<open>old\<close>.\<close>

fun truthy :: "json \<Rightarrow> bool" where
  "truthy JNull = False"
| "truthy (JBool b) = b"
| "truthy (JInt i) = (i \<noteq> 0)"
| "truthy (JFloat f) = (f \<noteq> Finite 0)"
| "truthy (JStr s) = (s \<noteq> [])"
| "truthy (JList xs) = (xs \<noteq> [])"
| "truthy (JObj d) = (d \<noteq> [])"

fun replace_in :: "str \<Rightarrow> str \<Rightarrow> str \<Rightarrow> str" where
  "replace_in old new [] = []"
| "replace_in old new (c # s) =
     (if old \<noteq> [] \<and> startswith (c # s) old then new @ replace_in old new (drop (length old - 1) s)
      else c # replace_in old new s)"

section \<open>The template library\<close>

datatype library_doc = NoDoc | BadDoc | LibraryDoc json

record do_template =
  dt_template_id :: str
  dt_do_text :: str
  dt_meta :: jobj

record template_library =
  tl_index :: library_doc
  tl_do_files :: "str \<rightharpoonup> str"
  tl_meta_files :: "str \<Rightarrow> library_doc"

definition safe_library_filename :: "str \<Rightarrow> bool" where
  "safe_library_filename value =
     (value \<noteq> [] \<and> CHR ''/'' \<notin> set value \<and> CHR 0x5C \<notin> set value \<and> \<not> startswith value ''~'' \<and>
      value \<noteq> ''.'' \<and> value \<noteq> ''..'')"

definition load_library_doc :: "library_doc \<Rightarrow> template_error \<Rightarrow> template_error \<Rightarrow> template_error + jobj" where
  "load_library_doc doc not_found bad =
     (case doc of NoDoc \<Rightarrow> Inl not_found | LibraryDoc (JObj d) \<Rightarrow> Inr d | _ \<Rightarrow> Inl bad)"

definition tasks_mapping :: "jobj \<Rightarrow> template_error + jobj" where
  "tasks_mapping index =
     (case dict_get index ''tasks'' of
        None \<Rightarrow> Inr []
      | Some (JObj tasks) \<Rightarrow> Inr tasks
      | _ \<Rightarrow> Inl (DoTemplateIndexCorrupted ''index.tasks_invalid''))"

definition task_record :: "jobj \<Rightarrow> str \<Rightarrow> template_error + jobj" where
  "task_record tasks template_id =
     (case dict_get tasks template_id of Some (JObj r) \<Rightarrow> Inr r | _ \<Rightarrow> Inl DoTemplateNotFound)"

definition record_do_filename :: "jobj \<Rightarrow> template_error + str" where
  "record_do_filename rec =
     (case dict_get rec ''do_file'' of
        Some (JStr v) \<Rightarrow>
          (if safe_library_filename v then Inr v else Inl (DoTemplateIndexCorrupted ''index.do_file_invalid''))
      | _ \<Rightarrow> Inl (DoTemplateIndexCorrupted ''index.do_file_invalid''))"

definition meta_filename :: "str \<Rightarrow> str" where
  "meta_filename do_filename =
     (let name = path_name do_filename
      in take (length name - length (path_suffix do_filename)) name @ ''.meta.json'')"

definition library_index :: "template_library \<Rightarrow> template_error + jobj" where
  "library_index lib =
     load_library_doc (tl_index lib) DoTemplateIndexNotFound (DoTemplateIndexCorrupted ''index.json_invalid'')"

definition get_template :: "template_library \<Rightarrow> str \<Rightarrow> template_error + do_template" where
  "get_template lib template_id =
     bindE (library_index lib) (\<lambda>index.
     bindE (tasks_mapping index) (\<lambda>tasks.
     bindE (task_record tasks template_id) (\<lambda>rec.
     bindE (record_do_filename rec) (\<lambda>do_name.
       case tl_do_files lib do_name of
         None \<Rightarrow> Inl DoTemplateSourceNotFound
       | Some do_text \<Rightarrow>
           (let meta_name = meta_filename do_name
            in if \<not> safe_library_filename meta_name then Inl (DoTemplateIndexCorrupted ''index.meta_file_invalid'')
               else bindE (load_library_doc (tl_meta_files lib meta_name) DoTemplateMetaNotFound
                             (DoTemplateIndexCorrupted ''meta.json_invalid'')) (\<lambda>meta.
                 Inr \<lparr>dt_template_id = template_id, dt_do_text = do_text, dt_meta = meta\<rparr>))))))"

definition list_template_ids :: "template_library \<Rightarrow> template_error + str list" where
  "list_template_ids lib =
     bindE (library_index lib) (\<lambda>index.
     bindE (tasks_mapping index) (\<lambda>tasks.
       Inr (sort (remdups (filter (\<lambda>k. \<not> blank k) (map fst tasks))))))"

section \<open>Rendering\<close>

record template_param_spec =
  tp_name :: str
  tp_required :: bool

fun param_specs :: "str list \<Rightarrow> json list \<Rightarrow> template_param_spec list" where
  "param_specs seen [] = []"
| "param_specs seen (item # items) =
     (case item of
        JObj d \<Rightarrow>
          (case nonblank_str (dict_get d ''name'') of
             Some name \<Rightarrow>
               (if name \<in> set seen then param_specs seen items
                else \<lparr>tp_name = name,
                      tp_required = (case dict_get d ''required'' of None \<Rightarrow> False | Some v \<Rightarrow> truthy v)\<rparr>
                     # param_specs (name # seen) items)
           | None \<Rightarrow> param_specs seen items)
      | _ \<Rightarrow> param_specs seen items)"

definition template_param_specs :: "jobj \<Rightarrow> template_param_spec list" where
  "template_param_specs meta =
     (case dict_get meta ''parameters'' of Some (JList items) \<Rightarrow> param_specs [] items | _ \<Rightarrow> [])"

definition PARAM_ALIAS_PAIRS :: "(str \<times> str) list" where
  "PARAM_ALIAS_PAIRS = [(''__ID_VAR__'', ''__PANELVAR__'')]"

definition add_alias :: "str \<times> str \<Rightarrow> (str, str) dict \<Rightarrow> (str, str) dict" where
  "add_alias pair params =
     (case pair of (left, right) \<Rightarrow>
        (case (dict_get params left, dict_get params right) of
           (Some v, None) \<Rightarrow> dict_set params right v
         | (None, Some v) \<Rightarrow> dict_set params left v
         | _ \<Rightarrow> params))"

definition params_with_aliases :: "(str, str) dict \<Rightarrow> (str, str) dict" where
  "params_with_aliases params = fold add_alias PARAM_ALIAS_PAIRS params"

fun resolve_params :: "template_param_spec list \<Rightarrow> (str, str) dict \<Rightarrow> template_error + (str, str) dict" where
  "resolve_params [] params = Inr []"
| "resolve_params (spec # specs) params =
     (if tp_required spec \<and> dict_get params (tp_name spec) = None
      then Inl (DoTemplateParameterMissing (tp_name spec))
      else bindE (resolve_params specs params) (\<lambda>rest.
             Inr ((tp_name spec, case dict_get params (tp_name spec) of None \<Rightarrow> [] | Some v \<Rightarrow> v) # rest)))"

text \<open>The names by length, longest first, equal lengths in the order of the specifications.\<close>

definition by_length_desc :: "str list \<Rightarrow> str list" where
  "by_length_desc names = sort_key (\<lambda>n. - int (length n)) names"

definition render_do_text ::
  "str \<Rightarrow> template_param_spec list \<Rightarrow> (str, str) dict \<Rightarrow> template_error + str \<times> (str, str) dict" where
  "render_do_text do_text specs params =
     bindE (resolve_params specs (params_with_aliases params)) (\<lambda>resolved.
       Inr (fold (\<lambda>name t. replace_in name (case dict_get resolved name of None \<Rightarrow> [] | Some v \<Rightarrow> v) t)
              (by_length_desc (map fst resolved)) do_text, resolved))"

section \<open>The declared outputs\<close>

definition safe_output_filename :: "str \<Rightarrow> bool" where
  "safe_output_filename value =
     (value \<noteq> [] \<and> CHR 0x5C \<notin> set value \<and> \<not> startswith value ''~'' \<and> \<not> startswith value ''/'' \<and>
      posix_parts value \<noteq> [] \<and> ''..'' \<notin> set (posix_parts value) \<and>
      (\<forall>p\<in>set (posix_parts value). \<not> startswith p ''~''))"

definition output_kind :: "jobj \<Rightarrow> artifact_kind" where
  "output_kind output =
     (case dict_get output ''type'' of
        Some (JStr t) \<Rightarrow>
          (if t = ''table'' then STATA_EXPORT_TABLE
           else if t = ''data'' then STATA_EXPORT_DATASET
           else if t = ''report'' then STATA_EXPORT_REPORT
           else if t = ''manifest'' then STATA_EXPORT_MANIFEST
           else if t = ''figure'' \<or> t = ''graph'' then STATA_EXPORT_FIGURE
           else if t = ''log'' then STATA_RESULT_LOG
           else STATA_EXPORT_OTHER)
      | _ \<Rightarrow> STATA_EXPORT_OTHER)"

definition declared_outputs :: "jobj \<Rightarrow> template_error + jobj list" where
  "declared_outputs meta =
     (case dict_get meta ''outputs'' of
        None \<Rightarrow> Inr []
      | Some JNull \<Rightarrow> Inr []
      | Some (JList items) \<Rightarrow> Inr (List.map_filter as_obj items)
      | _ \<Rightarrow> Inl (DoTemplateContractInvalid ''meta.outputs_invalid''))"

definition output_filename :: "jobj \<Rightarrow> template_error + str" where
  "output_filename output =
     (case dict_get output ''file'' of
        Some (JStr f) \<Rightarrow>
          (if safe_output_filename f then Inr f else Inl (DoTemplateContractInvalid ''meta.output_file_invalid''))
      | _ \<Rightarrow> Inl (DoTemplateContractInvalid ''meta.output_file_invalid''))"

section \<open>The inputs of a generation\<close>

definition stata_quote :: "str \<Rightarrow> str" where
  "stata_quote value = CHR 0x22 # replace_in [CHR 0x22] [CHR 0x22, CHR 0x22] value @ [CHR 0x22]"

definition extract_generate_step :: "plan_step list \<Rightarrow> template_error + plan_step" where
  "extract_generate_step steps =
     (case find (\<lambda>s. is_do_generation_step_type (ps_type s)) steps of
        None \<Rightarrow> Inl (DoFilePlanInvalid ''missing_generate_step'')
      | Some s \<Rightarrow> Inr s)"

definition extract_template :: "plan_step \<Rightarrow> template_error + str" where
  "extract_template step =
     (case nonblank_str (dict_get (ps_params step) ''template_id'') of
        Some t \<Rightarrow> Inr t
      | None \<Rightarrow>
          (case nonblank_str (dict_get (ps_params step) ''template'') of
             Some t \<Rightarrow> Inr t
           | None \<Rightarrow> Inl (DoFilePlanInvalid ''missing_template_id'')))"

fun string_params :: "(str, str) dict \<Rightarrow> jobj \<Rightarrow> template_error + (str, str) dict" where
  "string_params params [] = Inr params"
| "string_params params ((key, v) # rest) =
     (if blank key then string_params params rest
      else case v of
             JStr s \<Rightarrow> string_params (dict_set params key s) rest
           | _ \<Rightarrow> Inl (DoFilePlanInvalid ''template_params_value_not_string''))"

definition extract_template_params :: "plan_step \<Rightarrow> template_error + (str, str) dict" where
  "extract_template_params step =
     (case dict_get (ps_params step) ''template_params'' of
        None \<Rightarrow> Inr []
      | Some JNull \<Rightarrow> Inr []
      | Some (JObj raw) \<Rightarrow> string_params [] raw
      | _ \<Rightarrow> Inl (DoFilePlanInvalid ''template_params_invalid''))"

definition format_of_rel_path :: "str \<Rightarrow> str option" where
  "format_of_rel_path rel_path =
     (let ext = py_lower (path_suffix rel_path)
      in if ext = ''.csv'' then Some ''csv''
         else if ext = ''.xls'' \<or> ext = ''.xlsx'' then Some ''excel''
         else if ext = ''.dta'' then Some ''dta'' else None)"

definition normalize_dataset_format :: "json option \<Rightarrow> str \<Rightarrow> template_error + str" where
  "normalize_dataset_format raw rel_path =
     (let stated = (case raw of Some (JStr s) \<Rightarrow> py_lower (py_strip s) | _ \<Rightarrow> [])
      in if stated \<in> {''csv'', ''excel'', ''dta''} then Inr stated
         else case format_of_rel_path rel_path of
                Some f \<Rightarrow> Inr f
              | None \<Rightarrow> Inl (DoFileInputsManifestInvalid ''primary_dataset_format_missing''))"

definition sheet_name_or_none :: "json option \<Rightarrow> str option" where
  "sheet_name_or_none v =
     (case v of Some (JStr s) \<Rightarrow> (if py_strip s = [] then None else Some (py_strip s)) | _ \<Rightarrow> None)"

definition header_row_or_none :: "json option \<Rightarrow> bool option" where
  "header_row_or_none v = (case v of Some (JBool b) \<Rightarrow> Some b | _ \<Rightarrow> None)"

text \<open>Path, format, sheet name and header row of the primary data set. The manifest lists data sets, or has
  a \<open>primary_dataset\<close> object, or flat fields; only the first primary data set of the list counts.\<close>

definition item_info :: "str \<Rightarrow> jobj \<Rightarrow> json option \<times> json option \<times> str option \<times> bool option" where
  "item_info prefix d =
     (dict_get d (prefix @ ''rel_path''), dict_get d (prefix @ ''format''),
      sheet_name_or_none (dict_get d (prefix @ ''sheet_name'')), header_row_or_none (dict_get d (prefix @ ''header_row'')))"

definition raw_primary_info :: "jobj \<Rightarrow> json option \<times> json option \<times> str option \<times> bool option" where
  "raw_primary_info manifest =
     (case dict_get manifest ''datasets'' of
        Some (JList items) \<Rightarrow>
          (case primary_item items of None \<Rightarrow> (None, None, None, None) | Some item \<Rightarrow> item_info [] item)
      | _ \<Rightarrow>
          (case dict_get manifest ''primary_dataset'' of
             Some (JObj d) \<Rightarrow> item_info [] d
           | _ \<Rightarrow> item_info ''primary_dataset_'' manifest))"

definition extract_primary_dataset_info ::
  "jobj \<Rightarrow> template_error + str \<times> str \<times> str option \<times> bool option" where
  "extract_primary_dataset_info manifest =
     (case raw_primary_info manifest of (raw_path, raw_format, sheet, header) \<Rightarrow>
        (case raw_path of
           None \<Rightarrow> Inl (DoFileInputsManifestInvalid ''primary_dataset_rel_path_missing'')
         | Some (JStr rel_path) \<Rightarrow>
             (if blank rel_path then Inl (DoFileInputsManifestInvalid ''primary_dataset_rel_path_missing'')
              else if \<not> is_safe_job_rel_path rel_path
              then Inl (DoFileInputsManifestInvalid ''primary_dataset_rel_path_unsafe'')
              else bindE (normalize_dataset_format raw_format rel_path) (\<lambda>fmt. Inr (rel_path, fmt, sheet, header)))
         | _ \<Rightarrow> Inl (DoFileInputsManifestInvalid ''primary_dataset_rel_path_not_string'')))"

section \<open>The generator\<close>

fun artifact_kind_value :: "artifact_kind \<Rightarrow> str" where
  "artifact_kind_value INPUTS_MANIFEST = ''inputs.manifest''"
| "artifact_kind_value INPUTS_DATASET = ''inputs.dataset''"
| "artifact_kind_value LLM_PROMPT = ''llm.prompt''"
| "artifact_kind_value LLM_RESPONSE = ''llm.response''"
| "artifact_kind_value LLM_META = ''llm.meta''"
| "artifact_kind_value PLAN_JSON = ''plan.json''"
| "artifact_kind_value COMPOSITION_SUMMARY_JSON = ''composition.summary.json''"
| "artifact_kind_value COMPOSITION_PRODUCT_DATASET = ''composition.product.dataset''"
| "artifact_kind_value COMPOSITION_PRODUCT_TABLE = ''composition.product.table''"
| "artifact_kind_value DO_TEMPLATE_SOURCE = ''do_template.source''"
| "artifact_kind_value DO_TEMPLATE_META = ''do_template.meta''"
| "artifact_kind_value DO_TEMPLATE_PARAMS = ''do_template.params''"
| "artifact_kind_value DO_TEMPLATE_RUN_META_JSON = ''do_template.run.meta.json''"
| "artifact_kind_value DO_TEMPLATE_SELECTION_STAGE1 = ''do_template.selection.stage1''"
| "artifact_kind_value DO_TEMPLATE_SELECTION_CANDIDATES = ''do_template.selection.candidates''"
| "artifact_kind_value DO_TEMPLATE_SELECTION_STAGE2 = ''do_template.selection.stage2''"
| "artifact_kind_value STATA_DO = ''stata.do''"
| "artifact_kind_value STATA_LOG = ''stata.log''"
| "artifact_kind_value STATA_RESULT_LOG = ''stata.result.log''"
| "artifact_kind_value RUN_STDOUT = ''run.stdout''"
| "artifact_kind_value RUN_STDERR = ''run.stderr''"
| "artifact_kind_value RUN_META_JSON = ''run.meta.json''"
| "artifact_kind_value RUN_ERROR_JSON = ''run.error.json''"
| "artifact_kind_value STATA_EXPORT_TABLE = ''stata.export.table''"
| "artifact_kind_value STATA_EXPORT_FIGURE = ''stata.export.figure''"
| "artifact_kind_value STATA_EXPORT_DATASET = ''stata.export.dataset''"
| "artifact_kind_value STATA_EXPORT_REPORT = ''stata.export.report''"
| "artifact_kind_value STATA_EXPORT_MANIFEST = ''stata.export.manifest''"
| "artifact_kind_value STATA_EXPORT_OTHER = ''stata.export.other''"
| "artifact_kind_value STATA_REPORT_INTERPRETATION = ''stata.report.interpretation''"

record prepared_template =
  pt_template_id :: str
  pt_raw_do :: str
  pt_meta :: jobj
  pt_params :: "(str, str) dict"
  pt_dataset_rel_path :: str
  pt_dataset_format :: str
  pt_sheet_name :: "str option"
  pt_header_row :: "bool option"

record generated_do_file =
  gd_template_id :: str
  gd_do_file :: str
  gd_template_source :: str
  gd_template_meta :: jobj
  gd_template_params :: "(str, str) dict"
  gd_expected_outputs :: "(artifact_kind \<times> str) list"

definition newline :: str where
  "newline = [CHR 0x0A]"

definition import_excel_options :: "str option \<Rightarrow> bool option \<Rightarrow> str" where
  "import_excel_options sheet header =
     py_join '' '' ((case sheet of None \<Rightarrow> [] | Some n \<Rightarrow> [''sheet('' @ stata_quote n @ '')'']) @
       (if header \<noteq> Some False then [''firstrow''] else []) @ [''clear''])"

definition stage_primary_dataset :: "str \<Rightarrow> str \<Rightarrow> str option \<Rightarrow> bool option \<Rightarrow> str" where
  "stage_primary_dataset rel_path fmt sheet header =
     (let src = stata_quote rel_path; q = [CHR 0x22]
      in py_join newline
           ([''* SS_DO_LIBRARY_INPUTS_STAGE (generated)'',
             ''capture confirm file '' @ src,
             ''if _rc {'',
             ''    display as error '' @ q @ ''ERROR: primary dataset not found: '' @ rel_path @ q,
             ''    exit 601'',
             ''}''] @
            (if fmt = ''csv'' then [''copy '' @ src @ '' '' @ q @ ''data.csv'' @ q @ '', replace'']
             else if fmt = ''dta'' then [''copy '' @ src @ '' '' @ q @ ''data.dta'' @ q @ '', replace'']
             else [''import excel '' @ src @ '', '' @ import_excel_options sheet header,
                   ''save '' @ q @ ''data.dta'' @ q @ '', replace'']) @ [[]]))"

fun outputs_of :: "jobj list \<Rightarrow> template_error + (artifact_kind \<times> str) list" where
  "outputs_of [] = Inr []"
| "outputs_of (out # outs) =
     bindE (output_filename out) (\<lambda>f. bindE (outputs_of outs) (\<lambda>rest. Inr ((output_kind out, f) # rest)))"

definition expected_outputs :: "jobj \<Rightarrow> template_error + (artifact_kind \<times> str) list" where
  "expected_outputs meta =
     bindE (declared_outputs meta) (\<lambda>outputs.
     bindE (outputs_of outputs) (\<lambda>ks. Inr (sort_key (artifact_kind_value \<circ> fst) (sort_key snd ks))))"

text \<open>\<open>DoFileGenerator\<close>; without a repository every template is unsupported.\<close>

definition prepare_do_file ::
  "template_library option \<Rightarrow> plan_step list \<Rightarrow> jobj \<Rightarrow> template_error + prepared_template" where
  "prepare_do_file repo steps manifest =
     bindE (extract_generate_step steps) (\<lambda>step.
     bindE (extract_template step) (\<lambda>template_id.
     bindE (extract_primary_dataset_info manifest) (\<lambda>(rel_path, fmt, sheet, header).
     bindE (extract_template_params step) (\<lambda>params.
       case repo of
         None \<Rightarrow> Inl DoFileTemplateUnsupported
       | Some lib \<Rightarrow>
           (case get_template lib template_id of
              Inl e \<Rightarrow> Inl (if e = DoTemplateNotFound then DoFileTemplateUnsupported else e)
            | Inr tpl \<Rightarrow>
                Inr \<lparr>pt_template_id = template_id, pt_raw_do = dt_do_text tpl, pt_meta = dt_meta tpl, pt_params = params,
                     pt_dataset_rel_path = rel_path, pt_dataset_format = fmt, pt_sheet_name = sheet,
                     pt_header_row = header\<rparr>)))))"

definition generate_from_prepared :: "prepared_template \<Rightarrow> template_error + generated_do_file" where
  "generate_from_prepared p =
     bindE (render_do_text (pt_raw_do p) (template_param_specs (pt_meta p)) (pt_params p)) (\<lambda>(rendered, resolved).
     bindE (expected_outputs (pt_meta p)) (\<lambda>outputs.
       Inr \<lparr>gd_template_id = pt_template_id p,
            gd_do_file = stage_primary_dataset (pt_dataset_rel_path p) (pt_dataset_format p) (pt_sheet_name p)
                           (pt_header_row p) @ newline @ rendered,
            gd_template_source = pt_raw_do p, gd_template_meta = pt_meta p, gd_template_params = resolved,
            gd_expected_outputs = outputs\<rparr>))"

definition generate_do_file ::
  "template_library option \<Rightarrow> plan_step list \<Rightarrow> jobj \<Rightarrow> template_error + generated_do_file" where
  "generate_do_file repo steps manifest = bindE (prepare_do_file repo steps manifest) generate_from_prepared"

text \<open>The errors the callers turn into a \<open>RunError\<close> when preparing; all others escape.\<close>

fun is_prepare_error :: "template_error \<Rightarrow> bool" where
  "is_prepare_error (DoFilePlanInvalid _) = True"
| "is_prepare_error DoFileTemplateUnsupported = True"
| "is_prepare_error (DoFileInputsManifestInvalid _) = True"
| "is_prepare_error _ = False"

definition template_run_error :: "template_error \<Rightarrow> run_error" where
  "template_run_error e = \<lparr>re_error_code = fst (template_error_info e), re_message = [], re_details = None\<rparr>"

end
