(* ===== verification/CompositionExec.thy ===== *)
theory CompositionExec
  imports CompositionPlan CsvMerge Effects DoFile
begin

text \<open>
  The execution of a composition plan: domain/composition_exec/. The state is the content of the job
  directory, a dictionary from the components of a relative path to a file; directories exist as far as
  they hold files. The do-file generator, the Stata runner, symbolic links, the clock and OS faults are
  the fields of \<open>exec_env\<close>. \<open>PlanCompositionInvalidError\<close> keeps its reason, its message text is shortened.
\<close>

section \<open>Environment and state\<close>

datatype content = TextFile str | JsonFile jobj

type_synonym files = "(str list, content) dict"

record exec_env =
  xe_job :: job
  xe_run_id :: str
  xe_manifest :: jobj
  xe_dirs_inside :: "str \<Rightarrow> bool"
  xe_escapes :: "str \<Rightarrow> bool"
  xe_copy_fails :: "str list \<Rightarrow> bool"
  xe_write_fails :: "str list \<Rightarrow> bool"
  xe_dumps :: "jobj \<Rightarrow> str"
  xe_generate :: "plan_step \<Rightarrow> jobj \<Rightarrow> template_error + str"
  xe_runner :: "str \<Rightarrow> str \<Rightarrow> int option \<Rightarrow> files \<Rightarrow> files \<times> run_result"
  xe_remaining :: "str \<Rightarrow> rat option"

record resolved_binding =
  rb_role :: str
  rb_dataset_ref :: str
  rb_source_rel_path :: str
  rb_dest_filename :: str
  rb_dataset_key :: str

record resolved_product =
  rp_step_id :: str
  rp_product_id :: str
  rp_kind :: product_kind
  rp_artifact_rel_path :: str

record exec_state =
  es_products :: "(str \<times> str, resolved_product) dict"
  es_step_summaries :: "jobj list"
  es_skip_reason :: "(str, str) dict"
  es_decisions :: "jobj list"
  es_artifacts :: "artifact_ref list"

text \<open>\<open>write_json\<close>, \<open>write_text\<close> and \<open>shutil.copy2\<close>.\<close>

definition write_file :: "exec_env \<Rightarrow> str list \<Rightarrow> content \<Rightarrow> (files, unit) act" where
  "write_file env path c fs =
     (if xe_write_fails env path then (fs, Inl (PyErr PyOSError)) else (dict_set fs path c, Inr ()))"

definition is_directory :: "files \<Rightarrow> str list \<Rightarrow> bool" where
  "is_directory fs path = list_ex (\<lambda>(q, _). length path < length q \<and> take (length path) q = path) fs"

definition copy_file :: "exec_env \<Rightarrow> str list \<Rightarrow> str list \<Rightarrow> (files, unit) act" where
  "copy_file env src dest fs =
     (case dict_get fs src of
        None \<Rightarrow> (fs, Inl (PyErr (if is_directory fs src then PyOSError else PyFileNotFound)))
      | Some c \<Rightarrow>
          (if xe_copy_fails env dest then (fs, Inl (PyErr PyOSError)) else (dict_set fs dest c, Inr ())))"

section \<open>run_ids.py, stata_run_paths.py\<close>

definition step_run_id :: "str \<Rightarrow> str \<Rightarrow> exn + str" where
  "step_run_id pipeline_run_id step_id =
     (let value = pipeline_run_id @ ''__'' @ step_id
      in if blank value \<or> CHR ''/'' \<in> set value \<or> CHR 0x5C \<in> set value
         then Inl (invalid ''unsafe_step_run_id'') else Inr value)"

definition safe_segment :: "str \<Rightarrow> bool" where
  "safe_segment value =
     (value \<noteq> [] \<and> CHR ''/'' \<notin> set value \<and> CHR 0x5C \<notin> set value \<and> value \<noteq> ''.'' \<and> value \<noteq> ''..'')"

text \<open>\<open>resolve_run_dirs\<close>: whether the directories of a run exist inside the job directory. Job ids and
  tenant ids are checked by \<open>resolve_job_dir\<close> too.\<close>

definition run_dirs_ok :: "exec_env \<Rightarrow> str \<Rightarrow> bool" where
  "run_dirs_ok env run_id =
     (safe_segment (j_job_id (xe_job env)) \<and> safe_segment run_id \<and>
      is_safe_path_segment (j_job_id (xe_job env)) \<and>
      is_safe_path_segment (shard_for_job_id (j_job_id (xe_job env))) \<and>
      is_safe_tenant_id (j_tenant_id (xe_job env)) \<and>
      xe_dirs_inside env run_id)"

definition run_dir :: "str \<Rightarrow> str list" where
  "run_dir run_id = [''runs'', run_id]"

definition artifacts_dir :: "str \<Rightarrow> str list" where
  "artifacts_dir run_id = run_dir run_id @ [''artifacts'']"

definition rel_of :: "str list \<Rightarrow> str" where
  "rel_of path = py_join ''/'' path"

section \<open>refs.py\<close>

definition exec_parse_ref :: "str \<Rightarrow> exn + dataset_ref" where
  "exec_parse_ref dataset_ref =
     (if blank dataset_ref then Inl (invalid ''dataset_ref_empty'')
      else case parse_ref dataset_ref of
             None \<Rightarrow> Inl (invalid ''dataset_ref_invalid'')
           | Some r \<Rightarrow> Inr r)"

definition text_of :: "json option \<Rightarrow> str option" where
  "text_of v = (case v of Some (JStr s) \<Rightarrow> Some s | _ \<Rightarrow> None)"

fun dataset_paths :: "(str, str) dict \<Rightarrow> json list \<Rightarrow> (str, str) dict" where
  "dataset_paths mapping [] = mapping"
| "dataset_paths mapping (item # items) =
     dataset_paths
       (case item of
          JObj d \<Rightarrow>
            (case (text_of (dict_get d ''dataset_key''), text_of (dict_get d ''rel_path'')) of
               (Some key, Some path) \<Rightarrow>
                 (if py_strip key \<noteq> [] \<and> py_strip path \<noteq> []
                  then dict_set mapping (py_strip key) (py_strip path) else mapping)
             | _ \<Rightarrow> mapping)
        | _ \<Rightarrow> mapping) items"

definition set_default :: "(str, str) dict \<Rightarrow> str \<Rightarrow> str option \<Rightarrow> (str, str) dict" where
  "set_default mapping key path =
     (case path of
        None \<Rightarrow> mapping
      | Some p \<Rightarrow> (if blank p \<or> dict_get mapping key \<noteq> None then mapping else dict_set mapping key (py_strip p)))"

definition inputs_by_key :: "jobj \<Rightarrow> (str, str) dict" where
  "inputs_by_key manifest =
     (let mapping = dataset_paths [] (case dict_get manifest ''datasets'' of Some (JList items) \<Rightarrow> items | _ \<Rightarrow> [])
      in case dict_get manifest ''primary_dataset'' of
           Some (JObj primary) \<Rightarrow> set_default mapping ''primary'' (text_of (dict_get primary ''rel_path''))
         | _ \<Rightarrow> set_default mapping ''primary'' (text_of (dict_get manifest ''primary_dataset_rel_path'')))"

definition safe_job_rel_resolve :: "exec_env \<Rightarrow> str \<Rightarrow> exn + str list" where
  "safe_job_rel_resolve env rel_path =
     (if blank rel_path \<or> \<not> is_safe_job_rel_path rel_path then Inl (invalid ''rel_path_unsafe'')
      else if xe_escapes env rel_path then Inl (invalid ''rel_path_escape'')
      else Inr (posix_parts rel_path))"

section \<open>conditional.py\<close>

definition text_items :: "json list \<Rightarrow> json list" where
  "text_items items = filter (\<lambda>i. case i of JStr s \<Rightarrow> \<not> blank s | _ \<Rightarrow> False) items"

definition conditional_decision :: "plan_step \<Rightarrow> exn + jobj option" where
  "conditional_decision step =
     (case dict_get (ps_params step) ''condition'' of
        Some (JObj raw) \<Rightarrow>
          (let op = (case dict_get raw ''predicate'' of
                       Some (JObj p) \<Rightarrow> (case dict_get p ''op'' of Some (JStr s) \<Rightarrow> s | _ \<Rightarrow> []) | _ \<Rightarrow> [])
           in if op \<notin> {''always_true'', ''always_false''} then Inl (invalid ''predicate_unsupported'')
              else case (dict_get raw ''true_steps'', dict_get raw ''false_steps'') of
                     (Some (JList ts), Some (JList fs)) \<Rightarrow>
                       Inr (Some [(''type'', JStr ''conditional''), (''step_id'', JStr (ps_step_id step)),
                         (''predicate'', JObj [(''op'', JStr op)]), (''result'', JBool (op = ''always_true'')),
                         (''selected_branch'', JStr (if op = ''always_true'' then ''true'' else ''false'')),
                         (''true_steps'', JList (text_items ts)), (''false_steps'', JList (text_items fs))])
                   | _ \<Rightarrow> Inl (invalid ''conditional_steps_missing''))
      | _ \<Rightarrow> Inr None)"

definition step_ids_of :: "json option \<Rightarrow> str list" where
  "step_ids_of v =
     (case v of
        Some (JList items) \<Rightarrow>
          remdups (concat (map (\<lambda>i. case i of JStr s \<Rightarrow> (if blank s then [] else [py_strip s]) | _ \<Rightarrow> []) items))
      | _ \<Rightarrow> [])"

definition apply_conditional_skip :: "str list \<Rightarrow> plan_step \<Rightarrow> jobj \<Rightarrow> exn + (str, str) dict" where
  "apply_conditional_skip known_steps step decision =
     (let branch = dict_get decision ''selected_branch'';
          true_steps = step_ids_of (dict_get decision ''true_steps'');
          false_steps = step_ids_of (dict_get decision ''false_steps'')
      in if branch \<notin> {Some (JStr ''true''), Some (JStr ''false'')} then Inl (invalid ''conditional_decision_invalid'')
         else if set true_steps \<inter> set false_steps \<noteq> {} then Inl (invalid ''conditional_branch_overlap'')
         else if \<not> set true_steps \<union> set false_steps \<subseteq> set known_steps then Inl (invalid ''conditional_unknown_step'')
         else Inr (map (\<lambda>sid. (sid, ''conditional_branch_not_selected (by '' @ ps_step_id step @ '')''))
                (if branch = Some (JStr ''true'') then false_steps else true_steps)))"

definition ensure_no_depends_on_skipped :: "plan_step \<Rightarrow> (str, str) dict \<Rightarrow> exn + unit" where
  "ensure_no_depends_on_skipped step skip =
     guardE (\<forall>d\<in>set (ps_depends_on step). dict_get skip d = None) (invalid ''depends_on_skipped_step'')"

section \<open>timeout.py\<close>

definition parse_timeout :: "plan_step \<Rightarrow> exn + int option" where
  "parse_timeout step =
     (case dict_get (ps_params step) ''timeout_seconds'' of
        None \<Rightarrow> Inr None
      | Some JNull \<Rightarrow> Inr None
      | Some (JObj _) \<Rightarrow> Inr None
      | Some (JList _) \<Rightarrow> Inr None
      | Some raw \<Rightarrow>
          (case py_int raw of
             Inl OverflowErr \<Rightarrow> Inl (PyErr PyOverflowError)
           | Inl _ \<Rightarrow> Inr None
           | Inr seconds \<Rightarrow> Inr (if seconds \<le> 0 then None else Some seconds)))"

definition step_timeout_seconds :: "exec_env \<Rightarrow> plan_step \<Rightarrow> exn + int option" where
  "step_timeout_seconds env step =
     bindE (parse_timeout step) (\<lambda>timeout.
       case xe_remaining env (ps_step_id step) of
         None \<Rightarrow> Inr timeout
       | Some left \<Rightarrow>
           (let remaining = (if trunc_rat left \<le> 0 then 1 else trunc_rat left)
            in Inr (Some (case timeout of None \<Rightarrow> remaining | Some t \<Rightarrow> min t remaining))))"

section \<open>materialize.py\<close>

fun collect_bindings :: "(str, str) dict \<Rightarrow> jobj \<Rightarrow> exn + (str, str) dict" where
  "collect_bindings out [] = Inr out"
| "collect_bindings out ((role, ref_obj) # rest) =
     (let ref = (case ref_obj of JStr s \<Rightarrow> s | _ \<Rightarrow> [])
      in if blank role then Inl (invalid ''input_binding_role_empty'')
         else if blank ref then Inl (invalid ''dataset_ref_empty'')
         else collect_bindings (dict_set out role ref) rest)"

definition raw_input_bindings :: "plan_step \<Rightarrow> exn + (str, str) dict" where
  "raw_input_bindings step =
     (case dict_get (ps_params step) ''input_bindings'' of
        Some (JObj raw) \<Rightarrow> (if raw = [] then Inl (invalid ''missing_input_bindings'') else collect_bindings [] raw)
      | _ \<Rightarrow> Inl (invalid ''missing_input_bindings''))"

definition resolve_input_binding ::
  "exec_env \<Rightarrow> (str, str) dict \<Rightarrow> str \<Rightarrow> str \<Rightarrow> str \<Rightarrow> exn + resolved_binding \<times> str list" where
  "resolve_input_binding env by_key role ref key =
     (case dict_get by_key key of
        None \<Rightarrow> Inl (invalid ''unknown_input_dataset'')
      | Some rel_path \<Rightarrow>
          (if rel_path = [] then Inl (invalid ''unknown_input_dataset'')
           else bindE (safe_job_rel_resolve env rel_path) (\<lambda>source.
                  Inr (\<lparr>rb_role = role, rb_dataset_ref = ref, rb_source_rel_path = rel_path,
                        rb_dest_filename = path_name rel_path, rb_dataset_key = key\<rparr>, source))))"

definition resolve_product_binding ::
  "exec_env \<Rightarrow> (str \<times> str, resolved_product) dict \<Rightarrow> str \<Rightarrow> str \<Rightarrow> str \<Rightarrow> str \<Rightarrow> exn + resolved_binding \<times> str list" where
  "resolve_product_binding env products role ref producer pid =
     (if \<not> is_safe_path_segment producer \<or> \<not> is_safe_path_segment pid then Inl (invalid ''unsafe_product_ref'')
      else case dict_get products (producer, pid) of
             None \<Rightarrow> Inl (invalid ''unknown_product_ref'')
           | Some p \<Rightarrow>
               bindE (safe_job_rel_resolve env (rp_artifact_rel_path p)) (\<lambda>source.
                 Inr (\<lparr>rb_role = role, rb_dataset_ref = ref, rb_source_rel_path = rp_artifact_rel_path p,
                       rb_dest_filename = producer @ ''__'' @ pid @ path_suffix (rp_artifact_rel_path p),
                       rb_dataset_key = ''prod_'' @ producer @ ''_'' @ pid\<rparr>, source)))"

definition resolve_binding ::
  "exec_env \<Rightarrow> (str, str) dict \<Rightarrow> (str \<times> str, resolved_product) dict \<Rightarrow> str \<times> str
   \<Rightarrow> exn + resolved_binding \<times> str list" where
  "resolve_binding env by_key products binding =
     (case binding of (role, ref) \<Rightarrow>
        bindE (exec_parse_ref ref) (\<lambda>r.
          case r of
            InputRef key \<Rightarrow> resolve_input_binding env by_key role ref key
          | ProdRef producer pid \<Rightarrow> resolve_product_binding env products role ref producer pid))"

text \<open>\<open>_copy_binding_to_inputs_dir\<close>: an OS fault becomes a composition error.\<close>

definition copy_binding :: "exec_env \<Rightarrow> str list \<Rightarrow> str list \<Rightarrow> (files, unit) act" where
  "copy_binding env src dest fs =
     (case copy_file env src dest fs of
        (fs', Inl (PyErr PyFileNotFound)) \<Rightarrow> (fs', Inl (invalid ''binding_source_missing''))
      | (fs', Inl (PyErr PyOSError)) \<Rightarrow> (fs', Inl (invalid ''binding_copy_failed''))
      | r \<Rightarrow> r)"

definition inputs_dir :: "str \<Rightarrow> str list" where
  "inputs_dir run_id = run_dir run_id @ [''inputs'']"

definition materialize_binding ::
  "exec_env \<Rightarrow> str \<Rightarrow> (str, str) dict \<Rightarrow> (str \<times> str, resolved_product) dict \<Rightarrow> resolved_binding list
   \<Rightarrow> str \<times> str \<Rightarrow> (files, resolved_binding list) act" where
  "materialize_binding env run_id by_key products acc binding =
     bindA (liftE (resolve_binding env by_key products binding)) (\<lambda>(b, source).
       bindA (copy_binding env source (inputs_dir run_id @ posix_parts (rb_dest_filename b))) (\<lambda>_.
         ret (acc @ [b])))"

definition step_manifest :: "resolved_binding list \<Rightarrow> jobj" where
  "step_manifest bs =
     [(''schema_version'', JInt 2),
      (''datasets'', JList (map (\<lambda>b. JObj [(''dataset_key'', JStr (rb_dataset_key b)), (''role'', JStr (rb_role b)),
         (''rel_path'', JStr (''inputs/'' @ rb_dest_filename b))]) bs))]"

definition materialize_step_inputs ::
  "exec_env \<Rightarrow> str \<Rightarrow> (str, str) dict \<Rightarrow> (str \<times> str, resolved_product) dict \<Rightarrow> plan_step
   \<Rightarrow> (files, resolved_binding list) act" where
  "materialize_step_inputs env run_id by_key products step =
     bindA (liftE (raw_input_bindings step)) (\<lambda>bindings.
       bindA (foldA (materialize_binding env run_id by_key products) [] bindings) (\<lambda>bs.
         bindA (write_file env (inputs_dir run_id @ [''manifest.json'']) (JsonFile (step_manifest bs))) (\<lambda>_.
           ret bs)))"

end
