(* ===== verification/CompositionRun.thy ===== *)
theory CompositionRun
  imports CompositionExec
begin

text \<open>
  The second half of domain/composition_exec/: products of a step, registration of products and
  decisions, summaries, one step, the whole plan, and the executor's error handling.
\<close>

section \<open>products.py\<close>

definition check_product_ids :: "plan_product list \<Rightarrow> exn + plan_product list" where
  "check_product_ids ps =
     (if \<forall>p\<in>set ps. is_safe_path_segment (pp_product_id p) then Inr ps else Inl (invalid ''unsafe_product_id''))"

definition products_from_step :: "plan_step \<Rightarrow> exn + plan_product list" where
  "products_from_step step =
     (case dict_get (ps_params step) ''products'' of
        None \<Rightarrow> Inr []
      | Some JNull \<Rightarrow> Inr []
      | Some (JList items) \<Rightarrow>
          (case all_some (map parse_product items) of
             None \<Rightarrow> Inl (invalid ''products_invalid'')
           | Some ps \<Rightarrow> check_product_ids ps)
      | _ \<Rightarrow> Inl (invalid ''products_invalid''))"

datatype merge_spec = AppendConfig "str list" | MergeConfig "str list"

definition keys_or_empty :: "json option \<Rightarrow> str list" where
  "keys_or_empty v =
     (case v of
        Some (JList items) \<Rightarrow>
          concat (map (\<lambda>i. case i of JStr s \<Rightarrow> (if blank s then [] else [py_strip s]) | _ \<Rightarrow> []) items)
      | _ \<Rightarrow> [])"

definition merge_config :: "plan_step \<Rightarrow> exn + merge_spec option" where
  "merge_config step =
     (case dict_get (ps_params step) ''merge'' of
        Some (JObj raw) \<Rightarrow>
          (let op = (case dict_get raw ''operation'' of Some (JStr s) \<Rightarrow> s | _ \<Rightarrow> []);
               keys = keys_or_empty (dict_get raw ''keys'')
           in if op = ''append'' then Inr (Some (AppendConfig keys))
              else if op = ''merge''
                then (if keys = [] then Inl (invalid ''merge_keys_missing'') else Inr (Some (MergeConfig keys)))
              else Inr None)
      | _ \<Rightarrow> Inr None)"

definition binding_ref :: "str \<Rightarrow> resolved_binding list \<Rightarrow> exn + str" where
  "binding_ref role bs =
     (case find (\<lambda>b. rb_role b = role) bs of
        None \<Rightarrow> Inl (invalid ''merge_bindings_missing'')
      | Some b \<Rightarrow> Inr (rb_dataset_ref b))"

definition merge_input_paths ::
  "exec_env \<Rightarrow> (str, str) dict \<Rightarrow> resolved_binding list \<Rightarrow> exn + str list \<times> str list" where
  "merge_input_paths env by_key bs =
     bindE (binding_ref ''primary_dataset'' bs) (\<lambda>pref.
     bindE (binding_ref ''secondary_dataset'' bs) (\<lambda>sref.
     bindE (exec_parse_ref pref) (\<lambda>p.
     bindE (exec_parse_ref sref) (\<lambda>s.
       case (p, s) of
         (InputRef pk, InputRef sk) \<Rightarrow>
           (case (dict_get by_key pk, dict_get by_key sk) of
              (Some prel, Some srel) \<Rightarrow>
                (if prel = [] \<or> srel = [] then Inl (invalid ''merge_bindings_missing'')
                 else bindE (safe_job_rel_resolve env prel) (\<lambda>pp.
                      bindE (safe_job_rel_resolve env srel) (\<lambda>sp. Inr (pp, sp))))
            | _ \<Rightarrow> Inl (invalid ''merge_bindings_missing''))
       | _ \<Rightarrow> Inl (invalid ''merge_requires_input_refs'')))))"

definition read_text :: "exec_env \<Rightarrow> str list \<Rightarrow> (files, str) act" where
  "read_text env path fs =
     (fs, case dict_get fs path of
            None \<Rightarrow> Inl (PyErr (if is_directory fs path then PyOSError else PyFileNotFound))
          | Some (TextFile t) \<Rightarrow> Inr t
          | Some (JsonFile d) \<Rightarrow> Inr (xe_dumps env d))"

definition join_result :: "csv_join_error + 'a \<Rightarrow> exn + 'a" where
  "join_result r = (case r of Inl e \<Rightarrow> Inl (invalid (csv_join_reason e)) | Inr x \<Rightarrow> Inr x)"

definition run_merge :: "merge_spec \<Rightarrow> str \<Rightarrow> str \<Rightarrow> exn + str \<times> jobj" where
  "run_merge cfg primary secondary =
     (case cfg of
        AppendConfig keys \<Rightarrow> join_result (append_csv primary secondary)
      | MergeConfig keys \<Rightarrow> join_result (merge_csv primary secondary keys))"

fun merge_decision :: "plan_step \<Rightarrow> merge_spec \<Rightarrow> jobj \<Rightarrow> jobj" where
  "merge_decision step (AppendConfig keys) stats =
     [(''type'', JStr ''append''), (''step_id'', JStr (ps_step_id step)), (''keys'', JList (map JStr keys)),
      (''stats'', JObj stats)]"
| "merge_decision step (MergeConfig keys) stats =
     [(''type'', JStr ''merge''), (''step_id'', JStr (ps_step_id step)), (''keys'', JList (map JStr keys)),
      (''stats'', JObj stats)]"

definition copy_primary_binding ::
  "exec_env \<Rightarrow> resolved_binding list \<Rightarrow> str list \<Rightarrow> (files, unit) act" where
  "copy_primary_binding env bs path =
     (case find (\<lambda>b. rb_role b = ''primary_dataset'') bs of
        None \<Rightarrow> raise_exn (invalid ''missing_primary_dataset'')
      | Some b \<Rightarrow>
          bindA (liftE (safe_job_rel_resolve env (rb_source_rel_path b))) (\<lambda>source. copy_file env source path))"

definition write_dataset_product ::
  "exec_env \<Rightarrow> plan_step \<Rightarrow> (str, str) dict \<Rightarrow> resolved_binding list \<Rightarrow> str list \<Rightarrow> (files, jobj list) act" where
  "write_dataset_product env step by_key bs path =
     bindA (liftE (merge_config step)) (\<lambda>cfg.
       case cfg of
         None \<Rightarrow> bindA (copy_primary_binding env bs path) (\<lambda>_. ret [])
       | Some c \<Rightarrow>
           bindA (liftE (merge_input_paths env by_key bs)) (\<lambda>(pp, sp).
           bindA (read_text env pp) (\<lambda>primary.
           bindA (liftE (join_result (read_csv primary))) (\<lambda>_.
           bindA (read_text env sp) (\<lambda>secondary.
           bindA (liftE (run_merge c primary secondary)) (\<lambda>(output, stats).
           bindA (write_file env path (TextFile output)) (\<lambda>_.
             ret [merge_decision step c stats])))))))"

text \<open>The source writes a backslash and an \<open>n\<close> where a line feed is meant.\<close>

abbreviation "BSL_N \<equiv> [CHR 0x5C, CHR ''n'']"

definition EMPTY_TABLE :: str where
  "EMPTY_TABLE = ''metric,value'' @ BSL_N @ ''N,0'' @ BSL_N @ ''k,0'' @ BSL_N"

definition copy_export_table :: "exec_env \<Rightarrow> artifact_ref list \<Rightarrow> str list \<Rightarrow> (files, unit) act" where
  "copy_export_table env artifacts path =
     (case find (\<lambda>a. ar_kind a = STATA_EXPORT_TABLE) artifacts of
        None \<Rightarrow> write_file env path (TextFile EMPTY_TABLE)
      | Some a \<Rightarrow> bindA (liftE (safe_job_rel_resolve env (ar_rel_path a))) (\<lambda>source. copy_file env source path))"

definition product_path :: "str \<Rightarrow> plan_product \<Rightarrow> str list" where
  "product_path run_id p =
     artifacts_dir run_id @
     [''products'', pp_product_id p @ (if pp_kind p \<in> {DatasetProduct, TableProduct} then ''.csv'' else ''.json'')]"

definition write_product ::
  "exec_env \<Rightarrow> plan_step \<Rightarrow> str \<Rightarrow> (str, str) dict \<Rightarrow> resolved_binding list \<Rightarrow> artifact_ref list
   \<Rightarrow> resolved_product list \<times> jobj list \<Rightarrow> plan_product \<Rightarrow> (files, resolved_product list \<times> jobj list) act" where
  "write_product env step run_id by_key bs artifacts acc p =
     (let path = product_path run_id p
      in bindA (case pp_kind p of
                  DatasetProduct \<Rightarrow> write_dataset_product env step by_key bs path
                | TableProduct \<Rightarrow> bindA (copy_export_table env artifacts path) (\<lambda>_. ret [])
                | kind \<Rightarrow>
                    bindA (write_file env path
                        (TextFile (''{'' @ [QUOTE] @ ''kind'' @ [QUOTE] @ '': '' @ [QUOTE] @ product_kind_value kind @
                                   [QUOTE] @ ''}'' @ BSL_N))) (\<lambda>_. ret []))
           (\<lambda>ds. ret (fst acc @ [\<lparr>rp_step_id = ps_step_id step, rp_product_id = pp_product_id p,
                                  rp_kind = pp_kind p, rp_artifact_rel_path = rel_of path\<rparr>],
                       snd acc @ ds)))"

definition option_list :: "'a option \<Rightarrow> 'a list" where
  "option_list x = (case x of None \<Rightarrow> [] | Some y \<Rightarrow> [y])"

definition create_products ::
  "exec_env \<Rightarrow> plan_step \<Rightarrow> str \<Rightarrow> (str, str) dict \<Rightarrow> resolved_binding list \<Rightarrow> artifact_ref list
   \<Rightarrow> (files, resolved_product list \<times> jobj list) act" where
  "create_products env step run_id by_key bs artifacts =
     bindA (liftE (products_from_step step)) (\<lambda>ps.
     bindA (liftE (conditional_decision step)) (\<lambda>cond.
       foldA (write_product env step run_id by_key bs artifacts) ([], option_list cond) ps))"

section \<open>registry.py\<close>

definition register_product :: "resolved_product \<Rightarrow> exec_state \<Rightarrow> exec_state" where
  "register_product p st =
     st\<lparr>es_products := dict_set (es_products st) (rp_step_id p, rp_product_id p) p,
        es_artifacts := es_artifacts st @
          [\<lparr>ar_kind = (if rp_kind p = DatasetProduct then COMPOSITION_PRODUCT_DATASET
                       else COMPOSITION_PRODUCT_TABLE),
            ar_rel_path = rp_artifact_rel_path p\<rparr>]\<rparr>"

definition register_products :: "resolved_product list \<Rightarrow> exec_state \<Rightarrow> exec_state" where
  "register_products ps st = fold register_product ps st"

fun register_decisions :: "str list \<Rightarrow> plan_step \<Rightarrow> exec_state \<Rightarrow> jobj list \<Rightarrow> exn + exec_state" where
  "register_decisions known_steps step st [] = Inr st"
| "register_decisions known_steps step st (d # ds) =
     (let st' = st\<lparr>es_decisions := es_decisions st @ [d]\<rparr>
      in if dict_get d ''type'' = Some (JStr ''conditional'')
         then bindE (apply_conditional_skip known_steps step d) (\<lambda>skips.
                register_decisions known_steps step
                  (st'\<lparr>es_skip_reason := fold (\<lambda>(k, v) m. dict_set m k v) skips (es_skip_reason st')\<rparr>) ds)
         else register_decisions known_steps step st' ds)"

section \<open>summary.py\<close>

definition executed_summary ::
  "plan_step \<Rightarrow> str \<Rightarrow> str \<Rightarrow> resolved_binding list \<Rightarrow> resolved_product list \<Rightarrow> jobj list \<Rightarrow> jobj" where
  "executed_summary step run_id status bs ps ds =
     [(''step_id'', JStr (ps_step_id step)), (''run_id'', JStr run_id), (''status'', JStr status),
      (''template_id'', case dict_get (ps_params step) ''template_id'' of None \<Rightarrow> JStr [] | Some v \<Rightarrow> v),
      (''depends_on'', JList (map JStr (ps_depends_on step))),
      (''bindings'', JList (map (\<lambda>b. JObj [(''role'', JStr (rb_role b)), (''dataset_ref'', JStr (rb_dataset_ref b)),
         (''source_rel_path'', JStr (rb_source_rel_path b)), (''dest_filename'', JStr (rb_dest_filename b))]) bs)),
      (''products'', JList (map (\<lambda>p. JObj [(''product_id'', JStr (rp_product_id p)),
         (''kind'', JStr (product_kind_value (rp_kind p))), (''artifact_rel_path'', JStr (rp_artifact_rel_path p))]) ps)),
      (''decisions'', JList (map JObj ds)),
      (''evidence_dir_rel'', JStr (''runs/'' @ run_id))]"

definition skipped_summary :: "plan_step \<Rightarrow> str \<Rightarrow> jobj" where
  "skipped_summary step reason =
     [(''step_id'', JStr (ps_step_id step)), (''run_id'', JNull), (''status'', JStr ''skipped''),
      (''reason'', JStr reason), (''depends_on'', JList (map JStr (ps_depends_on step)))]"

definition error_payload :: "run_error \<Rightarrow> jobj" where
  "error_payload e = [(''error_code'', JStr (re_error_code e)), (''message'', JStr (re_message e))]"

definition write_pipeline_summary ::
  "exec_env \<Rightarrow> str \<Rightarrow> jobj list \<Rightarrow> jobj list \<Rightarrow> run_error option \<Rightarrow> (files, artifact_ref) act" where
  "write_pipeline_summary env mode steps decisions err =
     (let path = artifacts_dir (xe_run_id env) @ [''composition_summary.json''];
          payload = [(''schema_version'', JInt 1), (''job_id'', JStr (j_job_id (xe_job env))),
            (''pipeline_run_id'', JStr (xe_run_id env)), (''composition_mode'', JStr mode),
            (''inputs_manifest'', JObj (xe_manifest env)), (''steps'', JList (map JObj steps)),
            (''decisions'', JList (map JObj decisions))] @
            (case err of None \<Rightarrow> [] | Some e \<Rightarrow> [(''error'', JObj (error_payload e))])
      in bindA (write_file env path (JsonFile payload)) (\<lambda>_.
           ret \<lparr>ar_kind = COMPOSITION_SUMMARY_JSON, ar_rel_path = rel_of path\<rparr>))"

definition failed_run :: "artifact_ref list \<Rightarrow> run_error \<Rightarrow> run_result" where
  "failed_run artifacts e =
     \<lparr>rs_ok = False, rs_exit_code = None, rs_timed_out = False, rs_artifacts = artifacts, rs_error = Some e\<rparr>"

text \<open>A failing write of the error file is itself reported; the message text of the OS error is left out.\<close>

definition write_pipeline_error :: "exec_env \<Rightarrow> run_error \<Rightarrow> files \<Rightarrow> files \<times> run_result" where
  "write_pipeline_error env e fs =
     (let path = artifacts_dir (xe_run_id env) @ [''run.error.json''];
          payload = error_payload e @ [(''timed_out'', JBool False), (''exit_code'', JNull)] @
            (case re_details e of None \<Rightarrow> [] | Some d \<Rightarrow> [(''details'', JObj d)])
      in case write_file env path (JsonFile payload) fs of
           (fs', Inl _) \<Rightarrow>
             (fs', failed_run [] \<lparr>re_error_code = ''COMPOSITION_PIPELINE_ERROR_WRITE_FAILED'', re_message = [], re_details = None\<rparr>)
         | (fs', Inr _) \<Rightarrow> (fs', failed_run [\<lparr>ar_kind = RUN_ERROR_JSON, ar_rel_path = rel_of path\<rparr>] e))"

section \<open>pipeline.py\<close>

definition fail_pipeline ::
  "exec_env \<Rightarrow> str \<Rightarrow> jobj list \<Rightarrow> jobj list \<Rightarrow> run_error \<Rightarrow> (files, run_result) act" where
  "fail_pipeline env mode steps decisions e =
     bindA (write_pipeline_summary env mode steps decisions (Some e)) (\<lambda>summary.
       bindA (\<lambda>fs. case write_pipeline_error env e fs of (fs', r) \<Rightarrow> (fs', Inr r)) (\<lambda>r.
         ret (r\<lparr>rs_ok := False, rs_artifacts := rs_artifacts r @ [summary]\<rparr>)))"

section \<open>dofile.py and errors.py\<close>

definition generate_step_do_file :: "exec_env \<Rightarrow> plan_step \<Rightarrow> jobj \<Rightarrow> exn + (run_error + str)" where
  "generate_step_do_file env step manifest =
     (if \<not> is_do_generation_step_type (ps_type step) then Inl (invalid ''unsupported_step_type'')
      else let step' = step\<lparr>ps_depends_on := []\<rparr>
           in if \<not> steps_valid [step'] then Inl (PyErr PyValueError)
              else case xe_generate env step' manifest of
                     Inr text \<Rightarrow> Inr (Inr text)
                   | Inl e \<Rightarrow> (if is_prepare_error e then Inr (Inl (template_run_error e)) else Inl (TplErr e)))"

definition error_or_default :: "run_result \<Rightarrow> run_error" where
  "error_or_default r =
     (case rs_error r of
        Some e \<Rightarrow> e
      | None \<Rightarrow> \<lparr>re_error_code = ''STATA_NONZERO_EXIT'', re_message = ''step failed without error detail'',
                  re_details = None\<rparr>)"

section \<open>step_execution.py\<close>

datatype step_outcome = Continue exec_state | Stop run_result

definition prepare_step_workspace ::
  "exec_env \<Rightarrow> (str, str) dict \<Rightarrow> exec_state \<Rightarrow> plan_step \<Rightarrow> (files, str \<times> resolved_binding list) act" where
  "prepare_step_workspace env by_key st step =
     bindA (liftE (step_run_id (xe_run_id env) (ps_step_id step))) (\<lambda>run_id.
     bindA (liftE (guardE (run_dirs_ok env run_id) (invalid ''step_run_dirs_invalid''))) (\<lambda>_.
     bindA (materialize_step_inputs env run_id by_key (es_products st) step) (\<lambda>bs.
       ret (run_id, bs))))"

definition run_step :: "exec_env \<Rightarrow> plan_step \<Rightarrow> str \<Rightarrow> str \<Rightarrow> (files, run_result) act" where
  "run_step env step run_id do_file =
     bindA (liftE (step_timeout_seconds env step)) (\<lambda>timeout.
       (\<lambda>fs. case xe_runner env run_id do_file timeout fs of (fs', r) \<Rightarrow> (fs', Inr r)))"

definition record_step_artifacts :: "str \<Rightarrow> run_result \<Rightarrow> exec_state \<Rightarrow> exec_state" where
  "record_step_artifacts run_id r st =
     st\<lparr>es_artifacts := es_artifacts st @ rs_artifacts r @
          [\<lparr>ar_kind = INPUTS_MANIFEST, ar_rel_path = rel_of (inputs_dir run_id @ [''manifest.json''])\<rparr>]\<rparr>"

text \<open>\<open>_execute_step_run_phase\<close>: a failed pipeline, or the state, the run id, the bindings and the result.\<close>

definition execute_run_phase ::
  "exec_env \<Rightarrow> str \<Rightarrow> (str, str) dict \<Rightarrow> exec_state \<Rightarrow> plan_step
   \<Rightarrow> (files, run_result + exec_state \<times> str \<times> resolved_binding list \<times> run_result) act" where
  "execute_run_phase env mode by_key st step =
     bindA (prepare_step_workspace env by_key st step) (\<lambda>(run_id, bs).
     bindA (liftE (generate_step_do_file env step (step_manifest bs))) (\<lambda>generated.
       case generated of
         Inl e \<Rightarrow>
           bindA (fail_pipeline env mode (es_step_summaries st) (es_decisions st) e) (\<lambda>r. ret (Inl r))
       | Inr do_file \<Rightarrow>
           bindA (run_step env step run_id do_file) (\<lambda>result.
             let st1 = record_step_artifacts run_id result st
             in if rs_ok result then ret (Inr (st1, run_id, bs, result))
                else let summaries = es_step_summaries st1 @ [executed_summary step run_id ''failed'' bs [] []]
                     in bindA (fail_pipeline env mode summaries (es_decisions st1) (error_or_default result))
                          (\<lambda>r. ret (Inl r)))))"

definition execute_products_phase ::
  "exec_env \<Rightarrow> str list \<Rightarrow> (str, str) dict \<Rightarrow> plan_step
   \<Rightarrow> exec_state \<times> str \<times> resolved_binding list \<times> run_result \<Rightarrow> (files, exec_state) act" where
  "execute_products_phase env known_steps by_key step phase =
     (case phase of (st, run_id, bs, result) \<Rightarrow>
        bindA (create_products env step run_id by_key bs (rs_artifacts result)) (\<lambda>(ps, ds).
        bindA (liftE (register_decisions known_steps step (register_products ps st) ds)) (\<lambda>st2.
          ret (st2\<lparr>es_step_summaries := es_step_summaries st2 @
                     [executed_summary step run_id ''succeeded'' bs ps ds]\<rparr>))))"

definition process_step ::
  "exec_env \<Rightarrow> str \<Rightarrow> str list \<Rightarrow> (str, str) dict \<Rightarrow> exec_state \<Rightarrow> plan_step \<Rightarrow> (files, step_outcome) act" where
  "process_step env mode known_steps by_key st step =
     (case dict_get (es_skip_reason st) (ps_step_id step) of
        Some reason \<Rightarrow>
          ret (Continue (st\<lparr>es_step_summaries := es_step_summaries st @ [skipped_summary step reason]\<rparr>))
      | None \<Rightarrow>
          bindA (liftE (ensure_no_depends_on_skipped step (es_skip_reason st))) (\<lambda>_.
          bindA (execute_run_phase env mode by_key st step) (\<lambda>phase.
            case phase of
              Inl r \<Rightarrow> ret (Stop r)
            | Inr ph \<Rightarrow>
                bindA (execute_products_phase env known_steps by_key step ph) (\<lambda>st'. ret (Continue st')))))"

section \<open>plan_execution.py\<close>

definition find_step :: "plan_step list \<Rightarrow> str \<Rightarrow> exn + plan_step" where
  "find_step steps sid =
     (case dict_get (dict_of (map (\<lambda>s. (ps_step_id s, s)) steps)) sid of
        None \<Rightarrow> Inl (PyErr PyKeyError)
      | Some s \<Rightarrow> Inr s)"

fun run_steps ::
  "exec_env \<Rightarrow> str \<Rightarrow> plan_step list \<Rightarrow> (str, str) dict \<Rightarrow> exec_state \<Rightarrow> str list \<Rightarrow> (files, step_outcome) act" where
  "run_steps env mode steps by_key st [] = ret (Continue st)"
| "run_steps env mode steps by_key st (sid # order) =
     bindA (liftE (find_step steps sid)) (\<lambda>step.
     bindA (process_step env mode (map ps_step_id steps) by_key st step) (\<lambda>outcome.
       case outcome of
         Stop r \<Rightarrow> ret (Stop r)
       | Continue st' \<Rightarrow> run_steps env mode steps by_key st' order))"

definition initial_exec_state :: exec_state where
  "initial_exec_state =
     \<lparr>es_products = [], es_step_summaries = [], es_skip_reason = [], es_decisions = [], es_artifacts = []\<rparr>"

definition execute_steps :: "exec_env \<Rightarrow> str \<Rightarrow> plan_step list \<Rightarrow> (files, step_outcome) act" where
  "execute_steps env mode steps =
     bindA (liftE (toposort steps)) (\<lambda>order.
       run_steps env mode steps (inputs_by_key (xe_manifest env)) initial_exec_state order)"

section \<open>executor.py\<close>

definition finalize_pipeline :: "exec_env \<Rightarrow> str \<Rightarrow> step_outcome \<Rightarrow> (files, run_result) act" where
  "finalize_pipeline env mode outcome =
     (case outcome of
        Stop r \<Rightarrow> ret r
      | Continue st \<Rightarrow>
          bindA (write_pipeline_summary env mode (es_step_summaries st) (es_decisions st) None) (\<lambda>summary.
            ret \<lparr>rs_ok = True, rs_exit_code = None, rs_timed_out = False,
                 rs_artifacts = es_artifacts st @ [summary], rs_error = None\<rparr>))"

text \<open>The body of the \<open>try\<close> block, and its handler.\<close>

definition validated_run :: "exec_env \<Rightarrow> plan_step list \<Rightarrow> (files, run_result) act" where
  "validated_run env steps =
     bindA (liftE (validate_step_ids steps)) (\<lambda>_.
     bindA (liftE (validate_composition_plan steps (extract_input_dataset_keys (xe_manifest env)))) (\<lambda>mode.
     bindA (execute_steps env (composition_mode_value mode) steps) (\<lambda>outcome.
       finalize_pipeline env (composition_mode_value mode) outcome)))"

definition composition_run_error :: "str \<Rightarrow> run_error" where
  "composition_run_error reason =
     \<lparr>re_error_code = ''PLAN_COMPOSITION_INVALID'', re_message = ''plan composition invalid: '' @ reason,
      re_details = None\<rparr>"

definition execute_validated :: "exec_env \<Rightarrow> plan_step list \<Rightarrow> (files, run_result) act" where
  "execute_validated env steps fs =
     (case validated_run env steps fs of
        (fs', Inl (PlanErr (PlanCompositionInvalid reason))) \<Rightarrow>
          fail_pipeline env ''unknown'' [] [] (composition_run_error reason) fs'
      | r \<Rightarrow> r)"

definition execute_composition_plan :: "exec_env \<Rightarrow> (files, run_result) act" where
  "execute_composition_plan env =
     (case j_llm_plan (xe_job env) of
        None \<Rightarrow> ret (failed_run [] \<lparr>re_error_code = ''PLAN_MISSING'', re_message = ''plan missing'', re_details = None\<rparr>)
      | Some plan \<Rightarrow>
          (if \<not> run_dirs_ok env (xe_run_id env)
           then ret (failed_run [] \<lparr>re_error_code = ''STATA_WORKSPACE_INVALID'',
                                   re_message = ''invalid job/run workspace'', re_details = None\<rparr>)
           else execute_validated env (lp_steps plan)))"

end
