(* ===== verification/CompositionLaws.thy ===== *)
theory CompositionLaws
  imports CompositionPlan
begin

text \<open>
  What the validation of a composition plan and the step order guarantee: the dependency search decides
  reachability, an accepted plan only refers to inputs and products that exist upstream, and the order
  is a topological one exactly when the dependencies have no cycle.
\<close>

section \<open>The dependency search\<close>

definition dep_rel :: "dep_map \<Rightarrow> (str \<times> str) set" where
  "dep_rel deps = {(s, d). d \<in> set (deps_of deps s)}"

lemma dep_rel_iff [simp]: "(s, d) \<in> dep_rel deps \<longleftrightarrow> d \<in> set (deps_of deps s)"
  by (simp add: dep_rel_def)

text \<open>What the search keeps: the producer has not been seen, successors of seen steps are seen or stacked.\<close>

definition search_inv :: "dep_map \<Rightarrow> str \<Rightarrow> str list \<Rightarrow> str list \<Rightarrow> bool" where
  "search_inv deps producer seen stack =
     (producer \<notin> set seen \<and> (\<forall>s\<in>set seen. set (deps_of deps s) \<subseteq> set seen \<union> set stack))"

lemma leaves_seen:
  assumes "search_inv deps producer seen stack" "(s, producer) \<in> (dep_rel deps)\<^sup>*" "s \<in> set seen"
  shows "\<exists>d\<in>set stack - set seen. (d, producer) \<in> (dep_rel deps)\<^sup>*"
  using assms(2,3)
proof (induction rule: converse_rtrancl_induct)
  case base
  then show ?case using assms(1) by (simp add: search_inv_def)
next
  case (step y z)
  then have "z \<in> set seen \<or> z \<in> set stack" using assms(1) by (auto simp: search_inv_def)
  with step show ?case by blast
qed

lemma dep_search_correct:
  "search_inv deps producer seen stack \<Longrightarrow>
     dep_search deps producer seen stack \<longleftrightarrow> (\<exists>d\<in>set stack. (d, producer) \<in> (dep_rel deps)\<^sup>*)"
proof (induction deps producer seen stack rule: dep_search.induct)
  case (1 deps producer seen stack)
  show ?case
  proof (cases "stack = []")
    case True
    then show ?thesis by (simp add: dep_search.simps)
  next
    case False
    define dep where "dep = last stack"
    define rest where "rest = butlast stack"
    have st: "set stack = insert dep (set rest)"
      using append_butlast_last_id[OF False] by (metis dep_def rest_def list.set(2) rotate1.simps(2) set_rotate1)
    have eq: "dep_search deps producer seen stack =
        (if dep = producer then True
         else if dep \<in> set seen then dep_search deps producer seen rest
         else dep_search deps producer (dep # seen) (rest @ deps_of deps dep))"
      using False by (subst dep_search.simps) (simp add: Let_def dep_def rest_def)
    consider (hit) "dep = producer" | (old) "dep \<noteq> producer" "dep \<in> set seen"
      | (new) "dep \<noteq> producer" "dep \<notin> set seen" by blast
    then show ?thesis
    proof cases
      case hit
      then show ?thesis using st eq by auto
    next
      case old
      have inv: "search_inv deps producer seen rest" using 1(3) old by (auto simp: search_inv_def st)
      have "\<exists>d\<in>set rest. (d, producer) \<in> (dep_rel deps)\<^sup>*" if "(dep, producer) \<in> (dep_rel deps)\<^sup>*"
        using leaves_seen[OF 1(3) that old(2)] old(2) by (auto simp: st)
      then show ?thesis using 1(1)[OF False dep_def rest_def old inv] eq old by (auto simp: st)
    next
      case new
      have inv: "search_inv deps producer (dep # seen) (rest @ deps_of deps dep)"
        using 1(3) new by (auto simp: search_inv_def st)
      have "(dep, producer) \<in> (dep_rel deps)\<^sup>* \<longleftrightarrow> (\<exists>d\<in>set (deps_of deps dep). (d, producer) \<in> (dep_rel deps)\<^sup>*)"
        using new(1) by (metis converse_rtranclE converse_rtrancl_into_rtrancl dep_rel_iff)
      then show ?thesis using 1(2)[OF False dep_def rest_def new inv] eq new by (auto simp: st)
    qed
  qed
qed

lemma depends_closure:
  "depends_transitively deps consumer producer = ((consumer, producer) \<in> (dep_rel deps)\<^sup>*)"
proof (cases "consumer = producer")
  case True
  then show ?thesis by (simp add: depends_transitively_def)
next
  case False
  have "search_inv deps producer [] (deps_of deps consumer)" by (simp add: search_inv_def)
  from dep_search_correct[OF this] False show ?thesis
    unfolding depends_transitively_def
    by (metis converse_rtranclE converse_rtrancl_into_rtrancl dep_rel_iff)
qed

text \<open>The stack search of \<open>_depends_transitively\<close> decides the reflexive-transitive
  closure of the direct dependencies, on any dependency map, cyclic ones included.\<close>

theorem depends_transitively_is_closure:
  "depends_transitively deps consumer producer = ((consumer, producer) \<in> (dep_rel deps)\<^sup>*)"
  by (rule depends_closure)

section \<open>Accepted plans\<close>

lemma check_all_Inr: "check_all f xs = Inr () \<longleftrightarrow> (\<forall>x\<in>set xs. f x = Inr ())"
  by (induction xs) (auto simp: bindE_Inr_iff)

text \<open>The references of a step, as the validation reads them, and the products it declares.\<close>

definition step_refs :: "plan_step \<Rightarrow> str list" where
  "step_refs s = (case validate_params (ps_params s) of None \<Rightarrow> [] | Some p \<Rightarrow> map snd (params_bindings p))"

definition step_products :: "plan_step \<Rightarrow> str list" where
  "step_products s =
     (case validate_params (ps_params s) of None \<Rightarrow> [] | Some p \<Rightarrow> map pp_product_id (params_products p))"

lemma product_ids_Inr: "product_ids seen ps = Inr ids \<Longrightarrow> set ids = set seen \<union> pp_product_id ` set ps"
  by (induction seen ps arbitrary: ids rule: product_ids.induct) (auto split: if_split_asm)

lemma collect_params:
  assumes "collect_step_params mode ps prods steps = Inr (m, ps', prods')" "distinct (map ps_step_id steps)"
  shows "(\<forall>s\<in>set steps. \<exists>p ids. validate_params (ps_params s) = Some p \<and> cp_composition_mode p = m \<and>
            dict_get ps' (ps_step_id s) = Some p \<and> dict_get prods' (ps_step_id s) = Some ids \<and>
            set ids = set (step_products s)) \<and>
         (\<forall>k. k \<notin> ps_step_id ` set steps \<longrightarrow> dict_get ps' k = dict_get ps k \<and> dict_get prods' k = dict_get prods k) \<and>
         (\<forall>m0. mode = Some m0 \<longrightarrow> m = m0)"
  using assms
proof (induction steps arbitrary: mode ps prods)
  case Nil
  then show ?case by (auto split: option.split_asm)
next
  case (Cons s steps)
  from Cons.prems(1) obtain p ids where s: "validate_params (ps_params s) = Some p"
      "mode = None \<or> mode = Some (cp_composition_mode p)" "product_ids [] (params_products p) = Inr ids"
      and r: "collect_step_params (Some (cp_composition_mode p)) (dict_set ps (ps_step_id s) p)
        (dict_set prods (ps_step_id s) ids) steps = Inr (m, ps', prods')"
    by (auto split: option.split_asm if_split_asm sum.split_asm)
  have d: "distinct (map ps_step_id steps)" using Cons.prems(2) by simp
  note IH = Cons.IH[OF r d]
  have k: "ps_step_id s \<notin> ps_step_id ` set steps" using Cons.prems(2) by simp
  have ids: "set ids = set (step_products s)" using product_ids_Inr[OF s(3)] s(1) by (simp add: step_products_def)
  have m: "m = cp_composition_mode p" using IH by blast
  have "dict_get ps' (ps_step_id s) = Some p" "dict_get prods' (ps_step_id s) = Some ids" using IH k by simp_all
  with IH s ids m show ?case by auto
qed

text \<open>What an accepted reference points to.\<close>

definition ref_ok :: "plan_step list \<Rightarrow> str list \<Rightarrow> plan_step \<Rightarrow> str \<Rightarrow> bool" where
  "ref_ok steps known s ref =
     (case parse_ref ref of
        None \<Rightarrow> False
      | Some (InputRef key) \<Rightarrow> key \<in> set known
      | Some (ProdRef producer pid) \<Rightarrow>
          (\<exists>p\<in>set steps. ps_step_id p = producer \<and> pid \<in> set (step_products p)) \<and>
          (ps_step_id s, producer) \<in> (dep_rel (deps_by_step_id steps))\<^sup>*)"

lemma accepted_binding:
  assumes v: "validate_input_binding known prods (deps_by_step_id steps) (ps_step_id s) (role, ref) = Inr ()"
    and C: "\<forall>s\<in>set steps. \<exists>ids. dict_get prods (ps_step_id s) = Some ids \<and> set ids = set (step_products s)"
    and D: "\<forall>k. k \<notin> ps_step_id ` set steps \<longrightarrow> dict_get prods k = None"
  shows "ref_ok steps known s ref"
proof -
  obtain r where r: "parse_ref ref = Some r"
    using v by (auto simp: validate_input_binding_def split: if_split_asm option.split_asm)
  show ?thesis
  proof (cases r)
    case (InputRef key)
    with v r show ?thesis by (simp add: validate_input_binding_def ref_ok_def split: if_split_asm)
  next
    case (ProdRef producer pid)
    with v r obtain ids where i: "dict_get prods producer = Some ids" "pid \<in> set ids"
         "depends_transitively (deps_by_step_id steps) (ps_step_id s) producer"
      by (auto simp: validate_input_binding_def split: if_split_asm option.split_asm)
    then have "producer \<in> ps_step_id ` set steps" using D by (metis option.distinct(1))
    then obtain q where q: "q \<in> set steps" "ps_step_id q = producer" by blast
    with C i(1,2) have "pid \<in> set (step_products q)" by force
    with q i(3) r ProdRef show ?thesis by (auto simp: ref_ok_def depends_closure)
  qed
qed

lemma accepted_plan:
  assumes "validate_composition_plan steps known = Inr mode" "distinct (map ps_step_id steps)"
  shows "steps \<noteq> [] \<and>
     (\<forall>s\<in>set steps. (\<exists>p. validate_params (ps_params s) = Some p \<and> cp_composition_mode p = mode) \<and>
        (\<forall>ref\<in>set (step_refs s). ref_ok steps known s ref))"
proof -
  from assms(1) obtain ps prods where c: "collect_step_params None [] [] steps = Inr (mode, ps, prods)"
      and v: "\<forall>s\<in>set steps. validate_step known ps prods (deps_by_step_id steps) s = Inr ()"
    by (auto simp: validate_composition_plan_def bindE_Inr_iff check_all_Inr)
  have C: "\<forall>s\<in>set steps. \<exists>p ids. validate_params (ps_params s) = Some p \<and> cp_composition_mode p = mode \<and>
            dict_get ps (ps_step_id s) = Some p \<and> dict_get prods (ps_step_id s) = Some ids \<and>
            set ids = set (step_products s)"
    and D: "\<forall>k. k \<notin> ps_step_id ` set steps \<longrightarrow> dict_get prods k = None"
    using collect_params[OF c assms(2)] by simp_all
  have "steps \<noteq> []" using c by (cases steps) auto
  moreover have "ref_ok steps known s ref" if s: "s \<in> set steps" and ref: "ref \<in> set (step_refs s)" for s ref
  proof -
    obtain p where p: "validate_params (ps_params s) = Some p" "dict_get ps (ps_step_id s) = Some p" using C s by blast
    obtain role where b: "(role, ref) \<in> set (params_bindings p)" using ref p(1) by (auto simp: step_refs_def)
    have "validate_input_binding known prods (deps_by_step_id steps) (ps_step_id s) (role, ref) = Inr ()"
      using v s p(2) b by (fastforce simp: validate_step_def bindE_Inr_iff check_all_Inr)
    then show ?thesis by (rule accepted_binding) (use C D in blast)+
  qed
  ultimately show ?thesis using C by blast
qed

text \<open>A composition plan is accepted only if all its steps have the same mode and every
  binding of every step refers to a known input or to a product declared by a step the consumer depends
  on, directly or through other steps, or by the consumer itself.\<close>

theorem accepted_plan_references:
  assumes "validate_composition_plan steps known = Inr mode" "distinct (map ps_step_id steps)"
    and "s \<in> set steps" "ref \<in> set (step_refs s)"
  shows "map_option cp_composition_mode (validate_params (ps_params s)) = Some mode \<and> ref_ok steps known s ref"
  using accepted_plan[OF assms(1,2)] assms(3,4) by auto

section \<open>The order of the steps\<close>

text \<open>The steps that become ready when \<open>current\<close> is done.\<close>

definition newly_ready :: "str \<Rightarrow> str list \<Rightarrow> (str \<times> str list) list \<Rightarrow> str list" where
  "newly_ready current placed pending =
     map fst (filter (\<lambda>(s, ds). set ds = {current} \<and> s \<notin> set placed) pending)"

lemma newly_ready_Cons:
  "newly_ready current placed ((s, ds) # rest) =
     (if set ds = {current} \<and> s \<notin> set placed then [s] else []) @
     newly_ready current placed rest"
  by (simp add: newly_ready_def)

lemma newly_ready_place:
  "s \<notin> fst ` set pending \<Longrightarrow> newly_ready current (placed @ [s]) pending = newly_ready current placed pending"
  unfolding newly_ready_def by (rule arg_cong[where f = "map fst"], rule filter_cong) force+

lemma release_deps_spec:
  "distinct (map fst pending) \<Longrightarrow>
     release_deps current order pending ready =
       (map (\<lambda>(s, ds). (s, filter (\<lambda>d. d \<noteq> current) ds)) pending,
        ready @ newly_ready current (order @ ready) pending)"
proof (induction current order pending ready rule: release_deps.induct)
  case (1 current order ready)
  then show ?case by (simp add: newly_ready_def)
next
  case (2 current order s ds rest ready)
  have d: "distinct (map fst rest)" and s: "s \<notin> fst ` set rest" using 2(3) by simp_all
  show ?case
  proof (cases "current \<in> set ds")
    case False
    then have "filter (\<lambda>d. d \<noteq> current) ds = ds" "set ds \<noteq> {current}" by (auto simp: filter_id_conv)
    with False 2(1)[OF False d] show ?thesis by (simp add: newly_ready_Cons)
  next
    case True
    define ds' where "ds' = filter (\<lambda>d. d \<noteq> current) ds"
    define ready' where "ready' = (if ds' = [] \<and> s \<notin> set order \<and> s \<notin> set ready then ready @ [s] else ready)"
    have "\<not> current \<notin> set ds" using True by simp
    from 2(2)[OF this ds'_def ready'_def d]
    have ih: "release_deps current order rest ready' =
       (map (\<lambda>(s, ds). (s, filter (\<lambda>d. d \<noteq> current) ds)) rest,
        ready' @ newly_ready current (order @ ready') rest)" .
    have "ds' = [] \<longleftrightarrow> set ds = {current}" using True by (auto simp: ds'_def filter_empty_conv)
    then have "ready' @ newly_ready current (order @ ready') rest =
        ready @ newly_ready current (order @ ready) ((s, ds) # rest)"
      using newly_ready_place[OF s, of current "order @ ready"] by (simp add: ready'_def newly_ready_Cons)
    with ih True show ?thesis by (simp add: Let_def flip: ds'_def ready'_def)
  qed
qed

definition sort_inv :: "str list \<Rightarrow> dep_map \<Rightarrow> str list \<Rightarrow> str list \<Rightarrow> (str \<times> str list) list \<Rightarrow> bool" where
  "sort_inv ids deps order ready pending =
     (distinct (order @ ready) \<and> set (order @ ready) \<subseteq> set ids \<and> map fst pending = ids \<and>
      (\<forall>(s, ds)\<in>set pending. set ds = set (deps_of deps s) - set order) \<and>
      (\<forall>s\<in>set ids. set (deps_of deps s) \<subseteq> set order \<longleftrightarrow> s \<in> set (order @ ready)) \<and>
      (\<forall>i<length order. set (deps_of deps (order ! i)) \<subseteq> set (take i order)))"

lemma sort_inv_step:
  assumes "sort_inv ids deps order (rest @ [current]) pending" "distinct ids"
    and res: "release_deps current (order @ [current]) pending rest = (p, r)"
  shows "sort_inv ids deps (order @ [current]) r p"
proof -
  note I = assms(1)[unfolded sort_inv_def]
  have dp: "distinct (map fst pending)" using I assms(2) by simp
  have cur: "current \<notin> set order" using I by simp
  have fsts: "fst ` set pending = set ids" using I by (metis list.set_map)
  have p: "p = map (\<lambda>(s, ds). (s, filter (\<lambda>d. d \<noteq> current) ds)) pending"
    and r: "r = rest @ newly_ready current (order @ [current] @ rest) pending"
    using res release_deps_spec[OF dp, of current "order @ [current]" rest] by simp_all
  let ?new = "newly_ready current (order @ [current] @ rest) pending"
  have new: "s \<in> set ?new \<longleftrightarrow> s \<in> set ids \<and> s \<notin> set (order @ [current] @ rest) \<and> current \<in> set (deps_of deps s) \<and>
      set (deps_of deps s) \<subseteq> set (order @ [current])" for s
  proof -
    have mem: "set ds = set (deps_of deps s) - set order" if "(s, ds) \<in> set pending" for ds using I that by blast
    have "s \<in> set ?new \<longleftrightarrow> (\<exists>ds. (s, ds) \<in> set pending \<and> set ds = {current}) \<and> s \<notin> set (order @ [current] @ rest)"
      unfolding newly_ready_def set_map set_filter image_iff by (auto simp del: set_append)
    also have "\<dots> \<longleftrightarrow> (\<exists>ds. (s, ds) \<in> set pending) \<and> set (deps_of deps s) - set order = {current} \<and>
        s \<notin> set (order @ [current] @ rest)"
      using mem by blast
    also have "(\<exists>ds. (s, ds) \<in> set pending) \<longleftrightarrow> s \<in> set ids" using fsts by force
    also have "set (deps_of deps s) - set order = {current} \<longleftrightarrow>
        current \<in> set (deps_of deps s) \<and> set (deps_of deps s) \<subseteq> set (order @ [current])"
      using cur by auto
    finally show ?thesis by blast
  qed
  have dist_new: "distinct ?new"
    unfolding newly_ready_def using distinct_map_filter[OF dp] .
  have "distinct ((order @ [current]) @ r)" using I dist_new new by (auto simp: r)
  moreover have "set ((order @ [current]) @ r) \<subseteq> set ids" using I new by (auto simp: r)
  moreover have "map fst p = ids" using I by (auto simp: p comp_def case_prod_beta)
  moreover have "\<forall>(s, ds)\<in>set p. set ds = set (deps_of deps s) - set (order @ [current])"
    using I by (fastforce simp: p)
  moreover have "\<forall>s\<in>set ids. set (deps_of deps s) \<subseteq> set (order @ [current]) \<longleftrightarrow> s \<in> set ((order @ [current]) @ r)"
  proof
    fix s assume s: "s \<in> set ids"
    show "set (deps_of deps s) \<subseteq> set (order @ [current]) \<longleftrightarrow> s \<in> set ((order @ [current]) @ r)"
      using I s new[of s] by (auto simp: r)
  qed
  moreover have "\<forall>i<length (order @ [current]).
      set (deps_of deps ((order @ [current]) ! i)) \<subseteq> set (take i (order @ [current]))"
    using I by (auto simp: nth_append less_Suc_eq)
  ultimately show ?thesis by (simp add: sort_inv_def)
qed

lemma sort_inv_loop:
  "sort_inv ids deps order ready pending \<Longrightarrow> distinct ids \<Longrightarrow>
     \<exists>p. sort_inv ids deps (toposort_loop order ready pending) [] p"
proof (induction order ready pending rule: toposort_loop.induct)
  case (1 order ready pending)
  show ?case
  proof (cases "ready = []")
    case True
    then show ?thesis using 1(2) by (subst toposort_loop.simps) auto
  next
    case False
    let ?res = "release_deps (last ready) (order @ [last ready]) pending (butlast ready)"
    have "sort_inv ids deps order (butlast ready @ [last ready]) pending" using 1(2) False by simp
    then have inv: "sort_inv ids deps (order @ [last ready]) (snd ?res) (fst ?res)"
      by (rule sort_inv_step) (use 1(3) in simp_all)
    have "toposort_loop order ready pending = toposort_loop (order @ [last ready]) (snd ?res) (fst ?res)"
      using False by (subst toposort_loop.simps) (simp add: Let_def)
    with 1(1)[OF False refl refl refl inv 1(3)] show ?thesis by simp
  qed
qed

lemma sort_inv_start:
  assumes "distinct ids"
  shows "sort_inv ids deps [] (filter (\<lambda>s. deps_of deps s = []) ids)
           (map (\<lambda>s. (s, remdups (deps_of deps s))) (rev (remdups (rev ids))))"
  using assms by (auto simp: sort_inv_def distinct_remdups_id comp_def)

definition sortable :: "str list \<Rightarrow> dep_map \<Rightarrow> bool" where
  "sortable ids deps =
     ((\<forall>s\<in>set ids. set (deps_of deps s) \<subseteq> set ids) \<and> acyclic {(s, d) \<in> dep_rel deps. s \<in> set ids})"

definition topological :: "dep_map \<Rightarrow> str list \<Rightarrow> bool" where
  "topological deps order = (\<forall>i<length order. set (deps_of deps (order ! i)) \<subseteq> set (take i order))"

lemma the_index:
  assumes "distinct xs" "i < length xs"
  shows "(THE k. k < length xs \<and> xs ! k = xs ! i) = i"
  by (rule the_equality)
     (simp add: assms(2), elim conjE, simp only: nth_eq_iff_index_eq[OF assms(1) _ assms(2)])

lemma topological_sortable:
  assumes "topological deps order" "set order = set ids" "distinct order"
  shows "sortable ids deps"
proof -
  define pos where "pos s = (THE i. i < length order \<and> order ! i = s)" for s
  have pos: "pos (order ! i) = i" if "i < length order" for i
    unfolding pos_def by (rule the_index[OF assms(3) that])
  have dep: "d \<in> set ids \<and> pos d < pos s" if s: "s \<in> set ids" and d: "d \<in> set (deps_of deps s)" for s d
  proof -
    obtain i where i: "i < length order" "order ! i = s" using s assms(2) by (metis in_set_conv_nth)
    then have "d \<in> set (take i order)" using assms(1) d unfolding topological_def by blast
    then obtain j where "j < i" "j < length order" "order ! j = d" by (auto simp: in_set_conv_nth)
    with i pos show ?thesis unfolding assms(2)[symmetric] by auto
  qed
  then have "{(s, d) \<in> dep_rel deps. s \<in> set ids} \<subseteq> (inv_image less_than pos)\<inverse>" by auto
  moreover have "acyclic ((inv_image less_than pos)\<inverse>)"
    unfolding acyclic_converse by (rule wf_acyclic) simp
  ultimately have "acyclic {(s, d) \<in> dep_rel deps. s \<in> set ids}" by (rule acyclic_subset[rotated])
  with dep show ?thesis unfolding sortable_def by blast
qed

lemma sortable_closed: "sortable ids deps \<Longrightarrow> s \<in> set ids \<Longrightarrow> d \<in> set (deps_of deps s) \<Longrightarrow> d \<in> set ids"
  unfolding sortable_def by blast

lemma sortable_complete:
  assumes "sortable ids deps" "\<forall>s\<in>set ids. set (deps_of deps s) \<subseteq> done_ids \<longrightarrow> s \<in> done_ids"
  shows "set ids \<subseteq> done_ids"
proof (rule ccontr)
  let ?R = "{(s, d) \<in> dep_rel deps. s \<in> set ids}"
  assume "\<not> set ids \<subseteq> done_ids"
  then obtain x where x: "x \<in> set ids - done_ids" by blast
  have "?R \<subseteq> set ids \<times> set ids" using sortable_closed[OF assms(1)] by auto
  then have "finite ?R" by (rule finite_subset) simp
  then have "wf (?R\<inverse>)" using assms(1) by (intro finite_acyclic_wf_converse) (simp_all add: sortable_def)
  then obtain m where m: "m \<in> set ids - done_ids" "\<And>d. (d, m) \<in> ?R\<inverse> \<Longrightarrow> d \<notin> set ids - done_ids"
    by (rule wfE_min[OF _ x]) (rule that)
  have "set (deps_of deps m) \<subseteq> done_ids"
  proof
    fix d assume d: "d \<in> set (deps_of deps m)"
    have "d \<in> set ids" using sortable_closed[OF assms(1) _ d] m(1) by simp
    moreover have "(d, m) \<in> ?R\<inverse>" using d m(1) by simp
    ultimately show "d \<in> done_ids" using m(2)[of d] by simp
  qed
  with assms(2) m(1) show False by blast
qed

lemma sort_inv_end:
  assumes "sort_inv ids deps order [] p" "distinct ids"
  shows "distinct order" "topological deps order" "set order \<subseteq> set ids"
    "length order = length ids \<longleftrightarrow> set order = set ids" "sortable ids deps \<longleftrightarrow> set order = set ids"
proof -
  note I = assms(1)[unfolded sort_inv_def append_Nil2]
  show d: "distinct order" and t: "topological deps order" and sub: "set order \<subseteq> set ids"
    using I unfolding topological_def by blast+
  show "length order = length ids \<longleftrightarrow> set order = set ids"
    using card_subset_eq[OF _ sub] distinct_card[OF d] distinct_card[OF assms(2)] by auto
  have "\<forall>s\<in>set ids. set (deps_of deps s) \<subseteq> set order \<longrightarrow> s \<in> set order" using I by blast
  from sortable_complete[OF _ this] sub topological_sortable[OF t _ d]
  show "sortable ids deps \<longleftrightarrow> set order = set ids" by blast
qed

lemma toposort_ids_spec:
  assumes "distinct ids"
  shows "case toposort_ids ids deps of
           Inr order \<Rightarrow> sortable ids deps \<and> distinct order \<and> set order = set ids \<and> topological deps order
         | Inl e \<Rightarrow> e = invalid ''dependency_cycle'' \<and> \<not> sortable ids deps"
proof -
  define order where "order = toposort_loop [] (filter (\<lambda>s. deps_of deps s = []) ids)
      (map (\<lambda>s. (s, remdups (deps_of deps s))) (rev (remdups (rev ids))))"
  obtain p where "sort_inv ids deps order [] p"
    using sort_inv_loop[OF sort_inv_start[OF assms] assms] unfolding order_def by metis
  note E = sort_inv_end[OF this assms]
  have "toposort_ids ids deps =
      (if length order \<noteq> length ids then Inl (invalid ''dependency_cycle'') else Inr order)"
    by (simp add: toposort_ids_def Let_def order_def)
  with E show ?thesis by simp
qed

text \<open>C34 (functional) For steps with distinct ids the order of \<open>toposort\<close> exists exactly when every
  dependency is a step and the dependencies have no cycle; it then runs each step once, after all the
  steps it depends on. Otherwise the plan is refused with \<open>dependency_cycle\<close>.\<close>

theorem toposort_orders_exactly_acyclic_plans:
  assumes "distinct (map ps_step_id steps)"
  shows "case toposort steps of
           Inr order \<Rightarrow> sortable (map ps_step_id steps) (deps_by_step_id steps) \<and> distinct order \<and>
             set order = ps_step_id ` set steps \<and> topological (deps_by_step_id steps) order
         | Inl e \<Rightarrow> e = invalid ''dependency_cycle'' \<and>
             \<not> sortable (map ps_step_id steps) (deps_by_step_id steps)"
  using toposort_ids_spec[OF assms, of "deps_by_step_id steps"] unfolding toposort_def list.set_map .

text \<open>Two steps: \<open>a\<close> reads the primary input and declares a data set that \<open>b\<close> reads.\<close>

definition sample_step :: "str \<Rightarrow> str list \<Rightarrow> str \<Rightarrow> plan_step" where
  "sample_step sid deps ref =
     \<lparr>ps_step_id = sid, ps_type = GENERATE_STATA_DO, ps_purpose = [], ps_fallback_step_id = None,
      ps_params = [(''composition_mode'', JStr ''sequential''), (''template_id'', JStr ''T01''),
        (''input_bindings'', JObj [(''primary_dataset'', JStr ref)]),
        (''products'', JList [JObj [(''product_id'', JStr ''out''), (''kind'', JStr ''dataset'')]])],
      ps_depends_on = deps, ps_produces = []\<rparr>"

definition sample_plan :: "plan_step list" where
  "sample_plan = [sample_step ''b'' [''a''] ''prod:a:out'', sample_step ''a'' [] ''input:primary'']"

theorem toposort_orders_exactly_acyclic_plans_witness:
  "toposort sample_plan = Inr [''a'', ''b''] \<and>
   sortable (map ps_step_id sample_plan) (deps_by_step_id sample_plan) \<and>
   topological (deps_by_step_id sample_plan) [''a'', ''b'']"
proof -
  have "toposort sample_plan = Inr [''a'', ''b'']" by code_simp
  moreover have "distinct (map ps_step_id sample_plan)" by code_simp
  ultimately show ?thesis using toposort_orders_exactly_acyclic_plans[of sample_plan] by simp
qed

end
