(* ===== verification/CompositionRunLaws.thy ===== *)
theory CompositionRunLaws
  imports CompositionRun CompositionLaws
begin

text \<open>
  What the execution of an accepted composition plan guarantees: a reference to a product of another
  step always finds the product, because the order is topological and skipped steps stop their
  dependants; and the plans the validation lets through although they cannot run.
\<close>

section \<open>Who raises \<open>unknown_product_ref\<close>\<close>

abbreviation "bad_ref \<equiv> invalid ''unknown_product_ref''"

lemma invalid_eq [simp]: "invalid r = invalid r' \<longleftrightarrow> r = r'" "invalid r \<noteq> PyErr x" "PyErr x \<noteq> invalid r"
  by (simp_all add: invalid_def)

lemma never_write_file [never_intros]: "never bad_ref (write_file env path c)"
  by (simp add: never_def write_file_def)

lemma never_copy_file [never_intros]: "never bad_ref (copy_file env src dest)"
  by (simp add: never_def copy_file_def split: option.split)

lemma never_copy_binding: "never bad_ref (copy_binding env src dest)"
  by (auto simp: never_def copy_binding_def copy_file_def split: option.splits)

lemma never_read_text [never_intros]: "never bad_ref (read_text env path)"
  by (simp add: never_def read_text_def split: option.split content.split)

lemma neverE_resolve [never_intros]: "neverE bad_ref (safe_job_rel_resolve env p)"
  by (simp add: safe_job_rel_resolve_def neverE_def)

lemma neverE_parse [never_intros]: "neverE bad_ref (exec_parse_ref r)"
  by (simp add: exec_parse_ref_def neverE_def split: option.split)

lemma neverE_collect: "neverE bad_ref (collect_bindings out raw)"
  by (induction out raw rule: collect_bindings.induct) (auto simp: neverE_def Let_def)

lemma neverE_raw [never_intros]: "neverE bad_ref (raw_input_bindings step)"
  unfolding raw_input_bindings_def using neverE_collect by (auto simp: neverE_def split: option.split json.split)

lemma neverE_products [never_intros]: "neverE bad_ref (products_from_step step)"
  by (auto simp: products_from_step_def check_product_ids_def neverE_def split: option.split json.split)

lemma neverE_conditional [never_intros]: "neverE bad_ref (conditional_decision step)"
  by (auto simp: conditional_decision_def neverE_def Let_def split: option.splits json.splits)

lemma neverE_merge_config [never_intros]: "neverE bad_ref (merge_config step)"
  by (auto simp: merge_config_def neverE_def Let_def split: option.splits json.splits)

lemma never_dataset_ref:
  "(\<And>k. neverE e (f k)) \<Longrightarrow> (\<And>p i. neverE e (g p i)) \<Longrightarrow>
     neverE e (case r of InputRef k \<Rightarrow> f k | ProdRef p i \<Rightarrow> g p i)"
  by (cases r) simp_all

lemma neverE_merge_paths [never_intros]: "neverE bad_ref (merge_input_paths env by_key bs)"
  unfolding merge_input_paths_def binding_ref_def by (intro never_intros never_dataset_ref) simp_all

lemma neverE_join [never_intros]: "neverE bad_ref (join_result r)"
  by (auto simp: join_result_def neverE_def split: sum.split elim: csv_join_reason.elims)

lemma neverE_run_merge [never_intros]: "neverE bad_ref (run_merge c p s)"
  by (simp add: run_merge_def neverE_join split: merge_spec.split)

lemma neverE_timeout [never_intros]: "neverE bad_ref (step_timeout_seconds env step)"
  by (auto simp: step_timeout_seconds_def parse_timeout_def neverE_def bindE_Inl_iff
      split: option.splits json.splits sum.splits int_error.splits)

lemma neverE_run_id [never_intros]: "neverE bad_ref (step_run_id r s)"
  by (simp add: step_run_id_def neverE_def Let_def)

lemma neverE_generate [never_intros]: "neverE bad_ref (generate_step_do_file env step m)"
  by (simp add: generate_step_do_file_def neverE_def Let_def invalid_def split: sum.split)

lemma neverE_skip [never_intros]: "neverE bad_ref (apply_conditional_skip known step d)"
  by (simp add: apply_conditional_skip_def neverE_def Let_def)

lemma neverE_decisions [never_intros]: "neverE bad_ref (register_decisions known step st ds)"
proof (induction known step st ds rule: register_decisions.induct)
  case (1 known step st)
  show ?case by (simp add: neverE_def)
next
  case (2 known step st d ds)
  then show ?case
    using neverE_skip[of known step d] by (auto simp: Let_def neverE_def bindE_Inl_iff)
qed

lemma never_runner [never_intros]: "never bad_ref (run_step env step run_id do_file)"
  unfolding run_step_def by (intro never_intros)

lemma never_dataset_product [never_intros]: "never bad_ref (write_dataset_product env step by_key bs path)"
  unfolding write_dataset_product_def copy_primary_binding_def by (intro never_intros) simp

lemma never_write_product [never_intros]: "never bad_ref (write_product env step run_id by_key bs arts acc p)"
  unfolding write_product_def copy_export_table_def Let_def
  by (intro never_intros; cases "pp_kind p") (simp_all, (intro never_intros)+)

lemma never_create_products [never_intros]: "never bad_ref (create_products env step run_id by_key bs arts)"
  unfolding create_products_def by (intro never_intros never_fold)

lemma never_fail_pipeline [never_intros]: "never bad_ref (fail_pipeline env mode steps ds e)"
  unfolding fail_pipeline_def write_pipeline_summary_def Let_def by (intro never_intros)

lemma neverE_check_all: "(\<And>x. neverE bad_ref (f x)) \<Longrightarrow> neverE bad_ref (check_all f xs)"
  by (induction xs) (auto intro!: never_intros)

lemma neverE_product_ids: "neverE bad_ref (product_ids seen ps)"
  by (induction seen ps rule: product_ids.induct) (auto simp: neverE_def)

lemma neverE_collect_params: "neverE bad_ref (collect_step_params mode ps prods steps)"
proof (induction mode ps prods steps rule: collect_step_params.induct)
  case (1 mode ps prods)
  show ?case by (simp add: neverE_def split: option.split)
next
  case (2 mode ps prods s steps)
  have "product_ids [] x \<noteq> Inl bad_ref" for x using neverE_product_ids by (simp add: neverE_def)
  with 2 show ?case by (auto simp: neverE_def split: option.split sum.split)
qed

lemma neverE_validate: "neverE bad_ref (validate_composition_plan steps known)"
proof -
  have "neverE bad_ref (validate_step known ps prods deps s)" for ps prods deps s
    unfolding validate_step_def validate_step_requirements_def validate_input_binding_def Let_def
    by (intro never_intros neverE_check_all never_dataset_ref) simp_all
  then show ?thesis
    unfolding validate_composition_plan_def by (intro never_intros neverE_check_all neverE_collect_params)
qed

section \<open>The products a run has registered\<close>

definition has_products :: "exec_state \<Rightarrow> plan_step \<Rightarrow> bool" where
  "has_products st step = (\<forall>pid\<in>set (step_products step). dict_get (es_products st) (ps_step_id step, pid) \<noteq> None)"

text \<open>Later states know every product and every skipped step of earlier ones.\<close>

definition extends :: "exec_state \<Rightarrow> exec_state \<Rightarrow> bool" where
  "extends st st' =
     ((\<forall>k. dict_get (es_products st) k \<noteq> None \<longrightarrow> dict_get (es_products st') k \<noteq> None) \<and>
      (\<forall>k. dict_get (es_skip_reason st) k \<noteq> None \<longrightarrow> dict_get (es_skip_reason st') k \<noteq> None))"

lemma extends_refl [simp]: "extends st st"
  by (simp add: extends_def)

lemma extends_trans: "extends a b \<Longrightarrow> extends b c \<Longrightarrow> extends a c"
  by (simp add: extends_def)

lemma has_products_extends: "has_products st s \<Longrightarrow> extends st st' \<Longrightarrow> has_products st' s"
  by (simp add: has_products_def extends_def)

lemma extends_record [simp]: "extends st (record_step_artifacts run_id r st)"
  by (simp add: extends_def record_step_artifacts_def)

lemma fold_set_keeps: "dict_get d k \<noteq> None \<Longrightarrow> dict_get (fold (\<lambda>(k, v) m. dict_set m k v) kvs d) k \<noteq> None"
  by (induction kvs arbitrary: d) auto

lemma register_products_get:
  "es_skip_reason (register_products ps st) = es_skip_reason st \<and>
   (dict_get (es_products (register_products ps st)) k \<noteq> None \<longleftrightarrow>
      dict_get (es_products st) k \<noteq> None \<or> k \<in> (\<lambda>p. (rp_step_id p, rp_product_id p)) ` set ps)"
  unfolding register_products_def by (induction ps arbitrary: st) (auto simp: register_product_def)

lemma register_decisions_extends:
  "register_decisions known step st ds = Inr st' \<Longrightarrow> es_products st' = es_products st \<and> extends st st'"
proof (induction known step st ds rule: register_decisions.induct)
  case (1 known step st)
  then show ?case by simp
next
  case (2 known step st d ds)
  show ?case
  proof (cases "dict_get d ''type'' = Some (JStr ''conditional'')")
    case True
    with 2(3) obtain skips where s: "apply_conditional_skip known step d = Inr skips"
        "register_decisions known step (st\<lparr>es_decisions := es_decisions st @ [d],
           es_skip_reason := fold (\<lambda>(k, v) m. dict_set m k v) skips (es_skip_reason st)\<rparr>) ds = Inr st'"
      by (auto simp: Let_def bindE_Inr_iff)
    from 2(1)[OF refl True, of skips] s(2) fold_set_keeps[of "es_skip_reason st" _ skips]
    show ?thesis by (simp add: extends_def)
  next
    case False
    with 2(2)[OF refl False] 2(3) show ?thesis by (simp add: extends_def)
  qed
qed

lemma create_products_ids:
  assumes "create_products env step run_id by_key bs arts fs = (fs', Inr (ps, ds))"
    and "products_from_step step = Inr pps"
  shows "map (\<lambda>p. (rp_step_id p, rp_product_id p)) ps = map (\<lambda>p. (ps_step_id step, pp_product_id p)) pps"
proof -
  let ?w = "write_product env step run_id by_key bs arts"
  have loop: "foldA ?w acc pps t = (fs', Inr (ps, ds)) \<Longrightarrow>
      map (\<lambda>p. (rp_step_id p, rp_product_id p)) ps =
        map (\<lambda>p. (rp_step_id p, rp_product_id p)) (fst acc) @ map (\<lambda>p. (ps_step_id step, pp_product_id p)) pps"
    for acc t pps
  proof (induction pps arbitrary: acc t)
    case Nil
    then show ?case by auto
  next
    case (Cons p pps)
    then obtain u acc' where w: "?w acc p t = (u, Inr acc')" and r: "foldA ?w acc' pps u = (fs', Inr (ps, ds))"
      by (auto simp: bindA_Inr)
    from w have "\<exists>q. fst acc' = fst acc @ [q] \<and> rp_step_id q = ps_step_id step \<and> rp_product_id q = pp_product_id p"
      by (auto simp: write_product_def Let_def bindA_Inr)
    with Cons.IH[OF r] show ?case by auto
  qed
  from assms obtain t cond where "foldA ?w ([], cond) pps t = (fs', Inr (ps, ds))"
    by (auto simp: create_products_def bindA_Inr)
  from loop[OF this] show ?thesis by simp
qed

lemma parsed_products:
  assumes "validate_params (ps_params step) = Some p" "products_from_step step = Inr pps"
  shows "step_products step = map pp_product_id pps"
proof -
  have "parse_products (dict_get (ps_params step) ''products'') = Some (cp_products p)"
    using assms(1) by (auto simp: validate_params_def split: option.split_asm)
  then have "params_products p = pps"
    using assms(2)
    by (auto simp: parse_products_def products_from_step_def check_product_ids_def params_products_def
        split: option.split_asm json.split_asm if_split_asm)
  with assms(1) show ?thesis by (simp add: step_products_def)
qed

lemma run_phase_state:
  assumes "execute_run_phase env mode by_key st step fs = (u, Inr (Inr (st1, run_id, bs, result)))"
  shows "st1 = record_step_artifacts run_id result st"
proof -
  from assms obtain rid b t gen where g: "(case gen of
         Inl e \<Rightarrow> bindA (fail_pipeline env mode (es_step_summaries st) (es_decisions st) e) (\<lambda>r. ret (Inl r))
       | Inr do_file \<Rightarrow>
           bindA (run_step env step rid do_file) (\<lambda>result.
             let st1 = record_step_artifacts rid result st
             in if rs_ok result then ret (Inr (st1, rid, b, result))
                else let summaries = es_step_summaries st1 @ [executed_summary step rid ''failed'' b [] []]
                     in bindA (fail_pipeline env mode summaries (es_decisions st1) (error_or_default result))
                          (\<lambda>r. ret (Inl r)))) t = (u, Inr (Inr (st1, run_id, bs, result)))"
    by (auto simp: execute_run_phase_def bindA_Inr)
  then show ?thesis by (cases gen) (auto simp: bindA_Inr Let_def split: if_split_asm)
qed

text \<open>A step that goes on was skipped, or ran with none of its dependencies skipped and has its products.\<close>

lemma process_step_continues:
  assumes "process_step env mode known by_key st step fs = (fs', Inr (Continue st'))"
    and "validate_params (ps_params step) = Some p"
  shows "extends st st' \<and>
    (dict_get (es_skip_reason st) (ps_step_id step) \<noteq> None \<or>
     (\<forall>d\<in>set (ps_depends_on step). dict_get (es_skip_reason st) d = None) \<and> has_products st' step)"
proof (cases "dict_get (es_skip_reason st) (ps_step_id step)")
  case (Some reason)
  with assms(1) show ?thesis by (auto simp: process_step_def extends_def)
next
  case None
  with assms(1) obtain u phase where
      d: "\<forall>d\<in>set (ps_depends_on step). dict_get (es_skip_reason st) d = None"
    and e0: "execute_run_phase env mode by_key st step fs = (u, Inr phase)"
    and x0: "(case phase of Inl r \<Rightarrow> ret (Stop r)
        | Inr ph \<Rightarrow> bindA (execute_products_phase env known by_key step ph) (\<lambda>st'. ret (Continue st'))) u =
      (fs', Inr (Continue st'))"
    by (auto simp: process_step_def bindA_Inr ensure_no_depends_on_skipped_def guardE_def split: if_split_asm)
  obtain st1 run_id bs result where ph: "phase = Inr (st1, run_id, bs, result)"
    using x0 by (cases phase) (auto split: prod.split_asm)
  note e = e0[unfolded ph]
  have x: "execute_products_phase env known by_key step (st1, run_id, bs, result) u = (fs', Inr st')"
    using x0 by (auto simp: ph bindA_Inr)
  have st1: "st1 = record_step_artifacts run_id result st" using e by (rule run_phase_state)
  from x obtain ps ds v st2 where
      c: "create_products env step run_id by_key bs (rs_artifacts result) u = (v, Inr (ps, ds))"
    and r: "register_decisions known step (register_products ps st1) ds = Inr st2"
    and st': "es_products st' = es_products st2" "es_skip_reason st' = es_skip_reason st2"
    by (auto simp: execute_products_phase_def bindA_Inr)
  obtain pps where pps: "products_from_step step = Inr pps" using c by (auto simp: create_products_def bindA_Inr)
  note D = register_decisions_extends[OF r] and G = register_products_get[of ps st1]
  have "extends st st'"
    using D G st' by (simp add: extends_def st1 record_step_artifacts_def)
  moreover have "has_products st' step"
  proof -
    have "set (map (\<lambda>p. (rp_step_id p, rp_product_id p)) ps) = (\<lambda>pid. (ps_step_id step, pid)) ` set (step_products step)"
      unfolding create_products_ids[OF c pps] parsed_products[OF assms(2) pps] by (simp add: image_image)
    then show ?thesis using D G st' by (auto simp: has_products_def)
  qed
  ultimately show ?thesis using d by blast
qed

section \<open>References find their products\<close>

lemma fold_set_get:
  "dict_get (fold (\<lambda>(k, v) d. dict_set d k v) kvs d) k =
     (case map_of (rev kvs) k of None \<Rightarrow> dict_get d k | Some v \<Rightarrow> Some v)"
  by (induction kvs arbitrary: d) (auto simp: map_add_def split: option.splits)

lemma dict_of_get: "dict_get (dict_of kvs) k = map_of (rev kvs) k"
  by (simp add: dict_of_def fold_set_get split: option.split)

lemma find_step_Inr:
  assumes "find_step steps sid = Inr s"
  shows "s \<in> set steps" "ps_step_id s = sid" "deps_of (deps_by_step_id steps) sid = ps_depends_on s"
proof -
  have m: "map_of (map (\<lambda>s. (ps_step_id s, s)) (rev steps)) sid = Some s"
    using assms by (simp add: find_step_def dict_of_get rev_map split: option.split_asm)
  then show "s \<in> set steps" "ps_step_id s = sid" by (auto dest: map_of_SomeD)
  have "map_of (map (\<lambda>s. (ps_step_id s, ps_depends_on s)) ss) sid = map_option ps_depends_on
      (map_of (map (\<lambda>s. (ps_step_id s, s)) ss) sid)" for ss :: "plan_step list"
    by (induction ss) auto
  with m show "deps_of (deps_by_step_id steps) sid = ps_depends_on s"
    by (simp add: deps_of_def deps_by_step_id_def dict_of_get rev_map)
qed

text \<open>What holds before a step runs: every step done was skipped or ran, the ones that ran have all their
  dependencies and products.\<close>

definition run_inv :: "plan_step list \<Rightarrow> exec_state \<Rightarrow> str set \<Rightarrow> str set \<Rightarrow> bool" where
  "run_inv steps st done_ids run_ids =
     (run_ids \<subseteq> done_ids \<and>
      (\<forall>s\<in>done_ids. s \<in> run_ids \<or> dict_get (es_skip_reason st) s \<noteq> None) \<and>
      (\<forall>s\<in>run_ids. set (deps_of (deps_by_step_id steps) s) \<subseteq> run_ids) \<and>
      (\<forall>s\<in>set steps. ps_step_id s \<in> run_ids \<longrightarrow> has_products st s))"

lemma ran_closed:
  assumes "run_inv steps st done_ids run_ids" "(a, b) \<in> (dep_rel (deps_by_step_id steps))\<^sup>*" "a \<in> run_ids"
  shows "b \<in> run_ids"
  using assms(2,3)
proof (induction rule: rtrancl_induct)
  case base
  then show ?case .
next
  case (step y z)
  then show ?case using assms(1) by (auto simp: run_inv_def)
qed

text \<open>No step binds a product of its own.\<close>

definition no_self_refs :: "plan_step list \<Rightarrow> bool" where
  "no_self_refs steps =
     (\<forall>s\<in>set steps. \<forall>ref\<in>set (step_refs s).
        case parse_ref ref of Some (ProdRef p pid) \<Rightarrow> p \<noteq> ps_step_id s | _ \<Rightarrow> True)"

lemma collect_bindings_refs:
  "collect_bindings out raw = Inr b \<Longrightarrow> set b \<subseteq> set out \<union> {(k, r). (k, JStr r) \<in> set raw}"
proof (induction out raw rule: collect_bindings.induct)
  case (1 out)
  then show ?case by simp
next
  case (2 out role ref_obj rest)
  then obtain r where r: "ref_obj = JStr r" "collect_bindings (dict_set out role r) rest = Inr b"
    by (auto simp: Let_def split: if_split_asm json.split_asm)
  have "set (dict_set out role r) \<subseteq> insert (role, r) (set out)"
    by (induction out role r rule: dict_set.induct) auto
  moreover have "set b \<subseteq> set (dict_set out role r) \<union> {(k, r). (k, JStr r) \<in> set rest}"
    using 2 r by (auto simp: Let_def split: if_split_asm)
  ultimately show ?case using r(1) by auto
qed

lemma all_some_member: "all_some xs = Some ys \<Longrightarrow> x \<in> set xs \<Longrightarrow> \<exists>y\<in>set ys. x = Some y"
  by (induction xs arbitrary: ys) (auto split: option.split_asm)

lemma raw_bindings_refs:
  assumes "raw_input_bindings step = Inr bs" "validate_params (ps_params step) = Some p" "(role, ref) \<in> set bs"
  shows "ref \<in> set (step_refs step)"
proof -
  obtain raw where raw: "dict_get (ps_params step) ''input_bindings'' = Some (JObj raw)"
      "collect_bindings [] raw = Inr bs"
    using assms(1) by (auto simp: raw_input_bindings_def split: option.split_asm json.split_asm if_split_asm)
  have "parse_bindings (Some (JObj raw)) = Some (cp_input_bindings p)"
    using assms(2) raw(1) by (auto simp: validate_params_def split: option.split_asm)
  then obtain texts where t: "all_some (map (\<lambda>(k, x). map_option (Pair k) (as_str x)) raw) = Some texts"
      "cp_input_bindings p = Some texts"
    by (cases "cp_input_bindings p") (auto simp: parse_bindings_def)
  have "(role, JStr ref) \<in> set raw" using collect_bindings_refs[OF raw(2)] assms(3) by auto
  then have "Some (role, ref) \<in> set (map (\<lambda>(k, x). map_option (Pair k) (as_str x)) raw)" by force
  from all_some_member[OF t(1) this] show ?thesis
    using assms(2) t(2) by (force simp: step_refs_def params_bindings_def)
qed

lemma never_materialize:
  assumes "validate_params (ps_params step) = Some p"
    and "\<And>ref producer pid. ref \<in> set (step_refs step) \<Longrightarrow> parse_ref ref = Some (ProdRef producer pid) \<Longrightarrow>
      dict_get products (producer, pid) \<noteq> None"
  shows "never bad_ref (materialize_step_inputs env run_id by_key products step)"
proof -
  have one: "neverE bad_ref (resolve_binding env by_key products (role, ref))"
    if ref: "ref \<in> set (step_refs step)" for role ref
  proof -
    have "neverE bad_ref (resolve_input_binding env by_key role ref key)" for key
      unfolding resolve_input_binding_def by (intro never_intros) simp_all
    moreover have "neverE bad_ref (resolve_product_binding env products role ref producer pid)"
      if r: "parse_ref ref = Some (ProdRef producer pid)" for producer pid
    proof -
      obtain q where "dict_get products (producer, pid) = Some q" using assms(2)[OF ref r] by blast
      then show ?thesis unfolding resolve_product_binding_def
        by (simp, intro conjI impI never_intros) simp_all
    qed
    ultimately show ?thesis
      by (auto simp: resolve_binding_def exec_parse_ref_def neverE_def bindE_Inl_iff split: option.splits dataset_ref.splits)
  qed
  show ?thesis unfolding materialize_step_inputs_def
  proof (intro never_bind_val never_bind never_lift neverE_raw never_fold never_write_file never_ret)
    fix s s' bindings acc binding
    assume "liftE (raw_input_bindings step) s = (s', Inr bindings)" "binding \<in> set bindings"
    then have "raw_input_bindings step = Inr bindings" by simp
    with raw_bindings_refs[OF this assms(1)] \<open>binding \<in> _\<close>
    have "neverE bad_ref (resolve_binding env by_key products binding)" by (cases binding) (auto intro: one)
    then show "never bad_ref (materialize_binding env run_id by_key products acc binding)"
      unfolding materialize_binding_def by (intro never_intros never_copy_binding)
  qed
qed

lemma never_process_step:
  assumes "validate_params (ps_params step) = Some p"
    and "\<And>ref producer pid. ref \<in> set (step_refs step) \<Longrightarrow> parse_ref ref = Some (ProdRef producer pid) \<Longrightarrow>
      (\<forall>d\<in>set (ps_depends_on step). dict_get (es_skip_reason st) d = None) \<Longrightarrow>
      dict_get (es_products st) (producer, pid) \<noteq> None"
  shows "never bad_ref (process_step env mode known by_key st step)"
proof (cases "\<forall>d\<in>set (ps_depends_on step). dict_get (es_skip_reason st) d = None")
  case False
  then show ?thesis
    by (auto simp: process_step_def never_def ensure_no_depends_on_skipped_def guardE_def bindA_Inl split: option.split)
next
  case True
  have "never bad_ref (prepare_step_workspace env by_key st step)"
    unfolding prepare_step_workspace_def
    by (intro never_intros never_materialize[OF assms(1)] assms(2)[OF _ _ True]) simp_all
  then show ?thesis
    unfolding process_step_def ensure_no_depends_on_skipped_def execute_run_phase_def execute_products_phase_def Let_def
    by (intro never_intros) simp_all
qed

lemma run_inv_step:
  assumes I: "run_inv steps st done_ids run_ids" and f: "find_step steps sid = Inr step"
    and dist: "distinct (map ps_step_id steps)" and deps: "set (ps_depends_on step) \<subseteq> done_ids"
    and x: "extends st st'"
    and r: "dict_get (es_skip_reason st) sid \<noteq> None \<or>
      (\<forall>d\<in>set (ps_depends_on step). dict_get (es_skip_reason st) d = None) \<and> has_products st' step"
  shows "\<exists>run_ids'. run_inv steps st' (insert sid done_ids) run_ids'"
proof (cases "dict_get (es_skip_reason st) sid \<noteq> None")
  case True
  then have "run_inv steps st' (insert sid done_ids) run_ids"
    using I x has_products_extends[OF _ x] unfolding run_inv_def extends_def by blast
  then show ?thesis by blast
next
  case False
  note F = find_step_Inr[OF f]
  have d: "set (ps_depends_on step) \<subseteq> run_ids" and hp: "has_products st' step"
    using r False I deps by (auto simp: run_inv_def)
  have "s = step" if "s \<in> set steps" "ps_step_id s = sid" for s
    using that F(1,2) dist by (auto simp: distinct_map dest: inj_onD)
  then have "\<forall>s\<in>set steps. ps_step_id s \<in> insert sid run_ids \<longrightarrow> has_products st' s"
    using I hp has_products_extends[OF _ x] unfolding run_inv_def by blast
  moreover have "\<forall>s\<in>insert sid run_ids. set (deps_of (deps_by_step_id steps) s) \<subseteq> insert sid run_ids"
    using I d F(3) unfolding run_inv_def by auto
  moreover have "\<forall>s\<in>insert sid done_ids. s \<in> insert sid run_ids \<or> dict_get (es_skip_reason st') s \<noteq> None"
    using I x unfolding run_inv_def extends_def by blast
  ultimately have "run_inv steps st' (insert sid done_ids) (insert sid run_ids)"
    using I unfolding run_inv_def by blast
  then show ?thesis by blast
qed

text \<open>Accepted plans, as the steps of a run need them.\<close>

definition runnable :: "plan_step list \<Rightarrow> str list \<Rightarrow> bool" where
  "runnable steps known =
     (distinct (map ps_step_id steps) \<and> no_self_refs steps \<and>
      (\<forall>s\<in>set steps. (\<exists>p. validate_params (ps_params s) = Some p) \<and>
         (\<forall>ref\<in>set (step_refs s). ref_ok steps known s ref)))"

lemma bound_product_registered:
  assumes R: "runnable steps known" and I: "run_inv steps st done_ids run_ids"
    and f: "find_step steps sid = Inr step" and deps: "set (ps_depends_on step) \<subseteq> done_ids"
    and ref: "ref \<in> set (step_refs step)" "parse_ref ref = Some (ProdRef producer pid)"
    and skip: "\<forall>d\<in>set (ps_depends_on step). dict_get (es_skip_reason st) d = None"
  shows "dict_get (es_products st) (producer, pid) \<noteq> None"
proof -
  note F = find_step_Inr[OF f]
  have ok: "ref_ok steps known step ref" and ns: "producer \<noteq> sid"
    using R F(1,2) ref by (fastforce simp: runnable_def no_self_refs_def)+
  from ok ref(2) obtain q where q: "q \<in> set steps" "ps_step_id q = producer" "pid \<in> set (step_products q)"
    and reach: "(sid, producer) \<in> (dep_rel (deps_by_step_id steps))\<^sup>*"
    by (auto simp: ref_ok_def F(2))
  from reach ns obtain d where d: "d \<in> set (ps_depends_on step)"
      "(d, producer) \<in> (dep_rel (deps_by_step_id steps))\<^sup>*"
    by (metis converse_rtranclE dep_rel_iff F(3))
  have "d \<in> run_ids" using I deps d(1) skip by (auto simp: run_inv_def)
  with ran_closed[OF I d(2)] q I show ?thesis by (auto simp: run_inv_def has_products_def)
qed

lemma never_run_steps:
  assumes "runnable steps known" "topological (deps_by_step_id steps) (pre @ order)"
    and "run_inv steps st (set pre) run_ids"
  shows "never bad_ref (run_steps env mode steps by_key st order)"
  using assms(2,3)
proof (induction order arbitrary: pre st run_ids)
  case Nil
  then show ?case by (simp add: never_ret)
next
  case (Cons sid order)
  have t: "set (deps_of (deps_by_step_id steps) sid) \<subseteq> set pre"
    using spec[OF Cons.prems(1)[unfolded topological_def], of "length pre"] by simp
  show ?case unfolding run_steps.simps
  proof (intro never_bind_val never_lift)
    show "neverE bad_ref (find_step steps sid)" by (simp add: find_step_def neverE_def split: option.split)
  next
    fix s s' step
    assume "liftE (find_step steps sid) s = (s', Inr step)"
    then have f: "find_step steps sid = Inr step" by simp
    note F = find_step_Inr[OF f]
    have deps: "set (ps_depends_on step) \<subseteq> set pre" using t F(3) by simp
    obtain p where p: "validate_params (ps_params step) = Some p" using assms(1) F(1) by (auto simp: runnable_def)
    show "never bad_ref (process_step env mode (map ps_step_id steps) by_key st step)"
      using p bound_product_registered[OF assms(1) Cons.prems(2) f deps] by (rule never_process_step)
    fix u u' outcome
    assume o: "process_step env mode (map ps_step_id steps) by_key st step u = (u', Inr outcome)"
    show "never bad_ref (case outcome of Continue st' \<Rightarrow> run_steps env mode steps by_key st' order | Stop r \<Rightarrow> ret (Stop r))"
    proof (cases outcome)
      case (Continue st')
      have dist: "distinct (map ps_step_id steps)" using assms(1) by (simp add: runnable_def)
      from process_step_continues[OF o[unfolded Continue] p]
      obtain run_ids' where "run_inv steps st' (insert sid (set pre)) run_ids'"
        using run_inv_step[OF Cons.prems(2) f dist deps] F(2) by auto
      then show ?thesis using Cons.IH[of "pre @ [sid]" st'] Cons.prems(1) by (simp add: Continue)
    qed (simp add: never_ret)
  qed
qed

text \<open>C13 (safety) A composition plan with valid step ids and dependencies in which no step binds a product
  of its own never fails because a referenced product is missing: whatever the runner, the file system,
  the clock and the conditional branches do, \<open>unknown_product_ref\<close> is not raised.\<close>

theorem accepted_plan_finds_its_products:
  assumes "steps_valid steps" "no_self_refs steps" "validated_run env steps fs = (fs', Inl e)"
  shows "e \<noteq> invalid ''unknown_product_ref''"
proof -
  have dist: "distinct (map ps_step_id steps)" using assms(1) by (simp add: steps_valid_def Let_def)
  have "never bad_ref (validated_run env steps)"
    unfolding validated_run_def
  proof (intro never_bind_val never_lift)
    show "neverE bad_ref (validate_step_ids steps)"
      unfolding validate_step_ids_def by (induction steps) (auto intro!: never_intros)
    show "neverE bad_ref (validate_composition_plan steps (extract_input_dataset_keys (xe_manifest env)))"
      by (rule neverE_validate)
    fix s s' mode t t' u u'
    assume "liftE (validate_composition_plan steps (extract_input_dataset_keys (xe_manifest env))) s = (s', Inr mode)"
    then have "validate_composition_plan steps (extract_input_dataset_keys (xe_manifest env)) = Inr mode" by simp
    from accepted_plan[OF this dist] have "runnable steps (extract_input_dataset_keys (xe_manifest env))"
      using dist assms(2) unfolding runnable_def by blast
    moreover have "run_inv steps initial_exec_state (set []) {}" by (simp add: run_inv_def)
    ultimately show "never bad_ref (execute_steps env (composition_mode_value mode) steps)"
      unfolding execute_steps_def
    proof (intro never_bind_val never_lift)
      assume R: "runnable steps (extract_input_dataset_keys (xe_manifest env))"
        and I: "run_inv steps initial_exec_state (set []) {}"
      note T = toposort_ids_spec[OF dist, of "deps_by_step_id steps"]
      then show "neverE bad_ref (toposort steps)" by (auto simp: neverE_def toposort_def split: sum.split_asm)
      fix v v' order
      assume "liftE (toposort steps) v = (v', Inr order)"
      then have "topological (deps_by_step_id steps) ([] @ order)" using T by (simp add: toposort_def)
      from never_run_steps[OF R this I]
      show "never bad_ref (run_steps env (composition_mode_value mode) steps (inputs_by_key (xe_manifest env))
          initial_exec_state order)" .
    qed
    fix outcome
    show "never bad_ref (finalize_pipeline env (composition_mode_value mode) outcome)"
      unfolding finalize_pipeline_def write_pipeline_summary_def Let_def
      by (cases outcome) (auto intro!: never_intros)
  qed
  with assms(3) show ?thesis by (auto simp: never_def)
qed

section \<open>Concrete runs\<close>

text \<open>An environment in which nothing fails: the runner succeeds and exports nothing.\<close>

definition sample_job :: "plan_step list \<Rightarrow> job" where
  "sample_job steps =
     (new_job ''default'' ''job_1'' 0)\<lparr>j_llm_plan := Some \<lparr>lp_plan_version = 1, lp_plan_id = ''p'',
        lp_rel_path = ''artifacts/plan.json'', lp_plan_source = SourceRule, lp_fallback_reason = None,
        lp_steps = steps\<rparr>\<rparr>"

definition sample_exec_env :: "plan_step list \<Rightarrow> exec_env" where
  "sample_exec_env steps =
     \<lparr>xe_job = sample_job steps, xe_run_id = ''r1'',
      xe_manifest = [(''datasets'', JList [JObj [(''dataset_key'', JStr ''primary''), (''rel_path'', JStr ''inputs/d.csv'')]])],
      xe_dirs_inside = (\<lambda>_. True), xe_escapes = (\<lambda>_. False), xe_copy_fails = (\<lambda>_. False),
      xe_write_fails = (\<lambda>_. False), xe_dumps = (\<lambda>_. []), xe_generate = (\<lambda>step manifest. Inr (ps_step_id step)),
      xe_runner = (\<lambda>run_id do_file timeout fs. (fs, \<lparr>rs_ok = True, rs_exit_code = Some 0, rs_timed_out = False,
        rs_artifacts = [], rs_error = None\<rparr>)),
      xe_remaining = (\<lambda>_. None)\<rparr>"

definition sample_files :: files where
  "sample_files = [([''inputs'', ''d.csv''], TextFile sample_primary)]"

definition run_outcome :: "plan_step list \<Rightarrow> exn + run_result" where
  "run_outcome steps = snd (execute_composition_plan (sample_exec_env steps) sample_files)"

definition failed_with :: "str \<Rightarrow> exn + run_result \<Rightarrow> bool" where
  "failed_with reason r =
     (case r of Inr res \<Rightarrow> \<not> rs_ok res \<and> rs_error res = Some (composition_run_error reason) | _ \<Rightarrow> False)"

text \<open>A two-step plan whose second step reads the product of the first runs to success, and
  the product of the second step is the input data set.\<close>

lemma sample_plan_runs:
  "(case execute_composition_plan (sample_exec_env sample_plan) sample_files of
      (fs, Inr res) \<Rightarrow>
        rs_ok res \<and>
        dict_get fs [''runs'', ''r1__b'', ''artifacts'', ''products'', ''out.csv''] = Some (TextFile sample_primary)
    | _ \<Rightarrow> False)"
  by code_simp

text \<open>A step that binds a product of its own passes the validation, and fails when it runs.\<close>

lemma self_reference_accepted_but_fails:
  "validate_composition_plan [sample_step ''a'' [] ''prod:a:out''] [''primary''] = Inr Sequential \<and>
   failed_with ''unknown_product_ref'' (run_outcome [sample_step ''a'' [] ''prod:a:out''])"
  by code_simp

text \<open>A step with a fallback step makes the execution raise an exception that is no composition
  error: the plan of the single step, built for the do-file, no longer holds the fallback step.\<close>

lemma fallback_step_breaks_execution:
  "steps_valid [(sample_step ''a'' [] ''input:primary'')\<lparr>ps_fallback_step_id := Some ''b''\<rparr>,
                sample_step ''b'' [] ''input:primary''] \<and>
   run_outcome [(sample_step ''a'' [] ''input:primary'')\<lparr>ps_fallback_step_id := Some ''b''\<rparr>,
                sample_step ''b'' [] ''input:primary''] = Inl (PyErr PyValueError)"
  by code_simp

theorem accepted_plan_finds_its_products_witness:
  "validated_run (sample_exec_env [sample_step ''a'' [] ''input:primary'']) [sample_step ''a'' [] ''input:primary''] [] =
     ([], Inl (invalid ''binding_source_missing'')) \<and>
   invalid ''binding_source_missing'' \<noteq> invalid ''unknown_product_ref''"
proof -
  have v: "validated_run (sample_exec_env [sample_step ''a'' [] ''input:primary'']) [sample_step ''a'' [] ''input:primary''] [] =
     ([], Inl (invalid ''binding_source_missing''))"
    and "steps_valid [sample_step ''a'' [] ''input:primary'']" "no_self_refs [sample_step ''a'' [] ''input:primary'']"
    by code_simp+
  then show ?thesis using accepted_plan_finds_its_products[OF _ _ v] by blast
qed

end
