(* ===== verification/Uploads.thy ===== *)
theory Uploads
  imports InputsManifest DraftService Effects
begin

text \<open>
  Upload bundles and upload sessions: domain/upload_bundle_service.py, domain/upload_session_id.py,
  domain/upload_sessions_models.py, infra/file_upload_session_store.py, and the three operations of
  domain/upload_sessions_service.py (issuer, refresher, finalizer) with domain/upload_sessions_manifest.py.

  The state is the world of the job service and, for every job, the upload files of its directory: the
  bundle, the manifest, the data sets and the session files. The object store (S3) is the environment:
  what it answers to the calls of the operation. Configuration values are clamped integers, times are
  seconds, their ISO texts are a rendering and its parser. The per-job lock makes an operation one step.
\<close>

section \<open>Environment and state\<close>

record upload_config =
  uc_ttl_seconds :: int
  uc_max_file_size_bytes :: int
  uc_max_sessions_per_job :: int
  uc_multipart_threshold_bytes :: int
  uc_multipart_min_part_size_bytes :: int
  uc_multipart_part_size_bytes :: int
  uc_multipart_max_part_size_bytes :: int
  uc_multipart_max_parts :: int
  uc_max_bundle_files :: int

datatype object_fault = ObjectMissing | ObjectOpFailed | ObjectOther exn

record object_head =
  oh_size_bytes :: int
  oh_etag :: "str option"

record upload_env =
  ue_config :: upload_config
  ue_now :: int
  ue_iso :: "int \<Rightarrow> str"
  ue_parse_iso :: "str \<Rightarrow> int option"
  ue_uuid :: "nat \<Rightarrow> str"
  ue_sha256 :: "str \<Rightarrow> str"
  ue_digest :: "json \<Rightarrow> str"
  ue_presign_put :: "str \<Rightarrow> exn + str"
  ue_presign_part :: "str \<Rightarrow> str \<Rightarrow> int \<Rightarrow> exn + str"
  ue_create_upload :: "str \<Rightarrow> exn + str"
  ue_complete_upload :: "str \<Rightarrow> str \<Rightarrow> (int \<times> str) list \<Rightarrow> object_fault option"
  ue_head :: "str \<Rightarrow> exn + object_head option"
  ue_read :: "str \<Rightarrow> object_fault + str"
  ue_write_fault :: "str \<Rightarrow> bool"

datatype json_file = JsonDoc json | NotJson

record inputs_dir =
  id_bundle :: "json_file option"
  id_manifest :: "json_file option"
  id_datasets :: "(str, str) dict"
  id_sessions :: "(str, json_file) dict"

record upload_world =
  uw_world :: world
  uw_dirs :: "str \<times> str \<Rightarrow> inputs_dir"

definition job_dir_exists :: "str \<Rightarrow> str \<Rightarrow> upload_world \<Rightarrow> bool" where
  "job_dir_exists t j w = (check_job_ids t j = Inr () \<and> w_store (uw_world w) (t, j) \<noteq> None)"

definition set_dir :: "str \<Rightarrow> str \<Rightarrow> inputs_dir \<Rightarrow> upload_world \<Rightarrow> upload_world" where
  "set_dir t j d w = w\<lparr>uw_dirs := (uw_dirs w)((t, j) := d)\<rparr>"

text \<open>\<open>FileJobWorkspaceStore.write_bytes\<close> with a constant, safe path: the update of the directory, or a fault.\<close>

definition workspace_write ::
  "upload_env \<Rightarrow> str \<Rightarrow> str \<Rightarrow> str \<Rightarrow> (inputs_dir \<Rightarrow> inputs_dir) \<Rightarrow> (upload_world, unit) act" where
  "workspace_write env t j rel_path f w =
     (if \<not> is_safe_job_rel_path rel_path then (w, Inl (InErr InputPathUnsafe))
      else if \<not> job_dir_exists t j w then (w, Inl (StoreErr JobNotFound))
      else if ue_write_fault env rel_path then (w, Inl (InErr InputStorageFailed))
      else (set_dir t j (f (uw_dirs w (t, j))) w, Inr ()))"

section \<open>Bundles\<close>

record bundle_declaration =
  bd_filename :: str
  bd_size_bytes :: int
  bd_role :: str
  bd_mime_type :: "str option"

record bundle_file =
  bf_file_id :: str
  bf_filename :: str
  bf_size_bytes :: int
  bf_role :: str
  bf_mime_type :: "str option"

record upload_bundle =
  ub_bundle_id :: str
  ub_job_id :: str
  ub_files :: "bundle_file list"

definition safe_declared_filename :: "str \<Rightarrow> exn + str" where
  "safe_declared_filename filename =
     (let candidate = py_strip filename
      in if candidate = [] \<or> \<not> is_safe_path_segment candidate then Inl (InErr InputFilenameUnsafe) else Inr candidate)"

definition validate_bundle_role :: "str \<Rightarrow> exn + str" where
  "validate_bundle_role role =
     (if py_strip role \<in> set ALLOWED_DATASET_ROLES then Inr (py_strip role) else Inl (InErr InputRoleInvalid))"

definition mime_or_none :: "str option \<Rightarrow> str option" where
  "mime_or_none m = (case m of None \<Rightarrow> None | Some s \<Rightarrow> (if blank s then None else Some (py_strip s)))"

fun normalize_files :: "upload_env \<Rightarrow> nat \<Rightarrow> bundle_declaration list \<Rightarrow> exn + bundle_file list" where
  "normalize_files env n [] = Inr []"
| "normalize_files env n (d # ds) =
     bindE (safe_declared_filename (bd_filename d)) (\<lambda>name.
     bindE (format_from_filename name) (\<lambda>_.
     bindE (validate_bundle_role (bd_role d)) (\<lambda>role.
     bindE (normalize_files env (Suc n) ds) (\<lambda>rest.
       Inr (\<lparr>bf_file_id = ''file_'' @ ue_uuid env n, bf_filename = name, bf_size_bytes = bd_size_bytes d,
             bf_role = role, bf_mime_type = mime_or_none (bd_mime_type d)\<rparr> # rest)))))"

definition bundle_file_json :: "bundle_file \<Rightarrow> json" where
  "bundle_file_json f =
     JObj [(''file_id'', JStr (bf_file_id f)), (''filename'', JStr (bf_filename f)),
           (''size_bytes'', JInt (bf_size_bytes f)), (''role'', JStr (bf_role f)),
           (''mime_type'', opt_json (bf_mime_type f))]"

definition bundle_to_payload :: "upload_bundle \<Rightarrow> json" where
  "bundle_to_payload b =
     JObj [(''bundle_id'', JStr (ub_bundle_id b)), (''job_id'', JStr (ub_job_id b)),
           (''files'', JList (map bundle_file_json (ub_files b)))]"

definition create_bundle ::
  "upload_env \<Rightarrow> str \<Rightarrow> str \<Rightarrow> bundle_declaration list \<Rightarrow> (upload_world, upload_bundle) act" where
  "create_bundle env t j files =
     bindA (liftE (guardE (int (length files) \<le> uc_max_bundle_files (ue_config env))
         (UpErr (BundleFilesLimitExceeded (uc_max_bundle_files (ue_config env)) (int (length files)))))) (\<lambda>_.
     bindA (liftE (normalize_files env 1 files)) (\<lambda>normalized.
       let primaries = length (filter (\<lambda>f. bf_role f = ''primary_dataset'') normalized);
           b = \<lparr>ub_bundle_id = ''bundle_'' @ ue_uuid env 0, ub_job_id = j, ub_files = normalized\<rparr>
       in if primaries = 0 then raise_exn (InErr InputPrimaryDatasetMissing)
          else if 1 < primaries then raise_exn (InErr (InputPrimaryDatasetMultiple primaries))
          else bindA (workspace_write env t j ''inputs/bundle.json''
                        (\<lambda>d. d\<lparr>id_bundle := Some (JsonDoc (bundle_to_payload b))\<rparr>)) (\<lambda>_. ret b)))"

definition bundle_corrupted :: "exn + 'a" where
  "bundle_corrupted = Inl (UpErr BundleCorrupted)"

definition file_from_payload :: "json \<Rightarrow> exn + bundle_file" where
  "file_from_payload item =
     (case item of
        JObj d \<Rightarrow>
          (case (nonblank_str (dict_get d ''file_id''), nonblank_str (dict_get d ''filename''),
                 nonblank_str (dict_get d ''role''), dict_get d ''size_bytes'', dict_get d ''mime_type'') of
             (Some fid, Some name, Some role, Some sz, mime) \<Rightarrow>
               (case (as_int sz, mime) of
                  (Some n, None) \<Rightarrow> Inr \<lparr>bf_file_id = fid, bf_filename = name, bf_size_bytes = n, bf_role = role,
                                         bf_mime_type = None\<rparr>
                | (Some n, Some JNull) \<Rightarrow> Inr \<lparr>bf_file_id = fid, bf_filename = name, bf_size_bytes = n, bf_role = role,
                                               bf_mime_type = None\<rparr>
                | (Some n, Some (JStr m)) \<Rightarrow> Inr \<lparr>bf_file_id = fid, bf_filename = name, bf_size_bytes = n, bf_role = role,
                                                  bf_mime_type = mime_or_none (Some m)\<rparr>
                | _ \<Rightarrow> bundle_corrupted)
           | _ \<Rightarrow> bundle_corrupted)
      | _ \<Rightarrow> bundle_corrupted)"

fun files_from_payload :: "json list \<Rightarrow> exn + bundle_file list" where
  "files_from_payload [] = Inr []"
| "files_from_payload (i # items) =
     bindE (file_from_payload i) (\<lambda>f. bindE (files_from_payload items) (\<lambda>fs. Inr (f # fs)))"

definition bundle_from_payload :: "str \<Rightarrow> json_file \<Rightarrow> exn + upload_bundle" where
  "bundle_from_payload j file =
     (case file of
        JsonDoc (JObj payload) \<Rightarrow>
          (case (nonblank_str (dict_get payload ''bundle_id''), dict_get payload ''files'') of
             (Some bid, Some (JList items)) \<Rightarrow>
               bindE (files_from_payload items) (\<lambda>fs. Inr \<lparr>ub_bundle_id = bid, ub_job_id = j, ub_files = fs\<rparr>)
           | _ \<Rightarrow> bundle_corrupted)
      | _ \<Rightarrow> bundle_corrupted)"

definition get_bundle :: "str \<Rightarrow> str \<Rightarrow> upload_world \<Rightarrow> exn + upload_bundle" where
  "get_bundle t j w =
     (if \<not> job_dir_exists t j w then Inl (StoreErr JobNotFound)
      else case id_bundle (uw_dirs w (t, j)) of
             None \<Rightarrow> Inl (UpErr BundleNotFound)
           | Some f \<Rightarrow> bundle_from_payload j f)"

section \<open>Session records\<close>

record finalize_success =
  fs_status :: str
  fs_upload_session_id :: str
  fs_file_id :: str
  fs_sha256 :: str
  fs_size_bytes :: int

record upload_session =
  us_upload_session_id :: str
  us_job_id :: str
  us_bundle_id :: str
  us_file_id :: str
  us_role :: str
  us_original_name :: str
  us_size_bytes :: int
  us_content_type :: "str option"
  us_upload_strategy :: str
  us_object_key :: str
  us_upload_id :: "str option"
  us_part_size :: "int option"
  us_part_count :: "int option"
  us_created_at :: str
  us_expires_at :: str
  us_finalized :: "finalize_success option"

definition success_payload :: "finalize_success \<Rightarrow> jobj" where
  "success_payload f =
     [(''success'', JBool True), (''status'', JStr (fs_status f)), (''upload_session_id'', JStr (fs_upload_session_id f)),
      (''file_id'', JStr (fs_file_id f)), (''sha256'', JStr (fs_sha256 f)), (''size_bytes'', JInt (fs_size_bytes f))]"

definition opt_int_json :: "int option \<Rightarrow> json" where
  "opt_int_json v = (case v of None \<Rightarrow> JNull | Some i \<Rightarrow> JInt i)"

definition session_payload :: "upload_session \<Rightarrow> jobj" where
  "session_payload s =
     [(''upload_session_id'', JStr (us_upload_session_id s)), (''job_id'', JStr (us_job_id s)),
      (''bundle_id'', JStr (us_bundle_id s)), (''file_id'', JStr (us_file_id s)), (''role'', JStr (us_role s)),
      (''original_name'', JStr (us_original_name s)), (''size_bytes'', JInt (us_size_bytes s)),
      (''content_type'', opt_json (us_content_type s)), (''upload_strategy'', JStr (us_upload_strategy s)),
      (''object_key'', JStr (us_object_key s)), (''upload_id'', opt_json (us_upload_id s)),
      (''part_size'', opt_int_json (us_part_size s)), (''part_count'', opt_int_json (us_part_count s)),
      (''created_at'', JStr (us_created_at s)), (''expires_at'', JStr (us_expires_at s)),
      (''finalize'', case us_finalized s of None \<Rightarrow> JNull | Some f \<Rightarrow> JObj (success_payload f))]"

definition session_corrupted :: "exn + 'a" where
  "session_corrupted = Inl (UpErr UploadSessionCorrupted)"

definition require_str :: "jobj \<Rightarrow> str \<Rightarrow> exn + str" where
  "require_str payload key =
     (case nonblank_str (dict_get payload key) of None \<Rightarrow> session_corrupted | Some s \<Rightarrow> Inr s)"

definition require_int :: "jobj \<Rightarrow> str \<Rightarrow> exn + int" where
  "require_int payload key =
     (case dict_get payload key of
        None \<Rightarrow> session_corrupted
      | Some v \<Rightarrow> (case as_int v of None \<Rightarrow> session_corrupted | Some i \<Rightarrow> Inr i))"

definition optional_str :: "jobj \<Rightarrow> str \<Rightarrow> exn + str option" where
  "optional_str payload key =
     (case dict_get payload key of
        None \<Rightarrow> Inr None
      | Some JNull \<Rightarrow> Inr None
      | Some (JStr s) \<Rightarrow> Inr (if blank s then None else Some (py_strip s))
      | _ \<Rightarrow> session_corrupted)"

definition optional_int :: "jobj \<Rightarrow> str \<Rightarrow> exn + int option" where
  "optional_int payload key =
     (case dict_get payload key of
        None \<Rightarrow> Inr None
      | Some JNull \<Rightarrow> Inr None
      | Some v \<Rightarrow> (case as_int v of None \<Rightarrow> session_corrupted | Some i \<Rightarrow> Inr (Some i)))"

definition success_from_payload :: "str \<Rightarrow> jobj \<Rightarrow> exn + finalize_success" where
  "success_from_payload sid payload =
     (if dict_get payload ''success'' \<noteq> Some (JBool True) then session_corrupted
      else bindE (require_str payload ''status'') (\<lambda>status.
           bindE (require_str payload ''file_id'') (\<lambda>file_id.
           bindE (require_str payload ''sha256'') (\<lambda>sha.
           bindE (require_int payload ''size_bytes'') (\<lambda>size.
             Inr \<lparr>fs_status = status, fs_upload_session_id = sid, fs_file_id = file_id, fs_sha256 = sha,
                  fs_size_bytes = size\<rparr>)))))"

definition optional_finalize :: "str \<Rightarrow> jobj \<Rightarrow> exn + finalize_success option" where
  "optional_finalize sid payload =
     (case dict_get payload ''finalize'' of
        None \<Rightarrow> Inr None
      | Some JNull \<Rightarrow> Inr None
      | Some (JObj f) \<Rightarrow> bindE (success_from_payload sid f) (\<lambda>x. Inr (Some x))
      | _ \<Rightarrow> session_corrupted)"

definition session_from_payload :: "str \<Rightarrow> jobj \<Rightarrow> exn + upload_session" where
  "session_from_payload sid p =
     bindE (require_str p ''job_id'') (\<lambda>job_id.
     bindE (require_str p ''bundle_id'') (\<lambda>bundle_id.
     bindE (require_str p ''file_id'') (\<lambda>file_id.
     bindE (require_str p ''role'') (\<lambda>role.
     bindE (require_str p ''original_name'') (\<lambda>original_name.
     bindE (require_int p ''size_bytes'') (\<lambda>size_bytes.
     bindE (optional_str p ''content_type'') (\<lambda>content_type.
     bindE (require_str p ''upload_strategy'') (\<lambda>strategy.
     bindE (require_str p ''object_key'') (\<lambda>object_key.
     bindE (optional_str p ''upload_id'') (\<lambda>upload_id.
     bindE (optional_int p ''part_size'') (\<lambda>part_size.
     bindE (optional_int p ''part_count'') (\<lambda>part_count.
     bindE (require_str p ''created_at'') (\<lambda>created_at.
     bindE (require_str p ''expires_at'') (\<lambda>expires_at.
     bindE (optional_finalize sid p) (\<lambda>finalized.
       Inr \<lparr>us_upload_session_id = sid, us_job_id = job_id, us_bundle_id = bundle_id, us_file_id = file_id,
            us_role = role, us_original_name = original_name, us_size_bytes = size_bytes,
            us_content_type = content_type, us_upload_strategy = strategy, us_object_key = object_key,
            us_upload_id = upload_id, us_part_size = part_size, us_part_count = part_count,
            us_created_at = created_at, us_expires_at = expires_at, us_finalized = finalized\<rparr>)))))))))))))))"

end
