(* ===== verification/UploadSessions.thy ===== *)
theory UploadSessions
  imports Uploads
begin

text \<open>
  The operations on upload sessions: the file store of session records, issuing a session with its
  presigned URLs, refreshing the URLs of a multipart session, and finalizing: checking the uploaded
  object, storing it as a data set of the job and updating manifest and job.
\<close>

section \<open>The session store\<close>

definition job_id_of_session :: "str \<Rightarrow> exn + str" where
  "job_id_of_session sid =
     (case py_split (CHR ''.'') sid of
        [p, j, n] \<Rightarrow>
          (if p = ''usv1'' \<and> py_strip j \<noteq> [] \<and> py_strip n \<noteq> [] then Inr (py_strip j)
           else Inl (UpErr UploadSessionNotFound))
      | _ \<Rightarrow> Inl (UpErr UploadSessionNotFound))"

definition build_session_id :: "upload_env \<Rightarrow> str \<Rightarrow> str" where
  "build_session_id env job_id = ''usv1.'' @ job_id @ ''.'' @ ue_uuid env 0"

definition read_session_file :: "str \<Rightarrow> json_file \<Rightarrow> exn + upload_session" where
  "read_session_file sid f =
     (case f of
        NotJson \<Rightarrow> Inl (PyErr PyValueError)
      | JsonDoc (JObj p) \<Rightarrow> session_from_payload sid p
      | JsonDoc _ \<Rightarrow> Inl (PyErr PyAttributeError))"

definition session_active :: "upload_env \<Rightarrow> upload_session \<Rightarrow> bool" where
  "session_active env s =
     (us_finalized s = None \<and>
      (case ue_parse_iso env (us_expires_at s) of None \<Rightarrow> False | Some t \<Rightarrow> ue_now env < t))"

fun count_active :: "upload_env \<Rightarrow> (str \<times> json_file) list \<Rightarrow> exn + int" where
  "count_active env [] = Inr 0"
| "count_active env ((sid, f) # rest) =
     (if \<not> startswith sid ''usv1.'' then count_active env rest
      else case read_session_file sid f of
             Inl e \<Rightarrow>
               (if e \<in> {PyErr PyValueError, UpErr UploadSessionCorrupted} then count_active env rest else Inl e)
           | Inr s \<Rightarrow>
               bindE (count_active env rest) (\<lambda>n. Inr (if session_active env s then n + 1 else n)))"

definition count_active_sessions :: "upload_env \<Rightarrow> str \<Rightarrow> str \<Rightarrow> upload_world \<Rightarrow> exn + int" where
  "count_active_sessions env t j w =
     (if check_job_ids t j \<noteq> Inr () then Inr 0 else count_active env (id_sessions (uw_dirs w (t, j))))"

definition load_session :: "str \<Rightarrow> str \<Rightarrow> upload_world \<Rightarrow> exn + upload_session" where
  "load_session t sid w =
     bindE (job_id_of_session sid) (\<lambda>j.
       if check_job_ids t j \<noteq> Inr () then Inl (UpErr UploadSessionNotFound)
       else case dict_get (id_sessions (uw_dirs w (t, j))) sid of
              None \<Rightarrow> Inl (UpErr UploadSessionNotFound)
            | Some f \<Rightarrow> read_session_file sid f)"

definition save_session :: "upload_env \<Rightarrow> str \<Rightarrow> str \<Rightarrow> upload_session \<Rightarrow> (upload_world, unit) act" where
  "save_session env t j s w =
     (if check_job_ids t j \<noteq> Inr () then (w, Inl (UpErr UploadSessionNotFound))
      else if ue_write_fault env (us_upload_session_id s) then (w, Inl (PyErr PyOSError))
      else let d = uw_dirs w (t, j)
           in (set_dir t j (d\<lparr>id_sessions := dict_set (id_sessions d) (us_upload_session_id s)
                                (JsonDoc (JObj (session_payload s)))\<rparr>) w, Inr ()))"

text \<open>\<open>lock_job\<close> refuses a job without a job file; the body then runs undisturbed.\<close>

definition lock_job :: "str \<Rightarrow> str \<Rightarrow> (upload_world, 'a) act \<Rightarrow> (upload_world, 'a) act" where
  "lock_job t j body w = (if job_dir_exists t j w then body w else (w, Inl (StoreErr JobNotFound)))"

definition reading :: "(upload_world \<Rightarrow> exn + 'a) \<Rightarrow> (upload_world, 'a) act" where
  "reading f w = (w, f w)"

section \<open>Issuing\<close>

definition object_key :: "str \<Rightarrow> str \<Rightarrow> str \<Rightarrow> str" where
  "object_key t j sid = ''tenants/'' @ t @ ''/jobs/'' @ j @ ''/uploads/'' @ sid"

definition multipart_part_size :: "upload_config \<Rightarrow> int" where
  "multipart_part_size cfg =
     max (uc_multipart_min_part_size_bytes cfg)
         (min (uc_multipart_max_part_size_bytes cfg) (uc_multipart_part_size_bytes cfg))"

definition multipart_part_count :: "int \<Rightarrow> int \<Rightarrow> exn + int" where
  "multipart_part_count size_bytes part_size =
     (if size_bytes \<le> 0 \<or> part_size \<le> 0 then Inl (UpErr (UploadMultipartLimitExceeded ''part_count_invalid''))
      else Inr (\<lceil>(of_int size_bytes :: rat) / of_int part_size\<rceil>))"

definition find_bundle_file :: "upload_bundle \<Rightarrow> str \<Rightarrow> exn + bundle_file" where
  "find_bundle_file b file_id =
     (case find (\<lambda>f. bf_file_id f = file_id) (ub_files b) of
        None \<Rightarrow> Inl (UpErr UploadBundleFileNotFound)
      | Some f \<Rightarrow> Inr f)"

definition bundle_for_job :: "str \<Rightarrow> str \<Rightarrow> str \<Rightarrow> upload_world \<Rightarrow> exn + upload_bundle" where
  "bundle_for_job t j bundle_id w =
     bindE (get_bundle t j w) (\<lambda>b. if ub_bundle_id b \<noteq> bundle_id then Inl (UpErr BundleNotFound) else Inr b)"

definition assert_size_limit :: "upload_config \<Rightarrow> int \<Rightarrow> exn + unit" where
  "assert_size_limit cfg size_bytes =
     guardE (size_bytes \<le> uc_max_file_size_bytes cfg)
       (UpErr (UploadFileSizeLimitExceeded (uc_max_file_size_bytes cfg) size_bytes))"

definition assert_session_limit :: "upload_env \<Rightarrow> str \<Rightarrow> str \<Rightarrow> upload_world \<Rightarrow> exn + unit" where
  "assert_session_limit env t j w =
     bindE (count_active_sessions env t j w) (\<lambda>active.
       guardE (active < uc_max_sessions_per_job (ue_config env))
         (UpErr (UploadSessionsLimitExceeded (uc_max_sessions_per_job (ue_config env)) active)))"

definition part_url :: "int \<Rightarrow> str \<Rightarrow> json" where
  "part_url n url = JObj [(''part_number'', JInt n), (''url'', JStr url)]"

fun presign_parts :: "upload_env \<Rightarrow> str \<Rightarrow> str \<Rightarrow> int list \<Rightarrow> exn + json list" where
  "presign_parts env key upload_id [] = Inr []"
| "presign_parts env key upload_id (n # ns) =
     bindE (ue_presign_part env key upload_id n) (\<lambda>url.
     bindE (presign_parts env key upload_id ns) (\<lambda>urls. Inr (part_url n url # urls)))"

definition multipart_presigns :: "upload_env \<Rightarrow> str \<Rightarrow> int \<Rightarrow> exn + jobj \<times> str \<times> int \<times> int" where
  "multipart_presigns env key size_bytes =
     (let part_size = multipart_part_size (ue_config env)
      in bindE (multipart_part_count size_bytes part_size) (\<lambda>count.
         if uc_multipart_max_parts (ue_config env) < count
         then Inl (UpErr (UploadMultipartLimitExceeded ''max_parts_exceeded''))
         else bindE (ue_create_upload env key) (\<lambda>upload_id.
              bindE (presign_parts env key upload_id [1..count]) (\<lambda>urls.
                Inr ([(''part_size'', JInt part_size), (''presigned_urls'', JList urls)], upload_id, part_size, count)))))"

definition direct_presign :: "upload_env \<Rightarrow> str \<Rightarrow> exn + jobj" where
  "direct_presign env key = bindE (ue_presign_put env key) (\<lambda>url. Inr [(''presigned_url'', JStr url)])"

definition build_session ::
  "upload_env \<Rightarrow> str \<Rightarrow> str \<Rightarrow> bundle_file \<Rightarrow> str \<Rightarrow> str \<Rightarrow> exn + jobj \<times> upload_session" where
  "build_session env j bundle_id f sid key =
     (let record = \<lambda>strategy upload_id part_size part_count.
            \<lparr>us_upload_session_id = sid, us_job_id = j, us_bundle_id = bundle_id, us_file_id = bf_file_id f,
             us_role = bf_role f, us_original_name = bf_filename f, us_size_bytes = bf_size_bytes f,
             us_content_type = bf_mime_type f, us_upload_strategy = strategy, us_object_key = key,
             us_upload_id = upload_id, us_part_size = part_size, us_part_count = part_count,
             us_created_at = ue_iso env (ue_now env),
             us_expires_at = ue_iso env (ue_now env + uc_ttl_seconds (ue_config env)), us_finalized = None\<rparr>
      in if uc_multipart_threshold_bytes (ue_config env) \<le> bf_size_bytes f
         then bindE (multipart_presigns env key (bf_size_bytes f)) (\<lambda>(payload, upload_id, part_size, part_count).
                Inr (payload, record ''multipart'' (Some upload_id) (Some part_size) (Some part_count)))
         else bindE (direct_presign env key) (\<lambda>payload. Inr (payload, record ''direct'' None None None)))"

definition issue_session ::
  "upload_env \<Rightarrow> str \<Rightarrow> str \<Rightarrow> str \<Rightarrow> str \<Rightarrow> (upload_world, jobj) act" where
  "issue_session env t j bundle_id file_id =
     lock_job t j
       (bindA (reading (assert_session_limit env t j)) (\<lambda>_.
        bindA (reading (bundle_for_job t j bundle_id)) (\<lambda>b.
        bindA (liftE (find_bundle_file b file_id)) (\<lambda>f.
        bindA (liftE (assert_size_limit (ue_config env) (bf_size_bytes f))) (\<lambda>_.
        bindA (liftE (build_session env j bundle_id f (build_session_id env j)
                        (object_key t j (build_session_id env j)))) (\<lambda>(payload, s).
        bindA (save_session env t j s) (\<lambda>_.
          ret ([(''upload_session_id'', JStr (us_upload_session_id s)), (''job_id'', JStr j),
                (''file_id'', JStr file_id), (''upload_strategy'', JStr (us_upload_strategy s)),
                (''expires_at'', JStr (us_expires_at s))] @ payload))))))))"

section \<open>Refreshing\<close>

definition assert_not_expired :: "upload_env \<Rightarrow> upload_session \<Rightarrow> exn + unit" where
  "assert_not_expired env s =
     (case ue_parse_iso env (us_expires_at s) of
        None \<Rightarrow> Inl (UpErr UploadSessionExpired)
      | Some t \<Rightarrow> guardE (ue_now env < t) (UpErr UploadSessionExpired))"

definition parts_invalid :: "str \<Rightarrow> exn" where
  "parts_invalid reason = UpErr (UploadPartsInvalid reason)"

definition requested_parts :: "int \<Rightarrow> int list option \<Rightarrow> exn + int list" where
  "requested_parts part_count part_numbers =
     (let requested = (case part_numbers of None \<Rightarrow> [1..part_count] | Some ns \<Rightarrow> sorted_list_of_set (set ns))
      in if requested = [] then Inl (parts_invalid ''part_numbers_empty'')
         else if \<exists>n\<in>set requested. n < 1 \<or> part_count < n then Inl (parts_invalid ''part_number_out_of_range'')
         else Inr requested)"

definition multipart_fields :: "upload_session \<Rightarrow> exn + int \<times> str" where
  "multipart_fields s =
     (case (us_part_count s, us_upload_id s) of
        (Some n, Some u) \<Rightarrow> Inr (n, u)
      | _ \<Rightarrow> Inl (parts_invalid ''multipart_session_missing_fields''))"

definition refresh_session ::
  "upload_env \<Rightarrow> str \<Rightarrow> str \<Rightarrow> int list option \<Rightarrow> (upload_world, jobj) act" where
  "refresh_session env t sid part_numbers =
     bindA (liftE (job_id_of_session sid)) (\<lambda>j.
       lock_job t j
         (bindA (reading (load_session t sid)) (\<lambda>s.
          bindA (liftE (guardE (us_upload_strategy s = ''multipart'') (parts_invalid ''refresh_requires_multipart''))) (\<lambda>_.
          bindA (liftE (multipart_fields s)) (\<lambda>(part_count, upload_id).
          bindA (liftE (assert_not_expired env s)) (\<lambda>_.
          bindA (liftE (requested_parts part_count part_numbers)) (\<lambda>requested.
          bindA (liftE (presign_parts env (us_object_key s) upload_id requested)) (\<lambda>urls.
            let expires = ue_iso env (ue_now env + uc_ttl_seconds (ue_config env))
            in bindA (save_session env t j (s\<lparr>us_expires_at := expires\<rparr>)) (\<lambda>_.
                 ret [(''upload_session_id'', JStr sid), (''parts'', JList urls), (''expires_at'', JStr expires)])))))))))"

section \<open>Finalizing: the uploaded parts\<close>

record finalize_part =
  fp_part_number :: int
  fp_etag :: str
  fp_sha256 :: "str option"

definition normalize_etag :: "str \<Rightarrow> str" where
  "normalize_etag etag =
     (let c = py_strip etag; q = CHR 0x22
      in py_strip (if c \<noteq> [] \<and> hd c = q \<and> last c = q \<and> 2 \<le> length c then butlast (tl c) else c))"

definition failure_payload :: "str \<Rightarrow> str \<Rightarrow> jobj" where
  "failure_payload code message =
     [(''success'', JBool False), (''retryable'', JBool True), (''error_code'', JStr code), (''message'', JStr message)]"

definition parse_part :: "json \<Rightarrow> exn + finalize_part" where
  "parse_part item =
     (case item of
        JObj d \<Rightarrow>
          (case dict_get d ''part_number'' of
             None \<Rightarrow> Inl (parts_invalid ''part_number_invalid'')
           | Some pn \<Rightarrow>
             (case as_int pn of
               None \<Rightarrow> Inl (parts_invalid ''part_number_invalid'')
             | Some n \<Rightarrow>
               (if n < 1 then Inl (parts_invalid ''part_number_invalid'')
                else case nonblank_str (dict_get d ''etag'') of
                       None \<Rightarrow> Inl (parts_invalid ''etag_invalid'')
                     | Some etag \<Rightarrow>
                         (case dict_get d ''sha256'' of
                            None \<Rightarrow> Inr \<lparr>fp_part_number = n, fp_etag = normalize_etag etag, fp_sha256 = None\<rparr>
                          | Some JNull \<Rightarrow> Inr \<lparr>fp_part_number = n, fp_etag = normalize_etag etag, fp_sha256 = None\<rparr>
                          | Some v \<Rightarrow>
                              (case nonblank_str (Some v) of
                                 None \<Rightarrow> Inl (parts_invalid ''sha256_invalid'')
                               | Some sha \<Rightarrow> Inr \<lparr>fp_part_number = n, fp_etag = normalize_etag etag,
                                                 fp_sha256 = Some sha\<rparr>)))))
      | _ \<Rightarrow> Inl (parts_invalid ''parts_not_objects''))"

fun parse_part_list :: "json list \<Rightarrow> exn + finalize_part list" where
  "parse_part_list [] = Inr []"
| "parse_part_list (i # items) =
     bindE (parse_part i) (\<lambda>p. bindE (parse_part_list items) (\<lambda>ps. Inr (p # ps)))"

definition parse_parts :: "str \<Rightarrow> json list \<Rightarrow> exn + finalize_part list" where
  "parse_parts strategy items =
     (if items = [] then Inl (parts_invalid ''parts_empty'')
      else bindE (parse_part_list items) (\<lambda>ps.
             if strategy = ''direct'' \<and> (length ps \<noteq> 1 \<or> fp_part_number (hd ps) \<noteq> 1)
             then Inl (parts_invalid ''direct_requires_single_part_1'') else Inr ps))"

text \<open>The checks answer \<open>None\<close> to go on, or the failure to return.\<close>

definition direct_etag_failure :: "upload_env \<Rightarrow> upload_session \<Rightarrow> finalize_part \<Rightarrow> exn + jobj option" where
  "direct_etag_failure env s part =
     bindE (ue_head env (us_object_key s)) (\<lambda>head.
       case head of
         None \<Rightarrow> Inr (Some (failure_payload ''UPLOAD_INCOMPLETE'' ''uploaded object not found''))
       | Some h \<Rightarrow>
           (case oh_etag h of
              None \<Rightarrow> Inr None
            | Some e \<Rightarrow>
                Inr (if blank e \<or> normalize_etag e = fp_etag part then None
                     else Some (failure_payload ''UPLOAD_INCOMPLETE'' ''uploaded object etag mismatch''))))"

definition multipart_incomplete :: jobj where
  "multipart_incomplete = failure_payload ''UPLOAD_INCOMPLETE'' ''multipart upload incomplete''"

definition ensure_multipart_complete ::
  "upload_env \<Rightarrow> upload_session \<Rightarrow> finalize_part list \<Rightarrow> exn + jobj option" where
  "ensure_multipart_complete env s parts =
     bindE (multipart_fields s) (\<lambda>(part_count, upload_id).
       let numbers = map fp_part_number parts
       in if \<not> distinct numbers then Inl (parts_invalid ''duplicate_part_numbers'')
          else if set numbers \<noteq> {1..part_count} then Inr (Some multipart_incomplete)
          else case ue_complete_upload env (us_object_key s) upload_id (map (\<lambda>p. (fp_part_number p, fp_etag p)) parts) of
                 None \<Rightarrow> Inr None
               | Some (ObjectOther e) \<Rightarrow> Inl e
               | Some _ \<Rightarrow>
                   bindE (ue_head env (us_object_key s)) (\<lambda>head.
                     Inr (if head \<noteq> None then None else Some multipart_incomplete)))"

definition read_object_bytes :: "upload_env \<Rightarrow> str \<Rightarrow> exn + str option" where
  "read_object_bytes env key =
     (case ue_read env key of
        Inr data \<Rightarrow> Inr (Some data)
      | Inl (ObjectOther e) \<Rightarrow> Inl e
      | Inl _ \<Rightarrow> Inr None)"

definition direct_sha256_mismatch :: "str \<Rightarrow> finalize_part list \<Rightarrow> str \<Rightarrow> bool" where
  "direct_sha256_mismatch strategy parts actual =
     (strategy = ''direct'' \<and>
      (case fp_sha256 (hd parts) of None \<Rightarrow> False | Some expected \<Rightarrow> expected \<noteq> actual))"

section \<open>Finalizing: manifest and job\<close>

definition manifest_items :: "jobj \<Rightarrow> exn + jobj list" where
  "manifest_items manifest =
     (case dict_get manifest ''datasets'' of
        None \<Rightarrow> Inr []
      | Some (JList items) \<Rightarrow> Inr (concat (map (\<lambda>i. case i of JObj d \<Rightarrow> [d] | _ \<Rightarrow> []) items))
      | _ \<Rightarrow> Inl (parts_invalid ''manifest_datasets_invalid''))"

fun upsert_items :: "prepared_dataset \<Rightarrow> jobj list \<Rightarrow> exn + jobj list" where
  "upsert_items d [] = Inr []"
| "upsert_items d (item # items) =
     (if dict_get item ''dataset_key'' = Some (JStr (pd_dataset_key d))
      then (if dict_get item ''role'' \<noteq> Some (JStr (pd_role d)) then Inl (parts_invalid ''dataset_key_role_conflict'')
            else upsert_items d items)
      else bindE (upsert_items d items) (\<lambda>rest. Inr (item # rest)))"

definition upsert_manifest_dataset :: "jobj \<Rightarrow> prepared_dataset \<Rightarrow> exn + jobj" where
  "upsert_manifest_dataset manifest d =
     bindE (manifest_items manifest) (\<lambda>items.
     bindE (upsert_items d items) (\<lambda>kept.
       Inr [(''schema_version'', JInt 2), (''datasets'', JList (map JObj (kept @ [dataset_item d])))]))"

definition nullable_text :: "json option \<Rightarrow> str option option" where
  "nullable_text v =
     (case v of None \<Rightarrow> Some None | Some JNull \<Rightarrow> Some None | Some (JStr s) \<Rightarrow> Some (Some s) | _ \<Rightarrow> None)"

definition dataset_from_item :: "jobj \<Rightarrow> prepared_dataset option" where
  "dataset_from_item i =
     (case (nonblank_str (dict_get i ''dataset_key''), nonblank_str (dict_get i ''role''),
            nonblank_str (dict_get i ''rel_path''), nonblank_str (dict_get i ''sha256''),
            nonblank_str (dict_get i ''fingerprint''), nonblank_str (dict_get i ''format''),
            nonblank_str (dict_get i ''original_name''), dict_get i ''size_bytes'',
            nonblank_str (dict_get i ''uploaded_at''), nullable_text (dict_get i ''content_type'')) of
        (Some key, Some role, Some rel, Some sha, Some fp, Some fmt, Some name, Some sz, Some uploaded, Some ct) \<Rightarrow>
          (case as_int sz of
             None \<Rightarrow> None
           | Some n \<Rightarrow> Some \<lparr>pd_dataset_key = key, pd_role = role, pd_rel_path = rel, pd_sha256 = sha,
                           pd_fingerprint = fp, pd_format = fmt, pd_original_name = name, pd_size_bytes = n,
                           pd_uploaded_at = uploaded, pd_content_type = ct, pd_data = []\<rparr>)
      | _ \<Rightarrow> None)"

definition datasets_from_manifest :: "jobj \<Rightarrow> exn + prepared_dataset list" where
  "datasets_from_manifest manifest =
     bindE (manifest_items manifest) (\<lambda>items. Inr (List.map_filter dataset_from_item items))"

definition load_or_init_manifest :: "str \<Rightarrow> str \<Rightarrow> upload_world \<Rightarrow> exn + jobj" where
  "load_or_init_manifest t j w =
     (if \<not> job_dir_exists t j w then Inl (StoreErr JobNotFound)
      else case id_manifest (uw_dirs w (t, j)) of
             None \<Rightarrow> Inr [(''schema_version'', JInt 2), (''datasets'', JList [])]
           | Some (JsonDoc (JObj m)) \<Rightarrow> Inr m
           | Some _ \<Rightarrow> Inl (PyErr PyValueError))"

definition write_manifest :: "upload_env \<Rightarrow> str \<Rightarrow> str \<Rightarrow> jobj \<Rightarrow> (upload_world, unit) act" where
  "write_manifest env t j m w =
     (case check_job_ids t j of
        Inl e \<Rightarrow> (w, Inl e)
      | Inr _ \<Rightarrow>
          (if w_store (uw_world w) (t, j) = None then (w, Inl (StoreErr JobNotFound))
           else if ue_write_fault env MANIFEST_REL_PATH then (w, Inl (StoreErr (JobStoreIO ''artifact_write'')))
           else (set_dir t j ((uw_dirs w (t, j))\<lparr>id_manifest := Some (JsonDoc (JObj m))\<rparr>) w, Inr ())))"

definition in_world :: "(world, 'a) act \<Rightarrow> (upload_world, 'a) act" where
  "in_world m w = (case m (uw_world w) of (w', r) \<Rightarrow> (w\<lparr>uw_world := w'\<rparr>, r))"

definition persist_manifest_and_inputs ::
  "upload_env \<Rightarrow> str \<Rightarrow> str \<Rightarrow> prepared_dataset \<Rightarrow> (upload_world, unit) act" where
  "persist_manifest_and_inputs env t j d =
     bindA (reading (load_or_init_manifest t j)) (\<lambda>m.
     bindA (liftE (upsert_manifest_dataset m d)) (\<lambda>m'.
     bindA (write_manifest env t j m') (\<lambda>_.
     bindA (liftE (datasets_from_manifest m')) (\<lambda>ds.
       in_world (update_job_inputs t j (pd_rel_path d) (inputs_fingerprint (ue_digest env) ds))))))"

definition materialize_upload ::
  "upload_env \<Rightarrow> str \<Rightarrow> str \<Rightarrow> str \<Rightarrow> upload_session \<Rightarrow> str \<Rightarrow> (upload_world, finalize_success) act" where
  "materialize_upload env t j sid s data =
     bindA (liftE (prepare_dataset (ue_sha256 env) data (Some (us_original_name s)) None (us_role s)
                     (us_content_type s) (ue_iso env (ue_now env)))) (\<lambda>d.
     bindA (workspace_write env t j (pd_rel_path d)
              (\<lambda>dir. dir\<lparr>id_datasets := dict_set (id_datasets dir) (pd_rel_path d) data\<rparr>)) (\<lambda>_.
     bindA (persist_manifest_and_inputs env t j d) (\<lambda>_.
       ret \<lparr>fs_status = ''finalized'', fs_upload_session_id = sid, fs_file_id = us_file_id s,
            fs_sha256 = ue_sha256 env data, fs_size_bytes = int (length data)\<rparr>)))"

text \<open>The checks of the uploaded object: its bytes, or the failure to return.\<close>

definition check_upload ::
  "upload_env \<Rightarrow> upload_session \<Rightarrow> finalize_part list \<Rightarrow> exn + (jobj + str)" where
  "check_upload env s parts =
     bindE (if us_upload_strategy s = ''multipart'' then ensure_multipart_complete env s parts
            else direct_etag_failure env s (hd parts)) (\<lambda>failure.
       case failure of
         Some f \<Rightarrow> Inr (Inl f)
       | None \<Rightarrow>
           bindE (read_object_bytes env (us_object_key s)) (\<lambda>bytes.
             case bytes of
               None \<Rightarrow> Inr (Inl (failure_payload ''UPLOAD_INCOMPLETE'' ''uploaded object not found''))
             | Some data \<Rightarrow>
                 Inr (if int (length data) \<noteq> us_size_bytes s
                      then Inl (failure_payload ''UPLOAD_INCOMPLETE'' ''uploaded object size mismatch'')
                      else if direct_sha256_mismatch (us_upload_strategy s) parts (ue_sha256 env data)
                      then Inl (failure_payload ''CHECKSUM_MISMATCH'' ''sha256 mismatch'')
                      else Inr data)))"

definition finalize_session :: "upload_env \<Rightarrow> str \<Rightarrow> str \<Rightarrow> json list \<Rightarrow> (upload_world, jobj) act" where
  "finalize_session env t sid parts =
     bindA (liftE (job_id_of_session sid)) (\<lambda>j.
       lock_job t j
         (bindA (reading (load_session t sid)) (\<lambda>s.
          bindA (liftE (assert_not_expired env s)) (\<lambda>_.
            case us_finalized s of
              Some f \<Rightarrow> ret (success_payload f)
            | None \<Rightarrow>
                bindA (liftE (parse_parts (us_upload_strategy s) parts)) (\<lambda>ps.
                bindA (liftE (check_upload env s ps)) (\<lambda>checked.
                  case checked of
                    Inl f \<Rightarrow> ret f
                  | Inr data \<Rightarrow>
                      bindA (materialize_upload env t j sid s data) (\<lambda>success.
                      bindA (save_session env t j (s\<lparr>us_finalized := Some success\<rparr>)) (\<lambda>_.
                        ret (success_payload success)))))))))"

end
