(* ===== verification/UploadLaws.thy ===== *)
theory UploadLaws
  imports UploadSessions RunTrigger
begin

text \<open>
  What the upload operations guarantee: the parts of an issued session cover the file within the
  configured limits, session files read back as they were written, a finalized upload is stored, listed
  and fingerprinted, finalizing again changes nothing, and a refused upload changes nothing at all.
\<close>

declare strip_idem [simp] blank_strip [simp]

section \<open>Session files\<close>

definition stripped :: "str option \<Rightarrow> bool" where
  "stripped v = (case v of None \<Rightarrow> True | Some s \<Rightarrow> \<not> blank s \<and> py_strip s = s)"

definition success_ok :: "str \<Rightarrow> finalize_success \<Rightarrow> bool" where
  "success_ok sid f =
     (fs_upload_session_id f = sid \<and> \<not> blank (fs_status f) \<and> \<not> blank (fs_file_id f) \<and> \<not> blank (fs_sha256 f))"

definition session_ok :: "upload_session \<Rightarrow> bool" where
  "session_ok s =
     ((\<forall>v\<in>{us_job_id s, us_bundle_id s, us_file_id s, us_role s, us_original_name s, us_upload_strategy s,
            us_object_key s, us_created_at s, us_expires_at s}. \<not> blank v) \<and>
      stripped (us_content_type s) \<and> stripped (us_upload_id s) \<and>
      (case us_finalized s of None \<Rightarrow> True | Some f \<Rightarrow> success_ok (us_upload_session_id s) f))"

lemma require_str_get: "dict_get p k = Some (JStr v) \<Longrightarrow> \<not> blank v \<Longrightarrow> require_str p k = Inr v"
  by (simp add: require_str_def nonblank_str_def)

lemma require_str_Inr: "require_str p k = Inr v \<Longrightarrow> \<not> blank v"
  by (auto simp: require_str_def session_corrupted_def nonblank_str_def split: option.split_asm json.split_asm if_split_asm)

lemma optional_str_get: "dict_get p k = Some (opt_json v) \<Longrightarrow> stripped v \<Longrightarrow> optional_str p k = Inr v"
  by (auto simp: optional_str_def opt_json_def stripped_def split: option.split_asm)

lemma optional_str_Inr: "optional_str p k = Inr v \<Longrightarrow> stripped v"
  by (auto simp: optional_str_def session_corrupted_def stripped_def split: option.split_asm json.split_asm if_split_asm)

lemma optional_int_get: "dict_get p k = Some (opt_int_json v) \<Longrightarrow> optional_int p k = Inr v"
  by (auto simp: optional_int_def opt_int_json_def split: option.split_asm)

lemma success_roundtrip: "success_ok sid f \<Longrightarrow> success_from_payload sid (success_payload f) = Inr f"
  by (auto simp: success_from_payload_def success_payload_def success_ok_def require_str_get require_int_def)

lemma session_roundtrip:
  assumes "session_ok s"
  shows "session_from_payload (us_upload_session_id s) (session_payload s) = Inr s"
proof -
  let ?p = "session_payload s"
  have g: "dict_get ?p ''job_id'' = Some (JStr (us_job_id s))" "dict_get ?p ''bundle_id'' = Some (JStr (us_bundle_id s))"
    "dict_get ?p ''file_id'' = Some (JStr (us_file_id s))" "dict_get ?p ''role'' = Some (JStr (us_role s))"
    "dict_get ?p ''original_name'' = Some (JStr (us_original_name s))"
    "dict_get ?p ''size_bytes'' = Some (JInt (us_size_bytes s))"
    "dict_get ?p ''content_type'' = Some (opt_json (us_content_type s))"
    "dict_get ?p ''upload_strategy'' = Some (JStr (us_upload_strategy s))"
    "dict_get ?p ''object_key'' = Some (JStr (us_object_key s))"
    "dict_get ?p ''upload_id'' = Some (opt_json (us_upload_id s))"
    "dict_get ?p ''part_size'' = Some (opt_int_json (us_part_size s))"
    "dict_get ?p ''part_count'' = Some (opt_int_json (us_part_count s))"
    "dict_get ?p ''created_at'' = Some (JStr (us_created_at s))"
    "dict_get ?p ''expires_at'' = Some (JStr (us_expires_at s))"
    "dict_get ?p ''finalize'' = Some (case us_finalized s of None \<Rightarrow> JNull | Some f \<Rightarrow> JObj (success_payload f))"
    by (simp_all add: session_payload_def)
  have i: "require_int ?p ''size_bytes'' = Inr (us_size_bytes s)" using g(6) by (simp add: require_int_def)
  have f: "optional_finalize (us_upload_session_id s) ?p = Inr (us_finalized s)"
    using g(15) assms
    by (cases "us_finalized s") (simp_all add: optional_finalize_def session_ok_def success_roundtrip)
  have strs: "require_str ?p ''job_id'' = Inr (us_job_id s)" "require_str ?p ''bundle_id'' = Inr (us_bundle_id s)"
    "require_str ?p ''file_id'' = Inr (us_file_id s)" "require_str ?p ''role'' = Inr (us_role s)"
    "require_str ?p ''original_name'' = Inr (us_original_name s)"
    "require_str ?p ''upload_strategy'' = Inr (us_upload_strategy s)"
    "require_str ?p ''object_key'' = Inr (us_object_key s)" "require_str ?p ''created_at'' = Inr (us_created_at s)"
    "require_str ?p ''expires_at'' = Inr (us_expires_at s)"
    using assms by (simp_all add: g require_str_get session_ok_def)
  have opts: "optional_str ?p ''content_type'' = Inr (us_content_type s)" "optional_str ?p ''upload_id'' = Inr (us_upload_id s)"
    using assms by (simp_all add: g optional_str_get session_ok_def)
  show ?thesis
    unfolding session_from_payload_def strs opts i f bindE.simps
    by (simp add: g optional_int_get)
qed

text \<open>Every session that is read is well-formed.\<close>

lemma success_from_payload_ok: "success_from_payload sid p = Inr f \<Longrightarrow> success_ok sid f"
  by (auto simp: success_from_payload_def session_corrupted_def bindE_Inr_iff success_ok_def
      dest!: require_str_Inr split: if_split_asm)

lemma optional_finalize_ok:
  "optional_finalize sid p = Inr v \<Longrightarrow> (case v of None \<Rightarrow> True | Some f \<Rightarrow> success_ok sid f)"
  by (auto simp: optional_finalize_def session_corrupted_def bindE_Inr_iff success_from_payload_ok
      split: option.split_asm json.split_asm)

lemma session_from_payload_ok:
  assumes "session_from_payload sid p = Inr s"
  shows "session_ok s \<and> us_upload_session_id s = sid"
  using assms unfolding session_from_payload_def
  by (auto simp: bindE_Inr_iff session_ok_def dest!: require_str_Inr optional_str_Inr optional_finalize_ok
      split: option.split)

section \<open>Issued sessions\<close>

lemma part_count_covers:
  assumes "multipart_part_count n ps = Inr c"
  shows "0 < n" "0 < ps" "1 \<le> c" "(c - 1) * ps < n" "n \<le> c * ps"
proof -
  let ?q = "(of_int n :: rat) / of_int ps"
  from assms show pos: "0 < n" "0 < ps" by (auto simp: multipart_part_count_def split: if_split_asm)
  from assms have c: "c = \<lceil>?q\<rceil>" by (auto simp: multipart_part_count_def split: if_split_asm)
  have q: "of_int c - 1 < ?q" "?q \<le> of_int c" unfolding c by linarith+
  have "0 < ?q" using pos by simp
  then show "1 \<le> c" unfolding c by linarith
  have "(of_int ((c - 1) * ps) :: rat) < of_int n" using q(1) pos by (simp add: field_simps)
  then show "(c - 1) * ps < n" by (simp only: of_int_less_iff)
  have "(of_int n :: rat) \<le> of_int (c * ps)" using q(2) pos by (simp add: field_simps)
  then show "n \<le> c * ps" by (simp only: of_int_le_iff)
qed

definition part_numbers_of :: "json list \<Rightarrow> json option list" where
  "part_numbers_of parts = map (\<lambda>p. case p of JObj d \<Rightarrow> dict_get d ''part_number'' | _ \<Rightarrow> None) parts"

lemma presign_parts_numbers:
  "presign_parts env key u ns = Inr urls \<Longrightarrow> part_numbers_of urls = map (Some \<circ> JInt) ns"
  by (induction ns arbitrary: urls) (auto simp: part_numbers_of_def part_url_def bindE_Inr_iff)

lemma part_size_bounds:
  "uc_multipart_min_part_size_bytes cfg \<le> multipart_part_size cfg"
  "uc_multipart_min_part_size_bytes cfg \<le> uc_multipart_max_part_size_bytes cfg \<Longrightarrow>
     multipart_part_size cfg \<le> uc_multipart_max_part_size_bytes cfg"
  by (auto simp: multipart_part_size_def)

definition parts_cover :: "upload_config \<Rightarrow> int \<Rightarrow> upload_session \<Rightarrow> json list \<Rightarrow> bool" where
  "parts_cover cfg n s urls =
     (\<exists>ps c. us_part_size s = Some ps \<and> us_part_count s = Some c \<and>
        1 \<le> c \<and> c \<le> uc_multipart_max_parts cfg \<and> (c - 1) * ps < n \<and> n \<le> c * ps \<and>
        uc_multipart_min_part_size_bytes cfg \<le> ps \<and>
        (uc_multipart_min_part_size_bytes cfg \<le> uc_multipart_max_part_size_bytes cfg \<longrightarrow>
           ps \<le> uc_multipart_max_part_size_bytes cfg) \<and>
        part_numbers_of urls = map (Some \<circ> JInt) [1..c])"

lemma multipart_presigns_cover:
  assumes "multipart_presigns env key n = Inr (payload, u, ps, c)" "us_part_size s = Some ps" "us_part_count s = Some c"
  shows "\<exists>urls. dict_get payload ''presigned_urls'' = Some (JList urls) \<and> parts_cover (ue_config env) n s urls"
proof -
  obtain urls where c: "multipart_part_count n ps = Inr c" "c \<le> uc_multipart_max_parts (ue_config env)"
    and ps: "ps = multipart_part_size (ue_config env)"
    and urls: "presign_parts env key u [1..c] = Inr urls"
    and payload: "payload = [(''part_size'', JInt ps), (''presigned_urls'', JList urls)]"
    using assms(1) by (auto simp: multipart_presigns_def Let_def bindE_Inr_iff split: if_split_asm)
  have "parts_cover (ue_config env) n s urls"
    unfolding parts_cover_def
    using assms(2,3) c(2) part_count_covers[OF c(1)] part_size_bounds[of "ue_config env", folded ps] presign_parts_numbers[OF urls]
    by auto
  then show ?thesis using payload by simp
qed

definition issued_within_limits :: "upload_config \<Rightarrow> bundle_file \<Rightarrow> jobj \<Rightarrow> upload_session \<Rightarrow> bool" where
  "issued_within_limits cfg f payload s =
     (us_size_bytes s = bf_size_bytes f \<and> us_finalized s = None \<and>
      (if uc_multipart_threshold_bytes cfg \<le> bf_size_bytes f
       then us_upload_strategy s = ''multipart'' \<and>
            (\<exists>urls. dict_get payload ''presigned_urls'' = Some (JList urls) \<and> parts_cover cfg (bf_size_bytes f) s urls)
       else us_upload_strategy s = ''direct'' \<and> us_part_count s = None \<and>
            (\<exists>url. dict_get payload ''presigned_url'' = Some (JStr url))))"

lemma build_session_within_limits:
  assumes "build_session env j b f sid key = Inr (payload, s)"
  shows "issued_within_limits (ue_config env) f payload s \<and> us_upload_session_id s = sid"
proof (cases "uc_multipart_threshold_bytes (ue_config env) \<le> bf_size_bytes f")
  case True
  then obtain u ps c where m: "multipart_presigns env key (bf_size_bytes f) = Inr (payload, u, ps, c)"
    and s: "us_upload_session_id s = sid" "us_size_bytes s = bf_size_bytes f" "us_finalized s = None"
      "us_upload_strategy s = ''multipart''" "us_part_size s = Some ps" "us_part_count s = Some c"
    using assms by (auto simp: build_session_def Let_def bindE_Inr_iff)
  show ?thesis using True s multipart_presigns_cover[OF m s(5,6)] by (simp add: issued_within_limits_def)
next
  case False
  then show ?thesis
    using assms by (auto simp: build_session_def Let_def bindE_Inr_iff direct_presign_def issued_within_limits_def)
qed

lemma issue_session_cases:
  assumes "issue_session env t j b fid w = (w', Inr answer)"
  obtains bun f payload s n where
    "get_bundle t j w = Inr bun" "ub_bundle_id bun = b" "find_bundle_file bun fid = Inr f"
    "count_active_sessions env t j w = Inr n" "n < uc_max_sessions_per_job (ue_config env)"
    "bf_size_bytes f \<le> uc_max_file_size_bytes (ue_config env)"
    "build_session env j b f (build_session_id env j) (object_key t j (build_session_id env j)) = Inr (payload, s)"
    "save_session env t j s w = (w', Inr ())"
    "answer = [(''upload_session_id'', JStr (us_upload_session_id s)), (''job_id'', JStr j), (''file_id'', JStr fid),
       (''upload_strategy'', JStr (us_upload_strategy s)), (''expires_at'', JStr (us_expires_at s))] @ payload"
  using assms
  by (auto simp: issue_session_def lock_job_def bindA_Inr reading_def bundle_for_job_def assert_session_limit_def
      assert_size_limit_def bindE_Inr_iff guardE_def split: if_split_asm)

lemma save_session_stored:
  "save_session env t j s w = (w', Inr u) \<Longrightarrow>
     dict_get (id_sessions (uw_dirs w' (t, j))) (us_upload_session_id s) = Some (JsonDoc (JObj (session_payload s)))"
  by (auto simp: save_session_def Let_def set_dir_def split: if_split_asm)

text \<open>Issuing an upload session respects the configured limits: there are fewer active sessions
  than allowed, the declared size is within the limit, and the stored session and the answer fit the declared file.
  Below the threshold there is one URL; from the threshold on, the parts number 1 to the part count, at most the
  maximal count, their size is at least the minimum (and at most the maximum), and together they cover the file
  while one part less would not.\<close>

theorem issued_session_within_limits:
  assumes "issue_session env t j b fid w = (w', Inr answer)"
  shows "\<exists>bun f s n.
    get_bundle t j w = Inr bun \<and> find_bundle_file bun fid = Inr f \<and>
    count_active_sessions env t j w = Inr n \<and> n < uc_max_sessions_per_job (ue_config env) \<and>
    bf_size_bytes f \<le> uc_max_file_size_bytes (ue_config env) \<and>
    dict_get (id_sessions (uw_dirs w' (t, j))) (build_session_id env j) = Some (JsonDoc (JObj (session_payload s))) \<and>
    issued_within_limits (ue_config env) f answer s"
proof -
  obtain bun f payload s n where c: "get_bundle t j w = Inr bun" "find_bundle_file bun fid = Inr f"
    "count_active_sessions env t j w = Inr n" "n < uc_max_sessions_per_job (ue_config env)"
    "bf_size_bytes f \<le> uc_max_file_size_bytes (ue_config env)"
    and b: "build_session env j b f (build_session_id env j) (object_key t j (build_session_id env j)) = Inr (payload, s)"
    and sv: "save_session env t j s w = (w', Inr ())"
    and a: "answer = [(''upload_session_id'', JStr (us_upload_session_id s)), (''job_id'', JStr j), (''file_id'', JStr fid),
       (''upload_strategy'', JStr (us_upload_strategy s)), (''expires_at'', JStr (us_expires_at s))] @ payload"
    using assms by (rule issue_session_cases)
  have keys: "dict_get answer k = dict_get payload k" if "k \<in> {''presigned_urls'', ''presigned_url''}" for k
    using that by (auto simp: a)
  have "issued_within_limits (ue_config env) f answer s"
    using build_session_within_limits[OF b] by (simp add: issued_within_limits_def keys)
  then show ?thesis using c save_session_stored[OF sv] build_session_within_limits[OF b] by fastforce
qed

section \<open>Finalizing\<close>

lemma finalize_cases:
  assumes "finalize_session env t sid parts w = (w', Inr a)"
  obtains j s where "job_id_of_session sid = Inr j" "job_dir_exists t j w" "load_session t sid w = Inr s"
    "assert_not_expired env s = Inr ()"
    "(case us_finalized s of
        Some f \<Rightarrow> ret (success_payload f)
      | None \<Rightarrow>
          bindA (liftE (parse_parts (us_upload_strategy s) parts)) (\<lambda>ps.
          bindA (liftE (check_upload env s ps)) (\<lambda>checked.
            case checked of
              Inl f \<Rightarrow> ret f
            | Inr data \<Rightarrow>
                bindA (materialize_upload env t j sid s data) (\<lambda>success.
                bindA (save_session env t j (s\<lparr>us_finalized := Some success\<rparr>)) (\<lambda>_.
                  ret (success_payload success)))))) w = (w', Inr a)"
  using assms
  by (auto simp: finalize_session_def lock_job_def bindA_Inr reading_def split: if_split_asm)

lemma failure_payload_fails [simp]: "dict_get (failure_payload c m) ''success'' = Some (JBool False)"
  by (simp add: failure_payload_def)

lemma direct_failure_fails:
  assumes "direct_etag_failure env s p = Inr (Some f)"
  shows "dict_get f ''success'' = Some (JBool False)"
proof -
  obtain h where h: "ue_head env (us_object_key s) = Inr h"
    using assms by (auto simp: direct_etag_failure_def bindE_Inr_iff)
  show ?thesis
    using assms unfolding direct_etag_failure_def h
    by (auto split: option.split_asm if_split_asm)
qed

lemma multipart_incomplete_fails [simp]: "dict_get multipart_incomplete ''success'' = Some (JBool False)"
  by (simp add: multipart_incomplete_def)

lemma multipart_failure_fails:
  assumes "ensure_multipart_complete env s ps = Inr (Some f)"
  shows "f = multipart_incomplete"
proof -
  obtain n u where m: "multipart_fields s = Inr (n, u)"
    using assms by (auto simp: ensure_multipart_complete_def bindE_Inr_iff)
  show ?thesis
    using assms unfolding ensure_multipart_complete_def m Let_def
    by (auto simp: bindE_Inr_iff split: option.split_asm if_split_asm object_fault.split_asm)
qed

lemma check_upload_failure:
  assumes "check_upload env s ps = Inr (Inl f)"
  shows "dict_get f ''success'' = Some (JBool False)"
proof -
  obtain failure where fl: "(if us_upload_strategy s = ''multipart'' then ensure_multipart_complete env s ps
      else direct_etag_failure env s (hd ps)) = Inr failure"
    using assms by (auto simp: check_upload_def bindE_Inr_iff)
  show ?thesis
  proof (cases failure)
    case (Some g)
    then have "f = g" using assms by (simp add: check_upload_def fl)
    then show ?thesis
      using fl Some by (auto split: if_split_asm dest: multipart_failure_fails direct_failure_fails)
  next
    case None
    obtain bs where bs: "read_object_bytes env (us_object_key s) = Inr bs"
      using assms None by (auto simp: check_upload_def fl bindE_Inr_iff)
    show ?thesis
      using assms unfolding check_upload_def fl None bindE.simps option.case bs
      by (auto split: option.split_asm if_split_asm)
  qed
qed

lemma check_upload_success:
  assumes "check_upload env s ps = Inr (Inr data)"
  shows "ue_read env (us_object_key s) = Inr data" "int (length data) = us_size_bytes s"
    "us_upload_strategy s = ''direct'' \<Longrightarrow> fp_sha256 (hd ps) = Some x \<Longrightarrow> x = ue_sha256 env data"
proof -
  obtain failure where fl: "(if us_upload_strategy s = ''multipart'' then ensure_multipart_complete env s ps
      else direct_etag_failure env s (hd ps)) = Inr failure"
    using assms by (auto simp: check_upload_def bindE_Inr_iff)
  have None: "failure = None" using assms by (cases failure) (simp_all add: check_upload_def fl)
  obtain bs where bs: "read_object_bytes env (us_object_key s) = Inr bs"
    using assms None by (auto simp: check_upload_def fl bindE_Inr_iff)
  have *: "bs = Some data \<and> int (length data) = us_size_bytes s \<and>
      \<not> direct_sha256_mismatch (us_upload_strategy s) ps (ue_sha256 env data)"
    using assms unfolding check_upload_def fl None bindE.simps option.case bs
    by (auto split: option.split_asm if_split_asm)
  show "ue_read env (us_object_key s) = Inr data"
    using bs * by (auto simp: read_object_bytes_def split: sum.split_asm object_fault.split_asm)
  show "int (length data) = us_size_bytes s" using * by simp
  show "x = ue_sha256 env data" if "us_upload_strategy s = ''direct''" "fp_sha256 (hd ps) = Some x"
    using * that by (simp add: direct_sha256_mismatch_def)
qed

lemma success_payload_success [simp]: "dict_get (success_payload f) ''success'' = Some (JBool True)"
  by (simp add: success_payload_def)

text \<open>What a successful materialization leaves behind.\<close>

definition upload_recorded :: "upload_env \<Rightarrow> str \<Rightarrow> str \<Rightarrow> prepared_dataset \<Rightarrow> upload_world \<Rightarrow> bool" where
  "upload_recorded env t j d w =
     (dict_get (id_datasets (uw_dirs w (t, j))) (pd_rel_path d) = Some (pd_data d) \<and>
      (\<exists>m items ds job.
         id_manifest (uw_dirs w (t, j)) = Some (JsonDoc (JObj m)) \<and> manifest_items m = Inr items \<and>
         filter (\<lambda>i. dict_get i ''dataset_key'' = Some (JStr (pd_dataset_key d))) items = [dataset_item d] \<and>
         datasets_from_manifest m = Inr ds \<and>
         w_store (uw_world w) (t, j) = Some (JobFile job) \<and>
         j_inputs job = Some \<lparr>ji_manifest_rel_path = Some MANIFEST_REL_PATH,
                              ji_fingerprint = Some (inputs_fingerprint (ue_digest env) ds)\<rparr> \<and>
         \<lparr>ar_kind = INPUTS_DATASET, ar_rel_path = pd_rel_path d\<rparr> \<in> set (j_artifacts_index job)))"

lemma upsert_items_kept:
  "upsert_items d items = Inr kept \<Longrightarrow> \<forall>i\<in>set kept. dict_get i ''dataset_key'' \<noteq> Some (JStr (pd_dataset_key d))"
  by (induction items arbitrary: kept) (auto simp: bindE_Inr_iff split: if_split_asm)

lemma manifest_items_upserted:
  "manifest_items [(''schema_version'', JInt 2), (''datasets'', JList (map JObj items))] = Inr items"
  by (induction items) (simp_all add: manifest_items_def)

lemma upsert_manifest_items:
  assumes "upsert_manifest_dataset m d = Inr m'"
  shows "\<exists>items. manifest_items m' = Inr items \<and>
    filter (\<lambda>i. dict_get i ''dataset_key'' = Some (JStr (pd_dataset_key d))) items = [dataset_item d]"
proof -
  obtain items kept where k: "upsert_items d items = Inr kept"
    and m': "m' = [(''schema_version'', JInt 2), (''datasets'', JList (map JObj (kept @ [dataset_item d])))]"
    using assms by (auto simp: upsert_manifest_dataset_def bindE_Inr_iff)
  have "filter (\<lambda>i. dict_get i ''dataset_key'' = Some (JStr (pd_dataset_key d))) kept = []"
    using upsert_items_kept[OF k] by (simp add: filter_empty_conv)
  then have "filter (\<lambda>i. dict_get i ''dataset_key'' = Some (JStr (pd_dataset_key d))) (kept @ [dataset_item d]) = [dataset_item d]"
    by (simp add: dataset_item_def)
  moreover have "manifest_items m' = Inr (kept @ [dataset_item d])" unfolding m' by (rule manifest_items_upserted)
  ultimately show ?thesis by blast
qed

lemma add_ref_mem: "r \<in> set (add_ref r index)" "set index \<subseteq> set (add_ref r' index)"
  by (auto simp: add_ref_def)

lemma in_world_Inr: "in_world m w = (w', Inr x) \<longleftrightarrow> (\<exists>v. m (uw_world w) = (v, Inr x) \<and> w' = w\<lparr>uw_world := v\<rparr>)"
  by (auto simp: in_world_def split: prod.splits)

lemma update_job_inputs_Inr:
  assumes "update_job_inputs t j p fp w = (w', Inr u)" "\<forall>job. w_store w (t, j) = Some (JobFile job) \<longrightarrow> j_job_id job = j"
  shows "\<exists>job. w_store w' (t, j) = Some (JobFile job) \<and> j_job_id job = j \<and>
     j_inputs job = Some \<lparr>ji_manifest_rel_path = Some MANIFEST_REL_PATH, ji_fingerprint = Some fp\<rparr> \<and>
     \<lparr>ar_kind = INPUTS_DATASET, ar_rel_path = p\<rparr> \<in> set (j_artifacts_index job)"
proof -
  obtain job where l: "store_load t j (w_store w) = Inr job"
    using assms(1) by (auto simp: update_job_inputs_def split: sum.split_asm)
  then have "j_job_id job = j" using assms(2) by (simp add: store_load_JobFile)
  with assms(1) l show ?thesis
    by (auto simp: update_job_inputs_def store_save_Inr index_inputs_artifacts_def add_ref_mem
        split: prod.split_asm sum.split_asm)
qed

lemma persist_recorded:
  assumes "persist_manifest_and_inputs env t j d w = (w', Inr u)"
    "dict_get (id_datasets (uw_dirs w (t, j))) (pd_rel_path d) = Some (pd_data d)"
    "\<forall>job. w_store (uw_world w) (t, j) = Some (JobFile job) \<longrightarrow> j_job_id job = j"
  shows "upload_recorded env t j d w'"
proof -
  obtain m m' w1 ds v where m: "upsert_manifest_dataset m d = Inr m'" "write_manifest env t j m' w = (w1, Inr ())"
    and ds: "datasets_from_manifest m' = Inr ds"
    and v: "update_job_inputs t j (pd_rel_path d) (inputs_fingerprint (ue_digest env) ds) (uw_world w1) = (v, Inr u)"
    and w': "w' = w1\<lparr>uw_world := v\<rparr>"
    using assms(1) by (auto simp: persist_manifest_and_inputs_def bindA_Inr reading_def in_world_Inr)
  have w1: "w1 = set_dir t j ((uw_dirs w (t, j))\<lparr>id_manifest := Some (JsonDoc (JObj m'))\<rparr>) w"
    using m(2) by (auto simp: write_manifest_def split: sum.split_asm if_split_asm)
  obtain items where "manifest_items m' = Inr items"
    "filter (\<lambda>i. dict_get i ''dataset_key'' = Some (JStr (pd_dataset_key d))) items = [dataset_item d]"
    using upsert_manifest_items[OF m(1)] by blast
  moreover obtain job where "w_store v (t, j) = Some (JobFile job)"
    "j_inputs job = Some \<lparr>ji_manifest_rel_path = Some MANIFEST_REL_PATH, ji_fingerprint = Some (inputs_fingerprint (ue_digest env) ds)\<rparr>"
    "\<lparr>ar_kind = INPUTS_DATASET, ar_rel_path = pd_rel_path d\<rparr> \<in> set (j_artifacts_index job)"
    using update_job_inputs_Inr[OF v] assms(3) by (auto simp: w1 set_dir_def)
  ultimately show ?thesis using ds assms(2) by (simp add: upload_recorded_def w' w1 set_dir_def)
qed

lemma materialize_success:
  "materialize_upload env t j sid s data w = (w', Inr x) \<Longrightarrow>
     x = \<lparr>fs_status = ''finalized'', fs_upload_session_id = sid, fs_file_id = us_file_id s,
          fs_sha256 = ue_sha256 env data, fs_size_bytes = int (length data)\<rparr>"
  by (auto simp: materialize_upload_def bindA_Inr)

lemma materialize_recorded:
  assumes "materialize_upload env t j sid s data w = (w', Inr x)"
    "\<forall>job. w_store (uw_world w) (t, j) = Some (JobFile job) \<longrightarrow> j_job_id job = j"
  shows "\<exists>d. prepare_dataset (ue_sha256 env) data (Some (us_original_name s)) None (us_role s) (us_content_type s)
            (ue_iso env (ue_now env)) = Inr d \<and> upload_recorded env t j d w'"
proof -
  obtain d w1 w2 where d: "prepare_dataset (ue_sha256 env) data (Some (us_original_name s)) None (us_role s) (us_content_type s)
            (ue_iso env (ue_now env)) = Inr d"
    and w1: "workspace_write env t j (pd_rel_path d)
              (\<lambda>dir. dir\<lparr>id_datasets := dict_set (id_datasets dir) (pd_rel_path d) data\<rparr>) w = (w1, Inr ())"
    and w2: "persist_manifest_and_inputs env t j d w1 = (w', Inr ())"
    using assms(1) by (auto simp: materialize_upload_def bindA_Inr)
  have w1': "w1 = set_dir t j ((uw_dirs w (t, j))\<lparr>id_datasets := dict_set (id_datasets (uw_dirs w (t, j))) (pd_rel_path d) data\<rparr>) w"
    using w1 by (auto simp: workspace_write_def split: if_split_asm)
  have "upload_recorded env t j d w'"
  proof (rule persist_recorded[OF w2])
    show "dict_get (id_datasets (uw_dirs w1 (t, j))) (pd_rel_path d) = Some (pd_data d)"
      using prepare_dataset_fields[OF d] by (simp add: w1' set_dir_def)
    show "\<forall>job. w_store (uw_world w1) (t, j) = Some (JobFile job) \<longrightarrow> j_job_id job = j"
      using assms(2) by (simp add: w1' set_dir_def)
  qed
  with d show "\<exists>d. prepare_dataset (ue_sha256 env) data (Some (us_original_name s)) None (us_role s) (us_content_type s)
            (ue_iso env (ue_now env)) = Inr d \<and> upload_recorded env t j d w'" by blast
qed

lemma save_session_Inr:
  "save_session env t j s w = (w', Inr u) \<Longrightarrow>
     check_job_ids t j = Inr () \<and>
     w' = set_dir t j ((uw_dirs w (t, j))\<lparr>id_sessions := dict_set (id_sessions (uw_dirs w (t, j))) (us_upload_session_id s)
                          (JsonDoc (JObj (session_payload s)))\<rparr>) w"
  by (auto simp: save_session_def Let_def split: if_split_asm)

lemma upload_recorded_sessions:
  "upload_recorded env t j d (set_dir t j ((uw_dirs w (t, j))\<lparr>id_sessions := x\<rparr>) w) = upload_recorded env t j d w"
  by (simp add: upload_recorded_def set_dir_def)

lemma fresh_finalize_cases:
  assumes "finalize_session env t sid parts w = (w', Inr a)" "load_session t sid w = Inr s" "us_finalized s = None"
  obtains (failed) "w' = w" "dict_get a ''success'' = Some (JBool False)"
  | (stored) j ps data x w1 where "job_id_of_session sid = Inr j" "job_dir_exists t j w" "check_upload env s ps = Inr (Inr data)"
      "materialize_upload env t j sid s data w = (w1, Inr x)"
      "save_session env t j (s\<lparr>us_finalized := Some x\<rparr>) w1 = (w', Inr ())" "a = success_payload x"
proof -
  obtain j where j: "job_id_of_session sid = Inr j" "job_dir_exists t j w"
    and *: "bindA (liftE (parse_parts (us_upload_strategy s) parts)) (\<lambda>ps.
          bindA (liftE (check_upload env s ps)) (\<lambda>checked.
            case checked of
              Inl f \<Rightarrow> ret f
            | Inr data \<Rightarrow>
                bindA (materialize_upload env t j sid s data) (\<lambda>success.
                bindA (save_session env t j (s\<lparr>us_finalized := Some success\<rparr>)) (\<lambda>_.
                  ret (success_payload success))))) w = (w', Inr a)"
    by (rule finalize_cases[OF assms(1)]) (use assms(2,3) in auto)
  then obtain ps checked where c: "check_upload env s ps = Inr checked"
    and k: "(case checked of Inl f \<Rightarrow> ret f
            | Inr data \<Rightarrow>
                bindA (materialize_upload env t j sid s data) (\<lambda>success.
                bindA (save_session env t j (s\<lparr>us_finalized := Some success\<rparr>)) (\<lambda>_.
                  ret (success_payload success)))) w = (w', Inr a)"
    by (auto simp: bindA_Inr)
  show thesis
  proof (cases checked)
    case (Inl f)
    with c k check_upload_failure show thesis by (intro failed) auto
  next
    case (Inr data)
    with k obtain x w1 where "materialize_upload env t j sid s data w = (w1, Inr x)"
      "save_session env t j (s\<lparr>us_finalized := Some x\<rparr>) w1 = (w', Inr ())" "a = success_payload x"
      by (auto simp: bindA_Inr)
    with j c Inr show thesis by (intro stored) auto
  qed
qed

text \<open>C17 (functional) A successful finalization of an open upload session has read the uploaded object, whose length is
  the declared one; the bytes are in the job's data directory, the manifest has exactly one item with their data set
  key, the item describing them, the job's inputs carry the fingerprint of the manifest's data sets, the data set is
  indexed as an artifact, and the session file holds the answer.\<close>

theorem finalize_records_upload:
  assumes "finalize_session env t sid parts w = (w', Inr a)" "dict_get a ''success'' = Some (JBool True)"
    and "load_session t sid w = Inr s" "us_finalized s = None"
    and "\<forall>j job. w_store (uw_world w) (t, j) = Some (JobFile job) \<longrightarrow> j_job_id job = j"
  shows "\<exists>j d. job_id_of_session sid = Inr j \<and> ue_read env (us_object_key s) = Inr (pd_data d) \<and>
    int (length (pd_data d)) = us_size_bytes s \<and> pd_sha256 d = ue_sha256 env (pd_data d) \<and>
    validate_dataset_role (us_role s) = Inr (pd_role d) \<and> upload_recorded env t j d w' \<and>
    dict_get (id_sessions (uw_dirs w' (t, j))) (us_upload_session_id s) = Some (JsonDoc (JObj (session_payload
      (s\<lparr>us_finalized := Some \<lparr>fs_status = ''finalized'', fs_upload_session_id = sid, fs_file_id = us_file_id s,
          fs_sha256 = pd_sha256 d, fs_size_bytes = pd_size_bytes d\<rparr>\<rparr>))))"
  using assms(1,3,4)
proof (cases rule: fresh_finalize_cases)
  case failed
  with assms(2) show ?thesis by simp
next
  case (stored j ps data x w1)
  obtain d where d: "prepare_dataset (ue_sha256 env) data (Some (us_original_name s)) None (us_role s) (us_content_type s)
            (ue_iso env (ue_now env)) = Inr d" and r: "upload_recorded env t j d w1"
    using materialize_recorded[OF stored(4)] assms(5) by blast
  have w': "w' = set_dir t j ((uw_dirs w1 (t, j))\<lparr>id_sessions := dict_set (id_sessions (uw_dirs w1 (t, j)))
      (us_upload_session_id s) (JsonDoc (JObj (session_payload (s\<lparr>us_finalized := Some x\<rparr>))))\<rparr>) w1"
    using save_session_Inr[OF stored(5)] by simp
  have "upload_recorded env t j d w'" unfolding w' upload_recorded_sessions by (rule r)
  then show ?thesis
    using stored(1) check_upload_success(1,2)[OF stored(3)] prepare_dataset_fields[OF d] materialize_success[OF stored(4)]
    by (intro exI[of _ j] exI[of _ d]) (simp add: w' set_dir_def)
qed

text \<open>A finalization that answers with a failure has changed nothing: neither files, nor job, nor session.\<close>

theorem failed_finalize_changes_nothing:
  assumes "finalize_session env t sid parts w = (w', Inr a)" "dict_get a ''success'' = Some (JBool False)"
  shows "w' = w"
proof -
  obtain s where s: "load_session t sid w = Inr s" using finalize_cases[OF assms(1)] by blast
  show ?thesis
  proof (cases "us_finalized s")
    case None
    from assms(1) s None show ?thesis
    proof (cases rule: fresh_finalize_cases)
      case (stored j ps data x w1)
      with assms(2) show ?thesis by simp
    qed
  next
    case (Some f)
    have "a = success_payload f" by (rule finalize_cases[OF assms(1)]) (use s Some in auto)
    with assms(2) show ?thesis by simp
  qed
qed

lemma load_session_ok: "load_session t sid w = Inr s \<Longrightarrow> session_ok s \<and> us_upload_session_id s = sid"
  by (auto simp: load_session_def bindE_Inr_iff read_session_file_def dest!: session_from_payload_ok
      split: if_split_asm option.split_asm json_file.split_asm json.split_asm)

lemma load_saved_session:
  assumes "job_id_of_session sid = Inr j" "check_job_ids t j = Inr ()" "session_ok s" "us_upload_session_id s = sid"
    "dict_get (id_sessions (uw_dirs w (t, j))) sid = Some (JsonDoc (JObj (session_payload s)))"
  shows "load_session t sid w = Inr s"
  using assms session_roundtrip[OF assms(3)] by (simp add: load_session_def read_session_file_def)

lemma materialize_keeps_dir:
  assumes "materialize_upload env t j sid s data w = (w', Inr x)"
  shows "job_dir_exists t j w'"
proof -
  obtain d w1 where p: "persist_manifest_and_inputs env t j d w1 = (w', Inr ())"
    using assms by (auto simp: materialize_upload_def bindA_Inr)
  obtain m m' w2 v fp where l: "load_or_init_manifest t j w1 = Inr m"
    and w2: "write_manifest env t j m' w1 = (w2, Inr ())"
    and v: "update_job_inputs t j (pd_rel_path d) fp (uw_world w2) = (v, Inr ())" and w': "w' = w2\<lparr>uw_world := v\<rparr>"
    using p by (auto simp: persist_manifest_and_inputs_def bindA_Inr reading_def in_world_Inr)
  have w1: "job_dir_exists t j w1" using l by (auto simp: load_or_init_manifest_def split: if_split_asm)
  have "w_store (uw_world w2) (t, j) \<noteq> None" "check_job_ids t j = Inr ()"
    using w2 w1 by (auto simp: write_manifest_def set_dir_def job_dir_exists_def split: sum.split_asm if_split_asm)
  then show ?thesis
    using v by (auto simp: update_job_inputs_def store_save_Inr w' job_dir_exists_def split: prod.split_asm sum.split_asm)
qed

text \<open>C19 (safety) Finalizing is idempotent: after a successful finalization, any later request on the same session before
  its expiry, with whatever parts and whatever the object store then answers, returns the same answer and changes
  nothing, so an upload is stored once.\<close>

theorem finalize_is_idempotent:
  assumes "finalize_session env t sid parts w = (w', Inr a)" "dict_get a ''success'' = Some (JBool True)"
    and "\<forall>data. \<not> blank (ue_sha256 env data)"
    and "load_session t sid w = Inr s" "assert_not_expired env' s = Inr ()"
  shows "finalize_session env' t sid parts' w' = (w', Inr a)"
proof (cases "us_finalized s")
  case (Some f)
  obtain j where j: "job_id_of_session sid = Inr j" "job_dir_exists t j w" by (rule finalize_cases[OF assms(1)])
  have w': "w' = w \<and> a = success_payload f"
    by (rule finalize_cases[OF assms(1)]) (use assms(4) Some in auto)
  then show ?thesis
    using j assms(4,5) Some by (simp add: finalize_session_def lock_job_def reading_def bindA_def liftE_def ret_def)
next
  case None
  from assms(1,4) None show ?thesis
  proof (cases rule: fresh_finalize_cases)
    case failed
    with assms(2) show ?thesis by simp
  next
    case (stored j ps data x w1)
    let ?s = "s\<lparr>us_finalized := Some x\<rparr>"
    have id: "us_upload_session_id s = sid" "session_ok s" using load_session_ok[OF assms(4)] by auto
    have x: "x = \<lparr>fs_status = ''finalized'', fs_upload_session_id = sid, fs_file_id = us_file_id s,
          fs_sha256 = ue_sha256 env data, fs_size_bytes = int (length data)\<rparr>"
      using materialize_success[OF stored(4)] .
    have ok: "session_ok ?s"
      using id assms(3) by (simp add: session_ok_def success_ok_def x blank_def)
        (simp add: py_strip_def py_lstrip_def py_rstrip_def py_isspace_def)
    have w': "w' = set_dir t j ((uw_dirs w1 (t, j))\<lparr>id_sessions := dict_set (id_sessions (uw_dirs w1 (t, j))) sid
                          (JsonDoc (JObj (session_payload ?s)))\<rparr>) w1" and ids: "check_job_ids t j = Inr ()"
      using save_session_Inr[OF stored(5)] id by auto
    have l: "load_session t sid w' = Inr ?s"
      by (rule load_saved_session[OF stored(1) ids ok]) (simp_all add: id w' set_dir_def)
    have d: "job_dir_exists t j w'"
      using materialize_keeps_dir[OF stored(4)] by (simp add: w' job_dir_exists_def set_dir_def)
    have "assert_not_expired env' ?s = Inr ()" using assms(5) by (simp add: assert_not_expired_def)
    then show ?thesis
      using stored(1,6) l d by (simp add: finalize_session_def lock_job_def reading_def bindA_def liftE_def ret_def)
  qed
qed

text \<open>A well-formed upload session saved under its own id is loaded again as it was.\<close>

theorem session_store_roundtrip:
  assumes "save_session env t j s w = (w', Inr ())" "session_ok s" "job_id_of_session (us_upload_session_id s) = Inr j"
  shows "load_session t (us_upload_session_id s) w' = Inr s"
  using load_saved_session[OF assms(3) _ assms(2) refl] save_session_Inr[OF assms(1)] save_session_stored[OF assms(1)] by blast

text \<open>C38 (type) Whatever the file of an upload session holds, a session that is loaded from it is well-formed: its texts are
  not blank, its optional texts are stripped, it has the id it was asked for, and so has its final answer.\<close>

theorem loaded_sessions_well_formed:
  "\<forall>s. load_session t sid w = Inr s \<longrightarrow> session_ok s \<and> us_upload_session_id s = sid"
  using load_session_ok by blast

section \<open>The order of the manifest\<close>

text \<open>A data set whose key is new goes to the end of the manifest, and readers take the first primary data set: a
  second primary upload is listed but not used.\<close>

lemma primary_item_append:
  "primary_item (xs @ ys) = (case primary_item xs of None \<Rightarrow> primary_item ys | Some i \<Rightarrow> Some i)"
  by (induction xs rule: primary_item.induct) auto

theorem second_primary_upload_not_used:
  assumes "manifest_items m = Inr items" "primary_item (map JObj items) = Some first"
    "\<forall>i\<in>set items. dict_get i ''dataset_key'' \<noteq> Some (JStr (pd_dataset_key d))"
    "upsert_manifest_dataset m d = Inr m'"
  shows "primary_dataset_details m' = details_of first"
proof -
  have "upsert_items d items = Inr items" using assms(3) by (induction items) auto
  then have m': "m' = [(''schema_version'', JInt 2), (''datasets'', JList (map JObj (items @ [dataset_item d])))]"
    using assms(1,4) by (simp add: upsert_manifest_dataset_def)
  show ?thesis using assms(2) by (simp add: m' primary_dataset_details_def primary_item_append)
qed

section \<open>A bundle, a session and an upload\<close>

definition sample_upload_env :: upload_env where
  "sample_upload_env =
     \<lparr>ue_config = \<lparr>uc_ttl_seconds = 900, uc_max_file_size_bytes = 1000, uc_max_sessions_per_job = 2,
         uc_multipart_threshold_bytes = 10, uc_multipart_min_part_size_bytes = 5, uc_multipart_part_size_bytes = 6,
         uc_multipart_max_part_size_bytes = 8, uc_multipart_max_parts = 3, uc_max_bundle_files = 4\<rparr>,
      ue_now = 100, ue_iso = (\<lambda>n. if n = 100 then ''now'' else ''later''),
      ue_parse_iso = (\<lambda>s. if s = ''later'' then Some 1000 else None), ue_uuid = (\<lambda>n. ''u''),
      ue_sha256 = (\<lambda>s. ''sha'' @ s), ue_digest = (\<lambda>_. ''digest''), ue_presign_put = (\<lambda>k. Inr ''put''),
      ue_presign_part = (\<lambda>k u n. Inr ''part''), ue_create_upload = (\<lambda>k. Inr ''up''),
      ue_complete_upload = (\<lambda>k u ps. None),
      ue_head = (\<lambda>k. Inr (Some \<lparr>oh_size_bytes = 3, oh_etag = Some ''e''\<rparr>)), ue_read = (\<lambda>k. Inr ''x,y''),
      ue_write_fault = (\<lambda>_. False)\<rparr>"

definition sample_bundle :: upload_bundle where
  "sample_bundle =
     \<lparr>ub_bundle_id = ''bundle_u'', ub_job_id = ''job_1'',
      ub_files = [\<lparr>bf_file_id = ''file_1'', bf_filename = ''big.csv'', bf_size_bytes = 13, bf_role = ''primary_dataset'',
                   bf_mime_type = None\<rparr>]\<rparr>"

definition sample_session :: upload_session where
  "sample_session =
     \<lparr>us_upload_session_id = ''usv1.job_1.s'', us_job_id = ''job_1'', us_bundle_id = ''bundle_u'', us_file_id = ''file_2'',
      us_role = ''secondary_dataset'', us_original_name = ''small.csv'', us_size_bytes = 3, us_content_type = None,
      us_upload_strategy = ''direct'', us_object_key = ''k'', us_upload_id = None, us_part_size = None,
      us_part_count = None, us_created_at = ''now'', us_expires_at = ''later'', us_finalized = None\<rparr>"

definition sample_upload_world :: upload_world where
  "sample_upload_world =
     \<lparr>uw_world = drafted_world,
      uw_dirs = (\<lambda>_. \<lparr>id_bundle = Some (JsonDoc (bundle_to_payload sample_bundle)), id_manifest = None, id_datasets = [],
                      id_sessions = [(''usv1.job_1.s'', JsonDoc (JObj (session_payload sample_session)))]\<rparr>)\<rparr>"

definition answered :: "'w \<times> ('e + 'a) \<Rightarrow> bool" where
  "answered r = (case r of (_, Inl _) \<Rightarrow> False | (_, Inr _) \<Rightarrow> True)"

lemma answered_obtain: "answered r \<Longrightarrow> \<exists>w a. r = (w, Inr a)"
  by (cases r; cases "snd r") (auto simp: answered_def)

definition sample_part :: json where
  "sample_part = JObj [(''part_number'', JInt 1), (''etag'', JStr ''e'')]"

lemma sample_sha_nonblank: "\<forall>data. \<not> blank (ue_sha256 sample_upload_env data)"
  by (auto simp: sample_upload_env_def blank_iff py_isspace_def)

lemma drafted_ids: "\<forall>j job. w_store (uw_world sample_upload_world) (t, j) = Some (JobFile job) \<longrightarrow> j_job_id job = j"
proof -
  have "j_job_id drafted_job = ''job_1''" by code_simp
  then show ?thesis by (auto simp: sample_upload_world_def drafted_world_def split: if_split_asm)
qed

lemma sample_load: "load_session ''acme'' ''usv1.job_1.s'' sample_upload_world = Inr sample_session"
  by code_simp

lemma sample_finalize:
  "\<exists>w a. finalize_session sample_upload_env ''acme'' ''usv1.job_1.s'' [sample_part] sample_upload_world = (w, Inr a) \<and>
     dict_get a ''success'' = Some (JBool True)"
proof -
  let ?r = "finalize_session sample_upload_env ''acme'' ''usv1.job_1.s'' [sample_part] sample_upload_world"
  have "case snd ?r of Inl _ \<Rightarrow> False | Inr a \<Rightarrow> dict_get a ''success'' = Some (JBool True)" by code_simp
  then show ?thesis by (cases ?r; cases "snd ?r") auto
qed

theorem finalize_records_upload_witness:
  "\<exists>w a d. finalize_session sample_upload_env ''acme'' ''usv1.job_1.s'' [sample_part] sample_upload_world = (w, Inr a) \<and>
     upload_recorded sample_upload_env ''acme'' ''job_1'' d w"
proof -
  obtain w a where f: "finalize_session sample_upload_env ''acme'' ''usv1.job_1.s'' [sample_part] sample_upload_world = (w, Inr a)"
    "dict_get a ''success'' = Some (JBool True)" using sample_finalize by blast
  have "us_finalized sample_session = None" "job_id_of_session ''usv1.job_1.s'' = Inr ''job_1''" by code_simp+
  then show ?thesis using finalize_records_upload[OF f sample_load _ drafted_ids] f(1) by fastforce
qed

theorem finalize_is_idempotent_witness:
  "\<exists>w a. finalize_session sample_upload_env ''acme'' ''usv1.job_1.s'' [sample_part] sample_upload_world = (w, Inr a) \<and>
     finalize_session (sample_upload_env\<lparr>ue_now := 999\<rparr>) ''acme'' ''usv1.job_1.s'' [] w = (w, Inr a)"
proof -
  obtain w a where f: "finalize_session sample_upload_env ''acme'' ''usv1.job_1.s'' [sample_part] sample_upload_world = (w, Inr a)"
    "dict_get a ''success'' = Some (JBool True)" using sample_finalize by blast
  have "assert_not_expired (sample_upload_env\<lparr>ue_now := 999\<rparr>) sample_session = Inr ()" by code_simp
  from finalize_is_idempotent[OF f sample_sha_nonblank sample_load this] f(1) show ?thesis by blast
qed

theorem loaded_sessions_well_formed_witness:
  "session_ok sample_session"
  using loaded_sessions_well_formed[of "''acme''" "''usv1.job_1.s''" sample_upload_world] sample_load by blast

end
