(* ===== verification/StataRun.thy ===== *)
theory StataRun
  imports CompositionExec
begin

text \<open>
  One Stata run: the safety check of do-files (infra/stata_safety.py), the batch command
  (infra/stata_cmd.py), the process and its outcome (infra/stata_run_exec.py), the artifacts of a run
  (infra/stata_run_artifacts.py) and the attempt itself (infra/stata_run_attempt.py,
  infra/local_stata_runner.py), over the files of the job directory.

  The process is the argument \<open>proc\<close>: what it does to the files, how it ends and how long it takes.
  Symbolic links, which the copy of the inputs skips, are not part of the files.
\<close>

section \<open>Texts\<close>

function show_nat :: "nat \<Rightarrow> str" where
  "show_nat n = (if n < 10 then [char_of (48 + n)] else show_nat (n div 10) @ [char_of (48 + n mod 10)])"
  by pat_completeness auto
termination by (relation "measure id") auto

declare show_nat.simps [simp del]

definition show_int :: "int \<Rightarrow> str" where
  "show_int i = (if i < 0 then CHR ''-'' # show_nat (nat (- i)) else show_nat (nat i))"

text \<open>\<open>str.splitlines\<close>, \<open>str.split()\<close>, \<open>str.isalnum\<close> and \<open>str.strip(chars)\<close>.\<close>

definition is_line_break :: "char \<Rightarrow> bool" where
  "is_line_break c = (code_of c \<in> {10, 11, 12, 13, 28, 29, 30, 133})"

fun lines_from :: "str \<Rightarrow> str \<Rightarrow> str list" where
  "lines_from cur [] = (if cur = [] then [] else [rev cur])"
| "lines_from cur (c # s) =
     (if c = CHR 0x0D \<and> s \<noteq> [] \<and> hd s = CHR 0x0A then rev cur # lines_from [] (tl s)
      else if is_line_break c then rev cur # lines_from [] s
      else lines_from (c # cur) s)"

definition splitlines :: "str \<Rightarrow> str list" where
  "splitlines s = lines_from [] s"

fun words_from :: "str \<Rightarrow> str \<Rightarrow> str list" where
  "words_from cur [] = (if cur = [] then [] else [rev cur])"
| "words_from cur (c # s) =
     (if py_isspace c then (if cur = [] then words_from [] s else rev cur # words_from [] s)
      else words_from (c # cur) s)"

definition py_words :: "str \<Rightarrow> str list" where
  "py_words s = words_from [] s"

definition is_ascii_letter :: "char \<Rightarrow> bool" where
  "is_ascii_letter c = ((65 \<le> code_of c \<and> code_of c \<le> 90) \<or> (97 \<le> code_of c \<and> code_of c \<le> 122))"

definition py_isalnum :: "char \<Rightarrow> bool" where
  "py_isalnum c =
     (is_digit c \<or> is_ascii_letter c \<or> code_of c \<in> {170, 178, 179, 181, 185, 186, 188, 189, 190} \<or>
      (192 \<le> code_of c \<and> code_of c \<noteq> 215 \<and> code_of c \<noteq> 247))"

definition strip_chars :: "char set \<Rightarrow> str \<Rightarrow> str" where
  "strip_chars cs s = rev (dropWhile (\<lambda>c. c \<in> cs) (rev (dropWhile (\<lambda>c. c \<in> cs) s)))"

section \<open>The safety check\<close>

definition quotes :: "char set" where
  "quotes = {CHR 0x22, CHR 0x27}"

text \<open>
  The two regular expressions as they are written. Their raw strings double the backslashes, so the
  classes hold a backslash and the letter s where white space is meant: \<open>quoted_slash\<close> finds a quote, a
  backslash, letters s and a slash; \<open>drive_path\<close> finds a drive at the start of the line or after a
  backslash, an s or a quote.
\<close>

fun quoted_slash :: "str \<Rightarrow> bool" where
  "quoted_slash [] = False"
| "quoted_slash (c # s) =
     (c \<in> quotes \<and> startswith s [CHR 0x5C] \<and> startswith (dropWhile (\<lambda>x. x = CHR ''s'') (tl s)) ''/'' \<or> quoted_slash s)"

fun drive_at :: "str \<Rightarrow> bool" where
  "drive_at (a # b # c # s) = (is_ascii_letter a \<and> b = CHR '':'' \<and> (c = CHR 0x5C \<or> c = CHR ''/''))"
| "drive_at _ = False"

fun drive_after :: "str \<Rightarrow> bool" where
  "drive_after [] = False"
| "drive_after (c # s) = ((c = CHR 0x5C \<or> c = CHR ''s'' \<or> c \<in> quotes) \<and> drive_at s \<or> drive_after s)"

definition drive_path :: "str \<Rightarrow> bool" where
  "drive_path line = (drive_at line \<or> drive_after line)"

definition absolute_token :: "str \<Rightarrow> bool" where
  "absolute_token token =
     (let t = strip_chars quotes token
      in startswith t ''/'' \<and> 1 < length t \<and> \<not> (\<forall>c\<in>set t. c = CHR ''/''))"

definition unsafe_line :: "str \<Rightarrow> str option" where
  "unsafe_line raw =
     (let line = py_lstrip raw; lowered = py_lower line;
          tokens = py_words (map (\<lambda>c. if c = CHR '','' then CHR '' '' else c) lowered)
      in if line = [] \<or> startswith line ''*'' then None
         else if startswith line ''!'' then Some ''shell_bang''
         else if startswith lowered ''shell'' \<and> (length lowered = 5 \<or> \<not> py_isalnum (lowered ! 5)) then Some ''shell_command''
         else if ''..'' \<in> set tokens \<or> contains_str line ''../'' \<or> contains_str line (''..'' @ [CHR 0x5C])
         then Some ''path_traversal''
         else if list_ex absolute_token tokens \<or> quoted_slash line \<or> drive_path line then Some ''absolute_path''
         else None)"

fun find_unsafe_line :: "nat \<Rightarrow> str list \<Rightarrow> str option" where
  "find_unsafe_line n [] = None"
| "find_unsafe_line n (line # lines) =
     (case unsafe_line line of
        Some reason \<Rightarrow> Some (reason @ '' (line '' @ show_nat n @ '')'')
      | None \<Rightarrow> find_unsafe_line (Suc n) lines)"

definition find_unsafe_dofile_reason :: "str \<Rightarrow> str option" where
  "find_unsafe_dofile_reason do_file = find_unsafe_line 1 (splitlines do_file)"

definition files_under :: "str list \<Rightarrow> files \<Rightarrow> str list list" where
  "files_under dir fs = filter (\<lambda>q. length dir < length q \<and> take (length dir) q = dir) (map fst fs)"

definition copy_inputs_dir :: "exec_env \<Rightarrow> str list \<Rightarrow> str list \<Rightarrow> (files, unit) act" where
  "copy_inputs_dir env source work_dir fs =
     foldA (\<lambda>_ q. copy_file env q (work_dir @ [''inputs''] @ drop (length source) q)) () (files_under source fs) fs"

section \<open>The batch command\<close>

definition endswith :: "str \<Rightarrow> str \<Rightarrow> bool" where
  "endswith s p = (drop (length s - length p) s = p)"

definition is_windows_stata_cmd :: "str list \<Rightarrow> bool" where
  "is_windows_stata_cmd cmd =
     list_ex (\<lambda>part. part \<noteq> [] \<and> endswith (py_lower part) ''.exe'' \<and> contains_str (py_lower (path_name part)) ''stata'') cmd"

definition build_stata_batch_cmd :: "str list \<Rightarrow> str \<Rightarrow> str list" where
  "build_stata_batch_cmd cmd do_filename =
     cmd @ (if is_windows_stata_cmd cmd then [''/e'', ''do'', do_filename] else [''-b'', ''do'', do_filename])"

section \<open>The process\<close>

datatype process_outcome = ProcExit int "str option" "str option" | ProcTimeout "str option" "str option" | ProcFault

type_synonym process = "str list \<Rightarrow> str list \<Rightarrow> int option \<Rightarrow> files \<Rightarrow> files \<times> process_outcome \<times> int"

record execution =
  xc_stdout :: str
  xc_stderr :: str
  xc_exit_code :: "int option"
  xc_timed_out :: bool
  xc_duration_ms :: int
  xc_error :: "run_error option"

definition coerce_text :: "str option \<Rightarrow> str" where
  "coerce_text v = (case v of None \<Rightarrow> [] | Some s \<Rightarrow> s)"

definition work_dir :: "str \<Rightarrow> str list" where
  "work_dir run_id = run_dir run_id @ [''work'']"

text \<open>A line \<open>r(n);\<close> of the log, after white space; the last one decides.\<close>

definition line_return_code :: "str \<Rightarrow> nat option" where
  "line_return_code line =
     (let s = py_lstrip line; ds = takeWhile is_digit (drop 2 s)
      in if startswith s ''r('' \<and> ds \<noteq> [] \<and> startswith (drop (2 + length ds) s) '');''
         then digits_val 0 False ds else None)"

definition stata_return_code_error :: "str \<Rightarrow> run_error option" where
  "stata_return_code_error log_text =
     (case List.map_filter line_return_code (py_split (CHR 0x0A) log_text) of
        [] \<Rightarrow> None
      | codes \<Rightarrow>
          (if last codes = 0 then None
           else Some \<lparr>re_error_code = ''STATA_RETURN_CODE'',
                      re_message = ''stata log contains r('' @ show_nat (last codes) @ '');'', re_details = None\<rparr>))"

definition content_text :: "exec_env \<Rightarrow> content \<Rightarrow> str" where
  "content_text env c = (case c of TextFile s \<Rightarrow> s | JsonFile d \<Rightarrow> xe_dumps env d)"

definition read_stata_log_text :: "exec_env \<Rightarrow> str list \<Rightarrow> files \<Rightarrow> str" where
  "read_stata_log_text env cwd fs =
     (case dict_get fs (cwd @ [''stata.log'']) of None \<Rightarrow> [] | Some c \<Rightarrow> content_text env c)"

definition exit_error :: "exec_env \<Rightarrow> str list \<Rightarrow> int \<Rightarrow> files \<Rightarrow> run_error option" where
  "exit_error env cwd exit_code fs =
     (if exit_code = 0 then stata_return_code_error (read_stata_log_text env cwd fs)
      else Some \<lparr>re_error_code = ''STATA_NONZERO_EXIT'', re_message = ''stata exited with code '' @ show_int exit_code,
                 re_details = None\<rparr>)"

definition execute_process ::
  "exec_env \<Rightarrow> process \<Rightarrow> str list \<Rightarrow> str list \<Rightarrow> int option \<Rightarrow> files \<Rightarrow> files \<times> execution" where
  "execute_process env proc cmd cwd timeout fs =
     (case proc cmd cwd timeout fs of
        (fs', outcome, ms) \<Rightarrow>
          (fs',
           case outcome of
             ProcExit code out err \<Rightarrow>
               \<lparr>xc_stdout = coerce_text out, xc_stderr = coerce_text err, xc_exit_code = Some code, xc_timed_out = False,
                xc_duration_ms = ms, xc_error = exit_error env cwd code fs'\<rparr>
           | ProcTimeout out err \<Rightarrow>
               \<lparr>xc_stdout = coerce_text out, xc_stderr = coerce_text err, xc_exit_code = None, xc_timed_out = True,
                xc_duration_ms = ms,
                xc_error = Some \<lparr>re_error_code = ''STATA_TIMEOUT'', re_message = ''stata execution timed out'', re_details = None\<rparr>\<rparr>
           | ProcFault \<Rightarrow>
               \<lparr>xc_stdout = [], xc_stderr = [], xc_exit_code = None, xc_timed_out = False, xc_duration_ms = ms,
                xc_error = Some \<lparr>re_error_code = ''STATA_SUBPROCESS_FAILED'', re_message = [], re_details = None\<rparr>\<rparr>))"

section \<open>The artifacts of a run\<close>

definition run_file :: "str \<Rightarrow> str \<Rightarrow> str list" where
  "run_file run_id name = artifacts_dir run_id @ [name]"

definition int_json :: "int option \<Rightarrow> json" where
  "int_json v = (case v of None \<Rightarrow> JNull | Some i \<Rightarrow> JInt i)"

definition details_json :: "run_error \<Rightarrow> jobj" where
  "details_json e = (case re_details e of None \<Rightarrow> [] | Some d \<Rightarrow> [(''details'', JObj d)])"

definition meta_payload :: "exec_env \<Rightarrow> str \<Rightarrow> str list \<Rightarrow> int option \<Rightarrow> execution \<Rightarrow> jobj" where
  "meta_payload env run_id cmd timeout x =
     [(''job_id'', JStr (j_job_id (xe_job env))), (''run_id'', JStr run_id), (''ok'', JBool (xc_error x = None)),
      (''timed_out'', JBool (xc_timed_out x)), (''exit_code'', int_json (xc_exit_code x)),
      (''duration_ms'', JInt (xc_duration_ms x)), (''timeout_seconds'', int_json timeout),
      (''command'', JList (map JStr cmd)), (''cwd_rel'', JStr (rel_of (work_dir run_id)))] @
     (case xc_error x of
        None \<Rightarrow> []
      | Some e \<Rightarrow> [(''error'', JObj ([(''error_code'', JStr (re_error_code e)), (''message'', JStr (re_message e))] @
                                  details_json e))])"

definition combined_log :: "execution \<Rightarrow> str" where
  "combined_log x =
     xc_stdout x @
     (if xc_stderr x = [] then [] else newline @ newline @ ''[stderr]'' @ newline @ xc_stderr x)"

definition write_run_artifacts :: "exec_env \<Rightarrow> str \<Rightarrow> jobj \<Rightarrow> execution \<Rightarrow> (files, unit) act" where
  "write_run_artifacts env run_id meta x =
     bindA (write_file env (run_file run_id ''run.stdout'') (TextFile (xc_stdout x))) (\<lambda>_.
     bindA (write_file env (run_file run_id ''run.stderr'') (TextFile (xc_stderr x))) (\<lambda>_.
     bindA (\<lambda>fs. (fs, Inr (read_stata_log_text env (work_dir run_id) fs))) (\<lambda>log.
     bindA (write_file env (run_file run_id ''stata.log'') (TextFile (if log \<noteq> [] then log else combined_log x))) (\<lambda>_.
     bindA (write_file env (run_file run_id ''run.meta.json'') (JsonFile meta)) (\<lambda>_.
       case xc_error x of
         None \<Rightarrow> ret ()
       | Some e \<Rightarrow>
           write_file env (run_file run_id ''run.error.json'')
             (JsonFile ([(''error_code'', JStr (re_error_code e)), (''message'', JStr (re_message e)),
                (''timed_out'', JBool (xc_timed_out x)), (''exit_code'', int_json (xc_exit_code x))] @ details_json e)))))))"

definition run_ref :: "artifact_kind \<Rightarrow> str list \<Rightarrow> artifact_ref" where
  "run_ref kind path = \<lparr>ar_kind = kind, ar_rel_path = rel_of path\<rparr>"

definition output_refs :: "str \<Rightarrow> artifact_ref list" where
  "output_refs run_id =
     [run_ref RUN_STDOUT (run_file run_id ''run.stdout''), run_ref RUN_STDERR (run_file run_id ''run.stderr''),
      run_ref STATA_LOG (run_file run_id ''stata.log''), run_ref RUN_META_JSON (run_file run_id ''run.meta.json'')]"

definition error_ref :: "str \<Rightarrow> artifact_ref" where
  "error_ref run_id = run_ref RUN_ERROR_JSON (run_file run_id ''run.error.json'')"

definition artifact_refs :: "str \<Rightarrow> bool \<Rightarrow> artifact_ref list" where
  "artifact_refs run_id include_error =
     run_ref STATA_DO (run_file run_id ''stata.do'') # output_refs run_id @
     (if include_error then [error_ref run_id] else [])"

section \<open>An attempt\<close>

definition result_without_artifacts :: "str \<Rightarrow> str \<Rightarrow> run_result" where
  "result_without_artifacts code message =
     \<lparr>rs_ok = False, rs_exit_code = None, rs_timed_out = False, rs_artifacts = [],
      rs_error = Some \<lparr>re_error_code = code, re_message = message, re_details = None\<rparr>\<rparr>"

definition inputs_source_dir :: "exec_env \<Rightarrow> str option \<Rightarrow> str list option" where
  "inputs_source_dir env rel =
     (case rel of
        None \<Rightarrow> Some [''inputs'']
      | Some r \<Rightarrow>
          (if blank r \<or> \<not> is_safe_job_rel_path r \<or> xe_escapes env r then None else Some (posix_parts r)))"

text \<open>\<open>_prepare_workspace\<close>: the result to return, if the workspace cannot be set up.\<close>

definition prepare_workspace ::
  "exec_env \<Rightarrow> str \<Rightarrow> str \<Rightarrow> str option \<Rightarrow> files \<Rightarrow> files \<times> run_result option" where
  "prepare_workspace env run_id do_file inputs_rel fs =
     (if \<not> run_dirs_ok env run_id
      then (fs, Some (result_without_artifacts ''STATA_WORKSPACE_INVALID'' ''invalid job_id/run_id workspace''))
      else case inputs_source_dir env inputs_rel of
        None \<Rightarrow> (fs, Some (result_without_artifacts ''STATA_INPUTS_UNSAFE'' ''inputs_dir_rel unsafe''))
      | Some source \<Rightarrow>
          (case copy_inputs_dir env source (work_dir run_id) fs of
             (fs1, Inl _) \<Rightarrow> (fs1, Some (result_without_artifacts ''STATA_INPUTS_COPY_FAILED'' []))
           | (fs1, Inr _) \<Rightarrow>
               (case bindA (write_file env (work_dir run_id @ [''stata.do'']) (TextFile do_file)) (\<lambda>_.
                       write_file env (run_file run_id ''stata.do'') (TextFile do_file)) fs1 of
                  (fs2, Inl _) \<Rightarrow> (fs2, Some (result_without_artifacts ''STATA_DOFILE_WRITE_FAILED'' []))
                | (fs2, Inr _) \<Rightarrow> (fs2, None))))"

definition persist_run ::
  "exec_env \<Rightarrow> str \<Rightarrow> str list \<Rightarrow> int option \<Rightarrow> execution \<Rightarrow> files \<Rightarrow> files \<times> run_result" where
  "persist_run env run_id cmd timeout x fs =
     (case write_run_artifacts env run_id (meta_payload env run_id cmd timeout x) x fs of
        (fs', Inl _) \<Rightarrow> (fs', result_without_artifacts ''STATA_ARTIFACTS_WRITE_FAILED'' [])
      | (fs', Inr _) \<Rightarrow>
          (fs', \<lparr>rs_ok = (xc_error x = None), rs_exit_code = xc_exit_code x, rs_timed_out = xc_timed_out x,
                 rs_artifacts = artifact_refs run_id (xc_error x \<noteq> None), rs_error = xc_error x\<rparr>))"

definition unsafe_execution :: "str \<Rightarrow> execution" where
  "unsafe_execution reason =
     \<lparr>xc_stdout = [], xc_stderr = [], xc_exit_code = None, xc_timed_out = False, xc_duration_ms = 0,
      xc_error = Some \<lparr>re_error_code = ''STATA_DOFILE_UNSAFE'', re_message = reason, re_details = None\<rparr>\<rparr>"

definition run_local_stata_attempt ::
  "exec_env \<Rightarrow> str list \<Rightarrow> process \<Rightarrow> str \<Rightarrow> str \<Rightarrow> int option \<Rightarrow> str option \<Rightarrow> files \<Rightarrow> files \<times> run_result" where
  "run_local_stata_attempt env stata_cmd proc run_id do_file timeout inputs_rel fs =
     (case prepare_workspace env run_id do_file inputs_rel fs of
        (fs1, Some r) \<Rightarrow> (fs1, r)
      | (fs1, None) \<Rightarrow>
          (let cmd = build_stata_batch_cmd stata_cmd ''stata.do''
           in case find_unsafe_dofile_reason do_file of
                Some reason \<Rightarrow> persist_run env run_id cmd timeout (unsafe_execution reason) fs1
              | None \<Rightarrow>
                  (case execute_process env proc cmd (work_dir run_id) timeout fs1 of
                     (fs2, x) \<Rightarrow> persist_run env run_id cmd timeout x fs2)))"

end
