(* ===== verification/PlanRun.thy ===== *)
theory PlanRun
  imports StataRun CompositionRun
begin

text \<open>
  What the worker executes for one attempt: domain/worker_plan_executor.py with its support module, the
  dependency check before the run, domain/worker_plan_execution.py and domain/worker_plan_support.py,
  the template evidence (domain/do_template_run_evidence.py) and its error handling
  (domain/worker_do_template_artifacts.py).

  A plan with a \<open>RUN_STATA\<close> step is one template run, any other plan is a composition. The state is the
  content of the job directory; \<open>px_runner\<close> is the Stata runner, \<open>px_loads\<close> the JSON parser.
\<close>

section \<open>Environment\<close>

record stata_dependency =
  sd_pkg :: str
  sd_source :: str
  sd_purpose :: str

record plan_run_env =
  px_exec :: exec_env
  px_library :: "template_library option"
  px_loads :: "str \<Rightarrow> json option"
  px_runner :: "str \<Rightarrow> str \<Rightarrow> int option \<Rightarrow> str option \<Rightarrow> files \<Rightarrow> files \<times> run_result"
  px_check_dependencies :: "(stata_dependency list \<Rightarrow> run_error option \<times> stata_dependency list) option"
  px_deadline_left :: "rat option"

abbreviation px_run_id :: "plan_run_env \<Rightarrow> str" where
  "px_run_id p \<equiv> xe_run_id (px_exec p)"

abbreviation px_plan :: "plan_run_env \<Rightarrow> llm_plan option" where
  "px_plan p \<equiv> j_llm_plan (xe_job (px_exec p))"

definition run_error_of :: "str \<Rightarrow> str \<Rightarrow> run_error" where
  "run_error_of code message = \<lparr>re_error_code = code, re_message = message, re_details = None\<rparr>"

section \<open>Template evidence\<close>

text \<open>\<open>write_artifact_text\<close> and \<open>write_artifact_json\<close>: an OS fault becomes an artifact error.\<close>

definition write_artifact :: "exec_env \<Rightarrow> str list \<Rightarrow> content \<Rightarrow> (files, unit) act" where
  "write_artifact env path c fs =
     (case write_file env path c fs of
        (fs', Inl _) \<Rightarrow> (fs', Inl (TplErr DoTemplateArtifactsWrite))
      | r \<Rightarrow> r)"

definition params_json :: "(str, str) dict \<Rightarrow> jobj" where
  "params_json params = map (\<lambda>(k, v). (k, JStr v)) params"

definition template_file :: "str \<Rightarrow> str \<Rightarrow> str list" where
  "template_file run_id name = artifacts_dir run_id @ [''template'', name]"

definition write_template_evidence ::
  "exec_env \<Rightarrow> str \<Rightarrow> jobj \<Rightarrow> (str, str) dict \<Rightarrow> (files, artifact_ref list) act" where
  "write_template_evidence env raw_do meta params =
     (let run_id = xe_run_id env
      in bindA (write_artifact env (template_file run_id ''source.do'') (TextFile raw_do)) (\<lambda>_.
         bindA (write_artifact env (template_file run_id ''meta.json'') (JsonFile meta)) (\<lambda>_.
         bindA (write_artifact env (template_file run_id ''params.json'') (JsonFile (params_json params))) (\<lambda>_.
           ret [run_ref DO_TEMPLATE_SOURCE (template_file run_id ''source.do''),
                run_ref DO_TEMPLATE_META (template_file run_id ''meta.json''),
                run_ref DO_TEMPLATE_PARAMS (template_file run_id ''params.json'')]))))"

text \<open>\<open>copy_output_or_skip\<close>: whether the output was there.\<close>

definition copy_output_or_skip :: "exec_env \<Rightarrow> str list \<Rightarrow> str list \<Rightarrow> (files, bool) act" where
  "copy_output_or_skip env src dst fs =
     (case copy_file env src dst fs of
        (fs', Inl e) \<Rightarrow> (fs', if e = PyErr PyFileNotFound then Inr False else Inl e)
      | (fs', Inr _) \<Rightarrow> (fs', Inr True))"

definition append_artifact_if_missing :: "artifact_ref list \<Rightarrow> artifact_ref \<Rightarrow> artifact_ref list" where
  "append_artifact_if_missing refs r = (if r \<in> set refs then refs else refs @ [r])"

definition output_path :: "str \<Rightarrow> str \<Rightarrow> str list" where
  "output_path run_id filename = artifacts_dir run_id @ [''outputs''] @ posix_parts filename"

definition archive_output ::
  "exec_env \<Rightarrow> artifact_ref list \<times> str list \<Rightarrow> jobj \<Rightarrow> (files, artifact_ref list \<times> str list) act" where
  "archive_output env acc output =
     (case acc of (refs, missing) \<Rightarrow>
        bindA (liftE (map_sum TplErr id (output_filename output))) (\<lambda>filename.
        bindA (copy_output_or_skip env (work_dir (xe_run_id env) @ posix_parts filename)
                 (output_path (xe_run_id env) filename)) (\<lambda>ok.
          ret (if ok
               then (append_artifact_if_missing refs (run_ref (output_kind output) (output_path (xe_run_id env) filename)),
                     missing)
               else (refs, missing @ [filename])))))"

definition archive_outputs :: "exec_env \<Rightarrow> jobj \<Rightarrow> (files, artifact_ref list \<times> str list) act" where
  "archive_outputs env meta =
     bindA (liftE (map_sum TplErr id (declared_outputs meta))) (\<lambda>outputs.
     bindA (foldA (archive_output env) ([], []) outputs) (\<lambda>(refs, missing).
       ret (refs, sort (remdups missing))))"

definition run_meta_path :: "str \<Rightarrow> str list" where
  "run_meta_path run_id = artifacts_dir run_id @ [''do_template_run.meta.json'']"

definition write_run_meta ::
  "exec_env \<Rightarrow> str \<Rightarrow> (str, str) dict \<Rightarrow> artifact_ref list \<Rightarrow> str list \<Rightarrow> (files, artifact_ref) act" where
  "write_run_meta env template_id params archived missing =
     (let path = run_meta_path (xe_run_id env)
      in bindA (write_artifact env path (JsonFile
           [(''job_id'', JStr (j_job_id (xe_job env))), (''run_id'', JStr (xe_run_id env)),
            (''template_id'', JStr template_id), (''params'', JObj (params_json params)),
            (''archived_outputs'', JList (map (JStr \<circ> ar_rel_path) archived)),
            (''missing_outputs'', JList (map JStr missing))])) (\<lambda>_. ret (run_ref DO_TEMPLATE_RUN_META_JSON path)))"

section \<open>Errors of a template run\<close>

text \<open>A computation whose exceptions of the class \<open>caught\<close> become the error to report.\<close>

definition catching :: "(exn \<Rightarrow> run_error option) \<Rightarrow> ('s, 'a) act \<Rightarrow> ('s, run_error + 'a) act" where
  "catching caught m s =
     (case m s of
        (s', Inr x) \<Rightarrow> (s', Inr (Inr x))
      | (s', Inl e) \<Rightarrow> (s', case caught e of Some err \<Rightarrow> Inr (Inl err) | None \<Rightarrow> Inl e))"

fun artifact_write_error :: "exn \<Rightarrow> run_error option" where
  "artifact_write_error (TplErr DoTemplateArtifactsWrite) = Some (template_run_error DoTemplateArtifactsWrite)"
| "artifact_write_error _ = None"

fun generation_error :: "exn \<Rightarrow> run_error option" where
  "generation_error (TplErr (DoTemplateParameterMissing n)) = Some (template_run_error (DoTemplateParameterMissing n))"
| "generation_error (TplErr (DoTemplateParameterInvalid n)) = Some (template_run_error (DoTemplateParameterInvalid n))"
| "generation_error (TplErr (DoTemplateContractInvalid r)) = Some (template_run_error (DoTemplateContractInvalid r))"
| "generation_error _ = None"

fun prepare_error :: "exn \<Rightarrow> run_error option" where
  "prepare_error (TplErr e) = (if is_prepare_error e then Some (template_run_error e) else None)"
| "prepare_error _ = None"

fun archive_error :: "str \<Rightarrow> exn \<Rightarrow> run_error option" where
  "archive_error tid (TplErr (DoTemplateContractInvalid _)) = Some (run_error_of ''DO_TEMPLATE_OUTPUT_ARCHIVE_FAILED'' (''failed to archive declared outputs: '' @ tid))"
| "archive_error tid (TplErr DoTemplateArtifactsWrite) = Some (run_error_of ''DO_TEMPLATE_OUTPUT_ARCHIVE_FAILED'' (''failed to archive declared outputs: '' @ tid))"
| "archive_error tid (PyErr PyOSError) = Some (run_error_of ''DO_TEMPLATE_OUTPUT_ARCHIVE_FAILED'' (''failed to archive declared outputs: '' @ tid))"
| "archive_error tid (PyErr PyFileNotFound) = Some (run_error_of ''DO_TEMPLATE_OUTPUT_ARCHIVE_FAILED'' (''failed to archive declared outputs: '' @ tid))"
| "archive_error tid _ = None"

definition prepare_template_or_error :: "plan_run_env \<Rightarrow> jobj \<Rightarrow> (files, run_error + prepared_template) act" where
  "prepare_template_or_error p manifest =
     (case px_plan p of
        None \<Rightarrow> ret (Inl (run_error_of ''PLAN_MISSING'' ''job missing llm_plan''))
      | Some plan \<Rightarrow>
          catching prepare_error (liftE (map_sum TplErr id (prepare_do_file (px_library p) (lp_steps plan) manifest))))"

definition generate_do_file_or_error :: "prepared_template \<Rightarrow> (files, run_error + generated_do_file) act" where
  "generate_do_file_or_error prepared =
     catching generation_error (liftE (map_sum TplErr id (generate_from_prepared prepared)))"

definition write_template_evidence_or_error ::
  "exec_env \<Rightarrow> str \<Rightarrow> jobj \<Rightarrow> (str, str) dict \<Rightarrow> (files, run_error + artifact_ref list) act" where
  "write_template_evidence_or_error env raw_do meta params =
     catching artifact_write_error (write_template_evidence env raw_do meta params)"

definition archive_outputs_or_error ::
  "exec_env \<Rightarrow> str \<Rightarrow> jobj \<Rightarrow> (files, run_error + artifact_ref list \<times> str list) act" where
  "archive_outputs_or_error env template_id meta = catching (archive_error template_id) (archive_outputs env meta)"

definition write_run_meta_or_error ::
  "exec_env \<Rightarrow> str \<Rightarrow> (str, str) dict \<Rightarrow> artifact_ref list \<Rightarrow> str list \<Rightarrow> (files, run_error + artifact_ref) act" where
  "write_run_meta_or_error env template_id params archived missing =
     catching artifact_write_error (write_run_meta env template_id params archived missing)"

section \<open>Support\<close>

definition inputs_manifest_or_error :: "plan_run_env \<Rightarrow> files \<Rightarrow> run_error + jobj" where
  "inputs_manifest_or_error p fs =
     (case j_inputs (xe_job (px_exec p)) of
        None \<Rightarrow> Inl (run_error_of ''INPUTS_MANIFEST_MISSING'' ''job missing inputs'')
      | Some inputs \<Rightarrow>
          (case ji_manifest_rel_path inputs of
             None \<Rightarrow> Inl (run_error_of ''INPUTS_MANIFEST_MISSING'' ''job missing inputs.manifest_rel_path'')
           | Some rel \<Rightarrow>
               (if blank rel then Inl (run_error_of ''INPUTS_MANIFEST_MISSING'' ''job missing inputs.manifest_rel_path'')
                else if \<not> is_safe_job_rel_path rel
                then Inl (run_error_of ''INPUTS_MANIFEST_UNSAFE'' ''inputs manifest path unsafe'')
                else case dict_get fs (posix_parts rel) of
                       None \<Rightarrow>
                         Inl (if is_directory fs (posix_parts rel) then run_error_of ''INPUTS_MANIFEST_READ_FAILED'' []
                              else run_error_of ''INPUTS_MANIFEST_MISSING'' (''inputs manifest not found: '' @ rel))
                     | Some (JsonFile d) \<Rightarrow> Inr d
                     | Some (TextFile s) \<Rightarrow>
                         (case px_loads p s of
                            None \<Rightarrow> Inl (run_error_of ''INPUTS_MANIFEST_INVALID'' ''inputs manifest JSON invalid'')
                          | Some (JObj d) \<Rightarrow> Inr d
                          | Some _ \<Rightarrow> Inl (run_error_of ''INPUTS_MANIFEST_INVALID'' ''inputs manifest must be a JSON object'')))))"

definition pre_run_execution :: "run_error \<Rightarrow> execution" where
  "pre_run_execution e =
     \<lparr>xc_stdout = [], xc_stderr = re_message e, xc_exit_code = None, xc_timed_out = False, xc_duration_ms = 0,
      xc_error = Some e\<rparr>"

definition write_pre_run_error ::
  "exec_env \<Rightarrow> run_error \<Rightarrow> artifact_ref list \<Rightarrow> files \<Rightarrow> files \<times> run_result" where
  "write_pre_run_error env e extra fs =
     (let x = pre_run_execution e
      in case write_run_artifacts env (xe_run_id env) (meta_payload env (xe_run_id env) [''ss-worker'', ''pre-run''] None x) x fs of
           (fs', Inl _) \<Rightarrow> (fs', failed_run [] (run_error_of ''WORKER_ARTIFACTS_WRITE_FAILED'' []))
         | (fs', Inr _) \<Rightarrow>
             (fs', failed_run (extra @ output_refs (xe_run_id env) @ [error_ref (xe_run_id env)]) e))"

definition total :: "('s \<Rightarrow> 's \<times> 'a) \<Rightarrow> ('s, 'a) act" where
  "total f = (\<lambda>s. case f s of (s', r) \<Rightarrow> (s', Inr r))"

definition failed_runner_result :: "run_result \<Rightarrow> run_error \<Rightarrow> artifact_ref list \<Rightarrow> run_result" where
  "failed_runner_result r e artifacts = r\<lparr>rs_ok := False, rs_artifacts := artifacts, rs_error := Some e\<rparr>"

definition find_run_step :: "plan_step list \<Rightarrow> plan_step option" where
  "find_run_step steps = find (\<lambda>s. ps_type s = RUN_STATA) steps"

definition timeout_seconds :: "jobj \<Rightarrow> exn + int option" where
  "timeout_seconds step_params =
     (case dict_get step_params ''timeout_seconds'' of
        None \<Rightarrow> Inr None
      | Some raw \<Rightarrow>
          (if raw = JNull \<or> is_obj raw \<or> is_list raw then Inr None
           else case py_int raw of
                  Inl OverflowErr \<Rightarrow> Inl (PyErr PyOverflowError)
                | Inl _ \<Rightarrow> Inr None
                | Inr seconds \<Rightarrow> Inr (if seconds \<le> 0 then None else Some seconds)))"

definition effective_timeout_seconds :: "plan_run_env \<Rightarrow> plan_step \<Rightarrow> exn + int option" where
  "effective_timeout_seconds p step =
     bindE (timeout_seconds (ps_params step)) (\<lambda>base.
       case px_deadline_left p of
         None \<Rightarrow> Inr base
       | Some left \<Rightarrow>
           (let remaining = (if trunc_rat left \<le> 0 then 1 else trunc_rat left)
            in Inr (Some (case base of None \<Rightarrow> remaining | Some t \<Rightarrow> min t remaining))))"

section \<open>A template run\<close>

definition generation_failed :: "exec_env \<Rightarrow> prepared_template \<Rightarrow> run_error \<Rightarrow> (files, run_result) act" where
  "generation_failed env prepared e =
     bindA (write_template_evidence_or_error env (pt_raw_do prepared) (pt_meta prepared) (pt_params prepared)) (\<lambda>evidence.
       case evidence of
         Inl e' \<Rightarrow> total (write_pre_run_error env e' [])
       | Inr refs \<Rightarrow> total (write_pre_run_error env e refs))"

definition generate_with_evidence ::
  "plan_run_env \<Rightarrow> jobj \<Rightarrow> (files, run_result + generated_do_file \<times> artifact_ref list) act" where
  "generate_with_evidence p manifest =
     bindA (prepare_template_or_error p manifest) (\<lambda>prepared.
       case prepared of
         Inl e \<Rightarrow> bindA (total (write_pre_run_error (px_exec p) e [])) (\<lambda>r. ret (Inl r))
       | Inr pt \<Rightarrow>
           bindA (generate_do_file_or_error pt) (\<lambda>generated.
             case generated of
               Inl e \<Rightarrow> bindA (generation_failed (px_exec p) pt e) (\<lambda>r. ret (Inl r))
             | Inr g \<Rightarrow>
                 bindA (write_template_evidence_or_error (px_exec p) (gd_template_source g) (gd_template_meta g)
                          (gd_template_params g)) (\<lambda>evidence.
                   case evidence of
                     Inl e \<Rightarrow> bindA (total (write_pre_run_error (px_exec p) e [])) (\<lambda>r. ret (Inl r))
                   | Inr refs \<Rightarrow> ret (Inr (g, refs)))))"

definition finalize_template_run ::
  "exec_env \<Rightarrow> generated_do_file \<Rightarrow> artifact_ref list \<Rightarrow> run_result \<Rightarrow> (files, run_result) act" where
  "finalize_template_run env g template_refs result =
     bindA (archive_outputs_or_error env (gd_template_id g) (gd_template_meta g)) (\<lambda>outputs.
       case outputs of
         Inl e \<Rightarrow> ret (failed_runner_result result e (template_refs @ rs_artifacts result))
       | Inr (refs, missing) \<Rightarrow>
           bindA (write_run_meta_or_error env (gd_template_id g) (gd_template_params g) refs missing) (\<lambda>run_meta.
             case run_meta of
               Inl e \<Rightarrow> ret (failed_runner_result result e (template_refs @ refs @ rs_artifacts result))
             | Inr meta_ref \<Rightarrow>
                 ret (result\<lparr>rs_artifacts := template_refs @ [meta_ref] @ refs @ rs_artifacts result\<rparr>)))"

definition execute_run_step :: "plan_run_env \<Rightarrow> plan_step \<Rightarrow> jobj \<Rightarrow> (files, run_result) act" where
  "execute_run_step p step manifest =
     bindA (generate_with_evidence p manifest) (\<lambda>generated.
       case generated of
         Inl r \<Rightarrow> ret r
       | Inr (g, refs) \<Rightarrow>
           bindA (liftE (effective_timeout_seconds p step)) (\<lambda>timeout.
           bindA (total (px_runner p (px_run_id p) (gd_do_file g) timeout None)) (\<lambda>result.
             finalize_template_run (px_exec p) g refs result)))"

section \<open>The plan\<close>

text \<open>The environment of a composition: the generator on one step, the runner with the step's inputs.\<close>

definition composition_env :: "plan_run_env \<Rightarrow> jobj \<Rightarrow> exec_env" where
  "composition_env p manifest =
     (px_exec p)\<lparr>xe_manifest := manifest,
        xe_generate := \<lambda>step m. map_sum id gd_do_file (generate_do_file (px_library p) [step] m),
        xe_runner := \<lambda>run_id do_file timeout. px_runner p run_id do_file timeout (Some (rel_of (inputs_dir run_id)))\<rparr>"

definition plan_missing :: run_error where
  "plan_missing = run_error_of ''PLAN_MISSING'' ''job missing llm_plan''"

definition execute_in_dirs :: "plan_run_env \<Rightarrow> (files, run_result) act" where
  "execute_in_dirs p =
     (case px_plan p of
        None \<Rightarrow> total (write_pre_run_error (px_exec p) plan_missing [])
      | Some plan \<Rightarrow>
          bindA (\<lambda>fs. (fs, Inr (inputs_manifest_or_error p fs))) (\<lambda>manifest.
            case manifest of
              Inl e \<Rightarrow> total (write_pre_run_error (px_exec p) e [])
            | Inr m \<Rightarrow>
                (case find_run_step (lp_steps plan) of
                   None \<Rightarrow> execute_composition_plan (composition_env p m)
                 | Some step \<Rightarrow> execute_run_step p step m)))"

definition dependency_of :: "json \<Rightarrow> stata_dependency option" where
  "dependency_of item =
     (case item of
        JObj d \<Rightarrow>
          (case (nonblank_str (dict_get d ''pkg''), nonblank_str (dict_get d ''source'')) of
             (Some pkg, Some source) \<Rightarrow>
               Some \<lparr>sd_pkg = py_strip pkg, sd_source = py_strip source,
                     sd_purpose = (case dict_get d ''purpose'' of Some (JStr s) \<Rightarrow> py_strip s | _ \<Rightarrow> [])\<rparr>
           | _ \<Rightarrow> None)
      | _ \<Rightarrow> None)"

definition declared_stata_dependencies :: "plan_step list \<Rightarrow> stata_dependency list" where
  "declared_stata_dependencies steps =
     (case find (\<lambda>s. is_do_generation_step_type (ps_type s)) steps of
        None \<Rightarrow> []
      | Some step \<Rightarrow>
          (case dict_get (ps_params step) ''template_contract'' of
             Some (JObj contract) \<Rightarrow>
               (case dict_get contract ''dependencies'' of
                  Some (JList items) \<Rightarrow> List.map_filter dependency_of items
                | _ \<Rightarrow> [])
           | _ \<Rightarrow> []))"

definition dependency_error_details :: "stata_dependency list \<Rightarrow> jobj" where
  "dependency_error_details missing =
     [(''missing_dependencies'', JList (map (\<lambda>d. JObj [(''pkg'', JStr (sd_pkg d)), (''source'', JStr (sd_source d)),
        (''purpose'', JStr (sd_purpose d))]) missing))]"

definition dependency_preflight :: "plan_run_env \<Rightarrow> run_error option" where
  "dependency_preflight p =
     (case (px_check_dependencies p, px_plan p) of
        (Some check, Some plan) \<Rightarrow>
          (let declared = declared_stata_dependencies (lp_steps plan)
           in if declared = [] then None
              else case check declared of
                     (Some e, _) \<Rightarrow> Some e
                   | (None, missing) \<Rightarrow>
                       (if missing = [] then None
                        else Some \<lparr>re_error_code = ''STATA_DEPENDENCY_MISSING'',
                               re_message = ''missing Stata dependencies: '' @ py_join '', '' (map sd_pkg missing),
                               re_details = Some (dependency_error_details missing)\<rparr>))
      | _ \<Rightarrow> None)"

definition execute_plan :: "plan_run_env \<Rightarrow> (files, run_result) act" where
  "execute_plan p =
     (if \<not> run_dirs_ok (px_exec p) (px_run_id p)
      then ret (failed_run [] (run_error_of ''STATA_WORKSPACE_INVALID'' ''invalid job/run workspace''))
      else case dependency_preflight p of
             Some e \<Rightarrow> total (write_pre_run_error (px_exec p) e [])
           | None \<Rightarrow> execute_in_dirs p)"

text \<open>The local Stata runner as the runner of a plan.\<close>

definition local_runner ::
  "exec_env \<Rightarrow> str list \<Rightarrow> process \<Rightarrow> str \<Rightarrow> str \<Rightarrow> int option \<Rightarrow> str option \<Rightarrow> files \<Rightarrow> files \<times> run_result" where
  "local_runner env stata_cmd proc run_id do_file timeout inputs_rel =
     run_local_stata_attempt env stata_cmd proc run_id do_file timeout inputs_rel"

end
