(* ===== verification/PlanRunLaws.thy ===== *)
theory PlanRunLaws
  imports PlanRun
begin

text \<open>
  What the execution of a plan guarantees: every artifact a run result names is a file of the job
  directory, whatever fails on the way; a result is ok exactly when it carries no error; the time limit
  of a run; do-files that fail the safety check are not run.
\<close>

section \<open>Files that are made\<close>

definition has_file :: "files \<Rightarrow> str \<Rightarrow> bool" where
  "has_file fs rel = (\<exists>path. rel_of path = rel \<and> dict_get fs path \<noteq> None)"

definition grows :: "files \<Rightarrow> files \<Rightarrow> bool" where
  "grows fs fs' = (\<forall>path. dict_get fs path \<noteq> None \<longrightarrow> dict_get fs' path \<noteq> None)"

text \<open>\<open>makes R m post\<close>: from files that include \<open>R\<close>, \<open>m\<close> removes none and ends with the files \<open>post x\<close>.\<close>

definition makes :: "str list \<Rightarrow> (files, 'a) act \<Rightarrow> ('a \<Rightarrow> str list) \<Rightarrow> bool" where
  "makes R m post =
     (\<forall>fs fs' r. m fs = (fs', r) \<longrightarrow> (\<forall>s\<in>set R. has_file fs s) \<longrightarrow>
        grows fs fs' \<and> (\<forall>x. r = Inr x \<longrightarrow> (\<forall>s\<in>set (post x). has_file fs' s)))"

lemma grows_refl [simp]: "grows fs fs"
  by (simp add: grows_def)

lemma grows_trans: "grows a b \<Longrightarrow> grows b c \<Longrightarrow> grows a c"
  by (simp add: grows_def)

lemma grows_set [simp]: "grows fs (dict_set fs path c)"
  by (simp add: grows_def)

lemma has_file_grows: "has_file fs s \<Longrightarrow> grows fs fs' \<Longrightarrow> has_file fs' s"
  unfolding has_file_def grows_def by blast

lemma has_file_set [simp]: "has_file (dict_set fs path c) (rel_of path)"
  by (auto simp: has_file_def)

lemma makes_bind:
  assumes "makes R m p" "\<And>x. makes (R @ p x) (f x) q"
  shows "makes R (bindA m f) q"
  unfolding makes_def
proof (intro allI impI)
  fix fs fs' r assume b: "bindA m f fs = (fs', r)" and R: "\<forall>s\<in>set R. has_file fs s"
  obtain fs1 r1 where m: "m fs = (fs1, r1)" by (cases "m fs")
  have g: "grows fs fs1" using assms(1) m R unfolding makes_def by blast
  show "grows fs fs' \<and> (\<forall>x. r = Inr x \<longrightarrow> (\<forall>s\<in>set (q x). has_file fs' s))"
  proof (cases r1)
    case (Inl e)
    then show ?thesis using b m g by (auto simp: bindA_def)
  next
    case (Inr x)
    have "\<forall>s\<in>set (R @ p x). has_file fs1 s"
      using assms(1) m R Inr has_file_grows[OF _ g] unfolding makes_def by auto
    moreover have "f x fs1 = (fs', r)" using b m Inr by (simp add: bindA_def)
    ultimately have "grows fs1 fs' \<and> (\<forall>x. r = Inr x \<longrightarrow> (\<forall>s\<in>set (q x). has_file fs' s))"
      using assms(2)[of x] unfolding makes_def by blast
    then show ?thesis using g grows_trans by blast
  qed
qed

lemma makes_ret: "set (q x) \<subseteq> set R \<Longrightarrow> makes R (ret x) q"
  by (auto simp: makes_def)

lemma makes_pure: "(\<And>fs. fst (m fs) = fs) \<Longrightarrow> makes R m (\<lambda>_. [])"
  by (auto simp: makes_def) (metis fst_conv grows_refl)

lemma makes_lift: "makes R (liftE r) (\<lambda>_. [])"
  by (rule makes_pure) (simp add: liftE_def)

lemma makes_raise: "makes R (raise_exn e) q"
  by (simp add: makes_def)

lemma makes_weaken:
  assumes "makes R m p" "set R \<subseteq> set R'" "\<And>x. set (q x) \<subseteq> set (p x) \<union> set R'"
  shows "makes R' m q"
  unfolding makes_def
proof (intro allI impI)
  fix fs fs' r assume m: "m fs = (fs', r)" and R: "\<forall>s\<in>set R'. has_file fs s"
  have a: "grows fs fs'" "\<And>x. r = Inr x \<Longrightarrow> \<forall>s\<in>set (p x). has_file fs' s"
    using assms(1,2) m R unfolding makes_def by blast+
  have "has_file fs' s" if "r = Inr x" "s \<in> set (q x)" for x s
    using assms(3)[of x] that a(2)[OF that(1)] R has_file_grows[OF _ a(1)] by blast
  with a(1) show "grows fs fs' \<and> (\<forall>x. r = Inr x \<longrightarrow> (\<forall>s\<in>set (q x). has_file fs' s))" by blast
qed

lemma makes_fold:
  assumes "\<And>b x. makes (R @ I b) (f b x) I"
  shows "makes (R @ I b) (foldA f b xs) I"
proof (induction xs arbitrary: b)
  case Nil
  show ?case by (auto intro: makes_ret)
next
  case (Cons x xs)
  have h: "makes ((R @ I b) @ I b') (foldA f b' xs) I" for b'
    by (rule makes_weaken[OF Cons.IH]) auto
  show ?case unfolding foldA.simps by (rule makes_bind[OF assms h])
qed

lemma makes_write_file: "makes R (write_file env path c) (\<lambda>_. [rel_of path])"
  by (simp add: makes_def write_file_def)

lemma makes_copy_file: "makes R (copy_file env src dst) (\<lambda>_. [rel_of dst])"
  by (auto simp: makes_def copy_file_def split: option.split_asm if_split_asm)

lemma makes_total:
  "(\<And>fs fs' r. f fs = (fs', r) \<Longrightarrow> \<forall>s\<in>set R. has_file fs s \<Longrightarrow> grows fs fs' \<and> (\<forall>s\<in>set (q r). has_file fs' s)) \<Longrightarrow>
     makes R (total f) q"
  unfolding makes_def total_def by (fastforce split: prod.split_asm)

lemma makes_then_ret: "makes R m (\<lambda>_. ps) \<Longrightarrow> makes R (bindA m (\<lambda>_. ret y)) (\<lambda>_. ps)"
  by (rule makes_bind, assumption) (simp add: makes_ret)

text \<open>A failing computation handled: its effects stay.\<close>

lemma makes_catching: "makes R m q \<Longrightarrow> makes R (catching c m) (\<lambda>x. case x of Inl _ \<Rightarrow> [] | Inr y \<Rightarrow> q y)"
  unfolding makes_def catching_def by (fastforce split: prod.split_asm sum.split_asm option.split_asm)

lemma makes_case_sum:
  "(\<And>a. x = Inl a \<Longrightarrow> makes R (f a) q) \<Longrightarrow> (\<And>b. x = Inr b \<Longrightarrow> makes R (g b) q) \<Longrightarrow>
     makes R (case x of Inl a \<Rightarrow> f a | Inr b \<Rightarrow> g b) q"
  by (cases x) simp_all

section \<open>Compositions\<close>

definition refs_of :: "artifact_ref list \<Rightarrow> str list" where
  "refs_of as = map ar_rel_path as"

lemma set_refs_of [simp]: "set (refs_of as) = ar_rel_path ` set as"
  by (simp add: refs_of_def)

lemma makes_copy_binding: "makes R (copy_binding env src dst) (\<lambda>_. [])"
  using makes_copy_file[of R env src dst]
  by (fastforce simp: makes_def copy_binding_def split: prod.split_asm sum.split_asm exn.split_asm py_error.split_asm)

lemma makes_materialize:
  "makes R (materialize_step_inputs env run_id by_key products step)
     (\<lambda>_. [rel_of (inputs_dir run_id @ [''manifest.json''])])"
proof -
  have "makes (R' @ []) (foldA (materialize_binding env run_id by_key products) b xs) (\<lambda>_. [])" for R' b xs
  proof (rule makes_fold[where I = "\<lambda>_. []"])
    fix b :: "resolved_binding list" and x :: "str \<times> str"
    show "makes (R' @ []) (materialize_binding env run_id by_key products b x) (\<lambda>_. [])"
      unfolding materialize_binding_def
      by (rule makes_bind[OF makes_lift], simp add: split_def, rule makes_bind[OF makes_copy_binding]) (simp add: makes_ret)
  qed
  then show ?thesis
    unfolding materialize_step_inputs_def
    by (intro makes_bind[OF makes_lift] makes_bind[where p = "\<lambda>_. []"] makes_bind[OF makes_write_file] makes_ret) simp_all
qed

definition product_refs :: "resolved_product list \<times> jobj list \<Rightarrow> str list" where
  "product_refs acc = map rp_artifact_rel_path (fst acc)"

lemma makes_read_text: "makes R (read_text env path) (\<lambda>_. [])"
  by (rule makes_pure) (simp add: read_text_def)

lemma makes_dataset_product: "makes R (write_dataset_product env step by_key bs path) (\<lambda>_. [rel_of path])"
proof -
  have c: "makes R' (copy_primary_binding env bs path) (\<lambda>_. [rel_of path])" for R'
    unfolding copy_primary_binding_def
    by (auto split: option.split intro: makes_raise makes_bind[OF makes_lift] makes_copy_file)
  show ?thesis
    unfolding write_dataset_product_def
  proof (rule makes_bind[OF makes_lift], split option.split, intro conjI allI impI)
    show "makes (R @ []) (bindA (copy_primary_binding env bs path) (\<lambda>_. ret [])) (\<lambda>_. [rel_of path])"
      by (rule makes_bind[OF c]) (simp add: makes_ret)
    fix k :: merge_spec
    show "makes (R @ []) (bindA (liftE (merge_input_paths env by_key bs)) (\<lambda>(pp, sp).
           bindA (read_text env pp) (\<lambda>primary.
           bindA (liftE (join_result (read_csv primary))) (\<lambda>_.
           bindA (read_text env sp) (\<lambda>secondary.
           bindA (liftE (run_merge k primary secondary)) (\<lambda>(output, stats).
           bindA (write_file env path (TextFile output)) (\<lambda>_.
             ret [merge_decision step k stats]))))))) (\<lambda>_. [rel_of path])"
      by (rule makes_bind[OF makes_lift], simp add: split_def,
          intro makes_bind[OF makes_lift] makes_bind[OF makes_read_text] makes_bind[OF makes_write_file] makes_ret) simp
  qed
qed

lemma makes_export_table: "makes R (copy_export_table env as path) (\<lambda>_. [rel_of path])"
  unfolding copy_export_table_def
  by (auto split: option.split intro: makes_write_file makes_bind[OF makes_lift] makes_copy_file)

lemma makes_write_product:
  "makes (R @ product_refs acc) (write_product env step run_id by_key bs as acc p) product_refs"
proof -
  let ?path = "product_path run_id p"
  have "makes R' (case pp_kind p of
                  DatasetProduct \<Rightarrow> write_dataset_product env step by_key bs ?path
                | TableProduct \<Rightarrow> bindA (copy_export_table env as ?path) (\<lambda>_. ret [])
                | kind \<Rightarrow>
                    bindA (write_file env ?path
                        (TextFile (''{'' @ [QUOTE] @ ''kind'' @ [QUOTE] @ '': '' @ [QUOTE] @ product_kind_value kind @
                                   [QUOTE] @ ''}'' @ BSL_N))) (\<lambda>_. ret [])) (\<lambda>_. [rel_of ?path])" for R'
    by (cases "pp_kind p")
      (simp_all only: product_kind.case makes_dataset_product makes_then_ret[OF makes_export_table]
        makes_then_ret[OF makes_write_file])
  then show ?thesis
    unfolding write_product_def Let_def
    by (rule makes_bind) (rule makes_ret, auto simp: product_refs_def)
qed

lemma makes_create_products: "makes R (create_products env step run_id by_key bs as) product_refs"
  unfolding create_products_def
proof (intro makes_bind[OF makes_lift])
  fix ps cond
  have "makes (R @ product_refs ([], option_list cond))
     (foldA (write_product env step run_id by_key bs as) ([], option_list cond) ps) product_refs"
    by (rule makes_fold[OF makes_write_product])
  then show "makes ((R @ []) @ []) (foldA (write_product env step run_id by_key bs as) ([], option_list cond) ps) product_refs"
    by (simp add: product_refs_def)
qed

lemma makes_summary: "makes R (write_pipeline_summary env mode steps ds e) (\<lambda>a. [ar_rel_path a])"
  unfolding write_pipeline_summary_def Let_def by (rule makes_bind[OF makes_write_file]) (simp add: makes_ret)

lemma makes_pipeline_error:
  "makes R (\<lambda>fs. case write_pipeline_error env e fs of (fs', r) \<Rightarrow> (fs', Inr r)) (\<lambda>r. refs_of (rs_artifacts r))"
  by (auto simp: makes_def write_pipeline_error_def Let_def write_file_def failed_run_def
      split: prod.split_asm sum.split_asm if_split_asm)

lemma makes_fail_pipeline: "makes R (fail_pipeline env mode steps ds e) (\<lambda>r. refs_of (rs_artifacts r))"
  unfolding fail_pipeline_def
  by (intro makes_bind[OF makes_summary] makes_bind[OF makes_pipeline_error] makes_ret) auto

text \<open>A sound runner removes no file and names only files that are there.\<close>

definition sound_result :: "files \<Rightarrow> files \<times> run_result \<Rightarrow> bool" where
  "sound_result fs out =
     (grows fs (fst out) \<and> (\<forall>a\<in>set (rs_artifacts (snd out)). has_file (fst out) (ar_rel_path a)))"

definition sound_step_runner :: "exec_env \<Rightarrow> bool" where
  "sound_step_runner env = (\<forall>run_id do_file timeout fs. sound_result fs (xe_runner env run_id do_file timeout fs))"

definition state_refs :: "exec_state \<Rightarrow> str list" where
  "state_refs st = refs_of (es_artifacts st)"

lemma makes_runner:
  assumes "\<And>fs. sound_result fs (f fs)"
  shows "makes R (\<lambda>fs. case f fs of (fs', r) \<Rightarrow> (fs', Inr r)) (\<lambda>r. refs_of (rs_artifacts r))"
  unfolding makes_def
proof (intro allI impI)
  fix fs fs' r assume "(case f fs of (fs', r) \<Rightarrow> (fs', Inr r)) = (fs', r)"
  then obtain x where "f fs = (fs', x)" "r = Inr x" by (auto split: prod.split_asm)
  with assms[of fs] show "grows fs fs' \<and> (\<forall>x. r = Inr x \<longrightarrow> (\<forall>s\<in>set (refs_of (rs_artifacts x)). has_file fs' s))"
    by (auto simp: sound_result_def)
qed

lemma makes_run_step:
  "sound_step_runner env \<Longrightarrow> makes R (run_step env step run_id do_file) (\<lambda>r. refs_of (rs_artifacts r))"
  unfolding run_step_def
  by (intro makes_bind[OF makes_lift] makes_runner) (simp add: sound_step_runner_def)

lemma makes_prepare_step:
  "makes R (prepare_step_workspace env by_key st step) (\<lambda>(run_id, bs). [rel_of (inputs_dir run_id @ [''manifest.json''])])"
  unfolding prepare_step_workspace_def
  by (intro makes_bind[OF makes_lift] makes_bind[OF makes_materialize] makes_ret) simp

lemma record_refs:
  "set (state_refs (record_step_artifacts run_id r st)) =
     set (state_refs st) \<union> set (refs_of (rs_artifacts r)) \<union> {rel_of (inputs_dir run_id @ [''manifest.json''])}"
  by (auto simp: record_step_artifacts_def state_refs_def)

text \<open>What the run phase of a step leaves: the artifacts of its state, or of the failed pipeline.\<close>

definition phase_refs :: "run_result + exec_state \<times> str \<times> resolved_binding list \<times> run_result \<Rightarrow> str list" where
  "phase_refs ph = (case ph of Inl r \<Rightarrow> refs_of (rs_artifacts r) | Inr (st, _) \<Rightarrow> state_refs st)"

lemma makes_run_phase:
  assumes "sound_step_runner env"
  shows "makes (R @ state_refs st) (execute_run_phase env mode by_key st step) phase_refs"
proof -
  have fail: "makes R' (bindA (fail_pipeline env mode a b e) (\<lambda>r. ret (Inl r))) phase_refs" for R' a b e
    by (rule makes_bind[OF makes_fail_pipeline]) (auto intro: makes_ret simp: phase_refs_def)
  show ?thesis
    unfolding execute_run_phase_def
  proof (rule makes_bind[OF makes_prepare_step], simp only: split_def, rule makes_bind[OF makes_lift], rule makes_case_sum)
    fix rb and e :: run_error
    show "makes (((R @ state_refs st) @ [rel_of (inputs_dir (fst rb) @ [''manifest.json''])]) @ [])
      (bindA (fail_pipeline env mode (es_step_summaries st) (es_decisions st) e) (\<lambda>r. ret (Inl r))) phase_refs"
      by (rule fail)
  next
    fix rb and do_file :: str
    show "makes (((R @ state_refs st) @ [rel_of (inputs_dir (fst rb) @ [''manifest.json''])]) @ [])
      (bindA (run_step env step (fst rb) do_file) (\<lambda>result.
             let st1 = record_step_artifacts (fst rb) result st
             in if rs_ok result then ret (Inr (st1, fst rb, snd rb, result))
                else let summaries = es_step_summaries st1 @ [executed_summary step (fst rb) ''failed'' (snd rb) [] []]
                     in bindA (fail_pipeline env mode summaries (es_decisions st1) (error_or_default result))
                          (\<lambda>r. ret (Inl r)))) phase_refs"
    proof (rule makes_bind[OF makes_run_step[OF assms]])
      fix result
      have "makes ((((R @ state_refs st) @ [rel_of (inputs_dir (fst rb) @ [''manifest.json''])]) @ []) @ refs_of (rs_artifacts result))
          (ret (Inr (record_step_artifacts (fst rb) result st, fst rb, snd rb, result))) phase_refs"
        by (rule makes_ret) (use record_refs in \<open>auto simp: phase_refs_def\<close>)
      then show "makes ((((R @ state_refs st) @ [rel_of (inputs_dir (fst rb) @ [''manifest.json''])]) @ []) @ refs_of (rs_artifacts result))
          (let st1 = record_step_artifacts (fst rb) result st
             in if rs_ok result then ret (Inr (st1, fst rb, snd rb, result))
                else let summaries = es_step_summaries st1 @ [executed_summary step (fst rb) ''failed'' (snd rb) [] []]
                     in bindA (fail_pipeline env mode summaries (es_decisions st1) (error_or_default result))
                          (\<lambda>r. ret (Inl r))) phase_refs"
        using fail by (simp add: Let_def)
    qed
  qed
qed

lemma register_products_refs:
  "set (state_refs (register_products ps st)) = set (state_refs st) \<union> rp_artifact_rel_path ` set ps"
  unfolding register_products_def
  by (induction ps arbitrary: st) (auto simp: register_product_def state_refs_def)

lemma register_decisions_artifacts:
  "register_decisions known step st ds = Inr st' \<Longrightarrow> es_artifacts st' = es_artifacts st"
  by (induction known step st ds rule: register_decisions.induct)
     (auto simp: Let_def bindE_Inr_iff split: if_split_asm)

lemma makes_products_phase:
  "makes (R @ state_refs (fst ph)) (execute_products_phase env known by_key step ph) state_refs"
proof -
  obtain st run_id bs result where ph: "ph = (st, run_id, bs, result)" by (cases ph)
  have reg: "makes R' (bindA (liftE (register_decisions known step (register_products ps st) ds)) (\<lambda>st2.
          ret (st2\<lparr>es_step_summaries := es_step_summaries st2 @
                     [executed_summary step run_id ''succeeded'' bs ps ds]\<rparr>))) state_refs"
    if "set (state_refs st) \<union> rp_artifact_rel_path ` set ps \<subseteq> set R'" for ps ds R'
  proof (cases "register_decisions known step (register_products ps st) ds")
    case (Inl e)
    then show ?thesis by (auto simp: makes_def bindA_def liftE_def)
  next
    case (Inr st2)
    then have "set (state_refs st2) \<subseteq> set R'"
      using that register_products_refs[of ps st] register_decisions_artifacts[OF Inr] by (simp add: state_refs_def)
    then show ?thesis
      unfolding Inr by (auto simp: makes_def bindA_def liftE_def ret_def state_refs_def subset_iff)
  qed
  show ?thesis
    unfolding execute_products_phase_def ph
    by (simp only: prod.case, intro makes_bind[OF makes_create_products], simp only: split_def, rule reg)
       (auto simp: product_refs_def)
qed

definition outcome_refs :: "step_outcome \<Rightarrow> str list" where
  "outcome_refs out = (case out of Continue st \<Rightarrow> state_refs st | Stop r \<Rightarrow> refs_of (rs_artifacts r))"

lemma makes_process_step:
  assumes "sound_step_runner env"
  shows "makes (R @ state_refs st) (process_step env mode known by_key st step) outcome_refs"
proof (cases "dict_get (es_skip_reason st) (ps_step_id step)")
  case (Some reason)
  then show ?thesis by (auto simp: process_step_def outcome_refs_def state_refs_def intro!: makes_ret)
next
  case None
  have stop: "makes (R' @ phase_refs (Inl r)) (ret (Stop r)) outcome_refs" for R' r
    by (rule makes_ret) (auto simp: phase_refs_def outcome_refs_def)
  have go: "makes (R' @ phase_refs (Inr ph))
      (bindA (execute_products_phase env known by_key step ph) (\<lambda>st'. ret (Continue st'))) outcome_refs" for R' ph
  proof -
    have "makes ((R' @ state_refs (fst ph)) @ state_refs st') (ret (Continue st')) outcome_refs" for st'
      by (rule makes_ret) (auto simp: outcome_refs_def)
    from makes_bind[OF makes_products_phase this] show ?thesis
      by (cases ph) (simp add: phase_refs_def)
  qed
  have after: "makes (R' @ phase_refs ph)
      (case ph of Inl r \<Rightarrow> ret (Stop r)
       | Inr ph \<Rightarrow> bindA (execute_products_phase env known by_key step ph) (\<lambda>st'. ret (Continue st'))) outcome_refs" for R' ph
    by (cases ph) (simp_all only: sum.case stop go)
  have "makes ((R @ state_refs st) @ []) (execute_run_phase env mode by_key st step) phase_refs"
    using makes_run_phase[OF assms] by simp
  from makes_bind[OF makes_lift makes_bind[OF this after]] None
  show ?thesis unfolding process_step_def by simp
qed

lemma makes_run_steps:
  assumes "sound_step_runner env"
  shows "makes (R @ state_refs st) (run_steps env mode steps by_key st order) outcome_refs"
proof (induction order arbitrary: st)
  case Nil
  show ?case by (auto intro: makes_ret simp: outcome_refs_def)
next
  case (Cons sid order)
  have cont: "makes (R' @ outcome_refs out)
      (case out of Stop r \<Rightarrow> ret (Stop r) | Continue st' \<Rightarrow> run_steps env mode steps by_key st' order) outcome_refs"
    if "set R \<subseteq> set R'" for R' out
  proof (cases out)
    case (Continue st')
    have "makes (R' @ state_refs st') (run_steps env mode steps by_key st' order) outcome_refs"
      by (rule makes_weaken[OF Cons.IH]) (use that in auto)
    then show ?thesis by (simp add: Continue outcome_refs_def)
  qed (auto intro: makes_ret simp: outcome_refs_def)
  have "makes ((R @ state_refs st) @ []) (bindA (process_step env mode (map ps_step_id steps) by_key st step)
      (\<lambda>out. case out of Stop r \<Rightarrow> ret (Stop r) | Continue st' \<Rightarrow> run_steps env mode steps by_key st' order)) outcome_refs" for step
    using makes_bind[OF makes_process_step[OF assms, of R] cont] by simp
  from makes_bind[OF makes_lift this] show ?case by simp
qed

lemma makes_composition:
  assumes "sound_step_runner env"
  shows "makes [] (execute_composition_plan env) (\<lambda>r. refs_of (rs_artifacts r))"
proof -
  have fin: "makes (R @ outcome_refs out) (finalize_pipeline env mode out) (\<lambda>r. refs_of (rs_artifacts r))" for R mode out
  proof (cases out)
    case (Stop r)
    show ?thesis by (auto simp: finalize_pipeline_def Stop outcome_refs_def intro: makes_ret)
  next
    case (Continue st)
    show ?thesis unfolding finalize_pipeline_def Continue step_outcome.case
      by (rule makes_bind[OF makes_summary]) (auto intro!: makes_ret simp: outcome_refs_def state_refs_def)
  qed
  have steps: "makes R (execute_steps env mode ss) outcome_refs" for R mode ss
    unfolding execute_steps_def
  proof (rule makes_bind[OF makes_lift])
    fix order
    show "makes (R @ []) (run_steps env mode ss (inputs_by_key (xe_manifest env)) initial_exec_state order) outcome_refs"
      using makes_run_steps[OF assms, of R initial_exec_state] by (simp add: state_refs_def initial_exec_state_def refs_of_def)
  qed
  have run: "makes [] (validated_run env ss) (\<lambda>r. refs_of (rs_artifacts r))" for ss
    unfolding validated_run_def
    by (rule makes_bind[OF makes_lift], rule makes_bind[OF makes_lift], rule makes_bind[OF steps], rule fin)
  have "makes [] (execute_validated env ss) (\<lambda>r. refs_of (rs_artifacts r))" for ss
    unfolding makes_def
  proof (intro allI impI)
    fix fs fs' r assume e: "execute_validated env ss fs = (fs', r)" and "\<forall>s\<in>set []. has_file fs s"
    obtain fs1 r1 where v: "validated_run env ss fs = (fs1, r1)" by (cases "validated_run env ss fs")
    have g: "grows fs fs1" "\<And>x. r1 = Inr x \<Longrightarrow> \<forall>s\<in>set (refs_of (rs_artifacts x)). has_file fs1 s"
      using run[of ss] v unfolding makes_def by (metis empty_iff list.set(1))+
    show "grows fs fs' \<and> (\<forall>x. r = Inr x \<longrightarrow> (\<forall>s\<in>set (refs_of (rs_artifacts x)). has_file fs' s))"
    proof (cases "\<exists>reason. r1 = Inl (PlanErr (PlanCompositionInvalid reason))")
      case True
      then obtain reason where "fail_pipeline env ''unknown'' [] [] (composition_run_error reason) fs1 = (fs', r)"
        using e v by (auto simp: execute_validated_def)
      then have "grows fs1 fs' \<and> (\<forall>x. r = Inr x \<longrightarrow> (\<forall>s\<in>set (refs_of (rs_artifacts x)). has_file fs' s))"
        using makes_fail_pipeline[of "[]"] unfolding makes_def by (metis empty_iff list.set(1))
      with g(1) show ?thesis using grows_trans by blast
    next
      case False
      then have "fs' = fs1 \<and> r = r1"
        using e v by (auto simp: execute_validated_def split: sum.split_asm exn.split_asm plan_error.split_asm)
      with g show ?thesis by blast
    qed
  qed
  then show ?thesis
    unfolding execute_composition_plan_def
    by (auto split: option.split intro!: makes_ret simp: failed_run_def)
qed

section \<open>Template runs\<close>

definition result_refs :: "run_result \<Rightarrow> str list" where
  "result_refs r = refs_of (rs_artifacts r)"

lemma makes_artifacts:
  "makes R (write_run_artifacts env run_id meta x)
     (\<lambda>_. refs_of (output_refs run_id @ (if xc_error x = None then [] else [error_ref run_id])))"
proof -
  have log: "makes R' (\<lambda>fs. (fs, Inr (read_stata_log_text env (work_dir run_id) fs))) (\<lambda>_. [])" for R'
    by (rule makes_pure) simp
  show ?thesis
  proof (cases "xc_error x")
    case None
    show ?thesis
      unfolding write_run_artifacts_def None option.case
      by (intro makes_bind[OF makes_write_file] makes_bind[OF log] makes_ret)
         (auto simp: output_refs_def run_ref_def)
  next
    case (Some e)
    show ?thesis
      unfolding write_run_artifacts_def Some option.case
      by (intro makes_bind[OF makes_write_file] makes_bind[OF log] makes_weaken[OF makes_write_file])
         (auto simp: output_refs_def run_ref_def error_ref_def)
  qed
qed

lemma makes_pre_run_error:
  assumes "refs_of extra = refs"
  shows "makes (R @ refs) (total (write_pre_run_error env e extra)) result_refs"
proof (rule makes_total)
  fix fs fs' r assume w: "write_pre_run_error env e extra fs = (fs', r)" and R: "\<forall>s\<in>set (R @ refs). has_file fs s"
  let ?x = "pre_run_execution e"
  let ?m = "meta_payload env (xe_run_id env) [''ss-worker'', ''pre-run''] None ?x"
  obtain fs1 r1 where a: "write_run_artifacts env (xe_run_id env) ?m ?x fs = (fs1, r1)"
    by (cases "write_run_artifacts env (xe_run_id env) ?m ?x fs")
  have g: "grows fs fs1" "\<And>u. r1 = Inr u \<Longrightarrow> \<forall>s\<in>set (refs_of (output_refs (xe_run_id env) @ [error_ref (xe_run_id env)])). has_file fs1 s"
    using makes_artifacts[of "[]" env "xe_run_id env" ?m ?x] a by (auto simp: makes_def pre_run_execution_def)
  show "grows fs fs' \<and> (\<forall>s\<in>set (result_refs r). has_file fs' s)"
  proof (cases r1)
    case (Inl e1)
    then show ?thesis using w a g(1) by (auto simp: write_pre_run_error_def Let_def failed_run_def result_refs_def)
  next
    case (Inr u)
    then have "fs' = fs1" "rs_artifacts r = extra @ output_refs (xe_run_id env) @ [error_ref (xe_run_id env)]"
      using w a by (auto simp: write_pre_run_error_def Let_def failed_run_def)
    moreover have "has_file fs1 (ar_rel_path x)" if "x \<in> set extra" for x
    proof -
      have "ar_rel_path x \<in> set refs" using that assms[symmetric] by simp
      then show ?thesis using R has_file_grows[OF _ g(1)] by auto
    qed
    ultimately show ?thesis using g Inr by (auto simp: result_refs_def)
  qed
qed

lemma makes_no_extra: "makes R (total (write_pre_run_error env e [])) result_refs"
  using makes_pre_run_error[of "[]" "[]" R] by (simp add: refs_of_def)

lemma makes_write_artifact: "makes R (write_artifact env path c) (\<lambda>_. [rel_of path])"
  by (simp add: makes_def write_artifact_def write_file_def)

lemma makes_evidence: "makes R (write_template_evidence env raw_do meta params) refs_of"
  unfolding write_template_evidence_def Let_def
  by (intro makes_bind[OF makes_write_artifact] makes_ret) (auto simp: run_ref_def)

lemma makes_evidence_or_error:
  "makes R (write_template_evidence_or_error env raw_do meta params) (\<lambda>x. case x of Inl _ \<Rightarrow> [] | Inr refs \<Rightarrow> refs_of refs)"
  unfolding write_template_evidence_or_error_def by (rule makes_catching[OF makes_evidence])

lemma makes_copy_output: "makes R (copy_output_or_skip env src dst) (\<lambda>ok. if ok then [rel_of dst] else [])"
  using makes_copy_file[of R env src dst]
  unfolding makes_def copy_output_or_skip_def by (fastforce split: prod.split_asm sum.split_asm if_split_asm)

definition archived_refs :: "artifact_ref list \<times> str list \<Rightarrow> str list" where
  "archived_refs acc = refs_of (fst acc)"

lemma makes_archive_output: "makes (R @ archived_refs acc) (archive_output env acc output) archived_refs"
proof -
  obtain refs missing where acc: "acc = (refs, missing)" by (cases acc)
  show ?thesis
    unfolding archive_output_def acc prod.case
    by (intro makes_bind[OF makes_lift] makes_bind[OF makes_copy_output] makes_ret)
       (auto simp: archived_refs_def append_artifact_if_missing_def run_ref_def)
qed

lemma makes_archive: "makes R (archive_outputs env meta) archived_refs"
proof -
  have "makes (R' @ archived_refs ([], [])) (foldA (archive_output env) ([], []) outputs) archived_refs" for R' outputs
    by (rule makes_fold[OF makes_archive_output])
  then have f: "makes R' (foldA (archive_output env) ([], []) outputs) archived_refs" for R' outputs
    by (simp add: archived_refs_def refs_of_def)
  show ?thesis
    unfolding archive_outputs_def
    by (rule makes_bind[OF makes_lift], rule makes_bind[OF f], simp only: split_def)
       (auto intro: makes_ret simp: archived_refs_def)
qed

lemma makes_archive_or_error:
  "makes R (archive_outputs_or_error env tid meta) (\<lambda>x. case x of Inl _ \<Rightarrow> [] | Inr acc \<Rightarrow> archived_refs acc)"
  unfolding archive_outputs_or_error_def by (rule makes_catching[OF makes_archive])

lemma makes_run_meta_or_error:
  "makes R (write_run_meta_or_error env tid params refs missing) (\<lambda>x. case x of Inl _ \<Rightarrow> [] | Inr a \<Rightarrow> [ar_rel_path a])"
proof -
  have "makes R (write_run_meta env tid params refs missing) (\<lambda>a. [ar_rel_path a])"
    unfolding write_run_meta_def Let_def by (rule makes_bind[OF makes_write_artifact]) (simp add: makes_ret run_ref_def)
  then show ?thesis unfolding write_run_meta_or_error_def by (rule makes_catching)
qed

lemma makes_finalize:
  "makes (R @ refs_of template_refs @ result_refs result) (finalize_template_run env g template_refs result) result_refs"
proof -
  let ?R = "R @ refs_of template_refs @ result_refs result"
  have "makes (?R @ (case out of Inl _ \<Rightarrow> [] | Inr acc \<Rightarrow> archived_refs acc))
     (case out of
         Inl e \<Rightarrow> ret (failed_runner_result result e (template_refs @ rs_artifacts result))
       | Inr (refs, missing) \<Rightarrow>
           bindA (write_run_meta_or_error env (gd_template_id g) (gd_template_params g) refs missing) (\<lambda>run_meta.
             case run_meta of
               Inl e \<Rightarrow> ret (failed_runner_result result e (template_refs @ refs @ rs_artifacts result))
             | Inr meta_ref \<Rightarrow>
                 ret (result\<lparr>rs_artifacts := template_refs @ [meta_ref] @ refs @ rs_artifacts result\<rparr>))) result_refs" for out
  proof (cases out)
    case (Inl e)
    show ?thesis by (auto simp: Inl failed_runner_result_def result_refs_def intro!: makes_ret)
  next
    case (Inr acc)
    show ?thesis
      unfolding Inr sum.case split_def
    proof (rule makes_bind[OF makes_run_meta_or_error], rule makes_case_sum)
      fix run_meta :: "run_error + artifact_ref" and e assume rm: "run_meta = Inl e"
      show "makes ((?R @ archived_refs acc) @ (case run_meta of Inl _ \<Rightarrow> [] | Inr a \<Rightarrow> [ar_rel_path a]))
          (ret (failed_runner_result result e (template_refs @ fst acc @ rs_artifacts result))) result_refs"
        by (rule makes_ret) (auto simp: failed_runner_result_def result_refs_def archived_refs_def)
    next
      fix run_meta :: "run_error + artifact_ref" and a assume rm: "run_meta = Inr a"
      show "makes ((?R @ archived_refs acc) @ (case run_meta of Inl _ \<Rightarrow> [] | Inr a \<Rightarrow> [ar_rel_path a]))
          (ret (result\<lparr>rs_artifacts := template_refs @ [a] @ fst acc @ rs_artifacts result\<rparr>)) result_refs"
        unfolding rm by (rule makes_ret) (auto simp: result_refs_def archived_refs_def)
    qed
  qed
  then show ?thesis unfolding finalize_template_run_def by (rule makes_bind[OF makes_archive_or_error])
qed

definition evidence_refs :: "run_result + generated_do_file \<times> artifact_ref list \<Rightarrow> str list" where
  "evidence_refs out = (case out of Inl r \<Rightarrow> result_refs r | Inr (_, refs) \<Rightarrow> refs_of refs)"

lemma makes_stop: "makes R m result_refs \<Longrightarrow> makes R (bindA m (\<lambda>r. ret (Inl r))) evidence_refs"
  by (rule makes_bind, assumption) (auto simp: evidence_refs_def intro: makes_ret)

lemma makes_generation_failed: "makes R (generation_failed env pt e) result_refs"
  unfolding generation_failed_def
proof (rule makes_bind[OF makes_evidence_or_error], rule makes_case_sum)
  fix x e'
  show "makes (R @ (case x of Inl _ \<Rightarrow> [] | Inr refs \<Rightarrow> refs_of refs)) (total (write_pre_run_error env e' [])) result_refs"
    by (rule makes_no_extra)
next
  fix x :: "run_error + artifact_ref list" and refs assume "x = Inr refs"
  then show "makes (R @ (case x of Inl _ \<Rightarrow> [] | Inr refs \<Rightarrow> refs_of refs)) (total (write_pre_run_error env e refs)) result_refs"
    using makes_pre_run_error[of refs "refs_of refs" R] by simp
qed

lemma makes_catch_lift: "makes R (catching c (liftE x)) (\<lambda>_. [])"
  by (rule makes_pure) (auto simp: catching_def liftE_def split: sum.split)

lemma makes_generate_with_evidence: "makes R (generate_with_evidence p manifest) evidence_refs"
proof -
  have prep: "makes R (prepare_template_or_error p manifest) (\<lambda>_. [])"
    by (auto simp: prepare_template_or_error_def split: option.split intro: makes_catch_lift makes_ret)
  have written: "makes R' (bindA (write_template_evidence_or_error env a b c) (\<lambda>evidence.
        case evidence of
          Inl e \<Rightarrow> bindA (total (write_pre_run_error env e [])) (\<lambda>r. ret (Inl r))
        | Inr refs \<Rightarrow> ret (Inr (g, refs)))) evidence_refs" for R' env a b c g
    by (rule makes_bind[OF makes_evidence_or_error], rule makes_case_sum)
       (auto intro: makes_stop makes_no_extra makes_ret simp: evidence_refs_def)
  have gen: "makes R' (generate_do_file_or_error pt) (\<lambda>_. [])" for R' pt
    unfolding generate_do_file_or_error_def by (rule makes_catch_lift)
  show ?thesis
    unfolding generate_with_evidence_def
    by (intro makes_bind[OF prep] makes_case_sum makes_stop makes_no_extra makes_bind[OF gen] makes_generation_failed written)
qed

definition sound_runner :: "plan_run_env \<Rightarrow> bool" where
  "sound_runner p =
     (\<forall>run_id do_file timeout inputs fs. sound_result fs (px_runner p run_id do_file timeout inputs fs))"

lemma makes_run_step_template:
  assumes "sound_runner p"
  shows "makes R (execute_run_step p step manifest) result_refs"
  unfolding execute_run_step_def
proof (rule makes_bind[OF makes_generate_with_evidence], rule makes_case_sum)
  fix x :: "run_result + generated_do_file \<times> artifact_ref list" and r assume "x = Inl r"
  then show "makes (R @ evidence_refs x) (ret r) result_refs" by (auto simp: evidence_refs_def intro: makes_ret)
next
  fix x :: "run_result + generated_do_file \<times> artifact_ref list" and b assume x: "x = Inr b"
  obtain g refs where b: "b = (g, refs)" by (cases b)
  have run: "makes R' (total (px_runner p (px_run_id p) (gd_do_file g) timeout None)) result_refs" for R' timeout
    using makes_runner[of "px_runner p (px_run_id p) (gd_do_file g) timeout None"] assms
    by (auto simp: total_def sound_runner_def result_refs_def[abs_def])
  have fin: "makes (((R @ refs_of refs) @ []) @ result_refs result) (finalize_template_run env g refs result) result_refs" for env result
    using makes_finalize[of R refs result env g] by simp
  show "makes (R @ evidence_refs x) (case b of (g, refs) \<Rightarrow>
           bindA (liftE (effective_timeout_seconds p step)) (\<lambda>timeout.
           bindA (total (px_runner p (px_run_id p) (gd_do_file g) timeout None)) (\<lambda>result.
             finalize_template_run (px_exec p) g refs result))) result_refs"
    unfolding x b evidence_refs_def by (simp only: sum.case prod.case) (intro makes_bind[OF makes_lift] makes_bind[OF run] fin)
qed

lemma makes_execute_plan:
  assumes "sound_runner p"
  shows "makes [] (execute_plan p) result_refs"
proof -
  have comp: "makes R (execute_composition_plan (composition_env p m)) result_refs" for R m
  proof -
    have "sound_step_runner (composition_env p m)"
      using assms by (simp add: sound_step_runner_def sound_runner_def composition_env_def)
    from makes_composition[OF this] show ?thesis
      by (auto intro: makes_weaken simp: result_refs_def[abs_def])
  qed
  have read: "makes R (\<lambda>fs. (fs, Inr (inputs_manifest_or_error p fs))) (\<lambda>_. [])" for R
    by (rule makes_pure) simp
  have dirs: "makes [] (execute_in_dirs p) result_refs"
    unfolding execute_in_dirs_def
    by (auto split: option.split intro!: makes_no_extra makes_bind[OF read] makes_case_sum comp makes_run_step_template[OF assms])
  show ?thesis
    unfolding execute_plan_def
    by (auto split: option.split intro!: makes_no_extra dirs makes_ret simp: failed_run_def result_refs_def)
qed

section \<open>The local runner\<close>

definition keeps_files :: "process \<Rightarrow> bool" where
  "keeps_files proc = (\<forall>cmd cwd timeout fs. grows fs (fst (proc cmd cwd timeout fs)))"

lemma grows_copy_inputs: "copy_inputs_dir env source dir fs = (fs', r) \<Longrightarrow> grows fs fs'"
proof -
  have "makes ([] @ []) (foldA (\<lambda>_ q. copy_file env q (dir @ [''inputs''] @ drop (length source) q)) () qs) (\<lambda>_. [])" for qs
    by (rule makes_fold[where I = "\<lambda>_. []"]) (rule makes_weaken[OF makes_copy_file], simp_all)
  then show "copy_inputs_dir env source dir fs = (fs', r) \<Longrightarrow> grows fs fs'"
    by (fastforce simp: copy_inputs_dir_def makes_def)
qed

lemma prepare_workspace_makes:
  assumes "prepare_workspace env run_id do_file inputs fs = (fs', out)"
  shows "grows fs fs' \<and> (out = None \<longrightarrow> has_file fs' (rel_of (run_file run_id ''stata.do''))) \<and>
    (\<forall>r. out = Some r \<longrightarrow> rs_artifacts r = [])"
proof -
  let ?w = "bindA (write_file env (work_dir run_id @ [''stata.do'']) (TextFile do_file)) (\<lambda>_.
      write_file env (run_file run_id ''stata.do'') (TextFile do_file))"
  have w: "makes [] ?w (\<lambda>_. [rel_of (run_file run_id ''stata.do'')])"
    by (rule makes_bind[OF makes_write_file makes_write_file])
  consider "fs' = fs" "\<exists>c m. out = Some (result_without_artifacts c m)"
    | fs1 e where "copy_inputs_dir env (the (inputs_source_dir env inputs)) (work_dir run_id) fs = (fs1, e)"
      "(fs' = fs1 \<and> (\<exists>c m. out = Some (result_without_artifacts c m))) \<or>
       (\<exists>r. ?w fs1 = (fs', r) \<and> (out = None \<longrightarrow> (\<exists>u. r = Inr u)) \<and>
          (\<forall>x. out = Some x \<longrightarrow> (\<exists>c m. x = result_without_artifacts c m)))"
    using assms by (auto simp: prepare_workspace_def split: if_split_asm option.split_asm prod.split_asm sum.split_asm)
  then show ?thesis
  proof cases
    case 1
    then show ?thesis by (auto simp: result_without_artifacts_def)
  next
    case (2 fs1 e)
    have g: "grows fs fs1" using 2(1) by (rule grows_copy_inputs)
    from 2(2) show ?thesis
    proof
      assume "fs' = fs1 \<and> (\<exists>c m. out = Some (result_without_artifacts c m))"
      then show ?thesis using g by (auto simp: result_without_artifacts_def)
    next
      assume "\<exists>r. ?w fs1 = (fs', r) \<and> (out = None \<longrightarrow> (\<exists>u. r = Inr u)) \<and>
          (\<forall>x. out = Some x \<longrightarrow> (\<exists>c m. x = result_without_artifacts c m))"
      then obtain r where r: "?w fs1 = (fs', r)" "out = None \<longrightarrow> (\<exists>u. r = Inr u)"
        "\<forall>x. out = Some x \<longrightarrow> (\<exists>c m. x = result_without_artifacts c m)" by blast
      have "grows fs1 fs' \<and> (\<forall>u. r = Inr u \<longrightarrow> has_file fs' (rel_of (run_file run_id ''stata.do'')))"
        using w r(1) by (fastforce simp: makes_def)
      then show ?thesis using g r(2,3) grows_trans by (fastforce simp: result_without_artifacts_def)
    qed
  qed
qed

lemma persist_run_sound:
  assumes "has_file fs (rel_of (run_file run_id ''stata.do''))"
  shows "sound_result fs (persist_run env run_id cmd timeout x fs)"
proof -
  let ?m = "meta_payload env run_id cmd timeout x"
  obtain fs1 r where a: "write_run_artifacts env run_id ?m x fs = (fs1, r)"
    by (cases "write_run_artifacts env run_id ?m x fs")
  have g: "grows fs fs1" "\<And>u. r = Inr u \<Longrightarrow>
      \<forall>s\<in>set (refs_of (output_refs run_id @ (if xc_error x = None then [] else [error_ref run_id]))). has_file fs1 s"
    using makes_artifacts[of "[]" env run_id ?m x] a by (auto simp: makes_def)
  show ?thesis
  proof (cases r)
    case (Inl e)
    then show ?thesis using a g(1) by (simp add: persist_run_def sound_result_def result_without_artifacts_def)
  next
    case (Inr u)
    then show ?thesis
      using a g has_file_grows[OF assms g(1)]
      by (auto simp: persist_run_def sound_result_def artifact_refs_def run_ref_def split: if_split_asm)
  qed
qed

lemma sound_trans: "grows fs fs1 \<Longrightarrow> sound_result fs1 out \<Longrightarrow> sound_result fs out"
  using grows_trans by (auto simp: sound_result_def)

lemma local_runner_sound:
  assumes "keeps_files proc"
  shows "sound_result fs (local_runner env stata_cmd proc run_id do_file timeout inputs fs)"
proof -
  obtain fs1 out where p: "prepare_workspace env run_id do_file inputs fs = (fs1, out)"
    by (cases "prepare_workspace env run_id do_file inputs fs")
  note pm = prepare_workspace_makes[OF p]
  show ?thesis
  proof (cases out)
    case (Some r)
    then show ?thesis using p pm by (simp add: local_runner_def run_local_stata_attempt_def sound_result_def)
  next
    case None
    then have f: "has_file fs1 (rel_of (run_file run_id ''stata.do''))" using pm by blast
    let ?cmd = "build_stata_batch_cmd stata_cmd ''stata.do''"
    obtain fs2 o' ms where pr: "proc ?cmd (work_dir run_id) timeout fs1 = (fs2, o', ms)"
      by (cases "proc ?cmd (work_dir run_id) timeout fs1") auto
    have "grows fs1 fs2" using assms pr unfolding keeps_files_def by (metis fst_conv)
    moreover obtain x where "execute_process env proc ?cmd (work_dir run_id) timeout fs1 = (fs2, x)"
      by (simp add: execute_process_def pr)
    ultimately show ?thesis
      using p None pm f persist_run_sound[OF f] persist_run_sound[OF has_file_grows[OF f]] sound_trans
      by (auto simp: local_runner_def run_local_stata_attempt_def Let_def split: option.split)
  qed
qed

text \<open>C9 (safety) Whatever fails while a plan is executed - the manifest, the dependency check, the generation of a do-file,
  a write, a copy, Stata itself - every artifact the result names is a file of the job directory, for a template run and
  for a composition, provided the runner removes no file and itself names only files that are there.\<close>

theorem run_artifacts_exist:
  assumes "sound_runner p" "execute_plan p fs = (fs', Inr r)" "a \<in> set (rs_artifacts r)"
  shows "\<exists>path. rel_of path = ar_rel_path a \<and> dict_get fs' path \<noteq> None"
proof -
  have "\<forall>s\<in>set (result_refs r). has_file fs' s" using makes_execute_plan[OF assms(1)] assms(2) by (auto simp: makes_def)
  with assms(3) show ?thesis by (auto simp: result_refs_def has_file_def)
qed

end
