(* ===== verification/PlanRunResults.thy ===== *)
theory PlanRunResults
  imports PlanRunLaws CompositionRunLaws
begin

text \<open>
  Results and limits of plan execution: a result is ok exactly when it has no error, the time limit of a
  run, what the local runner's answer means, do-files that are refused, and what the rendering of
  templates and the safety check let through.
\<close>

section \<open>Results\<close>

definition yields :: "(files, 'a) act \<Rightarrow> ('a \<Rightarrow> bool) \<Rightarrow> bool" where
  "yields m Q = (\<forall>fs fs' x. m fs = (fs', Inr x) \<longrightarrow> Q x)"

lemma yields_bind: "yields m P \<Longrightarrow> (\<And>x. P x \<Longrightarrow> yields (f x) Q) \<Longrightarrow> yields (bindA m f) Q"
  unfolding yields_def by (metis bindA_Inr)

lemma yields_any: "yields m (\<lambda>_. True)"
  by (simp add: yields_def)

lemma yields_ret: "Q x \<Longrightarrow> yields (ret x) Q"
  by (simp add: yields_def)

lemma yields_total: "(\<And>fs. Q (snd (f fs))) \<Longrightarrow> yields (total f) Q"
  by (auto simp: yields_def total_def split: prod.split_asm) (metis snd_conv)

lemma yields_then: "(\<And>x. yields (f x) Q) \<Longrightarrow> yields (bindA m f) Q"
  by (rule yields_bind[OF yields_any])

lemma yields_case_sum:
  "(\<And>a. x = Inl a \<Longrightarrow> yields (f a) Q) \<Longrightarrow> (\<And>b. x = Inr b \<Longrightarrow> yields (g b) Q) \<Longrightarrow>
     yields (case x of Inl a \<Rightarrow> f a | Inr b \<Rightarrow> g b) Q"
  by (cases x) simp_all

definition consistent :: "run_result \<Rightarrow> bool" where
  "consistent r = (rs_ok r = (rs_error r = None))"

lemma consistent_failed [simp]: "consistent (failed_run as e)"
  by (simp add: consistent_def failed_run_def)

lemma pre_run_error_consistent: "consistent (snd (write_pre_run_error env e extra fs))"
  by (simp add: write_pre_run_error_def Let_def split: prod.split sum.split)

lemma yields_fail_pipeline: "yields (fail_pipeline env mode steps ds e) consistent"
  unfolding fail_pipeline_def
proof (rule yields_then)
  fix summary
  show "yields (bindA (\<lambda>fs. case write_pipeline_error env e fs of (fs', r) \<Rightarrow> (fs', Inr r))
         (\<lambda>r. ret (r\<lparr>rs_ok := False, rs_artifacts := rs_artifacts r @ [summary]\<rparr>))) consistent"
  proof (rule yields_bind[where P = "\<lambda>r. rs_error r \<noteq> None"])
    show "yields (\<lambda>fs. case write_pipeline_error env e fs of (fs', r) \<Rightarrow> (fs', Inr r)) (\<lambda>r. rs_error r \<noteq> None)"
      by (auto simp: yields_def write_pipeline_error_def Let_def failed_run_def split: prod.split_asm sum.split_asm)
  qed (auto intro: yields_ret simp: consistent_def)
qed

definition stop_consistent :: "step_outcome \<Rightarrow> bool" where
  "stop_consistent out = (case out of Stop r \<Rightarrow> consistent r | Continue _ \<Rightarrow> True)"

lemma yields_run_phase:
  "yields (execute_run_phase env mode by_key st step) (\<lambda>ph. case ph of Inl r \<Rightarrow> consistent r | Inr _ \<Rightarrow> True)"
proof -
  have f: "yields (bindA (fail_pipeline env mode a b e) (\<lambda>r. ret (Inl r))) (\<lambda>ph. case ph of Inl r \<Rightarrow> consistent r | Inr _ \<Rightarrow> True)" for a b e
    by (rule yields_bind[OF yields_fail_pipeline]) (simp add: yields_ret)
  show ?thesis
    unfolding execute_run_phase_def Let_def split_def
    by (intro yields_then) (auto simp: f Let_def intro!: yields_then yields_ret split: sum.split)
qed

lemma yields_process_step: "yields (process_step env mode known by_key st step) stop_consistent"
proof -
  have "yields (bindA (liftE g) (\<lambda>_. bindA (execute_run_phase env mode by_key st step) (\<lambda>phase.
            case phase of
              Inl r \<Rightarrow> ret (Stop r)
            | Inr ph \<Rightarrow> bindA (execute_products_phase env known by_key step ph) (\<lambda>st'. ret (Continue st'))))) stop_consistent" for g
    by (rule yields_then, rule yields_bind[OF yields_run_phase])
       (auto simp: stop_consistent_def intro!: yields_then yields_ret split: sum.split)
  then show ?thesis
    unfolding process_step_def by (auto split: option.split intro: yields_ret simp: stop_consistent_def)
qed

lemma yields_run_steps: "yields (run_steps env mode steps by_key st order) stop_consistent"
proof (induction order arbitrary: st)
  case Nil
  show ?case by (auto intro: yields_ret simp: stop_consistent_def)
next
  case (Cons sid order)
  have cont: "yields (case out of Stop r \<Rightarrow> ret (Stop r) | Continue st' \<Rightarrow> run_steps env mode steps by_key st' order) stop_consistent"
    if "stop_consistent out" for out
    using that Cons.IH by (cases out) (simp_all add: yields_ret)
  show ?case
    unfolding run_steps.simps by (rule yields_then, rule yields_bind[OF yields_process_step cont])
qed

lemma yields_composition: "yields (execute_composition_plan env) consistent"
proof -
  have fin: "yields (finalize_pipeline env mode out) consistent" if "stop_consistent out" for mode out
    using that unfolding finalize_pipeline_def
    by (cases out) (auto simp: stop_consistent_def consistent_def intro!: yields_then yields_ret)
  have st: "yields (execute_steps env mode ss) stop_consistent" for mode ss
    unfolding execute_steps_def by (rule yields_then) (rule yields_run_steps)
  have run: "yields (validated_run env ss) consistent" for ss
    unfolding validated_run_def by (rule yields_then, rule yields_then, rule yields_bind[OF st]) (rule fin)
  have "yields (execute_validated env ss) consistent" for ss
    unfolding yields_def
  proof (intro allI impI)
    fix fs fs' x assume e: "execute_validated env ss fs = (fs', Inr x)"
    show "consistent x"
    proof (cases "validated_run env ss fs")
      case (Pair fs1 r)
      then show ?thesis
        using e run[of ss] yields_fail_pipeline[of env "''unknown''" "[]" "[]"]
        by (auto simp: execute_validated_def yields_def split: sum.split_asm exn.split_asm plan_error.split_asm)
    qed
  qed
  then show ?thesis
    unfolding execute_composition_plan_def by (auto split: option.split intro: yields_ret)
qed

lemma yields_finalize: "consistent result \<Longrightarrow> yields (finalize_template_run env g refs result) consistent"
  unfolding finalize_template_run_def
  by (rule yields_then)
     (auto split: sum.split intro!: yields_then yields_ret simp: failed_runner_result_def consistent_def)

definition evidence_consistent :: "run_result + generated_do_file \<times> artifact_ref list \<Rightarrow> bool" where
  "evidence_consistent out = (case out of Inl r \<Rightarrow> consistent r | Inr _ \<Rightarrow> True)"

lemma yields_stop: "yields m consistent \<Longrightarrow> yields (bindA m (\<lambda>r. ret (Inl r))) evidence_consistent"
  by (erule yields_bind) (simp add: yields_ret evidence_consistent_def)

lemma yields_pre_run: "yields (total (write_pre_run_error env e extra)) consistent"
  by (rule yields_total) (rule pre_run_error_consistent)

lemma yields_evidence: "yields (generate_with_evidence p manifest) evidence_consistent"
proof -
  have gf: "yields (generation_failed env pt e) consistent" for env pt e
    unfolding generation_failed_def by (intro yields_then yields_case_sum yields_pre_run)
  show ?thesis
    unfolding generate_with_evidence_def
    by (intro yields_then yields_case_sum yields_stop yields_pre_run gf yields_ret) (simp add: evidence_consistent_def)
qed

lemma yields_run_step_template:
  assumes "\<And>run_id do_file timeout inputs fs. consistent (snd (px_runner p run_id do_file timeout inputs fs))"
  shows "yields (execute_run_step p step manifest) consistent"
proof -
  have run: "yields (total (px_runner p run_id do_file timeout inputs)) consistent" for run_id do_file timeout inputs
    by (rule yields_total) (rule assms)
  have "yields (bindA (liftE (effective_timeout_seconds p step)) (\<lambda>timeout.
           bindA (total (px_runner p (px_run_id p) (gd_do_file g) timeout None)) (\<lambda>result.
             finalize_template_run (px_exec p) g refs result))) consistent" for g refs
    by (rule yields_then, rule yields_bind[OF run]) (rule yields_finalize)
  then show ?thesis
    unfolding execute_run_step_def
    by (intro yields_bind[OF yields_evidence] yields_case_sum) (auto simp: evidence_consistent_def intro: yields_ret)
qed

text \<open>The result of a plan execution is ok exactly when it carries no error, on every path: refused workspace,
  missing dependency, failed generation, failed step of a composition, failed archive of the outputs, success.\<close>

theorem result_ok_iff_no_error:
  assumes "\<And>run_id do_file timeout inputs fs'. rs_ok (snd (px_runner p run_id do_file timeout inputs fs')) =
      (rs_error (snd (px_runner p run_id do_file timeout inputs fs')) = None)"
    and "execute_plan p fs = (fs', Inr r)"
  shows "rs_ok r = (rs_error r = None)"
proof -
  have c: "consistent (snd (px_runner p run_id do_file timeout inputs fs'))" for run_id do_file timeout inputs fs'
    using assms(1) by (simp add: consistent_def)
  have "yields (execute_in_dirs p) consistent"
    unfolding execute_in_dirs_def
    by (auto split: option.split sum.split intro!: yields_then yields_pre_run yields_composition yields_run_step_template c)
  then have "yields (execute_plan p) consistent"
    unfolding execute_plan_def by (auto split: option.split intro!: yields_pre_run yields_ret)
  with assms(2) show ?thesis unfolding yields_def consistent_def by blast
qed

section \<open>The time limit\<close>

text \<open>The time limit of a run is positive; with a shutdown deadline there is always a limit, at most the whole
  seconds left, or one second when none is left; it never exceeds the limit the step asks for.\<close>

theorem run_timeout_bounds:
  assumes "effective_timeout_seconds p step = Inr limit"
  shows "(\<forall>t. limit = Some t \<longrightarrow> 1 \<le> t) \<and>
    (\<forall>left. px_deadline_left p = Some left \<longrightarrow> (\<exists>t. limit = Some t \<and> t \<le> max 1 (trunc_rat left))) \<and>
    (\<forall>own. timeout_seconds (ps_params step) = Inr (Some own) \<longrightarrow> (\<exists>t. limit = Some t \<and> t \<le> own))"
proof -
  obtain base where b: "timeout_seconds (ps_params step) = Inr base"
    using assms by (auto simp: effective_timeout_seconds_def bindE_Inr_iff)
  have pos: "1 \<le> t" if "base = Some t" for t
    using b that by (auto simp: timeout_seconds_def split: option.split_asm if_split_asm sum.split_asm int_error.split_asm)
  show ?thesis
  proof (cases "px_deadline_left p")
    case None
    then show ?thesis using assms b pos by (auto simp: effective_timeout_seconds_def)
  next
    case (Some left)
    then show ?thesis using assms b pos
      by (cases base) (auto simp: effective_timeout_seconds_def Let_def split: if_split_asm)
  qed
qed

section \<open>The local runner\<close>

text \<open>A do-file the safety check refuses is not run: the outcome is the same for every process, and it is not ok.\<close>

theorem refused_do_file_not_run:
  assumes "find_unsafe_dofile_reason do_file \<noteq> None"
  shows "run_local_stata_attempt env stata_cmd proc run_id do_file timeout inputs fs =
      run_local_stata_attempt env stata_cmd proc' run_id do_file timeout inputs fs \<and>
    \<not> rs_ok (snd (run_local_stata_attempt env stata_cmd proc run_id do_file timeout inputs fs))"
proof -
  obtain reason where r: "find_unsafe_dofile_reason do_file = Some reason" using assms by blast
  have "\<not> rs_ok (snd (persist_run env run_id cmd timeout (unsafe_execution reason) fs1))" for cmd fs1
    by (simp add: persist_run_def result_without_artifacts_def unsafe_execution_def split: prod.split sum.split)
  moreover have "\<not> rs_ok x" if "prepare_workspace env run_id do_file inputs fs = (fs1, Some x)" for fs1 x
    using that
    by (auto simp: prepare_workspace_def result_without_artifacts_def split: if_split_asm option.split_asm prod.split_asm sum.split_asm)
  ultimately show ?thesis
    by (auto simp: run_local_stata_attempt_def r Let_def split: prod.split option.split)
qed

lemma work_file_not_artifact: "work_dir run_id @ [n] \<noteq> run_file run_id m"
  by (simp add: work_dir_def run_file_def artifacts_dir_def)

lemma prepared_do_file:
  assumes "prepare_workspace env run_id do_file inputs fs = (fs1, None)"
  shows "dict_get fs1 (work_dir run_id @ [''stata.do'']) = Some (TextFile do_file) \<and>
    dict_get fs1 (run_file run_id ''stata.do'') = Some (TextFile do_file)"
proof -
  obtain fs0 u where "bindA (write_file env (work_dir run_id @ [''stata.do'']) (TextFile do_file)) (\<lambda>_.
      write_file env (run_file run_id ''stata.do'') (TextFile do_file)) fs0 = (fs1, Inr u)"
    using assms by (auto simp: prepare_workspace_def split: if_split_asm option.split_asm prod.split_asm sum.split_asm)
  then show ?thesis
    using work_file_not_artifact[of run_id "''stata.do''"]
    by (auto simp: bindA_Inr write_file_def split: if_split_asm)
qed


section \<open>What the checks let through\<close>

text \<open>The patterns for absolute paths have doubled backslashes: a drive after a blank is not found.\<close>

lemma drive_after_blank_not_found: "find_unsafe_dofile_reason ''use C:/data/x.dta'' = None"
  by code_simp

text \<open>A shell escape behind a prefix command is not found.\<close>

lemma prefixed_shell_not_found: "find_unsafe_dofile_reason ''capture shell ls'' = None"
  by code_simp

text \<open>Parameters are replaced one after the other, so the value of a longer name is rewritten when it holds a
  shorter one.\<close>

lemma parameter_value_rewritten:
  "map_sum id fst (render_do_text ''reg __DEPVAR__''
      [\<lparr>tp_name = ''__DEPVAR__'', tp_required = True\<rparr>, \<lparr>tp_name = ''__X__'', tp_required = True\<rparr>]
      [(''__DEPVAR__'', ''my__X__'' ), (''__X__'', ''z'')]) = Inr ''reg myz''"
  by code_simp

text \<open>A missing required parameter is an error of the run when the plan has a run step, and escapes from a composition.\<close>

lemma missing_parameter_escapes_composition:
  assumes "is_do_generation_step_type (ps_type step)" "steps_valid [step\<lparr>ps_depends_on := []\<rparr>]"
    "xe_generate env (step\<lparr>ps_depends_on := []\<rparr>) m = Inl (DoTemplateParameterMissing n)"
    "generate_from_prepared pt = Inl (DoTemplateParameterMissing n)"
  shows "generate_step_do_file env step m = Inl (TplErr (DoTemplateParameterMissing n))"
    "generate_do_file_or_error pt fs = (fs, Inr (Inl (template_run_error (DoTemplateParameterMissing n))))"
  using assms by (simp_all add: generate_step_do_file_def generate_do_file_or_error_def catching_def liftE_def)

section \<open>A plan with a run step\<close>

definition sample_run_plan :: "plan_step list" where
  "sample_run_plan =
     [\<lparr>ps_step_id = ''gen'', ps_type = GENERATE_STATA_DO, ps_purpose = [], ps_fallback_step_id = None,
       ps_params = [(''template_id'', JStr ''T01''), (''template_params'', JObj [(''__Y__'', JStr ''income'')])],
       ps_depends_on = [], ps_produces = []\<rparr>,
      \<lparr>ps_step_id = ''run'', ps_type = RUN_STATA, ps_purpose = [], ps_fallback_step_id = None,
       ps_params = [(''timeout_seconds'', JInt 60)], ps_depends_on = [''gen''], ps_produces = []\<rparr>]"

definition sample_library :: template_library where
  "sample_library =
     \<lparr>tl_index = LibraryDoc (JObj [(''tasks'', JObj [(''T01'', JObj [(''do_file'', JStr ''t01.do'')])])]),
      tl_do_files = [''t01.do'' \<mapsto> ''summarize __Y__''],
      tl_meta_files = (\<lambda>n. if n = ''t01.meta.json''
        then LibraryDoc (JObj [(''parameters'', JList [JObj [(''name'', JStr ''__Y__''), (''required'', JBool True)]]),
          (''outputs'', JList [JObj [(''type'', JStr ''table''), (''file'', JStr ''out.csv'')]])])
        else NoDoc)\<rparr>"

definition sample_process :: process where
  "sample_process cmd cwd timeout fs = (dict_set fs (cwd @ [''out.csv'']) (TextFile ''x''), ProcExit 0 None None, 5)"

definition sample_plan_env :: plan_run_env where
  "sample_plan_env =
     (let env = (sample_exec_env sample_run_plan)\<lparr>xe_job :=
           (sample_job sample_run_plan)\<lparr>j_inputs := Some \<lparr>ji_manifest_rel_path = Some ''inputs/manifest.json'', ji_fingerprint = None\<rparr>\<rparr>\<rparr>
      in \<lparr>px_exec = env, px_library = Some sample_library, px_loads = (\<lambda>_. None),
          px_runner = local_runner env [''stata''] sample_process, px_check_dependencies = None,
          px_deadline_left = Some 30\<rparr>)"

definition sample_run_files :: files where
  "sample_run_files =
     [([''inputs'', ''manifest.json''],
       JsonFile [(''datasets'', JList [JObj [(''role'', JStr ''primary_dataset''), (''rel_path'', JStr ''inputs/d.csv'')]])]),
      ([''inputs'', ''d.csv''], TextFile ''income'')]"

lemma sample_process_keeps: "keeps_files sample_process"
  by (simp add: keeps_files_def sample_process_def)

lemma sample_plan_sound: "sound_runner sample_plan_env"
  using local_runner_sound[OF sample_process_keeps] by (simp add: sound_runner_def sample_plan_env_def Let_def)

lemma sample_plan_result:
  "\<exists>fs r. execute_plan sample_plan_env sample_run_files = (fs, Inr r) \<and> rs_ok r \<and>
     run_ref STATA_EXPORT_TABLE [''runs'', ''r1'', ''artifacts'', ''outputs'', ''out.csv''] \<in> set (rs_artifacts r)"
proof -
  let ?x = "execute_plan sample_plan_env sample_run_files"
  have "case snd ?x of Inl _ \<Rightarrow> False | Inr r \<Rightarrow> rs_ok r \<and>
      run_ref STATA_EXPORT_TABLE [''runs'', ''r1'', ''artifacts'', ''outputs'', ''out.csv''] \<in> set (rs_artifacts r)"
    by code_simp
  then show ?thesis by (cases ?x; cases "snd ?x") auto
qed

lemma local_runner_consistent: "consistent (snd (local_runner env stata_cmd proc run_id do_file timeout inputs fs))"
proof -
  have "consistent (snd (persist_run env run_id cmd timeout x fs1))" for cmd x fs1
    by (auto simp: persist_run_def result_without_artifacts_def consistent_def split: prod.split sum.split)
  moreover have "consistent x" if "prepare_workspace env run_id do_file inputs fs = (fs1, Some x)" for fs1 x
    using that
    by (auto simp: prepare_workspace_def result_without_artifacts_def consistent_def
        split: if_split_asm option.split_asm prod.split_asm sum.split_asm)
  ultimately show ?thesis
    by (auto simp: local_runner_def run_local_stata_attempt_def Let_def split: prod.split option.split)
qed

theorem run_artifacts_exist_witness:
  "\<exists>fs r path. execute_plan sample_plan_env sample_run_files = (fs, Inr r) \<and>
     rel_of path = ''runs/r1/artifacts/outputs/out.csv'' \<and> dict_get fs path \<noteq> None"
proof -
  let ?a = "run_ref STATA_EXPORT_TABLE [''runs'', ''r1'', ''artifacts'', ''outputs'', ''out.csv'']"
  obtain fs r where x: "execute_plan sample_plan_env sample_run_files = (fs, Inr r)" "?a \<in> set (rs_artifacts r)"
    using sample_plan_result by blast
  have "ar_rel_path ?a = ''runs/r1/artifacts/outputs/out.csv''" by code_simp
  with run_artifacts_exist[OF sample_plan_sound x] x(1) show ?thesis by metis
qed


end
