(* ===== verification/AccessControl.thy ===== *)
theory AccessControl
  imports TaskCodes UploadSessions
begin

text \<open>
  Who may call: the tenant header (api/deps.py), the bearer token of a job made from a task code
  (api/v1_auth.py), and the admin tokens (infra/file_admin_token_store.py,
  domain/admin_auth_service.py, api/admin/deps.py).

  An \<open>Authorization\<close> header is an optional text. The directory of admin tokens maps a token id to the
  file of that name; ids that contain a slash, which name files elsewhere, are outside the model. SHA-256,
  the random parts of a token and the ISO text of an instant are the environment.
\<close>

section \<open>The tenant of a request\<close>

definition get_tenant_id :: "str option \<Rightarrow> exn + str" where
  "get_tenant_id header =
     (case header of
        None \<Rightarrow> Inr DEFAULT_TENANT_ID
      | Some v \<Rightarrow>
          (let tenant_id = py_strip v
           in if tenant_id = [] then Inl (InErr InputValidationFailed)
              else if \<not> is_safe_tenant_id tenant_id then Inl (StoreErr TenantIdUnsafe)
              else Inr tenant_id))"

section \<open>The bearer token of a job\<close>

definition bearer_token :: "str option \<Rightarrow> exn + str" where
  "bearer_token authorization =
     (case authorization of
        None \<Rightarrow> Inl (AuthErr AuthBearerTokenMissing)
      | Some v \<Rightarrow>
          (let normalized = py_strip v
           in if normalized = [] then Inl (AuthErr (AuthBearerTokenInvalid ''empty''))
              else if \<not> startswith (py_lower normalized) ''bearer '' then Inl (AuthErr (AuthBearerTokenInvalid ''not_bearer''))
              else if py_strip (drop 7 normalized) = [] then Inl (AuthErr (AuthBearerTokenInvalid ''empty_token''))
              else Inr (py_strip (drop 7 normalized))))"

definition token_job_id :: "str \<Rightarrow> exn + str" where
  "token_job_id token =
     (case py_split (CHR ''.'') token of
        [prefix, job, secret] \<Rightarrow>
          (if prefix \<noteq> ''ssv1'' \<or> py_strip job = [] \<or> py_strip secret = [] then Inl (AuthErr AuthTokenInvalid)
           else Inr (py_strip job))
      | _ \<Rightarrow> Inl (AuthErr AuthTokenInvalid))"

definition token_expired :: "stamp option \<Rightarrow> int \<Rightarrow> bool" where
  "token_expired job_expires_at now =
     (case job_expires_at of Some (IsoTime expires) \<Rightarrow> expires \<le> now | _ \<Rightarrow> True)"

definition enforce_job_auth :: "int \<Rightarrow> job_store \<Rightarrow> str \<Rightarrow> str option \<Rightarrow> str option \<Rightarrow> exn + unit" where
  "enforce_job_auth now s tenant_id job_id authorization =
     (case job_id of
        None \<Rightarrow> Inr ()
      | Some jid \<Rightarrow>
          (if \<not> startswith jid ''job_tc_'' then Inr ()
           else bindE (store_load tenant_id jid s) (\<lambda>job.
             if \<not> text_set (j_auth_token job) then Inr ()
             else bindE (bearer_token authorization) (\<lambda>token.
                  bindE (token_job_id token) (\<lambda>token_job.
                  bindE (guardE (token_job = jid) (AuthErr AuthTokenForbidden)) (\<lambda>_.
                  bindE (guardE (Some token = j_auth_token job) (AuthErr AuthTokenInvalid)) (\<lambda>_.
                    guardE (\<not> token_expired (j_auth_expires_at job) now) (AuthErr AuthTokenInvalid))))))))"

definition enforce_upload_session_auth ::
  "int \<Rightarrow> job_store \<Rightarrow> str \<Rightarrow> str option \<Rightarrow> str option \<Rightarrow> exn + unit" where
  "enforce_upload_session_auth now s tenant_id upload_session_id authorization =
     (case upload_session_id of
        None \<Rightarrow> Inr ()
      | Some sid \<Rightarrow>
          (case job_id_of_session sid of
             Inl _ \<Rightarrow> Inr ()
           | Inr jid \<Rightarrow> enforce_job_auth now s tenant_id (Some jid) authorization))"

section \<open>Admin tokens\<close>

record admin_env =
  ae_now :: int
  ae_iso :: "int \<Rightarrow> str"
  ae_sha256 :: "str \<Rightarrow> str"
  ae_uuid :: str
  ae_secret :: str
  ae_str :: "json \<Rightarrow> str"
  ae_fault :: bool

datatype at_file = AtObject jobj | AtNotObject | AtUnreadable

type_synonym at_store = "(str, at_file) dict"

record admin_token_metadata =
  am_token_id :: str
  am_name :: str
  am_created_at :: str
  am_last_used_at :: "str option"
  am_revoked_at :: "str option"

record admin_token_issued =
  ai_token_id :: str
  ai_token :: str
  ai_created_at :: str

definition ADMIN_TOKEN_PREFIX :: str where
  "ADMIN_TOKEN_PREFIX = ''ssa1''"

definition parse_admin_token :: "str \<Rightarrow> exn + str \<times> str" where
  "parse_admin_token token =
     (case py_split (CHR ''.'') (py_strip token) of
        [prefix, tid, secret] \<Rightarrow>
          (if prefix \<noteq> ADMIN_TOKEN_PREFIX \<or> py_strip tid = [] \<or> py_strip secret = [] then Inl (AdmErr AdminTokenInvalid)
           else Inr (py_strip tid, py_strip secret))
      | _ \<Rightarrow> Inl (AdmErr AdminTokenInvalid))"

text \<open>\<open>str(payload.get("token_id", ""))\<close>; \<open>ae_str\<close> is \<open>str\<close> on a value that is no text.\<close>

definition payload_id :: "admin_env \<Rightarrow> jobj \<Rightarrow> str" where
  "payload_id env payload =
     (case dict_get payload ''token_id'' of None \<Rightarrow> [] | Some (JStr v) \<Rightarrow> v | Some v \<Rightarrow> ae_str env v)"

definition load_token_payload :: "admin_env \<Rightarrow> str \<Rightarrow> at_store \<Rightarrow> exn + jobj option" where
  "load_token_payload env token_id st =
     (case dict_get st token_id of
        None \<Rightarrow> Inr None
      | Some AtUnreadable \<Rightarrow> Inl (AdmErr (AdminStoreIO ''read_token''))
      | Some AtNotObject \<Rightarrow> Inl (AdmErr (AdminStoreIO ''read_token_invalid''))
      | Some (AtObject payload) \<Rightarrow>
          (if py_strip (payload_id env payload) \<noteq> token_id then Inl (AdmErr (AdminStoreIO ''read_token_invalid''))
           else Inr (Some payload)))"

definition meta_from_payload :: "jobj \<Rightarrow> admin_token_metadata option" where
  "meta_from_payload payload =
     (case (nonblank_str (dict_get payload ''token_id''), nonblank_str (dict_get payload ''created_at'')) of
        (Some tid, Some created) \<Rightarrow>
          Some \<lparr>am_token_id = tid,
                am_name = (case dict_get payload ''name'' of Some (JStr n) \<Rightarrow> n | _ \<Rightarrow> []),
                am_created_at = created,
                am_last_used_at = Option.bind (dict_get payload ''last_used_at'') as_str,
                am_revoked_at = Option.bind (dict_get payload ''revoked_at'') as_str\<rparr>
      | _ \<Rightarrow> None)"

text \<open>Writing a token file; \<open>ae_fault\<close> is an \<open>OSError\<close> of the write.\<close>

definition write_token :: "admin_env \<Rightarrow> str \<Rightarrow> str \<Rightarrow> jobj \<Rightarrow> (at_store, unit) act" where
  "write_token env operation token_id payload st =
     (if ae_fault env then (st, Inl (AdmErr (AdminStoreIO operation)))
      else (dict_set st token_id (AtObject payload), Inr ()))"

definition admin_token_text :: "str \<Rightarrow> str \<Rightarrow> str" where
  "admin_token_text token_id secret = ADMIN_TOKEN_PREFIX @ ''.'' @ token_id @ ''.'' @ secret"

definition issue_token :: "admin_env \<Rightarrow> str \<Rightarrow> (at_store, admin_token_issued) act" where
  "issue_token env name =
     bindA (write_token env ''create_token'' (ae_uuid env)
         [(''token_id'', JStr (ae_uuid env)), (''name'', JStr name), (''created_at'', JStr (ae_iso env (ae_now env))),
          (''last_used_at'', JNull), (''revoked_at'', JNull), (''secret_hash'', JStr (ae_sha256 env (ae_secret env)))])
       (\<lambda>_. ret \<lparr>ai_token_id = ae_uuid env, ai_token = admin_token_text (ae_uuid env) (ae_secret env),
                 ai_created_at = ae_iso env (ae_now env)\<rparr>)"

text \<open>\<open>list_tokens\<close>: a damaged file makes the listing raise; newest first, equal texts keep their order.\<close>

fun token_metas :: "admin_env \<Rightarrow> at_store \<Rightarrow> str list \<Rightarrow> exn + admin_token_metadata list" where
  "token_metas env st [] = Inr []"
| "token_metas env st (stem # stems) =
     bindE (load_token_payload env stem st) (\<lambda>payload.
     bindE (token_metas env st stems) (\<lambda>rest.
       Inr (case Option.bind payload meta_from_payload of None \<Rightarrow> rest | Some m \<Rightarrow> m # rest)))"

definition list_tokens :: "admin_env \<Rightarrow> at_store \<Rightarrow> exn + admin_token_metadata list" where
  "list_tokens env st =
     bindE (token_metas env st (map fst st)) (\<lambda>items. Inr (rev (sort_key am_created_at (rev items))))"

definition meta_or_raise :: "jobj \<Rightarrow> (at_store, admin_token_metadata) act" where
  "meta_or_raise payload =
     (case meta_from_payload payload of None \<Rightarrow> raise_exn (AdmErr AdminTokenInvalid) | Some m \<Rightarrow> ret m)"

definition token_revoked :: "jobj \<Rightarrow> bool" where
  "token_revoked payload = (nonblank_str (dict_get payload ''revoked_at'') \<noteq> None)"

definition revoked_payload :: "admin_env \<Rightarrow> jobj \<Rightarrow> jobj" where
  "revoked_payload env payload =
     (if token_revoked payload then payload else dict_set payload ''revoked_at'' (JStr (ae_iso env (ae_now env))))"

definition revoke_token :: "admin_env \<Rightarrow> str \<Rightarrow> (at_store, admin_token_metadata) act" where
  "revoke_token env token_id =
     bindA (\<lambda>st. (st, load_token_payload env token_id st)) (\<lambda>found.
       case found of
         None \<Rightarrow> raise_exn (AdmErr AdminTokenNotFound)
       | Some payload \<Rightarrow>
           (let p = revoked_payload env payload
            in bindA (write_token env ''revoke_token'' token_id p) (\<lambda>_. meta_or_raise p)))"

definition delete_token :: "admin_env \<Rightarrow> str \<Rightarrow> (at_store, unit) act" where
  "delete_token env token_id st =
     (if dict_get st token_id = None then (st, Inl (AdmErr AdminTokenNotFound))
      else if ae_fault env then (st, Inl (AdmErr (AdminStoreIO ''delete_token'')))
      else (dict_del st token_id, Inr ()))"

text \<open>\<open>secrets.compare_digest\<close> raises on texts that are not ASCII.\<close>

definition compare_digest :: "str \<Rightarrow> str \<Rightarrow> exn + bool" where
  "compare_digest a b =
     (if \<exists>c\<in>set (a @ b). 128 \<le> code_of c then Inl (PyErr PyTypeError) else Inr (a = b))"

text \<open>\<open>authenticate\<close> reads and checks the file, then writes it back with the time of use.\<close>

definition check_secret :: "admin_env \<Rightarrow> str \<Rightarrow> jobj \<Rightarrow> exn + unit" where
  "check_secret env secret payload =
     bindE (guardE (\<not> token_revoked payload) (AdmErr AdminTokenInvalid)) (\<lambda>_.
       case dict_get payload ''secret_hash'' of
         Some (JStr expected) \<Rightarrow>
           bindE (compare_digest expected (ae_sha256 env secret)) (\<lambda>same. guardE same (AdmErr AdminTokenInvalid))
       | _ \<Rightarrow> Inl (AdmErr AdminTokenInvalid))"

definition admit_token :: "admin_env \<Rightarrow> str \<Rightarrow> at_store \<Rightarrow> exn + str \<times> jobj" where
  "admit_token env token st =
     bindE (parse_admin_token token) (\<lambda>(token_id, secret).
     bindE (load_token_payload env token_id st) (\<lambda>found.
       case found of
         None \<Rightarrow> Inl (AdmErr AdminTokenInvalid)
       | Some payload \<Rightarrow> bindE (check_secret env secret payload) (\<lambda>_. Inr (token_id, payload))))"

definition touch_token :: "admin_env \<Rightarrow> str \<times> jobj \<Rightarrow> (at_store, admin_token_metadata) act" where
  "touch_token env admitted =
     (case admitted of
        (token_id, payload) \<Rightarrow>
          (let p = dict_set payload ''last_used_at'' (JStr (ae_iso env (ae_now env)))
           in bindA (write_token env ''touch_token'' token_id p) (\<lambda>_. meta_or_raise p)))"

definition authenticate_token :: "admin_env \<Rightarrow> str \<Rightarrow> (at_store, admin_token_metadata) act" where
  "authenticate_token env token = bindA (\<lambda>st. (st, admit_token env token st)) (touch_token env)"

section \<open>The admin service and its guard\<close>

record admin_principal =
  ap_token_id :: str
  ap_name :: str

definition admin_login :: "admin_env \<Rightarrow> str \<Rightarrow> str \<Rightarrow> str \<Rightarrow> str \<Rightarrow> (at_store, admin_token_issued) act" where
  "admin_login env expected_username expected_password username password =
     (if blank expected_password then raise_exn (AdmErr AdminNotConfigured)
      else if username \<noteq> expected_username then raise_exn (AdmErr AdminCredentialsInvalid)
      else bindA (liftE (compare_digest password expected_password)) (\<lambda>same.
             if \<not> same then raise_exn (AdmErr AdminCredentialsInvalid)
             else issue_token env (''session:'' @ username)))"

definition admin_authenticate :: "admin_env \<Rightarrow> str \<Rightarrow> (at_store, admin_principal) act" where
  "admin_authenticate env token =
     bindA (authenticate_token env token) (\<lambda>m. ret \<lparr>ap_token_id = am_token_id m, ap_name = am_name m\<rparr>)"

definition admin_logout :: "admin_env \<Rightarrow> str \<Rightarrow> (at_store, admin_token_metadata) act" where
  "admin_logout env token = bindA (authenticate_token env token) (\<lambda>m. revoke_token env (am_token_id m))"

definition admin_bearer_token :: "str option \<Rightarrow> exn + str" where
  "admin_bearer_token authorization =
     (case authorization of
        None \<Rightarrow> Inl (AdmErr AdminBearerTokenMissing)
      | Some v \<Rightarrow>
          (let normalized = py_strip v
           in if normalized = [] then Inl (AdmErr (AdminBearerTokenInvalid ''empty''))
              else if \<not> startswith (py_lower normalized) ''bearer '' then Inl (AdmErr (AdminBearerTokenInvalid ''not_bearer''))
              else if py_strip (drop 7 normalized) = [] then Inl (AdmErr (AdminBearerTokenInvalid ''empty_token''))
              else Inr (py_strip (drop 7 normalized))))"

definition require_admin_principal :: "admin_env \<Rightarrow> str option \<Rightarrow> (at_store, admin_principal) act" where
  "require_admin_principal env authorization = bindA (liftE (admin_bearer_token authorization)) (admin_authenticate env)"

end
