(* ===== verification/AccessLaws.thy ===== *)
theory AccessLaws
  imports AccessControl TaskCodeLaws
begin

text \<open>
  What the guards promise: exactly the job's own token opens a protected job, until it expires; a revoked
  admin token stays refused, unless a concurrent use of it writes the old record back.
\<close>

section \<open>The token of a job\<close>

text \<open>Texts that may stand between the dots of a token: ids and hexadecimal secrets.\<close>

definition token_part :: "str \<Rightarrow> bool" where
  "token_part s = (s \<noteq> [] \<and> (\<forall>c\<in>set s. c \<noteq> CHR ''.'' \<and> \<not> py_isspace c))"

lemma token_part_strip: "token_part s \<Longrightarrow> py_strip s = s"
  by (simp add: token_part_def strip_no_space)

lemma token_part_split: "token_part a \<Longrightarrow> py_split (CHR ''.'') a = [a]"
  by (rule py_split_no_sep) (auto simp: token_part_def)

lemma token_part_split_append: "token_part a \<Longrightarrow> py_split (CHR ''.'') (a @ CHR ''.'' # t) = a # py_split (CHR ''.'') t"
  by (rule py_split_append_sep) (auto simp: token_part_def)

lemma strip_keeps: "s \<noteq> [] \<Longrightarrow> \<not> py_isspace (hd s) \<Longrightarrow> \<not> py_isspace (last s) \<Longrightarrow> py_strip s = s"
proof -
  assume s: "s \<noteq> []" "\<not> py_isspace (hd s)" "\<not> py_isspace (last s)"
  then have "py_lstrip s = s" by (cases s) (simp_all add: py_lstrip_def)
  moreover have "dropWhile py_isspace (rev s) = rev s" using s by (cases "rev s") (auto simp: hd_rev dest: sym)
  ultimately show ?thesis by (simp add: py_strip_def py_rstrip_def)
qed

lemma three_parts_split:
  "token_part a \<Longrightarrow> token_part b \<Longrightarrow> token_part c \<Longrightarrow> py_split (CHR ''.'') (a @ ''.'' @ b @ ''.'' @ c) = [a, b, c]"
  by (simp add: token_part_split_append token_part_split)

lemma ssv1_part: "token_part ''ssv1''"
  by code_simp

lemma token_job_id_new:
  assumes "token_part j" "token_part secret"
  shows "token_job_id (new_token secret j) = Inr j"
proof -
  have s: "py_split (CHR ''.'') (new_token secret j) = [''ssv1'', j, secret]"
    unfolding new_token_def TOKEN_PREFIX_def by (rule three_parts_split[OF ssv1_part assms])
  show ?thesis
    using assms by (simp add: token_job_id_def s token_part_strip token_part_def)
qed

lemma new_token_shape:
  assumes "token_part j" "token_part secret"
  shows "\<forall>c\<in>set (new_token secret j). \<not> py_isspace c" "new_token secret j \<noteq> []"
proof -
  have "\<forall>c\<in>set ''ssv1.''. \<not> py_isspace c" by code_simp
  then show "\<forall>c\<in>set (new_token secret j). \<not> py_isspace c"
    using assms by (auto simp: new_token_def TOKEN_PREFIX_def token_part_def)
  show "new_token secret j \<noteq> []" by (simp add: new_token_def TOKEN_PREFIX_def)
qed

lemma bearer_token_of_header:
  assumes ns: "\<forall>c\<in>set tok. \<not> py_isspace c" and ne: "tok \<noteq> []"
  shows "bearer_token (Some (''Bearer '' @ tok)) = Inr tok"
proof -
  have "\<not> py_isspace (CHR ''B'')" by code_simp
  moreover have "last (''Bearer '' @ tok) = last tok" using ne by simp
  ultimately have strip: "py_strip (''Bearer '' @ tok) = ''Bearer '' @ tok"
    using ns ne by (intro strip_keeps) (auto simp del: append_Cons append_Nil)
  have low: "py_lower ''Bearer '' = ''bearer ''" by code_simp
  have "startswith (py_lower (''Bearer '' @ tok)) ''bearer ''"
    unfolding startswith_iff using low by (auto simp: py_lower_def)
  moreover have "drop 7 (''Bearer '' @ tok) = tok" by simp
  ultimately show ?thesis
    using ne strip strip_no_space[OF ns] by (simp add: bearer_token_def)
qed

lemma bearer_token_no_space_around: "bearer_token h = Inr tok \<Longrightarrow> tok \<noteq> []"
  by (auto simp: bearer_token_def Let_def split: option.split_asm if_split_asm)

definition job_protected :: "job_store \<Rightarrow> str \<Rightarrow> str \<Rightarrow> job \<Rightarrow> bool" where
  "job_protected s t jid job =
     (startswith jid ''job_tc_'' \<and> store_load t jid s = Inr job \<and> text_set (j_auth_token job))"

text \<open>A request for a job made from a task code passes exactly when its bearer token
  is the job's token, names that job, and has not expired; no other header opens the job.\<close>

theorem protected_job_access:
  assumes p: "job_protected s t jid job"
  shows "enforce_job_auth now s t (Some jid) authorization = Inr () \<longleftrightarrow>
     (\<exists>token expires. bearer_token authorization = Inr token \<and> j_auth_token job = Some token \<and>
        token_job_id token = Inr jid \<and> j_auth_expires_at job = Some (IsoTime expires) \<and> now < expires)"
  using p
  by (auto simp: enforce_job_auth_def job_protected_def bindE_Inr_iff token_expired_def
           split: option.splits stamp.splits)

lemma redeemed_header:
  assumes r: "redeem env t code req (s, codes) = ((s1, codes1), Inr res)"
    and tok: "rd_token res = new_token secret (rd_job_id res)" "token_part secret" "token_part (rd_job_id res)"
  shows "bearer_token (Some (''Bearer '' @ rd_token res)) = Inr (rd_token res)"
    and "token_job_id (rd_token res) = Inr (rd_job_id res)" and "startswith (rd_job_id res) ''job_tc_''"
proof -
  show "bearer_token (Some (''Bearer '' @ rd_token res)) = Inr (rd_token res)"
    unfolding tok(1) by (rule bearer_token_of_header) (rule new_token_shape[OF tok(3,2)])+
  show "token_job_id (rd_token res) = Inr (rd_job_id res)"
    unfolding tok(1) by (rule token_job_id_new[OF tok(3,2)])
  show "startswith (rd_job_id res) ''job_tc_''"
    by (rule redeem_success[OF r]) (simp add: redeem_job_id_def startswith_def)
qed

text \<open>C21 (functional) The token of a redemption opens its job until exactly the expiry it names.\<close>

theorem redeemed_token_opens_its_job:
  assumes ids: "store_ids_ok s" and r: "redeem env t code req (s, codes) = ((s1, codes1), Inr res)"
    and tok: "rd_token res = new_token secret (rd_job_id res)" "token_part secret" "token_part (rd_job_id res)"
  shows "enforce_job_auth now s1 t (Some (rd_job_id res)) (Some (''Bearer '' @ rd_token res)) = Inr () \<longleftrightarrow>
           now < rd_expires_at res"
proof -
  obtain job where J: "store_load t (rd_job_id res) s1 = Inr job" "assert_redeemable (py_strip code) job = Inr ()"
     "j_auth_token job = Some (rd_token res)" "j_auth_expires_at job = Some (IsoTime (rd_expires_at res))"
    using redeemed_job_stored[OF ids r] by blast
  have "text_set (j_auth_token job)"
    using J(2) by (auto simp: assert_redeemable_def bindE_Inr_iff)
  then show ?thesis
    using redeemed_header[OF r tok] J
    by (auto simp: enforce_job_auth_def bindE_Inr_iff token_expired_def)
qed

lemma redeemed_token_opens_no_other_job:
  assumes r: "redeem env t code req (s, codes) = ((s1, codes1), Inr res)"
    and tok: "rd_token res = new_token secret (rd_job_id res)" "token_part secret" "token_part (rd_job_id res)"
    and p: "job_protected s2 t2 jid2 job2" and o: "jid2 \<noteq> rd_job_id res"
  shows "enforce_job_auth now s2 t2 (Some jid2) (Some (''Bearer '' @ rd_token res)) = Inl (AuthErr AuthTokenForbidden)"
  using redeemed_header[OF r tok] p o by (auto simp: job_protected_def enforce_job_auth_def)

section \<open>Admin tokens\<close>

text \<open>A closed token: no file, a damaged file, or a file that says it is revoked.\<close>

definition token_closed :: "str \<Rightarrow> at_store \<Rightarrow> bool" where
  "token_closed tid st =
     (case dict_get st tid of Some (AtObject payload) \<Rightarrow> token_revoked payload | _ \<Rightarrow> True)"

lemma check_secret_Inr:
  "check_secret env secret p = Inr u \<longleftrightarrow> \<not> token_revoked p \<and>
     (\<exists>hash. dict_get p ''secret_hash'' = Some (JStr hash) \<and> compare_digest hash (ae_sha256 env secret) = Inr True)"
  by (auto simp: check_secret_def bindE_Inr_iff split: option.splits json.splits)

lemma admit_token_Inr:
  "admit_token env token st = Inr (tid, p) \<longleftrightarrow>
     (\<exists>secret. parse_admin_token token = Inr (tid, secret) \<and> load_token_payload env tid st = Inr (Some p) \<and>
        check_secret env secret p = Inr ())"
  by (auto simp: admit_token_def bindE_Inr_iff split: option.splits)

lemma closed_refused: "token_closed tid st \<Longrightarrow> admit_token env token st \<noteq> Inr (tid, p)"
  by (auto simp: admit_token_Inr check_secret_Inr token_closed_def load_token_payload_def
           split: option.split_asm at_file.split_asm if_split_asm)

lemma revoked_stays [simp]: "k \<noteq> ''revoked_at'' \<Longrightarrow> token_revoked (dict_set p k v) = token_revoked p"
  by (simp add: token_revoked_def)

lemma revoked_payload_revoked: "\<not> blank (ae_iso env (ae_now env)) \<Longrightarrow> token_revoked (revoked_payload env p)"
  by (simp add: revoked_payload_def token_revoked_def nonblank_str_def)

datatype admin_op =
    OpIssue admin_env str
  | OpLogin admin_env str str str str
  | OpList admin_env
  | OpAuthenticate admin_env str
  | OpRequest admin_env "str option"
  | OpRevoke admin_env str
  | OpLogout admin_env str
  | OpDelete admin_env str

fun run_admin_op :: "admin_op \<Rightarrow> at_store \<Rightarrow> at_store" where
  "run_admin_op (OpIssue env name) st = fst (issue_token env name st)"
| "run_admin_op (OpLogin env eu ep u p) st = fst (admin_login env eu ep u p st)"
| "run_admin_op (OpList env) st = st"
| "run_admin_op (OpAuthenticate env token) st = fst (admin_authenticate env token st)"
| "run_admin_op (OpRequest env header) st = fst (require_admin_principal env header st)"
| "run_admin_op (OpRevoke env tid) st = fst (revoke_token env tid st)"
| "run_admin_op (OpLogout env token) st = fst (admin_logout env token st)"
| "run_admin_op (OpDelete env tid) st = fst (delete_token env tid st)"

text \<open>Clocks render to a visible text, and new ids are not the given one.\<close>

fun op_env :: "admin_op \<Rightarrow> admin_env" where
  "op_env (OpIssue env name) = env"
| "op_env (OpLogin env eu ep u p) = env"
| "op_env (OpList env) = env"
| "op_env (OpAuthenticate env token) = env"
| "op_env (OpRequest env header) = env"
| "op_env (OpRevoke env tid) = env"
| "op_env (OpLogout env token) = env"
| "op_env (OpDelete env tid) = env"

definition op_fresh :: "str \<Rightarrow> admin_op \<Rightarrow> bool" where
  "op_fresh tid op = (ae_uuid (op_env op) \<noteq> tid \<and> \<not> blank (ae_iso (op_env op) (ae_now (op_env op))))"

definition keeps_closed :: "str \<Rightarrow> (at_store, 'a) act \<Rightarrow> bool" where
  "keeps_closed tid m =
     (\<forall>st. dict_wf st \<longrightarrow> token_closed tid st \<longrightarrow> dict_wf (fst (m st)) \<and> token_closed tid (fst (m st)))"

named_theorems keeps_intros \<open>rules for keeps_closed\<close>

lemma keeps_ret [keeps_intros]: "keeps_closed tid (ret x)"
  by (simp add: keeps_closed_def ret_def)

lemma keeps_raise [keeps_intros]: "keeps_closed tid (raise_exn e)"
  by (simp add: keeps_closed_def raise_exn_def)

lemma keeps_lift [keeps_intros]: "keeps_closed tid (liftE r)"
  by (simp add: keeps_closed_def liftE_def)

lemma keeps_read [keeps_intros]: "keeps_closed tid (\<lambda>st. (st, f st))"
  by (simp add: keeps_closed_def)

lemma keeps_bind [keeps_intros]:
  "keeps_closed tid m \<Longrightarrow> (\<And>x. keeps_closed tid (f x)) \<Longrightarrow> keeps_closed tid (bindA m f)"
  unfolding keeps_closed_def bindA_def by (fastforce split: prod.splits sum.splits)

lemma keeps_if [keeps_intros]: "keeps_closed tid m \<Longrightarrow> keeps_closed tid n \<Longrightarrow> keeps_closed tid (if b then m else n)"
  by simp

lemma keeps_option [keeps_intros]:
  "keeps_closed tid m \<Longrightarrow> (\<And>y. keeps_closed tid (f y)) \<Longrightarrow> keeps_closed tid (case x of None \<Rightarrow> m | Some y \<Rightarrow> f y)"
  by (cases x) simp_all

lemma keeps_write:
  "tid' \<noteq> tid \<or> token_revoked p \<Longrightarrow> keeps_closed tid (write_token env operation tid' p)"
  by (auto simp: keeps_closed_def write_token_def token_closed_def)

lemma keeps_issue: "ae_uuid env \<noteq> tid \<Longrightarrow> keeps_closed tid (issue_token env name)"
  unfolding issue_token_def by (intro keeps_intros keeps_write) simp

lemma keeps_meta [keeps_intros]: "keeps_closed tid (meta_or_raise p)"
  unfolding meta_or_raise_def by (intro keeps_intros)

lemma keeps_revoke:
  "\<not> blank (ae_iso env (ae_now env)) \<Longrightarrow> keeps_closed tid (revoke_token env tid')"
  unfolding revoke_token_def Let_def by (intro keeps_intros keeps_write) (simp add: revoked_payload_revoked)

lemma keeps_authenticate: "keeps_closed tid (authenticate_token env token)"
proof -
  have "dict_wf (fst (authenticate_token env token st)) \<and> token_closed tid (fst (authenticate_token env token st))"
    if wf: "dict_wf st" and c: "token_closed tid st" for st
  proof (cases "admit_token env token st")
    case (Inl e)
    with wf c show ?thesis by (simp add: authenticate_token_def bindA_def)
  next
    case (Inr a)
    obtain tid' p where a: "a = (tid', p)" by (cases a)
    with Inr closed_refused[OF c] have "tid' \<noteq> tid" by auto
    then have "keeps_closed tid (touch_token env a)"
      unfolding touch_token_def a Let_def by (auto intro!: keeps_intros keeps_write)
    with Inr wf c show ?thesis by (simp add: authenticate_token_def bindA_def keeps_closed_def)
  qed
  then show ?thesis by (simp add: keeps_closed_def)
qed

lemma keeps_delete: "keeps_closed tid (delete_token env tid')"
  by (auto simp: keeps_closed_def delete_token_def token_closed_def)

lemma op_keeps_closed:
  assumes f: "op_fresh tid op" and wf: "dict_wf st" and c: "token_closed tid st"
  shows "dict_wf (run_admin_op op st) \<and> token_closed tid (run_admin_op op st)"
proof -
  have use: "dict_wf (fst (m st)) \<and> token_closed tid (fst (m st))" if "keeps_closed tid m" for m :: "(at_store, 'a) act"
    using that wf c by (simp add: keeps_closed_def)
  show ?thesis
  proof (cases op)
    case (OpIssue env name)
    with f use[OF keeps_issue] show ?thesis by (simp add: op_fresh_def)
  next
    case (OpLogin env eu ep u p)
    have "keeps_closed tid (admin_login env eu ep u p)"
      unfolding admin_login_def using f OpLogin by (intro keeps_intros keeps_issue) (simp add: op_fresh_def)
    with OpLogin use show ?thesis by simp
  next
    case (OpList env)
    with wf c show ?thesis by simp
  next
    case (OpAuthenticate env token)
    have "keeps_closed tid (admin_authenticate env token)"
      unfolding admin_authenticate_def by (intro keeps_intros keeps_authenticate)
    with OpAuthenticate use show ?thesis by simp
  next
    case (OpRequest env header)
    have "keeps_closed tid (require_admin_principal env header)"
      unfolding require_admin_principal_def admin_authenticate_def by (intro keeps_intros keeps_authenticate)
    with OpRequest use show ?thesis by simp
  next
    case (OpRevoke env tid')
    with f use[OF keeps_revoke] show ?thesis by (simp add: op_fresh_def)
  next
    case (OpLogout env token)
    have "keeps_closed tid (admin_logout env token)"
      unfolding admin_logout_def using f OpLogout
      by (intro keeps_intros keeps_authenticate keeps_revoke) (simp add: op_fresh_def)
    with OpLogout use show ?thesis by simp
  next
    case (OpDelete env tid')
    with use[OF keeps_delete] show ?thesis by simp
  qed
qed

lemma ops_keep_closed:
  "list_all (op_fresh tid) ops \<Longrightarrow> dict_wf st \<Longrightarrow> token_closed tid st \<Longrightarrow> token_closed tid (fold run_admin_op ops st)"
  by (induction ops arbitrary: st) (auto dest: op_keeps_closed)

lemma revoke_token_Inr:
  assumes "revoke_token env tid st = (st1, Inr m)"
  obtains p where "load_token_payload env tid st = Inr (Some p)"
    "st1 = dict_set st tid (AtObject (revoked_payload env p))" "\<not> ae_fault env"
proof -
  obtain found where found: "load_token_payload env tid st = Inr found"
    using assms by (cases "load_token_payload env tid st") (simp_all add: revoke_token_def bindA_def)
  then obtain p where p: "found = Some p"
    using assms by (cases found) (simp_all add: revoke_token_def bindA_def raise_exn_def)
  show thesis
    by (rule that[of p])
       (use assms found p in \<open>auto simp: revoke_token_def bindA_def write_token_def meta_or_raise_def Let_def
          raise_exn_def ret_def split: if_split_asm option.split_asm\<close>)
qed

lemma revoke_closes:
  assumes "\<not> blank (ae_iso env (ae_now env))" "revoke_token env tid st = (st1, Inr m)"
  shows "token_closed tid st1"
  by (rule revoke_token_Inr[OF assms(2)]) (simp add: token_closed_def revoked_payload_revoked assms(1))

text \<open>C33 (safety) A revoked admin token is never accepted again, whatever operations follow one another.\<close>

theorem revoked_token_stays_refused:
  assumes "dict_wf st" "revoke_token env tid st = (st1, Inr m)" "\<not> blank (ae_iso env (ae_now env))"
    and "list_all (op_fresh tid) ops" "parse_admin_token token = Inr (tid, secret)"
  shows "\<exists>e. authenticate_token env2 token (fold run_admin_op ops st1) = (fold run_admin_op ops st1, Inl e)"
proof -
  have "dict_wf st1"
    by (rule revoke_token_Inr[OF assms(2)]) (simp add: assms(1))
  then have c: "token_closed tid (fold run_admin_op ops st1)"
    using ops_keep_closed[OF assms(4)] revoke_closes[OF assms(3,2)] by blast
  have "admit_token env2 token s \<noteq> Inr a" if "token_closed tid s" for s a
    using closed_refused[OF that] assms(5) by (cases a) (auto simp: admit_token_Inr)
  then obtain e where "admit_token env2 token (fold run_admin_op ops st1) = Inl e"
    using c by (cases "admit_token env2 token (fold run_admin_op ops st1)") auto
  then show ?thesis by (simp add: authenticate_token_def bindA_def)
qed

lemma admit_again:
  assumes a: "admit_token env token st = Inr (tid, p)"
  shows "admit_token env token (dict_set st1 tid (AtObject (dict_set p ''last_used_at'' v))) =
           Inr (tid, dict_set p ''last_used_at'' v)"
proof -
  have P: "load_token_payload env tid st = Inr (Some p)" using a by (auto simp: admit_token_Inr)
  then have "py_strip (payload_id env p) = tid"
    by (auto simp: load_token_payload_def split: option.split_asm at_file.split_asm if_split_asm)
  then have l: "load_token_payload env tid (dict_set st1 tid (AtObject (dict_set p ''last_used_at'' v))) =
      Inr (Some (dict_set p ''last_used_at'' v))"
    by (simp add: load_token_payload_def payload_id_def)
  show ?thesis using a by (auto simp: admit_token_Inr check_secret_Inr l)
qed

text \<open>Two server processes: one has read and checked the file of a token, the other revokes the token, the
  first writes the record it read back. The revocation is gone and the token is accepted again.\<close>

theorem concurrent_use_undoes_revocation:
  assumes "admit_token env token st = Inr (tid, p)"
    and "revoke_token env2 tid st = (st1, Inr m)"
    and "touch_token env (tid, p) st1 = (st2, Inr m2)"
  shows "authenticate_token env token st2 = (st2, Inr m2)"
proof -
  let ?p = "dict_set p ''last_used_at'' (JStr (ae_iso env (ae_now env)))"
  have nf: "\<not> ae_fault env" using assms(3) by (auto simp: touch_token_def Let_def bindA_def write_token_def)
  then have st2: "st2 = dict_set st1 tid (AtObject ?p)" and m2: "meta_from_payload ?p = Some m2"
    using assms(3) by (auto simp: touch_token_def Let_def bindA_def write_token_def meta_or_raise_def raise_exn_def ret_def
        split: option.split_asm)
  have a: "admit_token env token st2 = Inr (tid, ?p)"
    unfolding st2 by (rule admit_again[OF assms(1)])
  have "dict_set ?p ''last_used_at'' (JStr (ae_iso env (ae_now env))) = ?p" by (rule dict_set_same) simp
  moreover have "dict_set st2 tid (AtObject ?p) = st2" by (rule dict_set_same) (simp add: st2)
  ultimately show ?thesis
    using a m2 nf by (simp add: authenticate_token_def touch_token_def bindA_def write_token_def meta_or_raise_def ret_def)
qed

text \<open>A password with a character outside ASCII is not refused: the comparison raises \<open>TypeError\<close>.\<close>

theorem non_ascii_password_raises:
  assumes "\<not> blank expected" "\<exists>c\<in>set password. 128 \<le> code_of c"
  shows "admin_login env username expected username password st = (st, Inl (PyErr PyTypeError))"
  using assms by (auto simp: admin_login_def compare_digest_def liftE_def bindA_def)

section \<open>Concrete runs\<close>

lemma redeemed_token_opens_its_job_witness:
  "enforce_job_auth 604805 (fst (fst (redeem (sample_redeem 6) ''acme'' ''tc_aa'' ''r'' (Map.empty, None)))) ''acme''
     (Some ''job_tc_tc_aa0123456789a'') (Some ''Bearer ssv1.job_tc_tc_aa0123456789a.s'') = Inr () \<longleftrightarrow>
   604805 < (604806 :: int)"
proof -
  let ?x = "redeem (sample_redeem 6) ''acme'' ''tc_aa'' ''r'' (Map.empty, None)"
  let ?res = "\<lparr>rd_job_id = ''job_tc_tc_aa0123456789a'', rd_token = ''ssv1.job_tc_tc_aa0123456789a.s'',
               rd_expires_at = 604806, rd_is_idempotent = False\<rparr>"
  have "snd ?x = Inr ?res" by code_simp
  then have x: "?x = ((fst (fst ?x), snd (fst ?x)), Inr ?res)" by (simp add: prod_eq_iff)
  have ids: "store_ids_ok Map.empty" by (simp add: store_ids_ok_def)
  have tok: "rd_token ?res = new_token ''s'' (rd_job_id ?res)" by code_simp
  have parts: "token_part ''s''" "token_part (rd_job_id ?res)" by code_simp+
  from redeemed_token_opens_its_job[OF ids x tok parts, of 604805] show ?thesis by simp
qed

definition sample_admin :: "int \<Rightarrow> admin_env" where
  "sample_admin now = \<lparr>ae_now = now, ae_iso = (\<lambda>_. ''t''), ae_sha256 = (\<lambda>s. ''h'' @ s), ae_uuid = ''b2'', ae_secret = ''x'',
     ae_str = (\<lambda>_. []), ae_fault = False\<rparr>"

definition sample_tokens :: at_store where
  "sample_tokens = fst (issue_token (sample_admin 1\<lparr>ae_uuid := ''a1''\<rparr>) ''ops'' [])"

definition sample_revoked :: at_store where
  "sample_revoked = fst (revoke_token (sample_admin 2) ''a1'' sample_tokens)"

lemma revoked_token_stays_refused_witness:
  "\<exists>e. authenticate_token (sample_admin 9) ''ssa1.a1.x''
        (fold run_admin_op [OpIssue (sample_admin 3) ''new'', OpAuthenticate (sample_admin 4) ''ssa1.a1.x''] sample_revoked)
      = (fold run_admin_op [OpIssue (sample_admin 3) ''new'', OpAuthenticate (sample_admin 4) ''ssa1.a1.x''] sample_revoked, Inl e)"
proof -
  have wf: "dict_wf sample_tokens" by code_simp
  have "isl (snd (revoke_token (sample_admin 2) ''a1'' sample_tokens)) = False" by code_simp
  then obtain m where r: "revoke_token (sample_admin 2) ''a1'' sample_tokens = (sample_revoked, Inr m)"
    unfolding sample_revoked_def by (cases "revoke_token (sample_admin 2) ''a1'' sample_tokens"; cases "snd (revoke_token (sample_admin 2) ''a1'' sample_tokens)") auto
  have iso: "\<not> blank (ae_iso (sample_admin 2) (ae_now (sample_admin 2)))" by code_simp
  have ops: "list_all (op_fresh ''a1'') [OpIssue (sample_admin 3) ''new'', OpAuthenticate (sample_admin 4) ''ssa1.a1.x'']"
    by code_simp
  have p: "parse_admin_token ''ssa1.a1.x'' = Inr (''a1'', ''x'')" by code_simp
  show ?thesis by (rule revoked_token_stays_refused[OF wf r iso ops p])
qed

lemma sample_token_was_accepted: "\<not> isl (snd (authenticate_token (sample_admin 2) ''ssa1.a1.x'' sample_tokens))"
  by code_simp

end
