(* ===== verification/DatasetPreview.thy ===== *)
theory DatasetPreview
  imports InputsManifest StataRun
begin

text \<open>
  Previews of a data set: domain/dataset_preview.py and domain/excel_file_checks.py.

  pandas, openpyxl and xlrd read the files; what they return or raise is the environment. A data frame is
  its columns, each with the text of its name (\<open>None\<close> where the name is no name: \<open>None\<close> or an integer) and its
  type, and its rows of cells. Ratios are compared as fractions: for fewer than \<open>2^50\<close> cells the code's
  float comparison agrees.
\<close>

section \<open>Values\<close>

datatype cell =
    CellNone
  | CellStr str
  | CellInt int
  | CellFloat pyfloat
  | CellBool bool
  | CellDate str
  | CellItem cell
  | CellOther str

fun jsonable_value :: "cell \<Rightarrow> json" where
  "jsonable_value CellNone = JNull"
| "jsonable_value (CellStr s) = JStr s"
| "jsonable_value (CellInt i) = JInt i"
| "jsonable_value (CellBool b) = JBool b"
| "jsonable_value (CellFloat (Finite r)) = JFloat (Finite r)"
| "jsonable_value (CellFloat _) = JNull"
| "jsonable_value (CellDate text) = JStr text"
| "jsonable_value (CellItem c) = jsonable_value c"
| "jsonable_value (CellOther text) = JStr text"

section \<open>Column names\<close>

definition unnamed :: "str \<Rightarrow> bool" where
  "unnamed s =
     (startswith s ''Unnamed:'' \<and>
      (let rest = dropWhile py_isspace (drop 8 s) in rest \<noteq> [] \<and> list_all is_digit rest))"

definition column_base :: "nat \<Rightarrow> str option \<Rightarrow> str" where
  "column_base idx raw =
     (let candidate = (case raw of
          None \<Rightarrow> []
        | Some s \<Rightarrow> py_strip (map (\<lambda>c. if c = CHR 0x0A then CHR '' '' else c) s))
      in if candidate = [] \<or> py_lower candidate = ''nan'' \<or> unnamed candidate then ''col_'' @ show_nat idx else candidate)"

fun normalize_names_from :: "nat \<Rightarrow> (str, nat) dict \<Rightarrow> str option list \<Rightarrow> str list" where
  "normalize_names_from idx seen [] = []"
| "normalize_names_from idx seen (raw # raws) =
     (let base = column_base idx raw;
          count = (case dict_get seen base of None \<Rightarrow> 0 | Some n \<Rightarrow> n) + 1
      in (if count = 1 then base else base @ ''_'' @ show_nat count)
           # normalize_names_from (Suc idx) (dict_set seen base count) raws)"

definition normalize_column_names :: "str option list \<Rightarrow> str list" where
  "normalize_column_names raw_names = normalize_names_from 1 [] raw_names"

section \<open>Frames\<close>

datatype dtype = BoolType | IntType | FloatType | DateType | StringType | ObjectType | OtherType

fun inferred_type :: "dtype \<Rightarrow> str" where
  "inferred_type BoolType = ''boolean''"
| "inferred_type IntType = ''integer''"
| "inferred_type FloatType = ''number''"
| "inferred_type DateType = ''datetime''"
| "inferred_type StringType = ''string''"
| "inferred_type ObjectType = ''string''"
| "inferred_type OtherType = ''unknown''"

record frame =
  fr_names :: "str option list"
  fr_types :: "dtype list"
  fr_rows :: "cell list list"

record named_frame =
  nf_columns :: "(str \<times> dtype) list"
  nf_rows :: "cell list list"

definition apply_normalized_columns :: "frame \<Rightarrow> named_frame" where
  "apply_normalized_columns df =
     \<lparr>nf_columns = zip (normalize_column_names (fr_names df)) (fr_types df), nf_rows = fr_rows df\<rparr>"

text \<open>\<open>df[col]\<close> is a column only where the name is unique; otherwise a frame, which has no \<open>dtype\<close>.\<close>

definition infer_columns :: "nat \<Rightarrow> named_frame \<Rightarrow> exn + (str \<times> str) list" where
  "infer_columns columns df =
     (let limited = take columns (nf_columns df)
      in if distinct (map fst limited) then Inr (map (\<lambda>(name, t). (name, inferred_type t)) limited)
         else Inl (PyErr PyAttributeError))"

definition sample_row :: "str list \<Rightarrow> cell list \<Rightarrow> jobj" where
  "sample_row names row = foldl (\<lambda>d (k, c). dict_set d k (jsonable_value c)) [] (zip names row)"

definition sample_rows :: "nat \<Rightarrow> named_frame \<Rightarrow> jobj list" where
  "sample_rows columns df = map (sample_row (map fst (take columns (nf_columns df)))) (nf_rows df)"

record dataset_preview =
  dp_row_count :: "int option"
  dp_column_count :: "int option"
  dp_columns :: "(str \<times> str) list"
  dp_sample_rows :: "jobj list"
  dp_sheet_names :: "str list"
  dp_selected_sheet :: "str option"
  dp_header_row :: "bool option"

definition frame_preview :: "nat \<Rightarrow> named_frame \<Rightarrow> int option \<Rightarrow> int option \<Rightarrow> exn + dataset_preview" where
  "frame_preview columns df row_count column_count =
     bindE (infer_columns columns df) (\<lambda>cols.
       Inr \<lparr>dp_row_count = row_count, dp_column_count = column_count, dp_columns = cols,
            dp_sample_rows = sample_rows columns df, dp_sheet_names = [], dp_selected_sheet = None,
            dp_header_row = None\<rparr>)"

section \<open>Workbooks\<close>

record sheet =
  sh_title :: str
  sh_visible :: bool
  sh_rows :: nat
  sh_cols :: nat
  sh_first :: "str option list"
  sh_second :: "str option list"

text \<open>A file: its path in the job directory and its bytes.\<close>

type_synonym data_file = "str \<times> str"

record preview_env =
  pv_unreadable :: "str \<Rightarrow> bool"
  pv_read_csv :: "data_file \<Rightarrow> nat \<Rightarrow> bool \<Rightarrow> exn + frame"
  pv_open_book :: "data_file \<Rightarrow> exn + sheet list"
  pv_read_excel :: "data_file \<Rightarrow> nat \<Rightarrow> str option \<Rightarrow> bool \<Rightarrow> exn + frame"
  pv_stata_shape :: "data_file \<Rightarrow> exn + nat \<times> nat"
  pv_stata_chunk :: "data_file \<Rightarrow> nat \<Rightarrow> exn + frame option"

definition is_xls :: "data_file \<Rightarrow> bool" where
  "is_xls file = (py_lower (path_suffix (fst file)) = ''.xls'')"

definition excel_sheet_names :: "preview_env \<Rightarrow> data_file \<Rightarrow> exn + str list" where
  "excel_sheet_names env file =
     bindE (pv_open_book env file) (\<lambda>sheets.
       Inr (filter (\<lambda>name. \<not> blank name)
              (map sh_title (if is_xls file then sheets else filter sh_visible sheets))))"

record sheet_meta =
  sm_names :: "str list"
  sm_selected :: "str option"
  sm_rows :: "nat option"
  sm_cols :: "nat option"
  sm_first :: "str option list"
  sm_second :: "str option list"

definition select_sheet :: "str option \<Rightarrow> str list \<Rightarrow> str option" where
  "select_sheet sheet_name names =
     (case sheet_name of
        Some s \<Rightarrow> (if s \<in> set names then Some s else case names of [] \<Rightarrow> None | n # _ \<Rightarrow> Some n)
      | None \<Rightarrow> (case names of [] \<Rightarrow> None | n # _ \<Rightarrow> Some n))"

definition excel_sheet_meta :: "preview_env \<Rightarrow> data_file \<Rightarrow> str option \<Rightarrow> exn + sheet_meta" where
  "excel_sheet_meta env file sheet_name =
     bindE (excel_sheet_names env file) (\<lambda>names.
       case select_sheet sheet_name names of
         None \<Rightarrow> Inr \<lparr>sm_names = names, sm_selected = None, sm_rows = None, sm_cols = None, sm_first = [], sm_second = []\<rparr>
       | Some selected \<Rightarrow>
           bindE (pv_open_book env file) (\<lambda>sheets.
             case filter (\<lambda>sh. sh_title sh = selected) sheets of
               [] \<Rightarrow> Inl (PyErr PyKeyError)
             | sh # _ \<Rightarrow>
                 Inr \<lparr>sm_names = names, sm_selected = Some selected, sm_rows = Some (sh_rows sh), sm_cols = Some (sh_cols sh),
                      sm_first = (if is_xls file \<and> sh_rows sh < 1 then [] else sh_first sh),
                      sm_second = (if is_xls file \<and> sh_rows sh < 2 then [] else sh_second sh)\<rparr>))"

section \<open>Whether the first row is a header\<close>

definition all_digits :: "str \<Rightarrow> bool" where
  "all_digits s = (s \<noteq> [] \<and> list_all is_digit s)"

text \<open>\<open>[-+]?\d+(\.\d+)?\<close>\<close>

definition looks_numeric :: "str \<Rightarrow> bool" where
  "looks_numeric value =
     (let v = py_strip value; u = (case v of c # cs \<Rightarrow> (if c = CHR ''-'' \<or> c = CHR ''+'' then cs else v) | [] \<Rightarrow> [])
      in case py_split (CHR ''.'') u of
           [whole] \<Rightarrow> all_digits whole
         | [whole, part] \<Rightarrow> all_digits whole \<and> all_digits part
         | _ \<Rightarrow> False)"

definition cell_texts :: "str option list \<Rightarrow> str list" where
  "cell_texts row = filter (\<lambda>v. v \<noteq> []) (map (\<lambda>v. case v of None \<Rightarrow> [] | Some s \<Rightarrow> py_strip s) row)"

definition infer_header_row :: "str option list \<Rightarrow> str option list \<Rightarrow> bool" where
  "infer_header_row first_row second_row =
     (let first = cell_texts first_row; second = cell_texts second_row;
          n = length first; m = length second;
          string_like = length (filter (\<lambda>v. \<not> looks_numeric v) first);
          unique = card (set first);
          numeric_second = length (filter looks_numeric second)
      in if n = 0 then False
         else if 7 * n \<le> 10 * string_like \<and> 7 * n \<le> 10 * unique then True
         else n \<le> 2 * string_like \<and> 0 < m \<and> m \<le> 2 * numeric_second)"

section \<open>The previews\<close>

text \<open>The number of lines of a file: every newline ends one, and what follows the last one is one more.\<close>

definition line_count :: "str \<Rightarrow> nat" where
  "line_count data = length (filter (\<lambda>c. c = CHR 0x0A) data) + (if data = [] \<or> last data = CHR 0x0A then 0 else 1)"

definition file_bytes :: "preview_env \<Rightarrow> data_file \<Rightarrow> str option" where
  "file_bytes env file = (if pv_unreadable env (fst file) then None else Some (snd file))"

definition infer_row_count_csv :: "preview_env \<Rightarrow> data_file \<Rightarrow> bool \<Rightarrow> int option" where
  "infer_row_count_csv env file header_row =
     (case file_bytes env file of
        None \<Rightarrow> None
      | Some data \<Rightarrow> Some (max (int (line_count data) - (if header_row then 1 else 0)) 0))"

definition caught_width :: "exn \<Rightarrow> bool" where
  "caught_width e = (e \<in> {PyErr PyValueError, PyErr PyOSError, PyErr PyFileNotFound})"

definition csv_preview :: "preview_env \<Rightarrow> data_file \<Rightarrow> nat \<Rightarrow> nat \<Rightarrow> bool \<Rightarrow> exn + dataset_preview" where
  "csv_preview env file rows columns header_row =
     bindE (pv_read_csv env file rows header_row) (\<lambda>df.
     bindE (case pv_read_csv env file 0 header_row of
              Inr header_df \<Rightarrow> Inr (length (fr_names header_df))
            | Inl e \<Rightarrow> (if caught_width e then Inr (length (fr_names df)) else Inl e)) (\<lambda>width.
       frame_preview columns (apply_normalized_columns df) (infer_row_count_csv env file header_row) (Some (int width))))"

text \<open>Without a sheet to read, pandas returns a dictionary of frames, whose columns cannot be set.\<close>

definition excel_preview ::
  "preview_env \<Rightarrow> data_file \<Rightarrow> nat \<Rightarrow> nat \<Rightarrow> str option \<Rightarrow> bool option \<Rightarrow> exn + dataset_preview" where
  "excel_preview env file rows columns sheet_name header_row =
     bindE (excel_sheet_meta env file sheet_name) (\<lambda>m.
       let effective_header = (case header_row of Some b \<Rightarrow> b | None \<Rightarrow> infer_header_row (sm_first m) (sm_second m))
       in case sm_selected m of
            None \<Rightarrow> bindE (pv_read_excel env file rows None effective_header) (\<lambda>_. Inl (PyErr PyAttributeError))
          | Some selected \<Rightarrow>
              bindE (pv_read_excel env file rows (Some selected) effective_header) (\<lambda>df.
              bindE (frame_preview columns (apply_normalized_columns df)
                       (map_option (\<lambda>r. max (int r - (if effective_header then 1 else 0)) 0) (sm_rows m))
                       (map_option int (sm_cols m))) (\<lambda>p.
                Inr (p\<lparr>dp_sheet_names := sm_names m, dp_selected_sheet := Some selected,
                       dp_header_row := Some effective_header\<rparr>))))"

definition empty_frame :: frame where
  "empty_frame = \<lparr>fr_names = [], fr_types = [], fr_rows = []\<rparr>"

definition dta_preview :: "preview_env \<Rightarrow> data_file \<Rightarrow> nat \<Rightarrow> nat \<Rightarrow> exn + dataset_preview" where
  "dta_preview env file rows columns =
     bindE (case pv_stata_shape env file of
              Inr (nobs, nvar) \<Rightarrow> Inr (Some (int nobs), Some (int nvar))
            | Inl e \<Rightarrow> (if caught_width e then Inr (None, None) else Inl e)) (\<lambda>(row_count, column_count).
     bindE (pv_stata_chunk env file rows) (\<lambda>chunk.
       frame_preview columns (apply_normalized_columns (case chunk of Some df \<Rightarrow> df | None \<Rightarrow> empty_frame))
         row_count column_count))"

definition dataset_preview_with_options ::
  "preview_env \<Rightarrow> data_file \<Rightarrow> str \<Rightarrow> nat \<Rightarrow> nat \<Rightarrow> str option \<Rightarrow> bool option \<Rightarrow> exn + dataset_preview" where
  "dataset_preview_with_options env file fmt rows columns sheet_name header_row =
     (if fmt = ''csv'' then csv_preview env file rows columns (header_row \<noteq> Some False)
      else if fmt = ''excel'' then excel_preview env file rows columns sheet_name header_row
      else if fmt = ''dta'' then dta_preview env file rows columns
      else Inl (PyErr PyValueError))"

section \<open>Encrypted workbooks\<close>

definition ole_signature :: str where
  "ole_signature = map char_of [0xD0, 0xCF, 0x11, 0xE0, 0xA1, 0xB1, 0x1A, 0xE1 :: nat]"

definition looks_like_encrypted_xlsx :: "preview_env \<Rightarrow> data_file \<Rightarrow> bool" where
  "looks_like_encrypted_xlsx env file =
     (py_lower (path_suffix (fst file)) = ''.xlsx'' \<and>
      (case file_bytes env file of None \<Rightarrow> False | Some data \<Rightarrow> take 8 data = ole_signature))"

end
