(* ===== verification/JobInputs.thy ===== *)
theory JobInputs
  imports UploadSessions DatasetPreview
begin

text \<open>
  The inputs of a job: uploading data sets (domain/job_inputs_service.py), the sheet options of a manifest
  (domain/inputs_manifest_dataset_options.py), choosing a sheet (domain/inputs_sheet_selection_service.py),
  the preview (domain/inputs_preview_datasets.py), and what drafting reads from the uploads
  (domain/draft_inputs_introspection.py, domain/draft_column_candidates_v2.py).

  The state is that of the upload sessions; files of a job other than the manifest are bytes. \<open>ie_loads\<close>
  is \<open>json.loads\<close>, \<open>ie_dumps\<close> the text an artifact is written as.
\<close>

section \<open>Environment\<close>

record inputs_env =
  ie_upload :: upload_env
  ie_preview :: preview_env
  ie_loads :: "str \<Rightarrow> json option"
  ie_dumps :: "json \<Rightarrow> str"
  ie_garbage :: str

definition norm_rel :: "str \<Rightarrow> str" where
  "norm_rel rel = py_join ''/'' (posix_parts rel)"

datatype stored = StoredJson json_file | StoredBytes str

definition stored_file :: "inputs_dir \<Rightarrow> str \<Rightarrow> stored option" where
  "stored_file d rel =
     (if norm_rel rel = MANIFEST_REL_PATH then map_option StoredJson (id_manifest d)
      else map_option StoredBytes (dict_get (id_datasets d) (norm_rel rel)))"

fun stored_bytes :: "inputs_env \<Rightarrow> stored \<Rightarrow> str" where
  "stored_bytes env (StoredBytes b) = b"
| "stored_bytes env (StoredJson (JsonDoc v)) = ie_dumps env v"
| "stored_bytes env (StoredJson NotJson) = ie_garbage env"

definition resolve_for_read :: "str \<Rightarrow> str \<Rightarrow> str \<Rightarrow> upload_world \<Rightarrow> exn + stored" where
  "resolve_for_read t j rel w =
     (if \<not> is_safe_job_rel_path rel then Inl (InErr InputPathUnsafe)
      else if \<not> job_dir_exists t j w then Inl (StoreErr JobNotFound)
      else case stored_file (uw_dirs w (t, j)) rel of
             None \<Rightarrow> Inl (PyErr PyFileNotFound)
           | Some s \<Rightarrow> Inr s)"

definition read_manifest_json :: "inputs_env \<Rightarrow> str \<Rightarrow> stored \<Rightarrow> exn + jobj" where
  "read_manifest_json env rel s =
     (if pv_unreadable (ie_preview env) rel then Inl (PyErr PyOSError)
      else case (case s of StoredJson (JsonDoc v) \<Rightarrow> Some v | StoredJson NotJson \<Rightarrow> None | StoredBytes b \<Rightarrow> ie_loads env b) of
             Some (JObj m) \<Rightarrow> Inr m
           | _ \<Rightarrow> Inl (PyErr PyValueError))"

text \<open>\<open>write_artifact_json\<close> of the job store at any path.\<close>

definition write_json_at :: "inputs_env \<Rightarrow> str \<Rightarrow> str \<Rightarrow> str \<Rightarrow> jobj \<Rightarrow> (upload_world, unit) act" where
  "write_json_at env t j rel m w =
     (if \<not> is_safe_job_rel_path rel then (w, Inl (ArtErr ArtifactPathUnsafe))
      else case check_job_ids t j of
        Inl e \<Rightarrow> (w, Inl e)
      | Inr _ \<Rightarrow>
          (if w_store (uw_world w) (t, j) = None then (w, Inl (StoreErr JobNotFound))
           else if ue_write_fault (ie_upload env) rel then (w, Inl (StoreErr (JobStoreIO ''artifact_write'')))
           else let d = uw_dirs w (t, j)
                in (set_dir t j
                      (if norm_rel rel = MANIFEST_REL_PATH then d\<lparr>id_manifest := Some (JsonDoc (JObj m))\<rparr>
                       else d\<lparr>id_datasets := dict_set (id_datasets d) (norm_rel rel) (ie_dumps env (JObj m))\<rparr>) w,
                    Inr ())))"

definition is_store_io :: "exn \<Rightarrow> bool" where
  "is_store_io e = (case e of StoreErr (JobStoreIO _) \<Rightarrow> True | _ \<Rightarrow> False)"

text \<open>\<open>except JobStoreIOError \<dots> raise InputStorageFailedError\<close>\<close>

definition storing :: "('s, 'a) act \<Rightarrow> ('s, 'a) act" where
  "storing m s =
     (case m s of
        (s', Inl e) \<Rightarrow> (s', Inl (if is_store_io e then InErr InputStorageFailed else e))
      | r \<Rightarrow> r)"

text \<open>\<open>except\<close> clauses: the exceptions of the given class become one other exception.\<close>

definition recast :: "(exn \<Rightarrow> bool) \<Rightarrow> exn \<Rightarrow> exn + 'a \<Rightarrow> exn + 'a" where
  "recast caught e' r = (case r of Inl e \<Rightarrow> Inl (if caught e then e' else e) | Inr x \<Rightarrow> Inr x)"

definition os_or_value :: "exn \<Rightarrow> bool" where
  "os_or_value e = (e \<in> {PyErr PyFileNotFound, PyErr PyOSError, PyErr PyValueError})"

section \<open>Sheet options of a manifest\<close>

definition sheet_option :: "json option \<Rightarrow> str option" where
  "sheet_option v = (case v of Some (JStr s) \<Rightarrow> (if blank s then None else Some (py_strip s)) | _ \<Rightarrow> None)"

definition bool_option :: "json option \<Rightarrow> bool option" where
  "bool_option v = (case v of Some (JBool b) \<Rightarrow> Some b | _ \<Rightarrow> None)"

definition item_options :: "jobj \<Rightarrow> str option \<times> bool option" where
  "item_options item = (sheet_option (dict_get item ''sheet_name''), bool_option (dict_get item ''header_row''))"

definition has_dataset_key :: "str \<Rightarrow> jobj \<Rightarrow> bool" where
  "has_dataset_key key item = (dict_get item ''dataset_key'' = Some (JStr key))"

definition is_primary :: "jobj \<Rightarrow> bool" where
  "is_primary item = (dict_get item ''role'' = Some (JStr ''primary_dataset''))"

fun find_item :: "(jobj \<Rightarrow> bool) \<Rightarrow> json list \<Rightarrow> jobj option" where
  "find_item P [] = None"
| "find_item P (JObj item # items) = (if P item then Some item else find_item P items)"
| "find_item P (_ # items) = find_item P items"

definition dataset_details :: "jobj \<Rightarrow> str \<Rightarrow> (str \<times> str \<times> str \<times> str) option" where
  "dataset_details manifest dataset_key =
     (case dict_get manifest ''datasets'' of
        Some (JList items) \<Rightarrow>
          (let target = py_strip dataset_key
           in if target = [] then None
              else case find_item (has_dataset_key target) items of
                     None \<Rightarrow> None
                   | Some item \<Rightarrow>
                       (case details_of item of
                          None \<Rightarrow> None
                        | Some (rel_path, fmt, original_name) \<Rightarrow>
                            Some (rel_path, fmt, original_name,
                                  case present_text item ''role'' of None \<Rightarrow> ''other'' | Some r \<Rightarrow> r)))
      | _ \<Rightarrow> None)"

definition primary_dataset_key :: "jobj \<Rightarrow> str option" where
  "primary_dataset_key manifest =
     (case dict_get manifest ''datasets'' of
        Some (JList items) \<Rightarrow>
          (case find_item is_primary items of None \<Rightarrow> None | Some item \<Rightarrow> present_text item ''dataset_key'')
      | _ \<Rightarrow> None)"

definition dataset_excel_options :: "jobj \<Rightarrow> str \<Rightarrow> str option \<times> bool option" where
  "dataset_excel_options manifest dataset_key =
     (case dict_get manifest ''datasets'' of
        Some (JList items) \<Rightarrow>
          (case find_item (has_dataset_key dataset_key) items of None \<Rightarrow> (None, None) | Some item \<Rightarrow> item_options item)
      | _ \<Rightarrow> (None, None))"

definition primary_dataset_excel_options :: "jobj \<Rightarrow> str option \<times> bool option" where
  "primary_dataset_excel_options manifest =
     (let in_list = (case dict_get manifest ''datasets'' of Some (JList items) \<Rightarrow> find_item is_primary items | _ \<Rightarrow> None)
      in case in_list of
           Some item \<Rightarrow> item_options item
         | None \<Rightarrow>
             (case dict_get manifest ''primary_dataset'' of
                Some (JObj primary) \<Rightarrow> item_options primary
              | _ \<Rightarrow> (sheet_option (dict_get manifest ''primary_dataset_sheet_name''),
                      bool_option (dict_get manifest ''primary_dataset_header_row''))))"

definition put_option :: "str \<Rightarrow> json option \<Rightarrow> jobj \<Rightarrow> jobj" where
  "put_option key v d = (case v of None \<Rightarrow> dict_del d key | Some x \<Rightarrow> dict_set d key x)"

definition set_sheet_options :: "str option \<Rightarrow> bool option \<Rightarrow> jobj \<Rightarrow> jobj" where
  "set_sheet_options sheet_name header_row item =
     put_option ''header_row'' (map_option JBool header_row) (put_option ''sheet_name'' (map_option JStr sheet_name) item)"

text \<open>The loop that updates the first matching item; \<open>None\<close> where nothing matched.\<close>

fun update_first :: "(jobj \<Rightarrow> bool) \<Rightarrow> (jobj \<Rightarrow> jobj) \<Rightarrow> json list \<Rightarrow> json list option" where
  "update_first P f [] = None"
| "update_first P f (raw # raws) =
     (case raw of
        JObj item \<Rightarrow> (if P item then Some (JObj (f item) # raws) else map_option ((#) raw) (update_first P f raws))
      | _ \<Rightarrow> map_option ((#) raw) (update_first P f raws))"

definition set_dataset_excel_options :: "jobj \<Rightarrow> str \<Rightarrow> str option \<Rightarrow> bool option \<Rightarrow> exn + jobj" where
  "set_dataset_excel_options manifest dataset_key sheet_name header_row =
     (case dict_get manifest ''datasets'' of
        Some (JList items) \<Rightarrow>
          (case update_first (has_dataset_key dataset_key) (set_sheet_options sheet_name header_row) items of
             None \<Rightarrow> Inl (PyErr PyValueError)
           | Some items' \<Rightarrow> Inr (dict_set manifest ''datasets'' (JList items')))
      | _ \<Rightarrow> Inl (PyErr PyValueError))"

definition set_primary_dataset_excel_options :: "jobj \<Rightarrow> str option \<Rightarrow> bool option \<Rightarrow> jobj" where
  "set_primary_dataset_excel_options manifest sheet_name header_row =
     (case dict_get manifest ''datasets'' of
        Some (JList items) \<Rightarrow>
          (case update_first is_primary (set_sheet_options sheet_name header_row) items of
             None \<Rightarrow> manifest
           | Some items' \<Rightarrow> dict_set manifest ''datasets'' (JList items'))
      | _ \<Rightarrow>
          (case dict_get manifest ''primary_dataset'' of
             Some (JObj primary) \<Rightarrow>
               dict_set manifest ''primary_dataset'' (JObj (set_sheet_options sheet_name header_row primary))
           | _ \<Rightarrow>
               put_option ''primary_dataset_header_row'' (map_option JBool header_row)
                 (put_option ''primary_dataset_sheet_name'' (map_option JStr sheet_name) manifest)))"

end
