(* ===== verification/InputServices.thy ===== *)
theory InputServices
  imports JobInputs
begin

text \<open>
  The services on the inputs of a job: uploading data sets and previewing them
  (domain/job_inputs_service.py, domain/inputs_preview_datasets.py), choosing a sheet
  (domain/inputs_sheet_selection_service.py), and what drafting reads
  (domain/draft_inputs_introspection.py, domain/draft_column_candidates_v2.py).
\<close>

section \<open>Uploading data sets\<close>

record dataset_upload =
  du_role :: str
  du_data :: str
  du_original_name :: "str option"
  du_filename_override :: "str option"
  du_content_type :: "str option"

fun prepare_datasets :: "upload_env \<Rightarrow> dataset_upload list \<Rightarrow> exn + prepared_dataset list" where
  "prepare_datasets env [] = Inr []"
| "prepare_datasets env (u # us) =
     (if du_data u = [] then Inl (InErr InputEmptyFile)
      else bindE (prepare_dataset (ue_sha256 env) (du_data u) (du_original_name u) (du_filename_override u) (du_role u)
                    (du_content_type u) (ue_iso env (ue_now env))) (\<lambda>d.
           bindE (prepare_datasets env us) (\<lambda>ds. Inr (d # ds))))"

definition validate_dataset_set :: "prepared_dataset list \<Rightarrow> exn + unit" where
  "validate_dataset_set datasets =
     (let primaries = length (filter (\<lambda>d. pd_role d = ''primary_dataset'') datasets)
      in if \<not> distinct (map pd_dataset_key datasets) then Inl (InErr InputDatasetKeyConflict)
         else if primaries = 0 then Inl (InErr InputPrimaryDatasetMissing)
         else if 1 < primaries then Inl (InErr (InputPrimaryDatasetMultiple primaries))
         else Inr ())"

definition write_inputs_manifest :: "inputs_env \<Rightarrow> str \<Rightarrow> str \<Rightarrow> jobj \<Rightarrow> (upload_world, unit) act" where
  "write_inputs_manifest env t j manifest = storing (write_json_at env t j MANIFEST_REL_PATH manifest)"

definition write_dataset :: "inputs_env \<Rightarrow> str \<Rightarrow> str \<Rightarrow> prepared_dataset \<Rightarrow> (upload_world, unit) act" where
  "write_dataset env t j d =
     workspace_write (ie_upload env) t j (pd_rel_path d)
       (\<lambda>dir. dir\<lparr>id_datasets := dict_set (id_datasets dir) (pd_rel_path d) (pd_data d)\<rparr>)"

definition persist_datasets :: "inputs_env \<Rightarrow> str \<Rightarrow> str \<Rightarrow> prepared_dataset list \<Rightarrow> (upload_world, unit) act" where
  "persist_datasets env t j datasets =
     bindA (foldA (\<lambda>_ d. write_dataset env t j d) () datasets) (\<lambda>_.
       write_inputs_manifest env t j (manifest_payload datasets))"

definition index_input_artifacts :: "prepared_dataset list \<Rightarrow> artifact_ref list \<Rightarrow> artifact_ref list" where
  "index_input_artifacts datasets index =
     foldl (\<lambda>ix d. add_ref \<lparr>ar_kind = INPUTS_DATASET, ar_rel_path = pd_rel_path d\<rparr> ix)
       (add_ref \<lparr>ar_kind = INPUTS_MANIFEST, ar_rel_path = MANIFEST_REL_PATH\<rparr> index) datasets"

definition save_job_inputs ::
  "str \<Rightarrow> job \<Rightarrow> str \<Rightarrow> prepared_dataset list \<Rightarrow> (upload_world, unit) act" where
  "save_job_inputs t job fingerprint datasets =
     storing (\<lambda>w.
       case store_save t (job\<lparr>j_inputs := Some \<lparr>ji_manifest_rel_path = Some MANIFEST_REL_PATH,
                                              ji_fingerprint = Some fingerprint\<rparr>,
                             j_artifacts_index := index_input_artifacts datasets (j_artifacts_index job)\<rparr>)
              (w_store (uw_world w)) of
         (s, Inl e) \<Rightarrow> (w\<lparr>uw_world := (uw_world w)\<lparr>w_store := s\<rparr>\<rparr>, Inl e)
       | (s, Inr _) \<Rightarrow> (w\<lparr>uw_world := (uw_world w)\<lparr>w_store := s\<rparr>\<rparr>, Inr ()))"

definition inputs_locked :: "job_status \<Rightarrow> bool" where
  "inputs_locked s = (s \<in> {CONFIRMED, QUEUED, RUNNING, SUCCEEDED, FAILED})"

text \<open>\<open>upload_datasets\<close> up to the point where the job is saved, and the whole of it.\<close>

definition stage_datasets ::
  "inputs_env \<Rightarrow> str \<Rightarrow> str \<Rightarrow> dataset_upload list \<Rightarrow> (upload_world, job \<times> prepared_dataset list) act" where
  "stage_datasets env t j uploads =
     bindA (liftE (guardE (uploads \<noteq> []) (InErr InputParseFailed))) (\<lambda>_.
     bindA (reading (\<lambda>w. store_load t j (w_store (uw_world w)))) (\<lambda>job.
     bindA (liftE (guardE (\<not> inputs_locked (j_status job)) (DraftErr JobLocked))) (\<lambda>_.
     bindA (liftE (prepare_datasets (ie_upload env) uploads)) (\<lambda>datasets.
     bindA (liftE (validate_dataset_set datasets)) (\<lambda>_.
     bindA (persist_datasets env t j datasets) (\<lambda>_.
       ret (job, datasets)))))))"

definition upload_datasets :: "inputs_env \<Rightarrow> str \<Rightarrow> str \<Rightarrow> dataset_upload list \<Rightarrow> (upload_world, jobj) act" where
  "upload_datasets env t j uploads =
     bindA (stage_datasets env t j uploads) (\<lambda>(job, datasets).
       let fingerprint = inputs_fingerprint (ue_digest (ie_upload env)) datasets
       in bindA (save_job_inputs t job fingerprint datasets) (\<lambda>_.
            ret [(''job_id'', JStr j), (''manifest_rel_path'', JStr MANIFEST_REL_PATH),
                 (''fingerprint'', JStr fingerprint)]))"

definition upload_primary_dataset ::
  "inputs_env \<Rightarrow> str \<Rightarrow> str \<Rightarrow> str \<Rightarrow> str option \<Rightarrow> str option \<Rightarrow> str option \<Rightarrow> (upload_world, jobj) act" where
  "upload_primary_dataset env t j data original_name filename_override content_type =
     upload_datasets env t j
       [\<lparr>du_role = ''primary_dataset'', du_data = data, du_original_name = original_name,
         du_filename_override = filename_override, du_content_type = content_type\<rparr>]"

section \<open>Previewing\<close>

definition data_file_of :: "inputs_env \<Rightarrow> str \<Rightarrow> stored \<Rightarrow> data_file" where
  "data_file_of env rel s = (norm_rel rel, stored_bytes env s)"

definition manifest_rel_path_of :: "job \<Rightarrow> str option" where
  "manifest_rel_path_of job = (case j_inputs job of None \<Rightarrow> None | Some i \<Rightarrow> ji_manifest_rel_path i)"

definition load_primary_manifest ::
  "inputs_env \<Rightarrow> str \<Rightarrow> str \<Rightarrow> str \<Rightarrow> upload_world \<Rightarrow> exn + (str \<times> str \<times> str) \<times> (str option \<times> bool option) \<times> jobj" where
  "load_primary_manifest env t j manifest_rel_path w =
     recast os_or_value (InErr InputParseFailed)
       (bindE (resolve_for_read t j manifest_rel_path w) (\<lambda>s.
        bindE (read_manifest_json env manifest_rel_path s) (\<lambda>manifest.
          case primary_dataset_details manifest of
            None \<Rightarrow> Inl (PyErr PyValueError)
          | Some details \<Rightarrow> Inr (details, primary_dataset_excel_options manifest, manifest))))"

definition sheet_names_caught :: "exn \<Rightarrow> bool" where
  "sheet_names_caught e =
     (e \<in> {PyErr PyBadZipFile, PyErr PyFileNotFound, PyErr PyImportError, InErr InputPathUnsafe, PyErr PyOSError,
           PyErr PyValueError})"

definition preview_sheet_names :: "inputs_env \<Rightarrow> str \<Rightarrow> str \<Rightarrow> str \<Rightarrow> upload_world \<Rightarrow> exn + str list" where
  "preview_sheet_names env t j rel_path w =
     (case bindE (resolve_for_read t j rel_path w) (\<lambda>s. excel_sheet_names (ie_preview env) (data_file_of env rel_path s)) of
        Inl e \<Rightarrow> (if sheet_names_caught e then Inr [] else Inl e)
      | Inr names \<Rightarrow> Inr names)"

definition preview_excel_options :: "jobj \<Rightarrow> jobj \<Rightarrow> str option \<times> bool option" where
  "preview_excel_options item manifest =
     (if is_primary item \<and> item_options item = (None, None) then primary_dataset_excel_options manifest
      else item_options item)"

definition opt_bool_json :: "bool option \<Rightarrow> json" where
  "opt_bool_json v = (case v of None \<Rightarrow> JNull | Some b \<Rightarrow> JBool b)"

definition dataset_preview_item ::
  "inputs_env \<Rightarrow> str \<Rightarrow> str \<Rightarrow> jobj \<Rightarrow> upload_world \<Rightarrow> jobj \<Rightarrow> exn + jobj option" where
  "dataset_preview_item env t j manifest w item =
     (case (present_text item ''dataset_key'', present_text item ''rel_path'', present_text item ''format'') of
        (Some key, Some rel_path, Some fmt) \<Rightarrow>
          bindE (if fmt = ''excel'' then preview_sheet_names env t j rel_path w else Inr []) (\<lambda>names.
            let (sheet_name, header_row) = preview_excel_options item manifest
            in Inr (Some
                 [(''dataset_key'', JStr key),
                  (''role'', JStr (case present_text item ''role'' of None \<Rightarrow> ''other'' | Some r \<Rightarrow> r)),
                  (''original_name'', JStr (case present_text item ''original_name'' of None \<Rightarrow> rel_path | Some n \<Rightarrow> n)),
                  (''format'', JStr fmt), (''sheet_names'', JList (map JStr names)),
                  (''selected_sheet'', opt_json sheet_name), (''header_row'', opt_bool_json header_row)]))
      | _ \<Rightarrow> Inr None)"

fun preview_items ::
  "inputs_env \<Rightarrow> str \<Rightarrow> str \<Rightarrow> jobj \<Rightarrow> upload_world \<Rightarrow> json list \<Rightarrow> exn + jobj list" where
  "preview_items env t j manifest w [] = Inr []"
| "preview_items env t j manifest w (raw # raws) =
     bindE (case raw of JObj item \<Rightarrow> dataset_preview_item env t j manifest w item | _ \<Rightarrow> Inr None) (\<lambda>entry.
     bindE (preview_items env t j manifest w raws) (\<lambda>rest.
       Inr (case entry of None \<Rightarrow> rest | Some e \<Rightarrow> e # rest)))"

definition datasets_preview_payload :: "inputs_env \<Rightarrow> str \<Rightarrow> str \<Rightarrow> jobj \<Rightarrow> upload_world \<Rightarrow> exn + jobj list" where
  "datasets_preview_payload env t j manifest w =
     (case dict_get manifest ''datasets'' of
        Some (JList items) \<Rightarrow> preview_items env t j manifest w items
      | _ \<Rightarrow> Inr [])"

definition preview_json :: "dataset_preview \<Rightarrow> jobj" where
  "preview_json p =
     [(''row_count'', opt_int_json (dp_row_count p)), (''column_count'', opt_int_json (dp_column_count p)),
      (''columns'', JList (map (\<lambda>(n, ty). JObj [(''name'', JStr n), (''inferred_type'', JStr ty)]) (dp_columns p))),
      (''sample_rows'', JList (map JObj (dp_sample_rows p)))] @
     (case dp_header_row p of
        None \<Rightarrow> []
      | Some header \<Rightarrow>
          [(''sheet_names'', JList (map JStr (dp_sheet_names p))), (''selected_sheet'', opt_json (dp_selected_sheet p)),
           (''header_row'', JBool header)])"

definition preview_caught :: "exn \<Rightarrow> bool" where
  "preview_caught e =
     (e \<in> {PyErr PyKeyError, PyErr PyValueError, PyErr PyOSError, PyErr PyFileNotFound, PyErr PyImportError,
           PyErr PyBadZipFile})"

definition preview_primary_dataset ::
  "inputs_env \<Rightarrow> str \<Rightarrow> str \<Rightarrow> nat \<Rightarrow> nat \<Rightarrow> upload_world \<Rightarrow> exn + jobj" where
  "preview_primary_dataset env t j rows columns w =
     bindE (store_load t j (w_store (uw_world w))) (\<lambda>job.
       case manifest_rel_path_of job of
         None \<Rightarrow> Inl (InErr InputParseFailed)
       | Some manifest_rel_path \<Rightarrow>
           bindE (load_primary_manifest env t j manifest_rel_path w) (\<lambda>((rel_path, fmt, original_name), (sheet_name, header_row), manifest).
           bindE (recast (\<lambda>e. e = PyErr PyFileNotFound) (InErr InputParseFailed) (resolve_for_read t j rel_path w)) (\<lambda>s.
             let file = data_file_of env rel_path s
             in if snd file = [] then Inl (InErr InputEmptyFile)
                else if fmt = ''excel'' \<and> looks_like_encrypted_xlsx (ie_preview env) file then Inl (InErr InputParseFailed)
                else bindE (recast preview_caught (InErr InputParseFailed)
                              (dataset_preview_with_options (ie_preview env) file fmt rows columns sheet_name header_row)) (\<lambda>p.
                     bindE (datasets_preview_payload env t j manifest w) (\<lambda>datasets.
                       Inr ((''job_id'', JStr j) # preview_json p @ [(''datasets'', JList (map JObj datasets))]))))))"

section \<open>Choosing a sheet\<close>

definition clean_sheet_name :: "str \<Rightarrow> exn + str" where
  "clean_sheet_name sheet_name =
     (if py_strip sheet_name = [] then Inl (InErr InputExcelSheetNotFound) else Inr (py_strip sheet_name))"

definition manifest_caught :: "exn \<Rightarrow> bool" where
  "manifest_caught e = (os_or_value e \<or> e = InErr InputPathUnsafe)"

definition load_manifest :: "inputs_env \<Rightarrow> str \<Rightarrow> str \<Rightarrow> upload_world \<Rightarrow> exn + str \<times> jobj" where
  "load_manifest env t j w =
     bindE (store_load t j (w_store (uw_world w))) (\<lambda>job.
       case manifest_rel_path_of job of
         None \<Rightarrow> Inl (InErr InputParseFailed)
       | Some rel \<Rightarrow>
           (if blank rel then Inl (InErr InputParseFailed)
            else recast manifest_caught (InErr InputParseFailed)
                   (bindE (resolve_for_read t j rel w) (\<lambda>s.
                    bindE (read_manifest_json env rel s) (\<lambda>manifest. Inr (rel, manifest))))))"

definition excel_caught :: "exn \<Rightarrow> bool" where
  "excel_caught e =
     (e \<in> {PyErr PyFileNotFound, PyErr PyOSError, PyErr PyImportError, PyErr PyValueError, PyErr PyBadZipFile})"

definition resolve_excel_dataset ::
  "inputs_env \<Rightarrow> str \<Rightarrow> str \<Rightarrow> str \<Rightarrow> str \<Rightarrow> upload_world \<Rightarrow> exn + data_file \<times> str list" where
  "resolve_excel_dataset env t j rel_path fmt w =
     (if fmt \<noteq> ''excel'' then Inl (InErr InputExcelSheetSelectionUnsupported)
      else recast excel_caught (InErr InputParseFailed)
             (bindE (resolve_for_read t j rel_path w) (\<lambda>s.
              let file = data_file_of env rel_path s
              in bindE (excel_sheet_names (ie_preview env) file) (\<lambda>offered. Inr (file, offered)))))"

definition infer_sheet_header :: "inputs_env \<Rightarrow> data_file \<Rightarrow> str \<Rightarrow> str \<Rightarrow> exn + bool option" where
  "infer_sheet_header env file fmt sheet_name =
     bindE (recast preview_caught (InErr InputParseFailed)
              (dataset_preview_with_options (ie_preview env) file fmt 1 1 (Some sheet_name) None)) (\<lambda>p.
       Inr (dp_header_row p))"

definition write_sheet_manifest :: "inputs_env \<Rightarrow> str \<Rightarrow> str \<Rightarrow> str \<Rightarrow> jobj \<Rightarrow> (upload_world, unit) act" where
  "write_sheet_manifest env t j rel manifest = storing (write_json_at env t j rel manifest)"

definition sheet_answer :: "str \<Rightarrow> str \<Rightarrow> bool option \<Rightarrow> str list \<Rightarrow> jobj \<Rightarrow> jobj" where
  "sheet_answer j sheet_name header_row offered extra =
     [(''job_id'', JStr j)] @ extra @
     [(''selected_sheet'', JStr sheet_name), (''header_row'', opt_bool_json header_row),
      (''sheet_names'', JList (map JStr offered))]"

text \<open>\<open>primary_dataset_details\<close> stands outside every \<open>try\<close> here: its \<open>ValueError\<close> escapes.\<close>

definition select_primary_excel_sheet :: "inputs_env \<Rightarrow> str \<Rightarrow> str \<Rightarrow> str \<Rightarrow> (upload_world, jobj) act" where
  "select_primary_excel_sheet env t j sheet_name =
     bindA (liftE (clean_sheet_name sheet_name)) (\<lambda>cleaned.
     bindA (reading (load_manifest env t j)) (\<lambda>(rel, manifest).
     bindA (liftE (case primary_dataset_details manifest of None \<Rightarrow> Inl (PyErr PyValueError) | Some d \<Rightarrow> Inr d))
       (\<lambda>(rel_path, fmt, original_name).
     bindA (reading (resolve_excel_dataset env t j rel_path fmt)) (\<lambda>(file, offered).
     bindA (liftE (guardE (cleaned \<in> set offered) (InErr InputExcelSheetNotFound))) (\<lambda>_.
     bindA (liftE (infer_sheet_header env file fmt cleaned)) (\<lambda>header_row.
     bindA (write_sheet_manifest env t j rel
              (set_primary_dataset_excel_options manifest (Some cleaned) header_row)) (\<lambda>_.
       ret (sheet_answer j cleaned header_row offered []))))))))"

definition select_dataset_excel_sheet :: "inputs_env \<Rightarrow> str \<Rightarrow> str \<Rightarrow> str \<Rightarrow> str \<Rightarrow> (upload_world, jobj) act" where
  "select_dataset_excel_sheet env t j dataset_key sheet_name =
     bindA (liftE (clean_sheet_name sheet_name)) (\<lambda>cleaned.
     bindA (liftE (guardE (py_strip dataset_key \<noteq> []) (InErr InputDatasetNotFound))) (\<lambda>_.
     bindA (reading (load_manifest env t j)) (\<lambda>(rel, manifest).
     bindA (liftE (case dataset_details manifest (py_strip dataset_key) of
                     None \<Rightarrow> Inl (InErr InputDatasetNotFound) | Some d \<Rightarrow> Inr d)) (\<lambda>(rel_path, fmt, original_name, role).
     bindA (reading (resolve_excel_dataset env t j rel_path fmt)) (\<lambda>(file, offered).
     bindA (liftE (guardE (cleaned \<in> set offered) (InErr InputExcelSheetNotFound))) (\<lambda>_.
     bindA (liftE (infer_sheet_header env file fmt cleaned)) (\<lambda>header_row.
     bindA (liftE (set_dataset_excel_options manifest (py_strip dataset_key) (Some cleaned) header_row)) (\<lambda>updated.
     bindA (write_sheet_manifest env t j rel updated) (\<lambda>_.
       ret (sheet_answer j cleaned header_row offered
              [(''dataset_key'', JStr (py_strip dataset_key)), (''role'', JStr role)]))))))))))"

section \<open>What drafting reads\<close>

definition load_inputs_manifest :: "inputs_env \<Rightarrow> str \<Rightarrow> str \<Rightarrow> upload_world \<Rightarrow> exn + (str \<times> jobj) option" where
  "load_inputs_manifest env t j w =
     bindE (store_load t j (w_store (uw_world w))) (\<lambda>job.
       case manifest_rel_path_of job of
         None \<Rightarrow> Inr None
       | Some rel \<Rightarrow>
           (if blank rel then Inr None
            else case bindE (resolve_for_read t j rel w) (read_manifest_json env rel) of
                   Inl e \<Rightarrow> (if manifest_caught e then Inr None else Inl e)
                 | Inr manifest \<Rightarrow> Inr (Some (rel, manifest))))"

definition data_source_of :: "json \<Rightarrow> draft_data_source option" where
  "data_source_of raw =
     (case raw of
        JObj item \<Rightarrow>
          (case (dict_get item ''dataset_key'', dict_get item ''role'', dict_get item ''original_name'',
                 dict_get item ''format'') of
             (Some (JStr k), Some (JStr r), Some (JStr n), Some (JStr f)) \<Rightarrow>
               Some \<lparr>ds_dataset_key = k, ds_role = r, ds_original_name = n, ds_format = f\<rparr>
           | _ \<Rightarrow> None)
      | _ \<Rightarrow> None)"

definition draft_data_sources :: "inputs_env \<Rightarrow> str \<Rightarrow> str \<Rightarrow> upload_world \<Rightarrow> exn + draft_data_source list" where
  "draft_data_sources env t j w =
     bindE (load_inputs_manifest env t j w) (\<lambda>loaded.
       case loaded of
         None \<Rightarrow> Inr []
       | Some (_, manifest) \<Rightarrow>
           (case dict_get manifest ''datasets'' of
              Some (JList items) \<Rightarrow> Inr (List.map_filter data_source_of items)
            | _ \<Rightarrow> Inr []))"

definition columns_caught :: "exn \<Rightarrow> bool" where
  "columns_caught e = (os_or_value e \<or> e = PyErr PyKeyError)"

definition primary_columns_payload ::
  "inputs_env \<Rightarrow> str \<Rightarrow> str \<Rightarrow> jobj \<Rightarrow> upload_world \<Rightarrow> exn + (str \<times> str) list option" where
  "primary_columns_payload env t j manifest w =
     (case (case primary_dataset_details manifest of
              None \<Rightarrow> Inl (PyErr PyValueError)
            | Some (rel_path, fmt, _) \<Rightarrow>
                bindE (resolve_for_read t j rel_path w) (\<lambda>s.
                  let (sheet_name, header_row) = primary_dataset_excel_options manifest
                  in dataset_preview_with_options (ie_preview env) (data_file_of env rel_path s) fmt 1 300 sheet_name header_row)) of
        Inl e \<Rightarrow> (if columns_caught e then Inr None else Inl e)
      | Inr p \<Rightarrow> Inr (Some (dp_columns p)))"

definition primary_dataset_columns ::
  "inputs_env \<Rightarrow> str \<Rightarrow> str \<Rightarrow> upload_world \<Rightarrow> exn + str list \<times> draft_variable_type list" where
  "primary_dataset_columns env t j w =
     bindE (load_inputs_manifest env t j w) (\<lambda>loaded.
       case loaded of
         None \<Rightarrow> Inr ([], [])
       | Some (_, manifest) \<Rightarrow>
           bindE (primary_columns_payload env t j manifest w) (\<lambda>payload.
             case payload of
               None \<Rightarrow> Inr ([], [])
             | Some cols \<Rightarrow>
                 (let named = filter (\<lambda>(n, _). \<not> blank n) cols
                  in Inr (take 300 (map fst named),
                          take 300 (map (\<lambda>(n, ty). \<lparr>vt_name = n, vt_inferred_type = ty\<rparr>)
                                      (filter (\<lambda>(_, ty). \<not> blank ty) named))))))"

definition dataset_columns_payload ::
  "inputs_env \<Rightarrow> str \<Rightarrow> str \<Rightarrow> jobj \<Rightarrow> upload_world \<Rightarrow> jobj \<Rightarrow> exn + (str \<times> str) list option" where
  "dataset_columns_payload env t j manifest w item =
     (case (case (present_text item ''rel_path'', present_text item ''format'') of
              (Some rel_path, Some fmt) \<Rightarrow>
                bindE (resolve_for_read t j rel_path w) (\<lambda>s.
                  let (sheet_name, header_row) = preview_excel_options item manifest
                  in dataset_preview_with_options (ie_preview env) (data_file_of env rel_path s) fmt 1 300 sheet_name header_row)
            | _ \<Rightarrow> Inl (PyErr PyKeyError)) of
        Inl e \<Rightarrow> (if columns_caught e \<or> e = InErr InputPathUnsafe then Inr None else Inl e)
      | Inr p \<Rightarrow> Inr (Some (dp_columns p)))"

definition primary_candidate_items :: "jobj list \<Rightarrow> str list \<Rightarrow> column_candidate list" where
  "primary_candidate_items datasets primary_candidates =
     (case find is_primary datasets of
        None \<Rightarrow> []
      | Some item \<Rightarrow>
          (case present_text item ''dataset_key'' of
             None \<Rightarrow> []
           | Some key \<Rightarrow>
               map (\<lambda>n. \<lparr>cc_dataset_key = key, cc_role = ''primary_dataset'', cc_name = n\<rparr>)
                 (filter (\<lambda>n. \<not> blank n) (take 300 primary_candidates))))"

text \<open>The columns of one data set are appended until the limit; whether it was reached is returned too.\<close>

fun append_columns ::
  "nat \<Rightarrow> str \<Rightarrow> str \<Rightarrow> str list \<Rightarrow> column_candidate list \<Rightarrow> column_candidate list \<times> bool" where
  "append_columns limit key role [] out = (out, False)"
| "append_columns limit key role (n # ns) out =
     (let out' = (if blank n then out else out @ [\<lparr>cc_dataset_key = key, cc_role = role, cc_name = n\<rparr>])
      in if limit \<le> length out' then (out', True) else append_columns limit key role ns out')"

fun append_non_primary ::
  "inputs_env \<Rightarrow> str \<Rightarrow> str \<Rightarrow> jobj \<Rightarrow> upload_world \<Rightarrow> nat \<Rightarrow> jobj list \<Rightarrow> column_candidate list
   \<Rightarrow> exn + column_candidate list" where
  "append_non_primary env t j manifest w limit [] out = Inr out"
| "append_non_primary env t j manifest w limit (item # items) out =
     (if is_primary item then append_non_primary env t j manifest w limit items out
      else case (present_text item ''dataset_key'', present_text item ''role'') of
        (Some key, Some role) \<Rightarrow>
          bindE (dataset_columns_payload env t j manifest w item) (\<lambda>payload.
            case payload of
              None \<Rightarrow> append_non_primary env t j manifest w limit items out
            | Some cols \<Rightarrow>
                (case append_columns limit key role (map fst (take 300 cols)) out of
                   (out', True) \<Rightarrow> Inr out'
                 | (out', False) \<Rightarrow> append_non_primary env t j manifest w limit items out'))
      | _ \<Rightarrow> append_non_primary env t j manifest w limit items out)"

definition column_candidates_v2 ::
  "inputs_env \<Rightarrow> str \<Rightarrow> str \<Rightarrow> str list \<Rightarrow> upload_world \<Rightarrow> exn + column_candidate list" where
  "column_candidates_v2 env t j primary_candidates w =
     bindE (load_inputs_manifest env t j w) (\<lambda>loaded.
       case loaded of
         None \<Rightarrow> Inr []
       | Some (_, manifest) \<Rightarrow>
           (let datasets = (case dict_get manifest ''datasets'' of
                              Some (JList items) \<Rightarrow> List.map_filter as_obj items | _ \<Rightarrow> [])
            in if datasets = [] then Inr []
               else append_non_primary env t j manifest w 900 datasets
                      (primary_candidate_items datasets primary_candidates)))"

end
