(* ===== verification/InputLaws.thy ===== *)
theory InputLaws
  imports InputServices UploadLaws DoFile
begin

text \<open>
  What the input services promise: an upload is what every later reader sees, a chosen sheet is the one
  the preview and the generated do-file use, and the bounds of the drafting data. Column names of a
  preview, the lock of a confirmed job, and what is left when saving the job fails, are stated too.
\<close>

section \<open>Names of preview columns\<close>

lemma show_nat_digits: "\<forall>c\<in>set (show_nat n). is_digit c"
  by (induction n rule: show_nat.induct) (subst show_nat.simps, auto simp: is_digit_def)

fun nat_of_digits :: "nat \<Rightarrow> str \<Rightarrow> nat" where
  "nat_of_digits acc [] = acc"
| "nat_of_digits acc (c # cs) = nat_of_digits (10 * acc + (code_of c - 48)) cs"

lemma nat_of_digits_append: "nat_of_digits acc (xs @ ys) = nat_of_digits (nat_of_digits acc xs) ys"
  by (induction acc xs rule: nat_of_digits.induct) auto

lemma nat_of_show: "nat_of_digits 0 (show_nat n) = n"
proof (induction n rule: show_nat.induct)
  case (1 n)
  have d: "m < 10 \<Longrightarrow> code_of (char_of (48 + m)) = 48 + m" for m :: nat by simp
  show ?case
  proof (cases "n < 10")
    case True
    then show ?thesis using d[of n] by (subst show_nat.simps) simp
  next
    case False
    then show ?thesis
      using 1[OF False] d[of "n mod 10"] by (subst show_nat.simps) (simp add: nat_of_digits_append)
  qed
qed

lemma show_nat_inject [simp]: "show_nat m = show_nat n \<longleftrightarrow> m = n"
  by (metis nat_of_show)

lemma normalize_names_from_length: "length (normalize_names_from idx seen raws) = length raws"
  by (induction idx seen raws rule: normalize_names_from.induct) (simp_all add: Let_def)

text \<open>The name of an occurrence: the base itself for the first, a numbered base for later ones.\<close>

definition occurrence_name :: "str \<Rightarrow> nat \<Rightarrow> str" where
  "occurrence_name base n = (if n = 1 then base else base @ ''_'' @ show_nat n)"

fun bases_from :: "nat \<Rightarrow> str option list \<Rightarrow> str list" where
  "bases_from idx [] = []"
| "bases_from idx (raw # raws) = column_base idx raw # bases_from (Suc idx) raws"

text \<open>No base looks like a numbered occurrence of a base.\<close>

definition unnumbered :: "str list \<Rightarrow> bool" where
  "unnumbered bases = (\<forall>b\<in>set bases. \<forall>b'\<in>set bases. \<forall>n \<ge> 2. b \<noteq> b' @ ''_'' @ show_nat n)"

lemma split_at_last_underscore:
  assumes "b @ ''_'' @ show_nat m = b' @ ''_'' @ show_nat n"
  shows "b = b' \<and> m = n"
proof -
  have nd: "\<forall>c\<in>set (rev (show_nat k)). c \<noteq> CHR ''_''" for k
  proof -
    have "\<not> is_digit (CHR ''_'')" by code_simp
    then show ?thesis using show_nat_digits[of k] by auto
  qed
  have tw: "takeWhile (\<lambda>c. c \<noteq> CHR ''_'') (rev (a @ ''_'' @ show_nat k)) = rev (show_nat k)" for a k
    using nd[of k] by (simp add: takeWhile_append)
  have "rev (show_nat m) = rev (show_nat n)"
    unfolding tw[of b m, symmetric] tw[of b' n, symmetric] assms ..
  then have "m = n" by simp
  with assms show ?thesis by simp
qed

lemma occurrence_name_inject:
  assumes "unnumbered bases" "b \<in> set bases" "b' \<in> set bases" "1 \<le> m" "1 \<le> n"
    and "occurrence_name b m = occurrence_name b' n"
  shows "b = b' \<and> m = n"
proof (cases "m = 1")
  case True
  show ?thesis
  proof (cases "n = 1")
    case True
    with \<open>m = 1\<close> assms(6) show ?thesis by (simp add: occurrence_name_def)
  next
    case False
    with True assms have "b = b' @ ''_'' @ show_nat n" "2 \<le> n" by (auto simp: occurrence_name_def)
    with assms(1-3) show ?thesis unfolding unnumbered_def by blast
  qed
next
  case m: False
  show ?thesis
  proof (cases "n = 1")
    case True
    with m assms have "b' = b @ ''_'' @ show_nat m" "2 \<le> m" by (auto simp: occurrence_name_def)
    with assms(1-3) show ?thesis unfolding unnumbered_def by blast
  next
    case False
    with m assms(6) have "b @ ''_'' @ show_nat m = b' @ ''_'' @ show_nat n" by (simp add: occurrence_name_def)
    then show ?thesis by (rule split_at_last_underscore)
  qed
qed

lemma bases_from_nth: "i < length raws \<Longrightarrow> bases_from idx raws ! i = column_base (idx + i) (raws ! i)"
proof (induction raws arbitrary: idx i)
  case Nil
  then show ?case by simp
next
  case (Cons raw raws)
  then show ?case by (cases i) auto
qed

text \<open>Every later name is a later occurrence than those seen.\<close>

lemma normalize_names_from_fresh:
  assumes "name \<in> set (normalize_names_from idx seen raws)"
  shows "\<exists>b\<in>set (bases_from idx raws). \<exists>n. (case dict_get seen b of None \<Rightarrow> 0 | Some k \<Rightarrow> k) < n \<and> name = occurrence_name b n"
  using assms
proof (induction idx seen raws rule: normalize_names_from.induct)
  case (1 idx seen)
  then show ?case by simp
next
  case (2 idx seen raw raws)
  let ?b = "column_base idx raw"
  let ?c = "(case dict_get seen ?b of None \<Rightarrow> 0 | Some n \<Rightarrow> n) + 1"
  from 2(2) consider "name = occurrence_name ?b ?c"
    | "name \<in> set (normalize_names_from (Suc idx) (dict_set seen ?b ?c) raws)"
    by (auto simp: Let_def occurrence_name_def)
  then show ?case
  proof cases
    case 1
    then show ?thesis by (intro bexI[of _ ?b] exI[of _ ?c]) auto
  next
    case 2
    from "2.IH"[OF refl refl 2] obtain b n where "b \<in> set (bases_from (Suc idx) raws)"
      "(case dict_get (dict_set seen ?b ?c) b of None \<Rightarrow> 0 | Some k \<Rightarrow> k) < n" "name = occurrence_name b n" by blast
    then show ?thesis by (intro bexI[of _ b] exI[of _ n]) (auto split: if_split_asm)
  qed
qed

lemma normalize_names_from_distinct:
  assumes "unnumbered bases" "set (bases_from idx raws) \<subseteq> set bases"
  shows "distinct (normalize_names_from idx seen raws)"
  using assms(2)
proof (induction idx seen raws rule: normalize_names_from.induct)
  case (1 idx seen)
  then show ?case by simp
next
  case (2 idx seen raw raws)
  let ?b = "column_base idx raw"
  let ?c = "(case dict_get seen ?b of None \<Rightarrow> 0 | Some n \<Rightarrow> n) + 1"
  let ?rest = "normalize_names_from (Suc idx) (dict_set seen ?b ?c) raws"
  have IH: "distinct ?rest" using "2.IH"[OF refl refl] "2.prems" by simp
  have "occurrence_name ?b ?c \<notin> set ?rest"
  proof
    assume "occurrence_name ?b ?c \<in> set ?rest"
    then obtain b n where b: "b \<in> set (bases_from (Suc idx) raws)"
      "(case dict_get (dict_set seen ?b ?c) b of None \<Rightarrow> 0 | Some k \<Rightarrow> k) < n" "occurrence_name ?b ?c = occurrence_name b n"
      using normalize_names_from_fresh by blast
    have "?b = b \<and> ?c = n"
      by (rule occurrence_name_inject[OF assms(1)]) (use b "2.prems" in auto)
    then have e: "?b = b" "?c = n" by blast+
    from e(1) have "(case dict_get (dict_set seen ?b ?c) b of None \<Rightarrow> 0 | Some k \<Rightarrow> k) = ?c" by simp
    with b(2) have "?c < n" by (simp only:)
    with e(2) show False by (simp only: less_irrefl)
  qed
  with IH show ?case by (simp add: Let_def occurrence_name_def)
qed

text \<open>The column names of a preview are one for each column and pairwise different, unless a
  name already looks like the numbered copy of another.\<close>

theorem column_names_distinct:
  assumes "unnumbered (bases_from 1 raw_names)"
  shows "length (normalize_column_names raw_names) = length raw_names \<and> distinct (normalize_column_names raw_names)"
  using normalize_names_from_distinct[OF assms order.refl]
  by (simp add: normalize_column_names_def normalize_names_from_length)

text \<open>Otherwise two columns get the same name, and the preview raises \<open>AttributeError\<close>, which no caller
  catches.\<close>

theorem numbered_name_breaks_preview:
  "normalize_column_names [Some ''a'', Some '' a'', Some ''a_2''] = [''a'', ''a_2'', ''a_2''] \<and>
   frame_preview 10 (apply_normalized_columns \<lparr>fr_names = [Some ''a'', Some '' a'', Some ''a_2''],
     fr_types = [IntType, IntType, IntType], fr_rows = []\<rparr>) r c = Inl (PyErr PyAttributeError)"
proof -
  have n: "normalize_column_names [Some ''a'', Some '' a'', Some ''a_2''] = [''a'', ''a_2'', ''a_2'']" by code_simp
  then show ?thesis by (simp add: frame_preview_def infer_columns_def apply_normalized_columns_def)
qed

section \<open>An upload is what later readers see\<close>

lemma storing_Inr [simp]: "storing m w = (w', Inr x) \<longleftrightarrow> m w = (w', Inr x)"
  by (auto simp: storing_def split: prod.split sum.split)

lemma recast_Inr [simp]: "recast caught e r = Inr x \<longleftrightarrow> r = Inr x"
  by (auto simp: recast_def split: sum.split)

lemma reading_iff [simp]: "reading f w = (w', r) \<longleftrightarrow> w' = w \<and> f w = r"
  by (auto simp: reading_def)

text \<open>The digests are 64 hexadecimal digits.\<close>

definition hex_digest :: "str \<Rightarrow> bool" where
  "hex_digest s = (length s = 64 \<and> (\<forall>c\<in>set s. c \<in> set ''0123456789abcdef''))"

definition dataset_path_ok :: "str \<Rightarrow> bool" where
  "dataset_path_ok rel = (is_safe_job_rel_path rel \<and> norm_rel rel = rel \<and> rel \<noteq> MANIFEST_REL_PATH \<and> \<not> blank rel)"

lemma split_inputs_path:
  assumes "CHR ''/'' \<notin> set name"
  shows "py_split (CHR ''/'') (''inputs/'' @ name) = [''inputs'', name]"
proof -
  have "py_split (CHR ''/'') (''inputs'' @ CHR ''/'' # name) = ''inputs'' # py_split (CHR ''/'') name"
    by (rule py_split_append_sep) simp
  with assms show ?thesis by (simp add: py_split_no_sep)
qed

lemma inputs_path_ok:
  assumes "CHR ''/'' \<notin> set name" "CHR 0x5C \<notin> set name" "take 3 name = ''ds_''"
  shows "dataset_path_ok (''inputs/'' @ name)"
proof -
  obtain rest where n: "name = ''ds_'' @ rest" using assms(3) by (metis append_take_drop_id)
  have parts: "posix_parts (''inputs/'' @ name) = [''inputs'', name]"
    using split_inputs_path[OF assms(1)] n by (simp add: posix_parts_def)
  have "\<not> py_isspace (CHR ''i'')" by code_simp
  then have "\<not> blank (''inputs/'' @ name)" by (simp add: blank_iff)
  with assms(2) parts n show ?thesis
    by (simp add: dataset_path_ok_def is_safe_job_rel_path_def norm_rel_def MANIFEST_REL_PATH_def startswith_def)
qed

lemma format_from_filename_ext:
  "format_from_filename name = Inr (fmt, ext) \<Longrightarrow>
     ext \<in> {''.csv'', ''.xls'', ''.xlsx'', ''.dta''} \<and> fmt \<in> {''csv'', ''excel'', ''dta''}"
  by (auto simp: format_from_filename_def Let_def split: if_split_asm)

lemma prepare_dataset_shape:
  assumes "prepare_dataset sha data name ov role ct ts = Inr d"
  obtains ext where "ext \<in> {''.csv'', ''.xls'', ''.xlsx'', ''.dta''}"
    "pd_rel_path d = ''inputs/'' @ ''ds_'' @ take 16 (sha data) @ ext" "pd_dataset_key d = ''ds_'' @ take 16 (sha data)"
    "pd_format d \<in> {''csv'', ''excel'', ''dta''}" "\<not> blank (pd_original_name d)" "pd_data d = data"
proof -
  from assms obtain nm fmt ext role' where P: "safe_filename name ov = Inr nm" "format_from_filename nm = Inr (fmt, ext)"
    "d = \<lparr>pd_dataset_key = dataset_key_from_sha256 (sha data), pd_role = role',
          pd_rel_path = dataset_rel_path (dataset_key_from_sha256 (sha data)) ext, pd_sha256 = sha data,
          pd_fingerprint = ''sha256:'' @ sha data, pd_format = fmt, pd_original_name = nm,
          pd_size_bytes = int (length data), pd_uploaded_at = ts, pd_content_type = ct, pd_data = data\<rparr>"
    by (auto simp: prepare_dataset_def Let_def bindE_Inr_iff split: prod.split_asm)
  have "\<not> blank nm"
    using P(1) by (auto simp: safe_filename_def Let_def blank_def split: option.split_asm if_split_asm)
  with P show thesis
    using that[of ext] format_from_filename_ext[OF P(2)] by (simp add: dataset_key_from_sha256_def dataset_rel_path_def)
qed

lemma hex_chars: "c \<in> set ''0123456789abcdef'' \<Longrightarrow> c \<noteq> CHR ''/'' \<and> c \<noteq> CHR 0x5C \<and> c \<noteq> CHR ''.''"
  by auto

lemma prepared_path_ok:
  assumes p: "prepare_dataset sha data name ov role ct ts = Inr d" and h: "hex_digest (sha data)"
  shows "dataset_path_ok (pd_rel_path d)"
proof (rule prepare_dataset_shape[OF p])
  fix ext assume e: "ext \<in> {''.csv'', ''.xls'', ''.xlsx'', ''.dta''}" "pd_rel_path d = ''inputs/'' @ ''ds_'' @ take 16 (sha data) @ ext"
  have "\<forall>c\<in>set (take 16 (sha data)). c \<noteq> CHR ''/'' \<and> c \<noteq> CHR 0x5C"
    using h hex_chars by (auto simp: hex_digest_def dest!: in_set_takeD)
  moreover have "\<forall>c\<in>set ext. c \<noteq> CHR ''/'' \<and> c \<noteq> CHR 0x5C" using e(1) by auto
  ultimately show ?thesis unfolding e(2) by (intro inputs_path_ok) auto
qed

lemma same_path_same_key:
  assumes "prepare_dataset sha x n1 o1 r1 c1 t1 = Inr d" "prepare_dataset sha y n2 o2 r2 c2 t2 = Inr e"
    and "hex_digest (sha x)" "hex_digest (sha y)" "pd_rel_path d = pd_rel_path e"
  shows "pd_dataset_key d = pd_dataset_key e"
  by (rule prepare_dataset_shape[OF assms(1)], rule prepare_dataset_shape[OF assms(2)])
     (use assms(3-5) in \<open>auto simp: hex_digest_def\<close>)

lemma prepare_datasets_mem:
  "prepare_datasets env us = Inr ds \<Longrightarrow> d \<in> set ds \<Longrightarrow>
     \<exists>u\<in>set us. prepare_dataset (ue_sha256 env) (du_data u) (du_original_name u) (du_filename_override u) (du_role u)
       (du_content_type u) (ue_iso env (ue_now env)) = Inr d"
  by (induction us arbitrary: ds) (auto simp: bindE_Inr_iff split: if_split_asm)

lemma prepare_datasets_map:
  "prepare_datasets env us = Inr ds \<Longrightarrow> map pd_data ds = map du_data us"
proof (induction us arbitrary: ds)
  case Nil
  then show ?case by simp
next
  case (Cons u us)
  then show ?case by (auto simp: bindE_Inr_iff split: if_split_asm dest: prepare_dataset_fields)
qed

lemma prepared_paths_distinct:
  assumes p: "prepare_datasets env us = Inr ds" and k: "distinct (map pd_dataset_key ds)"
    and h: "\<forall>data. hex_digest (ue_sha256 env data)"
  shows "distinct (map pd_rel_path ds)"
proof -
  have "inj_on pd_rel_path (set ds)"
  proof (rule inj_onI)
    fix d e assume m: "d \<in> set ds" "e \<in> set ds" and eq: "pd_rel_path d = pd_rel_path e"
    then have "pd_dataset_key d = pd_dataset_key e"
      using prepare_datasets_mem[OF p m(1)] prepare_datasets_mem[OF p m(2)] h by (blast intro: same_path_same_key)
    with k m show "d = e" by (auto simp: distinct_map dest: inj_onD)
  qed
  with k show ?thesis by (simp add: distinct_map)
qed

lemma write_dataset_Inr:
  "write_dataset env t j d w = (w', Inr u) \<longleftrightarrow>
     is_safe_job_rel_path (pd_rel_path d) \<and> job_dir_exists t j w \<and> \<not> ue_write_fault (ie_upload env) (pd_rel_path d) \<and>
     w' = set_dir t j ((uw_dirs w (t, j))\<lparr>id_datasets := dict_set (id_datasets (uw_dirs w (t, j))) (pd_rel_path d) (pd_data d)\<rparr>) w"
  by (auto simp: write_dataset_def workspace_write_def)

lemma write_datasets_stored:
  assumes "foldA (\<lambda>_ d. write_dataset env t j d) () ds w = (w', Inr u)" "distinct (map pd_rel_path ds)"
  shows "uw_world w' = uw_world w \<and>
     (\<forall>d\<in>set ds. dict_get (id_datasets (uw_dirs w' (t, j))) (pd_rel_path d) = Some (pd_data d)) \<and>
     (\<forall>rel. rel \<notin> pd_rel_path ` set ds \<longrightarrow>
        dict_get (id_datasets (uw_dirs w' (t, j))) rel = dict_get (id_datasets (uw_dirs w (t, j))) rel)"
  using assms
proof (induction ds arbitrary: w)
  case Nil
  then show ?case by simp
next
  case (Cons d ds)
  then obtain w1 where w1: "write_dataset env t j d w = (w1, Inr ())" "foldA (\<lambda>_ d. write_dataset env t j d) () ds w1 = (w', Inr u)"
    by (auto simp: bindA_Inr)
  then have W: "uw_world w1 = uw_world w"
    "\<And>rel. dict_get (id_datasets (uw_dirs w1 (t, j))) rel =
       (if rel = pd_rel_path d then Some (pd_data d) else dict_get (id_datasets (uw_dirs w (t, j))) rel)"
    by (auto simp: write_dataset_Inr set_dir_def)
  from Cons.IH[OF w1(2)] Cons.prems(2) W show ?case by auto
qed

lemma write_json_at_Inr:
  "write_json_at env t j MANIFEST_REL_PATH m w = (w', Inr u) \<Longrightarrow>
     check_job_ids t j = Inr () \<and> w_store (uw_world w) (t, j) \<noteq> None \<and>
     w' = set_dir t j ((uw_dirs w (t, j))\<lparr>id_manifest := Some (JsonDoc (JObj m))\<rparr>) w"
proof -
  have "norm_rel MANIFEST_REL_PATH = MANIFEST_REL_PATH" by code_simp
  then show "write_json_at env t j MANIFEST_REL_PATH m w = (w', Inr u) \<Longrightarrow> ?thesis"
    by (auto simp: write_json_at_def Let_def split: if_split_asm sum.split_asm)
qed

lemma primary_item_of_datasets:
  "primary_item (map (JObj \<circ> dataset_item) ds) = map_option dataset_item (find (\<lambda>d. pd_role d = ''primary_dataset'') ds)"
  by (induction ds) (simp_all add: dataset_item_def)

lemma find_only:
  assumes "filter P xs = [p]" "set ys = set xs"
  shows "find P ys = Some p"
proof -
  have "{x \<in> set xs. P x} = {p}" using arg_cong[OF assms(1), of set] by simp
  then have p: "p \<in> set xs" "P p" "\<And>q. q \<in> set xs \<Longrightarrow> P q \<Longrightarrow> q = p" by auto
  then have "find P ys \<noteq> None" using assms(2) by (auto simp: find_None_iff)
  then obtain q where q: "find P ys = Some q" by blast
  then have "q \<in> set ys" "P q" by (auto simp: find_Some_iff)
  with p(3) assms(2) q show ?thesis by auto
qed

lemma one_primary:
  assumes "validate_dataset_set ds = Inr ()"
  shows "distinct (map pd_dataset_key ds) \<and> (\<exists>p. filter (\<lambda>d. pd_role d = ''primary_dataset'') ds = [p])"
proof -
  let ?ps = "filter (\<lambda>d. pd_role d = ''primary_dataset'') ds"
  have d: "distinct (map pd_dataset_key ds)" and "length ?ps \<noteq> 0" "\<not> 1 < length ?ps"
    using assms by (auto simp only: validate_dataset_set_def Let_def sum.distinct split: if_split_asm)
  then have "length ?ps = Suc 0" by linarith
  then have "\<exists>p. ?ps = [p]" by (cases ?ps) auto
  with d show ?thesis ..
qed

lemma details_of_dataset:
  assumes "\<not> blank (pd_rel_path d)" "\<not> blank (pd_format d)" "\<not> blank (pd_original_name d)"
  shows "details_of (dataset_item d) = Some (pd_rel_path d, pd_format d, pd_original_name d)"
  using assms by (simp add: details_of_def present_text_def dataset_item_def nonblank_str_def)

lemma stored_dataset_read:
  assumes "dataset_path_ok rel" "job_dir_exists t j w" "dict_get (id_datasets (uw_dirs w (t, j))) rel = Some b"
  shows "resolve_for_read t j rel w = Inr (StoredBytes b)"
  using assms by (simp add: resolve_for_read_def dataset_path_ok_def stored_file_def)

lemma stage_datasets_Inr:
  assumes "stage_datasets env t j uploads w = (w1, Inr (job, ds))"
  shows "store_load t j (w_store (uw_world w)) = Inr job" "\<not> inputs_locked (j_status job)"
    "prepare_datasets (ie_upload env) uploads = Inr ds" "validate_dataset_set ds = Inr ()"
    "persist_datasets env t j ds w = (w1, Inr ())"
  using assms by (auto simp: stage_datasets_def bindA_Inr)

text \<open>After the first phase data and manifest are in place and the job is as it was.\<close>

lemma stage_datasets_stored:
  assumes s: "stage_datasets env t j uploads w = (w1, Inr (job, ds))"
    and h: "\<forall>data. hex_digest (ue_sha256 (ie_upload env) data)"
  shows "uw_world w1 = uw_world w" "id_manifest (uw_dirs w1 (t, j)) = Some (JsonDoc (JObj (manifest_payload ds)))"
    "\<forall>d\<in>set ds. dict_get (id_datasets (uw_dirs w1 (t, j))) (pd_rel_path d) = Some (pd_data d)"
proof -
  note S = stage_datasets_Inr[OF s]
  obtain w0 where w0: "foldA (\<lambda>_ d. write_dataset env t j d) () ds w = (w0, Inr ())"
      "write_json_at env t j MANIFEST_REL_PATH (manifest_payload ds) w0 = (w1, Inr ())"
    using S(5) by (auto simp: persist_datasets_def write_inputs_manifest_def bindA_Inr)
  have "distinct (map pd_rel_path ds)"
    using prepared_paths_distinct[OF S(3)] one_primary[OF S(4)] h by blast
  note D = write_datasets_stored[OF w0(1) this]
  note J = write_json_at_Inr[OF w0(2)]
  show "uw_world w1 = uw_world w" "id_manifest (uw_dirs w1 (t, j)) = Some (JsonDoc (JObj (manifest_payload ds)))"
    "\<forall>d\<in>set ds. dict_get (id_datasets (uw_dirs w1 (t, j))) (pd_rel_path d) = Some (pd_data d)"
    using D J by (simp_all add: set_dir_def)
qed

lemma prepared_dataset_ok:
  assumes p: "prepare_datasets env us = Inr ds" and d: "d \<in> set ds" and h: "\<forall>data. hex_digest (ue_sha256 env data)"
  shows "dataset_path_ok (pd_rel_path d) \<and> \<not> blank (pd_format d) \<and> \<not> blank (pd_original_name d)"
proof -
  obtain u :: dataset_upload where pr: "prepare_dataset (ue_sha256 env) (du_data u) (du_original_name u)
      (du_filename_override u) (du_role u) (du_content_type u) (ue_iso env (ue_now env)) = Inr d"
    using prepare_datasets_mem[OF p d] by blast
  have "\<not> blank f" if "f \<in> {''csv'', ''excel'', ''dta''}" for f
    using that by (elim insertE emptyE) (simp_all, code_simp+)
  then show ?thesis using prepared_path_ok[OF pr] h prepare_dataset_shape[OF pr] by metis
qed

text \<open>C20 (functional) After a successful upload the job's manifest lists the uploaded data sets, every one
  of them reads back as the bytes uploaded, the primary data set of the manifest is the one the upload
  named, and the stored job, now one version later, carries the manifest and its fingerprint.\<close>

theorem uploaded_datasets_are_read:
  assumes u: "upload_datasets env t j uploads w = (w', Inr answer)"
    and h: "\<forall>data. hex_digest (ue_sha256 (ie_upload env) data)" and ids: "\<forall>job. w_store (uw_world w) (t, j) = Some (JobFile job) \<longrightarrow> j_job_id job = j"
  shows "\<exists>ds p job job'. prepare_datasets (ie_upload env) uploads = Inr ds \<and> map pd_data ds = map du_data uploads \<and>
     id_manifest (uw_dirs w' (t, j)) = Some (JsonDoc (JObj (manifest_payload ds))) \<and>
     (\<forall>d\<in>set ds. resolve_for_read t j (pd_rel_path d) w' = Inr (StoredBytes (pd_data d))) \<and>
     filter (\<lambda>d. pd_role d = ''primary_dataset'') ds = [p] \<and>
     primary_dataset_details (manifest_payload ds) = Some (pd_rel_path p, pd_format p, pd_original_name p) \<and>
     store_load t j (w_store (uw_world w)) = Inr job \<and> store_load t j (w_store (uw_world w')) = Inr job' \<and>
     j_version job' = j_version job + 1 \<and> j_status job' = j_status job \<and>
     j_inputs job' = Some \<lparr>ji_manifest_rel_path = Some MANIFEST_REL_PATH,
                            ji_fingerprint = Some (inputs_fingerprint (ue_digest (ie_upload env)) ds)\<rparr>"
proof -
  obtain w1 job ds where s: "stage_datasets env t j uploads w = (w1, Inr (job, ds))"
      and sv: "save_job_inputs t job (inputs_fingerprint (ue_digest (ie_upload env)) ds) ds w1 = (w', Inr ())"
    using u by (auto simp: upload_datasets_def bindA_Inr Let_def)
  note S = stage_datasets_Inr[OF s]
  note T = stage_datasets_stored[OF s h]
  obtain p where p: "filter (\<lambda>d. pd_role d = ''primary_dataset'') ds = [p]" using one_primary[OF S(4)] by blast
  then have pd: "p \<in> set ds" by (metis (no_types, lifting) filter_eq_ConsD in_set_conv_decomp)
  note ok = prepared_dataset_ok[OF S(3) _ h]
  have "primary_dataset_details (manifest_payload ds) = details_of (dataset_item p)"
    by (simp add: primary_dataset_details_def manifest_payload_def primary_item_of_datasets find_only[OF p])
  then have pri: "primary_dataset_details (manifest_payload ds) = Some (pd_rel_path p, pd_format p, pd_original_name p)"
    using details_of_dataset ok[OF pd] by (simp add: dataset_path_ok_def)
  have jf: "check_job_ids t j = Inr ()" "w_store (uw_world w) (t, j) = Some (JobFile job)"
    using S(1) by (simp_all add: store_load_JobFile)
  then have id: "j_job_id job = j" using ids by simp
  have W: "uw_dirs w' = uw_dirs w1"
      "\<exists>job'. store_load t j (w_store (uw_world w')) = Inr job' \<and> j_version job' = j_version job + 1 \<and>
        j_status job' = j_status job \<and> j_inputs job' = Some \<lparr>ji_manifest_rel_path = Some MANIFEST_REL_PATH,
           ji_fingerprint = Some (inputs_fingerprint (ue_digest (ie_upload env)) ds)\<rparr>"
    using sv jf id T(1)
    by (auto simp: save_job_inputs_def store_save_Inr store_load_JobFile split: prod.split_asm sum.split_asm)
  have ex: "job_dir_exists t j w'"
    using W(2) by (auto simp: job_dir_exists_def store_load_JobFile)
  have "resolve_for_read t j (pd_rel_path d) w' = Inr (StoredBytes (pd_data d))" if "d \<in> set ds" for d
    using stored_dataset_read[OF _ ex] ok[OF that] T(3) that W(1) by simp
  then show ?thesis
    using S(1,3) T(2) W p pri prepare_datasets_map[OF S(3)] by auto
qed

text \<open>A locked job refuses the upload and nothing changes.\<close>

theorem locked_job_refuses_upload:
  assumes "store_load t j (w_store (uw_world w)) = Inr job" "inputs_locked (j_status job)" "uploads \<noteq> []"
  shows "upload_datasets env t j uploads w = (w, Inl (DraftErr JobLocked))"
  using assms by (simp add: upload_datasets_def stage_datasets_def bindA_def liftE_def reading_def)

text \<open>When the job has moved on since it was loaded, the upload ends in a version conflict, but the new data
  and the new manifest already stand in the place of those the job's fingerprint describes.\<close>

theorem conflicting_upload_replaces_manifest:
  assumes s: "stage_datasets env t j uploads w = (w1, Inr (job, ds))"
    and h: "\<forall>data. hex_digest (ue_sha256 (ie_upload env) data)"
    and o: "check_job_ids t (j_job_id job) = Inr ()" "j_schema_version job = JOB_SCHEMA_VERSION_CURRENT"
      "store (t, j_job_id job) = Some (JobFile other)" "j_version other \<noteq> j_version job"
  shows "let w2 = w1\<lparr>uw_world := (uw_world w1)\<lparr>w_store := store\<rparr>\<rparr>;
             r = save_job_inputs t job fp ds w2
         in snd r = Inl (StoreErr (JobVersionConflict (j_version job) (j_version other))) \<and>
            w_store (uw_world (fst r)) = store \<and>
            id_manifest (uw_dirs (fst r) (t, j)) = Some (JsonDoc (JObj (manifest_payload ds)))"
  using o stage_datasets_stored(2)[OF s h]
  by (simp add: save_job_inputs_def storing_def store_save_def Let_def is_store_io_def)

section \<open>The chosen sheet\<close>

lemma find_update_first:
  assumes "find_item P items = Some item" "P (f item)"
  shows "\<exists>items'. update_first P f items = Some items' \<and> find_item P items' = Some (f item)"
  using assms(1)
proof (induction items)
  case Nil
  then show ?case by simp
next
  case (Cons raw raws)
  show ?case
  proof (cases raw)
    case (JObj it)
    show ?thesis
    proof (cases "P it")
      case True
      with JObj Cons.prems assms(2) show ?thesis by simp
    next
      case False
      with JObj Cons.prems obtain items' where "update_first P f raws = Some items'" "find_item P items' = Some (f item)"
        using Cons.IH by auto
      with False JObj show ?thesis by simp
    qed
  qed (use Cons in auto)
qed

lemma dict_get_put [simp]:
  "dict_wf d \<Longrightarrow> dict_get (put_option k v d) k' = (if k' = k then v else dict_get d k')"
  by (cases v) (simp_all add: put_option_def)

lemma dict_wf_put [simp]: "dict_wf d \<Longrightarrow> dict_wf (put_option k v d)"
  by (cases v) (simp_all add: put_option_def)

lemma set_sheet_options_get:
  assumes "dict_wf item"
  shows "dict_get (set_sheet_options sn hr item) k =
     (if k = ''header_row'' then map_option JBool hr else if k = ''sheet_name'' then map_option JStr sn else dict_get item k)"
  using assms by (simp add: set_sheet_options_def)

lemma item_options_set:
  assumes "dict_wf item" "cleaned = py_strip s" "cleaned \<noteq> []"
  shows "item_options (set_sheet_options (Some cleaned) hr item) = (Some cleaned, hr)"
  using assms by (cases hr) (simp_all add: item_options_def set_sheet_options_get sheet_option_def bool_option_def blank_def)

lemma present_text_set:
  "dict_wf item \<Longrightarrow> k \<noteq> ''header_row'' \<Longrightarrow> k \<noteq> ''sheet_name'' \<Longrightarrow>
     present_text (set_sheet_options sn hr item) k = present_text item k"
  by (simp add: present_text_def set_sheet_options_get)

lemma details_of_set: "dict_wf item \<Longrightarrow> details_of (set_sheet_options sn hr item) = details_of item"
  unfolding details_of_def by (simp add: present_text_set cong: option.case_cong)

lemma primary_item_find: "primary_item items = find_item is_primary items"
  by (induction items rule: primary_item.induct) (simp_all add: is_primary_def)

text \<open>JSON objects of a manifest have every key once.\<close>

definition manifest_wf :: "jobj \<Rightarrow> bool" where
  "manifest_wf m =
     (dict_wf m \<and>
      (case dict_get m ''datasets'' of Some (JList items) \<Rightarrow> list_all dict_wf (List.map_filter as_obj items) | _ \<Rightarrow> True) \<and>
      (case dict_get m ''primary_dataset'' of Some (JObj d) \<Rightarrow> dict_wf d | _ \<Rightarrow> True))"

lemma find_item_mem: "find_item P items = Some item \<Longrightarrow> item \<in> set (List.map_filter as_obj items) \<and> P item"
  by (induction P items rule: find_item.induct) (auto simp: map_filter_simps split: if_split_asm)

text \<open>The options the do-file generator reads of a primary item.\<close>

lemma raw_info_of_set:
  assumes "dict_wf item" "cleaned = py_strip s" "cleaned \<noteq> []"
  shows "item_info [] (set_sheet_options (Some cleaned) hr item) =
     (dict_get item ''rel_path'', dict_get item ''format'', Some cleaned, hr)"
  using assms
  by (cases hr) (simp_all add: item_info_def set_sheet_options_get sheet_name_or_none_def header_row_or_none_def)

text \<open>What the manifest says of its primary data set: file and format for every reader, sheet options for the
  preview, and the same for the do-file generator.\<close>

definition primary_reading :: "jobj \<Rightarrow> (str \<times> str \<times> str) option \<times> (str option \<times> bool option) \<times> (str option \<times> bool option)" where
  "primary_reading m =
     (primary_dataset_details m, primary_dataset_excel_options m, snd (snd (raw_primary_info m)))"

lemma set_primary_options_read:
  assumes d: "primary_dataset_details m = Some d" and wf: "manifest_wf m"
    and c: "cleaned = py_strip s" "cleaned \<noteq> []"
  shows "primary_reading (set_primary_dataset_excel_options m (Some cleaned) hr) = (Some d, (Some cleaned, hr), (Some cleaned, hr))"
proof (cases "\<exists>items. dict_get m ''datasets'' = Some (JList items)")
  case True
  then obtain items where i: "dict_get m ''datasets'' = Some (JList items)" by blast
  then obtain item where it: "find_item is_primary items = Some item" "details_of item = Some d"
    using d by (auto simp: primary_dataset_details_def primary_item_find split: option.split_asm)
  then have w: "dict_wf item" "is_primary item"
    using find_item_mem[OF it(1)] wf i by (auto simp: manifest_wf_def list_all_iff)
  let ?new = "set_sheet_options (Some cleaned) hr item"
  have "is_primary ?new" using w by (simp add: is_primary_def set_sheet_options_get)
  then obtain items' where u: "update_first is_primary (set_sheet_options (Some cleaned) hr) items = Some items'"
      "find_item is_primary items' = Some ?new"
    using find_update_first[OF it(1)] by blast
  show ?thesis
    using i u it(2) item_options_set[OF w(1) c] details_of_set[OF w(1)] raw_info_of_set[OF w(1) c]
    by (simp add: primary_reading_def set_primary_dataset_excel_options_def primary_dataset_details_def
        primary_dataset_excel_options_def raw_primary_info_def primary_item_find)
next
  case False
  have nl: "(case dict_get m ''datasets'' of Some (JList items) \<Rightarrow> f items | _ \<Rightarrow> x) = x" for f and x :: 'b
    using False by (auto split: option.split json.split)
  have d': "(case dict_get m ''primary_dataset'' of Some (JObj primary) \<Rightarrow> details_of primary | _ \<Rightarrow> None) = Some d"
    using d unfolding primary_dataset_details_def nl .
  then obtain p where p: "dict_get m ''primary_dataset'' = Some (JObj p)" "details_of p = Some d"
    by (auto split: option.split_asm json.split_asm)
  then have w: "dict_wf p" using wf by (simp add: manifest_wf_def)
  let ?m = "dict_set m ''primary_dataset'' (JObj (set_sheet_options (Some cleaned) hr p))"
  have "set_primary_dataset_excel_options m (Some cleaned) hr = ?m"
    unfolding set_primary_dataset_excel_options_def nl using p(1) by simp
  moreover have nl': "(case dict_get ?m ''datasets'' of Some (JList items) \<Rightarrow> f items | _ \<Rightarrow> x) = x" for f and x :: 'b
    using nl by simp
  moreover have "primary_dataset_details ?m = Some d"
    unfolding primary_dataset_details_def nl' using p(2) details_of_set[OF w] by simp
  moreover have "primary_dataset_excel_options ?m = (Some cleaned, hr)"
    unfolding primary_dataset_excel_options_def nl' Let_def using item_options_set[OF w c] by simp
  moreover have "snd (snd (raw_primary_info ?m)) = (Some cleaned, hr)"
    unfolding raw_primary_info_def nl' using raw_info_of_set[OF w c] by simp
  ultimately show ?thesis by (simp add: primary_reading_def)
qed

lemma load_manifest_Inr:
  assumes "load_manifest env t j w = Inr (rel, m)" "manifest_rel_path_of job = Some MANIFEST_REL_PATH"
    "store_load t j (w_store (uw_world w)) = Inr job"
  shows "rel = MANIFEST_REL_PATH \<and> id_manifest (uw_dirs w (t, j)) = Some (JsonDoc (JObj m))"
proof -
  have n: "norm_rel MANIFEST_REL_PATH = MANIFEST_REL_PATH" by code_simp
  obtain st where st: "resolve_for_read t j MANIFEST_REL_PATH w = Inr st" "read_manifest_json env MANIFEST_REL_PATH st = Inr m"
      "rel = MANIFEST_REL_PATH"
    using assms by (auto simp: load_manifest_def bindE_Inr_iff split: if_split_asm)
  then have "\<exists>f. id_manifest (uw_dirs w (t, j)) = Some f \<and> st = StoredJson f"
    by (auto simp: resolve_for_read_def stored_file_def n split: if_split_asm option.split_asm)
  with st(2,3) show ?thesis
    by (auto simp: read_manifest_json_def split: if_split_asm json_file.split_asm option.split_asm json.split_asm)
qed

text \<open>After choosing a sheet of the primary workbook the stored manifest names the same file
  and format as before, and both the preview and the do-file generator read from it the chosen sheet and
  the header choice inferred for it; the job itself is unchanged.\<close>

theorem chosen_sheet_is_used:
  assumes c: "select_primary_excel_sheet env t j sheet w = (w', Inr answer)"
    and job: "store_load t j (w_store (uw_world w)) = Inr job" "manifest_rel_path_of job = Some MANIFEST_REL_PATH"
    and m: "id_manifest (uw_dirs w (t, j)) = Some (JsonDoc (JObj m))" "manifest_wf m"
  shows "\<exists>m' details header. id_manifest (uw_dirs w' (t, j)) = Some (JsonDoc (JObj m')) \<and>
     primary_dataset_details m = Some details \<and>
     primary_reading m' = (Some details, (Some (py_strip sheet), header), (Some (py_strip sheet), header)) \<and>
     uw_world w' = uw_world w"
proof -
  obtain cleaned rel manifest rel_path fmt name header where
    C: "clean_sheet_name sheet = Inr cleaned" "load_manifest env t j w = Inr (rel, manifest)"
      "primary_dataset_details manifest = Some (rel_path, fmt, name)"
      "write_sheet_manifest env t j rel (set_primary_dataset_excel_options manifest (Some cleaned) header) w = (w', Inr ())"
    using c by (auto simp: select_primary_excel_sheet_def bindA_Inr split: option.split_asm)
  have cl: "cleaned = py_strip sheet" "cleaned \<noteq> []"
    using C(1) by (auto simp: clean_sheet_name_def split: if_split_asm)
  have L: "rel = MANIFEST_REL_PATH" "manifest = m"
    using load_manifest_Inr[OF C(2) job(2,1)] m(1) by simp_all
  have "w' = set_dir t j ((uw_dirs w (t, j))
      \<lparr>id_manifest := Some (JsonDoc (JObj (set_primary_dataset_excel_options m (Some cleaned) header)))\<rparr>) w"
    using C(4) write_json_at_Inr unfolding write_sheet_manifest_def L by (metis storing_Inr)
  then show ?thesis
    using set_primary_options_read[OF C(3)[unfolded L(2)] m(2) cl, of header] C(3) L(2) cl(1)
    by (auto simp: set_dir_def)
qed

text \<open>A manifest without a usable primary data set makes the choice of a primary sheet raise \<open>ValueError\<close>, while
  the choice for a data set answers that it is not found.\<close>

theorem unusable_primary_raises_value_error:
  assumes "clean_sheet_name sheet = Inr cleaned" "load_manifest env t j w = Inr (rel, m)" "primary_dataset_details m = None"
  shows "select_primary_excel_sheet env t j sheet w = (w, Inl (PyErr PyValueError))"
  using assms by (simp add: select_primary_excel_sheet_def bindA_def liftE_def reading_def)

section \<open>What drafting reads\<close>

lemma append_columns_bounded:
  "length out < limit \<Longrightarrow> append_columns limit key role ns out = (out', full) \<Longrightarrow>
     length out' \<le> limit \<and> (full \<or> length out' < limit)"
  by (induction limit key role ns out rule: append_columns.induct) (auto simp: Let_def split: if_split_asm)

lemma append_columns_extends:
  assumes "append_columns limit key role ns out = (out', full)"
  shows "\<exists>more. out' = out @ more \<and>
     (\<forall>c\<in>set more. cc_dataset_key c = key \<and> cc_role c = role \<and> cc_name c \<in> set ns \<and> \<not> blank (cc_name c))"
  using assms
proof (induction limit key role ns out arbitrary: out' rule: append_columns.induct)
  case (1 limit key role out)
  then show ?case by auto
next
  case (2 limit key role n ns out)
  let ?o = "if blank n then out else out @ [\<lparr>cc_dataset_key = key, cc_role = role, cc_name = n\<rparr>]"
  show ?case
  proof (cases "limit \<le> length ?o")
    case True
    with 2(2) have "out' = ?o" by (simp add: Let_def split: if_split_asm)
    then show ?thesis by auto
  next
    case False
    with 2(2) have "append_columns limit key role ns ?o = (out', full)" by (simp add: Let_def split: if_split_asm)
    with 2(1)[OF refl False] obtain more where "out' = ?o @ more"
      "\<forall>c\<in>set more. cc_dataset_key c = key \<and> cc_role c = role \<and> cc_name c \<in> set ns \<and> \<not> blank (cc_name c)" by blast
    then show ?thesis by (cases "blank n") auto
  qed
qed

definition candidate_ok :: "column_candidate \<Rightarrow> bool" where
  "candidate_ok c = (\<not> blank (cc_name c) \<and> \<not> blank (cc_dataset_key c) \<and> \<not> blank (cc_role c))"

lemma append_non_primary_ok:
  assumes "append_non_primary env t j m w limit items out = Inr out'" "length out < limit" "list_all candidate_ok out"
  shows "length out' \<le> limit \<and> list_all candidate_ok out' \<and> take (length out) out' = out"
  using assms
proof (induction items arbitrary: out)
  case Nil
  then show ?case by simp
next
  case (Cons item items)
  show ?case
  proof (cases "\<not> is_primary item \<and> (\<exists>key role. present_text item ''dataset_key'' = Some key \<and> present_text item ''role'' = Some role)")
    case False
    with Cons.prems(1) have "append_non_primary env t j m w limit items out = Inr out'"
      by (auto split: if_split_asm option.split_asm)
    with Cons show ?thesis by blast
  next
    case True
    then obtain key role where kr: "present_text item ''dataset_key'' = Some key" "present_text item ''role'' = Some role"
        "\<not> is_primary item" by blast
    then have nb: "\<not> blank key" "\<not> blank role" by (auto simp: present_text_def nonblank_str_Some)
    obtain payload where p: "dataset_columns_payload env t j m w item = Inr payload"
      using Cons.prems(1) kr by (auto simp: bindE_Inr_iff)
    show ?thesis
    proof (cases payload)
      case None
      with Cons.prems(1) kr p have "append_non_primary env t j m w limit items out = Inr out'" by simp
      with Cons show ?thesis by blast
    next
      case (Some cols)
      obtain out1 full where a: "append_columns limit key role (map fst (take 300 cols)) out = (out1, full)"
        by (cases "append_columns limit key role (map fst (take 300 cols)) out")
      obtain more where more: "out1 = out @ more" "list_all candidate_ok more"
        using append_columns_extends[OF a] nb by (auto simp: candidate_ok_def list_all_iff)
      have b: "length out1 \<le> limit" "full \<or> length out1 < limit" using append_columns_bounded[OF Cons.prems(2) a] by simp_all
      have r: "(if full then Inr out1 else append_non_primary env t j m w limit items out1) = Inr out'"
        using Cons.prems(1) kr p Some a by (cases full) simp_all
      have "length out' \<le> limit \<and> list_all candidate_ok out' \<and> take (length out1) out' = out1"
        using r b more Cons.prems(3) Cons.IH[of out1] by (cases full) auto
      then show ?thesis using more(1) by (metis append_eq_conv_conj length_append min.absorb1 le_add1 take_append take_take)
    qed
  qed
qed

lemma primary_items_ok: "c \<in> set (primary_candidate_items ds primary) \<Longrightarrow> candidate_ok c"
proof -
  assume c: "c \<in> set (primary_candidate_items ds primary)"
  then obtain item key where k: "find is_primary ds = Some item" "present_text item ''dataset_key'' = Some key"
    by (cases "find is_primary ds"; cases "present_text (the (find is_primary ds)) ''dataset_key''")
       (auto simp: primary_candidate_items_def)
  have "\<not> blank ''primary_dataset''" by code_simp
  moreover have "\<not> blank key" using k(2) by (simp add: present_text_def nonblank_str_Some)
  ultimately show ?thesis using c k by (auto simp: primary_candidate_items_def candidate_ok_def)
qed

lemma primary_items_length: "length (primary_candidate_items ds primary) \<le> 300"
proof -
  have "length (filter (\<lambda>n. \<not> blank n) (take 300 primary)) \<le> 300"
    using length_filter_le[of "\<lambda>n. \<not> blank n" "take 300 primary"] by simp
  then show ?thesis by (auto simp: primary_candidate_items_def split: option.split)
qed

text \<open>Drafting sees at most 900 candidate columns, none of them blank, and those of the primary data set,
  at most 300, come first and are all there.\<close>

theorem candidates_bounded:
  assumes "column_candidates_v2 env t j primary w = Inr out"
  shows "length out \<le> 900" "list_all candidate_ok out"
proof -
  have "length out \<le> 900 \<and> list_all candidate_ok out"
  proof (cases "load_inputs_manifest env t j w = Inr None")
    case True
    with assms show ?thesis by (simp add: column_candidates_v2_def)
  next
    case False
    obtain loaded where "load_inputs_manifest env t j w = Inr loaded"
      using assms by (auto simp: column_candidates_v2_def bindE_Inr_iff)
    with False obtain rel m where l: "load_inputs_manifest env t j w = Inr (Some (rel, m))" by (cases loaded) auto
    define ds where "ds = (case dict_get m ''datasets'' of Some (JList items) \<Rightarrow> List.map_filter as_obj items | _ \<Rightarrow> [])"
    let ?start = "primary_candidate_items ds primary"
    have st: "length ?start < 900" "list_all candidate_ok ?start"
      using primary_items_ok[of _ ds primary] primary_items_length[of ds primary] by (auto simp: list_all_iff)
    show ?thesis
    proof (cases "ds = []")
      case True
      with assms l show ?thesis by (simp add: column_candidates_v2_def ds_def[symmetric] Let_def)
    next
      case False
      with assms l have "append_non_primary env t j m w 900 ds ?start = Inr out"
        by (simp add: column_candidates_v2_def ds_def[symmetric] Let_def)
      from append_non_primary_ok[OF this st] show ?thesis by blast
    qed
  qed
  then show "length out \<le> 900" "list_all candidate_ok out" by simp_all
qed

section \<open>The lock of a confirmed job\<close>

text \<open>A confirmed job refuses \<open>upload_datasets\<close>, but an upload session of it still finalizes: manifest and
  fingerprint change under a job whose plan is settled.\<close>

definition confirmed_upload_world :: upload_world where
  "confirmed_upload_world =
     sample_upload_world\<lparr>uw_world := (uw_world sample_upload_world)
       \<lparr>w_store := [(''acme'', ''job_1'') \<mapsto> JobFile (drafted_job\<lparr>j_status := CONFIRMED\<rparr>)]\<rparr>\<rparr>"

definition sample_inputs_env :: inputs_env where
  "sample_inputs_env =
     \<lparr>ie_upload = sample_upload_env\<lparr>ue_sha256 := (\<lambda>s. replicate 64 (if s = ''x,y'' then CHR ''a'' else CHR ''b''))\<rparr>,
      ie_preview = \<lparr>pv_unreadable = (\<lambda>_. False), pv_read_csv = (\<lambda>_ _ _. Inl (PyErr PyValueError)),
        pv_open_book = (\<lambda>_. Inr [\<lparr>sh_title = ''Data'', sh_visible = True, sh_rows = 2, sh_cols = 1,
                                    sh_first = [Some ''income''], sh_second = [Some ''7'']\<rparr>]),
        pv_read_excel = (\<lambda>_ _ _ _. Inr \<lparr>fr_names = [Some ''income''], fr_types = [IntType], fr_rows = [[CellInt 7]]\<rparr>),
        pv_stata_shape = (\<lambda>_. Inl (PyErr PyValueError)), pv_stata_chunk = (\<lambda>_ _. Inr None)\<rparr>,
      ie_loads = (\<lambda>_. None), ie_dumps = (\<lambda>_. []), ie_garbage = []\<rparr>"

definition sample_uploads :: "dataset_upload list" where
  "sample_uploads =
     [\<lparr>du_role = ''primary_dataset'', du_data = ''x,y'', du_original_name = Some ''main.xlsx'',
       du_filename_override = None, du_content_type = None\<rparr>,
      \<lparr>du_role = ''other'', du_data = ''z'', du_original_name = Some ''more.csv'',
       du_filename_override = None, du_content_type = None\<rparr>]"

theorem finalize_ignores_lock:
  "upload_datasets sample_inputs_env ''acme'' ''job_1'' sample_uploads confirmed_upload_world =
     (confirmed_upload_world, Inl (DraftErr JobLocked)) \<and>
   (\<exists>w a job. finalize_session sample_upload_env ''acme'' ''usv1.job_1.s'' [sample_part] confirmed_upload_world = (w, Inr a) \<and>
      dict_get a ''success'' = Some (JBool True) \<and> id_manifest (uw_dirs w (''acme'', ''job_1'')) \<noteq> None \<and>
      store_load ''acme'' ''job_1'' (w_store (uw_world w)) = Inr job \<and> j_status job = CONFIRMED \<and> j_inputs job \<noteq> None)"
proof
  let ?job = "drafted_job\<lparr>j_status := CONFIRMED\<rparr>"
  have "store_load ''acme'' ''job_1'' (w_store (uw_world confirmed_upload_world)) = Inr ?job"
  proof -
    have "check_job_ids ''acme'' ''job_1'' = Inr ()" by code_simp
    then show ?thesis by (simp add: store_load_JobFile confirmed_upload_world_def)
  qed
  then show "upload_datasets sample_inputs_env ''acme'' ''job_1'' sample_uploads confirmed_upload_world =
     (confirmed_upload_world, Inl (DraftErr JobLocked))"
    by (rule locked_job_refuses_upload) (simp_all add: inputs_locked_def sample_uploads_def)
next
  let ?r = "finalize_session sample_upload_env ''acme'' ''usv1.job_1.s'' [sample_part] confirmed_upload_world"
  have "case snd ?r of Inl _ \<Rightarrow> False | Inr a \<Rightarrow> dict_get a ''success'' = Some (JBool True)" by code_simp
  moreover have "id_manifest (uw_dirs (fst ?r) (''acme'', ''job_1'')) \<noteq> None" by code_simp
  moreover have "case store_load ''acme'' ''job_1'' (w_store (uw_world (fst ?r))) of
      Inl _ \<Rightarrow> False | Inr job \<Rightarrow> j_status job = CONFIRMED \<and> j_inputs job \<noteq> None" by code_simp
  ultimately show "\<exists>w a job. ?r = (w, Inr a) \<and> dict_get a ''success'' = Some (JBool True) \<and>
      id_manifest (uw_dirs w (''acme'', ''job_1'')) \<noteq> None \<and>
      store_load ''acme'' ''job_1'' (w_store (uw_world w)) = Inr job \<and> j_status job = CONFIRMED \<and> j_inputs job \<noteq> None"
    by (cases ?r; cases "snd ?r"; cases "store_load ''acme'' ''job_1'' (w_store (uw_world (fst ?r)))") auto
qed

section \<open>Concrete runs\<close>

lemma sample_inputs_digest: "\<forall>data. hex_digest (ue_sha256 (ie_upload sample_inputs_env) data)"
  by (auto simp: hex_digest_def sample_inputs_env_def)

definition uploaded_world :: upload_world where
  "uploaded_world = fst (upload_datasets sample_inputs_env ''acme'' ''job_1'' sample_uploads sample_upload_world)"

lemma sample_upload: "\<exists>a. upload_datasets sample_inputs_env ''acme'' ''job_1'' sample_uploads sample_upload_world = (uploaded_world, Inr a)"
proof -
  let ?r = "upload_datasets sample_inputs_env ''acme'' ''job_1'' sample_uploads sample_upload_world"
  have "case snd ?r of Inl _ \<Rightarrow> False | Inr a \<Rightarrow> True" by code_simp
  then show ?thesis unfolding uploaded_world_def by (cases ?r; cases "snd ?r") auto
qed

lemma uploaded_datasets_are_read_witness:
  "\<exists>ds p. prepare_datasets (ie_upload sample_inputs_env) sample_uploads = Inr ds \<and>
     filter (\<lambda>d. pd_role d = ''primary_dataset'') ds = [p] \<and>
     resolve_for_read ''acme'' ''job_1'' (pd_rel_path p) uploaded_world = Inr (StoredBytes (pd_data p))"
proof -
  obtain a where u: "upload_datasets sample_inputs_env ''acme'' ''job_1'' sample_uploads sample_upload_world = (uploaded_world, Inr a)"
    using sample_upload by blast
  have ids: "\<forall>job. w_store (uw_world sample_upload_world) (''acme'', ''job_1'') = Some (JobFile job) \<longrightarrow> j_job_id job = ''job_1''"
    using drafted_ids by blast
  obtain ds p where D: "prepare_datasets (ie_upload sample_inputs_env) sample_uploads = Inr ds"
      "\<forall>d\<in>set ds. resolve_for_read ''acme'' ''job_1'' (pd_rel_path d) uploaded_world = Inr (StoredBytes (pd_data d))"
      "filter (\<lambda>d. pd_role d = ''primary_dataset'') ds = [p]"
    using uploaded_datasets_are_read[OF u sample_inputs_digest ids] by blast
  from D(3) have "p \<in> set ds" by (metis (no_types, lifting) filter_eq_ConsD in_set_conv_decomp)
  with D show ?thesis by blast
qed

end
