(* ===== verification/LlmCalls.thy ===== *)
theory LlmCalls
  imports Worker DraftService StataRun
begin

text \<open>
  Calls of the language model: the retry loop (infra/llm_call_retry.py), the fallback client
  (infra/llm_failover.py), the redaction of texts (infra/llm_tracing_support.py) and the client that
  records every call among the artifacts of a job (infra/llm_tracing.py).

  A client is what it answers: a text, no answer within the time limit, a provider error, or another
  exception. The files of the job directory are those of \<open>CompositionExec\<close>. Times, the hash and OS faults
  are the environment; operations are single path segments, as in all calls of the source.
\<close>

section \<open>Retrying\<close>

datatype 'a llm_answer = Answered 'a | TimedOut | ProviderFailed str | OtherRaise exn

datatype llm_error = CallTimeout | CallProviderError str

record call_outcome =
  co_text :: "str option"
  co_response_text :: str
  co_error :: "llm_error option"
  co_attempts :: int

text \<open>Settings are numbers; \<open>None\<close> takes the default.\<close>

definition normalized_timeout_seconds :: "rat option \<Rightarrow> rat \<Rightarrow> rat" where
  "normalized_timeout_seconds value dflt =
     (let seconds = (case value of Some v \<Rightarrow> v | None \<Rightarrow> dflt)
      in if seconds \<le> 0 then dflt else seconds)"

definition normalized_backoff_seconds :: "rat option \<Rightarrow> rat \<Rightarrow> rat" where
  "normalized_backoff_seconds value dflt =
     (let seconds = (case value of Some v \<Rightarrow> v | None \<Rightarrow> dflt)
      in if seconds < 0 then dflt else seconds)"

record retry_policy =
  rp_timeout_seconds :: rat
  rp_max_attempts :: int
  rp_backoff_base_seconds :: rat
  rp_backoff_max_seconds :: rat

definition normalize_policy :: "retry_policy \<Rightarrow> rat \<Rightarrow> retry_policy" where
  "normalize_policy policy default_timeout_seconds =
     \<lparr>rp_timeout_seconds = normalized_timeout_seconds (Some (rp_timeout_seconds policy)) default_timeout_seconds,
      rp_max_attempts = normalized_max_attempts (rp_max_attempts policy),
      rp_backoff_base_seconds = normalized_backoff_seconds (Some (rp_backoff_base_seconds policy)) 1,
      rp_backoff_max_seconds = normalized_backoff_seconds (Some (rp_backoff_max_seconds policy)) 30\<rparr>"

definition retry_delay_seconds :: "int \<Rightarrow> retry_policy \<Rightarrow> rat" where
  "retry_delay_seconds attempt p = backoff_seconds attempt (rp_backoff_base_seconds p) (rp_backoff_max_seconds p)"

text \<open>One attempt: the text, or the error that is remembered; other exceptions pass through.\<close>

definition attempt_complete_text :: "str llm_answer \<Rightarrow> exn + str option \<times> llm_error option" where
  "attempt_complete_text answer =
     (case answer of
        Answered text \<Rightarrow> Inr (Some text, None)
      | TimedOut \<Rightarrow> Inr (None, Some CallTimeout)
      | ProviderFailed msg \<Rightarrow> Inr (None, Some (CallProviderError msg))
      | OtherRaise e \<Rightarrow> Inl e)"

text \<open>
  The loop over the attempts. \<open>inner n\<close> is what the provider answers to attempt n within the time limit;
  the state is the list of the delays slept so far.
\<close>

function attempts_from ::
  "(int \<Rightarrow> str llm_answer) \<Rightarrow> retry_policy \<Rightarrow> int \<Rightarrow> llm_error option \<Rightarrow> (rat list, call_outcome) act" where
  "attempts_from inner p attempt last_error slept =
     (if attempt > rp_max_attempts p
      then ret \<lparr>co_text = None, co_response_text = [], co_error = last_error, co_attempts = rp_max_attempts p\<rparr> slept
      else case attempt_complete_text (inner attempt) of
             Inl e \<Rightarrow> raise_exn e slept
           | Inr (Some text, _) \<Rightarrow>
               ret \<lparr>co_text = Some text, co_response_text = text, co_error = None, co_attempts = attempt\<rparr> slept
           | Inr (None, error) \<Rightarrow>
               attempts_from inner p (attempt + 1) error
                 (if attempt < rp_max_attempts p then slept @ [retry_delay_seconds attempt p] else slept))"
  by pat_completeness auto
termination
  by (relation "measure (\<lambda>(inner, p, attempt, last, slept). nat (rp_max_attempts p + 1 - attempt))") auto

declare attempts_from.simps [simp del]

definition call_complete_text_with_retry ::
  "(rat \<Rightarrow> int \<Rightarrow> str llm_answer) \<Rightarrow> retry_policy \<Rightarrow> (rat list, call_outcome) act" where
  "call_complete_text_with_retry inner policy =
     (let p = normalize_policy policy 30
      in attempts_from (inner (rp_timeout_seconds p)) p 1 None)"

section \<open>Falling back to a second client\<close>

text \<open>Both methods of \<open>FailoverLLMClient\<close>: \<open>complete_text\<close> answers a text, \<open>draft_preview\<close> a draft.\<close>

definition failover_call :: "rat \<Rightarrow> (rat \<Rightarrow> 'a llm_answer) \<Rightarrow> 'a llm_answer \<Rightarrow> 'a llm_answer" where
  "failover_call primary_timeout_seconds primary fallback =
     (case primary (max 0 primary_timeout_seconds) of
        Answered x \<Rightarrow> Answered x
      | TimedOut \<Rightarrow> fallback
      | ProviderFailed _ \<Rightarrow> fallback
      | OtherRaise e \<Rightarrow> OtherRaise e)"

section \<open>Redaction\<close>

text \<open>
  \<open>pattern.sub\<close>: leftmost matches, not overlapping. A pattern is a function from the rest of the text to
  what is left after the match; all matches are non-empty.
\<close>

type_synonym pattern = "str \<Rightarrow> str option"

function re_sub :: "pattern \<Rightarrow> str \<Rightarrow> str \<Rightarrow> str" where
  "re_sub m rep [] = []"
| "re_sub m rep (c # s) =
     (case m (c # s) of
        Some rest \<Rightarrow> (if length rest \<le> length s then rep @ re_sub m rep rest else c # re_sub m rep s)
      | None \<Rightarrow> c # re_sub m rep s)"
  by pat_completeness auto
termination by (relation "measure (\<lambda>(m, rep, s). length s)") auto

text \<open>Pieces of patterns: a literal, a literal in any case, \<open>x*\<close>, \<open>x+\<close> and the sequence of two.\<close>

definition p_lit :: "str \<Rightarrow> pattern" where
  "p_lit l s = (if startswith s l then Some (drop (length l) s) else None)"

definition p_nocase :: "str \<Rightarrow> pattern" where
  "p_nocase l s = (if py_lower (take (length l) s) = l then Some (drop (length l) s) else None)"

definition p_star :: "(char \<Rightarrow> bool) \<Rightarrow> pattern" where
  "p_star P s = Some (dropWhile P s)"

definition p_plus :: "(char \<Rightarrow> bool) \<Rightarrow> pattern" where
  "p_plus P s = (if s \<noteq> [] \<and> P (hd s) then Some (dropWhile P s) else None)"

definition p_then :: "pattern \<Rightarrow> pattern \<Rightarrow> pattern" where
  "p_then m n s = (case m s of None \<Rightarrow> None | Some r \<Rightarrow> n r)"

fun p_seq :: "pattern list \<Rightarrow> pattern" where
  "p_seq [] s = Some s"
| "p_seq (m # ms) s = p_then m (p_seq ms) s"

fun p_alt :: "pattern list \<Rightarrow> pattern" where
  "p_alt [] s = None"
| "p_alt (m # ms) s = (case m s of Some r \<Rightarrow> Some r | None \<Rightarrow> p_alt ms s)"

text \<open>
  The five patterns as they are written. Their raw strings double the backslashes: where a character class is
  meant stand a backslash and a letter, the negated classes exclude the backslash and the letter s instead
  of white space, and the replacements insert a backslash and a 1 as text.
\<close>

definition bslash :: char where
  "bslash = CHR 0x5C"

definition is_s :: "char \<Rightarrow> bool" where
  "is_s c = (c = CHR ''s'')"

definition is_s_nocase :: "char \<Rightarrow> bool" where
  "is_s_nocase c = (c = CHR ''s'' \<or> c = CHR ''S'')"

definition bearer_pattern :: pattern where
  "bearer_pattern =
     p_seq [p_nocase ''authorization'', p_lit [bslash], p_star is_s_nocase, p_lit '':'', p_lit [bslash], p_star is_s_nocase,
            p_nocase ''bearer'', p_lit [bslash], p_plus is_s_nocase, p_plus (\<lambda>c. c \<noteq> bslash \<and> \<not> is_s_nocase c)]"

definition is_key_char :: "char \<Rightarrow> bool" where
  "is_key_char c = (is_ascii_letter c \<or> is_digit c)"

definition api_key_pattern :: pattern where
  "api_key_pattern s =
     (if startswith s ''sk-'' \<and> 20 \<le> length (takeWhile is_key_char (drop 3 s))
      then Some (dropWhile is_key_char (drop 3 s)) else None)"

definition secret_name :: pattern where
  "secret_name =
     p_alt [p_seq [p_nocase ''api'',
                   (\<lambda>s. Some (if s \<noteq> [] \<and> (hd s = CHR ''_'' \<or> hd s = CHR ''-'') then tl s else s)),
                   p_nocase ''key''],
            p_nocase ''token'', p_nocase ''secret'', p_nocase ''password'']"

definition secret_pattern :: pattern where
  "secret_pattern =
     p_seq [p_lit [bslash], p_nocase ''b'', secret_name, p_lit [bslash], p_nocase ''b'', p_lit [bslash], p_star is_s_nocase,
            (\<lambda>s. if s \<noteq> [] \<and> (hd s = CHR '':'' \<or> hd s = CHR ''='') then Some (tl s) else None),
            p_lit [bslash], p_star is_s_nocase,
            p_plus (\<lambda>c. c \<noteq> bslash \<and> \<not> is_s_nocase c \<and> c \<noteq> CHR '','' \<and> c \<noteq> CHR '';'')]"

definition path_pattern :: "str \<Rightarrow> pattern" where
  "path_pattern prefix = p_seq [p_lit prefix, p_plus (\<lambda>c. c \<noteq> bslash \<and> \<not> is_s c)]"

definition REDACTIONS :: "(pattern \<times> str) list" where
  "REDACTIONS =
     [(bearer_pattern, bslash # ''1 <REDACTED>''),
      (api_key_pattern, ''sk-<REDACTED>''),
      (secret_pattern, bslash # ''1=<REDACTED>''),
      (path_pattern ''/home/'', ''/home/<REDACTED>''),
      (path_pattern ''/Users/'', ''/Users/<REDACTED>'')]"

definition redact_text :: "str \<Rightarrow> str" where
  "redact_text text = fold (\<lambda>(m, rep) value. re_sub m rep value) REDACTIONS text"

section \<open>Recording a call\<close>

text \<open>
  The client around a provider: its settings, what the provider answers (operation, prompt, time limit,
  attempt), the moment of the call as text and ISO text, the hash, and OS faults. \<open>te_dir_inside\<close> and
  \<open>te_escapes\<close> say what resolving symbolic links gives.
\<close>

record trace_env =
  te_inner :: "str \<Rightarrow> str \<Rightarrow> rat \<Rightarrow> int \<Rightarrow> str llm_answer"
  te_model :: str
  te_temperature :: json
  te_seed :: json
  te_policy :: retry_policy
  te_sha256 :: "str \<Rightarrow> str"
  te_stamp :: str
  te_started_at :: str
  te_ended_at :: str
  te_duration_ms :: int
  te_dir_inside :: bool
  te_escapes :: "str \<Rightarrow> bool"
  te_write_fails :: "str list \<Rightarrow> bool"
  te_unlink_fails :: "str list \<Rightarrow> bool"

record llm_world =
  lw_files :: files
  lw_job :: job
  lw_slept :: "rat list"

definition estimate_tokens :: "str \<Rightarrow> int" where
  "estimate_tokens text =
     (let stripped = py_strip text in if stripped = [] then 0 else max 1 (int (length stripped) div 4))"

definition llm_call_id :: "str \<Rightarrow> str \<Rightarrow> str \<Rightarrow> str" where
  "llm_call_id operation stamp prompt_fingerprint = operation @ ''-'' @ stamp @ ''-'' @ take 12 prompt_fingerprint"

fun llm_error_type :: "llm_error \<Rightarrow> str" where
  "llm_error_type CallTimeout = ''TimeoutError''"
| "llm_error_type (CallProviderError _) = ''LLMProviderError''"

fun llm_error_text :: "llm_error \<Rightarrow> str" where
  "llm_error_text CallTimeout = []"
| "llm_error_text (CallProviderError msg) = msg"

definition client_policy :: "trace_env \<Rightarrow> retry_policy" where
  "client_policy env = normalize_policy (te_policy env) 30"

definition build_meta ::
  "trace_env \<Rightarrow> str \<Rightarrow> str \<Rightarrow> str \<Rightarrow> str \<Rightarrow> llm_error option \<Rightarrow> int \<Rightarrow> jobj" where
  "build_meta env call_id operation prompt response error attempts =
     [(''schema_version'', JInt 1), (''llm_call_id'', JStr call_id), (''operation'', JStr operation),
      (''started_at'', JStr (te_started_at env)), (''ended_at'', JStr (te_ended_at env)),
      (''duration_ms'', JInt (te_duration_ms env)), (''ok'', JBool (error = None)), (''model'', JStr (te_model env)),
      (''temperature'', te_temperature env),
      (''seed'', case te_seed env of JStr s \<Rightarrow> JStr (redact_text s) | v \<Rightarrow> v),
      (''prompt_fingerprint'', JStr (te_sha256 env prompt)), (''response_fingerprint'', JStr (te_sha256 env response)),
      (''prompt_token_estimate'', JInt (estimate_tokens prompt)),
      (''response_token_estimate'', JInt (estimate_tokens response)),
      (''error_type'', case error of None \<Rightarrow> JNull | Some e \<Rightarrow> JStr (llm_error_type e)),
      (''error_message'', case error of None \<Rightarrow> JNull | Some e \<Rightarrow> JStr (redact_text (llm_error_text e))),
      (''timeout_seconds'', JFloat (Finite (rp_timeout_seconds (client_policy env)))),
      (''max_attempts'', JInt (rp_max_attempts (client_policy env))), (''attempts'', JInt attempts)]"

definition job_dir_resolves :: "trace_env \<Rightarrow> job \<Rightarrow> bool" where
  "job_dir_resolves env job =
     (is_safe_tenant_id (j_tenant_id job) \<and> is_safe_path_segment (j_job_id job) \<and>
      is_safe_path_segment (shard_for_job_id (j_job_id job)) \<and> te_dir_inside env)"

definition safe_artifact_path :: "trace_env \<Rightarrow> job \<Rightarrow> str \<Rightarrow> exn + str list" where
  "safe_artifact_path env job rel_path =
     (if \<not> is_safe_job_rel_path rel_path \<or> \<not> job_dir_resolves env job \<or> te_escapes env rel_path
      then Inl (PyErr PyValueError) else Inr (posix_parts rel_path))"

text \<open>\<open>_atomic_write_text\<close>, \<open>_atomic_write_json\<close>: the file as a whole, or nothing and the \<open>OSError\<close>.\<close>

definition atomic_write :: "trace_env \<Rightarrow> str list \<Rightarrow> content \<Rightarrow> (files, unit) act" where
  "atomic_write env path c fs =
     (if te_write_fails env path then (fs, Inl (PyErr PyOSError)) else (dict_set fs path c, Inr ()))"

text \<open>The writes in order, with the list \<open>written\<close> of the paths already there when one of them fails.\<close>

fun write_each :: "trace_env \<Rightarrow> (str list \<times> content) list \<Rightarrow> str list list \<Rightarrow> files \<Rightarrow> files \<times> str list list \<times> (exn + unit)" where
  "write_each env [] written fs = (fs, written, Inr ())"
| "write_each env ((path, c) # rest) written fs =
     (case atomic_write env path c fs of
        (fs', Inl e) \<Rightarrow> (fs', written, Inl e)
      | (fs', Inr _) \<Rightarrow> write_each env rest (written @ [path]) fs')"

definition unlink_written :: "trace_env \<Rightarrow> str list list \<Rightarrow> files \<Rightarrow> files" where
  "unlink_written env written fs = fold (\<lambda>p fs. if te_unlink_fails env p then fs else dict_del fs p) written fs"

definition llm_rel_path :: "str \<Rightarrow> str \<Rightarrow> str" where
  "llm_rel_path call_id name = ''artifacts/llm/'' @ call_id @ ''/'' @ name"

definition llm_refs :: "str \<Rightarrow> artifact_ref list" where
  "llm_refs call_id =
     [\<lparr>ar_kind = LLM_PROMPT, ar_rel_path = llm_rel_path call_id ''prompt.txt''\<rparr>,
      \<lparr>ar_kind = LLM_RESPONSE, ar_rel_path = llm_rel_path call_id ''response.txt''\<rparr>,
      \<lparr>ar_kind = LLM_META, ar_rel_path = llm_rel_path call_id ''meta.json''\<rparr>]"

definition llm_paths :: "trace_env \<Rightarrow> job \<Rightarrow> str \<Rightarrow> exn + str list \<times> str list \<times> str list" where
  "llm_paths env job call_id =
     bindE (safe_artifact_path env job (llm_rel_path call_id ''prompt.txt'')) (\<lambda>p.
     bindE (safe_artifact_path env job (llm_rel_path call_id ''response.txt'')) (\<lambda>r.
     bindE (safe_artifact_path env job (llm_rel_path call_id ''meta.json'')) (\<lambda>m. Inr (p, r, m))))"

definition write_llm_artifacts ::
  "trace_env \<Rightarrow> job \<Rightarrow> str \<Rightarrow> str \<Rightarrow> str \<Rightarrow> jobj \<Rightarrow> (files, artifact_ref list) act" where
  "write_llm_artifacts env job call_id prompt response meta fs =
     (case llm_paths env job call_id of
        Inl _ \<Rightarrow> (fs, Inl (DraftErr LLMArtifactsWrite))
      | Inr (p, r, m) \<Rightarrow>
          (case write_each env [(p, content.TextFile (redact_text prompt)), (r, content.TextFile (redact_text response)),
                                (m, content.JsonFile meta)] [] fs of
             (fs', written, Inl _) \<Rightarrow> (unlink_written env written fs', Inl (DraftErr LLMArtifactsWrite))
           | (fs', _, Inr _) \<Rightarrow> (fs', Inr (llm_refs call_id))))"

definition call_and_record :: "trace_env \<Rightarrow> str \<Rightarrow> str \<Rightarrow> (llm_world, str) act" where
  "call_and_record env operation prompt w =
     (let call_id = llm_call_id operation (te_stamp env) (te_sha256 env prompt)
      in case call_complete_text_with_retry (te_inner env operation prompt) (client_policy env) (lw_slept w) of
           (slept, Inl e) \<Rightarrow> (w\<lparr>lw_slept := slept\<rparr>, Inl e)
         | (slept, Inr outcome) \<Rightarrow>
             (let meta = build_meta env call_id operation prompt (co_response_text outcome) (co_error outcome)
                           (co_attempts outcome)
              in case write_llm_artifacts env (lw_job w) call_id prompt (co_response_text outcome) meta (lw_files w) of
                   (fs, Inl e) \<Rightarrow> (w\<lparr>lw_slept := slept, lw_files := fs\<rparr>, Inl e)
                 | (fs, Inr refs) \<Rightarrow>
                     (w\<lparr>lw_slept := slept, lw_files := fs,
                        lw_job := (lw_job w)\<lparr>j_artifacts_index := j_artifacts_index (lw_job w) @ refs\<rparr>\<rparr>,
                      if co_text outcome = None then Inl (DraftErr LLMCallFailed) else Inr (co_response_text outcome))))"

definition traced_draft_preview :: "trace_env \<Rightarrow> str \<Rightarrow> (llm_world, draft) act" where
  "traced_draft_preview env prompt =
     bindA (call_and_record env ''draft_preview'' prompt) (\<lambda>text. ret ((empty_draft (te_ended_at env))\<lparr>d_text := text\<rparr>))"

text \<open>\<open>OpenAICompatibleLLMClient\<close>: what the library answers, and the classes of its exceptions.\<close>

datatype chat_answer = ChatContent json | ChatError str | ChatRaises exn

definition openai_complete_text :: "chat_answer \<Rightarrow> str llm_answer" where
  "openai_complete_text answer =
     (case answer of
        ChatContent (JStr text) \<Rightarrow> Answered text
      | ChatContent _ \<Rightarrow> ProviderFailed ''non-text response content''
      | ChatError msg \<Rightarrow> ProviderFailed msg
      | ChatRaises e \<Rightarrow> OtherRaise e)"

text \<open>\<open>build_llm_client\<close>: the settings it accepts.\<close>

record llm_settings =
  lc_provider :: str
  lc_api_key :: str
  lc_model :: str
  lc_base_url :: str

definition check_llm_settings :: "llm_settings \<Rightarrow> exn + unit" where
  "check_llm_settings c =
     bindE (guardE (lc_provider c \<noteq> [] \<and> lc_provider c \<noteq> ''stub'') (DraftErr LLMConfiguration)) (\<lambda>_.
     bindE (guardE (lc_provider c \<in> {''openai'', ''openai_compatible'', ''yunwu''}) (DraftErr LLMConfiguration)) (\<lambda>_.
       guardE (lc_api_key c \<noteq> [] \<and> lc_model c \<noteq> [] \<and> lc_base_url c \<noteq> []) (DraftErr LLMConfiguration)))"

end
