(* ===== verification/LlmLaws.thy ===== *)
theory LlmLaws
  imports LlmCalls
begin

text \<open>
  What calling the language model guarantees: which attempt answers, what redaction removes and what it
  leaves, and what is on disk after a call.
\<close>

section \<open>Attempts\<close>

fun failed_answer :: "'a llm_answer \<Rightarrow> bool" where
  "failed_answer TimedOut = True"
| "failed_answer (ProviderFailed _) = True"
| "failed_answer _ = False"

fun error_of :: "'a llm_answer \<Rightarrow> llm_error option" where
  "error_of TimedOut = Some CallTimeout"
| "error_of (ProviderFailed msg) = Some (CallProviderError msg)"
| "error_of _ = None"

lemma attempts_from_failed:
  "attempt \<le> rp_max_attempts p \<Longrightarrow> failed_answer (inner attempt) \<Longrightarrow>
     attempts_from inner p attempt last_error slept =
       attempts_from inner p (attempt + 1) (error_of (inner attempt))
         (if attempt < rp_max_attempts p then slept @ [retry_delay_seconds attempt p] else slept)"
  by (subst attempts_from.simps) (cases "inner attempt"; simp add: attempt_complete_text_def)

lemma attempts_from_answered:
  "attempt \<le> rp_max_attempts p \<Longrightarrow> inner attempt = Answered text \<Longrightarrow>
     attempts_from inner p attempt last_error slept =
       (slept, Inr \<lparr>co_text = Some text, co_response_text = text, co_error = None, co_attempts = attempt\<rparr>)"
  by (subst attempts_from.simps) (simp add: attempt_complete_text_def ret_def)

lemma attempts_from_raised:
  "attempt \<le> rp_max_attempts p \<Longrightarrow> inner attempt = OtherRaise e \<Longrightarrow>
     attempts_from inner p attempt last_error slept = (slept, Inl e)"
  by (subst attempts_from.simps) (simp add: attempt_complete_text_def raise_exn_def)

lemma attempts_from_over:
  "rp_max_attempts p < attempt \<Longrightarrow>
     attempts_from inner p attempt last_error slept =
       (slept, Inr \<lparr>co_text = None, co_response_text = [], co_error = last_error, co_attempts = rp_max_attempts p\<rparr>)"
  by (subst attempts_from.simps) (simp add: ret_def)

text \<open>
  The reference: among the attempts, the first that does not end in a timeout or a provider error decides;
  when there is none, the error of the last one is reported.
\<close>

fun decided :: "str llm_answer \<Rightarrow> int \<Rightarrow> (exn + call_outcome) option" where
  "decided (Answered text) n = Some (Inr \<lparr>co_text = Some text, co_response_text = text, co_error = None, co_attempts = n\<rparr>)"
| "decided (OtherRaise e) n = Some (Inl e)"
| "decided _ n = None"

fun first_some :: "'a option list \<Rightarrow> 'a option" where
  "first_some [] = None"
| "first_some (x # xs) = (case x of Some y \<Rightarrow> Some y | None \<Rightarrow> first_some xs)"

definition outcome_of :: "(int \<Rightarrow> str llm_answer) \<Rightarrow> int \<Rightarrow> int \<Rightarrow> llm_error option \<Rightarrow> exn + call_outcome" where
  "outcome_of inner lo hi last_error =
     (case first_some (map (\<lambda>n. decided (inner n) n) [lo..hi]) of
        Some r \<Rightarrow> r
      | None \<Rightarrow> Inr \<lparr>co_text = None, co_response_text = [],
                     co_error = (if lo \<le> hi then error_of (inner hi) else last_error), co_attempts = hi\<rparr>)"

lemma decided_None: "decided a n = None \<longleftrightarrow> failed_answer a"
  by (cases a) auto

lemma outcome_of_failed:
  "lo \<le> hi \<Longrightarrow> failed_answer (inner lo) \<Longrightarrow>
     outcome_of inner lo hi last_error = outcome_of inner (lo + 1) hi (error_of (inner lo))"
  using decided_None[of "inner lo" lo]
  by (cases "lo = hi") (auto simp: outcome_of_def upto_rec1)

lemma outcome_of_decided: "lo \<le> hi \<Longrightarrow> decided (inner lo) lo = Some r \<Longrightarrow> outcome_of inner lo hi last_error = r"
  by (simp add: outcome_of_def upto_rec1)

lemma attempts_from_outcome: "snd (attempts_from inner p n last_error slept) = outcome_of inner n (rp_max_attempts p) last_error"
proof (induction inner p n last_error slept rule: attempts_from.induct)
  case (1 inner p n last_error slept)
  show ?case
  proof (cases "n \<le> rp_max_attempts p")
    case over: False
    then show ?thesis by (simp add: attempts_from_over outcome_of_def)
  next
    case le: True
    show ?thesis
    proof (cases "failed_answer (inner n)")
      case failed: True
      then have "attempt_complete_text (inner n) = Inr (None, error_of (inner n))"
        by (cases "inner n") (auto simp: attempt_complete_text_def)
      with 1 le have "snd (attempts_from inner p (n + 1) (error_of (inner n))
          (if n < rp_max_attempts p then slept @ [retry_delay_seconds n p] else slept)) =
        outcome_of inner (n + 1) (rp_max_attempts p) (error_of (inner n))" by fastforce
      with le failed show ?thesis by (simp add: attempts_from_failed outcome_of_failed)
    next
      case ok: False
      with le show ?thesis
        by (cases "inner n") (simp_all add: outcome_of_decided attempts_from_answered attempts_from_raised)
    qed
  qed
qed

text \<open>A call of the model with retries gives what the first decisive attempt gives: whatever
  the provider does, the result is that of the first attempt, counted up to the normalized maximum, that
  neither times out nor fails at the provider - its text, or the exception it raises; when every attempt
  fails the outcome has no text and carries the error of the last one.\<close>
theorem retry_gives_first_answer:
  "snd (call_complete_text_with_retry inner policy slept) =
     outcome_of (inner (rp_timeout_seconds (normalize_policy policy 30))) 1
       (normalized_max_attempts (rp_max_attempts policy)) None"
  by (simp add: call_complete_text_with_retry_def attempts_from_outcome normalize_policy_def)

lemma max_attempts_positive: "1 \<le> rp_max_attempts (normalize_policy policy d)"
  by (simp add: normalize_policy_def normalized_max_attempts_def)

section \<open>Redaction\<close>

text \<open>An API key somewhere in a text: \<open>sk-\<close> and at least twenty letters or digits.\<close>

fun has_api_key :: "str \<Rightarrow> bool" where
  "has_api_key [] = False"
| "has_api_key (c # s) = (api_key_pattern (c # s) \<noteq> None \<or> has_api_key s)"

definition key_here :: "str \<Rightarrow> bool" where
  "key_here s = (api_key_pattern s \<noteq> None)"

lemma key_here_iff:
  "key_here s \<longleftrightarrow> (\<exists>t. s = ''sk-'' @ t \<and> 20 \<le> length (takeWhile is_key_char t))"
  by (auto simp: key_here_def api_key_pattern_def startswith_iff)

lemma has_api_key_Cons [simp]: "has_api_key (c # s) \<longleftrightarrow> key_here (c # s) \<or> has_api_key s"
  by (simp add: key_here_def)

declare has_api_key.simps(2) [simp del]

lemma has_api_key_suffix: "has_api_key t \<Longrightarrow> has_api_key (q @ t)"
  by (induction q) auto

lemma suffix_key_free: "\<not> has_api_key (q @ t) \<Longrightarrow> \<not> has_api_key t"
  using has_api_key_suffix by blast

text \<open>A character that is in no key stops a key: what follows it does not matter.\<close>

definition stops_key :: "char \<Rightarrow> bool" where
  "stops_key d = (\<not> is_key_char d \<and> d \<noteq> CHR ''-'')"

lemma takeWhile_stop:
  "\<not> P d \<Longrightarrow> length (takeWhile P (q @ d # r)) \<le> length (takeWhile P (q @ t))"
  by (induction q) auto

lemma key_before_stop:
  assumes "key_here (q @ d # r)" "stops_key d"
  shows "key_here (q @ t)"
proof -
  obtain u where u: "q @ d # r = ''sk-'' @ u" "20 \<le> length (takeWhile is_key_char u)"
    using assms(1) by (auto simp: key_here_iff)
  have "d \<notin> set ''sk-''" using assms(2) by (auto simp: stops_key_def is_key_char_def is_ascii_letter_def)
  with u(1) obtain v where v: "q = ''sk-'' @ v" "u = v @ d # r"
    by (auto simp: append_eq_Cons_conv Cons_eq_append_conv)
  have "20 \<le> length (takeWhile is_key_char (v @ t))"
    using u(2) takeWhile_stop[of is_key_char d v r t] assms(2) by (simp add: v(2) stops_key_def)
  then show ?thesis by (auto simp: key_here_iff v(1))
qed

text \<open>What a substitution leaves before its first replacement.\<close>

lemma re_sub_shape: "re_sub m rep s = s \<or> (\<exists>q t r. s = q @ t \<and> m t \<noteq> None \<and> re_sub m rep s = q @ rep @ r)"
proof (induction m rep s rule: re_sub.induct)
  case (1 m rep)
  then show ?case by simp
next
  case (2 m rep c s)
  show ?case
  proof (cases "\<exists>rest. m (c # s) = Some rest \<and> length rest \<le> length s")
    case True
    then obtain rest where r: "m (c # s) = Some rest" "length rest \<le> length s" by blast
    then have "re_sub m rep (c # s) = [] @ rep @ re_sub m rep rest" by simp
    with r(1) show ?thesis by fastforce
  next
    case False
    then have step: "re_sub m rep (c # s) = c # re_sub m rep s" by (auto split: option.splits)
    from False 2 have "re_sub m rep s = s \<or> (\<exists>q t r. s = q @ t \<and> m t \<noteq> None \<and> re_sub m rep s = q @ rep @ r)"
      by (cases "m (c # s)") blast+
    then show ?thesis unfolding step by (metis append_Cons)
  qed
qed

text \<open>
  A replacement that brings in no key: after the part \<open>p\<close>, which every match starts with, comes a stopping
  character, and no key starts inside it.
\<close>

definition harmless :: "pattern \<Rightarrow> str \<Rightarrow> str \<Rightarrow> bool" where
  "harmless m p rep =
     ((\<exists>d r. rep = p @ d # r \<and> stops_key d) \<and> (\<forall>t. m t \<noteq> None \<longrightarrow> startswith t p) \<and>
      (\<forall>t. has_api_key (rep @ t) \<longrightarrow> has_api_key t))"

lemma harmless_before:
  assumes "harmless m p rep" "\<not> key_here (c # s)"
  shows "\<not> key_here (c # re_sub m rep s)"
proof -
  obtain d r0 where rep: "rep = p @ d # r0" "stops_key d" using assms(1) by (auto simp: harmless_def)
  from re_sub_shape[of m rep s] show ?thesis
  proof
    assume "re_sub m rep s = s"
    with assms(2) show ?thesis by simp
  next
    assume "\<exists>q t r. s = q @ t \<and> m t \<noteq> None \<and> re_sub m rep s = q @ rep @ r"
    then obtain q t r where q: "s = q @ t" "m t \<noteq> None" "re_sub m rep s = q @ rep @ r" by blast
    obtain t' where t: "t = p @ t'" using assms(1) q(2) by (auto simp: harmless_def startswith_iff)
    have "key_here ((c # q @ p) @ d # r0 @ r) \<Longrightarrow> key_here ((c # q @ p) @ t')"
      by (rule key_before_stop[OF _ rep(2)])
    moreover have "c # re_sub m rep s = (c # q @ p) @ d # r0 @ r" using q(3) rep(1) by simp
    moreover have "c # s = (c # q @ p) @ t'" using q(1) t by simp
    ultimately show ?thesis using assms(2) by metis
  qed
qed

lemma harmless_keeps:
  assumes "harmless m p rep" "\<And>q t r. m t = Some r \<Longrightarrow> \<exists>q. t = q @ r"
  shows "\<not> has_api_key s \<Longrightarrow> \<not> has_api_key (re_sub m rep s)"
  using assms
proof (induction m rep s rule: re_sub.induct)
  case (1 m rep)
  then show ?case by simp
next
  case (2 m rep c s)
  show ?case
  proof (cases "\<exists>rest. m (c # s) = Some rest \<and> length rest \<le> length s")
    case True
    then obtain rest where rest: "m (c # s) = Some rest" "length rest \<le> length s" by blast
    obtain q where q: "c # s = q @ rest" using "2.prems"(3)[OF rest(1)] by blast
    have "\<not> has_api_key rest" using "2.prems"(1) unfolding q by (rule suffix_key_free)
    with "2.IH"(2)[OF rest this "2.prems"(2,3)] have "\<not> has_api_key (re_sub m rep rest)" by simp
    with "2.prems"(2) rest show ?thesis by (auto simp: harmless_def)
  next
    case False
    then have step: "re_sub m rep (c # s) = c # re_sub m rep s" by (auto split: option.splits)
    have "\<not> has_api_key s" "\<not> key_here (c # s)" using "2.prems"(1) by simp_all
    with False 2 have "\<not> has_api_key (re_sub m rep s)" by (cases "m (c # s)") auto
    with harmless_before[OF "2.prems"(2) \<open>\<not> key_here (c # s)\<close>] show ?thesis
      unfolding step by simp
  qed
qed

text \<open>The pass for the keys removes them all.\<close>

lemma api_key_rest: "api_key_pattern t = Some r \<Longrightarrow> \<exists>q. t = q @ r"
  by (auto simp: api_key_pattern_def startswith_iff split: if_splits) (metis append_Cons append_assoc takeWhile_dropWhile_id)

lemma api_key_shorter: "api_key_pattern (c # u) = Some r \<Longrightarrow> length r \<le> length u"
  using length_dropWhile_le[of is_key_char "drop 3 (c # u)"] by (auto simp: api_key_pattern_def split: if_splits)

lemma api_key_harmless: "harmless api_key_pattern ''sk-'' ''sk-<REDACTED>''"
  unfolding harmless_def
  by (intro conjI)
     (auto simp: stops_key_def is_key_char_def is_ascii_letter_def is_digit_def api_key_pattern_def startswith_def
        key_here_def split: if_splits)

lemma key_pass: "\<not> has_api_key (re_sub api_key_pattern ''sk-<REDACTED>'' s)"
proof (induction "length s" arbitrary: s rule: less_induct)
  case less
  show ?case
  proof (cases s)
    case (Cons c u)
    show ?thesis
    proof (cases "\<exists>rest. api_key_pattern (c # u) = Some rest \<and> length rest \<le> length u")
      case True
      with less[of "the (api_key_pattern (c # u))"] api_key_harmless show ?thesis by (auto simp: Cons harmless_def)
    next
      case False
      then have step: "re_sub api_key_pattern ''sk-<REDACTED>'' (c # u) = c # re_sub api_key_pattern ''sk-<REDACTED>'' u"
        by (auto split: option.splits)
      have "api_key_pattern (c # u) = None" using False api_key_shorter[of c u] by (cases "api_key_pattern (c # u)") auto
      then have "\<not> key_here (c # u)" by (simp add: key_here_def)
      with harmless_before[OF api_key_harmless] less[of u] show ?thesis
        unfolding Cons step by (simp add: Cons)
    qed
  qed simp
qed

text \<open>Patterns built from the pieces leave a suffix, and every match starts with their first literal.\<close>

definition leaves_suffix :: "pattern \<Rightarrow> bool" where
  "leaves_suffix m = (\<forall>t r. m t = Some r \<longrightarrow> (\<exists>q. t = q @ r))"

lemma leaves_suffix_pieces [simp]:
  "leaves_suffix (p_lit l)" "leaves_suffix (p_nocase l)" "leaves_suffix (p_star P)" "leaves_suffix (p_plus P)"
  by (auto simp: leaves_suffix_def p_lit_def p_nocase_def p_star_def p_plus_def startswith_iff split: if_splits)
     (metis append_take_drop_id, metis takeWhile_dropWhile_id, metis takeWhile_dropWhile_id)

lemma leaves_suffix_then: "leaves_suffix m \<Longrightarrow> leaves_suffix n \<Longrightarrow> leaves_suffix (p_then m n)"
  by (auto simp: leaves_suffix_def p_then_def split: option.splits) (metis append.assoc)

lemma leaves_suffix_seq: "list_all leaves_suffix ms \<Longrightarrow> leaves_suffix (p_seq ms)"
proof (induction ms)
  case Nil
  then show ?case by (simp add: leaves_suffix_def)
next
  case (Cons m ms)
  then have "leaves_suffix (p_then m (p_seq ms))" by (simp add: leaves_suffix_then)
  then show ?case by (simp add: leaves_suffix_def)
qed

lemma leaves_suffix_alt: "list_all leaves_suffix ms \<Longrightarrow> leaves_suffix (p_alt ms)"
  by (induction ms) (auto simp: leaves_suffix_def split: option.splits)

lemma leaves_suffix_drop: "leaves_suffix (\<lambda>s. if P s then Some (tl s) else None)"
  "leaves_suffix (\<lambda>s. Some (if Q s then tl s else s))"
  by (auto simp: leaves_suffix_def) (metis append_Cons append_Nil list.exhaust_sel tl_Nil)+

lemma leaves_suffix_redactions:
  "leaves_suffix bearer_pattern" "leaves_suffix secret_pattern" "leaves_suffix (path_pattern l)"
  by (auto simp: bearer_pattern_def secret_pattern_def secret_name_def path_pattern_def
      intro!: leaves_suffix_seq leaves_suffix_alt leaves_suffix_drop)

lemma not_key_here [simp]:
  "c \<noteq> CHR ''s'' \<Longrightarrow> \<not> key_here (c # t)" "d \<noteq> CHR ''k'' \<Longrightarrow> \<not> key_here (c # d # t)"
  by (auto simp: key_here_iff)

lemma harmless_redactions:
  "harmless bearer_pattern [] (bslash # ''1 <REDACTED>'')" "harmless secret_pattern [] (bslash # ''1=<REDACTED>'')"
  "harmless (path_pattern l) [] ''/home/<REDACTED>''" "harmless (path_pattern l) [] ''/Users/<REDACTED>''"
  by (auto simp: harmless_def stops_key_def is_key_char_def is_ascii_letter_def is_digit_def startswith_def bslash_def)

lemma pass_keeps:
  "harmless m p rep \<Longrightarrow> leaves_suffix m \<Longrightarrow> \<not> has_api_key s \<Longrightarrow> \<not> has_api_key (re_sub m rep s)"
  by (rule harmless_keeps) (auto simp: leaves_suffix_def)

text \<open>Whatever text is redacted before it is stored, the result holds no API key: nowhere in it does
  \<open>sk-\<close> stand before twenty or more letters and digits, not even pieced together by the later passes.\<close>
theorem redacted_text_has_no_api_key: "\<not> has_api_key (redact_text text)"
  by (simp add: redact_text_def REDACTIONS_def pass_keeps[OF harmless_redactions(2)] pass_keeps[OF harmless_redactions(3)]
      pass_keeps[OF harmless_redactions(4)] leaves_suffix_redactions key_pass)

text \<open>The passes for bearer tokens and named secrets need backslashes: other texts pass unchanged.\<close>

lemma re_sub_no_match: "(\<And>q t. s = q @ t \<Longrightarrow> m t = None) \<Longrightarrow> re_sub m rep s = s"
proof (induction s)
  case (Cons c s)
  from Cons.prems[of "[]"] have "m (c # s) = None" by simp
  moreover from Cons.prems have "re_sub m rep s = s" by (intro Cons.IH) (metis append_Cons)
  ultimately show ?case by simp
qed simp

lemma p_lit_bslash: "bslash \<notin> set t \<Longrightarrow> p_lit [bslash] t = None"
  by (auto simp: p_lit_def startswith_iff)

lemma seq_needs_backslash:
  assumes "leaves_suffix m" "bslash \<notin> set t"
  shows "p_seq (m # p_lit [bslash] # ms) t = None"
proof (cases "m t")
  case (Some r)
  then have "bslash \<notin> set r" using assms unfolding leaves_suffix_def by (metis Un_iff set_append)
  with Some show ?thesis by (simp add: p_then_def p_lit_bslash)
qed (simp add: p_then_def)

lemma bearer_needs_backslash: "bslash \<notin> set t \<Longrightarrow> bearer_pattern t = None"
  unfolding bearer_pattern_def by (rule seq_needs_backslash) simp_all

lemma secret_needs_backslash: "bslash \<notin> set t \<Longrightarrow> secret_pattern t = None"
  by (simp add: secret_pattern_def p_then_def p_lit_bslash)

lemma plain_secrets_stay:
  assumes "bslash \<notin> set text"
  shows "re_sub bearer_pattern rep text = text" "re_sub secret_pattern rep text = text"
  using assms by (auto intro!: re_sub_no_match bearer_needs_backslash secret_needs_backslash)

lemma bearer_token_not_redacted:
  "redact_text ''Authorization: Bearer abc123 token=abc123 /home/ann/my data and secrets'' =
     ''Authorization: Bearer abc123 token=abc123 /home/<REDACTED>secrets''"
  by code_simp

section \<open>What a recorded call leaves\<close>

lemma llm_path_parts: "posix_parts (llm_rel_path call_id name) = [''artifacts'', ''llm''] @ posix_parts call_id @ posix_parts name"
proof -
  have "llm_rel_path call_id name = ''artifacts/llm'' @ CHR ''/'' # call_id @ CHR ''/'' # name" by (simp add: llm_rel_path_def)
  then show ?thesis by (simp only: posix_parts_append) (simp add: posix_parts_def)
qed

definition llm_file :: "str \<Rightarrow> str \<Rightarrow> str list" where
  "llm_file call_id name = [''artifacts'', ''llm''] @ posix_parts call_id @ [name]"

lemma llm_paths_Inr:
  "llm_paths env job call_id = Inr (p, r, m) \<Longrightarrow>
     p = llm_file call_id ''prompt.txt'' \<and> r = llm_file call_id ''response.txt'' \<and> m = llm_file call_id ''meta.json''"
proof -
  have "posix_parts ''prompt.txt'' = [''prompt.txt'']" "posix_parts ''response.txt'' = [''response.txt'']"
    "posix_parts ''meta.json'' = [''meta.json'']" by (simp_all add: posix_parts_def)
  then show "llm_paths env job call_id = Inr (p, r, m) \<Longrightarrow> ?thesis"
    by (auto simp: llm_paths_def safe_artifact_path_def bindE_Inr_iff llm_path_parts llm_file_def split: if_splits)
qed

lemma atomic_write_Inr:
  "atomic_write env path c fs = (fs', Inr u) \<longleftrightarrow> \<not> te_write_fails env path \<and> fs' = dict_set fs path c"
  by (auto simp: atomic_write_def)

lemma write_llm_artifacts_Inr:
  assumes "write_llm_artifacts env job call_id prompt response meta fs = (fs', Inr refs)"
  shows "refs = llm_refs call_id" "dict_get fs' (llm_file call_id ''prompt.txt'') = Some (content.TextFile (redact_text prompt))"
    "dict_get fs' (llm_file call_id ''response.txt'') = Some (content.TextFile (redact_text response))"
    "dict_get fs' (llm_file call_id ''meta.json'') = Some (content.JsonFile meta)"
  using assms
  by (auto simp: write_llm_artifacts_def llm_file_def atomic_write_Inr dest!: llm_paths_Inr split: sum.splits prod.splits)

lemma outcome_of_text:
  assumes "outcome_of inner lo hi last_error = Inr outcome" "co_text outcome = Some text"
  obtains n where "lo \<le> n" "n \<le> hi" "inner n = Answered text" "\<forall>m\<in>{lo..<n}. failed_answer (inner m)"
    "outcome = \<lparr>co_text = Some text, co_response_text = text, co_error = None, co_attempts = n\<rparr>"
  using assms
proof (induction "nat (hi + 1 - lo)" arbitrary: lo last_error thesis rule: less_induct)
  case less
  show ?case
  proof (cases "lo \<le> hi")
    case False
    with less.prems(2,3) show ?thesis by (auto simp: outcome_of_def)
  next
    case le: True
    show ?thesis
    proof (cases "failed_answer (inner lo)")
      case failed: True
      have "nat (hi + 1 - (lo + 1)) < nat (hi + 1 - lo)" using le by simp
      moreover have "outcome_of inner (lo + 1) hi (error_of (inner lo)) = Inr outcome"
        using less.prems(2) outcome_of_failed[of lo hi inner last_error] le failed by simp
      ultimately obtain n where n: "lo + 1 \<le> n" "n \<le> hi" "inner n = Answered text"
        "\<forall>m\<in>{lo + 1..<n}. failed_answer (inner m)"
        "outcome = \<lparr>co_text = Some text, co_response_text = text, co_error = None, co_attempts = n\<rparr>"
        using less.hyps less.prems(3) by blast
      moreover have "\<forall>m\<in>{lo..<n}. failed_answer (inner m)"
      proof
        fix m assume "m \<in> {lo..<n}"
        with n(4) failed show "failed_answer (inner m)" by (cases "m = lo") simp_all
      qed
      ultimately show ?thesis using less.prems(1)[of n] by simp
    next
      case False
      with less.prems(2,3) le show ?thesis
        by (cases "inner lo") (auto simp: outcome_of_decided intro: less.prems(1)[of lo])
    qed
  qed
qed

lemma client_policy_normalized [simp]: "normalize_policy (client_policy env) 30 = client_policy env"
  by (simp add: client_policy_def normalize_policy_def normalized_timeout_seconds_def normalized_backoff_seconds_def
      normalized_max_attempts_def Let_def)

lemma client_call_outcome:
  "call_complete_text_with_retry inner (client_policy env) slept = (slept', Inr outcome) \<Longrightarrow>
     outcome_of (inner (rp_timeout_seconds (client_policy env))) 1 (rp_max_attempts (client_policy env)) None = Inr outcome"
  unfolding call_complete_text_with_retry_def using attempts_from_outcome by (metis client_policy_normalized snd_conv)

lemma call_and_record_Inr:
  assumes "call_and_record env operation prompt w = (w', Inr answer)"
  obtains slept outcome fs refs where
    "call_complete_text_with_retry (te_inner env operation prompt) (client_policy env) (lw_slept w) = (slept, Inr outcome)"
    "write_llm_artifacts env (lw_job w) (llm_call_id operation (te_stamp env) (te_sha256 env prompt)) prompt (co_response_text outcome)
       (build_meta env (llm_call_id operation (te_stamp env) (te_sha256 env prompt)) operation prompt (co_response_text outcome)
          (co_error outcome) (co_attempts outcome)) (lw_files w) = (fs, Inr refs)"
    "co_text outcome \<noteq> None" "answer = co_response_text outcome" "lw_files w' = fs"
    "lw_job w' = (lw_job w)\<lparr>j_artifacts_index := j_artifacts_index (lw_job w) @ refs\<rparr>"
proof (cases "call_complete_text_with_retry (te_inner env operation prompt) (client_policy env) (lw_slept w)")
  case (Pair slept r)
  show ?thesis
  proof (cases r)
    case (Inl e)
    with assms Pair show ?thesis by (simp add: call_and_record_def Let_def)
  next
    case (Inr outcome)
    with assms Pair show ?thesis
      by (cases "write_llm_artifacts env (lw_job w) (llm_call_id operation (te_stamp env) (te_sha256 env prompt)) prompt
            (co_response_text outcome) (build_meta env (llm_call_id operation (te_stamp env) (te_sha256 env prompt)) operation
            prompt (co_response_text outcome) (co_error outcome) (co_attempts outcome)) (lw_files w)")
         (auto simp: call_and_record_def Let_def split: sum.splits if_splits intro: that)
  qed
qed

text \<open>A call that returns a text is on record: the text is the provider's answer to one of the at
  most \<open>max_attempts\<close> attempts, all before it having failed; prompt and answer are on disk in redacted form
  with their metadata, and the job's index names the three files.\<close>
theorem answered_call_is_recorded:
  assumes "call_and_record env operation prompt w = (w', Inr answer)"
  defines "call_id \<equiv> llm_call_id operation (te_stamp env) (te_sha256 env prompt)"
    and "answers \<equiv> te_inner env operation prompt (rp_timeout_seconds (client_policy env))"
  shows "\<exists>n\<in>{1..rp_max_attempts (client_policy env)}.
           answers n = Answered answer \<and> (\<forall>m\<in>{1..<n}. failed_answer (answers m)) \<and>
           dict_get (lw_files w') (llm_file call_id ''prompt.txt'') = Some (content.TextFile (redact_text prompt)) \<and>
           dict_get (lw_files w') (llm_file call_id ''response.txt'') = Some (content.TextFile (redact_text answer)) \<and>
           dict_get (lw_files w') (llm_file call_id ''meta.json'') =
             Some (content.JsonFile (build_meta env call_id operation prompt answer None n)) \<and>
           lw_job w' = (lw_job w)\<lparr>j_artifacts_index := j_artifacts_index (lw_job w) @ llm_refs call_id\<rparr>"
proof -
  obtain slept outcome fs refs where res:
      "call_complete_text_with_retry (te_inner env operation prompt) (client_policy env) (lw_slept w) = (slept, Inr outcome)"
      "write_llm_artifacts env (lw_job w) call_id prompt (co_response_text outcome)
         (build_meta env call_id operation prompt (co_response_text outcome) (co_error outcome) (co_attempts outcome)) (lw_files w) = (fs, Inr refs)"
      "co_text outcome \<noteq> None" "answer = co_response_text outcome" "lw_files w' = fs"
      "lw_job w' = (lw_job w)\<lparr>j_artifacts_index := j_artifacts_index (lw_job w) @ refs\<rparr>"
    unfolding call_id_def by (rule call_and_record_Inr[OF assms(1)])
  obtain t where t: "co_text outcome = Some t" using res(3) by blast
  obtain n where n: "1 \<le> n" "n \<le> rp_max_attempts (client_policy env)" "answers n = Answered t"
      "\<forall>m\<in>{1..<n}. failed_answer (answers m)"
      "outcome = \<lparr>co_text = Some t, co_response_text = t, co_error = None, co_attempts = n\<rparr>"
    unfolding answers_def by (rule outcome_of_text[OF client_call_outcome[OF res(1)] t])
  have "answer = t" using res(4) n(5) by simp
  with n show ?thesis using write_llm_artifacts_Inr[OF res(2)] res(6) by (auto simp: res(5) intro!: bexI[of _ n])
qed

section \<open>A call at a concrete input\<close>

definition sample_trace :: trace_env where
  "sample_trace =
     \<lparr>te_inner = (\<lambda>operation prompt seconds n. if n = 1 then TimedOut else Answered ''use sk-aaaaaaaaaabbbbbbbbbb''),
      te_model = ''m'', te_temperature = JNull, te_seed = JNull,
      te_policy = \<lparr>rp_timeout_seconds = 5, rp_max_attempts = 3, rp_backoff_base_seconds = 1, rp_backoff_max_seconds = 2\<rparr>,
      te_sha256 = (\<lambda>_. ''0123456789abcdef''), te_stamp = ''20260101T000000000000Z'', te_started_at = ''a'', te_ended_at = ''b'',
      te_duration_ms = 7, te_dir_inside = True, te_escapes = (\<lambda>_. False), te_write_fails = (\<lambda>_. False),
      te_unlink_fails = (\<lambda>_. False)\<rparr>"

definition sample_llm_world :: llm_world where
  "sample_llm_world = \<lparr>lw_files = [], lw_job = new_job ''default'' ''job_1'' 0, lw_slept = []\<rparr>"

text \<open>A fault of the disk after the provider has answered loses the answer: the call raises, and is not retried.\<close>

lemma disk_fault_loses_answer:
  "snd (call_and_record (sample_trace\<lparr>te_write_fails := (\<lambda>p. last p = ''meta.json'')\<rparr>) ''draft_preview'' ''hello'' sample_llm_world) =
     Inl (DraftErr LLMArtifactsWrite)"
  by code_simp

end
