(* ===== verification/LlmOutputs.thy ===== *)
theory LlmOutputs
  imports LlmCalls
begin

text \<open>
  What the language model is asked and how its answers are read: drafts (domain/draft_preview_llm.py) and
  plans (domain/plan_generation_llm.py, domain/plan_generation_models.py).

  \<open>json.loads\<close> and \<open>json.dumps\<close> are the arguments \<open>loads\<close> (the value, or the text of the
  \<open>JSONDecodeError\<close>) and \<open>dumps\<close>; what pydantic says of an invalid plan and which numbers it takes for an
  integer are the arguments \<open>verror\<close> and \<open>int_like\<close>.
\<close>

section \<open>Fenced blocks\<close>

definition fence :: str where
  "fence = ''```''"

fun after_fence :: "str \<Rightarrow> str option" where
  "after_fence [] = None"
| "after_fence (c # s) = (if startswith (c # s) fence then Some (drop 3 (c # s)) else after_fence s)"

fun before_fence :: "str \<Rightarrow> str option" where
  "before_fence [] = None"
| "before_fence (c # s) = (if startswith (c # s) fence then Some [] else map_option ((#) c) (before_fence s))"

definition drop_json :: "str \<Rightarrow> str" where
  "drop_json s = (if startswith s ''json'' then drop 4 s else s)"

text \<open>
  The block of the draft parser. The pattern leaves out a line break before the closing fence, which the
  final \<open>strip\<close> removes in any case.
\<close>

definition extract_draft_json :: "str \<Rightarrow> str" where
  "extract_draft_json txt =
     (case after_fence txt of
        None \<Rightarrow> txt
      | Some rest \<Rightarrow>
          (case before_fence (dropWhile py_isspace (drop_json rest)) of None \<Rightarrow> txt | Some body \<Rightarrow> py_strip body))"

text \<open>
  The block of the plan parser, whose raw string doubles the backslashes: after the fence it wants a
  backslash, letters s, a backslash and perhaps a letter n; before the closing fence a backslash and perhaps
  a letter n.
\<close>

fun before_plan_close :: "str \<Rightarrow> str option" where
  "before_plan_close [] = None"
| "before_plan_close (c # s) =
     (if c = bslash \<and> (startswith s fence \<or> startswith s (CHR ''n'' # fence)) then Some []
      else map_option ((#) c) (before_plan_close s))"

definition plan_block_after :: "str \<Rightarrow> str option" where
  "plan_block_after rest =
     (case p_seq [p_lit [bslash], p_star is_s, p_lit [bslash]] (drop_json rest) of
        None \<Rightarrow> None
      | Some r \<Rightarrow> before_plan_close (if startswith r ''n'' then tl r else r))"

fun plan_block :: "str \<Rightarrow> str option" where
  "plan_block [] = None"
| "plan_block (c # s) =
     (case (if startswith (c # s) fence then plan_block_after (drop 3 (c # s)) else None) of
        Some b \<Rightarrow> Some b
      | None \<Rightarrow> plan_block s)"

definition extract_plan_json :: "str \<Rightarrow> str" where
  "extract_plan_json txt = (case plan_block txt of None \<Rightarrow> txt | Some b \<Rightarrow> py_strip b)"

section \<open>Drafts\<close>

record draft_output =
  do_schema_version :: int
  do_draft_text :: str
  do_outcome_var :: "str option"
  do_treatment_var :: "str option"
  do_controls :: "str list"
  do_time_var :: "str option"
  do_entity_var :: "str option"
  do_cluster_var :: "str option"
  do_fixed_effects :: "str list"
  do_interaction_terms :: "str list"
  do_instrument_var :: "str option"
  do_analysis_hints :: "str list"
  do_default_overrides :: jobj

text \<open>The readers of single fields; \<open>None\<close> is a \<open>DraftPreviewParseError\<close>.\<close>

definition draft_schema_version :: "jobj \<Rightarrow> int option" where
  "draft_schema_version parsed =
     (case dict_get parsed ''schema_version'' of
        None \<Rightarrow> Some 1
      | Some v \<Rightarrow> (case as_int v of Some n \<Rightarrow> (if n = 1 \<or> n = 2 then Some n else None) | None \<Rightarrow> None))"

definition required_text :: "jobj \<Rightarrow> str \<Rightarrow> str option" where
  "required_text parsed key = map_option py_strip (nonblank_str (dict_get parsed key))"

definition optional_text :: "jobj \<Rightarrow> str \<Rightarrow> str option option" where
  "optional_text parsed key =
     (case dict_get parsed key of
        None \<Rightarrow> Some None
      | Some JNull \<Rightarrow> Some None
      | Some (JStr s) \<Rightarrow> Some (if blank s then None else Some (py_strip s))
      | _ \<Rightarrow> None)"

definition optional_text_list :: "jobj \<Rightarrow> str \<Rightarrow> str list option" where
  "optional_text_list parsed key =
     (case dict_get parsed key of
        None \<Rightarrow> Some []
      | Some JNull \<Rightarrow> Some []
      | Some (JList items) \<Rightarrow>
          Some (concat (map (\<lambda>i. case i of JStr s \<Rightarrow> (if blank s then [] else [py_strip s]) | _ \<Rightarrow> []) items))
      | _ \<Rightarrow> None)"

definition optional_json_object :: "jobj \<Rightarrow> str \<Rightarrow> jobj option" where
  "optional_json_object parsed key =
     (case dict_get parsed key of
        None \<Rightarrow> Some []
      | Some JNull \<Rightarrow> Some []
      | Some (JObj o1) \<Rightarrow> Some (filter (\<lambda>(k, _). \<not> blank k) o1)
      | _ \<Rightarrow> None)"

definition bindO :: "'a option \<Rightarrow> ('a \<Rightarrow> 'b option) \<Rightarrow> 'b option" where
  "bindO m f = (case m of None \<Rightarrow> None | Some x \<Rightarrow> f x)"

definition draft_output_of :: "jobj \<Rightarrow> draft_output option" where
  "draft_output_of parsed =
     bindO (draft_schema_version parsed) (\<lambda>version.
     bindO (required_text parsed ''draft_text'') (\<lambda>txt.
     bindO (optional_text parsed ''outcome_var'') (\<lambda>outcome.
     bindO (optional_text parsed ''treatment_var'') (\<lambda>treatment.
     bindO (optional_text_list parsed ''controls'') (\<lambda>controls.
     bindO (optional_text parsed ''time_var'') (\<lambda>time.
     bindO (optional_text parsed ''entity_var'') (\<lambda>entity.
     bindO (optional_text parsed ''cluster_var'') (\<lambda>cluster.
     bindO (optional_text_list parsed ''fixed_effects'') (\<lambda>fixed.
     bindO (optional_text_list parsed ''interaction_terms'') (\<lambda>terms.
     bindO (optional_text parsed ''instrument_var'') (\<lambda>instrument.
     bindO (optional_text_list parsed ''analysis_hints'') (\<lambda>hints.
     bindO (optional_json_object parsed ''default_overrides'') (\<lambda>overrides.
       Some \<lparr>do_schema_version = version, do_draft_text = txt, do_outcome_var = outcome,
             do_treatment_var = treatment, do_controls = controls, do_time_var = time, do_entity_var = entity,
             do_cluster_var = cluster, do_fixed_effects = fixed, do_interaction_terms = terms,
             do_instrument_var = instrument, do_analysis_hints = hints, do_default_overrides = overrides\<rparr>)))))))))))))"

definition parse_draft_preview_v2 :: "(str \<Rightarrow> str + json) \<Rightarrow> str \<Rightarrow> draft_output option" where
  "parse_draft_preview_v2 loads txt =
     (let raw = py_strip txt;
          raw = (if contains_str raw fence then extract_draft_json raw else raw)
      in case loads raw of Inr (JObj parsed) \<Rightarrow> draft_output_of parsed | _ \<Rightarrow> None)"

text \<open>The fields of a draft that a parsed answer sets; those \<open>Draft\<close> does not declare are extra fields.\<close>

definition draft_with_output :: "draft_output \<Rightarrow> draft \<Rightarrow> draft" where
  "draft_with_output out d =
     (let opt = (\<lambda>v. case v of None \<Rightarrow> JNull | Some s \<Rightarrow> JStr s);
          extra = [(''time_var'', opt (do_time_var out)), (''entity_var'', opt (do_entity_var out)),
                   (''cluster_var'', opt (do_cluster_var out)),
                   (''fixed_effects'', JList (map JStr (do_fixed_effects out))),
                   (''interaction_terms'', JList (map JStr (do_interaction_terms out))),
                   (''instrument_var'', opt (do_instrument_var out)),
                   (''analysis_hints'', JList (map JStr (do_analysis_hints out))),
                   (''draft_preview_schema_version'', JInt (do_schema_version out))]
      in d\<lparr>d_text := py_strip (do_draft_text out), d_outcome_var := do_outcome_var out,
           d_treatment_var := do_treatment_var out, d_controls := do_controls out,
           d_default_overrides := do_default_overrides out,
           d_extra := fold (\<lambda>(k, v) o1. dict_set o1 k v) extra (d_extra d)\<rparr>)"

text \<open>With \<open>strict\<close> an unreadable answer raises (\<open>None\<close>), otherwise the draft stays.\<close>

definition apply_structured_fields :: "(str \<Rightarrow> str + json) \<Rightarrow> bool \<Rightarrow> draft \<Rightarrow> (draft \<times> bool) option" where
  "apply_structured_fields loads strict d =
     (case parse_draft_preview_v2 loads (d_text d) of
        Some out \<Rightarrow> Some (draft_with_output out d, True)
      | None \<Rightarrow> (if strict then None else Some (d, False)))"

section \<open>The question for a draft\<close>

definition lines_text :: "str list \<Rightarrow> str" where
  "lines_text ls = py_join [CHR 0x0A] ls"

definition normalized_candidates :: "str list \<Rightarrow> str list" where
  "normalized_candidates cs = take 50 (map py_strip (filter (\<lambda>c. \<not> blank c) cs))"

definition draft_schema_hint :: json where
  "draft_schema_hint =
     JObj [(''schema_version'', JInt 2), (''draft_text'', JStr ''string (<= 3 sentences)''),
           (''outcome_var'', JStr ''string|null''), (''treatment_var'', JStr ''string|null''),
           (''controls'', JList [JStr ''string'', JStr ''...'']),
           (''time_var'', JStr ''string|null (panel time index, e.g. year)''),
           (''entity_var'', JStr ''string|null (panel entity id, e.g. firm_id)''),
           (''cluster_var'', JStr ''string|null (SE clustering var)''),
           (''fixed_effects'', JList [JStr ''string'', JStr ''...'']),
           (''interaction_terms'', JList [JStr ''string'', JStr ''...'']),
           (''instrument_var'', JStr ''string|null (IV instrument for treatment_var)''),
           (''analysis_hints'', JList [JStr ''string'', JStr ''...'']), (''default_overrides'', JObj [])]"

definition draft_rules :: "str list" where
  "draft_rules =
     [''- Always output schema_version=2.'',
      ''- Use exact column names from COLUMN_CANDIDATES for existing variables; do not invent names.'',
      ''- If a variable is unclear or not present, return null (for strings) or [] (for arrays).'',
      ''- controls/fixed_effects/interaction_terms/analysis_hints must be JSON arrays of strings.'',
      ''- fixed_effects should list FE dimensions (e.g., ['firm_id','year']); '' @
      ''include entity/time FE when appropriate.'',
      ''- Panel: set entity_var and time_var if requirement implies panel '' @ ''(e.g., firm-year, person-month).'',
      ''- DID: keep treatment_var as the treatment indicator; add the DID interaction in '' @
      ''interaction_terms (e.g., 'treated#post'); include fixed_effects/cluster_var '' @ ''if specified.'',
      ''- IV: set instrument_var when requirement mentions an instrument '' @ ''for an endogenous regressor; add 'iv_2sls' '' @
      ''or similar to analysis_hints.'',
      ''- draft_text should be concise (<= 3 sentences).'']"

definition build_draft_preview_prompt_v2 :: "(json \<Rightarrow> str) \<Rightarrow> str \<Rightarrow> str list \<Rightarrow> str" where
  "build_draft_preview_prompt_v2 dumps requirement column_candidates =
     lines_text
       ([''You are an econometrics expert and Stata power user.'',
         ''Task: extract variables and econometric structure from the requirement and columns.'',
         ''Return ONLY a valid JSON object (no markdown, no extra text).'', [],
         ''REQUIREMENT:'' @ [CHR 0x0A] @ py_strip requirement, [],
         ''COLUMN_CANDIDATES (use exact names when possible):'',
         dumps (JList (map JStr (normalized_candidates column_candidates))), [],
         ''OUTPUT_SCHEMA (v2):'', dumps draft_schema_hint, [], ''Rules:''] @ draft_rules)"

section \<open>Plans: the question\<close>

fun step_type_value :: "plan_step_type \<Rightarrow> str" where
  "step_type_value GENERATE_STATA_DO = ''generate_stata_do''"
| "step_type_value RUN_STATA = ''run_stata''"
| "step_type_value DESCRIPTIVE_STATS = ''descriptive_stats''"
| "step_type_value ROBUSTNESS_CHECK = ''robustness_check''"
| "step_type_value HETEROGENEITY_ANALYSIS = ''heterogeneity_analysis''"
| "step_type_value DATA_VALIDATION = ''data_validation''"

definition step_types :: "plan_step_type list" where
  "step_types = [GENERATE_STATA_DO, RUN_STATA, DESCRIPTIVE_STATS, ROBUSTNESS_CHECK, HETEROGENEITY_ANALYSIS, DATA_VALIDATION]"

record data_schema =
  dsc_columns :: "str list"
  dsc_n_rows :: "int option"
  dsc_has_panel_structure :: bool
  dsc_detected_vars :: "(str, str option) dict"

record plan_input =
  pgi_job_id :: str
  pgi_requirement :: str
  pgi_draft :: "draft option"
  pgi_selected_templates :: "str list"
  pgi_data_schema :: data_schema
  pgi_max_steps :: int

definition truncate_text :: "str \<Rightarrow> int \<Rightarrow> str" where
  "truncate_text txt max_chars =
     (if max_chars \<le> 0 then []
      else let value = py_strip txt
           in if int (length value) \<le> max_chars then value
              else (if 3 \<le> max_chars then take (nat (max_chars - 3)) value
                    else take (length value - nat (3 - max_chars)) value) @ ''...'')"

definition plan_schema_hint :: "str list \<Rightarrow> json" where
  "plan_schema_hint allowed_types =
     JObj [(''schema_version'', JInt 1),
           (''steps'', JList [JObj
              [(''step_id'', JStr ''snake_case string''), (''type'', JStr (''one of: '' @ py_join '', '' allowed_types)),
               (''purpose'', JStr ''short purpose string''), (''depends_on'', JList [JStr ''step_id'', JStr ''...'']),
               (''fallback_step_id'', JStr ''step_id|null''),
               (''params'', JObj [(''template_id'', JStr ''optional template id from SELECTED_TEMPLATES'')])]])]"

definition data_schema_json :: "data_schema \<Rightarrow> json" where
  "data_schema_json d =
     JObj [(''columns'', JList (map JStr (take 50 (dsc_columns d)))),
           (''n_rows'', case dsc_n_rows d of None \<Rightarrow> JNull | Some n \<Rightarrow> JInt n),
           (''has_panel_structure'', JBool (dsc_has_panel_structure d)),
           (''detected_vars'', JObj (map (\<lambda>(k, v). (k, case v of None \<Rightarrow> JNull | Some s \<Rightarrow> JStr s)) (dsc_detected_vars d)))]"

definition plan_rules :: "str list" where
  "plan_rules =
     [''Rules:'', ''- Use safe step_id (snake_case, no spaces).'',
      ''- Use depends_on to express ordering; all references must exist.'',
      ''- If uncertain, prefer fewer steps but keep the logic sound.'',
      ''- Do not invent template ids outside SELECTED_TEMPLATES.'']"

definition build_plan_generation_prompt :: "(json \<Rightarrow> str) \<Rightarrow> plan_input \<Rightarrow> str" where
  "build_plan_generation_prompt dumps i =
     lines_text
       ([''You are a research methodology planner and Stata power user.'',
         ''Task: turn the requirement into a logical multi-step execution plan.'',
         ''Constraint: steps <= '' @ show_int (pgi_max_steps i) @ ''.'',
         ''Return ONLY a valid JSON object (no markdown, no extra text).'', [],
         ''JOB_ID: '' @ pgi_job_id i, [], ''REQUIREMENT:'', py_strip (pgi_requirement i), [],
         ''SELECTED_TEMPLATES (choose from these when setting params.template_id):'',
         dumps (JList (map JStr (pgi_selected_templates i))), [],
         ''DATA_SCHEMA:'', dumps (data_schema_json (pgi_data_schema i)), [],
         ''DRAFT (may be partial; use only as context):'',
         truncate_text (case pgi_draft i of None \<Rightarrow> [] | Some d \<Rightarrow> d_text d) 800, [],
         ''OUTPUT_SCHEMA:'', dumps (plan_schema_hint (map step_type_value step_types)), []] @ plan_rules)"

section \<open>Plans: the answer\<close>

text \<open>
  \<open>GenParse\<close> is a \<open>PlanGenerationParseError\<close> with its code and message, \<open>GenValue\<close> a
  \<open>ValueError\<close> (pydantic's \<open>ValidationError\<close> is one) with its class and text.
\<close>

datatype gen_error = GenParse str str | GenValue str str | GenOther exn

text \<open>\<open>PlanStep.model_validate\<close> on a JSON value; \<open>None\<close> is a \<open>ValidationError\<close>.\<close>

definition artifact_kinds :: "artifact_kind list" where
  "artifact_kinds =
     [INPUTS_MANIFEST, INPUTS_DATASET, LLM_PROMPT, LLM_RESPONSE, LLM_META, PLAN_JSON, COMPOSITION_SUMMARY_JSON,
      COMPOSITION_PRODUCT_DATASET, COMPOSITION_PRODUCT_TABLE, DO_TEMPLATE_SOURCE, DO_TEMPLATE_META, DO_TEMPLATE_PARAMS,
      DO_TEMPLATE_RUN_META_JSON, DO_TEMPLATE_SELECTION_STAGE1, DO_TEMPLATE_SELECTION_CANDIDATES,
      DO_TEMPLATE_SELECTION_STAGE2, STATA_DO, STATA_LOG, STATA_RESULT_LOG, RUN_STDOUT, RUN_STDERR, RUN_META_JSON,
      RUN_ERROR_JSON, STATA_EXPORT_TABLE, STATA_EXPORT_FIGURE, STATA_EXPORT_DATASET, STATA_EXPORT_REPORT,
      STATA_EXPORT_MANIFEST, STATA_EXPORT_OTHER, STATA_REPORT_INTERPRETATION]"

definition json_texts :: "json option \<Rightarrow> str list option" where
  "json_texts v =
     (case v of None \<Rightarrow> Some [] | Some (JList items) \<Rightarrow> all_some (map as_str items) | _ \<Rightarrow> None)"

definition validate_plan_step :: "json \<Rightarrow> plan_step option" where
  "validate_plan_step v =
     (case v of
        JObj flds \<Rightarrow>
          if \<not> set (map fst flds) \<subseteq> {''step_id'', ''type'', ''purpose'', ''fallback_step_id'', ''params'', ''depends_on'', ''produces''}
          then None
          else bindO (bindO (dict_get flds ''step_id'') as_str) (\<lambda>step_id.
               bindO (enum_of step_type_value step_types (dict_get flds ''type'')) (\<lambda>step_type.
               bindO (case dict_get flds ''purpose'' of None \<Rightarrow> Some [] | Some p \<Rightarrow> as_str p) (\<lambda>purpose.
               bindO (opt_text (dict_get flds ''fallback_step_id'')) (\<lambda>fallback.
               bindO (case dict_get flds ''params'' of None \<Rightarrow> Some [] | Some p \<Rightarrow> as_obj p) (\<lambda>params.
               bindO (json_texts (dict_get flds ''depends_on'')) (\<lambda>deps.
               bindO (case dict_get flds ''produces'' of
                        None \<Rightarrow> Some []
                      | Some (JList items) \<Rightarrow> all_some (map (\<lambda>i. enum_of artifact_kind_value artifact_kinds (Some i)) items)
                      | _ \<Rightarrow> None) (\<lambda>produces.
                 if blank step_id then None
                 else Some \<lparr>ps_step_id = step_id, ps_type = step_type, ps_purpose = purpose,
                            ps_fallback_step_id = fallback, ps_params = params, ps_depends_on = deps,
                            ps_produces = produces\<rparr>)))))))
      | _ \<Rightarrow> None)"

definition raw_steps_or_error :: "jobj \<Rightarrow> gen_error + jobj list" where
  "raw_steps_or_error parsed =
     (case dict_get parsed ''steps'' of
        Some (JList items) \<Rightarrow>
          (case all_some (map as_obj items) of
             Some steps \<Rightarrow> Inr steps
           | None \<Rightarrow> Inl (GenParse ''PLAN_GEN_SCHEMA_INVALID'' ''each step must be an object''))
      | _ \<Rightarrow> Inl (GenParse ''PLAN_GEN_SCHEMA_INVALID'' ''Missing or invalid 'steps' field''))"

definition validated_step_type :: "json option \<Rightarrow> gen_error + unit" where
  "validated_step_type v =
     (case nonblank_str v of
        None \<Rightarrow> Inl (GenParse ''PLAN_GEN_STEP_TYPE_INVALID'' ''step.type must be a non-empty string'')
      | Some t \<Rightarrow> guardE (t \<in> set (map step_type_value step_types))
                   (GenParse ''PLAN_GEN_UNSUPPORTED_STEP_TYPE'' (''unsupported step type: '' @ t)))"

definition validate_raw_step :: "jobj \<Rightarrow> gen_error + unit" where
  "validate_raw_step item =
     bindE (validated_step_type (dict_get item ''type'')) (\<lambda>_.
       case nonblank_str (dict_get item ''step_id'') of
         None \<Rightarrow> Inl (GenParse ''PLAN_GEN_STEP_ID_INVALID'' ''step_id must be a non-empty string'')
       | Some step_id \<Rightarrow> guardE (is_safe_path_segment step_id)
                          (GenParse ''PLAN_GEN_STEP_ID_UNSAFE'' (''unsafe step_id: '' @ step_id)))"

fun each_ok :: "('a \<Rightarrow> 'e + unit) \<Rightarrow> 'a list \<Rightarrow> 'e + unit" where
  "each_ok f [] = Inr ()"
| "each_ok f (x # xs) = bindE (f x) (\<lambda>_. each_ok f xs)"

definition validate_raw_steps :: "jobj list \<Rightarrow> int \<Rightarrow> gen_error + unit" where
  "validate_raw_steps steps max_steps =
     (if steps = [] then Inl (GenParse ''PLAN_GEN_EMPTY_STEPS'' ''steps must be non-empty'')
      else if 0 < max_steps \<and> max_steps < int (length steps)
      then Inl (GenParse ''PLAN_GEN_MAX_STEPS_EXCEEDED'' (''steps exceeds max_steps='' @ show_int max_steps))
      else each_ok validate_raw_step steps)"

definition response_v1_or_error :: "(jobj \<Rightarrow> str) \<Rightarrow> (json \<Rightarrow> bool) \<Rightarrow> jobj \<Rightarrow> gen_error + plan_step list" where
  "response_v1_or_error verror int_like parsed =
     (let bad = Inl (GenParse ''PLAN_GEN_SCHEMA_INVALID'' (''Schema validation failed: '' @ verror parsed))
      in if \<not> set (map fst parsed) \<subseteq> {''schema_version'', ''steps''} then bad
         else if \<not> (case dict_get parsed ''schema_version'' of None \<Rightarrow> True | Some v \<Rightarrow> int_like v) then bad
         else case dict_get parsed ''steps'' of
                None \<Rightarrow> Inr []
              | Some (JList items) \<Rightarrow>
                  (case all_some (map validate_plan_step items) of Some steps \<Rightarrow> Inr steps | None \<Rightarrow> bad)
              | _ \<Rightarrow> bad)"

definition validate_template_id_if_present :: "str list \<Rightarrow> plan_step \<Rightarrow> gen_error + unit" where
  "validate_template_id_if_present selected_templates s =
     (if selected_templates = [] then Inr ()
      else case dict_get (ps_params s) ''template_id'' of
             None \<Rightarrow> Inr ()
           | Some JNull \<Rightarrow> Inr ()
           | Some v \<Rightarrow>
               (case nonblank_str (Some v) of
                  None \<Rightarrow> Inl (GenParse ''PLAN_GEN_TEMPLATE_ID_INVALID'' ''params.template_id must be a non-empty string when present'')
                | Some t \<Rightarrow> guardE (t \<in> set selected_templates)
                             (GenParse ''PLAN_GEN_TEMPLATE_ID_UNSUPPORTED'' (''params.template_id not in selected templates: '' @ t))))"

definition parse_json_object :: "(str \<Rightarrow> str + json) \<Rightarrow> str \<Rightarrow> gen_error + jobj" where
  "parse_json_object loads txt =
     (let raw = py_strip txt;
          raw = (if contains_str raw fence then extract_plan_json raw else raw)
      in case loads raw of
           Inl e \<Rightarrow> Inl (GenParse ''PLAN_GEN_JSON_INVALID'' (''Invalid JSON: '' @ e))
         | Inr (JObj parsed) \<Rightarrow> Inr parsed
         | Inr _ \<Rightarrow> Inl (GenParse ''PLAN_GEN_SCHEMA_INVALID'' ''Response must be a JSON object''))"

text \<open>The validators of \<open>LLMPlan\<close> on the steps raise a \<open>ValidationError\<close> that is not recast.\<close>

definition parse_plan_generation_result ::
  "(str \<Rightarrow> str + json) \<Rightarrow> (jobj \<Rightarrow> str) \<Rightarrow> (json \<Rightarrow> bool) \<Rightarrow> str \<Rightarrow> int \<Rightarrow> str list \<Rightarrow> gen_error + plan_step list" where
  "parse_plan_generation_result loads verror int_like txt max_steps selected_templates =
     bindE (parse_json_object loads txt) (\<lambda>parsed.
     bindE (raw_steps_or_error parsed) (\<lambda>raw_steps.
     bindE (validate_raw_steps raw_steps max_steps) (\<lambda>_.
     bindE (response_v1_or_error verror int_like parsed) (\<lambda>steps.
     bindE (each_ok (validate_template_id_if_present selected_templates) steps) (\<lambda>_.
     bindE (guardE (steps_valid steps) (GenValue ''ValidationError'' (verror parsed))) (\<lambda>_. Inr steps))))))"

end
