(* ===== verification/TemplateCatalog.thy ===== *)
theory TemplateCatalog
  imports DoFile
begin

text \<open>
  The catalogue of the template library (infra/fs_do_template_catalog.py, domain/do_template_catalog.py) and
  the choice of a template without a language model (\<open>select_template_id\<close> of
  domain/do_template_plan_support.py). The library is \<open>template_library\<close> of \<open>DoFile\<close>; the cached index is
  its \<open>tl_index\<close>.
\<close>

record family_summary =
  fs_family_id :: str
  fs_description :: str
  fs_capabilities :: "str list"
  fs_template_ids :: "str list"

record template_summary =
  ts_template_id :: str
  ts_family_id :: str
  ts_name :: str
  ts_slug :: str
  ts_placeholders :: "str list"
  ts_output_types :: "str list"

definition index_families :: "jobj \<Rightarrow> template_error + jobj" where
  "index_families index =
     (case dict_get index ''families'' of
        None \<Rightarrow> Inr []
      | Some (JObj f) \<Rightarrow> Inr f
      | _ \<Rightarrow> Inl (DoTemplateIndexCorrupted ''index.families_invalid''))"

text \<open>The distinct non-blank texts of a list, stripped and sorted; \<open>text_or\<close> reads a text field with a default.\<close>

definition clean_texts :: "json option \<Rightarrow> str list" where
  "clean_texts v =
     (case v of
        Some (JList items) \<Rightarrow>
          sort (remdups (concat (map (\<lambda>i. case i of JStr s \<Rightarrow> (if blank s then [] else [py_strip s]) | _ \<Rightarrow> []) items)))
      | _ \<Rightarrow> [])"

definition text_or :: "str \<Rightarrow> json option \<Rightarrow> str" where
  "text_or dflt v = (case v of Some (JStr s) \<Rightarrow> s | _ \<Rightarrow> dflt)"

definition output_types_from_task_record :: "jobj \<Rightarrow> str list" where
  "output_types_from_task_record rec =
     (case dict_get rec ''outputs'' of
        Some (JList items) \<Rightarrow>
          clean_texts (Some (JList (concat (map (\<lambda>i. case i of JObj o1 \<Rightarrow> (case dict_get o1 ''type'' of Some v \<Rightarrow> [v] | None \<Rightarrow> [])
                                                        | _ \<Rightarrow> []) items))))
      | _ \<Rightarrow> [])"

definition placeholders_from_task_record :: "jobj \<Rightarrow> str list" where
  "placeholders_from_task_record rec = clean_texts (dict_get rec ''placeholders'')"

definition family_summary_of :: "str \<Rightarrow> jobj \<Rightarrow> family_summary" where
  "family_summary_of family_id rec =
     \<lparr>fs_family_id = py_strip family_id, fs_description = py_strip (text_or [] (dict_get rec ''description'')),
      fs_capabilities = clean_texts (dict_get rec ''capabilities''), fs_template_ids = clean_texts (dict_get rec ''tasks'')\<rparr>"

fun family_summaries :: "jobj \<Rightarrow> template_error + family_summary list" where
  "family_summaries [] = Inr []"
| "family_summaries ((family_id, v) # rest) =
     (if blank family_id then family_summaries rest
      else case v of
             JObj rec \<Rightarrow> bindE (family_summaries rest) (\<lambda>items. Inr (family_summary_of family_id rec # items))
           | _ \<Rightarrow> Inl (DoTemplateIndexCorrupted ''index.family_record_invalid''))"

definition list_families :: "template_library \<Rightarrow> template_error + family_summary list" where
  "list_families lib =
     bindE (library_index lib) (\<lambda>index.
     bindE (index_families index) (\<lambda>families.
     bindE (family_summaries families) (\<lambda>items. Inr (sort_key fs_family_id items))))"

definition template_summaries :: "str list \<Rightarrow> jobj \<Rightarrow> template_summary list" where
  "template_summaries family_set tasks =
     concat (map (\<lambda>(template_id, v).
       case v of
         JObj rec \<Rightarrow>
           (case nonblank_str (dict_get rec ''family'') of
              Some family_id \<Rightarrow>
                (if py_strip family_id \<in> set family_set
                 then [\<lparr>ts_template_id = py_strip template_id, ts_family_id = py_strip family_id,
                        ts_name = text_or [] (dict_get rec ''name''), ts_slug = text_or [] (dict_get rec ''slug''),
                        ts_placeholders = placeholders_from_task_record rec,
                        ts_output_types = output_types_from_task_record rec\<rparr>]
                 else [])
            | None \<Rightarrow> [])
       | _ \<Rightarrow> []) tasks)"

definition list_templates :: "template_library \<Rightarrow> str list \<Rightarrow> template_error + template_summary list" where
  "list_templates lib family_ids =
     (let family_set = remdups (map py_strip (filter (\<lambda>f. \<not> blank f) family_ids))
      in if family_set = [] then Inr []
         else bindE (library_index lib) (\<lambda>index.
              bindE (tasks_mapping index) (\<lambda>tasks.
                Inr (sort_key ts_template_id (template_summaries family_set tasks)))))"

definition select_template_id :: "template_library \<Rightarrow> str list \<Rightarrow> template_error + str" where
  "select_template_id lib analysis_vars =
     bindE (list_families lib) (\<lambda>families.
     bindE (list_templates lib (filter (\<lambda>f. \<not> blank f) (map fs_family_id families))) (\<lambda>_.
     bindE (list_template_ids lib) (\<lambda>ids.
       if analysis_vars \<noteq> [] \<and> ''T01'' \<in> set ids then Inr ''T01''
       else if ''TA14'' \<in> set ids then Inr ''TA14''
       else if ids \<noteq> [] then Inr (hd (sort ids))
       else Inl (DoTemplateIndexCorrupted ''index.no_tasks''))))"

end
