(* ===== verification/PlanBuild.thy ===== *)
theory PlanBuild
  imports LlmOutputs TemplateCatalog RunTrigger
begin

text \<open>
  How a plan comes to be: the contract of its template (domain/plan_freeze_contract.py,
  domain/plan_template_contract_builder.py, domain/plan_contract_extract.py), the steps of a rule-based plan
  (domain/plan_steps.py, domain/plan_service_rule_builder.py), the plan of the language model
  (domain/plan_service_llm_builder.py, domain/plan_service_llm_support.py) and the fallback from the second to
  the first (\<open>PlanService\<close>).

  These are the builders that freezing takes from its environment: \<open>plan_env_of\<close> puts them there. What
  remains a parameter (\<open>build_env\<close>) is the template library on disk, reading JSON files of the job, the call
  of the model, JSON, hashing and the texts of exceptions.
\<close>

section \<open>The environment\<close>

datatype json_read = ReadJson json | ReadFails | ReadRaises exn

record build_env =
  be_library :: template_library
  be_read :: "str \<Rightarrow> str \<Rightarrow> str \<Rightarrow> json_read"
  be_in_thread :: "job \<Rightarrow> str \<Rightarrow> artifact_ref list \<times> (exn + str)"
  be_running_loop :: bool
  be_direct :: "job \<Rightarrow> str \<Rightarrow> artifact_ref list \<times> (exn + str)"
  be_loads :: "str \<Rightarrow> str + json"
  be_dumps :: "json \<Rightarrow> str"
  be_verror :: "jobj \<Rightarrow> str"
  be_int_like :: "json \<Rightarrow> bool"
  be_sha256 :: "str \<Rightarrow> str"
  be_exn_text :: "exn \<Rightarrow> str"
  be_max_steps :: int

section \<open>The contract of a template\<close>

definition dependencies_from_meta :: "jobj \<Rightarrow> template_error + jobj list" where
  "dependencies_from_meta meta =
     (case dict_get meta ''dependencies'' of
        None \<Rightarrow> Inr []
      | Some JNull \<Rightarrow> Inr []
      | Some (JList items) \<Rightarrow> Inr (List.map_filter as_obj items)
      | _ \<Rightarrow> Inl (DoTemplateContractInvalid ''meta.dependencies_invalid''))"

fun declared_contract :: "jobj list \<Rightarrow> template_error + json list" where
  "declared_contract [] = Inr []"
| "declared_contract (output # rest) =
     bindE (output_filename output) (\<lambda>filename.
     bindE (declared_contract rest) (\<lambda>items.
       Inr (JObj [(''file'', JStr filename), (''type'', JStr (text_or [] (dict_get output ''type''))),
                  (''description'', JStr (text_or [] (dict_get output ''description'')))] # items)))"

definition outputs_contract_from_meta :: "jobj \<Rightarrow> template_error + jobj" where
  "outputs_contract_from_meta meta =
     bindE (declared_outputs meta) (\<lambda>outputs.
     bindE (declared_contract outputs) (\<lambda>declared.
       Inr [(''declared'', JList declared), (''archive_dir_rel_path'', JStr ''runs/{run_id}/artifacts/outputs''),
            (''filename_constraints'',
             JObj [(''posix_relative'', JBool True), (''no_parent_traversal'', JBool True),
                   (''no_backslash'', JBool True), (''no_tilde'', JBool True)])]))"

definition bound_param :: "(str, str) dict \<Rightarrow> str \<Rightarrow> bool" where
  "bound_param bound_values name = (case dict_get bound_values name of None \<Rightarrow> False | Some v \<Rightarrow> \<not> blank v)"

definition params_contract_from_meta :: "jobj \<Rightarrow> (str, str) dict \<Rightarrow> jobj" where
  "params_contract_from_meta meta bound_values =
     (let specs = template_param_specs meta;
          required = map tp_name (filter tp_required specs);
          texts = (\<lambda>xs. JList (map JStr (sort (remdups xs))))
      in [(''required'', texts required), (''optional'', texts (map tp_name (filter (Not \<circ> tp_required) specs))),
          (''bound_values'', JObj (map (\<lambda>(k, v). (k, JStr v)) bound_values)),
          (''missing_required'', texts (filter (Not \<circ> bound_param bound_values) required))])"

definition build_plan_freeze_contract :: "str \<Rightarrow> jobj \<Rightarrow> (str, str) dict \<Rightarrow> template_error + jobj" where
  "build_plan_freeze_contract template_id meta bound_values =
     bindE (dependencies_from_meta meta) (\<lambda>dependencies.
     bindE (outputs_contract_from_meta meta) (\<lambda>outputs.
       Inr [(''template_id'', JStr template_id),
            (''meta_contract_version'', JStr (text_or [] (dict_get meta ''contract_version''))),
            (''meta_template_version'', JStr (text_or [] (dict_get meta ''version''))),
            (''params_contract'', JObj (params_contract_from_meta meta bound_values)),
            (''dependencies'', JList (map JObj dependencies)), (''outputs_contract'', JObj outputs)]))"

definition string_values :: "jobj \<Rightarrow> (str, str) dict" where
  "string_values params = List.map_filter (\<lambda>(k, v). map_option (Pair k) (as_str v)) params"

definition build_plan_template_contract :: "template_library \<Rightarrow> str \<Rightarrow> jobj \<Rightarrow> exn + jobj" where
  "build_plan_template_contract lib template_id template_params =
     (case bindE (get_template lib template_id) (\<lambda>tpl.
             build_plan_freeze_contract template_id (dt_meta tpl) (string_values template_params)) of
        Inr contract \<Rightarrow> Inr contract
      | Inl DoTemplateMetaNotFound \<Rightarrow> Inl (PlanErr PlanTemplateMetaNotFound)
      | Inl (DoTemplateIndexCorrupted r) \<Rightarrow>
          Inl (PlanErr (PlanTemplateMetaInvalid (fst (template_error_info (DoTemplateIndexCorrupted r)))))
      | Inl (DoTemplateContractInvalid r) \<Rightarrow>
          Inl (PlanErr (PlanTemplateMetaInvalid (fst (template_error_info (DoTemplateContractInvalid r)))))
      | Inl e \<Rightarrow> Inl (TplErr e))"

definition missing_required_template_params :: "jobj \<Rightarrow> str list" where
  "missing_required_template_params template_contract =
     (case dict_get template_contract ''params_contract'' of
        Some (JObj params) \<Rightarrow>
          (case dict_get params ''missing_required'' of
             Some (JList items) \<Rightarrow> sort (remdups (List.map_filter (\<lambda>i. nonblank_str (Some i)) items))
           | _ \<Rightarrow> [])
      | _ \<Rightarrow> [])"

text \<open>
  \<open>_missing_params_and_template_meta\<close> of domain/plan_freeze_required_inputs.py: the template is read a
  second time, outside the part that recasts its errors.
\<close>

definition missing_params_of :: "template_library \<Rightarrow> str \<Rightarrow> jobj \<Rightarrow> exn + str list" where
  "missing_params_of lib template_id template_params =
     bindE (build_plan_template_contract lib template_id template_params) (\<lambda>contract.
       case get_template lib template_id of
         Inl e \<Rightarrow> Inl (TplErr e)
       | Inr _ \<Rightarrow> Inr (missing_required_template_params contract))"

section \<open>The steps of a rule-based plan\<close>

definition RUN_STATA_PRODUCES :: "artifact_kind list" where
  "RUN_STATA_PRODUCES = [RUN_STDOUT, RUN_STDERR, STATA_LOG, STATA_EXPORT_TABLE, RUN_META_JSON, RUN_ERROR_JSON]"

definition generate_params :: "str \<Rightarrow> str \<Rightarrow> jobj \<Rightarrow> jobj \<Rightarrow> str \<Rightarrow> str \<Rightarrow> jobj \<Rightarrow> jobj" where
  "generate_params composition_mode template_id template_params template_contract primary_key requirement_fingerprint analysis_spec =
     [(''composition_mode'', JStr composition_mode), (''template_id'', JStr template_id),
      (''template_params'', JObj template_params), (''template_contract'', JObj template_contract),
      (''input_bindings'', JObj [(''primary_dataset'', JStr (''input:'' @ primary_key))]), (''products'', JList []),
      (''requirement_fingerprint'', JStr requirement_fingerprint), (''analysis_spec'', JObj analysis_spec)]"

definition build_plan_steps :: "str \<Rightarrow> str \<Rightarrow> jobj \<Rightarrow> jobj \<Rightarrow> str \<Rightarrow> str \<Rightarrow> jobj \<Rightarrow> plan_step list" where
  "build_plan_steps composition_mode template_id template_params template_contract primary_key requirement_fingerprint analysis_spec =
     [\<lparr>ps_step_id = ''generate_do'', ps_type = GENERATE_STATA_DO, ps_purpose = [], ps_fallback_step_id = None,
       ps_params = generate_params composition_mode template_id template_params template_contract primary_key
                     requirement_fingerprint analysis_spec,
       ps_depends_on = [], ps_produces = [STATA_DO]\<rparr>,
      \<lparr>ps_step_id = ''run_stata'', ps_type = RUN_STATA, ps_purpose = [], ps_fallback_step_id = None,
       ps_params = [(''composition_mode'', JStr composition_mode), (''timeout_seconds'', JInt 300),
                    (''products'', JList [JObj [(''product_id'', JStr ''summary_table''), (''kind'', JStr ''table'')]])],
       ps_depends_on = [''generate_do''], ps_produces = RUN_STATA_PRODUCES\<rparr>]"

definition known_input_keys :: "build_env \<Rightarrow> job \<Rightarrow> exn + str list" where
  "known_input_keys env job =
     (case j_inputs job of
        None \<Rightarrow> Inr [''primary'']
      | Some i \<Rightarrow>
          (case ji_manifest_rel_path i of
             None \<Rightarrow> Inr [''primary'']
           | Some rel_path \<Rightarrow>
               (if blank rel_path then Inr [''primary'']
                else case be_read env (j_tenant_id job) (j_job_id job) rel_path of
                       ReadJson (JObj raw) \<Rightarrow> Inr (extract_input_dataset_keys raw)
                     | ReadRaises e \<Rightarrow> Inl e
                     | _ \<Rightarrow> Inr [''primary''])))"

definition primary_key_of :: "str list \<Rightarrow> str" where
  "primary_key_of input_keys = (if ''primary'' \<in> set input_keys then ''primary'' else hd (sort input_keys))"

definition plan_of_steps :: "str \<Rightarrow> plan_source \<Rightarrow> plan_step list \<Rightarrow> llm_plan" where
  "plan_of_steps plan_id source steps =
     \<lparr>lp_plan_version = 1, lp_plan_id = plan_id, lp_rel_path = ''artifacts/plan.json'', lp_plan_source = source,
      lp_fallback_reason = None, lp_steps = steps\<rparr>"

definition confirmed_requirement :: "job_confirmation \<Rightarrow> str" where
  "confirmed_requirement c = normalize_whitespace (case jc_requirement c of None \<Rightarrow> [] | Some r \<Rightarrow> r)"

definition build_rule_plan :: "build_env \<Rightarrow> job \<Rightarrow> job_confirmation \<Rightarrow> str \<Rightarrow> str \<Rightarrow> exn + llm_plan" where
  "build_rule_plan env job c plan_id template_id =
     (let requirement_norm = confirmed_requirement c;
          spec = analysis_spec_from_draft job;
          template_params = template_params_for template_id spec (jc_variable_corrections c)
      in bindE (build_plan_template_contract (be_library env) template_id template_params) (\<lambda>contract.
         bindE (known_input_keys env job) (\<lambda>input_keys.
           let mode = choose_composition_mode requirement_norm input_keys;
               steps = build_plan_steps (composition_mode_value mode) template_id template_params contract
                         (primary_key_of input_keys) (be_sha256 env requirement_norm) spec;
               plan = plan_of_steps plan_id SourceRule steps
           in if \<not> llm_plan_valid plan then Inl (PyErr PyValueError)
              else bindE (validate_composition_plan steps input_keys) (\<lambda>_. Inr plan))))"

section \<open>The plan of the language model\<close>

definition selected_templates_for_plan_generation :: "build_env \<Rightarrow> str \<Rightarrow> job \<Rightarrow> str \<Rightarrow> exn + str list" where
  "selected_templates_for_plan_generation env tenant_id job primary_template_id =
     (case be_read env tenant_id (j_job_id job) ''artifacts/do_template/selection/stage2.json'' of
        ReadRaises e \<Rightarrow> Inl e
      | ReadJson (JObj raw) \<Rightarrow>
          (case dict_get raw ''supplementary_template_ids'' of
             Some (JList items) \<Rightarrow>
               Inr (fold (\<lambda>i selected. case nonblank_str (Some i) of
                                         Some t \<Rightarrow> (if t \<in> set selected then selected else selected @ [t])
                                       | None \<Rightarrow> selected) items [primary_template_id])
           | _ \<Rightarrow> Inr [primary_template_id])
      | _ \<Rightarrow> Inr [primary_template_id])"

text \<open>\<open>draft.model_dump\<close> restricted to the variables; those \<open>Draft\<close> does not declare are extra fields.\<close>

definition draft_var :: "draft \<Rightarrow> str \<Rightarrow> str option" where
  "draft_var d key =
     (case (if key = ''outcome_var'' then d_outcome_var d
            else if key = ''treatment_var'' then d_treatment_var d
            else (case dict_get (d_extra d) key of Some (JStr s) \<Rightarrow> Some s | _ \<Rightarrow> None)) of
        None \<Rightarrow> None
      | Some s \<Rightarrow> (if blank s then None else Some (py_strip s)))"

definition build_plan_generation_input :: "job \<Rightarrow> str \<Rightarrow> str list \<Rightarrow> int \<Rightarrow> gen_error + plan_input" where
  "build_plan_generation_input job requirement selected_templates max_steps =
     (let vars = (case j_draft job of
                    None \<Rightarrow> []
                  | Some d \<Rightarrow> map (\<lambda>k. (k, draft_var d k))
                      [''outcome_var'', ''treatment_var'', ''time_var'', ''entity_var'', ''cluster_var'', ''instrument_var'']);
          has = (\<lambda>k. case dict_get vars k of Some (Some _) \<Rightarrow> True | _ \<Rightarrow> False)
      in if max_steps < 1 then Inl (GenValue ''ValidationError'' ''max_steps'')
         else Inr \<lparr>pgi_job_id = j_job_id job, pgi_requirement = requirement, pgi_draft = j_draft job,
                   pgi_selected_templates = selected_templates,
                   pgi_data_schema =
                     \<lparr>dsc_columns = (case j_draft job of None \<Rightarrow> [] | Some d \<Rightarrow> d_column_candidates d), dsc_n_rows = None,
                      dsc_has_panel_structure = has ''time_var'' \<and> has ''entity_var'', dsc_detected_vars = vars\<rparr>,
                   pgi_max_steps = max_steps\<rparr>)"

text \<open>
  \<open>complete_text_sync\<close>: the call through the worker thread's event loop, and when that raises a
  \<open>RuntimeError\<close> or \<open>TypeError\<close>, a loop of its own unless one is running.
\<close>

definition complete_text_sync :: "build_env \<Rightarrow> job \<Rightarrow> str \<Rightarrow> artifact_ref list \<times> (gen_error + str)" where
  "complete_text_sync env job prompt =
     (let other = (\<lambda>r. case r of Inl e \<Rightarrow> Inl (GenOther e) | Inr txt \<Rightarrow> Inr txt)
      in case be_in_thread env job prompt of
           (refs, Inl e) \<Rightarrow>
             (if e \<in> {PyErr PyRuntimeError, PyErr PyTypeError}
              then if be_running_loop env
                   then (refs, Inl (GenParse ''PLAN_GEN_CALL_CONTEXT_INVALID''
                                      ''LLM plan generation must run in a worker thread or sync context''))
                   else (case be_direct env job prompt of (refs', r) \<Rightarrow> (refs @ refs', other r))
              else (refs, Inl (GenOther e)))
         | (refs, r) \<Rightarrow> (refs, other r))"

definition generate_llm_steps ::
  "build_env \<Rightarrow> str \<Rightarrow> job \<Rightarrow> job_confirmation \<Rightarrow> str \<Rightarrow> artifact_ref list \<times> (gen_error + plan_step list)" where
  "generate_llm_steps env tenant_id job c primary_template_id =
     (case selected_templates_for_plan_generation env tenant_id job primary_template_id of
        Inl e \<Rightarrow> ([], Inl (GenOther e))
      | Inr selected \<Rightarrow>
          (case build_plan_generation_input job (confirmed_requirement c) selected (be_max_steps env) of
             Inl e \<Rightarrow> ([], Inl e)
           | Inr i \<Rightarrow>
               (case complete_text_sync env job (build_plan_generation_prompt (be_dumps env) i) of
                  (refs, Inl e) \<Rightarrow> (refs, Inl e)
                | (refs, Inr txt) \<Rightarrow>
                    (refs, parse_plan_generation_result (be_loads env) (be_verror env) (be_int_like env) txt
                             (pgi_max_steps i) selected))))"

record step_context =
  sx_job :: job
  sx_mode :: str
  sx_primary_key :: str
  sx_fingerprint :: str
  sx_spec :: jobj
  sx_corrections :: "(str, str) dict"
  sx_template_id :: str

definition execution_step_from_llm_step :: "build_env \<Rightarrow> step_context \<Rightarrow> plan_step \<Rightarrow> gen_error + plan_step" where
  "execution_step_from_llm_step env ctx s =
     (if \<not> is_do_generation_step_type (ps_type s)
      then Inl (GenParse ''PLAN_GEN_UNSUPPORTED_STEP_TYPE''
                  (''unsupported step type for execution: '' @ step_type_value (ps_type s)))
      else let template_id = (case nonblank_str (dict_get (ps_params s) ''template_id'') of
                                Some t \<Rightarrow> t | None \<Rightarrow> sx_template_id ctx);
               template_params = template_params_for template_id (sx_spec ctx) (sx_corrections ctx)
           in case build_plan_template_contract (be_library env) template_id template_params of
                Inl e \<Rightarrow> Inl (GenOther e)
              | Inr contract \<Rightarrow>
                  Inr \<lparr>ps_step_id = ps_step_id s, ps_type = ps_type s, ps_purpose = ps_purpose s,
                       ps_fallback_step_id = ps_fallback_step_id s,
                       ps_params = generate_params (sx_mode ctx) template_id template_params contract (sx_primary_key ctx)
                                     (sx_fingerprint ctx) (sx_spec ctx),
                       ps_depends_on = ps_depends_on s, ps_produces = [STATA_DO]\<rparr>)"

fun execution_steps :: "build_env \<Rightarrow> step_context \<Rightarrow> plan_step list \<Rightarrow> gen_error + plan_step list" where
  "execution_steps env ctx [] = Inr []"
| "execution_steps env ctx (s # steps) =
     bindE (execution_step_from_llm_step env ctx s) (\<lambda>x.
     bindE (execution_steps env ctx steps) (\<lambda>xs. Inr (x # xs)))"

text \<open>The part of \<open>generate_plan_with_llm\<close> after the answer is parsed.\<close>

definition plan_from_llm_steps ::
  "build_env \<Rightarrow> job \<Rightarrow> job_confirmation \<Rightarrow> str \<Rightarrow> str \<Rightarrow> plan_step list \<Rightarrow> gen_error + llm_plan" where
  "plan_from_llm_steps env job c plan_id primary_template_id llm_steps =
     (case known_input_keys env job of
        Inl e \<Rightarrow> Inl (GenOther e)
      | Inr input_keys \<Rightarrow>
          (let requirement_norm = confirmed_requirement c;
               ctx = \<lparr>sx_job = job, sx_mode = composition_mode_value (choose_composition_mode requirement_norm input_keys),
                      sx_primary_key = primary_key_of input_keys, sx_fingerprint = be_sha256 env requirement_norm,
                      sx_spec = analysis_spec_from_draft job, sx_corrections = jc_variable_corrections c,
                      sx_template_id = primary_template_id\<rparr>
           in bindE (execution_steps env ctx llm_steps) (\<lambda>steps.
                let plan = plan_of_steps plan_id SourceLLM steps
                in if \<not> llm_plan_valid plan then Inl (GenValue ''ValidationError'' ''LLMPlan'')
                   else case validate_composition_plan steps input_keys of
                          Inl e \<Rightarrow> Inl (GenOther e) | Inr _ \<Rightarrow> Inr plan)))"

definition generate_plan_with_llm ::
  "build_env \<Rightarrow> str \<Rightarrow> job \<Rightarrow> job_confirmation \<Rightarrow> str \<Rightarrow> str \<Rightarrow> artifact_ref list \<times> (gen_error + llm_plan)" where
  "generate_plan_with_llm env tenant_id job c plan_id primary_template_id =
     (case generate_llm_steps env tenant_id job c primary_template_id of
        (refs, Inl e) \<Rightarrow> (refs, Inl e)
      | (refs, Inr llm_steps) \<Rightarrow> (refs, plan_from_llm_steps env job c plan_id primary_template_id llm_steps))"

section \<open>The builders of the plan service\<close>

text \<open>What \<open>_build_plan_with_fallback\<close> makes of an exception: a reason to fall back, or it passes.\<close>

definition fallback_outcome :: "build_env \<Rightarrow> gen_error \<Rightarrow> llm_outcome" where
  "fallback_outcome env e =
     (case e of
        GenParse code msg \<Rightarrow> LlmCaught (code @ '':'' @ msg)
      | GenValue cls msg \<Rightarrow> LlmCaught (cls @ '':'' @ msg)
      | GenOther x \<Rightarrow>
          (case x of
             PlanErr (PlanCompositionInvalid r) \<Rightarrow> LlmCaught (''PLAN_COMPOSITION_INVALID:'' @ be_exn_text env x)
           | DraftErr LLMCallFailed \<Rightarrow> LlmCaught (''LLM_CALL_FAILED:'' @ be_exn_text env x)
           | DraftErr LLMArtifactsWrite \<Rightarrow> LlmCaught (''LLM_ARTIFACTS_WRITE_FAILED:'' @ be_exn_text env x)
           | PyErr PyValueError \<Rightarrow> LlmCaught (''ValueError:'' @ be_exn_text env x)
           | _ \<Rightarrow> LlmRaises x))"

definition selected_or_fallback :: "build_env \<Rightarrow> job \<Rightarrow> exn + str" where
  "selected_or_fallback env job =
     (case j_selected_template_id job of
        Some t \<Rightarrow>
          (if \<not> blank t then Inr t
           else case select_template_id (be_library env)
                       (analysis_vars_from_analysis_spec (analysis_spec_from_draft job)) of
                  Inl e \<Rightarrow> Inl (TplErr e) | Inr s \<Rightarrow> Inr s)
      | None \<Rightarrow>
          (case select_template_id (be_library env) (analysis_vars_from_analysis_spec (analysis_spec_from_draft job)) of
             Inl e \<Rightarrow> Inl (TplErr e) | Inr s \<Rightarrow> Inr s))"

definition llm_plan_outcome :: "build_env \<Rightarrow> str \<Rightarrow> job \<Rightarrow> job_confirmation \<Rightarrow> str \<Rightarrow> artifact_ref list \<times> llm_outcome" where
  "llm_plan_outcome env tenant_id job c plan_id =
     (case selected_or_fallback env job of
        Inl e \<Rightarrow> ([], fallback_outcome env (GenOther e))
      | Inr template_id \<Rightarrow>
          (case generate_plan_with_llm env tenant_id job c plan_id template_id of
             (refs, Inr plan) \<Rightarrow> (refs, LlmPlan plan)
           | (refs, Inl e) \<Rightarrow> (refs, fallback_outcome env e)))"

definition confirmation_json :: "job_confirmation \<Rightarrow> json" where
  "confirmation_json c =
     JObj [(''requirement'', opt_json (jc_requirement c)), (''notes'', opt_json (jc_notes c)),
           (''variable_corrections'', JObj (map (\<lambda>(k, v). (k, JStr v)) (jc_variable_corrections c))),
           (''answers'', JObj (jc_answers c)), (''default_overrides'', JObj (jc_default_overrides c)),
           (''expert_suggestions_feedback'', JObj (jc_expert_suggestions_feedback c))]"

definition build_plan_id :: "build_env \<Rightarrow> str \<Rightarrow> str \<Rightarrow> str \<Rightarrow> job_confirmation \<Rightarrow> str" where
  "build_plan_id env job_id inputs_fp requirement c =
     be_sha256 env (be_dumps env (JObj
       [(''v'', JInt 1), (''job_id'', JStr job_id), (''inputs_fingerprint'', JStr inputs_fp),
        (''requirement'', JStr requirement), (''confirmation'', confirmation_json c)]))"

text \<open>The environment of freezing with these builders, for one tenant; \<open>with_llm\<close> says whether a model is configured.\<close>

definition plan_env_of ::
  "build_env \<Rightarrow> bool \<Rightarrow> str \<Rightarrow> (str \<Rightarrow> exn + str) \<Rightarrow> (str \<Rightarrow> job \<Rightarrow> str list option) \<Rightarrow> exn option \<Rightarrow> plan_env" where
  "plan_env_of env with_llm tenant_id expand preview_columns artifact_fault =
     \<lparr>pe_expand = expand, pe_plan_id = build_plan_id env,
      pe_select_template = (\<lambda>vars. case select_template_id (be_library env) vars of Inl e \<Rightarrow> Inl (TplErr e) | Inr s \<Rightarrow> Inr s),
      pe_missing_params = missing_params_of (be_library env),
      pe_preview_columns = preview_columns, pe_rule_plan = build_rule_plan env,
      pe_llm_plan = (if with_llm then Some (llm_plan_outcome env tenant_id) else None),
      pe_artifact_fault = artifact_fault\<rparr>"

end
