(* ===== verification/PlanBuildLaws.thy ===== *)
theory PlanBuildLaws
  imports PlanBuild UploadLaws
begin

text \<open>
  What the builders of plans guarantee: a rule-based plan passes the validator of compositions and has an
  order of execution; a plan of the language model that is taken passes the same validators; a frozen plan
  is valid; and what the gate of freezing checks is what rendering the template needs.
\<close>

section \<open>The rule-based plan\<close>

lemma primary_key_known: "keys \<noteq> [] \<Longrightarrow> primary_key_of keys \<in> set keys"
  by (auto simp: primary_key_of_def) (metis hd_in_set set_empty set_sort)

lemma primary_text: "\<not> blank ''primary'' \<and> py_strip ''primary'' = ''primary''"
  by code_simp

lemma extract_keys_clean:
  "extract_input_dataset_keys m \<noteq> [] \<and>
   (\<forall>k\<in>set (extract_input_dataset_keys m). \<not> blank k \<and> py_strip k = k)"
proof -
  have t: "k \<in> set (obj_text d x) \<Longrightarrow> \<not> blank k \<and> py_strip k = k" for k d x
    by (auto simp: obj_text_def blank_strip split: option.splits json.splits if_splits)
  show ?thesis
    using t primary_text by (auto simp: extract_input_dataset_keys_def Let_def split: option.splits json.splits)
qed

lemma known_keys_clean:
  assumes "known_input_keys env job = Inr keys"
  shows "keys \<noteq> []" "k \<in> set keys \<Longrightarrow> \<not> blank k \<and> py_strip k = k"
proof -
  show "keys \<noteq> []" "k \<in> set keys \<Longrightarrow> \<not> blank k \<and> py_strip k = k"
    using assms primary_text extract_keys_clean
    by (auto simp: known_input_keys_def split: option.splits if_splits json_read.splits json.splits)
qed

lemma parse_input_ref:
  "CHR '':'' \<notin> set k \<Longrightarrow> py_strip k = k \<Longrightarrow> k \<noteq> [] \<Longrightarrow> parse_ref (''input:'' @ k) = Some (InputRef k)"
  using py_split_append_sep[of "CHR '':''" "''input''" k] by (simp add: parse_ref_def py_split_no_sep)

text \<open>The parameters of a generate step, as the validator reads them.\<close>

lemma parse_mode_value [simp]: "parse_mode (Some (JStr (composition_mode_value m))) = Some m"
  by (cases m) (simp_all add: parse_mode_def enum_of_def)

lemma generate_params_valid:
  "validate_params (generate_params (composition_mode_value m) t ps c k f spec) =
     Some \<lparr>cp_composition_mode = m, cp_template_id = Some t,
           cp_input_bindings = Some [(''primary_dataset'', ''input:'' @ k)], cp_products = Some []\<rparr>"
  by (simp add: validate_params_def generate_params_def dict_get_Cons parse_bindings_def parse_products_def opt_text_def)

definition run_params_valid :: "composition_mode \<Rightarrow> composition_params" where
  "run_params_valid m =
     \<lparr>cp_composition_mode = m, cp_template_id = None, cp_input_bindings = None,
      cp_products = Some [\<lparr>pp_product_id = ''summary_table'', pp_kind = TableProduct, pp_role = None\<rparr>]\<rparr>"

lemma run_params_read:
  "validate_params [(''composition_mode'', JStr (composition_mode_value m)), (''timeout_seconds'', JInt 300),
     (''products'', JList [JObj [(''product_id'', JStr ''summary_table''), (''kind'', JStr ''table'')]])] =
   Some (run_params_valid m)"
proof -
  have "\<not> blank ''summary_table''" by code_simp
  then have "parse_product (JObj [(''product_id'', JStr ''summary_table''), (''kind'', JStr ''table'')]) =
      Some \<lparr>pp_product_id = ''summary_table'', pp_kind = TableProduct, pp_role = None\<rparr>"
    by (simp add: parse_product_def dict_get_Cons enum_of_def opt_text_def)
  then show ?thesis
    by (simp add: validate_params_def run_params_valid_def dict_get_Cons parse_bindings_def parse_products_def opt_text_def)
qed

lemma rule_steps_accepted:
  assumes "k \<in> set keys" "parse_ref (''input:'' @ k) = Some (InputRef k)" "\<not> blank t"
  shows "validate_composition_plan (build_plan_steps (composition_mode_value m) t ps c k f spec) keys = Inr m"
proof -
  have b: "\<not> blank ''primary_dataset''" "\<not> blank (''input:'' @ k)" by (code_simp, auto simp: blank_iff py_isspace_def)
  show ?thesis
    using assms b
    by (simp add: validate_composition_plan_def build_plan_steps_def generate_params_valid run_params_read run_params_valid_def
        params_products_def params_bindings_def validate_step_def validate_step_requirements_def is_do_generation_step_type_def
        validate_input_binding_def dict_get_Cons)
qed

lemma rule_steps_valid: "llm_plan_valid (plan_of_steps i src (build_plan_steps m t ps c k f spec))"
proof -
  have "is_safe_job_rel_path ''artifacts/plan.json''" "\<not> blank ''generate_do''" "\<not> blank ''run_stata''" by code_simp+
  then show ?thesis by (simp add: llm_plan_valid_def plan_of_steps_def build_plan_steps_def steps_valid_def Let_def)
qed

lemma rule_steps_order: "toposort (build_plan_steps m t ps c k f spec) = Inr [''generate_do'', ''run_stata'']"
proof -
  have "is_safe_path_segment ''generate_do''" "is_safe_path_segment ''run_stata''" by code_simp+
  moreover have "toposort_ids [''generate_do'', ''run_stata''] [(''generate_do'', []), (''run_stata'', [''generate_do''])] =
      Inr [''generate_do'', ''run_stata'']" by code_simp
  ultimately show ?thesis
    by (simp add: toposort_def build_plan_steps_def deps_by_step_id_def dict_of_def)
qed

text \<open>C24 (liveness) Without a language model a plan is always built: when the contract of the template can be
  built and the data set keys hold no colon, the rule-based builder returns a plan whose two steps pass the
  validator for every composition mode, bind a known input, and are ordered generation before run.\<close>
theorem rule_plan_is_built:
  assumes "known_input_keys env job = Inr keys" "\<forall>k\<in>set keys. CHR '':'' \<notin> set k" "\<not> blank template_id"
    and "build_plan_template_contract (be_library env) template_id
           (template_params_for template_id (analysis_spec_from_draft job) (jc_variable_corrections c)) = Inr contract"
  shows "\<exists>plan mode. build_rule_plan env job c plan_id template_id = Inr plan \<and> lp_plan_id plan = plan_id \<and>
           validate_composition_plan (lp_steps plan) keys = Inr mode \<and>
           toposort (lp_steps plan) = Inr [''generate_do'', ''run_stata'']"
proof -
  let ?k = "primary_key_of keys"
  note clean = known_keys_clean[OF assms(1)]
  have k: "?k \<in> set keys" by (rule primary_key_known[OF clean(1)])
  have "?k \<noteq> []" using clean(2)[OF k] by auto
  with assms(2) clean(2)[OF k] k have r: "parse_ref (''input:'' @ ?k) = Some (InputRef ?k)" by (intro parse_input_ref) auto
  note ok = rule_steps_accepted[OF k r assms(3)]
  show ?thesis
    by (simp add: build_rule_plan_def assms(1,4) rule_steps_valid ok Let_def)
       (simp add: plan_of_steps_def rule_steps_order ok)
qed

section \<open>What the gate checks is what rendering needs\<close>

text \<open>The template parameters of a plan are texts under non-blank names; reading them back gives them all.\<close>

definition text_params :: "jobj \<Rightarrow> (str, str) dict \<Rightarrow> bool" where
  "text_params ps d = (ps = map (\<lambda>(k, v). (k, JStr v)) d \<and> distinct (map fst d) \<and> (\<forall>k\<in>fst ` set d. \<not> blank k))"

definition text_entries :: "jobj \<Rightarrow> bool" where
  "text_entries ps = ((\<forall>(k, v)\<in>set ps. is_str v \<and> \<not> blank k) \<and> distinct (map fst ps))"

lemma template_params_entries: "text_entries (template_params_for t spec cs)"
proof -
  have b: "\<not> blank ''__NUMERIC_VARS__''" "\<not> blank ''__ID_VAR__''" "\<not> blank ''__TIME_VAR__''" "\<not> blank ''__CHECK_VARS__''"
    "\<not> blank ''__QUALITY_THRESHOLD__''" "\<not> blank ''__DEPVAR__''" "\<not> blank ''__INDEPVARS__''" "\<not> blank ''__PANELVAR__''"
    "\<not> blank ''__CLUSTER_VAR__''" by code_simp+
  obtain dep indep i t' c where "analysis_dep_and_indep spec = (dep, indep)" "selected_panel_vars cs = (i, t', c)"
    by (metis prod.exhaust)
  then show ?thesis
    unfolding template_params_for_def Let_def by (simp add: text_entries_def b)
qed

lemma template_params_texts: "\<exists>d. text_params (template_params_for t spec cs) d"
proof -
  have "text_entries ps \<Longrightarrow> \<exists>d. text_params ps d" for ps
  proof (induction ps)
    case (Cons p ps)
    obtain k s where p: "p = (k, JStr s)" using Cons.prems by (cases p; cases "snd p") (auto simp: text_entries_def)
    from Cons obtain d where "text_params ps d" by (auto simp: text_entries_def)
    then have "text_params (p # ps) ((k, s) # d)"
      using Cons.prems by (force simp: text_params_def text_entries_def p)
    then show ?case by blast
  qed (auto simp: text_params_def intro: exI[of _ "[]"])
  then show ?thesis using template_params_entries by blast
qed

lemma string_values_texts: "string_values (map (\<lambda>(k, v). (k, JStr v)) d) = d"
  by (induction d) (auto simp: string_values_def map_filter_simps)

lemma string_params_texts:
  "\<forall>k\<in>fst ` set d. \<not> blank k \<Longrightarrow> string_params acc (map (\<lambda>(k, v). (k, JStr v)) d) = Inr (fold (\<lambda>(k, v) a. dict_set a k v) d acc)"
  by (induction d arbitrary: acc) auto

lemma fold_set_has:
  "dict_get (fold (\<lambda>(k, v) a. dict_set a k v) d acc) k = None \<longleftrightarrow> k \<notin> fst ` set d \<and> dict_get acc k = None"
  by (induction d arbitrary: acc) (auto split: if_splits)

lemma add_alias_keeps: "dict_get ps k \<noteq> None \<Longrightarrow> dict_get (add_alias p ps) k \<noteq> None"
  by (auto simp: add_alias_def split: prod.splits option.splits)

lemma resolve_params_total:
  "\<forall>s\<in>set specs. tp_required s \<longrightarrow> dict_get ps (tp_name s) \<noteq> None \<Longrightarrow> \<exists>r. resolve_params specs ps = Inr r"
  by (induction specs) auto

lemma missing_required_of_contract:
  assumes "build_plan_freeze_contract t meta bound = Inr contract"
  shows "missing_required_template_params contract = [] \<longleftrightarrow>
           (\<forall>s\<in>set (template_param_specs meta). tp_required s \<longrightarrow> \<not> blank (tp_name s) \<longrightarrow> bound_param bound (tp_name s))"
proof -
  let ?missing = "filter (Not \<circ> bound_param bound) (map tp_name (filter tp_required (template_param_specs meta)))"
  have "missing_required_template_params contract =
      sort (remdups (List.map_filter (\<lambda>i. nonblank_str (Some i)) (map JStr (sort (remdups ?missing)))))"
    using assms by (auto simp: build_plan_freeze_contract_def bindE_Inr_iff missing_required_template_params_def
        params_contract_from_meta_def dict_get_Cons Let_def)
  moreover have "set (List.map_filter (\<lambda>i. nonblank_str (Some i)) (map JStr xs)) = {x \<in> set xs. \<not> blank x}" for xs
    by (induction xs) (auto simp: map_filter_simps nonblank_str_def)
  ultimately have "set (missing_required_template_params contract) = {x \<in> set ?missing. \<not> blank x}" by simp
  then show ?thesis by (auto simp: set_eq_iff set_empty[symmetric] simp del: set_empty)
qed

lemma param_specs_nonblank: "s \<in> set (param_specs seen items) \<Longrightarrow> \<not> blank (tp_name s)"
  by (induction seen items rule: param_specs.induct)
     (auto simp: nonblank_str_Some split: json.splits option.splits if_splits)

lemma template_param_specs_nonblank: "s \<in> set (template_param_specs meta) \<Longrightarrow> \<not> blank (tp_name s)"
  by (auto simp: template_param_specs_def dest: param_specs_nonblank split: option.splits json.splits)

lemma contract_Inr:
  "build_plan_template_contract lib t ps = Inr contract \<longleftrightarrow>
     (\<exists>tpl. get_template lib t = Inr tpl \<and> build_plan_freeze_contract t (dt_meta tpl) (string_values ps) = Inr contract)"
  by (auto simp: build_plan_template_contract_def bindE_Inr_iff split: sum.splits template_error.splits)

lemma string_values_get:
  "text_params ps d \<Longrightarrow> bound_param (string_values ps) k \<Longrightarrow> k \<in> fst ` set d"
  by (auto simp: text_params_def string_values_texts bound_param_def split: option.splits dest!: dict_get_in)
     (metis fst_conv image_eqI)

text \<open>C12 (functional) The gate before freezing asks for exactly what the run needs: when it finds no required
  parameter missing, the generate step of the rule-based plan names the template, its parameters read back,
  and rendering the template with them never stops at a missing parameter.\<close>
theorem gated_plan_renders:
  assumes "missing_params_of (be_library env) t (template_params_for t (analysis_spec_from_draft job) (jc_variable_corrections c)) = Inr []"
    and "build_rule_plan env job c plan_id t = Inr plan" "\<not> blank t"
  shows "\<exists>step tpl params rendered. extract_generate_step (lp_steps plan) = Inr step \<and> extract_template step = Inr t \<and>
           extract_template_params step = Inr params \<and> get_template (be_library env) t = Inr tpl \<and>
           render_do_text (dt_do_text tpl) (template_param_specs (dt_meta tpl)) params = Inr rendered"
proof -
  let ?ps = "template_params_for t (analysis_spec_from_draft job) (jc_variable_corrections c)"
  obtain d where d: "text_params ?ps d" using template_params_texts by blast
  obtain contract tpl where tpl: "get_template (be_library env) t = Inr tpl"
      "build_plan_freeze_contract t (dt_meta tpl) (string_values ?ps) = Inr contract"
      "missing_required_template_params contract = []"
    using assms(1) by (auto simp: missing_params_of_def bindE_Inr_iff contract_Inr)
  obtain m k c' where steps: "lp_steps plan = build_plan_steps m t ?ps c' k (be_sha256 env (confirmed_requirement c)) (analysis_spec_from_draft job)"
    using assms(2) by (auto simp: build_rule_plan_def Let_def bindE_Inr_iff plan_of_steps_def split: if_splits)
  let ?step = "hd (lp_steps plan)"
  let ?params = "fold (\<lambda>(k, v) a. dict_set a k v) d []"
  have step: "extract_generate_step (lp_steps plan) = Inr ?step" "extract_template ?step = Inr t"
    using assms(3) by (auto simp: steps build_plan_steps_def extract_generate_step_def is_do_generation_step_type_def
        extract_template_def generate_params_def dict_get_Cons nonblank_str_def)
  have params: "extract_template_params ?step = Inr ?params"
    using string_params_texts[of d "[]"] d
    by (simp add: steps build_plan_steps_def extract_template_params_def generate_params_def dict_get_Cons text_params_def)
  have "\<forall>s\<in>set (template_param_specs (dt_meta tpl)). tp_required s \<longrightarrow> dict_get (params_with_aliases ?params) (tp_name s) \<noteq> None"
  proof (intro ballI impI)
    fix s assume "s \<in> set (template_param_specs (dt_meta tpl))" "tp_required s"
    then have "bound_param (string_values ?ps) (tp_name s)"
      using tpl(3) template_param_specs_nonblank by (auto simp: missing_required_of_contract[OF tpl(2)])
    then have "dict_get ?params (tp_name s) \<noteq> None" using string_values_get[OF d] by (simp add: fold_set_has)
    then show "dict_get (params_with_aliases ?params) (tp_name s) \<noteq> None"
      by (simp add: params_with_aliases_def PARAM_ALIAS_PAIRS_def add_alias_keeps del: not_None_eq)
  qed
  from resolve_params_total[OF this] obtain r where "resolve_params (template_param_specs (dt_meta tpl)) (params_with_aliases ?params) = Inr r"
    by blast
  with step params tpl(1) show ?thesis by (auto simp: render_do_text_def)
qed

section \<open>The plan of the language model\<close>

lemma each_ok_Inr: "each_ok f xs = Inr u \<Longrightarrow> x \<in> set xs \<Longrightarrow> \<exists>v. f x = Inr v"
  by (induction xs) (auto simp: bindE_Inr_iff)

lemma all_some_Some: "all_some xs = Some ys \<longleftrightarrow> xs = map Some ys"
  by (induction xs arbitrary: ys) (auto split: option.splits)

text \<open>The steps read by pydantic are those the parser has looked at.\<close>

lemma as_str_Some: "as_str v = Some t \<longleftrightarrow> v = JStr t"
  by (cases v) auto

lemma as_obj_Some: "as_obj v = Some d \<longleftrightarrow> v = JObj d"
  by (cases v) auto

lemma bindO_Some: "bindO m f = Some y \<longleftrightarrow> (\<exists>x. m = Some x \<and> f x = Some y)"
  by (cases m) (simp_all add: bindO_def)

lemma validated_step_id:
  assumes "validate_plan_step (JObj item) = Some s"
  shows "dict_get item ''step_id'' = Some (JStr (ps_step_id s))"
  using assms by (auto simp: validate_plan_step_def bindO_Some as_str_Some split: if_splits)

lemma raw_steps_or_error_Inr:
  "raw_steps_or_error parsed = Inr raws \<longleftrightarrow>
     (\<exists>items. dict_get parsed ''steps'' = Some (JList items) \<and> all_some (map as_obj items) = Some raws)"
  by (auto simp: raw_steps_or_error_def split: option.splits json.splits)

lemma parsed_steps:
  assumes "parse_plan_generation_result loads verror il txt max_steps selected = Inr steps"
  shows "steps \<noteq> [] \<and> (0 < max_steps \<longrightarrow> int (length steps) \<le> max_steps) \<and> steps_valid steps \<and>
         (\<forall>s\<in>set steps. is_safe_path_segment (ps_step_id s))"
proof -
  obtain parsed items raws where p: "dict_get parsed ''steps'' = Some (JList items)" "all_some (map as_obj items) = Some raws"
      "validate_raw_steps raws max_steps = Inr ()" "response_v1_or_error verror il parsed = Inr steps" "steps_valid steps"
    using assms unfolding parse_plan_generation_result_def bindE_Inr_iff raw_steps_or_error_Inr guardE_Inr sum.inject by (metis (full_types) old.unit.exhaust)
  have items: "items = map JObj raws" using p(2) by (auto simp: all_some_Some as_obj_Some list_eq_iff_nth_eq)
  have "all_some (map validate_plan_step items) = Some steps"
    using p(1,4) by (auto simp: response_v1_or_error_def Let_def split: if_splits option.splits)
  then have steps: "map (\<lambda>r. validate_plan_step (JObj r)) raws = map Some steps" by (simp add: all_some_Some items comp_def)
  then have len: "length steps = length raws" by (metis length_map)
  have safe: "is_safe_path_segment (ps_step_id s)" if "s \<in> set steps" for s
  proof -
    from that have "Some s \<in> set (map (\<lambda>r. validate_plan_step (JObj r)) raws)" unfolding steps by simp
    then obtain r where r: "r \<in> set raws" "validate_plan_step (JObj r) = Some s" by fastforce
    have "each_ok validate_raw_step raws = Inr ()" using p(3) by (auto simp: validate_raw_steps_def split: if_splits)
    from each_ok_Inr[OF this r(1)] validated_step_id[OF r(2)] show ?thesis
      by (auto simp: validate_raw_step_def bindE_Inr_iff nonblank_str_def guardE_Inr split: if_splits)
  qed
  show ?thesis using p(3,5) len safe by (auto simp: validate_raw_steps_def split: if_splits)
qed

lemma execution_steps_Inr:
  "execution_steps env ctx llm_steps = Inr steps \<Longrightarrow>
     map ps_step_id steps = map ps_step_id llm_steps \<and> map ps_type steps = map ps_type llm_steps \<and> (\<forall>s\<in>set steps. is_do_generation_step_type (ps_type s))"
  by (induction env ctx llm_steps arbitrary: steps rule: execution_steps.induct)
     (auto simp: bindE_Inr_iff execution_step_from_llm_step_def Let_def split: if_splits sum.splits)

lemma plan_from_llm_steps_Inr:
  assumes "plan_from_llm_steps env job c i t llm_steps = Inr plan"
  obtains keys mode where "known_input_keys env job = Inr keys" "validate_composition_plan (lp_steps plan) keys = Inr mode"
    "llm_plan_valid plan" "lp_plan_id plan = i" "map ps_step_id (lp_steps plan) = map ps_step_id llm_steps"
    "map ps_type (lp_steps plan) = map ps_type llm_steps" "\<forall>s\<in>set (lp_steps plan). is_do_generation_step_type (ps_type s)"
proof -
  obtain keys ctx steps where s: "known_input_keys env job = Inr keys" "execution_steps env ctx llm_steps = Inr steps"
      "(let plan = plan_of_steps i SourceLLM steps
        in if \<not> llm_plan_valid plan then Inl (GenValue ''ValidationError'' ''LLMPlan'')
           else case validate_composition_plan steps keys of Inl e \<Rightarrow> Inl (GenOther e) | Inr _ \<Rightarrow> Inr plan) = Inr plan"
    using assms unfolding plan_from_llm_steps_def
    by (cases "known_input_keys env job") (auto simp: Let_def bindE_Inr_iff)
  obtain mode where "validate_composition_plan steps keys = Inr mode"
    using s(3) by (cases "validate_composition_plan steps keys") (auto simp: Let_def split: if_splits)
  moreover have "plan = plan_of_steps i SourceLLM steps" "llm_plan_valid plan"
    using s(3) calculation by (auto simp: Let_def split: if_splits)
  ultimately show ?thesis using that[of keys mode] s(1) execution_steps_Inr[OF s(2)] by (simp add: plan_of_steps_def)
qed

lemma generate_llm_steps_Inr:
  assumes "generate_llm_steps env tn job c t = (refs, Inr steps)"
  shows "steps \<noteq> [] \<and> int (length steps) \<le> be_max_steps env \<and> (\<forall>s\<in>set steps. is_safe_path_segment (ps_step_id s))"
proof -
  obtain answer selected i where 1: "build_plan_generation_input job (confirmed_requirement c) selected (be_max_steps env) = Inr i"
      "parse_plan_generation_result (be_loads env) (be_verror env) (be_int_like env) answer (pgi_max_steps i) selected = Inr steps"
    using assms by (auto simp: generate_llm_steps_def split: sum.splits prod.splits)
  have "pgi_max_steps i = be_max_steps env" "1 \<le> be_max_steps env"
    using 1(1) by (auto simp: build_plan_generation_input_def Let_def split: if_splits)
  with parsed_steps[OF 1(2)] show ?thesis by auto
qed

lemma llm_outcome_plan:
  assumes "llm_plan_outcome env tn job c i = (refs, LlmPlan plan)"
  obtains t llm_steps where "generate_llm_steps env tn job c t = (refs, Inr llm_steps)"
    "plan_from_llm_steps env job c i t llm_steps = Inr plan"
  using assms
  by (auto simp: llm_plan_outcome_def generate_plan_with_llm_def fallback_outcome_def
      split: sum.splits prod.splits gen_error.splits exn.splits plan_error.splits draft_error.splits py_error.splits)

text \<open>C14 (safety) Whatever the language model answers, a plan of its making that is taken is well formed: it has
  at least one and at most the configured number of steps, all of them generate a do-file and have safe and
  distinct names, dependencies exist, and the plan passes the validator of compositions for the known inputs.\<close>
theorem llm_plan_well_formed:
  assumes "llm_plan_outcome env tenant_id job c plan_id = (refs, LlmPlan plan)"
  shows "\<exists>keys mode. known_input_keys env job = Inr keys \<and> validate_composition_plan (lp_steps plan) keys = Inr mode \<and>
           llm_plan_valid plan \<and> lp_plan_id plan = plan_id \<and>
           1 \<le> length (lp_steps plan) \<and> int (length (lp_steps plan)) \<le> be_max_steps env \<and>
           (\<forall>s\<in>set (lp_steps plan). is_do_generation_step_type (ps_type s) \<and> is_safe_path_segment (ps_step_id s))"
proof -
  obtain t llm_steps where g: "generate_llm_steps env tenant_id job c t = (refs, Inr llm_steps)"
    and p: "plan_from_llm_steps env job c plan_id t llm_steps = Inr plan"
    by (rule llm_outcome_plan[OF assms])
  obtain keys mode where k: "known_input_keys env job = Inr keys" "validate_composition_plan (lp_steps plan) keys = Inr mode"
      "llm_plan_valid plan" "lp_plan_id plan = plan_id" "map ps_step_id (lp_steps plan) = map ps_step_id llm_steps"
      "\<forall>s\<in>set (lp_steps plan). is_do_generation_step_type (ps_type s)"
    by (rule plan_from_llm_steps_Inr[OF p])
  have len: "length (lp_steps plan) = length llm_steps" using k(5) by (metis length_map)
  have "ps_step_id ` set (lp_steps plan) = ps_step_id ` set llm_steps" using k(5) by (metis set_map)
  then have "\<forall>s\<in>set (lp_steps plan). is_safe_path_segment (ps_step_id s)"
    using generate_llm_steps_Inr[OF g] by (metis imageE imageI)
  then show ?thesis using k generate_llm_steps_Inr[OF g] len by (cases llm_steps) auto
qed

section \<open>Frozen plans\<close>

definition plan_ok_for :: "build_env \<Rightarrow> job \<Rightarrow> llm_plan \<Rightarrow> bool" where
  "plan_ok_for env job plan =
     (llm_plan_valid plan \<and>
      (\<exists>keys mode. known_input_keys env job = Inr keys \<and> validate_composition_plan (lp_steps plan) keys = Inr mode))"

lemma known_keys_cong:
  "j_inputs job' = j_inputs job \<Longrightarrow> j_tenant_id job' = j_tenant_id job \<Longrightarrow> j_job_id job' = j_job_id job \<Longrightarrow>
     known_input_keys env job' = known_input_keys env job"
  by (simp add: known_input_keys_def cong: option.case_cong if_cong)

lemma plan_ok_cong:
  assumes "job_core job' = job_core job" "j_inputs job' = j_inputs job"
  shows "plan_ok_for env job' plan = plan_ok_for env job plan"
proof -
  have "known_input_keys env job' = known_input_keys env job"
    using assms by (intro known_keys_cong) (simp_all add: job_core_def)
  then show ?thesis by (simp add: plan_ok_for_def)
qed

lemma rule_plan_ok: "build_rule_plan env job c i t = Inr plan \<Longrightarrow> plan_ok_for env job plan \<and> lp_plan_id plan = i"
  by (auto simp: build_rule_plan_def Let_def bindE_Inr_iff plan_ok_for_def plan_of_steps_def split: if_splits)

lemma llm_outcome_ok:
  assumes "llm_plan_outcome env tn job c i = (refs, LlmPlan plan)"
  shows "plan_ok_for env job plan \<and> lp_plan_id plan = i"
proof -
  obtain t llm_steps where p: "plan_from_llm_steps env job c i t llm_steps = Inr plan" by (rule llm_outcome_plan[OF assms])
  show ?thesis by (rule plan_from_llm_steps_Inr[OF p]) (auto simp: plan_ok_for_def)
qed

text \<open>The builders keep the plan id: what is proved of triggering a run holds with them.\<close>

lemma real_builders_ok: "builders_ok (plan_env_of env with_llm tn ex pv af)"
  using rule_plan_ok llm_outcome_ok by (auto simp: builders_ok_def plan_env_of_def split: if_splits)

lemma built_plan_ok:
  assumes "build_plan_with_fallback (plan_env_of env with_llm tn ex pv af) job c i t = Inr (plan, job')"
  shows "plan_ok_for env job plan"
proof (cases with_llm)
  case False
  with assms rule_plan_ok show ?thesis by (auto simp: build_plan_with_fallback_def plan_env_of_def bindE_Inr_iff)
next
  case True
  obtain refs outcome where o1: "llm_plan_outcome env tn job c i = (refs, outcome)" by (metis prod.exhaust)
  let ?job = "job\<lparr>j_artifacts_index := j_artifacts_index job @ refs\<rparr>"
  have cong: "plan_ok_for env ?job p = plan_ok_for env job p" for p
    by (rule plan_ok_cong) (simp_all add: job_core_def)
  show ?thesis
  proof (cases outcome)
    case (LlmPlan p)
    with assms True o1 llm_outcome_ok show ?thesis by (auto simp: build_plan_with_fallback_def plan_env_of_def)
  next
    case (LlmCaught r)
    with assms True o1 obtain p where "build_rule_plan env ?job c i t = Inr p"
        "plan = p\<lparr>lp_plan_source := SourceRuleFallback, lp_fallback_reason := Some r\<rparr>"
      by (auto simp: build_plan_with_fallback_def plan_env_of_def bindE_Inr_iff Let_def)
    with rule_plan_ok cong show ?thesis by (fastforce simp: plan_ok_for_def llm_plan_valid_def)
  next
    case (LlmRaises e)
    with assms True o1 show ?thesis by (simp add: build_plan_with_fallback_def plan_env_of_def)
  qed
qed

lemma effects_inputs:
  "apply_confirmation_effects ex job c = Inr (job', c') \<Longrightarrow> j_inputs job' = j_inputs job \<and> j_llm_plan job' = j_llm_plan job"
  by (auto simp: apply_confirmation_effects_def Let_def bindE_Inr_iff split: if_splits)

lemma frozen_job_plan_ok:
  assumes "build_frozen_job (plan_env_of env with_llm tn ex pv af) t job c i = Inr (plan, job')"
  shows "plan_ok_for env job plan"
proof -
  let ?env = "plan_env_of env with_llm tn ex pv af"
  obtain tid job1 job2 where 1: "resolve_template_id ?env job (analysis_vars_from_analysis_spec (analysis_spec_from_draft job)) = Inr (tid, job1)"
      "build_plan_with_fallback ?env job1 c i tid = Inr (plan, job2)"
    using assms by (auto simp: build_frozen_job_def Let_def bindE_Inr_iff)
  from built_plan_ok[OF 1(2)] show ?thesis
    using plan_ok_cong[OF resolve_template_core[OF 1(1)]] resolve_template_texts[OF 1(1)] by (simp add: job_texts_def)
qed

lemma write_plan_artifact_store: "write_plan_artifact env t j plan w = (w', r) \<Longrightarrow> w_store w' = w_store w"
  by (auto simp: write_plan_artifact_def split: option.splits exn.splits store_error.splits)

lemma freeze_plan_Inr:
  assumes "freeze_plan env t j c w = (w', Inr plan)" "store_load t j (w_store w) = Inr job"
    "\<forall>p. prepare_freeze env t job c \<noteq> Inr (Inl p)"
  obtains fj job' s where "prepare_freeze env t job c = Inr (Inr (plan, fj))"
    "store_save t fj (w_store w) = (s, Inr job')" "w_store w' = s"
proof -
  obtain plan' fj where p: "prepare_freeze env t job c = Inr (Inr (plan', fj))"
    using assms by (auto simp: freeze_plan_def split: sum.splits)
  obtain w1 r where wr: "write_plan_artifact env t j plan' w = (w1, r)" by (metis prod.exhaust)
  obtain s r' where sv: "store_save t fj (w_store w1) = (s, r')" by (metis prod.exhaust)
  have "plan' = plan" "w_store w' = s" "\<exists>job'. r' = Inr job'"
    using assms(1,2) p wr sv by (auto simp: freeze_plan_def split: sum.splits)
  with that p sv write_plan_artifact_store[OF wr] show ?thesis by auto
qed

lemma prepare_freeze_first:
  assumes "prepare_freeze env t job c = r" "j_llm_plan job = None"
  shows "(\<forall>p. r \<noteq> Inr (Inl p)) \<and>
         (\<forall>x. r = Inr (Inr x) \<longrightarrow> (\<exists>job1 c1 i. apply_confirmation_effects (pe_expand env) job (effective_confirmation job c) = Inr (job1, c1) \<and>
                                    build_frozen_job env t job1 c1 i = Inr x))"
proof (cases "apply_confirmation_effects (pe_expand env) job (effective_confirmation job c)")
  case (Inl e)
  with assms(1) show ?thesis by (auto simp: prepare_freeze_def)
next
  case (Inr x)
  obtain job1 c1 where x: "x = (job1, c1)" by (cases x)
  with Inr effects_inputs assms(2) have "j_llm_plan job1 = None" by metis
  then have "return_existing_plan job1 i = Inr None" for i by (simp add: return_existing_plan_def)
  with Inr x assms(1) show ?thesis by (auto simp: prepare_freeze_def split: sum.splits)
qed

text \<open>C10 (invariant) A plan frozen for a job that had none is valid, whoever built it, the rules or the language
  model: its steps pass the validators of plans and of compositions for the inputs the job has, and the stored
  job carries this plan.\<close>
theorem frozen_plan_is_valid:
  assumes "freeze_plan (plan_env_of env with_llm tenant_id ex pv af) tenant_id job_id c w = (w', Inr plan)"
    and "store_load tenant_id job_id (w_store w) = Inr job" "j_llm_plan job = None" "j_job_id job = job_id"
  shows "\<exists>keys mode job'. known_input_keys env job = Inr keys \<and> validate_composition_plan (lp_steps plan) keys = Inr mode \<and>
           llm_plan_valid plan \<and> w_store w' (tenant_id, job_id) = Some (JobFile job') \<and> j_llm_plan job' = Some plan"
proof -
  let ?env = "plan_env_of env with_llm tenant_id ex pv af"
  note first = prepare_freeze_first[OF refl assms(3), of ?env tenant_id c]
  obtain fj job' s where f: "prepare_freeze ?env tenant_id job c = Inr (Inr (plan, fj))"
      "store_save tenant_id fj (w_store w) = (s, Inr job')" "w_store w' = s"
    by (rule freeze_plan_Inr[OF assms(1,2) conjunct1[OF first]])
  obtain job1 c1 i where b: "apply_confirmation_effects (pe_expand ?env) job (effective_confirmation job c) = Inr (job1, c1)"
      "build_frozen_job ?env tenant_id job1 c1 i = Inr (plan, fj)"
    using conjunct2[OF first, rule_format, OF f(1)] by (elim exE conjE) (rule that)
  have "plan_ok_for env job plan"
    using frozen_job_plan_ok[OF b(2)] plan_ok_cong[OF effects_core[OF b(1)]] effects_inputs[OF b(1)] by simp
  moreover have "job_core fj = job_core job" "j_llm_plan fj = Some plan"
    using build_frozen_job_core[OF b(2)] effects_core[OF b(1)] by simp_all
  moreover have "w_store w' (tenant_id, j_job_id fj) = Some (JobFile job')" "job' = fj\<lparr>j_version := j_version fj + 1\<rparr>"
    using f(2,3) by (auto simp: store_save_Inr)
  ultimately show ?thesis using assms(4) by (auto simp: plan_ok_for_def job_core_def)
qed

section \<open>Concrete plans\<close>

text \<open>A library of two templates, and a model that answers with the given steps.\<close>

definition sample_meta :: "str \<Rightarrow> library_doc" where
  "sample_meta name = LibraryDoc (JObj
     [(''parameters'', JList [JObj [(''name'', JStr (if name = ''T07.meta.json'' then ''__NUMERIC_VARS__'' else ''__ID_VAR__'')),
                                   (''required'', JBool True)]]),
      (''outputs'', JList [JObj [(''file'', JStr ''table.csv''), (''type'', JStr ''table'')]])])"

definition sample_plan_library :: template_library where
  "sample_plan_library =
     \<lparr>tl_index = LibraryDoc (JObj [(''tasks'', JObj [(''T07'', JObj [(''do_file'', JStr ''T07.do'')]), (''T30'', JObj [(''do_file'', JStr ''T30.do'')])])]),
      tl_do_files = (\<lambda>n. if n = ''T07.do'' then Some ''summarize __NUMERIC_VARS__'' else Some ''xtset __ID_VAR__''),
      tl_meta_files = sample_meta\<rparr>"

definition llm_step :: "str \<Rightarrow> str \<Rightarrow> str list \<Rightarrow> jobj \<Rightarrow> json" where
  "llm_step step_id step_type deps params =
     JObj [(''step_id'', JStr step_id), (''type'', JStr step_type), (''params'', JObj params), (''depends_on'', JList (map JStr deps))]"

definition sample_build :: "json list \<Rightarrow> build_env" where
  "sample_build steps =
     \<lparr>be_library = sample_plan_library,
      be_read = (\<lambda>_ _ rel. if rel = ''artifacts/do_template/selection/stage2.json''
                           then ReadJson (JObj [(''supplementary_template_ids'', JList [JStr ''T30''])]) else ReadFails),
      be_in_thread = (\<lambda>_ _. ([], Inr ''answer'')), be_running_loop = False, be_direct = (\<lambda>_ _. ([], Inr ''answer'')),
      be_loads = (\<lambda>_. Inr (JObj [(''steps'', JList steps)])), be_dumps = (\<lambda>_. []), be_verror = (\<lambda>_. []),
      be_int_like = (\<lambda>_. True), be_sha256 = id, be_exn_text = (\<lambda>_. []), be_max_steps = 8\<rparr>"

definition modelled_job :: job where
  "modelled_job = drafted_job\<lparr>j_draft := Some ((empty_draft ''now'')\<lparr>d_outcome_var := Some ''income''\<rparr>),
                              j_selected_template_id := Some ''T07''\<rparr>"

definition modelled_params :: jobj where
  "modelled_params = template_params_for ''T07'' (analysis_spec_from_draft modelled_job) (jc_variable_corrections plain_confirmation)"

lemma sample_contract: "\<exists>contract. build_plan_template_contract sample_plan_library ''T07'' modelled_params = Inr contract"
proof -
  have "case build_plan_template_contract sample_plan_library ''T07'' modelled_params of Inr _ \<Rightarrow> True | Inl _ \<Rightarrow> False" by code_simp
  then show ?thesis by (simp split: sum.splits)
qed

lemma sample_build_library: "be_library (sample_build steps) = sample_plan_library"
  by (simp add: sample_build_def)

lemma sample_keys: "known_input_keys (sample_build steps) modelled_job = Inr [''primary'']"
  by (simp add: known_input_keys_def modelled_job_def drafted_job_def new_job_def)

theorem rule_plan_is_built_witness:
  "\<exists>plan mode. build_rule_plan (sample_build []) modelled_job plain_confirmation ''p1'' ''T07'' = Inr plan \<and> lp_plan_id plan = ''p1'' \<and>
     validate_composition_plan (lp_steps plan) [''primary''] = Inr mode \<and>
     toposort (lp_steps plan) = Inr [''generate_do'', ''run_stata'']"
proof -
  obtain contract where "build_plan_template_contract (be_library (sample_build [])) ''T07''
      (template_params_for ''T07'' (analysis_spec_from_draft modelled_job) (jc_variable_corrections plain_confirmation)) = Inr contract"
    using sample_contract by (auto simp: sample_build_library modelled_params_def)
  moreover have "\<forall>k\<in>set [''primary'']. CHR '':'' \<notin> set k" "\<not> blank ''T07''" by code_simp+
  ultimately show ?thesis using rule_plan_is_built[OF sample_keys] by blast
qed

lemma sample_gate: "missing_params_of (be_library (sample_build [])) ''T07'' modelled_params = Inr []"
  by code_simp

lemma sample_rule_plan:
  obtains plan where "build_rule_plan (sample_build []) modelled_job plain_confirmation ''p1'' ''T07'' = Inr plan"
proof -
  have "case build_rule_plan (sample_build []) modelled_job plain_confirmation ''p1'' ''T07'' of Inr _ \<Rightarrow> True | Inl _ \<Rightarrow> False"
    by code_simp
  then show ?thesis using that by (auto split: sum.splits)
qed

theorem gated_plan_renders_witness:
  "\<exists>plan step tpl params rendered. build_rule_plan (sample_build []) modelled_job plain_confirmation ''p1'' ''T07'' = Inr plan \<and>
     extract_generate_step (lp_steps plan) = Inr step \<and> extract_template_params step = Inr params \<and>
     get_template sample_plan_library ''T07'' = Inr tpl \<and>
     render_do_text (dt_do_text tpl) (template_param_specs (dt_meta tpl)) params = Inr rendered"
proof -
  obtain plan where p: "build_rule_plan (sample_build []) modelled_job plain_confirmation ''p1'' ''T07'' = Inr plan"
    by (rule sample_rule_plan)
  have "\<not> blank ''T07''" by code_simp
  from gated_plan_renders[OF sample_gate[unfolded modelled_params_def] p this] p show ?thesis
    unfolding sample_build_library by blast
qed

definition two_steps :: "json list" where
  "two_steps = [llm_step ''main'' ''generate_stata_do'' [] [], llm_step ''panel'' ''robustness_check'' [''main''] [(''template_id'', JStr ''T30'')]]"

lemma sample_llm_plan:
  obtains plan where "llm_plan_outcome (sample_build two_steps) ''acme'' modelled_job plain_confirmation ''p1'' = ([], LlmPlan plan)"
proof -
  have "case llm_plan_outcome (sample_build two_steps) ''acme'' modelled_job plain_confirmation ''p1'' of
          ([], LlmPlan p) \<Rightarrow> True | _ \<Rightarrow> False" by code_simp
  then show ?thesis using that by (auto split: prod.splits list.splits llm_outcome.splits)
qed

theorem llm_plan_well_formed_witness:
  "\<exists>plan mode. snd (llm_plan_outcome (sample_build two_steps) ''acme'' modelled_job plain_confirmation ''p1'') = LlmPlan plan \<and>
     validate_composition_plan (lp_steps plan) [''primary''] = Inr mode \<and> lp_plan_id plan = ''p1''"
proof -
  obtain plan where p: "llm_plan_outcome (sample_build two_steps) ''acme'' modelled_job plain_confirmation ''p1'' = ([], LlmPlan plan)"
    by (rule sample_llm_plan)
  from llm_plan_well_formed[OF p] show ?thesis by (auto simp: p sample_keys)
qed

definition modelled_world :: world where
  "modelled_world = drafted_world\<lparr>w_store := [(''acme'', ''job_1'') \<mapsto> JobFile modelled_job]\<rparr>"

lemma sample_freeze:
  obtains w' plan where "freeze_plan (plan_env_of (sample_build two_steps) True ''acme'' Inr (\<lambda>_ _. None) None) ''acme'' ''job_1''
    plain_confirmation modelled_world = (w', Inr plan)"
proof -
  let ?r = "freeze_plan (plan_env_of (sample_build two_steps) True ''acme'' Inr (\<lambda>_ _. None) None) ''acme'' ''job_1''
    plain_confirmation modelled_world"
  have "case snd ?r of Inr _ \<Rightarrow> True | Inl _ \<Rightarrow> False" by code_simp
  then obtain plan where "snd ?r = Inr plan" by (auto split: sum.splits)
  then show ?thesis using that[of "fst ?r" plan] by (simp add: prod_eq_iff)
qed

theorem frozen_plan_is_valid_witness:
  "\<exists>w' plan job'. freeze_plan (plan_env_of (sample_build two_steps) True ''acme'' Inr (\<lambda>_ _. None) None) ''acme'' ''job_1''
       plain_confirmation modelled_world = (w', Inr plan) \<and>
     w_store w' (''acme'', ''job_1'') = Some (JobFile job') \<and> j_llm_plan job' = Some plan \<and> llm_plan_valid plan"
proof -
  obtain w' plan where f: "freeze_plan (plan_env_of (sample_build two_steps) True ''acme'' Inr (\<lambda>_ _. None) None) ''acme'' ''job_1''
    plain_confirmation modelled_world = (w', Inr plan)" by (rule sample_freeze)
  have "store_load ''acme'' ''job_1'' (w_store modelled_world) = Inr modelled_job" "j_llm_plan modelled_job = None"
    "j_job_id modelled_job = ''job_1''" by code_simp+
  from frozen_plan_is_valid[OF f this] f show ?thesis by blast
qed

section \<open>Where planning goes wrong\<close>

text \<open>The parser of plans does not find the JSON of a fenced block; the parser of drafts does.\<close>

definition fenced :: "str \<Rightarrow> str" where
  "fenced body = fence @ ''json'' @ [CHR 0x0A] @ body @ [CHR 0x0A] @ fence"

lemma fenced_answer_not_read: "extract_plan_json (fenced ''{}'') = fenced ''{}'' \<and> extract_draft_json (fenced ''{}'') = ''{}''"
  by code_simp

text \<open>Dependencies of an answer may form a cycle: the plan is taken, and cannot be ordered when it is executed.\<close>

definition cyclic_steps :: "json list" where
  "cyclic_steps = [llm_step ''a'' ''generate_stata_do'' [''b''] [], llm_step ''b'' ''data_validation'' [''a''] []]"

lemma cyclic_plan_taken:
  "case llm_plan_outcome (sample_build cyclic_steps) ''acme'' modelled_job plain_confirmation ''p1'' of
     (refs, LlmPlan plan) \<Rightarrow> toposort (lp_steps plan) = Inl (invalid ''dependency_cycle'') | _ \<Rightarrow> False"
  by code_simp

text \<open>The step type \<open>run_stata\<close>, which the question offers, is refused in every answer.\<close>

lemma run_step_refused:
  "s \<in> set llm_steps \<Longrightarrow> ps_type s = RUN_STATA \<Longrightarrow> plan_from_llm_steps env job c i t llm_steps \<noteq> Inr plan"
proof
  assume s: "s \<in> set llm_steps" "ps_type s = RUN_STATA" and p: "plan_from_llm_steps env job c i t llm_steps = Inr plan"
  show False
  proof (rule plan_from_llm_steps_Inr[OF p])
    assume t: "map ps_type (lp_steps plan) = map ps_type llm_steps"
      and ok: "\<forall>s\<in>set (lp_steps plan). is_do_generation_step_type (ps_type s)"
    have "RUN_STATA \<in> set (map ps_type (lp_steps plan))" unfolding t using s by force
    with ok show False by (auto simp: is_do_generation_step_type_def)
  qed
qed

text \<open>Parameters that a step's own template misses are noted in its contract, but not asked for.\<close>

lemma supplementary_template_not_gated:
  "case llm_plan_outcome (sample_build two_steps) ''acme'' modelled_job plain_confirmation ''p1'' of
     (refs, LlmPlan plan) \<Rightarrow>
       map (\<lambda>s. case dict_get (ps_params s) ''template_contract'' of
                  Some (JObj c) \<Rightarrow> missing_required_template_params c | _ \<Rightarrow> []) (lp_steps plan) = [[], [''__ID_VAR__'']]
   | _ \<Rightarrow> False"
  by code_simp

end
