(* ===== verification/TemplateSelect.thy ===== *)
theory TemplateSelect
  imports LlmOutputs TemplateCatalog JobStore
begin

text \<open>
  Choosing a do-template with the language model: domain/do_template_selection_service.py with its support,
  its models, its questions and parsers (domain/do_template_selection_prompting.py), the validation of
  answers and the evidence written for the job.

  The model first picks families, then a template among the candidates of these families; both are asked
  again when they name something unknown. pydantic's reading of numbers and truth values, JSON, the hash and
  the calls of the model are the environment \<open>select_env\<close>.
\<close>

section \<open>The answers\<close>

record family_pick =
  fp_family_id :: str
  fp_reason :: str
  fp_confidence :: rat

datatype family_selection =
    FamiliesV1 "family_pick list"
  | FamiliesV2 "family_pick list" "str list" bool str

record supplementary_pick =
  sp_template_id :: str
  sp_purpose :: str
  sp_sequence_order :: int
  sp_confidence :: rat

datatype template_selection =
    TemplateV1 str str rat
  | TemplateV2 str str rat "supplementary_pick list"

record select_env =
  xs_library :: template_library
  xs_llm :: "job \<Rightarrow> str \<Rightarrow> str \<Rightarrow> artifact_ref list \<times> (exn + str)"
  xs_loads :: "str \<Rightarrow> str + json"
  xs_dumps :: "jobj \<Rightarrow> str"
  xs_sha256 :: "str \<Rightarrow> str"
  xs_float :: "json \<Rightarrow> rat option"
  xs_int :: "json \<Rightarrow> int option"
  xs_bool :: "json \<Rightarrow> bool option"
  xs_verror :: "jobj \<Rightarrow> str"
  xs_message :: "exn \<Rightarrow> str"
  xs_artifact_fault :: "str \<Rightarrow> exn option"
  xs_stage1_max_families :: int
  xs_stage2_max_candidates :: int
  xs_stage2_token_budget :: int
  xs_confirmation_threshold :: rat
  xs_manual_fallback_threshold :: rat
  xs_max_attempts :: int

definition only_fields :: "str list \<Rightarrow> jobj \<Rightarrow> bool" where
  "only_fields names flds = (set (map fst flds) \<subseteq> set names)"

definition field_text :: "jobj \<Rightarrow> str \<Rightarrow> str option" where
  "field_text flds key = bindO (dict_get flds key) as_str"

definition confidence_field :: "select_env \<Rightarrow> jobj \<Rightarrow> str \<Rightarrow> rat option" where
  "confidence_field env flds key =
     bindO (bindO (dict_get flds key) (xs_float env)) (\<lambda>c. if 0 \<le> c \<and> c \<le> 1 then Some c else None)"

definition version_ok :: "select_env \<Rightarrow> jobj \<Rightarrow> bool" where
  "version_ok env flds = (case dict_get flds ''schema_version'' of None \<Rightarrow> True | Some v \<Rightarrow> xs_int env v \<noteq> None)"

definition parse_family_pick :: "select_env \<Rightarrow> json \<Rightarrow> family_pick option" where
  "parse_family_pick env v =
     bindO (as_obj v) (\<lambda>flds.
       if \<not> only_fields [''family_id'', ''reason'', ''confidence''] flds then None
       else bindO (field_text flds ''family_id'') (\<lambda>family_id.
            bindO (field_text flds ''reason'') (\<lambda>reason.
            bindO (confidence_field env flds ''confidence'') (\<lambda>confidence.
              Some \<lparr>fp_family_id = family_id, fp_reason = reason, fp_confidence = confidence\<rparr>))))"

definition list_field :: "jobj \<Rightarrow> str \<Rightarrow> (json \<Rightarrow> 'a option) \<Rightarrow> 'a list option" where
  "list_field flds key f =
     (case dict_get flds key of None \<Rightarrow> Some [] | Some (JList items) \<Rightarrow> all_some (map f items) | _ \<Rightarrow> None)"

definition parse_families_v1 :: "select_env \<Rightarrow> jobj \<Rightarrow> family_selection option" where
  "parse_families_v1 env flds =
     (if \<not> only_fields [''schema_version'', ''families''] flds \<or> \<not> version_ok env flds then None
      else map_option FamiliesV1 (list_field flds ''families'' (parse_family_pick env)))"

definition parse_families_v2 :: "select_env \<Rightarrow> jobj \<Rightarrow> family_selection option" where
  "parse_families_v2 env flds =
     (if \<not> only_fields [''schema_version'', ''families'', ''analysis_sequence'', ''requires_combination'', ''combination_reason''] flds
         \<or> \<not> version_ok env flds then None
      else bindO (list_field flds ''families'' (parse_family_pick env)) (\<lambda>families.
           bindO (list_field flds ''analysis_sequence'' as_str) (\<lambda>sequence.
           bindO (case dict_get flds ''requires_combination'' of None \<Rightarrow> Some False | Some v \<Rightarrow> xs_bool env v) (\<lambda>combination.
           bindO (case dict_get flds ''combination_reason'' of None \<Rightarrow> Some [] | Some v \<Rightarrow> as_str v) (\<lambda>reason.
             Some (FamiliesV2 families sequence combination reason))))))"

definition parse_supplementary :: "select_env \<Rightarrow> json \<Rightarrow> supplementary_pick option" where
  "parse_supplementary env v =
     bindO (as_obj v) (\<lambda>flds.
       if \<not> only_fields [''template_id'', ''purpose'', ''sequence_order'', ''confidence''] flds then None
       else bindO (field_text flds ''template_id'') (\<lambda>template_id.
            bindO (field_text flds ''purpose'') (\<lambda>purpose.
            bindO (bindO (dict_get flds ''sequence_order'') (xs_int env)) (\<lambda>order.
            bindO (confidence_field env flds ''confidence'') (\<lambda>confidence.
              if order < 1 then None
              else Some \<lparr>sp_template_id = template_id, sp_purpose = purpose, sp_sequence_order = order,
                         sp_confidence = confidence\<rparr>)))))"

definition parse_template_v1 :: "select_env \<Rightarrow> jobj \<Rightarrow> template_selection option" where
  "parse_template_v1 env flds =
     (if \<not> only_fields [''schema_version'', ''template_id'', ''reason'', ''confidence''] flds \<or> \<not> version_ok env flds then None
      else bindO (field_text flds ''template_id'') (\<lambda>template_id.
           bindO (field_text flds ''reason'') (\<lambda>reason.
           bindO (confidence_field env flds ''confidence'') (\<lambda>confidence.
             Some (TemplateV1 template_id reason confidence)))))"

definition parse_template_v2 :: "select_env \<Rightarrow> jobj \<Rightarrow> template_selection option" where
  "parse_template_v2 env flds =
     (if \<not> only_fields [''schema_version'', ''primary_template_id'', ''primary_reason'', ''primary_confidence'',
                        ''supplementary_templates''] flds \<or> \<not> version_ok env flds then None
      else bindO (field_text flds ''primary_template_id'') (\<lambda>template_id.
           bindO (field_text flds ''primary_reason'') (\<lambda>reason.
           bindO (confidence_field env flds ''primary_confidence'') (\<lambda>confidence.
           bindO (list_field flds ''supplementary_templates'' (parse_supplementary env)) (\<lambda>supplementary.
             Some (TemplateV2 template_id reason confidence supplementary))))))"

section \<open>Finding the JSON\<close>

fun from_char :: "char \<Rightarrow> str \<Rightarrow> str option" where
  "from_char c [] = None"
| "from_char c (x # s) = (if x = c then Some (x # s) else from_char c s)"

text \<open>From the first \<open>{\<close> to the last \<open>}\<close>; there is none when the last comes before the first.\<close>

definition extract_json_object :: "str \<Rightarrow> exn + str" where
  "extract_json_object answer =
     (let value = py_strip answer
      in if startswith value ''{'' \<and> endswith value ''}'' then Inr value
         else case from_char (CHR ''{'') value of
                None \<Rightarrow> Inl (DraftErr (SelectionParse ''json_extract'' ''no_json_object_found''))
              | Some s \<Rightarrow>
                  (case from_char (CHR ''}'') (rev s) of
                     None \<Rightarrow> Inl (DraftErr (SelectionParse ''json_extract'' ''no_json_object_found''))
                   | Some r \<Rightarrow> Inr (rev r)))"

definition loads_json_object :: "select_env \<Rightarrow> str \<Rightarrow> str \<Rightarrow> exn + jobj" where
  "loads_json_object env raw stage =
     (case xs_loads env raw of
        Inl e \<Rightarrow> Inl (DraftErr (SelectionParse stage (''invalid_json:'' @ e)))
      | Inr (JObj d) \<Rightarrow> Inr d
      | Inr _ \<Rightarrow> Inl (DraftErr (SelectionParse stage ''json_not_object'')))"

definition version_two :: "jobj \<Rightarrow> bool" where
  "version_two payload = (case dict_get payload ''schema_version'' of None \<Rightarrow> False | Some v \<Rightarrow> as_int v = Some 2)"

definition parse_stage1 :: "select_env \<Rightarrow> str \<Rightarrow> exn + family_selection" where
  "parse_stage1 env answer =
     bindE (extract_json_object answer) (\<lambda>raw.
     bindE (loads_json_object env raw ''stage1_json'') (\<lambda>payload.
       case (if version_two payload then parse_families_v2 env payload else parse_families_v1 env payload) of
         Some s \<Rightarrow> Inr s
       | None \<Rightarrow> Inl (DraftErr (SelectionParse ''stage1'' (xs_verror env payload)))))"

definition parse_stage2 :: "select_env \<Rightarrow> str \<Rightarrow> exn + template_selection" where
  "parse_stage2 env answer =
     bindE (extract_json_object answer) (\<lambda>raw.
     bindE (loads_json_object env raw ''stage2_json'') (\<lambda>payload.
       case (if version_two payload then parse_template_v2 env payload else parse_template_v1 env payload) of
         Some s \<Rightarrow> Inr s
       | None \<Rightarrow> Inl (DraftErr (SelectionParse ''stage2'' (xs_verror env payload)))))"

section \<open>Validation\<close>

fun families_of :: "family_selection \<Rightarrow> family_pick list" where
  "families_of (FamiliesV1 fs) = fs"
| "families_of (FamiliesV2 fs _ _ _) = fs"

definition validated_family_ids :: "family_selection \<Rightarrow> str list \<Rightarrow> int \<Rightarrow> exn + str list" where
  "validated_family_ids selection canonical max_families =
     (let picks = take (nat (max 1 max_families)) (families_of selection);
          ids = map py_strip (filter (\<lambda>i. \<not> blank i) (map fp_family_id picks))
      in case find (\<lambda>i. i \<notin> set canonical) ids of
           Some bad \<Rightarrow> Inl (DraftErr (SelectionInvalidFamily bad))
         | None \<Rightarrow> Inr ids)"

fun check_supplementary :: "str list \<Rightarrow> str list \<Rightarrow> supplementary_pick list \<Rightarrow> exn + str list" where
  "check_supplementary cands seen [] = Inr []"
| "check_supplementary cands seen (p # ps) =
     (let template_id = py_strip (sp_template_id p)
      in if template_id = [] \<or> template_id \<notin> set cands \<or> template_id \<in> set seen
         then Inl (DraftErr (SelectionInvalidTemplate (sp_template_id p)))
         else bindE (check_supplementary cands (template_id # seen) ps) (\<lambda>rest. Inr (template_id # rest)))"

fun validated_template_selection :: "template_selection \<Rightarrow> str list \<Rightarrow> exn + str \<times> str list" where
  "validated_template_selection (TemplateV2 template_id _ _ supplementary) cands =
     (let primary = py_strip template_id
      in if primary = [] \<or> primary \<notin> set cands then Inl (DraftErr (SelectionInvalidTemplate template_id))
         else bindE (check_supplementary cands [primary] supplementary) (\<lambda>ids. Inr (primary, ids)))"
| "validated_template_selection (TemplateV1 template_id _ _) cands =
     (let primary = py_strip template_id
      in if primary = [] \<or> primary \<notin> set cands then Inl (DraftErr (SelectionInvalidTemplate template_id))
         else Inr (primary, []))"

section \<open>Candidates\<close>

definition is_word_char :: "char \<Rightarrow> bool" where
  "is_word_char c = (is_ascii_letter c \<or> is_digit c \<or> c = CHR ''_'')"

fun words_of :: "str \<Rightarrow> str \<Rightarrow> str list" where
  "words_of cur [] = (if cur = [] then [] else [rev cur])"
| "words_of cur (c # s) =
     (if is_word_char c then words_of (c # cur) s
      else if cur = [] then words_of [] s else rev cur # words_of [] s)"

definition word_tokens :: "str \<Rightarrow> str list" where
  "word_tokens value = remdups (map py_lower (words_of [] value))"

definition template_score :: "str list \<Rightarrow> template_summary \<Rightarrow> nat" where
  "template_score requirement_tokens t =
     (let hay = word_tokens (py_join '' '' [ts_template_id t, ts_family_id t, ts_slug t, ts_name t,
                  py_join '' '' (ts_placeholders t), py_join '' '' (ts_output_types t)])
      in length (filter (\<lambda>w. w \<in> set hay) requirement_tokens))"

text \<open>By falling score, equal scores by template id.\<close>

definition rank_templates :: "str \<Rightarrow> template_summary list \<Rightarrow> template_summary list" where
  "rank_templates requirement templates =
     (let tokens = word_tokens requirement
      in sort_key (\<lambda>t. - int (template_score tokens t)) (sort_key ts_template_id templates))"

definition family_prompt_item :: "family_summary \<Rightarrow> jobj" where
  "family_prompt_item f =
     [(''family_id'', JStr (fs_family_id f)), (''description'', JStr (fs_description f)),
      (''capabilities'', JList (map JStr (fs_capabilities f))), (''n_templates'', JInt (int (length (fs_template_ids f))))]"

definition template_prompt_item :: "template_summary \<Rightarrow> jobj" where
  "template_prompt_item t =
     [(''template_id'', JStr (ts_template_id t)), (''family_id'', JStr (ts_family_id t)),
      (''name'', JStr (take 80 (ts_name t))), (''slug'', JStr (take 80 (ts_slug t))),
      (''placeholders'', JList (map JStr (take 8 (ts_placeholders t)))),
      (''output_types'', JList (map JStr (take 8 (ts_output_types t))))]"

fun trim_loop :: "(jobj \<Rightarrow> str) \<Rightarrow> int \<Rightarrow> int \<Rightarrow> template_summary list \<Rightarrow> template_summary list" where
  "trim_loop dumps budget used [] = []"
| "trim_loop dumps budget used (t # ts) =
     (let cost = estimate_tokens (dumps (template_prompt_item t))
      in if used + cost > budget then [] else t # trim_loop dumps budget (used + cost) ts)"

definition trim_templates :: "(jobj \<Rightarrow> str) \<Rightarrow> template_summary list \<Rightarrow> int \<Rightarrow> int \<Rightarrow> template_summary list" where
  "trim_templates dumps templates token_budget max_candidates =
     (if token_budget \<le> 0 \<or> max_candidates \<le> 0 then []
      else trim_loop dumps token_budget 0 (take (nat max_candidates) templates))"

definition V1_SUPPORTED_TEMPLATE_IDS :: "str list" where
  "V1_SUPPORTED_TEMPLATE_IDS = [''T01'', ''T05'', ''T07'', ''T09'', ''T30'', ''TA14'']"

definition build_stage2_candidates :: "select_env \<Rightarrow> str list \<Rightarrow> str \<Rightarrow> exn + template_summary list" where
  "build_stage2_candidates env selected_family_ids requirement =
     (case list_templates (xs_library env) selected_family_ids of
        Inl e \<Rightarrow> Inl (TplErr e)
      | Inr templates \<Rightarrow>
          (if templates = [] then Inl (DraftErr (SelectionNoCandidates ''stage2_templates''))
           else let filtered = filter (\<lambda>t. ts_template_id t \<in> set V1_SUPPORTED_TEMPLATE_IDS) templates;
                    ranked = rank_templates requirement (if filtered \<noteq> [] then filtered else templates);
                    cands = trim_templates (xs_dumps env) ranked (xs_stage2_token_budget env) (xs_stage2_max_candidates env)
                in if cands = [] then Inl (DraftErr (SelectionNoCandidates ''stage2_candidates'')) else Inr cands))"

section \<open>The questions\<close>

definition previous_error_line :: "str option \<Rightarrow> str list" where
  "previous_error_line e =
     (case e of Some m \<Rightarrow> (if blank m then [] else [''PREVIOUS_ERROR: '' @ py_strip m]) | None \<Rightarrow> [])"

definition stage1_prompt :: "select_env \<Rightarrow> str \<Rightarrow> family_summary list \<Rightarrow> int \<Rightarrow> str option \<Rightarrow> str" where
  "stage1_prompt env requirement families attempt previous_error =
     lines_text
       ([''TASK: Select canonical do-template family IDs for the user requirement.'',
         ''ATTEMPT: '' @ show_int attempt, ''CANONICAL_FAMILY_IDS: '' @ py_join '', '' (map fs_family_id families)] @
        previous_error_line previous_error @
        [[], ''RULES:'',
         ''- Return JSON with schema_version=2 and families[] (max '' @ show_int (max 1 (xs_stage1_max_families env)) @ '').'',
         ''- Each family item must include: family_id, reason, confidence (0.0-1.0).'',
         ''- family_id MUST be in CANONICAL_FAMILY_IDS exactly.'',
         ''- Determine if multiple templates are required (multi-stage analysis '' @ ''or multiple distinct outputs).'',
         ''- If multiple templates are required: set requires_combination=true and '' @ ''explain in combination_reason.'',
         ''- Always provide analysis_sequence[] as the recommended analysis order '' @ ''(prefer canonical family IDs).'',
         ''- Output JSON only (no markdown).'', [], ''OUTPUT_SCHEMA:'',
         ''{\"schema_version\":2,'' @ ''\"families\":[{\"family_id\":\"<id>\",\"reason\":\"...\",\"confidence\":0.7}],'' @
         ''\"requires_combination\":true,'' @ ''\"combination_reason\":\"...\",'' @
         ''\"analysis_sequence\":[\"<family_id_1>\",\"<family_id_2>\"]}'', [],
         ''USER_REQUIREMENT:'', py_strip requirement, [], ''FAMILY_SUMMARIES:''] @
        map (\<lambda>f. ''- '' @ xs_dumps env (family_prompt_item f)) families @ [[]])"

definition stage2_prompt ::
  "select_env \<Rightarrow> str \<Rightarrow> str list \<Rightarrow> str list \<Rightarrow> bool \<Rightarrow> str \<Rightarrow> template_summary list \<Rightarrow> int \<Rightarrow> str option \<Rightarrow> str" where
  "stage2_prompt env requirement family_ids sequence combination reason cands attempt previous_error =
     lines_text
       ([''TASK: Select a primary do-template plus optional supplementary templates '' @ ''from the candidates.'',
         ''ATTEMPT: '' @ show_int attempt, ''SELECTED_FAMILY_IDS: '' @ py_join '', '' family_ids,
         ''ANALYSIS_SEQUENCE: '' @ py_join '', '' sequence,
         ''REQUIRES_COMBINATION: '' @ (if combination then ''true'' else ''false''),
         ''COMBINATION_REASON: '' @ py_strip reason,
         ''CANDIDATE_TEMPLATE_IDS: '' @ py_join '', '' (map ts_template_id cands),
         ''CANDIDATE_TOKEN_BUDGET: '' @ show_int (xs_stage2_token_budget env)] @
        previous_error_line previous_error @
        [[], ''RULES:'', ''- Return JSON with schema_version=2.'',
         ''- primary_template_id MUST be in CANDIDATE_TEMPLATE_IDS exactly.'',
         ''- supplementary_templates[].template_id MUST be in CANDIDATE_TEMPLATE_IDS exactly.'',
         ''- Do not repeat a template_id (primary vs supplementary).'',
         ''- supplementary_templates[] may be empty if a single template is sufficient.'',
         ''- supplementary_templates[].sequence_order MUST start at 1 and be unique.'',
         ''- Use supplementary templates for multi-stage needs (e.g., descriptive stats '' @ ''before regression).'',
         ''- Output JSON only (no markdown).'', [], ''OUTPUT_SCHEMA:'',
         ''{\"schema_version\":2,'' @ ''\"primary_template_id\":\"<id>\",'' @ ''\"primary_reason\":\"...\",'' @
         ''\"primary_confidence\":0.7,'' @ ''\"supplementary_templates\":['' @
         ''{\"template_id\":\"<id>\",\"purpose\":\"...\",\"sequence_order\":1,\"confidence\":0.6}'' @ '']}'', [],
         ''USER_REQUIREMENT:'', py_strip requirement, [], ''CANDIDATE_TEMPLATES:''] @
        map (\<lambda>t. ''- '' @ xs_dumps env (template_prompt_item t)) cands @ [[]])"

section \<open>Asking\<close>

text \<open>Each call may add references to the job, also when it raises.\<close>

definition ask :: "select_env \<Rightarrow> str \<Rightarrow> str \<Rightarrow> (job, str) act" where
  "ask env operation prompt job =
     (case xs_llm env job operation prompt of
        (refs, r) \<Rightarrow> (job\<lparr>j_artifacts_index := j_artifacts_index job @ refs\<rparr>, r))"

definition error_text :: "select_env \<Rightarrow> exn \<Rightarrow> str" where
  "error_text env e = (case exn_info e of Some (code, _) \<Rightarrow> code | None \<Rightarrow> []) @ '':'' @ xs_message env e"

text \<open>The attempts are counted down in \<open>left\<close>; the loop runs \<open>max(1, max_attempts)\<close> times.\<close>

fun select_families_loop ::
  "select_env \<Rightarrow> str \<Rightarrow> family_summary list \<Rightarrow> int \<Rightarrow> nat \<Rightarrow> str option \<Rightarrow> (job, family_selection \<times> str list) act" where
  "select_families_loop env requirement families attempt 0 previous_error =
     raise_exn (DraftErr (SelectionNoCandidates ''stage1_invalid_or_empty''))"
| "select_families_loop env requirement families attempt (Suc left) previous_error =
     bindA (ask env ''do_template.select_families'' (stage1_prompt env requirement families attempt previous_error)) (\<lambda>answer.
     bindA (liftE (parse_stage1 env answer)) (\<lambda>parsed.
       case validated_family_ids parsed (map fs_family_id families) (xs_stage1_max_families env) of
         Inl e \<Rightarrow> select_families_loop env requirement families (attempt + 1) left (Some (error_text env e))
       | Inr ids \<Rightarrow>
           (if ids \<noteq> [] then ret (parsed, ids)
            else select_families_loop env requirement families (attempt + 1) left (Some ''empty_selection''))))"

definition attempts_allowed :: "select_env \<Rightarrow> nat" where
  "attempts_allowed env = nat (max 1 (xs_max_attempts env))"

definition stage1_context :: "family_selection \<Rightarrow> str list \<times> bool \<times> str" where
  "stage1_context stage1 =
     (case stage1 of
        FamiliesV2 _ sequence combination reason \<Rightarrow>
          (map py_strip (filter (\<lambda>i. \<not> blank i) sequence), combination, reason)
      | FamiliesV1 _ \<Rightarrow> ([], False, []))"

fun primary_id :: "template_selection \<Rightarrow> str" where
  "primary_id (TemplateV1 i _ _) = i"
| "primary_id (TemplateV2 i _ _ _) = i"

fun primary_confidence :: "template_selection \<Rightarrow> rat" where
  "primary_confidence (TemplateV1 _ _ c) = c"
| "primary_confidence (TemplateV2 _ _ c _) = c"

fun select_template_loop ::
  "select_env \<Rightarrow> (int \<Rightarrow> str option \<Rightarrow> str) \<Rightarrow> str list \<Rightarrow> int \<Rightarrow> nat \<Rightarrow> template_selection option \<Rightarrow> str option
   \<Rightarrow> (job, template_selection \<times> str \<times> str list) act" where
  "select_template_loop env question cand_ids attempt 0 last_parsed previous_error =
     raise_exn (DraftErr (case last_parsed of Some s \<Rightarrow> SelectionInvalidTemplate (primary_id s) | None \<Rightarrow> SelectionNoCandidates ''stage2''))"
| "select_template_loop env question cand_ids attempt (Suc left) last_parsed previous_error =
     bindA (ask env ''do_template.select_template'' (question attempt previous_error)) (\<lambda>answer.
     bindA (liftE (parse_stage2 env answer)) (\<lambda>parsed.
       case validated_template_selection parsed cand_ids of
         Inl e \<Rightarrow> select_template_loop env question cand_ids (attempt + 1) left (Some parsed) (Some (error_text env e))
       | Inr (primary, supplementary) \<Rightarrow> ret (parsed, primary, supplementary)))"

section \<open>Deciding and writing the evidence\<close>

record selection_result =
  sr_family_ids :: "str list"
  sr_candidate_ids :: "str list"
  sr_selected_id :: str
  sr_supplementary_ids :: "str list"
  sr_analysis_sequence :: "str list"
  sr_requires_combination :: bool
  sr_requires_confirmation :: bool
  sr_used_manual_fallback :: bool
  sr_primary_confidence :: "rat option"

text \<open>\<open>finalize_stage2_selection\<close>: below the lower threshold the best ranked candidate is taken instead.\<close>

definition finalize_stage2_selection ::
  "select_env \<Rightarrow> template_selection \<Rightarrow> str \<Rightarrow> str list \<Rightarrow> template_summary list \<Rightarrow> exn + str \<times> str list \<times> rat \<times> bool \<times> bool" where
  "finalize_stage2_selection env stage2 llm_primary llm_supplementary cands =
     (let confidence = primary_confidence stage2;
          needs_confirmation = confidence < xs_confirmation_threshold env;
          manual = confidence < xs_manual_fallback_threshold env
      in if manual
         then (case cands of
                 [] \<Rightarrow> Inl (DraftErr (SelectionNoCandidates ''stage2_manual_fallback''))
               | c # _ \<Rightarrow> Inr (ts_template_id c, [], confidence, needs_confirmation, True))
         else Inr (llm_primary, llm_supplementary, confidence, needs_confirmation, False))"

definition pick_json :: "family_pick \<Rightarrow> json" where
  "pick_json p = JObj [(''family_id'', JStr (fp_family_id p)), (''reason'', JStr (fp_reason p)),
                       (''confidence'', JFloat (Finite (fp_confidence p)))]"

fun family_selection_json :: "family_selection \<Rightarrow> jobj" where
  "family_selection_json (FamiliesV1 fs) = [(''schema_version'', JInt 1), (''families'', JList (map pick_json fs))]"
| "family_selection_json (FamiliesV2 fs sequence combination reason) =
     [(''schema_version'', JInt 2), (''families'', JList (map pick_json fs)),
      (''analysis_sequence'', JList (map JStr sequence)), (''requires_combination'', JBool combination),
      (''combination_reason'', JStr reason)]"

fun template_selection_json :: "template_selection \<Rightarrow> jobj" where
  "template_selection_json (TemplateV1 i reason c) =
     [(''schema_version'', JInt 1), (''template_id'', JStr i), (''reason'', JStr reason), (''confidence'', JFloat (Finite c))]"
| "template_selection_json (TemplateV2 i reason c sups) =
     [(''schema_version'', JInt 2), (''primary_template_id'', JStr i), (''primary_reason'', JStr reason),
      (''primary_confidence'', JFloat (Finite c)),
      (''supplementary_templates'', JList (map (\<lambda>s. JObj
         [(''template_id'', JStr (sp_template_id s)), (''purpose'', JStr (sp_purpose s)),
          (''sequence_order'', JInt (sp_sequence_order s)), (''confidence'', JFloat (Finite (sp_confidence s)))]) sups))]"

definition selection_artifact_path :: "str \<Rightarrow> str" where
  "selection_artifact_path name = ''artifacts/do_template/selection/'' @ name @ ''.json''"

definition stage1_evidence_payload ::
  "select_env \<Rightarrow> str \<Rightarrow> str \<Rightarrow> family_summary list \<Rightarrow> family_selection \<Rightarrow> str list \<Rightarrow> jobj" where
  "stage1_evidence_payload env job_id requirement families stage1 family_ids =
     [(''schema_version'', JInt 1), (''job_id'', JStr job_id), (''stage'', JStr ''stage1''),
      (''operation'', JStr ''do_template.select_families''),
      (''requirement_fingerprint'', JStr (xs_sha256 env (py_strip requirement))),
      (''max_families'', JInt (xs_stage1_max_families env)),
      (''canonical_family_ids'', JList (map (JStr \<circ> fs_family_id) families)),
      (''family_summaries'', JList (map (JObj \<circ> family_prompt_item) families)),
      (''selection'', JObj (family_selection_json stage1)), (''selected_family_ids'', JList (map JStr family_ids))]"

definition candidates_evidence_payload :: "select_env \<Rightarrow> str \<Rightarrow> str list \<Rightarrow> template_summary list \<Rightarrow> jobj" where
  "candidates_evidence_payload env job_id family_ids cands =
     [(''schema_version'', JInt 1), (''job_id'', JStr job_id), (''stage'', JStr ''stage2_candidates''),
      (''selected_family_ids'', JList (map JStr family_ids)), (''token_budget'', JInt (xs_stage2_token_budget env)),
      (''max_candidates'', JInt (xs_stage2_max_candidates env)),
      (''candidate_token_estimate'', JInt (sum_list (map (\<lambda>t. estimate_tokens (xs_dumps env (template_prompt_item t))) cands))),
      (''candidate_template_ids'', JList (map (JStr \<circ> ts_template_id) cands)),
      (''candidates'', JList (map (JObj \<circ> template_prompt_item) cands))]"

definition stage2_evidence_payload ::
  "select_env \<Rightarrow> str \<Rightarrow> str \<Rightarrow> template_summary list \<Rightarrow> template_selection \<Rightarrow> selection_result \<Rightarrow> jobj" where
  "stage2_evidence_payload env job_id requirement cands stage2 r =
     [(''schema_version'', JInt 1), (''job_id'', JStr job_id), (''stage'', JStr ''stage2''),
      (''operation'', JStr ''do_template.select_template''),
      (''requirement_fingerprint'', JStr (xs_sha256 env (py_strip requirement))),
      (''candidate_template_ids'', JList (map (JStr \<circ> ts_template_id) cands)),
      (''selection'', JObj (template_selection_json stage2)), (''selected_template_id'', JStr (sr_selected_id r)),
      (''supplementary_template_ids'', JList (map JStr (sr_supplementary_ids r))),
      (''primary_confidence'', case sr_primary_confidence r of None \<Rightarrow> JNull | Some c \<Rightarrow> JFloat (Finite c)),
      (''requires_user_confirmation'', JBool (sr_requires_confirmation r)),
      (''used_manual_fallback'', JBool (sr_used_manual_fallback r))]"

text \<open>
  The state: the job in memory, the job store and the evidence files, by tenant, job and path. The paths are
  constants below the job's directory; writing one may raise (\<open>xs_artifact_fault\<close>).
\<close>

record select_world =
  sw_job :: job
  sw_store :: job_store
  sw_evidence :: "str \<times> str \<times> str \<rightharpoonup> jobj"

definition on_job :: "(job, 'a) act \<Rightarrow> (select_world, 'a) act" where
  "on_job m w = (case m (sw_job w) of (job, r) \<Rightarrow> (w\<lparr>sw_job := job\<rparr>, r))"

definition append_artifact_ref :: "artifact_kind \<Rightarrow> str \<Rightarrow> job \<Rightarrow> job" where
  "append_artifact_ref kind rel_path job =
     (if list_ex (\<lambda>r. ar_kind r = kind \<and> ar_rel_path r = rel_path) (j_artifacts_index job) then job
      else job\<lparr>j_artifacts_index := j_artifacts_index job @ [\<lparr>ar_kind = kind, ar_rel_path = rel_path\<rparr>]\<rparr>)"

definition write_evidence_artifact :: "select_env \<Rightarrow> artifact_kind \<Rightarrow> str \<Rightarrow> jobj \<Rightarrow> (select_world, unit) act" where
  "write_evidence_artifact env kind rel_path payload w =
     (case xs_artifact_fault env rel_path of
        Some e \<Rightarrow> (w, Inl e)
      | None \<Rightarrow> (w\<lparr>sw_evidence := (sw_evidence w)((j_tenant_id (sw_job w), j_job_id (sw_job w), rel_path) \<mapsto> payload),
                   sw_job := append_artifact_ref kind rel_path (sw_job w)\<rparr>, Inr ()))"

definition finalize_selection_for_job ::
  "select_env \<Rightarrow> str \<Rightarrow> family_summary list \<Rightarrow> family_selection \<Rightarrow> str list \<Rightarrow> template_summary list \<Rightarrow>
   template_selection \<times> str \<times> str list \<Rightarrow> (select_world, selection_result) act" where
  "finalize_selection_for_job env requirement families stage1 family_ids cands stage2_choice w0 =
     (let (stage2, llm_primary, llm_supplementary) = stage2_choice;
          (sequence, combination, reason) = stage1_context stage1;
          job_id = j_job_id (sw_job w0)
      in bindA (liftE (finalize_stage2_selection env stage2 llm_primary llm_supplementary cands))
           (\<lambda>(selected, supplementary, confidence, needs_confirmation, manual).
         let r = \<lparr>sr_family_ids = family_ids, sr_candidate_ids = map ts_template_id cands, sr_selected_id = selected,
                  sr_supplementary_ids = supplementary, sr_analysis_sequence = sequence,
                  sr_requires_combination = combination, sr_requires_confirmation = needs_confirmation,
                  sr_used_manual_fallback = manual, sr_primary_confidence = Some confidence\<rparr>
         in bindA (write_evidence_artifact env DO_TEMPLATE_SELECTION_STAGE1 (selection_artifact_path ''stage1'')
                     (stage1_evidence_payload env job_id requirement families stage1 family_ids)) (\<lambda>_.
            bindA (write_evidence_artifact env DO_TEMPLATE_SELECTION_CANDIDATES (selection_artifact_path ''candidates'')
                     (candidates_evidence_payload env job_id family_ids cands)) (\<lambda>_.
            bindA (write_evidence_artifact env DO_TEMPLATE_SELECTION_STAGE2 (selection_artifact_path ''stage2'')
                     (stage2_evidence_payload env job_id requirement cands stage2 r)) (\<lambda>_ w.
              (w\<lparr>sw_job := (sw_job w)\<lparr>j_selected_template_id := Some selected\<rparr>\<rparr>, Inr r))))) w0)"

section \<open>The service\<close>

definition v1_families_for_prompt :: "family_summary list \<Rightarrow> family_summary list" where
  "v1_families_for_prompt families =
     (let eligible = filter (\<lambda>f. list_ex (\<lambda>t. t \<in> set V1_SUPPORTED_TEMPLATE_IDS) (fs_template_ids f)) families
      in if eligible \<noteq> [] then eligible else families)"

definition select_for_job :: "select_env \<Rightarrow> (select_world, selection_result) act" where
  "select_for_job env w0 =
     (let requirement = (case j_requirement (sw_job w0) of None \<Rightarrow> [] | Some r \<Rightarrow> r)
      in case list_families (xs_library env) of
           Inl e \<Rightarrow> (w0, Inl (TplErr e))
         | Inr [] \<Rightarrow> (w0, Inl (DraftErr (SelectionNoCandidates ''stage1'')))
         | Inr families \<Rightarrow>
             bindA (on_job (select_families_loop env requirement (v1_families_for_prompt families) 1 (attempts_allowed env) None))
               (\<lambda>(stage1, family_ids).
             bindA (liftE (build_stage2_candidates env family_ids requirement)) (\<lambda>cands.
               let (sequence, combination, reason) = stage1_context stage1;
                   question = stage2_prompt env requirement family_ids sequence combination reason cands
               in bindA (on_job (select_template_loop env question (map ts_template_id cands) 1 (attempts_allowed env) None None))
                    (\<lambda>choice. finalize_selection_for_job env requirement families stage1 family_ids cands choice))) w0)"

text \<open>
  \<open>persist_best_effort\<close>: the job is saved before the exception goes on; only \<open>JobStoreIOError\<close> of that
  save is swallowed, any other takes the place of the first exception.
\<close>

definition persist_best_effort :: "str \<Rightarrow> exn \<Rightarrow> (select_world, 'a) act" where
  "persist_best_effort tenant_id e w =
     (case store_save tenant_id (sw_job w) (sw_store w) of
        (s, Inl (StoreErr (JobStoreIO op))) \<Rightarrow> (w\<lparr>sw_store := s\<rparr>, Inl e)
      | (s, Inl e') \<Rightarrow> (w\<lparr>sw_store := s\<rparr>, Inl e')
      | (s, Inr job) \<Rightarrow> (w\<lparr>sw_store := s, sw_job := job\<rparr>, Inl e))"

definition existing_selection :: "job \<Rightarrow> str option" where
  "existing_selection job =
     (case j_selected_template_id job of Some t \<Rightarrow> (if blank t then None else Some t) | None \<Rightarrow> None)"

definition llm_select_template ::
  "select_env \<Rightarrow> str \<Rightarrow> str \<Rightarrow> job_store \<times> (str \<times> str \<times> str \<rightharpoonup> jobj)
   \<Rightarrow> (job_store \<times> (str \<times> str \<times> str \<rightharpoonup> jobj)) \<times> (exn + selection_result)" where
  "llm_select_template env tenant_id job_id w =
     (case store_load tenant_id job_id (fst w) of
        Inl e \<Rightarrow> (w, Inl e)
      | Inr job \<Rightarrow>
          (case existing_selection job of
             Some t \<Rightarrow>
               (w, Inr \<lparr>sr_family_ids = [], sr_candidate_ids = [], sr_selected_id = t, sr_supplementary_ids = [],
                       sr_analysis_sequence = [], sr_requires_combination = False, sr_requires_confirmation = False,
                       sr_used_manual_fallback = False, sr_primary_confidence = None\<rparr>)
           | None \<Rightarrow>
               (case select_for_job env \<lparr>sw_job = job, sw_store = fst w, sw_evidence = snd w\<rparr> of
                  (w1, Inl e) \<Rightarrow>
                    (case (if exn_info e = None then (w1, Inl e) else persist_best_effort tenant_id e w1) of
                       (w2, r) \<Rightarrow> ((sw_store w2, sw_evidence w2), r))
                | (w1, Inr r) \<Rightarrow>
                    (case store_save tenant_id (sw_job w1) (sw_store w1) of
                       (s, Inl e) \<Rightarrow> ((s, sw_evidence w1), Inl e)
                     | (s, Inr _) \<Rightarrow> ((s, sw_evidence w1), Inr r)))))"

end
