(* ===== verification/TemplateSelectLaws.thy ===== *)
theory TemplateSelectLaws
  imports TemplateSelect PlanBuild TextLaws
begin

text \<open>
  What a selection by the language model guarantees: the template and the supplementary templates are
  candidates of the chosen families, the stored job carries the choice, and planning reads the same
  templates back from the evidence of the second stage.
\<close>

section \<open>Validation\<close>

lemma validated_families_canonical:
  "validated_family_ids s canonical m = Inr ids \<Longrightarrow> i \<in> set ids \<Longrightarrow> i \<in> set canonical"
  by (auto simp: validated_family_ids_def Let_def find_None_iff split: option.splits)

lemma check_supplementary_ok:
  "check_supplementary cands seen ps = Inr ids \<Longrightarrow>
     distinct ids \<and> set ids \<subseteq> set cands \<and> set ids \<inter> set seen = {} \<and> (\<forall>i\<in>set ids. \<not> blank i \<and> py_strip i = i)"
proof (induction ps arbitrary: seen ids)
  case (Cons p ps)
  let ?i = "py_strip (sp_template_id p)"
  from Cons.prems obtain rest where i: "?i \<noteq> []" "?i \<in> set cands" "?i \<notin> set seen"
    and r: "check_supplementary cands (?i # seen) ps = Inr rest" and ids: "ids = ?i # rest"
    by (auto simp: Let_def bindE_Inr_iff split: if_splits)
  from Cons.IH[OF r] i show ?case by (auto simp: ids blank_def strip_idem)
qed simp

lemma validated_selection_ok:
  assumes "validated_template_selection s cands = Inr (p, ids)"
  shows "distinct (p # ids)" "set (p # ids) \<subseteq> set cands" "\<forall>i\<in>set ids. \<not> blank i \<and> py_strip i = i"
  using assms by (cases s; auto simp: Let_def bindE_Inr_iff dest!: check_supplementary_ok split: if_splits)+

section \<open>The loops\<close>

definition job_key :: "job \<Rightarrow> str \<times> str \<times> int" where
  "job_key job = (j_job_id job, j_tenant_id job, j_version job)"

lemma ask_Inr: "ask env op q job = (job', r) \<Longrightarrow> job_key job' = job_key job"
  by (auto simp: ask_def job_key_def split: prod.splits)

lemma select_families_loop_Inr:
  "select_families_loop env req fams n left pe job = (job', Inr (stage1, ids)) \<Longrightarrow>
     ids \<noteq> [] \<and> set ids \<subseteq> fs_family_id ` set fams \<and> job_key job' = job_key job"
proof (induction left arbitrary: n pe job)
  case (Suc left)
  from Suc.prems obtain job1 answer parsed
    where a: "ask env ''do_template.select_families'' (stage1_prompt env req fams n pe) job = (job1, Inr answer)"
      and c: "(case validated_family_ids parsed (map fs_family_id fams) (xs_stage1_max_families env) of
                 Inl e \<Rightarrow> select_families_loop env req fams (n + 1) left (Some (error_text env e))
               | Inr ids \<Rightarrow> (if ids \<noteq> [] then ret (parsed, ids)
                   else select_families_loop env req fams (n + 1) left (Some ''empty_selection''))) job1
              = (job', Inr (stage1, ids))"
    by (auto simp: bindA_Inr)
  from c Suc.IH[of _ _ job1] ask_Inr[OF a] show ?case
    by (cases "validated_family_ids parsed (map fs_family_id fams) (xs_stage1_max_families env)")
       (auto dest!: validated_families_canonical split: if_splits)
qed simp

lemma select_template_loop_Inr:
  "select_template_loop env q cands n left lp pe job = (job', Inr (s, p, ids)) \<Longrightarrow>
     validated_template_selection s cands = Inr (p, ids) \<and> job_key job' = job_key job"
proof (induction left arbitrary: n lp pe job)
  case (Suc left)
  from Suc.prems obtain job1 answer parsed
    where a: "ask env ''do_template.select_template'' (q n pe) job = (job1, Inr answer)"
      and c: "(case validated_template_selection parsed cands of
                 Inl e \<Rightarrow> select_template_loop env q cands (n + 1) left (Some parsed) (Some (error_text env e))
               | Inr (primary, supplementary) \<Rightarrow> ret (parsed, primary, supplementary)) job1 = (job', Inr (s, p, ids))"
    by (auto simp: bindA_Inr)
  from c Suc.IH[of _ _ _ job1] ask_Inr[OF a] show ?case
    by (cases "validated_template_selection parsed cands") auto
qed simp

section \<open>Candidates\<close>

lemma trim_loop_subset: "set (trim_loop d b u ts) \<subseteq> set ts"
  by (induction d b u ts rule: trim_loop.induct) (auto simp: Let_def)

lemma trim_templates_subset: "set (trim_templates d ts b m) \<subseteq> set ts"
  by (auto simp: trim_templates_def dest!: subsetD[OF trim_loop_subset] in_set_takeD)

lemma build_stage2_candidates_Inr:
  assumes "build_stage2_candidates env fams req = Inr cands"
  shows "cands \<noteq> []" "\<exists>ts. list_templates (xs_library env) fams = Inr ts \<and> set cands \<subseteq> set ts"
proof -
  obtain ts where ts: "list_templates (xs_library env) fams = Inr ts"
    using assms by (auto simp: build_stage2_candidates_def split: sum.splits)
  let ?f = "filter (\<lambda>t. ts_template_id t \<in> set V1_SUPPORTED_TEMPLATE_IDS) ts"
  have c: "cands \<noteq> []" "cands = trim_templates (xs_dumps env) (rank_templates req (if ?f \<noteq> [] then ?f else ts))
            (xs_stage2_token_budget env) (xs_stage2_max_candidates env)"
    using assms by (auto simp: build_stage2_candidates_def ts Let_def split: if_splits)
  show "cands \<noteq> []" by (rule c)
  have "set (rank_templates req (if ?f \<noteq> [] then ?f else ts)) \<subseteq> set ts" by (auto simp: rank_templates_def Let_def)
  then show "\<exists>ts. list_templates (xs_library env) fams = Inr ts \<and> set cands \<subseteq> set ts"
    using ts c(2) trim_templates_subset by (metis subset_trans)
qed

section \<open>The evidence\<close>

lemma write_evidence_artifact_Inr:
  "write_evidence_artifact env k p payload w = (w', Inr u) \<longleftrightarrow>
     xs_artifact_fault env p = None \<and>
     w' = w\<lparr>sw_evidence := (sw_evidence w)((j_tenant_id (sw_job w), j_job_id (sw_job w), p) \<mapsto> payload),
            sw_job := append_artifact_ref k p (sw_job w)\<rparr>"
  by (auto simp: write_evidence_artifact_def split: option.splits)

lemma append_artifact_ref_job [simp]:
  "j_job_id (append_artifact_ref k p job) = j_job_id job"
  "j_tenant_id (append_artifact_ref k p job) = j_tenant_id job"
  "j_version (append_artifact_ref k p job) = j_version job"
  by (auto simp: append_artifact_ref_def)

definition stage2_evidence :: "(str \<times> str \<times> str \<rightharpoonup> jobj) \<Rightarrow> str \<Rightarrow> str \<Rightarrow> jobj option" where
  "stage2_evidence ev t j = ev (t, j, selection_artifact_path ''stage2'')"

lemma finalize_selection_for_job_Inr:
  assumes "finalize_selection_for_job env req fams stage1 ids cands (stage2, p, sups) w = (w', Inr r)"
  shows "finalize_stage2_selection env stage2 p sups cands =
           Inr (sr_selected_id r, sr_supplementary_ids r, primary_confidence stage2, sr_requires_confirmation r, sr_used_manual_fallback r)"
    and "sr_family_ids r = ids" "sr_candidate_ids r = map ts_template_id cands"
    and "j_selected_template_id (sw_job w') = Some (sr_selected_id r)"
    and "job_key (sw_job w') = job_key (sw_job w)" "sw_store w' = sw_store w"
    and "stage2_evidence (sw_evidence w') (j_tenant_id (sw_job w)) (j_job_id (sw_job w)) =
           Some (stage2_evidence_payload env (j_job_id (sw_job w)) req cands stage2 r)"
  using assms unfolding finalize_selection_for_job_def
  by (auto simp: Let_def bindA_Inr write_evidence_artifact_Inr stage2_evidence_def finalize_stage2_selection_def job_key_def
           split: prod.splits if_splits list.splits)

section \<open>The whole selection\<close>

text \<open>What holds between the job at the start, the choice, and the job that is stored.\<close>

definition choice_ok :: "select_env \<Rightarrow> family_summary list \<Rightarrow> selection_result \<Rightarrow> bool" where
  "choice_ok env families r =
     (distinct (sr_selected_id r # sr_supplementary_ids r) \<and>
      set (sr_selected_id r # sr_supplementary_ids r) \<subseteq> set (sr_candidate_ids r) \<and>
      sr_family_ids r \<noteq> [] \<and> set (sr_family_ids r) \<subseteq> fs_family_id ` set families \<and>
      (case list_templates (xs_library env) (sr_family_ids r) of
         Inl _ \<Rightarrow> False | Inr ts \<Rightarrow> set (sr_candidate_ids r) \<subseteq> ts_template_id ` set ts))"

lemma v1_families_subset: "set (v1_families_for_prompt fams) \<subseteq> set fams"
  by (auto simp: v1_families_for_prompt_def Let_def)

lemma finalize_stage2_ok:
  assumes "finalize_stage2_selection env s p sups cands = Inr (sel, sups', c, conf, man)"
    and "validated_template_selection s (map ts_template_id cands) = Inr (p, sups)"
  shows "distinct (sel # sups') \<and> set (sel # sups') \<subseteq> set (map ts_template_id cands) \<and> (\<forall>i\<in>set sups'. \<not> blank i)"
  using assms(1) validated_selection_ok[OF assms(2)]
  by (auto simp: finalize_stage2_selection_def Let_def split: if_splits list.splits)

lemma on_job_Inr: "on_job m w = (w', Inr x) \<longleftrightarrow> (\<exists>job. m (sw_job w) = (job, Inr x) \<and> w' = w\<lparr>sw_job := job\<rparr>)"
  by (auto simp: on_job_def split: prod.splits)

lemma select_for_job_Inr:
  assumes "select_for_job env w = (w', Inr r)"
  obtains families stage1 stage2 cands req where
    "list_families (xs_library env) = Inr families"
    "choice_ok env families r" "\<forall>i\<in>set (sr_supplementary_ids r). \<not> blank i"
    "j_selected_template_id (sw_job w') = Some (sr_selected_id r)"
    "job_key (sw_job w') = job_key (sw_job w)" "sw_store w' = sw_store w"
    "stage2_evidence (sw_evidence w') (j_tenant_id (sw_job w)) (j_job_id (sw_job w)) =
       Some (stage2_evidence_payload env (j_job_id (sw_job w)) req cands stage2 r)"
proof -
  define req where "req = (case j_requirement (sw_job w) of None \<Rightarrow> [] | Some r \<Rightarrow> r)"
  obtain families where f: "list_families (xs_library env) = Inr families"
    using assms by (auto simp: select_for_job_def Let_def split: sum.splits)
  have run: "bindA (on_job (select_families_loop env req (v1_families_for_prompt families) 1 (attempts_allowed env) None))
        (\<lambda>(stage1, family_ids).
      bindA (liftE (build_stage2_candidates env family_ids req)) (\<lambda>cands.
        let (sequence, combination, reason) = stage1_context stage1;
            question = stage2_prompt env req family_ids sequence combination reason cands
        in bindA (on_job (select_template_loop env question (map ts_template_id cands) 1 (attempts_allowed env) None None))
             (\<lambda>choice. finalize_selection_for_job env req families stage1 family_ids cands choice))) w = (w', Inr r)"
    using assms f by (cases families) (simp_all add: select_for_job_def req_def Let_def)
  obtain job1 stage1 ids where l1:
      "select_families_loop env req (v1_families_for_prompt families) 1 (attempts_allowed env) None (sw_job w) = (job1, Inr (stage1, ids))"
    and rest: "bindA (liftE (build_stage2_candidates env ids req)) (\<lambda>cands.
         let (sequence, combination, reason) = stage1_context stage1;
             question = stage2_prompt env req ids sequence combination reason cands
         in bindA (on_job (select_template_loop env question (map ts_template_id cands) 1 (attempts_allowed env) None None))
              (\<lambda>choice. finalize_selection_for_job env req families stage1 ids cands choice)) (w\<lparr>sw_job := job1\<rparr>) = (w', Inr r)"
    using iffD1[OF bindA_Inr run] unfolding on_job_Inr by auto
  obtain sequence combination reason where ctx: "stage1_context stage1 = (sequence, combination, reason)"
    by (cases "stage1_context stage1") auto
  obtain cands job2 stage2 p sups where c: "build_stage2_candidates env ids req = Inr cands"
    and l2: "select_template_loop env (stage2_prompt env req ids sequence combination reason cands) (map ts_template_id cands) 1
               (attempts_allowed env) None None job1 = (job2, Inr (stage2, p, sups))"
    and fin: "finalize_selection_for_job env req families stage1 ids cands (stage2, p, sups) (w\<lparr>sw_job := job2\<rparr>) = (w', Inr r)"
    using rest by (auto simp: bindA_Inr on_job_Inr ctx Let_def)
  note l1 = select_families_loop_Inr[OF l1] and l2 = select_template_loop_Inr[OF l2]
    and fin = finalize_selection_for_job_Inr[OF fin]
  note ok = finalize_stage2_ok[OF fin(1) conjunct1[OF l2]]
  have "choice_ok env families r"
  proof -
    obtain ts where ts: "list_templates (xs_library env) ids = Inr ts" "set cands \<subseteq> set ts"
      using build_stage2_candidates_Inr(2)[OF c] by blast
    have "set ids \<subseteq> fs_family_id ` set families" using l1 v1_families_subset[of families] by blast
    moreover have "ts_template_id ` set cands \<subseteq> ts_template_id ` set ts" using ts(2) by blast
    ultimately show ?thesis using ok l1 by (simp add: choice_ok_def fin(2,3) ts(1))
  qed
  moreover have "\<forall>i\<in>set (sr_supplementary_ids r). \<not> blank i" using ok by simp
  moreover have "job_key (sw_job w') = job_key (sw_job w)" using fin(5) l1 l2 by simp
  moreover have "job_key job2 = job_key (sw_job w)" using l1 l2 by simp
  then have "stage2_evidence (sw_evidence w') (j_tenant_id (sw_job w)) (j_job_id (sw_job w)) =
       Some (stage2_evidence_payload env (j_job_id (sw_job w)) req cands stage2 r)"
    using fin(7) by (simp add: job_key_def)
  moreover have "sw_store w' = sw_store w" using fin(6) by simp
  ultimately show thesis using that[OF f] fin(4) by blast
qed

lemma llm_select_template_Inr:
  assumes "llm_select_template env t j (s, ev) = ((s', ev'), Inr r)"
    and "store_load t j s = Inr job" and "existing_selection job = None"
  obtains families stage2 cands req job' where
    "list_families (xs_library env) = Inr families"
    "choice_ok env families r" "\<forall>i\<in>set (sr_supplementary_ids r). \<not> blank i"
    "s' (t, j_job_id job) = Some (JobFile job')" "j_version job' = j_version job + 1"
    "j_selected_template_id job' = Some (sr_selected_id r)" "job_key job' = (j_job_id job, j_tenant_id job, j_version job + 1)"
    "stage2_evidence ev' (j_tenant_id job) (j_job_id job) =
       Some (stage2_evidence_payload env (j_job_id job) req cands stage2 r)"
proof -
  have run: "(case select_for_job env \<lparr>sw_job = job, sw_store = s, sw_evidence = ev\<rparr> of
        (w1, Inl e) \<Rightarrow> (case (if exn_info e = None then (w1, Inl e) else persist_best_effort t e w1) of
                        (w2, r) \<Rightarrow> ((sw_store w2, sw_evidence w2), r))
      | (w1, Inr r) \<Rightarrow> (case store_save t (sw_job w1) (sw_store w1) of
                         (s, Inl e) \<Rightarrow> ((s, sw_evidence w1), Inl e)
                       | (s, Inr _) \<Rightarrow> ((s, sw_evidence w1), Inr r))) = ((s', ev'), Inr r)"
    using assms by (simp add: llm_select_template_def)
  then obtain w1 job' where sel: "select_for_job env \<lparr>sw_job = job, sw_store = s, sw_evidence = ev\<rparr> = (w1, Inr r)"
    and save: "store_save t (sw_job w1) (sw_store w1) = (s', Inr job')" "ev' = sw_evidence w1"
    by (auto simp: persist_best_effort_def split: prod.splits sum.splits if_splits exn.splits store_error.splits)
  show thesis
    by (rule select_for_job_Inr[OF sel], rule that[where job' = job'])
       (use save in \<open>auto simp: store_save_Inr job_key_def\<close>)
qed

lemma fold_selected:
  "distinct (acc @ ids) \<Longrightarrow> \<forall>i\<in>set ids. \<not> blank i \<Longrightarrow>
     fold (\<lambda>i selected. case nonblank_str (Some i) of
             Some t \<Rightarrow> (if t \<in> set selected then selected else selected @ [t]) | None \<Rightarrow> selected) (map JStr ids) acc = acc @ ids"
  by (induction ids arbitrary: acc) (auto simp: nonblank_str_def)

section \<open>The guarantees\<close>

text \<open>C15 (safety) Whatever the language model answers, a template is selected only from the candidates that
  the catalogue lists for known families the model picked; the supplementary templates are further, distinct
  candidates, and the job is stored with the selected template, its version one higher.\<close>

theorem selected_template_is_candidate:
  assumes "llm_select_template env t j (s, ev) = ((s', ev'), Inr r)"
    and "store_load t j s = Inr job" and "existing_selection job = None"
  shows "\<exists>families job'. list_families (xs_library env) = Inr families \<and> choice_ok env families r \<and>
           s' (t, j_job_id job) = Some (JobFile job') \<and> j_version job' = j_version job + 1 \<and>
           j_selected_template_id job' = Some (sr_selected_id r)"
  by (rule llm_select_template_Inr[OF assms]) blast

text \<open>A library of three templates in two families, and a model that names one family, then a template of it
  with a supplementary one.\<close>

definition select_library :: template_library where
  "select_library =
     \<lparr>tl_index = LibraryDoc (JObj
        [(''families'', JObj [(''panel'', JObj [(''tasks'', JList [JStr ''T30''])]),
                             (''describe'', JObj [(''tasks'', JList [JStr ''T01'', JStr ''T07''])])]),
         (''tasks'', JObj [(''T07'', JObj [(''family'', JStr ''describe''), (''name'', JStr ''summary table'')]),
                          (''T30'', JObj [(''family'', JStr ''panel'')]),
                          (''T01'', JObj [(''family'', JStr ''describe'')])])]),
      tl_do_files = (\<lambda>_. None), tl_meta_files = (\<lambda>_. NoDoc)\<rparr>"

definition select_answer :: "str \<Rightarrow> str + json" where
  "select_answer raw =
     Inr (JObj (if raw = ''{families}''
                then [(''families'', JList [JObj [(''family_id'', JStr ''describe''), (''reason'', JStr []), (''confidence'', JInt 1)]])]
                else [(''schema_version'', JInt 2), (''primary_template_id'', JStr '' T07''), (''primary_reason'', JStr []),
                      (''primary_confidence'', JInt 1),
                      (''supplementary_templates'', JList [JObj [(''template_id'', JStr ''T01''), (''purpose'', JStr []),
                         (''sequence_order'', JInt 1), (''confidence'', JInt 1)]])]))"

definition sample_select :: select_env where
  "sample_select =
     \<lparr>xs_library = select_library,
      xs_llm = (\<lambda>_ op _. ([], Inr (if op = ''do_template.select_families'' then ''text {families}'' else ''{template}''))),
      xs_loads = select_answer, xs_dumps = (\<lambda>_. []), xs_sha256 = id,
      xs_float = (\<lambda>v. map_option rat_of_int (as_int v)), xs_int = as_int, xs_bool = (\<lambda>_. None), xs_verror = (\<lambda>_. []),
      xs_message = (\<lambda>_. []), xs_artifact_fault = (\<lambda>_. None), xs_stage1_max_families = 3,
      xs_stage2_max_candidates = 30, xs_stage2_token_budget = 2000, xs_confirmation_threshold = 3 / 5,
      xs_manual_fallback_threshold = 3 / 10, xs_max_attempts = 2\<rparr>"

definition select_start :: job_store where
  "select_start = [(''acme'', ''job_1'') \<mapsto> JobFile (new_job ''acme'' ''job_1'' 0)]"

lemma sample_selection:
  obtains s ev r where "llm_select_template sample_select ''acme'' ''job_1'' (select_start, Map.empty) = ((s, ev), Inr r)"
    and "sr_selected_id r = ''T07''" and "sr_supplementary_ids r = [''T01'']"
proof -
  have "case llm_select_template sample_select ''acme'' ''job_1'' (select_start, Map.empty) of
          (_, Inr r) \<Rightarrow> sr_selected_id r = ''T07'' \<and> sr_supplementary_ids r = [''T01''] | _ \<Rightarrow> False" by code_simp
  then show ?thesis using that by (auto split: prod.splits sum.splits)
qed

lemma select_start_job:
  "store_load ''acme'' ''job_1'' select_start = Inr (new_job ''acme'' ''job_1'' 0)"
  "existing_selection (new_job ''acme'' ''job_1'' 0) = None"
proof -
  have "check_job_ids ''acme'' ''job_1'' = Inr ()" by code_simp
  then show "store_load ''acme'' ''job_1'' select_start = Inr (new_job ''acme'' ''job_1'' 0)"
    by (simp add: store_load_JobFile select_start_def)
qed (simp add: existing_selection_def new_job_def)

theorem selected_template_is_candidate_witness:
  "\<exists>s ev r job'. llm_select_template sample_select ''acme'' ''job_1'' (select_start, Map.empty) = ((s, ev), Inr r) \<and>
     s (''acme'', ''job_1'') = Some (JobFile job') \<and> j_selected_template_id job' = Some ''T07''"
proof (rule sample_selection)
  fix s ev r
  assume r: "llm_select_template sample_select ''acme'' ''job_1'' (select_start, Map.empty) = ((s, ev), Inr r)" "sr_selected_id r = ''T07''"
  from selected_template_is_candidate[OF r(1) select_start_job] r show ?thesis
    by (auto simp: new_job_def)
qed

text \<open>Planning reads the selection back: after a selection has succeeded, plan generation for
  this job, reading the evidence files that were written, offers the model exactly the selected template
  followed by the supplementary ones, in their order.\<close>

theorem planning_reads_selection:
  assumes "llm_select_template env t j (s, ev) = ((s', ev'), Inr r)"
    and "store_load t j s = Inr job" and "existing_selection job = None" and "j_tenant_id job = t"
    and "s' (t, j_job_id job) = Some (JobFile job')"
    and "\<And>k p. be_read benv t k p = (case ev' (t, k, p) of Some d \<Rightarrow> ReadJson (JObj d) | None \<Rightarrow> ReadFails)"
  shows "selected_templates_for_plan_generation benv t job' (sr_selected_id r) =
           Inr (sr_selected_id r # sr_supplementary_ids r)"
proof -
  obtain families stage2 cands req job'' where
      c: "choice_ok env families r" "\<forall>i\<in>set (sr_supplementary_ids r). \<not> blank i"
    and "s' (t, j_job_id job) = Some (JobFile job'')" "job_key job'' = (j_job_id job, j_tenant_id job, j_version job + 1)"
    and e: "stage2_evidence ev' (j_tenant_id job) (j_job_id job) =
              Some (stage2_evidence_payload env (j_job_id job) req cands stage2 r)"
    by (rule llm_select_template_Inr[OF assms(1-3)])
  with assms(5) have "j_job_id job' = j_job_id job" by (simp add: job_key_def)
  with e have "be_read benv t (j_job_id job') ''artifacts/do_template/selection/stage2.json'' =
                 ReadJson (JObj (stage2_evidence_payload env (j_job_id job) req cands stage2 r))"
    by (simp add: assms(4,6) stage2_evidence_def selection_artifact_path_def)
  then show ?thesis
    using c fold_selected[of "[sr_selected_id r]" "sr_supplementary_ids r"]
    by (simp add: selected_templates_for_plan_generation_def stage2_evidence_payload_def choice_ok_def)
qed

section \<open>Observations\<close>

text \<open>The question demands \<open>sequence_order\<close> from 1 on and unique, but no check reads it and the order of the
  answer is kept: an answer that repeats an order, or lists them backwards, is taken as it is written.\<close>

definition supplementary_at :: "str \<Rightarrow> int \<Rightarrow> supplementary_pick" where
  "supplementary_at template_id order =
     \<lparr>sp_template_id = template_id, sp_purpose = [], sp_sequence_order = order, sp_confidence = 1\<rparr>"

lemma sequence_order_ignored:
  "validated_template_selection (TemplateV2 ''T07'' [] 1 [supplementary_at ''T30'' 2, supplementary_at ''T01'' m]) [''T01'', ''T07'', ''T30'']
     = Inr (''T07'', [''T30'', ''T01''])"
proof -
  have "py_strip ''T07'' = ''T07''" "py_strip ''T30'' = ''T30''" "py_strip ''T01'' = ''T01''" by code_simp+
  then show ?thesis by (simp add: supplementary_at_def)
qed

text \<open>When a supplementary template is unknown in every attempt, the error names the primary template, which
  is a candidate.\<close>

lemma wrong_template_blamed:
  assumes "\<And>a e. parse_stage2 env a = Inr (TemplateV2 ''T07'' [] 1 [supplementary_at ''T99'' 1])"
    and "\<And>job op q. snd (xs_llm env job op q) = Inr answer"
  shows "\<exists>job'. select_template_loop env question [''T07''] n (Suc left) lp pe job =
           (job', Inl (DraftErr (SelectionInvalidTemplate ''T07'')))"
proof -
  let ?bad = "TemplateV2 ''T07'' [] 1 [supplementary_at ''T99'' 1]"
  have "py_strip ''T07'' = ''T07''" "py_strip ''T99'' = ''T99''" by code_simp+
  then obtain e where e: "validated_template_selection ?bad [''T07''] = Inl e"
    by (simp add: supplementary_at_def)
  have step: "\<exists>job1. select_template_loop env question [''T07''] n (Suc left) lp pe job =
                 select_template_loop env question [''T07''] (n + 1) left (Some ?bad) (Some (error_text env e)) job1"
    for n left lp pe job
  proof -
    obtain job1 where "ask env ''do_template.select_template'' (question n pe) job = (job1, Inr answer)"
      using assms(2)[of job "''do_template.select_template''" "question n pe"]
      by (cases "xs_llm env job ''do_template.select_template'' (question n pe)") (simp add: ask_def)
    with e show ?thesis by (auto simp: bindA_def liftE_def assms(1) simp del: validated_template_selection.simps)
  qed
  show ?thesis
  proof (induction left arbitrary: n lp pe job)
    case 0
    show ?case using step[of n 0 lp pe job] by (auto simp: raise_exn_def simp del: select_template_loop.simps(2))
  next
    case (Suc left)
    show ?case using step[of n "Suc left" lp pe job] Suc.IH by (metis (no_types))
  qed
qed

end
