(* ===== verification/TemplateRun.thy ===== *)
theory TemplateRun
  imports PlanRunLaws
begin

text \<open>
  Running one do-template for a job directly, without worker and queue: \<open>DoTemplateRunService\<close> of
  domain/do_template_run_service.py with \<open>ensure_job_status\<close> of domain/do_template_run_support.py. The
  evidence files are those of \<open>PlanRun\<close>.

  The state is the job store and the content of the job's directory. The environment of the run holds its
  identifiers and the OS faults of file writes and copies; creating the two directories of the run does not
  fail in the model. Logging is left out.
\<close>

section \<open>The service\<close>

record template_run_env =
  tr_exec :: exec_env
  tr_library :: template_library
  tr_runner :: "str \<Rightarrow> str \<Rightarrow> int option \<Rightarrow> files \<Rightarrow> files \<times> run_result"
  tr_started :: int
  tr_ended :: int

record run_world =
  rw_store :: job_store
  rw_files :: files

abbreviation tr_run_id :: "template_run_env \<Rightarrow> str" where
  "tr_run_id env \<equiv> xe_run_id (tr_exec env)"

text \<open>The values of \<open>JobStatus\<close>.\<close>

fun job_status_value :: "job_status \<Rightarrow> str" where
  "job_status_value CREATED = ''created''"
| "job_status_value DRAFT_READY = ''draft_ready''"
| "job_status_value CONFIRMED = ''confirmed''"
| "job_status_value QUEUED = ''queued''"
| "job_status_value RUNNING = ''running''"
| "job_status_value SUCCEEDED = ''succeeded''"
| "job_status_value FAILED = ''failed''"

text \<open>\<open>ensure_job_status\<close>: the transition is checked, and taken unless the job is there already.\<close>

definition ensure_job_status :: "job_status \<Rightarrow> job \<Rightarrow> exn + job" where
  "ensure_job_status status job =
     (case ensure_transition (j_status job) status of
        Inl e \<Rightarrow> Inl (PlanErr e)
      | Inr changed \<Rightarrow> Inr (if changed then job\<lparr>j_status := status\<rparr> else job))"

definition save_job :: "str \<Rightarrow> job \<Rightarrow> (run_world, job) act" where
  "save_job tenant_id job w =
     (case store_save tenant_id job (rw_store w) of (s, r) \<Rightarrow> (w\<lparr>rw_store := s\<rparr>, r))"

definition load_job :: "str \<Rightarrow> str \<Rightarrow> (run_world, job) act" where
  "load_job tenant_id job_id w = (w, store_load tenant_id job_id (rw_store w))"

definition on_files :: "(files, 'a) act \<Rightarrow> (run_world, 'a) act" where
  "on_files m w = (case m (rw_files w) of (fs, r) \<Rightarrow> (w\<lparr>rw_files := fs\<rparr>, r))"

definition step_status :: "job_status \<Rightarrow> job_status \<Rightarrow> job \<Rightarrow> exn + job" where
  "step_status from_status to_status job =
     (if j_status job = from_status then ensure_job_status to_status job else Inr job)"

definition ensure_queued :: "job \<Rightarrow> (run_world, job) act" where
  "ensure_queued job =
     bindA (liftE (step_status CREATED DRAFT_READY job)) (\<lambda>job.
     bindA (liftE (step_status DRAFT_READY CONFIRMED job)) (\<lambda>job.
     bindA (liftE (step_status CONFIRMED QUEUED job)) (\<lambda>job.
       if j_status job \<noteq> QUEUED
       then raise_exn (TplErr (DoTemplateContractInvalid (''job_status_not_runnable:'' @ job_status_value (j_status job))))
       else save_job (j_tenant_id job) job)))"

definition init_run :: "template_run_env \<Rightarrow> str \<Rightarrow> str \<Rightarrow> (run_world, unit) act" where
  "init_run env tenant_id job_id =
     bindA (load_job tenant_id job_id) (\<lambda>job.
     bindA (ensure_queued job) (\<lambda>job.
       if \<not> run_dirs_ok (tr_exec env) (tr_run_id env)
       then raise_exn (TplErr (DoTemplateContractInvalid ''run_dirs_invalid''))
       else bindA (liftE (ensure_job_status RUNNING job)) (\<lambda>job.
            bindA (save_job tenant_id (job\<lparr>j_runs := j_runs job @
              [\<lparr>ra_run_id = tr_run_id env, ra_attempt = 1, ra_status = job_status_value RUNNING,
                ra_started_at = Some (tr_started env), ra_ended_at = None, ra_artifacts = []\<rparr>]\<rparr>)) (\<lambda>_.
              ret ()))))"

text \<open>The last attempt with the run id, if there is one, is brought up to date.\<close>

fun update_last_run :: "str \<Rightarrow> (run_attempt \<Rightarrow> run_attempt) \<Rightarrow> run_attempt list \<Rightarrow> run_attempt list" where
  "update_last_run run_id f [] = []"
| "update_last_run run_id f (a # newer) =
     (if run_id \<in> ra_run_id ` set newer \<or> ra_run_id a \<noteq> run_id then a # update_last_run run_id f newer
      else f a # newer)"

definition finish_attempt :: "template_run_env \<Rightarrow> bool \<Rightarrow> artifact_ref list \<Rightarrow> run_attempt \<Rightarrow> run_attempt" where
  "finish_attempt env ok artifacts a =
     a\<lparr>ra_status := job_status_value (if ok then SUCCEEDED else FAILED), ra_ended_at := Some (tr_ended env),
       ra_artifacts := foldl append_artifact_if_missing (ra_artifacts a) artifacts\<rparr>"

definition finalize_job ::
  "template_run_env \<Rightarrow> str \<Rightarrow> str \<Rightarrow> artifact_ref list \<Rightarrow> bool \<Rightarrow> (run_world, unit) act" where
  "finalize_job env tenant_id job_id artifacts ok =
     bindA (load_job tenant_id job_id) (\<lambda>job.
     bindA (liftE (ensure_job_status (if ok then SUCCEEDED else FAILED) job)) (\<lambda>job.
     bindA (save_job tenant_id
             (job\<lparr>j_runs := update_last_run (tr_run_id env) (finish_attempt env ok artifacts) (j_runs job),
                  j_artifacts_index := foldl append_artifact_if_missing (j_artifacts_index job) artifacts\<rparr>)) (\<lambda>_.
       ret ())))"

definition load_and_render_template ::
  "template_library \<Rightarrow> str \<Rightarrow> (str, str) dict \<Rightarrow> template_error + do_template \<times> str \<times> (str, str) dict" where
  "load_and_render_template lib template_id params =
     bindE (get_template lib template_id) (\<lambda>tpl.
     bindE (render_do_text (dt_do_text tpl) (template_param_specs (dt_meta tpl)) params) (\<lambda>(rendered, resolved).
       Inr (tpl, rendered, resolved)))"

definition archive_and_write_meta ::
  "exec_env \<Rightarrow> str \<Rightarrow> (str, str) dict \<Rightarrow> jobj \<Rightarrow> (files, artifact_ref \<times> artifact_ref list) act" where
  "archive_and_write_meta env template_id params meta =
     bindA (archive_outputs env meta) (\<lambda>(output_refs, missing).
     bindA (write_run_meta env template_id params output_refs missing) (\<lambda>run_meta_ref.
       ret (run_meta_ref, output_refs)))"

definition run_and_archive ::
  "template_run_env \<Rightarrow> str \<Rightarrow> (str, str) dict \<Rightarrow> int option \<Rightarrow> (files, run_result) act" where
  "run_and_archive env template_id params timeout =
     bindA (liftE (map_sum TplErr id (load_and_render_template (tr_library env) template_id params)))
       (\<lambda>(tpl, rendered, resolved).
     bindA (write_template_evidence (tr_exec env) (dt_do_text tpl) (dt_meta tpl) resolved) (\<lambda>template_refs.
     bindA (total (tr_runner env (tr_run_id env) rendered timeout)) (\<lambda>result.
     bindA (archive_and_write_meta (tr_exec env) template_id resolved (dt_meta tpl)) (\<lambda>(run_meta_ref, output_refs).
       ret (result\<lparr>rs_artifacts := template_refs @ [run_meta_ref] @ output_refs @ rs_artifacts result\<rparr>)))))"

definition template_run_attempt ::
  "template_run_env \<Rightarrow> str \<Rightarrow> str \<Rightarrow> str \<Rightarrow> (str, str) dict \<Rightarrow> int option \<Rightarrow> (run_world, run_result) act" where
  "template_run_attempt env tenant_id job_id template_id params timeout =
     bindA (on_files (run_and_archive env template_id params timeout)) (\<lambda>result.
     bindA (finalize_job env tenant_id job_id (rs_artifacts result) (rs_ok result)) (\<lambda>_. ret result))"

text \<open>\<open>run\<close>: \<open>SSError\<close> of the attempt marks the job as failed and goes on, unless that raises in its turn.\<close>

definition run_template ::
  "template_run_env \<Rightarrow> str \<Rightarrow> str \<Rightarrow> str \<Rightarrow> (str, str) dict \<Rightarrow> int option \<Rightarrow> (run_world, run_result) act" where
  "run_template env tenant_id job_id template_id params timeout =
     bindA (init_run env tenant_id job_id) (\<lambda>_ w.
       case template_run_attempt env tenant_id job_id template_id params timeout w of
         (w1, Inr r) \<Rightarrow> (w1, Inr r)
       | (w1, Inl e) \<Rightarrow>
           (if \<not> is_ss_error e then (w1, Inl e)
            else bindA (finalize_job env tenant_id job_id [] False) (\<lambda>_. raise_exn e) w1))"

end
