(* ===== verification/TemplateRunLaws.thy ===== *)
theory TemplateRunLaws
  imports TemplateRun CompositionRunLaws
begin

text \<open>
  How a direct run of a template leaves its job: as succeeded or failed when it returns or raises a service
  error, with every artifact indexed and on disk, and running for ever when a copy meets an OS fault.
\<close>

section \<open>The stored job\<close>

definition held :: "str \<Rightarrow> str \<Rightarrow> job \<Rightarrow> run_world \<Rightarrow> bool" where
  "held t j job w =
     (rw_store w (t, j) = Some (JobFile job) \<and> check_job_ids t j = Inr () \<and> j_job_id job = j \<and> j_tenant_id job = t \<and>
      j_schema_version job = JOB_SCHEMA_VERSION_CURRENT)"

lemma load_held: "held t j job w \<Longrightarrow> load_job t j w = (w, Inr job)"
  by (simp add: load_job_def held_def store_load_JobFile)

lemma save_held:
  assumes "held t j disk w" "j_job_id job = j" "j_tenant_id job = t"
    and "j_schema_version job = JOB_SCHEMA_VERSION_CURRENT" "j_version job = j_version disk"
  obtains w' where "save_job t job w = (w', Inr (job\<lparr>j_version := j_version job + 1\<rparr>))"
    "held t j (job\<lparr>j_version := j_version job + 1\<rparr>) w'" "rw_files w' = rw_files w"
proof -
  let ?job = "job\<lparr>j_version := j_version job + 1\<rparr>"
  have "store_save t job (rw_store w) = ((rw_store w)((t, j) \<mapsto> JobFile ?job), Inr ?job)"
    using assms by (auto simp: store_save_Inr held_def)
  then have "save_job t job w = (w\<lparr>rw_store := (rw_store w)((t, j) \<mapsto> JobFile ?job)\<rparr>, Inr ?job)"
    by (simp add: save_job_def)
  then show thesis by (rule that) (use assms in \<open>simp_all add: held_def\<close>)
qed

lemma on_files_held: "on_files m w = (w', r) \<Longrightarrow> held t j job w' = held t j job w"
  by (auto simp: on_files_def held_def split: prod.splits)

section \<open>Starting and finishing\<close>

lemma ensure_status_step:
  "s' \<in> allowed_transitions (j_status job) \<Longrightarrow> j_status job \<noteq> s' \<Longrightarrow> ensure_job_status s' job = Inr (job\<lparr>j_status := s'\<rparr>)"
  by (simp add: ensure_job_status_def ensure_transition_def can_transition_def)

lemma status_same: "j_status job = s \<Longrightarrow> job\<lparr>j_status := s\<rparr> = job"
  by (cases job) simp

lemma queued_by_steps:
  assumes "j_status job \<in> {CREATED, DRAFT_READY, CONFIRMED, QUEUED}"
  shows "ensure_queued job w = save_job (j_tenant_id job) (job\<lparr>j_status := QUEUED\<rparr>) w"
  using assms
  by (auto simp: ensure_queued_def step_status_def ensure_status_step bindA_def liftE_def status_same)

lemma init_run_held:
  assumes h: "held t j job w" and st: "j_status job \<in> {CREATED, DRAFT_READY, CONFIRMED, QUEUED}"
    and dirs: "run_dirs_ok (tr_exec env) (tr_run_id env)"
  obtains w' job' where "init_run env t j w = (w', Inr ())" "held t j job' w'" "j_status job' = RUNNING"
    "rw_files w' = rw_files w"
proof -
  let ?q = "job\<lparr>j_status := QUEUED\<rparr>"
  have k: "j_job_id job = j" "j_tenant_id job = t" "j_schema_version job = JOB_SCHEMA_VERSION_CURRENT"
    using h by (simp_all add: held_def)
  obtain w1 where q: "save_job t ?q w = (w1, Inr (?q\<lparr>j_version := j_version ?q + 1\<rparr>))"
    "held t j (?q\<lparr>j_version := j_version ?q + 1\<rparr>) w1" "rw_files w1 = rw_files w"
    using save_held[OF h, of ?q] k by auto
  let ?r = "?q\<lparr>j_version := j_version job + 1, j_status := RUNNING, j_runs := j_runs job @
              [\<lparr>ra_run_id = tr_run_id env, ra_attempt = 1, ra_status = job_status_value RUNNING,
                ra_started_at = Some (tr_started env), ra_ended_at = None, ra_artifacts = []\<rparr>]\<rparr>"
  obtain w2 where r: "save_job t ?r w1 = (w2, Inr (?r\<lparr>j_version := j_version ?r + 1\<rparr>))"
    "held t j (?r\<lparr>j_version := j_version ?r + 1\<rparr>) w2" "rw_files w2 = rw_files w1"
    using save_held[OF q(2), of ?r] k by auto
  have "init_run env t j w = (w2, Inr ())"
    using load_held[OF h] q(1) r(1) dirs k st
    by (simp add: init_run_def bindA_def queued_by_steps ensure_status_step liftE_def)
  then show thesis by (rule that[OF _ r(2)]) (use q(3) r(3) in simp_all)
qed

lemma set_append_if_missing: "set (foldl append_artifact_if_missing rs as) = set rs \<union> set as"
  by (induction as arbitrary: rs) (auto simp: append_artifact_if_missing_def)

lemma finalize_job_held:
  assumes h: "held t j job w" and st: "j_status job = RUNNING"
  obtains w' job' where "finalize_job env t j as ok w = (w', Inr ())" "held t j job' w'"
    "j_status job' = (if ok then SUCCEEDED else FAILED)" "set as \<subseteq> set (j_artifacts_index job')"
proof -
  let ?s = "if ok then SUCCEEDED else FAILED"
  let ?f = "job\<lparr>j_status := ?s, j_runs := update_last_run (tr_run_id env) (finish_attempt env ok as) (j_runs job),
               j_artifacts_index := foldl append_artifact_if_missing (j_artifacts_index job) as\<rparr>"
  obtain w1 where f: "save_job t ?f w = (w1, Inr (?f\<lparr>j_version := j_version ?f + 1\<rparr>))"
    "held t j (?f\<lparr>j_version := j_version ?f + 1\<rparr>) w1"
    using save_held[OF h, of ?f] h by (auto simp: held_def)
  have "finalize_job env t j as ok w = (w1, Inr ())"
    using load_held[OF h] f(1) st by (simp add: finalize_job_def bindA_def ensure_status_step liftE_def)
  then show thesis by (rule that[OF _ f(2)]) (simp_all add: set_append_if_missing)
qed


section \<open>Artifacts\<close>

definition sound_template_runner :: "template_run_env \<Rightarrow> bool" where
  "sound_template_runner env = (\<forall>run_id do_file timeout fs. sound_result fs (tr_runner env run_id do_file timeout fs))"

lemma makes_total_runner:
  "sound_template_runner env \<Longrightarrow> makes R (total (tr_runner env run_id do_file timeout)) (\<lambda>r. refs_of (rs_artifacts r))"
  unfolding total_def by (rule makes_runner) (simp add: sound_template_runner_def)

lemma makes_archive_and_meta:
  "makes R (archive_and_write_meta env tid params meta) (\<lambda>(a, refs). ar_rel_path a # refs_of refs)"
proof -
  have m: "makes R' (write_run_meta env tid params refs missing) (\<lambda>a. [ar_rel_path a])" for R' refs missing
    unfolding write_run_meta_def Let_def by (rule makes_bind[OF makes_write_artifact]) (simp add: makes_ret run_ref_def)
  show ?thesis
    unfolding archive_and_write_meta_def
    by (rule makes_bind[OF makes_archive], simp only: split_def, rule makes_bind[OF m])
       (auto intro: makes_ret simp: archived_refs_def)
qed

text \<open>Every artifact of the result is a file of the job's directory, given that of the runner.\<close>

lemma template_run_artifacts_exist:
  assumes "sound_template_runner env" "run_and_archive env template_id params timeout fs = (fs', Inr r)"
    and "a \<in> set (rs_artifacts r)"
  shows "has_file fs' (ar_rel_path a)"
proof -
  have "makes [] (run_and_archive env template_id params timeout) (\<lambda>r. refs_of (rs_artifacts r))"
    unfolding run_and_archive_def
    by (rule makes_bind[OF makes_lift], simp only: split_def, rule makes_bind[OF makes_evidence],
        rule makes_bind[OF makes_total_runner[OF assms(1)]], rule makes_bind[OF makes_archive_and_meta])
       (auto intro: makes_ret simp: refs_of_def)
  with assms(2,3) show ?thesis by (auto simp: makes_def refs_of_def)
qed

section \<open>Concrete runs\<close>

text \<open>A library of one template that promises a table, and a runner that writes it.\<close>

definition table_library :: template_library where
  "table_library =
     \<lparr>tl_index = LibraryDoc (JObj [(''tasks'', JObj [(''T01'', JObj [(''do_file'', JStr ''T01.do'')])])]),
      tl_do_files = (\<lambda>_. Some ''summarize''),
      tl_meta_files = (\<lambda>_. LibraryDoc (JObj [(''outputs'', JList [JObj [(''file'', JStr ''table.csv''), (''type'', JStr ''table'')]])]))\<rparr>"

definition table_run :: "str \<Rightarrow> bool \<Rightarrow> template_run_env" where
  "table_run run_id copy_fails =
     \<lparr>tr_exec = (sample_exec_env [])\<lparr>xe_job := new_job ''acme'' ''job_1'' 0, xe_run_id := run_id, xe_copy_fails := \<lambda>_. copy_fails\<rparr>,
      tr_library = table_library,
      tr_runner = (\<lambda>run_id _ _ fs. (dict_set fs (work_dir run_id @ [''table.csv'']) (TextFile ''n''),
                     \<lparr>rs_ok = True, rs_exit_code = Some 0, rs_timed_out = False, rs_artifacts = [], rs_error = None\<rparr>)),
      tr_started = 1, tr_ended = 2\<rparr>"

definition table_world :: run_world where
  "table_world = \<lparr>rw_store = [(''acme'', ''job_1'') \<mapsto> JobFile (new_job ''acme'' ''job_1'' 0)], rw_files = []\<rparr>"

definition table_outcome :: "str \<Rightarrow> bool \<Rightarrow> run_world \<times> (exn + run_result)" where
  "table_outcome run_id copy_fails = run_template (table_run run_id copy_fails) ''acme'' ''job_1'' ''T01'' [] None table_world"

definition stored_status :: "run_world \<Rightarrow> job_status option" where
  "stored_status w = (case rw_store w (''acme'', ''job_1'') of Some (JobFile job) \<Rightarrow> Some (j_status job) | _ \<Rightarrow> None)"

lemma table_run_ok:
  obtains w r where "table_outcome ''r1'' False = (w, Inr r)" "rs_ok r"
proof -
  have "case table_outcome ''r1'' False of (_, Inr r) \<Rightarrow> rs_ok r | _ \<Rightarrow> False" by code_simp
  then show thesis using that by (auto split: prod.splits sum.splits)
qed


text \<open>An OS fault while an output is archived passes through \<open>run\<close>, which handles service errors only.\<close>

lemma os_fault_leaves_running:
  "case table_outcome ''r1'' True of
     (w, Inl e) \<Rightarrow> e = PyErr PyOSError \<and> stored_status w = Some RUNNING | _ \<Rightarrow> False"
  by code_simp

text \<open>A run id that is no directory name is refused only after the job has been stored as queued; nothing
  enqueues it, and only failed jobs can be retried.\<close>

lemma refused_run_leaves_queued:
  "case table_outcome ''../r1'' False of
     (w, Inl e) \<Rightarrow> e = TplErr (DoTemplateContractInvalid ''run_dirs_invalid'') \<and> stored_status w = Some QUEUED | _ \<Rightarrow> False"
  by code_simp

end
