(* ===== verification/FamilyRegistry.thy ===== *)
theory FamilyRegistry
  imports TemplateCatalog
begin

text \<open>
  The registry of canonical template families (domain/do_template_taxonomy.py): labels are normalised, a
  registry is loaded from its JSON form with every check, labels are resolved through aliases, and the
  families of a template index are counted. A \<open>ValueError\<close> is an \<open>Inl\<close> with its message.
\<close>

section \<open>Labels\<close>

text \<open>\<open>re.sub(r"[P]+", "_", s)\<close>: each run of characters with \<open>P\<close> becomes one underscore.\<close>

fun sub_runs :: "(char \<Rightarrow> bool) \<Rightarrow> bool \<Rightarrow> str \<Rightarrow> str" where
  "sub_runs P inside [] = []"
| "sub_runs P inside (c # s) =
     (if P c then (if inside then sub_runs P True s else CHR ''_'' # sub_runs P True s)
      else c # sub_runs P False s)"

definition normalize_family_label :: "str \<Rightarrow> str" where
  "normalize_family_label label =
     (let value = sub_runs (\<lambda>c. py_isspace c \<or> c = CHR ''-'') False (py_lower (py_strip label))
      in sub_runs (\<lambda>c. c = CHR ''_'') False value)"

text \<open>\<open>_FAMILY_ID_RE\<close>; a normalised label has no newline before which \<open>$\<close> could match.\<close>

definition family_char :: "char \<Rightarrow> bool" where
  "family_char c = ((CHR ''a'' \<le> c \<and> c \<le> CHR ''z'') \<or> is_digit c \<or> c = CHR ''_'')"

definition family_id_ok :: "str \<Rightarrow> bool" where
  "family_id_ok s = (s \<noteq> [] \<and> list_all family_char s)"

section \<open>Parsing\<close>

record canonical_family =
  cf_family_id :: str
  cf_aliases :: "str list"
  cf_keywords :: "str list"
  cf_use_when :: str
  cf_fallback_families :: "str list"

record family_registry =
  fr_registry_version :: str
  fr_families :: "canonical_family list"
  fr_alias_to_canonical :: "(str, str) dict"
  fr_alias_to_original :: "(str, str) dict"

definition registry_error :: "str \<Rightarrow> str \<Rightarrow> str" where
  "registry_error fld what = ''family_registry.'' @ fld @ what"

definition registry_string :: "json \<Rightarrow> str \<Rightarrow> str + str" where
  "registry_string v fld =
     (case v of
        JStr s \<Rightarrow> (if blank s then Inl (registry_error fld ''_empty'') else Inr s)
      | _ \<Rightarrow> Inl (registry_error fld ''_not_string''))"

definition registry_family_id :: "json \<Rightarrow> str \<Rightarrow> str + str" where
  "registry_family_id v fld =
     bindE (registry_string v fld) (\<lambda>raw.
       let normalized = normalize_family_label raw
       in if family_id_ok normalized then Inr normalized else Inl (registry_error fld ''_invalid''))"

fun unique_from :: "(json \<Rightarrow> str + str) \<Rightarrow> str \<Rightarrow> str list \<Rightarrow> json list \<Rightarrow> str + str list" where
  "unique_from read fld seen [] = Inr []"
| "unique_from read fld seen (v # vs) =
     bindE (read v) (\<lambda>x.
       if x \<in> set seen then Inl (registry_error fld ''_duplicate'')
       else bindE (unique_from read fld (x # seen) vs) (\<lambda>xs. Inr (x # xs)))"

definition unique_ids :: "json \<Rightarrow> str \<Rightarrow> nat \<Rightarrow> str + str list" where
  "unique_ids v fld min_items =
     (case v of
        JList items \<Rightarrow>
          bindE (unique_from (\<lambda>i. registry_family_id i fld) fld [] items) (\<lambda>ids.
            if length ids < min_items then Inl (registry_error fld ''_too_short'') else Inr ids)
      | _ \<Rightarrow> Inl (registry_error fld ''_not_list''))"

definition unique_keywords :: "json \<Rightarrow> str \<Rightarrow> str + str list" where
  "unique_keywords v fld =
     (case v of
        JList items \<Rightarrow> unique_from (\<lambda>i. bindE (registry_string i fld) (\<lambda>s. Inr (py_strip s))) fld [] items
      | _ \<Rightarrow> Inl (registry_error fld ''_not_list''))"

definition get_or :: "jobj \<Rightarrow> str \<Rightarrow> json \<Rightarrow> json" where
  "get_or d key dflt = (case dict_get d key of None \<Rightarrow> dflt | Some v \<Rightarrow> v)"

definition parse_family_item :: "json \<Rightarrow> str + canonical_family" where
  "parse_family_item v =
     (case v of
        JObj item \<Rightarrow>
          bindE (registry_family_id (get_or item ''id'' (JStr [])) ''id'') (\<lambda>family_id.
          bindE (unique_ids (get_or item ''aliases'' (JList [])) ''aliases'' 1) (\<lambda>aliases.
            if family_id \<notin> set aliases then Inl (registry_error ''id'' ''_not_in_aliases'')
            else bindE (unique_keywords (get_or item ''keywords'' (JList [])) ''keywords'') (\<lambda>keywords.
                 bindE (registry_string (get_or item ''use_when'' (JStr [])) ''use_when'') (\<lambda>use_when.
                 bindE (unique_ids (get_or item ''fallback_families'' (JList [])) ''fallback_families'' 0) (\<lambda>fallback.
                   Inr \<lparr>cf_family_id = family_id, cf_aliases = aliases, cf_keywords = keywords,
                        cf_use_when = py_strip use_when, cf_fallback_families = fallback\<rparr>)))))
      | _ \<Rightarrow> Inl (registry_error ''family'' ''_not_object''))"

type_synonym alias_maps = "(str, str) dict \<times> (str, str) dict"

definition index_alias :: "str \<Rightarrow> alias_maps \<Rightarrow> str \<Rightarrow> str + alias_maps" where
  "index_alias family_id maps alias =
     (case maps of (canonical, original) \<Rightarrow>
        let normalized = normalize_family_label alias
        in case dict_get canonical normalized of
             Some _ \<Rightarrow> Inl (registry_error ''alias'' ''_conflict'')
           | None \<Rightarrow> Inr (dict_set canonical normalized family_id, dict_set original normalized alias))"

definition index_aliases :: "canonical_family \<Rightarrow> alias_maps \<Rightarrow> str + alias_maps" where
  "index_aliases family maps = foldE (index_alias (cf_family_id family)) maps (cf_aliases family)"

fun parse_families :: "str list \<Rightarrow> alias_maps \<Rightarrow> json list \<Rightarrow> str + canonical_family list \<times> alias_maps" where
  "parse_families seen maps [] = Inr ([], maps)"
| "parse_families seen maps (v # vs) =
     bindE (parse_family_item v) (\<lambda>family.
       if cf_family_id family \<in> set seen then Inl (registry_error ''id'' ''_duplicate'')
       else bindE (index_aliases family maps) (\<lambda>maps.
            bindE (parse_families (cf_family_id family # seen) maps vs) (\<lambda>(families, maps).
              Inr (family # families, maps))))"

fun check_fallbacks :: "str list \<Rightarrow> str \<Rightarrow> str list \<Rightarrow> str + unit" where
  "check_fallbacks known family_id [] = Inr ()"
| "check_fallbacks known family_id (f # fs) =
     (if f \<notin> set known then Inl (registry_error ''fallback'' ''_unknown'')
      else if f = family_id then Inl (registry_error ''fallback'' ''_self'')
      else check_fallbacks known family_id fs)"

definition validate_fallbacks :: "canonical_family list \<Rightarrow> str + unit" where
  "validate_fallbacks families =
     foldE (\<lambda>_ f. check_fallbacks (map cf_family_id families) (cf_family_id f) (cf_fallback_families f)) () families"

definition load_family_registry :: "jobj \<Rightarrow> str + family_registry" where
  "load_family_registry payload =
     bindE (registry_string (get_or payload ''registry_version'' (JStr [])) ''registry_version'') (\<lambda>version.
       case get_or payload ''families'' (JList []) of
         JList raw \<Rightarrow>
           bindE (parse_families [] ([], []) raw) (\<lambda>(families, canonical, original).
             let sorted_families = sort_key cf_family_id families
             in bindE (validate_fallbacks sorted_families) (\<lambda>_.
                  Inr \<lparr>fr_registry_version = version, fr_families = sorted_families,
                       fr_alias_to_canonical = canonical, fr_alias_to_original = original\<rparr>))
       | _ \<Rightarrow> Inl (registry_error ''families'' ''_not_list''))"

section \<open>Resolving\<close>

record family_resolution =
  rn_input_label :: str
  rn_normalized_label :: str
  rn_canonical_family_id :: str
  rn_matched_alias :: str

definition resolve_family :: "family_registry \<Rightarrow> str \<Rightarrow> family_resolution option" where
  "resolve_family reg label =
     (let normalized = normalize_family_label label
      in if normalized = [] then None
         else case dict_get (fr_alias_to_canonical reg) normalized of
                None \<Rightarrow> None
              | Some canonical \<Rightarrow>
                  Some \<lparr>rn_input_label = label, rn_normalized_label = normalized, rn_canonical_family_id = canonical,
                        rn_matched_alias = (case dict_get (fr_alias_to_original reg) normalized of
                                              None \<Rightarrow> normalized | Some a \<Rightarrow> a)\<rparr>)"

fun families_of_tasks :: "family_registry \<Rightarrow> jobj \<Rightarrow> str + (str, str) dict" where
  "families_of_tasks reg [] = Inr []"
| "families_of_tasks reg ((template_id, v) # rest) =
     (if blank template_id then Inl ''do_library_index.template_id_invalid''
      else case v of
             JObj rec \<Rightarrow>
               (case nonblank_str (Some (get_or rec ''family'' (JStr []))) of
                  None \<Rightarrow> Inl ''do_library_index.family_invalid''
                | Some legacy \<Rightarrow>
                    (case resolve_family reg legacy of
                       None \<Rightarrow> Inl ''do_library_index.family_unknown''
                     | Some r \<Rightarrow>
                         bindE (families_of_tasks reg rest) (\<lambda>m. Inr ((template_id, rn_canonical_family_id r) # m))))
           | _ \<Rightarrow> Inl ''do_library_index.task_record_invalid'')"

definition canonical_family_by_template_id :: "jobj \<Rightarrow> family_registry \<Rightarrow> str + (str, str) dict" where
  "canonical_family_by_template_id index reg =
     (case get_or index ''tasks'' (JObj []) of
        JObj tasks \<Rightarrow> families_of_tasks reg tasks
      | _ \<Rightarrow> Inl ''do_library_index.tasks_not_object'')"

text \<open>\<open>casefold\<close> is Python's, \<open>set_order\<close> the order in which a set is iterated.\<close>

definition summary_texts :: "(str \<Rightarrow> str) \<Rightarrow> (str list \<Rightarrow> str list) \<Rightarrow> str list \<Rightarrow> json" where
  "summary_texts casefold set_order xs = JList (map JStr (sort_key casefold (set_order (remdups xs))))"

definition family_item :: "(str \<Rightarrow> str) \<Rightarrow> (str list \<Rightarrow> str list) \<Rightarrow> str list \<Rightarrow> canonical_family \<Rightarrow> jobj" where
  "family_item casefold set_order assigned f =
     [(''id'', JStr (cf_family_id f)),
      (''count'', JInt (int (count_list assigned (cf_family_id f)))),
      (''keywords'', summary_texts casefold set_order (cf_keywords f)),
      (''use_when'', JStr (cf_use_when f)), (''aliases'', summary_texts casefold set_order (cf_aliases f)),
      (''fallback_families'', summary_texts casefold set_order (cf_fallback_families f))]"

definition generate_family_summary ::
  "(str \<Rightarrow> str) \<Rightarrow> (str list \<Rightarrow> str list) \<Rightarrow> jobj \<Rightarrow> family_registry \<Rightarrow> str + jobj list" where
  "generate_family_summary casefold set_order index reg =
     bindE (canonical_family_by_template_id index reg) (\<lambda>mapping.
       Inr (map (family_item casefold set_order (map snd mapping)) (sort_key cf_family_id (fr_families reg))))"

end
