(* ===== verification/FamilyRegistryLaws.thy ===== *)
theory FamilyRegistryLaws
  imports FamilyRegistry
begin

text \<open>
  A loaded registry resolves a label exactly when its normal form is an alias of one of the families; the
  counts of a summary add up to the number of templates.
\<close>

section \<open>Normal forms\<close>

lemma sub_runs_idem:
  "sub_runs (\<lambda>c. c = CHR ''_'') b (sub_runs (\<lambda>c. c = CHR ''_'') b s) = sub_runs (\<lambda>c. c = CHR ''_'') b s"
  by (induction s arbitrary: b) auto

lemma sub_runs_none: "\<forall>c\<in>set s. \<not> P c \<Longrightarrow> sub_runs P b s = s"
  by (induction s arbitrary: b) auto

lemma family_char_plain:
  assumes "family_char c"
  shows "\<not> py_isspace c" "c \<noteq> CHR ''-''" "py_lower_char c = c"
proof -
  have "97 \<le> code_of c \<and> code_of c \<le> 122 \<or> 48 \<le> code_of c \<and> code_of c \<le> 57 \<or> code_of c = 95"
    using assms by (auto simp: family_char_def is_digit_def less_eq_char_def)
  then show "\<not> py_isspace c" "c \<noteq> CHR ''-''" "py_lower_char c = c"
    by (auto simp: py_isspace_def py_lower_char_def Let_def)
qed

lemma normalize_stable:
  assumes "family_id_ok (normalize_family_label s)"
  shows "normalize_family_label (normalize_family_label s) = normalize_family_label s"
proof -
  let ?n = "normalize_family_label s"
  have c: "\<forall>c\<in>set ?n. \<not> py_isspace c \<and> c \<noteq> CHR ''-'' \<and> py_lower_char c = c"
    using assms family_char_plain by (auto simp: family_id_ok_def list_all_iff)
  have "py_strip ?n = ?n" using c by (intro strip_no_space) auto
  moreover have "py_lower ?n = ?n" using c by (simp add: py_lower_def map_idI)
  moreover have "sub_runs (\<lambda>c. py_isspace c \<or> c = CHR ''-'') False ?n = ?n" using c by (intro sub_runs_none) auto
  ultimately have "normalize_family_label ?n = sub_runs (\<lambda>c. c = CHR ''_'') False ?n"
    by (simp add: normalize_family_label_def[of ?n])
  also have "\<dots> = ?n" by (simp add: normalize_family_label_def Let_def sub_runs_idem)
  finally show ?thesis .
qed

definition normal_id :: "str \<Rightarrow> bool" where
  "normal_id a = (a \<noteq> [] \<and> normalize_family_label a = a)"

lemma registry_family_id_normal: "registry_family_id v fld = Inr a \<Longrightarrow> normal_id a"
  by (auto simp: registry_family_id_def bindE_Inr_iff Let_def normal_id_def normalize_stable family_id_ok_def
           split: if_splits)

lemma unique_from_Inr:
  "unique_from read fld seen vs = Inr xs \<Longrightarrow>
     distinct xs \<and> set xs \<inter> set seen = {} \<and> (\<forall>x\<in>set xs. \<exists>v. read v = Inr x)"
proof (induction vs arbitrary: seen xs)
  case (Cons v vs)
  from Cons.prems obtain x ys where x: "read v = Inr x" "x \<notin> set seen"
    and r: "unique_from read fld (x # seen) vs = Inr ys" and xs: "xs = x # ys"
    by (auto simp: bindE_Inr_iff split: if_splits)
  from Cons.IH[OF r] x show ?case by (auto simp: xs)
qed simp

lemma unique_ids_normal: "unique_ids v fld n = Inr ids \<Longrightarrow> \<forall>i\<in>set ids. normal_id i"
  by (auto simp: unique_ids_def bindE_Inr_iff dest!: unique_from_Inr split: json.splits if_splits
           intro: registry_family_id_normal)

lemma parse_family_item_Inr:
  assumes "parse_family_item v = Inr f"
  shows "\<forall>a\<in>set (cf_aliases f). normal_id a" "cf_family_id f \<in> set (cf_aliases f)"
  using assms
  by (auto simp: parse_family_item_def bindE_Inr_iff dest: unique_ids_normal split: json.splits if_splits)

section \<open>Aliases\<close>

lemma index_alias_Inr:
  "normal_id a \<Longrightarrow> index_alias fid (c, d) a = Inr m \<longleftrightarrow>
     dict_get c a = None \<and> m = (dict_set c a fid, dict_set d a a)"
  by (auto simp: index_alias_def normal_id_def Let_def split: option.splits)

lemma index_aliases_Inr:
  assumes "foldE (index_alias fid) (c, d) as = Inr (c', d')" "\<forall>a\<in>set as. normal_id a"
  shows "dict_get c' k = (if k \<in> set as then Some fid else dict_get c k)"
    and "dict_get d' k = (if k \<in> set as then Some k else dict_get d k)"
    and "k \<in> set as \<Longrightarrow> dict_get c k = None"
proof -
  have "dict_get c' k = (if k \<in> set as then Some fid else dict_get c k) \<and>
        dict_get d' k = (if k \<in> set as then Some k else dict_get d k) \<and> (k \<in> set as \<longrightarrow> dict_get c k = None)"
    using assms
  proof (induction as arbitrary: c d)
    case (Cons a as)
    from Cons.prems have free: "dict_get c a = None"
      and rest: "foldE (index_alias fid) (dict_set c a fid, dict_set d a a) as = Inr (c', d')"
      by (auto simp: index_alias_Inr bindE_Inr_iff)
    from Cons.IH[OF rest] Cons.prems(2) free show ?case by (auto simp: dict_get_set split: if_splits)
  qed simp
  then show "dict_get c' k = (if k \<in> set as then Some fid else dict_get c k)"
    "dict_get d' k = (if k \<in> set as then Some k else dict_get d k)"
    "k \<in> set as \<Longrightarrow> dict_get c k = None" by auto
qed

definition alias_of :: "canonical_family list \<Rightarrow> str \<Rightarrow> str \<Rightarrow> bool" where
  "alias_of families a family_id = (\<exists>f\<in>set families. a \<in> set (cf_aliases f) \<and> family_id = cf_family_id f)"

lemma parse_families_Inr:
  "parse_families seen (c, d) vs = Inr (fams, c', d') \<Longrightarrow>
     distinct (map cf_family_id fams) \<and> set (map cf_family_id fams) \<inter> set seen = {} \<and>
     (\<forall>f\<in>set fams. (\<forall>a\<in>set (cf_aliases f). normal_id a) \<and> cf_family_id f \<in> set (cf_aliases f)) \<and>
     (\<forall>k v. dict_get c' k = Some v \<longleftrightarrow> dict_get c k = Some v \<or> alias_of fams k v) \<and>
     (\<forall>k. dict_get d' k = (if \<exists>v. alias_of fams k v then Some k else dict_get d k))"
proof (induction vs arbitrary: seen c d fams)
  case Nil
  then show ?case by (simp add: alias_of_def)
next
  case (Cons v vs)
  from Cons.prems obtain f c1 d1 rest where f: "parse_family_item v = Inr f" "cf_family_id f \<notin> set seen"
    and ix: "foldE (index_alias (cf_family_id f)) (c, d) (cf_aliases f) = Inr (c1, d1)"
    and r: "parse_families (cf_family_id f # seen) (c1, d1) vs = Inr (rest, c', d')" and fams: "fams = f # rest"
    by (auto simp: bindE_Inr_iff index_aliases_def split: if_splits)
  note p = parse_family_item_Inr[OF f(1)]
  note ix = index_aliases_Inr[OF ix p(1)]
  note ih = Cons.IH[OF r]
  have c: "dict_get c' k = Some w \<longleftrightarrow> dict_get c k = Some w \<or> alias_of fams k w" for k w
    using ih ix(1)[of k] ix(3)[of k] by (auto simp: fams alias_of_def split: if_splits)
  have d: "dict_get d' k = (if \<exists>v. alias_of fams k v then Some k else dict_get d k)" for k
    using ih ix(2)[of k] by (auto simp: fams alias_of_def)
  show ?case using ih p f(2) c d by (simp add: fams)
qed

lemma load_family_registry_Inr:
  assumes "load_family_registry payload = Inr reg"
  shows "distinct (map cf_family_id (fr_families reg))"
    and "\<forall>f\<in>set (fr_families reg). (\<forall>a\<in>set (cf_aliases f). normal_id a) \<and> cf_family_id f \<in> set (cf_aliases f)"
    and "dict_get (fr_alias_to_canonical reg) k = Some v \<longleftrightarrow> alias_of (fr_families reg) k v"
    and "dict_get (fr_alias_to_original reg) k = (if \<exists>v. alias_of (fr_families reg) k v then Some k else None)"
    and "validate_fallbacks (fr_families reg) = Inr ()"
proof -
  obtain raw families c d where p: "parse_families [] ([], []) raw = Inr (families, c, d)"
    and v: "validate_fallbacks (sort_key cf_family_id families) = Inr ()"
    and reg: "fr_families reg = sort_key cf_family_id families" "fr_alias_to_canonical reg = c" "fr_alias_to_original reg = d"
    using assms
    by (cases "get_or payload ''families'' (JList [])") (auto simp: load_family_registry_def bindE_Inr_iff Let_def)
  have a: "alias_of (sort_key cf_family_id families) = alias_of families" by (simp add: alias_of_def fun_eq_iff)
  note p = parse_families_Inr[OF p]
  show "distinct (map cf_family_id (fr_families reg))" using p by (simp add: reg distinct_map)
  show "\<forall>f\<in>set (fr_families reg). (\<forall>a\<in>set (cf_aliases f). normal_id a) \<and> cf_family_id f \<in> set (cf_aliases f)"
    "dict_get (fr_alias_to_canonical reg) k = Some v \<longleftrightarrow> alias_of (fr_families reg) k v"
    "dict_get (fr_alias_to_original reg) k = (if \<exists>v. alias_of (fr_families reg) k v then Some k else None)"
    "validate_fallbacks (fr_families reg) = Inr ()"
    using p v by (simp_all add: reg a)
qed

text \<open>Resolution is exact: a loaded registry resolves a label if and only if its normal form is an
  alias of a family, to that family (no alias belongs to two), and the alias it reports as matched is the
  normal form itself.\<close>

theorem registry_resolves_exactly:
  assumes "load_family_registry payload = Inr reg"
  shows "resolve_family reg label = Some r \<longleftrightarrow>
           (\<exists>f\<in>set (fr_families reg). normalize_family_label label \<in> set (cf_aliases f) \<and>
              r = \<lparr>rn_input_label = label, rn_normalized_label = normalize_family_label label,
                   rn_canonical_family_id = cf_family_id f, rn_matched_alias = normalize_family_label label\<rparr>)"
proof -
  let ?n = "normalize_family_label label"
  note l = load_family_registry_Inr[OF assms]
  have ne: "?n \<in> set (cf_aliases f) \<Longrightarrow> f \<in> set (fr_families reg) \<Longrightarrow> ?n \<noteq> []" for f
    using l(2) by (auto simp: normal_id_def)
  have "resolve_family reg label = Some r \<longleftrightarrow> ?n \<noteq> [] \<and> (\<exists>v. alias_of (fr_families reg) ?n v \<and>
          r = \<lparr>rn_input_label = label, rn_normalized_label = ?n, rn_canonical_family_id = v, rn_matched_alias = ?n\<rparr>)"
    using l(3)[of ?n] l(4)[of ?n]
    by (cases "dict_get (fr_alias_to_canonical reg) ?n") (auto simp: resolve_family_def Let_def)
  also have "\<dots> \<longleftrightarrow> (\<exists>f\<in>set (fr_families reg). ?n \<in> set (cf_aliases f) \<and>
          r = \<lparr>rn_input_label = label, rn_normalized_label = ?n, rn_canonical_family_id = cf_family_id f, rn_matched_alias = ?n\<rparr>)"
    using ne by (auto simp: alias_of_def)
  finally show ?thesis .
qed

section \<open>Counts\<close>

lemma families_of_tasks_Inr:
  "families_of_tasks reg tasks = Inr m \<Longrightarrow>
     map fst m = map fst tasks \<and> (\<forall>v\<in>snd ` set m. \<exists>l r. resolve_family reg l = Some r \<and> v = rn_canonical_family_id r)"
proof (induction tasks arbitrary: m)
  case (Cons task tasks)
  obtain tid v where t: "task = (tid, v)" by (cases task)
  from Cons.prems obtain rec legacy r m' where "resolve_family reg legacy = Some r"
    and m: "families_of_tasks reg tasks = Inr m'" "m = (tid, rn_canonical_family_id r) # m'"
    by (auto simp: t bindE_Inr_iff split: if_splits json.splits option.splits)
  with Cons.IH[OF m(1)] show ?case by (auto simp: t)
qed simp

lemma sum_counts: "set xs \<subseteq> set ids \<Longrightarrow> distinct ids \<Longrightarrow> (\<Sum>i\<leftarrow>ids. count_list xs i) = length xs"
proof (induction xs)
  case Nil
  then show ?case by simp
next
  case (Cons x xs)
  have "(\<Sum>i\<leftarrow>ids. count_list (x # xs) i) = (\<Sum>i\<leftarrow>ids. if i = x then 1 else 0) + (\<Sum>i\<leftarrow>ids. count_list xs i)"
    by (simp add: sum_list_addf[symmetric]) (rule arg_cong[where f = sum_list], auto)
  also have "(\<Sum>i\<leftarrow>ids. if i = x then 1 else (0::nat)) = 1"
    using Cons.prems by (simp add: sum_list_distinct_conv_sum_set)
  finally show ?case using Cons by simp
qed

text \<open>Every template of the index is counted in exactly one family.\<close>

lemma summary_counts_templates:
  assumes "load_family_registry payload = Inr reg" "canonical_family_by_template_id index reg = Inr m"
  shows "(\<Sum>f\<leftarrow>sort_key cf_family_id (fr_families reg). count_list (map snd m) (cf_family_id f)) = length m"
proof -
  note l = load_family_registry_Inr[OF assms(1)]
  obtain tasks where "families_of_tasks reg tasks = Inr m"
    using assms(2) by (auto simp: canonical_family_by_template_id_def split: json.splits)
  note m = families_of_tasks_Inr[OF this]
  let ?ids = "map cf_family_id (sort_key cf_family_id (fr_families reg))"
  have "set (map snd m) \<subseteq> set ?ids"
  proof
    fix v assume "v \<in> set (map snd m)"
    then obtain lab r where "resolve_family reg lab = Some r" "v = rn_canonical_family_id r" using m by auto
    then show "v \<in> set ?ids" using l(3) by (auto simp: resolve_family_def Let_def alias_of_def split: if_splits option.splits)
  qed
  moreover have "distinct ?ids" using l(1) by (simp add: distinct_map)
  ultimately show ?thesis using sum_counts[of "map snd m" ?ids] by (simp add: o_def)
qed

end
