(* ===== verification/JobQueries.thy ===== *)
theory JobQueries
  imports JobFilesLaws JobStore DoFile
begin

text \<open>
  Reading jobs: the summary of a job (domain/job_query_service.py), the download of an artifact
  (domain/artifacts_service.py, \<open>resolve_download_path\<close>) and the list of all jobs on disk
  (infra/file_job_indexer.py).

  The indexer walks the directories of the file system: here a list of files in the order in which
  directories list their entries, as an association list. \<open>jobfs\<close> of \<open>JobFiles\<close> is its map.
\<close>

section \<open>The summary of a job\<close>

record draft_digest =
  dd_created_at :: str
  dd_text_chars :: nat

record run_digest =
  rd_run_id :: str
  rd_attempt :: int
  rd_status :: str
  rd_started_at :: "int option"
  rd_ended_at :: "int option"
  rd_artifacts_count :: nat

record job_summary =
  jy_job_id :: str
  jy_trace_id :: "str option"
  jy_status :: job_status
  jy_selected_template_id :: "str option"
  jy_created_at :: int
  jy_scheduled_at :: "int option"
  jy_draft :: "draft_digest option"
  jy_artifacts_total :: nat
  jy_artifacts_by_kind :: "(str, nat) dict"
  jy_latest_run :: "run_digest option"

text \<open>\<open>Counter\<close>: keys in the order of their first occurrence.\<close>

definition count_up :: "(str, nat) dict \<Rightarrow> str \<Rightarrow> (str, nat) dict" where
  "count_up d k = dict_set d k (case dict_get d k of None \<Rightarrow> 1 | Some n \<Rightarrow> n + 1)"

definition draft_digest_of :: "job \<Rightarrow> draft_digest option" where
  "draft_digest_of job =
     map_option (\<lambda>d. \<lparr>dd_created_at = d_created_at d, dd_text_chars = length (d_text d)\<rparr>) (j_draft job)"

definition kinds_of :: "job \<Rightarrow> (str, nat) dict" where
  "kinds_of job = foldl count_up [] (map (artifact_kind_value \<circ> ar_kind) (j_artifacts_index job))"

definition latest_run :: "job \<Rightarrow> run_digest option" where
  "latest_run job =
     (if j_runs job = [] then None
      else let a = last (j_runs job)
           in Some \<lparr>rd_run_id = ra_run_id a, rd_attempt = ra_attempt a, rd_status = ra_status a,
                    rd_started_at = ra_started_at a, rd_ended_at = ra_ended_at a,
                    rd_artifacts_count = length (ra_artifacts a)\<rparr>)"

definition build_job_summary :: "job \<Rightarrow> job_summary" where
  "build_job_summary job =
     \<lparr>jy_job_id = j_job_id job, jy_trace_id = j_trace_id job, jy_status = j_status job,
      jy_selected_template_id = j_selected_template_id job, jy_created_at = j_created_at job,
      jy_scheduled_at = j_scheduled_at job, jy_draft = draft_digest_of job,
      jy_artifacts_total = length (j_artifacts_index job), jy_artifacts_by_kind = kinds_of job,
      jy_latest_run = latest_run job\<rparr>"

definition get_job_summary :: "str \<Rightarrow> str \<Rightarrow> job_store \<Rightarrow> exn + job_summary" where
  "get_job_summary tenant_id job_id s = bindE (store_load tenant_id job_id s) (\<lambda>job. Inr (build_job_summary job))"

section \<open>Downloads\<close>

text \<open>
  A path is resolved by the operating system: \<open>dw_resolve\<close> follows symbolic links and finds nothing when the
  path does not exist; \<open>dw_base\<close> is the resolved directory of the job, if there is one.
\<close>

record download_env =
  dw_base :: "path option"
  dw_resolve :: "str \<Rightarrow> path option"
  dw_is_file :: "path \<Rightarrow> bool"

definition resolve_download_path :: "download_env \<Rightarrow> str \<Rightarrow> str \<Rightarrow> str \<Rightarrow> job_store \<Rightarrow> exn + path" where
  "resolve_download_path env tenant_id job_id rel_path s =
     (if \<not> is_safe_job_rel_path rel_path then Inl (ArtErr ArtifactPathUnsafe)
      else bindE (store_load tenant_id job_id s) (\<lambda>job.
        if \<not> list_ex (\<lambda>r. ar_rel_path r = rel_path) (j_artifacts_index job) then Inl (ArtErr ArtifactNotFound)
        else case dw_base env of
               None \<Rightarrow> Inl (ArtErr ArtifactNotFound)
             | Some base \<Rightarrow>
                 (case dw_resolve env rel_path of
                    None \<Rightarrow> Inl (ArtErr ArtifactNotFound)
                  | Some resolved \<Rightarrow>
                      (if take (length base) resolved \<noteq> base then Inl (ArtErr ArtifactPathUnsafe)
                       else if \<not> dw_is_file env resolved then Inl (ArtErr ArtifactNotFound)
                       else Inr resolved))))"

text \<open>A download never leaves the job's directory and never serves a file that is not in its index.\<close>

lemma download_stays_inside:
  assumes "resolve_download_path env t j rel_path s = Inr p"
  obtains base job rest where "dw_base env = Some base" "p = base @ rest" "dw_is_file env p"
    "store_load t j s = Inr job" "rel_path \<in> ar_rel_path ` set (j_artifacts_index job)"
proof -
  obtain base job where b: "dw_base env = Some base" "store_load t j s = Inr job" "take (length base) p = base" "dw_is_file env p"
    "list_ex (\<lambda>r. ar_rel_path r = rel_path) (j_artifacts_index job)"
    using assms by (auto simp: resolve_download_path_def bindE_Inr_iff split: if_splits option.splits)
  from b(3) have "p = base @ drop (length base) p" by (metis append_take_drop_id)
  with b show thesis using that by (auto simp: list_ex_iff)
qed

section \<open>The jobs on disk\<close>

type_synonym file_tree = "(path, jfile) dict"

record index_env =
  ix_mtime :: "path \<Rightarrow> str option"
  ix_unlistable :: "path \<Rightarrow> bool"
  ix_unreadable :: "path \<Rightarrow> bool"
  ix_repr :: "json \<Rightarrow> str"

record job_index_item =
  ji_tenant_id :: str
  ji_job_id :: str
  ji_status :: str
  ji_created_at :: str
  ji_updated_at :: "str option"

text \<open>The directories directly below a directory: names of longer paths.\<close>

definition subdirs :: "file_tree \<Rightarrow> path \<Rightarrow> str list" where
  "subdirs fs base =
     remdups (concat (map (\<lambda>(p, _). if take (length base) p = base \<and> length base + 1 < length p
                                    then [p ! length base] else []) fs))"

definition is_file :: "file_tree \<Rightarrow> path \<Rightarrow> bool" where
  "is_file fs p = (dict_get fs p \<noteq> None)"

definition jobs_below :: "index_env \<Rightarrow> file_tree \<Rightarrow> path \<Rightarrow> str \<Rightarrow> path list" where
  "jobs_below env fs base child =
     (if child \<in> {''tenants'', ''_admin''} then []
      else if is_file fs (job_json (base @ [child])) then [job_json (base @ [child])]
      else if ix_unlistable env (base @ [child]) then []
      else filter (is_file fs) (map (\<lambda>d. job_json (base @ [child, d])) (subdirs fs (base @ [child]))))"

definition iter_job_json_paths :: "index_env \<Rightarrow> file_tree \<Rightarrow> path \<Rightarrow> path list" where
  "iter_job_json_paths env fs base =
     (if ix_unlistable env base then [] else concat (map (jobs_below env fs base) (subdirs fs base)))"

definition field_str :: "index_env \<Rightarrow> jobj \<Rightarrow> str \<Rightarrow> str" where
  "field_str env payload key =
     py_strip (case dict_get payload key of None \<Rightarrow> [] | Some (JStr s) \<Rightarrow> s | Some v \<Rightarrow> ix_repr env v)"

definition read_job_summary :: "index_env \<Rightarrow> file_tree \<Rightarrow> str \<Rightarrow> path \<Rightarrow> job_index_item option" where
  "read_job_summary env fs tenant_id p =
     (if ix_unreadable env p then None
      else case dict_get fs p of
             Some (JsonFile (JObj payload)) \<Rightarrow>
               (let job_id = field_str env payload ''job_id''
                in if job_id = [] then None
                   else Some \<lparr>ji_tenant_id = tenant_id, ji_job_id = job_id, ji_status = field_str env payload ''status'',
                              ji_created_at = field_str env payload ''created_at'', ji_updated_at = ix_mtime env p\<rparr>)
           | _ \<Rightarrow> None)"

definition list_tenant_jobs :: "index_env \<Rightarrow> file_tree \<Rightarrow> str \<times> path \<Rightarrow> job_index_item list" where
  "list_tenant_jobs env fs tenant =
     concat (map (\<lambda>p. case read_job_summary env fs (fst tenant) p of None \<Rightarrow> [] | Some i \<Rightarrow> [i])
                 (iter_job_json_paths env fs (snd tenant)))"

definition iter_tenant_roots :: "file_tree \<Rightarrow> str option \<Rightarrow> (str \<times> path) list" where
  "iter_tenant_roots fs tenant_id =
     (case tenant_id of
        Some t \<Rightarrow>
          (let resolved = (if blank t then DEFAULT_TENANT_ID else py_strip t)
           in if resolved = DEFAULT_TENANT_ID then [(DEFAULT_TENANT_ID, [])]
              else if \<not> is_safe_tenant_id resolved then []
              else [(resolved, [''tenants'', resolved])])
      | None \<Rightarrow>
          (DEFAULT_TENANT_ID, []) #
            map (\<lambda>t. (t, [''tenants'', t])) (filter is_safe_tenant_id (subdirs fs [''tenants''])))"

text \<open>\<open>sort(reverse=True)\<close> keeps the order of equal items.\<close>

definition item_time :: "job_index_item \<Rightarrow> str" where
  "item_time i = (case ji_updated_at i of Some u \<Rightarrow> (if u = [] then ji_created_at i else u) | None \<Rightarrow> ji_created_at i)"

definition list_jobs :: "index_env \<Rightarrow> file_tree \<Rightarrow> str option \<Rightarrow> job_index_item list" where
  "list_jobs env fs tenant_id =
     rev (sort_key item_time (rev (concat (map (list_tenant_jobs env fs) (iter_tenant_roots fs tenant_id)))))"

section \<open>What is listed\<close>

lemma subdirs_mem:
  "dict_get fs (base @ d # r # rest) \<noteq> None \<Longrightarrow> d \<in> set (subdirs fs base)"
proof -
  assume "dict_get fs (base @ d # r # rest) \<noteq> None"
  then obtain c where "(base @ d # r # rest, c) \<in> set fs" using dict_get_in by fastforce
  then show ?thesis by (force simp: subdirs_def)
qed

lemma set_list_jobs:
  "set (list_jobs env fs t) = (\<Union>r\<in>set (iter_tenant_roots fs t). set (list_tenant_jobs env fs r))"
  by (simp add: list_jobs_def)

definition undisturbed :: "index_env \<Rightarrow> bool" where
  "undisturbed env = ((\<forall>p. \<not> ix_unlistable env p) \<and> (\<forall>p. \<not> ix_unreadable env p))"

lemma sharded_path_listed:
  assumes "undisturbed env" "is_file fs (job_json (base @ [shard, j]))" "\<not> is_file fs (job_json (base @ [shard]))"
    and "shard \<notin> {''tenants'', ''_admin''}"
  shows "job_json (base @ [shard, j]) \<in> set (iter_job_json_paths env fs base)"
proof -
  have "dict_get fs (base @ shard # j # [''job.json'']) \<noteq> None" using assms(2) by (simp add: is_file_def job_json_def)
  then have s: "shard \<in> set (subdirs fs base)" by (rule subdirs_mem)
  have "dict_get fs ((base @ [shard]) @ j # ''job.json'' # []) \<noteq> None" using assms(2) by (simp add: is_file_def job_json_def)
  then have "j \<in> set (subdirs fs (base @ [shard]))" by (rule subdirs_mem)
  with assms have "job_json (base @ [shard, j]) \<in> set (jobs_below env fs base shard)"
    by (auto simp: jobs_below_def undisturbed_def)
  with s assms(1) show ?thesis by (auto simp: iter_job_json_paths_def undisturbed_def)
qed

lemma legacy_path_listed:
  assumes "undisturbed env" "is_file fs (job_json (base @ [j]))" "j \<notin> {''tenants'', ''_admin''}"
  shows "job_json (base @ [j]) \<in> set (iter_job_json_paths env fs base)"
proof -
  have "dict_get fs (base @ j # ''job.json'' # []) \<noteq> None" using assms(2) by (simp add: is_file_def job_json_def)
  then have "j \<in> set (subdirs fs base)" by (rule subdirs_mem)
  with assms show ?thesis by (auto simp: iter_job_json_paths_def undisturbed_def jobs_below_def)
qed

lemma tenant_root_listed:
  assumes "tenant_root_dir t = Inr base" "py_strip t = t" "dict_get fs (base @ a # b # rest) \<noteq> None" "q \<in> {Some t, None}"
  shows "(t, base) \<in> set (iter_tenant_roots fs q)"
proof (cases "t = DEFAULT_TENANT_ID")
  case True
  have "\<not> blank DEFAULT_TENANT_ID" by code_simp
  with True assms show ?thesis by (auto simp: tenant_root_dir_def tenant_jobs_dir_def iter_tenant_roots_def Let_def)
next
  case False
  with assms(1) have b: "base = [''tenants'', t]" "is_safe_tenant_id t"
    by (auto simp: tenant_root_dir_def tenant_jobs_dir_def split: if_splits)
  have "t \<noteq> []" using b(2) by (simp add: is_safe_tenant_id_def)
  moreover have "t \<in> set (subdirs fs [''tenants''])"
    by (rule subdirs_mem[where r = a and rest = "b # rest"]) (use assms(3) in \<open>simp add: b\<close>)
  ultimately show ?thesis using False b assms(2,4) by (auto simp: iter_tenant_roots_def Let_def blank_def)
qed

text \<open>The administrator's list misses no job: a job whose file the store would open is listed under
  its tenant, asked for that tenant or for all, as long as no directory or file fails to be read and no old
  job without shard has the name of its shard.\<close>

theorem stored_job_is_listed:
  assumes "undisturbed env" and "py_strip t = t"
    and "resolve_existing_job_dir calm (dict_get fs) t j = Inr (Some d)"
    and "dict_get fs (job_json d) = Some (JsonFile (JObj payload))" and "field_str env payload ''job_id'' = j"
    and "j \<notin> {''tenants'', ''_admin''}"
    and "resolve_existing_job_dir calm (dict_get fs) t (shard_for_job_id j) = Inr None"
    and "q \<in> {Some t, None}"
  shows "\<exists>i\<in>set (list_jobs env fs q). ji_tenant_id i = t \<and> ji_job_id i = j"
proof -
  have f: "is_file fs (job_json d)" using assms(4) by (simp add: is_file_def)
  obtain base where base: "tenant_root_dir t = Inr base" and j: "is_safe_path_segment j"
    and d: "d = base @ [shard_for_job_id j, j] \<or> d = base @ [j]"
    using assms(3) sharded_Inr legacy_Inr
    by (fastforce simp: resolve_existing_job_dir_def bindE_Inr_iff split: if_splits)
  have ne: "j \<noteq> []" using j by (rule safe_segment_nonempty)
  let ?s = "shard_for_job_id j"
  have s: "?s \<notin> {''tenants'', ''_admin''}" using length_shard[OF ne] by auto
  have nos: "\<not> is_file fs (job_json (base @ [?s]))"
    using assms(7) base
    by (auto simp: resolve_existing_job_dir_def bindE_Inr_iff resolve_legacy_job_dir_def is_file_def calm_def split: if_splits)
  have p: "job_json d \<in> set (iter_job_json_paths env fs base)"
    using d sharded_path_listed[OF assms(1) _ nos s] legacy_path_listed[OF assms(1) _ assms(6)] f by auto
  have "\<exists>a b rest. job_json d = base @ a # b # rest" using d by (auto simp: job_json_def)
  then obtain a b rest where "dict_get fs (base @ a # b # rest) \<noteq> None" using assms(4) by force
  then have r: "(t, base) \<in> set (iter_tenant_roots fs q)" by (rule tenant_root_listed[OF base assms(2) _ assms(8)])
  have "\<exists>i. read_job_summary env fs t (job_json d) = Some i \<and> ji_tenant_id i = t \<and> ji_job_id i = j"
    using assms(1,4,5) ne by (simp add: read_job_summary_def undisturbed_def Let_def)
  then obtain i where i: "read_job_summary env fs t (job_json d) = Some i" "ji_tenant_id i = t" "ji_job_id i = j" by blast
  have "i \<in> set (list_tenant_jobs env fs (t, base))" using p i(1) by (force simp: list_tenant_jobs_def)
  with r i show ?thesis unfolding set_list_jobs by blast
qed

end
