(* ===== verification/OutputFormatter.thy ===== *)
theory OutputFormatter
  imports PlanRunLaws InputsManifest TextOps
begin

text \<open>
  The formats a user asked for: domain/output_formatter_service.py with its support, error, data, Excel and
  report modules. After a successful run the formats its artifacts lack are produced from its tables.

  A pandas data frame is a value of the type parameter \<open>'f\<close>; reading and writing one, Excel, Word and PDF are
  the environment \<open>format_env\<close>: the result or the text of the \<open>OSError\<close> or \<open>ValueError\<close>. Creating the
  directory of the formatted files does not fail in the model.
\<close>

section \<open>File names\<close>

definition ext_of :: "str \<Rightarrow> str" where
  "ext_of rel_path = (case py_lower (path_suffix rel_path) of [] \<Rightarrow> [] | c # ext \<Rightarrow> (if c = CHR ''.'' then ext else []))"

definition path_stem :: "str \<Rightarrow> str" where
  "path_stem p = (let name = path_name p in take (length name - length (path_suffix p)) name)"

definition formats_present :: "artifact_ref list \<Rightarrow> str list" where
  "formats_present artifacts = filter (\<lambda>e. e \<noteq> []) (map (ext_of \<circ> ar_rel_path) artifacts)"

definition is_format_satisfied :: "str \<Rightarrow> artifact_ref list \<Rightarrow> bool" where
  "is_format_satisfied fmt artifacts =
     (if fmt \<in> {''docx'', ''pdf''}
      then list_ex (\<lambda>r. ar_kind r = STATA_EXPORT_REPORT \<and> endswith (py_lower (ar_rel_path r)) (CHR ''.'' # fmt)) artifacts
      else fmt \<in> set (formats_present artifacts))"

section \<open>Environment\<close>

record 'f format_env =
  fe_exec :: exec_env
  fe_read_csv :: "content option \<Rightarrow> str + 'f"
  fe_read_stata :: "content option \<Rightarrow> str + 'f"
  fe_manifest :: "(str \<times> str) list \<Rightarrow> 'f"
  fe_dta :: "'f \<Rightarrow> str + content"
  fe_csv :: "'f \<Rightarrow> str + content"
  fe_xlsx :: "(str \<times> 'f) list \<Rightarrow> str + content"
  fe_docx :: "str list \<Rightarrow> str + content"
  fe_pdf :: "str list \<Rightarrow> str + content"

definition formatter_failed :: "str \<Rightarrow> run_error" where
  "formatter_failed message = run_error_of ''OUTPUT_FORMATTER_FAILED'' message"

definition manifest_rows :: "artifact_ref list \<Rightarrow> (str \<times> str) list" where
  "manifest_rows artifacts = map (\<lambda>r. (artifact_kind_value (ar_kind r), ar_rel_path r)) artifacts"

definition read_artifact :: "(content option \<Rightarrow> str + 'f) \<Rightarrow> files \<Rightarrow> artifact_ref \<Rightarrow> run_error + 'f" where
  "read_artifact read fs r = map_sum formatter_failed id (read (dict_get fs (posix_parts (ar_rel_path r))))"

definition formatted_path :: "'f format_env \<Rightarrow> str \<Rightarrow> str list" where
  "formatted_path env name = artifacts_dir (xe_run_id (fe_exec env)) @ [''formatted'', name]"

text \<open>\<open>artifact_ref_with_meta\<close>; the time and the format it adds are extra fields of the reference.\<close>

definition produced ::
  "'f format_env \<Rightarrow> artifact_kind \<Rightarrow> str \<Rightarrow> str + content \<Rightarrow> files \<Rightarrow> files \<times> (run_error + artifact_ref)" where
  "produced env kind name written fs =
     (case written of
        Inl e \<Rightarrow> (fs, Inl (formatter_failed e))
      | Inr c \<Rightarrow> (dict_set fs (formatted_path env name) c, Inr (run_ref kind (formatted_path env name))))"

section \<open>Data\<close>

definition with_ext :: "str \<Rightarrow> artifact_ref list \<Rightarrow> artifact_ref list" where
  "with_ext ext artifacts = filter (\<lambda>r. ext_of (ar_rel_path r) = ext) artifacts"

definition preferred :: "artifact_ref list \<Rightarrow> artifact_ref option" where
  "preferred src =
     (case find (\<lambda>r. ar_kind r = STATA_EXPORT_DATASET) src of
        Some r \<Rightarrow> Some r
      | None \<Rightarrow> (case src of [] \<Rightarrow> None | r # _ \<Rightarrow> Some r))"

definition converted ::
  "'f format_env \<Rightarrow> (content option \<Rightarrow> str + 'f) \<Rightarrow> ('f \<Rightarrow> str + content) \<Rightarrow> str \<Rightarrow> artifact_ref list \<Rightarrow>
   artifact_ref list \<Rightarrow> files \<Rightarrow> files \<times> (run_error + artifact_ref)" where
  "converted env read write name src artifacts fs =
     (case preferred src of
        None \<Rightarrow> produced env STATA_EXPORT_MANIFEST name (write (fe_manifest env (manifest_rows artifacts))) fs
      | Some r \<Rightarrow>
          (case read_artifact read fs r of
             Inl e \<Rightarrow> (fs, Inl e)
           | Inr df \<Rightarrow>
               produced env (if ar_kind r = STATA_EXPORT_DATASET then STATA_EXPORT_DATASET else STATA_EXPORT_TABLE)
                 name (write df) fs))"

definition produce_dta :: "'f format_env \<Rightarrow> artifact_ref list \<Rightarrow> files \<Rightarrow> files \<times> (run_error + artifact_ref)" where
  "produce_dta env artifacts = converted env (fe_read_csv env) (fe_dta env) ''output.dta'' (with_ext ''csv'' artifacts) artifacts"

definition produce_csv :: "'f format_env \<Rightarrow> artifact_ref list \<Rightarrow> files \<Rightarrow> files \<times> (run_error + artifact_ref)" where
  "produce_csv env artifacts = converted env (fe_read_stata env) (fe_csv env) ''output.csv'' (with_ext ''dta'' artifacts) artifacts"

section \<open>Excel\<close>

definition safe_sheet_name :: "str \<Rightarrow> str" where
  "safe_sheet_name value =
     (let cleaned = strip_chars {CHR ''_''}
            (map (\<lambda>c. if py_isalnum c \<or> c \<in> {CHR ''_'', CHR ''-''} then c else CHR ''_'') value)
      in if cleaned = [] then ''sheet'' else take 31 cleaned)"

fun sheet_names_from :: "(str, nat) dict \<Rightarrow> str list \<Rightarrow> str list" where
  "sheet_names_from seen [] = []"
| "sheet_names_from seen (stem # stems) =
     (let base = safe_sheet_name stem;
          count = (case dict_get seen base of None \<Rightarrow> 0 | Some n \<Rightarrow> n);
          suffix = CHR ''_'' # nat_digits (count + 1);
          name = (if count = 0 then base else take 31 (take (31 - length suffix) base @ suffix))
      in name # sheet_names_from (dict_set seen base (count + 1)) stems)"

definition unique_sheet_names :: "str list \<Rightarrow> str list" where
  "unique_sheet_names stems = sheet_names_from [] stems"

fun read_tables :: "(content option \<Rightarrow> str + 'f) \<Rightarrow> files \<Rightarrow> artifact_ref list \<Rightarrow> run_error + (str \<times> 'f) list" where
  "read_tables read fs [] = Inr []"
| "read_tables read fs (r # rs) =
     bindE (read_artifact read fs r) (\<lambda>df.
     bindE (read_tables read fs rs) (\<lambda>rest. Inr ((path_stem (ar_rel_path r), df) # rest)))"

definition produce_xlsx :: "'f format_env \<Rightarrow> artifact_ref list \<Rightarrow> files \<Rightarrow> files \<times> (run_error + artifact_ref)" where
  "produce_xlsx env artifacts fs =
     (case bindE (read_tables (fe_read_csv env) fs (with_ext ''csv'' artifacts)) (\<lambda>tables.
             if tables \<noteq> [] then Inr tables else read_tables (fe_read_stata env) fs (with_ext ''dta'' artifacts)) of
        Inl e \<Rightarrow> (fs, Inl e)
      | Inr tables \<Rightarrow>
          (let src = (if tables = [] then [(''artifacts'', fe_manifest env (manifest_rows artifacts))] else tables);
               sheets = zip (unique_sheet_names (map fst src)) (map snd src)
           in produced env (if tables = [] then STATA_EXPORT_MANIFEST else STATA_EXPORT_TABLE) ''tables.xlsx''
                (fe_xlsx env sheets) fs))"

section \<open>Reports\<close>

definition report_lines :: "str \<Rightarrow> artifact_ref list \<Rightarrow> str list" where
  "report_lines job_id artifacts =
     [''job_id: '' @ job_id, ''artifacts:''] @ map (\<lambda>r. ''- '' @ ar_rel_path r) artifacts"

definition produce_docx :: "'f format_env \<Rightarrow> artifact_ref list \<Rightarrow> files \<Rightarrow> files \<times> (run_error + artifact_ref)" where
  "produce_docx env artifacts =
     produced env STATA_EXPORT_REPORT ''report.docx'' (fe_docx env (report_lines (j_job_id (xe_job (fe_exec env))) artifacts))"

definition produce_pdf :: "'f format_env \<Rightarrow> artifact_ref list \<Rightarrow> files \<Rightarrow> files \<times> (run_error + artifact_ref)" where
  "produce_pdf env artifacts =
     produced env STATA_EXPORT_REPORT ''report.pdf'' (fe_pdf env (report_lines (j_job_id (xe_job (fe_exec env))) artifacts))"

section \<open>The service\<close>

definition produce_one :: "'f format_env \<Rightarrow> str \<Rightarrow> artifact_ref list \<Rightarrow> files \<Rightarrow> files \<times> (run_error + artifact_ref)" where
  "produce_one env fmt artifacts fs =
     (if fmt \<in> {''log'', ''do''} then (fs, Inl (formatter_failed (''requested format missing from artifacts: '' @ fmt)))
      else if fmt = ''xlsx'' then produce_xlsx env artifacts fs
      else if fmt = ''dta'' then produce_dta env artifacts fs
      else if fmt = ''csv'' then produce_csv env artifacts fs
      else if fmt = ''docx'' then produce_docx env artifacts fs
      else if fmt = ''pdf'' then produce_pdf env artifacts fs
      else (fs, Inl (formatter_failed (''unsupported format: '' @ fmt))))"

text \<open>\<open>write_run_error_artifact\<close>: an error file that is there already stays.\<close>

definition write_run_error_artifact :: "'f format_env \<Rightarrow> run_error \<Rightarrow> files \<Rightarrow> files \<times> artifact_ref option" where
  "write_run_error_artifact env e fs =
     (let path = run_file (xe_run_id (fe_exec env)) ''run.error.json''
      in if dict_get fs path \<noteq> None \<or> xe_write_fails (fe_exec env) path then (fs, None)
         else (dict_set fs path (JsonFile ([(''error_code'', JStr (re_error_code e)), (''message'', JStr (re_message e)),
                 (''timed_out'', JBool False), (''exit_code'', JNull)] @ details_json e)),
               Some (run_ref RUN_ERROR_JSON path)))"

definition fail_with_error :: "'f format_env \<Rightarrow> run_error \<Rightarrow> artifact_ref list \<Rightarrow> files \<Rightarrow> files \<times> format_result" where
  "fail_with_error env e extra fs =
     (case write_run_error_artifact env e fs of
        (fs', r) \<Rightarrow> (fs', \<lparr>fr_artifacts = extra @ (case r of None \<Rightarrow> [] | Some a \<Rightarrow> [a]), fr_error = Some e\<rparr>))"

fun produce_missing :: "'f format_env \<Rightarrow> artifact_ref list \<Rightarrow> artifact_ref list \<Rightarrow> str list \<Rightarrow> files \<Rightarrow> files \<times> format_result" where
  "produce_missing env artifacts new [] fs = (fs, \<lparr>fr_artifacts = new, fr_error = None\<rparr>)"
| "produce_missing env artifacts new (fmt # fmts) fs =
     (case produce_one env fmt artifacts fs of
        (fs', Inl e) \<Rightarrow> fail_with_error env e new fs'
      | (fs', Inr r) \<Rightarrow> produce_missing env artifacts (new @ [r]) fmts fs')"

definition requested_formats :: "job \<Rightarrow> artifact_error + str list" where
  "requested_formats job = normalize_output_formats (map_option (map JStr) (j_output_formats job))"

definition format_run_outputs :: "'f format_env \<Rightarrow> artifact_ref list \<Rightarrow> files \<Rightarrow> files \<times> format_result" where
  "format_run_outputs env artifacts fs =
     (if \<not> run_dirs_ok (fe_exec env) (xe_run_id (fe_exec env))
      then (fs, \<lparr>fr_artifacts = [], fr_error = Some (run_error_of ''STATA_WORKSPACE_INVALID'' ''invalid job/run workspace'')\<rparr>)
      else case requested_formats (xe_job (fe_exec env)) of
             Inl e \<Rightarrow> fail_with_error env (run_error_of (error_code (ArtErr e)) []) [] fs
           | Inr requested \<Rightarrow>
               produce_missing env artifacts [] (filter (\<lambda>f. \<not> is_format_satisfied f artifacts) requested) fs)"

end
