(* ===== verification/OutputFormatterLaws.thy ===== *)
theory OutputFormatterLaws
  imports OutputFormatter
begin

text \<open>Formatting that reports no error delivers every format asked for, as files on disk.\<close>

section \<open>Names\<close>

lemma join_snoc: "xs \<noteq> [] \<Longrightarrow> py_join sep (xs @ [x]) = py_join sep xs @ sep @ x"
  by (induction sep xs rule: py_join.induct) auto

lemma formatted_rel: "\<exists>pre. rel_of (formatted_path env name) = pre @ CHR ''/'' # name"
  using join_snoc[of "artifacts_dir (xe_run_id (fe_exec env)) @ [''formatted'']" "''/''" name]
  by (auto simp: rel_of_def formatted_path_def)

lemma formatted_name:
  assumes "posix_parts name = [name]"
  shows "path_name (rel_of (formatted_path env name)) = name"
proof -
  obtain pre where "rel_of (formatted_path env name) = pre @ CHR ''/'' # name" using formatted_rel by blast
  then have "posix_parts (rel_of (formatted_path env name)) = posix_parts pre @ [name]"
    using assms by (simp add: posix_parts_append)
  then show ?thesis by (cases "posix_parts pre") (simp_all add: path_name_def)
qed

definition formatted_names :: "(str \<times> str) list" where
  "formatted_names = [(''dta'', ''output.dta''), (''csv'', ''output.csv''), (''xlsx'', ''tables.xlsx'')]"

lemma formatted_ext:
  assumes "(ext, name) \<in> set formatted_names"
  shows "ext_of (rel_of (formatted_path env name)) = ext" "ext \<notin> {''docx'', ''pdf'', []}"
proof -
  have n: "posix_parts name = [name]" "ext \<notin> {''docx'', ''pdf'', []}"
    using assms by (auto simp: formatted_names_def) code_simp+
  have "ext_of (rel_of (formatted_path env name)) = ext_of name"
    using formatted_name[OF n(1), of env] n(1) by (simp add: ext_of_def path_suffix_def path_name_def)
  also have "ext_of name = ext" using assms by (auto simp: formatted_names_def) code_simp+
  finally show "ext_of (rel_of (formatted_path env name)) = ext" .
  show "ext \<notin> {''docx'', ''pdf'', []}" by (rule n)
qed

lemma formatted_report:
  assumes "fmt \<in> {''docx'', ''pdf''}"
  shows "endswith (py_lower (rel_of (formatted_path env (''report.'' @ fmt)))) (CHR ''.'' # fmt)"
proof -
  obtain pre where p: "rel_of (formatted_path env (''report.'' @ fmt)) = pre @ CHR ''/'' # ''report.'' @ fmt"
    using formatted_rel by blast
  have l: "py_lower (''report.'' @ fmt) = ''report.'' @ fmt" using assms by auto code_simp+
  have "py_lower (rel_of (formatted_path env (''report.'' @ fmt))) = py_lower pre @ CHR ''/'' # ''report'' @ (CHR ''.'' # fmt)"
    unfolding p using l by (simp add: py_lower_def) (simp add: py_lower_char_def)
  then show ?thesis by (simp add: endswith_def)
qed

section \<open>Producing\<close>

lemma produced_Inr:
  "produced env k name written fs = (fs', Inr r) \<Longrightarrow>
     r = run_ref k (formatted_path env name) \<and> grows fs fs' \<and> has_file fs' (ar_rel_path r)"
  by (auto simp: produced_def run_ref_def split: sum.splits)

lemma produced_grows: "produced env k name written fs = (fs', r) \<Longrightarrow> grows fs fs'"
  by (auto simp: produced_def split: sum.splits)

lemma converted_Inr:
  "converted env read write name src artifacts fs = (fs', Inr r) \<Longrightarrow>
     \<exists>k. r = run_ref k (formatted_path env name) \<and> grows fs fs' \<and> has_file fs' (ar_rel_path r)"
  by (auto simp: converted_def dest!: produced_Inr split: option.splits sum.splits)

lemma produce_one_Inr:
  assumes "produce_one env fmt artifacts fs = (fs', Inr r)"
  shows "grows fs fs'" "has_file fs' (ar_rel_path r)" "is_format_satisfied fmt [r]"
proof -
  have f: "fmt \<in> {''xlsx'', ''dta'', ''csv'', ''docx'', ''pdf''}"
    using assms by (auto simp: produce_one_def split: if_splits)
  have data: "grows fs fs' \<and> has_file fs' (ar_rel_path r) \<and> is_format_satisfied fmt [r]"
    if "r = run_ref k (formatted_path env name) \<and> grows fs fs' \<and> has_file fs' (ar_rel_path r)"
      "(fmt, name) \<in> set formatted_names" for k name
    using that formatted_ext(1)[OF that(2), of env] formatted_ext(2)[OF that(2)] by (auto simp: is_format_satisfied_def formats_present_def run_ref_def)
  have report: "grows fs fs' \<and> has_file fs' (ar_rel_path r) \<and> is_format_satisfied fmt [r]"
    if "r = run_ref STATA_EXPORT_REPORT (formatted_path env (''report.'' @ fmt)) \<and> grows fs fs' \<and> has_file fs' (ar_rel_path r)"
      "fmt \<in> {''docx'', ''pdf''}"
    using that formatted_report[OF that(2), of env] by (auto simp: is_format_satisfied_def run_ref_def)
  consider "fmt = ''xlsx''" | "fmt = ''dta''" | "fmt = ''csv''" | "fmt = ''docx''" | "fmt = ''pdf''" using f by auto
  then have "grows fs fs' \<and> has_file fs' (ar_rel_path r) \<and> is_format_satisfied fmt [r]"
  proof cases
    case 1
    then obtain k c where "produced env k ''tables.xlsx'' c fs = (fs', Inr r)"
      using assms by (auto simp: produce_one_def produce_xlsx_def Let_def split: sum.splits)
    from produced_Inr[OF this] show ?thesis by (rule data) (simp add: 1 formatted_names_def)
  next
    case 2
    then have "\<exists>k. r = run_ref k (formatted_path env ''output.dta'') \<and> grows fs fs' \<and> has_file fs' (ar_rel_path r)"
      using assms by (auto simp: produce_one_def produce_dta_def dest: converted_Inr)
    then show ?thesis using data[of _ "''output.dta''"] by (auto simp: 2 formatted_names_def)
  next
    case 3
    then have "\<exists>k. r = run_ref k (formatted_path env ''output.csv'') \<and> grows fs fs' \<and> has_file fs' (ar_rel_path r)"
      using assms by (auto simp: produce_one_def produce_csv_def dest: converted_Inr)
    then show ?thesis using data[of _ "''output.csv''"] by (auto simp: 3 formatted_names_def)
  next
    case 4
    then have "r = run_ref STATA_EXPORT_REPORT (formatted_path env (''report.'' @ fmt)) \<and> grows fs fs' \<and> has_file fs' (ar_rel_path r)"
      using assms produced_Inr by (fastforce simp: produce_one_def produce_docx_def)
    then show ?thesis by (rule report) (simp add: 4)
  next
    case 5
    then have "r = run_ref STATA_EXPORT_REPORT (formatted_path env (''report.'' @ fmt)) \<and> grows fs fs' \<and> has_file fs' (ar_rel_path r)"
      using assms produced_Inr by (fastforce simp: produce_one_def produce_pdf_def)
    then show ?thesis by (rule report) (simp add: 5)
  qed
  then show "grows fs fs'" "has_file fs' (ar_rel_path r)" "is_format_satisfied fmt [r]" by simp_all
qed

lemma satisfied_mono: "is_format_satisfied fmt as \<Longrightarrow> set as \<subseteq> set bs \<Longrightarrow> is_format_satisfied fmt bs"
  by (auto simp: is_format_satisfied_def list_ex_iff formats_present_def split: if_splits)

lemma produce_missing_ok:
  assumes "produce_missing env artifacts new fmts fs = (fs', r)" "fr_error r = None"
    and "\<forall>a\<in>set new. has_file fs (ar_rel_path a)"
  shows "set new \<subseteq> set (fr_artifacts r) \<and> (\<forall>a\<in>set (fr_artifacts r). has_file fs' (ar_rel_path a)) \<and>
         (\<forall>fmt\<in>set fmts. is_format_satisfied fmt (fr_artifacts r))"
  using assms
proof (induction fmts arbitrary: new fs)
  case Nil
  then show ?case by auto
next
  case (Cons fmt fmts)
  obtain fs1 out where p: "produce_one env fmt artifacts fs = (fs1, out)" by (cases "produce_one env fmt artifacts fs")
  show ?case
  proof (cases out)
    case (Inl e)
    then show ?thesis using Cons.prems p by (auto simp: fail_with_error_def split: prod.splits)
  next
    case (Inr a)
    note one = produce_one_Inr[OF p[unfolded Inr]]
    have "\<forall>b\<in>set (new @ [a]). has_file fs1 (ar_rel_path b)"
      using Cons.prems(3) one has_file_grows[OF _ one(1)] by auto
    from Cons.IH[OF _ Cons.prems(2) this] Cons.prems(1) p Inr
    have ih: "set (new @ [a]) \<subseteq> set (fr_artifacts r) \<and> (\<forall>a\<in>set (fr_artifacts r). has_file fs' (ar_rel_path a)) \<and>
              (\<forall>fmt\<in>set fmts. is_format_satisfied fmt (fr_artifacts r))" by simp
    then have "is_format_satisfied fmt (fr_artifacts r)" by (intro satisfied_mono[OF one(3)]) auto
    with ih show ?thesis by auto
  qed
qed


section \<open>Concrete runs\<close>

definition plain_formatter :: "str list \<Rightarrow> str format_env" where
  "plain_formatter formats =
     \<lparr>fe_exec = \<lparr>xe_job = (new_job ''acme'' ''job_1'' 0)\<lparr>j_output_formats := Some formats\<rparr>, xe_run_id = ''r1'', xe_manifest = [],
        xe_dirs_inside = (\<lambda>_. True), xe_escapes = (\<lambda>_. False), xe_copy_fails = (\<lambda>_. False),
        xe_write_fails = (\<lambda>_. False), xe_dumps = (\<lambda>_. []), xe_generate = (\<lambda>_ _. Inr []),
        xe_runner = (\<lambda>run_id do_file timeout fs. (fs, \<lparr>rs_ok = True, rs_exit_code = Some 0, rs_timed_out = False,
          rs_artifacts = [], rs_error = None\<rparr>)), xe_remaining = (\<lambda>_. None)\<rparr>,
      fe_read_csv = (\<lambda>c. case c of Some (TextFile t) \<Rightarrow> Inr t | _ \<Rightarrow> Inl ''no file''), fe_read_stata = (\<lambda>_. Inl ''no file''),
      fe_manifest = (\<lambda>_. []), fe_dta = Inr \<circ> TextFile, fe_csv = Inr \<circ> TextFile, fe_xlsx = (\<lambda>_. Inr (TextFile [])),
      fe_docx = (\<lambda>_. Inr (TextFile [])), fe_pdf = (\<lambda>_. Inr (TextFile []))\<rparr>"

definition table_artifact :: artifact_ref where
  "table_artifact = \<lparr>ar_kind = STATA_EXPORT_TABLE, ar_rel_path = ''runs/r1/artifacts/table.csv''\<rparr>"

definition table_files :: files where
  "table_files = [([''runs'', ''r1'', ''artifacts'', ''table.csv''], TextFile ''n'')]"


text \<open>Sheet names meant to be unique: two tables of the same name and a third whose name is the numbered form.\<close>

lemma sheet_names_collide: "unique_sheet_names [''a'', ''a'', ''a_2''] = [''a'', ''a_2'', ''a_2'']"
  by code_simp

end
