(* ===== verification/PlanGate.thy ===== *)
theory PlanGate
  imports PlanBuildLaws
begin

text \<open>
  What a client is told when freezing a plan lacks something: the next actions
  (domain/plan_freeze_gate.py) and the details of fields and parameters
  (domain/plan_freeze_missing_required_details.py, domain/plan_freeze_required_inputs.py).

  Labels and messages are Chinese texts outside the Latin-1 fragment of \<open>str\<close>: labels are left out and the
  message is the list of its parts.
\<close>

section \<open>Next actions\<close>

definition VARIABLE_SELECTION_PARAMS :: "str list" where
  "VARIABLE_SELECTION_PARAMS = [''__ID_VAR__'', ''__TIME_VAR__'', ''__PANELVAR__'', ''__CLUSTER_VAR__'']"

definition DRAFT_PATCH_PARAMS :: "str list" where
  "DRAFT_PATCH_PARAMS = [''__NUMERIC_VARS__'', ''__CHECK_VARS__'', ''__DEPVAR__'', ''__INDEPVARS__'']"

definition needs_answers :: "str list \<Rightarrow> bool" where
  "needs_answers missing_fields = list_ex (\<lambda>f. startswith f ''stage1_questions.'') missing_fields"

definition needs_variable_corrections :: "str list \<Rightarrow> bool" where
  "needs_variable_corrections missing_params = list_ex (\<lambda>p. p \<in> set VARIABLE_SELECTION_PARAMS) missing_params"

definition needs_draft_patch :: "str list \<Rightarrow> str list \<Rightarrow> bool" where
  "needs_draft_patch missing_fields missing_params =
     (list_ex (\<lambda>f. startswith f ''open_unknowns.'') missing_fields \<or>
      list_ex (\<lambda>p. p \<in> set DRAFT_PATCH_PARAMS) missing_params)"

definition payload_schema_for :: "str list \<Rightarrow> jobj" where
  "payload_schema_for names =
     (if names = [] then [(''type'', JStr ''object'')]
      else [(''type'', JStr ''object''), (''required'', JList (map JStr names)),
            (''properties'', JObj (map (\<lambda>f. (f, JObj [(''type'', JStr ''object'')])) names))])"

definition payload_schema_for_variable_corrections :: jobj where
  "payload_schema_for_variable_corrections =
     [(''type'', JStr ''object''), (''required'', JList [JStr ''variable_corrections'']),
      (''properties'', JObj [(''variable_corrections'',
         JObj [(''type'', JStr ''object''), (''additionalProperties'', JObj [(''type'', JStr ''string'')])])])]"

definition action_form :: "str \<Rightarrow> str \<Rightarrow> str \<Rightarrow> jobj \<Rightarrow> jobj" where
  "action_form action path fld schema =
     [(''action'', JStr action), (''type'', JStr ''form''), (''method'', JStr ''POST''), (''path'', JStr path),
      (''fields'', JList [JStr fld]), (''payload_schema'', JObj schema)]"

definition freeze_path :: "str \<Rightarrow> str" where
  "freeze_path job_id = ''/v1/jobs/'' @ job_id @ ''/plan/freeze''"

definition action_provide_answers :: "str \<Rightarrow> jobj" where
  "action_provide_answers job_id =
     action_form ''provide_answers'' (freeze_path job_id) ''answers'' (payload_schema_for [''answers''])"

definition action_provide_variable_corrections :: "str \<Rightarrow> jobj" where
  "action_provide_variable_corrections job_id =
     action_form ''provide_variable_corrections'' (freeze_path job_id) ''variable_corrections''
       payload_schema_for_variable_corrections"

definition action_patch_draft :: "str \<Rightarrow> jobj" where
  "action_patch_draft job_id =
     action_form ''patch_draft'' (''/v1/jobs/'' @ job_id @ ''/draft/patch'') ''field_updates'' (payload_schema_for [''field_updates''])"

definition action_retry_freeze :: "str \<Rightarrow> jobj" where
  "action_retry_freeze job_id =
     [(''action'', JStr ''retry_freeze''), (''type'', JStr ''button''), (''method'', JStr ''POST''),
      (''path'', JStr (freeze_path job_id)), (''payload_schema'', JObj (payload_schema_for []))]"

definition next_actions_for_plan_freeze_missing :: "str \<Rightarrow> str list \<Rightarrow> str list \<Rightarrow> jobj list" where
  "next_actions_for_plan_freeze_missing job_id missing_fields missing_params =
     (if needs_answers missing_fields then [action_provide_answers job_id] else []) @
     (if needs_variable_corrections missing_params then [action_provide_variable_corrections job_id] else []) @
     (if needs_draft_patch missing_fields missing_params then [action_patch_draft job_id] else []) @
     [action_retry_freeze job_id]"

datatype message_part = AnswerQuestions | ChooseVariables | CompleteDraft

definition action_message_for_plan_freeze_missing :: "str list \<Rightarrow> str list \<Rightarrow> message_part list" where
  "action_message_for_plan_freeze_missing missing_fields missing_params =
     (if needs_answers missing_fields then [AnswerQuestions] else []) @
     (if needs_variable_corrections missing_params then [ChooseVariables] else []) @
     (if needs_draft_patch missing_fields missing_params then [CompleteDraft] else [])"

section \<open>Details\<close>

fun dedupe_from :: "str list \<Rightarrow> nat \<Rightarrow> str list \<Rightarrow> str list" where
  "dedupe_from seen left [] = []"
| "dedupe_from seen left (v # vs) =
     (let candidate = py_strip v
      in if candidate = [] \<or> candidate \<in> set seen then dedupe_from seen left vs
         else if left \<le> 1 then [candidate]
         else candidate # dedupe_from (candidate # seen) (left - 1) vs)"

definition missing_column_candidates :: "draft option \<Rightarrow> str list" where
  "missing_column_candidates d =
     (case d of
        None \<Rightarrow> []
      | Some d \<Rightarrow>
          (let candidates = dedupe_from [] 300
                 (map cc_name (filter (\<lambda>c. cc_role c = ''primary_dataset'') (d_column_candidates_v2 d)))
           in if candidates \<noteq> [] then candidates else dedupe_from [] 300 (d_column_candidates d)))"

record missing_detail =
  md_name :: str
  md_description :: str
  md_candidates :: "str list"

text \<open>A dictionary built from a list keeps the last item of a key.\<close>

definition find_last :: "('a \<Rightarrow> bool) \<Rightarrow> 'a list \<Rightarrow> 'a option" where
  "find_last P xs = find P (rev xs)"

definition field_detail :: "draft \<Rightarrow> str \<Rightarrow> missing_detail list" where
  "field_detail d fld =
     (if startswith fld ''stage1_questions.''
      then let question_id = drop (length ''stage1_questions.'') fld
           in case find_last (\<lambda>q. sq_question_id q = question_id \<and> \<not> blank (sq_question_id q)) (d_stage1_questions d) of
                None \<Rightarrow> [\<lparr>md_name = fld, md_description = [], md_candidates = []\<rparr>]
              | Some q \<Rightarrow> [\<lparr>md_name = fld, md_description = sq_question_text q,
                            md_candidates = filter (\<lambda>l. \<not> blank l) (map so_label (sq_options q))\<rparr>]
      else if startswith fld ''open_unknowns.''
      then let unknown_field = drop (length ''open_unknowns.'') fld
           in case find_last (\<lambda>u. ou_field u = unknown_field \<and> \<not> blank (ou_field u)) (d_open_unknowns d) of
                None \<Rightarrow> [\<lparr>md_name = fld, md_description = [], md_candidates = []\<rparr>]
              | Some u \<Rightarrow> [\<lparr>md_name = fld, md_description = ou_description u, md_candidates = ou_candidates u\<rparr>]
      else [])"

definition sorted_names :: "str list \<Rightarrow> str list" where
  "sorted_names xs = sort (remdups (filter (\<lambda>x. \<not> blank x) xs))"

definition missing_fields_detail_for_plan_freeze :: "draft option \<Rightarrow> str list \<Rightarrow> missing_detail list" where
  "missing_fields_detail_for_plan_freeze d missing_fields =
     (case d of None \<Rightarrow> [] | Some d \<Rightarrow> concat (map (field_detail d) (sorted_names missing_fields)))"

definition param_description :: "jobj \<Rightarrow> str \<Rightarrow> str" where
  "param_description meta name =
     (case dict_get meta ''parameters'' of
        Some (JList items) \<Rightarrow>
          (case find_last (\<lambda>i. case i of JObj d \<Rightarrow> nonblank_str (dict_get d ''name'') = Some name \<and>
                                              nonblank_str (dict_get d ''description'') \<noteq> None | _ \<Rightarrow> False) items of
             Some (JObj d) \<Rightarrow> (case nonblank_str (dict_get d ''description'') of Some t \<Rightarrow> py_strip t | None \<Rightarrow> [])
           | _ \<Rightarrow> [])
      | _ \<Rightarrow> [])"

definition missing_params_detail_for_plan_freeze :: "draft option \<Rightarrow> str list \<Rightarrow> jobj \<Rightarrow> missing_detail list" where
  "missing_params_detail_for_plan_freeze d missing_params meta =
     map (\<lambda>p. \<lparr>md_name = p, md_description = param_description meta p,
               md_candidates = (if p \<in> set VARIABLE_SELECTION_PARAMS \<union> set DRAFT_PATCH_PARAMS
                                then missing_column_candidates d else [])\<rparr>)
         (sorted_names missing_params)"

record missing_required =
  mr_fields :: "str list"
  mr_params :: "str list"
  mr_fields_detail :: "missing_detail list"
  mr_params_detail :: "missing_detail list"
  mr_action :: "message_part list"
  mr_next_actions :: "jobj list"

definition missing_required_details :: "job \<Rightarrow> str list \<Rightarrow> str list \<Rightarrow> jobj \<Rightarrow> missing_required" where
  "missing_required_details job missing_fields missing_params template_meta =
     \<lparr>mr_fields = sort (remdups missing_fields), mr_params = sort (remdups missing_params),
      mr_fields_detail = missing_fields_detail_for_plan_freeze (j_draft job) missing_fields,
      mr_params_detail = missing_params_detail_for_plan_freeze (j_draft job) missing_params template_meta,
      mr_action = action_message_for_plan_freeze_missing missing_fields missing_params,
      mr_next_actions = next_actions_for_plan_freeze_missing (j_job_id job) missing_fields missing_params\<rparr>"

section \<open>Nothing missing goes unexplained\<close>

lemma details_of_fields:
  assumes "j_draft job = Some d"
    and "missing_draft_fields_for_plan_freeze (j_draft job) answers = missing_fields"
  shows "map md_name (mr_fields_detail (missing_required_details job missing_fields missing_params meta)) = missing_fields"
proof -
  have p: "startswith f ''stage1_questions.'' \<or> startswith f ''open_unknowns.''" "\<not> blank f" if "f \<in> set missing_fields" for f
    using that assms(2)[symmetric]
    by (auto simp: missing_draft_fields_for_plan_freeze_def startswith_def blank_iff py_isspace_def split: prod.splits)
  have "map md_name (field_detail d f) = [f]" if "f \<in> set missing_fields" for f
    using p(1)[OF that] by (auto simp: field_detail_def Let_def split: option.splits)
  then have c: "map md_name (concat (map (field_detail d) fs)) = fs" if "set fs \<subseteq> set missing_fields" for fs
    using that by (induction fs) auto
  have "sort missing_fields = missing_fields" "distinct missing_fields"
    using assms(2)[symmetric]
    by (simp_all add: missing_draft_fields_for_plan_freeze_def sorted_sort_id split: prod.splits)
  then have "sorted_names missing_fields = missing_fields"
    using p(2) by (simp add: sorted_names_def distinct_remdups_id)
  then show ?thesis
    using c[of missing_fields] by (simp add: missing_required_details_def missing_fields_detail_for_plan_freeze_def assms(1))
qed

section \<open>A template that can never be frozen\<close>

definition FIXED_TEMPLATES :: "str list" where
  "FIXED_TEMPLATES = [''T01'', ''T07'', ''TA14'', ''T30'', ''T31'']"

definition GENERIC_PARAMS :: "str list" where
  "GENERIC_PARAMS = [''__DEPVAR__'', ''__INDEPVARS__'', ''__ID_VAR__'', ''__PANELVAR__'', ''__TIME_VAR__'', ''__CLUSTER_VAR__'']"

lemma generic_params_bound:
  assumes "t \<notin> set FIXED_TEMPLATES" "p \<notin> set GENERIC_PARAMS"
  shows "\<not> bound_param (string_values (template_params_for t spec cs)) p"
proof -
  have "fst ` set (string_values (template_params_for t spec cs)) \<subseteq> set GENERIC_PARAMS"
    using assms(1)
    by (auto simp: FIXED_TEMPLATES_def GENERIC_PARAMS_def template_params_for_def Let_def string_values_def
        map_filter_simps split: prod.splits option.splits)
  with assms(2) have "dict_get (string_values (template_params_for t spec cs)) p = None"
    by (auto simp: dict_get_None)
  then show ?thesis by (simp add: bound_param_def)
qed

lemma unbindable_not_ready:
  assumes "get_template lib t = Inr tpl" "t \<notin> set FIXED_TEMPLATES"
    and "s \<in> set (template_param_specs (dt_meta tpl))" "tp_required s" "tp_name s \<notin> set GENERIC_PARAMS" "\<not> blank (tp_name s)"
  shows "missing_params_of lib t (template_params_for t spec cs) \<noteq> Inr []"
proof
  assume "missing_params_of lib t (template_params_for t spec cs) = Inr []"
  then obtain contract where c: "build_plan_template_contract lib t (template_params_for t spec cs) = Inr contract"
    "missing_required_template_params contract = []"
    using assms(1) by (auto simp: missing_params_of_def bindE_Inr_iff)
  with assms(1) have "build_plan_freeze_contract t (dt_meta tpl) (string_values (template_params_for t spec cs)) = Inr contract"
    by (auto simp: contract_Inr)
  from missing_required_of_contract[OF this] c(2)
  have "\<forall>s\<in>set (template_param_specs (dt_meta tpl)). tp_required s \<longrightarrow> \<not> blank (tp_name s) \<longrightarrow>
          bound_param (string_values (template_params_for t spec cs)) (tp_name s)" by simp
  with assms(3,4,6) generic_params_bound[OF assms(2,5)] show False by blast
qed

lemma effects_template:
  "apply_confirmation_effects ex job c = Inr (job', c') \<Longrightarrow> j_selected_template_id job' = j_selected_template_id job"
  by (auto simp: apply_confirmation_effects_def Let_def bindE_Inr_iff split: if_splits)

text \<open>C29 (error) A job whose selected template requires a parameter that the service never binds can not be frozen:
  outside the five templates with bindings of their own only six names are bound, so every attempt fails
  and changes nothing, whatever the draft, the confirmation and the corrections.\<close>

theorem unbindable_template_never_freezes:
  assumes "store_load t j (w_store w) = Inr job" and "j_llm_plan job = None"
    and "j_selected_template_id job = Some template_id" and "\<not> blank template_id"
    and "get_template (be_library benv) template_id = Inr tpl" and "template_id \<notin> set FIXED_TEMPLATES"
    and "s \<in> set (template_param_specs (dt_meta tpl))" and "tp_required s" and "\<not> blank (tp_name s)"
    and "tp_name s \<notin> set GENERIC_PARAMS"
  shows "\<exists>e. freeze_plan (plan_env_of benv with_llm t expand columns fault) t j confirmation w = (w, Inl e)"
proof -
  let ?env = "plan_env_of benv with_llm t expand columns fault"
  have no: "ensure_required_inputs ?env job1 c template_id spec \<noteq> Inr ()" for job1 c spec
    using unbindable_not_ready[OF assms(5-8,10,9)]
    by (auto simp: ensure_required_inputs_def plan_env_of_def bindE_Inr_iff Let_def split: if_splits)
  obtain e where "prepare_freeze ?env t job confirmation = Inl e"
  proof (cases "prepare_freeze ?env t job confirmation")
    case (Inr r)
    note p = prepare_freeze_first[OF Inr assms(2)]
    then obtain x where "r = Inr x" by (cases r) auto
    with p obtain job1 c1 i where e: "apply_confirmation_effects (pe_expand ?env) job (effective_confirmation job confirmation) = Inr (job1, c1)"
      and b: "build_frozen_job ?env t job1 c1 i = Inr x" by blast
    have "resolve_template_id ?env job1 vars = Inr (template_id, job1)" for vars
      using effects_template[OF e] assms(3,4) by (simp add: resolve_template_id_def)
    with b no show thesis by (auto simp: build_frozen_job_def Let_def bindE_Inr_iff)
  qed
  then show ?thesis using assms(1) by (simp add: freeze_plan_def)
qed

text \<open>The correlation matrix \<open>T09\<close> of the library, one of the templates the language model may select, is such a
  template: it requires \<open>__NUMERIC_VARS__\<close>.\<close>

definition corr_library :: template_library where
  "corr_library =
     \<lparr>tl_index = LibraryDoc (JObj [(''tasks'', JObj [(''T09'', JObj [(''do_file'', JStr ''T09.do'')])])]),
      tl_do_files = (\<lambda>_. Some ''correlate __NUMERIC_VARS__''),
      tl_meta_files = (\<lambda>_. LibraryDoc (JObj [(''parameters'', JList [JObj [(''name'', JStr ''__NUMERIC_VARS__''), (''required'', JBool True)]])]))\<rparr>"

definition corr_build :: build_env where
  "corr_build = (sample_build [])\<lparr>be_library := corr_library\<rparr>"

definition corr_world :: world where
  "corr_world = drafted_world\<lparr>w_store := [(''acme'', ''job_1'') \<mapsto> JobFile (modelled_job\<lparr>j_selected_template_id := Some ''T09''\<rparr>)]\<rparr>"

theorem unbindable_template_never_freezes_witness:
  "\<exists>e. freeze_plan (plan_env_of corr_build True ''acme'' Inr (\<lambda>_ _. None) None) ''acme'' ''job_1''
          (plain_confirmation\<lparr>jc_variable_corrections := [(''__NUMERIC_VARS__'', ''income'')]\<rparr>) corr_world = (corr_world, Inl e)"
proof -
  have t: "case get_template (be_library corr_build) ''T09'' of
             Inr tpl \<Rightarrow> template_param_specs (dt_meta tpl) = [\<lparr>tp_name = ''__NUMERIC_VARS__'', tp_required = True\<rparr>] | Inl _ \<Rightarrow> False"
    by code_simp
  then obtain tpl where "get_template (be_library corr_build) ''T09'' = Inr tpl"
    "\<lparr>tp_name = ''__NUMERIC_VARS__'', tp_required = True\<rparr> \<in> set (template_param_specs (dt_meta tpl))"
    by (auto split: sum.splits)
  moreover have "check_job_ids ''acme'' ''job_1'' = Inr ()" "\<not> blank ''T09''" "\<not> blank ''__NUMERIC_VARS__''" by code_simp+
  moreover have "''T09'' \<notin> set FIXED_TEMPLATES" "''__NUMERIC_VARS__'' \<notin> set GENERIC_PARAMS" by code_simp+
  moreover have "j_llm_plan modelled_job = None" by code_simp
  ultimately show ?thesis
    by (intro unbindable_template_never_freezes
          [where job = "modelled_job\<lparr>j_selected_template_id := Some ''T09''\<rparr>" and template_id = "''T09''" and tpl = tpl
             and s = "\<lparr>tp_name = ''__NUMERIC_VARS__'', tp_required = True\<rparr>"])
       (simp_all add: corr_world_def store_load_JobFile)
qed

text \<open>The client is nevertheless told to complete the draft and to try again.\<close>

lemma corr_matrix_advice:
  "action_message_for_plan_freeze_missing [] [''__NUMERIC_VARS__''] = [CompleteDraft]"
  "next_actions_for_plan_freeze_missing job_id [] [''__NUMERIC_VARS__''] = [action_patch_draft job_id, action_retry_freeze job_id]"
  by (simp_all add: action_message_for_plan_freeze_missing_def next_actions_for_plan_freeze_missing_def
      needs_answers_def needs_variable_corrections_def needs_draft_patch_def VARIABLE_SELECTION_PARAMS_def DRAFT_PATCH_PARAMS_def)

end
