(* ===== verification/PyFloat.thy ===== *)
theory PyFloat
  imports PyJson
begin

text \<open>
  Python's \<open>float\<close> of a text: the decimal syntax with single underscores between digits, the special values,
  and the rounding to a 64-bit double, to the nearest one with ties to even. The sign of a zero is not kept.
\<close>

section \<open>Doubles\<close>

function bit_len :: "int \<Rightarrow> int" where
  "bit_len n = (if n \<le> 0 then 0 else 1 + bit_len (n div 2))"
  by pat_completeness auto
termination
  by (relation "measure nat") auto

declare bit_len.simps [simp del]

definition pow2 :: "int \<Rightarrow> rat" where
  "pow2 e = (if 0 \<le> e then of_int (2 ^ nat e) else 1 / of_int (2 ^ nat (- e)))"

text \<open>The exponent of the leading bit of a positive rational.\<close>

definition leading_exponent :: "rat \<Rightarrow> int" where
  "leading_exponent x =
     (case quotient_of x of
        (n, d) \<Rightarrow> (let k = bit_len n - bit_len d in if pow2 k \<le> x then k else k - 1))"

definition round_half_even :: "rat \<Rightarrow> int" where
  "round_half_even y =
     (let f = \<lfloor>y\<rfloor>; d = y - of_int f
      in if d < 1 / 2 then f else if 1 / 2 < d then f + 1 else if even f then f else f + 1)"

definition double_of_pos :: "rat \<Rightarrow> pyfloat" where
  "double_of_pos x =
     (let q = max (leading_exponent x - 52) (- 1074);
          v = of_int (round_half_even (x / pow2 q)) * pow2 q
      in if pow2 1024 \<le> v then PosInf else Finite v)"

fun neg_float :: "pyfloat \<Rightarrow> pyfloat" where
  "neg_float (Finite r) = Finite (- r)"
| "neg_float PosInf = NegInf"
| "neg_float NegInf = PosInf"
| "neg_float Nan = Nan"

definition double_of :: "rat \<Rightarrow> pyfloat" where
  "double_of x =
     (if x = 0 then Finite 0 else if 0 < x then double_of_pos x else neg_float (double_of_pos (- x)))"

section \<open>The syntax\<close>

definition span_digits :: "str \<Rightarrow> str \<times> str" where
  "span_digits s = (let P = (\<lambda>c. is_digit c \<or> c = CHR ''_'') in (takeWhile P s, dropWhile P s))"

fun digits_int :: "int \<Rightarrow> bool \<Rightarrow> str \<Rightarrow> int option" where
  "digits_int acc prev [] = (if prev then Some acc else None)"
| "digits_int acc prev (c # cs) =
     (if is_digit c then digits_int (10 * acc + (of_char c - 48)) True cs
      else if c = CHR ''_'' \<and> prev \<and> cs \<noteq> [] then digits_int acc False cs
      else None)"

definition digits_or_none :: "str \<Rightarrow> int option" where
  "digits_or_none s = (if s = [] then Some 0 else digits_int 0 False s)"

text \<open>The digits after an \<open>e\<close> or \<open>E\<close>, with a sign.\<close>

definition exponent_of :: "str \<Rightarrow> int option" where
  "exponent_of s =
     (case s of
        [] \<Rightarrow> Some 0
      | c # s1 \<Rightarrow>
          (if c \<in> {CHR ''e'', CHR ''E''}
           then (case s1 of
                   [] \<Rightarrow> None
                 | d # s2 \<Rightarrow>
                     (if d = CHR ''-'' then map_option uminus (digits_int 0 False s2)
                      else if d = CHR ''+'' then digits_int 0 False s2
                      else digits_int 0 False s1))
           else None))"

definition scale10 :: "int \<Rightarrow> int \<Rightarrow> rat" where
  "scale10 m e = (if 0 \<le> e then of_int (m * 10 ^ nat e) else of_int m / of_int (10 ^ nat (- e)))"

definition decimal_of :: "str \<Rightarrow> rat option" where
  "decimal_of s =
     (let (whole, r1) = span_digits s;
          (frac, r2) = (case r1 of c # r \<Rightarrow> if c = CHR ''.'' then span_digits r else ([], r1) | [] \<Rightarrow> ([], []))
      in if whole = [] \<and> frac = [] then None
         else case (digits_or_none whole, digits_or_none frac, exponent_of r2) of
                (Some w, Some f, Some e) \<Rightarrow>
                  (let k = length (filter is_digit frac) in Some (scale10 (w * 10 ^ k + f) (e - int k)))
              | _ \<Rightarrow> None)"

definition unsigned_float :: "str \<Rightarrow> pyfloat option" where
  "unsigned_float s =
     (let l = py_lower s
      in if l \<in> {''inf'', ''infinity''} then Some PosInf
         else if l = ''nan'' then Some Nan
         else map_option double_of (decimal_of s))"

text \<open>\<open>float(s)\<close>; \<open>None\<close> for \<open>ValueError\<close>.\<close>

definition float_of_str :: "str \<Rightarrow> pyfloat option" where
  "float_of_str s =
     (case py_strip s of
        [] \<Rightarrow> None
      | c # cs \<Rightarrow>
          if c = CHR ''-'' then map_option neg_float (unsigned_float cs)
          else if c = CHR ''+'' then unsigned_float cs
          else unsigned_float (c # cs))"

section \<open>Comparison\<close>

text \<open>\<open>x < y\<close>; every comparison with a NaN is false.\<close>

fun float_less :: "pyfloat \<Rightarrow> pyfloat \<Rightarrow> bool" where
  "float_less (Finite x) (Finite y) = (x < y)"
| "float_less NegInf (Finite _) = True"
| "float_less NegInf PosInf = True"
| "float_less (Finite _) PosInf = True"
| "float_less _ _ = False"

end
