(* ===== verification/Config.thy ===== *)
theory Config
  imports PyFloat UploadSessions LlmCalls
begin

text \<open>
  The settings of the processes: reading a .env file (utils/env.py), the settings with their defaults and
  clamping (config.py), and the parts built from them: job store, object store and client of the language
  model (infra/job_store_factory.py, infra/object_store_factory.py, infra/llm_client_factory.py).

  The environment of a process is a dictionary of texts. \<open>Path(s).expanduser()\<close> and the test for a file are
  parameters. Of the clients the factories build only the choice and the checks are kept.
\<close>

section \<open>The file .env\<close>

definition strip_optional_quotes :: "str \<Rightarrow> str" where
  "strip_optional_quotes value =
     (if length value < 2 then value
      else if hd value = last value \<and> hd value \<in> {CHR 0x27, CHR ''\"''} then butlast (tl value)
      else value)"

definition split_at_first :: "char \<Rightarrow> str \<Rightarrow> str \<times> str" where
  "split_at_first c s = (takeWhile (\<lambda>x. x \<noteq> c) s, drop 1 (dropWhile (\<lambda>x. x \<noteq> c) s))"

definition parse_dotenv_line :: "str \<Rightarrow> (str \<times> str) option" where
  "parse_dotenv_line raw =
     (let line = py_strip raw
      in if line = [] \<or> startswith line ''#'' then None
         else let body = (if startswith line ''export '' then py_lstrip (drop 7 line) else line)
              in if CHR ''='' \<notin> set body then None
                 else let (key, value) = split_at_first (CHR ''='') body
                      in if blank key then None
                         else Some (py_strip key, strip_optional_quotes (py_strip value)))"

fun load_dotenv_lines :: "bool \<Rightarrow> str list \<Rightarrow> (str, str) dict \<Rightarrow> (str, str) dict \<times> nat" where
  "load_dotenv_lines override [] environ = (environ, 0)"
| "load_dotenv_lines override (raw # raws) environ =
     (case parse_dotenv_line raw of
        None \<Rightarrow> load_dotenv_lines override raws environ
      | Some (key, value) \<Rightarrow>
          (if \<not> override \<and> dict_get environ key \<noteq> None then load_dotenv_lines override raws environ
           else let (e, n) = load_dotenv_lines override raws (dict_set environ key value) in (e, Suc n)))"

text \<open>\<open>None\<close> is a file that is missing or can not be read.\<close>

definition load_dotenv :: "bool \<Rightarrow> str list option \<Rightarrow> (str, str) dict \<Rightarrow> (str, str) dict \<times> nat" where
  "load_dotenv override content environ =
     (case content of None \<Rightarrow> (environ, 0) | Some raws \<Rightarrow> load_dotenv_lines override raws environ)"

section \<open>Values\<close>

definition int_value :: "str \<Rightarrow> int \<Rightarrow> int" where
  "int_value raw fallback = (case int_of_str raw of Some i \<Rightarrow> i | None \<Rightarrow> fallback)"

definition float_value :: "str \<Rightarrow> rat \<Rightarrow> pyfloat" where
  "float_value raw fallback = (case float_of_str raw of Some x \<Rightarrow> x | None \<Rightarrow> Finite fallback)"

definition bool_value :: "str \<Rightarrow> bool \<Rightarrow> bool" where
  "bool_value raw fallback =
     (let value = py_lower (py_strip raw)
      in if value \<in> {''1'', ''true'', ''yes'', ''y'', ''on''} then True
         else if value \<in> {''0'', ''false'', ''no'', ''n'', ''off''} then False
         else fallback)"

definition clamped_ratio :: "str \<Rightarrow> rat \<Rightarrow> pyfloat" where
  "clamped_ratio raw fallback =
     (let ratio = float_value raw fallback
      in if float_less ratio (Finite 0) then Finite 0
         else if float_less (Finite 1) ratio then Finite 1
         else ratio)"

definition clamped_int :: "str \<Rightarrow> int \<Rightarrow> int option \<Rightarrow> int option \<Rightarrow> int" where
  "clamped_int raw fallback min_value max_value =
     (let value = int_value raw fallback
      in if (case min_value of Some m \<Rightarrow> value < m | None \<Rightarrow> False) then the min_value
         else if (case max_value of Some m \<Rightarrow> m < value | None \<Rightarrow> False) then the max_value
         else value)"

section \<open>\<open>shlex.split\<close>\<close>

text \<open>
  The states of the lexer in POSIX mode: between words, in a word, in quotes, and after a backslash in one of
  the latter two. \<open>None\<close> is the \<open>ValueError\<close> of an open quotation or a final backslash.
\<close>

datatype shlex_state = Between | InWord | InQuote char | EscapedIn shlex_state

definition shlex_blank :: "char \<Rightarrow> bool" where
  "shlex_blank c = (c \<in> {CHR '' '', CHR 0x09, CHR 0x0A, CHR 0x0D})"

definition shlex_quote :: "char \<Rightarrow> bool" where
  "shlex_quote c = (c \<in> {CHR 0x27, CHR ''\"''})"

abbreviation "backslash \<equiv> CHR 0x5C"

fun shlex_scan :: "shlex_state \<Rightarrow> str \<Rightarrow> str \<Rightarrow> str list option" where
  "shlex_scan Between token [] = Some []"
| "shlex_scan InWord token [] = Some [token]"
| "shlex_scan (InQuote q) token [] = None"
| "shlex_scan (EscapedIn st) token [] = None"
| "shlex_scan Between token (c # cs) =
     (if shlex_blank c then shlex_scan Between [] cs
      else if c = backslash then shlex_scan (EscapedIn InWord) [] cs
      else if shlex_quote c then shlex_scan (InQuote c) [] cs
      else shlex_scan InWord [c] cs)"
| "shlex_scan InWord token (c # cs) =
     (if shlex_blank c then map_option ((#) token) (shlex_scan Between [] cs)
      else if c = backslash then shlex_scan (EscapedIn InWord) token cs
      else if shlex_quote c then shlex_scan (InQuote c) token cs
      else shlex_scan InWord (token @ [c]) cs)"
| "shlex_scan (InQuote q) token (c # cs) =
     (if c = q then shlex_scan InWord token cs
      else if c = backslash \<and> q = CHR ''\"'' then shlex_scan (EscapedIn (InQuote q)) token cs
      else shlex_scan (InQuote q) (token @ [c]) cs)"
| "shlex_scan (EscapedIn st) token (c # cs) =
     (case st of
        InQuote q \<Rightarrow> shlex_scan st (token @ (if c \<noteq> backslash \<and> c \<noteq> q then [backslash, c] else [c])) cs
      | _ \<Rightarrow> shlex_scan st (token @ [c]) cs)"

definition shlex_split :: "str \<Rightarrow> str list option" where
  "shlex_split s = shlex_scan Between [] s"

section \<open>The settings\<close>

text \<open>\<open>str.upper\<close> on Latin-1, where the letters without an upper case in it (sharp s, micro, y with diaeresis) stay.\<close>

definition py_upper_char :: "char \<Rightarrow> char" where
  "py_upper_char c =
     (let n = (of_char c :: nat)
      in if (97 \<le> n \<and> n \<le> 122) \<or> (224 \<le> n \<and> n \<le> 254 \<and> n \<noteq> 247) then char_of (n - 32) else c)"

definition py_upper :: "str \<Rightarrow> str" where
  "py_upper s = map py_upper_char s"

record settings =
  cf_jobs_dir :: str
  cf_job_store_backend :: str
  cf_job_store_postgres_dsn :: str
  cf_job_store_redis_url :: str
  cf_queue_dir :: str
  cf_queue_lease_ttl_seconds :: int
  cf_admin_data_dir :: str
  cf_admin_username :: str
  cf_admin_password :: str
  cf_do_template_library_dir :: str
  cf_stata_cmd :: "str list"
  cf_log_level :: str
  cf_upload_object_store_backend :: str
  cf_upload_s3_endpoint :: str
  cf_upload_s3_region :: str
  cf_upload_s3_bucket :: str
  cf_upload_s3_access_key_id :: str
  cf_upload_s3_secret_access_key :: str
  cf_upload_presigned_url_ttl_seconds :: int
  cf_upload_max_file_size_bytes :: int
  cf_upload_max_sessions_per_job :: int
  cf_upload_multipart_threshold_bytes :: int
  cf_upload_multipart_min_part_size_bytes :: int
  cf_upload_multipart_part_size_bytes :: int
  cf_upload_multipart_max_part_size_bytes :: int
  cf_upload_multipart_max_parts :: int
  cf_upload_max_bundle_files :: int
  cf_ss_env :: str
  cf_llm_provider :: str
  cf_llm_base_url :: str
  cf_llm_api_key :: str
  cf_llm_model :: str
  cf_llm_temperature :: "pyfloat option"
  cf_llm_seed :: "str option"
  cf_llm_timeout_seconds :: pyfloat
  cf_llm_max_attempts :: int
  cf_llm_retry_backoff_base_seconds :: pyfloat
  cf_llm_retry_backoff_max_seconds :: pyfloat
  cf_worker_id :: str
  cf_worker_idle_sleep_seconds :: pyfloat
  cf_worker_shutdown_grace_seconds :: pyfloat
  cf_worker_max_attempts :: int
  cf_worker_retry_backoff_base_seconds :: pyfloat
  cf_worker_retry_backoff_max_seconds :: pyfloat
  cf_worker_metrics_port :: int
  cf_tracing_enabled :: bool
  cf_tracing_service_name :: str
  cf_tracing_exporter :: str
  cf_tracing_otlp_endpoint :: str
  cf_tracing_sample_ratio :: pyfloat

definition is_production :: "settings \<Rightarrow> bool" where
  "is_production cfg = (cf_ss_env cfg \<in> {''production'', ''prod''})"

record path_env =
  pv_expand :: "str \<Rightarrow> str"
  pv_exists :: "str \<Rightarrow> bool"

definition env_get :: "(str, str) dict \<Rightarrow> str \<Rightarrow> str \<Rightarrow> str" where
  "env_get e key fallback = (case dict_get e key of Some v \<Rightarrow> v | None \<Rightarrow> fallback)"

definition env_text :: "(str, str) dict \<Rightarrow> str \<Rightarrow> str \<Rightarrow> str" where
  "env_text e key fallback = py_strip (env_get e key fallback)"

definition path_child :: "str \<Rightarrow> str \<Rightarrow> str" where
  "path_child dir name = (if dir = ''.'' then name else if last dir = CHR ''/'' then dir @ name else dir @ ''/'' @ name)"

definition load_llm_settings :: "(str, str) dict \<Rightarrow> pyfloat \<times> int \<times> pyfloat \<times> pyfloat" where
  "load_llm_settings e =
     (float_value (env_get e ''SS_LLM_TIMEOUT_SECONDS'' ''30.0'') 30,
      int_value (env_get e ''SS_LLM_MAX_ATTEMPTS'' ''3'') 3,
      float_value (env_get e ''SS_LLM_RETRY_BACKOFF_BASE_SECONDS'' ''1.0'') 1,
      float_value (env_get e ''SS_LLM_RETRY_BACKOFF_MAX_SECONDS'' ''30.0'') 30)"

definition load_stata_cmd :: "path_env \<Rightarrow> (str, str) dict \<Rightarrow> exn + str list" where
  "load_stata_cmd pv e =
     (let raw = env_text e ''SS_STATA_CMD'' []
      in if raw = [] then Inr []
         else if pv_exists pv raw then Inr [raw]
         else case shlex_split raw of None \<Rightarrow> Inl (PyErr PyValueError) | Some words \<Rightarrow> Inr words)"

text \<open>The limits of uploads. Defaults are texts in the code too; sizes are in bytes.\<close>

abbreviation "MIB \<equiv> 1048576 :: int"

definition load_upload_limits :: "(str, str) dict \<Rightarrow> upload_config" where
  "load_upload_limits e =
     (let min_part = clamped_int (env_get e ''SS_UPLOAD_MULTIPART_MIN_PART_SIZE_BYTES'' (show_int (5 * MIB))) (5 * MIB) (Some 1) None;
          max_part = clamped_int (env_get e ''SS_UPLOAD_MULTIPART_MAX_PART_SIZE_BYTES'' (show_int (64 * MIB))) (64 * MIB) (Some min_part) None
      in \<lparr>uc_ttl_seconds = clamped_int (env_get e ''SS_UPLOAD_PRESIGNED_URL_TTL_SECONDS'' ''900'') 900 (Some 1) (Some 900),
          uc_max_file_size_bytes = clamped_int (env_get e ''SS_UPLOAD_MAX_FILE_SIZE_BYTES'' (show_int (5120 * MIB))) (5120 * MIB) (Some 1) None,
          uc_max_sessions_per_job = clamped_int (env_get e ''SS_UPLOAD_MAX_SESSIONS_PER_JOB'' ''64'') 64 (Some 1) None,
          uc_multipart_threshold_bytes = clamped_int (env_get e ''SS_UPLOAD_MULTIPART_THRESHOLD_BYTES'' (show_int (64 * MIB))) (64 * MIB) (Some 1) None,
          uc_multipart_min_part_size_bytes = min_part,
          uc_multipart_part_size_bytes =
            clamped_int (env_get e ''SS_UPLOAD_MULTIPART_PART_SIZE_BYTES'' (show_int (8 * MIB))) (8 * MIB) (Some min_part) (Some max_part),
          uc_multipart_max_part_size_bytes = max_part,
          uc_multipart_max_parts = clamped_int (env_get e ''SS_UPLOAD_MULTIPART_MAX_PARTS'' ''10000'') 10000 (Some 1) (Some 10000),
          uc_max_bundle_files = clamped_int (env_get e ''SS_UPLOAD_MAX_BUNDLE_FILES'' ''64'') 64 (Some 1) None\<rparr>)"

definition KEYED_PROVIDERS :: "str list" where
  "KEYED_PROVIDERS = [''openai'', ''openai_compatible'', ''yunwu'']"

definition DEFAULT_MODEL :: str where
  "DEFAULT_MODEL = ''claude-opus-4-5-20251101''"

definition check_llm_provider :: "str \<Rightarrow> str \<Rightarrow> exn + unit" where
  "check_llm_provider provider api_key =
     (if provider \<in> {[], ''stub''} then Inl (DraftErr LLMConfiguration)
      else if provider \<in> set KEYED_PROVIDERS \<and> api_key = [] then Inl (DraftErr LLMConfiguration)
      else Inr ())"

definition llm_model_of :: "(str, str) dict \<Rightarrow> str" where
  "llm_model_of e =
     (let m = env_text e ''SS_LLM_MODEL'' DEFAULT_MODEL in if m = ''claude-opus-4-5'' then DEFAULT_MODEL else m)"

definition ss_env_of :: "(str, str) dict \<Rightarrow> str" where
  "ss_env_of e = (let name = py_lower (env_text e ''SS_ENV'' ''development'') in if name = [] then ''development'' else name)"

definition load_config :: "path_env \<Rightarrow> (str, str) dict \<Rightarrow> exn + settings" where
  "load_config pv e =
     (let ss_env = ss_env_of e;
          jobs_dir = pv_expand pv (env_get e ''SS_JOBS_DIR'' ''./jobs'');
          user = env_text e ''SS_ADMIN_USERNAME'' ''admin'';
          password = env_text e ''SS_ADMIN_PASSWORD'' [];
          provider = py_lower (env_text e ''SS_LLM_PROVIDER'' []);
          api_key = env_text e ''SS_LLM_API_KEY'' [];
          temperature = env_text e ''SS_LLM_TEMPERATURE'' [];
          seed = env_text e ''SS_LLM_SEED'' [];
          service_name = env_text e ''SS_TRACING_SERVICE_NAME'' ''ss'';
          exporter = py_lower (env_text e ''SS_TRACING_EXPORTER'' ''otlp'');
          limits = load_upload_limits e;
          (llm_timeout, llm_attempts, llm_base, llm_max) = load_llm_settings e
      in bindE (load_stata_cmd pv e) (\<lambda>stata_cmd.
         bindE (check_llm_provider provider api_key) (\<lambda>_.
           Inr \<lparr>cf_jobs_dir = jobs_dir,
                cf_job_store_backend = py_lower (env_text e ''SS_JOB_STORE_BACKEND'' ''file''),
                cf_job_store_postgres_dsn = env_text e ''SS_JOB_STORE_POSTGRES_DSN'' [],
                cf_job_store_redis_url = env_text e ''SS_JOB_STORE_REDIS_URL'' [],
                cf_queue_dir = pv_expand pv (env_get e ''SS_QUEUE_DIR'' ''./queue''),
                cf_queue_lease_ttl_seconds = int_value (env_get e ''SS_QUEUE_LEASE_TTL_SECONDS'' ''60'') 60,
                cf_admin_data_dir = pv_expand pv (env_get e ''SS_ADMIN_DATA_DIR'' (path_child jobs_dir ''_admin'')),
                cf_admin_username = (if user = [] then ''admin'' else user),
                cf_admin_password = (if password = [] \<and> ss_env = ''development'' then ''admin'' else password),
                cf_do_template_library_dir = pv_expand pv (env_get e ''SS_DO_TEMPLATE_LIBRARY_DIR'' ''./assets/stata_do_library''),
                cf_stata_cmd = stata_cmd,
                cf_log_level = py_upper (env_text e ''SS_LOG_LEVEL'' ''INFO''),
                cf_upload_object_store_backend = py_lower (env_text e ''SS_UPLOAD_OBJECT_STORE_BACKEND'' ''s3''),
                cf_upload_s3_endpoint = env_text e ''SS_UPLOAD_S3_ENDPOINT'' [],
                cf_upload_s3_region = env_text e ''SS_UPLOAD_S3_REGION'' [],
                cf_upload_s3_bucket = env_text e ''SS_UPLOAD_S3_BUCKET'' [],
                cf_upload_s3_access_key_id = env_text e ''SS_UPLOAD_S3_ACCESS_KEY_ID'' [],
                cf_upload_s3_secret_access_key = env_text e ''SS_UPLOAD_S3_SECRET_ACCESS_KEY'' [],
                cf_upload_presigned_url_ttl_seconds = uc_ttl_seconds limits,
                cf_upload_max_file_size_bytes = uc_max_file_size_bytes limits,
                cf_upload_max_sessions_per_job = uc_max_sessions_per_job limits,
                cf_upload_multipart_threshold_bytes = uc_multipart_threshold_bytes limits,
                cf_upload_multipart_min_part_size_bytes = uc_multipart_min_part_size_bytes limits,
                cf_upload_multipart_part_size_bytes = uc_multipart_part_size_bytes limits,
                cf_upload_multipart_max_part_size_bytes = uc_multipart_max_part_size_bytes limits,
                cf_upload_multipart_max_parts = uc_multipart_max_parts limits,
                cf_upload_max_bundle_files = uc_max_bundle_files limits,
                cf_ss_env = ss_env, cf_llm_provider = provider,
                cf_llm_base_url = env_text e ''SS_LLM_BASE_URL'' ''https://yunwu.ai/v1'',
                cf_llm_api_key = api_key, cf_llm_model = llm_model_of e,
                cf_llm_temperature = (if temperature = [] then None else Some (float_value temperature 0)),
                cf_llm_seed = (if seed = [] then None else Some seed),
                cf_llm_timeout_seconds = llm_timeout, cf_llm_max_attempts = llm_attempts,
                cf_llm_retry_backoff_base_seconds = llm_base, cf_llm_retry_backoff_max_seconds = llm_max,
                cf_worker_id = env_text e ''SS_WORKER_ID'' ''worker-local'',
                cf_worker_idle_sleep_seconds = float_value (env_get e ''SS_WORKER_IDLE_SLEEP_SECONDS'' ''1.0'') 1,
                cf_worker_shutdown_grace_seconds = float_value (env_get e ''SS_WORKER_SHUTDOWN_GRACE_SECONDS'' ''30.0'') 30,
                cf_worker_max_attempts = int_value (env_get e ''SS_WORKER_MAX_ATTEMPTS'' ''3'') 3,
                cf_worker_retry_backoff_base_seconds = float_value (env_get e ''SS_WORKER_RETRY_BACKOFF_BASE_SECONDS'' ''1.0'') 1,
                cf_worker_retry_backoff_max_seconds = float_value (env_get e ''SS_WORKER_RETRY_BACKOFF_MAX_SECONDS'' ''30.0'') 30,
                cf_worker_metrics_port = int_value (env_get e ''SS_WORKER_METRICS_PORT'' ''8001'') 8001,
                cf_tracing_enabled = bool_value (env_get e ''SS_TRACING_ENABLED'' ''0'') False,
                cf_tracing_service_name = (if service_name = [] then ''ss'' else service_name),
                cf_tracing_exporter = (if exporter \<in> {''otlp'', ''console''} then exporter else ''otlp''),
                cf_tracing_otlp_endpoint = env_text e ''SS_TRACING_OTLP_ENDPOINT'' ''http://localhost:4318/v1/traces'',
                cf_tracing_sample_ratio = clamped_ratio (env_get e ''SS_TRACING_SAMPLE_RATIO'' ''1.0'') 1\<rparr>)))"

definition upload_config_of :: "settings \<Rightarrow> upload_config" where
  "upload_config_of cfg =
     \<lparr>uc_ttl_seconds = cf_upload_presigned_url_ttl_seconds cfg,
      uc_max_file_size_bytes = cf_upload_max_file_size_bytes cfg,
      uc_max_sessions_per_job = cf_upload_max_sessions_per_job cfg,
      uc_multipart_threshold_bytes = cf_upload_multipart_threshold_bytes cfg,
      uc_multipart_min_part_size_bytes = cf_upload_multipart_min_part_size_bytes cfg,
      uc_multipart_part_size_bytes = cf_upload_multipart_part_size_bytes cfg,
      uc_multipart_max_part_size_bytes = cf_upload_multipart_max_part_size_bytes cfg,
      uc_multipart_max_parts = cf_upload_multipart_max_parts cfg,
      uc_max_bundle_files = cf_upload_max_bundle_files cfg\<rparr>"

section \<open>Factories\<close>

datatype startup_error =
    BackendUnsupported str
  | StoreConfigInvalid str
  | StataCmdNotConfigured
  | StataCmdInvalid str
  | SettingsInvalid exn

text \<open>The backend other than files; the message of a configuration error names the variable.\<close>

definition build_job_store :: "settings \<Rightarrow> startup_error + str" where
  "build_job_store cfg =
     (if cf_job_store_backend cfg = ''file'' then Inr (cf_jobs_dir cfg) else Inl (BackendUnsupported (cf_job_store_backend cfg)))"

definition require_value :: "str \<Rightarrow> str \<Rightarrow> startup_error + str" where
  "require_value value label =
     (let candidate = py_strip value in if candidate = [] then Inl (StoreConfigInvalid (''missing '' @ label)) else Inr candidate)"

record s3_settings =
  s3_endpoint :: "str option"
  s3_region :: "str option"
  s3_bucket :: str
  s3_access_key_id :: str
  s3_secret_access_key :: str

definition strip_or_none :: "str \<Rightarrow> str option" where
  "strip_or_none s = (let t = py_strip s in if t = [] then None else Some t)"

definition s3_from_config :: "settings \<Rightarrow> startup_error + s3_settings" where
  "s3_from_config cfg =
     bindE (require_value (cf_upload_s3_bucket cfg) ''SS_UPLOAD_S3_BUCKET'') (\<lambda>bucket.
     bindE (require_value (cf_upload_s3_access_key_id cfg) ''SS_UPLOAD_S3_ACCESS_KEY_ID'') (\<lambda>key.
     bindE (require_value (cf_upload_s3_secret_access_key cfg) ''SS_UPLOAD_S3_SECRET_ACCESS_KEY'') (\<lambda>secret.
       Inr \<lparr>s3_endpoint = strip_or_none (cf_upload_s3_endpoint cfg), s3_region = strip_or_none (cf_upload_s3_region cfg),
            s3_bucket = bucket, s3_access_key_id = key, s3_secret_access_key = secret\<rparr>)))"

definition build_object_store :: "settings \<Rightarrow> startup_error + s3_settings" where
  "build_object_store cfg =
     (let backend = py_lower (py_strip (cf_upload_object_store_backend cfg))
      in if backend \<in> {[], ''s3''} then s3_from_config cfg
         else Inl (StoreConfigInvalid (''unsupported SS_UPLOAD_OBJECT_STORE_BACKEND: '' @ backend)))"

text \<open>\<open>build_llm_client\<close> checks these settings (\<open>check_llm_settings\<close>).\<close>

definition llm_settings_of :: "settings \<Rightarrow> llm_settings" where
  "llm_settings_of cfg =
     \<lparr>lc_provider = cf_llm_provider cfg, lc_api_key = cf_llm_api_key cfg, lc_model = cf_llm_model cfg,
      lc_base_url = cf_llm_base_url cfg\<rparr>"

end
