(* ===== verification/Startup.thy ===== *)
theory Startup
  imports Config
begin

text \<open>
  Starting and probing the processes: the readiness report (domain/health_service.py, api/health.py), the gate
  of the service for the object store (main.py), and what a worker checks before its loop (worker.py).

  Whether a directory can be made and written is a parameter, as are the file system and the search path that
  the check of the Stata command asks. Logging is left out; texts of OS errors are the parameter's.
\<close>

section \<open>The readiness report\<close>

record dependency_check =
  dc_ok :: bool
  dc_detail :: "str option"

abbreviation check_result :: "bool \<Rightarrow> str \<Rightarrow> dependency_check" where
  "check_result ok detail \<equiv> \<lparr>dc_ok = ok, dc_detail = Some detail\<rparr>"

record production_gate =
  pg_is_production :: bool
  pg_ss_env :: str
  pg_llm_provider :: str
  pg_llm_api_key :: str
  pg_llm_base_url :: str
  pg_llm_model :: str
  pg_stata_cmd :: "str list"
  pg_upload_object_store_backend :: str
  pg_upload_s3_bucket :: str
  pg_upload_s3_access_key_id :: str
  pg_upload_s3_secret_access_key :: str

definition gate_of :: "settings \<Rightarrow> production_gate" where
  "gate_of cfg =
     \<lparr>pg_is_production = is_production cfg, pg_ss_env = cf_ss_env cfg, pg_llm_provider = cf_llm_provider cfg,
      pg_llm_api_key = cf_llm_api_key cfg, pg_llm_base_url = cf_llm_base_url cfg, pg_llm_model = cf_llm_model cfg,
      pg_stata_cmd = cf_stata_cmd cfg, pg_upload_object_store_backend = cf_upload_object_store_backend cfg,
      pg_upload_s3_bucket = cf_upload_s3_bucket cfg, pg_upload_s3_access_key_id = cf_upload_s3_access_key_id cfg,
      pg_upload_s3_secret_access_key = cf_upload_s3_secret_access_key cfg\<rparr>"

datatype dir_probe = DirWritable | DirFault str | NotADirectory

fun check_dir_writable :: "dir_probe \<Rightarrow> dependency_check" where
  "check_dir_writable DirWritable = \<lparr>dc_ok = True, dc_detail = None\<rparr>"
| "check_dir_writable (DirFault detail) = check_result False detail"
| "check_dir_writable NotADirectory = check_result False ''not_a_directory''"

definition skipped_non_production :: dependency_check where
  "skipped_non_production = check_result True ''skipped_non_production''"

text \<open>The names of the settings that are blank.\<close>

definition missing_names :: "(str \<times> str) list \<Rightarrow> str list" where
  "missing_names settings = map fst (filter (\<lambda>(name, value). blank value) settings)"

definition llm_missing_env_vars :: "production_gate \<Rightarrow> str list" where
  "llm_missing_env_vars g =
     missing_names [(''SS_LLM_API_KEY'', pg_llm_api_key g), (''SS_LLM_MODEL'', pg_llm_model g),
                    (''SS_LLM_BASE_URL'', pg_llm_base_url g)]"

definition missing_check :: "str list \<Rightarrow> str \<Rightarrow> dependency_check" where
  "missing_check missing detail =
     (if missing \<noteq> [] then check_result False (''missing:'' @ py_join '','' missing) else check_result True detail)"

definition check_llm_production_gate :: "production_gate \<Rightarrow> dependency_check" where
  "check_llm_production_gate g =
     (if \<not> pg_is_production g then skipped_non_production
      else let provider = py_lower (py_strip (pg_llm_provider g))
           in if provider \<in> {[], ''stub''} then check_result False ''stub_or_empty_provider''
              else if provider \<in> set KEYED_PROVIDERS then missing_check (llm_missing_env_vars g) provider
              else check_result False (''unsupported_provider:'' @ provider))"

definition check_runner_production_gate :: "production_gate \<Rightarrow> dependency_check" where
  "check_runner_production_gate g =
     (if \<not> pg_is_production g then skipped_non_production
      else if pg_stata_cmd g = [] then check_result False ''SS_STATA_CMD_not_set''
      else check_result True ''configured'')"

definition s3_missing_env_vars :: "production_gate \<Rightarrow> str list" where
  "s3_missing_env_vars g =
     missing_names [(''SS_UPLOAD_S3_BUCKET'', pg_upload_s3_bucket g),
                    (''SS_UPLOAD_S3_ACCESS_KEY_ID'', pg_upload_s3_access_key_id g),
                    (''SS_UPLOAD_S3_SECRET_ACCESS_KEY'', pg_upload_s3_secret_access_key g)]"

definition check_upload_store_production_gate :: "production_gate \<Rightarrow> dependency_check" where
  "check_upload_store_production_gate g =
     (if \<not> pg_is_production g then skipped_non_production
      else let backend = py_lower (py_strip (pg_upload_object_store_backend g))
           in if backend \<in> {[], ''fake''} then check_result False ''fake_or_empty_backend''
              else if backend = ''s3'' then missing_check (s3_missing_env_vars g) ''s3''
              else check_result False (''unsupported_backend:'' @ backend))"

record readiness_report =
  rr_ok :: bool
  rr_checks :: "(str \<times> dependency_check) list"

text \<open>\<open>client\<close> is the name of the class of the model's client.\<close>

definition readiness :: "production_gate \<Rightarrow> dir_probe \<Rightarrow> dir_probe \<Rightarrow> str \<Rightarrow> bool \<Rightarrow> readiness_report" where
  "readiness g jobs_dir queue_dir client shutting_down =
     (let checks =
        [(''shutting_down'', \<lparr>dc_ok = \<not> shutting_down, dc_detail = (if shutting_down then Some ''shutdown_in_progress'' else None)\<rparr>),
         (''jobs_dir'', check_dir_writable jobs_dir), (''queue_dir'', check_dir_writable queue_dir),
         (''llm'', check_result True (pg_llm_provider g @ '':'' @ client)),
         (''production_mode'', check_result True
            (if pg_is_production g then ''production''
             else if blank (pg_ss_env g) then ''non_production'' else py_strip (pg_ss_env g))),
         (''prod_llm'', check_llm_production_gate g), (''prod_runner'', check_runner_production_gate g),
         (''prod_upload_object_store'', check_upload_store_production_gate g)]
      in \<lparr>rr_ok = list_all (\<lambda>(name, c). dc_ok c) checks, rr_checks = checks\<rparr>)"

record health_response =
  hr_status_code :: int
  hr_status :: str
  hr_checks :: "(str \<times> dependency_check) list"
  hr_checked_at :: str

definition health_live :: "str \<Rightarrow> health_response" where
  "health_live now =
     \<lparr>hr_status_code = 200, hr_status = ''ok'', hr_checks = [(''process'', \<lparr>dc_ok = True, dc_detail = None\<rparr>)], hr_checked_at = now\<rparr>"

definition health_ready :: "settings \<Rightarrow> dir_probe \<Rightarrow> dir_probe \<Rightarrow> str \<Rightarrow> bool \<Rightarrow> str \<Rightarrow> health_response" where
  "health_ready cfg jobs_dir queue_dir client shutting_down now =
     (let r = readiness (gate_of cfg) jobs_dir queue_dir client shutting_down
      in \<lparr>hr_status_code = (if rr_ok r then 200 else 503), hr_status = (if rr_ok r then ''ok'' else ''unhealthy''),
          hr_checks = rr_checks r, hr_checked_at = now\<rparr>)"

section \<open>Starting the service\<close>

definition validate_production_upload_object_store :: "settings \<Rightarrow> startup_error + unit" where
  "validate_production_upload_object_store cfg =
     (if \<not> is_production cfg then Inr () else bindE (build_object_store cfg) (\<lambda>_. Inr ()))"

section \<open>Starting a worker\<close>

text \<open>
  \<open>Path(executable)\<close> is absolute or has a parent other than the working directory: its text has a slash that is
  not at its end, apart from single dots. The probes are asked about the resolved path, and the name.
\<close>

record command_env =
  ce_is_file :: "str \<Rightarrow> bool"
  ce_is_executable :: "str \<Rightarrow> bool"
  ce_which :: "str \<Rightarrow> bool"
  ce_resolve :: "str \<Rightarrow> str"

definition looks_like_path :: "str \<Rightarrow> bool" where
  "looks_like_path executable =
     (startswith executable ''/'' \<or> 2 \<le> length (filter (\<lambda>p. p \<noteq> [] \<and> p \<noteq> ''.'') (py_split (CHR ''/'') executable)))"

definition validate_stata_cmd :: "command_env \<Rightarrow> str list \<Rightarrow> startup_error + unit" where
  "validate_stata_cmd env stata_cmd =
     (let executable = py_strip (hd stata_cmd)
      in if looks_like_path executable
         then let resolved = (if startswith executable ''/'' then executable else ce_resolve env executable)
              in if \<not> ce_is_file env resolved then Inl (StataCmdInvalid ''not_found'')
                 else if \<not> ce_is_executable env resolved then Inl (StataCmdInvalid ''not_executable'')
                 else Inr ()
         else if ce_which env executable then Inr () else Inl (StataCmdInvalid ''not_in_path''))"

definition require_stata_cmd :: "command_env \<Rightarrow> str list \<Rightarrow> startup_error + str list" where
  "require_stata_cmd env stata_cmd =
     (if stata_cmd = [] then Inl StataCmdNotConfigured
      else bindE (validate_stata_cmd env stata_cmd) (\<lambda>_. Inr stata_cmd))"

record worker_parts =
  wp_jobs_dir :: str
  wp_queue_dir :: str
  wp_lease_ttl_seconds :: int
  wp_stata_cmd :: "str list"
  wp_max_attempts :: int
  wp_backoff_base_seconds :: pyfloat
  wp_backoff_max_seconds :: pyfloat

text \<open>The template library is wired last; \<open>library\<close> is the error of reading its index, if any.\<close>

definition build_worker_service :: "command_env \<Rightarrow> exn option \<Rightarrow> settings \<Rightarrow> startup_error + worker_parts" where
  "build_worker_service env library cfg =
     bindE (build_job_store cfg) (\<lambda>jobs_dir.
     bindE (require_stata_cmd env (cf_stata_cmd cfg)) (\<lambda>stata_cmd.
     bindE (require_stata_cmd env (cf_stata_cmd cfg)) (\<lambda>_.
       case library of
         Some e \<Rightarrow> Inl (SettingsInvalid e)
       | None \<Rightarrow>
           Inr \<lparr>wp_jobs_dir = jobs_dir, wp_queue_dir = cf_queue_dir cfg, wp_lease_ttl_seconds = cf_queue_lease_ttl_seconds cfg,
                wp_stata_cmd = stata_cmd, wp_max_attempts = cf_worker_max_attempts cfg,
                wp_backoff_base_seconds = cf_worker_retry_backoff_base_seconds cfg,
                wp_backoff_max_seconds = cf_worker_retry_backoff_max_seconds cfg\<rparr>)))"

end
