(* ===== verification/StartupLaws.thy ===== *)
theory StartupLaws
  imports Startup UploadLaws
begin

text \<open>
  What the settings guarantee: upload limits are consistent whatever the environment of the process holds, the
  readiness report of a production service is good exactly when its parts can be built, and shell words.
\<close>

section \<open>Clamped values\<close>

lemma clamped_int_min: "m \<le> clamped_int raw d (Some m) None"
  by (simp add: clamped_int_def Let_def)

lemma clamped_int_between:
  "m \<le> M \<Longrightarrow> m \<le> clamped_int raw d (Some m) (Some M) \<and> clamped_int raw d (Some m) (Some M) \<le> M"
  by (simp add: clamped_int_def Let_def)

lemma clamped_ratio_range:
  "clamped_ratio raw d = Nan \<or> (\<exists>r. clamped_ratio raw d = Finite r \<and> 0 \<le> r \<and> r \<le> 1)"
  by (cases "float_value raw d") (auto simp: clamped_ratio_def Let_def)

definition limits_consistent :: "upload_config \<Rightarrow> bool" where
  "limits_consistent l \<longleftrightarrow>
     1 \<le> uc_ttl_seconds l \<and> uc_ttl_seconds l \<le> 900 \<and> 1 \<le> uc_max_file_size_bytes l \<and>
     1 \<le> uc_max_sessions_per_job l \<and> 1 \<le> uc_multipart_threshold_bytes l \<and>
     1 \<le> uc_multipart_min_part_size_bytes l \<and>
     uc_multipart_min_part_size_bytes l \<le> uc_multipart_part_size_bytes l \<and>
     uc_multipart_part_size_bytes l \<le> uc_multipart_max_part_size_bytes l \<and>
     1 \<le> uc_multipart_max_parts l \<and> uc_multipart_max_parts l \<le> 10000 \<and> 1 \<le> uc_max_bundle_files l"

lemma loaded_limits_consistent: "limits_consistent (load_upload_limits e)"
proof -
  define lo where "lo = clamped_int (env_get e ''SS_UPLOAD_MULTIPART_MIN_PART_SIZE_BYTES'' (show_int (5 * MIB))) (5 * MIB) (Some 1) None"
  define hi where "hi = clamped_int (env_get e ''SS_UPLOAD_MULTIPART_MAX_PART_SIZE_BYTES'' (show_int (64 * MIB))) (64 * MIB) (Some lo) None"
  have "1 \<le> lo" "lo \<le> hi" unfolding lo_def hi_def by (rule clamped_int_min)+
  then show ?thesis
    unfolding limits_consistent_def load_upload_limits_def Let_def lo_def[symmetric] hi_def[symmetric]
    by (simp add: clamped_int_min clamped_int_between)
qed

lemma load_config_parts:
  assumes "load_config pv e = Inr cfg"
  shows "upload_config_of cfg = load_upload_limits e"
    and "cf_llm_provider cfg = py_lower (env_text e ''SS_LLM_PROVIDER'' [])"
    and "cf_upload_object_store_backend cfg = py_lower (env_text e ''SS_UPLOAD_OBJECT_STORE_BACKEND'' ''s3'')"
    and "cf_llm_api_key cfg = env_text e ''SS_LLM_API_KEY'' []"
    and "cf_llm_base_url cfg = env_text e ''SS_LLM_BASE_URL'' ''https://yunwu.ai/v1''"
    and "cf_llm_model cfg = llm_model_of e"
    and "cf_upload_s3_bucket cfg = env_text e ''SS_UPLOAD_S3_BUCKET'' []"
    and "cf_upload_s3_access_key_id cfg = env_text e ''SS_UPLOAD_S3_ACCESS_KEY_ID'' []"
    and "cf_upload_s3_secret_access_key cfg = env_text e ''SS_UPLOAD_S3_SECRET_ACCESS_KEY'' []"
    and "cf_tracing_sample_ratio cfg = clamped_ratio (env_get e ''SS_TRACING_SAMPLE_RATIO'' ''1.0'') 1"
    and "load_stata_cmd pv e = Inr (cf_stata_cmd cfg)"
    and "check_llm_provider (cf_llm_provider cfg) (cf_llm_api_key cfg) = Inr ()"
    and "cf_ss_env cfg = ss_env_of e"
proof -
  obtain a b c d where llm: "load_llm_settings e = (a, b, c, d)" by (cases "load_llm_settings e") auto
  note eq = assms[unfolded load_config_def Let_def llm prod.case]
  obtain words where w: "load_stata_cmd pv e = Inr words"
  proof (cases "load_stata_cmd pv e")
    case (Inl x)
    show ?thesis using eq[unfolded Inl bindE.simps] by (simp only: sum.distinct)
  qed
  have p: "check_llm_provider (py_lower (env_text e ''SS_LLM_PROVIDER'' [])) (env_text e ''SS_LLM_API_KEY'' []) = Inr ()"
  proof (cases "check_llm_provider (py_lower (env_text e ''SS_LLM_PROVIDER'' [])) (env_text e ''SS_LLM_API_KEY'' [])")
    case (Inl x)
    show ?thesis using eq[unfolded w bindE.simps Inl] by (simp only: sum.distinct)
  qed simp
  note cfg = eq[unfolded w p bindE.simps sum.inject, symmetric]
  show "upload_config_of cfg = load_upload_limits e" by (simp only: cfg upload_config_of_def settings.select_convs) simp
  show "cf_llm_provider cfg = py_lower (env_text e ''SS_LLM_PROVIDER'' [])"
    and "cf_upload_object_store_backend cfg = py_lower (env_text e ''SS_UPLOAD_OBJECT_STORE_BACKEND'' ''s3'')"
    and "cf_llm_api_key cfg = env_text e ''SS_LLM_API_KEY'' []"
    and "cf_llm_base_url cfg = env_text e ''SS_LLM_BASE_URL'' ''https://yunwu.ai/v1''"
    and "cf_llm_model cfg = llm_model_of e"
    and "cf_upload_s3_bucket cfg = env_text e ''SS_UPLOAD_S3_BUCKET'' []"
    and "cf_upload_s3_access_key_id cfg = env_text e ''SS_UPLOAD_S3_ACCESS_KEY_ID'' []"
    and "cf_upload_s3_secret_access_key cfg = env_text e ''SS_UPLOAD_S3_SECRET_ACCESS_KEY'' []"
    and "cf_tracing_sample_ratio cfg = clamped_ratio (env_get e ''SS_TRACING_SAMPLE_RATIO'' ''1.0'') 1"
    and "load_stata_cmd pv e = Inr (cf_stata_cmd cfg)"
    and "check_llm_provider (cf_llm_provider cfg) (cf_llm_api_key cfg) = Inr ()"
    and "cf_ss_env cfg = ss_env_of e"
    by (simp_all only: cfg settings.select_convs w p)
qed

lemma load_config_succeeds:
  assumes "load_stata_cmd pv e = Inr words"
    and "check_llm_provider (py_lower (env_text e ''SS_LLM_PROVIDER'' [])) (env_text e ''SS_LLM_API_KEY'' []) = Inr ()"
  obtains cfg where "load_config pv e = Inr cfg"
proof -
  obtain a b c d where llm: "load_llm_settings e = (a, b, c, d)" by (cases "load_llm_settings e") auto
  have "\<exists>cfg. load_config pv e = Inr cfg"
    unfolding load_config_def Let_def llm prod.case assms bindE.simps by (rule exI, rule refl)
  then show ?thesis using that by blast
qed

section \<open>Parts of an upload\<close>

lemma part_count_iff:
  fixes size_bytes part most :: int
  assumes "1 \<le> size_bytes" "1 \<le> part"
  shows "(\<exists>n. multipart_part_count size_bytes part = Inr n \<and> n \<le> most) \<longleftrightarrow> size_bytes \<le> part * most"
proof -
  have "\<lceil>(of_int size_bytes :: rat) / of_int part\<rceil> \<le> most \<longleftrightarrow> (of_int size_bytes :: rat) / of_int part \<le> of_int most"
    by (rule ceiling_le_iff)
  also have "\<dots> \<longleftrightarrow> (of_int size_bytes :: rat) \<le> of_int (most * part)"
    using assms by (simp add: divide_le_eq)
  also have "\<dots> \<longleftrightarrow> size_bytes \<le> part * most" by (simp only: of_int_le_iff mult.commute)
  finally show ?thesis using assms by (simp add: multipart_part_count_def)
qed

text \<open>C39 (bounds) Whatever the environment of the process holds, loaded settings are consistent: every upload limit is
  positive, URLs live at most 15 minutes, the part size lies between its bounds, so that the clamping at issuing
  changes nothing, and an upload of any size is within the limit on parts exactly when the parts can hold it.\<close>

theorem loaded_config_consistent:
  assumes "load_config pv e = Inr cfg"
  defines "l \<equiv> upload_config_of cfg"
  shows "limits_consistent l \<and> multipart_part_size l = uc_multipart_part_size_bytes l \<and>
    (\<forall>size_bytes\<ge>1.
       (\<exists>n. multipart_part_count size_bytes (multipart_part_size l) = Inr n \<and> n \<le> uc_multipart_max_parts l) \<longleftrightarrow>
       size_bytes \<le> uc_multipart_part_size_bytes l * uc_multipart_max_parts l)"
proof -
  have c: "limits_consistent l" unfolding l_def load_config_parts(1)[OF assms(1)] by (rule loaded_limits_consistent)
  then have p: "multipart_part_size l = uc_multipart_part_size_bytes l"
    by (auto simp: limits_consistent_def multipart_part_size_def)
  have "1 \<le> uc_multipart_part_size_bytes l" using c by (auto simp: limits_consistent_def)
  then show ?thesis unfolding p using c part_count_iff p by auto
qed

section \<open>Lower case and blanks\<close>

lemma code_lower:
  "of_char (py_lower_char c) =
     (let n = (of_char c :: nat) in if (65 \<le> n \<and> n \<le> 90) \<or> (192 \<le> n \<and> n \<le> 222 \<and> n \<noteq> 215) then n + 32 else n)"
proof -
  define n where "n = (of_char c :: nat)"
  show ?thesis unfolding py_lower_char_def Let_def n_def[symmetric] by (auto simp: n_def[symmetric])
qed

lemma isspace_lower [simp]: "py_isspace (py_lower_char c) = py_isspace c"
proof -
  define n where "n = (of_char c :: nat)"
  show ?thesis unfolding py_isspace_def code_lower Let_def n_def[symmetric] by presburger
qed

lemma lower_lower_char [simp]: "py_lower_char (py_lower_char c) = py_lower_char c"
proof -
  define n where "n = (of_char c :: nat)"
  show ?thesis unfolding py_lower_char_def[of "py_lower_char c"] code_lower unfolding py_lower_char_def Let_def n_def[symmetric]
    by auto
qed

lemma lower_idem [simp]: "py_lower (py_lower s) = py_lower s"
  by (simp add: py_lower_def)

lemma strip_lower: "py_strip (py_lower s) = py_lower (py_strip s)"
  by (simp add: py_strip_def py_rstrip_def py_lstrip_def py_lower_def dropWhile_map rev_map comp_def)

lemma blank_env_text: "blank (env_text e k d) \<longleftrightarrow> env_text e k d = []"
  by (simp add: env_text_def blank_strip) (simp add: blank_def)

lemma lower_strip_lower [simp]: "py_lower (py_strip (py_lower (env_text e k d))) = py_lower (env_text e k d)"
  by (simp add: strip_lower env_text_def)

section \<open>The readiness of a production service\<close>

lemma missing_names_Nil: "missing_names xs = [] \<longleftrightarrow> (\<forall>(n, v)\<in>set xs. \<not> blank v)"
  by (auto simp: missing_names_def filter_empty_conv)

lemma missing_check_ok: "dc_ok (missing_check m d) \<longleftrightarrow> m = []"
  by (simp add: missing_check_def)

lemma blank_model: "blank (llm_model_of e) \<longleftrightarrow> llm_model_of e = []"
proof -
  have "\<not> blank DEFAULT_MODEL" "DEFAULT_MODEL \<noteq> []" by code_simp+
  then show ?thesis by (auto simp: llm_model_of_def Let_def blank_env_text)
qed

lemma gate_llm_iff:
  assumes "load_config pv e = Inr cfg" "is_production cfg"
  shows "dc_ok (check_llm_production_gate (gate_of cfg)) \<longleftrightarrow> check_llm_settings (llm_settings_of cfg) = Inr ()"
  using assms(2)
  by (auto simp: check_llm_production_gate_def gate_of_def Let_def check_llm_settings_def llm_settings_of_def bindE_Inr_iff
      load_config_parts[OF assms(1)] missing_check_ok llm_missing_env_vars_def missing_names_Nil blank_env_text blank_model
      KEYED_PROVIDERS_def)

lemma require_value_Inr: "(\<exists>x. require_value v label = Inr x) \<longleftrightarrow> \<not> blank v"
  by (simp add: require_value_def Let_def blank_def)

lemma s3_buildable:
  "(\<exists>s. s3_from_config cfg = Inr s) \<longleftrightarrow>
     \<not> blank (cf_upload_s3_bucket cfg) \<and> \<not> blank (cf_upload_s3_access_key_id cfg) \<and> \<not> blank (cf_upload_s3_secret_access_key cfg)"
  by (auto simp: s3_from_config_def bindE_Inr_iff require_value_def Let_def blank_def)

lemma gate_store_iff:
  assumes "load_config pv e = Inr cfg" "is_production cfg"
  shows "dc_ok (check_upload_store_production_gate (gate_of cfg)) \<longleftrightarrow>
           cf_upload_object_store_backend cfg \<noteq> [] \<and> (\<exists>s. build_object_store cfg = Inr s)"
  using assms(2)
  by (auto simp: check_upload_store_production_gate_def gate_of_def Let_def build_object_store_def s3_buildable
      load_config_parts[OF assms(1)] missing_check_ok s3_missing_env_vars_def missing_names_Nil)

text \<open>C37 (equivalence) The readiness report of a production service that is not shutting down and whose directories
  can be written is good exactly when its parts can be built: the client of the language model, the object store
  (whose backend is named) and a Stata command for the workers.\<close>

theorem production_ready_iff_buildable:
  assumes "load_config pv e = Inr cfg" "is_production cfg"
  shows "hr_status_code (health_ready cfg DirWritable DirWritable client False now) = 200 \<longleftrightarrow>
           check_llm_settings (llm_settings_of cfg) = Inr () \<and>
           cf_upload_object_store_backend cfg \<noteq> [] \<and> (\<exists>s. build_object_store cfg = Inr s) \<and> cf_stata_cmd cfg \<noteq> []"
proof -
  have "dc_ok (check_runner_production_gate (gate_of cfg)) \<longleftrightarrow> cf_stata_cmd cfg \<noteq> []"
    using assms(2) by (simp add: check_runner_production_gate_def gate_of_def)
  then show ?thesis
    using gate_llm_iff[OF assms] gate_store_iff[OF assms] by (auto simp: health_ready_def readiness_def Let_def)
qed

text \<open>Without a production environment the three gates are skipped: readiness says nothing about them.\<close>

lemma development_is_ready:
  "\<not> is_production cfg \<Longrightarrow> hr_status_code (health_ready cfg DirWritable DirWritable client False now) = 200"
  by (simp add: health_ready_def readiness_def Let_def gate_of_def check_llm_production_gate_def
      check_runner_production_gate_def check_upload_store_production_gate_def skipped_non_production_def)

section \<open>What loading does not check\<close>

text \<open>A sample ratio that is no number passes the clamping, and an open quotation in the Stata command raises a plain
  \<open>ValueError\<close>.\<close>

lemma nan_ratio_passes: "clamped_ratio ''nan'' 1 = Nan"
  by code_simp

definition no_paths :: path_env where
  "no_paths = \<lparr>pv_expand = (\<lambda>s. s), pv_exists = (\<lambda>_. False)\<rparr>"

lemma open_quote_raises: "load_stata_cmd no_paths [(''SS_STATA_CMD'', ''stata '' @ CHR 0x22 # ''-b'')] = Inl (PyErr PyValueError)"
  by code_simp

lemma quoted_words: "shlex_split (''wine '' @ CHR 0x22 # ''C:/My Stata/stata.exe'' @ CHR 0x22 # '' -b'') = Some [''wine'', ''C:/My Stata/stata.exe'', ''-b'']"
  by code_simp

text \<open>Words without blanks, quotes and backslashes are split at single blanks.\<close>

lemma scan_plain_word:
  "(\<forall>c\<in>set w. \<not> shlex_blank c \<and> \<not> shlex_quote c \<and> c \<noteq> backslash) \<Longrightarrow> shlex_scan InWord t (w @ s) = shlex_scan InWord (t @ w) s"
  by (induction w arbitrary: t) auto

lemma shlex_plain:
  "\<forall>w\<in>set ws. w \<noteq> [] \<and> (\<forall>c\<in>set w. \<not> shlex_blank c \<and> \<not> shlex_quote c \<and> c \<noteq> backslash) \<Longrightarrow>
     shlex_split (py_join '' '' ws) = Some ws"
proof (induction "'' ''" ws rule: py_join.induct)
  case 1
  then show ?case by (simp add: shlex_split_def)
next
  case (2 x)
  then obtain c w where "x = c # w" by (cases x) auto
  with 2 scan_plain_word[of w "[c]" "[]"] show ?case by (auto simp: shlex_split_def)
next
  case (3 x y ys)
  then obtain c w where x: "x = c # w" by (cases x) auto
  have b: "shlex_blank CHR '' ''" by code_simp
  have "shlex_split (py_join '' '' (x # y # ys)) = map_option ((#) x) (shlex_scan Between [] (py_join '' '' (y # ys)))"
    using 3(2) x b scan_plain_word[of w "[c]" "'' '' @ py_join '' '' (y # ys)"] by (auto simp: shlex_split_def)
  also have "\<dots> = Some (x # y # ys)" using 3 by (simp add: shlex_split_def)
  finally show ?case .
qed

section \<open>At a concrete environment\<close>

definition prod_env :: "(str, str) dict" where
  "prod_env = [(''SS_ENV'', '' Prod ''), (''SS_LLM_PROVIDER'', ''yunwu''), (''SS_LLM_API_KEY'', ''k''), (''SS_STATA_CMD'', ''stata -b''),
     (''SS_UPLOAD_S3_BUCKET'', ''b''), (''SS_UPLOAD_S3_ACCESS_KEY_ID'', ''i''), (''SS_UPLOAD_S3_SECRET_ACCESS_KEY'', ''s''),
     (''SS_UPLOAD_MULTIPART_PART_SIZE_BYTES'', ''12''), (''SS_UPLOAD_MULTIPART_MIN_PART_SIZE_BYTES'', ''10''),
     (''SS_UPLOAD_MULTIPART_MAX_PART_SIZE_BYTES'', ''20''), (''SS_UPLOAD_MULTIPART_MAX_PARTS'', ''3'')]"

lemma prod_config:
  obtains cfg where "load_config no_paths prod_env = Inr cfg" "is_production cfg"
    "uc_multipart_part_size_bytes (upload_config_of cfg) = 12" "uc_multipart_max_parts (upload_config_of cfg) = 3"
    "cf_stata_cmd cfg = [''stata'', ''-b'']" "cf_upload_object_store_backend cfg = ''s3''"
    "check_llm_settings (llm_settings_of cfg) = Inr ()" "\<exists>s. build_object_store cfg = Inr s"
proof -
  have cmd: "load_stata_cmd no_paths prod_env = Inr [''stata'', ''-b'']" by code_simp
  have prov: "check_llm_provider (py_lower (env_text prod_env ''SS_LLM_PROVIDER'' [])) (env_text prod_env ''SS_LLM_API_KEY'' []) = Inr ()"
    by code_simp
  obtain cfg where c: "load_config no_paths prod_env = Inr cfg" by (rule load_config_succeeds[OF cmd prov])
  note parts = load_config_parts[OF c]
  have env: "cf_ss_env cfg = ''prod''" unfolding parts by code_simp
  have keys: "env_get prod_env ''SS_UPLOAD_MULTIPART_PART_SIZE_BYTES'' d = ''12''"
    "env_get prod_env ''SS_UPLOAD_MULTIPART_MIN_PART_SIZE_BYTES'' d = ''10''"
    "env_get prod_env ''SS_UPLOAD_MULTIPART_MAX_PART_SIZE_BYTES'' d = ''20''"
    "env_get prod_env ''SS_UPLOAD_MULTIPART_MAX_PARTS'' d = ''3''" for d by code_simp+
  have ints: "int_of_str ''12'' = Some 12" "int_of_str ''10'' = Some 10" "int_of_str ''20'' = Some 20" "int_of_str ''3'' = Some 3"
    by code_simp+
  have lim: "uc_multipart_part_size_bytes (load_upload_limits prod_env) = 12" "uc_multipart_max_parts (load_upload_limits prod_env) = 3"
    by (simp_all add: load_upload_limits_def Let_def clamped_int_def int_value_def keys ints)
  have be: "cf_upload_object_store_backend cfg = ''s3''" unfolding parts by code_simp
  have "build_object_store cfg = Inr \<lparr>s3_endpoint = strip_or_none (cf_upload_s3_endpoint cfg),
      s3_region = strip_or_none (cf_upload_s3_region cfg), s3_bucket = ''b'', s3_access_key_id = ''i'', s3_secret_access_key = ''s''\<rparr>"
  proof -
    have "py_lower (py_strip ''s3'') = ''s3''" "require_value (env_text prod_env ''SS_UPLOAD_S3_BUCKET'' []) l = Inr ''b''"
      "require_value (env_text prod_env ''SS_UPLOAD_S3_ACCESS_KEY_ID'' []) l = Inr ''i''"
      "require_value (env_text prod_env ''SS_UPLOAD_S3_SECRET_ACCESS_KEY'' []) l = Inr ''s''" for l
      by code_simp+
    then show ?thesis by (simp add: build_object_store_def be s3_from_config_def parts)
  qed
  moreover have "check_llm_settings (llm_settings_of cfg) = Inr ()"
  proof -
    have "py_lower (env_text prod_env ''SS_LLM_PROVIDER'' []) = ''yunwu''" "env_text prod_env ''SS_LLM_API_KEY'' [] = ''k''"
      "llm_model_of prod_env = DEFAULT_MODEL" "DEFAULT_MODEL \<noteq> []"
      "env_text prod_env ''SS_LLM_BASE_URL'' ''https://yunwu.ai/v1'' \<noteq> []" by code_simp+
    then show ?thesis by (simp add: check_llm_settings_def llm_settings_of_def parts)
  qed
  ultimately show ?thesis
    using c env lim be cmd parts(11) by (intro that[of cfg]) (auto simp: is_production_def parts(1))
qed

theorem loaded_config_consistent_witness:
  "\<exists>cfg n. load_config no_paths prod_env = Inr cfg \<and> multipart_part_count 36 12 = Inr n \<and> n \<le> 3 \<and>
     multipart_part_size (upload_config_of cfg) = 12"
proof -
  obtain cfg where c: "load_config no_paths prod_env = Inr cfg" "uc_multipart_part_size_bytes (upload_config_of cfg) = 12"
    "uc_multipart_max_parts (upload_config_of cfg) = 3" by (rule prod_config)
  from loaded_config_consistent[OF c(1)] c show ?thesis by (auto dest!: spec[of _ 36])
qed

theorem production_ready_iff_buildable_witness:
  "\<exists>cfg. load_config no_paths prod_env = Inr cfg \<and>
     hr_status_code (health_ready cfg DirWritable DirWritable ''TracedLLMClient'' False ''now'') = 200"
proof -
  obtain cfg where c: "load_config no_paths prod_env = Inr cfg" "is_production cfg" "cf_stata_cmd cfg = [''stata'', ''-b'']"
    "cf_upload_object_store_backend cfg = ''s3''" "check_llm_settings (llm_settings_of cfg) = Inr ()"
    "\<exists>s. build_object_store cfg = Inr s" by (rule prod_config)
  from production_ready_iff_buildable[OF c(1,2), of "''TracedLLMClient''" "''now''"] c show ?thesis by auto
qed

end
