(* ===== verification/StataReport.thy ===== *)
theory StataReport
  imports PyFloat LlmOutputs TemplateRun
begin

text \<open>
  Reports on regression results: reading the exported table and the log (domain/stata_result_parser.py), the
  question to the language model and the reading of its answer (domain/stata_report_llm.py,
  domain/stata_report_models.py), and the service (domain/stata_report_service.py).

  Reading a file translates line ends, so a table has no carriage return outside quotes and the reader of
  \<open>CsvText\<close> is the one of the code; a field above the size limit of \<open>csv\<close> is its \<open>csv.Error\<close>. Files of a job hold
  texts. \<open>str\<close> of a float, \<open>json.loads\<close> and the ISO text of the moment are parameters; logging is left out.
\<close>

section \<open>Numbers in texts\<close>

definition keep_chars :: "(char \<Rightarrow> bool) \<Rightarrow> str \<Rightarrow> str" where
  "keep_chars P s = filter P s"

definition safe_float :: "str option \<Rightarrow> pyfloat option" where
  "safe_float value =
     (case value of
        None \<Rightarrow> None
      | Some s \<Rightarrow>
          (let cleaned = keep_chars (\<lambda>c. is_digit c \<or> c \<in> {CHR ''.'', CHR ''-'', CHR ''e'', CHR ''E''}) s
           in if cleaned = [] then None else float_of_str cleaned))"

definition safe_int :: "str option \<Rightarrow> int option" where
  "safe_int value =
     (case value of
        None \<Rightarrow> None
      | Some s \<Rightarrow>
          (let cleaned = keep_chars (\<lambda>c. is_digit c \<or> c = CHR ''-'') s
           in if cleaned = [] then None else int_of_str cleaned))"

definition determine_significance :: "pyfloat option \<Rightarrow> str" where
  "determine_significance p_value =
     (case p_value of
        None \<Rightarrow> []
      | Some p \<Rightarrow>
          (if float_less p (double_of (1 / 100)) then ''***''
           else if float_less p (double_of (5 / 100)) then ''**''
           else if float_less p (double_of (10 / 100)) then ''*''
           else []))"

section \<open>The log\<close>

text \<open>A matcher gives what its group holds and the rest of the text.\<close>

type_synonym 'a matcher = "str \<Rightarrow> ('a \<times> str) option"

function find_all :: "'a matcher \<Rightarrow> str \<Rightarrow> 'a list" where
  "find_all m [] = []"
| "find_all m (c # s) =
     (case m (c # s) of
        Some (x, rest) \<Rightarrow> (if length rest \<le> length s then x # find_all m rest else x # find_all m s)
      | None \<Rightarrow> find_all m s)"
  by pat_completeness auto
termination
  by (relation "measure (\<lambda>(m, s). length s)") auto

fun find_first :: "'a matcher \<Rightarrow> str \<Rightarrow> 'a option" where
  "find_first m [] = None"
| "find_first m (c # s) = (case m (c # s) of Some (x, _) \<Rightarrow> Some x | None \<Rightarrow> find_first m s)"

definition after_prefix :: "str \<Rightarrow> str \<Rightarrow> str option" where
  "after_prefix p s = (if startswith s p then Some (drop (length p) s) else None)"

text \<open>A run of at least one character with \<open>P\<close>, as a group.\<close>

definition match_run :: "(char \<Rightarrow> bool) \<Rightarrow> str matcher" where
  "match_run P s = (if takeWhile P s = [] then None else Some (takeWhile P s, dropWhile P s))"

text \<open>\<open>\w\<close> on Latin-1: letters, digits and other numerals, and the underscore.\<close>

definition py_word_char :: "char \<Rightarrow> bool" where
  "py_word_char c =
     (let n = (of_char c :: nat)
      in is_digit c \<or> c = CHR ''_'' \<or> (65 \<le> n \<and> n \<le> 90) \<or> (97 \<le> n \<and> n \<le> 122) \<or>
         n \<in> {170, 178, 179, 181, 185, 186, 188, 189, 190} \<or> (192 \<le> n \<and> n \<noteq> 215 \<and> n \<noteq> 247))"

definition match_metric :: "(str \<times> str) matcher" where
  "match_metric s =
     (case after_prefix ''SS_METRIC|name='' s of
        None \<Rightarrow> None
      | Some s1 \<Rightarrow>
          (case match_run py_word_char s1 of
             None \<Rightarrow> None
           | Some (name, s2) \<Rightarrow>
               (case after_prefix ''|value='' s2 of
                  None \<Rightarrow> None
                | Some s3 \<Rightarrow>
                    map_option (\<lambda>(value, rest). ((name, value), rest))
                      (match_run (\<lambda>c. \<not> py_isspace c \<and> c \<noteq> CHR ''|'') s3))))"

text \<open>\<open>label\s*=\s*(run)\<close>.\<close>

definition match_labelled :: "str \<Rightarrow> (char \<Rightarrow> bool) \<Rightarrow> str matcher" where
  "match_labelled label P s =
     (case after_prefix label s of
        None \<Rightarrow> None
      | Some s1 \<Rightarrow>
          (case after_prefix ''='' (dropWhile py_isspace s1) of
             None \<Rightarrow> None
           | Some s2 \<Rightarrow> match_run P (dropWhile py_isspace s2)))"

definition metric_if_absent :: "str \<Rightarrow> str option \<Rightarrow> (str, str) dict \<Rightarrow> (str, str) dict" where
  "metric_if_absent name found metrics =
     (case found of
        Some v \<Rightarrow> (if dict_get metrics name = None then dict_set metrics name v else metrics)
      | None \<Rightarrow> metrics)"

definition extract_metrics_from_log :: "str \<Rightarrow> (str, str) dict" where
  "extract_metrics_from_log log_text =
     (let metrics = foldl (\<lambda>d (name, value). dict_set d name value) [] (find_all match_metric log_text);
          n_obs = map_option (filter (\<lambda>c. c \<noteq> CHR '',''))
                    (find_first (match_labelled ''Number of obs'' (\<lambda>c. is_digit c \<or> c = CHR '','')) log_text);
          r2 = find_first (match_labelled ''R-squared'' (\<lambda>c. is_digit c \<or> c = CHR ''.'')) log_text;
          r2_adj = find_first (match_labelled ''Adj R-squared'' (\<lambda>c. is_digit c \<or> c = CHR ''.'')) log_text
      in metric_if_absent ''r2_a'' r2_adj (metric_if_absent ''r2'' r2 (metric_if_absent ''n_obs'' n_obs metrics)))"

definition detect_model_type :: "str \<Rightarrow> str \<Rightarrow> str" where
  "detect_model_type table_text log_text =
     (let combined = py_lower (table_text @ '' '' @ log_text); has = contains_str combined
      in if has ''did'' \<or> has ''diff-in-diff'' \<or> has ''difference-in-difference'' then ''DID''
         else if has ''xtreg'' \<or> has ''panel'' \<or> has ''fe'' then ''Panel_FE''
         else if has ''regress'' \<or> has ''ols'' then ''OLS''
         else if has ''summ'' \<or> has ''tabstat'' \<or> has ''descriptive'' then ''descriptive''
         else ''unknown'')"

section \<open>The table\<close>

record coefficient_row =
  cr_var_name :: str
  cr_coef :: pyfloat
  cr_std_err :: "pyfloat option"
  cr_t_stat :: "pyfloat option"
  cr_p_value :: "pyfloat option"
  cr_ci_lower :: "pyfloat option"
  cr_ci_upper :: "pyfloat option"
  cr_significance :: str

definition lowered_row :: "csv_row \<Rightarrow> csv_row" where
  "lowered_row row = foldl (\<lambda>d (k, v). dict_set d (py_strip (py_lower k)) v) [] row"

definition first_match :: "csv_row \<Rightarrow> str list \<Rightarrow> str option" where
  "first_match row keys =
     (let lowered = lowered_row row
      in case find (\<lambda>k. dict_get lowered k \<noteq> None) keys of
           None \<Rightarrow> None
         | Some k \<Rightarrow> the (dict_get lowered k))"

definition parse_coefficient_row :: "csv_row \<Rightarrow> coefficient_row option" where
  "parse_coefficient_row row =
     (case (first_match row [''variable'', ''var'', ''varname'', ''name'', ''term''],
            first_match row [''coef'', ''coefficient'', ''b'', ''estimate'', ''beta'']) of
        (Some var_name, Some coef_text) \<Rightarrow>
          (case safe_float (Some coef_text) of
             None \<Rightarrow> None
           | Some coef \<Rightarrow>
               (let number = (\<lambda>keys. safe_float (first_match row keys));
                    p = number [''p'', ''pvalue'', ''p_value'', ''p>|t|'', ''p>|z|'']
                in Some \<lparr>cr_var_name = py_strip var_name, cr_coef = coef,
                         cr_std_err = number [''se'', ''std_err'', ''stderr'', ''std.err''],
                         cr_t_stat = number [''t'', ''t_stat'', ''tstat'', ''z''], cr_p_value = p,
                         cr_ci_lower = number [''ci_lower'', ''ll'', ''ci_l'', ''[95%_conf''],
                         cr_ci_upper = number [''ci_upper'', ''ul'', ''ci_u'', ''interval]''],
                         cr_significance = determine_significance p\<rparr>))
      | _ \<Rightarrow> None)"

text \<open>
  A row with more cells than the header has the key \<open>None\<close>, whose \<open>lower\<close> raises \<open>AttributeError\<close>; empty rows are
  skipped. \<open>csv.Error\<close> is caught by the caller.
\<close>

datatype table_fault = CsvTooLong | SurplusCells

definition FIELD_LIMIT :: int where
  "FIELD_LIMIT = 131072"

definition readable_row :: "str list \<Rightarrow> bool" where
  "readable_row row = list_all (\<lambda>f. int (length f) \<le> FIELD_LIMIT) row"

fun coefficient_rows :: "str list \<Rightarrow> str list list \<Rightarrow> table_fault + coefficient_row list" where
  "coefficient_rows names [] = Inr []"
| "coefficient_rows names (row # rows) =
     (if \<not> readable_row row then Inl CsvTooLong
      else if row = [] then coefficient_rows names rows
      else if length names < length row then Inl SurplusCells
      else bindE (coefficient_rows names rows) (\<lambda>rest.
             Inr (case parse_coefficient_row (dict_row names row) of None \<Rightarrow> rest | Some r \<Rightarrow> r # rest)))"

function split_runs :: "(char \<Rightarrow> bool) \<Rightarrow> str \<Rightarrow> str list" where
  "split_runs P s =
     (case dropWhile (Not \<circ> P) s of
        [] \<Rightarrow> [s]
      | c # rest \<Rightarrow> takeWhile (Not \<circ> P) s # split_runs P (dropWhile P rest))"
  by pat_completeness auto
termination
proof (relation "measure (\<lambda>(P, s). length s)")
  show "wf (measure (\<lambda>(P, s :: str). length s))" by simp
next
  fix P and s rest :: str and c
  assume d: "dropWhile (Not \<circ> P) s = c # rest"
  have "length (dropWhile P rest) \<le> length rest" by (rule length_dropWhile_le)
  also have "length rest < length (dropWhile (Not \<circ> P) s)" unfolding d by simp
  also have "\<dots> \<le> length s" by (rule length_dropWhile_le)
  finally show "((P, dropWhile P rest), (P, s)) \<in> measure (\<lambda>(P, s). length s)" by simp
qed

declare split_runs.simps [simp del]

definition fallback_row :: "str \<Rightarrow> coefficient_row option" where
  "fallback_row line =
     (let parts = split_runs (\<lambda>c. c \<in> {CHR '','', CHR 0x09}) (py_strip line);
          part = (\<lambda>i. if i < length parts then safe_float (Some (parts ! i)) else None)
      in if length parts < 2 then None
         else let var_name = py_strip (parts ! 0)
              in case safe_float (Some (parts ! 1)) of
                   Some coef \<Rightarrow>
                     (if var_name = [] then None
                      else Some \<lparr>cr_var_name = var_name, cr_coef = coef, cr_std_err = part 2, cr_t_stat = None,
                                 cr_p_value = part 3, cr_ci_lower = None, cr_ci_upper = None,
                                 cr_significance = determine_significance (part 3)\<rparr>)
                 | None \<Rightarrow> None)"

definition parse_coefficient_table_fallback :: "str \<Rightarrow> coefficient_row list" where
  "parse_coefficient_table_fallback table_text =
     List.map_filter fallback_row (tl (py_split LF (py_strip table_text)))"

definition parse_coefficient_table :: "str \<Rightarrow> exn + coefficient_row list" where
  "parse_coefficient_table table_text =
     (if blank table_text then Inr []
      else case csv_reader table_text of
             [] \<Rightarrow> Inr []
           | names # rows \<Rightarrow>
               (case (if readable_row names then coefficient_rows names rows else Inl CsvTooLong) of
                  Inr found \<Rightarrow> Inr found
                | Inl CsvTooLong \<Rightarrow> Inr (parse_coefficient_table_fallback table_text)
                | Inl SurplusCells \<Rightarrow> Inl (PyErr PyAttributeError)))"

record main_result =
  mr_model_type :: str
  mr_dep_var :: "str option"
  mr_n_obs :: "int option"
  mr_r_squared :: "pyfloat option"
  mr_r_squared_adj :: "pyfloat option"
  mr_coefficients :: "coefficient_row list"

definition parse_stata_output :: "str \<Rightarrow> str \<Rightarrow> exn + main_result" where
  "parse_stata_output table_text log_text =
     (let metrics = extract_metrics_from_log log_text
      in bindE (parse_coefficient_table table_text) (\<lambda>coefficients.
           Inr \<lparr>mr_model_type = detect_model_type table_text log_text, mr_dep_var = dict_get metrics ''dep_var'',
                mr_n_obs = safe_int (dict_get metrics ''n_obs''), mr_r_squared = safe_float (dict_get metrics ''r2''),
                mr_r_squared_adj = safe_float (dict_get metrics ''r2_a''), mr_coefficients = coefficients\<rparr>))"

section \<open>Question and answer\<close>

record report_input =
  ri_job_id :: str
  ri_requirement :: str
  ri_draft_text :: str
  ri_main_result :: main_result

record stata_report =
  sr_summary :: str
  sr_details :: str
  sr_limitations :: str

abbreviation lines_text :: "str list \<Rightarrow> str" where
  "lines_text \<equiv> py_join [LF]"

definition to_markdown :: "stata_report \<Rightarrow> str" where
  "to_markdown r =
     lines_text [''## Summary'', [], sr_summary r, [], ''## Detailed Results'', [], sr_details r, [],
                 ''## Limitations'', [], sr_limitations r]"

definition fmt_float :: "(pyfloat \<Rightarrow> str) \<Rightarrow> pyfloat option \<Rightarrow> str" where
  "fmt_float repr value = (case value of None \<Rightarrow> ''N/A'' | Some x \<Rightarrow> repr x)"

definition coefficient_line :: "(pyfloat \<Rightarrow> str) \<Rightarrow> coefficient_row \<Rightarrow> str" where
  "coefficient_line repr r =
     ''| '' @ cr_var_name r @ '' | '' @ repr (cr_coef r) @ '' | '' @ fmt_float repr (cr_std_err r) @ '' | '' @
     fmt_float repr (cr_p_value r) @ '' | '' @ cr_significance r @ '' |''"

definition format_coefficients :: "(pyfloat \<Rightarrow> str) \<Rightarrow> coefficient_row list \<Rightarrow> str" where
  "format_coefficients repr rows =
     (if rows = [] then ''No coefficient data available.''
      else lines_text ([''| Variable | Coef | SE | p-value | Sig |'', ''|----------|------|-----|---------|-----|''] @
                       map (coefficient_line repr) rows))"

definition format_metrics :: "(pyfloat \<Rightarrow> str) \<Rightarrow> main_result \<Rightarrow> str" where
  "format_metrics repr m =
     (let dep = (case mr_dep_var m of Some d \<Rightarrow> (if blank d then [] else [''- Dependent variable: '' @ d]) | None \<Rightarrow> []);
          n = (case mr_n_obs m of Some i \<Rightarrow> [''- Number of observations: '' @ show_int i] | None \<Rightarrow> []);
          r2 = (case mr_r_squared m of Some x \<Rightarrow> [''- R-squared: '' @ repr x] | None \<Rightarrow> []);
          adj = (case mr_r_squared_adj m of Some x \<Rightarrow> [''- Adjusted R-squared: '' @ repr x] | None \<Rightarrow> []);
          lines = dep @ n @ r2 @ adj
      in if lines = [] then ''No additional metrics available.'' else lines_text lines)"

definition quoted :: "str \<Rightarrow> str" where
  "quoted s = CHR 0x22 # s @ [CHR 0x22]"

definition REPORT_SCHEMA :: str where
  "REPORT_SCHEMA =
     ''{'' @ quoted ''summary'' @ '': '' @ quoted ''string (2-3 sentences executive summary)'' @ '', '' @
     quoted ''details'' @ '': '' @ quoted ''string (detailed interpretation)'' @ '', '' @
     quoted ''limitations'' @ '': '' @ quoted ''string (caveats and limitations)'' @ ''}''"

definition single_quoted :: "str \<Rightarrow> str" where
  "single_quoted s = CHR 0x27 # s @ [CHR 0x27]"

definition build_stata_report_prompt :: "(pyfloat \<Rightarrow> str) \<Rightarrow> report_input \<Rightarrow> str" where
  "build_stata_report_prompt repr i =
     lines_text
       [''You are an econometrics expert interpreting Stata regression results.'', [],
        ''CRITICAL RULE: Do NOT modify, round, or fabricate any numbers.'',
        ''Use the exact numerical values provided below in your interpretation.'', [],
        ''## User'' @ CHR 0x27 # ''s Analysis Requirement'', ri_requirement i, [],
        ''## Analysis Plan'', ri_draft_text i, [],
        ''## Model Type'', mr_model_type (ri_main_result i), [],
        ''## Key Metrics (use these exact values)'', format_metrics repr (ri_main_result i), [],
        ''## Coefficient Estimates (use these exact values)'',
        format_coefficients repr (mr_coefficients (ri_main_result i)), [],
        ''## Output Schema (return ONLY valid JSON, no markdown)'', REPORT_SCHEMA, [],
        ''## Instructions'',
        ''1. Write a 2-3 sentence executive summary in '' @ single_quoted ''summary'',
        ''2. Provide detailed interpretation in '' @ single_quoted ''details'',
        ''3. List caveats and limitations in '' @ single_quoted ''limitations'',
        ''4. Reference the exact coefficient values and significance levels'',
        ''5. Do NOT invent statistics not provided above'']"

definition NO_LIMITATIONS :: str where
  "NO_LIMITATIONS = ''No specific limitations noted.''"

text \<open>\<open>loads\<close> is \<open>json.loads\<close>; the result is the report or the reason of a \<open>StataReportParseError\<close>.\<close>

definition parse_stata_report :: "(str \<Rightarrow> str + json) \<Rightarrow> str \<Rightarrow> str + stata_report" where
  "parse_stata_report loads txt =
     (let raw = py_strip txt;
          raw = (if contains_str raw fence then extract_draft_json raw else raw)
      in case loads raw of
           Inl reason \<Rightarrow> Inl (''Invalid JSON: '' @ reason)
         | Inr (JObj parsed) \<Rightarrow>
             (case nonblank_str (dict_get parsed ''summary'') of
                None \<Rightarrow> Inl (''Missing or empty '' @ single_quoted ''summary'' @ '' field'')
              | Some summary \<Rightarrow>
                  (case nonblank_str (dict_get parsed ''details'') of
                     None \<Rightarrow> Inl (''Missing or empty '' @ single_quoted ''details'' @ '' field'')
                   | Some details \<Rightarrow>
                       (let limitations = (case dict_get parsed ''limitations'' of
                                             Some (JStr s) \<Rightarrow> (if s = [] then NO_LIMITATIONS else py_strip s)
                                           | _ \<Rightarrow> NO_LIMITATIONS)
                        in Inr \<lparr>sr_summary = py_strip summary, sr_details = py_strip details,
                                sr_limitations = limitations\<rparr>)))
         | Inr _ \<Rightarrow> Inl ''Response must be a JSON object'')"

section \<open>The service\<close>

record report_env =
  rg_trace :: trace_env
  rg_loads :: "str \<Rightarrow> str + json"
  rg_repr :: "pyfloat \<Rightarrow> str"
  rg_now_iso :: str

datatype report_failure =
    ReportFileMissing
  | ReportCallFailed exn
  | ReportUnreadable str
  | ReportStoreFailed exn

record report_outcome =
  ro_report :: "stata_report option"
  ro_failure :: "report_failure option"
  ro_artifacts :: "str list"

definition ro_success :: "report_outcome \<Rightarrow> bool" where
  "ro_success o' = (ro_failure o' = None)"

definition failed_outcome :: "report_failure \<Rightarrow> report_outcome" where
  "failed_outcome f = \<lparr>ro_report = None, ro_failure = Some f, ro_artifacts = []\<rparr>"

text \<open>\<open>JobWorkspaceStore.resolve_for_read\<close> with the text of the file; the job has just been loaded.\<close>

definition read_job_text :: "report_env \<Rightarrow> str \<Rightarrow> files \<Rightarrow> exn + str" where
  "read_job_text env rel_path fs =
     (if \<not> is_safe_job_rel_path rel_path then Inl (InErr InputPathUnsafe)
      else case dict_get fs (posix_parts rel_path) of
             None \<Rightarrow> Inl (PyErr PyFileNotFound)
           | Some c \<Rightarrow>
               (if te_escapes (rg_trace env) rel_path then Inl (InErr InputPathUnsafe)
                else Inr (case c of content.TextFile s \<Rightarrow> s | content.JsonFile _ \<Rightarrow> [])))"

definition extract_results :: "report_env \<Rightarrow> str \<Rightarrow> str option \<Rightarrow> files \<Rightarrow> exn + main_result" where
  "extract_results env table_rel_path log_rel_path fs =
     bindE (read_job_text env table_rel_path fs) (\<lambda>table_text.
     bindE (case log_rel_path of None \<Rightarrow> Inr [] | Some p \<Rightarrow> read_job_text env p fs) (\<lambda>log_text.
       parse_stata_output table_text log_text))"

text \<open>\<open>FileNotFoundError\<close> is the one exception of reading that is caught.\<close>

definition try_extract_results ::
  "report_env \<Rightarrow> str \<Rightarrow> str option \<Rightarrow> (run_world, report_failure + main_result) act" where
  "try_extract_results env table_rel_path log_rel_path w =
     (w, case extract_results env table_rel_path log_rel_path (rw_files w) of
           Inr m \<Rightarrow> Inr (Inr m)
         | Inl (PyErr PyFileNotFound) \<Rightarrow> Inr (Inl ReportFileMissing)
         | Inl e \<Rightarrow> Inl e)"

fun store_io_failed :: "exn \<Rightarrow> bool" where
  "store_io_failed (StoreErr (JobStoreIO _)) = True"
| "store_io_failed _ = False"

definition try_persist_job :: "str \<Rightarrow> job \<Rightarrow> (run_world, unit) act" where
  "try_persist_job tenant_id job w =
     (case save_job tenant_id job w of
        (w', Inr _) \<Rightarrow> (w', Inr ())
      | (w', Inl e) \<Rightarrow> (w', if store_io_failed e then Inr () else Inl e))"

definition call_report_model :: "report_env \<Rightarrow> job \<Rightarrow> str \<Rightarrow> run_world \<Rightarrow> run_world \<times> job \<times> (exn + str)" where
  "call_report_model env job prompt w =
     (case call_and_record (rg_trace env) ''stata_report'' prompt \<lparr>lw_files = rw_files w, lw_job = job, lw_slept = []\<rparr> of
        (lw, r) \<Rightarrow> (w\<lparr>rw_files := lw_files lw\<rparr>, lw_job lw, r))"

definition try_call_llm ::
  "report_env \<Rightarrow> str \<Rightarrow> job \<Rightarrow> str \<Rightarrow> (run_world, report_failure + job \<times> str) act" where
  "try_call_llm env tenant_id job prompt w =
     (case call_report_model env job prompt w of
        (w1, job1, Inr txt) \<Rightarrow> (w1, Inr (Inr (job1, txt)))
      | (w1, job1, Inl e) \<Rightarrow>
          (if e \<in> {DraftErr LLMCallFailed, DraftErr LLMArtifactsWrite}
           then bindA (try_persist_job tenant_id job1) (\<lambda>_. ret (Inl (ReportCallFailed e))) w1
           else (w1, Inl e)))"

definition try_parse_report ::
  "report_env \<Rightarrow> str \<Rightarrow> job \<Rightarrow> str \<Rightarrow> (run_world, report_failure + stata_report) act" where
  "try_parse_report env tenant_id job txt =
     (case parse_stata_report (rg_loads env) txt of
        Inr r \<Rightarrow> ret (Inr r)
      | Inl reason \<Rightarrow> bindA (try_persist_job tenant_id job) (\<lambda>_. ret (Inl (ReportUnreadable reason))))"

definition report_rel_path :: "report_env \<Rightarrow> str" where
  "report_rel_path env =
     ''artifacts/report_'' @ map (\<lambda>c. if c = CHR '':'' then CHR ''-'' else c) (rg_now_iso env) @ ''.md''"

definition write_job_text :: "report_env \<Rightarrow> str \<Rightarrow> str \<Rightarrow> (run_world, unit) act" where
  "write_job_text env rel_path txt w =
     (if \<not> is_safe_job_rel_path rel_path \<or> te_escapes (rg_trace env) rel_path then (w, Inl (InErr InputPathUnsafe))
      else case atomic_write (rg_trace env) (posix_parts rel_path) (content.TextFile txt) (rw_files w) of
             (fs, Inl _) \<Rightarrow> (w\<lparr>rw_files := fs\<rparr>, Inl (InErr InputStorageFailed))
           | (fs, Inr _) \<Rightarrow> (w\<lparr>rw_files := fs\<rparr>, Inr ()))"

definition write_report_artifacts :: "report_env \<Rightarrow> str \<Rightarrow> job \<Rightarrow> stata_report \<Rightarrow> (run_world, str list) act" where
  "write_report_artifacts env tenant_id job r =
     bindA (write_job_text env (report_rel_path env) (to_markdown r)) (\<lambda>_.
     bindA (save_job tenant_id (job\<lparr>j_artifacts_index := j_artifacts_index job @
              [\<lparr>ar_kind = STATA_REPORT_INTERPRETATION, ar_rel_path = report_rel_path env\<rparr>]\<rparr>)) (\<lambda>_.
       ret [report_rel_path env]))"

definition try_write_report_artifacts ::
  "report_env \<Rightarrow> str \<Rightarrow> job \<Rightarrow> stata_report \<Rightarrow> (run_world, report_failure + str list) act" where
  "try_write_report_artifacts env tenant_id job r w =
     (case write_report_artifacts env tenant_id job r w of
        (w', Inr paths) \<Rightarrow> (w', Inr (Inr paths))
      | (w', Inl e) \<Rightarrow> (w', if store_io_failed e then Inr (Inl (ReportStoreFailed e)) else Inl e))"

definition build_report_input :: "job \<Rightarrow> main_result \<Rightarrow> report_input" where
  "build_report_input job m =
     \<lparr>ri_job_id = j_job_id job,
      ri_requirement = (case j_requirement job of Some r \<Rightarrow> r | None \<Rightarrow> []),
      ri_draft_text = (case j_draft job of Some d \<Rightarrow> d_text d | None \<Rightarrow> []),
      ri_main_result = m\<rparr>"

definition stage :: "(run_world, report_failure + 'a) act \<Rightarrow> ('a \<Rightarrow> (run_world, report_outcome) act) \<Rightarrow>
    (run_world, report_outcome) act" where
  "stage m f = bindA m (\<lambda>r. case r of Inl e \<Rightarrow> ret (failed_outcome e) | Inr x \<Rightarrow> f x)"

definition generate_report ::
  "report_env \<Rightarrow> str \<Rightarrow> str \<Rightarrow> str \<Rightarrow> str option \<Rightarrow> (run_world, report_outcome) act" where
  "generate_report env tenant_id job_id table_rel_path log_rel_path =
     bindA (load_job tenant_id job_id) (\<lambda>job.
     stage (try_extract_results env table_rel_path log_rel_path) (\<lambda>main.
     stage (try_call_llm env tenant_id job (build_stata_report_prompt (rg_repr env) (build_report_input job main))) (\<lambda>(job, txt).
     stage (try_parse_report env tenant_id job txt) (\<lambda>r.
     stage (try_write_report_artifacts env tenant_id job r) (\<lambda>paths.
       ret \<lparr>ro_report = Some r, ro_failure = None, ro_artifacts = paths\<rparr>)))))"

end
