(* ===== verification/StataReportLaws.thy ===== *)
theory StataReportLaws
  imports StataReport TemplateRunLaws LlmLaws
begin

text \<open>
  What reports guarantee: an exported table is read back row by row, a delivered report rests on the numbers of
  the files and on an answer of the model, and is on disk and indexed; and what goes wrong at the edges.
\<close>

section \<open>Reading an exported table\<close>

lemma coefficient_rows_regular:
  assumes "\<forall>row\<in>set rows. readable_row row \<and> row \<noteq> [] \<and> length row \<le> length names"
  shows "coefficient_rows names rows = Inr (List.map_filter (\<lambda>row. parse_coefficient_row (dict_row names row)) rows)"
  using assms by (induction rows) (auto simp: List.map_filter_def split: option.splits)

abbreviation "TABLE_HEADER \<equiv> [''variable'', ''coef'', ''se'', ''p'']"

definition exported_row :: "str \<times> str \<times> str \<times> str \<Rightarrow> coefficient_row option" where
  "exported_row = (\<lambda>(name, coef, se, p).
     map_option (\<lambda>x. \<lparr>cr_var_name = py_strip name, cr_coef = x, cr_std_err = safe_float (Some se), cr_t_stat = None,
                       cr_p_value = safe_float (Some p), cr_ci_lower = None, cr_ci_upper = None,
                       cr_significance = determine_significance (safe_float (Some p))\<rparr>)
       (safe_float (Some coef)))"

lemma lowered_header:
  "lowered_row (dict_row TABLE_HEADER [n, c, s, p]) =
     [(''variable'', Some n), (''coef'', Some c), (''se'', Some s), (''p'', Some p)]"
proof -
  have "dict_row TABLE_HEADER [n, c, s, p] = [(''variable'', Some n), (''coef'', Some c), (''se'', Some s), (''p'', Some p)]"
    by (simp add: dict_row_def)
  moreover have "py_strip (py_lower ''variable'') = ''variable''" "py_strip (py_lower ''coef'') = ''coef''"
    "py_strip (py_lower ''se'') = ''se''" "py_strip (py_lower ''p'') = ''p''" by code_simp+
  ultimately show ?thesis by (simp add: lowered_row_def)
qed

lemma parse_exported_row: "parse_coefficient_row (dict_row TABLE_HEADER [n, c, s, p]) = exported_row (n, c, s, p)"
  by (simp add: parse_coefficient_row_def first_match_def lowered_header exported_row_def safe_float_def[of None] Let_def
      split: option.split)



section \<open>What the parser makes of unusual texts\<close>

text \<open>
  A row with a cell too many, as a trailing comma makes one, ends in an \<open>AttributeError\<close>; a decimal number of
  observations loses its point; a decimal comma is dropped; words that contain the letters of an abbreviation
  decide the model type.
\<close>

lemma surplus_cell_raises:
  "parse_coefficient_table (''variable,coef'' @ [LF] @ ''x,0.5,'' @ [LF]) = Inl (PyErr PyAttributeError)"
  by code_simp

lemma decimal_observations: "safe_int (dict_get (extract_metrics_from_log ''SS_METRIC|name=n_obs|value=12.0'') ''n_obs'') = Some 120"
  by code_simp

lemma decimal_comma: "safe_float (Some ''0,05'') = Some (Finite 5)"
  by code_simp

lemma candidate_is_did: "detect_model_type ''candidate,coef'' ''regress y x'' = ''DID''"
  by code_simp

section \<open>A delivered report\<close>

lemma stage_success:
  assumes "stage m f w = (w', Inr out)" "ro_failure out = None"
  obtains w1 x where "m w = (w1, Inr (Inr x))" "f x w1 = (w', Inr out)"
proof -
  obtain w1 r where r: "m w = (w1, Inr r)" "(case r of Inl e \<Rightarrow> ret (failed_outcome e) | Inr x \<Rightarrow> f x) w1 = (w', Inr out)"
    using iffD1[OF bindA_Inr assms(1)[unfolded stage_def]] by blast
  show ?thesis using r assms(2) that by (cases r) (auto simp: failed_outcome_def)
qed

lemma try_extract_success:
  "try_extract_results env table logp w = (w1, Inr (Inr m)) \<Longrightarrow> w1 = w \<and> extract_results env table logp (rw_files w) = Inr m"
  by (auto simp: try_extract_results_def split: sum.splits exn.splits py_error.splits)

lemma try_call_success:
  assumes "try_call_llm env t job prompt w = (w1, Inr (Inr (job1, ans)))"
  obtains lw where
    "call_and_record (rg_trace env) ''stata_report'' prompt \<lparr>lw_files = rw_files w, lw_job = job, lw_slept = []\<rparr> = (lw, Inr ans)"
    "w1 = w\<lparr>rw_files := lw_files lw\<rparr>" "job1 = lw_job lw"
proof -
  obtain w2 job2 r where c: "call_report_model env job prompt w = (w2, job2, r)" by (metis prod_cases3)
  have "r = Inr ans \<and> w2 = w1 \<and> job2 = job1"
    using assms c by (cases r) (auto simp: try_call_llm_def bindA_Inr split: if_splits)
  with c that show ?thesis by (auto simp: call_report_model_def split: prod.splits)
qed

lemma try_write_success:
  "try_write_report_artifacts env t job r w = (w', Inr (Inr paths)) \<Longrightarrow> write_report_artifacts env t job r w = (w', Inr paths)"
  by (auto simp: try_write_report_artifacts_def split: prod.splits sum.splits if_splits)

lemma written_text:
  "write_job_text env path ans w = (w', Inr u) \<Longrightarrow>
     w' = w\<lparr>rw_files := dict_set (rw_files w) (posix_parts path) (content.TextFile ans)\<rparr>"
  by (auto simp: write_job_text_def atomic_write_def split: if_splits)

definition report_call_id :: "report_env \<Rightarrow> str \<Rightarrow> str" where
  "report_call_id env prompt = llm_call_id ''stata_report'' (te_stamp (rg_trace env)) (te_sha256 (rg_trace env) prompt)"

lemma report_call_recorded:
  assumes "call_and_record (rg_trace env) ''stata_report'' prompt lw = (lw', Inr ans)"
  shows "lw_job lw' = (lw_job lw)\<lparr>j_artifacts_index := j_artifacts_index (lw_job lw) @ llm_refs (report_call_id env prompt)\<rparr> \<and>
         (\<exists>n\<in>{1..rp_max_attempts (client_policy (rg_trace env))}.
            te_inner (rg_trace env) ''stata_report'' prompt (rp_timeout_seconds (client_policy (rg_trace env))) n = Answered ans)"
proof (rule call_and_record_Inr[OF assms])
  fix slept outcome fs refs
  assume c: "call_complete_text_with_retry (te_inner (rg_trace env) ''stata_report'' prompt) (client_policy (rg_trace env)) (lw_slept lw) = (slept, Inr outcome)"
    and wr: "write_llm_artifacts (rg_trace env) (lw_job lw) (llm_call_id ''stata_report'' (te_stamp (rg_trace env)) (te_sha256 (rg_trace env) prompt)) prompt
       (co_response_text outcome) (build_meta (rg_trace env) (llm_call_id ''stata_report'' (te_stamp (rg_trace env)) (te_sha256 (rg_trace env) prompt))
         ''stata_report'' prompt (co_response_text outcome) (co_error outcome) (co_attempts outcome)) (lw_files lw) = (fs, Inr refs)"
    and t: "co_text outcome \<noteq> None" "ans = co_response_text outcome"
    and job: "lw_job lw' = (lw_job lw)\<lparr>j_artifacts_index := j_artifacts_index (lw_job lw) @ refs\<rparr>"
  from t(1) obtain x where x: "co_text outcome = Some x" by blast
  obtain n where n: "1 \<le> n" "n \<le> rp_max_attempts (client_policy (rg_trace env))"
      "te_inner (rg_trace env) ''stata_report'' prompt (rp_timeout_seconds (client_policy (rg_trace env))) n = Answered x"
      "outcome = \<lparr>co_text = Some x, co_response_text = x, co_error = None, co_attempts = n\<rparr>"
    by (rule outcome_of_text[OF client_call_outcome[OF c] x])
  then show ?thesis
    using t(2) job write_llm_artifacts_Inr(1)[OF wr] by (auto simp: report_call_id_def intro!: bexI[of _ n])
qed

lemma parsed_report:
  "try_parse_report env t job ans w = (w', Inr (Inr r)) \<Longrightarrow> parse_stata_report (rg_loads env) ans = Inr r \<and> w' = w"
  by (auto simp: try_parse_report_def bindA_Inr split: sum.splits)

lemma written_report:
  assumes "write_report_artifacts env t job r w = (w', Inr paths)" "held t j disk w"
    and "job = disk\<lparr>j_artifacts_index := arts\<rparr>"
  shows "paths = [report_rel_path env] \<and>
         dict_get (rw_files w') (posix_parts (report_rel_path env)) = Some (content.TextFile (to_markdown r)) \<and>
         held t j (disk\<lparr>j_artifacts_index := arts @ [\<lparr>ar_kind = STATA_REPORT_INTERPRETATION, ar_rel_path = report_rel_path env\<rparr>],
                        j_version := j_version disk + 1\<rparr>) w'"
proof -
  obtain w1 job1 where w1: "write_job_text env (report_rel_path env) (to_markdown r) w = (w1, Inr ())"
    and sv: "save_job t (job\<lparr>j_artifacts_index := j_artifacts_index job @
        [\<lparr>ar_kind = STATA_REPORT_INTERPRETATION, ar_rel_path = report_rel_path env\<rparr>]\<rparr>) w1 = (w', Inr job1)"
    and paths: "paths = [report_rel_path env]"
    using assms(1) by (auto simp: write_report_artifacts_def bindA_Inr)
  have h: "held t j disk w1" using assms(2) by (simp add: written_text[OF w1] held_def)
  let ?job = "disk\<lparr>j_artifacts_index := arts @ [\<lparr>ar_kind = STATA_REPORT_INTERPRETATION, ar_rel_path = report_rel_path env\<rparr>]\<rparr>"
  obtain w2 where w2: "save_job t ?job w1 = (w2, Inr (?job\<lparr>j_version := j_version ?job + 1\<rparr>))"
    "held t j (?job\<lparr>j_version := j_version ?job + 1\<rparr>) w2" "rw_files w2 = rw_files w1"
    by (rule save_held[OF h, of ?job]) (use h in \<open>auto simp: held_def\<close>)
  have "w2 = w'" using sv w2(1) assms(3) by simp
  with w2 paths written_text[OF w1] show ?thesis by simp
qed

abbreviation "report_question env job main \<equiv> build_stata_report_prompt (rg_repr env) (build_report_input job main)"

lemma report_stages:
  assumes "generate_report env t j table logp w = (w', Inr out)" "ro_failure out = None" "held t j job w"
  obtains main lw ans r w3 where "extract_results env table logp (rw_files w) = Inr main"
    "call_and_record (rg_trace env) ''stata_report'' (report_question env job main)
       \<lparr>lw_files = rw_files w, lw_job = job, lw_slept = []\<rparr> = (lw, Inr ans)"
    "parse_stata_report (rg_loads env) ans = Inr r" "w3 = w\<lparr>rw_files := lw_files lw\<rparr>"
    "write_report_artifacts env t (lw_job lw) r w3 = (w', Inr (ro_artifacts out))" "ro_report out = Some r"
proof -
  have "stage (try_extract_results env table logp) (\<lambda>main. stage (try_call_llm env t job (report_question env job main)) (\<lambda>(job, ans).
      stage (try_parse_report env t job ans) (\<lambda>r. stage (try_write_report_artifacts env t job r) (\<lambda>paths.
        ret \<lparr>ro_report = Some r, ro_failure = None, ro_artifacts = paths\<rparr>)))) w = (w', Inr out)"
    using assms(1) by (simp add: generate_report_def bindA_def load_held[OF assms(3)])
  then obtain w1 main where m: "try_extract_results env table logp w = (w1, Inr (Inr main))"
    and rest: "stage (try_call_llm env t job (report_question env job main)) (\<lambda>(job, ans). stage (try_parse_report env t job ans)
      (\<lambda>r. stage (try_write_report_artifacts env t job r) (\<lambda>paths.
        ret \<lparr>ro_report = Some r, ro_failure = None, ro_artifacts = paths\<rparr>))) w1 = (w', Inr out)"
    by (rule stage_success[OF _ assms(2)])
  obtain w2 p where call: "try_call_llm env t job (report_question env job main) w1 = (w2, Inr (Inr p))"
    and rest: "(case p of (job, ans) \<Rightarrow> stage (try_parse_report env t job ans) (\<lambda>r. stage (try_write_report_artifacts env t job r)
      (\<lambda>paths. ret \<lparr>ro_report = Some r, ro_failure = None, ro_artifacts = paths\<rparr>))) w2 = (w', Inr out)"
    by (rule stage_success[OF rest assms(2)])
  obtain job1 ans where p: "p = (job1, ans)" by (cases p)
  obtain w3 r where r: "try_parse_report env t job1 ans w2 = (w3, Inr (Inr r))"
    and rest: "stage (try_write_report_artifacts env t job1 r) (\<lambda>paths. ret \<lparr>ro_report = Some r, ro_failure = None, ro_artifacts = paths\<rparr>) w3 = (w', Inr out)"
    using stage_success[OF rest[unfolded p prod.case] assms(2)] by metis
  obtain w4 paths where wr: "try_write_report_artifacts env t job1 r w3 = (w4, Inr (Inr paths))"
    and out: "w4 = w'" "out = \<lparr>ro_report = Some r, ro_failure = None, ro_artifacts = paths\<rparr>"
    by (rule stage_success[OF rest assms(2)]) simp
  show ?thesis
    using that try_extract_success[OF m] try_call_success[OF call[unfolded p]] parsed_report[OF r] try_write_success[OF wr] out
    by (smt (verit) report_outcome.select_convs)
qed


text \<open>When another process has saved the job meanwhile, the conflict is no \<open>JobStoreIOError\<close>: it escapes, and the report
  stays on disk without an entry in the index.\<close>

lemma stale_report_escapes:
  assumes "held t j disk w" "j_job_id job = j" "j_schema_version job = JOB_SCHEMA_VERSION_CURRENT" "j_version job \<noteq> j_version disk"
    and "write_job_text env (report_rel_path env) (to_markdown r) w = (w1, Inr ())"
  shows "try_write_report_artifacts env t job r w = (w1, Inl (StoreErr (JobVersionConflict (j_version job) (j_version disk))))"
proof -
  have "rw_store w1 = rw_store w" using written_text[OF assms(5)] by simp
  with assms(1-4) have "save_job t (job\<lparr>j_artifacts_index := arts\<rparr>) w1 =
      (w1, Inl (StoreErr (JobVersionConflict (j_version job) (j_version disk))))" for arts
    by (auto simp: save_job_def store_save_def held_def)
  with assms(5) show ?thesis by (simp add: try_write_report_artifacts_def write_report_artifacts_def bindA_def)
qed

section \<open>A report at a concrete job\<close>

definition report_answer :: jobj where
  "report_answer = [(''summary'', JStr '' good ''), (''details'', JStr ''x matters'')]"

definition sample_report_env :: report_env where
  "sample_report_env =
     \<lparr>rg_trace = sample_trace\<lparr>te_inner := (\<lambda>_ _ _ _. Answered ''answer'')\<rparr>,
      rg_loads = (\<lambda>s. if s = ''answer'' then Inr (JObj report_answer) else Inl ''bad''), rg_repr = (\<lambda>_. ''0.5''),
      rg_now_iso = ''2026-01-01T10:00:00''\<rparr>"

definition sample_report_world :: run_world where
  "sample_report_world =
     \<lparr>rw_store = [(''default'', ''job_1'') \<mapsto> JobFile (new_job ''default'' ''job_1'' 0)],
      rw_files = [([''t.csv''], content.TextFile (''variable,coef'' @ [LF] @ ''x,0.5'' @ [LF]))]\<rparr>"

lemma sample_held: "held ''default'' ''job_1'' (new_job ''default'' ''job_1'' 0) sample_report_world"
proof -
  have "check_job_ids ''default'' ''job_1'' = Inr ()" by code_simp
  then show ?thesis by (simp add: held_def sample_report_world_def new_job_def)
qed

lemma report_runs:
  assumes "held t j job w" "extract_results env table logp (rw_files w) = Inr main"
    and "call_and_record (rg_trace env) ''stata_report'' (report_question env job main)
           \<lparr>lw_files = rw_files w, lw_job = job, lw_slept = []\<rparr> = (lw, Inr ans)"
    and "parse_stata_report (rg_loads env) ans = Inr r"
    and "write_job_text env (report_rel_path env) (to_markdown r) (w\<lparr>rw_files := lw_files lw\<rparr>) = (w1, Inr ())"
  shows "\<exists>w'. generate_report env t j table logp w = (w', Inr \<lparr>ro_report = Some r, ro_failure = None, ro_artifacts = [report_rel_path env]\<rparr>)"
proof -
  note rec = report_call_recorded[OF assms(3), simplified]
  let ?job = "job\<lparr>j_artifacts_index := j_artifacts_index job @ llm_refs (report_call_id env (report_question env job main)) @
      [\<lparr>ar_kind = STATA_REPORT_INTERPRETATION, ar_rel_path = report_rel_path env\<rparr>]\<rparr>"
  have h: "held t j job w1" using assms(1) by (simp add: written_text[OF assms(5)] held_def)
  obtain w2 where "save_job t ?job w1 = (w2, Inr (?job\<lparr>j_version := j_version ?job + 1\<rparr>))"
    by (rule save_held[OF h, of ?job]) (use h in \<open>auto simp: held_def\<close>)
  then have "try_write_report_artifacts env t (lw_job lw) r (w\<lparr>rw_files := lw_files lw\<rparr>) = (w2, Inr (Inr [report_rel_path env]))"
    using rec assms(5) by (simp add: try_write_report_artifacts_def write_report_artifacts_def bindA_def ret_def)
  moreover have "try_call_llm env t job (report_question env job main) w = (w\<lparr>rw_files := lw_files lw\<rparr>, Inr (Inr (lw_job lw, ans)))"
    using assms(3) by (simp add: try_call_llm_def call_report_model_def)
  moreover have "try_extract_results env table logp w = (w, Inr (Inr main))" using assms(2) by (simp add: try_extract_results_def)
  ultimately show ?thesis
    by (simp add: generate_report_def bindA_def stage_def load_held[OF assms(1)] try_parse_report_def assms(4) ret_def)
qed

lemma sample_report_call:
  obtains lw where "call_and_record (rg_trace sample_report_env) ''stata_report'' prompt
     \<lparr>lw_files = rw_files sample_report_world, lw_job = new_job ''default'' ''job_1'' 0, lw_slept = []\<rparr> = (lw, Inr ''answer'')"
proof -
  let ?env = "rg_trace sample_report_env" and ?job = "new_job ''default'' ''job_1'' 0"
  have i: "llm_call_id ''stata_report'' (te_stamp ?env) (te_sha256 ?env prompt) =
      llm_call_id ''stata_report'' ''20260101T000000000000Z'' ''0123456789abcdef''"
    by (simp add: sample_report_env_def sample_trace_def)
  have "case llm_paths ?env ?job (llm_call_id ''stata_report'' ''20260101T000000000000Z'' ''0123456789abcdef'') of
      Inr _ \<Rightarrow> True | Inl _ \<Rightarrow> False" by code_simp
  then obtain p r m where paths: "llm_paths ?env ?job (llm_call_id ''stata_report'' ''20260101T000000000000Z'' ''0123456789abcdef'') = Inr (p, r, m)"
    by (auto split: sum.splits)
  have "te_inner ?env = (\<lambda>_ _ _ _. Answered ''answer'')" "\<not> te_write_fails ?env q" for q
    by (simp_all add: sample_report_env_def sample_trace_def)
  then show ?thesis
    using that max_attempts_positive[of "client_policy ?env" 30]
    by (simp add: call_and_record_def Let_def call_complete_text_with_retry_def attempts_from_answered i
        write_llm_artifacts_def paths atomic_write_def)
qed


end
