(* ===== verification/HttpApi.thy ===== *)
theory HttpApi
  imports AccessControl InputServices JobQueries PyFloat TemplateSelect
begin

text \<open>
  The HTTP service in front of the components: what a request of the public interface does (api/jobs.py, api/draft.py,
  api/inputs_*.py, api/task_codes.py), the guards of its routers (api/routes.py), and the handlers of errors with
  the middleware around them (main.py).

  A request is a route with its parameters, as FastAPI parsed them, and its headers. FastAPI resolves the guards of
  the router before it reports a parameter out of range, and calls the route last. Starlette handles an
  exception of a class without a handler of its own outside of the middleware. The state is the world of the
  services with the upload files, the task codes, and whether the process is shutting down. The services
  are built; what each gets from elsewhere are their environments. Texts of messages are the parameter
  \<open>hp_message\<close>, and the descriptions of required variables are left out.
\<close>

section \<open>Environment, state, requests\<close>

record api_env =
  hp_now :: int
  hp_iso :: "int \<Rightarrow> str"
  hp_str :: "json \<Rightarrow> str"
  hp_svc :: svc_env
  hp_inputs :: inputs_env
  hp_draft :: draft_env
  hp_select :: select_env
  hp_redeem :: redeem_env
  hp_download :: "str \<Rightarrow> str \<Rightarrow> download_env"
  hp_read_bytes :: "path \<Rightarrow> exn + str"
  hp_message :: "exn \<Rightarrow> str"
  hp_uuid :: str

record api_state =
  st_uploads :: upload_world
  st_codes :: tc_store
  st_shutting_down :: bool

abbreviation st_world :: "api_state \<Rightarrow> world" where
  "st_world s \<equiv> uw_world (st_uploads s)"

record upload_part =
  up_data :: str
  up_filename :: "str option"
  up_content_type :: "str option"

datatype job_call =
    GetJob
  | UploadInputs "upload_part list" "str list option" "str list option"
  | PreviewInputs int int
  | GetArtifacts
  | DownloadArtifact str
  | RunJob "str list option"
  | ConfirmJob bool "str option" "str list option" "(str, str) dict" jobj jobj jobj
  | FreezePlan "str option" jobj "(str, str) dict"
  | GetPlan
  | DraftPreview "str option"
  | DraftPatch jobj
  | CreateBundle "bundle_declaration list"
  | GetBundle
  | SelectPrimarySheet str int int
  | SelectDatasetSheet str str int int
  | CreateUploadSession str str

datatype v1_call =
    JobCall str job_call
  | RefreshUploadUrls str "int list option"
  | FinalizeUpload str "json list"
  | RedeemTaskCode str str

text \<open>What a request brings besides its route; \<open>rq_job_query\<close>: on the routes of upload sessions the guard's \<open>job_id\<close>
  is a query parameter.\<close>

record http_request =
  rq_path :: str
  rq_tenant :: "str option"
  rq_authorization :: "str option"
  rq_job_query :: "str option"
  rq_ss_request_id :: "str option"
  rq_request_id :: "str option"

section \<open>Answers\<close>

record plan_answer =
  pw_plan_version :: int
  pw_plan_id :: str
  pw_rel_path :: str
  pw_steps :: "(str \<times> plan_step_type \<times> jobj \<times> str list \<times> artifact_kind list) list"

record draft_answer =
  dv_job_id :: str
  dv_draft_text :: str
  dv_draft_id :: str
  dv_decision :: str
  dv_risk_score :: pyfloat
  dv_outcome_var :: "str option"
  dv_treatment_var :: "str option"
  dv_controls :: "str list"
  dv_column_candidates :: "str list"
  dv_column_candidates_v2 :: "column_candidate list"
  dv_column_name_normalizations :: "column_name_normalization list"
  dv_required_variables :: "(str \<times> str list) list"
  dv_data_quality_warnings :: "jobj list"
  dv_stage1_questions :: "stage1_question list"
  dv_open_unknowns :: "open_unknown list"
  dv_variable_types :: "draft_variable_type list"
  dv_data_sources :: "draft_data_source list"
  dv_default_overrides :: jobj

record patch_answer =
  py_patched_fields :: "str list"
  py_remaining_unknowns_count :: nat
  py_open_unknowns :: "open_unknown list"
  py_outcome_var :: "str option"
  py_treatment_var :: "str option"
  py_controls :: "str list"

datatype api_body =
    SummaryBody job_summary
  | JsonBody jobj
  | ArtifactsBody str "artifact_ref list"
  | FileBody str str
  | RunBody str job_status "int option"
  | ConfirmBody str job_status "int option" str
  | PlanBody str plan_answer
  | DraftBody draft_answer
  | PendingBody str int str
  | PatchBody patch_answer
  | BundleBody upload_bundle
  | RedeemBody redeem_result

datatype 'a body = Payload 'a | ErrorBody str str jobj

record 'a http_reply =
  rs_status :: nat
  rs_body :: "'a body"
  rs_request_id :: "str option"
  rs_deprecated :: bool

section \<open>The routes of a job (api/jobs.py)\<close>

definition uploads_of ::
  "upload_part list \<Rightarrow> str list option \<Rightarrow> str list option \<Rightarrow> exn + dataset_upload list" where
  "uploads_of files role filename =
     (let file_count = length files;
          roles = (case role of None \<Rightarrow> ''primary_dataset'' # replicate (file_count - 1) ''secondary_dataset'' | Some rs \<Rightarrow> rs)
      in bindE (guardE (length roles = file_count) (InErr InputRoleCountMismatch)) (\<lambda>_.
         bindE (case filename of
                  None \<Rightarrow> Inr (replicate file_count None)
                | Some names \<Rightarrow>
                    (if length names \<noteq> file_count then Inl (InErr InputFilenameCountMismatch)
                     else Inr (map Some names))) (\<lambda>overrides.
           Inr (map (\<lambda>(item, r, override).
                  \<lparr>du_role = r, du_data = up_data item, du_original_name = up_filename item,
                   du_filename_override = override, du_content_type = up_content_type item\<rparr>)
                (zip files (zip roles overrides))))))"

text \<open>\<open>list_artifacts\<close>; the extra fields of references, which nothing in the service writes, are not in the model.\<close>

definition list_artifacts :: "str \<Rightarrow> str \<Rightarrow> job_store \<Rightarrow> exn + artifact_ref list" where
  "list_artifacts tenant_id job_id s = bindE (store_load tenant_id job_id s) (\<lambda>job. Inr (j_artifacts_index job))"

definition download_job_artifact :: "api_env \<Rightarrow> str \<Rightarrow> str \<Rightarrow> str \<Rightarrow> job_store \<Rightarrow> exn + api_body" where
  "download_job_artifact env tenant_id job_id artifact_id s =
     bindE (resolve_download_path (hp_download env tenant_id job_id) tenant_id job_id artifact_id s) (\<lambda>path.
     bindE (hp_read_bytes env path) (\<lambda>content. Inr (FileBody content (last (py_split (CHR ''/'') artifact_id)))))"

definition run_payload :: "str list option \<Rightarrow> run_request" where
  "run_payload output_formats =
     \<lparr>rr_notes = None, rr_output_formats = map_option (map JStr) output_formats, rr_variable_corrections = None,
      rr_answers = None, rr_default_overrides = None, rr_feedback = None\<rparr>"

definition confirm_payload ::
  "str option \<Rightarrow> str list option \<Rightarrow> (str, str) dict \<Rightarrow> jobj \<Rightarrow> jobj \<Rightarrow> jobj \<Rightarrow> run_request" where
  "confirm_payload notes output_formats corrections answers overrides feedback =
     \<lparr>rr_notes = notes, rr_output_formats = map_option (map JStr) output_formats,
      rr_variable_corrections = Some corrections, rr_answers = Some answers, rr_default_overrides = Some overrides,
      rr_feedback = Some feedback\<rparr>"

definition freeze_payload :: "str option \<Rightarrow> jobj \<Rightarrow> (str, str) dict \<Rightarrow> job_confirmation" where
  "freeze_payload notes answers corrections =
     \<lparr>jc_requirement = None, jc_notes = notes, jc_variable_corrections = corrections, jc_answers = answers,
      jc_default_overrides = [], jc_expert_suggestions_feedback = []\<rparr>"

definition plan_answer_of :: "llm_plan \<Rightarrow> plan_answer" where
  "plan_answer_of p =
     \<lparr>pw_plan_version = lp_plan_version p, pw_plan_id = lp_plan_id p, pw_rel_path = lp_rel_path p,
      pw_steps = map (\<lambda>s. (ps_step_id s, ps_type s, ps_params s, ps_depends_on s, ps_produces s)) (lp_steps p)\<rparr>"

section \<open>The draft (api/draft.py)\<close>

fun dedupe_loop :: "nat \<Rightarrow> str list \<Rightarrow> str list \<Rightarrow> str list" where
  "dedupe_loop limit out [] = out"
| "dedupe_loop limit out (v # vs) =
     (if blank v \<or> v \<in> set out then dedupe_loop limit out vs
      else if limit \<le> length (out @ [v]) then out @ [v]
      else dedupe_loop limit (out @ [v]) vs)"

definition dedupe_candidates :: "str list \<Rightarrow> str list" where
  "dedupe_candidates values = dedupe_loop 300 [] values"

definition required_variable_candidates :: "draft \<Rightarrow> str list" where
  "required_variable_candidates d =
     (let candidates = dedupe_candidates
            (map cc_name (filter (\<lambda>c. cc_role c = ''primary_dataset'') (d_column_candidates_v2 d)))
      in if candidates = [] then dedupe_candidates (d_column_candidates d) else candidates)"

definition list_of_dicts :: "json option \<Rightarrow> jobj list" where
  "list_of_dicts v = (case v of Some (JList items) \<Rightarrow> List.map_filter as_obj items | _ \<Rightarrow> [])"

text \<open>\<open>DraftDataQualityWarning\<close>, as pydantic accepts it.\<close>

definition warning_valid :: "jobj \<Rightarrow> bool" where
  "warning_valid w =
     (list_all (\<lambda>k. case dict_get w k of Some v \<Rightarrow> is_str v | None \<Rightarrow> False) [''type'', ''severity'', ''message''] \<and>
      (case dict_get w ''suggestion'' of None \<Rightarrow> True | Some v \<Rightarrow> v = JNull \<or> is_str v))"

definition decision_of :: "draft \<Rightarrow> str" where
  "decision_of d =
     (case dict_get (d_extra d) ''decision'' of
        Some (JStr s) \<Rightarrow>
          (if s \<in> {''auto_freeze'', ''require_confirm'', ''require_confirm_with_downgrade''} then s
           else ''require_confirm'')
      | _ \<Rightarrow> ''require_confirm'')"

definition risk_score_of :: "draft \<Rightarrow> exn + pyfloat" where
  "risk_score_of d =
     (case dict_get (d_extra d) ''risk_score'' of
        None \<Rightarrow> Inr (Finite 0)
      | Some (JFloat f) \<Rightarrow> Inr f
      | Some (JInt n) \<Rightarrow> (case double_of (of_int n) of Finite r \<Rightarrow> Inr (Finite r) | _ \<Rightarrow> Inl (PyErr PyOverflowError))
      | Some (JBool b) \<Rightarrow> Inr (Finite (if b then 1 else 0))
      | Some (JStr s) \<Rightarrow> (case float_of_str s of None \<Rightarrow> Inl (PyErr PyValueError) | Some f \<Rightarrow> Inr f)
      | Some _ \<Rightarrow> Inl (PyErr PyTypeError))"

definition draft_id_of :: "api_env \<Rightarrow> draft \<Rightarrow> str" where
  "draft_id_of env d =
     (case dict_get (d_extra d) ''draft_id'' of None \<Rightarrow> [] | Some (JStr s) \<Rightarrow> s | Some v \<Rightarrow> hp_str env v)"

definition draft_answer_of :: "api_env \<Rightarrow> str \<Rightarrow> draft \<Rightarrow> exn + draft_answer" where
  "draft_answer_of env job_id d =
     (let candidates = required_variable_candidates d;
          warnings = list_of_dicts (dict_get (d_extra d) ''data_quality_warnings'')
      in bindE (risk_score_of d) (\<lambda>risk.
         bindE (guardE (list_all warning_valid warnings) (PyErr PyValueError)) (\<lambda>_.
           Inr \<lparr>dv_job_id = job_id, dv_draft_text = d_text d, dv_draft_id = draft_id_of env d,
                dv_decision = decision_of d, dv_risk_score = risk, dv_outcome_var = d_outcome_var d,
                dv_treatment_var = d_treatment_var d, dv_controls = d_controls d,
                dv_column_candidates = d_column_candidates d, dv_column_candidates_v2 = d_column_candidates_v2 d,
                dv_column_name_normalizations = d_column_name_normalizations d,
                dv_required_variables = [(''__ID_VAR__'', candidates), (''__TIME_VAR__'', candidates)],
                dv_data_quality_warnings = warnings, dv_stage1_questions = d_stage1_questions d,
                dv_open_unknowns = d_open_unknowns d, dv_variable_types = d_variable_types d,
                dv_data_sources = d_data_sources d, dv_default_overrides = d_default_overrides d\<rparr>)))"

definition patch_answer_of :: "draft_patch_result \<Rightarrow> patch_answer" where
  "patch_answer_of r =
     \<lparr>py_patched_fields = dp_patched_fields r, py_remaining_unknowns_count = dp_remaining_unknowns r,
      py_open_unknowns = d_open_unknowns (dp_draft r), py_outcome_var = d_outcome_var (dp_draft r),
      py_treatment_var = d_treatment_var (dp_draft r), py_controls = d_controls (dp_draft r)\<rparr>"

text \<open>The draft service of the process has its template selection; the evidence files of a selection are not
  part of this state.\<close>

definition select_template_on :: "select_env \<Rightarrow> str \<Rightarrow> str \<Rightarrow> world \<Rightarrow> world \<times> (exn + unit)" where
  "select_template_on env t j w =
     (case llm_select_template env t j (w_store w, Map.empty) of
        ((s, evidence), Inl e) \<Rightarrow> (w\<lparr>w_store := s\<rparr>, Inl e)
      | ((s, evidence), Inr r) \<Rightarrow> (w\<lparr>w_store := s\<rparr>, Inr ()))"

definition draft_service :: "api_env \<Rightarrow> draft_env" where
  "draft_service env = (hp_draft env)\<lparr>dr_select_template := Some (select_template_on (hp_select env))\<rparr>"

definition pending_answer :: "api_env \<Rightarrow> nat \<times> api_body" where
  "pending_answer env = (202, PendingBody ''pending_inputs_upload'' 3 (hp_iso env (hp_now env + 30)))"

definition preview_answer :: "api_env \<Rightarrow> str \<Rightarrow> str option \<Rightarrow> draft option \<Rightarrow> exn + nat \<times> api_body" where
  "preview_answer env job_id main_data_source_id result =
     (case result of
        None \<Rightarrow>
          (if main_data_source_id \<noteq> None then Inl (InErr InputMainDataSourceNotFound) else Inr (pending_answer env))
      | Some d \<Rightarrow>
          bindE (guardE (case main_data_source_id of
                           None \<Rightarrow> True | Some i \<Rightarrow> i \<in> ds_dataset_key ` set (d_data_sources d))
                   (InErr InputMainDataSourceNotFound)) (\<lambda>_.
          bindE (draft_answer_of env job_id d) (\<lambda>answer. Inr (200, DraftBody answer))))"

section \<open>What a route does\<close>

abbreviation ok :: "'a \<Rightarrow> ('s, nat \<times> 'a) act" where
  "ok body \<equiv> ret (200, body)"

definition get_job ::
  "api_env \<Rightarrow> str \<Rightarrow> str \<Rightarrow> (upload_world, nat \<times> api_body) act" where
  "get_job env t j =
     bindA (reading (\<lambda>w. get_job_summary t j (w_store (uw_world w)))) (\<lambda>s. ok (SummaryBody s))"

definition upload_job_inputs ::
  "api_env \<Rightarrow> str \<Rightarrow> str \<Rightarrow> upload_part list \<Rightarrow> str list option \<Rightarrow> str list option \<Rightarrow> (upload_world, nat \<times> api_body) act" where
  "upload_job_inputs env t j files role filename =
     bindA (liftE (uploads_of files role filename)) (\<lambda>uploads.
     bindA (upload_datasets (hp_inputs env) t j uploads) (\<lambda>payload. ok (JsonBody payload)))"

definition preview_job_inputs ::
  "api_env \<Rightarrow> str \<Rightarrow> str \<Rightarrow> int \<Rightarrow> int \<Rightarrow> (upload_world, nat \<times> api_body) act" where
  "preview_job_inputs env t j rows columns =
     bindA (reading (preview_primary_dataset (hp_inputs env) t j (nat rows) (nat columns))) (\<lambda>p. ok (JsonBody p))"

definition get_job_artifacts ::
  "api_env \<Rightarrow> str \<Rightarrow> str \<Rightarrow> (upload_world, nat \<times> api_body) act" where
  "get_job_artifacts env t j =
     bindA (reading (\<lambda>w. list_artifacts t j (w_store (uw_world w)))) (\<lambda>refs. ok (ArtifactsBody j refs))"

definition serve_job_artifact ::
  "api_env \<Rightarrow> str \<Rightarrow> str \<Rightarrow> str \<Rightarrow> (upload_world, nat \<times> api_body) act" where
  "serve_job_artifact env t j artifact_id =
     bindA (reading (\<lambda>w. download_job_artifact env t j artifact_id (w_store (uw_world w)))) ok"

definition run_job ::
  "api_env \<Rightarrow> str \<Rightarrow> str \<Rightarrow> str list option \<Rightarrow> (upload_world, nat \<times> api_body) act" where
  "run_job env t j output_formats =
     bindA (in_world (trigger_run (hp_svc env) t j (run_payload output_formats))) (\<lambda>job.
       ok (RunBody (j_job_id job) (j_status job) (j_scheduled_at job)))"

definition confirm_job_route ::
  "api_env \<Rightarrow> str \<Rightarrow> str \<Rightarrow> bool \<Rightarrow> str option \<Rightarrow> str list option \<Rightarrow> (str, str) dict \<Rightarrow> jobj \<Rightarrow> jobj \<Rightarrow> jobj \<Rightarrow> (upload_world, nat \<times> api_body) act" where
  "confirm_job_route env t j confirmed notes output_formats corrections answers overrides feedback =
     bindA (in_world (confirm_job (hp_svc env) t j confirmed
              (confirm_payload notes output_formats corrections answers overrides feedback))) (\<lambda>job.
       ok (ConfirmBody (j_job_id job) (j_status job) (j_scheduled_at job)
             (if confirmed then ''confirmed'' else ''skipped'')))"

definition freeze_plan_route ::
  "api_env \<Rightarrow> str \<Rightarrow> str \<Rightarrow> str option \<Rightarrow> jobj \<Rightarrow> (str, str) dict \<Rightarrow> (upload_world, nat \<times> api_body) act" where
  "freeze_plan_route env t j notes answers corrections =
     bindA (in_world (freeze_plan (sv_plan (hp_svc env)) t j (freeze_payload notes answers corrections))) (\<lambda>plan.
       ok (PlanBody j (plan_answer_of plan)))"

definition get_plan ::
  "api_env \<Rightarrow> str \<Rightarrow> str \<Rightarrow> (upload_world, nat \<times> api_body) act" where
  "get_plan env t j =
     bindA (reading (\<lambda>w. get_frozen_plan t j (uw_world w))) (\<lambda>plan. ok (PlanBody j (plan_answer_of plan)))"

definition draft_preview ::
  "api_env \<Rightarrow> str \<Rightarrow> str \<Rightarrow> str option \<Rightarrow> (upload_world, nat \<times> api_body) act" where
  "draft_preview env t j main_data_source_id =
     bindA (in_world (preview_v1 (draft_service env) t j)) (\<lambda>result.
       liftE (preview_answer env j main_data_source_id result))"

definition draft_patch ::
  "api_env \<Rightarrow> str \<Rightarrow> str \<Rightarrow> jobj \<Rightarrow> (upload_world, nat \<times> api_body) act" where
  "draft_patch env t j field_updates =
     bindA (in_world (patch_v1 (draft_service env) t j field_updates)) (\<lambda>r. ok (PatchBody (patch_answer_of r)))"

definition create_bundle_route ::
  "api_env \<Rightarrow> str \<Rightarrow> str \<Rightarrow> bundle_declaration list \<Rightarrow> (upload_world, nat \<times> api_body) act" where
  "create_bundle_route env t j files =
     bindA (create_bundle (ie_upload (hp_inputs env)) t j files) (\<lambda>b. ok (BundleBody b))"

definition get_bundle_route ::
  "api_env \<Rightarrow> str \<Rightarrow> str \<Rightarrow> (upload_world, nat \<times> api_body) act" where
  "get_bundle_route env t j = bindA (reading (get_bundle t j)) (\<lambda>b. ok (BundleBody b))"

definition select_primary_sheet_route ::
  "api_env \<Rightarrow> str \<Rightarrow> str \<Rightarrow> str \<Rightarrow> int \<Rightarrow> int \<Rightarrow> (upload_world, nat \<times> api_body) act" where
  "select_primary_sheet_route env t j sheet_name rows columns =
     bindA (select_primary_excel_sheet (hp_inputs env) t j sheet_name) (\<lambda>_.
     bindA (reading (preview_primary_dataset (hp_inputs env) t j (nat rows) (nat columns))) (\<lambda>p. ok (JsonBody p)))"

definition select_dataset_sheet_route ::
  "api_env \<Rightarrow> str \<Rightarrow> str \<Rightarrow> str \<Rightarrow> str \<Rightarrow> int \<Rightarrow> int \<Rightarrow> (upload_world, nat \<times> api_body) act" where
  "select_dataset_sheet_route env t j dataset_key sheet_name rows columns =
     bindA (select_dataset_excel_sheet (hp_inputs env) t j dataset_key sheet_name) (\<lambda>_.
     bindA (reading (preview_primary_dataset (hp_inputs env) t j (nat rows) (nat columns))) (\<lambda>p. ok (JsonBody p)))"

definition create_upload_session ::
  "api_env \<Rightarrow> str \<Rightarrow> str \<Rightarrow> str \<Rightarrow> str \<Rightarrow> (upload_world, nat \<times> api_body) act" where
  "create_upload_session env t j bundle_id file_id =
     bindA (issue_session (ie_upload (hp_inputs env)) t j bundle_id file_id) (\<lambda>p. ok (JsonBody p))"

fun run_job_call :: "api_env \<Rightarrow> str \<Rightarrow> str \<Rightarrow> job_call \<Rightarrow> (upload_world, nat \<times> api_body) act" where
  "run_job_call env t j GetJob = get_job env t j"
| "run_job_call env t j (UploadInputs files role filename) = upload_job_inputs env t j files role filename"
| "run_job_call env t j (PreviewInputs rows columns) = preview_job_inputs env t j rows columns"
| "run_job_call env t j GetArtifacts = get_job_artifacts env t j"
| "run_job_call env t j (DownloadArtifact artifact_id) = serve_job_artifact env t j artifact_id"
| "run_job_call env t j (RunJob output_formats) = run_job env t j output_formats"
| "run_job_call env t j (ConfirmJob confirmed notes output_formats corrections answers overrides feedback) = confirm_job_route env t j confirmed notes output_formats corrections answers overrides feedback"
| "run_job_call env t j (FreezePlan notes answers corrections) = freeze_plan_route env t j notes answers corrections"
| "run_job_call env t j GetPlan = get_plan env t j"
| "run_job_call env t j (DraftPreview main_data_source_id) = draft_preview env t j main_data_source_id"
| "run_job_call env t j (DraftPatch field_updates) = draft_patch env t j field_updates"
| "run_job_call env t j (CreateBundle files) = create_bundle_route env t j files"
| "run_job_call env t j GetBundle = get_bundle_route env t j"
| "run_job_call env t j (SelectPrimarySheet sheet_name rows columns) = select_primary_sheet_route env t j sheet_name rows columns"
| "run_job_call env t j (SelectDatasetSheet dataset_key sheet_name rows columns) = select_dataset_sheet_route env t j dataset_key sheet_name rows columns"
| "run_job_call env t j (CreateUploadSession bundle_id file_id) = create_upload_session env t j bundle_id file_id"

lemmas route_defs = get_job_def upload_job_inputs_def preview_job_inputs_def get_job_artifacts_def serve_job_artifact_def run_job_def confirm_job_route_def freeze_plan_route_def get_plan_def draft_preview_def draft_patch_def create_bundle_route_def get_bundle_route_def select_primary_sheet_route_def select_dataset_sheet_route_def create_upload_session_def

definition on_uploads :: "(upload_world, 'a) act \<Rightarrow> (api_state, 'a) act" where
  "on_uploads m s = (case m (st_uploads s) of (w, r) \<Rightarrow> (s\<lparr>st_uploads := w\<rparr>, r))"

definition redeem_on :: "api_env \<Rightarrow> str \<Rightarrow> str \<Rightarrow> str \<Rightarrow> (api_state, redeem_result) act" where
  "redeem_on env t task_code requirement s =
     (case redeem (hp_redeem env) t task_code requirement (w_store (st_world s), Some (st_codes s)) of
        ((store, codes), r) \<Rightarrow>
          (s\<lparr>st_uploads := (st_uploads s)\<lparr>uw_world := (st_world s)\<lparr>w_store := store\<rparr>\<rparr>,
             st_codes := (case codes of None \<Rightarrow> st_codes s | Some cs \<Rightarrow> cs)\<rparr>, r))"

definition refresh_upload_urls :: "api_env \<Rightarrow> str \<Rightarrow> str \<Rightarrow> int list option \<Rightarrow> (upload_world, nat \<times> api_body) act" where
  "refresh_upload_urls env t sid part_numbers =
     bindA (refresh_session (ie_upload (hp_inputs env)) t sid part_numbers) (\<lambda>p. ok (JsonBody p))"

text \<open>A success and a failure of finalizing are both answers with status 200.\<close>

definition finalize_upload :: "api_env \<Rightarrow> str \<Rightarrow> str \<Rightarrow> json list \<Rightarrow> (upload_world, nat \<times> api_body) act" where
  "finalize_upload env t sid parts =
     bindA (finalize_session (ie_upload (hp_inputs env)) t sid parts) (\<lambda>p. ok (JsonBody p))"

fun run_v1_call :: "api_env \<Rightarrow> str \<Rightarrow> v1_call \<Rightarrow> (api_state, nat \<times> api_body) act" where
  "run_v1_call env t (JobCall job_id call) = on_uploads (run_job_call env t job_id call)"
| "run_v1_call env t (RefreshUploadUrls sid part_numbers) =
     on_uploads (refresh_upload_urls env t sid part_numbers)"
| "run_v1_call env t (FinalizeUpload sid parts) =
     on_uploads (finalize_upload env t sid parts)"
| "run_v1_call env t (RedeemTaskCode task_code requirement) =
     bindA (redeem_on env t task_code requirement) (\<lambda>r. ok (RedeemBody r))"

section \<open>The guards of the routers\<close>

text \<open>Which request may pass (api/routes.py, api/v1_auth.py).\<close>

fun authorize :: "int \<Rightarrow> job_store \<Rightarrow> str \<Rightarrow> str option \<Rightarrow> str option \<Rightarrow> v1_call \<Rightarrow> exn + unit" where
  "authorize now s t authorization job_query (JobCall job_id _) = enforce_job_auth now s t (Some job_id) authorization"
| "authorize now s t authorization job_query (RefreshUploadUrls sid _) =
     bindE (enforce_job_auth now s t job_query authorization) (\<lambda>_.
       enforce_upload_session_auth now s t (Some sid) authorization)"
| "authorize now s t authorization job_query (FinalizeUpload sid _) =
     bindE (enforce_job_auth now s t job_query authorization) (\<lambda>_.
       enforce_upload_session_auth now s t (Some sid) authorization)"
| "authorize now s t authorization job_query (RedeemTaskCode _ _) = Inr ()"

text \<open>The bounds the signatures declare.\<close>

definition page_ok :: "int \<Rightarrow> int \<Rightarrow> bool" where
  "page_ok rows columns = (1 \<le> rows \<and> rows \<le> 200 \<and> 1 \<le> columns \<and> columns \<le> 200)"

fun params_ok :: "v1_call \<Rightarrow> bool" where
  "params_ok (JobCall _ (UploadInputs files _ _)) = (files \<noteq> [])"
| "params_ok (JobCall _ (PreviewInputs rows columns)) = page_ok rows columns"
| "params_ok (JobCall _ (SelectPrimarySheet sheet_name rows columns)) = (sheet_name \<noteq> [] \<and> page_ok rows columns)"
| "params_ok (JobCall _ (SelectDatasetSheet _ sheet_name rows columns)) = (sheet_name \<noteq> [] \<and> page_ok rows columns)"
| "params_ok (JobCall _ (CreateBundle files)) = list_all (\<lambda>f. 0 \<le> bd_size_bytes f) files"
| "params_ok (RedeemTaskCode task_code _) = (task_code \<noteq> [])"
| "params_ok _ = True"

definition validation_answer :: "nat \<times> 'a body" where
  "validation_answer = (400, ErrorBody ''INPUT_VALIDATION_FAILED'' ''input is invalid'' [])"

definition replied :: "('s, nat \<times> 'a) act \<Rightarrow> ('s, nat \<times> 'a body) act" where
  "replied m = bindA m (\<lambda>(status, payload). ret (status, Payload payload))"

definition call_route :: "api_env \<Rightarrow> http_request \<Rightarrow> v1_call \<Rightarrow> (api_state, nat \<times> api_body body) act" where
  "call_route env rq call =
     bindA (liftE (get_tenant_id (rq_tenant rq))) (\<lambda>t.
     bindA (\<lambda>s. (s, authorize (hp_now env) (w_store (st_world s)) t (rq_authorization rq) (rq_job_query rq) call)) (\<lambda>_.
       if params_ok call then replied (run_v1_call env t call) else ret validation_answer))"

section \<open>Errors and the middleware (main.py)\<close>

definition shows_internals :: "str \<Rightarrow> bool" where
  "shows_internals message =
     (contains_str message ''Traceback'' \<or> CHR ''/'' \<in> set message \<or> CHR 0x5C \<in> set message)"

definition sanitized :: "nat \<Rightarrow> str \<Rightarrow> str" where
  "sanitized status message =
     (if 500 \<le> status \<and> shows_internals message then ''internal server error'' else message)"

text \<open>The details of a \<open>StructuredSSError\<close>; of those of \<open>PlanFreezeMissingRequiredError\<close> its two lists of names.\<close>

fun error_details :: "exn \<Rightarrow> jobj" where
  "error_details (PlanErr (PlanFreezeMissingRequired missing_fields missing_params)) =
     [(''missing_fields'', JList (map JStr missing_fields)), (''missing_params'', JList (map JStr missing_params))]"
| "error_details _ = []"

definition handle_ss_error :: "(exn \<Rightarrow> str) \<Rightarrow> exn \<Rightarrow> (nat \<times> 'a body) option" where
  "handle_ss_error message e =
     (case exn_info e of
        None \<Rightarrow> None
      | Some (code, status) \<Rightarrow> Some (status, ErrorBody code (sanitized status (message e)) (error_details e)))"

definition http_error_answer :: "nat \<Rightarrow> nat \<times> 'a body" where
  "http_error_answer status =
     (status,
      if status = 404 then ErrorBody ''API_NOT_FOUND'' ''route not found'' []
      else if status = 405 then ErrorBody ''API_METHOD_NOT_ALLOWED'' ''method not allowed'' []
      else ErrorBody ''API_HTTP_ERROR'' ''http error'' [])"

definition oom_answer :: "nat \<times> 'a body" where
  "oom_answer = (503, ErrorBody ''RESOURCE_OOM'' ''system is out of memory'' [])"

definition shutting_down_answer :: "nat \<times> 'a body" where
  "shutting_down_answer = (503, ErrorBody ''SERVICE_SHUTTING_DOWN'' (sanitized 503 ''service is shutting down'') [])"

text \<open>The application below the middleware. A call is \<open>Inl\<close> with the status of Starlette's own answer when no route
  fits the request; the answer is \<open>None\<close> when the exception has no handler there.\<close>

definition route_or_error ::
  "(exn \<Rightarrow> str) \<Rightarrow> ('c \<Rightarrow> ('s, nat \<times> 'a body) act) \<Rightarrow> nat + 'c \<Rightarrow> 's \<Rightarrow> 's \<times> (nat \<times> 'a body) option" where
  "route_or_error message run call s =
     (case call of
        Inl status \<Rightarrow> (s, Some (http_error_answer status))
      | Inr c \<Rightarrow>
          (case run c s of
             (s', Inr answer) \<Rightarrow> (s', Some answer)
           | (s', Inl e) \<Rightarrow> (s', handle_ss_error message e)))"

definition request_id_of :: "str \<Rightarrow> http_request \<Rightarrow> str" where
  "request_id_of uuid rq =
     (case (case rq_ss_request_id rq of None \<Rightarrow> rq_request_id rq | Some i \<Rightarrow> Some i) of
        None \<Rightarrow> uuid
      | Some i \<Rightarrow> (if blank i then uuid else i))"

definition is_legacy_unversioned_path :: "str \<Rightarrow> bool" where
  "is_legacy_unversioned_path path = startswith path ''/jobs''"

definition unhandled_answer :: "'a http_reply" where
  "unhandled_answer =
     \<lparr>rs_status = 500, rs_body = ErrorBody ''SERVICE_INTERNAL_ERROR'' ''internal server error'' [],
      rs_request_id = None, rs_deprecated = False\<rparr>"

definition with_middleware ::
  "str \<Rightarrow> http_request \<Rightarrow> bool \<Rightarrow> ('s \<Rightarrow> 's \<times> (nat \<times> 'a body) option) \<Rightarrow> 's \<Rightarrow> 's \<times> 'a http_reply" where
  "with_middleware uuid rq shutting_down app s =
     (case (if shutting_down then (s, Some shutting_down_answer) else app s) of
        (s', None) \<Rightarrow> (s', unhandled_answer)
      | (s', Some (status, body)) \<Rightarrow>
          (s', \<lparr>rs_status = status, rs_body = body, rs_request_id = Some (request_id_of uuid rq),
                rs_deprecated = is_legacy_unversioned_path (rq_path rq)\<rparr>))"

definition serve :: "api_env \<Rightarrow> http_request \<Rightarrow> nat + v1_call \<Rightarrow> api_state \<Rightarrow> api_state \<times> api_body http_reply" where
  "serve env rq call s =
     with_middleware (hp_uuid env) rq (st_shutting_down s) (route_or_error (hp_message env) (call_route env rq) call) s"

end
