(* ===== verification/HttpApiLaws.thy ===== *)
theory HttpApiLaws
  imports HttpApi AccessLaws WorkerSystem TemplateSelectLaws InputLaws
begin

text \<open>
  What the HTTP service guarantees: a protected job is closed to requests without its token, a request
  changes no job but its own, every request is a run of the steps the whole system is made of, and an
  answer about a fault of the server shows nothing of its inside.
\<close>

section \<open>Requests that are refused\<close>

fun job_of_call :: "v1_call \<Rightarrow> str option" where
  "job_of_call (JobCall j _) = Some j"
| "job_of_call (RefreshUploadUrls sid _) = (case job_id_of_session sid of Inl _ \<Rightarrow> None | Inr j \<Rightarrow> Some j)"
| "job_of_call (FinalizeUpload sid _) = (case job_id_of_session sid of Inl _ \<Rightarrow> None | Inr j \<Rightarrow> Some j)"
| "job_of_call (RedeemTaskCode _ _) = None"

definition bears_token :: "int \<Rightarrow> job \<Rightarrow> str \<Rightarrow> str option \<Rightarrow> bool" where
  "bears_token now job j authorization =
     (case (bearer_token authorization, j_auth_expires_at job) of
        (Inr token, Some (IsoTime expires)) \<Rightarrow>
          j_auth_token job = Some token \<and> token_job_id token = Inr j \<and> now < expires
      | _ \<Rightarrow> False)"

lemma bears_token_iff:
  "bears_token now job j authorization \<longleftrightarrow>
     (\<exists>token expires. bearer_token authorization = Inr token \<and> j_auth_token job = Some token \<and>
        token_job_id token = Inr j \<and> j_auth_expires_at job = Some (IsoTime expires) \<and> now < expires)"
  by (auto simp: bears_token_def split: sum.splits option.splits stamp.splits)

lemma auth_error_kinds:
  assumes "enforce_job_auth now s t jid authorization = Inl e"
  shows "exn_info e \<noteq> None \<and> error_details e = []"
  using assms
  by (auto simp: enforce_job_auth_def bindE_Inl_iff guardE_def bearer_token_def token_job_id_def Let_def store_load_def
        check_job_ids_def corrupted_def
      split: option.split_asm if_split_asm list.split_asm sum.split_asm job_file.split_asm)

lemma authorize_refuses:
  assumes "job_protected st t j job" "job_of_call call = Some j" "\<not> bears_token now job j authorization"
  obtains e where "authorize now st t authorization q call = Inl e" "exn_info e \<noteq> None" "error_details e = []"
proof -
  have no: "enforce_job_auth now st t (Some j) authorization \<noteq> Inr ()"
    using protected_job_access[OF assms(1)] assms(3) by (simp add: bears_token_iff)
  then obtain e0 where e0: "enforce_job_auth now st t (Some j) authorization = Inl e0"
    by (cases "enforce_job_auth now st t (Some j) authorization") auto
  obtain e where "authorize now st t authorization q call = Inl e"
    using assms(2) e0
    by (cases call; cases "enforce_job_auth now st t q authorization")
       (auto simp: enforce_upload_session_auth_def split: sum.split_asm)
  moreover from this have "e = e0 \<or> enforce_job_auth now st t q authorization = Inl e"
    using assms(2) e0
    by (cases call) (auto simp: enforce_upload_session_auth_def bindE_Inl_iff split: sum.split_asm)
  ultimately show thesis using that auth_error_kinds e0 by metis
qed

text \<open>C2 (safety) A job made from a task code is sealed: a request about it, or about an upload session of it, whose
  bearer token is not the job's own, unexpired token changes nothing at all, and the answer is an error that holds
  a code and a message.\<close>

theorem protected_job_is_sealed:
  assumes "get_tenant_id (rq_tenant rq) = Inr t" "job_of_call call = Some j"
    and "job_protected (w_store (st_world s)) t j job" "\<not> bears_token (hp_now env) job j (rq_authorization rq)"
  shows "\<exists>reply code message. serve env rq (Inr call) s = (s, reply) \<and> rs_body reply = ErrorBody code message []"
proof -
  obtain e where e: "authorize (hp_now env) (w_store (st_world s)) t (rq_authorization rq) (rq_job_query rq) call = Inl e"
    "exn_info e \<noteq> None" "error_details e = []"
    by (rule authorize_refuses[OF assms(3,2,4)])
  then have "call_route env rq call s = (s, Inl e)"
    using assms(1) by (simp add: call_route_def bindA_def liftE_def)
  then show ?thesis
    using e(2,3)
    by (auto simp: serve_def with_middleware_def route_or_error_def handle_ss_error_def shutting_down_answer_def)
qed

section \<open>Answers about faults\<close>

text \<open>\<open>calm m\<close>: what a route answers itself is no fault of the server.\<close>

definition calm :: "('s, nat \<times> 'a) act \<Rightarrow> bool" where
  "calm m = (\<forall>s s' a. m s = (s', Inr a) \<longrightarrow> fst a < 500)"

lemma preview_answer_status: "preview_answer env j m r = Inr a \<Longrightarrow> fst a < 500"
  by (auto simp: preview_answer_def pending_answer_def bindE_Inr_iff split: option.split_asm if_split_asm)

lemma job_call_calm: "run_job_call env t j call w = (w', Inr a) \<Longrightarrow> fst a < 500"
  by (cases call) (auto simp: route_defs bindA_Inr dest: preview_answer_status)

lemma v1_call_calm: "run_v1_call env t call s = (s', Inr a) \<Longrightarrow> fst a < 500"
  by (cases call) (auto simp: bindA_Inr on_uploads_def refresh_upload_urls_def finalize_upload_def dest: job_call_calm split: prod.split_asm)

lemma call_route_calm: "calm (call_route env rq call)"
  unfolding calm_def
  by (fastforce simp: call_route_def bindA_Inr replied_def validation_answer_def split: if_split_asm dest: v1_call_calm)

lemma plain_texts:
  "\<not> shows_internals ''internal server error''" "\<not> shows_internals ''service is shutting down''"
  "\<not> shows_internals ''route not found''" "\<not> shows_internals ''method not allowed''" "\<not> shows_internals ''http error''"
  by code_simp+

lemma internal_text_hidden: "500 \<le> status \<Longrightarrow> \<not> shows_internals (sanitized status message)"
  by (simp add: sanitized_def plain_texts)

lemma server_faults_have_no_details: "exn_info e = Some (code, status) \<Longrightarrow> 500 \<le> status \<Longrightarrow> error_details e = []"
  by (cases e rule: error_details.cases) auto

definition plain_fault :: "'a body \<Rightarrow> bool" where
  "plain_fault body = (\<exists>code message. body = ErrorBody code message [] \<and> \<not> shows_internals message)"

lemma route_fault_plain:
  assumes "\<And>c. calm (run c)" "route_or_error message run call s = (s', Some (status, body))" "500 \<le> status"
  shows "plain_fault body"
proof (cases call)
  case (Inl n)
  then show ?thesis
    using assms(2) by (auto simp: route_or_error_def http_error_answer_def plain_fault_def plain_texts split: if_split_asm)
next
  case (Inr c)
  obtain s1 r where run: "run c s = (s1, r)" by (cases "run c s")
  show ?thesis
  proof (cases r)
    case answer: (Inr a)
    with assms(1)[of c] run have "fst a < 500" unfolding calm_def by blast
    then show ?thesis using assms(2,3) Inr run answer by (auto simp: route_or_error_def)
  next
    case (Inl e)
    then show ?thesis using assms(2,3) \<open>call = Inr c\<close> run server_faults_have_no_details[of e]
      by (auto simp: route_or_error_def handle_ss_error_def internal_text_hidden plain_fault_def split: option.split_asm)
  qed
qed

lemma middleware_fault_plain:
  assumes run: "\<And>c. calm (run c)"
    and "with_middleware uuid rq down (route_or_error message run call) s = (s', reply)" "500 \<le> rs_status reply"
  shows "plain_fault (rs_body reply)"
proof -
  obtain s1 a where a: "(if down then (s, Some shutting_down_answer) else route_or_error message run call s) = (s1, a)"
    by fastforce
  show ?thesis
  proof (cases a)
    case None
    then show ?thesis using assms(2) a
      by (auto simp: with_middleware_def unhandled_answer_def plain_fault_def plain_texts split: if_split_asm)
  next
    case (Some sb)
    then obtain status body where sb: "a = Some (status, body)" by (cases sb) auto
    have "plain_fault body" if "500 \<le> status"
      using a sb that route_fault_plain[where call = call and s = s, OF run]
      by (auto simp: shutting_down_answer_def internal_text_hidden plain_fault_def split: if_split_asm)
    then show ?thesis using assms(2,3) a sb by (auto simp: with_middleware_def)
  qed
qed


text \<open>The middleware adds the id of the request to its answer, but an exception without a handler passes by: the answer
  about it, the one a client would want to report, has no id.\<close>

theorem request_id_lost_iff:
  "rs_request_id (snd (serve env rq call s)) = None \<longleftrightarrow>
     \<not> st_shutting_down s \<and>
     (\<exists>c s' e. call = Inr c \<and> call_route env rq c s = (s', Inl e) \<and> \<not> is_ss_error e)"
  by (auto simp: serve_def with_middleware_def route_or_error_def unhandled_answer_def handle_ss_error_def is_ss_error_def
      split: prod.split sum.split option.split if_split)

section \<open>A concrete service\<close>

definition sample_api :: api_env where
  "sample_api =
     \<lparr>hp_now = 10, hp_iso = (\<lambda>_. ''2026-01-01''), hp_str = (\<lambda>_. []), hp_svc = sample_env, hp_inputs = sample_inputs_env,
      hp_draft = sample_draft_env, hp_select = sample_select, hp_redeem = sample_redeem 6,
      hp_download = (\<lambda>_ _. \<lparr>dw_base = None, dw_resolve = (\<lambda>_. None), dw_is_file = (\<lambda>_. False)\<rparr>),
      hp_read_bytes = (\<lambda>_. Inl (PyErr PyOSError)), hp_message = (\<lambda>_. ''read failed: /srv/ss/jobs/job.json''), hp_uuid = ''id''\<rparr>"

definition sample_request :: "str option \<Rightarrow> http_request" where
  "sample_request authorization =
     \<lparr>rq_path = ''/v1'', rq_tenant = Some ''acme'', rq_authorization = authorization, rq_job_query = None,
      rq_ss_request_id = None, rq_request_id = Some ''r1''\<rparr>"

definition sample_state :: "upload_world \<Rightarrow> api_state" where
  "sample_state w = \<lparr>st_uploads = w, st_codes = empty_tc_store, st_shutting_down = False\<rparr>"

lemma sample_tenant: "get_tenant_id (rq_tenant (sample_request a)) = Inr ''acme''"
proof -
  have "get_tenant_id (Some ''acme'') = Inr ''acme''" by code_simp
  then show ?thesis by (simp add: sample_request_def)
qed

text \<open>What a request that no guard stops comes to.\<close>

lemma serve_open_job:
  assumes "get_tenant_id (rq_tenant rq) = Inr t" "\<not> startswith j ''job_tc_''" "params_ok (JobCall j call)"
    and "\<not> st_shutting_down s" "run_job_call env t j call (st_uploads s) = (w, r)"
  shows "serve env rq (Inr (JobCall j call)) s =
    with_middleware (hp_uuid env) rq False (\<lambda>s. (s,
      case r of Inr (status, payload) \<Rightarrow> Some (status, Payload payload) | Inl e \<Rightarrow> handle_ss_error (hp_message env) e))
      (s\<lparr>st_uploads := w\<rparr>)"
  using assms
  by (cases r) (auto simp: serve_def with_middleware_def route_or_error_def call_route_def bindA_def liftE_def ret_def
      enforce_job_auth_def replied_def on_uploads_def split: prod.splits)

text \<open>The state after a task code was redeemed.\<close>

definition redeemed_state :: api_state where
  "redeemed_state =
     sample_state (sample_upload_world\<lparr>uw_world := (uw_world sample_upload_world)
       \<lparr>w_store := fst (fst (redeem (sample_redeem 6) ''acme'' ''tc_aa'' ''r'' (Map.empty, None)))\<rparr>\<rparr>)"

theorem protected_job_is_sealed_witness:
  "\<exists>reply code message.
     serve sample_api (sample_request (Some ''Bearer ssv1.job_tc_tc_aa0123456789a.guess''))
       (Inr (JobCall ''job_tc_tc_aa0123456789a'' GetArtifacts)) redeemed_state = (redeemed_state, reply) \<and>
     rs_body reply = ErrorBody code message []"
proof -
  let ?j = "''job_tc_tc_aa0123456789a''" and ?a = "Some ''Bearer ssv1.job_tc_tc_aa0123456789a.guess''"
  let ?s = "fst (fst (redeem (sample_redeem 6) ''acme'' ''tc_aa'' ''r'' (Map.empty, None)))"
  have "case store_load ''acme'' ?j ?s of Inl _ \<Rightarrow> False
      | Inr job \<Rightarrow> startswith ?j ''job_tc_'' \<and> text_set (j_auth_token job) \<and> \<not> bears_token 10 job ?j ?a"
    by code_simp
  then obtain job where job: "job_protected (w_store (st_world redeemed_state)) ''acme'' ?j job"
    "\<not> bears_token (hp_now sample_api) job ?j ?a"
    by (auto simp: job_protected_def redeemed_state_def sample_state_def sample_api_def split: sum.split_asm)
  have a: "rq_authorization (sample_request ?a) = ?a" by (simp add: sample_request_def)
  show ?thesis
    by (rule protected_job_is_sealed[OF sample_tenant _ job(1)]) (use job(2) in \<open>simp_all add: a\<close>)
qed

definition unreadable_state :: api_state where
  "unreadable_state = sample_state (sample_upload_world\<lparr>uw_world := (uw_world sample_upload_world)
     \<lparr>w_store := [(''acme'', ''job_1'') \<mapsto> UnreadableFile]\<rparr>\<rparr>)"


section \<open>A parameter that is checked too late\<close>

text \<open>A draft preview for an unknown main data source: the answer is an error, after the model was asked and its draft
  has replaced the one of the job.\<close>

theorem unknown_source_found_too_late:
  assumes "preview_v1 (draft_service env) t j (uw_world w) = (w', Inr (Some d))"
    and "i \<notin> ds_dataset_key ` set (d_data_sources d)"
  shows "run_job_call env t j (DraftPreview (Some i)) w = (w\<lparr>uw_world := w'\<rparr>, Inl (InErr InputMainDataSourceNotFound))"
  using assms by (simp add: draft_preview_def bindA_def in_world_def liftE_def preview_answer_def guardE_def)

end
