(* ===== verification/StateRelation.thy ===== *)
theory StateRelation
  imports Effects
begin

text \<open>
  Computations all of whose effects stay inside a relation between states: nothing but one file is touched, only
  steps of the system happen. For a reflexive and transitive relation this is inherited by everything that is
  composed of such computations; the locale proves it once for every relation.
\<close>

definition inside :: "('s \<Rightarrow> 's \<Rightarrow> bool) \<Rightarrow> ('s, 'a) act \<Rightarrow> bool" where
  "inside R m = (\<forall>s. R s (fst (m s)))"

lemma insideI: "(\<And>s s' r. m s = (s', r) \<Longrightarrow> R s s') \<Longrightarrow> inside R m"
  by (metis inside_def prod.collapse)

lemma insideD: "inside R m \<Longrightarrow> m s = (s', r) \<Longrightarrow> R s s'"
  by (metis inside_def fst_conv)

lemma inside_mono: "inside R m \<Longrightarrow> (\<And>s s'. R s s' \<Longrightarrow> R' s s') \<Longrightarrow> inside R' m"
  by (simp add: inside_def)

locale state_relation =
  fixes R :: "'s \<Rightarrow> 's \<Rightarrow> bool"
  assumes refl: "R s s"
    and trans: "R s1 s2 \<Longrightarrow> R s2 s3 \<Longrightarrow> R s1 s3"
begin

lemma inside_ret: "inside R (ret x)"
  by (simp add: inside_def ret_def refl)

lemma inside_raise: "inside R (raise_exn e)"
  by (simp add: inside_def raise_exn_def refl)

lemma inside_lift: "inside R (liftE r)"
  by (simp add: inside_def liftE_def refl)

lemma inside_look: "inside R (\<lambda>s. (s, f s))"
  by (simp add: inside_def refl)

lemma inside_bind: "inside R m \<Longrightarrow> (\<And>x. inside R (f x)) \<Longrightarrow> inside R (bindA m f)"
  by (auto simp: inside_def bindA_def intro: trans split: prod.split sum.split) (metis fst_conv trans)

lemma inside_bindD:
  assumes run: "bindA m f s = (s', r)" and m: "inside R m" and f: "\<And>x. inside R (f x)"
  shows "R s s'"
  by (rule insideD[OF inside_bind[OF m f] run])

lemma inside_fold: "(\<And>b x. inside R (f b x)) \<Longrightarrow> inside R (foldA f b xs)"
  by (induction xs arbitrary: b) (auto intro: inside_ret inside_bind)

lemma inside_if: "inside R m \<Longrightarrow> inside R n \<Longrightarrow> inside R (if b then m else n)"
  by simp

lemma inside_option: "inside R m \<Longrightarrow> (\<And>y. inside R (f y)) \<Longrightarrow> inside R (case x of None \<Rightarrow> m | Some y \<Rightarrow> f y)"
  by (cases x) simp_all

lemma inside_prod: "(\<And>a b. inside R (f a b)) \<Longrightarrow> inside R (case p of (a, b) \<Rightarrow> f a b)"
  by (cases p) simp

lemma inside_sum:
  "(\<And>a. inside R (f a)) \<Longrightarrow> (\<And>b. inside R (g b)) \<Longrightarrow> inside R (case x of Inl a \<Rightarrow> f a | Inr b \<Rightarrow> g b)"
  by (cases x) simp_all

lemmas intros = inside_ret inside_raise inside_lift inside_look inside_bind inside_fold inside_if inside_option
  inside_prod inside_sum

end

end
