(* ===== verification/JobFrames.thy ===== *)
theory JobFrames
  imports StateRelation TaskCodeLaws DraftServiceLaws TemplateSelectLaws
begin

text \<open>
  Which job an operation of the services touches: nothing but the file of the job it was called for. The store
  holds every job under its own id, and keeps doing so.
\<close>

section \<open>The relation\<close>

definition touches :: "str \<Rightarrow> str \<Rightarrow> job_store \<Rightarrow> job_store \<Rightarrow> bool" where
  "touches t j s s' \<longleftrightarrow> (store_ids_ok s \<longrightarrow> store_ids_ok s' \<and> (\<forall>k. k \<noteq> (t, j) \<longrightarrow> s' k = s k))"

interpretation touching: state_relation "touches t j"
  by unfold_locales (auto simp: touches_def)

lemmas touches_refl [simp, intro] = touching.refl
lemmas touches_trans = touching.trans

lemma touchesI: "(store_ids_ok s \<Longrightarrow> touches t j s s') \<Longrightarrow> touches t j s s'"
  by (auto simp: touches_def)

definition own :: "str \<Rightarrow> str \<Rightarrow> job \<Rightarrow> bool" where
  "own t j job = (j_tenant_id job = t \<and> j_job_id job = j)"

lemma touches_save: "store_save t job s = (s', r) \<Longrightarrow> own t j job \<Longrightarrow> touches t j s s'"
  by (cases r) (auto simp: touches_def own_def store_save_Inr store_ids_ok_def dest: store_save_Inl)

lemma loaded_own: "store_load t j s = Inr job \<Longrightarrow> store_ids_ok s \<Longrightarrow> own t j job"
  by (auto simp: store_load_JobFile store_ids_ok_def own_def)

lemma core_own: "job_core job' = job_core job \<Longrightarrow> own t j job' = own t j job"
  by (simp add: own_def job_core_def)

lemma own_update [simp]:
  "own t j (job\<lparr>j_status := st\<rparr>) = own t j job" "own t j (job\<lparr>j_scheduled_at := sc\<rparr>) = own t j job"
  "own t j (job\<lparr>j_output_formats := fs\<rparr>) = own t j job" "own t j (job\<lparr>j_draft := d\<rparr>) = own t j job"
  "own t j (job\<lparr>j_artifacts_index := ix\<rparr>) = own t j job" "own t j (job\<lparr>j_inputs := i\<rparr>) = own t j job"
  by (simp_all add: own_def)

section \<open>The job service\<close>

lemma queue_run_touches:
  "queue_run env t job w = (w', r) \<Longrightarrow> own t j job \<Longrightarrow> touches t j (w_store w) (w_store w')"
  by (auto simp: queue_run_def Let_def dest!: schedule_store touches_save[where j = j]
      split: prod.split_asm sum.split_asm if_split_asm)

lemma retry_formats_own: "retry_formats fmts job = Inr job' \<Longrightarrow> own t j job' = own t j job"
  by (auto simp: retry_formats_def split: if_split_asm sum.split_asm)

lemma retry_failed_job_touches:
  "retry_failed_job env t job fmts w = (w', r) \<Longrightarrow> own t j job \<Longrightarrow> touches t j (w_store w) (w_store w')"
  by (auto simp: retry_failed_job_def Let_def retry_formats_own[where t = t and j = j]
      dest!: schedule_store touches_save[where j = j] split: prod.split_asm sum.split_asm)

lemma freeze_plan_touches:
  assumes r: "freeze_plan env t j c w = (w', r)"
  shows "touches t j (w_store w) (w_store w')"
proof (rule touchesI)
  assume ids: "store_ids_ok (w_store w)"
  show "touches t j (w_store w) (w_store w')"
  proof (cases "bindE (store_load t j (w_store w)) (\<lambda>job. prepare_freeze env t job c)")
    case (Inr x)
    show ?thesis
    proof (cases x)
      case new: (Inr pj)
      obtain plan job where pj: "pj = (plan, job)" by (cases pj)
      obtain job0 where l: "store_load t j (w_store w) = Inr job0" "prepare_freeze env t job0 c = Inr (Inr (plan, job))"
        using Inr new pj by (auto simp: bindE_Inr_iff)
      have own: "own t j job" using loaded_own[OF l(1) ids] core_own prepare_freeze_new[OF l(2)] by blast
      obtain w1 x1 where a: "write_plan_artifact env t j plan w = (w1, x1)" by (cases "write_plan_artifact env t j plan w")
      then have w1: "w_store w1 = w_store w" by (rule artifact_store)
      show ?thesis
        using r Inr new pj a w1
        by (auto simp: freeze_plan_def dest!: touches_save[OF _ own] split: sum.split_asm prod.split_asm)
    qed (use r Inr in \<open>simp add: freeze_plan_def touches_refl\<close>)
  qed (use r in \<open>simp add: freeze_plan_def touches_refl\<close>)
qed

lemma freeze_plan_for_run_touches: "freeze_plan_for_run env t j rr w = (w', r) \<Longrightarrow> touches t j (w_store w) (w_store w')"
  by (auto simp: freeze_plan_for_run_def touches_refl dest!: freeze_plan_touches split: prod.split_asm sum.split_asm)

lemma confirm_and_queue_touches:
  "confirm_and_queue env t j rr job w = (w', r) \<Longrightarrow> own t j job \<Longrightarrow> touches t j (w_store w) (w_store w')"
  by (auto simp: confirm_and_queue_def Let_def touches_refl dest!: freeze_plan_for_run_touches queue_run_touches[where j = j]
      intro: touches_trans split: prod.split_asm sum.split_asm)

lemma trigger_run_loop_touches: "trigger_run_loop n env t j rr w = (w', r) \<Longrightarrow> touches t j (w_store w) (w_store w')"
proof (induction n arbitrary: w)
  case (Suc n)
  show ?case
  proof (rule touchesI)
    assume ids: "store_ids_ok (w_store w)"
    show "touches t j (w_store w) (w_store w')"
    proof (cases "store_load t j (w_store w)")
      case (Inr job)
      have own: "own t j job" by (rule loaded_own[OF Inr ids])
      obtain w1 x where cq: "confirm_and_queue env t j rr job w = (w1, x)" by (cases "confirm_and_queue env t j rr job w")
      note C = confirm_and_queue_touches[OF cq own]
      have "w' = w1 \<or> trigger_run_loop n env t j rr w1 = (w', r)"
        if "\<not> past_queueing (j_status job)" "j_status job \<noteq> FAILED"
        using Suc.prems Inr cq that by (auto split: sum.split_asm if_split_asm)
      with Suc.IH C Suc.prems Inr own show ?thesis
        by (cases "past_queueing (j_status job)"; cases "j_status job = FAILED")
           (auto simp: run_idempotent_noop_def intro: touches_trans dest: retry_failed_job_touches)
    qed (use Suc.prems in \<open>simp add: touches_refl\<close>)
  qed
qed (simp add: touches_refl)

lemma trigger_run_touches: "trigger_run env t j rr w = (w', r) \<Longrightarrow> touches t j (w_store w) (w_store w')"
  by (simp add: trigger_run_def trigger_run_loop_touches)

lemma confirm_job_touches: "confirm_job env t j confirmed rr w = (w', r) \<Longrightarrow> touches t j (w_store w) (w_store w')"
  by (auto simp: confirm_job_def touches_refl dest!: trigger_run_touches
      split: prod.split_asm sum.split_asm if_split_asm)

section \<open>Drafts and inputs\<close>

lemma patch_v1_touches: "patch_v1 env t j upd w = (w', r) \<Longrightarrow> touches t j (w_store w) (w_store w')"
  by (rule touchesI)
     (auto simp: patch_v1_def Let_def dest!: loaded_own touches_save[where j = j]
       split: sum.split_asm if_split_asm prod.split_asm)

lemma persist_then_raise_touches:
  "persist_then_raise t job e w = (w', r) \<Longrightarrow> own t j job \<Longrightarrow> touches t j (w_store w) (w_store w')"
  by (auto simp: persist_then_raise_def dest!: touches_save[where j = j]
      split: prod.split_asm sum.split_asm exn.split_asm store_error.split_asm)

lemma store_draft_touches:
  "store_draft t job d w = (w', r) \<Longrightarrow> own t j job \<Longrightarrow> touches t j (w_store w) (w_store w')"
  by (auto simp: store_draft_def Let_def dest!: touches_save[where j = j] split: prod.split_asm sum.split_asm if_split_asm)

lemma preview_for_loaded_job_touches:
  "preview_for_loaded_job env t job w = (w', r) \<Longrightarrow> own t j job \<Longrightarrow> touches t j (w_store w) (w_store w')"
  by (auto simp: preview_for_loaded_job_def Let_def dest!: persist_then_raise_touches[where j = j] store_draft_touches[where j = j]
      split: prod.split_asm sum.split_asm option.split_asm if_split_asm)

lemma preview_v1_touches:
  assumes r: "preview_v1 env t j w = (w', r)"
    and sel: "\<And>f v v' x. dr_select_template env = Some f \<Longrightarrow> f t j v = (v', x) \<Longrightarrow> touches t j (w_store v) (w_store v')"
  shows "touches t j (w_store w) (w_store w')"
proof (rule touchesI)
  assume ids: "store_ids_ok (w_store w)"
  show "touches t j (w_store w) (w_store w')"
  proof (cases "store_load t j (w_store w)")
    case (Inr job)
    obtain w1 x where p: "preview_for_loaded_job env t job w = (w1, x)" by (cases "preview_for_loaded_job env t job w")
    note T = preview_for_loaded_job_touches[OF p loaded_own[OF Inr ids]]
    have "w' = w \<or> w' = w1 \<or> (\<exists>f x. dr_select_template env = Some f \<and> f t j w1 = (w', x))"
      using r Inr p by (auto simp: preview_v1_def split: sum.split_asm if_split_asm option.split_asm prod.split_asm)
    then show ?thesis using T sel by (blast intro: touches_trans)
  qed (use r in \<open>simp add: preview_v1_def\<close>)
qed

lemma update_job_inputs_touches: "update_job_inputs t j p fp w = (w', r) \<Longrightarrow> touches t j (w_store w) (w_store w')"
  by (rule touchesI)
     (auto simp: update_job_inputs_def dest!: loaded_own touches_save[where j = j] split: sum.split_asm prod.split_asm)

section \<open>Template selection\<close>

text \<open>A selection works on its own copy of the job and leaves its identity and status alone, also when it raises.\<close>

definition same_job :: "job \<Rightarrow> job \<Rightarrow> bool" where
  "same_job job job' = (job_core job' = job_core job)"

definition selecting_same :: "select_world \<Rightarrow> select_world \<Rightarrow> bool" where
  "selecting_same w w' = (same_job (sw_job w) (sw_job w') \<and> sw_store w' = sw_store w)"

interpretation same_job: state_relation same_job
  by unfold_locales (auto simp: same_job_def)

interpretation selecting_same: state_relation selecting_same
  by unfold_locales (auto simp: selecting_same_def same_job_def)

lemma ask_same: "inside same_job (ask env operation q)"
  by (rule insideI) (auto simp: ask_def same_job_def job_core_def split: prod.split_asm)

lemma select_families_loop_same: "inside same_job (select_families_loop env req fams n left pe)"
  by (induction left arbitrary: n pe) (auto intro!: same_job.intros ask_same)

lemma select_template_loop_same: "inside same_job (select_template_loop env q ids n left lp pe)"
  by (induction left arbitrary: n lp pe) (auto intro!: same_job.intros ask_same)

lemma on_job_same: "inside same_job m \<Longrightarrow> inside selecting_same (on_job m)"
  by (rule insideI) (auto simp: on_job_def selecting_same_def dest: insideD split: prod.split_asm)

lemma write_evidence_same: "inside selecting_same (write_evidence_artifact env kind rel payload)"
  by (rule insideI)
     (auto simp: write_evidence_artifact_def selecting_same_def same_job_def job_core_def append_artifact_ref_def
       split: option.split_asm if_split_asm)

lemma choose_same: "inside selecting_same (\<lambda>w. (w\<lparr>sw_job := (sw_job w)\<lparr>j_selected_template_id := x\<rparr>\<rparr>, Inr r))"
  by (rule insideI) (auto simp: selecting_same_def same_job_def job_core_def)

lemma finalize_selection_same: "inside selecting_same (finalize_selection_for_job env req fams stage1 ids cands choice)"
proof (rule insideI)
  fix w w' r
  assume run: "finalize_selection_for_job env req fams stage1 ids cands choice w = (w', r)"
  show "selecting_same w w'"
    by (rule selecting_same.inside_bindD[OF run[unfolded finalize_selection_for_job_def Let_def case_prod_unfold]];
        intro selecting_same.inside_bind selecting_same.inside_lift write_evidence_same choose_same)
qed

lemma select_for_job_same: "inside selecting_same (select_for_job env)"
proof (rule insideI)
  fix w w' r
  assume run: "select_for_job env w = (w', r)"
  show "selecting_same w w'"
  proof (cases "list_families (xs_library env)")
    case (Inl e)
    with run show ?thesis by (simp add: select_for_job_def selecting_same.refl)
  next
    case (Inr families)
    show ?thesis
    proof (cases families)
      case Nil
      with run Inr show ?thesis by (simp add: select_for_job_def selecting_same.refl)
    next
      case (Cons f fs)
      show ?thesis
        by (rule selecting_same.inside_bindD
              [OF run[unfolded select_for_job_def Inr Cons Let_def case_prod_unfold sum.case list.case]];
            intro selecting_same.inside_bind selecting_same.inside_lift on_job_same select_families_loop_same
              select_template_loop_same finalize_selection_same)
    qed
  qed
qed

lemma llm_select_template_touches:
  assumes r: "llm_select_template env t j (s, ev) = ((s', ev'), r)"
  shows "touches t j s s'" and "store_load t j s = Inr job \<Longrightarrow>
     s' = s \<or> (\<exists>job' x. same_job job job' \<and> store_save t job' s = (s', x))"
proof -
  have saved: "s' = s \<or> (\<exists>job job' x. store_load t j s = Inr job \<and> same_job job job' \<and> store_save t job' s = (s', x))"
  proof (cases "store_load t j s")
    case (Inr job)
    obtain w1 x where sel: "select_for_job env \<lparr>sw_job = job, sw_store = s, sw_evidence = ev\<rparr> = (w1, x)"
      by (cases "select_for_job env \<lparr>sw_job = job, sw_store = s, sw_evidence = ev\<rparr>")
    have same: "same_job job (sw_job w1)" "sw_store w1 = s"
      using insideD[OF select_for_job_same sel] by (simp_all add: selecting_same_def)
    have "s' = s \<or> (\<exists>x. store_save t (sw_job w1) s = (s', x))"
      using r Inr sel same(2)
      by (auto simp: llm_select_template_def persist_best_effort_def
          split: option.split_asm sum.split_asm prod.split_asm if_split_asm exn.split_asm store_error.split_asm)
    with same(1) Inr show ?thesis by blast
  qed (use r in \<open>simp add: llm_select_template_def\<close>)
  show "touches t j s s'"
    by (rule touchesI) (use saved in \<open>auto simp: same_job_def dest!: loaded_own dest: touches_save core_own\<close>)
  show "s' = s \<or> (\<exists>job' x. same_job job job' \<and> store_save t job' s = (s', x))" if "store_load t j s = Inr job"
    using saved that by auto
qed

end
