(* ===== verification/HttpApiRuns.thy ===== *)
theory HttpApiRuns
  imports HttpApiLaws JobFrames
begin

text \<open>
  What a request may do to the services behind the interface. A relation between worlds that every operation of
  the services keeps is kept by every route; the locale states what the operations have to keep, and is interpreted
  on the runs of the whole system and on the frame of a job.
\<close>

section \<open>Relations of the upload world\<close>

definition lifted :: "(world \<Rightarrow> world \<Rightarrow> bool) \<Rightarrow> str \<Rightarrow> str \<Rightarrow> upload_world \<Rightarrow> upload_world \<Rightarrow> bool" where
  "lifted R t j w w' = (R (uw_world w) (uw_world w') \<and> (\<forall>k. k \<noteq> (t, j) \<longrightarrow> uw_dirs w' k = uw_dirs w k))"

lemma lifted_set_dir: "R (uw_world w) (uw_world w) \<Longrightarrow> lifted R t j w (set_dir t j d w)"
  by (simp add: lifted_def set_dir_def)

lemma lifted_refl: "R (uw_world w) (uw_world w) \<Longrightarrow> lifted R t j w w"
  by (simp add: lifted_def)

lemma bindA_lift_Inr: "bindA (liftE (Inr x)) f = f x"
  by (rule ext) (simp add: bindA_def liftE_def)

section \<open>Reading and writing the files of a job\<close>

locale world_relation =
  fixes R :: "world \<Rightarrow> world \<Rightarrow> bool" and t j :: str
  assumes R_refl: "R w w"
    and R_trans: "R w1 w2 \<Longrightarrow> R w2 w3 \<Longrightarrow> R w1 w3"

sublocale world_relation \<subseteq> uploads: state_relation "lifted R t j"
  by unfold_locales (auto simp: lifted_def intro: R_refl R_trans)

context world_relation
begin

lemma set_dir_inside: "lifted R t j w (set_dir t j d w)"
  by (rule lifted_set_dir) (rule R_refl)

lemma reading_inside: "inside (lifted R t j) (reading f)"
  unfolding reading_def by (rule uploads.inside_look)

lemma in_world_inside: "(\<And>w w' r. m w = (w', r) \<Longrightarrow> R w w') \<Longrightarrow> inside (lifted R t j) (in_world m)"
  by (rule insideI) (auto simp: in_world_def lifted_def split: prod.split_asm)

lemma lock_job_inside: "inside (lifted R t j) m \<Longrightarrow> inside (lifted R t j) (lock_job t j m)"
  by (rule insideI) (auto simp: lock_job_def uploads.refl dest: insideD split: if_split_asm)

lemma storing_inside: "inside (lifted R t j) m \<Longrightarrow> inside (lifted R t j) (storing m)"
  by (rule insideI) (auto simp: storing_def dest: insideD split: prod.split_asm sum.split_asm)

lemma writes_inside:
  "inside (lifted R t j) (workspace_write uenv t j rel f)"
  "inside (lifted R t j) (write_json_at ienv t j rel m)"
  "inside (lifted R t j) (write_manifest uenv t j m)"
  "inside (lifted R t j) (save_session uenv t j session)"
  by (rule insideI, auto simp: workspace_write_def write_json_at_def write_manifest_def save_session_def Let_def
      uploads.refl set_dir_inside split: if_split_asm sum.split_asm)+

lemmas file_intros = uploads.inside_bind uploads.inside_lift uploads.inside_ret uploads.inside_raise uploads.inside_fold
  reading_inside writes_inside storing_inside lock_job_inside

lemma create_bundle_inside: "inside (lifted R t j) (create_bundle uenv t j files)"
  unfolding create_bundle_def Let_def by (intro file_intros uploads.inside_if)

lemma issue_session_inside: "inside (lifted R t j) (issue_session uenv t j bundle_id file_id)"
  unfolding issue_session_def Let_def case_prod_unfold by (intro file_intros)

lemma refresh_session_inside:
  "job_id_of_session sid = Inr j \<Longrightarrow> inside (lifted R t j) (refresh_session uenv t sid parts)"
  unfolding refresh_session_def Let_def case_prod_unfold by (simp add: bindA_lift_Inr) (intro file_intros)

lemma select_sheets_inside:
  "inside (lifted R t j) (select_primary_excel_sheet ienv t j sheet)"
  "inside (lifted R t j) (select_dataset_excel_sheet ienv t j key sheet)"
  unfolding select_primary_excel_sheet_def select_dataset_excel_sheet_def write_sheet_manifest_def case_prod_unfold
  by (intro file_intros)+

lemma stage_datasets_inside: "inside (lifted R t j) (stage_datasets ienv t j uploads)"
  unfolding stage_datasets_def persist_datasets_def write_dataset_def write_inputs_manifest_def
  by (intro file_intros)

end

text \<open>Up to its last step an upload of data sets writes files only, so the job it saves is the one that is stored.\<close>

interpretation files_only: world_relation "(=)" t j for t j
  by unfold_locales auto

lemma staged_job:
  assumes "stage_datasets ienv t j uploads w = (w1, Inr (job, datasets))"
  shows "uw_world w1 = uw_world w" "store_load t j (w_store (uw_world w1)) = Inr job"
    "\<And>k. k \<noteq> (t, j) \<Longrightarrow> uw_dirs w1 k = uw_dirs w k"
proof -
  have L: "lifted (=) t j w w1" by (rule insideD[OF files_only.stage_datasets_inside assms])
  then show w: "uw_world w1 = uw_world w" by (simp add: lifted_def)
  show "uw_dirs w1 k = uw_dirs w k" if "k \<noteq> (t, j)" for k
    using L that unfolding lifted_def by blast
  show "store_load t j (w_store (uw_world w1)) = Inr job"
    using assms unfolding w by (auto simp: stage_datasets_def bindA_Inr reading_def)
qed

lemma save_job_inputs_saves:
  assumes "save_job_inputs t job fp ds w = (w', r)"
  obtains job' s v where "job_core job' = job_core job" "store_save t job' (w_store (uw_world w)) = (s, v)"
    "w' = w\<lparr>uw_world := (uw_world w)\<lparr>w_store := s\<rparr>\<rparr>"
proof -
  let ?job = "job\<lparr>j_inputs := Some \<lparr>ji_manifest_rel_path = Some MANIFEST_REL_PATH, ji_fingerprint = Some fp\<rparr>,
    j_artifacts_index := index_input_artifacts ds (j_artifacts_index job)\<rparr>"
  obtain s v where sv: "store_save t ?job (w_store (uw_world w)) = (s, v)"
    by (cases "store_save t ?job (w_store (uw_world w))")
  then have "w' = w\<lparr>uw_world := (uw_world w)\<lparr>w_store := s\<rparr>\<rparr>"
    using assms by (cases v) (auto simp: save_job_inputs_def storing_def)
  then show thesis using that[OF _ sv] by (simp add: job_core_def)
qed

lemma on_uploads_run:
  "on_uploads m s = (s', r) \<Longrightarrow> \<exists>w'. m (st_uploads s) = (w', r) \<and> s' = s\<lparr>st_uploads := w'\<rparr>"
  by (auto simp: on_uploads_def split: prod.split_asm)

section \<open>What the operations of the services keep\<close>

locale service_relation = world_relation +
  fixes svc_ok :: "svc_env \<Rightarrow> bool"
  assumes runs: "svc_ok senv \<Longrightarrow> trigger_run senv t j rr w = (w', r) \<Longrightarrow> R w w'"
    and confirms: "svc_ok senv \<Longrightarrow> confirm_job senv t j b rr w = (w', r) \<Longrightarrow> R w w'"
    and freezes: "freeze_plan penv t j c w = (w', x) \<Longrightarrow> R w w'"
    and patches: "patch_v1 denv t j upd w = (w', y) \<Longrightarrow> R w w'"
    and previews: "preview_v1 (draft_service env) t j w = (w', z) \<Longrightarrow> R w w'"
    and resaves: "store_load t j (w_store w) = Inr job \<Longrightarrow> job_core job' = job_core job \<Longrightarrow>
      store_save t job' (w_store w) = (s, v) \<Longrightarrow> R w (w\<lparr>w_store := s\<rparr>)"
begin

lemma updates: "update_job_inputs t j p fp w = (w', r) \<Longrightarrow> R w w'"
  by (auto simp: update_job_inputs_def R_refl job_core_def intro!: resaves[rotated 2] split: sum.split_asm prod.split_asm)

lemma materialize_inside: "inside (lifted R t j) (materialize_upload uenv t j sid session bytes)"
  unfolding materialize_upload_def persist_manifest_and_inputs_def
  by (intro file_intros in_world_inside) (rule updates)

lemma finalize_session_inside:
  "job_id_of_session sid = Inr j \<Longrightarrow> inside (lifted R t j) (finalize_session uenv t sid parts)"
  unfolding finalize_session_def
  by (simp add: bindA_lift_Inr) (intro file_intros uploads.inside_option uploads.inside_sum materialize_inside)

lemma upload_datasets_inside: "inside (lifted R t j) (upload_datasets ienv t j uploads)"
proof (rule insideI)
  fix w w' r
  assume run: "upload_datasets ienv t j uploads w = (w', r)"
  obtain w1 x where st: "stage_datasets ienv t j uploads w = (w1, x)" by (cases "stage_datasets ienv t j uploads w")
  show "lifted R t j w w'"
  proof (cases x)
    case (Inl e)
    then show ?thesis using run st insideD[OF stage_datasets_inside st] by (simp add: upload_datasets_def bindA_def)
  next
    case (Inr jd)
    obtain job ds where jd: "jd = (job, ds)" by (cases jd)
    note S = staged_job[OF st[unfolded Inr jd]]
    obtain w2 y where sv: "save_job_inputs t job (inputs_fingerprint (ue_digest (ie_upload ienv)) ds) ds w1 = (w2, y)"
      by (cases "save_job_inputs t job (inputs_fingerprint (ue_digest (ie_upload ienv)) ds) ds w1")
    have w': "w' = w2" using run st Inr jd sv by (cases y) (auto simp: upload_datasets_def bindA_def ret_def Let_def)
    obtain job' s v where core: "job_core job' = job_core job" "store_save t job' (w_store (uw_world w1)) = (s, v)"
      "w2 = w1\<lparr>uw_world := (uw_world w1)\<lparr>w_store := s\<rparr>\<rparr>"
      using save_job_inputs_saves[OF sv] .
    then have "R (uw_world w1) ((uw_world w1)\<lparr>w_store := s\<rparr>)" using resaves[OF S(2)] by blast
    then show ?thesis using S(1,3) core(3) w' by (simp add: lifted_def)
  qed
qed

lemma job_call_inside: "svc_ok (hp_svc env) \<Longrightarrow> inside (lifted R t j) (run_job_call env t j call)"
  by (cases call; simp only: run_job_call.simps route_defs;
      intro uploads.inside_bind uploads.inside_lift uploads.inside_ret reading_inside upload_datasets_inside
        create_bundle_inside issue_session_inside select_sheets_inside in_world_inside;
      auto intro: runs confirms freezes patches previews)

lemma session_calls_inside:
  assumes "job_id_of_session sid = Inr j"
  shows "inside (lifted R t j) (refresh_upload_urls env t sid parts)"
    and "inside (lifted R t j) (finalize_upload env t sid items)"
  unfolding refresh_upload_urls_def finalize_upload_def
  by (intro uploads.inside_bind uploads.inside_ret refresh_session_inside finalize_session_inside assms)+

lemma call_inside:
  assumes "svc_ok (hp_svc env)" "job_of_call c = Some j" "run_v1_call env t c s = (s', r)"
  shows "lifted R t j (st_uploads s) (st_uploads s') \<and> st_codes s' = st_codes s"
proof -
  have *: ?thesis if "on_uploads m s = (s', r)" "inside (lifted R t j) m" for m :: "(upload_world, nat \<times> api_body) act"
    using on_uploads_run[OF that(1)] insideD[OF that(2)] by fastforce
  show ?thesis
  proof (cases c)
    case (JobCall i call)
    then show ?thesis using assms by (intro *[OF _ job_call_inside[OF assms(1)]]) auto
  next
    case (RefreshUploadUrls sid parts)
    then have "job_id_of_session sid = Inr j" using assms(2) by (simp split: sum.split_asm)
    from session_calls_inside(1)[OF this] show ?thesis using assms(3) RefreshUploadUrls by (intro *) auto
  next
    case (FinalizeUpload sid parts)
    then have "job_id_of_session sid = Inr j" using assms(2) by (simp split: sum.split_asm)
    from session_calls_inside(2)[OF this] show ?thesis using assms(3) FinalizeUpload by (intro *) auto
  qed (use assms in simp)
qed

end

section \<open>Requests are runs of the system\<close>

lemma select_template_runs:
  assumes "select_template_on senv t j w = (w', r)"
  shows "system_step\<^sup>*\<^sup>* w w'"
proof -
  obtain s ev x where run: "llm_select_template senv t j (w_store w, Map.empty) = ((s, ev), x)"
    by (cases "llm_select_template senv t j (w_store w, Map.empty)") auto
  then have w': "w' = w\<lparr>w_store := s\<rparr>" using assms by (auto simp: select_template_on_def split: sum.split_asm)
  show ?thesis
  proof (cases "store_load t j (w_store w)")
    case (Inl e)
    then have "w' = w" using run w' by (auto simp: llm_select_template_def)
    then show ?thesis by simp
  next
    case (Inr job)
    from llm_select_template_touches(2)[OF run Inr]
    consider "s = w_store w" | job' y where "same_job job job'" "store_save t job' (w_store w) = (s, y)" by blast
    then show ?thesis
    proof cases
      case 1
      then show ?thesis by (simp add: w')
    next
      case 2
      have core: "job_core job' = job_core job" using 2(1) by (simp add: same_job_def)
      show ?thesis
        unfolding w' by (rule r_into_rtranclp[of system_step], rule system_step.resave[OF Inr job_coreD(1,2,4)[OF core] 2(2)])
    qed
  qed
qed

interpretation system_runs: service_relation "system_step\<^sup>*\<^sup>*" t j "\<lambda>env. sv_fault env = EnqueueOk" for t j
proof unfold_locales
  show "system_step\<^sup>*\<^sup>* w w'" if "sv_fault senv = EnqueueOk" "trigger_run senv t j rr w = (w', r)" for senv rr w w' r
    using system_step.run[OF that(1), of w t j rr] that(2) by auto
  show "system_step\<^sup>*\<^sup>* w w'" if "sv_fault senv = EnqueueOk" "confirm_job senv t j b rr w = (w', r)" for senv b rr w w' r
    using system_step.confirm[OF that(1), of w t j b rr] that(2) by auto
  show "system_step\<^sup>*\<^sup>* w w'" if "freeze_plan penv t j c w = (w', x)" for penv c w w' x
    using system_step.freeze[of w penv t j c] that by auto
  show "system_step\<^sup>*\<^sup>* w w'" if "patch_v1 denv t j upd w = (w', y)" for denv upd w w' y
    using system_step.patch[of w denv t j upd] that by auto
  show "system_step\<^sup>*\<^sup>* w w'" if "preview_v1 (draft_service env) t j w = (w', z)" for env w w' z
  proof -
    have "system_step w (fst (preview_v1 (draft_service env) t j w))"
      by (rule system_step.preview_v1) (auto simp: draft_service_def intro: select_template_runs surjective_pairing)
    with that show ?thesis by auto
  qed
  show "system_step\<^sup>*\<^sup>* w (w\<lparr>w_store := s\<rparr>)"
    if "store_load t j (w_store w) = Inr job" "job_core job' = job_core job" "store_save t job' (w_store w) = (s, v)"
    for w job job' s v
    by (rule r_into_rtranclp[of system_step], rule system_step.resave[OF that(1) job_coreD(1,2,4)[OF that(2)] that(3)])
qed auto

lemma call_route_state:
  assumes "call_route env rq c s = (s1, r)"
  shows "s1 = s \<or> (\<exists>t r'. get_tenant_id (rq_tenant rq) = Inr t \<and> run_v1_call env t c s = (s1, r'))"
proof (cases "get_tenant_id (rq_tenant rq)")
  case (Inl e)
  then show ?thesis using assms by (simp add: call_route_def bindA_def liftE_def)
next
  case (Inr t)
  obtain s2 x where run: "run_v1_call env t c s = (s2, x)" by (cases "run_v1_call env t c s")
  then have "s1 = s \<or> s1 = s2"
    using assms Inr
    by (cases "authorize (hp_now env) (w_store (st_world s)) t (rq_authorization rq) (rq_job_query rq) c"; cases x)
       (auto simp: call_route_def replied_def bindA_def liftE_def ret_def split: if_split_asm prod.split_asm)
  then show ?thesis using run Inr by blast
qed

lemma serve_state:
  "fst (serve env rq call s) = s \<or> (\<exists>c t r. call = Inr c \<and> get_tenant_id (rq_tenant rq) = Inr t \<and>
     run_v1_call env t c s = (fst (serve env rq call s), r))"
proof (cases call)
  case (Inr c)
  obtain s1 r where run: "call_route env rq c s = (s1, r)" by (cases "call_route env rq c s")
  then have "fst (serve env rq call s) \<in> {s, s1}"
    using Inr by (cases r) (auto simp: serve_def with_middleware_def route_or_error_def split: option.split prod.split)
  then show ?thesis using call_route_state[OF run] Inr by auto
qed (simp add: serve_def with_middleware_def route_or_error_def http_error_answer_def shutting_down_answer_def)

lemma call_runs:
  assumes f: "sv_fault (hp_svc env) = EnqueueOk" and run: "run_v1_call env t c s = (s', r)"
  shows "system_step\<^sup>*\<^sup>* (st_world s) (st_world s')"
proof (cases "job_of_call c")
  case (Some j)
  then show ?thesis using system_runs.call_inside[OF f Some run] by (simp add: lifted_def)
next
  case None
  show ?thesis
  proof (cases c)
    case (RedeemTaskCode code req)
    obtain store codes x where rd: "redeem (hp_redeem env) t code req (w_store (st_world s), Some (st_codes s)) = ((store, codes), x)"
      by (cases "redeem (hp_redeem env) t code req (w_store (st_world s), Some (st_codes s))") auto
    then have "st_world s' = (st_world s)\<lparr>w_store := store\<rparr>"
      using run RedeemTaskCode by (cases x) (auto simp: redeem_on_def bindA_def ret_def)
    then show ?thesis using system_step.redeem[OF rd] by auto
  qed (use None run in \<open>auto simp: on_uploads_def refresh_upload_urls_def finalize_upload_def refresh_session_def
        finalize_session_def bindA_def liftE_def split: sum.split_asm\<close>)
qed


section \<open>Requests stay with their job\<close>

lemma select_template_touches:
  assumes "select_template_on senv t j w = (w', r)"
  shows "touches t j (w_store w) (w_store w')"
proof -
  obtain s ev x where run: "llm_select_template senv t j (w_store w, Map.empty) = ((s, ev), x)"
    by (cases "llm_select_template senv t j (w_store w, Map.empty)") auto
  then have "w_store w' = s" using assms by (auto simp: select_template_on_def split: sum.split_asm)
  then show ?thesis using llm_select_template_touches(1)[OF run] by simp
qed

interpretation own_job: service_relation "\<lambda>w w'. touches t j (w_store w) (w_store w')" t j "\<lambda>_. True" for t j
proof unfold_locales
  show "touches t j (w_store w) (w_store w')" if "preview_v1 (draft_service env) t j w = (w', z)" for env w w' z
    by (rule preview_v1_touches[OF that])
       (simp add: draft_service_def, metis select_template_touches)
  show "touches t j (w_store w) (w_store (w\<lparr>w_store := s\<rparr>))"
    if "store_load t j (w_store w) = Inr job" "job_core job' = job_core job" "store_save t job' (w_store w) = (s, v)"
    for w job job' s v
    by (rule touchesI) (use that in \<open>auto dest!: loaded_own dest: touches_save core_own\<close>)
qed (auto intro: touches_trans trigger_run_touches confirm_job_touches freeze_plan_touches patch_v1_touches)

text \<open>C5 (safety) A request stays with its job: served for the job of its path or of its upload session, it leaves the
  file of every other job, of this tenant or another, and all upload files of other jobs as they are, and so the
  task codes.\<close>

theorem request_touches_only_its_job:
  assumes "get_tenant_id (rq_tenant rq) = Inr t" "job_of_call c = Some j" "store_ids_ok (w_store (st_world s))"
    and "serve env rq (Inr c) s = (s', reply)" and "(t', j') \<noteq> (t, j)"
  shows "w_store (st_world s') (t', j') = w_store (st_world s) (t', j') \<and>
         uw_dirs (st_uploads s') (t', j') = uw_dirs (st_uploads s) (t', j') \<and> st_codes s' = st_codes s"
proof -
  let ?R = "lifted (\<lambda>w w'. touches t j (w_store w) (w_store w')) t j"
  have "s' = s \<or> (\<exists>r. run_v1_call env t c s = (s', r))"
    using serve_state[of env rq "Inr c" s] assms(1,4) by auto
  then have "?R (st_uploads s) (st_uploads s') \<and> st_codes s' = st_codes s"
    using own_job.call_inside[OF TrueI assms(2)] own_job.uploads.refl by blast
  then show ?thesis using assms(3,5) by (auto simp: lifted_def touches_def)
qed

section \<open>Concrete requests\<close>


theorem request_touches_only_its_job_witness:
  "w_store (st_world (fst (serve sample_api (sample_request None) (Inr (JobCall ''job_1'' (RunJob None)))
      (sample_state sample_upload_world)))) (''other'', ''job_1'') = None"
proof -
  let ?r = "serve sample_api (sample_request None) (Inr (JobCall ''job_1'' (RunJob None))) (sample_state sample_upload_world)"
  have "world_ok (uw_world sample_upload_world)" by (simp add: sample_upload_world_def drafted_world_ok)
  then have ids: "store_ids_ok (w_store (st_world (sample_state sample_upload_world)))"
    by (auto simp: world_ok_def world_wf_def store_ids_ok_def sample_state_def)
  have "w_store (st_world (sample_state sample_upload_world)) (''other'', ''job_1'') = None" by code_simp
  then show ?thesis
    using request_touches_only_its_job[OF sample_tenant[of None] _ ids, of "JobCall ''job_1'' (RunJob None)" "''job_1''" sample_api "fst ?r" "snd ?r" "''other''" "''job_1''"]
    by simp
qed

section \<open>A sheet is chosen after the job is queued\<close>

text \<open>Uploads refuse a job that is confirmed or queued (\<open>locked_job_refuses_upload\<close>), the choice of a sheet does not: it
  rewrites the manifest a queued job will be run with, and the fingerprint its plan was computed from stays.\<close>

definition queued_uploads :: upload_world where
  "queued_uploads =
     (let w = uploaded_world
      in w\<lparr>uw_world := (uw_world w)\<lparr>w_store :=
             map_option (\<lambda>f. case f of JobFile job \<Rightarrow> JobFile (job\<lparr>j_status := QUEUED\<rparr>) | _ \<Rightarrow> f) \<circ> w_store (uw_world w)\<rparr>\<rparr>)"

definition sheet_in_manifest :: "upload_world \<Rightarrow> str option" where
  "sheet_in_manifest w =
     (case id_manifest (uw_dirs w (''acme'', ''job_1'')) of
        Some (JsonDoc (JObj m)) \<Rightarrow> fst (primary_dataset_excel_options m) | _ \<Rightarrow> None)"

theorem queued_job_takes_sheet:
  "case serve sample_api (sample_request None) (Inr (JobCall ''job_1'' (SelectPrimarySheet ''Data'' 5 5))) (sample_state queued_uploads) of
     (s', reply) \<Rightarrow>
       rs_status reply = 200 \<and> sheet_in_manifest queued_uploads = None \<and>
       sheet_in_manifest (st_uploads s') = Some ''Data'' \<and>
       (case w_store (st_world s') (''acme'', ''job_1'') of Some (JobFile job) \<Rightarrow> j_status job = QUEUED | _ \<Rightarrow> False)"
proof -
  let ?call = "SelectPrimarySheet ''Data'' 5 5"
  let ?m = "select_primary_excel_sheet sample_inputs_env ''acme'' ''job_1'' ''Data'' queued_uploads"
  have "sheet_in_manifest queued_uploads = None \<and>
      (case ?m of (_, Inl _) \<Rightarrow> False
       | (w, Inr _) \<Rightarrow>
           (case preview_primary_dataset sample_inputs_env ''acme'' ''job_1'' 5 5 w of Inl _ \<Rightarrow> False | Inr _ \<Rightarrow> True) \<and>
           sheet_in_manifest w = Some ''Data'' \<and>
           (case w_store (uw_world w) (''acme'', ''job_1'') of Some (JobFile job) \<Rightarrow> j_status job = QUEUED | _ \<Rightarrow> False))"
    by code_simp
  then obtain w x y where a: "?m = (w, Inr x)" "preview_primary_dataset sample_inputs_env ''acme'' ''job_1'' 5 5 w = Inr y"
      "sheet_in_manifest queued_uploads = None" "sheet_in_manifest w = Some ''Data''"
      "case w_store (uw_world w) (''acme'', ''job_1'') of Some (JobFile job) \<Rightarrow> j_status job = QUEUED | _ \<Rightarrow> False"
    by (cases ?m; cases "snd ?m") (auto split: sum.split_asm)
  then have r: "run_job_call sample_api ''acme'' ''job_1'' ?call (st_uploads (sample_state queued_uploads)) =
      (w, Inr (200, JsonBody y))"
    by (simp add: select_primary_sheet_route_def bindA_def reading_def ret_def sample_state_def sample_api_def)
  have j: "\<not> startswith ''job_1'' ''job_tc_''" by code_simp
  from serve_open_job[OF sample_tenant[of None] j _ _ r] show ?thesis
    using a by (simp add: with_middleware_def sample_state_def page_ok_def split: option.splits)
qed

end
