(* ===== verification/AdminApi.thy ===== *)
theory AdminApi
  imports HttpApi Startup
begin

text \<open>
  The administrators' interface: api/admin/auth.py, tokens.py, task_codes.py, jobs.py, system.py, tenants.py with the
  guard of api/admin/routes.py. The state adds the directory of admin tokens to that of the public interface.

  The files below the jobs directory are those of the store, as an environment lays them out (\<open>JobFiles\<close>,
  \<open>JobQueries\<close>). The order of a directory walk is that of the queue's association lists; faults of the walk and
  of unlinking are environments.
\<close>

section \<open>Environment, state, calls\<close>

record admin_api_env =
  aa_api :: api_env
  aa_admin :: admin_env
  aa_username :: str
  aa_password :: str
  aa_index :: index_env
  aa_files :: "job_store \<Rightarrow> file_tree"
  aa_code_ids :: "int \<Rightarrow> (str \<times> str) list"
  aa_stamp_text :: "stamp \<Rightarrow> str"
  aa_codes_fault :: bool
  aa_delete_fault :: tc_fault
  aa_sha256 :: "str \<Rightarrow> str"
  aa_queue_fault :: bool
  aa_gate :: production_gate
  aa_jobs_dir :: dir_probe
  aa_queue_dir :: dir_probe
  aa_llm_client :: str

record admin_state =
  as_api :: api_state
  as_tokens :: at_store

datatype admin_call =
    AdminLogin str str
  | AdminLogout
  | ListTokens
  | CreateToken str
  | RevokeToken str
  | DeleteToken str
  | CreateTaskCodes int int str
  | ListTaskCodes "str option" "str option"
  | RevokeTaskCode str
  | DeleteTaskCode str
  | ListJobs "str option" "str option"
  | JobDetail str
  | RetryJob str
  | JobArtifacts str
  | JobArtifact str str
  | SystemStatus
  | ListTenants

record task_code_item =
  ti_record :: task_code_record
  ti_status :: task_code_status

record job_detail =
  jl_tenant_id :: str
  jl_job_id :: str
  jl_status :: job_status
  jl_created_at :: int
  jl_scheduled_at :: "int option"
  jl_requirement :: "str option"
  jl_draft_text :: "str option"
  jl_draft_created_at :: "str option"
  jl_redeem_task_code :: "str option"
  jl_auth_token :: "str option"
  jl_auth_expires_at :: "stamp option"
  jl_runs :: "run_digest list"
  jl_artifacts :: "artifact_ref list"

record worker_status =
  wt_worker_id :: str
  wt_active_claims :: nat
  wt_latest_claimed_at :: "str option"
  wt_latest_lease_expires_at :: "str option"

record system_status =
  ss_checked_at :: str
  ss_health_ok :: bool
  ss_checks :: "(str, dependency_check) dict"
  ss_queued :: nat
  ss_claimed :: nat
  ss_workers :: "worker_status list"

datatype admin_payload =
    TokenIssued admin_token_issued
  | LoggedOut str "str option"
  | TokenList "admin_token_metadata list"
  | TokenItem admin_token_metadata
  | TaskCodeItems "task_code_item list"
  | TaskCodeItem task_code_item
  | JobItems "job_index_item list"
  | JobDetailOf job_detail
  | Retried str str job_status "int option"
  | AdminArtifacts "artifact_ref list"
  | AdminFile str str
  | SystemStatusOf system_status
  | Tenants "str list"
  | NoContent

section \<open>Task codes, jobs, tenants\<close>

definition task_code_item_of :: "int \<Rightarrow> task_code_record \<Rightarrow> task_code_item" where
  "task_code_item_of now r = \<lparr>ti_record = r, ti_status = record_status now r\<rparr>"

fun status_text :: "task_code_status \<Rightarrow> str" where
  "status_text CodeUnused = ''unused''"
| "status_text CodeUsed = ''used''"
| "status_text CodeExpired = ''expired''"
| "status_text CodeRevoked = ''revoked''"

definition list_task_codes ::
  "admin_api_env \<Rightarrow> str option \<Rightarrow> str option \<Rightarrow> tc_store \<Rightarrow> task_code_item list" where
  "list_task_codes env tenant_id status codes =
     filter (\<lambda>i. case status of None \<Rightarrow> True | Some s \<Rightarrow> status_text (ti_status i) = s)
       (map (task_code_item_of (hp_now (aa_api env))) (list_codes (aa_stamp_text env) tenant_id codes))"

definition admin_list_jobs :: "admin_api_env \<Rightarrow> str option \<Rightarrow> str option \<Rightarrow> job_store \<Rightarrow> job_index_item list" where
  "admin_list_jobs env status tenant_id s =
     filter (\<lambda>i. case status of None \<Rightarrow> True | Some st \<Rightarrow> ji_status i = st)
       (list_jobs (aa_index env) (aa_files env s) tenant_id)"

definition run_digest_of :: "run_attempt \<Rightarrow> run_digest" where
  "run_digest_of a =
     \<lparr>rd_run_id = ra_run_id a, rd_attempt = ra_attempt a, rd_status = ra_status a, rd_started_at = ra_started_at a,
      rd_ended_at = ra_ended_at a, rd_artifacts_count = length (ra_artifacts a)\<rparr>"

definition job_detail_of :: "str \<Rightarrow> job \<Rightarrow> artifact_ref list \<Rightarrow> job_detail" where
  "job_detail_of t job artifacts =
     \<lparr>jl_tenant_id = t, jl_job_id = j_job_id job, jl_status = j_status job, jl_created_at = j_created_at job,
      jl_scheduled_at = j_scheduled_at job, jl_requirement = j_requirement job,
      jl_draft_text = map_option d_text (j_draft job), jl_draft_created_at = map_option d_created_at (j_draft job),
      jl_redeem_task_code = j_redeem_task_code job, jl_auth_token = j_auth_token job,
      jl_auth_expires_at = j_auth_expires_at job, jl_runs = map run_digest_of (j_runs job),
      jl_artifacts = artifacts\<rparr>"

definition get_job_detail :: "str \<Rightarrow> str \<Rightarrow> job_store \<Rightarrow> exn + job_detail" where
  "get_job_detail t j s =
     bindE (store_load t j s) (\<lambda>job.
     bindE (list_artifacts t j s) (\<lambda>artifacts. Inr (job_detail_of t job artifacts)))"

definition list_tenants :: "file_tree \<Rightarrow> str list" where
  "list_tenants fs = sort (DEFAULT_TENANT_ID # filter is_safe_tenant_id (subdirs fs [''tenants'']))"

section \<open>The status of the system\<close>

definition count_queue_records :: "bool \<Rightarrow> qdir \<Rightarrow> nat" where
  "count_queue_records fault dir = (if fault then 0 else length dir)"

text \<open>One claim file: \<open>None\<close> when it can not be read, or its lease has run out.\<close>

definition running_claim :: "int \<Rightarrow> qfile \<Rightarrow> queue_claim option" where
  "running_claim now f =
     (case bindE (read_queue_record f) load_claim of
        Inl _ \<Rightarrow> None
      | Inr c \<Rightarrow> (if qc_lease_expires_at c \<le> now then None else Some c))"

definition later_text :: "str \<Rightarrow> str option \<Rightarrow> str option" where
  "later_text new old =
     (if (case old of None \<Rightarrow> [] | Some o' \<Rightarrow> o') < new then Some new else old)"

definition note_claim :: "(int \<Rightarrow> str) \<Rightarrow> (str, worker_status) dict \<Rightarrow> queue_claim \<Rightarrow> (str, worker_status) dict" where
  "note_claim render workers c =
     (let w = (case dict_get workers (qc_worker_id c) of
                 None \<Rightarrow> \<lparr>wt_worker_id = qc_worker_id c, wt_active_claims = 0, wt_latest_claimed_at = None,
                          wt_latest_lease_expires_at = None\<rparr>
               | Some w \<Rightarrow> w)
      in dict_set workers (qc_worker_id c)
           (w\<lparr>wt_active_claims := wt_active_claims w + 1,
              wt_latest_claimed_at := later_text (render (qc_claimed_at c)) (wt_latest_claimed_at w),
              wt_latest_lease_expires_at := later_text (render (qc_lease_expires_at c)) (wt_latest_lease_expires_at w)\<rparr>))"

definition summarize_workers :: "(int \<Rightarrow> str) \<Rightarrow> int \<Rightarrow> qdir \<Rightarrow> worker_status list" where
  "summarize_workers render now dir =
     sort_key wt_worker_id (map snd (foldl (note_claim render) [] (List.map_filter (running_claim now \<circ> snd) dir)))"

definition get_system_status :: "admin_api_env \<Rightarrow> admin_state \<Rightarrow> system_status" where
  "get_system_status env s =
     (let now = hp_now (aa_api env); render = hp_iso (aa_api env); q = w_queue (st_world (as_api s));
          health = readiness (aa_gate env) (aa_jobs_dir env) (aa_queue_dir env) (aa_llm_client env)
                     (st_shutting_down (as_api s))
      in \<lparr>ss_checked_at = render now, ss_health_ok = rr_ok health, ss_checks = rr_checks health,
          ss_queued = count_queue_records (aa_queue_fault env) (queued q),
          ss_claimed = count_queue_records (aa_queue_fault env) (claimed q),
          ss_workers = summarize_workers render now (claimed q)\<rparr>)"

section \<open>What a route does\<close>

definition on_tokens :: "(at_store, 'a) act \<Rightarrow> (admin_state, 'a) act" where
  "on_tokens m s = (case m (as_tokens s) of (tokens, r) \<Rightarrow> (s\<lparr>as_tokens := tokens\<rparr>, r))"

definition on_codes :: "(tc_store, 'a) act \<Rightarrow> (admin_state, 'a) act" where
  "on_codes m s =
     (case m (st_codes (as_api s)) of (codes, r) \<Rightarrow> (s\<lparr>as_api := (as_api s)\<lparr>st_codes := codes\<rparr>\<rparr>, r))"

definition on_api_world :: "(world, 'a) act \<Rightarrow> (admin_state, 'a) act" where
  "on_api_world m s =
     (case on_uploads (in_world m) (as_api s) of (api, r) \<Rightarrow> (s\<lparr>as_api := api\<rparr>, r))"

abbreviation of_store :: "(job_store \<Rightarrow> exn + 'a) \<Rightarrow> (admin_state, 'a) act" where
  "of_store f \<equiv> (\<lambda>s. (s, f (w_store (st_world (as_api s)))))"

abbreviation item_of :: "admin_api_env \<Rightarrow> task_code_record \<Rightarrow> task_code_item" where
  "item_of env \<equiv> task_code_item_of (hp_now (aa_api env))"

definition admin_login_route ::
  "admin_api_env \<Rightarrow> str \<Rightarrow> str \<Rightarrow> (admin_state, nat \<times> admin_payload) act" where
  "admin_login_route env username password =
     bindA (on_tokens (admin_login (aa_admin env) (aa_username env) (aa_password env) username password)) (\<lambda>i. ok (TokenIssued i))"

definition admin_logout_route ::
  "admin_api_env \<Rightarrow> admin_principal \<Rightarrow> (admin_state, nat \<times> admin_payload) act" where
  "admin_logout_route env p =
     bindA (on_tokens (revoke_token (aa_admin env) (ap_token_id p))) (\<lambda>m. ok (LoggedOut (am_token_id m) (am_revoked_at m)))"

definition list_admin_tokens ::
  "admin_api_env \<Rightarrow> (admin_state, nat \<times> admin_payload) act" where
  "list_admin_tokens env =
     bindA (on_tokens (\<lambda>st. (st, list_tokens (aa_admin env) st))) (\<lambda>ms. ok (TokenList ms))"

definition create_admin_token ::
  "admin_api_env \<Rightarrow> str \<Rightarrow> (admin_state, nat \<times> admin_payload) act" where
  "create_admin_token env name = bindA (on_tokens (issue_token (aa_admin env) name)) (\<lambda>i. ok (TokenIssued i))"

definition revoke_admin_token ::
  "admin_api_env \<Rightarrow> str \<Rightarrow> (admin_state, nat \<times> admin_payload) act" where
  "revoke_admin_token env token_id =
     bindA (on_tokens (revoke_token (aa_admin env) token_id)) (\<lambda>m. ok (TokenItem m))"

definition delete_admin_token ::
  "admin_api_env \<Rightarrow> str \<Rightarrow> (admin_state, nat \<times> admin_payload) act" where
  "delete_admin_token env token_id =
     bindA (on_tokens (delete_token (aa_admin env) token_id)) (\<lambda>_. ret (204, NoContent))"

definition create_task_codes ::
  "admin_api_env \<Rightarrow> int \<Rightarrow> int \<Rightarrow> str \<Rightarrow> (admin_state, nat \<times> admin_payload) act" where
  "create_task_codes env count expires_in_days tenant_id =
     (let now = hp_now (aa_api env)
      in bindA (on_codes (issue_codes (aa_sha256 env) (aa_code_ids env count) tenant_id (now + expires_in_days * 86400) now))
           (\<lambda>records. ok (TaskCodeItems (map (item_of env) records))))"

definition list_task_codes_route ::
  "admin_api_env \<Rightarrow> str option \<Rightarrow> str option \<Rightarrow> (admin_state, nat \<times> admin_payload) act" where
  "list_task_codes_route env tenant_id status =
     bindA (on_codes (\<lambda>codes. (codes, Inr (list_task_codes env tenant_id status codes)))) (\<lambda>items. ok (TaskCodeItems items))"

definition revoke_task_code ::
  "admin_api_env \<Rightarrow> str \<Rightarrow> (admin_state, nat \<times> admin_payload) act" where
  "revoke_task_code env code_id =
     bindA (on_codes (revoke (aa_codes_fault env) code_id (hp_now (aa_api env)))) (\<lambda>r. ok (TaskCodeItem (item_of env r)))"

definition delete_task_code ::
  "admin_api_env \<Rightarrow> str \<Rightarrow> (admin_state, nat \<times> admin_payload) act" where
  "delete_task_code env code_id =
     bindA (on_codes (delete_code (aa_delete_fault env) (aa_sha256 env) code_id)) (\<lambda>_. ret (204, NoContent))"

definition list_jobs_route ::
  "admin_api_env \<Rightarrow> str option \<Rightarrow> str option \<Rightarrow> (admin_state, nat \<times> admin_payload) act" where
  "list_jobs_route env status tenant_id =
     bindA (of_store (\<lambda>s. Inr (admin_list_jobs env status tenant_id s))) (\<lambda>items. ok (JobItems items))"

definition job_detail_route ::
  "admin_api_env \<Rightarrow> http_request \<Rightarrow> str \<Rightarrow> (admin_state, nat \<times> admin_payload) act" where
  "job_detail_route env rq job_id =
     bindA (liftE (get_tenant_id (rq_tenant rq))) (\<lambda>t. bindA (of_store (get_job_detail t job_id)) (\<lambda>d. ok (JobDetailOf d)))"

definition retry_job ::
  "admin_api_env \<Rightarrow> http_request \<Rightarrow> str \<Rightarrow> (admin_state, nat \<times> admin_payload) act" where
  "retry_job env rq job_id =
     bindA (liftE (get_tenant_id (rq_tenant rq))) (\<lambda>t.
     bindA (on_api_world (trigger_run (hp_svc (aa_api env)) t job_id (run_payload None))) (\<lambda>job.
       ok (Retried t (j_job_id job) (j_status job) (j_scheduled_at job))))"

definition list_job_artifacts ::
  "admin_api_env \<Rightarrow> http_request \<Rightarrow> str \<Rightarrow> (admin_state, nat \<times> admin_payload) act" where
  "list_job_artifacts env rq job_id =
     bindA (liftE (get_tenant_id (rq_tenant rq))) (\<lambda>t. bindA (of_store (list_artifacts t job_id)) (\<lambda>refs. ok (AdminArtifacts refs)))"

definition admin_job_artifact ::
  "admin_api_env \<Rightarrow> http_request \<Rightarrow> str \<Rightarrow> str \<Rightarrow> (admin_state, nat \<times> admin_payload) act" where
  "admin_job_artifact env rq job_id artifact_id =
     bindA (liftE (get_tenant_id (rq_tenant rq))) (\<lambda>t.
     bindA (of_store (resolve_download_path (hp_download (aa_api env) t job_id) t job_id artifact_id)) (\<lambda>path.
     bindA (liftE (hp_read_bytes (aa_api env) path)) (\<lambda>content.
       ok (AdminFile content (last (py_split (CHR ''/'') artifact_id))))))"

definition system_status_route ::
  "admin_api_env \<Rightarrow> (admin_state, nat \<times> admin_payload) act" where
  "system_status_route env = (\<lambda>s. (s, Inr (200, SystemStatusOf (get_system_status env s))))"

definition list_tenants_route ::
  "admin_api_env \<Rightarrow> (admin_state, nat \<times> admin_payload) act" where
  "list_tenants_route env =
     bindA (of_store (\<lambda>s. Inr (list_tenants (aa_files env s)))) (\<lambda>ts. ok (Tenants ts))"

fun run_admin_call ::
  "admin_api_env \<Rightarrow> http_request \<Rightarrow> admin_principal \<Rightarrow> admin_call \<Rightarrow> (admin_state, nat \<times> admin_payload) act" where
  "run_admin_call env rq p (AdminLogin username password) = admin_login_route env username password"
| "run_admin_call env rq p AdminLogout = admin_logout_route env p"
| "run_admin_call env rq p ListTokens = list_admin_tokens env"
| "run_admin_call env rq p (CreateToken name) = create_admin_token env name"
| "run_admin_call env rq p (RevokeToken token_id) = revoke_admin_token env token_id"
| "run_admin_call env rq p (DeleteToken token_id) = delete_admin_token env token_id"
| "run_admin_call env rq p (CreateTaskCodes count expires_in_days tenant_id) = create_task_codes env count expires_in_days tenant_id"
| "run_admin_call env rq p (ListTaskCodes tenant_id status) = list_task_codes_route env tenant_id status"
| "run_admin_call env rq p (RevokeTaskCode code_id) = revoke_task_code env code_id"
| "run_admin_call env rq p (DeleteTaskCode code_id) = delete_task_code env code_id"
| "run_admin_call env rq p (ListJobs status tenant_id) = list_jobs_route env status tenant_id"
| "run_admin_call env rq p (JobDetail job_id) = job_detail_route env rq job_id"
| "run_admin_call env rq p (RetryJob job_id) = retry_job env rq job_id"
| "run_admin_call env rq p (JobArtifacts job_id) = list_job_artifacts env rq job_id"
| "run_admin_call env rq p (JobArtifact job_id artifact_id) = admin_job_artifact env rq job_id artifact_id"
| "run_admin_call env rq p SystemStatus = system_status_route env"
| "run_admin_call env rq p ListTenants = list_tenants_route env"

lemmas admin_route_defs = admin_login_route_def admin_logout_route_def list_admin_tokens_def create_admin_token_def revoke_admin_token_def delete_admin_token_def create_task_codes_def list_task_codes_route_def revoke_task_code_def delete_task_code_def list_jobs_route_def job_detail_route_def retry_job_def list_job_artifacts_def admin_job_artifact_def system_status_route_def list_tenants_route_def

section \<open>The guard and the answer\<close>

fun admin_params_ok :: "admin_call \<Rightarrow> bool" where
  "admin_params_ok (CreateToken name) = (1 \<le> length name \<and> length name \<le> 200)"
| "admin_params_ok (CreateTaskCodes count days tenant_id) =
     (1 \<le> count \<and> count \<le> 500 \<and> 1 \<le> days \<and> days \<le> 3650 \<and> 1 \<le> length tenant_id \<and> length tenant_id \<le> 200)"
| "admin_params_ok _ = True"

fun is_login :: "admin_call \<Rightarrow> bool" where
  "is_login (AdminLogin _ _) = True"
| "is_login _ = False"

definition no_principal :: admin_principal where
  "no_principal = \<lparr>ap_token_id = [], ap_name = []\<rparr>"

definition admin_route :: "admin_api_env \<Rightarrow> http_request \<Rightarrow> admin_call \<Rightarrow> (admin_state, nat \<times> admin_payload body) act" where
  "admin_route env rq call =
     bindA (if is_login call then ret no_principal
            else on_tokens (require_admin_principal (aa_admin env) (rq_authorization rq))) (\<lambda>p.
       if admin_params_ok call then replied (run_admin_call env rq p call) else ret validation_answer)"

definition serve_admin ::
  "admin_api_env \<Rightarrow> http_request \<Rightarrow> nat + admin_call \<Rightarrow> admin_state \<Rightarrow> admin_state \<times> admin_payload http_reply" where
  "serve_admin env rq call s =
     with_middleware (hp_uuid (aa_api env)) rq (st_shutting_down (as_api s))
       (route_or_error (hp_message (aa_api env)) (admin_route env rq) call) s"

end
