(* ===== verification/AdminApiLaws.thy ===== *)
theory AdminApiLaws
  imports AdminApi HttpApiLaws
begin

text \<open>
  What the administrators' interface guarantees: it is closed without an accepted token, its answers about faults of
  the server are as plain as those of the public interface, and the status page counts the running claims.
\<close>

section \<open>The guard\<close>

definition admitted :: "admin_env \<Rightarrow> str option \<Rightarrow> at_store \<Rightarrow> bool" where
  "admitted env authorization tokens =
     (case admin_bearer_token authorization of
        Inl _ \<Rightarrow> False
      | Inr token \<Rightarrow> (case admit_token env token tokens of Inl _ \<Rightarrow> False | Inr _ \<Rightarrow> True))"

lemma guard_closed:
  assumes "\<not> admitted env authorization tokens"
  obtains e where "require_admin_principal env authorization tokens = (tokens, Inl e)"
proof (cases "admin_bearer_token authorization")
  case (Inl e)
  then show thesis using that by (simp add: require_admin_principal_def bindA_def liftE_def)
next
  case (Inr token)
  then obtain e where "admit_token env token tokens = Inl e"
    using assms by (auto simp: admitted_def split: sum.split_asm)
  then show thesis
    using that Inr
    by (simp add: require_admin_principal_def admin_authenticate_def authenticate_token_def bindA_def liftE_def)
qed

text \<open>C27 (safety) The administrators' interface is closed: unless the request is a login, or its bearer token is one the
  token store admits, every route changes nothing and answers with an error.\<close>

theorem admin_route_needs_token:
  assumes "\<not> is_login call" "\<not> admitted (aa_admin env) (rq_authorization rq) (as_tokens s)"
  shows "\<exists>reply code message details. serve_admin env rq (Inr call) s = (s, reply) \<and>
           rs_body reply = ErrorBody code message details"
proof -
  obtain e where "require_admin_principal (aa_admin env) (rq_authorization rq) (as_tokens s) = (as_tokens s, Inl e)"
    using guard_closed[OF assms(2)] .
  then have "admin_route env rq call s = (s, Inl e)"
    using assms(1) by (simp add: admin_route_def bindA_def on_tokens_def)
  then show ?thesis
    by (auto simp: serve_admin_def with_middleware_def route_or_error_def handle_ss_error_def shutting_down_answer_def
        unhandled_answer_def split: option.split)
qed

section \<open>Answers about faults\<close>

lemma admin_call_calm: "run_admin_call env rq p call s = (s', Inr a) \<Longrightarrow> fst a < 500"
  by (cases call) (auto simp: admin_route_defs bindA_Inr Let_def)

lemma admin_route_calm: "calm (admin_route env rq call)"
  unfolding calm_def
  by (fastforce simp: admin_route_def bindA_Inr replied_def validation_answer_def split: if_split_asm dest: admin_call_calm)

lemma admin_faults_reveal_nothing:
  assumes "serve_admin env rq call s = (s', reply)" "500 \<le> rs_status reply"
  shows "plain_fault (rs_body reply)"
  by (rule middleware_fault_plain[OF admin_route_calm assms[unfolded serve_admin_def]])

section \<open>The status page\<close>

definition running_claims :: "int \<Rightarrow> qdir \<Rightarrow> queue_claim list" where
  "running_claims now dir = List.map_filter (running_claim now \<circ> snd) dir"

definition claims_of :: "str \<Rightarrow> queue_claim list \<Rightarrow> nat" where
  "claims_of worker cs = length (filter (\<lambda>c. qc_worker_id c = worker) cs)"

definition counts :: "queue_claim list \<Rightarrow> (str, worker_status) dict \<Rightarrow> bool" where
  "counts cs d =
     (dict_wf d \<and>
      (\<forall>k w. dict_get d k = Some w \<longrightarrow> wt_worker_id w = k \<and> wt_active_claims w = claims_of k cs) \<and>
      (\<forall>k. dict_get d k = None \<longleftrightarrow> claims_of k cs = 0))"

lemma note_claim_counts: "counts cs d \<Longrightarrow> counts (cs @ [c]) (note_claim render d c)"
  by (auto simp: counts_def note_claim_def Let_def claims_of_def dict_get_set split: option.splits if_splits)

lemma fold_counts: "counts cs d \<Longrightarrow> counts (cs @ later) (foldl (note_claim render) d later)"
proof (induction later arbitrary: cs d)
  case (Cons c later)
  then show ?case using Cons.IH[OF note_claim_counts[OF Cons.prems, of c render]] by simp
qed simp

lemma counts_start: "counts [] []"
  by (simp add: counts_def claims_of_def)

lemma counts_ids:
  assumes c: "counts cs d"
  shows "map wt_worker_id (map snd d) = map fst d"
    and "(\<lambda>w. (wt_worker_id w, wt_active_claims w)) ` set (map snd d) = (\<lambda>c. (qc_worker_id c, claims_of (qc_worker_id c) cs)) ` set cs"
proof -
  have e: "wt_worker_id w = k \<and> wt_active_claims w = claims_of k cs" if "(k, w) \<in> set d" for k w
    using c that by (auto simp: counts_def dict_wf_def dict_get_def intro: map_of_is_SomeI)
  then show "map wt_worker_id (map snd d) = map fst d" by auto
  have "k \<in> fst ` set d \<longleftrightarrow> k \<in> qc_worker_id ` set cs" for k
  proof -
    have "dict_get d k = None \<longleftrightarrow> claims_of k cs = 0" using c by (simp add: counts_def)
    then have "k \<in> fst ` set d \<longleftrightarrow> claims_of k cs \<noteq> 0" by (metis dict_get_None)
    also have "\<dots> \<longleftrightarrow> k \<in> qc_worker_id ` set cs" by (auto simp: claims_of_def filter_empty_conv)
    finally show ?thesis .
  qed
  then have "fst ` set d = qc_worker_id ` set cs" by blast
  moreover have "(\<lambda>w. (wt_worker_id w, wt_active_claims w)) ` set (map snd d) = (\<lambda>k. (k, claims_of k cs)) ` (fst ` set d)"
    using e by (force simp: image_image)
  ultimately show "(\<lambda>w. (wt_worker_id w, wt_active_claims w)) ` set (map snd d) =
      (\<lambda>c. (qc_worker_id c, claims_of (qc_worker_id c) cs)) ` set cs"
    by (simp add: image_image)
qed


section \<open>A damaged token closes the list\<close>

text \<open>One file of the token directory that is no JSON object: the list of tokens is a fault of the server, whoever asks.\<close>

lemma damaged_token_closes_list:
  assumes "dict_get tokens stem = Some AtNotObject"
  shows "\<exists>e. list_tokens env tokens = Inl e"
proof -
  have "\<exists>e. token_metas env tokens stems = Inl e" if "stem \<in> set stems" for stems
    using that
  proof (induction stems)
    case (Cons i stems)
    then show ?case
      using assms by (cases "load_token_payload env i tokens"; cases "token_metas env tokens stems")
        (auto simp: load_token_payload_def)
  qed simp
  moreover have "stem \<in> set (map fst tokens)" using dict_get_in[OF assms] by force
  ultimately show ?thesis by (fastforce simp: list_tokens_def)
qed

section \<open>The default tenant twice\<close>

text \<open>A directory \<open>tenants/default\<close>, which no job of the default tenant lives in, puts the default tenant on the list
  a second time.\<close>

lemma default_tenant_listed_twice:
  "list_tenants [([''tenants'', ''default'', ''x'', ''job_1'', ''job.json''], JobFiles.JsonFile (JObj []))] = [''default'', ''default'']"
  by code_simp

section \<open>A concrete request\<close>

definition sample_admin_api :: admin_api_env where
  "sample_admin_api =
     \<lparr>aa_api = sample_api, aa_admin = sample_admin 10, aa_username = ''admin'', aa_password = ''pw'',
      aa_index = \<lparr>ix_mtime = (\<lambda>_. None), ix_unlistable = (\<lambda>_. False), ix_unreadable = (\<lambda>_. False), ix_repr = (\<lambda>_. [])\<rparr>,
      aa_files = (\<lambda>_. []), aa_code_ids = (\<lambda>_. []), aa_stamp_text = (\<lambda>_. []), aa_codes_fault = False,
      aa_delete_fault = TcFine, aa_sha256 = (\<lambda>s. s), aa_queue_fault = False,
      aa_gate = \<lparr>pg_is_production = False, pg_ss_env = [], pg_llm_provider = [], pg_llm_api_key = [], pg_llm_base_url = [],
        pg_llm_model = [], pg_stata_cmd = [], pg_upload_object_store_backend = [], pg_upload_s3_bucket = [],
        pg_upload_s3_access_key_id = [], pg_upload_s3_secret_access_key = []\<rparr>,
      aa_jobs_dir = DirWritable, aa_queue_dir = DirWritable, aa_llm_client = []\<rparr>"

definition sample_admin_state :: admin_state where
  "sample_admin_state = \<lparr>as_api = sample_state sample_upload_world, as_tokens = sample_revoked\<rparr>"

theorem admin_route_needs_token_witness:
  "\<exists>reply code message details.
     serve_admin sample_admin_api (sample_request (Some ''Bearer ssa1.t1.wrong'')) (Inr (RetryJob ''job_1'')) sample_admin_state =
       (sample_admin_state, reply) \<and> rs_body reply = ErrorBody code message details"
proof (rule admin_route_needs_token)
  have "\<not> admitted (sample_admin 10) (Some ''Bearer ssa1.t1.wrong'') sample_revoked" by code_simp
  then show "\<not> admitted (aa_admin sample_admin_api) (rq_authorization (sample_request (Some ''Bearer ssa1.t1.wrong'')))
      (as_tokens sample_admin_state)"
    by (simp add: sample_admin_api_def sample_request_def sample_admin_state_def)
qed simp

end
