(* ===== verification/Spec2Isabelle.thy ===== *)
theory Spec2Isabelle
  imports QueueContract JobFilesLaws TextLaws RunTrigger WorkerSystem CompositionRunLaws UploadLaws
    PlanRunResults AccessLaws InputLaws LlmLaws PlanBuildLaws TemplateSelectLaws TemplateRunLaws
    FamilyRegistryLaws JobQueries OutputFormatterLaws PlanGate StartupLaws StataReportLaws HttpApiRuns
    AdminApiLaws
begin

text \<open>
  SS runs statistical analyses for its users: a web service takes a requirement and data sets, drafts an
  analysis with a language model, freezes a plan when the user confirms, and puts the job into a queue; workers
  claim jobs, generate Stata do-files from templates, run Stata and keep the results. This development models
  the Python code of the service (src/src/) and proves what its parts promise one another and their users.

  \<^bold>\<open>How the parts interact.\<close> A job is a versioned JSON file. The job service, the draft service, the input
  services, task-code redemption and the workers all load it, change it and save it under optimistic
  concurrency; the status machine says which changes of status are allowed. The service and the workers
  share nothing but this store and the directory queue. A worker runs a claimed job in attempts: each executes
  the frozen plan, a single template run or a composition of steps, in the directory of the job. Every call of
  the language model is recorded there too.

  \<^bold>\<open>Conventions.\<close> A theory \<open>X\<close> holds definitions in the order of the code, \<open>XLaws\<close> what they guarantee.
  Classes are records whose fields carry a prefix, exceptions are constructors of \<open>exn\<close>, a function that may
  raise returns a sum, an effect is a function on an explicit state (\<open>Effects\<close>): what has been written before
  an exception stays written. What the program gets from elsewhere is a field of an environment record: the
  clock, random ids, SHA-256, the language model, Stata's process, the object store, pandas, pydantic's
  parsing, faults of the operating system. Theorems hold for every environment unless a hypothesis restricts it.

  \<^item> \<open>Prelude\<close>, \<open>PyJson\<close>, \<open>Effects\<close>, \<open>Errors\<close>: Python strings (the Latin-1 fragment of Unicode), dictionaries in
    insertion order, JSON values, and the exception classes with their codes and HTTP statuses
    (infra/exceptions.py and its siblings).
  \<^item> \<open>JobModel\<close>: the job aggregate (domain/models.py), the status machine (domain/state_machine.py), path and
    tenant guards, output formats.
  \<^item> \<open>JobFiles\<close>, \<open>JobFilesLaws\<close>, \<open>JobStore\<close>: the file store with its directory layout and migrations
    (infra/job_store.py, infra/job_store_migrations.py); the locale \<open>versioned_store\<close> states optimistic
    concurrency, and the file store refines the abstract map of versioned jobs.
  \<^item> \<open>WorkQueue\<close>, \<open>QueueLaws\<close>, \<open>QueueContract\<close>: the directory queue (infra/file_worker_queue.py) with OS faults
    and stale listings; the locales of its contract (tracking, exclusive leases) are interpreted on it.
  \<^item> \<open>TextOps\<close>, \<open>TextLaws\<close>: variable corrections, the confirmation gate, Stata names of columns.
  \<^item> \<open>PlanFreeze\<close>, \<open>JobService\<close>, \<open>JobServiceLaws\<close>, \<open>RunTrigger\<close>, \<open>Evolution\<close>: freezing a plan, creating,
    confirming, queueing and retrying jobs (domain/plan_service.py, domain/job_service.py and their helpers).
    \<open>RunTrigger\<close> shows what happens between freezing and queueing, \<open>Evolution\<close> what others may rely on.
  \<^item> \<open>Worker\<close>, \<open>WorkerLaws\<close>, \<open>WorkerRuns\<close>, \<open>WorkerSystem\<close>: claims, attempts, back-off and shutdown
    (domain/worker_service.py); the locale \<open>safe_system\<close> is interpreted on any number of service processes and
    workers whose steps interleave, also while an attempt runs.
  \<^item> \<open>TaskCodes\<close>, \<open>TaskCodeLaws\<close>, \<open>AccessControl\<close>, \<open>AccessLaws\<close>: task codes and their redemption, bearer tokens
    of jobs, administrators' tokens (domain/task_code_redeem_service.py, api/v1_auth.py,
    infra/file_admin_token_store.py).
  \<^item> \<open>DraftService\<close>, \<open>DraftServiceLaws\<close>: previews and patches of a draft (domain/draft_service.py).
  \<^item> \<open>InputsManifest\<close>, \<open>Uploads\<close>, \<open>UploadSessions\<close>, \<open>UploadLaws\<close>: bundles, presigned upload sessions and their
    finalization, over the world of the job service and the upload files of each job.
  \<^item> \<open>DatasetPreview\<close>, \<open>JobInputs\<close>, \<open>InputServices\<close>, \<open>InputLaws\<close>: direct uploads, previews, choice of a sheet, and
    the columns drafting sees.
  \<^item> \<open>LlmCalls\<close>, \<open>LlmLaws\<close>, \<open>LlmOutputs\<close>: retries, fallback, redaction and records of model calls; questions
    and the reading of answers for drafts and plans.
  \<^item> \<open>TemplateCatalog\<close>, \<open>TemplateSelect\<close>, \<open>TemplateSelectLaws\<close>, \<open>FamilyRegistry\<close>, \<open>FamilyRegistryLaws\<close>: the template
    library's families and the two-stage choice of a template.
  \<^item> \<open>PlanBuild\<close>, \<open>PlanBuildLaws\<close>, \<open>PlanGate\<close>: the rule-based and the language-model plan, the fallback, and what
    a client is told to add. \<open>plan_env_of\<close> gives these builders to \<open>PlanFreeze\<close>.
  \<^item> \<open>DoFile\<close>, \<open>StataRun\<close>: template rendering and do-file generation; the safety check, the Stata process and
    one run of it (infra/stata_run_attempt.py).
  \<^item> \<open>CompositionPlan\<close>, \<open>CompositionLaws\<close>, \<open>CompositionExec\<close>, \<open>CompositionRun\<close>, \<open>CompositionRunLaws\<close>, \<open>CsvText\<close>,
    \<open>CsvMerge\<close>: validation, order and execution of plans of several steps, with appending and merging of CSV
    files and the part of Python's \<open>csv\<close> module they use.
  \<^item> \<open>PlanRun\<close>, \<open>PlanRunLaws\<close>, \<open>PlanRunResults\<close>: \<open>execute_plan\<close>, what a worker does in one attempt.
  \<^item> \<open>TemplateRun\<close>, \<open>TemplateRunLaws\<close>: running one template for a job without worker and queue.
  \<^item> \<open>OutputFormatter\<close>, \<open>OutputFormatterLaws\<close>: producing the formats a user asked for.
  \<^item> \<open>JobQueries\<close>: the summary of a job, downloads, the administrator's list of all jobs.
  \<^item> \<open>PyFloat\<close>, \<open>Config\<close>, \<open>Startup\<close>, \<open>StartupLaws\<close>: Python's \<open>float\<close> of a text, the settings read from the
    environment and a .env file, the factories, the readiness report and the checks before a worker starts
    (config.py, utils/env.py, domain/health_service.py, api/health.py, worker.py).
  \<^item> \<open>StataReport\<close>, \<open>StataReportLaws\<close>: reading Stata's exported tables, the report prompt, the reading of the
    answer, and the service that writes the report (domain/stata_report_*.py, domain/stata_result_parser.py).
  \<^item> \<open>StateRelation\<close>, \<open>JobFrames\<close>: the locale of relations between states that composition preserves, and its use
    to show that an operation changes no job but the one it was called for.
  \<^item> \<open>HttpApi\<close>, \<open>HttpApiLaws\<close>, \<open>HttpApiRuns\<close>: the public interface: routes, guards, error handlers and middleware
    (api/jobs.py, draft.py, inputs_*.py, task_codes.py, routes.py, main.py). A request is shown to be a run of the steps
    of \<open>WorkerSystem\<close> and to touch only its own job.
  \<^item> \<open>AdminApi\<close>, \<open>AdminApiLaws\<close>: the administrators' interface with its status page (api/admin/*.py).

  \<^bold>\<open>What the laws show.\<close> Safety of the system of processes: no job that was accepted is lost, job files only
  evolve, a lease is exclusive, no update is lost. Progress: an undisturbed worker finishes a claimed job
  within the bound on attempts, a claim finds work when there is some, a rule-based plan can always be built.
  Functional laws: what an operation leaves behind on success and on each failure, up to whole workflows
  (trigger to queue, upload to preview, redemption to access, selection to planning). The interface: a protected job
  is sealed, a request is a run of the system and touches one job, faults reveal nothing. Refinement of the store,
  equivalence of the CSV merge with a left join, round trips of migration and evidence files, bounds of upload
  sessions. Laws that fail are stated as what happens instead: a job at its attempt limit is left running for
  ever, a template whose parameter is never bound can not be frozen, corrections that are not idempotent block a
  run, the safety check accepts do-files it means to refuse.

  \<^bold>\<open>Bounds and termination.\<close> Loops of the code recurse on their data or on a measure: the attempts left, the
  remaining steps, the unvisited nodes of a dependency search, the rest of a text. No fuel is used. Python's
  integers are \<open>int\<close>; times are seconds or instants, and a textual time is a \<open>stamp\<close>, an instant or a text that
  does not parse. Floats are exact rationals or a special value: part counts agree with the code's quotients below
  2^53 bytes, ratios of a preview for fewer than 2^50 cells.

  \<^bold>\<open>Not modelled.\<close> The texts of messages, labels and prompts where nothing reads them back, logging, metrics and
  tracing; wiring of objects and the process loops around the modelled services (signal handlers, command lines);
  FastAPI's parsing of requests; clients of third-party services (the S3 store, the transports of the language
  model), which are parameters; tools over the do-library and the repository's scripts, which are not part of
  the service.
\<close>

end
